(* ===== verification/Prelude.thy ===== *)
theory Prelude
  imports Main "HOL-Library.Char_ord" "HOL-Library.List_Lexorder"
begin

text \<open>
  Shared vocabulary of the development: Python exceptions and results, the state-and-exception
  monad in which the handlers are written, and the operations of Python's \<open>str\<close> and
  \<open>int\<close> the code relies on.

  A handler is a function from the state to a result and the next state. An exception keeps the
  state changes made before it was raised (the repository sets no \<open>ATOMIC_REQUESTS\<close>);
  \<open>atomicM\<close> is \<open>transaction.atomic()\<close>, which restores the state.
  Human-readable messages of the source (Chinese in the code) are rendered in ASCII English; only
  their identity is used.
\<close>

section \<open>Results and exceptions\<close>

named_theorems run_simps "unfolding a computation of the handler monad"

datatype exn =
    DoesNotExist string
  | MultipleObjectsReturned string
  | AuditException string
  | ValidationError string
  | PermissionDenied
  | Http404
  | ValueError string
  | AttributeError string
  | KeyError string
  | TypeError string
  | RuntimeError string
  | IntegrityError string
  | OperationalError string
  | PyException string

text \<open>\<open>str(e)\<close>.\<close>

fun exn_str :: "exn \<Rightarrow> string" where
  "exn_str (DoesNotExist m) = m"
| "exn_str (MultipleObjectsReturned m) = m"
| "exn_str (AuditException m) = m"
| "exn_str (ValidationError m) = m"
| "exn_str PermissionDenied = ''permission denied''"
| "exn_str Http404 = ''not found''"
| "exn_str (ValueError m) = m"
| "exn_str (AttributeError m) = m"
| "exn_str (KeyError m) = m"
| "exn_str (TypeError m) = m"
| "exn_str (RuntimeError m) = m"
| "exn_str (IntegrityError m) = m"
| "exn_str (OperationalError m) = m"
| "exn_str (PyException m) = m"

fun is_AuditException :: "exn \<Rightarrow> bool" where
  "is_AuditException (AuditException m) = True"
| "is_AuditException _ = False"

fun is_DoesNotExist :: "exn \<Rightarrow> bool" where
  "is_DoesNotExist (DoesNotExist m) = True"
| "is_DoesNotExist _ = False"

type_synonym 'a res = "exn + 'a"

section \<open>The handler monad\<close>

type_synonym ('s, 'a) M = "'s \<Rightarrow> 'a res \<times> 's"

definition ret :: "'a \<Rightarrow> ('s, 'a) M" where
  "ret x = (\<lambda>s. (Inr x, s))"

definition throw :: "exn \<Rightarrow> ('s, 'a) M" where
  "throw e = (\<lambda>s. (Inl e, s))"

definition bindM :: "('s, 'a) M \<Rightarrow> ('a \<Rightarrow> ('s, 'b) M) \<Rightarrow> ('s, 'b) M" where
  "bindM m f = (\<lambda>s. case m s of (Inl e, t) \<Rightarrow> (Inl e, t) | (Inr x, t) \<Rightarrow> f x t)"

definition thenM :: "('s, 'a) M \<Rightarrow> ('s, 'b) M \<Rightarrow> ('s, 'b) M" where
  "thenM m k = bindM m (\<lambda>_. k)"

definition getsM :: "('s \<Rightarrow> 'a) \<Rightarrow> ('s, 'a) M" where
  "getsM f = (\<lambda>s. (Inr (f s), s))"

definition modifyM :: "('s \<Rightarrow> 's) \<Rightarrow> ('s, unit) M" where
  "modifyM f = (\<lambda>s. (Inr (), f s))"

text \<open>A pure computation that may raise, read off the state.\<close>

definition liftM :: "('s \<Rightarrow> 'a res) \<Rightarrow> ('s, 'a) M" where
  "liftM f = (\<lambda>s. (f s, s))"

text \<open>\<open>if c: raise e\<close>.\<close>

definition raise_if :: "bool \<Rightarrow> exn \<Rightarrow> ('s, unit) M" where
  "raise_if c e = (if c then throw e else ret ())"

text \<open>\<open>try: m / except h\<close>: the handler answers the exceptions it names and passes on the rest.\<close>

definition catchM :: "('s, 'a) M \<Rightarrow> (exn \<Rightarrow> ('s, 'a) M option) \<Rightarrow> ('s, 'a) M" where
  "catchM m h = (\<lambda>s. case m s of
       (Inl e, t) \<Rightarrow> (case h e of Some k \<Rightarrow> k t | None \<Rightarrow> (Inl e, t))
     | (Inr x, t) \<Rightarrow> (Inr x, t))"

text \<open>\<open>with transaction.atomic()\<close>: an exception undoes what the block did.\<close>

definition atomicM :: "('s, 'a) M \<Rightarrow> ('s, 'a) M" where
  "atomicM m = (\<lambda>s. case m s of (Inl e, t) \<Rightarrow> (Inl e, s) | (Inr x, t) \<Rightarrow> (Inr x, t))"

lemma ret_run [run_simps, simp]: "ret x s = (Inr x, s)"
  by (simp add: ret_def)

lemma throw_run [run_simps, simp]: "throw e s = (Inl e, s)"
  by (simp add: throw_def)

lemma getsM_run [run_simps, simp]: "getsM f s = (Inr (f s), s)"
  by (simp add: getsM_def)

lemma modifyM_run [run_simps, simp]: "modifyM f s = (Inr (), f s)"
  by (simp add: modifyM_def)

lemma liftM_run [run_simps, simp]: "liftM f s = (f s, s)"
  by (simp add: liftM_def)

lemma raise_if_run [run_simps, simp]: "raise_if c e s = (if c then Inl e else Inr (), s)"
  by (simp add: raise_if_def)

lemma bindM_run [run_simps]:
  "bindM m f s = (case m s of (r, t) \<Rightarrow> (case r of Inl e \<Rightarrow> (Inl e, t) | Inr x \<Rightarrow> f x t))"
  by (auto simp: bindM_def split: prod.splits sum.splits)

lemma thenM_run [run_simps]:
  "thenM m k s = (case m s of (r, t) \<Rightarrow> (case r of Inl e \<Rightarrow> (Inl e, t) | Inr x \<Rightarrow> k t))"
  by (simp add: thenM_def bindM_run)

lemma catchM_run [run_simps]:
  "catchM m h s = (case m s of (r, t) \<Rightarrow>
     (case r of Inl e \<Rightarrow> (case h e of Some k \<Rightarrow> k t | None \<Rightarrow> (Inl e, t)) | Inr x \<Rightarrow> (Inr x, t)))"
  by (auto simp: catchM_def split: prod.splits sum.splits)

lemma atomicM_run [run_simps]:
  "atomicM m s = (case m s of (r, t) \<Rightarrow> (case r of Inl e \<Rightarrow> (Inl e, s) | Inr x \<Rightarrow> (Inr x, t)))"
  by (auto simp: atomicM_def split: prod.splits sum.splits)

text \<open>Inversion: a sequence that succeeds, and one that fails.\<close>

lemma bindM_InrE:
  assumes "bindM m f s = (Inr y, t)"
  obtains x s' where "m s = (Inr x, s')" and "f x s' = (Inr y, t)"
  using assms by (auto simp: bindM_run split: prod.splits sum.splits)

lemma thenM_InrE:
  assumes "thenM m k s = (Inr y, t)"
  obtains x s' where "m s = (Inr x, s')" and "k s' = (Inr y, t)"
  using assms by (auto simp: thenM_run split: prod.splits sum.splits)

lemma bindM_assoc: "bindM (bindM m f) g = bindM m (\<lambda>x. bindM (f x) g)"
  by (rule ext) (auto simp: bindM_run split: prod.splits sum.splits)

lemma atomicM_Inl: "atomicM m s = (Inl e, t) \<Longrightarrow> t = s"
  by (auto simp: atomicM_run split: prod.splits sum.splits)

text \<open>A predicate on states that a computation keeps whatever its result.\<close>

definition keeps :: "('s \<Rightarrow> bool) \<Rightarrow> ('s, 'a) M \<Rightarrow> bool" where
  "keeps P m = (\<forall>s. P s \<longrightarrow> P (snd (m s)))"

named_theorems keeps_intros "computations that keep a state predicate"

lemma keepsD: "keeps P m \<Longrightarrow> P s \<Longrightarrow> P (snd (m s))"
  by (simp add: keeps_def)

lemma keeps_ret [keeps_intros, simp]: "keeps P (ret x)"
  by (simp add: keeps_def)

lemma keeps_throw [keeps_intros, simp]: "keeps P (throw e)"
  by (simp add: keeps_def)

lemma keeps_getsM [keeps_intros, simp]: "keeps P (getsM f)"
  by (simp add: keeps_def)

lemma keeps_liftM [keeps_intros, simp]: "keeps P (liftM f)"
  by (simp add: keeps_def)

lemma keeps_raise_if [keeps_intros, simp]: "keeps P (raise_if c e)"
  by (simp add: keeps_def)

lemma keeps_modifyM [keeps_intros]: "(\<And>s. P s \<Longrightarrow> P (f s)) \<Longrightarrow> keeps P (modifyM f)"
  by (simp add: keeps_def)

lemma keeps_bindM [keeps_intros]:
  assumes "keeps P m" and "\<And>x. keeps P (f x)"
  shows "keeps P (bindM m f)"
  unfolding keeps_def
proof (intro allI impI)
  fix s assume "P s"
  then have "P (snd (m s))" using assms(1) by (simp add: keeps_def)
  then show "P (snd (bindM m f s))"
    using assms(2) by (auto simp: bindM_run keeps_def split: prod.splits sum.splits)
qed

lemma keeps_thenM [keeps_intros]: "keeps P m \<Longrightarrow> keeps P k \<Longrightarrow> keeps P (thenM m k)"
  by (simp add: thenM_def keeps_bindM)

lemma keeps_catchM [keeps_intros]:
  assumes "keeps P m" and "\<And>e k. h e = Some k \<Longrightarrow> keeps P k"
  shows "keeps P (catchM m h)"
  unfolding keeps_def
proof (intro allI impI)
  fix s assume "P s"
  then have "P (snd (m s))" using assms(1) by (simp add: keeps_def)
  then show "P (snd (catchM m h s))"
    using assms(2) by (auto simp: catchM_run keeps_def split: prod.splits sum.splits option.splits)
qed

lemma keeps_atomicM [keeps_intros]: "keeps P m \<Longrightarrow> keeps P (atomicM m)"
  by (auto simp: keeps_def atomicM_run split: prod.splits sum.splits)

lemma keeps_if [keeps_intros]: "(c \<Longrightarrow> keeps P a) \<Longrightarrow> (\<not> c \<Longrightarrow> keeps P b) \<Longrightarrow> keeps P (if c then a else b)"
  by simp

lemma keeps_case_option [keeps_intros]:
  "keeps P a \<Longrightarrow> (\<And>x. keeps P (f x)) \<Longrightarrow> keeps P (case r of None \<Rightarrow> a | Some x \<Rightarrow> f x)"
  by (cases r) simp_all

lemma keeps_case_sum [keeps_intros]:
  "(\<And>e. keeps P (f e)) \<Longrightarrow> (\<And>x. keeps P (g x)) \<Longrightarrow> keeps P (case r of Inl e \<Rightarrow> f e | Inr x \<Rightarrow> g x)"
  by (cases r) simp_all

section \<open>Loops over a list\<close>

text \<open>\<open>for x in xs: body\<close> and a comprehension whose body may raise.\<close>

fun forM :: "'a list \<Rightarrow> ('a \<Rightarrow> ('s, unit) M) \<Rightarrow> ('s, unit) M" where
  "forM [] f = ret ()"
| "forM (x # xs) f = thenM (f x) (forM xs f)"

fun mapE :: "('a \<Rightarrow> 'b res) \<Rightarrow> 'a list \<Rightarrow> 'b list res" where
  "mapE f [] = Inr []"
| "mapE f (x # xs) = (case f x of Inl e \<Rightarrow> Inl e | Inr y \<Rightarrow>
     (case mapE f xs of Inl e \<Rightarrow> Inl e | Inr ys \<Rightarrow> Inr (y # ys)))"

definition bindE :: "'a res \<Rightarrow> ('a \<Rightarrow> 'b res) \<Rightarrow> 'b res" where
  "bindE r f = (case r of Inl e \<Rightarrow> Inl e | Inr x \<Rightarrow> f x)"

lemma bindE_simps [simp]: "bindE (Inl e) f = Inl e" "bindE (Inr x) f = f x"
  by (simp_all add: bindE_def)

lemma bindE_InrE:
  assumes "bindE r f = Inr y"
  obtains x where "r = Inr x" and "f x = Inr y"
  using assms by (cases r) auto

lemma keeps_forM [keeps_intros]: "(\<And>x. x \<in> set xs \<Longrightarrow> keeps P (f x)) \<Longrightarrow> keeps P (forM xs f)"
  by (induction xs) (auto intro: keeps_intros)

lemma forM_run_Nil [run_simps]: "forM [] f s = (Inr (), s)"
  by simp

lemma mapE_length: "mapE f xs = Inr ys \<Longrightarrow> length ys = length xs"
  by (induction xs arbitrary: ys) (auto split: sum.splits)

lemma mapE_Inr_map: "(\<And>x. x \<in> set xs \<Longrightarrow> f x = Inr (g x)) \<Longrightarrow> mapE f xs = Inr (map g xs)"
  by (induction xs) auto

end
