(* ===== verification/PyStr.thy ===== *)
theory PyStr
  imports Prelude "HOL-Library.Sublist"
begin

text \<open>
  Python's \<open>str\<close> and \<open>int\<close> as far as the repository uses them: \<open>split\<close>, \<open>join\<close>, \<open>strip\<close>,
  \<open>lower\<close>, \<open>startswith\<close>, \<open>in\<close>, \<open>str(i)\<close>, \<open>int(s)\<close>, and values read from the configuration
  table. A string is a list of ASCII characters; the character classes are those of Python
  restricted to ASCII.
\<close>

section \<open>Character classes\<close>

definition char_code :: "char \<Rightarrow> nat" where
  "char_code c = of_char c"

definition is_space :: "char \<Rightarrow> bool" where
  "is_space c = (let n = char_code c in 9 \<le> n \<and> n \<le> 13 \<or> 28 \<le> n \<and> n \<le> 32)"

definition is_digit :: "char \<Rightarrow> bool" where
  "is_digit c = (48 \<le> char_code c \<and> char_code c \<le> 57)"

definition is_upper_ascii :: "char \<Rightarrow> bool" where
  "is_upper_ascii c = (65 \<le> char_code c \<and> char_code c \<le> 90)"

definition is_lower_ascii :: "char \<Rightarrow> bool" where
  "is_lower_ascii c = (97 \<le> char_code c \<and> char_code c \<le> 122)"

text \<open>The regular expression class \<open>\w\<close>.\<close>

definition is_word :: "char \<Rightarrow> bool" where
  "is_word c = (is_digit c \<or> is_upper_ascii c \<or> is_lower_ascii c \<or> char_code c = 95)"

definition lower_char :: "char \<Rightarrow> char" where
  "lower_char c = (if is_upper_ascii c then char_of (char_code c + 32) else c)"

definition upper_char :: "char \<Rightarrow> char" where
  "upper_char c = (if is_lower_ascii c then char_of (char_code c - 32) else c)"

definition lower :: "string \<Rightarrow> string" where
  "lower s = map lower_char s"

definition upper :: "string \<Rightarrow> string" where
  "upper s = map upper_char s"

definition newline :: char where
  "newline = char_of (10::nat)"

definition lstrip :: "string \<Rightarrow> string" where
  "lstrip s = dropWhile is_space s"

definition strip :: "string \<Rightarrow> string" where
  "strip s = rev (dropWhile is_space (rev (dropWhile is_space s)))"

definition starts_with :: "string \<Rightarrow> string \<Rightarrow> bool" where
  "starts_with s p = (take (length p) s = p)"

text \<open>\<open>sub in s\<close>.\<close>

fun str_in :: "string \<Rightarrow> string \<Rightarrow> bool" where
  "str_in p [] = (p = [])"
| "str_in p (c # cs) = (starts_with (c # cs) p \<or> str_in p cs)"

lemma length_lower [simp]: "length (lower s) = length s"
  by (simp add: lower_def)

lemma lower_Nil [simp]: "lower [] = []"
  by (simp add: lower_def)

lemma lower_append [simp]: "lower (s @ t) = lower s @ lower t"
  by (simp add: lower_def)

lemma starts_with_prefix: "starts_with s p \<longleftrightarrow> prefix p s"
  by (auto simp: starts_with_def prefix_def take_eq_Nil) (metis append_take_drop_id)

lemma starts_with_append [simp]: "starts_with (p @ s) p"
  by (simp add: starts_with_def)

lemma strip_append_space: "is_space c \<Longrightarrow> strip (c # s) = strip s"
  by (simp add: strip_def)

section \<open>Splitting and joining\<close>

text \<open>\<open>s.split(c)\<close> for a one-character separator: always at least one piece.\<close>

fun split_on :: "char \<Rightarrow> string \<Rightarrow> string list" where
  "split_on c [] = [[]]"
| "split_on c (d # s) =
     (if d = c then [] # split_on c s
      else (case split_on c s of [] \<Rightarrow> [[d]] | p # ps \<Rightarrow> (d # p) # ps))"

fun join :: "string \<Rightarrow> string list \<Rightarrow> string" where
  "join sep [] = []"
| "join sep [x] = x"
| "join sep (x # y # ys) = x @ sep @ join sep (y # ys)"

abbreviation split_comma :: "string \<Rightarrow> string list" where
  "split_comma \<equiv> split_on (CHR '','')"

abbreviation join_comma :: "string list \<Rightarrow> string" where
  "join_comma \<equiv> join '',''"

lemma split_on_ne [simp]: "split_on c s \<noteq> []"
  by (induction s) (auto split: list.splits)

lemma join_Cons: "xs \<noteq> [] \<Longrightarrow> join sep (x # xs) = x @ sep @ join sep xs"
  by (cases xs) auto

lemma join_split: "join [c] (split_on c s) = s"
proof (induction s)
  case Nil
  show ?case by simp
next
  case (Cons d s)
  obtain p ps where ps: "split_on c s = p # ps" by (cases "split_on c s") auto
  with Cons show ?case by (cases ps) auto
qed

lemma split_on_no_sep: "c \<notin> set x \<Longrightarrow> split_on c x = [x]"
  by (induction x) auto

lemma split_on_append:
  "c \<notin> set x \<Longrightarrow> split_on c (x @ c # s) = x # split_on c s"
  by (induction x) auto

lemma split_join:
  "xs \<noteq> [] \<Longrightarrow> \<forall>x \<in> set xs. c \<notin> set x \<Longrightarrow> split_on c (join [c] xs) = xs"
proof (induction xs)
  case Nil
  then show ?case by simp
next
  case (Cons x xs)
  show ?case
  proof (cases "xs = []")
    case True
    with Cons.prems show ?thesis by (simp add: split_on_no_sep)
  next
    case False
    with Cons show ?thesis by (simp add: join_Cons split_on_append)
  qed
qed

lemma split_on_pieces: "p \<in> set (split_on c s) \<Longrightarrow> c \<notin> set p"
  by (induction s arbitrary: p) (auto split: list.splits if_splits)

section \<open>Integers as text\<close>

definition digit_char :: "nat \<Rightarrow> char" where
  "digit_char d = char_of (48 + d)"

definition digit_val :: "char \<Rightarrow> nat" where
  "digit_val c = char_code c - 48"

fun str_nat :: "nat \<Rightarrow> string" where
  "str_nat n = (if n < 10 then [digit_char n] else str_nat (n div 10) @ [digit_char (n mod 10)])"

declare str_nat.simps [simp del]

definition str_int :: "int \<Rightarrow> string" where
  "str_int i = (if i < 0 then CHR ''-'' # str_nat (nat (- i)) else str_nat (nat i))"

text \<open>\<open>int(s)\<close>: surrounding white space, one sign, digits with single underscores between them.\<close>

fun digits_acc :: "nat \<Rightarrow> string \<Rightarrow> nat option" where
  "digits_acc n [] = Some n"
| "digits_acc n (c # cs) =
     (if is_digit c then digits_acc (10 * n + digit_val c) cs
      else if c = CHR ''_'' then
        (case cs of [] \<Rightarrow> None | d # ds \<Rightarrow> if is_digit d then digits_acc n cs else None)
      else None)"

definition nat_lit :: "string \<Rightarrow> nat option" where
  "nat_lit s = (case s of [] \<Rightarrow> None | c # cs \<Rightarrow> if is_digit c then digits_acc 0 s else None)"

definition parse_int :: "string \<Rightarrow> int option" where
  "parse_int s = (case strip s of
       [] \<Rightarrow> None
     | c # cs \<Rightarrow> (if c = CHR ''-'' then map_option (\<lambda>n. - int n) (nat_lit cs)
                else if c = CHR ''+'' then map_option int (nat_lit cs)
                else map_option int (nat_lit (c # cs))))"

definition py_int :: "string \<Rightarrow> int res" where
  "py_int s = (case parse_int s of None \<Rightarrow> Inl (ValueError ''invalid literal for int()'') | Some i \<Rightarrow> Inr i)"

lemma char_code_of [simp]: "n < 256 \<Longrightarrow> char_code (char_of n) = n"
  by (simp add: char_code_def of_char_of)

lemma digit_char_code: "d < 10 \<Longrightarrow> char_code (digit_char d) = 48 + d"
  by (simp add: digit_char_def)

lemma digit_char_props [simp]:
  assumes "d < 10"
  shows "is_digit (digit_char d)" "digit_val (digit_char d) = d" "\<not> is_space (digit_char d)"
    "is_word (digit_char d)"
  using assms by (auto simp: is_digit_def digit_val_def is_space_def is_word_def digit_char_code Let_def)

lemma is_digit_not [simp]: "\<not> is_digit (CHR '','')" "\<not> is_digit (CHR ''-'')" "\<not> is_digit (CHR ''+'')"
  "\<not> is_digit (CHR ''_'')"
  by (simp_all add: is_digit_def char_code_def)

lemma is_space_not_digit: "is_digit c \<Longrightarrow> \<not> is_space c"
  by (auto simp: is_digit_def is_space_def Let_def)

lemma str_nat_digits: "c \<in> set (str_nat n) \<Longrightarrow> is_digit c"
proof (induction n arbitrary: c rule: str_nat.induct)
  case (1 n)
  then show ?case by (auto simp: str_nat.simps [of n] split: if_splits)
qed

lemma str_nat_ne [simp]: "str_nat n \<noteq> []"
  by (subst str_nat.simps) simp

lemma digits_acc_append:
  "(\<And>c. c \<in> set xs \<Longrightarrow> is_digit c) \<Longrightarrow> digits_acc n xs = Some m \<Longrightarrow>
   digits_acc n (xs @ ys) = digits_acc m ys"
  by (induction xs arbitrary: n) auto

lemma digits_acc_str_nat: "digits_acc 0 (str_nat n) = Some n"
proof (induction n rule: str_nat.induct)
  case (1 n)
  show ?case
  proof (cases "n < 10")
    case True
    then show ?thesis by (simp add: str_nat.simps [of n])
  next
    case False
    with 1 have IH: "digits_acc 0 (str_nat (n div 10)) = Some (n div 10)" by simp
    have "digits_acc 0 (str_nat n) = digits_acc (n div 10) [digit_char (n mod 10)]"
      using False digits_acc_append [OF _ IH] by (simp add: str_nat.simps [of n] str_nat_digits)
    then show ?thesis by simp
  qed
qed

lemma nat_lit_str_nat: "nat_lit (str_nat n) = Some n"
proof -
  obtain c cs where s: "str_nat n = c # cs" by (cases "str_nat n") auto
  then have "is_digit c" by (intro str_nat_digits [of _ n]) simp
  then have "nat_lit (c # cs) = digits_acc 0 (c # cs)" by (simp add: nat_lit_def)
  with s digits_acc_str_nat [of n] show ?thesis by simp
qed

lemma dropWhile_no: "(\<And>c. c \<in> set s \<Longrightarrow> \<not> P c) \<Longrightarrow> dropWhile P s = s"
  by (cases s) auto

lemma strip_no_space: "(\<And>c. c \<in> set s \<Longrightarrow> \<not> is_space c) \<Longrightarrow> strip s = s"
  using dropWhile_no [of s is_space] dropWhile_no [of "rev s" is_space] by (simp add: strip_def)

lemma is_space_minus [simp]: "\<not> is_space (CHR ''-'')"
  by (simp add: is_space_def char_code_def Let_def)

lemma str_int_no_space: "c \<in> set (str_int i) \<Longrightarrow> \<not> is_space c"
  by (auto simp: str_int_def is_space_not_digit dest!: str_nat_digits split: if_splits)

lemma str_int_no_comma [simp]: "CHR '','' \<notin> set (str_int i)"
  by (auto simp: str_int_def dest!: str_nat_digits split: if_splits)

lemma parse_int_str_int: "parse_int (str_int i) = Some i"
proof (cases "i < 0")
  case True
  then have "strip (str_int i) = CHR ''-'' # str_nat (nat (- i))"
    using strip_no_space [of "str_int i"] str_int_no_space [of _ i] by (simp add: str_int_def)
  with True show ?thesis by (simp add: parse_int_def nat_lit_str_nat)
next
  case False
  obtain c cs where s: "str_nat (nat i) = c # cs" by (cases "str_nat (nat i)") auto
  then have "is_digit c" by (intro str_nat_digits [of _ "nat i"]) simp
  then have "c \<noteq> CHR ''-''" "c \<noteq> CHR ''+''" by auto
  moreover have "strip (str_int i) = c # cs"
    using False s strip_no_space [of "str_int i"] str_int_no_space [of _ i] by (simp add: str_int_def)
  ultimately show ?thesis
    using False nat_lit_str_nat [of "nat i"] s by (simp add: parse_int_def)
qed

lemma py_int_str_int [simp]: "py_int (str_int i) = Inr i"
  by (simp add: py_int_def parse_int_str_int)

lemma str_int_inj [simp]: "str_int i = str_int j \<longleftrightarrow> i = j"
  by (metis option.inject parse_int_str_int)

lemma str_int_ne [simp]: "str_int i \<noteq> []"
  by (simp add: str_int_def)

lemma str_int_minus_one: "str_int (-1) = ''-1''"
  by code_simp

lemma str_int_not_minus_one [simp]: "0 \<le> i \<Longrightarrow> str_int i \<noteq> ''-1''"
  using str_int_inj [of i "-1"] by (simp only: str_int_minus_one)

section \<open>Values of the configuration table\<close>

datatype pyval = PNone | PBool bool | PInt int | PStr string

fun truthy :: "pyval \<Rightarrow> bool" where
  "truthy PNone = False"
| "truthy (PBool b) = b"
| "truthy (PInt i) = (i \<noteq> 0)"
| "truthy (PStr s) = (s \<noteq> [])"

text \<open>\<open>int(v)\<close>.\<close>

fun pyval_int :: "pyval \<Rightarrow> int res" where
  "pyval_int PNone = Inl (TypeError ''int() argument must be a string or a number'')"
| "pyval_int (PBool b) = Inr (if b then 1 else 0)"
| "pyval_int (PInt i) = Inr i"
| "pyval_int (PStr s) = py_int s"

text \<open>\<open>v.split(",")\<close>: only strings have the attribute.\<close>

fun pyval_split_comma :: "pyval \<Rightarrow> string list res" where
  "pyval_split_comma (PStr s) = Inr (split_comma s)"
| "pyval_split_comma _ = Inl (AttributeError ''object has no attribute split'')"

end
