(* ===== verification/Tables.thy ===== *)
theory Tables
  imports PyStr
begin

text \<open>
  The tables behind the Django models. A table is its rows in primary-key order with the next
  automatic key; the functions are the queries the code makes (\<open>get\<close>, \<open>filter\<close>, \<open>first\<close>,
  \<open>last\<close>, \<open>exists\<close>, \<open>create\<close>, \<open>save\<close>, \<open>save(update_fields=...)\<close>, \<open>update\<close>, \<open>delete\<close>,
  \<open>update_or_create\<close>) as the ORM documents them. The locale \<open>row_store\<close> is the contract
  a model's row type offers to the code that reads and writes it: its lemmas are proved once and
  interpreted for every model in the theory \<open>Models\<close>.
\<close>

record 'r table =
  tbl_rows :: "'r list"
  tbl_next :: int

definition empty_table :: "'r table" where
  "empty_table = \<lparr>tbl_rows = [], tbl_next = 1\<rparr>"

definition tbl_filter :: "('r \<Rightarrow> bool) \<Rightarrow> 'r table \<Rightarrow> 'r list" where
  "tbl_filter P t = filter P (tbl_rows t)"

definition tbl_exists :: "('r \<Rightarrow> bool) \<Rightarrow> 'r table \<Rightarrow> bool" where
  "tbl_exists P t = list_ex P (tbl_rows t)"

text \<open>\<open>objects.get(...)\<close>: exactly one row, or an exception.\<close>

definition tbl_get :: "string \<Rightarrow> ('r \<Rightarrow> bool) \<Rightarrow> 'r table \<Rightarrow> 'r res" where
  "tbl_get n P t = (case filter P (tbl_rows t) of
       [] \<Rightarrow> Inl (DoesNotExist n)
     | [r] \<Rightarrow> Inr r
     | _ \<Rightarrow> Inl (MultipleObjectsReturned n))"

definition tbl_first :: "('r \<Rightarrow> bool) \<Rightarrow> 'r table \<Rightarrow> 'r option" where
  "tbl_first P t = find P (tbl_rows t)"

definition tbl_last :: "('r \<Rightarrow> bool) \<Rightarrow> 'r table \<Rightarrow> 'r option" where
  "tbl_last P t = find P (rev (tbl_rows t))"

text \<open>\<open>objects.create(...)\<close>: the row with the next key.\<close>

definition tbl_created :: "(int \<Rightarrow> 'r \<Rightarrow> 'r) \<Rightarrow> 'r \<Rightarrow> 'r table \<Rightarrow> 'r" where
  "tbl_created set_pk r t = set_pk (tbl_next t) r"

definition tbl_create :: "(int \<Rightarrow> 'r \<Rightarrow> 'r) \<Rightarrow> 'r \<Rightarrow> 'r table \<Rightarrow> 'r table" where
  "tbl_create set_pk r t =
     \<lparr>tbl_rows = tbl_rows t @ [set_pk (tbl_next t) r], tbl_next = tbl_next t + 1\<rparr>"

text \<open>\<open>row.save()\<close>: update the row of that key, or insert it.\<close>

definition tbl_save :: "('r \<Rightarrow> int) \<Rightarrow> 'r \<Rightarrow> 'r table \<Rightarrow> 'r table" where
  "tbl_save pk r t =
     (if list_ex (\<lambda>x. pk x = pk r) (tbl_rows t)
      then t\<lparr>tbl_rows := map (\<lambda>x. if pk x = pk r then r else x) (tbl_rows t)\<rparr>
      else \<lparr>tbl_rows = tbl_rows t @ [r], tbl_next = max (tbl_next t) (pk r + 1)\<rparr>)"

definition tbl_update :: "('r \<Rightarrow> bool) \<Rightarrow> ('r \<Rightarrow> 'r) \<Rightarrow> 'r table \<Rightarrow> 'r table" where
  "tbl_update P f t = t\<lparr>tbl_rows := map (\<lambda>x. if P x then f x else x) (tbl_rows t)\<rparr>"

text \<open>\<open>Model(pk=i, ...).save(update_fields=[...])\<close> raises when no row has the key.\<close>

definition tbl_save_fields :: "('r \<Rightarrow> int) \<Rightarrow> int \<Rightarrow> ('r \<Rightarrow> 'r) \<Rightarrow> 'r table \<Rightarrow> 'r table res" where
  "tbl_save_fields pk i f t =
     (if list_ex (\<lambda>x. pk x = i) (tbl_rows t) then Inr (tbl_update (\<lambda>x. pk x = i) f t)
      else Inl (PyException ''Save with update_fields did not affect any rows.''))"

definition tbl_delete :: "('r \<Rightarrow> bool) \<Rightarrow> 'r table \<Rightarrow> 'r table" where
  "tbl_delete P t = t\<lparr>tbl_rows := filter (\<lambda>x. \<not> P x) (tbl_rows t)\<rparr>"

text \<open>\<open>objects.update_or_create(lookup, defaults)\<close>.\<close>

definition tbl_update_or_create ::
  "string \<Rightarrow> (int \<Rightarrow> 'r \<Rightarrow> 'r) \<Rightarrow> ('r \<Rightarrow> bool) \<Rightarrow> ('r \<Rightarrow> 'r) \<Rightarrow> 'r \<Rightarrow> 'r table \<Rightarrow> 'r table res" where
  "tbl_update_or_create n set_pk P f fresh t = (case filter P (tbl_rows t) of
       [] \<Rightarrow> Inr (tbl_create set_pk fresh t)
     | [r] \<Rightarrow> Inr (tbl_update P f t)
     | _ \<Rightarrow> Inl (MultipleObjectsReturned n))"

text \<open>The keys are distinct and below the next automatic key.\<close>

definition wf_table :: "('r \<Rightarrow> int) \<Rightarrow> 'r table \<Rightarrow> bool" where
  "wf_table pk t = (distinct (map pk (tbl_rows t)) \<and> list_all (\<lambda>r. pk r < tbl_next t) (tbl_rows t))"

named_theorems tbl_simps "rows of an updated table"

lemma tbl_get_Inr: "tbl_get n P t = Inr r \<Longrightarrow> P r \<and> r \<in> set (tbl_rows t)"
proof -
  assume "tbl_get n P t = Inr r"
  then have "filter P (tbl_rows t) = [r]" by (auto simp: tbl_get_def split: list.splits)
  then have "r \<in> set (filter P (tbl_rows t))" by simp
  then show ?thesis by simp
qed

lemma tbl_get_Inr_unique: "tbl_get n P t = Inr r \<Longrightarrow> x \<in> set (tbl_rows t) \<Longrightarrow> P x \<Longrightarrow> x = r"
proof -
  assume a: "tbl_get n P t = Inr r" "x \<in> set (tbl_rows t)" "P x"
  then have "filter P (tbl_rows t) = [r]" by (auto simp: tbl_get_def split: list.splits)
  moreover have "x \<in> set (filter P (tbl_rows t))" using a by simp
  ultimately show ?thesis by simp
qed

lemma tbl_get_Inl_DoesNotExist:
  "tbl_get n P t = Inl (DoesNotExist m) \<longleftrightarrow> m = n \<and> (\<forall>x \<in> set (tbl_rows t). \<not> P x)"
proof (cases "filter P (tbl_rows t)")
  case Nil
  then show ?thesis by (auto simp: tbl_get_def filter_empty_conv)
next
  case (Cons r rs)
  then have "r \<in> set (filter P (tbl_rows t))" by simp
  then have "\<not> (\<forall>x \<in> set (tbl_rows t). \<not> P x)" by auto
  moreover have "tbl_get n P t \<noteq> Inl (DoesNotExist m)"
    using Cons by (simp add: tbl_get_def split: list.splits)
  ultimately show ?thesis by blast
qed

lemma tbl_get_unique:
  assumes "distinct (map f (tbl_rows t))" "r \<in> set (tbl_rows t)" "\<And>x. P x \<longleftrightarrow> f x = f r"
  shows "tbl_get n P t = Inr r"
proof -
  have "filter (\<lambda>x. f x = f r) xs = [r]" if "distinct (map f xs)" "r \<in> set xs" for xs
    using that
  proof (induction xs)
    case (Cons a xs)
    then show ?case by (cases "a = r") (auto simp: filter_empty_conv, metis image_eqI)
  qed simp
  moreover have "P = (\<lambda>x. f x = f r)" using assms(3) by (intro ext) simp
  ultimately have "filter P (tbl_rows t) = [r]" using assms(1,2) by simp
  then show ?thesis by (simp add: tbl_get_def)
qed

lemma rows_tbl_create [tbl_simps]:
  "tbl_rows (tbl_create set_pk r t) = tbl_rows t @ [set_pk (tbl_next t) r]"
  by (simp add: tbl_create_def)

lemma rows_tbl_update [tbl_simps]:
  "tbl_rows (tbl_update P f t) = map (\<lambda>x. if P x then f x else x) (tbl_rows t)"
  by (simp add: tbl_update_def)

lemma rows_tbl_delete [tbl_simps]:
  "tbl_rows (tbl_delete P t) = filter (\<lambda>x. \<not> P x) (tbl_rows t)"
  by (simp add: tbl_delete_def)

lemma set_rows_tbl_save:
  "set (tbl_rows (tbl_save pk r t)) = insert r {x \<in> set (tbl_rows t). pk x \<noteq> pk r}"
  by (auto simp: tbl_save_def list_ex_iff image_iff)

lemma filter_map_update:
  "(\<And>x. P (f x) = P x) \<Longrightarrow> filter P (map (\<lambda>x. if Q x then f x else x) xs)
     = map (\<lambda>x. if Q x then f x else x) (filter P xs)"
  by (induction xs) auto

lemma tbl_get_update:
  assumes "\<And>x. P (f x) = P x" and "tbl_get n P t = Inr r"
  shows "tbl_get n P (tbl_update Q f t) = Inr (if Q r then f r else r)"
  using assms(2) unfolding tbl_get_def rows_tbl_update filter_map_update [of P f, OF assms(1)]
  by (auto split: list.splits)

lemma tbl_get_save:
  assumes "tbl_get n (\<lambda>z. f z = f x) t = Inr y"
  shows "tbl_get n (\<lambda>z. f z = f x) (tbl_save f x t) = Inr x"
proof -
  have f: "filter (\<lambda>z. f z = f x) (tbl_rows t) = [y]"
    using assms by (auto simp: tbl_get_def split: list.splits)
  then have "y \<in> set (filter (\<lambda>z. f z = f x) (tbl_rows t))" by simp
  then have ex: "list_ex (\<lambda>z. f z = f x) (tbl_rows t)" by (auto simp: list_ex_iff)
  have "filter (\<lambda>z. f z = f x) (map (\<lambda>z. if f z = f x then x else z) xs)
      = map (\<lambda>_. x) (filter (\<lambda>z. f z = f x) xs)" for xs
    by (induction xs) auto
  with f ex show ?thesis by (simp add: tbl_get_def tbl_save_def)
qed

lemma tbl_get_cases:
  assumes "wf_table f t"
  obtains r where "tbl_get n (\<lambda>x. f x = i) t = Inr r" "r \<in> set (tbl_rows t)" "f r = i"
  | "tbl_get n (\<lambda>x. f x = i) t = Inl (DoesNotExist n)"
proof (cases "\<exists>r \<in> set (tbl_rows t). f r = i")
  case True
  then obtain r where r: "r \<in> set (tbl_rows t)" "f r = i" by blast
  then have "tbl_get n (\<lambda>x. f x = i) t = Inr r"
    using tbl_get_unique [of f t r "\<lambda>x. f x = i"] assms by (auto simp: wf_table_def)
  with r that(1) show ?thesis by blast
next
  case False
  then show ?thesis using that(2) tbl_get_Inl_DoesNotExist [of n "\<lambda>x. f x = i" t n] by blast
qed

section \<open>The contract of a model's rows\<close>

locale row_store =
  fixes pk :: "'r \<Rightarrow> int"
    and set_pk :: "int \<Rightarrow> 'r \<Rightarrow> 'r"
  assumes pk_set_pk: "pk (set_pk i r) = i"
begin

lemma created_pk: "pk (tbl_created set_pk r t) = tbl_next t"
  by (simp add: tbl_created_def pk_set_pk)

lemma wf_create: "wf_table pk t \<Longrightarrow> wf_table pk (tbl_create set_pk r t)"
  by (auto simp: wf_table_def tbl_create_def pk_set_pk list_all_iff)

lemma wf_save: "wf_table pk t \<Longrightarrow> wf_table pk (tbl_save pk r t)"
proof -
  assume wf: "wf_table pk t"
  show ?thesis
  proof (cases "list_ex (\<lambda>x. pk x = pk r) (tbl_rows t)")
    case True
    have "map pk (map (\<lambda>x. if pk x = pk r then r else x) xs) = map pk xs" for xs
      by (induction xs) auto
    with True wf show ?thesis
      by (auto simp: wf_table_def tbl_save_def list_all_iff list_ex_iff simp del: map_map)
  next
    case False
    with wf show ?thesis
      by (auto simp: wf_table_def tbl_save_def list_all_iff list_ex_iff)
  qed
qed

lemma wf_update: "wf_table pk t \<Longrightarrow> (\<And>x. pk (f x) = pk x) \<Longrightarrow> wf_table pk (tbl_update P f t)"
proof -
  assume wf: "wf_table pk t" and f: "\<And>x. pk (f x) = pk x"
  have "map pk (map (\<lambda>x. if P x then f x else x) xs) = map pk xs" for xs
    by (induction xs) (auto simp: f)
  with wf f show ?thesis
    by (auto simp: wf_table_def tbl_update_def list_all_iff simp del: map_map)
qed

lemma get_created:
  "wf_table pk t \<Longrightarrow>
   tbl_get n (\<lambda>x. pk x = tbl_next t) (tbl_create set_pk r t) = Inr (tbl_created set_pk r t)"
  by (rule tbl_get_unique [of pk])
    (auto simp: wf_table_def tbl_create_def tbl_created_def pk_set_pk list_all_iff)

lemma get_saved:
  assumes "wf_table pk t"
  shows "tbl_get n (\<lambda>x. pk x = pk r) (tbl_save pk r t) = Inr r"
proof (rule tbl_get_unique [of pk])
  show "distinct (map pk (tbl_rows (tbl_save pk r t)))"
    using wf_save [OF assms, of r] by (simp add: wf_table_def)
qed (simp_all add: set_rows_tbl_save)

text \<open>A save touches no other row: queries that see neither version of it are unchanged.\<close>

lemma filter_save_other:
  assumes "\<not> P r" and "\<And>x. x \<in> set (tbl_rows t) \<Longrightarrow> pk x = pk r \<Longrightarrow> \<not> P x"
  shows "filter P (tbl_rows (tbl_save pk r t)) = filter P (tbl_rows t)"
proof (cases "list_ex (\<lambda>x. pk x = pk r) (tbl_rows t)")
  case True
  have "filter P (map (\<lambda>x. if pk x = pk r then r else x) xs) = filter P xs"
    if "set xs \<subseteq> set (tbl_rows t)" for xs
    using that assms by (induction xs) auto
  with True show ?thesis by (simp add: tbl_save_def)
next
  case False
  with assms show ?thesis by (simp add: tbl_save_def)
qed

lemma get_pk_unique:
  "wf_table pk t \<Longrightarrow> r \<in> set (tbl_rows t) \<Longrightarrow> tbl_get n (\<lambda>x. pk x = pk r) t = Inr r"
  by (rule tbl_get_unique [of pk]) (auto simp: wf_table_def)

lemma get_save_other:
  assumes "i \<noteq> pk r"
  shows "tbl_get n (\<lambda>x. pk x = i) (tbl_save pk r t) = tbl_get n (\<lambda>x. pk x = i) t"
  using filter_save_other [of "\<lambda>x. pk x = i" r t] assms by (simp add: tbl_get_def)

end

end
