(* ===== verification/Models.thy ===== *)
theory Models
  imports Tables
begin

text \<open>
  The data model: \<open>common/utils/const.py\<close>, \<open>sql/engines/models.py\<close> (\<open>ReviewResult\<close>,
  \<open>ReviewSet\<close>) and the tables of \<open>sql/models.py\<close> that the modelled components read and write,
  and the state \<open>world\<close> made of them. Field names carry the initials of the model; the
  columns and their defaults are those of the source. Times are seconds, dates are days, both
  counted from one origin.
\<close>

type_synonym datetime = int
type_synonym date = int

definition date_of :: "datetime \<Rightarrow> date" where
  "date_of t = t div 86400"

section \<open>Enumerations\<close>

datatype workflow_type = QUERY | SQL_REVIEW | ARCHIVE

datatype workflow_status = WAITING | PASSED | REJECTED | ABORTED

datatype workflow_action =
  SUBMIT | PASS | REJECT | ABORT | EXECUTE_SET_TIME | EXECUTE_START | EXECUTE_END

fun workflow_type_code :: "workflow_type \<Rightarrow> int" where
  "workflow_type_code QUERY = 1"
| "workflow_type_code SQL_REVIEW = 2"
| "workflow_type_code ARCHIVE = 3"

fun workflow_status_code :: "workflow_status \<Rightarrow> int" where
  "workflow_status_code WAITING = 0"
| "workflow_status_code PASSED = 1"
| "workflow_status_code REJECTED = 2"
| "workflow_status_code ABORTED = 3"

fun workflow_action_code :: "workflow_action \<Rightarrow> int" where
  "workflow_action_code SUBMIT = 0"
| "workflow_action_code PASS = 1"
| "workflow_action_code REJECT = 2"
| "workflow_action_code ABORT = 3"
| "workflow_action_code EXECUTE_SET_TIME = 4"
| "workflow_action_code EXECUTE_START = 5"
| "workflow_action_code EXECUTE_END = 6"

fun workflow_action_label :: "workflow_action \<Rightarrow> string" where
  "workflow_action_label SUBMIT = ''submit''"
| "workflow_action_label PASS = ''pass''"
| "workflow_action_label REJECT = ''reject''"
| "workflow_action_label ABORT = ''abort''"
| "workflow_action_label EXECUTE_SET_TIME = ''set execution time''"
| "workflow_action_label EXECUTE_START = ''execution start''"
| "workflow_action_label EXECUTE_END = ''execution end''"

text \<open>\<open>WorkflowAction(i)\<close>.\<close>

definition WorkflowAction_of :: "int \<Rightarrow> workflow_action res" where
  "WorkflowAction_of i =
     (if i = 0 then Inr SUBMIT else if i = 1 then Inr PASS else if i = 2 then Inr REJECT
      else if i = 3 then Inr ABORT else if i = 4 then Inr EXECUTE_SET_TIME
      else if i = 5 then Inr EXECUTE_START else if i = 6 then Inr EXECUTE_END
      else Inl (ValueError ''not a valid WorkflowAction''))"

lemma WorkflowAction_of_code [simp]: "WorkflowAction_of (workflow_action_code a) = Inr a"
  by (cases a) (simp_all add: WorkflowAction_of_def)

lemma WorkflowAction_of_Inr: "WorkflowAction_of i = Inr a \<Longrightarrow> i = workflow_action_code a"
  by (auto simp: WorkflowAction_of_def split: if_splits)

datatype sql_workflow_status =
    workflow_finish
  | workflow_abort
  | workflow_manreviewing
  | workflow_review_pass
  | workflow_timingtask
  | workflow_queuing
  | workflow_executing
  | workflow_autoreviewwrong
  | workflow_exception

section \<open>Review results\<close>

record review_result =
  rr_id :: int
  rr_stage :: string
  rr_errlevel :: int
  rr_stagestatus :: string
  rr_errormessage :: string
  rr_sql :: string
  rr_affected_rows :: pyval
  rr_sequence :: string
  rr_backup_dbname :: string
  rr_execute_time :: string
  rr_sqlsha1 :: string
  rr_backup_time :: string
  rr_actual_affected_rows :: string
  rr_extra :: "(string \<times> pyval) list"

text \<open>\<open>ReviewResult()\<close> with the defaults of the keyword branch of its constructor.\<close>

definition new_ReviewResult :: review_result where
  "new_ReviewResult = \<lparr>rr_id = 0, rr_stage = '''', rr_errlevel = 0, rr_stagestatus = '''',
     rr_errormessage = '''', rr_sql = '''', rr_affected_rows = PInt 0, rr_sequence = '''',
     rr_backup_dbname = '''', rr_execute_time = '''', rr_sqlsha1 = '''', rr_backup_time = '''',
     rr_actual_affected_rows = '''', rr_extra = []\<rparr>"

record review_set =
  rs_full_sql :: string
  rs_is_execute :: bool
  rs_checked :: "string option"
  rs_warning :: "string option"
  rs_error :: "string option"
  rs_warning_count :: int
  rs_error_count :: int
  rs_is_critical :: bool
  rs_syntax_type :: int
  rs_rows :: "review_result list"
  rs_column_list :: "string list option"
  rs_status :: "string option"
  rs_affected_rows :: int

definition new_ReviewSet :: "string \<Rightarrow> review_set" where
  "new_ReviewSet full_sql = \<lparr>rs_full_sql = full_sql, rs_is_execute = False, rs_checked = None,
     rs_warning = None, rs_error = None, rs_warning_count = 0, rs_error_count = 0,
     rs_is_critical = False, rs_syntax_type = 0, rs_rows = [], rs_column_list = None,
     rs_status = None, rs_affected_rows = 0\<rparr>"

text \<open>
  The JSON text columns \<open>review_content\<close> and \<open>execute_result\<close> are kept as the rows they encode;
  \<open>NoText\<close> is the empty string and \<open>PlainText\<close> a text that is not the JSON of rows.
\<close>

datatype rows_text = NoText | RowsText "review_result list" | PlainText string

text \<open>\<open>ReviewSet.json()\<close>.\<close>

definition ReviewSet_json :: "review_set \<Rightarrow> rows_text" where
  "ReviewSet_json rs = RowsText (rs_rows rs)"

text \<open>\<open>json.loads\<close> of such a column.\<close>

fun json_rows :: "rows_text \<Rightarrow> review_result list res" where
  "json_rows NoText = Inl (ValueError ''Expecting value'')"
| "json_rows (RowsText rs) = Inr rs"
| "json_rows (PlainText s) = Inl (ValueError ''Expecting value'')"

section \<open>Tables\<close>

record resource_group =
  rg_group_id :: int
  rg_group_name :: string
  rg_group_parent_id :: int
  rg_group_sort :: int
  rg_group_level :: int
  rg_ding_webhook :: string
  rg_feishu_webhook :: string
  rg_qywx_webhook :: string
  rg_is_deleted :: int
  rg_create_time :: datetime
  rg_sys_time :: datetime

definition new_ResourceGroup :: resource_group where
  "new_ResourceGroup = \<lparr>rg_group_id = 0, rg_group_name = '''', rg_group_parent_id = 0,
     rg_group_sort = 1, rg_group_level = 1, rg_ding_webhook = '''', rg_feishu_webhook = '''',
     rg_qywx_webhook = '''', rg_is_deleted = 0, rg_create_time = 0, rg_sys_time = 0\<rparr>"

text \<open>
  A user, with the columns Django's \<open>AbstractUser\<close> gives it that the code reads. The answers
  of \<open>user.has_perm\<close> come from Django's permission backends and are data of the user here.
\<close>

record user =
  u_id :: int
  u_username :: string
  u_display :: string
  u_ding_user_id :: string
  u_wx_user_id :: string
  u_feishu_open_id :: string
  u_failed_login_count :: int
  u_last_login_failed_at :: "datetime option"
  u_resource_group :: "int list"
  u_is_superuser :: bool
  u_is_active :: bool
  u_last_login :: "datetime option"
  u_groups :: "int list"
  has_perm :: "string \<Rightarrow> bool"

definition new_Users :: user where
  "new_Users = \<lparr>u_id = 0, u_username = '''', u_display = '''', u_ding_user_id = '''',
     u_wx_user_id = '''', u_feishu_open_id = '''', u_failed_login_count = 0,
     u_last_login_failed_at = None, u_resource_group = [], u_is_superuser = False,
     u_is_active = True, u_last_login = None, u_groups = [], has_perm = (\<lambda>_. False)\<rparr>"

text \<open>\<open>Users.save\<close> keeps the failure counter within 0 and 127.\<close>

definition Users_saved :: "user \<Rightarrow> user" where
  "Users_saved u =
     u\<lparr>u_failed_login_count := max 0 (min 127 (u_failed_login_count u))\<rparr>"

text \<open>\<open>Users.__str__\<close>.\<close>

definition Users_str :: "user \<Rightarrow> string" where
  "Users_str u = (if u_display u \<noteq> [] then u_display u else u_username u)"

record auth_group =
  g_id :: int
  g_name :: string

record instance_tag =
  it_id :: int
  it_tag_code :: string
  it_tag_name :: string
  it_active :: bool
  it_create_time :: datetime

record instance_row =
  i_id :: int
  i_instance_name :: string
  i_type :: string
  i_db_type :: string
  i_mode :: string
  i_host :: string
  i_port :: int
  i_user :: string
  i_password :: string
  i_is_ssl :: bool
  i_verify_ssl :: bool
  i_db_name :: string
  i_show_db_name_regex :: string
  i_denied_db_name_regex :: string
  i_charset :: string
  i_service_name :: "string option"
  i_sid :: "string option"
  i_resource_group :: "int list"
  i_instance_tag :: "int list"
  i_tunnel :: "int option"
  i_create_time :: datetime
  i_update_time :: datetime

definition new_Instance :: instance_row where
  "new_Instance = \<lparr>i_id = 0, i_instance_name = '''', i_type = '''', i_db_type = '''',
     i_mode = '''', i_host = '''', i_port = 0, i_user = '''', i_password = '''',
     i_is_ssl = False, i_verify_ssl = True, i_db_name = '''', i_show_db_name_regex = '''',
     i_denied_db_name_regex = '''', i_charset = '''', i_service_name = None, i_sid = None,
     i_resource_group = [], i_instance_tag = [], i_tunnel = None, i_create_time = 0,
     i_update_time = 0\<rparr>"

record sql_workflow =
  sw_id :: int
  sw_workflow_name :: string
  sw_demand_url :: string
  sw_group_id :: int
  sw_group_name :: string
  sw_instance :: int
  sw_db_name :: string
  sw_syntax_type :: int
  sw_is_backup :: bool
  sw_engineer :: string
  sw_engineer_display :: string
  sw_status :: sql_workflow_status
  sw_audit_auth_groups :: string
  sw_run_date_start :: "datetime option"
  sw_run_date_end :: "datetime option"
  sw_create_time :: datetime
  sw_finish_time :: "datetime option"
  sw_is_manual :: int
  sw_is_offline_export :: int
  sw_export_format :: "string option"
  sw_file_name :: "string option"

definition new_SqlWorkflow :: sql_workflow where
  "new_SqlWorkflow = \<lparr>sw_id = 0, sw_workflow_name = '''', sw_demand_url = '''', sw_group_id = 0,
     sw_group_name = '''', sw_instance = 0, sw_db_name = '''', sw_syntax_type = 0,
     sw_is_backup = True, sw_engineer = '''', sw_engineer_display = '''',
     sw_status = workflow_manreviewing, sw_audit_auth_groups = '''', sw_run_date_start = None,
     sw_run_date_end = None, sw_create_time = 0, sw_finish_time = None, sw_is_manual = 0,
     sw_is_offline_export = 0, sw_export_format = None, sw_file_name = None\<rparr>"

record sql_workflow_content =
  swc_id :: int
  swc_workflow :: int
  swc_sql_content :: string
  swc_review_content :: rows_text
  swc_execute_result :: rows_text

record workflow_audit =
  wa_audit_id :: int
  wa_group_id :: int
  wa_group_name :: string
  wa_workflow_id :: int
  wa_workflow_type :: workflow_type
  wa_workflow_title :: string
  wa_workflow_remark :: string
  wa_audit_auth_groups :: string
  wa_current_audit :: string
  wa_next_audit :: string
  wa_current_status :: workflow_status
  wa_create_user :: string
  wa_create_user_display :: string
  wa_create_time :: datetime
  wa_sys_time :: datetime

definition new_WorkflowAudit :: workflow_audit where
  "new_WorkflowAudit = \<lparr>wa_audit_id = 0, wa_group_id = 0, wa_group_name = '''',
     wa_workflow_id = 0, wa_workflow_type = SQL_REVIEW, wa_workflow_title = '''',
     wa_workflow_remark = '''', wa_audit_auth_groups = '''', wa_current_audit = '''',
     wa_next_audit = '''', wa_current_status = WAITING, wa_create_user = '''',
     wa_create_user_display = '''', wa_create_time = 0, wa_sys_time = 0\<rparr>"

record workflow_audit_detail =
  wad_audit_detail_id :: int
  wad_audit_id :: int
  wad_audit_user :: string
  wad_audit_time :: datetime
  wad_audit_status :: workflow_status
  wad_remark :: string
  wad_sys_time :: datetime

record workflow_audit_setting =
  was_audit_setting_id :: int
  was_group_id :: int
  was_group_name :: string
  was_workflow_type :: workflow_type
  was_audit_auth_groups :: string
  was_create_time :: datetime
  was_sys_time :: datetime

record workflow_log =
  wl_id :: int
  wl_audit_id :: int
  wl_operation_type :: int
  wl_operation_type_desc :: string
  wl_operation_info :: string
  wl_operator :: string
  wl_operator_display :: string
  wl_operation_time :: datetime

record query_privileges_apply =
  qa_apply_id :: int
  qa_group_id :: int
  qa_group_name :: string
  qa_title :: string
  qa_user_name :: string
  qa_user_display :: string
  qa_instance :: int
  qa_db_list :: string
  qa_table_list :: string
  qa_valid_date :: date
  qa_limit_num :: int
  qa_priv_type :: int
  qa_status :: workflow_status
  qa_audit_auth_groups :: string
  qa_create_time :: datetime
  qa_sys_time :: datetime

definition new_QueryPrivilegesApply :: query_privileges_apply where
  "new_QueryPrivilegesApply = \<lparr>qa_apply_id = 0, qa_group_id = 0, qa_group_name = '''',
     qa_title = '''', qa_user_name = '''', qa_user_display = '''', qa_instance = 0,
     qa_db_list = '''', qa_table_list = '''', qa_valid_date = 0, qa_limit_num = 100,
     qa_priv_type = 0, qa_status = WAITING, qa_audit_auth_groups = '''', qa_create_time = 0,
     qa_sys_time = 0\<rparr>"

record query_privileges =
  qp_privilege_id :: int
  qp_user_name :: string
  qp_user_display :: string
  qp_instance :: int
  qp_db_name :: string
  qp_table_name :: string
  qp_valid_date :: date
  qp_limit_num :: int
  qp_priv_type :: int
  qp_is_deleted :: int
  qp_create_time :: datetime
  qp_sys_time :: datetime

definition new_QueryPrivileges :: query_privileges where
  "new_QueryPrivileges = \<lparr>qp_privilege_id = 0, qp_user_name = '''', qp_user_display = '''',
     qp_instance = 0, qp_db_name = '''', qp_table_name = '''', qp_valid_date = 0,
     qp_limit_num = 100, qp_priv_type = 0, qp_is_deleted = 0, qp_create_time = 0,
     qp_sys_time = 0\<rparr>"

record archive_config =
  ac_id :: int
  ac_title :: string
  ac_resource_group :: int
  ac_audit_auth_groups :: string
  ac_src_instance :: int
  ac_src_db_name :: string
  ac_src_table_name :: string
  ac_dest_instance :: "int option"
  ac_dest_db_name :: string
  ac_dest_table_name :: string
  ac_condition :: string
  ac_mode :: string
  ac_no_delete :: bool
  ac_sleep :: int
  ac_status :: workflow_status
  ac_state :: bool
  ac_user_name :: string
  ac_user_display :: string
  ac_create_time :: datetime
  ac_last_archive_time :: "datetime option"
  ac_sys_time :: datetime

definition new_ArchiveConfig :: archive_config where
  "new_ArchiveConfig = \<lparr>ac_id = 0, ac_title = '''', ac_resource_group = 0,
     ac_audit_auth_groups = '''', ac_src_instance = 0, ac_src_db_name = '''',
     ac_src_table_name = '''', ac_dest_instance = None, ac_dest_db_name = '''',
     ac_dest_table_name = '''', ac_condition = '''', ac_mode = '''', ac_no_delete = False,
     ac_sleep = 1, ac_status = PASSED, ac_state = True, ac_user_name = '''',
     ac_user_display = '''', ac_create_time = 0, ac_last_archive_time = None,
     ac_sys_time = 0\<rparr>"

record archive_log =
  al_id :: int
  al_archive :: int
  al_cmd :: string
  al_condition :: string
  al_mode :: string
  al_no_delete :: bool
  al_sleep :: int
  al_select_cnt :: int
  al_insert_cnt :: int
  al_delete_cnt :: int
  al_statistics :: string
  al_success :: bool
  al_error_info :: string
  al_start_time :: datetime
  al_end_time :: datetime
  al_sys_time :: datetime

record query_log =
  ql_id :: int
  ql_instance_name :: string
  ql_db_name :: string
  ql_sqllog :: string
  ql_effect_row :: int
  ql_cost_time :: string
  ql_username :: string
  ql_user_display :: string
  ql_priv_check :: bool
  ql_hit_rule :: bool
  ql_masking :: bool
  ql_favorite :: bool
  ql_alias :: string
  ql_create_time :: datetime
  ql_sys_time :: datetime

record config_row =
  cf_id :: int
  cf_item :: string
  cf_value :: string
  cf_description :: string

text \<open>A row of django-q's schedule table, with the columns the code sets and reads.\<close>

record schedule =
  sc_id :: int
  sc_name :: string
  sc_func :: string
  sc_args :: "int list"
  sc_hook :: string
  sc_schedule_type :: string
  sc_next_run :: datetime
  sc_repeats :: int

text \<open>
  A task handed to django-q's \<open>async_task\<close>: its function, its integer arguments, the user it
  runs for (user name and display name, all that a task reads of it) and its name.
\<close>

record async_job =
  aj_func :: string
  aj_args :: "int list"
  aj_user :: "(string \<times> string) option"
  aj_hook :: string
  aj_task_name :: string

section \<open>The state\<close>

record world =
  w_now :: datetime
  w_config :: "config_row table"
  w_resource_groups :: "resource_group table"
  w_users :: "user table"
  w_groups :: "auth_group table"
  w_tags :: "instance_tag table"
  w_instances :: "instance_row table"
  w_workflows :: "sql_workflow table"
  w_contents :: "sql_workflow_content table"
  w_audits :: "workflow_audit table"
  w_details :: "workflow_audit_detail table"
  w_settings :: "workflow_audit_setting table"
  w_logs :: "workflow_log table"
  w_applies :: "query_privileges_apply table"
  w_privileges :: "query_privileges table"
  w_archives :: "archive_config table"
  w_archive_logs :: "archive_log table"
  w_query_logs :: "query_log table"
  w_schedules :: "schedule table"
  w_queue :: "async_job list"

definition empty_world :: world where
  "empty_world = \<lparr>w_now = 0, w_config = empty_table, w_resource_groups = empty_table,
     w_users = empty_table, w_groups = empty_table, w_tags = empty_table,
     w_instances = empty_table, w_workflows = empty_table, w_contents = empty_table,
     w_audits = empty_table, w_details = empty_table, w_settings = empty_table,
     w_logs = empty_table, w_applies = empty_table, w_privileges = empty_table,
     w_archives = empty_table, w_archive_logs = empty_table, w_query_logs = empty_table,
     w_schedules = empty_table, w_queue = []\<rparr>"

definition today :: "world \<Rightarrow> date" where
  "today w = date_of (w_now w)"

section \<open>Every model keeps the contract of its rows\<close>

abbreviation set_wa_id :: "int \<Rightarrow> workflow_audit \<Rightarrow> workflow_audit" where
  "set_wa_id i r \<equiv> r\<lparr>wa_audit_id := i\<rparr>"

abbreviation set_wl_id :: "int \<Rightarrow> workflow_log \<Rightarrow> workflow_log" where
  "set_wl_id i r \<equiv> r\<lparr>wl_id := i\<rparr>"

abbreviation set_wad_id :: "int \<Rightarrow> workflow_audit_detail \<Rightarrow> workflow_audit_detail" where
  "set_wad_id i r \<equiv> r\<lparr>wad_audit_detail_id := i\<rparr>"

abbreviation set_was_id :: "int \<Rightarrow> workflow_audit_setting \<Rightarrow> workflow_audit_setting" where
  "set_was_id i r \<equiv> r\<lparr>was_audit_setting_id := i\<rparr>"

abbreviation set_sw_id :: "int \<Rightarrow> sql_workflow \<Rightarrow> sql_workflow" where
  "set_sw_id i r \<equiv> r\<lparr>sw_id := i\<rparr>"

abbreviation set_swc_id :: "int \<Rightarrow> sql_workflow_content \<Rightarrow> sql_workflow_content" where
  "set_swc_id i r \<equiv> r\<lparr>swc_id := i\<rparr>"

abbreviation set_qa_id :: "int \<Rightarrow> query_privileges_apply \<Rightarrow> query_privileges_apply" where
  "set_qa_id i r \<equiv> r\<lparr>qa_apply_id := i\<rparr>"

abbreviation set_qp_id :: "int \<Rightarrow> query_privileges \<Rightarrow> query_privileges" where
  "set_qp_id i r \<equiv> r\<lparr>qp_privilege_id := i\<rparr>"

abbreviation set_ac_id :: "int \<Rightarrow> archive_config \<Rightarrow> archive_config" where
  "set_ac_id i r \<equiv> r\<lparr>ac_id := i\<rparr>"

abbreviation set_al_id :: "int \<Rightarrow> archive_log \<Rightarrow> archive_log" where
  "set_al_id i r \<equiv> r\<lparr>al_id := i\<rparr>"

abbreviation set_cf_id :: "int \<Rightarrow> config_row \<Rightarrow> config_row" where
  "set_cf_id i r \<equiv> r\<lparr>cf_id := i\<rparr>"

abbreviation set_sc_id :: "int \<Rightarrow> schedule \<Rightarrow> schedule" where
  "set_sc_id i r \<equiv> r\<lparr>sc_id := i\<rparr>"

abbreviation set_ql_id :: "int \<Rightarrow> query_log \<Rightarrow> query_log" where
  "set_ql_id i r \<equiv> r\<lparr>ql_id := i\<rparr>"

abbreviation set_u_id :: "int \<Rightarrow> user \<Rightarrow> user" where
  "set_u_id i r \<equiv> r\<lparr>u_id := i\<rparr>"

interpretation wa: row_store wa_audit_id set_wa_id by unfold_locales simp
interpretation wl: row_store wl_id set_wl_id by unfold_locales simp
interpretation wad: row_store wad_audit_detail_id set_wad_id by unfold_locales simp
interpretation was: row_store was_audit_setting_id set_was_id by unfold_locales simp
interpretation sw: row_store sw_id set_sw_id by unfold_locales simp
interpretation swc: row_store swc_id set_swc_id by unfold_locales simp
interpretation qa: row_store qa_apply_id set_qa_id by unfold_locales simp
interpretation qp: row_store qp_privilege_id set_qp_id by unfold_locales simp
interpretation ac: row_store ac_id set_ac_id by unfold_locales simp
interpretation al: row_store al_id set_al_id by unfold_locales simp
interpretation cf: row_store cf_id set_cf_id by unfold_locales simp
interpretation sc: row_store sc_id set_sc_id by unfold_locales simp
interpretation ql: row_store ql_id set_ql_id by unfold_locales simp
interpretation us: row_store u_id set_u_id by unfold_locales simp

lemma Users_saved_range: "0 \<le> u_failed_login_count (Users_saved u) \<and> u_failed_login_count (Users_saved u) \<le> 127"
  by (simp add: Users_saved_def)

end
