(* ===== verification/SysConfig.thy ===== *)
theory SysConfig
  imports Models
begin

text \<open>
  \<open>common/config.py\<close>: the configuration object. An object is its cache, a map from item to
  value; the table of configuration rows is the shared state. The locale \<open>config_store\<close> is what
  the readers of the configuration rely on; it is interpreted on \<open>get\<close> and \<open>set\<close> of a fresh
  object, and \<open>get_coherent\<close> says that the cache of an object never changes an answer as long as
  it was filled from the same table.
\<close>

type_synonym cfg_cache = "string \<Rightarrow> pyval option"

fun filter_bool :: "string \<Rightarrow> pyval" where
  "filter_bool s =
     (if lower s = ''true'' then PBool True
      else if lower s = ''false'' then PBool False
      else PStr s)"

declare filter_bool.simps [simp del]

definition get_all_config :: "config_row table \<Rightarrow> cfg_cache" where
  "get_all_config t = map_of (rev (map (\<lambda>r. (cf_item r,
      if cf_value r = ''true'' \<or> cf_value r = ''True'' then PBool True
      else if cf_value r = ''false'' \<or> cf_value r = ''False'' then PBool False
      else PStr (cf_value r))) (tbl_rows t)))"

definition cfg_get :: "cfg_cache \<Rightarrow> config_row table \<Rightarrow> string \<Rightarrow> pyval \<Rightarrow> pyval \<times> cfg_cache" where
  "cfg_get c t key default_value =
     (let v0 = (case c key of None \<Rightarrow> PNone | Some v \<Rightarrow> v) in
      if truthy v0 then (v0, c)
      else let v = (case tbl_last (\<lambda>r. cf_item r = key) t of
                      Some r \<Rightarrow> filter_bool (cf_value r) | None \<Rightarrow> v0)
           in case v of
                PStr s \<Rightarrow> if strip s = [] then (default_value, c) else (v, c(key \<mapsto> v))
              | PNone \<Rightarrow> (default_value, c)
              | _ \<Rightarrow> (v, c(key \<mapsto> v)))"

text \<open>\<open>SysConfig().get(key, default)\<close> on an object just made.\<close>

definition config_get :: "world \<Rightarrow> string \<Rightarrow> pyval \<Rightarrow> pyval" where
  "config_get w key default_value = fst (cfg_get Map.empty (w_config w) key default_value)"

fun cfg_db_value :: "pyval \<Rightarrow> string" where
  "cfg_db_value (PBool True) = ''true''"
| "cfg_db_value (PBool False) = ''false''"
| "cfg_db_value (PStr s) = s"
| "cfg_db_value (PInt i) = str_int i"
| "cfg_db_value PNone = ''None''"

definition cfg_set ::
  "string \<Rightarrow> pyval \<Rightarrow> cfg_cache \<Rightarrow> config_row table \<Rightarrow> (cfg_cache \<times> config_row table) res" where
  "cfg_set key v c t =
     bindE (tbl_update_or_create ''Config'' set_cf_id (\<lambda>r. cf_item r = key)
              (\<lambda>r. r\<lparr>cf_value := cfg_db_value v\<rparr>)
              \<lparr>cf_id = 0, cf_item = key, cf_value = cfg_db_value v, cf_description = ''''\<rparr> t)
       (\<lambda>t'. Inr (c(key \<mapsto> v), t'))"

text \<open>
  \<open>replace(configs)\<close>: the items are the key/value texts of the decoded JSON list (\<open>str(value)\<close>
  already taken). A repeated key violates the unique column and undoes the transaction. The
  result is (status, message); the cache is reloaded in every case.
\<close>

definition cfg_replace ::
  "(string \<times> string) list \<Rightarrow> config_row table \<Rightarrow> (int \<times> string) \<times> cfg_cache \<times> config_row table" where
  "cfg_replace items t =
     (let objs = map (\<lambda>(k, v). \<lparr>cf_id = 0, cf_item = strip k, cf_value = strip v,
                                  cf_description = ''''\<rparr>) items;
          keys = map cf_item objs;
          t1 = tbl_delete (\<lambda>r. cf_item r \<in> set keys) t;
          t2 = fold (tbl_create set_cf_id) objs t1
      in if distinct keys then ((0, ''ok''), get_all_config t2, t2)
         else ((1, ''Duplicate entry''), get_all_config t, t))"

definition cfg_purge :: "config_row table \<Rightarrow> cfg_cache \<times> config_row table" where
  "cfg_purge t = (Map.empty, tbl_delete (\<lambda>_. True) t)"

section \<open>Authentication settings\<close>

definition auth_common_keys :: "string list" where
  "auth_common_keys = [''auth_provider'', ''oidc_btn_name'']"

definition auth_ldap_keys :: "string list" where
  "auth_ldap_keys =
    [''auth_ldap_server_uri'', ''auth_ldap_bind_dn'', ''auth_ldap_bind_password'',
     ''auth_ldap_user_dn_template'', ''auth_ldap_user_search_base'',
     ''auth_ldap_user_search_filter'', ''auth_ldap_user_attr_map'']"

definition auth_oidc_keys :: "string list" where
  "auth_oidc_keys =
    [''oidc_rp_wellknown_url'', ''oidc_rp_client_id'', ''oidc_rp_client_secret'',
     ''oidc_rp_scopes'', ''oidc_rp_sign_algo'', ''oidc_user_attr_map'', ''oidc_btn_name'']"

definition auth_dingding_keys :: "string list" where
  "auth_dingding_keys = [''ding_app_key'', ''ding_app_secret'', ''ding_callback_url'']"

definition auth_cas_keys :: "string list" where
  "auth_cas_keys = [''cas_server_url'', ''cas_version'', ''cas_verify_ssl_certificate'']"

definition auth_provider_keys :: "string \<Rightarrow> string list" where
  "auth_provider_keys p =
     (if p = ''common'' then auth_common_keys else if p = ''ldap'' then auth_ldap_keys
      else if p = ''oidc'' then auth_oidc_keys else if p = ''dingding'' then auth_dingding_keys
      else if p = ''cas'' then auth_cas_keys else [])"

definition get_auth_provider :: "cfg_cache \<Rightarrow> config_row table \<Rightarrow> string option" where
  "get_auth_provider c t = (case fst (cfg_get c t ''auth_provider'' PNone) of
       PStr p \<Rightarrow> if p \<in> set [''ldap'', ''oidc'', ''dingding'', ''cas''] then Some p else None
     | _ \<Rightarrow> None)"

definition secret_keys :: "string list" where
  "secret_keys = [''auth_ldap_bind_password'', ''oidc_rp_client_secret'', ''ding_app_secret'']"

text \<open>The writes of \<open>set_auth_config\<close>, parameter by parameter.\<close>

fun set_auth_params ::
  "string list \<Rightarrow> (string \<times> pyval) list \<Rightarrow> cfg_cache \<Rightarrow> config_row table
   \<Rightarrow> (cfg_cache \<times> config_row table) res" where
  "set_auth_params allowed [] c t = Inr (c, t)"
| "set_auth_params allowed ((key, v) # ps) c t =
     (if key \<in> set allowed then
        (if v = PStr [] \<and> key \<in> set secret_keys then set_auth_params allowed ps c t
         else bindE (cfg_set key v c t) (\<lambda>(c', t'). set_auth_params allowed ps c' t'))
      else set_auth_params allowed ps c t)"

text \<open>
  The dictionary \<open>get_auth_config\<close> returns, with the cache its reads leave behind. The source
  goes through a set of the keys, whose order nothing depends on.
\<close>

definition auth_config_keys :: "string list" where
  "auth_config_keys =
     remdups (auth_common_keys @ auth_ldap_keys @ auth_oidc_keys @ auth_dingding_keys @ auth_cas_keys)"

fun get_auth_items ::
  "string list \<Rightarrow> cfg_cache \<Rightarrow> config_row table \<Rightarrow> (string \<times> pyval) list \<times> cfg_cache" where
  "get_auth_items [] c t = ([], c)"
| "get_auth_items (key # ks) c t =
     (let (v, c1) = cfg_get c t key (PStr []); (d, c2) = get_auth_items ks c1 t
      in ((key, v) # d, c2))"

definition get_auth_config ::
  "cfg_cache \<Rightarrow> config_row table \<Rightarrow> (string \<rightharpoonup> pyval) \<times> cfg_cache" where
  "get_auth_config c t =
     (let (d, c1) = get_auth_items auth_config_keys c t;
          (p, c2) = cfg_get c1 t ''auth_provider'' (PStr ''local'')
      in ((map_of d)(''auth_provider'' \<mapsto> p), c2))"

definition set_auth_config ::
  "string \<Rightarrow> (string \<times> pyval) list \<Rightarrow> cfg_cache \<Rightarrow> config_row table
   \<Rightarrow> ((string \<rightharpoonup> pyval) \<times> cfg_cache \<times> config_row table) res" where
  "set_auth_config provider params c t =
     bindE (cfg_set ''auth_provider'' (PStr provider) c t)
       (\<lambda>(c', t'). bindE (set_auth_params (auth_provider_keys provider) params c' t')
         (\<lambda>(c'', t''). let (d, c3) = get_auth_config c'' t'' in Inr (d, c3, t'')))"

section \<open>Contract\<close>

text \<open>A table in which no item occurs twice (the column is unique).\<close>

definition wf_config :: "config_row table \<Rightarrow> bool" where
  "wf_config t = distinct (map cf_item (tbl_rows t))"

text \<open>A value that survives the text column: a boolean, or a text that is neither blank nor a boolean's.\<close>

fun storable :: "pyval \<Rightarrow> bool" where
  "storable (PBool b) = True"
| "storable (PStr s) = (strip s \<noteq> [] \<and> lower s \<noteq> ''true'' \<and> lower s \<noteq> ''false'')"
| "storable _ = False"

locale config_store =
  fixes look :: "'c \<Rightarrow> string \<Rightarrow> pyval \<Rightarrow> pyval"
    and put :: "string \<Rightarrow> pyval \<Rightarrow> 'c \<Rightarrow> 'c res"
    and ok :: "'c \<Rightarrow> bool"
  assumes put_ok: "ok c \<Longrightarrow> \<exists>c'. put k v c = Inr c' \<and> ok c'"
    and look_put: "ok c \<Longrightarrow> put k v c = Inr c' \<Longrightarrow> storable v \<Longrightarrow> look c' k d = v"
    and look_put_other: "ok c \<Longrightarrow> put k v c = Inr c' \<Longrightarrow> k' \<noteq> k \<Longrightarrow> look c' k' d = look c k' d"
begin

text \<open>The last of two writes of one item wins, and writes of different items commute to a reader.\<close>

lemma look_put_put:
  assumes "ok c" "put k v c = Inr c1" "put k v' c1 = Inr c2" "storable v'"
  shows "look c2 k d = v'"
  using assms look_put put_ok by (metis Inr_inject)

lemma put_put_look:
  assumes "ok c" "put k v c = Inr c1" "put k' v' c1 = Inr c2" "k' \<noteq> k" "storable v"
  shows "look c2 k d = v"
proof -
  have "ok c1" using put_ok [OF assms(1), of k v] assms(2) by auto
  then have "look c2 k d = look c1 k d" using look_put_other assms(3,4) by metis
  with look_put [OF assms(1,2,5)] show ?thesis by simp
qed

end

definition tbl_look :: "config_row table \<Rightarrow> string \<Rightarrow> pyval \<Rightarrow> pyval" where
  "tbl_look t k d = fst (cfg_get Map.empty t k d)"

definition tbl_put :: "string \<Rightarrow> pyval \<Rightarrow> config_row table \<Rightarrow> config_row table res" where
  "tbl_put k v t = bindE (cfg_set k v Map.empty t) (\<lambda>(c, t'). Inr t')"

lemma find_append_opt:
  "find P (xs @ ys) = (case find P xs of None \<Rightarrow> find P ys | Some x \<Rightarrow> Some x)"
  by (induction xs) auto

lemma find_rev_distinct:
  "distinct (map f xs) \<Longrightarrow> find (\<lambda>x. f x = k) (rev xs) = find (\<lambda>x. f x = k) xs"
proof (induction xs)
  case (Cons x xs)
  have "f x = k \<Longrightarrow> find (\<lambda>x. f x = k) xs = None"
    using Cons.prems by (auto simp: find_None_iff image_iff)
  with Cons show ?case by (auto simp: find_append_opt split: option.splits)
qed simp

lemma filter_distinct_find:
  "distinct (map f xs) \<Longrightarrow>
   filter (\<lambda>x. f x = k) xs = (case find (\<lambda>x. f x = k) xs of None \<Rightarrow> [] | Some x \<Rightarrow> [x])"
proof (induction xs)
  case (Cons x xs)
  show ?case
  proof (cases "f x = k")
    case True
    with Cons.prems have "filter (\<lambda>x. f x = k) xs = []" by (auto simp: filter_empty_conv image_iff)
    with True show ?thesis by simp
  next
    case False
    with Cons show ?thesis by simp
  qed
qed simp

lemma find_map_upd:
  "(\<And>x. f (g x) = f x) \<Longrightarrow>
   find (\<lambda>x. f x = k') (map (\<lambda>x. if f x = k then g x else x) xs) =
   map_option (\<lambda>x. if k' = k then g x else x) (find (\<lambda>x. f x = k') xs)"
  by (induction xs) auto

lemma cfg_set_eq:
  assumes "wf_config t"
  shows "cfg_set key v c t =
    Inr (c(key \<mapsto> v),
      case find (\<lambda>r. cf_item r = key) (tbl_rows t) of
        None \<Rightarrow> tbl_create set_cf_id
                  \<lparr>cf_id = 0, cf_item = key, cf_value = cfg_db_value v, cf_description = ''''\<rparr> t
      | Some _ \<Rightarrow> tbl_update (\<lambda>r. cf_item r = key) (\<lambda>r. r\<lparr>cf_value := cfg_db_value v\<rparr>) t)"
  using assms
  by (simp add: cfg_set_def tbl_update_or_create_def wf_config_def filter_distinct_find split: option.splits)

lemma wf_cfg_set:
  assumes "wf_config t" and "cfg_set key v c t = Inr (c', t')"
  shows "wf_config t'"
proof -
  have m: "map cf_item (map (\<lambda>x. if cf_item x = key then x\<lparr>cf_value := w\<rparr> else x) xs) = map cf_item xs"
    for w and xs :: "config_row list"
    by (induction xs) auto
  show ?thesis
    using assms
    by (auto simp: cfg_set_eq wf_config_def tbl_simps m simp del: map_map split: option.splits)
      (auto simp: find_None_iff)
qed

text \<open>What a read of an item sees after a write of one.\<close>

lemma find_cfg_set:
  assumes "wf_config t" and "cfg_set key v c t = Inr (c', t')"
  shows "map_option cf_value (find (\<lambda>r. cf_item r = k) (tbl_rows t')) =
    (if k = key then Some (cfg_db_value v)
     else map_option cf_value (find (\<lambda>r. cf_item r = k) (tbl_rows t)))"
  using assms
  by (auto simp: cfg_set_eq tbl_simps find_map_upd find_append_opt option.map_comp o_def split: option.splits)

lemma tbl_last_find:
  "wf_config t \<Longrightarrow> tbl_last (\<lambda>r. cf_item r = k) t = find (\<lambda>r. cf_item r = k) (tbl_rows t)"
  by (simp add: tbl_last_def find_rev_distinct wf_config_def)

text \<open>A fresh object's answer as a function of the stored text.\<close>

definition read_text :: "string option \<Rightarrow> pyval \<Rightarrow> pyval" where
  "read_text x d = (case x of None \<Rightarrow> d | Some s \<Rightarrow>
     (case filter_bool s of PStr s' \<Rightarrow> if strip s' = [] then d else PStr s' | v \<Rightarrow> v))"

lemma filter_bool_cases: "filter_bool s = PBool True \<or> filter_bool s = PBool False \<or> filter_bool s = PStr s"
  by (auto simp: filter_bool.simps)

lemma tbl_look_eq:
  assumes "wf_config t"
  shows "tbl_look t k d = read_text (map_option cf_value (find (\<lambda>r. cf_item r = k) (tbl_rows t))) d"
proof (cases "find (\<lambda>r. cf_item r = k) (tbl_rows t)")
  case None
  with assms show ?thesis by (simp add: tbl_look_def cfg_get_def read_text_def tbl_last_find)
next
  case (Some r)
  with assms show ?thesis using filter_bool_cases [of "cf_value r"]
    by (auto simp: tbl_look_def cfg_get_def read_text_def tbl_last_find Let_def)
qed

lemma read_text_storable: "storable v \<Longrightarrow> read_text (Some (cfg_db_value v)) d = v"
proof (cases v)
  case (PBool b)
  have "lower ''true'' = ''true''" "lower ''false'' = ''false''" by code_simp+
  with PBool show ?thesis by (cases b) (simp_all add: read_text_def filter_bool.simps)
next
  case (PStr s)
  moreover assume "storable v"
  ultimately show ?thesis by (simp add: read_text_def filter_bool.simps)
qed auto

interpretation cs: config_store tbl_look tbl_put wf_config
proof unfold_locales
  fix c k v
  assume wf: "wf_config c"
  obtain c' t' where "cfg_set k v Map.empty c = Inr (c', t')"
    using cfg_set_eq [OF wf, of k v Map.empty] by blast
  then show "\<exists>c'. tbl_put k v c = Inr c' \<and> wf_config c'"
    using wf_cfg_set [OF wf] by (auto simp: tbl_put_def)
next
  fix c k v c' d
  assume wf: "wf_config c" and put: "tbl_put k v c = Inr c'" and st: "storable v"
  from put obtain m where set: "cfg_set k v Map.empty c = Inr (m, c')"
    by (auto simp: tbl_put_def elim!: bindE_InrE)
  then show "tbl_look c' k d = v"
    using tbl_look_eq [OF wf_cfg_set [OF wf set], of k d] find_cfg_set [OF wf set, of k]
      read_text_storable [OF st, of d] by simp
next
  fix c k v c' k' d
  assume wf: "wf_config c" and put: "tbl_put k v c = Inr c'" and ne: "k' \<noteq> k"
  from put obtain m where set: "cfg_set k v Map.empty c = Inr (m, c')"
    by (auto simp: tbl_put_def elim!: bindE_InrE)
  then show "tbl_look c' k' d = tbl_look c k' d"
    using tbl_look_eq [OF wf_cfg_set [OF wf set], of k' d] tbl_look_eq [OF wf, of k' d]
      find_cfg_set [OF wf set, of k'] ne by simp
qed

lemma config_get_tbl_look: "config_get w k d = tbl_look (w_config w) k d"
  by (simp add: config_get_def tbl_look_def)

section \<open>The cache never changes an answer\<close>

text \<open>
  A cache filled by \<open>get\<close> holds, for each item, what a fresh object would answer from the table.
\<close>

definition coherent :: "cfg_cache \<Rightarrow> config_row table \<Rightarrow> bool" where
  "coherent c t = (\<forall>k v. c k = Some v \<longrightarrow> v \<noteq> PNone \<and> (\<forall>d. tbl_look t k d = v))"

lemma coherent_empty [simp]: "coherent Map.empty t"
  by (simp add: coherent_def)

text \<open>What a fresh object answers, by the stored row.\<close>

lemma tbl_look_row:
  "tbl_look t k d = read_text (map_option cf_value (tbl_last (\<lambda>r. cf_item r = k) t)) d"
proof (cases "tbl_last (\<lambda>r. cf_item r = k) t")
  case None
  then show ?thesis by (simp add: tbl_look_def cfg_get_def read_text_def)
next
  case (Some r)
  then show ?thesis using filter_bool_cases [of "cf_value r"]
    by (auto simp: tbl_look_def cfg_get_def read_text_def Let_def)
qed

lemma cfg_get_None:
  "c k = None \<Longrightarrow> cfg_get c t k d =
    (case tbl_last (\<lambda>r. cf_item r = k) t of
       None \<Rightarrow> (d, c)
     | Some r \<Rightarrow> (case filter_bool (cf_value r) of
          PStr s \<Rightarrow> if strip s = [] then (d, c) else (PStr s, c(k \<mapsto> PStr s))
        | v \<Rightarrow> (v, c(k \<mapsto> v))))"
  using filter_bool_cases
  by (auto simp: cfg_get_def Let_def split: option.splits pyval.splits) (metis pyval.distinct)+

lemma cfg_get_coherent:
  assumes "coherent c t"
  shows "fst (cfg_get c t k d) = tbl_look t k d \<and> coherent (snd (cfg_get c t k d)) t"
proof (cases "c k")
  case None
  show ?thesis
  proof (cases "tbl_last (\<lambda>r. cf_item r = k) t")
    case None
    with \<open>c k = None\<close> assms show ?thesis by (simp add: cfg_get_None tbl_look_row read_text_def)
  next
    case (Some r)
    with \<open>c k = None\<close> assms filter_bool_cases [of "cf_value r"] show ?thesis
      by (elim disjE) (simp_all add: cfg_get_None tbl_look_row read_text_def coherent_def)
  qed
next
  case (Some v)
  then have v: "v \<noteq> PNone" "\<And>d. tbl_look t k d = v" using assms by (auto simp: coherent_def)
  show ?thesis
  proof (cases "truthy v")
    case True
    with Some v assms show ?thesis by (simp add: cfg_get_def)
  next
    case False
    have "tbl_look t k (PStr ''a'') = v" "tbl_look t k (PStr ''b'') = v" by (fact v)+
    then obtain r where r: "tbl_last (\<lambda>r. cf_item r = k) t = Some r" "filter_bool (cf_value r) = v"
      using filter_bool_cases
      by (auto simp: tbl_look_row read_text_def split: option.splits pyval.splits if_splits)
    have "read_text (Some (cf_value r)) (PStr ''a'') = v"
      using v(2) [of "PStr ''a''"] r(1) by (simp add: tbl_look_row)
    with filter_bool_cases [of "cf_value r"] r(2) False have vf: "v = PBool False"
      by (auto simp: read_text_def strip_def split: if_splits)
    with Some have "c(k \<mapsto> PBool False) = c" by (simp add: fun_upd_idem)
    with r vf False Some v(2) [of d] assms show ?thesis by (simp add: cfg_get_def Let_def)
  qed
qed

end
