(* ===== verification/ResourceGroup.thy ===== *)
theory ResourceGroup
  imports SysConfig
begin

text \<open>
  \<open>sql/utils/resource_group.py\<close>: the resource groups, instances and reviewers a user reaches, and
  the lookups of Django's permission groups the approval code makes. A reverse relation
  (\<open>users_set\<close>, \<open>users=user\<close>) is read off the rows of the users table.
\<close>

definition user_groups :: "world \<Rightarrow> user \<Rightarrow> resource_group list res" where
  "user_groups w u =
     (if u_is_superuser u then Inr (tbl_filter (\<lambda>g. rg_is_deleted g = 0) (w_resource_groups w))
      else bindE (tbl_get ''Users'' (\<lambda>x. u_id x = u_id u) (w_users w)) (\<lambda>x.
        Inr (tbl_filter (\<lambda>g. rg_group_id g \<in> set (u_resource_group x) \<and> rg_is_deleted g = 0)
               (w_resource_groups w))))"

text \<open>The groups of \<open>ResourceGroup.objects.filter(users=user, is_deleted=0)\<close>.\<close>

definition resource_groups_of :: "world \<Rightarrow> user \<Rightarrow> resource_group list" where
  "resource_groups_of w u =
     tbl_filter (\<lambda>g. tbl_exists (\<lambda>x. u_id x = u_id u \<and> rg_group_id g \<in> set (u_resource_group x)) (w_users w)
                     \<and> rg_is_deleted g = 0) (w_resource_groups w)"

definition has_tag :: "world \<Rightarrow> instance_row \<Rightarrow> (instance_tag \<Rightarrow> bool) \<Rightarrow> bool" where
  "has_tag w i P = tbl_exists (\<lambda>t. it_id t \<in> set (i_instance_tag i) \<and> P t) (w_tags w)"

text \<open>An argument left at \<open>None\<close> is the empty text or list, which the code treats alike.\<close>

definition user_instances ::
  "world \<Rightarrow> user \<Rightarrow> string \<Rightarrow> string list \<Rightarrow> string list \<Rightarrow> instance_row list" where
  "user_instances w u ty db_type tag_codes =
     (let instances =
            (if has_perm u ''sql.query_all_instances'' then tbl_rows (w_instances w)
             else tbl_filter (\<lambda>i. \<exists>g \<in> set (resource_groups_of w u).
                                 rg_group_id g \<in> set (i_resource_group i)) (w_instances w));
          by_type = (if ty \<noteq> [] then filter (\<lambda>i. i_type i = ty) instances else instances);
          by_db = (if db_type \<noteq> [] then filter (\<lambda>i. i_db_type i \<in> set db_type) by_type else by_type)
      in fold (\<lambda>code. filter (\<lambda>i. has_tag w i (\<lambda>t. it_tag_code t = code \<and> it_active t)))
           tag_codes by_db)"

definition group_by_id :: "world \<Rightarrow> int \<Rightarrow> auth_group res" where
  "group_by_id w i = tbl_get ''Group'' (\<lambda>g. g_id g = i) (w_groups w)"

text \<open>\<open>Group.objects.get(id=text)\<close>: the ORM converts the text to an integer.\<close>

definition Group_get :: "world \<Rightarrow> string \<Rightarrow> auth_group res" where
  "Group_get w s = bindE (py_int s) (group_by_id w)"

text \<open>Each user is listed once; the code asks only whether the list is empty or holds a user.\<close>

definition auth_group_users :: "world \<Rightarrow> string list \<Rightarrow> int \<Rightarrow> user list res" where
  "auth_group_users w auth_group_names group_id =
     bindE (tbl_get ''ResourceGroup'' (\<lambda>g. rg_group_id g = group_id) (w_resource_groups w)) (\<lambda>rg.
       Inr (tbl_filter (\<lambda>u. rg_group_id rg \<in> set (u_resource_group u)
              \<and> tbl_exists (\<lambda>g. g_id g \<in> set (u_groups u) \<and> g_name g \<in> set auth_group_names) (w_groups w)
              \<and> u_is_active u) (w_users w)))"

section \<open>Lemmas\<close>

lemma auth_group_users_Inr:
  "auth_group_users w ns gid = Inr us \<Longrightarrow> u \<in> set us \<longleftrightarrow>
     u \<in> set (tbl_rows (w_users w)) \<and> gid \<in> set (u_resource_group u) \<and> u_is_active u
     \<and> (\<exists>g \<in> set (tbl_rows (w_groups w)). g_id g \<in> set (u_groups u) \<and> g_name g \<in> set ns)"
  by (auto simp: auth_group_users_def tbl_filter_def tbl_exists_def list_ex_iff
      dest!: tbl_get_Inr elim!: bindE_InrE)

lemma set_fold_filter:
  "set (fold (\<lambda>c. filter (P c)) cs xs) = {x \<in> set xs. \<forall>c \<in> set cs. P c x}"
  by (induction cs arbitrary: xs) auto

text \<open>The instances a user without the blanket permission is offered lie in a live group of his.\<close>

lemma user_instances_in_group:
  assumes "i \<in> set (user_instances w u ty dbs tags)" and "\<not> has_perm u ''sql.query_all_instances''"
  shows "\<exists>g \<in> set (tbl_rows (w_resource_groups w)). rg_is_deleted g = 0
           \<and> rg_group_id g \<in> set (i_resource_group i)
           \<and> (\<exists>x \<in> set (tbl_rows (w_users w)). u_id x = u_id u \<and> rg_group_id g \<in> set (u_resource_group x))"
  using assms
  by (auto simp: user_instances_def Let_def set_fold_filter tbl_filter_def resource_groups_of_def
      tbl_exists_def list_ex_iff split: if_splits)

lemma user_instances_tags:
  assumes "i \<in> set (user_instances w u ty dbs tags)" and "code \<in> set tags"
  shows "\<exists>t \<in> set (tbl_rows (w_tags w)). it_id t \<in> set (i_instance_tag i) \<and> it_tag_code t = code \<and> it_active t"
  using assms
  by (auto simp: user_instances_def Let_def set_fold_filter has_tag_def tbl_exists_def list_ex_iff
      split: if_splits)

end
