(* ===== verification/Regex.thy ===== *)
theory Regex
  imports PyStr
begin

text \<open>
  Python's \<open>re\<close> module for the constructs the repository's patterns use. A pattern is a term of
  \<open>re\<close>; \<open>re_m\<close> enumerates its matches at a position in the order in which the backtracking matcher
  tries them, so the head of the list is the match Python reports. A position is the character
  before it, the text from it on, and the groups captured so far.
\<close>

datatype re =
    Eps
  | Cls "char \<Rightarrow> bool"
  | Seq re re
  | Alt re re
  | Star re
  | LazyStar re
  | Grp nat re
  | Bos
  | Bol
  | Eos
  | WordB

type_synonym pos = "char option \<times> string \<times> (nat \<times> string) list"

abbreviation pos_prev :: "pos \<Rightarrow> char option" where
  "pos_prev p \<equiv> fst p"

abbreviation pos_rest :: "pos \<Rightarrow> string" where
  "pos_rest p \<equiv> fst (snd p)"

abbreviation pos_caps :: "pos \<Rightarrow> (nat \<times> string) list" where
  "pos_caps p \<equiv> snd (snd p)"

definition word_opt :: "char option \<Rightarrow> bool" where
  "word_opt c = (case c of None \<Rightarrow> False | Some d \<Rightarrow> is_word d)"

definition at_word_boundary :: "char option \<Rightarrow> string \<Rightarrow> bool" where
  "at_word_boundary prev s = (word_opt prev \<noteq> (case s of [] \<Rightarrow> False | c # _ \<Rightarrow> is_word c))"

text \<open>\<open>$\<close>: the end of the text, or before a newline that ends it.\<close>

definition at_end :: "string \<Rightarrow> bool" where
  "at_end s = (s = [] \<or> s = [newline])"

function re_m :: "re \<Rightarrow> pos \<Rightarrow> pos list" where
  "re_m Eps p = [p]"
| "re_m (Cls f) p = (case p of (prev, s, caps) \<Rightarrow>
     (case s of [] \<Rightarrow> [] | c # cs \<Rightarrow> if f c then [(Some c, cs, caps)] else []))"
| "re_m (Seq r1 r2) p = concat (map (re_m r2) (re_m r1 p))"
| "re_m (Alt r1 r2) p = re_m r1 p @ re_m r2 p"
| "re_m (Star r) p =
     concat (map (\<lambda>q. if length (pos_rest q) < length (pos_rest p) then re_m (Star r) q else [])
       (re_m r p)) @ [p]"
| "re_m (LazyStar r) p =
     p # concat (map (\<lambda>q. if length (pos_rest q) < length (pos_rest p) then re_m (LazyStar r) q else [])
       (re_m r p))"
| "re_m (Grp n r) p =
     map (\<lambda>(prev, s, caps). (prev, s, (n, take (length (pos_rest p) - length s) (pos_rest p)) # caps))
       (re_m r p)"
| "re_m Bos p = (if pos_prev p = None then [p] else [])"
| "re_m Bol p = (if pos_prev p = None \<or> pos_prev p = Some newline then [p] else [])"
| "re_m Eos p = (if at_end (pos_rest p) then [p] else [])"
| "re_m WordB p = (if at_word_boundary (pos_prev p) (pos_rest p) then [p] else [])"
  by pat_completeness auto
termination
  by (relation "measure size <*lex*> measure (\<lambda>p. length (pos_rest p))") auto

declare re_m.simps(5,6) [simp del]

text \<open>Derived forms.\<close>

fun lit :: "string \<Rightarrow> re" where
  "lit [] = Eps"
| "lit (c # cs) = Seq (Cls (\<lambda>d. d = c)) (lit cs)"

text \<open>A literal under \<open>re.I\<close>; the text is given in lower case.\<close>

fun lit_ci :: "string \<Rightarrow> re" where
  "lit_ci [] = Eps"
| "lit_ci (c # cs) = Seq (Cls (\<lambda>d. lower_char d = c)) (lit_ci cs)"

fun alts :: "re list \<Rightarrow> re" where
  "alts [] = Cls (\<lambda>_. False)"
| "alts [r] = r"
| "alts (r # rs) = Alt r (alts rs)"

definition Plus :: "re \<Rightarrow> re" where
  "Plus r = Seq r (Star r)"

definition Opt :: "re \<Rightarrow> re" where
  "Opt r = Alt r Eps"

definition space_re :: re where
  "space_re = Cls is_space"

definition not_nl :: re where
  "not_nl = Cls (\<lambda>c. c \<noteq> newline)"

definition any_char :: re where
  "any_char = Cls (\<lambda>_. True)"

section \<open>match, search, sub, split\<close>

definition re_match_at :: "re \<Rightarrow> char option \<Rightarrow> string \<Rightarrow> pos option" where
  "re_match_at r prev s = (case re_m r (prev, s, []) of [] \<Rightarrow> None | q # _ \<Rightarrow> Some q)"

text \<open>\<open>re.match(p, s)\<close> as a truth value.\<close>

definition re_match :: "re \<Rightarrow> string \<Rightarrow> bool" where
  "re_match r s = (re_m r (None, s, []) \<noteq> [])"

text \<open>\<open>re.search\<close>: the first position with a match; the text before it, and the match.\<close>

fun re_search_from :: "re \<Rightarrow> char option \<Rightarrow> string \<Rightarrow> (string \<times> string \<times> pos) option" where
  "re_search_from r prev [] = map_option (\<lambda>q. ([], [], q)) (re_match_at r prev [])"
| "re_search_from r prev (c # cs) = (case re_match_at r prev (c # cs) of
       Some q \<Rightarrow> Some ([], c # cs, q)
     | None \<Rightarrow> map_option (\<lambda>(pre, s, q). (c # pre, s, q)) (re_search_from r (Some c) cs))"

definition re_search :: "re \<Rightarrow> string \<Rightarrow> bool" where
  "re_search r s = (re_search_from r None s \<noteq> None)"

definition caps_get :: "nat \<Rightarrow> pos \<Rightarrow> string option" where
  "caps_get n q = map_of (pos_caps q) n"

text \<open>\<open>re.sub(p, f, s)\<close>.\<close>

function re_sub_from :: "re \<Rightarrow> (string \<Rightarrow> pos \<Rightarrow> string) \<Rightarrow> char option \<Rightarrow> string \<Rightarrow> string" where
  "re_sub_from r f prev s = (case re_match_at r prev s of
       None \<Rightarrow> (case s of [] \<Rightarrow> [] | c # cs \<Rightarrow> c # re_sub_from r f (Some c) cs)
     | Some q \<Rightarrow>
         (if length (pos_rest q) < length s
          then f (take (length s - length (pos_rest q)) s) q @ re_sub_from r f (pos_prev q) (pos_rest q)
          else (case s of [] \<Rightarrow> f [] q | c # cs \<Rightarrow> f [] q @ c # re_sub_from r f (Some c) cs)))"
  by pat_completeness auto
termination
  by (relation "measure (\<lambda>(r, f, prev, s). length s)") auto

definition re_sub :: "re \<Rightarrow> string \<Rightarrow> string \<Rightarrow> string" where
  "re_sub r repl s = re_sub_from r (\<lambda>_ _. repl) None s"

declare re_sub_from.simps [simp del]

section \<open>Lemmas\<close>

text \<open>What is left is a suffix of the text.\<close>

lemma re_m_suffix: "q \<in> set (re_m r p) \<Longrightarrow> suffix (pos_rest q) (pos_rest p)"
proof (induction r p arbitrary: q rule: re_m.induct)
  case (2 f p)
  then show ?case by (cases p) (auto split: list.splits if_splits intro: suffix_ConsI)
next
  case (3 r1 r2 p)
  then obtain u where "u \<in> set (re_m r1 p)" "q \<in> set (re_m r2 u)" by auto
  with "3.IH" show ?case by (meson suffix_order.trans)
next
  case (5 r p)
  then consider "q = p" | u where "u \<in> set (re_m r p)" "length (pos_rest u) < length (pos_rest p)"
    "q \<in> set (re_m (Star r) u)"
    by (subst (asm) (2) re_m.simps) (auto split: if_splits)
  then show ?case
  proof cases
    case 2
    with "5.IH"(1) [of u] "5.IH"(2) [of u q] show ?thesis by (meson suffix_order.trans)
  qed simp
next
  case (6 r p)
  then consider "q = p" | u where "u \<in> set (re_m r p)" "length (pos_rest u) < length (pos_rest p)"
    "q \<in> set (re_m (LazyStar r) u)"
    by (subst (asm) (2) re_m.simps) (auto split: if_splits)
  then show ?case
  proof cases
    case 2
    with "6.IH"(1) [of u] "6.IH"(2) [of u q] show ?thesis by (meson suffix_order.trans)
  qed simp
qed (auto split: if_splits)

lemma re_m_length: "q \<in> set (re_m r p) \<Longrightarrow> length (pos_rest q) \<le> length (pos_rest p)"
  by (intro suffix_length_le re_m_suffix)

lemma re_match_at_suffix: "re_match_at r prev s = Some q \<Longrightarrow> suffix (pos_rest q) s"
proof -
  assume "re_match_at r prev s = Some q"
  then have "q \<in> set (re_m r (prev, s, []))" by (auto simp: re_match_at_def split: list.splits)
  from re_m_suffix [OF this] show ?thesis by simp
qed

text \<open>Deleting matches adds no character.\<close>

lemma set_re_sub_from_delete: "set (re_sub_from r (\<lambda>_ _. []) prev s) \<subseteq> set s"
proof (induction r "\<lambda>(_::string) (_::pos). []::string" prev s rule: re_sub_from.induct)
  case (1 r prev s)
  show ?case
  proof (cases "re_match_at r prev s")
    case None
    show ?thesis
    proof (cases s)
      case Nil
      with None show ?thesis by (subst re_sub_from.simps) simp
    next
      case (Cons c cs)
      with None "1"(1) show ?thesis by (subst re_sub_from.simps) auto
    qed
  next
    case (Some q)
    then have sub: "set (pos_rest q) \<subseteq> set s" by (intro set_mono_suffix re_match_at_suffix)
    show ?thesis
    proof (cases "length (pos_rest q) < length s")
      case True
      with Some "1"(2) [OF Some True] sub show ?thesis
        by (subst re_sub_from.simps) auto
    next
      case False
      with Some "1"(3) [OF Some False] show ?thesis
        by (subst re_sub_from.simps) (auto split: list.splits)
    qed
  qed
qed

lemma set_re_sub_delete: "set (re_sub r [] s) \<subseteq> set s"
  by (simp add: re_sub_def set_re_sub_from_delete)

text \<open>Literals match exactly the texts that start with them.\<close>

definition last_opt :: "char option \<Rightarrow> string \<Rightarrow> char option" where
  "last_opt prev s = (if s = [] then prev else Some (last s))"

lemma re_m_lit_ci:
  "re_m (lit_ci w) (prev, s, caps) =
    (if starts_with (lower s) w then [(last_opt prev (take (length w) s), drop (length w) s, caps)] else [])"
proof (induction w arbitrary: prev s)
  case Nil
  show ?case by (simp add: starts_with_def last_opt_def)
next
  case (Cons c w)
  show ?case
  proof (cases s)
    case Nil
    then show ?thesis by (simp add: starts_with_def)
  next
    case (Cons d t)
    with Cons.IH [of "Some d" t] show ?thesis
      by (auto simp: starts_with_def lower_def last_opt_def)
  qed
qed

lemma re_m_lit:
  "re_m (lit w) (prev, s, caps) =
    (if starts_with s w then [(last_opt prev (take (length w) s), drop (length w) s, caps)] else [])"
proof (induction w arbitrary: prev s)
  case Nil
  show ?case by (simp add: starts_with_def last_opt_def)
next
  case (Cons c w)
  show ?case
  proof (cases s)
    case Nil
    then show ?thesis by (simp add: starts_with_def)
  next
    case (Cons d t)
    with Cons.IH [of "Some d" t] show ?thesis
      by (auto simp: starts_with_def last_opt_def)
  qed
qed

text \<open>\<open>^w\b\<close> under \<open>re.I\<close>, for a word \<open>w\<close> of word characters: the first word of the text is \<open>w\<close>.\<close>

definition word_cmd :: "string \<Rightarrow> re" where
  "word_cmd w = Seq Bos (Seq (lit_ci w) WordB)"

definition follows_boundary :: "string \<Rightarrow> bool" where
  "follows_boundary s = (case s of [] \<Rightarrow> True | c # _ \<Rightarrow> \<not> is_word c)"

lemma is_word_lower_char: "is_word (lower_char c) \<longleftrightarrow> is_word c"
  by (auto simp: is_word_def lower_char_def is_upper_ascii_def is_lower_ascii_def is_digit_def)

lemma re_match_word_cmd:
  assumes "w \<noteq> []" and "is_word (last w)"
  shows "re_match (word_cmd w) s \<longleftrightarrow> starts_with (lower s) w \<and> follows_boundary (drop (length w) s)"
proof (cases "starts_with (lower s) w")
  case False
  then show ?thesis by (simp add: re_match_def word_cmd_def re_m_lit_ci)
next
  case True
  let ?t = "take (length w) s"
  from True have eq: "lower ?t = w"
    by (simp add: starts_with_def lower_def take_map)
  with assms have ne: "?t \<noteq> []" by (auto simp: lower_def)
  have "last w = lower_char (last ?t)"
    using eq ne by (metis lower_def last_map)
  with assms(2) have "is_word (last ?t)" by (simp add: is_word_lower_char)
  then show ?thesis
    using True ne
    by (auto simp: re_match_def word_cmd_def re_m_lit_ci last_opt_def word_opt_def
        at_word_boundary_def follows_boundary_def split: list.splits)
qed

end
