(* ===== verification/SqlText.thy ===== *)
theory SqlText
  imports Regex Models
begin

text \<open>
  \<open>sql/utils/sql_utils.py\<close>: comment removal, statement classification, literal masking before
  text leaves for a language model, the gate in front of \<open>EXPLAIN\<close>, collection names of mongo
  statements, DDL text for PostgreSQL tables, and the filter on database names. The patterns are
  those of the source, written as terms of the theory \<open>Regex\<close>. \<open>sqlparse\<close> and the
  compilation of a configured pattern are parameters.
\<close>

definition chr_re :: "char \<Rightarrow> re" where
  "chr_re c = Cls (\<lambda>d. d = c)"

definition dquote :: char where
  "dquote = CHR 0x22"

definition squote :: char where
  "squote = CHR 0x27"

definition quoted_re :: "char \<Rightarrow> re" where
  "quoted_re q = Seq (chr_re q) (Seq (LazyStar any_char) (chr_re q))"

definition block_comment_re :: re where
  "block_comment_re = Seq (lit ''/*'') (Seq (LazyStar any_char) (lit ''*/''))"

definition to_newline_re :: re where
  "to_newline_re = Seq (Star not_nl) (chr_re newline)"

definition sql_comments_re :: "string \<Rightarrow> re list" where
  "sql_comments_re db_type =
     (if db_type = ''oracle'' then
        [Seq (lit ''--'') to_newline_re,
         Seq (Alt (Cls (\<lambda>c. \<not> is_word c)) Bol)
           (Seq (Alt (lit ''remark'') (lit ''rem'')) (Seq (Plus space_re) to_newline_re))]
      else if db_type = ''pgsql'' then [Seq (lit ''--'') to_newline_re]
      else [Seq (Alt (lit ''#'') (Seq (lit ''--'') space_re)) to_newline_re])"

definition comment_re :: "string \<Rightarrow> re" where
  "comment_re db_type =
     Alt (Grp 1 (Alt (quoted_re dquote) (quoted_re squote)))
         (Grp 2 (alts (block_comment_re # sql_comments_re db_type)))"

definition comment_replacer :: "string \<Rightarrow> pos \<Rightarrow> string" where
  "comment_replacer m q = (case caps_get 2 q of
       Some (c # cs) \<Rightarrow> []
     | _ \<Rightarrow> (case caps_get 1 q of Some g \<Rightarrow> g | None \<Rightarrow> []))"

definition remove_comments :: "string \<Rightarrow> string \<Rightarrow> string" where
  "remove_comments sql db_type =
     strip (re_sub_from (comment_re db_type) comment_replacer None sql)"

text \<open>\<open>parse_ttype\<close>: the token type sqlparse gives the first token of the first statement.\<close>

definition ddl_words :: "string list" where
  "ddl_words = [''alter'', ''create'', ''drop'', ''rename'', ''truncate'']"

definition starts_re :: "string list \<Rightarrow> re" where
  "starts_re ws = alts (map (\<lambda>w. Seq Bos (lit_ci w)) ws)"

definition load_re :: "string \<Rightarrow> re" where
  "load_re w = Seq Bos (Seq (lit_ci ''load'') (Seq (Plus space_re) (lit_ci w)))"

definition get_syntax_type ::
  "(string \<Rightarrow> string res) \<Rightarrow> string \<Rightarrow> bool \<Rightarrow> string \<Rightarrow> string option" where
  "get_syntax_type parse_ttype sql0 parser db_type =
     (let sql = remove_comments sql0 db_type in
      if parser then
        (case parse_ttype sql of
           Inl e \<Rightarrow> None
         | Inr t \<Rightarrow> Some (if t = ''Token.Keyword.DDL'' then ''DDL''
                        else if t = ''Token.Keyword.DML'' then ''DML'' else t))
      else if db_type \<notin> set [''mysql'', ''oracle'', ''pgsql''] then None
      else
        (let dml_re =
          (if db_type = ''mysql'' then
             alts (map (\<lambda>w. Seq Bos (lit_ci w)) [''call'', ''delete'', ''do'', ''handler'', ''insert'']
               @ [load_re ''data'', load_re ''xml'']
               @ map (\<lambda>w. Seq Bos (lit_ci w)) [''replace'', ''select'', ''update''])
           else if db_type = ''oracle'' then
             starts_re [''delete'', ''exec'', ''insert'', ''select'', ''update'', ''with'', ''merge'']
           else
             starts_re [''call'', ''delete'', ''insert'', ''select'', ''update'', ''with'', ''merge''])
         in if re_match (starts_re ddl_words) sql then Some ''DDL''
            else if re_match dml_re sql then Some ''DML''
            else None))"

definition digit_re :: re where
  "digit_re = Cls is_digit"

definition string_literal_re :: re where
  "string_literal_re =
     Seq (chr_re squote)
       (Seq (Star (Alt (Cls (\<lambda>c. c \<noteq> squote \<and> c \<noteq> CHR 0x5C)) (Seq (chr_re (CHR 0x5C)) not_nl)))
         (chr_re squote))"

definition number_literal_re :: re where
  "number_literal_re =
     Seq WordB (Seq (Plus digit_re)
       (Seq (Opt (Seq (chr_re (CHR ''.'')) (Plus digit_re)))
         (Seq (Opt (Seq (Cls (\<lambda>c. c = CHR ''e'' \<or> c = CHR ''E''))
                 (Seq (Opt (Cls (\<lambda>c. c = CHR ''+'' \<or> c = CHR ''-''))) (Plus digit_re))))
           WordB)))"

definition mask_sql_literals :: "string \<Rightarrow> string" where
  "mask_sql_literals sql_text =
     (if sql_text = [] then sql_text
      else re_sub number_literal_re ''0''
             (re_sub string_literal_re [squote, CHR ''?'', squote] sql_text))"

section \<open>Mongo collections\<close>

function re_finditer :: "re \<Rightarrow> char option \<Rightarrow> string \<Rightarrow> pos list" where
  "re_finditer r prev s = (case re_match_at r prev s of
       None \<Rightarrow> (case s of [] \<Rightarrow> [] | c # cs \<Rightarrow> re_finditer r (Some c) cs)
     | Some q \<Rightarrow>
         (if length (pos_rest q) < length s then q # re_finditer r (pos_prev q) (pos_rest q)
          else (case s of [] \<Rightarrow> [q] | c # cs \<Rightarrow> q # re_finditer r (Some c) cs)))"
  by pat_completeness auto
termination
  by (relation "measure (\<lambda>(r, prev, s). length s)") auto

declare re_finditer.simps [simp del]

definition word_re :: re where
  "word_re = Cls is_word"

definition name_chars_re :: re where
  "name_chars_re = Plus (Cls (\<lambda>c. is_word c \<or> c = CHR ''-'' \<or> c = CHR ''.''))"

definition quote_re :: re where
  "quote_re = Cls (\<lambda>c. c = squote \<or> c = dquote)"

definition mongo_coll_res :: "re list" where
  "mongo_coll_res =
    [Seq WordB (Seq (lit ''db.'')
       (Seq (Grp 1 (Seq (Cls (\<lambda>c. is_upper_ascii c \<or> is_lower_ascii c \<or> c = CHR ''_'')) (Star word_re)))
         (Seq (lit ''.'') (Seq (Star space_re)
           (Seq (alts (map lit [''find'', ''findOne'', ''aggregate'', ''count'', ''countDocuments'',
                   ''estimatedDocumentCount'', ''distinct'', ''updateOne'', ''updateMany'',
                   ''deleteOne'', ''deleteMany'', ''replaceOne'', ''insertOne'', ''insertMany'']))
             (Seq (Star space_re) (lit ''('')))))) ),
     Seq WordB (Seq (lit ''db.getCollection'') (Seq (Star space_re) (Seq (lit ''('')
       (Seq (Star space_re) (Seq quote_re (Seq (Grp 1 name_chars_re)
         (Seq quote_re (Seq (Star space_re) (lit '')''))))))))),
     Seq WordB (Seq (lit ''db['') (Seq quote_re (Seq (Grp 1 name_chars_re)
       (Seq quote_re (lit '']'')))))]"

fun add_names :: "string list \<Rightarrow> pos list \<Rightarrow> string list" where
  "add_names names [] = names"
| "add_names names (m # ms) = (case caps_get 1 m of
       Some n \<Rightarrow> add_names (if n \<noteq> [] \<and> n \<notin> set names then names @ [n] else names) ms
     | None \<Rightarrow> add_names names ms)"

definition extract_mongo_collections :: "string \<Rightarrow> string list" where
  "extract_mongo_collections sql =
     fold (\<lambda>pat names. add_names names (re_finditer pat None sql)) mongo_coll_res []"

fun upto_re :: "nat \<Rightarrow> re \<Rightarrow> re" where
  "upto_re 0 r = Eps"
| "upto_re (Suc n) r = Opt (Seq r (upto_re n r))"

definition collection_name_re :: re where
  "collection_name_re =
     Seq word_re (upto_re 120 (Cls (\<lambda>c. is_word c \<or> c = CHR ''-'' \<or> c = CHR ''.'')))"

definition re_fullmatch :: "re \<Rightarrow> string \<Rightarrow> bool" where
  "re_fullmatch r s = list_ex (\<lambda>q. pos_rest q = []) (re_m r (None, s, []))"

definition valid_collection_name :: "string \<Rightarrow> bool" where
  "valid_collection_name name =
     (name \<noteq> [] \<and> length name \<le> 120 \<and> re_fullmatch collection_name_re name)"

section \<open>PostgreSQL table text\<close>

record pg_column =
  pgc_column_name :: string
  pgc_data_type :: string
  pgc_char_max_len :: "int option"
  pgc_is_nullable :: string
  pgc_column_default :: string
  pgc_description :: string

definition pg_column_line :: "pg_column \<Rightarrow> string" where
  "pg_column_line row =
     (let t0 = (if pgc_data_type row \<noteq> [] then pgc_data_type row else ''text'');
          type_str = (case pgc_char_max_len row of
              Some n \<Rightarrow> if n \<noteq> 0 \<and> t0 \<in> set [''character varying'', ''varchar'', ''char'']
                        then t0 @ ''('' @ str_int n @ '')'' else t0
            | None \<Rightarrow> t0);
          parts = [pgc_column_name row, type_str]
            @ (if pgc_is_nullable row = ''NO'' then [''NOT NULL''] else [])
            @ (if pgc_column_default row \<noteq> [] then [''DEFAULT '' @ pgc_column_default row] else [])
            @ (if pgc_description row \<noteq> [] then [''-- '' @ pgc_description row] else [])
      in ''    '' @ join '' '' parts)"

definition pg_rows_to_ddl :: "string \<Rightarrow> pg_column list \<Rightarrow> string" where
  "pg_rows_to_ddl tb_name rows =
     ''CREATE TABLE '' @ tb_name @ '' ('' @ [newline]
     @ join ('','' @ [newline]) (map pg_column_line rows) @ [newline] @ '');''"

section \<open>The gate in front of EXPLAIN\<close>

definition explain_comment_re :: re where
  "explain_comment_re = Alt (Seq (lit ''--'') (Star not_nl)) block_comment_re"

definition explain_head_re :: re where
  "explain_head_re =
     Seq Bos (Seq (Star space_re) (Seq (Alt (lit_ci ''select'') (lit_ci ''with'')) WordB))"

definition into_file_re :: re where
  "into_file_re =
     Seq WordB (Seq (lit_ci ''into'') (Seq (Plus space_re)
       (Seq (Alt (lit_ci ''outfile'') (lit_ci ''dumpfile'')) WordB)))"

definition sanitize_explain_sql :: "string \<Rightarrow> string option \<times> string option" where
  "sanitize_explain_sql sql_text =
     (if strip sql_text = [] then (None, Some ''empty sql text'')
      else let first_sql = strip (hd (split_on (CHR '';'') (strip sql_text))) in
        if first_sql = [] then (None, Some ''empty sql text'')
        else let clean_sql = re_sub explain_comment_re [] first_sql in
          if \<not> re_match explain_head_re clean_sql then (None, Some ''only SELECT/WITH can be explained'')
          else if re_search into_file_re clean_sql then (None, Some ''INTO OUTFILE/DUMPFILE refused'')
          else (Some (strip clean_sql), None))"

section \<open>Database name filter\<close>

text \<open>
  \<open>compile_re\<close> compiles a configured pattern, \<open>Inl\<close> for \<open>re.error\<close>. A database of the list is a
  plain name or a dictionary, of which the text of the entry \<open>key\<close> counts.
\<close>

datatype db_entry = DbName string | DbDict "(string \<times> string) list"

definition db_value :: "string \<Rightarrow> db_entry \<Rightarrow> string res" where
  "db_value key db = (case db of
       DbName n \<Rightarrow> Inr n
     | DbDict d \<Rightarrow> (case map_of d key of None \<Rightarrow> Inl (KeyError key) | Some v \<Rightarrow> Inr v))"

fun filter_dbs :: "re \<Rightarrow> bool \<Rightarrow> string \<Rightarrow> db_entry list \<Rightarrow> db_entry list res" where
  "filter_dbs db_regex is_match_regex key [] = Inr []"
| "filter_dbs db_regex is_match_regex key (db # dbs) =
     bindE (db_value key db) (\<lambda>v.
       let is_match = re_match db_regex v in
       bindE (filter_dbs db_regex is_match_regex key dbs) (\<lambda>rest.
         Inr (if is_match_regex \<and> is_match \<or> \<not> is_match_regex \<and> \<not> is_match then db # rest else rest)))"

definition filter_db_list ::
  "(string \<Rightarrow> re res) \<Rightarrow> db_entry list \<Rightarrow> string \<Rightarrow> bool \<Rightarrow> string \<Rightarrow> db_entry list res" where
  "filter_db_list compile_re db_list db_name_regex is_match_regex key =
     (if db_name_regex = [] then Inr db_list
      else (case compile_re db_name_regex of
          Inl e \<Rightarrow> Inl (ValueError (''cannot parse pattern: '' @ db_name_regex))
        | Inr r \<Rightarrow> filter_dbs r is_match_regex key db_list))"

section \<open>Lemmas\<close>

lemma set_strip: "set (strip s) \<subseteq> set s"
proof
  fix x assume "x \<in> set (strip s)"
  then have "x \<in> set (dropWhile is_space (rev (dropWhile is_space s)))" by (simp add: strip_def)
  then have "x \<in> set (rev (dropWhile is_space s))" by (rule set_dropWhileD)
  then have "x \<in> set (dropWhile is_space s)" by simp
  then show "x \<in> set s" by (rule set_dropWhileD)
qed

lemma sanitize_Some:
  assumes "sanitize_explain_sql t = (Some c, e)"
  obtains s where "e = None" "c = strip s" "re_match explain_head_re s" "\<not> re_search into_file_re s"
    "set s \<subseteq> set (hd (split_on (CHR '';'') (strip t)))"
proof -
  let ?first = "strip (hd (split_on (CHR '';'') (strip t)))"
  let ?s = "re_sub explain_comment_re [] ?first"
  have "e = None" "c = strip ?s" "re_match explain_head_re ?s" "\<not> re_search into_file_re ?s"
    using assms by (auto simp: sanitize_explain_sql_def Let_def split: if_splits)
  moreover have "set ?s \<subseteq> set (hd (split_on (CHR '';'') (strip t)))"
    using set_re_sub_delete set_strip by (meson subset_trans)
  ultimately show ?thesis by (rule that)
qed

lemma filter_dbs_split:
  assumes "filter_dbs r True key dbs = Inr xs" and "filter_dbs r False key dbs = Inr ys"
  shows "length xs + length ys = length dbs \<and> set xs \<union> set ys = set dbs"
  using assms
proof (induction dbs arbitrary: xs ys)
  case Nil
  then show ?case by simp
next
  case (Cons db dbs)
  show ?case
  proof (cases "db_value key db")
    case (Inl e)
    with Cons.prems show ?thesis by simp
  next
    case (Inr v)
    with Cons.prems obtain xs' ys' where r: "filter_dbs r True key dbs = Inr xs'"
      "filter_dbs r False key dbs = Inr ys'"
      by (cases "filter_dbs r True key dbs"; cases "filter_dbs r False key dbs") simp_all
    have IH: "length xs' + length ys' = length dbs \<and> set xs' \<union> set ys' = set dbs"
      by (rule Cons.IH [OF r])
    show ?thesis
    proof (cases "re_match r v")
      case True
      with Cons.prems Inr r have "xs = db # xs'" "ys = ys'" by simp_all
      with IH show ?thesis by auto
    next
      case False
      with Cons.prems Inr r have "xs = xs'" "ys = db # ys'" by simp_all
      with IH show ?thesis by auto
    qed
  qed
qed

end
