(* ===== verification/WorkflowAudit.thy ===== *)
theory WorkflowAudit
  imports ResourceGroup SqlText
begin

text \<open>
  \<open>sql/utils/workflow_audit.py\<close>: the approval engine. An \<open>auditor\<close> is an \<open>AuditV2\<close> object: the
  work order and the approval record it holds are copies of rows, separate from the tables until
  they are saved; a method that changes the object returns the changed one. Its configuration
  object is read through \<open>config_get\<close> (by \<open>cfg_get_coherent\<close> a cache gives the same answers).
  A row not yet inserted has key 0. The compilation of the configured pattern, with the flag
  \<open>re.I\<close>, is the parameter \<open>compile_re\<close>.
\<close>

section \<open>Review nodes and settings\<close>

datatype review_node_type = NODE_GROUP | AUTO_PASS

record review_node =
  rn_group :: "auth_group option"
  rn_node_type :: review_node_type
  rn_is_current_node :: bool
  rn_is_passed_node :: bool

definition ReviewNode ::
  "auth_group option \<Rightarrow> review_node_type \<Rightarrow> bool \<Rightarrow> bool \<Rightarrow> review_node res" where
  "ReviewNode g ty cur passed =
     (if ty = NODE_GROUP \<and> g = None then Inl (ValueError ''group not provided'')
      else Inr \<lparr>rn_group = g, rn_node_type = ty, rn_is_current_node = cur, rn_is_passed_node = passed\<rparr>)"

definition is_auto_pass :: "review_node \<Rightarrow> bool" where
  "is_auto_pass n = (rn_node_type n = AUTO_PASS)"

record review_info =
  ri_nodes :: "review_node list"
  ri_current_node_index :: "nat option"

fun readable_step :: "review_node \<Rightarrow> string" where
  "readable_step n = (case rn_group n of
       None \<Rightarrow> ''passed by the system''
     | Some g \<Rightarrow> if rn_is_current_node n then g_name g @ ''(current)''
                else if rn_is_passed_node n then g_name g @ ''(passed)''
                else g_name g)"

text \<open>\<open>readable_info\<close> remembers the last current node it met.\<close>

fun last_current :: "nat \<Rightarrow> review_node list \<Rightarrow> nat option \<Rightarrow> nat option" where
  "last_current i [] x = x"
| "last_current i (n # ns) x =
     last_current (Suc i) ns (if rn_group n \<noteq> None \<and> rn_is_current_node n then Some i else x)"

definition readable_info :: "review_info \<Rightarrow> string \<times> review_info" where
  "readable_info ri =
     (if ri_nodes ri = [] then ''passed by the system'' else join '' -> '' (map readable_step (ri_nodes ri)),
      ri\<lparr>ri_current_node_index := last_current 0 (ri_nodes ri) (ri_current_node_index ri)\<rparr>)"

fun first_current :: "nat \<Rightarrow> review_node list \<Rightarrow> nat option" where
  "first_current i [] = None"
| "first_current i (n # ns) = (if rn_is_current_node n then Some i else first_current (Suc i) ns)"

definition current_node :: "review_info \<Rightarrow> review_node option \<times> review_info" where
  "current_node ri = (case ri_current_node_index ri of
       Some i \<Rightarrow> (Some (ri_nodes ri ! i), ri)
     | None \<Rightarrow> (case first_current 0 (ri_nodes ri) of
           Some i \<Rightarrow> (Some (ri_nodes ri ! i), ri\<lparr>ri_current_node_index := Some i\<rparr>)
         | None \<Rightarrow> (None, ri)))"

record audit_setting =
  as_audit_auth_groups :: "string list"
  as_auto_pass :: bool
  as_auto_reject :: bool

definition audit_auth_group_in_db :: "audit_setting \<Rightarrow> string" where
  "audit_auth_group_in_db s =
     (if as_auto_reject s \<or> as_auto_pass s then '''' else join_comma (as_audit_auth_groups s))"

fun SUPPORTED_OPERATION_GRID :: "workflow_status \<Rightarrow> workflow_action list" where
  "SUPPORTED_OPERATION_GRID WAITING = [PASS, REJECT, ABORT]"
| "SUPPORTED_OPERATION_GRID PASSED = [REJECT, ABORT, EXECUTE_SET_TIME, EXECUTE_START, EXECUTE_END]"
| "SUPPORTED_OPERATION_GRID REJECTED = []"
| "SUPPORTED_OPERATION_GRID ABORTED = []"

section \<open>Work orders\<close>

datatype workflow = WSql sql_workflow | WQuery query_privileges_apply | WArchive archive_config

fun workflow_type_of :: "workflow \<Rightarrow> workflow_type" where
  "workflow_type_of (WSql x) = SQL_REVIEW"
| "workflow_type_of (WQuery x) = QUERY"
| "workflow_type_of (WArchive x) = ARCHIVE"

fun workflow_pk :: "workflow \<Rightarrow> int" where
  "workflow_pk (WSql x) = sw_id x"
| "workflow_pk (WQuery x) = qa_apply_id x"
| "workflow_pk (WArchive x) = ac_id x"

fun set_audit_auth_groups :: "string \<Rightarrow> workflow \<Rightarrow> workflow" where
  "set_audit_auth_groups s (WSql x) = WSql (x\<lparr>sw_audit_auth_groups := s\<rparr>)"
| "set_audit_auth_groups s (WQuery x) = WQuery (x\<lparr>qa_audit_auth_groups := s\<rparr>)"
| "set_audit_auth_groups s (WArchive x) = WArchive (x\<lparr>ac_audit_auth_groups := s\<rparr>)"

text \<open>\<open>WorkflowAuditMixin.get_audit\<close>.\<close>

definition get_audit :: "world \<Rightarrow> workflow \<Rightarrow> workflow_audit option res" where
  "get_audit w wo =
     (case tbl_get ''WorkflowAudit''
             (\<lambda>a. wa_workflow_type a = workflow_type_of wo \<and> wa_workflow_id a = workflow_pk wo) (w_audits w) of
        Inr a \<Rightarrow> Inr (Some a)
      | Inl e \<Rightarrow> if is_DoesNotExist e then Inr None else Inl e)"

text \<open>\<open>WorkflowAudit.get_workflow\<close>.\<close>

definition audit_get_workflow :: "world \<Rightarrow> workflow_audit \<Rightarrow> workflow res" where
  "audit_get_workflow w a = (case wa_workflow_type a of
       QUERY \<Rightarrow> bindE (tbl_get ''QueryPrivilegesApply'' (\<lambda>x. qa_apply_id x = wa_workflow_id a) (w_applies w))
                  (\<lambda>x. Inr (WQuery x))
     | SQL_REVIEW \<Rightarrow> bindE (tbl_get ''SqlWorkflow'' (\<lambda>x. sw_id x = wa_workflow_id a) (w_workflows w))
                  (\<lambda>x. Inr (WSql x))
     | ARCHIVE \<Rightarrow> bindE (tbl_get ''ArchiveConfig'' (\<lambda>x. ac_id x = wa_workflow_id a) (w_archives w))
                  (\<lambda>x. Inr (WArchive x)))"

text \<open>\<open>save()\<close> of the three kinds of work order.\<close>

fun workflow_save :: "workflow \<Rightarrow> (world, workflow) M" where
  "workflow_save (WSql x) = (\<lambda>w.
     if sw_id x = 0 then
       (let x' = x\<lparr>sw_create_time := w_now w\<rparr> in
        (Inr (WSql (tbl_created set_sw_id x' (w_workflows w))),
         w\<lparr>w_workflows := tbl_create set_sw_id x' (w_workflows w)\<rparr>))
     else (Inr (WSql x), w\<lparr>w_workflows := tbl_save sw_id x (w_workflows w)\<rparr>))"
| "workflow_save (WQuery x) = (\<lambda>w.
     if qa_apply_id x = 0 then
       (let x' = x\<lparr>qa_create_time := w_now w, qa_sys_time := w_now w\<rparr> in
        (Inr (WQuery (tbl_created set_qa_id x' (w_applies w))),
         w\<lparr>w_applies := tbl_create set_qa_id x' (w_applies w)\<rparr>))
     else (let x' = x\<lparr>qa_sys_time := w_now w\<rparr> in
        (Inr (WQuery x'), w\<lparr>w_applies := tbl_save qa_apply_id x' (w_applies w)\<rparr>)))"
| "workflow_save (WArchive x) = (\<lambda>w.
     if ac_id x = 0 then
       (let x' = x\<lparr>ac_create_time := w_now w, ac_sys_time := w_now w\<rparr> in
        (Inr (WArchive (tbl_created set_ac_id x' (w_archives w))),
         w\<lparr>w_archives := tbl_create set_ac_id x' (w_archives w)\<rparr>))
     else (let x' = x\<lparr>ac_sys_time := w_now w\<rparr> in
        (Inr (WArchive x'), w\<lparr>w_archives := tbl_save ac_id x' (w_archives w)\<rparr>)))"

text \<open>\<open>WorkflowAudit.save()\<close>: (\<open>workflow_id\<close>, \<open>workflow_type\<close>) is unique.\<close>

definition audit_save :: "workflow_audit \<Rightarrow> (world, workflow_audit) M" where
  "audit_save a = (\<lambda>w.
     if wa_audit_id a = 0 then
       (if tbl_exists (\<lambda>r. wa_workflow_id r = wa_workflow_id a \<and> wa_workflow_type r = wa_workflow_type a)
             (w_audits w)
        then (Inl (IntegrityError ''Duplicate entry''), w)
        else let a' = a\<lparr>wa_create_time := w_now w, wa_sys_time := w_now w\<rparr> in
          (Inr (tbl_created set_wa_id a' (w_audits w)), w\<lparr>w_audits := tbl_create set_wa_id a' (w_audits w)\<rparr>))
     else let a' = a\<lparr>wa_sys_time := w_now w\<rparr> in
       (Inr a', w\<lparr>w_audits := tbl_save wa_audit_id a' (w_audits w)\<rparr>))"

definition detail_create ::
  "int \<Rightarrow> string \<Rightarrow> workflow_status \<Rightarrow> string \<Rightarrow> (world, workflow_audit_detail) M" where
  "detail_create audit_id audit_user audit_status remark = (\<lambda>w.
     let d = \<lparr>wad_audit_detail_id = 0, wad_audit_id = audit_id, wad_audit_user = audit_user,
              wad_audit_time = w_now w, wad_audit_status = audit_status, wad_remark = remark,
              wad_sys_time = w_now w\<rparr>
     in (Inr (tbl_created set_wad_id d (w_details w)), w\<lparr>w_details := tbl_create set_wad_id d (w_details w)\<rparr>))"

text \<open>\<open>Audit.add_log\<close>, and \<open>WorkflowLog.objects.create\<close> with the same columns.\<close>

definition add_log ::
  "int \<Rightarrow> int \<Rightarrow> string \<Rightarrow> string \<Rightarrow> string \<Rightarrow> string \<Rightarrow> (world, workflow_log) M" where
  "add_log audit_id operation_type operation_type_desc operation_info oper operator_display = (\<lambda>w.
     let l = \<lparr>wl_id = 0, wl_audit_id = audit_id, wl_operation_type = operation_type,
              wl_operation_type_desc = operation_type_desc, wl_operation_info = operation_info,
              wl_operator = oper, wl_operator_display = operator_display,
              wl_operation_time = w_now w\<rparr>
     in (Inr (tbl_created set_wl_id l (w_logs w)), w\<lparr>w_logs := tbl_create set_wl_id l (w_logs w)\<rparr>))"

section \<open>The auditor\<close>

record auditor =
  au_workflow :: workflow
  au_audit :: "workflow_audit option"
  au_workflow_type :: workflow_type
  au_resource_group :: string
  au_resource_group_id :: int

text \<open>\<open>__post_init__\<close>, with \<open>get_workflow\<close>.\<close>

definition AuditV2 ::
  "world \<Rightarrow> workflow option \<Rightarrow> workflow_audit option \<Rightarrow> string \<Rightarrow> int \<Rightarrow> auditor res" where
  "AuditV2 w workflow0 audit0 resource_group0 resource_group_id0 =
     bindE (case workflow0 of
         Some wo \<Rightarrow> Inr (wo, resource_group0, resource_group_id0)
       | None \<Rightarrow> (case audit0 of
             None \<Rightarrow> Inl (ValueError ''a WorkflowAudit or a workflow is needed'')
           | Some a \<Rightarrow> bindE (audit_get_workflow w a) (\<lambda>wo.
               if wa_workflow_type a = ARCHIVE then Inr (wo, wa_group_name a, wa_group_id a)
               else Inr (wo, resource_group0, resource_group_id0))))
       (\<lambda>(wo, rg, rgid).
         bindE (case wo of
             WSql x \<Rightarrow> Inr (sw_group_name x, sw_group_id x)
           | WArchive x \<Rightarrow>
               (case tbl_get ''ResourceGroup'' (\<lambda>g. rg_group_name g = rg) (w_resource_groups w) of
                  Inr g \<Rightarrow> Inr (rg, rg_group_id g)
                | Inl e \<Rightarrow> if is_DoesNotExist e
                          then Inl (AuditException (''resource group not found: '' @ rg)) else Inl e)
           | WQuery x \<Rightarrow> Inr (qa_group_name x, qa_group_id x))
         (\<lambda>(rg', rgid').
           bindE (case audit0 of Some a \<Rightarrow> Inr (Some a) | None \<Rightarrow> get_audit w wo) (\<lambda>a.
             Inr \<lparr>au_workflow = wo, au_audit = a, au_workflow_type = workflow_type_of wo,
                  au_resource_group = rg', au_resource_group_id = rgid'\<rparr>)))"

text \<open>\<open>get_auditor(workflow=wo)\<close> and \<open>get_auditor(audit=a)\<close>, with the default \<open>CURRENT_AUDITOR\<close>.\<close>

definition get_auditor :: "world \<Rightarrow> workflow \<Rightarrow> auditor res" where
  "get_auditor w wo = AuditV2 w (Some wo) None '''' 0"

definition get_auditor_of_audit :: "world \<Rightarrow> workflow_audit \<Rightarrow> auditor res" where
  "get_auditor_of_audit w a = AuditV2 w None (Some a) '''' 0"

text \<open>The names of a chain of groups; the first one that fails decides.\<close>

definition group_names :: "world \<Rightarrow> string list \<Rightarrow> string list res" where
  "group_names w ids = mapE (\<lambda>i. bindE (Group_get w i) (\<lambda>g. Inr (g_name g))) ids"

definition review_info_text :: "world \<Rightarrow> workflow_audit \<Rightarrow> (string \<times> string option) res" where
  "review_info_text w a =
     bindE (if wa_audit_auth_groups a = '''' then Inr ''no review needed''
            else (case group_names w (split_comma (wa_audit_auth_groups a)) of
                Inr ns \<Rightarrow> Inr (join ''->'' ns)
              | Inl e \<Rightarrow> if is_DoesNotExist e then Inr (wa_audit_auth_groups a) else Inl e))
       (\<lambda>audit_auth_group.
         bindE (if wa_current_audit a = ''-1'' then Inr None
                else (case Group_get w (wa_current_audit a) of
                    Inr g \<Rightarrow> Inr (Some (g_name g))
                  | Inl e \<Rightarrow> if is_DoesNotExist e then Inr (Some (wa_current_audit a)) else Inl e))
           (\<lambda>current. Inr (audit_auth_group, current)))"

text \<open>\<open>self.workflow.sqlworkflowcontent\<close>.\<close>

definition content_of :: "world \<Rightarrow> int \<Rightarrow> sql_workflow_content res" where
  "content_of w i = tbl_get ''SqlWorkflowContent'' (\<lambda>c. swc_workflow c = i) (w_contents w)"

definition count_errlevel :: "int \<Rightarrow> review_result list \<Rightarrow> nat" where
  "count_errlevel lv rows = length (filter (\<lambda>r. rr_errlevel r = lv) rows)"

definition is_auto_reject :: "world \<Rightarrow> auditor \<Rightarrow> bool res" where
  "is_auto_reject w au = (case au_workflow au of
       WSql x \<Rightarrow>
         (let auto_review_wrong = config_get w ''auto_review_wrong'' (PStr '''') in
          bindE (content_of w (sw_id x)) (\<lambda>c.
          bindE (case swc_review_content c of NoText \<Rightarrow> Inr [] | t \<Rightarrow> json_rows t) (\<lambda>rows.
            Inr (0 < count_errlevel 1 rows \<and> auto_review_wrong = PStr ''1''
                 \<or> 0 < count_errlevel 2 rows
                   \<and> auto_review_wrong \<in> set [PStr '''', PStr ''1'', PStr ''2'']))))
     | _ \<Rightarrow> Inr False)"

definition default_auto_review_regex :: string where
  "default_auto_review_regex =
    ''^alter|^create|^drop|^truncate|^rename|^delete|^del|^flushdb|^flushall|^lpop|^rpop''"

text \<open>The loop over the statements: \<open>None\<close> when one matches, otherwise the affected rows.\<close>

definition stripped_sql :: "string \<Rightarrow> string" where
  "stripped_sql s = filter (\<lambda>c. c \<noteq> newline \<and> c \<noteq> char_of (13::nat)) (remove_comments s ''mysql'')"

fun auto_review_rows :: "re \<Rightarrow> review_result list \<Rightarrow> int \<Rightarrow> int option res" where
  "auto_review_rows p [] n = Inr (Some n)"
| "auto_review_rows p (r # rs) n =
     (if re_match p (stripped_sql (rr_sql r)) then Inr None
      else bindE (pyval_int (rr_affected_rows r)) (\<lambda>k. auto_review_rows p rs (n + k)))"

text \<open>\<open>re.compile(value, re.I)\<close> of a configured value.\<close>

fun compile_value :: "(string \<Rightarrow> re res) \<Rightarrow> pyval \<Rightarrow> re res" where
  "compile_value compile_re (PStr s) = compile_re s"
| "compile_value compile_re _ = Inl (TypeError ''first argument must be string or compiled pattern'')"

definition instance_by_id :: "world \<Rightarrow> int \<Rightarrow> instance_row res" where
  "instance_by_id w i = tbl_get ''Instance'' (\<lambda>x. i_id x = i) (w_instances w)"

text \<open>The part of \<open>is_auto_review\<close> after the switches: type of database, tag, patterns, rows.\<close>

definition auto_review_instance :: "world \<Rightarrow> sql_workflow \<Rightarrow> bool res" where
  "auto_review_instance w x =
     bindE (pyval_split_comma (config_get w ''auto_review_tag'' (PStr ''''))) (\<lambda>tags.
     bindE (pyval_split_comma (config_get w ''auto_review_db_type'' (PStr ''''))) (\<lambda>dbs.
     bindE (instance_by_id w (sw_instance x)) (\<lambda>i.
       Inr (i_db_type i \<in> set dbs \<and> has_tag w i (\<lambda>t. it_tag_code t \<in> set tags)))))"

definition auto_review_content :: "(string \<Rightarrow> re res) \<Rightarrow> world \<Rightarrow> sql_workflow \<Rightarrow> bool res" where
  "auto_review_content compile_re w x =
     bindE (compile_value compile_re (config_get w ''auto_review_regex'' (PStr default_auto_review_regex))) (\<lambda>p.
     bindE (content_of w (sw_id x)) (\<lambda>c.
     bindE (json_rows (swc_review_content c)) (\<lambda>rows.
     bindE (auto_review_rows p rows 0) (\<lambda>n. case n of
         None \<Rightarrow> Inr False
       | Some k \<Rightarrow> bindE (pyval_int (config_get w ''auto_review_max_update_rows'' (PInt 50))) (\<lambda>m.
           Inr (\<not> (k > m)))))))"

definition is_auto_review :: "(string \<Rightarrow> re res) \<Rightarrow> world \<Rightarrow> auditor \<Rightarrow> bool res" where
  "is_auto_review compile_re w au =
     bindE (is_auto_reject w au) (\<lambda>rejected.
       if rejected then Inr False
       else (case au_workflow au of
           WSql x \<Rightarrow>
             if sw_is_offline_export x \<noteq> 0 then Inr False
             else if \<not> truthy (config_get w ''auto_review'' (PBool False)) then Inr False
             else bindE (auto_review_instance w x) (\<lambda>ok.
                    if ok then auto_review_content compile_re w x else Inr False)
         | _ \<Rightarrow> Inr False))"

section \<open>Creating the approval record\<close>

definition setting_get :: "world \<Rightarrow> workflow_type \<Rightarrow> int \<Rightarrow> workflow_audit_setting res" where
  "setting_get w ty gid =
     tbl_get ''WorkflowAuditSetting'' (\<lambda>s. was_workflow_type s = ty \<and> was_group_id s = gid) (w_settings w)"

fun workflow_type_label :: "workflow_type \<Rightarrow> string" where
  "workflow_type_label QUERY = ''query privilege application''"
| "workflow_type_label SQL_REVIEW = ''SQL release application''"
| "workflow_type_label ARCHIVE = ''data archive application''"

definition setting_group_id :: "auditor \<Rightarrow> int" where
  "setting_group_id au = (case au_workflow au of
       WSql x \<Rightarrow> sw_group_id x | WQuery x \<Rightarrow> qa_group_id x | WArchive x \<Rightarrow> au_resource_group_id au)"

definition generate_audit_setting :: "(string \<Rightarrow> re res) \<Rightarrow> world \<Rightarrow> auditor \<Rightarrow> audit_setting res" where
  "generate_audit_setting compile_re w au =
     (case setting_get w (au_workflow_type au) (setting_group_id au) of
        Inl e \<Rightarrow> if is_DoesNotExist e
                then Inl (AuditException (''no review chain for '' @ workflow_type_label (au_workflow_type au)))
                else Inl e
      | Inr s \<Rightarrow>
          bindE (is_auto_review compile_re w au) (\<lambda>pass.
          bindE (is_auto_reject w au) (\<lambda>reject.
            Inr \<lparr>as_audit_auth_groups = split_comma (was_audit_auth_groups s),
                 as_auto_pass = pass, as_auto_reject = reject\<rparr>)))"

text \<open>Title, resource group and applicant of the record, by kind of work order.\<close>

definition fresh_audit :: "auditor \<Rightarrow> workflow \<Rightarrow> string \<Rightarrow> workflow_audit" where
  "fresh_audit au wo groups =
     (let base = new_WorkflowAudit\<lparr>wa_workflow_id := workflow_pk wo, wa_workflow_type := au_workflow_type au,
          wa_audit_auth_groups := groups, wa_current_audit := ''-1'', wa_next_audit := ''-1''\<rparr>
      in case wo of
        WQuery x \<Rightarrow> base\<lparr>wa_group_id := qa_group_id x, wa_group_name := qa_group_name x,
            wa_workflow_title := qa_title x, wa_create_user := qa_user_name x,
            wa_create_user_display := qa_user_display x\<rparr>
      | WSql x \<Rightarrow> base\<lparr>wa_group_id := sw_group_id x, wa_group_name := sw_group_name x,
            wa_workflow_title := sw_workflow_name x, wa_create_user := sw_engineer x,
            wa_create_user_display := sw_engineer_display x\<rparr>
      | WArchive x \<Rightarrow> base\<lparr>wa_group_id := au_resource_group_id au, wa_group_name := au_resource_group au,
            wa_workflow_title := ac_title x, wa_create_user := ac_user_name x,
            wa_create_user_display := ac_user_display x\<rparr>)"

text \<open>The record of a chain that waits for its first group.\<close>

definition first_waiting :: "string list \<Rightarrow> workflow_audit \<Rightarrow> workflow_audit" where
  "first_waiting groups a = a\<lparr>wa_current_audit := hd groups,
     wa_next_audit := (if length groups = 1 then ''-1'' else groups ! 1),
     wa_current_status := WAITING\<rparr>"

definition submit_log :: "workflow_audit \<Rightarrow> string \<Rightarrow> (world, workflow_log) M" where
  "submit_log a info = add_log (wa_audit_id a) (workflow_action_code SUBMIT)
     (workflow_action_label SUBMIT) info (wa_create_user a) (wa_create_user_display a)"

definition create_audit :: "(string \<Rightarrow> re res) \<Rightarrow> auditor \<Rightarrow> (world, string \<times> auditor) M" where
  "create_audit compile_re au =
     bindM (case au_audit au of Some a \<Rightarrow> ret (Some a) | None \<Rightarrow> liftM (\<lambda>w. get_audit w (au_workflow au)))
     (\<lambda>info. thenM (raise_if (info \<noteq> None) (AuditException ''the work order is already under review''))
     (bindM (liftM (\<lambda>w. generate_audit_setting compile_re w au))
     (\<lambda>s. bindM (workflow_save (set_audit_auth_groups (audit_auth_group_in_db s) (au_workflow au)))
     (\<lambda>wo. let a0 = fresh_audit au wo (audit_auth_group_in_db s) in
       if as_auto_reject s then
         bindM (audit_save (a0\<lparr>wa_current_status := REJECTED\<rparr>)) (\<lambda>a.
         bindM (submit_log a ''rejected by the system'') (\<lambda>_.
           ret (''rejected directly'', au\<lparr>au_workflow := wo, au_audit := Some a\<rparr>)))
       else if as_auto_pass s then
         bindM (audit_save (a0\<lparr>wa_current_status := PASSED\<rparr>)) (\<lambda>a.
         bindM (submit_log a ''no review needed, passed by the system'') (\<lambda>_.
           ret (''no review needed, passed directly'', au\<lparr>au_workflow := wo, au_audit := Some a\<rparr>)))
       else
         bindM (audit_save (first_waiting (as_audit_auth_groups s) a0)) (\<lambda>a.
         bindM (liftM (\<lambda>w. review_info_text w a)) (\<lambda>(flow, cur).
         bindM (submit_log a (''waiting for review, review chain: '' @ flow)) (\<lambda>_.
           ret (''submitted'', au\<lparr>au_workflow := wo, au_audit := Some a\<rparr>))))))))"

section \<open>Operating on it\<close>

fun need_user_permission :: "workflow_type \<Rightarrow> string" where
  "need_user_permission QUERY = ''sql.query_review''"
| "need_user_permission SQL_REVIEW = ''sql.sql_review''"
| "need_user_permission ARCHIVE = ''sql.archive_review''"

text \<open>The checks of \<open>PASS\<close> and \<open>REJECT\<close>.\<close>

definition can_review_node :: "world \<Rightarrow> user \<Rightarrow> workflow_audit \<Rightarrow> auditor \<Rightarrow> unit res" where
  "can_review_node w actor a au =
     (if u_is_superuser actor then Inr ()
      else if u_username actor = wa_create_user a \<and> truthy (config_get w ''ban_self_audit'' PNone)
        then Inl (AuditException ''reviewing one's own work order is banned'')
      else if \<not> has_perm actor (need_user_permission (au_workflow_type au))
        then Inl (AuditException ''the user lacks the review permission'')
      else (case Group_get w (wa_current_audit a) of
          Inl e \<Rightarrow> if is_DoesNotExist e
                  then Inl (AuditException ''the current review group does not exist'') else Inl e
        | Inr g \<Rightarrow> bindE (auth_group_users w [g_name g] (au_resource_group_id au)) (\<lambda>us.
            if us = [] then Inl (AuditException ''the user is not in the resource group of the work order'')
            else bindE (py_int (wa_current_audit a)) (\<lambda>i.
              if i \<notin> set (u_groups actor)
              then Inl (AuditException ''the user is not in the review group of the current node'')
              else Inr ()))))"

definition can_operate :: "world \<Rightarrow> workflow_action \<Rightarrow> user \<Rightarrow> workflow_audit \<Rightarrow> auditor \<Rightarrow> unit res" where
  "can_operate w action actor a au =
     (let allowed_actions = SUPPORTED_OPERATION_GRID (wa_current_status a) in
      if allowed_actions = [] then Inl (AuditException ''no operation is allowed in this status'')
      else if action \<notin> set allowed_actions then Inl (AuditException ''operation not allowed in this status'')
      else if action = ABORT then
        (if u_username actor \<noteq> wa_create_user a
         then Inl (AuditException ''only the submitter can withdraw a work order'') else Inr ())
      else if action = PASS \<or> action = REJECT then can_review_node w actor a au
      else if action \<in> set [EXECUTE_START, EXECUTE_END, EXECUTE_SET_TIME] then Inr ()
      else Inl (AuditException ''unsupported operation''))"

text \<open>\<open>list.index\<close>.\<close>

fun list_index :: "'a \<Rightarrow> 'a list \<Rightarrow> nat res" where
  "list_index x [] = Inl (ValueError ''is not in list'')"
| "list_index x (y # ys) = (if x = y then Inr 0 else
     (case list_index x ys of Inl e \<Rightarrow> Inl e | Inr n \<Rightarrow> Inr (Suc n)))"

text \<open>What a passed node does to the record.\<close>

definition next_node :: "workflow_audit \<Rightarrow> workflow_audit res" where
  "next_node a =
     (if wa_next_audit a = ''-1'' then Inr (a\<lparr>wa_current_audit := ''-1'', wa_current_status := PASSED\<rparr>)
      else (let cur = wa_next_audit a; gs = split_comma (wa_audit_auth_groups a) in
        bindE (list_index cur gs) (\<lambda>position.
          Inr (a\<lparr>wa_current_status := WAITING, wa_current_audit := cur,
                 wa_next_audit := (if length gs \<le> position + 1 then ''-1'' else gs ! (position + 1))\<rparr>))))"

definition pass_info :: "world \<Rightarrow> workflow_audit \<Rightarrow> string \<Rightarrow> string res" where
  "pass_info w a remark =
     (if wa_current_audit a = ''-1'' then Inr (''remark: '' @ remark @ '', no further review'')
      else (case Group_get w (wa_current_audit a) of
          Inr g \<Rightarrow> Inr (''remark: '' @ remark @ '', next review: '' @ g_name g)
        | Inl e \<Rightarrow> if is_DoesNotExist e
                  then Inr (''remark: '' @ remark @ '', next review: '' @ wa_current_audit a) else Inl e))"

definition operate_pass ::
  "user \<Rightarrow> string \<Rightarrow> workflow_audit \<Rightarrow> (world, workflow_audit_detail \<times> workflow_audit) M" where
  "operate_pass actor remark a0 =
     bindM (liftM (\<lambda>w. next_node a0)) (\<lambda>a1.
     bindM (audit_save a1) (\<lambda>a.
     bindM (detail_create (wa_audit_id a) (u_username actor) PASSED remark) (\<lambda>d.
     bindM (liftM (\<lambda>w. pass_info w a remark)) (\<lambda>info.
     bindM (add_log (wa_audit_id a) (workflow_action_code PASS) (workflow_action_label PASS) info
              (u_username actor) (u_display actor)) (\<lambda>_. ret (d, a))))))"

definition operate_reject ::
  "user \<Rightarrow> string \<Rightarrow> workflow_audit \<Rightarrow> (world, workflow_audit_detail \<times> workflow_audit) M" where
  "operate_reject actor remark a0 =
     bindM (audit_save (a0\<lparr>wa_current_audit := ''-1'', wa_next_audit := ''-1'',
              wa_current_status := REJECTED\<rparr>)) (\<lambda>a.
     bindM (detail_create (wa_audit_id a) (u_username actor) REJECTED remark) (\<lambda>d.
     bindM (add_log (wa_audit_id a) 2 ''review rejected'' (''remark: '' @ remark)
              (u_username actor) (u_display actor)) (\<lambda>_. ret (d, a))))"

definition operate_abort ::
  "user \<Rightarrow> string \<Rightarrow> workflow_audit \<Rightarrow> (world, workflow_audit_detail \<times> workflow_audit) M" where
  "operate_abort actor remark a0 =
     bindM (audit_save (a0\<lparr>wa_next_audit := ''-1'', wa_current_status := ABORTED\<rparr>)) (\<lambda>a.
     bindM (detail_create (wa_audit_id a) (u_username actor) ABORTED remark) (\<lambda>d.
     bindM (add_log (wa_audit_id a) 3 ''review cancelled'' (''reason: '' @ remark)
              (u_username actor) (u_display actor)) (\<lambda>_. ret (d, a))))"

definition operate ::
  "workflow_action \<Rightarrow> user \<Rightarrow> string \<Rightarrow> auditor \<Rightarrow> (world, workflow_audit_detail option \<times> auditor) M" where
  "operate action actor remark au = (case au_audit au of
       None \<Rightarrow> throw (AuditException ''the work order has no review record'')
     | Some a \<Rightarrow> thenM (liftM (\<lambda>w. can_operate w action actor a au))
         (if action = PASS then bindM (operate_pass actor remark a) (\<lambda>(d, a').
            ret (Some d, au\<lparr>au_audit := Some a'\<rparr>))
          else if action = REJECT then bindM (operate_reject actor remark a) (\<lambda>(d, a').
            ret (Some d, au\<lparr>au_audit := Some a'\<rparr>))
          else if action = ABORT then bindM (operate_abort actor remark a) (\<lambda>(d, a').
            ret (Some d, au\<lparr>au_audit := Some a'\<rparr>))
          else ret (None, au)))"

section \<open>Reading the chain\<close>

text \<open>One node of the chain; the flag says whether the current node was met.\<close>

definition review_node_of :: "world \<Rightarrow> workflow_audit \<Rightarrow> int \<Rightarrow> string \<Rightarrow> bool \<Rightarrow> (review_node \<times> bool) res" where
  "review_node_of w a cur g met =
     (case (if g = [] then None else parse_int g) of
        None \<Rightarrow> bindE (ReviewNode None AUTO_PASS False True) (\<lambda>n. Inr (n, met))
      | Some i \<Rightarrow> bindE (group_by_id w i) (\<lambda>grp.
          if wa_current_status a \<noteq> WAITING
            then bindE (ReviewNode (Some grp) NODE_GROUP False False) (\<lambda>n. Inr (n, met))
          else if cur = i then bindE (ReviewNode (Some grp) NODE_GROUP True False) (\<lambda>n. Inr (n, True))
          else if met then bindE (ReviewNode (Some grp) NODE_GROUP False False) (\<lambda>n. Inr (n, met))
          else bindE (ReviewNode (Some grp) NODE_GROUP False True) (\<lambda>n. Inr (n, met))))"

fun review_nodes :: "world \<Rightarrow> workflow_audit \<Rightarrow> int \<Rightarrow> bool \<Rightarrow> string list \<Rightarrow> review_node list res" where
  "review_nodes w a cur met [] = Inr []"
| "review_nodes w a cur met (g # gs) =
     bindE (review_node_of w a cur g met) (\<lambda>(n, met').
     bindE (review_nodes w a cur met' gs) (\<lambda>ns. Inr (n # ns)))"

definition get_review_info :: "world \<Rightarrow> auditor \<Rightarrow> review_info res" where
  "get_review_info w au =
     bindE (case au_audit au of Some a \<Rightarrow> Inr (Some a) | None \<Rightarrow> get_audit w (au_workflow au)) (\<lambda>a0.
     case a0 of
       None \<Rightarrow> Inl (AttributeError ''NoneType object has no attribute current_audit'')
     | Some a \<Rightarrow> bindE (py_int (wa_current_audit a)) (\<lambda>cur.
         bindE (review_nodes w a cur False (split_comma (wa_audit_auth_groups a))) (\<lambda>ns.
           Inr \<lparr>ri_nodes = ns, ri_current_node_index = None\<rparr>)))"

text \<open>\<open>get_current_reviewers\<close> of \<open>sql/utils/resource_group.py\<close>: (user name, shown name).\<close>

definition get_current_reviewers :: "world \<Rightarrow> review_node list \<Rightarrow> string \<Rightarrow> (string \<times> string) list" where
  "get_current_reviewers w nodes resource_group_name =
     (let group_ids = map (\<lambda>n. g_id (the (rn_group n)))
            (filter (\<lambda>n. rn_is_current_node n \<and> rn_group n \<noteq> None) nodes) in
      if group_ids = [] then []
      else map (\<lambda>u. (u_username u, Users_str u))
        (filter (\<lambda>u. tbl_exists (\<lambda>g. rg_group_id g \<in> set (u_resource_group u) \<and> rg_is_deleted g = 0
                        \<and> rg_group_name g = resource_group_name) (w_resource_groups w))
          (tbl_filter (\<lambda>u. (\<exists>i \<in> set (u_groups u). i \<in> set group_ids) \<and> u_is_active u) (w_users w))))"

section \<open>The functions of the older \<open>Audit\<close> class\<close>

definition Audit_todo :: "world \<Rightarrow> user \<Rightarrow> nat res" where
  "Audit_todo w u =
     bindE (user_groups w u) (\<lambda>gs.
       let group_ids = map rg_group_id gs;
           auth_group_ids = (if u_is_superuser u then map g_id (tbl_rows (w_groups w))
                             else map g_id (tbl_filter (\<lambda>g. g_id g \<in> set (u_groups u)) (w_groups w)))
       in Inr (length (tbl_filter (\<lambda>a. wa_current_status a = WAITING \<and> wa_group_id a \<in> set group_ids
                 \<and> wa_current_audit a \<in> set (map str_int auth_group_ids)) (w_audits w))))"

definition Audit_detail :: "world \<Rightarrow> int \<Rightarrow> workflow_audit option" where
  "Audit_detail w i = (case tbl_get ''WorkflowAudit'' (\<lambda>a. wa_audit_id a = i) (w_audits w) of
       Inr a \<Rightarrow> Some a | Inl e \<Rightarrow> None)"

definition detail_by_workflow_id :: "world \<Rightarrow> int \<Rightarrow> workflow_type \<Rightarrow> workflow_audit option" where
  "detail_by_workflow_id w i ty =
     (case tbl_get ''WorkflowAudit'' (\<lambda>a. wa_workflow_id a = i \<and> wa_workflow_type a = ty) (w_audits w) of
        Inr a \<Rightarrow> Some a | Inl e \<Rightarrow> None)"

definition Audit_settings :: "world \<Rightarrow> int \<Rightarrow> workflow_type \<Rightarrow> string option" where
  "Audit_settings w gid ty = (case setting_get w ty gid of Inr s \<Rightarrow> Some (was_audit_auth_groups s) | Inl e \<Rightarrow> None)"

definition change_settings :: "int \<Rightarrow> workflow_type \<Rightarrow> string \<Rightarrow> (world, unit) M" where
  "change_settings gid ty groups = (\<lambda>w.
     case setting_get w ty gid of
       Inr s \<Rightarrow> (Inr (), w\<lparr>w_settings :=
           tbl_update (\<lambda>s. was_workflow_type s = ty \<and> was_group_id s = gid)
             (\<lambda>s. s\<lparr>was_audit_auth_groups := groups\<rparr>) (w_settings w)\<rparr>)
     | Inl e \<Rightarrow> (case tbl_get ''ResourceGroup'' (\<lambda>g. rg_group_id g = gid) (w_resource_groups w) of
           Inl e' \<Rightarrow> (Inl e', w)
         | Inr g \<Rightarrow>
             if tbl_exists (\<lambda>s. was_workflow_type s = ty \<and> was_group_id s = gid) (w_settings w)
             then (Inl (IntegrityError ''Duplicate entry''), w)
             else (Inr (), w\<lparr>w_settings := tbl_create set_was_id
                 \<lparr>was_audit_setting_id = 0, was_group_id = gid, was_group_name = rg_group_name g,
                  was_workflow_type = ty, was_audit_auth_groups = groups,
                  was_create_time = w_now w, was_sys_time = w_now w\<rparr> (w_settings w)\<rparr>)))"

definition workflow_applicant :: "world \<Rightarrow> int \<Rightarrow> workflow_type \<Rightarrow> string res" where
  "workflow_applicant w i ty = (case ty of
       QUERY \<Rightarrow> bindE (tbl_get ''QueryPrivilegesApply'' (\<lambda>x. qa_apply_id x = i) (w_applies w))
                  (\<lambda>x. Inr (qa_user_name x))
     | SQL_REVIEW \<Rightarrow> bindE (tbl_get ''SqlWorkflow'' (\<lambda>x. sw_id x = i) (w_workflows w))
                  (\<lambda>x. Inr (sw_engineer x))
     | ARCHIVE \<Rightarrow> bindE (tbl_get ''ArchiveConfig'' (\<lambda>x. ac_id x = i) (w_archives w))
                  (\<lambda>x. Inr (ac_user_name x)))"

definition can_review :: "world \<Rightarrow> user \<Rightarrow> int \<Rightarrow> workflow_type \<Rightarrow> bool res" where
  "can_review w u i ty =
     bindE (tbl_get ''WorkflowAudit'' (\<lambda>a. wa_workflow_id a = i \<and> wa_workflow_type a = ty) (w_audits w)) (\<lambda>a.
     bindE (workflow_applicant w i ty) (\<lambda>applicant.
       if u_username u = applicant \<and> \<not> u_is_superuser u \<and> truthy (config_get w ''ban_self_audit'' PNone)
       then Inr False
       else if wa_current_status a \<noteq> WAITING then Inr False
       else (case Group_get w (wa_current_audit a) of
           Inl e \<Rightarrow> Inl (PyException ''the current auth_group_id does not exist'')
         | Inr g \<Rightarrow>
             bindE (if u_is_superuser u then Inr True
                    else bindE (auth_group_users w [g_name g] (wa_group_id a)) (\<lambda>us.
                      Inr (list_ex (\<lambda>x. u_id x = u_id u) us)))
               (\<lambda>ok. Inr (ok \<and> has_perm u (need_user_permission ty))))))"

definition Audit_logs :: "world \<Rightarrow> int \<Rightarrow> workflow_log list" where
  "Audit_logs w i = tbl_filter (\<lambda>l. wl_audit_id l = i) (w_logs w)"

end
