(* ===== verification/SqlReview.thy ===== *)
theory SqlReview
  imports WorkflowAudit
begin

text \<open>
  \<open>sql/utils/sql_review.py\<close>: what a user may do with a release of SQL. The row locks
  (\<open>select_for_update\<close>) have no effect on a single run.
\<close>

definition workflow_get :: "world \<Rightarrow> int \<Rightarrow> sql_workflow res" where
  "workflow_get w i = tbl_get ''SqlWorkflow'' (\<lambda>x. sw_id x = i) (w_workflows w)"

definition can_execute :: "world \<Rightarrow> user \<Rightarrow> int \<Rightarrow> bool res" where
  "can_execute w u i =
     bindE (workflow_get w i) (\<lambda>x.
       if sw_status x \<notin> set [workflow_review_pass, workflow_timingtask] then Inr False
       else bindE (user_groups w u) (\<lambda>gs.
         Inr (sw_group_id x \<in> set (map rg_group_id gs) \<and> has_perm u ''sql.sql_execute_for_resource_group''
              \<or> sw_engineer x = u_username u \<and> has_perm u ''sql.sql_execute'')))"

definition on_correct_time_period :: "world \<Rightarrow> int \<Rightarrow> datetime option \<Rightarrow> bool res" where
  "on_correct_time_period w i run_date =
     bindE (workflow_get w i) (\<lambda>x.
       let ctime = (case run_date of Some d \<Rightarrow> d | None \<Rightarrow> w_now w) in
       Inr (\<not> ((case sw_run_date_start x of Some s \<Rightarrow> s > ctime | None \<Rightarrow> False)
             \<or> (case sw_run_date_end x of Some e \<Rightarrow> e < ctime | None \<Rightarrow> False))))"

definition can_timingtask :: "world \<Rightarrow> user \<Rightarrow> int \<Rightarrow> bool res" where
  "can_timingtask w u i =
     bindE (workflow_get w i) (\<lambda>x.
       if sw_status x \<in> set [workflow_review_pass, workflow_timingtask] then
         bindE (user_groups w u) (\<lambda>gs.
           let r1 = (if sw_group_id x \<in> set (map rg_group_id gs)
                        \<and> has_perm u ''sql.sql_execute_for_resource_group'' then True else False)
           in Inr (if sw_engineer x = u_username u \<and> has_perm u ''sql.sql_execute'' then True else r1))
       else Inr False)"

definition can_cancel :: "world \<Rightarrow> user \<Rightarrow> int \<Rightarrow> bool res" where
  "can_cancel w u i =
     bindE (workflow_get w i) (\<lambda>x.
       if sw_status x = workflow_manreviewing then
         bindE (can_review w u i SQL_REVIEW) (\<lambda>r. Inr (r \<or> u_username u = sw_engineer x))
       else if sw_status x \<in> set [workflow_review_pass, workflow_timingtask] then
         bindE (can_execute w u i) (\<lambda>r. Inr (r \<or> u_username u = sw_engineer x))
       else Inr False)"

definition can_view :: "world \<Rightarrow> user \<Rightarrow> int \<Rightarrow> bool res" where
  "can_view w u i =
     bindE (workflow_get w i) (\<lambda>x.
       if u_is_superuser u then Inr True
       else if has_perm u ''sql.sql_review'' \<or> has_perm u ''sql.sql_execute_for_resource_group'' then
         bindE (user_groups w u) (\<lambda>gs. Inr (sw_group_id x \<in> set (map rg_group_id gs)))
       else Inr (sw_engineer x = u_username u))"

definition can_rollback :: "world \<Rightarrow> user \<Rightarrow> int \<Rightarrow> bool res" where
  "can_rollback w u i =
     bindE (workflow_get w i) (\<lambda>x.
       if sw_is_backup x \<and> sw_status x \<in> set [workflow_finish, workflow_exception] then can_view w u i
       else Inr False)"

section \<open>Lemmas\<close>

lemma workflow_get_Inr: "workflow_get w i = Inr x \<Longrightarrow> sw_id x = i \<and> x \<in> set (tbl_rows (w_workflows w))"
  by (auto simp: workflow_get_def dest: tbl_get_Inr)

lemma can_execute_True:
  assumes "can_execute w u i = Inr True"
  obtains x gs where "workflow_get w i = Inr x" "sw_status x \<in> {workflow_review_pass, workflow_timingtask}"
    "user_groups w u = Inr gs"
    "sw_group_id x \<in> rg_group_id ` set gs \<and> has_perm u ''sql.sql_execute_for_resource_group''
      \<or> sw_engineer x = u_username u \<and> has_perm u ''sql.sql_execute''"
  using assms by (auto simp: can_execute_def elim!: bindE_InrE split: if_splits)

end
