(* ===== verification/ApprovalChain.thy ===== *)
theory ApprovalChain
  imports WorkflowAudit
begin

text \<open>
  What the approval engine of the theory \<open>WorkflowAudit\<close> guarantees: the shape of a record in each
  status and its preservation, the number and the authority of the approvals a chain takes, the
  frame of every operation, and the decisions taken at submission.
\<close>

section \<open>The shape of a record\<close>

text \<open>The node after position \<open>k\<close> of a chain, as the record writes it.\<close>

definition node_after :: "string list \<Rightarrow> nat \<Rightarrow> string" where
  "node_after gs k = (if length gs \<le> k + 1 then ''-1'' else gs ! (k + 1))"

definition at_node :: "string list \<Rightarrow> nat \<Rightarrow> workflow_audit \<Rightarrow> bool" where
  "at_node gs k a = (k < length gs \<and> split_comma (wa_audit_auth_groups a) = gs
     \<and> wa_current_audit a = gs ! k \<and> wa_next_audit a = node_after gs k)"

definition audit_ok :: "workflow_audit \<Rightarrow> bool" where
  "audit_ok a = (case wa_current_status a of
       WAITING \<Rightarrow> list_ex (\<lambda>k. at_node (split_comma (wa_audit_auth_groups a)) k a)
                    [0..<length (split_comma (wa_audit_auth_groups a))]
     | PASSED \<Rightarrow> wa_current_audit a = ''-1'' \<and> wa_next_audit a = ''-1''
     | REJECTED \<Rightarrow> wa_current_audit a = ''-1'' \<and> wa_next_audit a = ''-1''
     | ABORTED \<Rightarrow> wa_next_audit a = ''-1'')"

lemma audit_ok_WAITING:
  "wa_current_status a = WAITING \<Longrightarrow> audit_ok a \<longleftrightarrow> (\<exists>gs k. at_node gs k a)"
  by (auto simp: audit_ok_def list_ex_iff at_node_def)

lemma list_index_Inr:
  "list_index x xs = Inr n \<longleftrightarrow> n < length xs \<and> xs ! n = x \<and> (\<forall>m < n. xs ! m \<noteq> x)"
proof (induction xs arbitrary: n)
  case Nil
  show ?case by simp
next
  case (Cons y ys)
  show ?case
  proof (cases "x = y")
    case True
    then show ?thesis by (cases n) auto
  next
    case False
    have "list_index x (y # ys) = Inr n \<longleftrightarrow> (\<exists>m. n = Suc m \<and> list_index x ys = Inr m)"
      using False by (auto split: sum.splits)
    with False show ?thesis by (cases n) (auto simp: Cons.IH less_Suc_eq_0_disj)
  qed
qed

lemma list_index_nth: "distinct xs \<Longrightarrow> k < length xs \<Longrightarrow> list_index (xs ! k) xs = Inr k"
  by (auto simp: list_index_Inr nth_eq_iff_index_eq)

text \<open>One pass moves a waiting record to its next node, or ends the chain.\<close>

lemma next_node_cases:
  assumes "next_node a = Inr b"
  obtains "wa_next_audit a = ''-1''" "b = a\<lparr>wa_current_audit := ''-1'', wa_current_status := PASSED\<rparr>"
  | p where "wa_next_audit a \<noteq> ''-1''"
      "list_index (wa_next_audit a) (split_comma (wa_audit_auth_groups a)) = Inr p"
      "b = a\<lparr>wa_current_status := WAITING, wa_current_audit := wa_next_audit a,
        wa_next_audit := node_after (split_comma (wa_audit_auth_groups a)) p\<rparr>"
proof (cases "wa_next_audit a = ''-1''")
  case True
  with assms that(1) show ?thesis by (simp add: next_node_def)
next
  case False
  with assms obtain p where "list_index (wa_next_audit a) (split_comma (wa_audit_auth_groups a)) = Inr p"
    by (cases "list_index (wa_next_audit a) (split_comma (wa_audit_auth_groups a))")
      (simp_all add: next_node_def Let_def)
  with assms False that(2) show ?thesis by (simp add: next_node_def Let_def node_after_def)
qed

lemma next_node_Inr:
  assumes "next_node a = Inr b"
  shows "audit_ok b" "wa_audit_id b = wa_audit_id a" "wa_audit_auth_groups b = wa_audit_auth_groups a"
    "wa_create_user b = wa_create_user a" "wa_workflow_id b = wa_workflow_id a"
    "wa_workflow_type b = wa_workflow_type a" "wa_group_id b = wa_group_id a"
    "wa_current_status b = (if wa_next_audit a = ''-1'' then PASSED else WAITING)"
proof -
  from assms show "audit_ok b"
  proof (cases rule: next_node_cases)
    case 1
    then show ?thesis by (simp add: audit_ok_def)
  next
    case (2 p)
    then have "p < length (split_comma (wa_audit_auth_groups a))"
      "split_comma (wa_audit_auth_groups a) ! p = wa_next_audit a" by (auto simp: list_index_Inr)
    then have "at_node (split_comma (wa_audit_auth_groups a)) p b" by (simp add: at_node_def 2)
    moreover have "wa_current_status b = WAITING" by (simp add: 2)
    ultimately show ?thesis using audit_ok_WAITING by blast
  qed
qed (use assms in \<open>cases rule: next_node_cases; simp\<close>)+

lemma next_node_at:
  assumes "at_node gs k a" and "distinct gs" and "''-1'' \<notin> set gs" and "k + 1 < length gs"
  shows "next_node a = Inr (a\<lparr>wa_current_status := WAITING, wa_current_audit := gs ! (k + 1),
           wa_next_audit := node_after gs (k + 1)\<rparr>)"
proof -
  have "wa_next_audit a = gs ! (k + 1)" "split_comma (wa_audit_auth_groups a) = gs"
    using assms by (auto simp: at_node_def node_after_def)
  moreover have "gs ! (k + 1) \<noteq> ''-1''" using assms(3,4) by (metis nth_mem)
  ultimately show ?thesis
    using list_index_nth [OF assms(2,4)] by (simp add: next_node_def Let_def node_after_def)
qed

lemma next_node_last:
  assumes "at_node gs k a" and "k + 1 = length gs"
  shows "next_node a = Inr (a\<lparr>wa_current_audit := ''-1'', wa_current_status := PASSED\<rparr>)"
  using assms by (simp add: at_node_def node_after_def next_node_def)

text \<open>The saved copy of a record differs from the record in its time stamp only.\<close>

lemma audit_save_update:
  "wa_audit_id a \<noteq> 0 \<Longrightarrow> audit_save a w =
     (Inr (a\<lparr>wa_sys_time := w_now w\<rparr>),
      w\<lparr>w_audits := tbl_save wa_audit_id (a\<lparr>wa_sys_time := w_now w\<rparr>) (w_audits w)\<rparr>)"
  by (simp add: audit_save_def Let_def)

lemma at_node_sys_time [simp]: "at_node gs k (a\<lparr>wa_sys_time := t\<rparr>) = at_node gs k a"
  by (simp add: at_node_def)

lemma audit_ok_sys_time [simp]: "audit_ok (a\<lparr>wa_sys_time := t\<rparr>) = audit_ok a"
  by (simp add: audit_ok_def cong: workflow_status.case_cong)

lemma detail_create_run:
  "detail_create i u s r w = (Inr (tbl_created set_wad_id \<lparr>wad_audit_detail_id = 0, wad_audit_id = i,
      wad_audit_user = u, wad_audit_time = w_now w, wad_audit_status = s, wad_remark = r,
      wad_sys_time = w_now w\<rparr> (w_details w)),
    w\<lparr>w_details := tbl_create set_wad_id \<lparr>wad_audit_detail_id = 0, wad_audit_id = i,
      wad_audit_user = u, wad_audit_time = w_now w, wad_audit_status = s, wad_remark = r,
      wad_sys_time = w_now w\<rparr> (w_details w)\<rparr>)"
  by (simp add: detail_create_def Let_def)

text \<open>The row a log call adds.\<close>

definition log_row :: "datetime \<Rightarrow> int \<Rightarrow> int \<Rightarrow> string \<Rightarrow> string \<Rightarrow> string \<Rightarrow> string \<Rightarrow> workflow_log" where
  "log_row t i ty desc info u d = \<lparr>wl_id = 0, wl_audit_id = i, wl_operation_type = ty,
     wl_operation_type_desc = desc, wl_operation_info = info, wl_operator = u,
     wl_operator_display = d, wl_operation_time = t\<rparr>"

lemma add_log_run:
  "add_log i ty desc info u d w =
     (Inr (tbl_created set_wl_id (log_row (w_now w) i ty desc info u d) (w_logs w)),
      w\<lparr>w_logs := tbl_create set_wl_id (log_row (w_now w) i ty desc info u d) (w_logs w)\<rparr>)"
  by (simp add: add_log_def log_row_def Let_def)

section \<open>What an operation does to the state\<close>

text \<open>
  The effect every successful \<open>PASS\<close>, \<open>REJECT\<close> and \<open>ABORT\<close> has: the record is saved, one detail
  and one log line are added, and nothing else changes.
\<close>

definition operated :: "workflow_audit \<Rightarrow> workflow_status \<Rightarrow> user \<Rightarrow> string \<Rightarrow> world \<Rightarrow> world \<Rightarrow> bool" where
  "operated a st actor remark w w' = (\<exists>l.
     w' = w\<lparr>w_audits := tbl_save wa_audit_id a (w_audits w),
            w_details := tbl_create set_wad_id \<lparr>wad_audit_detail_id = 0, wad_audit_id = wa_audit_id a,
              wad_audit_user = u_username actor, wad_audit_time = w_now w, wad_audit_status = st,
              wad_remark = remark, wad_sys_time = w_now w\<rparr> (w_details w),
            w_logs := tbl_create set_wl_id l (w_logs w)\<rparr>
     \<and> wl_audit_id l = wa_audit_id a \<and> wl_operator l = u_username actor)"

lemmas op_simps = bindM_run thenM_run audit_save_update detail_create_run add_log_run

lemma operate_pass_Inr:
  assumes "operate_pass actor remark a w = (Inr (d, a'), w')" and "wa_audit_id a \<noteq> 0"
  obtains b where "next_node a = Inr b" and "a' = b\<lparr>wa_sys_time := w_now w\<rparr>"
    and "operated a' PASSED actor remark w w'"
proof (cases "next_node a")
  case (Inl e)
  with assms show ?thesis by (simp add: operate_pass_def op_simps)
next
  case (Inr b)
  then have "wa_audit_id b \<noteq> 0" using next_node_Inr(2) assms(2) by simp
  with assms(1) Inr have "a' = b\<lparr>wa_sys_time := w_now w\<rparr>" "operated a' PASSED actor remark w w'"
    by (auto simp: operate_pass_def op_simps operated_def log_row_def split: sum.splits)
  with Inr that show ?thesis by blast
qed

lemma operate_reject_run:
  assumes "wa_audit_id a \<noteq> 0"
  shows "\<exists>d w'. operate_reject actor remark a w = (Inr (d, a\<lparr>wa_current_audit := ''-1'',
           wa_next_audit := ''-1'', wa_current_status := REJECTED, wa_sys_time := w_now w\<rparr>), w')
         \<and> operated (a\<lparr>wa_current_audit := ''-1'', wa_next_audit := ''-1'',
           wa_current_status := REJECTED, wa_sys_time := w_now w\<rparr>) REJECTED actor remark w w'"
  using assms by (auto simp: operate_reject_def op_simps operated_def log_row_def)

lemma operate_abort_run:
  assumes "wa_audit_id a \<noteq> 0"
  shows "\<exists>d w'. operate_abort actor remark a w = (Inr (d, a\<lparr>wa_next_audit := ''-1'',
           wa_current_status := ABORTED, wa_sys_time := w_now w\<rparr>), w')
         \<and> operated (a\<lparr>wa_next_audit := ''-1'', wa_current_status := ABORTED, wa_sys_time := w_now w\<rparr>)
             ABORTED actor remark w w'"
  using assms by (auto simp: operate_abort_def op_simps operated_def log_row_def)

lemma operate_PASS_Inr:
  assumes "operate PASS actor remark au w = (Inr (d, au'), w')" and "au_audit au = Some a"
    and "wa_audit_id a \<noteq> 0"
  obtains b where "can_operate w PASS actor a au = Inr ()" and "next_node a = Inr b"
    and "au' = au\<lparr>au_audit := Some (b\<lparr>wa_sys_time := w_now w\<rparr>)\<rparr>"
    and "operated (b\<lparr>wa_sys_time := w_now w\<rparr>) PASSED actor remark w w'"
proof -
  from assms(1,2) obtain d' a' where c: "can_operate w PASS actor a au = Inr ()"
    and o: "operate_pass actor remark a w = (Inr (d', a'), w')" and au: "au' = au\<lparr>au_audit := Some a'\<rparr>"
    by (auto simp: operate_def thenM_run bindM_run split: sum.splits prod.splits)
  from operate_pass_Inr [OF o assms(3)] obtain b where b: "next_node a = Inr b"
    "a' = b\<lparr>wa_sys_time := w_now w\<rparr>" "operated a' PASSED actor remark w w'" .
  show ?thesis using that [OF c b(1)] b au by simp
qed

section \<open>A chain of approvals\<close>

text \<open>
  A request to pass the record \<open>i\<close> reads the record afresh, builds its auditor and operates. The
  requests of a list run one after the other; the first that raises ends the run.
\<close>

definition pass_request :: "int \<Rightarrow> user \<times> string \<Rightarrow> (world, unit) M" where
  "pass_request i ur =
     bindM (liftM (\<lambda>w. bindE (tbl_get ''WorkflowAudit'' (\<lambda>a. wa_audit_id a = i) (w_audits w))
                       (get_auditor_of_audit w)))
       (\<lambda>au. thenM (operate PASS (fst ur) (snd ur) au) (ret ()))"

definition pass_requests :: "int \<Rightarrow> (user \<times> string) list \<Rightarrow> (world, unit) M" where
  "pass_requests i urs = forM urs (pass_request i)"

text \<open>Two states that differ in approval records, details and log lines at most.\<close>

definition same_org :: "world \<Rightarrow> world \<Rightarrow> bool" where
  "same_org w w' = (w' = w\<lparr>w_audits := w_audits w', w_details := w_details w', w_logs := w_logs w'\<rparr>)"

lemma same_orgD:
  assumes "same_org w w'"
  shows "w_config w' = w_config w" "w_groups w' = w_groups w" "w_users w' = w_users w"
    "w_resource_groups w' = w_resource_groups w" "w_workflows w' = w_workflows w"
    "w_applies w' = w_applies w" "w_archives w' = w_archives w" "w_privileges w' = w_privileges w"
    "w_contents w' = w_contents w" "w_queue w' = w_queue w" "w_now w' = w_now w"
  using assms unfolding same_org_def
  by (metis world.select_convs world.update_convs(10) world.update_convs(11) world.update_convs(13) world.surjective)+

lemma same_org_refl [simp]: "same_org w w"
  by (simp add: same_org_def)

lemma operated_same_org: "operated a st u r w w' \<Longrightarrow> same_org w w'"
  by (auto simp: operated_def same_org_def)

lemma operated_audits:
  "operated a st u r w w' \<Longrightarrow> w_audits w' = tbl_save wa_audit_id a (w_audits w)"
  by (auto simp: operated_def)

text \<open>Fields of a record no operation changes.\<close>

definition same_order :: "workflow_audit \<Rightarrow> workflow_audit \<Rightarrow> bool" where
  "same_order a b = (wa_audit_id a = wa_audit_id b \<and> wa_workflow_type a = wa_workflow_type b
     \<and> wa_workflow_id a = wa_workflow_id b \<and> wa_group_name a = wa_group_name b
     \<and> wa_group_id a = wa_group_id b \<and> wa_create_user a = wa_create_user b)"

lemma get_auditor_same:
  assumes "get_auditor_of_audit w a = Inr au" and "same_org w w'" and "same_order a b"
  shows "get_auditor_of_audit w' b = Inr (au\<lparr>au_audit := Some b\<rparr>)"
proof -
  note eqs = same_orgD [OF assms(2)]
  have "audit_get_workflow w' b = audit_get_workflow w a"
    using assms(3) by (simp add: audit_get_workflow_def eqs same_order_def split: workflow_type.split)
  then show ?thesis
    using assms(1,3)
    by (auto simp: get_auditor_of_audit_def AuditV2_def eqs same_order_def
        elim!: bindE_InrE split: workflow.splits sum.splits if_splits)
qed

lemma get_auditor_audit:
  "get_auditor_of_audit w a = Inr au \<Longrightarrow> au_audit au = Some a"
  by (auto simp: get_auditor_of_audit_def AuditV2_def
      elim!: bindE_InrE split: workflow.splits sum.splits if_splits)

text \<open>Whom the checks let pass a node whose group is \<open>i\<close>.\<close>

definition authorised :: "world \<Rightarrow> workflow_audit \<Rightarrow> auditor \<Rightarrow> int \<Rightarrow> user \<Rightarrow> bool" where
  "authorised w a au i u = (u_is_superuser u
     \<or> i \<in> set (u_groups u) \<and> has_perm u (need_user_permission (au_workflow_type au))
       \<and> \<not> (u_username u = wa_create_user a \<and> truthy (config_get w ''ban_self_audit'' PNone)))"

lemma can_operate_PASS_authorised:
  assumes "can_operate w PASS u a au = Inr ()" and "wa_current_audit a = str_int i"
  shows "wa_current_status a = WAITING \<and> authorised w a au i u"
proof -
  from assms(1) have "wa_current_status a = WAITING" and "can_review_node w u a au = Inr ()"
    by (cases "wa_current_status a"; simp add: can_operate_def Let_def)+
  with assms(2) show ?thesis
    by (auto simp: can_review_node_def authorised_def split: if_splits sum.splits elim!: bindE_InrE)
qed

lemma pass_info_Inr:
  assumes "wf_table g_id (w_groups w)" and "wa_current_audit a = ''-1'' \<or> wa_current_audit a = str_int i"
  shows "\<exists>t. pass_info w a r = Inr t"
proof (cases "wa_current_audit a = ''-1''")
  case True
  then show ?thesis by (simp add: pass_info_def)
next
  case False
  with assms(2) show ?thesis
    by (cases rule: tbl_get_cases [OF assms(1), of "''Group''" i])
      (simp_all add: pass_info_def Group_get_def group_by_id_def)
qed

definition chain_at ::
  "world \<Rightarrow> int \<Rightarrow> int list \<Rightarrow> nat \<Rightarrow> workflow_audit \<Rightarrow> auditor \<Rightarrow> bool" where
  "chain_at w i ids k a au = (wf_table wa_audit_id (w_audits w) \<and> a \<in> set (tbl_rows (w_audits w))
     \<and> wa_audit_id a = i \<and> i \<noteq> 0 \<and> wa_current_status a = WAITING \<and> at_node (map str_int ids) k a
     \<and> get_auditor_of_audit w a = Inr au)"

lemma chain_at_get:
  "chain_at w i ids k a au \<Longrightarrow> tbl_get n (\<lambda>a. wa_audit_id a = i) (w_audits w) = Inr a"
  using wa.get_pk_unique [of "w_audits w" a n] by (auto simp: chain_at_def)

lemma chain_current: "chain_at w i ids k a au \<Longrightarrow> wa_current_audit a = str_int (ids ! k) \<and> k < length ids"
  by (simp add: chain_at_def at_node_def)

lemma minus_one_notin: "(-1::int) \<notin> set ids \<Longrightarrow> ''-1'' \<notin> set (map str_int ids)"
proof
  assume "(-1::int) \<notin> set ids" and "''-1'' \<in> set (map str_int ids)"
  then obtain i where "i \<in> set ids" "str_int i = str_int (-1)" by (auto simp: str_int_minus_one)
  with \<open>-1 \<notin> set ids\<close> show False by simp
qed

lemma next_node_chain:
  assumes "chain_at w i ids k a au" and "distinct ids" and "-1 \<notin> set ids" and "next_node a = Inr b"
  shows "same_order a b" and
    "if k + 1 < length ids then wa_current_status b = WAITING \<and> at_node (map str_int ids) (k + 1) b
     else wa_current_status b = PASSED \<and> wa_current_audit b = ''-1''"
proof -
  let ?gs = "map str_int ids"
  from assms(1) have at: "at_node ?gs k a" and k: "k < length ids"
    by (simp_all add: chain_at_def at_node_def)
  have d: "distinct ?gs" using assms(2) by (simp add: distinct_map inj_on_def str_int_inj)
  have m: "''-1'' \<notin> set ?gs" by (rule minus_one_notin [OF assms(3)])
  have sp: "split_comma (wa_audit_auth_groups a) = ?gs" using at by (simp add: at_node_def)
  show "same_order a b" using assms(4) by (cases rule: next_node_cases) (simp_all add: same_order_def)
  show "if k + 1 < length ids then wa_current_status b = WAITING \<and> at_node ?gs (k + 1) b
        else wa_current_status b = PASSED \<and> wa_current_audit b = ''-1''"
  proof (cases "k + 1 < length ids")
    case True
    with next_node_at [OF at d m] assms(4) sp show ?thesis by (auto simp: at_node_def)
  next
    case False
    with k have "k + 1 = length ?gs" by simp
    with next_node_last [OF at this] assms(4) False show ?thesis by auto
  qed
qed

text \<open>One successful request: who made it, and where the record then is.\<close>

lemma pass_request_step:
  assumes "chain_at w i ids k a au" and "distinct ids" and "-1 \<notin> set ids"
    and "pass_request i (u, r) w = (Inr (), w')"
  obtains b where "same_org w w'" "same_order a b" "authorised w a au (ids ! k) u"
    "tbl_get n (\<lambda>a. wa_audit_id a = i) (w_audits w') = Inr b"
    "if k + 1 < length ids then chain_at w' i ids (k + 1) b (au\<lparr>au_audit := Some b\<rparr>)
     else wa_current_status b = PASSED \<and> wa_current_audit b = ''-1''"
proof -
  from assms(1) have get: "get_auditor_of_audit w a = Inr au" and ia: "wa_audit_id a = i" "i \<noteq> 0"
    and wft: "wf_table wa_audit_id (w_audits w)"
    by (simp_all add: chain_at_def)
  from assms(4) get chain_at_get [OF assms(1)] obtain d au'
    where op: "operate PASS u r au w = (Inr (d, au'), w')"
    by (auto simp: pass_request_def bindM_run thenM_run split: sum.splits prod.splits)
  from operate_PASS_Inr [OF op get_auditor_audit [OF get]] ia obtain b
    where c: "can_operate w PASS u a au = Inr ()" and b: "next_node a = Inr b"
      and eff: "operated (b\<lparr>wa_sys_time := w_now w\<rparr>) PASSED u r w w'" by blast
  let ?b = "b\<lparr>wa_sys_time := w_now w\<rparr>"
  note nn = next_node_chain [OF assms(1,2,3) b]
  have so: "same_order a ?b" using nn(1) by (simp add: same_order_def)
  have org: "same_org w w'" by (rule operated_same_org [OF eff])
  have au: "authorised w a au (ids ! k) u"
    using can_operate_PASS_authorised [OF c] chain_current [OF assms(1)] by blast
  have rows: "w_audits w' = tbl_save wa_audit_id ?b (w_audits w)" by (rule operated_audits [OF eff])
  have wft': "wf_table wa_audit_id (w_audits w')" using wa.wf_save [OF wft] rows by simp
  have inb: "?b \<in> set (tbl_rows (w_audits w'))" by (simp add: rows set_rows_tbl_save)
  have ib: "wa_audit_id ?b = i" using so ia by (simp add: same_order_def)
  have g: "tbl_get n (\<lambda>a. wa_audit_id a = i) (w_audits w') = Inr ?b"
    using wa.get_pk_unique [OF wft' inb, of n] ib by simp
  have "if k + 1 < length ids then chain_at w' i ids (k + 1) ?b (au\<lparr>au_audit := Some ?b\<rparr>)
        else wa_current_status ?b = PASSED \<and> wa_current_audit ?b = ''-1''"
    using nn(2) wft' inb ib ia get_auditor_same [OF get org so] by (auto simp: chain_at_def)
  with that org so au g show ?thesis by blast
qed

lemma operate_pass_ok:
  assumes "next_node a = Inr b" and "wa_audit_id b \<noteq> 0"
    and "\<And>v. w_groups v = w_groups w \<Longrightarrow> \<exists>t. pass_info v (b\<lparr>wa_sys_time := w_now w\<rparr>) r = Inr t"
  shows "\<exists>x w'. operate_pass u r a w = (Inr x, w')"
proof -
  let ?b = "b\<lparr>wa_sys_time := w_now w\<rparr>"
  let ?d = "\<lparr>wad_audit_detail_id = 0, wad_audit_id = wa_audit_id b, wad_audit_user = u_username u,
      wad_audit_time = w_now w, wad_audit_status = PASSED, wad_remark = r, wad_sys_time = w_now w\<rparr>"
  let ?v = "w\<lparr>w_audits := tbl_save wa_audit_id ?b (w_audits w),
              w_details := tbl_create set_wad_id ?d (w_details w)\<rparr>"
  obtain t where "pass_info ?v ?b r = Inr t" using assms(3) [of ?v] by auto
  with assms(1,2) show ?thesis by (simp add: operate_pass_def op_simps)
qed

text \<open>A superuser's request succeeds.\<close>

lemma pass_request_superuser:
  assumes "chain_at w i ids k a au" and "distinct ids" and "-1 \<notin> set ids"
    and "u_is_superuser u" and "wf_table g_id (w_groups w)"
  shows "\<exists>w'. pass_request i (u, r) w = (Inr (), w')"
proof -
  from assms(1) have at: "at_node (map str_int ids) k a" and st: "wa_current_status a = WAITING"
    and ia: "wa_audit_id a \<noteq> 0" and get: "get_auditor_of_audit w a = Inr au" and k: "k < length ids"
    by (simp_all add: chain_at_def at_node_def)
  have c: "can_operate w PASS u a au = Inr ()"
    using st assms(4) by (simp add: can_operate_def can_review_node_def)
  have "\<exists>b. next_node a = Inr b"
  proof (cases "k + 1 < length ids")
    case True
    have "distinct (map str_int ids)" using assms(2) by (simp add: distinct_map inj_on_def str_int_inj)
    with next_node_at [OF at _ minus_one_notin [OF assms(3)]] True show ?thesis by simp
  next
    case False
    with next_node_last [OF at] k show ?thesis by simp
  qed
  then obtain b where b: "next_node a = Inr b" by blast
  have ib: "wa_audit_id b \<noteq> 0" using next_node_Inr(2) [OF b] ia by simp
  have "wa_current_audit b = ''-1'' \<or> (\<exists>j. wa_current_audit b = str_int j)"
    using next_node_chain(2) [OF assms(1,2,3) b] by (auto simp: at_node_def split: if_splits)
  then have "\<exists>t. pass_info v (b\<lparr>wa_sys_time := w_now w\<rparr>) r = Inr t" if "w_groups v = w_groups w" for v
    using pass_info_Inr [of v "b\<lparr>wa_sys_time := w_now w\<rparr>"] that assms(5) by auto
  from operate_pass_ok [where u = u, OF b ib this] obtain d a' w'
    where "operate_pass u r a w = (Inr (d, a'), w')" by (metis surj_pair)
  then have "operate PASS u r au w = (Inr (Some d, au\<lparr>au_audit := Some a'\<rparr>), w')"
    using c get_auditor_audit [OF get] by (simp add: operate_def bindM_run thenM_run)
  with chain_at_get [OF assms(1)] get show ?thesis
    by (auto simp: pass_request_def bindM_run thenM_run)
qed

lemma pass_requests_Cons:
  "pass_requests i (ur # urs) w = (case pass_request i ur w of (r, v) \<Rightarrow>
     (case r of Inl e \<Rightarrow> (Inl e, v) | Inr x \<Rightarrow> pass_requests i urs v))"
  by (simp add: pass_requests_def thenM_run split: prod.split sum.split)

lemma pass_requests_Nil: "pass_requests i [] w = (Inr (), w)"
  by (simp add: pass_requests_def)

text \<open>The record of key \<open>i\<close>, and what is to be said of it.\<close>

definition record_is :: "world \<Rightarrow> int \<Rightarrow> (workflow_audit \<Rightarrow> bool) \<Rightarrow> bool" where
  "record_is w i P = (case tbl_get ''WorkflowAudit'' (\<lambda>a. wa_audit_id a = i) (w_audits w) of
       Inr a \<Rightarrow> P a | Inl e \<Rightarrow> False)"

definition progress :: "int list \<Rightarrow> nat \<Rightarrow> workflow_audit \<Rightarrow> bool" where
  "progress ids k a =
     (if k < length ids then wa_current_status a = WAITING \<and> wa_current_audit a = str_int (ids ! k)
      else wa_current_status a = PASSED \<and> wa_current_audit a = ''-1'')"

lemma chain_at_progress: "chain_at w i ids k a au \<Longrightarrow> record_is w i (progress ids k)"
  using chain_at_get [of w i ids k a au "''WorkflowAudit''"] chain_current [of w i ids k a au]
  by (simp add: record_is_def progress_def chain_at_def)

lemma passed_refuses:
  assumes "tbl_get ''WorkflowAudit'' (\<lambda>a. wa_audit_id a = i) (w_audits w) = Inr b"
    and "wa_current_status b = PASSED"
  shows "pass_request i ur w \<noteq> (Inr (), w')"
proof
  assume "pass_request i ur w = (Inr (), w')"
  then obtain au where "get_auditor_of_audit w b = Inr au" and "fst (operate PASS (fst ur) (snd ur) au w) \<noteq> Inl e" for e
    using assms(1) by (auto simp: pass_request_def bindM_run thenM_run split: sum.splits prod.splits)
  with get_auditor_audit assms(2) show False
    by (auto simp: operate_def thenM_run can_operate_def)
qed

lemma chain_run_authority:
  assumes "chain_at w i ids k a au" and "distinct ids" and "-1 \<notin> set ids"
    and "pass_requests i urs w = (Inr (), w')"
  shows "k + length urs \<le> length ids \<and> record_is w' i (progress ids (k + length urs))
    \<and> (\<forall>j < length urs. authorised w a au (ids ! (k + j)) (fst (urs ! j)))"
  using assms(1,4)
proof (induction urs arbitrary: w k a au)
  case Nil
  then show ?case using chain_at_progress chain_current by (fastforce simp: pass_requests_Nil)
next
  case (Cons ur urs)
  obtain u r where ur: "ur = (u, r)" by (cases ur)
  from Cons.prems(2) obtain v where step: "pass_request i (u, r) w = (Inr (), v)"
    and rest: "pass_requests i urs v = (Inr (), w')"
    by (auto simp: pass_requests_Cons ur split: prod.splits sum.splits)
  from pass_request_step [OF Cons.prems(1) assms(2,3) step, of "''WorkflowAudit''"]
  obtain b where org: "same_org w v" and so: "same_order a b" and au: "authorised w a au (ids ! k) u"
    and get: "tbl_get ''WorkflowAudit'' (\<lambda>a. wa_audit_id a = i) (w_audits v) = Inr b"
    and nxt: "if k + 1 < length ids then chain_at v i ids (k + 1) b (au\<lparr>au_audit := Some b\<rparr>)
              else wa_current_status b = PASSED \<and> wa_current_audit b = ''-1''" .
  have k: "k < length ids" using chain_current [OF Cons.prems(1)] by simp
  have auth: "authorised v b (au\<lparr>au_audit := Some b\<rparr>) j u' = authorised w a au j u'" for j u'
    using so by (simp add: authorised_def config_get_def same_orgD [OF org] same_order_def)
  show ?case
  proof (cases "k + 1 < length ids")
    case True
    with nxt have "chain_at v i ids (k + 1) b (au\<lparr>au_audit := Some b\<rparr>)" by simp
    note IH = Cons.IH [OF this rest]
    have "authorised w a au (ids ! (k + j)) (fst ((ur # urs) ! j))" if "j < length (ur # urs)" for j
      using that IH au auth ur by (cases j) auto
    with IH show ?thesis by (simp add: algebra_simps)
  next
    case False
    with nxt have p: "wa_current_status b = PASSED" "wa_current_audit b = ''-1''" by auto
    have "urs = []"
    proof (rule ccontr)
      assume "urs \<noteq> []"
      then obtain y ys where "urs = y # ys" by (cases urs) auto
      with rest obtain v' where "pass_request i y v = (Inr (), v')"
        by (auto simp: pass_requests_Cons split: prod.splits sum.splits)
      with passed_refuses [OF get p(1)] show False by blast
    qed
    moreover from rest \<open>urs = []\<close> have "w' = v" by (simp add: pass_requests_Nil)
    ultimately show ?thesis using k False get p au ur by (simp add: record_is_def progress_def)
  qed
qed

lemma chain_run_superusers:
  assumes "chain_at w i ids k a au" and "distinct ids" and "-1 \<notin> set ids"
    and "wf_table g_id (w_groups w)" and "list_all (\<lambda>ur. u_is_superuser (fst ur)) urs"
    and "k + length urs \<le> length ids"
  shows "\<exists>w'. pass_requests i urs w = (Inr (), w')"
  using assms(1,4,5,6)
proof (induction urs arbitrary: w k a au)
  case Nil
  then show ?case by (simp add: pass_requests_Nil)
next
  case (Cons ur urs)
  obtain u r where ur: "ur = (u, r)" by (cases ur)
  with Cons.prems obtain v where step: "pass_request i (u, r) w = (Inr (), v)"
    using pass_request_superuser [OF Cons.prems(1) assms(2,3)] by fastforce
  from pass_request_step [OF Cons.prems(1) assms(2,3) step, of "''WorkflowAudit''"]
  obtain b where org: "same_org w v"
    and nxt: "if k + 1 < length ids then chain_at v i ids (k + 1) b (au\<lparr>au_audit := Some b\<rparr>)
              else wa_current_status b = PASSED \<and> wa_current_audit b = ''-1''" .
  show ?case
  proof (cases "urs = []")
    case True
    with step ur show ?thesis by (simp add: pass_requests_Cons pass_requests_Nil)
  next
    case False
    with Cons.prems(4) have "k + 1 < length ids" by (cases urs) auto
    with nxt have "chain_at v i ids (k + 1) b (au\<lparr>au_audit := Some b\<rparr>)" by simp
    from Cons.IH [OF this] Cons.prems same_orgD [OF org] obtain w' where "pass_requests i urs v = (Inr (), w')"
      by auto
    with step ur show ?thesis by (simp add: pass_requests_Cons)
  qed
qed

section \<open>A chain that names its last group twice\<close>

text \<open>The state in which the record waits at a node that is not the last.\<close>

definition stuck_at :: "int \<Rightarrow> string list \<Rightarrow> world \<Rightarrow> bool" where
  "stuck_at i gs w = (wf_table wa_audit_id (w_audits w) \<and> i \<noteq> 0 \<and>
     record_is w i (\<lambda>a. wa_current_status a = WAITING \<and> list_ex (\<lambda>k. at_node gs k a) [0..<length gs - 1]))"

lemma next_node_stuck:
  assumes "at_node gs k a" and "k < length gs - 1" and "last gs \<in> set (butlast gs)"
    and "''-1'' \<notin> set gs" and "next_node a = Inr b"
  shows "wa_current_status b = WAITING \<and> (\<exists>p < length gs - 1. at_node gs p b)"
proof -
  have k: "k + 1 < length gs" using assms(2) by simp
  have nx: "wa_next_audit a = gs ! (k + 1)" and sp: "split_comma (wa_audit_auth_groups a) = gs"
    using assms(1) k by (auto simp: at_node_def node_after_def)
  have ne: "wa_next_audit a \<noteq> ''-1''" using k assms(4) nx by (metis nth_mem)
  from assms(5) ne sp obtain p where p: "list_index (gs ! (k + 1)) gs = Inr p"
    and b: "b = a\<lparr>wa_current_status := WAITING, wa_current_audit := gs ! (k + 1), wa_next_audit := node_after gs p\<rparr>"
    by (cases rule: next_node_cases) (auto simp: nx)
  from p have pl: "p < length gs" and gp: "gs ! p = gs ! (k + 1)" and first: "\<And>m. m < p \<Longrightarrow> gs ! m \<noteq> gs ! p"
    by (auto simp: list_index_Inr)
  have "p \<noteq> length gs - 1"
  proof
    assume e: "p = length gs - 1"
    moreover from pl have "gs \<noteq> []" by auto
    ultimately have "gs ! p = last gs" by (simp add: last_conv_nth)
    with assms(3) obtain m where "m < length (butlast gs)" "butlast gs ! m = gs ! p"
      by (metis in_set_conv_nth)
    with first [of m] e show False by (simp add: nth_butlast)
  qed
  with pl gp sp b show ?thesis by (auto simp: at_node_def intro!: exI [of _ p])
qed

lemma pass_request_stuck:
  assumes "last gs \<in> set (butlast gs)" and "''-1'' \<notin> set gs"
  shows "keeps (stuck_at i gs) (pass_request i ur)"
  unfolding keeps_def
proof (intro allI impI)
  fix w assume st: "stuck_at i gs w"
  then obtain a k where get: "tbl_get ''WorkflowAudit'' (\<lambda>a. wa_audit_id a = i) (w_audits w) = Inr a"
    and w0: "wf_table wa_audit_id (w_audits w)" "i \<noteq> 0" and k: "k < length gs - 1" "at_node gs k a"
    by (auto simp: stuck_at_def record_is_def list_ex_iff split: sum.splits)
  have ia: "wa_audit_id a = i" using tbl_get_Inr [OF get] by simp
  have saved: "stuck_at i gs v" if b: "next_node a = Inr b"
    and v: "w_audits v = tbl_save wa_audit_id (b\<lparr>wa_sys_time := t\<rparr>) (w_audits w)" for b v t
  proof -
    have "wa_audit_id (b\<lparr>wa_sys_time := t\<rparr>) = i" using next_node_Inr(2) [OF b] ia by simp
    then have "tbl_get ''WorkflowAudit'' (\<lambda>a. wa_audit_id a = i) (w_audits v) = Inr (b\<lparr>wa_sys_time := t\<rparr>)"
      using wa.get_saved [OF w0(1), of "''WorkflowAudit''" "b\<lparr>wa_sys_time := t\<rparr>"] v by simp
    with next_node_stuck [OF k(2,1) assms b] w0 v wa.wf_save [OF w0(1)] show ?thesis
      by (auto simp: stuck_at_def record_is_def list_ex_iff)
  qed
  have ib: "next_node a = Inr b \<Longrightarrow> wa_audit_id b \<noteq> 0" for b
    using next_node_Inr(2) ia w0 by fastforce
  have pass: "stuck_at i gs (snd (operate_pass u r a w))" for u r
    using st saved ib
    by (cases "next_node a") (auto simp: operate_pass_def op_simps split: sum.splits)
  show "stuck_at i gs (snd (pass_request i ur w))"
  proof (cases "get_auditor_of_audit w a")
    case (Inl e)
    with st get show ?thesis by (simp add: pass_request_def bindM_run)
  next
    case (Inr au)
    with st pass [of "fst ur" "snd ur"] get get_auditor_audit [OF Inr] show ?thesis
      by (auto simp: pass_request_def bindM_run thenM_run operate_def split: sum.splits prod.splits)
  qed
qed

section \<open>Submission\<close>

text \<open>The record a submission saves.\<close>

definition decided :: "audit_setting \<Rightarrow> workflow_audit \<Rightarrow> workflow_audit" where
  "decided s a = (if as_auto_reject s then a\<lparr>wa_current_status := REJECTED\<rparr>
     else if as_auto_pass s then a\<lparr>wa_current_status := PASSED\<rparr>
     else first_waiting (as_audit_auth_groups s) a)"

lemma workflow_save_run:
  "\<exists>wo w1. workflow_save x w = (Inr wo, w1) \<and> w_audits w1 = w_audits w \<and> w_logs w1 = w_logs w
     \<and> w_details w1 = w_details w \<and> w_now w1 = w_now w \<and> workflow_type_of wo = workflow_type_of x
     \<and> w_privileges w1 = w_privileges w \<and> w_groups w1 = w_groups w \<and> w_queue w1 = w_queue w"
  by (cases x) (auto simp: Let_def tbl_created_def)

lemma workflow_save_frame:
  obtains wo w1 where "workflow_save x w = (Inr wo, w1)" "w_audits w1 = w_audits w" "w_logs w1 = w_logs w"
    "w_details w1 = w_details w" "w_now w1 = w_now w" "workflow_type_of wo = workflow_type_of x"
    "w_privileges w1 = w_privileges w" "w_groups w1 = w_groups w" "w_queue w1 = w_queue w"
  using workflow_save_run by blast

lemma create_audit_Inr:
  assumes "create_audit compile_re au w = (Inr (msg, au'), w')"
  obtains s wo w1 a w2 l where "au_audit au = None \<Longrightarrow> get_audit w (au_workflow au) = Inr None"
    and "generate_audit_setting compile_re w au = Inr s"
    and "workflow_save (set_audit_auth_groups (audit_auth_group_in_db s) (au_workflow au)) w = (Inr wo, w1)"
    and "audit_save (decided s (fresh_audit au wo (audit_auth_group_in_db s))) w1 = (Inr a, w2)"
    and "w' = w2\<lparr>w_logs := tbl_create set_wl_id l (w_logs w2)\<rparr>" and "wl_audit_id l = wa_audit_id a"
    and "au' = au\<lparr>au_workflow := wo, au_audit := Some a\<rparr>"
proof -
  from assms obtain s where g: "generate_audit_setting compile_re w au = Inr s"
    and none: "au_audit au = None \<Longrightarrow> get_audit w (au_workflow au) = Inr None"
    by (auto simp: create_audit_def bindM_run thenM_run split: option.splits sum.splits if_splits)
  obtain wo w1 where s: "workflow_save (set_audit_auth_groups (audit_auth_group_in_db s) (au_workflow au)) w = (Inr wo, w1)"
    by (rule workflow_save_frame)
  let ?a0 = "decided s (fresh_audit au wo (audit_auth_group_in_db s))"
  from assms g s obtain a w2 where a: "audit_save ?a0 w1 = (Inr a, w2)"
    by (cases "audit_save ?a0 w1")
      (auto simp: create_audit_def bindM_run thenM_run decided_def Let_def split: option.splits sum.splits if_splits)
  with assms g s obtain l where l: "w' = w2\<lparr>w_logs := tbl_create set_wl_id l (w_logs w2)\<rparr>"
      "wl_audit_id l = wa_audit_id a" "au' = au\<lparr>au_workflow := wo, au_audit := Some a\<rparr>"
    by (auto simp: create_audit_def bindM_run thenM_run decided_def Let_def submit_log_def add_log_run log_row_def
        split: option.splits sum.splits if_splits)
  show ?thesis by (rule that [OF none g s a l])
qed

lemma fresh_audit_facts [simp]:
  "wa_audit_id (fresh_audit au wo g) = 0" "wa_audit_auth_groups (fresh_audit au wo g) = g"
  "wa_current_audit (fresh_audit au wo g) = ''-1''" "wa_next_audit (fresh_audit au wo g) = ''-1''"
  "wa_workflow_type (fresh_audit au wo g) = au_workflow_type au" "wa_workflow_id (fresh_audit au wo g) = workflow_pk wo"
  by (cases wo; simp add: fresh_audit_def new_WorkflowAudit_def)+

lemma decided_facts [simp]:
  "wa_audit_id (decided s a) = wa_audit_id a" "wa_audit_auth_groups (decided s a) = wa_audit_auth_groups a"
  "wa_workflow_type (decided s a) = wa_workflow_type a" "wa_workflow_id (decided s a) = wa_workflow_id a"
  by (simp_all add: decided_def first_waiting_def)

lemma setting_groups:
  "generate_audit_setting compile_re w au = Inr s \<Longrightarrow>
     \<exists>t. as_audit_auth_groups s = split_comma t \<and> (\<not> as_auto_reject s \<and> \<not> as_auto_pass s \<longrightarrow> audit_auth_group_in_db s = t)"
  by (auto simp: generate_audit_setting_def audit_auth_group_in_db_def join_split
      elim!: bindE_InrE split: sum.splits if_splits)

lemma first_waiting_at_node:
  "split_comma (wa_audit_auth_groups a) = gs \<Longrightarrow> at_node gs 0 (first_waiting gs a)"
proof -
  assume gs: "split_comma (wa_audit_auth_groups a) = gs"
  then have "gs \<noteq> []" using split_on_ne by metis
  then have "0 < length gs" "hd gs = gs ! 0" by (simp_all add: hd_conv_nth)
  with gs show ?thesis by (auto simp: at_node_def first_waiting_def node_after_def le_Suc_eq)
qed

lemma decided_status:
  assumes "generate_audit_setting compile_re w au = Inr s"
    and a_def: "a = decided s (fresh_audit au wo (audit_auth_group_in_db s))"
  shows "audit_ok a"
    and "wa_current_status a = (if as_auto_reject s then REJECTED else if as_auto_pass s then PASSED else WAITING)"
    and "\<not> as_auto_reject s \<and> \<not> as_auto_pass s \<Longrightarrow> at_node (as_audit_auth_groups s) 0 a"
proof -
  show st: "wa_current_status a = (if as_auto_reject s then REJECTED else if as_auto_pass s then PASSED else WAITING)"
    by (simp add: a_def decided_def first_waiting_def)
  show at: "\<not> as_auto_reject s \<and> \<not> as_auto_pass s \<Longrightarrow> at_node (as_audit_auth_groups s) 0 a"
    using setting_groups [OF assms(1)] by (auto simp: a_def decided_def intro!: first_waiting_at_node)
  show "audit_ok a"
  proof (cases "as_auto_reject s \<or> as_auto_pass s")
    case True
    then show ?thesis by (auto simp: a_def decided_def audit_ok_def)
  next
    case False
    then have "wa_current_status a = WAITING" using st by simp
    with audit_ok_WAITING [of a] at False show ?thesis by blast
  qed
qed

section \<open>The invariant of the approval records\<close>

definition audit_key :: "workflow_audit \<Rightarrow> int \<times> workflow_type" where
  "audit_key a = (wa_workflow_id a, wa_workflow_type a)"

text \<open>
  Keys are distinct and positive, a work order has one record at most, and every record has the
  shape of its status.
\<close>

definition audits_ok :: "workflow_audit table \<Rightarrow> bool" where
  "audits_ok t = (wf_table wa_audit_id t \<and> 1 \<le> tbl_next t \<and> list_all (\<lambda>a. wa_audit_id a \<noteq> 0) (tbl_rows t)
     \<and> distinct (map audit_key (tbl_rows t)) \<and> list_all audit_ok (tbl_rows t))"

lemma audits_ok_empty [simp]: "audits_ok empty_table"
  by (simp add: audits_ok_def empty_table_def wf_table_def)

lemma audits_ok_save:
  assumes "audits_ok t" and "a \<in> set (tbl_rows t)" and "wa_audit_id b = wa_audit_id a"
    and "audit_key b = audit_key a" and "audit_ok b"
  shows "audits_ok (tbl_save wa_audit_id b t)"
proof -
  have wf: "wf_table wa_audit_id t" using assms(1) by (simp add: audits_ok_def)
  have ex: "list_ex (\<lambda>x. wa_audit_id x = wa_audit_id b) (tbl_rows t)"
    using assms(2,3) by (auto simp: list_ex_iff)
  have un: "x = a" if "x \<in> set (tbl_rows t)" "wa_audit_id x = wa_audit_id b" for x
    using that assms(2,3) wf by (auto simp: wf_table_def distinct_map inj_on_def)
  have "map audit_key (map (\<lambda>x. if wa_audit_id x = wa_audit_id b then b else x) (tbl_rows t))
        = map audit_key (tbl_rows t)"
    using un assms(4) by auto
  then show ?thesis
    using assms(1,5) ex wa.wf_save [OF wf, of b]
    by (auto simp: audits_ok_def tbl_save_def list_all_iff simp del: map_map)
qed

lemma audits_ok_insert:
  assumes "audits_ok t" and "audit_ok b"
    and "\<not> tbl_exists (\<lambda>r. wa_workflow_id r = wa_workflow_id b \<and> wa_workflow_type r = wa_workflow_type b) t"
  shows "audits_ok (tbl_create set_wa_id b t)"
proof -
  have "wf_table wa_audit_id (tbl_create set_wa_id b t)"
    using wa.wf_create assms(1) by (auto simp: audits_ok_def)
  moreover have "audit_ok (set_wa_id i b)" for i
    using assms(2) by (simp add: audit_ok_def at_node_def cong: workflow_status.case_cong)
  moreover have "audit_key b \<notin> audit_key ` set (tbl_rows t)"
    using assms(3) by (auto simp: audit_key_def tbl_exists_def list_ex_iff)
  ultimately show ?thesis
    using assms(1) by (auto simp: audits_ok_def tbl_create_def audit_key_def)
qed

lemma create_audit_keeps:
  assumes "audits_ok (w_audits w)" and "au_audit au = None"
  shows "audits_ok (w_audits (snd (create_audit compile_re au w)))"
proof -
  have saved: "audits_ok (w_audits w2)" if "generate_audit_setting compile_re w au = Inr s"
    and "audit_save (decided s (fresh_audit au wo (audit_auth_group_in_db s))) w1 = (r, w2)"
    and "w_audits w1 = w_audits w" for s wo w1 r w2
  proof -
    let ?a = "decided s (fresh_audit au wo (audit_auth_group_in_db s))"
    have ok: "audit_ok (?a\<lparr>wa_create_time := t, wa_sys_time := t\<rparr>)" for t
      using decided_status(1) [OF that(1) refl, of wo]
      by (simp add: audit_ok_def at_node_def cong: workflow_status.case_cong)
    show ?thesis
      using that(2,3) assms(1) audits_ok_insert [OF _ ok]
      by (auto simp: audit_save_def Let_def split: if_splits)
  qed
  have logs: "w_audits (snd (submit_log a i v)) = w_audits v" for a i v
    by (simp add: submit_log_def add_log_run)
  show ?thesis
  proof (cases "get_audit w (au_workflow au)")
    case (Inl e)
    with assms show ?thesis by (simp add: create_audit_def bindM_run)
  next
    case (Inr info)
    show ?thesis
    proof (cases "info = None \<and> (\<exists>s. generate_audit_setting compile_re w au = Inr s)")
      case False
      with Inr assms show ?thesis
        by (cases "generate_audit_setting compile_re w au") (auto simp: create_audit_def bindM_run thenM_run)
    next
      case True
      then obtain s where s: "generate_audit_setting compile_re w au = Inr s" by blast
      obtain wo w1 where ws: "workflow_save (set_audit_auth_groups (audit_auth_group_in_db s) (au_workflow au)) w = (Inr wo, w1)"
        and f: "w_audits w1 = w_audits w" by (rule workflow_save_frame)
      let ?a = "decided s (fresh_audit au wo (audit_auth_group_in_db s))"
      obtain r w2 where a: "audit_save ?a w1 = (r, w2)" by fastforce
      have w2: "audits_ok (w_audits w2)" by (rule saved [OF s a f])
      have "w_audits (snd (create_audit compile_re au w)) = w_audits w2"
        using True assms(2) Inr s ws a
        by (cases r) (auto simp: create_audit_def bindM_run thenM_run decided_def Let_def submit_log_def add_log_run
          split: if_splits sum.splits prod.splits)
      with w2 show ?thesis by simp
    qed
  qed
qed

lemma operate_keeps:
  assumes "audits_ok (w_audits w)" and "au_audit au = Some a" and "a \<in> set (tbl_rows (w_audits w))"
  shows "audits_ok (w_audits (snd (operate action u r au w)))"
proof -
  have ia: "wa_audit_id a \<noteq> 0" using assms(1,3) by (auto simp: audits_ok_def list_all_iff)
  have pass: "audits_ok (w_audits (snd (operate_pass u r a w)))"
  proof (cases "next_node a")
    case (Inl e)
    with assms(1) show ?thesis by (simp add: operate_pass_def bindM_run)
  next
    case (Inr b)
    note f = next_node_Inr [OF Inr]
    have "audits_ok (tbl_save wa_audit_id (b\<lparr>wa_sys_time := w_now w\<rparr>) (w_audits w))"
      by (rule audits_ok_save [OF assms(1,3)]) (simp_all add: f audit_key_def)
    with Inr ia f(2) show ?thesis by (auto simp: operate_pass_def op_simps split: sum.splits)
  qed
  have rej: "audits_ok (w_audits (snd (operate_reject u r a w)))"
    using ia audits_ok_save [OF assms(1,3)]
    by (auto simp: operate_reject_def op_simps audit_key_def audit_ok_def)
  have ab: "audits_ok (w_audits (snd (operate_abort u r a w)))"
    using ia audits_ok_save [OF assms(1,3)]
    by (auto simp: operate_abort_def op_simps audit_key_def audit_ok_def)
  show ?thesis
    using assms(1,2) pass rej ab
    by (auto simp: operate_def thenM_run bindM_run split: sum.splits prod.splits)
qed

end
