(* ===== verification/ExecuteSql.thy ===== *)
theory ExecuteSql
  imports SqlReview ApprovalChain
begin

text \<open>
  \<open>sql/utils/execute_sql.py\<close>: the task that runs a release of SQL and the callback that records its
  result. The engine of the instance and the exporter of offline downloads are parameters; so is
  the JSON encoder of a result. Clearing the resource cache after DDL touches Redis only; sending
  the notification is represented by the answer of the callback.
\<close>

type_synonym engine_run = "instance_row \<Rightarrow> sql_workflow \<Rightarrow> review_set res"

fun sql_status_display :: "sql_workflow_status \<Rightarrow> string" where
  "sql_status_display workflow_finish = ''workflow_finish''"
| "sql_status_display workflow_abort = ''workflow_abort''"
| "sql_status_display workflow_manreviewing = ''workflow_manreviewing''"
| "sql_status_display workflow_review_pass = ''workflow_review_pass''"
| "sql_status_display workflow_timingtask = ''workflow_timingtask''"
| "sql_status_display workflow_queuing = ''workflow_queuing''"
| "sql_status_display workflow_executing = ''workflow_executing''"
| "sql_status_display workflow_autoreviewwrong = ''workflow_autoreviewwrong''"
| "sql_status_display workflow_exception = ''workflow_exception''"

text \<open>\<open>Audit.detail_by_workflow_id(...).audit_id\<close>: an \<open>AttributeError\<close> when there is no record.\<close>

definition sql_audit_id :: "world \<Rightarrow> int \<Rightarrow> int res" where
  "sql_audit_id w i = (case detail_by_workflow_id w i SQL_REVIEW of
       Some a \<Rightarrow> Inr (wa_audit_id a)
     | None \<Rightarrow> Inl (AttributeError ''NoneType object has no attribute audit_id''))"

definition set_sql_status :: "int \<Rightarrow> sql_workflow_status \<Rightarrow> (world, unit) M" where
  "set_sql_status i st = (\<lambda>w. case tbl_save_fields sw_id i (\<lambda>x. x\<lparr>sw_status := st\<rparr>) (w_workflows w) of
       Inl e \<Rightarrow> (Inl e, w) | Inr t \<Rightarrow> (Inr (), w\<lparr>w_workflows := t\<rparr>))"

definition start_execution :: "int \<Rightarrow> (world, sql_workflow) M" where
  "start_execution i =
     atomicM (bindM (liftM (\<lambda>w. workflow_get w i)) (\<lambda>x.
       thenM (if sw_status x \<notin> set [workflow_queuing, workflow_timingtask]
              then throw (PyException ''the status of the work order is wrong, execution refused'')
              else set_sql_status i workflow_executing)
         (ret x)))"

definition execute ::
  "engine_run \<Rightarrow> (sql_workflow \<Rightarrow> review_set res) \<Rightarrow> int \<Rightarrow> (string \<times> string) option \<Rightarrow> (world, review_set) M" where
  "execute execute_workflow execute_offline_download i u =
     bindM (start_execution i) (\<lambda>x.
     bindM (liftM (\<lambda>w. sql_audit_id w i)) (\<lambda>aid.
     bindM (add_log aid 5 ''execute''
              (if u = None then ''executed by the timer'' else ''execution started'')
              (case u of Some (n, d) \<Rightarrow> n | None \<Rightarrow> '''') (case u of Some (n, d) \<Rightarrow> d | None \<Rightarrow> ''system'')) (\<lambda>_.
     bindM (liftM (\<lambda>w. instance_by_id w (sw_instance x))) (\<lambda>ins.
       liftM (\<lambda>w. if sw_is_offline_export x \<noteq> 0 then execute_offline_download x
                 else execute_workflow ins x)))))"

text \<open>A finished task of django-q, as its hook receives it.\<close>

datatype task_result = TaskResult review_set | TaskFailed string

record q_task =
  task_arg :: int
  task_stopped :: datetime
  task_value :: task_result

definition failed_set :: "string \<Rightarrow> string \<Rightarrow> review_set" where
  "failed_set sql_content message = (new_ReviewSet sql_content)\<lparr>rs_rows :=
     [new_ReviewResult\<lparr>rr_stage := ''Execute failed'', rr_errlevel := 2,
        rr_stagestatus := ''aborted'', rr_errormessage := message, rr_sql := sql_content\<rparr>]\<rparr>"

definition has_text :: "string option \<Rightarrow> bool" where
  "has_text x = (case x of Some s \<Rightarrow> s \<noteq> [] | None \<Rightarrow> False)"

definition task_outcome :: "q_task \<Rightarrow> string \<Rightarrow> sql_workflow_status \<times> review_set" where
  "task_outcome task sql_content = (case task_value task of
       TaskFailed m \<Rightarrow> (workflow_exception, failed_set sql_content m)
     | TaskResult rs \<Rightarrow> (if has_text (rs_warning rs) \<or> has_text (rs_error rs) then workflow_exception
                       else workflow_finish, rs))"

definition content_save :: "sql_workflow_content \<Rightarrow> (world, unit) M" where
  "content_save c = modifyM (\<lambda>w. w\<lparr>w_contents := tbl_save swc_id c (w_contents w)\<rparr>)"

text \<open>
  The \<open>try\<close> block of the callback and its handler: when the result cannot be encoded or the work
  order has no content row, the order is marked as failed instead.
\<close>

definition record_result ::
  "(review_set \<Rightarrow> rows_text res) \<Rightarrow> sql_workflow \<Rightarrow> review_set \<Rightarrow> datetime \<Rightarrow> (world, unit) M" where
  "record_result to_json x rs stopped =
     catchM (bindM (liftM (\<lambda>w. to_json rs)) (\<lambda>t.
       bindM (liftM (\<lambda>w. content_of w (sw_id x))) (\<lambda>c.
         thenM (content_save (c\<lparr>swc_execute_result := t\<rparr>))
               (modifyM (\<lambda>w. w\<lparr>w_workflows := tbl_save sw_id x (w_workflows w)\<rparr>)))))
      (\<lambda>e. Some (
        thenM (modifyM (\<lambda>w. w\<lparr>w_workflows := tbl_update (\<lambda>y. sw_id y = sw_id x)
            (\<lambda>y. y\<lparr>sw_finish_time := Some stopped, sw_status := workflow_exception\<rparr>) (w_workflows w)\<rparr>))
        (bindM (liftM (\<lambda>w. content_of w (sw_id x))) (\<lambda>c.
           content_save (c\<lparr>swc_execute_result := PlainText (''{'' @ [squote] @ exn_str e @ [squote] @ ''}'')\<rparr>)))))"

definition is_notified :: "world \<Rightarrow> string \<Rightarrow> bool res" where
  "is_notified w phase =
     (let v = config_get w ''notify_phase_control'' PNone in
      if truthy v then bindE (pyval_split_comma v) (\<lambda>ps. Inr (phase \<in> set ps)) else Inr True)"

definition finish_callback ::
  "(review_set \<Rightarrow> rows_text res) \<Rightarrow> q_task \<Rightarrow> sql_workflow \<Rightarrow> string \<Rightarrow> (world, bool) M" where
  "finish_callback to_json task x sql_content =
     (let (st, rs) = task_outcome task sql_content;
          x' = x\<lparr>sw_finish_time := Some (task_stopped task), sw_status := st\<rparr> in
      thenM (record_result to_json x' rs (task_stopped task))
      (bindM (liftM (\<lambda>w. sql_audit_id w (task_arg task))) (\<lambda>aid.
       bindM (add_log aid 6 ''execution end'' (''result: '' @ sql_status_display st) '''' ''system'') (\<lambda>_.
         liftM (\<lambda>w. is_notified w ''Execute'')))))"

definition execute_callback :: "(review_set \<Rightarrow> rows_text res) \<Rightarrow> q_task \<Rightarrow> (world, bool) M" where
  "execute_callback to_json task =
     bindM (atomicM (bindM (liftM (\<lambda>w. workflow_get w (task_arg task))) (\<lambda>x.
       thenM (raise_if (sw_status x \<noteq> workflow_executing)
         (PyException ''the status of the work order is wrong, result not recorded'')) (ret x)))) (\<lambda>x.
     bindM (case task_value task of
         TaskFailed m \<Rightarrow> bindM (liftM (\<lambda>w. content_of w (sw_id x))) (\<lambda>c. ret (swc_sql_content c))
       | TaskResult rs \<Rightarrow> ret '''') (\<lambda>sql_content.
     finish_callback to_json task x sql_content))"

section \<open>Lemmas\<close>

lemma start_execution_Inr:
  assumes "start_execution i w = (Inr x, w')"
  shows "workflow_get w i = Inr x \<and> sw_status x \<in> {workflow_queuing, workflow_timingtask}
    \<and> w' = w\<lparr>w_workflows := tbl_update (\<lambda>x. sw_id x = i) (\<lambda>x. x\<lparr>sw_status := workflow_executing\<rparr>) (w_workflows w)\<rparr>"
  using assms
  by (auto simp: start_execution_def atomicM_run bindM_run thenM_run set_sql_status_def tbl_save_fields_def
      split: sum.splits prod.splits if_splits)

lemma start_execution_Inl: "start_execution i w = (Inl e, w') \<Longrightarrow> w' = w"
  unfolding start_execution_def by (rule atomicM_Inl)

lemma workflow_get_executing:
  assumes "workflow_get w i = Inr x"
  shows "workflow_get (w\<lparr>w_workflows := tbl_update (\<lambda>x. sw_id x = i) (\<lambda>x. x\<lparr>sw_status := st\<rparr>) (w_workflows w)\<rparr>) i
    = Inr (x\<lparr>sw_status := st\<rparr>)"
  using tbl_get_update [where P = "\<lambda>x. sw_id x = i" and f = "\<lambda>x. x\<lparr>sw_status := st\<rparr>" and Q = "\<lambda>x. sw_id x = i",
    of "''SqlWorkflow''" "w_workflows w" x] assms workflow_get_Inr [OF assms]
  by (simp add: workflow_get_def)

text \<open>After the first step of a run, whatever follows, the order is in execution.\<close>

lemma execute_status:
  assumes "execute ew eo i u w = (r, w')"
  shows "(\<exists>e. r = Inl e \<and> w' = w \<and> start_execution i w = (Inl e, w))
    \<or> (\<exists>x. workflow_get w i = Inr x \<and> sw_status x \<in> {workflow_queuing, workflow_timingtask}
         \<and> workflow_get w' i = Inr (x\<lparr>sw_status := workflow_executing\<rparr>))"
proof (cases "start_execution i w")
  case (Pair s v)
  show ?thesis
  proof (cases s)
    case (Inl e)
    with Pair start_execution_Inl [of i w e v] assms show ?thesis by (simp add: execute_def bindM_run)
  next
    case (Inr x)
    with Pair have "start_execution i w = (Inr x, v)" by simp
    note f = start_execution_Inr [OF this]
    have "w_workflows w' = w_workflows v"
      using assms Pair Inr by (auto simp: execute_def bindM_run add_log_def Let_def split: sum.splits)
    then have "workflow_get w' i = workflow_get v i" by (simp add: workflow_get_def)
    with f workflow_get_executing [of w i x workflow_executing] show ?thesis by auto
  qed
qed

lemma execute_refused:
  assumes "workflow_get w i = Inr x" and "sw_status x \<notin> {workflow_queuing, workflow_timingtask}"
  shows "execute ew eo i u w = (Inl (PyException ''the status of the work order is wrong, execution refused''), w)"
  using assms by (simp add: execute_def start_execution_def atomicM_run bindM_run thenM_run)

lemma record_result_status:
  assumes "record_result to_json x rs stopped w = (Inr (), w')" and "workflow_get w (sw_id x) = Inr y"
  shows "\<exists>z. workflow_get w' (sw_id x) = Inr z
    \<and> sw_finish_time z = (if \<exists>t. to_json rs = Inr t then sw_finish_time x else Some stopped)
    \<and> sw_status z = (if \<exists>t. to_json rs = Inr t then sw_status x else workflow_exception)"
proof (cases "to_json rs")
  case (Inl e)
  let ?f = "\<lambda>y. y\<lparr>sw_finish_time := Some stopped, sw_status := workflow_exception\<rparr>"
  have "tbl_get ''SqlWorkflow'' (\<lambda>y. sw_id y = sw_id x) (tbl_update (\<lambda>y. sw_id y = sw_id x) ?f (w_workflows w))
    = Inr (?f y)"
    using tbl_get_update [where P = "\<lambda>y. sw_id y = sw_id x" and Q = "\<lambda>y. sw_id y = sw_id x" and f = ?f,
        of "''SqlWorkflow''" "w_workflows w" y] assms(2) workflow_get_Inr [OF assms(2)]
    by (simp add: workflow_get_def)
  with Inl assms(1) show ?thesis
    by (auto simp: record_result_def catchM_run bindM_run thenM_run content_save_def workflow_get_def split: sum.splits)
next
  case (Inr t)
  then obtain c where c: "content_of w (sw_id x) = Inr c"
    using assms(1) by (auto simp: record_result_def catchM_run bindM_run thenM_run content_of_def split: sum.splits)
  let ?v = "w\<lparr>w_contents := tbl_save swc_id (c\<lparr>swc_execute_result := t\<rparr>) (w_contents w)\<rparr>"
  from Inr c assms(1) have "w' = ?v\<lparr>w_workflows := tbl_save sw_id x (w_workflows ?v)\<rparr>"
    by (auto simp: record_result_def catchM_run bindM_run thenM_run content_save_def)
  moreover have "tbl_get ''SqlWorkflow'' (\<lambda>z. sw_id z = sw_id x) (tbl_save sw_id x (w_workflows w)) = Inr x"
    using assms(2) by (auto simp: workflow_get_def intro: tbl_get_save)
  ultimately show ?thesis using Inr by (simp add: workflow_get_def)
qed

section \<open>Properties\<close>

text \<open>C8. A release of SQL runs once: whatever comes of a run, either it was refused and nothing changed, or
  the order had been queued or timed and is now in execution, and every further run of it is
  refused with the state unchanged.\<close>

theorem execute_at_most_once:
  assumes "execute ew eo i u w = (r, w')"
  shows "(\<exists>e. r = Inl e \<and> w' = w)
    \<or> (\<exists>x. workflow_get w i = Inr x \<and> sw_status x \<in> {workflow_queuing, workflow_timingtask}
         \<and> workflow_get w' i = Inr (x\<lparr>sw_status := workflow_executing\<rparr>)
         \<and> (\<exists>e. execute ew' eo' i u' w' = (Inl e, w')))"
  using execute_status [OF assms] execute_refused [of w' i] by fastforce

definition demo_queued :: "sql_workflow_status \<Rightarrow> world" where
  "demo_queued st = empty_world\<lparr>
     w_workflows := \<lparr>tbl_rows = [new_SqlWorkflow\<lparr>sw_id := 1, sw_instance := 7, sw_status := st\<rparr>], tbl_next = 2\<rparr>,
     w_contents := \<lparr>tbl_rows = [\<lparr>swc_id = 1, swc_workflow = 1, swc_sql_content = ''select 1'',
        swc_review_content = NoText, swc_execute_result = NoText\<rparr>], tbl_next = 2\<rparr>,
     w_instances := \<lparr>tbl_rows = [new_Instance\<lparr>i_id := 7\<rparr>], tbl_next = 8\<rparr>,
     w_audits := \<lparr>tbl_rows = [new_WorkflowAudit\<lparr>wa_audit_id := 3, wa_workflow_id := 1\<rparr>], tbl_next = 4\<rparr>\<rparr>"

theorem execute_at_most_once_witness:
  "\<exists>w'. execute (\<lambda>i x. Inr (new_ReviewSet ''select 1'')) (\<lambda>x. Inr (new_ReviewSet [])) 1 None (demo_queued workflow_queuing)
       = (Inr (new_ReviewSet ''select 1''), w')
     \<and> (\<exists>e. execute (\<lambda>i x. Inr (new_ReviewSet [])) (\<lambda>x. Inr (new_ReviewSet [])) 1 None w' = (Inl e, w'))"
proof -
  let ?run = "execute (\<lambda>i x. Inr (new_ReviewSet ''select 1'')) (\<lambda>x. Inr (new_ReviewSet [])) 1 None (demo_queued workflow_queuing)"
  have "fst ?run = Inr (new_ReviewSet ''select 1'')" by code_simp
  then obtain w' where run: "?run = (Inr (new_ReviewSet ''select 1''), w')" by (metis prod.collapse)
  with execute_at_most_once [OF run] show ?thesis by blast
qed

text \<open>What the callback of a run leaves behind: it goes through only for an order in execution, records
  the end time, and sets the order to finished exactly if the task succeeded, its result has neither
  warning nor error text and could be encoded, and to failed otherwise. A second callback for the
  same order is refused and changes nothing.\<close>

theorem execute_callback_outcome:
  assumes "execute_callback to_json task w = (Inr n, w')"
  shows "\<exists>x z. workflow_get w (task_arg task) = Inr x \<and> sw_status x = workflow_executing
    \<and> workflow_get w' (task_arg task) = Inr z
    \<and> (sw_status z = workflow_finish \<longleftrightarrow> (\<exists>rs t. task_value task = TaskResult rs \<and> to_json rs = Inr t
          \<and> \<not> has_text (rs_warning rs) \<and> \<not> has_text (rs_error rs)))
    \<and> sw_status z \<in> {workflow_finish, workflow_exception} \<and> sw_finish_time z = Some (task_stopped task)
    \<and> (\<exists>e. execute_callback to_json' (task\<lparr>task_value := v\<rparr>) w' = (Inl e, w'))"
proof -
  from assms obtain x where x: "workflow_get w (task_arg task) = Inr x" "sw_status x = workflow_executing"
    by (auto simp: execute_callback_def bindM_run thenM_run atomicM_run split: sum.splits if_splits)
  from assms x obtain sql where fin: "finish_callback to_json task x sql w = (Inr n, w')"
    by (auto simp: execute_callback_def bindM_run thenM_run atomicM_run split: sum.splits task_result.splits)
  obtain st rs where o: "task_outcome task sql = (st, rs)" by fastforce
  obtain q w1 where r: "record_result to_json (x\<lparr>sw_finish_time := Some (task_stopped task), sw_status := st\<rparr>) rs
      (task_stopped task) w = (q, w1)" by fastforce
  from fin o r have q: "q = Inr ()" and same: "w_workflows w' = w_workflows w1"
    by (cases q; cases "sql_audit_id w1 (task_arg task)";
        simp add: finish_callback_def bindM_run thenM_run add_log_run; force)+
  note rec = r [unfolded q]
  have ix: "sw_id x = task_arg task" using workflow_get_Inr [OF x(1)] by simp
  with record_result_status [OF rec] x(1) obtain z where z: "workflow_get w1 (task_arg task) = Inr z"
    "sw_finish_time z = Some (task_stopped task)"
    "sw_status z = (if \<exists>t. to_json rs = Inr t then st else workflow_exception)"
    by auto
  have z': "workflow_get w' (task_arg task) = Inr z" using z(1) same by (simp add: workflow_get_def)
  have st: "sw_status z = workflow_finish \<longleftrightarrow> (\<exists>rs t. task_value task = TaskResult rs \<and> to_json rs = Inr t
          \<and> \<not> has_text (rs_warning rs) \<and> \<not> has_text (rs_error rs))"
    "sw_status z \<in> {workflow_finish, workflow_exception}"
    using z(3) o [symmetric] by (auto simp: task_outcome_def split: task_result.splits if_splits)
  then have "sw_status z \<noteq> workflow_executing" by auto
  with z' have "\<exists>e. execute_callback to_json' (task\<lparr>task_value := v\<rparr>) w' = (Inl e, w')"
    by (simp add: execute_callback_def bindM_run thenM_run atomicM_run)
  with x z' z(2) st show ?thesis by blast
qed

theorem execute_callback_outcome_witness:
  "\<exists>w' z. execute_callback (\<lambda>rs. Inr (ReviewSet_json rs))
       \<lparr>task_arg = 1, task_stopped = 99, task_value = TaskResult (new_ReviewSet [])\<rparr> (demo_queued workflow_executing)
       = (Inr True, w') \<and> workflow_get w' 1 = Inr z \<and> sw_status z = workflow_finish"
proof -
  let ?t = "\<lparr>task_arg = 1, task_stopped = 99, task_value = TaskResult (new_ReviewSet [])\<rparr>"
  let ?run = "execute_callback (\<lambda>rs. Inr (ReviewSet_json rs)) ?t (demo_queued workflow_executing)"
  have "fst ?run = Inr True" by code_simp
  then obtain w' where run: "?run = (Inr True, w')" by (metis prod.collapse)
  from execute_callback_outcome [OF run] run show ?thesis
    by (auto simp: has_text_def new_ReviewSet_def)
qed

end
