(* ===== verification/Schedules.thy ===== *)
theory Schedules
  imports Models
begin

text \<open>
  \<open>sql/utils/tasks.py\<close>: timers, kept as named rows of django-q's schedule table. The locale
  \<open>timer\<close> is the contract the callers rely on: at most one timer bears a name, setting a timer
  replaces the one of its name, and other timers are left alone.
\<close>

definition del_schedule :: "string \<Rightarrow> schedule table \<Rightarrow> schedule table res" where
  "del_schedule name t = (case tbl_get ''Schedule'' (\<lambda>s. sc_name s = name) t of
       Inr s \<Rightarrow> Inr (tbl_delete (\<lambda>x. sc_id x = sc_id s) t)
     | Inl e \<Rightarrow> if is_DoesNotExist e then Inr t else Inl e)"

definition task_info :: "string \<Rightarrow> schedule table \<Rightarrow> schedule option res" where
  "task_info name t = (case tbl_get ''Schedule'' (\<lambda>s. sc_name s = name) t of
       Inr s \<Rightarrow> Inr (Some s)
     | Inl e \<Rightarrow> if is_DoesNotExist e then Inr None else Inl e)"

definition add_schedule :: "schedule \<Rightarrow> schedule table \<Rightarrow> schedule table res" where
  "add_schedule s t = bindE (del_schedule (sc_name s) t) (\<lambda>t'. Inr (tbl_create set_sc_id s t'))"

definition sql_schedule :: "string \<Rightarrow> datetime \<Rightarrow> int \<Rightarrow> schedule" where
  "sql_schedule name run_date workflow_id = \<lparr>sc_id = 0, sc_name = name,
     sc_func = ''sql.utils.execute_sql.execute'', sc_args = [workflow_id],
     sc_hook = ''sql.utils.execute_sql.execute_callback'', sc_schedule_type = ''O'',
     sc_next_run = run_date, sc_repeats = 1\<rparr>"

definition add_sql_schedule :: "string \<Rightarrow> datetime \<Rightarrow> int \<Rightarrow> schedule table \<Rightarrow> schedule table res" where
  "add_sql_schedule name run_date workflow_id t = add_schedule (sql_schedule name run_date workflow_id) t"

definition add_kill_conn_schedule ::
  "string \<Rightarrow> datetime \<Rightarrow> int \<Rightarrow> int \<Rightarrow> schedule table \<Rightarrow> schedule table res" where
  "add_kill_conn_schedule name run_date instance_id thread_id t =
     add_schedule \<lparr>sc_id = 0, sc_name = name, sc_func = ''sql.query.kill_query_conn'',
       sc_args = [instance_id, thread_id], sc_hook = '''', sc_schedule_type = ''O'',
       sc_next_run = run_date, sc_repeats = 1\<rparr> t"

definition ding_schedule_name :: string where
  "ding_schedule_name = ''sync dingtalk user ids''"

text \<open>\<open>next_run\<close> is left to its default, the current time.\<close>

definition add_sync_ding_user_schedule :: "datetime \<Rightarrow> schedule table \<Rightarrow> schedule table res" where
  "add_sync_ding_user_schedule now t =
     add_schedule \<lparr>sc_id = 0, sc_name = ding_schedule_name,
       sc_func = ''common.utils.ding_api.sync_ding_user_id'', sc_args = [], sc_hook = '''',
       sc_schedule_type = ''D'', sc_next_run = now, sc_repeats = -1\<rparr> t"

text \<open>The same on the state, and django-q's \<open>async_task\<close>, which appends to the queue.\<close>

definition with_schedules :: "(schedule table \<Rightarrow> schedule table res) \<Rightarrow> (world, unit) M" where
  "with_schedules f = (\<lambda>w. case f (w_schedules w) of
     Inl e \<Rightarrow> (Inl e, w) | Inr t \<Rightarrow> (Inr (), w\<lparr>w_schedules := t\<rparr>))"

definition async_task :: "async_job \<Rightarrow> (world, unit) M" where
  "async_task j = modifyM (\<lambda>w. w\<lparr>w_queue := w_queue w @ [j]\<rparr>)"

text \<open>The task that sends the messages about a record to its reviewers.\<close>

definition notify_for_audit :: "int \<Rightarrow> string \<Rightarrow> async_job" where
  "notify_for_audit audit_id name = \<lparr>aj_func = ''sql.notify.notify_for_audit'', aj_args = [audit_id],
     aj_user = None, aj_hook = '''', aj_task_name = name\<rparr>"

section \<open>The contract of timers\<close>

locale timer =
  fixes look :: "string \<Rightarrow> 's \<Rightarrow> 'e option"
    and put :: "'e \<Rightarrow> 's \<Rightarrow> 's res"
    and del :: "string \<Rightarrow> 's \<Rightarrow> 's res"
    and name_of :: "'e \<Rightarrow> string"
    and same :: "'e \<Rightarrow> 'e \<Rightarrow> bool"
    and ok :: "'s \<Rightarrow> bool"
  assumes put_ok: "ok s \<Longrightarrow> \<exists>s'. put e s = Inr s' \<and> ok s'"
    and del_ok: "ok s \<Longrightarrow> \<exists>s'. del n s = Inr s' \<and> ok s'"
    and look_put: "ok s \<Longrightarrow> put e s = Inr s' \<Longrightarrow> \<exists>e'. look (name_of e) s' = Some e' \<and> same e e'"
    and look_put_other: "ok s \<Longrightarrow> put e s = Inr s' \<Longrightarrow> n \<noteq> name_of e \<Longrightarrow> look n s' = look n s"
    and look_del: "ok s \<Longrightarrow> del n s = Inr s' \<Longrightarrow> look n s' = None"
    and look_del_other: "ok s \<Longrightarrow> del n s = Inr s' \<Longrightarrow> m \<noteq> n \<Longrightarrow> look m s' = look m s"
begin

text \<open>Setting a timer twice leaves the second; cancelling after setting leaves none.\<close>

lemma put_put:
  assumes "ok s" "put e s = Inr s1" "put e' s1 = Inr s2" "name_of e' = name_of e"
  shows "\<exists>e''. look (name_of e) s2 = Some e'' \<and> same e' e''"
proof -
  have "ok s1" using put_ok [OF assms(1), of e] assms(2) by auto
  from look_put [OF this assms(3)] assms(4) show ?thesis by simp
qed

lemma put_del:
  assumes "ok s" "put e s = Inr s1" "del (name_of e) s1 = Inr s2"
  shows "look (name_of e) s2 = None \<and> (\<forall>n. n \<noteq> name_of e \<longrightarrow> look n s2 = look n s)"
proof -
  have "ok s1" using put_ok [OF assms(1), of e] assms(2) by auto
  then show ?thesis
    using look_del [OF _ assms(3)] look_del_other [OF _ assms(3)] look_put_other [OF assms(1,2)] by simp
qed

end

definition wf_schedules :: "schedule table \<Rightarrow> bool" where
  "wf_schedules t = (wf_table sc_id t \<and> distinct (map sc_name (tbl_rows t)))"

definition schedule_named :: "string \<Rightarrow> schedule table \<Rightarrow> schedule option" where
  "schedule_named n t = find (\<lambda>s. sc_name s = n) (tbl_rows t)"

definition same_timer :: "schedule \<Rightarrow> schedule \<Rightarrow> bool" where
  "same_timer s s' = (s\<lparr>sc_id := 0\<rparr> = s'\<lparr>sc_id := 0\<rparr>)"

lemma filter_name:
  "distinct (map sc_name xs) \<Longrightarrow> filter (\<lambda>s. sc_name s = n) xs =
     (case find (\<lambda>s. sc_name s = n) xs of None \<Rightarrow> [] | Some s \<Rightarrow> [s])"
proof (induction xs)
  case (Cons x xs)
  show ?case
  proof (cases "sc_name x = n")
    case True
    with Cons.prems have "filter (\<lambda>s. sc_name s = n) xs = []" by (auto simp: filter_empty_conv image_iff)
    with True show ?thesis by simp
  qed (use Cons in simp)
qed simp

lemma del_schedule_eq:
  assumes "wf_schedules t"
  shows "del_schedule n t = Inr (tbl_delete (\<lambda>s. sc_name s = n) t)"
proof (cases "schedule_named n t")
  case None
  then have "\<forall>s \<in> set (tbl_rows t). sc_name s \<noteq> n" by (auto simp: schedule_named_def find_None_iff)
  then have "tbl_delete (\<lambda>s. sc_name s = n) t = t" by (simp add: tbl_delete_def)
  with None assms show ?thesis
    by (simp add: del_schedule_def tbl_get_def wf_schedules_def filter_name schedule_named_def)
next
  case (Some s)
  then have s: "s \<in> set (tbl_rows t)" "sc_name s = n"
    by (auto simp: schedule_named_def find_Some_iff)
  have "sc_id x = sc_id s \<longleftrightarrow> sc_name x = n" if "x \<in> set (tbl_rows t)" for x
  proof -
    have "inj_on sc_id (set (tbl_rows t))" "inj_on sc_name (set (tbl_rows t))"
      using assms by (auto simp: wf_schedules_def wf_table_def distinct_map)
    with that s show ?thesis by (auto dest: inj_onD)
  qed
  then have "tbl_delete (\<lambda>x. sc_id x = sc_id s) t = tbl_delete (\<lambda>x. sc_name x = n) t"
    by (auto simp: tbl_delete_def cong: filter_cong)
  with Some assms show ?thesis
    by (simp add: del_schedule_def tbl_get_def wf_schedules_def filter_name schedule_named_def)
qed

lemma wf_del_schedule: "wf_schedules t \<Longrightarrow> wf_schedules (tbl_delete P t)"
  by (auto simp: wf_schedules_def wf_table_def tbl_delete_def distinct_map list_all_iff intro: inj_on_subset)

lemma find_filter_same: "(\<And>x. P x \<Longrightarrow> Q x) \<Longrightarrow> find P (filter Q xs) = find P xs"
  by (induction xs) auto

lemma find_snoc: "find P (xs @ [x]) = (case find P xs of None \<Rightarrow> if P x then Some x else None | y \<Rightarrow> y)"
  by (induction xs) auto

lemma add_schedule_eq:
  "wf_schedules t \<Longrightarrow>
     add_schedule s t = Inr (tbl_create set_sc_id s (tbl_delete (\<lambda>x. sc_name x = sc_name s) t))"
  by (simp add: add_schedule_def del_schedule_eq)

lemma schedule_named_add:
  "schedule_named n (tbl_create set_sc_id s (tbl_delete (\<lambda>x. sc_name x = sc_name s) t)) =
     (if n = sc_name s then Some (set_sc_id (tbl_next t) s) else schedule_named n t)"
proof (cases "n = sc_name s")
  case True
  have "find (\<lambda>x. sc_name x = sc_name s) (filter (\<lambda>x. sc_name x \<noteq> sc_name s) (tbl_rows t)) = None"
    by (simp add: find_None_iff)
  with True show ?thesis
    by (simp add: schedule_named_def tbl_create_def tbl_delete_def find_snoc)
next
  case False
  then have "find (\<lambda>x. sc_name x = n) (filter (\<lambda>x. sc_name x \<noteq> sc_name s) (tbl_rows t))
      = find (\<lambda>x. sc_name x = n) (tbl_rows t)" by (intro find_filter_same) auto
  with False show ?thesis
    by (simp add: schedule_named_def tbl_create_def tbl_delete_def find_snoc split: option.split)
qed

lemma schedule_named_del:
  "schedule_named m (tbl_delete (\<lambda>s. sc_name s = n) t) = (if m = n then None else schedule_named m t)"
  by (auto simp: schedule_named_def tbl_delete_def find_None_iff intro!: find_filter_same)

interpretation st: timer schedule_named add_schedule del_schedule "sc_name :: schedule \<Rightarrow> string" same_timer wf_schedules
proof unfold_locales
  fix s and e :: schedule assume wf: "wf_schedules s"
  let ?t = "tbl_delete (\<lambda>x. sc_name x = sc_name e) s"
  have t: "wf_schedules ?t" by (rule wf_del_schedule [OF wf])
  then have "wf_schedules (tbl_create set_sc_id e ?t)"
    using sc.wf_create [of ?t e]
    by (auto simp: wf_schedules_def tbl_create_def) (auto simp: tbl_delete_def)
  then show "\<exists>s'. add_schedule e s = Inr s' \<and> wf_schedules s'" by (simp add: add_schedule_eq [OF wf])
next
  fix s n assume "wf_schedules s"
  then show "\<exists>s'. del_schedule n s = Inr s' \<and> wf_schedules s'" by (simp add: del_schedule_eq wf_del_schedule)
next
  fix s s' and e :: schedule assume "wf_schedules s" "add_schedule e s = Inr s'"
  then show "\<exists>e'. schedule_named (sc_name e) s' = Some e' \<and> same_timer e e'"
    by (auto simp: add_schedule_eq schedule_named_add same_timer_def)
next
  fix s s' n and e :: schedule assume "wf_schedules s" "add_schedule e s = Inr s'" "n \<noteq> sc_name e"
  then show "schedule_named n s' = schedule_named n s" by (auto simp: add_schedule_eq schedule_named_add)
next
  fix s n s' assume "wf_schedules s" "del_schedule n s = Inr s'"
  then show "schedule_named n s' = None" by (auto simp: del_schedule_eq schedule_named_del)
next
  fix s n s' m assume "wf_schedules s" "del_schedule n s = Inr s'" "m \<noteq> n"
  then show "schedule_named m s' = schedule_named m s" by (auto simp: del_schedule_eq schedule_named_del)
qed

lemma task_info_eq: "wf_schedules t \<Longrightarrow> task_info n t = Inr (schedule_named n t)"
  by (simp add: task_info_def tbl_get_def wf_schedules_def filter_name schedule_named_def split: option.split)

end
