(* ===== verification/QueryPrivileges.thy ===== *)
theory QueryPrivileges
  imports WorkflowAudit Schedules
begin

text \<open>
  \<open>sql/query_privileges.py\<close>, \<open>sql/services/privilege_service.py\<close> and the application views of
  \<open>sql_api/api_misc.py\<close>: the check of a query against the privileges of the user, the granting of an
  approved application, applications, and changes of granted privileges. The tables a MySQL
  statement refers to come from goInception, the databases of other statements from sqlparse: both
  are parameters. A stored reference answers like a fresh one, so the cache in front of goInception
  is left out. A limit that the code returns as \<open>False\<close> is \<open>None\<close>.
\<close>

section \<open>Looking up privileges\<close>

definition admin_query_limit :: "world \<Rightarrow> int res" where
  "admin_query_limit w = pyval_int (config_get w ''admin_query_limit'' (PInt 5000))"

text \<open>\<open>valid_date >= now\<close> compares the date column with today's date.\<close>

definition live_priv :: "world \<Rightarrow> user \<Rightarrow> int \<Rightarrow> query_privileges \<Rightarrow> bool" where
  "live_priv w u ins p = (qp_user_name p = u_username u \<and> qp_instance p = ins
     \<and> today w \<le> qp_valid_date p \<and> qp_is_deleted p = 0)"

definition QueryPrivileges_columns :: "string list" where
  "QueryPrivileges_columns = [''privilege_id'', ''user_name'', ''user_display'', ''instance'', ''db_name'',
     ''table_name'', ''valid_date'', ''limit_num'', ''priv_type'', ''is_deleted'', ''create_time'', ''sys_time'']"

text \<open>
  \<open>order_by\<close> with the name of the key column keeps the key order of the table; a name that is no
  column of the model raises Django's \<open>FieldError\<close>. No other name is used on this table.
\<close>

definition order_privileges_by :: "string \<Rightarrow> query_privileges list \<Rightarrow> query_privileges list res" where
  "order_privileges_by c rows =
     (if c = ''pk'' \<or> c \<in> set QueryPrivileges_columns then Inr (sort_key qp_privilege_id rows)
      else Inl (PyException (''FieldError: Cannot resolve keyword '' @ c @ '' into field'')))"

definition load_user_priv_rows :: "world \<Rightarrow> user \<Rightarrow> int \<Rightarrow> query_privileges list res" where
  "load_user_priv_rows w u ins =
     order_privileges_by ''id'' (tbl_filter (live_priv w u ins) (w_privileges w))"

definition first_limit :: "(query_privileges \<Rightarrow> bool) \<Rightarrow> query_privileges list \<Rightarrow> int option" where
  "first_limit P rows = map_option qp_limit_num (find P rows)"

definition match_db_priv :: "world \<Rightarrow> query_privileges list \<Rightarrow> user \<Rightarrow> string \<Rightarrow> int option res" where
  "match_db_priv w rows u schema =
     (if u_is_superuser u then bindE (admin_query_limit w) (\<lambda>n. Inr (Some n))
      else Inr (first_limit (\<lambda>p. qp_priv_type p = 1 \<and> qp_db_name p \<in> set [schema, ''*'']) rows))"

definition match_tb_priv :: "world \<Rightarrow> query_privileges list \<Rightarrow> user \<Rightarrow> string \<Rightarrow> string \<Rightarrow> int option res" where
  "match_tb_priv w rows u schema name =
     (if u_is_superuser u then bindE (admin_query_limit w) (\<lambda>n. Inr (Some n))
      else Inr (first_limit (\<lambda>p. qp_priv_type p = 2 \<and> qp_db_name p = schema \<and> qp_table_name p = name) rows))"

definition db_priv :: "world \<Rightarrow> user \<Rightarrow> int \<Rightarrow> string \<Rightarrow> int option res" where
  "db_priv w u ins db_name =
     (if u_is_superuser u then bindE (admin_query_limit w) (\<lambda>n. Inr (Some n))
      else Inr (map_option qp_limit_num (tbl_first (\<lambda>p. qp_user_name p = u_username u \<and> qp_instance p = ins
        \<and> qp_db_name p \<in> set [db_name, ''*''] \<and> today w \<le> qp_valid_date p \<and> qp_is_deleted p = 0
        \<and> qp_priv_type p = 1) (w_privileges w))))"

definition tb_priv :: "world \<Rightarrow> user \<Rightarrow> int \<Rightarrow> string \<Rightarrow> string \<Rightarrow> int option res" where
  "tb_priv w u ins db_name tb_name =
     (if u_is_superuser u then bindE (admin_query_limit w) (\<lambda>n. Inr (Some n))
      else Inr (map_option qp_limit_num (tbl_first (\<lambda>p. qp_user_name p = u_username u \<and> qp_instance p = ins
        \<and> qp_db_name p = db_name \<and> qp_table_name p = tb_name \<and> today w \<le> qp_valid_date p
        \<and> qp_is_deleted p = 0 \<and> qp_priv_type p = 2) (w_privileges w))))"

text \<open>Python's truth of \<open>False\<close> or a number.\<close>

definition has_limit :: "int option \<Rightarrow> bool" where
  "has_limit x = (case x of Some n \<Rightarrow> n \<noteq> 0 | None \<Rightarrow> False)"

text \<open>The smaller of two limits, of those there are.\<close>

definition least_limit :: "int option \<Rightarrow> int option \<Rightarrow> int res" where
  "least_limit db_limit tb_limit =
     (if has_limit db_limit \<and> has_limit tb_limit then Inr (min (the db_limit) (the tb_limit))
      else if has_limit db_limit then Inr (the db_limit)
      else if has_limit tb_limit then Inr (the tb_limit)
      else Inl (RuntimeError ''the user has no valid privilege''))"

definition priv_limit :: "world \<Rightarrow> user \<Rightarrow> int \<Rightarrow> string \<Rightarrow> string option \<Rightarrow> int res" where
  "priv_limit w u ins db_name tb_name =
     bindE (db_priv w u ins db_name) (\<lambda>db_limit.
     bindE (case tb_name of Some t \<Rightarrow> if t \<noteq> [] then tb_priv w u ins db_name t else Inr None
            | None \<Rightarrow> Inr None) (\<lambda>tb_limit.
       least_limit db_limit tb_limit))"

section \<open>The check of a query\<close>

record priv_result =
  pr_status :: int
  pr_msg :: string
  pr_priv_check :: bool
  pr_limit_num :: int

definition priv_ok :: "int \<Rightarrow> priv_result" where
  "priv_ok n = \<lparr>pr_status = 0, pr_msg = ''ok'', pr_priv_check = True, pr_limit_num = n\<rparr>"

definition priv_fail :: "int \<Rightarrow> string \<Rightarrow> priv_result" where
  "priv_fail st m = \<lparr>pr_status = st, pr_msg = m, pr_priv_check = True, pr_limit_num = 0\<rparr>"

text \<open>\<open>min(priv_limit, limit_num) if limit_num else priv_limit\<close>.\<close>

definition cap_limit :: "int \<Rightarrow> int \<Rightarrow> int" where
  "cap_limit pl limit_num = (if limit_num \<noteq> 0 then min pl limit_num else pl)"

text \<open>The loop over the tables of a MySQL statement.\<close>

fun check_tables ::
  "world \<Rightarrow> query_privileges list \<Rightarrow> user \<Rightarrow> (string \<times> string) list \<Rightarrow> int \<Rightarrow> priv_result res" where
  "check_tables w rows u [] limit_num = Inr (priv_ok limit_num)"
| "check_tables w rows u ((schema, name) # ts) limit_num =
     bindE (match_db_priv w rows u schema) (\<lambda>db_limit.
     bindE (match_tb_priv w rows u schema name) (\<lambda>tb_limit.
       if \<not> has_limit db_limit \<and> \<not> has_limit tb_limit
       then Inr (priv_fail 2 (''no privilege on '' @ schema @ ''.'' @ name))
       else bindE (least_limit db_limit tb_limit) (\<lambda>pl.
         check_tables w rows u ts (cap_limit pl limit_num))))"

text \<open>The two loops over the databases of any other statement.\<close>

fun dbs_covered :: "world \<Rightarrow> query_privileges list \<Rightarrow> user \<Rightarrow> string list \<Rightarrow> string option res" where
  "dbs_covered w rows u [] = Inr None"
| "dbs_covered w rows u (d # ds) =
     bindE (match_db_priv w rows u d) (\<lambda>l. if has_limit l then dbs_covered w rows u ds else Inr (Some d))"

fun dbs_limit :: "world \<Rightarrow> query_privileges list \<Rightarrow> user \<Rightarrow> string list \<Rightarrow> int \<Rightarrow> int res" where
  "dbs_limit w rows u [] limit_num = Inr limit_num"
| "dbs_limit w rows u (d # ds) limit_num =
     bindE (match_db_priv w rows u d) (\<lambda>l. dbs_limit w rows u ds (cap_limit (the l) limit_num))"

definition check_dbs :: "world \<Rightarrow> query_privileges list \<Rightarrow> user \<Rightarrow> string list \<Rightarrow> int \<Rightarrow> priv_result res" where
  "check_dbs w rows u dbs limit_num =
     bindE (dbs_covered w rows u dbs) (\<lambda>missing. case missing of
         Some d \<Rightarrow> Inr (priv_fail 2 (''no privilege on database '' @ d))
       | None \<Rightarrow> bindE (dbs_limit w rows u dbs limit_num) (\<lambda>n. Inr (priv_ok n)))"

definition strip_char :: "char \<Rightarrow> string \<Rightarrow> string" where
  "strip_char c s = rev (dropWhile (\<lambda>x. x = c) (rev (dropWhile (\<lambda>x. x = c) s)))"

definition explain_or_show_re :: re where
  "explain_or_show_re = Alt (Seq Bos (lit_ci ''explain''))
     (Seq Bos (Seq (lit_ci ''show'') (Seq (Plus space_re) (lit_ci ''create''))))"

definition query_dbs :: "(string \<Rightarrow> string option list) \<Rightarrow> instance_row \<Rightarrow> string \<Rightarrow> string \<Rightarrow> string list" where
  "query_dbs extract_schemas i db_name sql_content =
     (let dbs = (if i_db_type i \<in> set [''redis'', ''mssql'', ''pgsql''] then [db_name]
                 else map (strip_char (CHR 0x60)) (map the (filter (\<lambda>x. x \<noteq> None) (extract_schemas sql_content)))
                      @ [db_name])
      in sort (remdups dbs))"

definition query_priv_check_mysql ::
  "(string \<Rightarrow> instance_row \<Rightarrow> string \<Rightarrow> (string \<times> string) list res)
   \<Rightarrow> world \<Rightarrow> user \<Rightarrow> instance_row \<Rightarrow> string \<Rightarrow> string \<Rightarrow> int \<Rightarrow> priv_result" where
  "query_priv_check_mysql table_ref w u i db_name sql_content limit_num =
     (if re_match explain_or_show_re sql_content then priv_ok 0
      else (case bindE (table_ref sql_content i db_name) (\<lambda>refs.
                 bindE (load_user_priv_rows w u (i_id i)) (\<lambda>rows. check_tables w rows u refs limit_num)) of
          Inr r \<Rightarrow> r
        | Inl e \<Rightarrow> priv_fail 1 (''the privileges of the statement cannot be checked: '' @ exn_str e)))"

definition query_priv_check ::
  "(string \<Rightarrow> instance_row \<Rightarrow> string \<Rightarrow> (string \<times> string) list res) \<Rightarrow> (string \<Rightarrow> string option list)
   \<Rightarrow> world \<Rightarrow> user \<Rightarrow> instance_row \<Rightarrow> string \<Rightarrow> string \<Rightarrow> int \<Rightarrow> priv_result res" where
  "query_priv_check table_ref extract_schemas w u i db_name sql_content limit_num =
     (if has_perm u ''sql.query_all_instances'' then
        bindE (admin_query_limit w) (\<lambda>pl. Inr (priv_ok (cap_limit pl limit_num)))
      else if has_perm u ''sql.query_resource_group_instance''
              \<and> list_ex (\<lambda>x. i_id x = i_id i) (user_instances w u '''' [] [''can_read''])
        then bindE (admin_query_limit w) (\<lambda>pl. Inr (priv_ok (cap_limit pl limit_num)))
      else if i_db_type i = ''mysql'' then
        Inr (query_priv_check_mysql table_ref w u i db_name sql_content limit_num)
      else bindE (load_user_priv_rows w u (i_id i)) (\<lambda>rows.
        check_dbs w rows u (query_dbs extract_schemas i db_name sql_content) limit_num))"

section \<open>Granting an approved application\<close>

text \<open>\<open>update_or_create\<close> of one privilege; the fields of \<open>fresh\<close> are those of the lookup and defaults.\<close>

definition grant_one :: "(query_privileges \<Rightarrow> bool) \<Rightarrow> query_privileges \<Rightarrow> (world, unit) M" where
  "grant_one lookup fresh = (\<lambda>w.
     case tbl_update_or_create ''QueryPrivileges'' set_qp_id lookup
       (\<lambda>p. p\<lparr>qp_table_name := qp_table_name fresh, qp_limit_num := qp_limit_num fresh,
              qp_valid_date := qp_valid_date fresh, qp_is_deleted := 0, qp_sys_time := w_now w\<rparr>)
       (fresh\<lparr>qp_create_time := w_now w, qp_sys_time := w_now w\<rparr>) (w_privileges w) of
       Inl e \<Rightarrow> (Inl e, w) | Inr t \<Rightarrow> (Inr (), w\<lparr>w_privileges := t\<rparr>))"

definition granted :: "query_privileges_apply \<Rightarrow> int \<Rightarrow> string \<Rightarrow> string \<Rightarrow> query_privileges" where
  "granted a ty db tb = new_QueryPrivileges\<lparr>qp_user_name := qa_user_name a, qp_user_display := qa_user_display a,
     qp_instance := qa_instance a, qp_db_name := db, qp_table_name := tb, qp_valid_date := qa_valid_date a,
     qp_limit_num := qa_limit_num a, qp_priv_type := ty\<rparr>"

definition same_grant :: "query_privileges \<Rightarrow> query_privileges \<Rightarrow> bool" where
  "same_grant g p = (qp_user_name p = qp_user_name g \<and> qp_user_display p = qp_user_display g
     \<and> qp_instance p = qp_instance g \<and> qp_db_name p = qp_db_name g \<and> qp_priv_type p = qp_priv_type g
     \<and> (qp_priv_type g = 2 \<longrightarrow> qp_table_name p = qp_table_name g))"

definition grant :: "query_privileges \<Rightarrow> (world, unit) M" where
  "grant g = grant_one (same_grant g) g"

definition apply_save :: "query_privileges_apply \<Rightarrow> (world, unit) M" where
  "apply_save a = bindM (workflow_save (WQuery a)) (\<lambda>_. ret ())"

definition query_apply_audit_call_back :: "int \<Rightarrow> workflow_status \<Rightarrow> (world, unit) M" where
  "query_apply_audit_call_back apply_id workflow_status =
     bindM (liftM (\<lambda>w. tbl_get ''QueryPrivilegesApply'' (\<lambda>a. qa_apply_id a = apply_id) (w_applies w))) (\<lambda>a.
       if workflow_status = PASSED then
         thenM (apply_save (a\<lparr>qa_status := PASSED\<rparr>))
           (if qa_priv_type a = 1 then
              forM (split_comma (qa_db_list a)) (\<lambda>db. grant (granted a 1 db ''''))
            else if qa_priv_type a = 2 then
              forM (split_comma (qa_table_list a)) (\<lambda>tb. grant (granted a 2 (qa_db_list a) tb))
            else ret ())
       else if workflow_status = REJECTED then apply_save (a\<lparr>qa_status := REJECTED\<rparr>)
       else ret ())"

section \<open>Applications\<close>

text \<open>
  The fields of the request; an absent or empty one is \<open>None\<close> or the empty text or list. The date
  and the number are read as such, as the columns they are saved in read them.
\<close>

record priv_request =
  pq_title :: string
  pq_instance_name :: string
  pq_group_name :: string
  pq_priv_type :: string
  pq_db_name :: string
  pq_db_list :: "string list"
  pq_table_list :: "string list"
  pq_valid_date :: "date option"
  pq_limit_num :: "int option"

definition request_complete :: "priv_request \<Rightarrow> int \<Rightarrow> bool" where
  "request_complete q ty =
     (if ty = 1 then pq_title q \<noteq> [] \<and> pq_instance_name q \<noteq> [] \<and> pq_db_list q \<noteq> []
        \<and> pq_valid_date q \<noteq> None \<and> pq_limit_num q \<noteq> None
      else if ty = 2 then pq_title q \<noteq> [] \<and> pq_instance_name q \<noteq> [] \<and> pq_db_name q \<noteq> []
        \<and> pq_valid_date q \<noteq> None \<and> pq_table_list q \<noteq> [] \<and> pq_limit_num q \<noteq> None
      else True)"

definition application :: "user \<Rightarrow> priv_request \<Rightarrow> int \<Rightarrow> resource_group \<Rightarrow> instance_row \<Rightarrow> query_privileges_apply" where
  "application u q ty rg ins = new_QueryPrivilegesApply\<lparr>
     qa_title := pq_title q, qa_group_id := rg_group_id rg, qa_group_name := pq_group_name q,
     qa_user_name := u_username u, qa_user_display := u_display u, qa_instance := i_id ins,
     qa_priv_type := ty, qa_valid_date := (case pq_valid_date q of Some d \<Rightarrow> d | None \<Rightarrow> 0),
     qa_limit_num := (case pq_limit_num q of Some n \<Rightarrow> n | None \<Rightarrow> 0),
     qa_db_list := (if ty = 1 then join_comma (pq_db_list q) else if ty = 2 then pq_db_name q else ''''),
     qa_table_list := (if ty = 2 then join_comma (pq_table_list q) else '''')\<rparr>"

text \<open>The first privilege the applicant already has, of those applied for.\<close>

fun first_held :: "('a \<Rightarrow> bool res) \<Rightarrow> 'a list \<Rightarrow> 'a option res" where
  "first_held held [] = Inr None"
| "first_held held (x # xs) = bindE (held x) (\<lambda>b. if b then Inr (Some x) else first_held held xs)"

definition already_held ::
  "(string \<Rightarrow> bool res) \<Rightarrow> (string \<Rightarrow> string \<Rightarrow> bool res) \<Rightarrow> priv_request \<Rightarrow> int \<Rightarrow> bool res" where
  "already_held db_held tb_held q ty =
     (if ty = 1 then bindE (first_held db_held (pq_db_list q)) (\<lambda>x. Inr (x \<noteq> None))
      else if ty = 2 then
        bindE (db_held (pq_db_name q)) (\<lambda>b.
          if b then Inr True
          else bindE (first_held (tb_held (pq_db_name q)) (pq_table_list q)) (\<lambda>x. Inr (x \<noteq> None)))
      else Inr False)"

definition instance_named :: "world \<Rightarrow> string \<Rightarrow> instance_row res" where
  "instance_named w n = tbl_get ''Instance'' (\<lambda>i. i_instance_name i = n) (w_instances w)"

definition group_named :: "world \<Rightarrow> string \<Rightarrow> resource_group res" where
  "group_named w n = tbl_get ''ResourceGroup'' (\<lambda>g. rg_group_name g = n) (w_resource_groups w)"

definition fill_all :: "(int \<times> string)" where
  "fill_all = (1, ''please fill in all fields'')"

text \<open>The submission of an application, after its checks: (status, message).\<close>

definition submit_application ::
  "(string \<Rightarrow> re res) \<Rightarrow> query_privileges_apply \<Rightarrow> (world, int \<times> string) M" where
  "submit_application compile_re a =
     bindM (liftM (\<lambda>w. get_auditor w (WQuery a))) (\<lambda>au.
     bindM (catchM (bindM (atomicM (create_audit compile_re au)) (\<lambda>(m, au'). ret (Some au')))
              (\<lambda>e. if is_AuditException e then Some (ret None) else None)) (\<lambda>r. case r of
         None \<Rightarrow> ret (1, ''creating the review failed'')
       | Some au' \<Rightarrow> (case au_audit au' of
             None \<Rightarrow> throw (AttributeError ''NoneType object has no attribute current_status'')
           | Some ar \<Rightarrow>
               thenM (query_apply_audit_call_back (workflow_pk (au_workflow au')) (wa_current_status ar))
               (thenM (async_task (notify_for_audit (wa_audit_id ar)
                   (''query-priv-apply-'' @ str_int (workflow_pk (au_workflow au')))))
                 (ret (0, ''ok''))))))"

text \<open>The permission classes of \<open>sql_api/api_misc.py\<close> for a logged-in user.\<close>

definition api_perm :: "user \<Rightarrow> string \<Rightarrow> bool" where
  "api_perm u p = (u_is_superuser u \<or> has_perm u p)"

text \<open>\<open>sql_api/api_misc.py\<close>: its lookups ask for one name and only whether a row exists.\<close>

definition api_db_priv :: "world \<Rightarrow> user \<Rightarrow> int \<Rightarrow> string \<Rightarrow> bool" where
  "api_db_priv w u ins db_name = tbl_exists (\<lambda>p. qp_user_name p = u_username u \<and> qp_instance p = ins
     \<and> qp_db_name p = db_name \<and> qp_priv_type p = 1 \<and> qp_is_deleted p = 0 \<and> today w \<le> qp_valid_date p)
     (w_privileges w)"

definition api_tb_priv :: "world \<Rightarrow> user \<Rightarrow> int \<Rightarrow> string \<Rightarrow> string \<Rightarrow> bool" where
  "api_tb_priv w u ins db_name tb_name = tbl_exists (\<lambda>p. qp_user_name p = u_username u \<and> qp_instance p = ins
     \<and> qp_db_name p = db_name \<and> qp_table_name p = tb_name \<and> qp_priv_type p = 2 \<and> qp_is_deleted p = 0
     \<and> today w \<le> qp_valid_date p) (w_privileges w)"

definition ApplyForPrivileges ::
  "(string \<Rightarrow> re res) \<Rightarrow> user \<Rightarrow> priv_request \<Rightarrow> (world, int \<times> string) M" where
  "ApplyForPrivileges compile_re u q =
     thenM (raise_if (\<not> api_perm u ''sql.query_applypriv'') PermissionDenied)
     (bindM (liftM (\<lambda>w. py_int (pq_priv_type q))) (\<lambda>ty.
     if \<not> request_complete q ty then ret fill_all
     else bindM (getsM (\<lambda>w. list_ex (\<lambda>i. i_instance_name i = pq_instance_name q)
                         (user_instances w u '''' [] [''can_read'']))) (\<lambda>visible.
       if \<not> visible then ret (1, ''your groups do not include this instance'')
       else bindM (liftM (\<lambda>w. instance_named w (pq_instance_name q))) (\<lambda>ins.
         bindM (liftM (\<lambda>w. group_named w (pq_group_name q))) (\<lambda>rg.
         bindM (liftM (\<lambda>w. already_held (\<lambda>d. Inr (api_db_priv w u (i_id ins) d))
                   (\<lambda>d t. Inr (api_tb_priv w u (i_id ins) d t)) q ty)) (\<lambda>held.
           if held then ret (1, ''you already have this privilege'')
           else submit_application compile_re (application u q ty rg ins)))))))"

text \<open>The older \<open>query_priv_apply\<close>: the group is looked up first, the lookups are \<open>db_priv\<close>, \<open>tb_priv\<close>.\<close>

definition query_priv_apply ::
  "(string \<Rightarrow> re res) \<Rightarrow> user \<Rightarrow> priv_request \<Rightarrow> (world, int \<times> string) M" where
  "query_priv_apply compile_re u q =
     thenM (raise_if (\<not> has_perm u ''sql.query_applypriv'') PermissionDenied)
     (bindM (liftM (\<lambda>w. group_named w (pq_group_name q))) (\<lambda>rg.
      bindM (liftM (\<lambda>w. py_int (pq_priv_type q))) (\<lambda>ty.
      if \<not> request_complete q ty then ret fill_all
      else bindM (getsM (\<lambda>w. list_ex (\<lambda>i. i_instance_name i = pq_instance_name q)
                         (user_instances w u '''' [] [''can_read'']))) (\<lambda>visible.
        if \<not> visible then ret (1, ''your groups do not include this instance'')
        else bindM (liftM (\<lambda>w. instance_named w (pq_instance_name q))) (\<lambda>ins.
          bindM (liftM (\<lambda>w. already_held (\<lambda>d. bindE (db_priv w u (i_id ins) d) (\<lambda>l. Inr (has_limit l)))
                    (\<lambda>d t. bindE (tb_priv w u (i_id ins) d t) (\<lambda>l. Inr (has_limit l))) q ty)) (\<lambda>held.
            if held then ret (1, ''you already have this privilege'')
            else submit_application compile_re (application u q ty rg ins)))))))"

section \<open>Listing\<close>

definition icontains :: "string \<Rightarrow> string \<Rightarrow> bool" where
  "icontains s sub = str_in (lower sub) (lower s)"

text \<open>A page of a list in descending key order: \<open>[offset:offset + limit]\<close>.\<close>

definition page :: "nat \<Rightarrow> nat \<Rightarrow> 'a list \<Rightarrow> 'a list" where
  "page offset limit rows = take limit (drop offset (rev rows))"

definition visible_applies :: "world \<Rightarrow> user \<Rightarrow> string \<Rightarrow> query_privileges_apply list res" where
  "visible_applies w u search =
     bindE (if u_is_superuser u then Inr (\<lambda>a. True)
            else if has_perm u ''sql.query_review'' then
              bindE (user_groups w u) (\<lambda>gs. Inr (\<lambda>a. qa_group_id a \<in> set (map rg_group_id gs)))
            else Inr (\<lambda>a. qa_user_name a = u_username u)) (\<lambda>vis.
       Inr (tbl_filter (\<lambda>a. (search = [] \<or> icontains (qa_title a) search \<or> icontains (qa_user_display a) search)
              \<and> vis a) (w_applies w)))"

definition QueryApplyList ::
  "world \<Rightarrow> user \<Rightarrow> string \<Rightarrow> nat \<Rightarrow> nat \<Rightarrow> (nat \<times> query_privileges_apply list) res" where
  "QueryApplyList w u search limit offset =
     (if \<not> api_perm u ''sql.menu_queryapplylist'' then Inl PermissionDenied
      else bindE (visible_applies w u search) (\<lambda>rows. Inr (length rows, page offset limit rows)))"

definition visible_privileges :: "world \<Rightarrow> user \<Rightarrow> string \<Rightarrow> string \<Rightarrow> query_privileges list res" where
  "visible_privileges w u user_display search =
     bindE (if u_is_superuser u then Inr (\<lambda>p. True)
            else if has_perm u ''sql.query_mgtpriv'' then
              bindE (user_groups w u) (\<lambda>gs. Inr (\<lambda>p. tbl_exists (\<lambda>a. qa_instance a = qp_instance p
                \<and> qa_group_id a \<in> set (map rg_group_id gs)) (w_applies w)))
            else Inr (\<lambda>p. qp_user_name p = u_username u)) (\<lambda>vis.
       Inr (tbl_filter (\<lambda>p. qp_is_deleted p = 0 \<and> today w \<le> qp_valid_date p
              \<and> (search = [] \<or> icontains (qp_user_display p) search \<or> icontains (qp_db_name p) search
                  \<or> icontains (qp_table_name p) search)
              \<and> (user_display = ''all'' \<or> qp_user_display p = user_display)
              \<and> vis p) (w_privileges w)))"

definition UserPrivileges ::
  "world \<Rightarrow> user \<Rightarrow> string \<Rightarrow> string \<Rightarrow> nat \<Rightarrow> nat \<Rightarrow> (nat \<times> query_privileges list) res" where
  "UserPrivileges w u user_display search limit offset =
     (if \<not> api_perm u ''sql.menu_queryapplylist'' then Inl PermissionDenied
      else bindE (visible_privileges w u user_display search) (\<lambda>rows.
        Inr (length rows, page offset limit rows)))"

section \<open>Changing granted privileges and reviewing applications\<close>

definition set_privilege :: "int \<Rightarrow> (query_privileges \<Rightarrow> query_privileges) \<Rightarrow> (world, unit) M" where
  "set_privilege i f = (\<lambda>w. case tbl_save_fields qp_privilege_id i f (w_privileges w) of
       Inl e \<Rightarrow> (Inl e, w) | Inr t \<Rightarrow> (Inr (), w\<lparr>w_privileges := t\<rparr>))"

text \<open>The common body of \<open>ModifyPrivilegesView.post\<close> and \<open>query_priv_modify\<close>: type 1 deletes, type 2 changes.\<close>

definition modify_privilege ::
  "string \<Rightarrow> string \<Rightarrow> date \<Rightarrow> int \<Rightarrow> (world, int \<times> string) M" where
  "modify_privilege privilege_id type_val valid_date limit_num =
     bindM (liftM (\<lambda>w. py_int privilege_id)) (\<lambda>pid.
     bindM (getsM (\<lambda>w. tbl_get ''QueryPrivileges'' (\<lambda>p. qp_privilege_id p = pid) (w_privileges w))) (\<lambda>r. case r of
         Inl e \<Rightarrow> if is_DoesNotExist e then ret (1, ''the privilege does not exist'') else throw e
       | Inr p \<Rightarrow> bindM (liftM (\<lambda>w. py_int type_val)) (\<lambda>ty.
           thenM (if ty = 1 then set_privilege pid (\<lambda>p. p\<lparr>qp_is_deleted := 1\<rparr>)
                  else if ty = 2 then set_privilege pid (\<lambda>p. p\<lparr>qp_valid_date := valid_date, qp_limit_num := limit_num\<rparr>)
                  else ret ())
             (ret (0, ''ok'')))))"

definition ModifyPrivileges ::
  "user \<Rightarrow> string \<Rightarrow> string \<Rightarrow> date \<Rightarrow> int \<Rightarrow> (world, int \<times> string) M" where
  "ModifyPrivileges u privilege_id type_val valid_date limit_num =
     thenM (raise_if (\<not> api_perm u ''sql.query_mgtpriv'') PermissionDenied)
       (modify_privilege privilege_id type_val valid_date limit_num)"

definition query_priv_modify ::
  "user \<Rightarrow> string \<Rightarrow> string \<Rightarrow> date \<Rightarrow> int \<Rightarrow> (world, int \<times> string) M" where
  "query_priv_modify u privilege_id type_val valid_date limit_num =
     thenM (raise_if (\<not> has_perm u ''sql.query_mgtpriv'') PermissionDenied)
       (modify_privilege privilege_id type_val valid_date limit_num)"

definition record_of :: "auditor \<Rightarrow> workflow_audit res" where
  "record_of au = (case au_audit au of Some a \<Rightarrow> Inr a
     | None \<Rightarrow> Inl (AttributeError ''NoneType object has no attribute workflow_id''))"

definition apply_get :: "world \<Rightarrow> int \<Rightarrow> query_privileges_apply res" where
  "apply_get w i = tbl_get ''QueryPrivilegesApply'' (\<lambda>a. qa_apply_id a = i) (w_applies w)"

text \<open>The call back of an operated record.\<close>

definition operate_and_call_back ::
  "workflow_action \<Rightarrow> user \<Rightarrow> string \<Rightarrow> auditor \<Rightarrow> (world, workflow_audit) M" where
  "operate_and_call_back action u remark au =
     bindM (operate action u remark au) (\<lambda>(d, au').
     bindM (liftM (\<lambda>w. record_of au')) (\<lambda>a.
       thenM (query_apply_audit_call_back (wa_workflow_id a) (wa_current_status a)) (ret a)))"

text \<open>\<open>QueryPrivAudit.post\<close> of \<open>sql_api/api_query_priv.py\<close>: a failed operation is rolled back.\<close>

definition QueryPrivAudit :: "user \<Rightarrow> string \<Rightarrow> string \<Rightarrow> string \<Rightarrow> (world, int \<times> string) M" where
  "QueryPrivAudit u apply_id_text audit_status_text remark =
     (case bindE (py_int apply_id_text) (\<lambda>i. bindE (py_int audit_status_text) (\<lambda>s.
             bindE (WorkflowAction_of s) (\<lambda>act. Inr (i, act)))) of
        Inl e \<Rightarrow> ret (1, ''bad parameters: '' @ exn_str e)
      | Inr (i, act) \<Rightarrow>
          bindM (getsM (\<lambda>w. apply_get w i)) (\<lambda>r. case r of
              Inl e \<Rightarrow> if is_DoesNotExist e then ret (1, ''the work order does not exist'') else throw e
            | Inr a \<Rightarrow> bindM (liftM (\<lambda>w. can_review w u i QUERY)) (\<lambda>ok.
                if \<not> ok then ret (1, ''you may not review this work order'')
                else bindM (liftM (\<lambda>w. get_auditor w (WQuery a))) (\<lambda>au.
                  catchM (bindM (atomicM (operate_and_call_back act u remark au)) (\<lambda>ar.
                      thenM (async_task (notify_for_audit (wa_audit_id ar) (''query-priv-audit-'' @ str_int i)))
                        (ret (0, ''ok''))))
                    (\<lambda>e. if is_AuditException e then Some (ret (1, ''review failed: '' @ exn_str e)) else None)))))"

text \<open>The older \<open>query_priv_audit\<close>; a success redirects to the page of the application.\<close>

definition query_priv_audit :: "user \<Rightarrow> string \<Rightarrow> string \<Rightarrow> string \<Rightarrow> (world, int \<times> string) M" where
  "query_priv_audit u apply_id_text audit_status_text remark =
     thenM (raise_if (\<not> has_perm u ''sql.query_review'') PermissionDenied)
     (bindM (liftM (\<lambda>w. py_int apply_id_text)) (\<lambda>i.
      case bindE (py_int audit_status_text) WorkflowAction_of of
        Inl e \<Rightarrow> ret (1, ''bad audit_status: '' @ exn_str e)
      | Inr act \<Rightarrow>
          bindM (getsM (\<lambda>w. apply_get w i)) (\<lambda>r. case r of
              Inl e \<Rightarrow> if is_DoesNotExist e then ret (1, ''the work order does not exist'') else throw e
            | Inr a \<Rightarrow> bindM (liftM (\<lambda>w. get_auditor w (WQuery a))) (\<lambda>au.
                bindM (atomicM (bindM (catchM (bindM (operate act u remark au) (\<lambda>x. ret (Inr (snd x))))
                          (\<lambda>e. if is_AuditException e then Some (ret (Inl e)) else None)) (\<lambda>x. case x of
                      Inl e \<Rightarrow> ret (Inl e)
                    | Inr au' \<Rightarrow> bindM (liftM (\<lambda>w. record_of au')) (\<lambda>ar.
                        thenM (query_apply_audit_call_back (wa_workflow_id ar) (wa_current_status ar)) (ret (Inr ar))))))
                  (\<lambda>x. case x of
                     Inl e \<Rightarrow> ret (1, ''review failed: '' @ exn_str e)
                   | Inr ar \<Rightarrow>
                       thenM (async_task (notify_for_audit (wa_audit_id ar) (''query-priv-audit-'' @ str_int i)))
                         (ret (0, ''redirect'')))))))"

end
