(* ===== verification/AiRisk.thy ===== *)
theory AiRisk
  imports Models Complex_Main
begin

text \<open>
  \<open>common/utils/ai_risk.py\<close> (levels, bands and the severity rule shared by the review of work orders and
  the diagnosis of slow queries) and \<open>_calc_ai_risk_summary\<close> of \<open>sql_api/api_workflow.py\<close>.
  Measurements are exact rational numbers here; Python's are floating point numbers.
\<close>

definition VALID_LEVELS :: "string list" where
  "VALID_LEVELS = [''low'', ''medium'', ''high'', ''unknown'']"

definition VALID_JUDGED_LEVELS :: "string list" where
  "VALID_JUDGED_LEVELS = [''low'', ''medium'', ''high'']"

definition SEVERITY_HIGH_P95_MS :: rat where "SEVERITY_HIGH_P95_MS = 5000"

definition SEVERITY_HIGH_SCAN_RATIO :: rat where "SEVERITY_HIGH_SCAN_RATIO = 1000"

definition SEVERITY_MEDIUM_P95_MS :: rat where "SEVERITY_MEDIUM_P95_MS = 1000"

definition SEVERITY_MEDIUM_SCAN_RATIO :: rat where "SEVERITY_MEDIUM_SCAN_RATIO = 100"

text \<open>\<open>str(value or "")\<close>.\<close>

fun or_str :: "pyval \<Rightarrow> string" where
  "or_str (PStr s) = s"
| "or_str (PInt i) = (if i = 0 then '''' else str_int i)"
| "or_str (PBool b) = (if b then ''True'' else '''')"
| "or_str PNone = ''''"

definition normalize_level :: "pyval \<Rightarrow> string" where
  "normalize_level value =
     (let level = lower (or_str value) in if level \<in> set VALID_LEVELS then level else ''unknown'')"

text \<open>A measurement that is missing or no number is \<open>None\<close>; a missing one counts as 0.\<close>

datatype measure = Missing | Number rat | NoNumber

fun measure_value :: "measure \<Rightarrow> rat option" where
  "measure_value Missing = Some 0"
| "measure_value (Number r) = Some r"
| "measure_value NoNumber = None"

definition severity_from_stats :: "measure \<Rightarrow> measure \<Rightarrow> measure \<Rightarrow> string option" where
  "severity_from_stats p95_ms rows_examined rows_returned =
     (case (measure_value p95_ms, measure_value rows_examined, measure_value rows_returned) of
        (Some p95, Some examined, Some returned) \<Rightarrow>
          (let ratio = (if returned > 0 then examined / returned else 0) in
           if p95 > SEVERITY_HIGH_P95_MS \<or> ratio > SEVERITY_HIGH_SCAN_RATIO then Some ''high''
           else if p95 > SEVERITY_MEDIUM_P95_MS \<or> ratio > SEVERITY_MEDIUM_SCAN_RATIO then Some ''medium''
           else None)
      | _ \<Rightarrow> None)"

definition score_band :: "pyval \<Rightarrow> string" where
  "score_band v = (case pyval_int v of
       Inl e \<Rightarrow> ''unknown''
     | Inr score \<Rightarrow> if \<not> (0 \<le> score \<and> score \<le> 100) then ''unknown''
                  else if 71 \<le> score then ''high''
                  else if 40 \<le> score then ''medium''
                  else ''low'')"

section \<open>The summary of a work order\<close>

record risk_summary =
  rk_max_level :: string
  rk_max_score :: int
  rk_high_count :: nat
  rk_lock_high_count :: nat

definition no_risk :: risk_summary where
  "no_risk = \<lparr>rk_max_level = '''', rk_max_score = 0, rk_high_count = 0, rk_lock_high_count = 0\<rparr>"

definition extra_get :: "review_result \<Rightarrow> string \<Rightarrow> pyval" where
  "extra_get r k = (case map_of (rr_extra r) k of Some v \<Rightarrow> v | None \<Rightarrow> PNone)"

text \<open>The loop: (has_ai, max_score, max_level, high_count, lock_high_count).\<close>

type_synonym risk_acc = "bool \<times> int \<times> string \<times> nat \<times> nat"

definition risk_step :: "review_result \<Rightarrow> risk_acc \<Rightarrow> risk_acc" where
  "risk_step r acc = (case acc of (has_ai, max_score, max_level, high, lock) \<Rightarrow>
     (let level = extra_get r ''ai_risk_level''; score = extra_get r ''ai_risk_score'' in
      if level = PNone \<and> score = PNone then acc
      else (let n = (case pyval_int score of Inr k \<Rightarrow> k | Inl e \<Rightarrow> 0) in
        (True,
         (if n > max_score then n else max_score),
         (if n > max_score then or_str level else max_level),
         (if level = PStr ''high'' then high + 1 else high),
         (if extra_get r ''ai_ddl_lock_risk'' = PStr ''high'' then lock + 1 else lock)))))"

definition calc_ai_risk_summary :: "rows_text \<Rightarrow> risk_summary" where
  "calc_ai_risk_summary t = (case json_rows t of
       Inl e \<Rightarrow> no_risk
     | Inr rows \<Rightarrow> (case fold risk_step rows (False, -1, '''', 0, 0) of
           (has_ai, max_score, max_level, high, lock) \<Rightarrow>
             if \<not> has_ai then no_risk
             else \<lparr>rk_max_level = (if max_level = '''' then score_band (PInt max_score) else max_level),
                   rk_max_score = max 0 max_score, rk_high_count = high, rk_lock_high_count = lock\<rparr>))"

section \<open>Lemmas\<close>

lemma normalize_level_valid: "normalize_level v \<in> set VALID_LEVELS"
  by (simp add: normalize_level_def Let_def) (simp add: VALID_LEVELS_def)

text \<open>A row the summary counts, and its score.\<close>

definition judged :: "review_result \<Rightarrow> bool" where
  "judged r = (\<not> (extra_get r ''ai_risk_level'' = PNone \<and> extra_get r ''ai_risk_score'' = PNone))"

definition row_score :: "review_result \<Rightarrow> int" where
  "row_score r = (case pyval_int (extra_get r ''ai_risk_score'') of Inr k \<Rightarrow> k | Inl e \<Rightarrow> 0)"

lemma fold_risk_step:
  "fold risk_step rows (b, m, l, h, k) = (b', m', l', h', k') \<Longrightarrow>
     b' = (b \<or> list_ex judged rows)
     \<and> m' = foldl max m (map row_score (filter judged rows))
     \<and> h' = h + length (filter (\<lambda>r. judged r \<and> extra_get r ''ai_risk_level'' = PStr ''high'') rows)
     \<and> k' = k + length (filter (\<lambda>r. judged r \<and> extra_get r ''ai_ddl_lock_risk'' = PStr ''high'') rows)"
proof (induction rows arbitrary: b m l h k)
  case Nil
  then show ?case by simp
next
  case (Cons r rows)
  show ?case
  proof (cases "judged r")
    case False
    then have "risk_step r (b, m, l, h, k) = (b, m, l, h, k)"
      by (simp add: risk_step_def judged_def)
    with Cons False show ?thesis by simp
  next
    case True
    then obtain l1 where s: "risk_step r (b, m, l, h, k) = (True, max m (row_score r), l1,
        (if extra_get r ''ai_risk_level'' = PStr ''high'' then h + 1 else h),
        (if extra_get r ''ai_ddl_lock_risk'' = PStr ''high'' then k + 1 else k))"
      by (auto simp: risk_step_def judged_def row_score_def Let_def max_def)
    with Cons.prems have "fold risk_step rows (True, max m (row_score r), l1,
        (if extra_get r ''ai_risk_level'' = PStr ''high'' then h + 1 else h),
        (if extra_get r ''ai_ddl_lock_risk'' = PStr ''high'' then k + 1 else k)) = (b', m', l', h', k')" by simp
    from Cons.IH [OF this] True show ?thesis by simp
  qed
qed

section \<open>Properties\<close>

text \<open>The risk shown for a work order: the score is the largest score of the judged statements, not
  below 0, the two counts are the numbers of judged statements with level and with lock risk
  \<open>high\<close>, and without a judged statement the summary is empty.\<close>

theorem risk_summary_is_max:
  assumes "json_rows t = Inr rows"
  defines "js \<equiv> filter judged rows"
  shows "calc_ai_risk_summary t = (if js = [] then no_risk else
    \<lparr>rk_max_level = rk_max_level (calc_ai_risk_summary t),
     rk_max_score = foldl max 0 (map row_score js),
     rk_high_count = length (filter (\<lambda>r. extra_get r ''ai_risk_level'' = PStr ''high'') js),
     rk_lock_high_count = length (filter (\<lambda>r. extra_get r ''ai_ddl_lock_risk'' = PStr ''high'') js)\<rparr>)"
proof -
  obtain b m l h k where f: "fold risk_step rows (False, -1, '''', 0, 0) = (b, m, l, h, k)"
    by (metis surj_pair)
  note g = fold_risk_step [OF f]
  have mx: "max 0 (foldl max x ys) = foldl max (max 0 x) ys" for x :: int and ys
    by (induction ys arbitrary: x) (simp_all add: max.assoc)
  have "b = (js \<noteq> [])" using g by (auto simp: js_def filter_empty_conv list_ex_iff)
  then show ?thesis
    using g mx [of "-1"] by (auto simp: calc_ai_risk_summary_def assms(1) f js_def conj_commute)
qed

definition demo_row :: "string \<Rightarrow> int \<Rightarrow> review_result" where
  "demo_row lv n = new_ReviewResult\<lparr>rr_extra := [(''ai_risk_level'', PStr lv), (''ai_risk_score'', PInt n)]\<rparr>"

theorem risk_summary_is_max_witness:
  "rk_max_score (calc_ai_risk_summary (RowsText [demo_row ''low'' 12, demo_row ''high'' 83, new_ReviewResult])) = 83"
proof -
  let ?rows = "[demo_row ''low'' 12, demo_row ''high'' 83, new_ReviewResult]"
  have "filter judged ?rows = [demo_row ''low'' 12, demo_row ''high'' 83]"
    "row_score (demo_row ''low'' 12) = 12" "row_score (demo_row ''high'' 83) = 83" by code_simp+
  moreover have "json_rows (RowsText ?rows) = Inr ?rows" by simp
  ultimately show ?thesis
    by (subst risk_summary_is_max [of "RowsText ?rows" ?rows]) simp_all
qed

end
