(* ===== verification/WorkflowApi.thy ===== *)
theory WorkflowApi
  imports ExecuteSql QueryPrivileges AiRisk
begin

text \<open>
  \<open>sql_api/api_workflow.py\<close> and the serializers it uses (\<open>sql_api/serializers.py\<close>): checking and
  submitting releases of SQL, reviewing any work order, running, timing and changing releases, and
  the lists, logs and details of work orders. A request is the user and the fields the view reads;
  a refusal with a 400 answer is a \<open>ValidationError\<close>. The engine's check and the encoder of its
  result are parameters.
\<close>

definition validation :: "string \<Rightarrow> ('s, 'a) M" where
  "validation m = throw (ValidationError m)"

definition user_named :: "world \<Rightarrow> string \<Rightarrow> user res" where
  "user_named w n = tbl_get ''Users'' (\<lambda>u. u_username u = n) (w_users w)"

definition audit_of :: "world \<Rightarrow> int \<Rightarrow> workflow_type \<Rightarrow> workflow_audit res" where
  "audit_of w i ty = tbl_get ''WorkflowAudit'' (\<lambda>a. wa_workflow_id a = i \<and> wa_workflow_type a = ty) (w_audits w)"

definition timing_name :: "int \<Rightarrow> string" where
  "timing_name i = ''sqlreview-timing-'' @ str_int i"

text \<open>\<open>raise ValidationError\<close> in place of one kind of exception.\<close>

definition invalid_if_missing :: "string \<Rightarrow> 'a res \<Rightarrow> 'a res" where
  "invalid_if_missing m r = (case r of Inr x \<Rightarrow> Inr x
     | Inl e \<Rightarrow> if is_DoesNotExist e then Inl (ValidationError m) else Inl e)"

text \<open>The user a request acts as: another one may be named by superusers only.\<close>

definition acting_user :: "user \<Rightarrow> string \<Rightarrow> (world, user) M" where
  "acting_user u engineer =
     (if engineer \<noteq> [] \<and> engineer \<noteq> u_username u \<and> \<not> u_is_superuser u
      then validation ''no right to act as another user''
      else if engineer \<noteq> [] \<and> engineer \<noteq> u_username u then liftM (\<lambda>w. user_named w engineer)
      else ret u)"

section \<open>Submitting a release\<close>

text \<open>An entry of the list of earlier check results the page sends back.\<close>

datatype ai_item = AiDict "(string \<times> pyval) list" | AiOther

record submission =
  su_workflow_name :: string
  su_demand_url :: string
  su_group_id :: int
  su_instance :: int
  su_db_name :: string
  su_engineer :: string
  su_is_backup :: bool
  su_is_offline_export :: bool
  su_run_date_start :: "datetime option"
  su_run_date_end :: "datetime option"
  su_sql_content :: string
  su_ai_rows :: "ai_item list"

definition ai_fields :: "string list" where
  "ai_fields = [''ai_risk_level'', ''ai_risk_score'', ''ai_summary'', ''ai_suggestion'',
     ''ai_ddl_lock_risk'', ''ai_affected_rows_estimate'', ''ai_use_osc'']"

text \<open>\<open>(r.get("sql") or "").strip()\<close>.\<close>

definition item_sql :: "(string \<times> pyval) list \<Rightarrow> string res" where
  "item_sql d = (case map_of d ''sql'' of
       Some (PStr s) \<Rightarrow> Inr (strip s)
     | Some v \<Rightarrow> if truthy v then Inl (AttributeError ''object has no attribute strip'') else Inr []
     | None \<Rightarrow> Inr [])"

definition ai_values :: "(string \<times> pyval) list \<Rightarrow> (string \<times> pyval) list" where
  "ai_values d = concat (map (\<lambda>k. case map_of d k of Some v \<Rightarrow> [(k, v)] | None \<Rightarrow> []) ai_fields)"

text \<open>The map from statement to values; a later entry of a statement replaces an earlier one.\<close>

fun sql_to_ai :: "ai_item list \<Rightarrow> (string \<rightharpoonup> (string \<times> pyval) list) \<Rightarrow> (string \<rightharpoonup> (string \<times> pyval) list) res" where
  "sql_to_ai [] m = Inr m"
| "sql_to_ai (AiOther # xs) m = sql_to_ai xs m"
| "sql_to_ai (AiDict d # xs) m =
     bindE (item_sql d) (\<lambda>s. sql_to_ai xs (if s = [] then m else m(s \<mapsto> ai_values d)))"

definition set_extra :: "string \<times> pyval \<Rightarrow> review_result \<Rightarrow> review_result" where
  "set_extra kv r = r\<lparr>rr_extra := kv # filter (\<lambda>x. fst x \<noteq> fst kv) (rr_extra r)\<rparr>"

definition merge_ai_review_fields :: "ai_item list \<Rightarrow> review_set \<Rightarrow> review_set res" where
  "merge_ai_review_fields items rs =
     bindE (sql_to_ai items Map.empty) (\<lambda>m.
       Inr (rs\<lparr>rs_rows := map (\<lambda>r. case m (strip (rr_sql r)) of
                 Some kvs \<Rightarrow> fold set_extra kvs r | None \<Rightarrow> r) (rs_rows rs)\<rparr>))"

text \<open>The engine: its check (or the count of an export) and whether it backs up by itself.\<close>

record engine =
  en_check :: "instance_row \<Rightarrow> string \<Rightarrow> string \<Rightarrow> bool \<Rightarrow> review_set res"
  en_auto_backup :: "instance_row \<Rightarrow> bool"

definition submitted_backup :: "world \<Rightarrow> engine \<Rightarrow> instance_row \<Rightarrow> submission \<Rightarrow> bool" where
  "submitted_backup w en ins q =
     (if \<not> truthy (config_get w ''enable_backup_switch'' PNone) \<and> en_auto_backup en ins
         \<and> \<not> su_is_offline_export q then True
      else if su_is_offline_export q then False else su_is_backup q)"

definition submitted_workflow ::
  "submission \<Rightarrow> resource_group \<Rightarrow> user \<Rightarrow> bool \<Rightarrow> review_set \<Rightarrow> sql_workflow" where
  "submitted_workflow q rg u backup rs = new_SqlWorkflow\<lparr>sw_workflow_name := su_workflow_name q,
     sw_demand_url := su_demand_url q, sw_group_id := su_group_id q, sw_group_name := rg_group_name rg,
     sw_instance := su_instance q, sw_db_name := su_db_name q, sw_syntax_type := rs_syntax_type rs,
     sw_is_backup := backup, sw_engineer := u_username u, sw_engineer_display := u_display u,
     sw_status := workflow_manreviewing, sw_run_date_start := su_run_date_start q,
     sw_run_date_end := su_run_date_end q,
     sw_is_offline_export := (if su_is_offline_export q then 1 else 0)\<rparr>"

definition content_create :: "int \<Rightarrow> string \<Rightarrow> rows_text \<Rightarrow> (world, unit) M" where
  "content_create i sql t = modifyM (\<lambda>w. w\<lparr>w_contents := tbl_create set_swc_id
     \<lparr>swc_id = 0, swc_workflow = i, swc_sql_content = sql, swc_review_content = t,
      swc_execute_result = NoText\<rparr> (w_contents w)\<rparr>)"

text \<open>The transaction: the order, its content and its review record.\<close>

definition store_submission ::
  "(string \<Rightarrow> re res) \<Rightarrow> sql_workflow \<Rightarrow> string \<Rightarrow> review_set \<Rightarrow> (world, auditor) M" where
  "store_submission compile_re x sql rs = atomicM (
     bindM (workflow_save (WSql x)) (\<lambda>wo.
     thenM (content_create (workflow_pk wo) sql (ReviewSet_json rs))
     (bindM (liftM (\<lambda>w. get_auditor w wo)) (\<lambda>au.
      bindM (create_audit compile_re au) (\<lambda>(m, au'). ret au')))))"

text \<open>Every exception of a block becomes a \<open>ValidationError\<close>.\<close>

definition invalid_on_error :: "('s, 'a) M \<Rightarrow> ('s, 'a) M" where
  "invalid_on_error m = catchM m (\<lambda>e. Some (validation (exn_str e)))"

fun set_sw_status :: "sql_workflow_status \<Rightarrow> workflow \<Rightarrow> workflow" where
  "set_sw_status st (WSql x) = WSql (x\<lparr>sw_status := st\<rparr>)"
| "set_sw_status st wo = wo"

text \<open>The order's status after the review record was created.\<close>

definition submitted_status :: "workflow_status \<Rightarrow> workflow \<Rightarrow> workflow" where
  "submitted_status st wo = (if st = REJECTED then set_sw_status workflow_autoreviewwrong wo
     else if st = PASSED then set_sw_status workflow_review_pass wo else wo)"

text \<open>\<open>WorkflowContentSerializer.create\<close>, with the check of the resource group in \<open>is_valid\<close>.\<close>

definition WorkflowContent_create ::
  "(string \<Rightarrow> re res) \<Rightarrow> engine \<Rightarrow> user \<Rightarrow> submission \<Rightarrow> (world, workflow) M" where
  "WorkflowContent_create compile_re en ru q =
     bindM (liftM (\<lambda>w. invalid_if_missing ''no such resource group''
        (tbl_get ''ResourceGroup'' (\<lambda>g. rg_group_id g = su_group_id q) (w_resource_groups w)))) (\<lambda>rg.
     bindM (liftM (\<lambda>w. invalid_if_missing ''no such instance'' (instance_by_id w (su_instance q)))) (\<lambda>ins.
     bindM (if u_is_superuser ru \<and> su_engineer q \<noteq> []
            then liftM (\<lambda>w. invalid_if_missing ''no such user'' (user_named w (su_engineer q))) else ret ru) (\<lambda>u.
     bindM (getsM (\<lambda>w. list_ex (\<lambda>i. i_id i = i_id ins) (user_instances w u '''' []
              [if su_is_offline_export q then ''can_read'' else ''can_write'']))) (\<lambda>visible.
     thenM (raise_if (\<not> visible) (ValidationError ''your groups do not include this instance''))
     (bindM (invalid_on_error (liftM (\<lambda>w. en_check en ins (su_db_name q) (strip (su_sql_content q))
                (su_is_offline_export q)))) (\<lambda>rs0.
      bindM (liftM (\<lambda>w. merge_ai_review_fields (su_ai_rows q) rs0)) (\<lambda>rs.
      bindM (getsM (\<lambda>w. submitted_backup w en ins q)) (\<lambda>backup.
      bindM (invalid_on_error (store_submission compile_re (submitted_workflow q rg u backup rs)
               (strip (su_sql_content q)) rs)) (\<lambda>au.
      bindM (liftM (\<lambda>w. record_of au)) (\<lambda>a.
        workflow_save (submitted_status (wa_current_status a) (au_workflow au))))))))))))"

text \<open>\<open>WorkflowList.post\<close>.\<close>

definition WorkflowList_post ::
  "(string \<Rightarrow> re res) \<Rightarrow> engine \<Rightarrow> user \<Rightarrow> submission \<Rightarrow> (world, workflow) M" where
  "WorkflowList_post compile_re en u q =
     thenM (raise_if (\<not> has_perm u ''sql.sql_submit'') PermissionDenied)
     (bindM (WorkflowContent_create compile_re en u q) (\<lambda>wo.
      bindM (liftM (\<lambda>w. is_notified w ''Apply'')) (\<lambda>n.
        thenM (case wo of
            WSql x \<Rightarrow> if sw_status x \<in> set [workflow_manreviewing, workflow_review_pass] \<and> n
              then bindM (getsM (\<lambda>w. detail_by_workflow_id w (sw_id x) SQL_REVIEW)) (\<lambda>a.
                async_task (notify_for_audit (case a of Some r \<Rightarrow> wa_audit_id r | None \<Rightarrow> 0)
                  (''sqlreview-submit-'' @ str_int (sw_id x))))
              else ret ()
          | _ \<Rightarrow> ret ())
          (ret wo))))"

text \<open>\<open>ExecuteCheck.post\<close>: only instances the user may write to are checked.\<close>

definition ExecuteCheck_post ::
  "(instance_row \<Rightarrow> string \<Rightarrow> string \<Rightarrow> review_set res) \<Rightarrow> user \<Rightarrow> int \<Rightarrow> string \<Rightarrow> string \<Rightarrow> (world, review_set) M" where
  "ExecuteCheck_post execute_check u i db_name full_sql =
     thenM (raise_if (\<not> has_perm u ''sql.sql_submit'') PermissionDenied)
     (bindM (liftM (\<lambda>w. invalid_if_missing ''no such instance'' (instance_by_id w i))) (\<lambda>ins.
      bindM (getsM (\<lambda>w. list_ex (\<lambda>x. i_id x = i_id ins) (user_instances w u '''' [] [''can_write'']))) (\<lambda>visible.
      thenM (raise_if (\<not> visible) (ValidationError ''your groups do not include this instance''))
        (invalid_on_error (liftM (\<lambda>w. execute_check ins db_name (strip full_sql)))))))"

section \<open>Reviewing a work order\<close>

record review_request =
  rq_engineer :: string
  rq_workflow_id :: int
  rq_workflow_type :: workflow_type
  rq_audit_remark :: string
  rq_audit_type :: string

fun workflow_engineer :: "workflow \<Rightarrow> string res" where
  "workflow_engineer (WSql x) = Inr (sw_engineer x)"
| "workflow_engineer (WQuery x) = Inl (AttributeError ''QueryPrivilegesApply object has no attribute engineer'')"
| "workflow_engineer (WArchive x) = Inl (AttributeError ''ArchiveConfig object has no attribute engineer'')"

text \<open>The action a review request stands for.\<close>

definition requested_action :: "review_request \<Rightarrow> user \<Rightarrow> auditor \<Rightarrow> world \<Rightarrow> workflow_action res" where
  "requested_action q u au w =
     (if rq_audit_type q = ''pass'' then Inr PASS
      else bindE (workflow_engineer (au_workflow au)) (\<lambda>eng.
        if eng = u_username u then Inr ABORT
        else bindE (can_review w u (rq_workflow_id q) (rq_workflow_type q)) (\<lambda>ok.
          if ok then Inr REJECT else Inl (ValidationError ''the user may not operate this work order''))))"

definition save_sw_fields :: "int \<Rightarrow> (sql_workflow \<Rightarrow> sql_workflow) \<Rightarrow> (world, unit) M" where
  "save_sw_fields i f = (\<lambda>w. case tbl_save_fields sw_id i f (w_workflows w) of
     Inl e \<Rightarrow> (Inl e, w) | Inr t \<Rightarrow> (Inr (), w\<lparr>w_workflows := t\<rparr>))"

definition save_ac_fields :: "int \<Rightarrow> (archive_config \<Rightarrow> archive_config) \<Rightarrow> (world, unit) M" where
  "save_ac_fields i f = (\<lambda>w. case tbl_save_fields ac_id i f (w_archives w) of
     Inl e \<Rightarrow> (Inl e, w) | Inr t \<Rightarrow> (Inr (), w\<lparr>w_archives := t\<rparr>))"

text \<open>What becomes of the work order itself.\<close>

definition settle_order :: "auditor \<Rightarrow> workflow_audit \<Rightarrow> (world, unit) M" where
  "settle_order au a = (case au_workflow au of
       WQuery x \<Rightarrow> query_apply_audit_call_back (wa_workflow_id a) (wa_current_status a)
     | WSql x \<Rightarrow>
         if wa_current_status a = PASSED
         then save_sw_fields (sw_id x) (\<lambda>y. y\<lparr>sw_status := workflow_review_pass\<rparr>)
         else if wa_current_status a \<in> set [ABORTED, REJECTED]
         then thenM (if sw_status x = workflow_timingtask
                     then with_schedules (del_schedule (timing_name (sw_id x))) else ret ())
                (save_sw_fields (sw_id x) (\<lambda>y. y\<lparr>sw_status := workflow_abort\<rparr>))
         else ret ()
     | WArchive x \<Rightarrow> save_ac_fields (ac_id x)
         (\<lambda>y. y\<lparr>ac_status := wa_current_status a, ac_state := (wa_current_status a = PASSED)\<rparr>))"

definition AuditWorkflow_post :: "user \<Rightarrow> review_request \<Rightarrow> (world, string) M" where
  "AuditWorkflow_post ru q =
     thenM (raise_if (rq_audit_type q \<notin> set [''pass'', ''cancel'']) (ValidationError ''audit_type''))
     (thenM (liftM (\<lambda>w. invalid_if_missing ''no such user'' (user_named w (rq_engineer q))))
     (bindM (liftM (\<lambda>w. invalid_if_missing ''no such work order''
               (audit_of w (rq_workflow_id q) (rq_workflow_type q)))) (\<lambda>a0.
      bindM (liftM (\<lambda>w. get_auditor_of_audit w a0)) (\<lambda>au.
      bindM (acting_user ru (rq_engineer q)) (\<lambda>u.
      bindM (liftM (requested_action q u au)) (\<lambda>action.
      bindM (catchM (operate action u (rq_audit_remark q) au)
               (\<lambda>e. if is_AuditException e then Some (validation (''operation failed, '' @ exn_str e)) else None)) (\<lambda>(d, au').
      bindM (liftM (\<lambda>w. record_of au')) (\<lambda>a.
      thenM (settle_order au' a)
      (bindM (liftM (\<lambda>w. is_notified w (if rq_audit_type q = ''pass'' then ''Pass'' else ''Cancel''))) (\<lambda>n.
       thenM (if n then async_task (notify_for_audit (wa_audit_id a) (''notify-audit-'' @ str_int (wa_audit_id a))) else ret ())
         (ret (if rq_audit_type q = ''pass'' then ''passed'' else ''canceled''))))))))))))"

section \<open>Running a work order\<close>

record run_request =
  xq_engineer :: string
  xq_workflow_id :: int
  xq_workflow_type :: int
  xq_mode :: string

definition execute_job :: "int \<Rightarrow> user \<Rightarrow> async_job" where
  "execute_job i u = \<lparr>aj_func = ''sql.utils.execute_sql.execute'', aj_args = [i],
     aj_user = Some (u_username u, u_display u), aj_hook = ''sql.utils.execute_sql.execute_callback'',
     aj_task_name = ''sqlreview-execute-'' @ str_int i\<rparr>"

definition archive_job :: "int \<Rightarrow> async_job" where
  "archive_job i = \<lparr>aj_func = ''sql.archiver.archive'', aj_args = [i], aj_user = None, aj_hook = '''',
     aj_task_name = ''archive-'' @ str_int i\<rparr>"

definition log_step :: "int \<Rightarrow> int \<Rightarrow> string \<Rightarrow> string \<Rightarrow> user \<Rightarrow> (world, unit) M" where
  "log_step aid ty desc info u = bindM (add_log aid ty desc info (u_username u) (u_display u)) (\<lambda>_. ret ())"

text \<open>\<open>if not x: raise ValidationError\<close> for a check that may itself raise.\<close>

definition require :: "(world \<Rightarrow> bool res) \<Rightarrow> string \<Rightarrow> (world, unit) M" where
  "require f m = bindM (liftM f) (\<lambda>b. raise_if (\<not> b) (ValidationError m))"

definition run_release :: "user \<Rightarrow> run_request \<Rightarrow> (world, bool) M" where
  "run_release ru q =
     (let i = xq_workflow_id q in
      bindM (acting_user ru (xq_engineer q)) (\<lambda>u.
      thenM (raise_if (\<not> (has_perm u ''sql.sql_execute'' \<or> has_perm u ''sql.sql_execute_for_resource_group''))
               (ValidationError ''you may not execute this work order''))
      (thenM (require (\<lambda>w. can_execute w u i) ''you may not execute this work order'')
      (thenM (require (\<lambda>w. on_correct_time_period w i None) ''outside of the execution period'')
      (bindM (liftM (\<lambda>w. sql_audit_id w i)) (\<lambda>aid.
         if xq_mode q = ''auto'' then
           thenM (set_sql_status i workflow_queuing)
           (thenM (with_schedules (del_schedule (timing_name i)))
           (thenM (async_task (execute_job i u))
           (thenM (log_step aid 5 ''execute'' ''queued for execution'' u) (ret False))))
         else if xq_mode q = ''manual'' then
           thenM (bindM (getsM w_now) (\<lambda>now. save_sw_fields i
              (\<lambda>x. x\<lparr>sw_status := workflow_finish, sw_finish_time := Some now\<rparr>)))
           (thenM (log_step aid 6 ''manual'' ''manual execution confirmed'' u)
             (liftM (\<lambda>w. is_notified w ''Execute'')))
         else ret False))))))"

definition run_archive :: "user \<Rightarrow> run_request \<Rightarrow> (world, bool) M" where
  "run_archive ru q =
     thenM (raise_if (\<not> (u_is_superuser ru \<or> has_perm ru ''sql.archive_mgt''))
              (ValidationError ''you may not execute this archive order''))
     (bindM (liftM (\<lambda>w. invalid_if_missing ''no such archive order''
               (tbl_get ''ArchiveConfig'' (\<lambda>x. ac_id x = xq_workflow_id q) (w_archives w)))) (\<lambda>x.
      thenM (raise_if (\<not> (ac_state x \<and> ac_status x = PASSED))
               (ValidationError ''the archive order has not passed its review''))
      (thenM (async_task (archive_job (xq_workflow_id q))) (ret False))))"

text \<open>\<open>ExecuteWorkflow.post\<close> with \<open>ExecuteWorkflowSerializer.validate\<close>; the answer says whether a message is sent.\<close>

definition ExecuteWorkflow_post :: "user \<Rightarrow> run_request \<Rightarrow> (world, bool) M" where
  "ExecuteWorkflow_post ru q =
     (if xq_workflow_type q = 2 then
        thenM (raise_if (xq_mode q \<notin> set [''auto'', ''manual'']) (ValidationError ''mode''))
        (thenM (raise_if (xq_engineer q = []) (ValidationError ''engineer is missing''))
        (thenM (liftM (\<lambda>w. invalid_if_missing ''no such user'' (user_named w (xq_engineer q))))
        (thenM (liftM (\<lambda>w. invalid_if_missing ''no such work order'' (audit_of w (xq_workflow_id q) SQL_REVIEW)))
          (run_release ru q))))
      else if xq_workflow_type q = 3 then
        thenM (raise_if (xq_mode q \<notin> set ['''', ''auto'', ''manual'']) (ValidationError ''mode''))
        (thenM (liftM (\<lambda>w. invalid_if_missing ''no such work order'' (audit_of w (xq_workflow_id q) ARCHIVE)))
          (run_archive ru q))
      else validation ''workflow_type'')"

section \<open>Timing and changing a release\<close>

text \<open>Dates of the page have whole minutes; \<open>None\<close> stands for an absent or empty field.\<close>

definition TimingTask_post :: "user \<Rightarrow> int \<Rightarrow> datetime option \<Rightarrow> (world, unit) M" where
  "TimingTask_post u i run_date = (case run_date of
       None \<Rightarrow> validation ''workflow_id and run_date are required''
     | Some d \<Rightarrow>
         thenM (raise_if (i = 0) (ValidationError ''workflow_id and run_date are required''))
         (thenM (bindM (getsM w_now) (\<lambda>now. raise_if (d < now div 60 * 60) (ValidationError ''the time has passed'')))
         (bindM (liftM (\<lambda>w. case workflow_get w i of Inr x \<Rightarrow> Inr x
                   | Inl e \<Rightarrow> if is_DoesNotExist e then Inl Http404 else Inl e)) (\<lambda>x.
          thenM (raise_if (\<not> (has_perm u ''sql.sql_execute'' \<or> has_perm u ''sql.sql_execute_for_resource_group''))
                   (ValidationError ''you may not execute this work order''))
          (thenM (require (\<lambda>w. can_timingtask w u i) ''you may not operate this work order'')
          (thenM (require (\<lambda>w. on_correct_time_period w i (Some d)) ''outside of the execution period'')
            (invalid_on_error (atomicM (
              thenM (bindM (workflow_save (WSql (x\<lparr>sw_status := workflow_timingtask\<rparr>))) (\<lambda>_. ret ()))
              (thenM (with_schedules (add_sql_schedule (timing_name i) d i))
              (bindM (liftM (\<lambda>w. sql_audit_id w i)) (\<lambda>aid.
                log_step aid 4 ''timed execution'' (''execution time: '' @ str_int d) u))))))))))))"

definition AlterRunDate_post :: "user \<Rightarrow> int \<Rightarrow> datetime option \<Rightarrow> datetime option \<Rightarrow> (world, unit) M" where
  "AlterRunDate_post u i run_date_start run_date_end =
     thenM (raise_if (\<not> has_perm u ''sql.sql_review'') PermissionDenied)
     (thenM (raise_if (i = 0) (ValidationError ''workflow_id is required''))
     (thenM (require (\<lambda>w. can_review w u i SQL_REVIEW) ''you may not operate this work order'')
       (invalid_on_error (save_sw_fields i
          (\<lambda>x. x\<lparr>sw_run_date_start := run_date_start, sw_run_date_end := run_date_end\<rparr>)))))"

section \<open>Lists, logs and details\<close>

definition WorkflowList_queryset :: "world \<Rightarrow> user \<Rightarrow> sql_workflow_content list res" where
  "WorkflowList_queryset w u =
     bindE (if u_is_superuser u \<or> has_perm u ''sql.audit_user'' then Inr (\<lambda>x. True)
            else if has_perm u ''sql.sql_review'' \<or> has_perm u ''sql.sql_execute_for_resource_group'' then
              bindE (user_groups w u) (\<lambda>gs. Inr (\<lambda>x. sw_group_id x \<in> set (map rg_group_id gs)))
            else Inr (\<lambda>x. sw_engineer x = u_username u)) (\<lambda>vis.
       Inr (rev (tbl_filter (\<lambda>c. tbl_exists (\<lambda>x. sw_id x = swc_workflow c \<and> vis x) (w_workflows w)) (w_contents w))))"

definition WorkflowAuditList_post :: "world \<Rightarrow> user \<Rightarrow> string \<Rightarrow> workflow_audit list res" where
  "WorkflowAuditList_post w ru engineer0 =
     (let e1 = (if engineer0 \<noteq> [] then engineer0 else u_username ru);
          engineer = (if e1 \<noteq> u_username ru \<and> \<not> u_is_superuser ru then u_username ru else e1) in
      bindE (invalid_if_missing ''no such user'' (user_named w engineer)) (\<lambda>u.
      bindE (user_groups w u) (\<lambda>gs.
        let auth_group_ids = (if u_is_superuser u then map g_id (tbl_rows (w_groups w))
                              else map g_id (tbl_filter (\<lambda>g. g_id g \<in> set (u_groups u)) (w_groups w)))
        in Inr (rev (tbl_filter (\<lambda>a. wa_current_status a = WAITING \<and> wa_group_id a \<in> set (map rg_group_id gs)
                  \<and> wa_current_audit a \<in> set (map str_int auth_group_ids)) (w_audits w))))))"

definition false_if_missing :: "bool res \<Rightarrow> bool res" where
  "false_if_missing r = (case r of Inl e \<Rightarrow> if is_DoesNotExist e then Inr False else Inl e | Inr b \<Rightarrow> Inr b)"

definition can_view_workflow :: "world \<Rightarrow> user \<Rightarrow> int \<Rightarrow> workflow_type \<Rightarrow> bool res" where
  "can_view_workflow w u i ty =
     (if u_is_superuser u then Inr True
      else bindE (user_groups w u) (\<lambda>gs. let group_ids = map rg_group_id gs in (case ty of
          SQL_REVIEW \<Rightarrow> (case workflow_get w i of
              Inl e \<Rightarrow> false_if_missing (Inl e) | Inr x \<Rightarrow> can_view w u i)
        | ARCHIVE \<Rightarrow> false_if_missing (bindE (tbl_get ''ArchiveConfig'' (\<lambda>x. ac_id x = i) (w_archives w))
                       (\<lambda>x. Inr (ac_resource_group x \<in> set group_ids)))
        | QUERY \<Rightarrow> false_if_missing (bindE (apply_get w i)
                       (\<lambda>x. Inr (qa_user_name x = u_username u \<or> qa_group_id x \<in> set group_ids))))))"

definition WorkflowLogList_post :: "world \<Rightarrow> user \<Rightarrow> int \<Rightarrow> workflow_type \<Rightarrow> workflow_log list res" where
  "WorkflowLogList_post w u i ty =
     bindE (invalid_if_missing ''no such work order'' (audit_of w i ty)) (\<lambda>a.
     bindE (can_view_workflow w u i ty) (\<lambda>ok.
       if \<not> ok then Inl PermissionDenied
       else Inr (rev (Audit_logs w (wa_audit_id a)))))"

record workflow_page =
  pg_nodes :: "review_node list"
  pg_current_reviewers :: "(string \<times> string) list"
  pg_last_operation_info :: string
  pg_can_review :: bool
  pg_can_execute :: bool
  pg_can_timingtask :: bool
  pg_can_cancel :: bool
  pg_can_rollback :: bool
  pg_manual :: bool
  pg_run_date :: "datetime option"
  pg_risk :: risk_summary

definition last_log_info :: "world \<Rightarrow> int \<Rightarrow> string" where
  "last_log_info w i = (case detail_by_workflow_id w i SQL_REVIEW of
       None \<Rightarrow> ''''
     | Some a \<Rightarrow> (case rev (Audit_logs w (wa_audit_id a)) of [] \<Rightarrow> '''' | l # ls \<Rightarrow> wl_operation_info l))"

definition WorkflowDetail_get :: "world \<Rightarrow> user \<Rightarrow> int \<Rightarrow> workflow_page res" where
  "WorkflowDetail_get w u i =
     bindE (case workflow_get w i of Inr x \<Rightarrow> Inr x | Inl e \<Rightarrow> if is_DoesNotExist e then Inl Http404 else Inl e) (\<lambda>x.
     bindE (can_view w u i) (\<lambda>ok. if \<not> ok then Inl PermissionDenied else
     bindE (case content_of w i of Inr c \<Rightarrow> Inr c | Inl e \<Rightarrow> if is_DoesNotExist e then Inl Http404 else Inl e) (\<lambda>c.
     bindE (get_auditor w (WSql x)) (\<lambda>au.
     bindE (get_review_info w au) (\<lambda>ri.
     bindE (if sw_status x \<noteq> workflow_autoreviewwrong then
              bindE (can_review w u i SQL_REVIEW) (\<lambda>r. bindE (can_execute w u i) (\<lambda>e.
              bindE (can_timingtask w u i) (\<lambda>t. bindE (can_cancel w u i) (\<lambda>cn. bindE (can_rollback w u i) (\<lambda>rb.
                Inr (last_log_info w i, r, e, t, cn, rb))))))
            else Inr ('''', False, False, False, False, False)) (\<lambda>(info, r, e, t, cn, rb).
     bindE (if sw_status x = workflow_timingtask
            then bindE (task_info (timing_name i) (w_schedules w)) (\<lambda>j. Inr (map_option sc_next_run j))
            else Inr None) (\<lambda>run.
       Inr \<lparr>pg_nodes = ri_nodes ri, pg_current_reviewers = get_current_reviewers w (ri_nodes ri) (sw_group_name x),
            pg_last_operation_info = info, pg_can_review = r, pg_can_execute = e, pg_can_timingtask = t,
            pg_can_cancel = cn, pg_can_rollback = rb, pg_manual = truthy (config_get w ''manual'' PNone),
            pg_run_date = run, pg_risk = calc_ai_risk_summary (swc_review_content c)\<rparr>)))))))"

end
