(* ===== verification/Plugins.thy ===== *)
theory Plugins
  imports Models
begin

text \<open>
  \<open>sql/plugins/plugin.py\<close> and \<open>sql/plugins/pt_archiver.py\<close>: external command-line tools, their
  argument checks and the command line made of the arguments; and \<open>str.replace\<close>, with which the
  archive task hides passwords in a command line. Running the command is a parameter of its
  callers.
\<close>

section \<open>str.replace\<close>

function replace_ne :: "string \<Rightarrow> string \<Rightarrow> string \<Rightarrow> string" where
  "replace_ne old new [] = []"
| "replace_ne old new (c # cs) =
     (if old \<noteq> [] \<and> starts_with (c # cs) old
      then new @ replace_ne old new (drop (length old) (c # cs))
      else c # replace_ne old new cs)"
  by pat_completeness auto
termination
  by (relation "measure (\<lambda>(old, new, s). length s)") auto

text \<open>An empty \<open>old\<close> matches before every character and at the end.\<close>

definition str_replace :: "string \<Rightarrow> string \<Rightarrow> string \<Rightarrow> string" where
  "str_replace old new s = (if old = [] then new @ concat (map (\<lambda>c. c # new) s) else replace_ne old new s)"

section \<open>Arguments and command lines\<close>

datatype arg_value = ANone | AFlag bool | ANum int | AText string

fun arg_truthy :: "arg_value \<Rightarrow> bool" where
  "arg_truthy ANone = False"
| "arg_truthy (AFlag b) = b"
| "arg_truthy (ANum i) = (i \<noteq> 0)"
| "arg_truthy (AText s) = (s \<noteq> [])"

fun arg_text :: "arg_value \<Rightarrow> string list" where
  "arg_text ANone = [''None'']"
| "arg_text (AFlag b) = []"
| "arg_text (ANum i) = [str_int i]"
| "arg_text (AText s) = [s]"

type_synonym args = "(string \<times> arg_value) list"

record plugin =
  pl_path :: "string option"
  pl_required_args :: "string list"
  pl_disable_args :: "string list"

definition set_arg :: "string \<Rightarrow> arg_value \<Rightarrow> args \<Rightarrow> args" where
  "set_arg k v as = (if k \<in> set (map fst as) then map (\<lambda>(k', v'). if k' = k then (k, v) else (k', v')) as
                     else as @ [(k, v)])"

text \<open>The result of \<open>check_args\<close>: its status and message.\<close>

definition check_args :: "plugin \<Rightarrow> args \<Rightarrow> int \<times> string" where
  "check_args p as =
     (if pl_path p = None then (1, ''the path of the program is missing'')
      else case find (\<lambda>a. a \<in> set (pl_disable_args p)) (map fst as) of
          Some a \<Rightarrow> (1, a @ '' is a disabled argument'')
        | None \<Rightarrow> (case find (\<lambda>r. map_of as r = None \<or> map_of as r = Some ANone \<or> map_of as r = Some (AText []))
                         (pl_required_args p) of
              Some r \<Rightarrow> (1, (if map_of as r = None then r @ '' is required'' else r @ '' must not be empty''))
            | None \<Rightarrow> (0, ''ok'')))"

definition args2cmd :: "string \<Rightarrow> string \<Rightarrow> args \<Rightarrow> string list" where
  "args2cmd dashes path as =
     path # concat (map (\<lambda>(a, v). if arg_truthy v then (dashes @ a) # arg_text v else []) as)"

text \<open>\<open>Plugin.generate_args2cmd\<close> writes one dash, \<open>PtArchiver.generate_args2cmd\<close> two.\<close>

definition Plugin_generate_args2cmd :: "string \<Rightarrow> args \<Rightarrow> string list" where
  "Plugin_generate_args2cmd path as = args2cmd ''-'' path as"

definition PtArchiver :: plugin where
  "PtArchiver = \<lparr>pl_path = Some ''pt-archiver'', pl_required_args = [], pl_disable_args = [''analyze'']\<rparr>"

definition PtArchiver_generate_args2cmd :: "args \<Rightarrow> string list" where
  "PtArchiver_generate_args2cmd as = args2cmd ''--'' ''pt-archiver'' as"

section \<open>Lemmas\<close>

text \<open>
  A replaced text without the characters of the new one: every piece of the result that avoids
  them is a piece of the old text, and holds no occurrence of what was replaced.
\<close>

lemma str_in_iff: "str_in p s \<longleftrightarrow> (\<exists>a b. s = a @ p @ b)"
proof (induction s)
  case Nil
  show ?case by auto
next
  case (Cons c s)
  have "starts_with (c # s) p \<longleftrightarrow> (\<exists>b. c # s = p @ b)" by (simp add: starts_with_prefix prefix_def)
  moreover have "(\<exists>a b. c # s = a @ p @ b) \<longleftrightarrow> (\<exists>b. c # s = p @ b) \<or> (\<exists>a b. s = a @ p @ b)"
    by (auto simp: Cons_eq_append_conv)
  ultimately show ?case using Cons.IH by simp
qed

lemma str_in_new_append:
  "p \<noteq> [] \<Longrightarrow> set p \<inter> set new = {} \<Longrightarrow> str_in p (new @ r) \<Longrightarrow> str_in p r"
proof (induction new)
  case (Cons d new)
  have "\<not> starts_with ((d # new) @ r) p"
    using Cons.prems(1,2) by (cases p) (auto simp: starts_with_prefix)
  with Cons show ?case by simp
qed simp

lemma replace_ne_prefix:
  assumes "new \<noteq> []" "set p \<inter> set new = {}" "starts_with (replace_ne q new s) p"
  shows "starts_with s p"
  using assms(2,3)
proof (induction s arbitrary: p)
  case Nil
  then show ?case by simp
next
  case (Cons c cs)
  show ?case
  proof (cases p)
    case Nil
    then show ?thesis by (simp add: starts_with_def)
  next
    case (Cons d ds)
    have "\<not> (q \<noteq> [] \<and> starts_with (c # cs) q)"
    proof
      assume "q \<noteq> [] \<and> starts_with (c # cs) q"
      with Cons.prems(2) have "starts_with (new @ replace_ne q new (drop (length q) (c # cs))) p" by simp
      with Cons assms(1) Cons.prems(1) show False by (cases new) (auto simp: starts_with_prefix)
    qed
    with Cons.prems(2) have "starts_with (c # replace_ne q new cs) p" by (simp split: if_splits)
    with Cons Cons.IH [of ds] Cons.prems(1) show ?thesis by (auto simp: starts_with_prefix)
  qed
qed

text \<open>The replaced text is gone, and no other text appears that was not there.\<close>

lemma replace_ne_absent:
  assumes "new \<noteq> []" "set p \<inter> set new = {}" "p \<noteq> []"
  shows "\<not> str_in p (replace_ne p new s)"
  using assms
proof (induction p new s rule: replace_ne.induct)
  case (1 p new)
  then show ?case by simp
next
  case (2 p new c cs)
  show ?case
  proof (cases "starts_with (c # cs) p")
    case True
    with 2 have "\<not> str_in p (replace_ne p new (drop (length p) (c # cs)))" by blast
    with str_in_new_append [OF 2(5,4)] True 2(5) show ?thesis by auto
  next
    case False
    then have e: "replace_ne p new (c # cs) = c # replace_ne p new cs" by simp
    have "\<not> starts_with (replace_ne p new (c # cs)) p"
      using replace_ne_prefix [OF 2(3,4)] False by blast
    moreover have "\<not> str_in p (replace_ne p new cs)" using "2.IH"(2) False 2(3-5) by simp
    ultimately show ?thesis unfolding e by simp
  qed
qed

lemma replace_ne_keeps_absent:
  assumes "new \<noteq> []" "set p \<inter> set new = {}" "p \<noteq> []" "\<not> str_in p s"
  shows "\<not> str_in p (replace_ne q new s)"
  using assms
proof (induction q new s rule: replace_ne.induct)
  case (1 q new)
  then show ?case by simp
next
  case (2 q new c cs)
  show ?case
  proof (cases "q \<noteq> [] \<and> starts_with (c # cs) q")
    case True
    have "\<not> str_in p (drop (length q) (c # cs))"
    proof
      assume "str_in p (drop (length q) (c # cs))"
      then obtain a b where "drop (length q) (c # cs) = a @ p @ b" by (auto simp: str_in_iff)
      then have "c # cs = (take (length q) (c # cs) @ a) @ p @ b"
        using append_take_drop_id [of "length q" "c # cs"] by simp
      with 2(6) show False unfolding str_in_iff by blast
    qed
    with 2 True have "\<not> str_in p (replace_ne q new (drop (length q) (c # cs)))" by blast
    with str_in_new_append [OF 2(5,4)] True show ?thesis by auto
  next
    case False
    then have e: "replace_ne q new (c # cs) = c # replace_ne q new cs" by auto
    have "\<not> starts_with (replace_ne q new (c # cs)) p"
      using replace_ne_prefix [OF 2(3,4), of q "c # cs"] 2(6) by auto
    moreover have "\<not> str_in p (replace_ne q new cs)" using "2.IH"(2) False 2(3-6) by simp
    ultimately show ?thesis unfolding e by simp
  qed
qed

lemma str_replace_absent:
  "new \<noteq> [] \<Longrightarrow> set p \<inter> set new = {} \<Longrightarrow> p \<noteq> [] \<Longrightarrow> \<not> str_in p (str_replace p new s)"
  by (simp add: str_replace_def replace_ne_absent)

lemma str_replace_keeps_absent:
  "new \<noteq> [] \<Longrightarrow> set p \<inter> set new = {} \<Longrightarrow> p \<noteq> [] \<Longrightarrow> q \<noteq> [] \<Longrightarrow> \<not> str_in p s \<Longrightarrow>
     \<not> str_in p (str_replace q new s)"
  by (simp add: str_replace_def replace_ne_keeps_absent)

text \<open>Every word of a command line is the path, a dashed argument or the text of a value.\<close>

lemma set_args2cmd:
  "set (args2cmd dashes path as) = insert path
     (\<Union>(a, v) \<in> set as. if arg_truthy v then insert (dashes @ a) (set (arg_text v)) else {})"
  by (auto simp: args2cmd_def split: if_splits)

end
