(* ===== verification/Archive.thy ===== *)
theory Archive
  imports WorkflowApi Plugins
begin

text \<open>
  Data archiving: the views of \<open>sql_api/api_archiver.py\<close> and the task of \<open>sql/archiver.py\<close>. An
  archive order is a work order of its own kind; after its approval the task runs \<open>pt-archiver\<close>.
  The schema inspection of the instances and the process are parameters: the character sets of a
  table and of a database, and for a command line the lines of its standard output, its standard
  error and the time it ended. Identifiers in requests are integers.
\<close>

section \<open>The task\<close>

record command_result =
  cr_lines :: "string list"
  cr_stderr :: string
  cr_end :: datetime

record archive_env =
  ae_table_charset :: "instance_row \<Rightarrow> string \<Rightarrow> string \<Rightarrow> string option res"
  ae_db_charset :: "instance_row \<Rightarrow> string \<Rightarrow> string option res"
  ae_run :: "string list \<Rightarrow> command_result res"
  ae_base_dir :: string

definition archive_get :: "world \<Rightarrow> int \<Rightarrow> archive_config res" where
  "archive_get w i = tbl_get ''ArchiveConfig'' (\<lambda>x. ac_id x = i) (w_archives w)"

definition archive_charset :: "archive_env \<Rightarrow> instance_row \<Rightarrow> string \<Rightarrow> string \<Rightarrow> string res" where
  "archive_charset env i db tb =
     bindE (ae_table_charset env i db tb) (\<lambda>c. case c of
         Some s \<Rightarrow> Inr s
       | None \<Rightarrow> bindE (ae_db_charset env i db) (\<lambda>d. Inr (case d of Some s \<Rightarrow> s | None \<Rightarrow> ''None'')))"

text \<open>The connection string of \<open>pt-archiver\<close>.\<close>

definition archive_dsn :: "instance_row \<Rightarrow> string \<Rightarrow> string \<Rightarrow> string \<Rightarrow> string" where
  "archive_dsn i db tb charset = ''h='' @ i_host i @ '',u='' @ i_user i @ '',p='' @ i_password i
     @ '',P='' @ str_int (i_port i) @ '',D='' @ db @ '',t='' @ tb @ '',A='' @ charset"

definition archive_common_args :: "archive_config \<Rightarrow> string \<Rightarrow> args" where
  "archive_common_args x source = [(''no-version-check'', AFlag True), (''source'', AText source),
     (''where'', AText (ac_condition x)), (''progress'', ANum 5000), (''statistics'', AFlag True),
     (''charset'', AText ''utf8''), (''limit'', ANum 10000), (''txn-size'', ANum 1000),
     (''sleep'', ANum (ac_sleep x))]"

definition no_delete_arg :: "archive_config \<Rightarrow> args" where
  "no_delete_arg x = (if ac_no_delete x then [(''no-delete'', AFlag True)] else [])"

text \<open>The target instance of an order, read only in mode \<open>dest\<close>.\<close>

definition dest_instance :: "world \<Rightarrow> archive_config \<Rightarrow> instance_row res" where
  "dest_instance w x = (case ac_dest_instance x of
       None \<Rightarrow> Inl (AttributeError ''NoneType object has no attribute db_type'')
     | Some i \<Rightarrow> instance_by_id w i)"

definition archive_args :: "archive_env \<Rightarrow> world \<Rightarrow> archive_config \<Rightarrow> instance_row \<Rightarrow> args res" where
  "archive_args env w x s_ins =
     bindE (archive_charset env s_ins (ac_src_db_name x) (ac_src_table_name x)) (\<lambda>s_charset.
       let common = archive_common_args x
             (archive_dsn s_ins (ac_src_db_name x) (ac_src_table_name x) s_charset) in
       if ac_mode x = ''dest'' then
         bindE (dest_instance w x) (\<lambda>d_ins.
         bindE (archive_charset env d_ins (ac_dest_db_name x) (ac_dest_table_name x)) (\<lambda>d_charset.
           Inr (common @ [(''dest'', AText (archive_dsn d_ins (ac_dest_db_name x) (ac_dest_table_name x) d_charset))]
                @ no_delete_arg x)))
       else if ac_mode x = ''file'' then
         Inr (common @ [(''file'', AText (ae_base_dir env @ ''/downloads/archiver/'' @ i_instance_name s_ins @ ''-''
                 @ ac_src_db_name x @ ''-'' @ ac_src_table_name x @ ''.txt''))] @ no_delete_arg x)
       else if ac_mode x = ''purge'' then Inr (common @ [(''purge'', AFlag True)])
       else Inr common)"

subsection \<open>Reading the statistics\<close>

text \<open>\<open>^WORD\s(\d+)$\<close>, with the flag \<open>re.I\<close> or without.\<close>

definition count_re :: "string \<Rightarrow> bool \<Rightarrow> re" where
  "count_re word ci = Seq Bos (Seq (if ci then lit_ci (lower word) else lit word)
     (Seq space_re (Seq (Grp 1 (Plus digit_re)) Eos)))"

text \<open>\<open>re.findall\<close> of the anchored pattern: one number at most.\<close>

definition count_found :: "string \<Rightarrow> string \<Rightarrow> string list" where
  "count_found word line = (case re_match_at (count_re word False) None line of
       None \<Rightarrow> []
     | Some q \<Rightarrow> (case caps_get 1 q of None \<Rightarrow> [] | Some s \<Rightarrow> [s]))"

record archive_counts =
  cnt_select :: "string list"
  cnt_insert :: "string list"
  cnt_delete :: "string list"

fun read_counts :: "string list \<Rightarrow> archive_counts \<Rightarrow> archive_counts" where
  "read_counts [] c = c"
| "read_counts (l # ls) c = read_counts ls
     (if re_match (count_re ''SELECT'' True) l then c\<lparr>cnt_select := count_found ''SELECT'' l\<rparr>
      else if re_match (count_re ''INSERT'' True) l then c\<lparr>cnt_insert := count_found ''INSERT'' l\<rparr>
      else if re_match (count_re ''DELETE'' True) l then c\<lparr>cnt_delete := count_found ''DELETE'' l\<rparr>
      else c)"

definition count_value :: "string list \<Rightarrow> int res" where
  "count_value c = (case c of [] \<Rightarrow> Inr 0 | s # _ \<Rightarrow> py_int s)"

record archive_result =
  ar_select_cnt :: int
  ar_insert_cnt :: int
  ar_delete_cnt :: int
  ar_statistics :: string
  ar_success :: bool
  ar_error_info :: string

text \<open>What is wrong with the counts of a mode, if anything.\<close>

definition count_mismatch :: "archive_config \<Rightarrow> int \<Rightarrow> int \<Rightarrow> int \<Rightarrow> string option" where
  "count_mismatch x sel ins del =
     (if ac_mode x = ''dest'' then
        (if \<not> ac_no_delete x \<and> ins \<noteq> del
         then Some (''inserted and deleted rows differ:'' @ str_int ins @ ''!='' @ str_int del) else None)
      else if ac_mode x = ''file'' then
        (if \<not> ac_no_delete x \<and> sel \<noteq> del
         then Some (''selected and deleted rows differ:'' @ str_int sel @ ''!='' @ str_int del) else None)
      else if ac_mode x = ''purge'' then
        (if sel \<noteq> del
         then Some (''selected and deleted rows differ:'' @ str_int sel @ ''!='' @ str_int del) else None)
      else None)"

definition archive_outcome :: "archive_config \<Rightarrow> command_result \<Rightarrow> archive_result res" where
  "archive_outcome x r =
     (let c = read_counts (cr_lines r) \<lparr>cnt_select = [], cnt_insert = [], cnt_delete = []\<rparr>;
          stdout = concat (map (\<lambda>l. l @ [newline]) (cr_lines r)) in
      bindE (count_value (cnt_select c)) (\<lambda>sel.
      bindE (count_value (cnt_insert c)) (\<lambda>ins.
      bindE (count_value (cnt_delete c)) (\<lambda>del.
        let e0 = (if cr_stderr r \<noteq> [] then ''the command failed:'' @ cr_stderr r else []);
            m = count_mismatch x sel ins del in
        Inr \<lparr>ar_select_cnt = sel, ar_insert_cnt = ins, ar_delete_cnt = del,
             ar_statistics = stdout @ cr_stderr r,
             ar_success = (cr_stderr r = [] \<and> m = None),
             ar_error_info = (case m of Some e \<Rightarrow> e | None \<Rightarrow> e0)\<rparr>))))"

subsection \<open>The task as a whole\<close>

definition hide_password :: "instance_row \<Rightarrow> string \<Rightarrow> string" where
  "hide_password i cmd = str_replace (i_password i) ''***'' cmd"

definition archive_log_row ::
  "archive_config \<Rightarrow> string \<Rightarrow> archive_result \<Rightarrow> datetime \<Rightarrow> datetime \<Rightarrow> archive_log" where
  "archive_log_row x cmd a start stop = \<lparr>al_id = 0, al_archive = ac_id x, al_cmd = cmd,
     al_condition = ac_condition x, al_mode = ac_mode x, al_no_delete = ac_no_delete x,
     al_sleep = ac_sleep x, al_select_cnt = ar_select_cnt a, al_insert_cnt = ar_insert_cnt a,
     al_delete_cnt = ar_delete_cnt a, al_statistics = ar_statistics a, al_success = ar_success a,
     al_error_info = ar_error_info a, al_start_time = start, al_end_time = stop, al_sys_time = stop\<rparr>"

text \<open>The command of the log: the passwords are replaced in it.\<close>

definition logged_cmd :: "world \<Rightarrow> archive_config \<Rightarrow> instance_row \<Rightarrow> string list \<Rightarrow> string res" where
  "logged_cmd w x s_ins cmd_args =
     (let cmd = hide_password s_ins (join '' '' cmd_args) in
      if ac_mode x = ''dest'' then bindE (dest_instance w x) (\<lambda>d_ins. Inr (hide_password d_ins cmd))
      else Inr cmd)"

definition archive_finish ::
  "archive_config \<Rightarrow> instance_row \<Rightarrow> string list \<Rightarrow> command_result \<Rightarrow> (world, unit) M" where
  "archive_finish x s_ins cmd_args r =
     bindM (liftM (\<lambda>w. archive_outcome x r)) (\<lambda>a.
     thenM (save_ac_fields (ac_id x) (\<lambda>y. y\<lparr>ac_last_archive_time := Some (cr_end r)\<rparr>))
     (bindM (liftM (\<lambda>w. logged_cmd w x s_ins cmd_args)) (\<lambda>cmd.
      thenM (modifyM (\<lambda>w. w\<lparr>w_archive_logs := tbl_create set_al_id
               (archive_log_row x cmd a (w_now w) (cr_end r)) (w_archive_logs w)\<rparr>))
        (raise_if (\<not> ar_success a) (PyException (ar_error_info a @ [newline] @ ar_statistics a))))))"

text \<open>A refused argument list is the task's result; a run that succeeds returns \<open>None\<close>.\<close>

definition archive :: "archive_env \<Rightarrow> int \<Rightarrow> (world, (int \<times> string) option) M" where
  "archive env i =
     bindM (liftM (\<lambda>w. archive_get w i)) (\<lambda>x.
     bindM (liftM (\<lambda>w. instance_by_id w (ac_src_instance x))) (\<lambda>s_ins.
     bindM (liftM (\<lambda>w. archive_args env w x s_ins)) (\<lambda>as.
       if fst (check_args PtArchiver as) = 1 then ret (Some (check_args PtArchiver as))
       else bindM (liftM (\<lambda>w. ae_run env (PtArchiver_generate_args2cmd as))) (\<lambda>r.
         thenM (archive_finish x s_ins (PtArchiver_generate_args2cmd as) r) (ret None)))))"

text \<open>The scheduler's entry: no identifiers stand for every order.\<close>

definition schedulable :: "int list \<Rightarrow> archive_config \<Rightarrow> bool" where
  "schedulable ids x = ((ids = [] \<or> ac_id x \<in> set ids) \<and> ac_state x \<and> ac_status x = PASSED)"

definition add_archive_task :: "int list \<Rightarrow> (world, unit) M" where
  "add_archive_task ids =
     bindM (getsM (\<lambda>w. tbl_filter (schedulable ids) (w_archives w))) (\<lambda>xs.
       forM xs (\<lambda>x. async_task (archive_job (ac_id x))))"

section \<open>The views\<close>

text \<open>\<open>_safe_int\<close>: an absent or malformed number is the default.\<close>

definition safe_int :: "string \<Rightarrow> int \<Rightarrow> int" where
  "safe_int v d = (if v = [] then d else case parse_int v of Some i \<Rightarrow> i | None \<Rightarrow> d)"

text \<open>\<open>rows[offset:limit]\<close> of a query set, which refuses negative bounds.\<close>

definition rows_between :: "int \<Rightarrow> int \<Rightarrow> 'a list \<Rightarrow> 'a list res" where
  "rows_between offset limit xs =
     (if offset < 0 \<or> limit < 0 then Inl (ValueError ''Negative indexing is not supported.'')
      else Inr (take (nat limit - nat offset) (drop (nat offset) xs)))"

definition list_get :: "string \<Rightarrow> ('r \<Rightarrow> bool) \<Rightarrow> 'r list \<Rightarrow> 'r res" where
  "list_get n P xs = tbl_get n P \<lparr>tbl_rows = xs, tbl_next = 0\<rparr>"

text \<open>\<open>ArchiveDetail.get\<close>.\<close>

record archive_page =
  ap_archive :: archive_config
  ap_review_info :: "review_node list"
  ap_current_reviewers :: "(string \<times> string) list"
  ap_can_review :: bool
  ap_last_operation_info :: string
  ap_logs :: "workflow_log list"

definition archive_logs_of :: "world \<Rightarrow> int \<Rightarrow> workflow_log list" where
  "archive_logs_of w i = (case detail_by_workflow_id w i ARCHIVE of
       None \<Rightarrow> [] | Some a \<Rightarrow> Audit_logs w (wa_audit_id a))"

definition may_pass :: "world \<Rightarrow> user \<Rightarrow> auditor \<Rightarrow> bool res" where
  "may_pass w u au = (case au_audit au of
       None \<Rightarrow> Inr False
     | Some a \<Rightarrow> (case can_operate w PASS u a au of
           Inr x \<Rightarrow> Inr True
         | Inl e \<Rightarrow> if is_AuditException e then Inr False else Inl e))"

definition ArchiveDetail_get :: "world \<Rightarrow> user \<Rightarrow> int \<Rightarrow> archive_page res" where
  "ArchiveDetail_get w u i =
     (case tbl_first (\<lambda>x. ac_id x = i) (w_archives w) of
        None \<Rightarrow> Inl Http404
      | Some x \<Rightarrow>
          bindE (if u_is_superuser u then Inr True
                 else bindE (user_groups w u) (\<lambda>gs. Inr (ac_resource_group x \<in> set (map rg_group_id gs)))) (\<lambda>ok.
          if \<not> ok then Inl PermissionDenied else
          bindE (tbl_get ''ResourceGroup'' (\<lambda>g. rg_group_id g = ac_resource_group x) (w_resource_groups w)) (\<lambda>rg.
          bindE (AuditV2 w (Some (WArchive x)) None (rg_group_name rg) 0) (\<lambda>au.
          bindE (get_review_info w au) (\<lambda>ri.
          bindE (may_pass w u au) (\<lambda>can.
            let logs = archive_logs_of w i in
            Inr \<lparr>ap_archive = x, ap_review_info = ri_nodes ri,
                 ap_current_reviewers = get_current_reviewers w (ri_nodes ri) (rg_group_name rg),
                 ap_can_review = can,
                 ap_last_operation_info = (if logs = [] then [] else wl_operation_info (last logs)),
                 ap_logs = logs\<rparr>))))))"

text \<open>\<open>ArchiveAudit.post\<close>; the answer is a status (0 or 1) and a message.\<close>

definition review_archive ::
  "workflow_action \<Rightarrow> user \<Rightarrow> string \<Rightarrow> archive_config \<Rightarrow> auditor \<Rightarrow> (world, workflow_audit) M" where
  "review_archive action u remark x au = atomicM (
     bindM (operate action u remark au) (\<lambda>(d, au').
     bindM (liftM (\<lambda>w. record_of au')) (\<lambda>a.
     thenM (workflow_save (WArchive (x\<lparr>ac_status := wa_current_status a,
              ac_state := (if wa_current_status a = PASSED then True else ac_state x)\<rparr>)))
       (ret a))))"

definition ArchiveAudit_post :: "user \<Rightarrow> int \<Rightarrow> int \<Rightarrow> string \<Rightarrow> (world, int \<times> string) M" where
  "ArchiveAudit_post u i audit_status remark = (case WorkflowAction_of audit_status of
       Inl e \<Rightarrow> ret (1, ''bad parameter: '' @ exn_str e)
     | Inr action \<Rightarrow>
         bindM (getsM (\<lambda>w. archive_get w i)) (\<lambda>r. case r of
             Inl e \<Rightarrow> if is_DoesNotExist e then ret (1, ''no such work order'') else throw e
           | Inr x \<Rightarrow>
               bindM (liftM (\<lambda>w. tbl_get ''ResourceGroup'' (\<lambda>g. rg_group_id g = ac_resource_group x)
                        (w_resource_groups w))) (\<lambda>rg.
               bindM (liftM (\<lambda>w. AuditV2 w (Some (WArchive x)) None (rg_group_name rg) 0)) (\<lambda>au.
               bindM (catchM (bindM (review_archive action u remark x au) (\<lambda>a. ret (Inr a)))
                        (\<lambda>e. if is_AuditException e then Some (ret (Inl (''review failed: '' @ exn_str e))) else None))
                 (\<lambda>q. case q of
                     Inl m \<Rightarrow> ret (1, m)
                   | Inr a \<Rightarrow> thenM (async_task (notify_for_audit (wa_audit_id a) (''archive-audit-'' @ str_int i)))
                       (ret (0, ''ok'')))))))"

text \<open>\<open>ArchiveListView.get\<close>: the number of orders and the page of them, newest first.\<close>

definition archive_scope :: "world \<Rightarrow> user \<Rightarrow> (archive_config \<Rightarrow> bool) res" where
  "archive_scope w u =
     (if u_is_superuser u then Inr (\<lambda>x. True)
      else if has_perm u ''sql.archive_review''
        then bindE (user_groups w u) (\<lambda>gs. Inr (\<lambda>x. ac_resource_group x \<in> set (map rg_group_id gs)))
      else Inr (\<lambda>x. ac_user_name x = u_username u))"

definition ArchiveListView_get ::
  "world \<Rightarrow> user \<Rightarrow> int option \<Rightarrow> string \<Rightarrow> string \<Rightarrow> string \<Rightarrow> string \<Rightarrow> (nat \<times> archive_config list) res" where
  "ArchiveListView_get w u filter_instance_id state limit offset search =
     (if \<not> (u_is_superuser u \<or> has_perm u ''sql.menu_archive'') then Inl PermissionDenied else
      let off = safe_int offset 0; lim = off + safe_int limit 0 in
      bindE (archive_scope w u) (\<lambda>scope.
        let rows = tbl_filter (\<lambda>x. scope x
              \<and> (case filter_instance_id of None \<Rightarrow> True | Some i \<Rightarrow> ac_src_instance x = i)
              \<and> (if state = ''true'' then ac_state x else if state = ''false'' then \<not> ac_state x else True)
              \<and> (search = [] \<or> icontains (ac_title x) search \<or> icontains (ac_user_display x) search)) (w_archives w)
        in bindE (rows_between off lim (rev rows)) (\<lambda>xs. Inr (length rows, xs))))"

text \<open>\<open>ArchiveApplyView.post\<close>; an absent field is the empty text.\<close>

record archive_request =
  aq_title :: string
  aq_group_name :: string
  aq_src_instance_name :: string
  aq_src_db_name :: string
  aq_src_table_name :: string
  aq_mode :: string
  aq_dest_instance_name :: string
  aq_dest_db_name :: string
  aq_dest_table_name :: string
  aq_condition :: string
  aq_no_delete :: bool
  aq_sleep :: int

definition incomplete :: "archive_request \<Rightarrow> string option" where
  "incomplete q =
     (if [] \<in> set [aq_title q, aq_group_name q, aq_src_instance_name q, aq_src_db_name q,
                   aq_src_table_name q, aq_mode q, aq_condition q] then Some ''please fill in every field''
      else if aq_mode q = ''dest'' \<and> [] \<in> set [aq_dest_instance_name q, aq_dest_db_name q, aq_dest_table_name q]
        then Some ''the target instance is required''
      else None)"

definition mysql_instance :: "world \<Rightarrow> user \<Rightarrow> string \<Rightarrow> instance_row res" where
  "mysql_instance w u name = list_get ''Instance'' (\<lambda>i. i_instance_name i = name)
     (user_instances w u '''' [''mysql''] [])"

definition requested_archive ::
  "archive_request \<Rightarrow> user \<Rightarrow> resource_group \<Rightarrow> instance_row \<Rightarrow> instance_row option \<Rightarrow> archive_config" where
  "requested_archive q u rg s_ins d_ins = new_ArchiveConfig\<lparr>ac_title := aq_title q,
     ac_resource_group := rg_group_id rg, ac_src_instance := i_id s_ins, ac_src_db_name := aq_src_db_name q,
     ac_src_table_name := aq_src_table_name q, ac_dest_instance := map_option i_id d_ins,
     ac_dest_db_name := aq_dest_db_name q, ac_dest_table_name := aq_dest_table_name q,
     ac_condition := aq_condition q, ac_mode := aq_mode q, ac_no_delete := aq_no_delete q,
     ac_sleep := aq_sleep q, ac_status := WAITING, ac_state := False,
     ac_user_name := u_username u, ac_user_display := u_display u\<rparr>"

text \<open>The status of an order follows its record; only a passed one is switched on.\<close>

fun settle_archive :: "workflow_audit \<Rightarrow> workflow \<Rightarrow> workflow" where
  "settle_archive a (WArchive x) = WArchive (x\<lparr>ac_status := wa_current_status a,
     ac_state := (if wa_current_status a = PASSED then True else ac_state x)\<rparr>)"
| "settle_archive a wo = wo"

definition submit_archive ::
  "(string \<Rightarrow> re res) \<Rightarrow> archive_config \<Rightarrow> resource_group \<Rightarrow> (world, (workflow_audit \<times> int) option) M" where
  "submit_archive compile_re x rg = atomicM (
     bindM (liftM (\<lambda>w. AuditV2 w (Some (WArchive x)) None (rg_group_name rg) (rg_group_id rg))) (\<lambda>au.
     bindM (catchM (bindM (create_audit compile_re au) (\<lambda>(m, au'). ret (Some au')))
              (\<lambda>e. if is_AuditException e then Some (ret None) else None)) (\<lambda>r. case r of
         None \<Rightarrow> ret None
       | Some au' \<Rightarrow>
           bindM (liftM (\<lambda>w. record_of au')) (\<lambda>a.
           bindM (workflow_save (settle_archive a (au_workflow au'))) (\<lambda>wo.
           thenM (async_task (notify_for_audit (wa_audit_id a) (''archive-apply-'' @ str_int (workflow_pk wo))))
             (ret (Some (a, workflow_pk wo))))))))"

definition ArchiveApplyView_post ::
  "(string \<Rightarrow> re res) \<Rightarrow> user \<Rightarrow> archive_request \<Rightarrow> (world, (string + workflow_audit \<times> int)) M" where
  "ArchiveApplyView_post compile_re u q =
     thenM (raise_if (\<not> (u_is_superuser u \<or> has_perm u ''sql.archive_apply'')) PermissionDenied)
     (case incomplete q of
        Some m \<Rightarrow> ret (Inl m)
      | None \<Rightarrow>
          bindM (getsM (\<lambda>w. mysql_instance w u (aq_src_instance_name q))) (\<lambda>s.
          bindM (getsM (\<lambda>w. if aq_mode q = ''dest'' then map_sum id Some (mysql_instance w u (aq_dest_instance_name q))
                            else Inr None)) (\<lambda>d.
          case (s, d) of
            (Inl e, _) \<Rightarrow> if is_DoesNotExist e then ret (Inl ''your groups do not include this instance'') else throw e
          | (_, Inl e) \<Rightarrow> if is_DoesNotExist e then ret (Inl ''your groups do not include this instance'') else throw e
          | (Inr s_ins, Inr d_ins) \<Rightarrow>
              bindM (liftM (\<lambda>w. tbl_get ''ResourceGroup'' (\<lambda>g. rg_group_name g = aq_group_name q)
                       (w_resource_groups w))) (\<lambda>rg.
              bindM (submit_archive compile_re (requested_archive q u rg s_ins d_ins) rg) (\<lambda>r.
                ret (case r of None \<Rightarrow> Inl ''no review chain could be created'' | Some x \<Rightarrow> Inr x))))))"

text \<open>Access to one order's logs and runs: superusers, or members of its resource group.\<close>

definition archive_refusal :: "world \<Rightarrow> user \<Rightarrow> int \<Rightarrow> string \<Rightarrow> string option res" where
  "archive_refusal w u i denied =
     (if u_is_superuser u then Inr None
      else (case tbl_first (\<lambda>x. ac_id x = i) (w_archives w) of
          None \<Rightarrow> Inr (Some ''no such archive order'')
        | Some x \<Rightarrow> bindE (user_groups w u) (\<lambda>gs.
            Inr (if ac_resource_group x \<notin> set (map rg_group_id gs) then Some denied else None))))"

definition ArchiveLogView_get ::
  "world \<Rightarrow> user \<Rightarrow> int \<Rightarrow> string \<Rightarrow> string \<Rightarrow> (string + nat \<times> archive_log list) res" where
  "ArchiveLogView_get w u i limit offset =
     (if \<not> (u_is_superuser u \<or> has_perm u ''sql.menu_archive'') then Inl PermissionDenied else
      let off = safe_int offset 0; lim = off + safe_int limit 0 in
      bindE (archive_refusal w u i ''you may not read these logs'') (\<lambda>r. case r of
          Some m \<Rightarrow> Inr (Inl m)
        | None \<Rightarrow>
            (let rows = tbl_filter (\<lambda>l. al_archive l = i) (w_archive_logs w) in
             bindE (rows_between off lim (rev rows)) (\<lambda>xs. Inr (Inr (length rows, xs))))))"

definition ArchiveSwitchView_post :: "user \<Rightarrow> int \<Rightarrow> string \<Rightarrow> (world, int \<times> string) M" where
  "ArchiveSwitchView_post u i state =
     thenM (raise_if (\<not> (u_is_superuser u \<or> has_perm u ''sql.archive_mgt'')) PermissionDenied)
     (catchM (thenM (save_ac_fields i (\<lambda>x. x\<lparr>ac_state := (state = ''true'')\<rparr>)) (ret (0, ''ok'')))
        (\<lambda>e. Some (ret (1, exn_str e))))"

definition ArchiveOnceView_get :: "user \<Rightarrow> int \<Rightarrow> (world, int \<times> string) M" where
  "ArchiveOnceView_get u i =
     thenM (raise_if (\<not> (u_is_superuser u \<or> has_perm u ''sql.archive_mgt'')) PermissionDenied)
     (bindM (liftM (\<lambda>w. archive_refusal w u i ''you may not run this archive order'')) (\<lambda>r. case r of
         Some m \<Rightarrow> ret (1, m)
       | None \<Rightarrow> thenM (async_task (archive_job i)) (ret (0, ''ok''))))"

end
