(* ===== verification/ApprovalProps.thy ===== *)
theory ApprovalProps
  imports ApprovalChain
begin

text \<open>
  Properties of the approval engine: how a chain of approvals runs, who may take part in it, what
  an operation writes, what a submission decides, and what the page of a work order shows.
\<close>

section \<open>Lemmas on automatic review and on the shown chain\<close>




text \<open>The node of a group in the shown chain.\<close>

definition group_node :: "auth_group \<Rightarrow> bool \<Rightarrow> bool \<Rightarrow> review_node" where
  "group_node g cur passed =
     \<lparr>rn_group = Some g, rn_node_type = NODE_GROUP, rn_is_current_node = cur, rn_is_passed_node = passed\<rparr>"

lemma review_node_group:
  assumes "wa_current_status a = WAITING" and "group_by_id w i = Inr g"
  shows "review_node_of w a cur (str_int i) met =
    Inr (group_node g (cur = i) (cur \<noteq> i \<and> \<not> met), met \<or> cur = i)"
  using assms by (simp add: review_node_of_def ReviewNode_def group_node_def parse_int_str_int)

lemma review_nodes_other:
  assumes "wa_current_status a = WAITING" and "\<forall>i \<in> set ids. group_by_id w i = Inr (grp i)" and "cur \<notin> set ids"
  shows "review_nodes w a cur met (map str_int ids) = Inr (map (\<lambda>i. group_node (grp i) False (\<not> met)) ids)"
  using assms(2,3) by (induction ids) (auto simp: review_node_group [OF assms(1)])

lemma review_nodes_chain:
  assumes "wa_current_status a = WAITING" and "\<forall>i \<in> set ids. group_by_id w i = Inr (grp i)"
    and "distinct ids" and "k < length ids"
  shows "review_nodes w a (ids ! k) False (map str_int ids) =
    Inr (map (\<lambda>j. group_node (grp (ids ! j)) (j = k) (j < k)) [0..<length ids])"
  using assms(2,3,4)
proof (induction ids arbitrary: k)
  case Nil
  then show ?case by simp
next
  case (Cons i ids)
  have up: "map f [0..<length (i # ids)] = f 0 # map (\<lambda>j. f (Suc j)) [0..<length ids]" for f :: "nat \<Rightarrow> review_node"
    by (simp add: upt_conv_Cons map_Suc_upt [symmetric] del: upt_Suc)
  show ?case
  proof (cases k)
    case 0
    have n: "map (\<lambda>j. group_node (grp (ids ! j)) False False) [0..<length ids]
             = map (\<lambda>i. group_node (grp i) False False) ids"
      by (rule nth_equalityI) simp_all
    have "review_nodes w a i True (map str_int ids) = Inr (map (\<lambda>i. group_node (grp i) False False) ids)"
      using review_nodes_other [OF assms(1), where ids = ids and grp = grp and cur = i and met = True] Cons.prems by simp
    with 0 Cons.prems n show ?thesis
      by (simp only: up) (simp add: review_node_group [OF assms(1)])
  next
    case (Suc k')
    then have ne: "ids ! k' \<noteq> i" using Cons.prems by auto
    have "review_nodes w a (ids ! k') False (map str_int ids) =
      Inr (map (\<lambda>j. group_node (grp (ids ! j)) (j = k') (j < k')) [0..<length ids])"
      using Cons.IH [of k'] Cons.prems Suc by simp
    with Suc ne Cons.prems show ?thesis
      by (simp only: up) (simp add: review_node_group [OF assms(1)])
  qed
qed

section \<open>A small organisation\<close>

text \<open>One resource group, two review groups, an administrator, two reviewers and a developer.\<close>

definition demo_user :: "int \<Rightarrow> string \<Rightarrow> bool \<Rightarrow> int list \<Rightarrow> user" where
  "demo_user i n super groups = new_Users\<lparr>u_id := i, u_username := n, u_resource_group := [5],
     u_is_superuser := super, u_groups := groups, has_perm := (\<lambda>p. p = ''sql.sql_review'')\<rparr>"

definition demo_admin :: user where
  "demo_admin = demo_user 1 ''admin'' True []"

definition demo_lead :: user where
  "demo_lead = demo_user 2 ''lead'' False [10]"

definition demo_dba :: user where
  "demo_dba = demo_user 3 ''dba'' False [11]"

definition demo_dev :: user where
  "demo_dev = demo_user 4 ''dev'' False []"

definition demo_groups :: "auth_group table" where
  "demo_groups = \<lparr>tbl_rows = [\<lparr>g_id = 10, g_name = ''leads''\<rparr>, \<lparr>g_id = 11, g_name = ''dbas''\<rparr>], tbl_next = 12\<rparr>"

definition demo_workflow :: sql_workflow where
  "demo_workflow = new_SqlWorkflow\<lparr>sw_id := 1, sw_workflow_name := ''add column'', sw_group_id := 5,
     sw_group_name := ''team'', sw_instance := 7, sw_engineer := ''dev'', sw_engineer_display := ''Dev''\<rparr>"

definition demo_audit :: "string \<Rightarrow> string \<Rightarrow> string \<Rightarrow> workflow_audit" where
  "demo_audit groups cur nxt = new_WorkflowAudit\<lparr>wa_audit_id := 1, wa_group_id := 5, wa_group_name := ''team'',
     wa_workflow_id := 1, wa_workflow_type := SQL_REVIEW, wa_audit_auth_groups := groups,
     wa_current_audit := cur, wa_next_audit := nxt, wa_create_user := ''dev''\<rparr>"

definition demo_world :: "workflow_audit list \<Rightarrow> world" where
  "demo_world audits = empty_world\<lparr>w_now := 1000, w_groups := demo_groups,
     w_resource_groups := \<lparr>tbl_rows = [new_ResourceGroup\<lparr>rg_group_id := 5, rg_group_name := ''team''\<rparr>], tbl_next = 6\<rparr>,
     w_users := \<lparr>tbl_rows = [demo_admin, demo_lead, demo_dba, demo_dev], tbl_next = 5\<rparr>,
     w_instances := \<lparr>tbl_rows = [new_Instance\<lparr>i_id := 7, i_db_type := ''mysql'', i_resource_group := [5]\<rparr>], tbl_next = 8\<rparr>,
     w_workflows := \<lparr>tbl_rows = [demo_workflow], tbl_next = 2\<rparr>,
     w_contents := \<lparr>tbl_rows = [\<lparr>swc_id = 1, swc_workflow = 1, swc_sql_content = ''alter table t add c int'',
        swc_review_content = RowsText [new_ReviewResult\<lparr>rr_sql := ''alter table t add c int''\<rparr>],
        swc_execute_result = NoText\<rparr>], tbl_next = 2\<rparr>,
     w_settings := \<lparr>tbl_rows = [\<lparr>was_audit_setting_id = 1, was_group_id = 5, was_group_name = ''team'',
        was_workflow_type = SQL_REVIEW, was_audit_auth_groups = ''10,11'', was_create_time = 0, was_sys_time = 0\<rparr>],
        tbl_next = 2\<rparr>,
     w_audits := \<lparr>tbl_rows = audits, tbl_next = 2\<rparr>\<rparr>"

definition demo_auditor :: "workflow_audit option \<Rightarrow> auditor" where
  "demo_auditor a = \<lparr>au_workflow = WSql demo_workflow, au_audit = a, au_workflow_type = SQL_REVIEW,
     au_resource_group = ''team'', au_resource_group_id = 5\<rparr>"

abbreviation demo_waiting :: workflow_audit where
  "demo_waiting \<equiv> demo_audit ''10,11'' ''10'' ''11''"

lemma demo_chain: "chain_at (demo_world [demo_waiting]) 1 [10, 11] 0 demo_waiting (demo_auditor (Some demo_waiting))"
  by code_simp

lemma demo_super [simp]: "u_is_superuser demo_admin" "\<not> u_is_superuser demo_lead"
  by (simp_all add: demo_admin_def demo_lead_def demo_user_def)


section \<open>Properties\<close>



text \<open>C5. Nobody passes a node without its authority: if a run of approvals on a chain of distinct groups
  succeeds, there were at most as many as the chain has groups, the record is PASSED exactly when
  every group had its approval, and the \<open>j\<close>-th approver is a superuser, or a member of the \<open>j\<close>-th
  group with the review permission who does not review his own work order while that is banned.\<close>

theorem approval_needs_every_group:
  assumes "chain_at w i ids 0 a au" and "distinct ids" and "-1 \<notin> set ids"
    and "pass_requests i urs w = (Inr (), w')"
  shows "length urs \<le> length ids
    \<and> record_is w' i (\<lambda>b. (wa_current_status b = PASSED) = (length urs = length ids))
    \<and> (\<forall>j < length urs. authorised w a au (ids ! j) (fst (urs ! j)))"
  using chain_run_authority [OF assms]
  by (auto simp: record_is_def progress_def split: sum.splits if_splits)

theorem approval_needs_every_group_witness:
  "authorised (demo_world [demo_waiting]) demo_waiting (demo_auditor (Some demo_waiting)) 11 demo_dba"
proof -
  let ?w = "demo_world [demo_waiting]"
  let ?urs = "[(demo_lead, ''ok''), (demo_dba, ''ok'')]"
  have "fst (pass_requests 1 ?urs ?w) = Inr ()" by code_simp
  then obtain w' where "pass_requests 1 ?urs ?w = (Inr (), w')" by (metis prod.collapse)
  from approval_needs_every_group [OF demo_chain _ _ this]
  have "\<forall>j < 2. authorised ?w demo_waiting (demo_auditor (Some demo_waiting)) ([10, 11] ! j) (fst (?urs ! j))"
    by simp
  then show ?thesis by (auto dest: spec [of _ 1])
qed

text \<open>C6. A chain whose last group also occurs earlier never completes: from a node that is not the last
  position, whatever approvals are attempted, by whomever and however many, the record is still
  waiting (\<open>list.index\<close> finds the first occurrence, so the chain goes round).\<close>

theorem repeated_group_never_passes:
  assumes "stuck_at i gs w" and "last gs \<in> set (butlast gs)" and "''-1'' \<notin> set gs"
  shows "record_is (snd (pass_requests i urs w)) i (\<lambda>a. wa_current_status a = WAITING)"
proof -
  have "keeps (stuck_at i gs) (pass_requests i urs)"
    unfolding pass_requests_def by (intro keeps_forM pass_request_stuck assms(2,3))
  then have "stuck_at i gs (snd (pass_requests i urs w))" using assms(1) by (rule keepsD)
  then show ?thesis by (auto simp: stuck_at_def record_is_def split: sum.splits)
qed

theorem repeated_group_never_passes_witness:
  "record_is (snd (pass_requests 1 (replicate 50 (demo_admin, ''ok''))
       (demo_world [demo_audit ''10,11,10'' ''10'' ''11'']))) 1 (\<lambda>a. wa_current_status a = WAITING)"
  by (rule repeated_group_never_passes [where gs = "[''10'', ''11'', ''10'']"]) code_simp+

text \<open>A record that was rejected or withdrawn is closed: every operation on it, by anyone, raises an
  \<open>AuditException\<close> and changes nothing.\<close>

theorem closed_record_refuses_all:
  assumes "au_audit au = Some a" and "wa_current_status a \<in> {REJECTED, ABORTED}"
  shows "\<exists>m. operate action actor remark au w = (Inl (AuditException m), w)"
  using assms by (auto simp: operate_def thenM_run can_operate_def Let_def)

theorem closed_record_refuses_all_witness:
  "\<exists>m. operate PASS demo_admin ''ok'' (demo_auditor (Some (demo_waiting\<lparr>wa_current_status := REJECTED\<rparr>)))
     (demo_world []) = (Inl (AuditException m), demo_world [])"
  by (rule closed_record_refuses_all [where a = "demo_waiting\<lparr>wa_current_status := REJECTED\<rparr>"])
    (simp_all add: demo_auditor_def)

text \<open>Who may pass or reject a node, in full: the status allows the action, and the user is a superuser,
  or he has the review permission of the kind of work order, is a member of the group of the
  current node, does not review his own work order while that is banned, and some active user of
  that group belongs to the resource group of the work order. (The code does not ask that the
  acting user himself belongs to the resource group.)\<close>

theorem can_operate_review_iff:
  assumes "action \<in> {PASS, REJECT}"
  shows "can_operate w action u a au = Inr () \<longleftrightarrow>
    action \<in> set (SUPPORTED_OPERATION_GRID (wa_current_status a)) \<and>
    (u_is_superuser u \<or>
      has_perm u (need_user_permission (au_workflow_type au))
      \<and> \<not> (u_username u = wa_create_user a \<and> truthy (config_get w ''ban_self_audit'' PNone))
      \<and> (\<exists>i g us. py_int (wa_current_audit a) = Inr i \<and> group_by_id w i = Inr g
           \<and> auth_group_users w [g_name g] (au_resource_group_id au) = Inr us \<and> us \<noteq> []
           \<and> i \<in> set (u_groups u)))"
proof -
  have "can_operate w action u a au = Inr () \<longleftrightarrow>
    action \<in> set (SUPPORTED_OPERATION_GRID (wa_current_status a)) \<and> can_review_node w u a au = Inr ()"
    using assms by (auto simp: can_operate_def Let_def)
  also have "can_review_node w u a au = Inr () \<longleftrightarrow> (u_is_superuser u \<or>
      has_perm u (need_user_permission (au_workflow_type au))
      \<and> \<not> (u_username u = wa_create_user a \<and> truthy (config_get w ''ban_self_audit'' PNone))
      \<and> (\<exists>i g us. py_int (wa_current_audit a) = Inr i \<and> group_by_id w i = Inr g
           \<and> auth_group_users w [g_name g] (au_resource_group_id au) = Inr us \<and> us \<noteq> []
           \<and> i \<in> set (u_groups u)))"
    by (cases "py_int (wa_current_audit a)"; cases "auth_group_users w [g_name g] (au_resource_group_id au)")
      (auto simp: can_review_node_def Group_get_def elim!: bindE_InrE split: if_splits sum.splits)
  finally show ?thesis .
qed

theorem can_operate_review_iff_witness:
  "can_operate (demo_world [demo_waiting]) PASS (demo_lead\<lparr>u_resource_group := []\<rparr>) demo_waiting
     (demo_auditor (Some demo_waiting)) = Inr ()
   \<and> (\<exists>i. py_int (wa_current_audit demo_waiting) = Inr i \<and> i \<in> set (u_groups (demo_lead\<lparr>u_resource_group := []\<rparr>)))"
proof -
  let ?lead = "demo_lead\<lparr>u_resource_group := []\<rparr>"
  have c: "can_operate (demo_world [demo_waiting]) PASS ?lead demo_waiting (demo_auditor (Some demo_waiting)) = Inr ()"
    by code_simp
  moreover have "\<not> u_is_superuser ?lead" by simp
  ultimately show ?thesis
    using can_operate_review_iff [of PASS "demo_world [demo_waiting]" ?lead demo_waiting "demo_auditor (Some demo_waiting)"]
    by auto
qed

text \<open>An approval, rejection or withdrawal that succeeds writes exactly this: the record, one detail
  line with the new status under the actor's name, one log line of the record; every other row and
  table is as before.\<close>

theorem operate_frame:
  assumes "operate action actor remark au w = (Inr (Some d, au'), w')"
    and "au_audit au = Some a" and "wa_audit_id a \<noteq> 0"
  shows "\<exists>b st. au' = au\<lparr>au_audit := Some b\<rparr> \<and> wa_audit_id b = wa_audit_id a
    \<and> st = (if action = PASS then PASSED else if action = REJECT then REJECTED else ABORTED)
    \<and> (wa_current_status b = st \<or> action = PASS \<and> wa_current_status b = WAITING)
    \<and> operated b st actor remark w w'"
proof -
  consider "action = PASS" | "action = REJECT" | "action = ABORT"
    using assms(1,2) by (auto simp: operate_def thenM_run split: sum.splits if_splits)
  then show ?thesis
  proof cases
    case 1
    with operate_PASS_Inr [of actor remark au w "Some d" au' w' a] assms obtain b where
      b: "next_node a = Inr b" "au' = au\<lparr>au_audit := Some (b\<lparr>wa_sys_time := w_now w\<rparr>)\<rparr>"
      "operated (b\<lparr>wa_sys_time := w_now w\<rparr>) PASSED actor remark w w'" by blast
    with 1 next_node_Inr(2,8) [OF b(1)] show ?thesis
      by (intro exI [of _ "b\<lparr>wa_sys_time := w_now w\<rparr>"] exI [of _ PASSED]) simp
  next
    case 2
    with assms operate_reject_run [OF assms(3), of actor remark w] show ?thesis
      by (auto simp: operate_def thenM_run bindM_run split: sum.splits)
  next
    case 3
    with assms operate_abort_run [OF assms(3), of actor remark w] show ?thesis
      by (auto simp: operate_def thenM_run bindM_run split: sum.splits)
  qed
qed

theorem operate_frame_witness:
  "\<exists>d au' w'. operate REJECT demo_admin ''no'' (demo_auditor (Some demo_waiting)) (demo_world [demo_waiting])
       = (Inr (Some d, au'), w') \<and> (\<exists>b. operated b REJECTED demo_admin ''no'' (demo_world [demo_waiting]) w')"
proof -
  let ?run = "operate REJECT demo_admin ''no'' (demo_auditor (Some demo_waiting)) (demo_world [demo_waiting])"
  have i: "wa_audit_id demo_waiting \<noteq> 0" by (simp add: demo_audit_def new_WorkflowAudit_def)
  have "can_operate (demo_world [demo_waiting]) REJECT demo_admin demo_waiting (demo_auditor (Some demo_waiting)) = Inr ()"
    by code_simp
  then obtain d au' w' where run: "?run = (Inr (Some d, au'), w')"
    using operate_reject_run [OF i, of demo_admin "''no''" "demo_world [demo_waiting]"]
    by (auto simp: operate_def thenM_run bindM_run demo_auditor_def split: sum.splits)
  with operate_frame [OF run _ i] show ?thesis by (auto simp: demo_auditor_def)
qed


definition demo_compile :: "string \<Rightarrow> re res" where
  "demo_compile s = Inr (alts (map (\<lambda>p. Seq Bos (lit_ci (tl p))) (split_on (CHR ''|'') s)))"



text \<open>What a submission stores: when \<open>create_audit\<close> succeeds there was no record of the work order; exactly one
  record is added, REJECTED if the review result asks for rejection, otherwise PASSED if the order
  passes automatically, otherwise WAITING at the first group of the configured chain with its
  second group next; and exactly one log line is added, of that record.\<close>

theorem create_audit_outcome:
  assumes "create_audit compile_re au w = (Inr (msg, au'), w')" and "au_audit au = None"
    and "au_workflow_type au = workflow_type_of (au_workflow au)"
  shows "\<exists>s a l. get_audit w (au_workflow au) = Inr None \<and> generate_audit_setting compile_re w au = Inr s
    \<and> au_audit au' = Some a
    \<and> tbl_rows (w_audits w') = tbl_rows (w_audits w) @ [a]
    \<and> tbl_rows (w_logs w') = tbl_rows (w_logs w) @ [l] \<and> wl_audit_id l = wa_audit_id a
    \<and> wa_current_status a = (if as_auto_reject s then REJECTED else if as_auto_pass s then PASSED else WAITING)
    \<and> (wa_current_status a = WAITING \<longrightarrow> at_node (as_audit_auth_groups s) 0 a)"
proof -
  from create_audit_Inr [OF assms(1)] obtain s wo w1 a w2 l where
    none: "au_audit au = None \<Longrightarrow> get_audit w (au_workflow au) = Inr None"
    and s: "generate_audit_setting compile_re w au = Inr s"
    and ws: "workflow_save (set_audit_auth_groups (audit_auth_group_in_db s) (au_workflow au)) w = (Inr wo, w1)"
    and a: "audit_save (decided s (fresh_audit au wo (audit_auth_group_in_db s))) w1 = (Inr a, w2)"
    and w': "w' = w2\<lparr>w_logs := tbl_create set_wl_id l (w_logs w2)\<rparr>" and l: "wl_audit_id l = wa_audit_id a"
    and au': "au' = au\<lparr>au_workflow := wo, au_audit := Some a\<rparr>" by metis
  let ?d = "decided s (fresh_audit au wo (audit_auth_group_in_db s))"
  have w1: "w_audits w1 = w_audits w" "w_logs w1 = w_logs w" using ws workflow_save_run by (metis Pair_inject)+
  from a have a': "a = set_wa_id (tbl_next (w_audits w1)) (?d\<lparr>wa_create_time := w_now w1, wa_sys_time := w_now w1\<rparr>)"
    and w2: "w2 = w1\<lparr>w_audits := tbl_create set_wa_id (?d\<lparr>wa_create_time := w_now w1, wa_sys_time := w_now w1\<rparr>) (w_audits w1)\<rparr>"
    by (auto simp: audit_save_def Let_def tbl_created_def split: if_splits)
  note st = decided_status(2,3) [OF s refl, of wo]
  have "wa_current_status a = (if as_auto_reject s then REJECTED else if as_auto_pass s then PASSED else WAITING)"
    using st(1) a' by simp
  moreover have "wa_current_status a = WAITING \<longrightarrow> at_node (as_audit_auth_groups s) 0 a"
    using st a' by (auto simp: at_node_def split: if_splits)
  moreover have "tbl_rows (w_audits w') = tbl_rows (w_audits w) @ [a]"
    using w' w2 a' w1 by (simp add: tbl_simps)
  moreover have "tbl_rows (w_logs w') = tbl_rows (w_logs w) @ [set_wl_id (tbl_next (w_logs w)) l]"
    using w' w2 w1 by (simp add: tbl_simps)
  ultimately show ?thesis
    using none [OF assms(2)] s l au'
    by (intro exI [of _ s] exI [of _ a] exI [of _ "set_wl_id (tbl_next (w_logs w)) l"]) simp
qed

theorem create_audit_outcome_witness:
  "\<exists>msg au' w' a. create_audit demo_compile (demo_auditor None) (demo_world []) = (Inr (msg, au'), w')
     \<and> au_audit au' = Some a \<and> tbl_rows (w_audits w') = [a]"
proof -
  let ?run = "create_audit demo_compile (demo_auditor None) (demo_world [])"
  have "(case ?run of (Inr x, w') \<Rightarrow> True | _ \<Rightarrow> False)" by code_simp
  then obtain msg au' w' where run: "?run = (Inr (msg, au'), w')" by (auto split: prod.splits sum.splits)
  from create_audit_outcome [OF run] show ?thesis
    using run by (auto simp: demo_auditor_def demo_world_def)
qed

text \<open>What the page of a waiting work order shows: one node for each group of the chain, in its order; the
  node of the current group and only it is marked current, exactly the nodes before it are marked
  passed.\<close>

theorem review_info_of_waiting_chain:
  assumes "chain_at w i ids k a au" and "distinct ids" and "\<forall>j \<in> set ids. group_by_id w j = Inr (grp j)"
  shows "get_review_info w au = Inr \<lparr>ri_nodes =
      map (\<lambda>j. group_node (grp (ids ! j)) (j = k) (j < k)) [0..<length ids], ri_current_node_index = None\<rparr>"
proof -
  from assms(1) have "wa_current_status a = WAITING" "au_audit au = Some a" "k < length ids"
    "wa_current_audit a = str_int (ids ! k)" "split_comma (wa_audit_auth_groups a) = map str_int ids"
    by (auto simp: chain_at_def at_node_def dest: get_auditor_audit)
  with review_nodes_chain [OF _ assms(3,2)] show ?thesis by (simp add: get_review_info_def)
qed

theorem review_info_of_waiting_chain_witness:
  "get_review_info (demo_world [demo_waiting]) (demo_auditor (Some demo_waiting)) = Inr \<lparr>ri_nodes =
     [group_node \<lparr>g_id = 10, g_name = ''leads''\<rparr> True False, group_node \<lparr>g_id = 11, g_name = ''dbas''\<rparr> False False],
     ri_current_node_index = None\<rparr>"
proof -
  have u: "[0..<2] = [0, 1::nat]" by code_simp
  have "\<forall>j \<in> set [10, 11]. group_by_id (demo_world [demo_waiting]) j
      = Inr (if j = 10 then \<lparr>g_id = 10, g_name = ''leads''\<rparr> else \<lparr>g_id = 11, g_name = ''dbas''\<rparr>)"
    by code_simp
  from review_info_of_waiting_chain [OF demo_chain _ this] show ?thesis
    by (simp add: numeral_2_eq_2)
qed

text \<open>The reviewers shown for a work order are exactly the active users who are members of a group of
  a current node and of a live resource group of the given name.\<close>

theorem current_reviewers_iff:
  "set (get_current_reviewers w nodes rg_name) = {(u_username u, Users_str u) | u.
     u \<in> set (tbl_rows (w_users w)) \<and> u_is_active u
     \<and> (\<exists>n \<in> set nodes. rn_is_current_node n \<and> (\<exists>g. rn_group n = Some g \<and> g_id g \<in> set (u_groups u)))
     \<and> (\<exists>g \<in> set (tbl_rows (w_resource_groups w)). rg_group_id g \<in> set (u_resource_group u)
          \<and> rg_is_deleted g = 0 \<and> rg_group_name g = rg_name)}"
proof -
  have ids: "i \<in> set (map (\<lambda>n. g_id (the (rn_group n))) (filter (\<lambda>n. rn_is_current_node n \<and> rn_group n \<noteq> None) nodes))
      \<longleftrightarrow> (\<exists>n \<in> set nodes. rn_is_current_node n \<and> (\<exists>g. rn_group n = Some g \<and> g_id g = i))" for i
    by (auto simp: image_iff)
  let ?ids = "map (\<lambda>n. g_id (the (rn_group n))) (filter (\<lambda>n. rn_is_current_node n \<and> rn_group n \<noteq> None) nodes)"
  have "set (get_current_reviewers w nodes rg_name) = (\<lambda>u. (u_username u, Users_str u)) `
     {u \<in> set (tbl_rows (w_users w)). (\<exists>i \<in> set (u_groups u). i \<in> set ?ids) \<and> u_is_active u
       \<and> (\<exists>g \<in> set (tbl_rows (w_resource_groups w)). rg_group_id g \<in> set (u_resource_group u)
          \<and> rg_is_deleted g = 0 \<and> rg_group_name g = rg_name)}"
  proof (cases "?ids = []")
    case True
    then have "set ?ids = {}" by simp
    with True show ?thesis by (simp only: get_current_reviewers_def Let_def if_True simp_thms) simp
  next
    case False
    then show ?thesis
      by (auto simp add: get_current_reviewers_def Let_def tbl_filter_def tbl_exists_def list_ex_iff)
  qed
  then show ?thesis unfolding ids by (simp only: image_def) blast
qed

end
