(* ===== verification/QueryPrivProps.thy ===== *)
theory QueryPrivProps
  imports QueryPrivileges ApprovalProps
begin

text \<open>
  Properties of the query privileges: the in-memory matching against the older lookups, the limit a
  granted check returns, the refusal of every ordinary user by the present check, and the effect,
  repetition and authority of grants.
\<close>

section \<open>Lemmas on the checks\<close>

lemma find_filter: "find P (filter Q xs) = find (\<lambda>x. Q x \<and> P x) xs"
  by (induction xs) auto

lemma least_limit_bound:
  assumes "least_limit a b = Inr n"
  shows "n \<noteq> 0 \<and> (has_limit a \<longrightarrow> n \<le> the a) \<and> (has_limit b \<longrightarrow> n \<le> the b) \<and> (Some n = a \<or> Some n = b)"
  using assms by (auto simp: least_limit_def has_limit_def min_def split: if_splits option.splits)

text \<open>The limit the rows give on one table.\<close>

definition table_limit :: "world \<Rightarrow> query_privileges list \<Rightarrow> user \<Rightarrow> string \<times> string \<Rightarrow> int res" where
  "table_limit w rows u t =
     bindE (match_db_priv w rows u (fst t)) (\<lambda>a. bindE (match_tb_priv w rows u (fst t) (snd t)) (\<lambda>b. least_limit a b))"

lemma check_tables_Cons:
  "check_tables w rows u (t # ts) limit_num =
     (case table_limit w rows u t of
        Inr pl \<Rightarrow> check_tables w rows u ts (cap_limit pl limit_num)
      | Inl e \<Rightarrow> if \<exists>a b. match_db_priv w rows u (fst t) = Inr a \<and> match_tb_priv w rows u (fst t) (snd t) = Inr b
                then Inr (priv_fail 2 (''no privilege on '' @ fst t @ ''.'' @ snd t)) else Inl e)"
  by (cases t; cases "match_db_priv w rows u (fst t)"; cases "match_tb_priv w rows u (fst t) (snd t)")
    (auto simp: table_limit_def least_limit_def)

lemma check_tables_granted:
  assumes "check_tables w rows u refs limit_num = Inr r" and "pr_status r = 0"
  shows "list_all (\<lambda>t. \<exists>pl. table_limit w rows u t = Inr pl \<and> pr_limit_num r \<le> pl) refs
    \<and> (limit_num \<noteq> 0 \<longrightarrow> pr_limit_num r \<le> limit_num)"
  using assms(1)
proof (induction refs arbitrary: limit_num)
  case Nil
  then show ?case by (auto simp: priv_ok_def)
next
  case (Cons t ts)
  from Cons.prems assms(2) obtain pl where pl: "table_limit w rows u t = Inr pl"
    and rest: "check_tables w rows u ts (cap_limit pl limit_num) = Inr r"
    by (auto simp: check_tables_Cons priv_fail_def split: sum.splits if_splits)
  have "pl \<noteq> 0" using pl least_limit_bound by (auto simp: table_limit_def elim!: bindE_InrE)
  then have ne: "cap_limit pl limit_num \<noteq> 0" by (auto simp: cap_limit_def min_def)
  have "cap_limit pl limit_num \<le> pl" "limit_num \<noteq> 0 \<Longrightarrow> cap_limit pl limit_num \<le> limit_num"
    by (simp_all add: cap_limit_def)
  with Cons.IH [OF rest] ne pl show ?case by fastforce
qed


section \<open>Lemmas on grants\<close>

text \<open>The key of a privilege: a database privilege has one for its database, a table privilege one for its table.\<close>

definition gkey :: "query_privileges \<Rightarrow> string \<times> string \<times> int \<times> string \<times> int \<times> string" where
  "gkey p = (qp_user_name p, qp_user_display p, qp_instance p, qp_db_name p, qp_priv_type p,
     if qp_priv_type p = 2 then qp_table_name p else '''')"

lemma same_grant_gkey: "same_grant g p \<longleftrightarrow> gkey p = gkey g"
  by (auto simp: same_grant_def gkey_def)

text \<open>A privilege as the code writes it: there is exactly one row of the key, with these values.\<close>

definition has_grant :: "world \<Rightarrow> query_privileges \<Rightarrow> bool" where
  "has_grant w g = (case filter (\<lambda>p. gkey p = gkey g) (tbl_rows (w_privileges w)) of
       [p] \<Rightarrow> qp_table_name p = qp_table_name g \<and> qp_limit_num p = qp_limit_num g
              \<and> qp_valid_date p = qp_valid_date g \<and> qp_is_deleted p = 0 \<and> qp_sys_time p = w_now w
     | _ \<Rightarrow> False)"

definition regranted :: "datetime \<Rightarrow> query_privileges \<Rightarrow> query_privileges \<Rightarrow> query_privileges" where
  "regranted t g p = p\<lparr>qp_table_name := qp_table_name g, qp_limit_num := qp_limit_num g,
     qp_valid_date := qp_valid_date g, qp_is_deleted := 0, qp_sys_time := t\<rparr>"

lemma gkey_regranted: "gkey p = gkey g \<Longrightarrow> gkey (regranted t g p) = gkey g"
  by (auto simp: gkey_def regranted_def split: if_splits)

lemma grant_run:
  "grant g w = (case filter (\<lambda>p. gkey p = gkey g) (tbl_rows (w_privileges w)) of
      [] \<Rightarrow> (Inr (), w\<lparr>w_privileges := tbl_create set_qp_id
               (g\<lparr>qp_create_time := w_now w, qp_sys_time := w_now w\<rparr>) (w_privileges w)\<rparr>)
    | [r] \<Rightarrow> (Inr (), w\<lparr>w_privileges := tbl_update (\<lambda>p. gkey p = gkey g) (regranted (w_now w) g) (w_privileges w)\<rparr>)
    | _ \<Rightarrow> (Inl (MultipleObjectsReturned ''QueryPrivileges''), w))"
proof -
  have "same_grant g = (\<lambda>p. gkey p = gkey g)" by (intro ext) (rule same_grant_gkey)
  moreover have "(\<lambda>p. p\<lparr>qp_table_name := qp_table_name g, qp_limit_num := qp_limit_num g,
     qp_valid_date := qp_valid_date g, qp_is_deleted := 0, qp_sys_time := w_now w\<rparr>) = regranted (w_now w) g"
    by (intro ext) (simp add: regranted_def)
  ultimately show ?thesis
    by (auto simp: grant_def grant_one_def tbl_update_or_create_def split: list.split)
qed

lemma filter_map_key:
  "(\<And>p. P p \<Longrightarrow> P (f p)) \<Longrightarrow> filter P (map (\<lambda>p. if P p then f p else p) xs) = map f (filter P xs)"
  by (induction xs) auto

lemma filter_map_other:
  "(\<And>p. P p \<Longrightarrow> P (f p)) \<Longrightarrow> (\<And>p. Q p \<Longrightarrow> \<not> P p) \<Longrightarrow>
   filter Q (map (\<lambda>p. if P p then f p else p) xs) = filter Q xs"
  by (induction xs) auto

lemma grant_cases:
  assumes "grant g w = (Inr (), w')"
  obtains "filter (\<lambda>p. gkey p = gkey g) (tbl_rows (w_privileges w)) = []"
    "w' = w\<lparr>w_privileges := tbl_create set_qp_id
               (g\<lparr>qp_create_time := w_now w, qp_sys_time := w_now w\<rparr>) (w_privileges w)\<rparr>"
  | r where "filter (\<lambda>p. gkey p = gkey g) (tbl_rows (w_privileges w)) = [r]"
    "w' = w\<lparr>w_privileges := tbl_update (\<lambda>p. gkey p = gkey g) (regranted (w_now w) g) (w_privileges w)\<rparr>"
  using assms by (auto simp: grant_run split: list.splits)

lemma gkey_set [simp]: "gkey (set_qp_id i (p\<lparr>qp_create_time := a, qp_sys_time := b\<rparr>)) = gkey p"
  by (simp add: gkey_def)

lemma grant_frame:
  assumes "grant g w = (Inr (), w')" and "k \<noteq> gkey g"
  shows "filter (\<lambda>p. gkey p = k) (tbl_rows (w_privileges w')) = filter (\<lambda>p. gkey p = k) (tbl_rows (w_privileges w))"
  using assms(1)
proof (cases rule: grant_cases)
  case 1
  with assms(2) show ?thesis by (simp add: tbl_create_def)
next
  case (2 r)
  have "filter (\<lambda>p. gkey p = k) (map (\<lambda>p. if gkey p = gkey g then regranted (w_now w) g p else p) xs)
      = filter (\<lambda>p. gkey p = k) xs" for xs
    by (rule filter_map_other) (use assms(2) gkey_regranted in auto)
  with 2 show ?thesis by (simp add: tbl_simps)
qed

lemma has_grant_single:
  assumes "filter (\<lambda>p. gkey p = gkey g) (tbl_rows (w_privileges w)) = [p]"
    and "qp_table_name p = qp_table_name g" "qp_limit_num p = qp_limit_num g"
      "qp_valid_date p = qp_valid_date g" "qp_is_deleted p = 0" "qp_sys_time p = w_now w"
  shows "has_grant w g"
  using assms by (simp add: has_grant_def)

lemma grant_frame_world: "grant g w = (Inr (), w') \<Longrightarrow> \<exists>t. w' = w\<lparr>w_privileges := t\<rparr>"
  by (erule grant_cases) blast+

lemma grant_Inr:
  assumes "grant g w = (Inr (), w')" and "qp_is_deleted g = 0"
  shows "has_grant w' g"
  using assms(1)
proof (cases rule: grant_cases)
  case 1
  let ?n = "set_qp_id (tbl_next (w_privileges w)) (g\<lparr>qp_create_time := w_now w, qp_sys_time := w_now w\<rparr>)"
  have "tbl_rows (w_privileges w') = tbl_rows (w_privileges w) @ [?n]"
    by (simp add: 1(2) tbl_create_def)
  moreover have "gkey ?n = gkey g" by (rule gkey_set)
  ultimately have "filter (\<lambda>p. gkey p = gkey g) (tbl_rows (w_privileges w')) = [?n]"
    using 1(1) by simp
  then show ?thesis by (rule has_grant_single) (simp_all add: 1(2) assms(2))
next
  case (2 r)
  have "filter (\<lambda>p. gkey p = gkey g) (map (\<lambda>p. if gkey p = gkey g then regranted (w_now w) g p else p)
      (tbl_rows (w_privileges w))) = map (regranted (w_now w) g) [r]"
    unfolding 2(1) [symmetric] by (rule filter_map_key) (rule gkey_regranted)
  then have "filter (\<lambda>p. gkey p = gkey g) (tbl_rows (w_privileges w')) = [regranted (w_now w) g r]"
    using 2(2) by (simp add: tbl_simps)
  then show ?thesis by (rule has_grant_single) (use 2(2) in \<open>simp_all add: regranted_def\<close>)
qed

lemma has_grant_cong:
  "filter (\<lambda>p. gkey p = gkey g) (tbl_rows (w_privileges w')) = filter (\<lambda>p. gkey p = gkey g) (tbl_rows (w_privileges w))
   \<Longrightarrow> w_now w' = w_now w \<Longrightarrow> has_grant w' g = has_grant w g"
  unfolding has_grant_def by (simp split: list.split)

lemma grant_again:
  assumes "has_grant w g"
  shows "grant g w = (Inr (), w)"
proof -
  from assms obtain r where r: "filter (\<lambda>p. gkey p = gkey g) (tbl_rows (w_privileges w)) = [r]"
    and v: "qp_table_name r = qp_table_name g" "qp_limit_num r = qp_limit_num g"
      "qp_valid_date r = qp_valid_date g" "qp_is_deleted r = 0" "qp_sys_time r = w_now w"
    by (auto simp: has_grant_def split: list.splits)
  have one: "p = r" if "p \<in> set (tbl_rows (w_privileges w))" "gkey p = gkey g" for p
  proof -
    from that have "p \<in> set (filter (\<lambda>p. gkey p = gkey g) (tbl_rows (w_privileges w)))" by simp
    then show ?thesis by (simp add: r)
  qed
  have same: "regranted (w_now w) g r = r" using v by (simp add: regranted_def)
  have "map (\<lambda>p. if gkey p = gkey g then regranted (w_now w) g p else p) (tbl_rows (w_privileges w))
      = tbl_rows (w_privileges w)"
  proof (rule map_idI)
    fix p assume "p \<in> set (tbl_rows (w_privileges w))"
    with one [of p] same show "(if gkey p = gkey g then regranted (w_now w) g p else p) = p" by metis
  qed
  with r show ?thesis by (simp add: grant_run tbl_update_def)
qed

lemma grants_Inr:
  assumes "forM gs grant w = (Inr (), w')" and "\<forall>g \<in> set gs. qp_is_deleted g = 0"
    and "\<forall>g \<in> set gs. \<forall>h \<in> set gs. gkey g = gkey h \<longrightarrow> g = h"
  shows "(\<forall>g \<in> set gs. has_grant w' g) \<and> (\<exists>t. w' = w\<lparr>w_privileges := t\<rparr>)
    \<and> (\<forall>k. k \<notin> gkey ` set gs \<longrightarrow> filter (\<lambda>p. gkey p = k) (tbl_rows (w_privileges w'))
           = filter (\<lambda>p. gkey p = k) (tbl_rows (w_privileges w)))"
  using assms
proof (induction gs arbitrary: w)
  case Nil
  then have "w' = w" by simp
  moreover have "w = w\<lparr>w_privileges := w_privileges w\<rparr>" by simp
  ultimately show ?case by (metis empty_iff list.set(1))
next
  case (Cons g gs)
  from Cons.prems(1) obtain v where g: "grant g w = (Inr (), v)" and rest: "forM gs grant v = (Inr (), w')"
    by (auto simp: thenM_run split: prod.splits sum.splits)
  note IH = Cons.IH [OF rest]
  have d: "qp_is_deleted g = 0" using Cons.prems(2) by simp
  from grant_frame_world [OF g] obtain t where v: "v = w\<lparr>w_privileges := t\<rparr>" by blast
  from IH Cons.prems(2,3) have ih: "\<forall>g \<in> set gs. has_grant w' g" "\<exists>t. w' = v\<lparr>w_privileges := t\<rparr>"
    "\<forall>k. k \<notin> gkey ` set gs \<longrightarrow> filter (\<lambda>p. gkey p = k) (tbl_rows (w_privileges w'))
       = filter (\<lambda>p. gkey p = k) (tbl_rows (w_privileges v))" by auto
  then obtain t' where w': "w' = v\<lparr>w_privileges := t'\<rparr>" by blast
  have "has_grant w' g"
  proof (cases "gkey g \<in> gkey ` set gs")
    case True
    then obtain h where "h \<in> set gs" "gkey g = gkey h" by auto
    with Cons.prems(3) have "g = h" by simp
    with \<open>h \<in> set gs\<close> ih(1) show ?thesis by simp
  next
    case False
    with ih(3) have "filter (\<lambda>p. gkey p = gkey g) (tbl_rows (w_privileges w'))
       = filter (\<lambda>p. gkey p = gkey g) (tbl_rows (w_privileges v))" by blast
    moreover have "w_now w' = w_now v" using w' by simp
    ultimately show ?thesis using grant_Inr [OF g d] has_grant_cong by metis
  qed
  moreover have "w' = w\<lparr>w_privileges := t'\<rparr>" using w' v by simp
  ultimately show ?case using ih grant_frame [OF g] by auto
qed

lemma grants_again: "\<forall>g \<in> set gs. has_grant w g \<Longrightarrow> forM gs grant w = (Inr (), w)"
  by (induction gs) (auto simp: thenM_run grant_again)

text \<open>The privileges an application asks for, and the call back on a passed one.\<close>

definition asked_for :: "query_privileges_apply \<Rightarrow> query_privileges list" where
  "asked_for a = (if qa_priv_type a = 1 then map (\<lambda>db. granted a 1 db []) (split_comma (qa_db_list a))
     else if qa_priv_type a = 2 then map (\<lambda>tb. granted a 2 (qa_db_list a) tb) (split_comma (qa_table_list a))
     else [])"

lemma forM_map: "forM (map h xs) f = forM xs (\<lambda>x. f (h x))"
  by (induction xs) simp_all

lemma forM_asked_for:
  "forM (asked_for a) grant =
     (if qa_priv_type a = 1 then forM (split_comma (qa_db_list a)) (\<lambda>db. grant (granted a 1 db []))
      else if qa_priv_type a = 2 then forM (split_comma (qa_table_list a)) (\<lambda>tb. grant (granted a 2 (qa_db_list a) tb))
      else ret ())"
  by (simp add: asked_for_def forM_map)

lemma call_back_PASSED:
  "query_apply_audit_call_back i PASSED =
     bindM (liftM (\<lambda>w. tbl_get ''QueryPrivilegesApply'' (\<lambda>a. qa_apply_id a = i) (w_applies w))) (\<lambda>a.
       thenM (apply_save (a\<lparr>qa_status := PASSED\<rparr>)) (forM (asked_for a) grant))"
  by (simp add: query_apply_audit_call_back_def forM_asked_for)

lemma asked_for_facts:
  "\<forall>g \<in> set (asked_for a). qp_is_deleted g = 0"
  "\<forall>g \<in> set (asked_for a). \<forall>h \<in> set (asked_for a). gkey g = gkey h \<longrightarrow> g = h"
  by (auto simp: asked_for_def granted_def new_QueryPrivileges_def gkey_def)

lemma asked_for_status [simp]:
  "asked_for (a\<lparr>qa_status := s\<rparr>) = asked_for a" "asked_for (a\<lparr>qa_sys_time := t\<rparr>) = asked_for a"
  "asked_for (a\<lparr>qa_status := s, qa_sys_time := t\<rparr>) = asked_for a"
  by (simp_all add: asked_for_def granted_def)

lemma apply_save_run:
  "qa_apply_id a \<noteq> 0 \<Longrightarrow> apply_save a w =
     (Inr (), w\<lparr>w_applies := tbl_save qa_apply_id (a\<lparr>qa_sys_time := w_now w\<rparr>) (w_applies w)\<rparr>)"
  by (simp add: apply_save_def bindM_run Let_def)

lemma call_back_PASSED_Inr:
  assumes "query_apply_audit_call_back i PASSED w = (Inr (), w')" and "i \<noteq> 0"
  obtains a t where "tbl_get ''QueryPrivilegesApply'' (\<lambda>a. qa_apply_id a = i) (w_applies w) = Inr a"
    "forM (asked_for a) grant (w\<lparr>w_applies := tbl_save qa_apply_id
        (a\<lparr>qa_status := PASSED, qa_sys_time := w_now w\<rparr>) (w_applies w)\<rparr>) = (Inr (), w')"
    "w' = w\<lparr>w_applies := tbl_save qa_apply_id (a\<lparr>qa_status := PASSED, qa_sys_time := w_now w\<rparr>) (w_applies w),
            w_privileges := t\<rparr>"
    "\<forall>g \<in> set (asked_for a). has_grant w' g"
    "\<forall>k. k \<notin> gkey ` set (asked_for a) \<longrightarrow> filter (\<lambda>p. gkey p = k) (tbl_rows (w_privileges w'))
           = filter (\<lambda>p. gkey p = k) (tbl_rows (w_privileges w))"
proof -
  from assms(1) obtain a where a: "tbl_get ''QueryPrivilegesApply'' (\<lambda>a. qa_apply_id a = i) (w_applies w) = Inr a"
    by (auto simp: call_back_PASSED bindM_run split: sum.splits)
  then have "qa_apply_id (a\<lparr>qa_status := PASSED\<rparr>) \<noteq> 0" using tbl_get_Inr [OF a] assms(2) by simp
  note sv = apply_save_run [OF this, of w]
  let ?v = "w\<lparr>w_applies := tbl_save qa_apply_id (a\<lparr>qa_status := PASSED, qa_sys_time := w_now w\<rparr>) (w_applies w)\<rparr>"
  have run: "forM (asked_for a) grant ?v = (Inr (), w')"
    using assms(1) a sv by (simp add: call_back_PASSED bindM_run thenM_run)
  note g = grants_Inr [OF run asked_for_facts]
  then obtain t where "w' = ?v\<lparr>w_privileges := t\<rparr>" by blast
  with that [OF a run, of t] g show ?thesis by simp
qed

lemma tbl_save_twice: "tbl_save pk r (tbl_save pk r t) = tbl_save pk r t"
proof (cases "list_ex (\<lambda>x. pk x = pk r) (tbl_rows t)")
  case True
  let ?f = "\<lambda>x. if pk x = pk r then r else x"
  have m: "map ?f (map ?f xs) = map ?f xs" for xs by (induction xs) simp_all
  have "list_ex (\<lambda>x. pk x = pk r) (map ?f (tbl_rows t))" using True by (auto simp: list_ex_iff)
  with True m [of "tbl_rows t"] show ?thesis by (simp add: tbl_save_def del: map_map)
next
  case False
  then have "map (\<lambda>x. if pk x = pk r then r else x) (tbl_rows t) = tbl_rows t"
    by (induction "tbl_rows t") (auto simp: list_ex_iff intro: map_idI)
  with False show ?thesis by (simp add: tbl_save_def)
qed

section \<open>Properties\<close>



text \<open>Matching in memory answers as the queries it replaced: on the live rows of the user in key order,
  the database and the table match return the limits of \<open>_db_priv\<close> and \<open>_tb_priv\<close>.\<close>

theorem match_priv_equiv:
  "match_db_priv w (tbl_filter (live_priv w u ins) (w_privileges w)) u db = db_priv w u ins db
   \<and> match_tb_priv w (tbl_filter (live_priv w u ins) (w_privileges w)) u db tb = tb_priv w u ins db tb"
  unfolding match_db_priv_def match_tb_priv_def db_priv_def tb_priv_def first_limit_def tbl_first_def
    tbl_filter_def find_filter live_priv_def
  by (auto intro!: arg_cong [where f = "map_option qp_limit_num"] arg_cong2 [where f = find])

text \<open>The limit of a granted check: on the rows of a user, a check of the tables of a statement that
  grants found a privilege on every table, and its limit is at most that of each of them and at most
  the limit asked for, if one was.\<close>

theorem granted_limit_bounds:
  assumes "check_tables w rows u refs limit_num = Inr r" and "pr_status r = 0"
  shows "list_all (\<lambda>t. \<exists>pl. table_limit w rows u t = Inr pl \<and> pr_limit_num r \<le> pl) refs
    \<and> (limit_num \<noteq> 0 \<longrightarrow> pr_limit_num r \<le> limit_num)"
  by (rule check_tables_granted [OF assms])

definition demo_priv :: "int \<Rightarrow> int \<Rightarrow> string \<Rightarrow> string \<Rightarrow> int \<Rightarrow> query_privileges" where
  "demo_priv i ty db tb n = new_QueryPrivileges\<lparr>qp_privilege_id := i, qp_user_name := ''dev'', qp_instance := 7,
     qp_db_name := db, qp_table_name := tb, qp_valid_date := 10, qp_limit_num := n, qp_priv_type := ty\<rparr>"

theorem granted_limit_bounds_witness:
  "check_tables empty_world [demo_priv 1 1 ''shop'' [] 50, demo_priv 2 2 ''hr'' ''staff'' 20] demo_dev
     [(''shop'', ''t''), (''hr'', ''staff'')] 100 = Inr (priv_ok 20) \<and> (20::int) \<le> 100"
proof -
  have c: "check_tables empty_world [demo_priv 1 1 ''shop'' [] 50, demo_priv 2 2 ''hr'' ''staff'' 20] demo_dev
     [(''shop'', ''t''), (''hr'', ''staff'')] 100 = Inr (priv_ok 20)" by code_simp
  from granted_limit_bounds [OF c] c show ?thesis by (simp add: priv_ok_def)
qed

text \<open>C10. What passing an application grants: for every database (or table) it names there is afterwards
  exactly one privilege of the applicant on it, live, with the limit and the date of the
  application, and every privilege of another key is as before.\<close>

theorem passed_application_grants:
  assumes "query_apply_audit_call_back i PASSED w = (Inr (), w')" and "i \<noteq> 0"
  shows "\<exists>a. tbl_get ''QueryPrivilegesApply'' (\<lambda>a. qa_apply_id a = i) (w_applies w) = Inr a
    \<and> list_all (has_grant w') (asked_for a)
    \<and> (\<forall>k. k \<notin> gkey ` set (asked_for a) \<longrightarrow> filter (\<lambda>p. gkey p = k) (tbl_rows (w_privileges w'))
           = filter (\<lambda>p. gkey p = k) (tbl_rows (w_privileges w)))"
proof -
  from call_back_PASSED_Inr [OF assms] obtain a t where
    "tbl_get ''QueryPrivilegesApply'' (\<lambda>a. qa_apply_id a = i) (w_applies w) = Inr a"
    "\<forall>g \<in> set (asked_for a). has_grant w' g"
    "\<forall>k. k \<notin> gkey ` set (asked_for a) \<longrightarrow> filter (\<lambda>p. gkey p = k) (tbl_rows (w_privileges w'))
           = filter (\<lambda>p. gkey p = k) (tbl_rows (w_privileges w))" .
  then show ?thesis by (intro exI [of _ a] conjI) (simp_all add: list_all_iff)
qed

definition demo_apply :: query_privileges_apply where
  "demo_apply = new_QueryPrivilegesApply\<lparr>qa_apply_id := 1, qa_group_id := 5, qa_group_name := ''team'',
     qa_user_name := ''dev'', qa_user_display := ''Dev'', qa_instance := 7, qa_priv_type := 2,
     qa_db_list := ''shop'', qa_table_list := ''orders,items'', qa_valid_date := 30\<rparr>"

definition demo_apply_world :: world where
  "demo_apply_world = (demo_world [])\<lparr>w_applies := \<lparr>tbl_rows = [demo_apply], tbl_next = 2\<rparr>,
     w_privileges := \<lparr>tbl_rows = [demo_priv 1 2 ''shop'' ''items'' 5, demo_priv 2 1 ''hr'' [] 9], tbl_next = 3\<rparr>\<rparr>"

theorem passed_application_grants_witness:
  "\<exists>w'. query_apply_audit_call_back 1 PASSED demo_apply_world = (Inr (), w')
     \<and> has_grant w' (granted demo_apply 2 ''shop'' ''orders'') \<and> has_grant w' (granted demo_apply 2 ''shop'' ''items'')"
proof -
  have "fst (query_apply_audit_call_back 1 PASSED demo_apply_world) = Inr ()" by code_simp
  then obtain w' where run: "query_apply_audit_call_back 1 PASSED demo_apply_world = (Inr (), w')"
    by (metis prod.collapse)
  have "tbl_get ''QueryPrivilegesApply'' (\<lambda>a. qa_apply_id a = 1) (w_applies demo_apply_world) = Inr demo_apply"
    "asked_for demo_apply = [granted demo_apply 2 ''shop'' ''orders'', granted demo_apply 2 ''shop'' ''items'']"
    by code_simp+
  with passed_application_grants [OF run] run show ?thesis by auto
qed

text \<open>Passing an application a second time changes nothing: the call back is idempotent.\<close>

theorem passed_twice_is_once:
  assumes "query_apply_audit_call_back i PASSED w = (Inr (), w')" and "i \<noteq> 0"
  shows "query_apply_audit_call_back i PASSED w' = (Inr (), w')"
proof -
  from call_back_PASSED_Inr [OF assms] obtain a t where
    a: "tbl_get ''QueryPrivilegesApply'' (\<lambda>a. qa_apply_id a = i) (w_applies w) = Inr a"
    and w': "w' = w\<lparr>w_applies := tbl_save qa_apply_id (a\<lparr>qa_status := PASSED, qa_sys_time := w_now w\<rparr>) (w_applies w),
            w_privileges := t\<rparr>" and g: "\<forall>g \<in> set (asked_for a). has_grant w' g" by metis
  let ?b = "a\<lparr>qa_status := PASSED, qa_sys_time := w_now w\<rparr>"
  have ia: "qa_apply_id ?b = i" using tbl_get_Inr [OF a] by simp
  then have b: "tbl_get ''QueryPrivilegesApply'' (\<lambda>a. qa_apply_id a = i) (tbl_save qa_apply_id ?b (w_applies w)) = Inr ?b"
    using tbl_get_save [of "''QueryPrivilegesApply''" qa_apply_id ?b "w_applies w" a] a by simp
  have same: "tbl_save qa_apply_id ?b (tbl_save qa_apply_id ?b (w_applies w)) = tbl_save qa_apply_id ?b (w_applies w)"
    by (rule tbl_save_twice)
  have "apply_save (?b\<lparr>qa_status := PASSED\<rparr>) w' = (Inr (), w')"
    using ia assms(2) same w' by (simp add: apply_save_run)
  moreover have "forM (asked_for ?b) grant w' = (Inr (), w')"
    using grants_again [OF g] by simp
  ultimately show ?thesis
    using b w' by (simp add: call_back_PASSED bindM_run thenM_run)
qed

theorem passed_twice_is_once_witness:
  "\<exists>w'. query_apply_audit_call_back 1 PASSED demo_apply_world = (Inr (), w')
     \<and> query_apply_audit_call_back 1 PASSED w' = (Inr (), w')"
proof -
  have "fst (query_apply_audit_call_back 1 PASSED demo_apply_world) = Inr ()" by code_simp
  then obtain w' where run: "query_apply_audit_call_back 1 PASSED demo_apply_world = (Inr (), w')"
    by (metis prod.collapse)
  with passed_twice_is_once [OF run] show ?thesis by simp
qed

section \<open>Where privileges come from\<close>

text \<open>The privileges are as they were.\<close>

definition privs_are :: "query_privileges table \<Rightarrow> world \<Rightarrow> bool" where
  "privs_are P w = (w_privileges w = P)"

lemma workflow_save_snd:
  "w_privileges (snd (workflow_save x w)) = w_privileges w" "w_audits (snd (workflow_save x w)) = w_audits w"
  by (cases x; simp add: Let_def)+

lemma keeps_workflow_save: "keeps (privs_are P) (workflow_save x)"
  by (simp add: keeps_def privs_are_def workflow_save_snd)

lemma keeps_audit_save: "keeps (privs_are P) (audit_save a)"
  by (auto simp: keeps_def privs_are_def audit_save_def Let_def)

lemma keeps_add_log: "keeps (privs_are P) (add_log i ty desc info u d)"
  by (simp add: keeps_def privs_are_def add_log_run)

lemma keeps_detail_create: "keeps (privs_are P) (detail_create i u s r)"
  by (simp add: keeps_def privs_are_def detail_create_run)

lemma keeps_case_prod [keeps_intros]: "(\<And>x y. keeps P (f x y)) \<Longrightarrow> keeps P (case p of (x, y) \<Rightarrow> f x y)"
  by (cases p) simp

lemmas keeps_writes = keeps_workflow_save keeps_audit_save keeps_add_log keeps_detail_create

lemma keeps_create_audit: "keeps (privs_are P) (create_audit compile_re au)"
  unfolding create_audit_def submit_log_def Let_def
  by (intro keeps_intros keeps_writes)

lemma keeps_operate: "keeps (privs_are P) (operate action u r au)"
  unfolding operate_def operate_pass_def operate_reject_def operate_abort_def
  by (intro keeps_intros keeps_writes)

lemma get_auditor_WQuery:
  assumes "get_auditor w (WQuery a) = Inr au"
  shows "au_workflow au = WQuery a" "au_workflow_type au = QUERY" "get_audit w (WQuery a) = Inr (au_audit au)"
  using assms by (auto simp: get_auditor_def AuditV2_def elim!: bindE_InrE)

text \<open>An application never passes by itself.\<close>

lemma create_audit_QUERY_waits:
  assumes "create_audit compile_re au w = (Inr (m, au'), w')" and "au_workflow au = WQuery a"
  obtains ar where "au_audit au' = Some ar" "wa_current_status ar = WAITING"
proof -
  from create_audit_Inr [OF assms(1)] obtain s wo w1 ar w2 where
    s: "generate_audit_setting compile_re w au = Inr s"
    and ar: "audit_save (decided s (fresh_audit au wo (audit_auth_group_in_db s))) w1 = (Inr ar, w2)"
    and au': "au' = au\<lparr>au_workflow := wo, au_audit := Some ar\<rparr>" by metis
  have "\<not> as_auto_reject s \<and> \<not> as_auto_pass s"
    using s assms(2) by (auto simp: generate_audit_setting_def is_auto_review_def is_auto_reject_def split: sum.splits if_splits)
  then have "wa_current_status ar = WAITING"
    using decided_status(2) [OF s refl, of wo] ar
    by (auto simp: audit_save_def Let_def tbl_created_def split: if_splits)
  with that [of ar] au' show ?thesis by simp
qed

lemma call_back_WAITING: "w_privileges (snd (query_apply_audit_call_back i WAITING w)) = w_privileges w"
  by (simp add: query_apply_audit_call_back_def bindM_run split: sum.splits)

lemma submit_application_privs:
  "keeps (privs_are P) (submit_application compile_re a)"
  unfolding keeps_def privs_are_def
proof (intro allI impI)
  fix w :: world assume P: "w_privileges w = P"
  show "w_privileges (snd (submit_application compile_re a w)) = P"
  proof (cases "get_auditor w (WQuery a)")
    case (Inl e)
    with P show ?thesis by (simp add: submit_application_def bindM_run)
  next
    case (Inr au)
    note au = get_auditor_WQuery [OF Inr]
    obtain x v where run: "create_audit compile_re au w = (x, v)" by fastforce
    have v: "w_privileges v = P" using keepsD [OF keeps_create_audit, of P w compile_re au] P run by (simp add: privs_are_def)
    show ?thesis
    proof (cases x)
      case (Inl e)
      with Inr run P show ?thesis
        by (auto simp: submit_application_def bindM_run catchM_run atomicM_run split: option.splits)
    next
      case (Inr y)
      then obtain m au' where y: "x = Inr (m, au')" by (cases y) auto
      with create_audit_QUERY_waits [of compile_re au w m au' v] run au obtain ar
        where "au_audit au' = Some ar" "wa_current_status ar = WAITING" by blast
      with y run v \<open>get_auditor w (WQuery a) = Inr au\<close> show ?thesis
        using call_back_WAITING [of "workflow_pk (au_workflow au')" v]
        by (auto simp: submit_application_def bindM_run catchM_run atomicM_run thenM_run async_task_def
            split: prod.splits sum.splits)
    qed
  qed
qed

text \<open>Applying for a privilege never grants one: whatever the request, the applicant and the outcome, the
  table of privileges is unchanged, since the record of an application waits for a reviewer.\<close>

theorem application_grants_nothing:
  "w_privileges (snd (ApplyForPrivileges compile_re u q w)) = w_privileges w
   \<and> w_privileges (snd (query_priv_apply compile_re u q w)) = w_privileges w"
proof -
  have "keeps (privs_are P) (ApplyForPrivileges compile_re u q)" for P
    unfolding ApplyForPrivileges_def by (intro keeps_intros submit_application_privs)
  moreover have "keeps (privs_are P) (query_priv_apply compile_re u q)" for P
    unfolding query_priv_apply_def by (intro keeps_intros submit_application_privs)
  ultimately show ?thesis by (simp add: keeps_def privs_are_def)
qed

lemma call_back_privs:
  assumes "query_apply_audit_call_back i st w = (r, w')" and "w_privileges w' \<noteq> w_privileges w"
  shows "st = PASSED"
proof (rule ccontr)
  assume "st \<noteq> PASSED"
  then have "keeps (privs_are (w_privileges w)) (query_apply_audit_call_back i st)"
    unfolding query_apply_audit_call_back_def apply_save_def
    by simp (intro keeps_intros keeps_writes)
  from keepsD [OF this, of w] assms show False by (simp add: privs_are_def)
qed

lemma call_back_audits: "w_audits (snd (query_apply_audit_call_back i st w)) = w_audits w"
proof -
  have g: "keeps (\<lambda>w :: world. w_audits w = A) (grant x)" for x A
    by (auto simp: keeps_def grant_def grant_one_def split: sum.splits)
  have s: "keeps (\<lambda>w :: world. w_audits w = A) (workflow_save x)" for x A
    by (simp add: keeps_def workflow_save_snd)
  have "keeps (\<lambda>w :: world. w_audits w = A) (query_apply_audit_call_back i st)" for A
    unfolding query_apply_audit_call_back_def apply_save_def by (intro keeps_intros g s)
  then show ?thesis by (simp add: keeps_def)
qed

lemma operate_waiting_passed:
  assumes "operate act u r au w = (Inr (d, au'), w')" and "au_audit au = Some a" and "wa_audit_id a \<noteq> 0"
    and "wa_current_status a = WAITING" and "au_audit au' = Some b" and "wa_current_status b = PASSED"
  shows "wa_audit_id b = wa_audit_id a \<and> b \<in> set (tbl_rows (w_audits w'))"
proof -
  have "act = PASS"
  proof (rule ccontr)
    assume "act \<noteq> PASS"
    with assms operate_reject_run [OF assms(3), of u r w] operate_abort_run [OF assms(3), of u r w]
    show False
      by (cases act) (auto simp: operate_def thenM_run bindM_run can_operate_def Let_def split: sum.splits)
  qed
  with operate_PASS_Inr [of u r au w d au' w' a] assms(1,2,3) obtain c where
    "next_node a = Inr c" "au' = au\<lparr>au_audit := Some (c\<lparr>wa_sys_time := w_now w\<rparr>)\<rparr>"
    "operated (c\<lparr>wa_sys_time := w_now w\<rparr>) PASSED u r w w'" by blast
  with assms(5) next_node_Inr(2) [of a c] show ?thesis
    by (auto simp: operated_audits set_rows_tbl_save)
qed

lemma can_review_True:
  assumes "can_review w u i ty = Inr True"
  obtains a where "tbl_get ''WorkflowAudit'' (\<lambda>a. wa_workflow_id a = i \<and> wa_workflow_type a = ty) (w_audits w) = Inr a"
    "wa_current_status a = WAITING"
  using assms by (auto simp: can_review_def elim!: bindE_InrE split: if_splits)

text \<open>A review of an application changes privileges only with authority and in order: if it does, it
  reports success, the reviewer was allowed to review, the record was waiting before and is PASSED
  after.\<close>

theorem review_grants_with_authority:
  assumes "QueryPrivAudit u id_text st_text remark w = (Inr res, w')"
    and "w_privileges w' \<noteq> w_privileges w" and "audits_ok (w_audits w)"
  shows "fst res = 0 \<and> (\<exists>i a b. py_int id_text = Inr i \<and> can_review w u i QUERY = Inr True
    \<and> a \<in> set (tbl_rows (w_audits w)) \<and> wa_current_status a = WAITING \<and> wa_workflow_id a = i
    \<and> b \<in> set (tbl_rows (w_audits w')) \<and> wa_audit_id b = wa_audit_id a \<and> wa_current_status b = PASSED)"
proof -
  obtain i act where ia: "bindE (py_int id_text) (\<lambda>i. bindE (py_int st_text) (\<lambda>s.
      bindE (WorkflowAction_of s) (\<lambda>act. Inr (i, act)))) = Inr (i, act)"
    using assms(1,2) by (auto simp: QueryPrivAudit_def split: sum.splits)
  then have i: "py_int id_text = Inr i" by (auto elim!: bindE_InrE)
  from assms(1,2) ia obtain ap where ap: "apply_get w i = Inr ap" and rev: "can_review w u i QUERY = Inr True"
    by (auto simp: QueryPrivAudit_def bindM_run split: sum.splits if_splits)
  from can_review_True [OF rev] obtain a where
    a: "tbl_get ''WorkflowAudit'' (\<lambda>a. wa_workflow_id a = i \<and> wa_workflow_type a = QUERY) (w_audits w) = Inr a"
    and wait: "wa_current_status a = WAITING" .
  have ain: "a \<in> set (tbl_rows (w_audits w))" "wa_workflow_id a = i" using tbl_get_Inr [OF a] by auto
  then have ida: "wa_audit_id a \<noteq> 0" using assms(3) by (auto simp: audits_ok_def list_all_iff)
  from assms(1,2) ia ap rev obtain au where au: "get_auditor w (WQuery ap) = Inr au"
    by (auto simp: QueryPrivAudit_def bindM_run split: sum.splits)
  have "qa_apply_id ap = i" using ap tbl_get_Inr by (fastforce simp: apply_get_def)
  then have "get_audit w (WQuery ap) = Inr (Some a)"
    using a by (simp add: get_audit_def conj_commute)
  with get_auditor_WQuery(3) [OF au] have aua: "au_audit au = Some a" by simp
  obtain r v where run: "operate_and_call_back act u remark au w = (r, v)" by fastforce
  have "\<exists>b. r = Inr b \<and> w' = v\<lparr>w_queue := w_queue w'\<rparr> \<and> fst res = 0"
    using assms(1,2) ia ap rev au run
    by (cases r) (auto simp: QueryPrivAudit_def bindM_run catchM_run atomicM_run thenM_run async_task_def
        split: option.splits if_splits)
  then obtain b where b: "r = Inr b" and w': "w' = v\<lparr>w_queue := w_queue w'\<rparr>" and res: "fst res = 0" by blast
  obtain d au' v1 where op: "operate act u remark au w = (Inr (d, au'), v1)" and rb: "au_audit au' = Some b"
    and cb: "query_apply_audit_call_back (wa_workflow_id b) (wa_current_status b) v1 = (Inr (), v)"
    using run b by (auto simp: operate_and_call_back_def bindM_run thenM_run record_of_def
        split: sum.splits prod.splits option.splits)
  have "w_privileges v1 = w_privileges w"
    using keepsD [OF keeps_operate [of "w_privileges w" act u remark au], of w] op by (simp add: privs_are_def)
  moreover have "w_privileges w' = w_privileges v" using w' by (metis world.select_convs(15) world.surjective world.update_convs(20))
  ultimately have "wa_current_status b = PASSED" using call_back_privs [OF cb] assms(2) by simp
  moreover from operate_waiting_passed [OF op aua ida wait rb this]
  have "wa_audit_id b = wa_audit_id a" "b \<in> set (tbl_rows (w_audits v1))" by auto
  moreover have "w_audits w' = w_audits v1"
    using call_back_audits [of "wa_workflow_id b" "wa_current_status b" v1] cb w'
    by (metis snd_conv world.select_convs(10) world.surjective world.update_convs(20))
  ultimately show ?thesis using i rev ain wait res by auto
qed

definition demo_review_world :: world where
  "demo_review_world = demo_apply_world\<lparr>
     w_users := \<lparr>tbl_rows = [demo_admin, demo_lead\<lparr>has_perm := (\<lambda>p. p = ''sql.query_review'')\<rparr>], tbl_next = 3\<rparr>,
     w_audits := \<lparr>tbl_rows = [(demo_audit ''10'' ''10'' ''-1'')\<lparr>wa_workflow_type := QUERY\<rparr>], tbl_next = 2\<rparr>\<rparr>"

theorem review_grants_with_authority_witness:
  "\<exists>w' a. QueryPrivAudit (demo_lead\<lparr>has_perm := (\<lambda>p. p = ''sql.query_review'')\<rparr>) ''1'' ''1'' ''ok'' demo_review_world
       = (Inr (0, ''ok''), w') \<and> a \<in> set (tbl_rows (w_audits demo_review_world)) \<and> wa_current_status a = WAITING"
proof -
  let ?u = "demo_lead\<lparr>has_perm := (\<lambda>p. p = ''sql.query_review'')\<rparr>"
  let ?run = "QueryPrivAudit ?u ''1'' ''1'' ''ok'' demo_review_world"
  have "fst ?run = Inr (0, ''ok'')" by code_simp
  then obtain w' where run: "?run = (Inr (0, ''ok''), w')" by (metis prod.collapse)
  have "length (tbl_rows (w_privileges (snd ?run))) \<noteq> length (tbl_rows (w_privileges demo_review_world))" by code_simp
  then have "w_privileges w' \<noteq> w_privileges demo_review_world" using run by auto
  moreover have "audits_ok (w_audits demo_review_world)" by code_simp
  ultimately show ?thesis using review_grants_with_authority [OF run] run by blast
qed

end
