(* ===== verification/Triples.thy ===== *)
theory Triples
  imports Prelude
begin

text \<open>
  A small calculus of Hoare triples for the handler monad, used where a handler breaks an invariant
  between two of its writes: \<open>triple P m Q E\<close> says that from a state of \<open>P\<close> a normal end of \<open>m\<close>
  satisfies \<open>Q\<close> and an exception leaves a state of \<open>E\<close>.
\<close>

definition triple ::
  "('s \<Rightarrow> bool) \<Rightarrow> ('s, 'a) M \<Rightarrow> ('a \<Rightarrow> 's \<Rightarrow> bool) \<Rightarrow> ('s \<Rightarrow> bool) \<Rightarrow> bool" where
  "triple P m Q E = (\<forall>s. P s \<longrightarrow> (\<forall>e t. m s = (Inl e, t) \<longrightarrow> E t) \<and> (\<forall>x t. m s = (Inr x, t) \<longrightarrow> Q x t))"

named_theorems triple_intros "rules of the triple calculus"

lemma tripleI:
  assumes "\<And>s e t. P s \<Longrightarrow> m s = (Inl e, t) \<Longrightarrow> E t" and "\<And>s x t. P s \<Longrightarrow> m s = (Inr x, t) \<Longrightarrow> Q x t"
  shows "triple P m Q E"
  using assms by (auto simp: triple_def)

lemma tripleD:
  assumes "triple P m Q E" and "P s"
  shows "m s = (Inl e, t) \<Longrightarrow> E t" and "m s = (Inr x, t) \<Longrightarrow> Q x t"
  using assms by (auto simp: triple_def)

text \<open>Keeping a predicate is a triple.\<close>

lemma triple_keeps: "keeps P m \<longleftrightarrow> triple P m (\<lambda>_. P) P"
  unfolding keeps_def triple_def by (metis prod.collapse sum.exhaust snd_conv)

lemma triple_keepsI [triple_intros]: "keeps P m \<Longrightarrow> triple P m (\<lambda>_. P) P"
  by (simp add: triple_keeps)

lemma keeps_tripleI: "triple P m (\<lambda>_. P) P \<Longrightarrow> keeps P m"
  by (simp add: triple_keeps)

lemma triple_conseq:
  assumes "triple P' m Q' E'" and "\<And>s. P s \<Longrightarrow> P' s" and "\<And>x s. Q' x s \<Longrightarrow> Q x s" and "\<And>s. E' s \<Longrightarrow> E s"
  shows "triple P m Q E"
  using assms unfolding triple_def by blast

lemma triple_pre: "triple P' m Q E \<Longrightarrow> (\<And>s. P s \<Longrightarrow> P' s) \<Longrightarrow> triple P m Q E"
  by (rule triple_conseq)

text \<open>What the states of the precondition have in common may be used outright.\<close>

lemma triple_known:
  "(\<And>s. P s \<Longrightarrow> F) \<Longrightarrow> (F \<Longrightarrow> triple P m Q E) \<Longrightarrow> triple P m Q E"
  by (cases "\<exists>s. P s") (auto simp: triple_def)

lemma triple_bind:
  assumes "triple P m R E" and "\<And>x. triple (R x) (f x) Q E"
  shows "triple P (bindM m f) Q E"
proof (rule tripleI)
  fix s e t assume "P s" "bindM m f s = (Inl e, t)"
  then show "E t"
    using tripleD [OF assms(1)] tripleD(1) [OF assms(2)]
    by (fastforce simp: bindM_run split: prod.splits sum.splits)
next
  fix s x t assume "P s" "bindM m f s = (Inr x, t)"
  then show "Q x t"
    using tripleD(2) [OF assms(1)] tripleD(2) [OF assms(2)]
    by (fastforce simp: bindM_run split: prod.splits sum.splits)
qed

lemma triple_then: "triple P m (\<lambda>_. R) E \<Longrightarrow> triple R k Q E \<Longrightarrow> triple P (thenM m k) Q E"
  unfolding thenM_def by (rule triple_bind)

text \<open>Reading: what was read is known afterwards.\<close>

lemma triple_read:
  assumes "\<And>s. P s \<Longrightarrow> E s" and "\<And>x. triple (\<lambda>s. P s \<and> g s = Inr x) (f x) Q E"
  shows "triple P (bindM (liftM g) f) Q E"
  by (rule triple_bind [where R = "\<lambda>x s. P s \<and> g s = Inr x"]) (use assms in \<open>auto simp: triple_def\<close>)

lemma triple_read_ok:
  assumes "\<And>s. P s \<Longrightarrow> \<exists>x. g s = Inr x" and "\<And>x. triple (\<lambda>s. P s \<and> g s = Inr x) (f x) Q E"
  shows "triple P (bindM (liftM g) f) Q E"
  by (rule triple_bind [where R = "\<lambda>x s. P s \<and> g s = Inr x"]) (use assms in \<open>fastforce simp: triple_def\<close>)+

lemma keeps_bind_read:
  "(\<And>x. triple (\<lambda>s. P s \<and> g s = Inr x) (f x) (\<lambda>_. P) P) \<Longrightarrow> keeps P (bindM (liftM g) f)"
  by (rule keeps_tripleI, rule triple_read)

text \<open>A step that keeps the predicate at hand.\<close>

lemma triple_step:
  assumes "keeps P m" and "\<And>s. P s \<Longrightarrow> E s" and "\<And>x. triple P (f x) Q E"
  shows "triple P (bindM m f) Q E"
proof (rule triple_bind [where R = "\<lambda>_. P"])
  show "triple P m (\<lambda>_. P) E"
    by (rule triple_conseq [OF triple_keepsI [OF assms(1)]]) (simp_all add: assms(2))
qed (rule assms(3))

lemma triple_step_then:
  "keeps P m \<Longrightarrow> (\<And>s. P s \<Longrightarrow> E s) \<Longrightarrow> triple P k Q E \<Longrightarrow> triple P (thenM m k) Q E"
  unfolding thenM_def by (rule triple_step)

lemma triple_gets:
  assumes "\<And>x. triple (\<lambda>s. P s \<and> g s = x) (f x) Q E"
  shows "triple P (bindM (getsM g) f) Q E"
  by (rule triple_bind [where R = "\<lambda>x s. P s \<and> g s = x"]) (use assms in \<open>auto simp: triple_def\<close>)

lemma triple_ret: "(\<And>s. P s \<Longrightarrow> Q x s) \<Longrightarrow> triple P (ret x) Q E"
  by (simp add: triple_def)

lemma triple_throw: "(\<And>s. P s \<Longrightarrow> E s) \<Longrightarrow> triple P (throw e) Q E"
  by (simp add: triple_def)

lemma triple_guard:
  "(\<And>s. P s \<Longrightarrow> E s) \<Longrightarrow> (\<not> c \<Longrightarrow> triple P k Q E) \<Longrightarrow> triple P (thenM (raise_if c e) k) Q E"
  by (auto simp: triple_def thenM_run split: prod.splits sum.splits)

text \<open>Inside a transaction the exceptional states are those before it.\<close>

lemma triple_atomic:
  assumes "triple P m Q (\<lambda>_. True)"
  shows "triple P (atomicM m) Q P"
proof (rule tripleI)
  fix s e t assume "P s" "atomicM m s = (Inl e, t)"
  then show "P t" using atomicM_Inl [of m s e t] by simp
next
  fix s x t assume "P s" "atomicM m s = (Inr x, t)"
  then show "Q x t"
    using tripleD(2) [OF assms] by (auto simp: atomicM_run split: prod.splits sum.splits)
qed

lemma triple_atomic_pre:
  assumes "triple P m Q E'" and "\<And>s. P s \<Longrightarrow> E s"
  shows "triple P (atomicM m) Q E"
proof -
  have "triple P m Q (\<lambda>_. True)" using assms(1) by (rule triple_conseq) auto
  then have "triple P (atomicM m) Q P" by (rule triple_atomic)
  then show ?thesis by (rule triple_conseq) (auto simp: assms(2))
qed

lemma triple_catch:
  assumes "triple P m Q E'" and "\<And>e k. h e = Some k \<Longrightarrow> triple E' k Q E" and "\<And>s. E' s \<Longrightarrow> E s"
  shows "triple P (catchM m h) Q E"
proof (rule tripleI)
  fix s e t assume "P s" "catchM m h s = (Inl e, t)"
  then show "E t"
    using tripleD(1) [OF assms(1)] tripleD(1) [OF assms(2)] assms(3)
    by (fastforce simp: catchM_run split: prod.splits sum.splits option.splits)
next
  fix s x t assume "P s" "catchM m h s = (Inr x, t)"
  then show "Q x t"
    using tripleD [OF assms(1)] tripleD(2) [OF assms(2)]
    by (fastforce simp: catchM_run split: prod.splits sum.splits option.splits)
qed

lemma triple_if:
  "(c \<Longrightarrow> triple P a Q E) \<Longrightarrow> (\<not> c \<Longrightarrow> triple P b Q E) \<Longrightarrow> triple P (if c then a else b) Q E"
  by simp

lemma triple_case_option:
  "(r = None \<Longrightarrow> triple P a Q E) \<Longrightarrow> (\<And>x. r = Some x \<Longrightarrow> triple P (f x) Q E) \<Longrightarrow>
     triple P (case r of None \<Rightarrow> a | Some x \<Rightarrow> f x) Q E"
  by (cases r) simp_all

lemma triple_case_sum:
  "(\<And>e. r = Inl e \<Longrightarrow> triple P (f e) Q E) \<Longrightarrow> (\<And>x. r = Inr x \<Longrightarrow> triple P (g x) Q E) \<Longrightarrow>
     triple P (case r of Inl e \<Rightarrow> f e | Inr x \<Rightarrow> g x) Q E"
  by (cases r) simp_all

end
