(* ===== verification/Lifecycle.thy ===== *)
theory Lifecycle
  imports Archive QueryPrivProps Triples
begin

text \<open>
  The life of a work order across every handler that touches it. A step of the system is one handler
  run by some user, one run of a task, or the passing of time; the invariant relates the status of
  every release of SQL to the status of its approval record, keeps the shape of the records and of
  the timers, and remembers the records that were closed.
\<close>

section \<open>The invariant\<close>

text \<open>The status of a release that fits the status of its record.\<close>

fun agree :: "workflow_status \<Rightarrow> sql_workflow_status \<Rightarrow> bool" where
  "agree WAITING s = (s = workflow_manreviewing)"
| "agree PASSED s = (s \<in> set [workflow_review_pass, workflow_timingtask, workflow_queuing, workflow_executing,
     workflow_finish, workflow_exception])"
| "agree REJECTED s = (s \<in> set [workflow_autoreviewwrong, workflow_abort])"
| "agree ABORTED s = (s = workflow_abort)"

definition agrees_in :: "workflow_audit table \<Rightarrow> sql_workflow \<Rightarrow> bool" where
  "agrees_in t x = (\<exists>a \<in> set (tbl_rows t). audit_key a = (sw_id x, SQL_REVIEW)
     \<and> agree (wa_current_status a) (sw_status x))"

definition closed :: "workflow_audit \<Rightarrow> bool" where
  "closed a = (wa_current_status a = REJECTED \<or> wa_current_status a = ABORTED)"

type_synonym record_name = "int \<times> int \<times> workflow_type"

definition record_name :: "workflow_audit \<Rightarrow> record_name" where
  "record_name a = (wa_audit_id a, audit_key a)"

definition closed_in :: "record_name set \<Rightarrow> workflow_audit table \<Rightarrow> bool" where
  "closed_in C t = (\<forall>i \<in> C. \<exists>a \<in> set (tbl_rows t). record_name a = i \<and> closed a)"

text \<open>The part of the invariant that does not relate orders and records.\<close>

definition shape :: "record_name set \<Rightarrow> world \<Rightarrow> bool" where
  "shape C w = (audits_ok (w_audits w) \<and> wf_table sw_id (w_workflows w) \<and> 1 \<le> tbl_next (w_workflows w)
     \<and> (\<forall>x \<in> set (tbl_rows (w_workflows w)). sw_id x \<noteq> 0) \<and> wf_schedules (w_schedules w)
     \<and> closed_in C (w_audits w))"

text \<open>\<open>linv C\<close>: the invariant, with the records of \<open>C\<close> closed; \<open>linv_but C i\<close>: the same but for order \<open>i\<close>.\<close>

definition linv_but :: "record_name set \<Rightarrow> int \<Rightarrow> world \<Rightarrow> bool" where
  "linv_but C i w = (shape C w \<and> (\<forall>x \<in> set (tbl_rows (w_workflows w)). sw_id x \<noteq> i \<longrightarrow> agrees_in (w_audits w) x))"

definition linv :: "record_name set \<Rightarrow> world \<Rightarrow> bool" where
  "linv C w = (shape C w \<and> (\<forall>x \<in> set (tbl_rows (w_workflows w)). agrees_in (w_audits w) x))"

lemma linv_but: "linv C w \<Longrightarrow> linv_but C i w"
  by (simp add: linv_def linv_but_def)

text \<open>What the invariant reads.\<close>

definition sview :: "world \<Rightarrow> workflow_audit table \<times> sql_workflow table \<times> schedule table" where
  "sview w = (w_audits w, w_workflows w, w_schedules w)"

lemma linv_sview: "sview w = sview w' \<Longrightarrow> linv C w = linv C w'"
  by (simp add: sview_def linv_def shape_def)

lemma linv_but_sview: "sview w = sview w' \<Longrightarrow> linv_but C i w = linv_but C i w'"
  by (simp add: sview_def linv_but_def shape_def)

definition view_is :: "workflow_audit table \<times> sql_workflow table \<times> schedule table \<Rightarrow> world \<Rightarrow> bool" where
  "view_is V w = (sview w = V)"

lemma keeps_view:
  assumes "\<And>V. keeps (view_is V) m"
  shows "sview (snd (m w)) = sview w"
  using keepsD [OF assms [of "sview w"], of w] by (simp add: view_is_def)

lemma keeps_linv: "(\<And>V. keeps (view_is V) m) \<Longrightarrow> keeps (linv C) m"
  unfolding keeps_def [of "linv C"] using keeps_view [of m] linv_sview by metis

lemma keeps_linv_but: "(\<And>V. keeps (view_is V) m) \<Longrightarrow> keeps (linv_but C i) m"
  unfolding keeps_def [of "linv_but C i"] using keeps_view [of m] linv_but_sview by metis

text \<open>Changes of one order, of one record.\<close>

lemma unique_order:
  "wf_table sw_id t \<Longrightarrow> x \<in> set (tbl_rows t) \<Longrightarrow> y \<in> set (tbl_rows t) \<Longrightarrow> sw_id x = sw_id y \<Longrightarrow> x = y"
  by (auto simp: wf_table_def distinct_map dest: inj_onD)

lemma unique_key:
  "audits_ok t \<Longrightarrow> a \<in> set (tbl_rows t) \<Longrightarrow> b \<in> set (tbl_rows t) \<Longrightarrow> audit_key a = audit_key b \<Longrightarrow> a = b"
  by (auto simp: audits_ok_def distinct_map dest: inj_onD)

lemma unique_audit:
  "audits_ok t \<Longrightarrow> a \<in> set (tbl_rows t) \<Longrightarrow> b \<in> set (tbl_rows t) \<Longrightarrow> wa_audit_id a = wa_audit_id b \<Longrightarrow> a = b"
  by (auto simp: audits_ok_def wf_table_def distinct_map dest: inj_onD)

lemma shape_update:
  assumes "shape C w" and "\<And>x. sw_id (f x) = sw_id x"
  shows "shape C (w\<lparr>w_workflows := tbl_update P f (w_workflows w)\<rparr>)"
  using assms sw.wf_update [of "w_workflows w" f P] by (auto simp: shape_def tbl_update_def)

lemma settle_update:
  assumes "linv_but C i w" and "\<And>x. sw_id (f x) = sw_id x"
    and "\<And>x. x \<in> set (tbl_rows (w_workflows w)) \<Longrightarrow> sw_id x = i \<Longrightarrow> agrees_in (w_audits w) (f x)"
  shows "linv C (w\<lparr>w_workflows := tbl_update (\<lambda>x. sw_id x = i) f (w_workflows w)\<rparr>)"
  using assms shape_update [of C w f "\<lambda>x. sw_id x = i"]
  by (auto simp: linv_def linv_but_def tbl_update_def)

lemma settle_save:
  assumes "linv_but C (sw_id x) w" and "agrees_in (w_audits w) x" and "sw_id x \<noteq> 0"
  shows "linv C (w\<lparr>w_workflows := tbl_save sw_id x (w_workflows w)\<rparr>)"
proof -
  have n: "1 \<le> tbl_next (tbl_save sw_id x (w_workflows w))"
    using assms(1) by (auto simp: linv_but_def shape_def tbl_save_def)
  show ?thesis
    using assms n sw.wf_save [of "w_workflows w" x]
    by (auto simp: linv_def linv_but_def shape_def set_rows_tbl_save)
qed

text \<open>Among the statuses that go with a passed record, an order moves freely.\<close>

lemma agree_passed: "agree st s \<Longrightarrow> agree PASSED s \<Longrightarrow> st = PASSED"
  by (cases st) auto

lemma passed_moves:
  assumes "linv C w" and "\<And>x. sw_id (f x) = sw_id x"
    and "\<And>x. x \<in> set (tbl_rows (w_workflows w)) \<Longrightarrow> sw_id x = i \<Longrightarrow>
      sw_status (f x) = sw_status x \<or> agree PASSED (sw_status x) \<and> agree PASSED (sw_status (f x))"
  shows "linv C (w\<lparr>w_workflows := tbl_update (\<lambda>x. sw_id x = i) f (w_workflows w)\<rparr>)"
proof (rule settle_update [OF linv_but [OF assms(1)] assms(2)])
  fix x assume x: "x \<in> set (tbl_rows (w_workflows w))" "sw_id x = i"
  with assms(1) obtain a where a: "a \<in> set (tbl_rows (w_audits w))" "audit_key a = (sw_id x, SQL_REVIEW)"
    "agree (wa_current_status a) (sw_status x)" by (auto simp: linv_def agrees_in_def)
  then have "agree (wa_current_status a) (sw_status (f x))"
    using assms(3) [OF x] agree_passed [OF a(3)] by auto
  with a show "agrees_in (w_audits w) (f x)" by (auto simp: agrees_in_def assms(2))
qed

lemma audit_saved:
  assumes "linv C w" and "a \<in> set (tbl_rows (w_audits w))" and "wa_audit_id b = wa_audit_id a"
    and "audit_key b = audit_key a" and "audit_ok b" and "\<not> closed a"
  shows "linv_but C (wa_workflow_id a) (w\<lparr>w_audits := tbl_save wa_audit_id b (w_audits w)\<rparr>)"
    and "wa_workflow_type a \<noteq> SQL_REVIEW \<or> wa_current_status b = wa_current_status a \<Longrightarrow>
      linv C (w\<lparr>w_audits := tbl_save wa_audit_id b (w_audits w)\<rparr>)"
proof -
  let ?t = "tbl_save wa_audit_id b (w_audits w)"
  have ok: "audits_ok (w_audits w)" using assms(1) by (simp add: linv_def shape_def)
  have rows: "r \<in> set (tbl_rows ?t)" if "r \<in> set (tbl_rows (w_audits w))" "r \<noteq> a" for r
    using that assms(2,3) unique_audit [OF ok] by (auto simp: set_rows_tbl_save)
  have "closed_in C ?t"
    using assms(1,6) rows by (fastforce simp: linv_def shape_def closed_in_def)
  with assms(1) audits_ok_save [OF ok assms(2-5)] have sh: "shape C (w\<lparr>w_audits := ?t\<rparr>)"
    by (simp add: linv_def shape_def)
  have other: "agrees_in ?t x" if "x \<in> set (tbl_rows (w_workflows w))" "audit_key a \<noteq> (sw_id x, SQL_REVIEW)" for x
    using that assms(1) rows by (fastforce simp: linv_def agrees_in_def)
  with sh show "linv_but C (wa_workflow_id a) (w\<lparr>w_audits := ?t\<rparr>)"
    by (auto simp: linv_but_def audit_key_def)
  assume s: "wa_workflow_type a \<noteq> SQL_REVIEW \<or> wa_current_status b = wa_current_status a"
  have "agrees_in ?t x" if x: "x \<in> set (tbl_rows (w_workflows w))" for x
  proof (cases "audit_key a = (sw_id x, SQL_REVIEW)")
    case True
    with assms(1) x obtain r where "r \<in> set (tbl_rows (w_audits w))" "audit_key r = audit_key a"
      "agree (wa_current_status r) (sw_status x)" by (auto simp: linv_def agrees_in_def)
    moreover from this have "r = a" using unique_key [OF ok _ assms(2)] by blast
    ultimately have "agree (wa_current_status b) (sw_status x)" using s True by (auto simp: audit_key_def)
    then show ?thesis using True assms(4) by (auto simp: agrees_in_def set_rows_tbl_save)
  qed (rule other [OF x])
  with sh show "linv C (w\<lparr>w_audits := ?t\<rparr>)" by (simp add: linv_def)
qed

text \<open>Records only added.\<close>

lemma closed_in_mono: "closed_in C t \<Longrightarrow> set (tbl_rows t) \<subseteq> set (tbl_rows t') \<Longrightarrow> closed_in C t'"
  by (fastforce simp: closed_in_def)

lemma agrees_in_mono: "agrees_in t x \<Longrightarrow> set (tbl_rows t) \<subseteq> set (tbl_rows t') \<Longrightarrow> agrees_in t' x"
  by (fastforce simp: agrees_in_def)

lemma audits_grow:
  assumes "linv C w" and "audits_ok t" and "set (tbl_rows (w_audits w)) \<subseteq> set (tbl_rows t)"
  shows "linv C (w\<lparr>w_audits := t\<rparr>)"
  using assms by (fastforce simp: linv_def shape_def closed_in_def agrees_in_def)

section \<open>Operating on a record\<close>

text \<open>The three ways an operation ends: refused, without effect, with the record saved.\<close>

definition saved_record :: "workflow_audit \<Rightarrow> workflow_audit \<Rightarrow> world \<Rightarrow> world \<Rightarrow> bool" where
  "saved_record a b w w' = (sview w' = (tbl_save wa_audit_id b (w_audits w), w_workflows w, w_schedules w)
     \<and> audit_ok b \<and> wa_audit_id b = wa_audit_id a \<and> audit_key b = audit_key a \<and> \<not> closed a
     \<and> (wa_current_status b = WAITING \<longrightarrow> wa_current_status a = WAITING))"

lemma operate_pass_effect:
  assumes "operate_pass u r a w = (res, w')" and "wa_audit_id a \<noteq> 0" and "wa_current_status a = WAITING"
  obtains e where "res = Inl e" and "w' = w"
  | e b where "res = Inl e" and "saved_record a b w w'" and "wa_current_status b = WAITING"
  | d b where "res = Inr (d, b)" and "saved_record a b w w'"
proof (cases "next_node a")
  case (Inl e)
  with assms(1) that(1) show ?thesis by (auto simp: operate_pass_def bindM_run)
next
  case (Inr b)
  note f = next_node_Inr [OF Inr]
  let ?b = "b\<lparr>wa_sys_time := w_now w\<rparr>"
  have ib: "wa_audit_id b \<noteq> 0" using f(2) assms(2) by simp
  have sv: "sview w' = (tbl_save wa_audit_id ?b (w_audits w), w_workflows w, w_schedules w) \<Longrightarrow> saved_record a ?b w w'"
    using f assms(3) by (simp add: saved_record_def audit_key_def closed_def)
  let ?d = "\<lparr>wad_audit_detail_id = 0, wad_audit_id = wa_audit_id b, wad_audit_user = u_username u,
      wad_audit_time = w_now w, wad_audit_status = PASSED, wad_remark = r, wad_sys_time = w_now w\<rparr>"
  let ?v = "w\<lparr>w_audits := tbl_save wa_audit_id ?b (w_audits w), w_details := tbl_create set_wad_id ?d (w_details w)\<rparr>"
  show ?thesis
  proof (cases "pass_info ?v ?b r")
    case (Inl e)
    have "wa_current_status ?b = WAITING"
    proof (rule ccontr)
      assume "wa_current_status ?b \<noteq> WAITING"
      then have "wa_current_status b = PASSED" using f(8) by (simp split: if_splits)
      with f(1) have "wa_current_audit b = ''-1''" by (simp add: audit_ok_def)
      with Inl show False by (simp add: pass_info_def)
    qed
    moreover have "res = Inl e" "sview w' = (tbl_save wa_audit_id ?b (w_audits w), w_workflows w, w_schedules w)"
      using assms(1) \<open>next_node a = Inr b\<close> Inl ib by (auto simp: operate_pass_def op_simps sview_def)
    ultimately show ?thesis using that(2) sv by blast
  next
    case (Inr t)
    then have "\<exists>d. res = Inr (d, ?b)" "sview w' = (tbl_save wa_audit_id ?b (w_audits w), w_workflows w, w_schedules w)"
      using assms(1) \<open>next_node a = Inr b\<close> ib by (auto simp: operate_pass_def op_simps sview_def)
    then show ?thesis using that(3) sv by blast
  qed
qed

lemma operate_close_effect:
  assumes "operate_reject u r a w = (res, w') \<or> operate_abort u r a w = (res, w')"
    and "wa_audit_id a \<noteq> 0" and "\<not> closed a"
  obtains d b where "res = Inr (d, b)" and "saved_record a b w w'" and "closed b"
proof -
  from assms(1) have "\<exists>d b. res = Inr (d, b) \<and> saved_record a b w w' \<and> closed b"
    using assms(2,3)
    by (auto simp: operate_reject_def operate_abort_def op_simps sview_def saved_record_def audit_ok_def
        audit_key_def closed_def)
  with that show ?thesis by blast
qed

lemma operate_effect:
  assumes "operate act u r au w = (res, w')" and "au_audit au = Some a" and "wa_audit_id a \<noteq> 0"
  obtains e where "res = Inl e" and "w' = w"
  | "res = Inr (None, au)" and "w' = w" and "act \<in> {EXECUTE_SET_TIME, EXECUTE_START, EXECUTE_END}"
  | e b where "res = Inl e" and "saved_record a b w w'" and "wa_current_status b = wa_current_status a"
  | d b where "res = Inr (Some d, au\<lparr>au_audit := Some b\<rparr>)" and "saved_record a b w w'"
proof (cases "can_operate w act u a au")
  case (Inl e)
  with assms(1,2) that(1) show ?thesis by (auto simp: operate_def thenM_run)
next
  case (Inr x)
  then have opn: "\<not> closed a" and allowed: "act \<in> set (SUPPORTED_OPERATION_GRID (wa_current_status a))"
    by (auto simp: can_operate_def Let_def closed_def split: if_splits)
  from Inr assms(1,2) have run: "(if act = PASS then bindM (operate_pass u r a) (\<lambda>(d, a'). ret (Some d, au\<lparr>au_audit := Some a'\<rparr>))
      else if act = REJECT then bindM (operate_reject u r a) (\<lambda>(d, a'). ret (Some d, au\<lparr>au_audit := Some a'\<rparr>))
      else if act = ABORT then bindM (operate_abort u r a) (\<lambda>(d, a'). ret (Some d, au\<lparr>au_audit := Some a'\<rparr>))
      else ret (None, au)) w = (res, w')"
    by (simp add: operate_def thenM_run)
  consider "act = PASS" | "act = REJECT" | "act = ABORT" | "act \<in> {EXECUTE_SET_TIME, EXECUTE_START, EXECUTE_END}"
    using allowed by (cases act; cases "wa_current_status a") auto
  then show ?thesis
  proof cases
    case 1
    then have wt: "wa_current_status a = WAITING" using allowed by (cases "wa_current_status a") auto
    obtain res1 where p: "operate_pass u r a w = (res1, w')"
      and res: "res = map_sum id (\<lambda>(d, a'). (Some d, au\<lparr>au_audit := Some a'\<rparr>)) res1"
      using run 1 by (auto simp: bindM_run split: prod.splits sum.splits)
    show ?thesis
      by (rule operate_pass_effect [OF p assms(3) wt]) (use that res wt in auto)
  next
    case 2
    then obtain res1 where p: "operate_reject u r a w = (res1, w')"
      and res: "res = map_sum id (\<lambda>(d, a'). (Some d, au\<lparr>au_audit := Some a'\<rparr>)) res1"
      using run by (auto simp: bindM_run split: prod.splits sum.splits)
    show ?thesis
      by (rule operate_close_effect [OF disjI1 [OF p] assms(3) opn]) (use that(4) res in auto)
  next
    case 3
    then obtain res1 where p: "operate_abort u r a w = (res1, w')"
      and res: "res = map_sum id (\<lambda>(d, a'). (Some d, au\<lparr>au_audit := Some a'\<rparr>)) res1"
      using run by (auto simp: bindM_run split: prod.splits sum.splits)
    show ?thesis
      by (rule operate_close_effect [OF disjI2 [OF p] assms(3) opn]) (use that(4) res in auto)
  next
    case 4
    with run that(2) show ?thesis by auto
  qed
qed

text \<open>What it keeps of the invariant.\<close>

lemma saved_record_linv:
  assumes "saved_record a b w w'" and "linv C w" and "a \<in> set (tbl_rows (w_audits w))"
  shows "linv_but C (wa_workflow_id a) w'" and "b \<in> set (tbl_rows (w_audits w'))"
    and "wa_workflow_type a \<noteq> SQL_REVIEW \<or> wa_current_status b = wa_current_status a \<Longrightarrow> linv C w'"
proof -
  let ?v = "w\<lparr>w_audits := tbl_save wa_audit_id b (w_audits w)\<rparr>"
  have v: "sview w' = sview ?v" using assms(1) by (simp add: saved_record_def sview_def)
  have s: "wa_audit_id b = wa_audit_id a" "audit_key b = audit_key a" "audit_ok b" "\<not> closed a"
    using assms(1) by (simp_all add: saved_record_def)
  note as = audit_saved [OF assms(2,3) s]
  show "linv_but C (wa_workflow_id a) w'" using as(1) linv_but_sview [OF v] by simp
  show "wa_workflow_type a \<noteq> SQL_REVIEW \<or> wa_current_status b = wa_current_status a \<Longrightarrow> linv C w'"
    using as(2) linv_sview [OF v] by simp
  show "b \<in> set (tbl_rows (w_audits w'))" using v by (simp add: sview_def set_rows_tbl_save)
qed

section \<open>Creating a record\<close>

definition rows_in :: "workflow_audit set \<Rightarrow> world \<Rightarrow> bool" where
  "rows_in R w = (R \<subseteq> set (tbl_rows (w_audits w)))"

lemma keeps_rows_workflow_save: "keeps (rows_in R) (workflow_save x)"
  by (simp add: keeps_def rows_in_def workflow_save_snd)

lemma keeps_rows_add_log: "keeps (rows_in R) (add_log i ty desc info u d)"
  by (simp add: keeps_def rows_in_def add_log_run)

lemma keeps_rows_audit_save: "wa_audit_id a = 0 \<Longrightarrow> keeps (rows_in R) (audit_save a)"
  by (auto simp: keeps_def rows_in_def audit_save_def Let_def tbl_create_def)

lemma keeps_rows_create_audit: "keeps (rows_in R) (create_audit compile_re au)"
  unfolding create_audit_def submit_log_def Let_def
  by (intro keeps_intros keeps_rows_workflow_save keeps_rows_add_log keeps_rows_audit_save)
    (simp_all add: first_waiting_def)

text \<open>The orders and timers a submission of another kind leaves alone.\<close>

definition orders_are :: "sql_workflow table \<times> schedule table \<Rightarrow> world \<Rightarrow> bool" where
  "orders_are V w = ((w_workflows w, w_schedules w) = V)"

lemma keeps_orders_workflow_save: "workflow_type_of x \<noteq> SQL_REVIEW \<Longrightarrow> keeps (orders_are V) (workflow_save x)"
  by (cases x) (auto simp: keeps_def orders_are_def Let_def)

lemma keeps_orders_add_log: "keeps (orders_are V) (add_log i ty desc info u d)"
  by (simp add: keeps_def orders_are_def add_log_run)

lemma keeps_orders_audit_save: "keeps (orders_are V) (audit_save a)"
  by (auto simp: keeps_def orders_are_def audit_save_def Let_def)

lemma workflow_type_set [simp]: "workflow_type_of (set_audit_auth_groups s x) = workflow_type_of x"
  by (cases x) simp_all

lemma keeps_orders_create_audit:
  "workflow_type_of (au_workflow au) \<noteq> SQL_REVIEW \<Longrightarrow> keeps (orders_are V) (create_audit compile_re au)"
  unfolding create_audit_def submit_log_def Let_def
  by (intro keeps_intros keeps_orders_workflow_save keeps_orders_add_log keeps_orders_audit_save) simp

lemma create_audit_linv:
  assumes "linv C w" and "workflow_type_of (au_workflow au) \<noteq> SQL_REVIEW" and "au_audit au = None"
  shows "linv C (snd (create_audit compile_re au w))"
proof -
  let ?w' = "snd (create_audit compile_re au w)"
  have ok: "audits_ok (w_audits ?w')"
    using create_audit_keeps [OF _ assms(3)] assms(1) by (simp add: linv_def shape_def)
  have grow: "set (tbl_rows (w_audits w)) \<subseteq> set (tbl_rows (w_audits ?w'))"
    using keepsD [OF keeps_rows_create_audit, of "set (tbl_rows (w_audits w))" w] by (simp add: rows_in_def)
  have "w_workflows ?w' = w_workflows w" "w_schedules ?w' = w_schedules w"
    using keepsD [OF keeps_orders_create_audit [OF assms(2)], of "(w_workflows w, w_schedules w)" w]
    by (simp_all add: orders_are_def)
  then have "sview ?w' = sview (w\<lparr>w_audits := w_audits ?w'\<rparr>)" by (simp add: sview_def)
  with audits_grow [OF assms(1) ok grow] linv_sview show ?thesis by blast
qed

text \<open>An existing record makes the submission fail before any write.\<close>

lemma create_audit_refused: "au_audit au = Some a \<Longrightarrow> create_audit compile_re au w =
    (Inl (AuditException ''the work order is already under review''), w)"
  by (simp add: create_audit_def bindM_run thenM_run)

lemma create_audit_linv':
  assumes "linv C w" and "workflow_type_of (au_workflow au) \<noteq> SQL_REVIEW"
  shows "linv C (snd (create_audit compile_re au w))"
  using create_audit_linv [OF assms] create_audit_refused assms(1) by (cases "au_audit au") auto

lemma create_audit_keeps_linv:
  "workflow_type_of (au_workflow au) \<noteq> SQL_REVIEW \<Longrightarrow> keeps (linv C) (create_audit compile_re au)"
  using create_audit_linv' by (simp add: keeps_def)

text \<open>A release of SQL: its order exists, the record is new.\<close>

lemma create_audit_sql:
  assumes "create_audit compile_re au w = (Inr (m, au'), w')" and "au_workflow au = WSql x"
    and "au_workflow_type au = SQL_REVIEW" and "au_audit au = None" and "linv_but C (sw_id x) w" and "sw_id x \<noteq> 0"
    and "sw_status x = workflow_manreviewing"
  shows "\<exists>y a. au_workflow au' = WSql y \<and> au_audit au' = Some a \<and> sw_id y = sw_id x
    \<and> sw_status y = workflow_manreviewing \<and> wa_current_status a \<noteq> ABORTED
    \<and> a \<in> set (tbl_rows (w_audits w')) \<and> audit_key a = (sw_id x, SQL_REVIEW) \<and> linv_but C (sw_id x) w'"
proof -
  from create_audit_Inr [OF assms(1)] obtain s wo w1 a w2 l
    where s: "generate_audit_setting compile_re w au = Inr s"
      and wo: "workflow_save (set_audit_auth_groups (audit_auth_group_in_db s) (au_workflow au)) w = (Inr wo, w1)"
      and a: "audit_save (decided s (fresh_audit au wo (audit_auth_group_in_db s))) w1 = (Inr a, w2)"
      and w': "w' = w2\<lparr>w_logs := tbl_create set_wl_id l (w_logs w2)\<rparr>"
      and au': "au' = au\<lparr>au_workflow := wo, au_audit := Some a\<rparr>" by metis
  let ?y = "x\<lparr>sw_audit_auth_groups := audit_auth_group_in_db s\<rparr>"
  from wo assms(2,6) have wo': "wo = WSql ?y" and w1: "w1 = w\<lparr>w_workflows := tbl_save sw_id ?y (w_workflows w)\<rparr>"
    by auto
  have ok: "audits_ok (w_audits w')" using create_audit_keeps [of w au] assms(1,4,5)
    by (metis linv_but_def shape_def snd_conv)
  have grow: "set (tbl_rows (w_audits w)) \<subseteq> set (tbl_rows (w_audits w'))"
    using keepsD [OF keeps_rows_create_audit, of "set (tbl_rows (w_audits w))" w compile_re au] assms(1)
    by (simp add: rows_in_def)
  from a have a': "a \<in> set (tbl_rows (w_audits w2))" "wa_workflow_id a = sw_id x" "wa_workflow_type a = SQL_REVIEW"
      "wa_current_status a \<noteq> ABORTED" "w_workflows w2 = w_workflows w1" "w_schedules w2 = w_schedules w1"
    using wo' assms(3)
    by (auto simp: audit_save_def Let_def decided_def first_waiting_def tbl_created_def tbl_create_def
        fresh_audit_def new_WorkflowAudit_def split: if_splits)
  have wfs: "w_workflows w' = tbl_save sw_id ?y (w_workflows w)" "w_schedules w' = w_schedules w"
    using w' a'(5,6) w1 by simp_all
  have nx: "1 \<le> tbl_next (tbl_save sw_id ?y (w_workflows w))"
    using assms(5) by (auto simp: linv_but_def shape_def tbl_save_def)
  have cl: "closed_in C (w_audits w')"
    using assms(5) closed_in_mono [OF _ grow] by (simp add: linv_but_def shape_def)
  have sh: "shape C w'"
    using assms(5) cl ok nx sw.wf_save [of "w_workflows w" ?y] assms(6)
    by (auto simp: linv_but_def shape_def set_rows_tbl_save wfs)
  have "agrees_in (w_audits w') z" if "z \<in> set (tbl_rows (w_workflows w'))" "sw_id z \<noteq> sw_id x" for z
    using that assms(5) agrees_in_mono [OF _ grow] by (auto simp: linv_but_def set_rows_tbl_save wfs)
  with sh have "linv_but C (sw_id x) w'" by (simp add: linv_but_def)
  with au' wo' a' w' assms(7) show ?thesis by (simp add: audit_key_def)
qed

section \<open>Reviewing\<close>

lemma keeps_view_async [keeps_intros]: "keeps (view_is V) (async_task j)"
  by (auto simp: async_task_def keeps_def view_is_def sview_def)

lemma keeps_view_ac [keeps_intros]: "keeps (view_is V) (save_ac_fields i f)"
  by (auto simp: save_ac_fields_def keeps_def view_is_def sview_def split: sum.splits)

lemma keeps_view_add_log [keeps_intros]: "keeps (view_is V) (add_log i ty desc info u d)"
  by (simp add: keeps_def view_is_def sview_def add_log_run)

lemma keeps_view_save [keeps_intros]:
  "workflow_type_of x \<noteq> SQL_REVIEW \<Longrightarrow> keeps (view_is V) (workflow_save x)"
  by (cases x) (auto simp: keeps_def view_is_def sview_def Let_def)

lemma keeps_view_grant [keeps_intros]: "keeps (view_is V) (grant g)"
  by (auto simp: keeps_def view_is_def sview_def grant_def grant_one_def split: sum.splits)

lemma keeps_view_call_back [keeps_intros]: "keeps (view_is V) (query_apply_audit_call_back i st)"
  unfolding query_apply_audit_call_back_def apply_save_def
  by (intro keeps_intros) simp_all

lemma keeps_acting_user: "keeps P (acting_user u e)"
  unfolding acting_user_def validation_def by (intro keeps_intros)

text \<open>The state between the operation and the settlement of the order.\<close>

definition operated_state :: "record_name set \<Rightarrow> workflow \<Rightarrow> auditor \<Rightarrow> world \<Rightarrow> bool" where
  "operated_state C wo au w = (\<exists>b. au_audit au = Some b \<and> au_workflow au = wo
     \<and> b \<in> set (tbl_rows (w_audits w)) \<and> wa_workflow_type b = workflow_type_of wo
     \<and> wa_workflow_id b = workflow_pk wo \<and> linv_but C (workflow_pk wo) w
     \<and> (case wo of WSql x \<Rightarrow> x \<in> set (tbl_rows (w_workflows w)) | _ \<Rightarrow> linv C w)
     \<and> (wa_current_status b = WAITING \<longrightarrow> linv C w))"

text \<open>The auditor of a stored record.\<close>

definition auditor_at :: "workflow_audit \<Rightarrow> auditor \<Rightarrow> world \<Rightarrow> bool" where
  "auditor_at a au w = (a \<in> set (tbl_rows (w_audits w)) \<and> wa_audit_id a \<noteq> 0 \<and> au_audit au = Some a
     \<and> wa_workflow_type a = workflow_type_of (au_workflow au) \<and> wa_workflow_id a = workflow_pk (au_workflow au)
     \<and> (case au_workflow au of WSql x \<Rightarrow> x \<in> set (tbl_rows (w_workflows w)) | _ \<Rightarrow> True))"

lemma audit_get_workflow_Inr:
  assumes "audit_get_workflow w a = Inr wo"
  shows "wa_workflow_type a = workflow_type_of wo \<and> wa_workflow_id a = workflow_pk wo
    \<and> (case wo of WSql x \<Rightarrow> x \<in> set (tbl_rows (w_workflows w)) | _ \<Rightarrow> True)"
  using assms
  by (auto simp: audit_get_workflow_def elim!: bindE_InrE dest!: tbl_get_Inr split: workflow_type.splits)

lemma auditor_at_record:
  assumes "linv C w" and "a \<in> set (tbl_rows (w_audits w))" and "get_auditor_of_audit w a = Inr au"
  shows "auditor_at a au w"
proof -
  have "audit_get_workflow w a = Inr (au_workflow au)"
    using assms(3) by (auto simp: get_auditor_of_audit_def AuditV2_def elim!: bindE_InrE split: workflow.splits sum.splits if_splits)
  from audit_get_workflow_Inr [OF this] get_auditor_audit [OF assms(3)] assms(1,2) show ?thesis
    by (auto simp: auditor_at_def linv_def shape_def audits_ok_def list_all_iff)
qed

lemma operate_triple:
  assumes "act \<in> {PASS, REJECT, ABORT}"
  shows "triple (\<lambda>w. linv C w \<and> auditor_at a au w) (operate act u r au)
    (\<lambda>(d, au') w. operated_state C (au_workflow au) au' w) (linv C)"
proof (rule tripleI)
  fix w e w' assume P: "linv C w \<and> auditor_at a au w" and run: "operate act u r au w = (Inl e, w')"
  then have a: "au_audit au = Some a" "wa_audit_id a \<noteq> 0" "a \<in> set (tbl_rows (w_audits w))"
    by (simp_all add: auditor_at_def)
  from operate_effect [OF run a(1,2)] show "linv C w'"
    using P saved_record_linv(3) [OF _ conjunct1 [OF P] a(3)] by cases auto
next
  fix w x w' assume P: "linv C w \<and> auditor_at a au w" and run: "operate act u r au w = (Inr x, w')"
  then have a: "au_audit au = Some a" "wa_audit_id a \<noteq> 0" "a \<in> set (tbl_rows (w_audits w))"
    by (simp_all add: auditor_at_def)
  from operate_effect [OF run a(1,2)] assms obtain d b
    where x: "x = (Some d, au\<lparr>au_audit := Some b\<rparr>)" and sv: "saved_record a b w w'" by cases auto
  note l = saved_record_linv [OF sv conjunct1 [OF P] a(3)]
  have k: "wa_workflow_type b = wa_workflow_type a" "wa_workflow_id b = wa_workflow_id a" "w_workflows w' = w_workflows w"
    using sv by (simp_all add: saved_record_def audit_key_def sview_def)
  have "wa_current_status b = WAITING \<Longrightarrow> linv C w'" using l(3) sv by (simp add: saved_record_def)
  with l k P x show "(case x of (d, au') \<Rightarrow> operated_state C (au_workflow au) au') w'"
    by (cases "au_workflow au") (auto simp: operated_state_def auditor_at_def)
qed

lemma save_sw_fields_settles:
  assumes "\<And>y. sw_id (f y) = sw_id y" and "\<And>y. sw_status (f y) = st"
  shows "triple (\<lambda>w. linv_but C i w \<and> x \<in> set (tbl_rows (w_workflows w)) \<and> sw_id x = i
      \<and> (\<exists>b \<in> set (tbl_rows (w_audits w)). audit_key b = (i, SQL_REVIEW) \<and> agree (wa_current_status b) st))
    (save_sw_fields i f) (\<lambda>_. linv C) E"
proof (rule tripleI)
  fix w r w' assume P: "linv_but C i w \<and> x \<in> set (tbl_rows (w_workflows w)) \<and> sw_id x = i
      \<and> (\<exists>b \<in> set (tbl_rows (w_audits w)). audit_key b = (i, SQL_REVIEW) \<and> agree (wa_current_status b) st)"
    and "save_sw_fields i f w = (Inr r, w')"
  then have w': "w' = w\<lparr>w_workflows := tbl_update (\<lambda>x. sw_id x = i) f (w_workflows w)\<rparr>"
    by (auto simp: save_sw_fields_def tbl_save_fields_def split: if_splits sum.splits)
  show "linv C w'"
    unfolding w' using P assms by (intro settle_update) (auto simp: agrees_in_def)
qed (auto simp: save_sw_fields_def tbl_save_fields_def list_ex_iff split: if_splits)

lemma del_schedule_but:
  assumes "linv_but C i w"
  shows "\<exists>t. with_schedules (del_schedule n) w = (Inr (), w\<lparr>w_schedules := t\<rparr>) \<and> linv_but C i (w\<lparr>w_schedules := t\<rparr>)"
proof -
  have "wf_schedules (w_schedules w)" using assms by (simp add: linv_but_def shape_def)
  then obtain t where "del_schedule n (w_schedules w) = Inr t" "wf_schedules t" using st.del_ok by blast
  with assms show ?thesis by (auto simp: with_schedules_def linv_but_def shape_def)
qed

lemma settle_abort:
  "triple (\<lambda>w. linv_but C (sw_id x) w \<and> x \<in> set (tbl_rows (w_workflows w)) \<and> sw_id x = sw_id x
      \<and> (\<exists>b \<in> set (tbl_rows (w_audits w)). audit_key b = (sw_id x, SQL_REVIEW) \<and> agree (wa_current_status b) workflow_abort))
    (thenM (if sw_status x = workflow_timingtask then with_schedules (del_schedule (timing_name (sw_id x))) else ret ())
       (save_sw_fields (sw_id x) (\<lambda>y. y\<lparr>sw_status := workflow_abort\<rparr>))) (\<lambda>_. linv C) (linv C)"
  (is "triple ?P _ _ _")
proof (rule triple_then [OF triple_if save_sw_fields_settles])
  show "triple ?P (with_schedules (del_schedule (timing_name (sw_id x)))) (\<lambda>_. ?P) (linv C)"
  proof (rule tripleI)
    fix w e w' assume "?P w" "with_schedules (del_schedule (timing_name (sw_id x))) w = (Inl e, w')"
    with del_schedule_but [of C "sw_id x" w "timing_name (sw_id x)"] show "linv C w'" by auto
  next
    fix w u w' assume P: "?P w" and "with_schedules (del_schedule (timing_name (sw_id x))) w = (Inr u, w')"
    with del_schedule_but [of C "sw_id x" w "timing_name (sw_id x)"]
    obtain t where "w' = w\<lparr>w_schedules := t\<rparr>" "linv_but C (sw_id x) w'" by auto
    with P show "?P w'" by simp
  qed
qed (simp_all add: triple_def)

lemma settle_order_triple:
  "triple (\<lambda>w. operated_state C wo au w \<and> record_of au = Inr b) (settle_order au b) (\<lambda>_. linv C) (linv C)"
proof (cases "au_workflow au = wo \<and> au_audit au = Some b")
  case False
  then show ?thesis by (auto simp: triple_def operated_state_def record_of_def split: option.splits)
next
  case True
  show ?thesis
  proof (cases wo)
    case (WSql x)
    let ?P = "\<lambda>st w. linv_but C (sw_id x) w \<and> x \<in> set (tbl_rows (w_workflows w)) \<and> sw_id x = sw_id x
      \<and> (\<exists>b \<in> set (tbl_rows (w_audits w)). audit_key b = (sw_id x, SQL_REVIEW) \<and> agree (wa_current_status b) st)"
    have pre: "agree (wa_current_status b) st \<Longrightarrow> operated_state C wo au w \<and> record_of au = Inr b \<Longrightarrow> ?P st w" for st w
      using True WSql by (auto simp: operated_state_def audit_key_def)
    have s: "settle_order au b = (if wa_current_status b = PASSED
         then save_sw_fields (sw_id x) (\<lambda>y. y\<lparr>sw_status := workflow_review_pass\<rparr>)
         else if wa_current_status b \<in> set [ABORTED, REJECTED]
         then thenM (if sw_status x = workflow_timingtask
                     then with_schedules (del_schedule (timing_name (sw_id x))) else ret ())
                (save_sw_fields (sw_id x) (\<lambda>y. y\<lparr>sw_status := workflow_abort\<rparr>))
         else ret ())" using True WSql by (simp add: settle_order_def)
    show ?thesis
    proof (cases "wa_current_status b")
      case WAITING
      with True s show ?thesis by (auto simp: triple_def operated_state_def)
    next
      case PASSED
      with s have "settle_order au b = save_sw_fields (sw_id x) (\<lambda>y. y\<lparr>sw_status := workflow_review_pass\<rparr>)" by simp
      with save_sw_fields_settles [of "\<lambda>y. y\<lparr>sw_status := workflow_review_pass\<rparr>" workflow_review_pass C "sw_id x" x "linv C"]
      show ?thesis using triple_pre [OF _ pre [of workflow_review_pass]] PASSED by simp
    next
      case REJECTED
      then show ?thesis using triple_pre [OF settle_abort pre [of workflow_abort]] s by simp
    next
      case ABORTED
      then show ?thesis using triple_pre [OF settle_abort pre [of workflow_abort]] s by simp
    qed
  next
    case (WQuery x)
    then have "keeps (linv C) (settle_order au b)"
      using True by (simp add: settle_order_def keeps_linv keeps_view_call_back)
    from triple_keepsI [OF this] show ?thesis by (rule triple_pre) (use WQuery in \<open>auto simp: operated_state_def\<close>)
  next
    case (WArchive x)
    then have "keeps (linv C) (settle_order au b)"
      using True by (simp add: settle_order_def keeps_linv keeps_view_ac)
    from triple_keepsI [OF this] show ?thesis by (rule triple_pre) (use WArchive in \<open>auto simp: operated_state_def\<close>)
  qed
qed

lemma requested_action_kinds:
  "requested_action q u au w = Inr act \<Longrightarrow> act \<in> {PASS, REJECT, ABORT}"
  by (auto simp: requested_action_def elim!: bindE_InrE split: if_splits)

lemma audit_of_rows: "invalid_if_missing m (audit_of w i ty) = Inr a \<Longrightarrow>
    a \<in> set (tbl_rows (w_audits w)) \<and> wa_workflow_id a = i \<and> wa_workflow_type a = ty"
  by (auto simp: invalid_if_missing_def audit_of_def dest!: tbl_get_Inr split: sum.splits if_splits)

lemma operate_catch_triple:
  assumes "act \<in> {PASS, REJECT, ABORT}"
  shows "triple (\<lambda>w. linv C w \<and> auditor_at a au w)
    (catchM (operate act u r au) (\<lambda>e. if is_AuditException e then Some (validation (m e)) else None))
    (\<lambda>(d, au') w. operated_state C (au_workflow au) au' w) (linv C)"
  by (rule triple_catch [OF operate_triple [OF assms]])
    (auto simp: validation_def triple_def split: if_splits)

lemma AuditWorkflow_post_keeps: "keeps (linv C) (AuditWorkflow_post ru q)"
proof (rule keeps_tripleI)
  have tail: "triple (linv C) (bindM (liftM (\<lambda>w. is_notified w m)) (\<lambda>n.
       thenM (if n then async_task j else ret ()) (ret r))) (\<lambda>_. linv C) (linv C)" for m j r
    by (rule triple_keepsI) (intro keeps_linv keeps_intros)
  show "triple (linv C) (AuditWorkflow_post ru q) (\<lambda>_. linv C) (linv C)"
    unfolding AuditWorkflow_post_def
    apply (rule triple_guard, assumption)
    apply (rule triple_step_then, rule keeps_liftM, assumption)
    apply (rule triple_read, assumption)
    apply (rule triple_read, simp)
    apply (rule triple_step, rule keeps_acting_user, simp)
    apply (rule triple_read, simp)
    apply (rule triple_known [where F = "_ \<in> {PASS, REJECT, ABORT}"], erule conjunct2 [THEN requested_action_kinds])
    apply (rule triple_bind [OF triple_pre [OF operate_catch_triple]], assumption)
     apply (blast intro: auditor_at_record dest: audit_of_rows)
    apply (simp only: split_beta)
    apply (rule triple_read_ok, force simp: operated_state_def record_of_def)
    apply (rule triple_then, rule settle_order_triple)
    by (rule tail)
qed

section \<open>Running, timing, changing\<close>

lemma keeps_require [keeps_intros]: "keeps P (require f m)"
  unfolding require_def by (intro keeps_intros)

lemma keeps_log_step [keeps_intros]: "keeps (view_is V) (log_step i ty desc info u)"
  unfolding log_step_def by (intro keeps_intros)

lemma with_schedules_keeps:
  assumes "\<And>t. wf_schedules t \<Longrightarrow> \<exists>t'. f t = Inr t' \<and> wf_schedules t'"
  shows "keeps (linv C) (with_schedules f)"
  unfolding keeps_def
proof (intro allI impI)
  fix w assume "linv C w"
  then have "wf_schedules (w_schedules w)" by (simp add: linv_def shape_def)
  from assms [OF this] obtain t' where "f (w_schedules w) = Inr t'" "wf_schedules t'" by blast
  with \<open>linv C w\<close> show "linv C (snd (with_schedules f w))" by (simp add: with_schedules_def linv_def shape_def)
qed

lemma del_schedule_keeps: "keeps (linv C) (with_schedules (del_schedule n))"
  by (rule with_schedules_keeps) (rule st.del_ok)

lemma add_schedule_keeps: "keeps (linv C) (with_schedules (add_sql_schedule n d i))"
  unfolding add_sql_schedule_def by (rule with_schedules_keeps) (rule st.put_ok)

text \<open>A move among the statuses of passed orders, or one that leaves the status alone.\<close>

lemma save_sw_fields_moves:
  assumes "\<And>x. sw_id (f x) = sw_id x"
    and "\<And>x. P x \<Longrightarrow> sw_status (f x) = sw_status x \<or> agree PASSED (sw_status x) \<and> agree PASSED (sw_status (f x))"
  shows "triple (\<lambda>w. linv C w \<and> (\<forall>x \<in> set (tbl_rows (w_workflows w)). sw_id x = i \<longrightarrow> P x))
    (save_sw_fields i f) (\<lambda>_. linv C) (linv C)"
proof (rule tripleI)
  fix w r w' assume P: "linv C w \<and> (\<forall>x \<in> set (tbl_rows (w_workflows w)). sw_id x = i \<longrightarrow> P x)"
    and "save_sw_fields i f w = (Inr r, w')"
  then have "w' = w\<lparr>w_workflows := tbl_update (\<lambda>x. sw_id x = i) f (w_workflows w)\<rparr>"
    by (auto simp: save_sw_fields_def tbl_save_fields_def split: if_splits sum.splits)
  with passed_moves [of C w f i] P assms show "linv C w'" by blast
qed (auto simp: save_sw_fields_def tbl_save_fields_def split: if_splits)

lemma set_sql_status_eq: "set_sql_status i st = save_sw_fields i (\<lambda>x. x\<lparr>sw_status := st\<rparr>)"
  by (rule ext) (simp add: set_sql_status_def save_sw_fields_def)

text \<open>What the rights to run and to time an order say of its status.\<close>

lemma order_of:
  "linv C w \<Longrightarrow> x \<in> set (tbl_rows (w_workflows w)) \<Longrightarrow> workflow_get w (sw_id x) = Inr x"
  using sw.get_pk_unique [of "w_workflows w" x "''SqlWorkflow''"] by (simp add: workflow_get_def linv_def shape_def)

text \<open>The orders of one key have a status that goes with a passed record.\<close>

definition order_passed :: "int \<Rightarrow> world \<Rightarrow> bool" where
  "order_passed i w = (\<forall>x \<in> set (tbl_rows (w_workflows w)). sw_id x = i \<longrightarrow> agree PASSED (sw_status x))"

lemma order_passedI:
  "linv C w \<Longrightarrow> workflow_get w i = Inr x \<Longrightarrow> agree PASSED (sw_status x) \<Longrightarrow> order_passed i w"
  using order_of by (fastforce simp: order_passed_def)

lemma can_execute_passed: "linv C w \<Longrightarrow> can_execute w u i = Inr True \<Longrightarrow> order_passed i w"
  by (erule can_execute_True) (auto intro: order_passedI)

lemma can_timingtask_passed:
  "linv C w \<Longrightarrow> can_timingtask w u i = Inr True \<Longrightarrow> order_passed i w"
  by (auto simp: can_timingtask_def elim!: bindE_InrE intro: order_passedI split: if_splits)

lemma triple_require:
  assumes "\<And>s. P s \<Longrightarrow> E s" and "triple (\<lambda>w. P w \<and> f w = Inr True) k Q E"
  shows "triple P (thenM (require f m) k) Q E"
  using assms
  by (auto simp: triple_def require_def thenM_run bindM_run split: prod.splits sum.splits if_splits)

lemma passed_move:
  assumes "agree PASSED st" and "\<And>x. sw_id (f x) = sw_id x" and "\<And>x. sw_status (f x) = st"
  shows "triple (\<lambda>w. linv C w \<and> order_passed i w) (save_sw_fields i f) (\<lambda>_. linv C) (linv C)"
  by (rule triple_pre [OF save_sw_fields_moves [where P = "\<lambda>x. agree PASSED (sw_status x)"]])
    (use assms in \<open>auto simp: order_passed_def\<close>)

lemma run_release_keeps: "keeps (linv C) (run_release ru q)"
proof (rule keeps_tripleI)
  let ?i = "xq_workflow_id q"
  have auto: "triple (\<lambda>w. linv C w \<and> order_passed ?i w) (thenM (set_sql_status ?i workflow_queuing)
           (thenM (with_schedules (del_schedule (timing_name ?i)))
           (thenM (async_task (execute_job ?i u))
           (thenM (log_step aid 5 ''execute'' ''queued for execution'' u) (ret False))))) (\<lambda>_. linv C) (linv C)" for u aid
    unfolding set_sql_status_eq
    by (rule triple_then [OF passed_move [where st = workflow_queuing] triple_keepsI])
      (simp_all, intro keeps_intros keeps_linv [OF keeps_view_async] keeps_linv [OF keeps_log_step] del_schedule_keeps)
  have manual: "triple (\<lambda>w. linv C w \<and> order_passed ?i w) (thenM (bindM (getsM w_now) (\<lambda>now. save_sw_fields ?i
              (\<lambda>x. x\<lparr>sw_status := workflow_finish, sw_finish_time := Some now\<rparr>)))
           (thenM (log_step aid 6 ''manual'' ''manual execution confirmed'' u)
             (liftM (\<lambda>w. is_notified w ''Execute'')))) (\<lambda>_. linv C) (linv C)" for u aid
    apply (rule triple_then [OF triple_gets [OF triple_pre [OF passed_move [where st = workflow_finish]]] triple_keepsI])
       apply simp_all
    by (intro keeps_intros keeps_linv [OF keeps_log_step])
  show "triple (linv C) (run_release ru q) (\<lambda>_. linv C) (linv C)"
    unfolding run_release_def Let_def
    apply (rule triple_step, rule keeps_acting_user, assumption)
    apply (rule triple_guard, assumption)
    apply (rule triple_require, assumption)
    apply (rule triple_pre [where P' = "\<lambda>w. linv C w \<and> order_passed ?i w"])
     apply (rule triple_require, simp)
     apply (rule triple_read, simp)
     apply (rule triple_if)
      apply (rule triple_pre [OF auto], simp)
     apply (rule triple_if)
      apply (rule triple_pre [OF manual], simp)
     apply (rule triple_ret, simp)
    using can_execute_passed by blast
qed

lemma run_archive_keeps: "keeps (linv C) (run_archive ru q)"
  unfolding run_archive_def by (intro keeps_linv keeps_intros)

lemma ExecuteWorkflow_post_keeps: "keeps (linv C) (ExecuteWorkflow_post ru q)"
  unfolding ExecuteWorkflow_post_def validation_def
  by (intro keeps_intros run_release_keeps run_archive_keeps)

lemma triple_workflow_save_passed:
  assumes "sw_id x \<noteq> 0" and "agree PASSED (sw_status x)"
  shows "triple (\<lambda>w. linv C w \<and> order_passed (sw_id x) w \<and> y \<in> set (tbl_rows (w_workflows w)) \<and> sw_id y = sw_id x)
    (bindM (workflow_save (WSql x)) (\<lambda>_. ret ())) (\<lambda>_. linv C) (linv C)"
proof (rule tripleI)
  fix w u w' assume P: "linv C w \<and> order_passed (sw_id x) w \<and> y \<in> set (tbl_rows (w_workflows w)) \<and> sw_id y = sw_id x"
    and "(bindM (workflow_save (WSql x)) (\<lambda>_. ret ())) w = (Inr u, w')"
  then have w': "w' = w\<lparr>w_workflows := tbl_save sw_id x (w_workflows w)\<rparr>"
    using assms(1) by (auto simp: bindM_run)
  from P obtain a where "a \<in> set (tbl_rows (w_audits w))" "audit_key a = (sw_id x, SQL_REVIEW)"
    "agree (wa_current_status a) (sw_status y)" "agree PASSED (sw_status y)"
    by (auto simp: linv_def agrees_in_def order_passed_def)
  moreover from this have "wa_current_status a = PASSED" using agree_passed by blast
  ultimately have "agrees_in (w_audits w) x" using assms(2) unfolding agrees_in_def by metis
  with settle_save [OF linv_but] P assms(1) w' show "linv C w'" by blast
qed (use assms(1) in \<open>auto simp: bindM_run\<close>)

lemma invalid_on_error_triple:
  "triple P m Q E \<Longrightarrow> triple P (invalid_on_error m) Q E"
  unfolding invalid_on_error_def
  by (rule triple_catch) (auto simp: validation_def triple_def)

lemma AlterRunDate_post_keeps: "keeps (linv C) (AlterRunDate_post u i d1 d2)"
proof -
  have "keeps (linv C) (save_sw_fields i (\<lambda>x. x\<lparr>sw_run_date_start := d1, sw_run_date_end := d2\<rparr>))"
    by (rule keeps_tripleI, rule triple_pre [OF save_sw_fields_moves [where P = "\<lambda>_. True"]]) auto
  then have "keeps (linv C) (invalid_on_error (save_sw_fields i (\<lambda>x. x\<lparr>sw_run_date_start := d1, sw_run_date_end := d2\<rparr>)))"
    using invalid_on_error_triple by (simp add: triple_keeps)
  then show ?thesis unfolding AlterRunDate_post_def by (intro keeps_intros)
qed

lemma timing_block:
  assumes "sw_id x \<noteq> 0" and "sw_id x = i"
  shows "triple (\<lambda>w. linv C w \<and> order_passed i w \<and> x \<in> set (tbl_rows (w_workflows w)))
    (thenM (bindM (workflow_save (WSql (x\<lparr>sw_status := workflow_timingtask\<rparr>))) (\<lambda>_. ret ()))
              (thenM (with_schedules (add_sql_schedule n d i))
              (bindM (liftM (\<lambda>w. sql_audit_id w i)) (\<lambda>aid. log_step aid 4 m (t @ str_int d) u))))
    (\<lambda>_. linv C) (linv C)"
proof (rule triple_then [OF triple_pre [OF triple_workflow_save_passed [where y = x]] triple_keepsI])
  show "keeps (linv C) (thenM (with_schedules (add_sql_schedule n d i))
              (bindM (liftM (\<lambda>w. sql_audit_id w i)) (\<lambda>aid. log_step aid 4 m (t @ str_int d) u)))"
    by (intro keeps_intros add_schedule_keeps keeps_linv [OF keeps_log_step])
qed (use assms in auto)

text \<open>A transaction whose errors become refusals.\<close>

lemma block_triple:
  assumes "triple P m Q E'" and "\<And>s. P s \<Longrightarrow> E s"
  shows "triple P (invalid_on_error (atomicM m)) Q E"
  by (intro invalid_on_error_triple triple_atomic_pre [OF assms(1)]) (rule assms(2))

lemma TimingTask_post_keeps: "keeps (linv C) (TimingTask_post u i d)"
proof (cases d)
  case None
  then show ?thesis by (simp add: TimingTask_post_def validation_def)
next
  case (Some t)
  have get: "(case workflow_get w i of Inr x \<Rightarrow> Inr x | Inl e \<Rightarrow> if is_DoesNotExist e then Inl Http404 else Inl e) = Inr x
      \<Longrightarrow> linv C w \<Longrightarrow> x \<in> set (tbl_rows (w_workflows w)) \<and> sw_id x = i \<and> sw_id x \<noteq> 0" for w x
    by (auto simp: linv_def shape_def dest!: workflow_get_Inr split: sum.splits if_splits)
  show ?thesis
    unfolding TimingTask_post_def Some option.case
    apply (rule keeps_tripleI)
    apply (rule triple_guard, assumption)
    apply (rule triple_step_then, intro keeps_intros, assumption)
    apply (rule triple_read, assumption)
    apply (rule triple_known [where F = "sw_id _ \<noteq> 0 \<and> sw_id _ = i"], blast dest: get)
    apply (rule triple_guard, simp)
    apply (rule triple_require, simp)
    apply (rule triple_require, simp)
    apply (rule block_triple)
     apply (rule triple_pre [OF timing_block])
       apply simp_all
    using get can_timingtask_passed by blast
qed

section \<open>The task that runs a release\<close>

lemma start_execution_keeps: "keeps (linv C) (start_execution i)"
  unfolding keeps_def
proof (intro allI impI)
  fix w assume l: "linv C w"
  obtain r w' where run: "start_execution i w = (r, w')" by fastforce
  show "linv C (snd (start_execution i w))"
  proof (cases r)
    case (Inl e)
    with run l start_execution_Inl show ?thesis by fastforce
  next
    case (Inr x)
    from start_execution_Inr [OF run [unfolded Inr]]
    have x: "workflow_get w i = Inr x" "agree PASSED (sw_status x)"
      and w': "w' = w\<lparr>w_workflows := tbl_update (\<lambda>x. sw_id x = i) (\<lambda>x. x\<lparr>sw_status := workflow_executing\<rparr>) (w_workflows w)\<rparr>"
      by auto
    have "linv C w'"
      unfolding w' using order_passedI [OF l x]
      by (intro passed_moves [OF l]) (auto simp: order_passed_def)
    with run show ?thesis by simp
  qed
qed

lemma execute_keeps: "keeps (linv C) (execute ew eo i u)"
  unfolding execute_def by (intro keeps_intros start_execution_keeps keeps_linv [OF keeps_view_add_log])

lemma keeps_view_content_save [keeps_intros]: "keeps (view_is V) (content_save c)"
  by (auto simp: content_save_def keeps_def view_is_def sview_def)

lemma in_execution:
  assumes "linv C w" and "workflow_get w (sw_id x) = Inr y" and "sw_status y = workflow_executing"
    and "agree PASSED (sw_status x)"
  shows "linv C (w\<lparr>w_workflows := tbl_save sw_id x (w_workflows w)\<rparr>)"
proof (rule settle_save [OF linv_but [OF assms(1)]])
  from workflow_get_Inr [OF assms(2)] assms(1) have y: "y \<in> set (tbl_rows (w_workflows w))" "sw_id y = sw_id x" by auto
  with assms(1) obtain a where a: "a \<in> set (tbl_rows (w_audits w))" "audit_key a = (sw_id x, SQL_REVIEW)"
    "agree (wa_current_status a) (sw_status y)" by (auto simp: linv_def agrees_in_def)
  then have "wa_current_status a = PASSED" using agree_passed assms(3) by simp
  with a assms(4) show "agrees_in (w_audits w) x" unfolding agrees_in_def by metis
  from y assms(1) show "sw_id x \<noteq> 0" by (auto simp: linv_def shape_def)
qed

lemma record_result_triple:
  assumes "agree PASSED (sw_status x)"
  shows "triple (\<lambda>w. linv C w \<and> workflow_get w (sw_id x) = Inr y \<and> sw_status y = workflow_executing)
    (record_result to_json x rs t) (\<lambda>_. linv C) (linv C)"
proof -
  let ?P = "\<lambda>w. linv C w \<and> workflow_get w (sw_id x) = Inr y \<and> sw_status y = workflow_executing"
  have cs: "keeps ?P (content_save c)" for c
    by (auto simp: content_save_def keeps_def linv_def shape_def workflow_get_def)
  have main: "triple ?P (bindM (liftM (\<lambda>w. to_json rs)) (\<lambda>t. bindM (liftM (\<lambda>w. content_of w (sw_id x))) (\<lambda>c.
         thenM (content_save (c\<lparr>swc_execute_result := t\<rparr>))
               (modifyM (\<lambda>w. w\<lparr>w_workflows := tbl_save sw_id x (w_workflows w)\<rparr>))))) (\<lambda>_. linv C) ?P"
    apply (rule triple_step, simp, assumption)
    apply (rule triple_step, simp, assumption)
    apply (rule triple_step_then, rule cs, assumption)
    using in_execution assms by (auto simp: triple_def)
  have handler: "triple ?P (thenM (modifyM (\<lambda>w. w\<lparr>w_workflows := tbl_update (\<lambda>y. sw_id y = sw_id x)
            (\<lambda>y. y\<lparr>sw_finish_time := Some t, sw_status := workflow_exception\<rparr>) (w_workflows w)\<rparr>))
        (bindM (liftM (\<lambda>w. content_of w (sw_id x))) (\<lambda>c. content_save (c\<lparr>swc_execute_result := p\<rparr>)))) (\<lambda>_. linv C) (linv C)" for p
  proof (rule triple_then [OF _ triple_keepsI])
    show "keeps (linv C) (bindM (liftM (\<lambda>w. content_of w (sw_id x))) (\<lambda>c. content_save (c\<lparr>swc_execute_result := p\<rparr>)))"
      by (intro keeps_linv keeps_intros)
    show "triple ?P (modifyM (\<lambda>w. w\<lparr>w_workflows := tbl_update (\<lambda>y. sw_id y = sw_id x)
            (\<lambda>y. y\<lparr>sw_finish_time := Some t, sw_status := workflow_exception\<rparr>) (w_workflows w)\<rparr>)) (\<lambda>_. linv C) (linv C)"
    proof (rule tripleI)
      fix w u w' assume P: "?P w" and "modifyM (\<lambda>w. w\<lparr>w_workflows := tbl_update (\<lambda>y. sw_id y = sw_id x)
            (\<lambda>y. y\<lparr>sw_finish_time := Some t, sw_status := workflow_exception\<rparr>) (w_workflows w)\<rparr>) w = (Inr u, w')"
      then have w': "w' = w\<lparr>w_workflows := tbl_update (\<lambda>y. sw_id y = sw_id x)
            (\<lambda>y. y\<lparr>sw_finish_time := Some t, sw_status := workflow_exception\<rparr>) (w_workflows w)\<rparr>" by simp
      have "order_passed (sw_id x) w" using P by (intro order_passedI [of C w "sw_id x" y]) auto
      then show "linv C w'"
        unfolding w' using P by (intro passed_moves) (auto simp: order_passed_def)
    qed simp
  qed
  show ?thesis
    unfolding record_result_def by (rule triple_catch [OF main]) (use handler in auto)
qed

lemma task_outcome_passed: "task_outcome task c = (st, rs) \<Longrightarrow> agree PASSED st"
  by (auto simp: task_outcome_def split: task_result.splits if_splits)

lemma finish_callback_triple:
  "triple (\<lambda>w. linv C w \<and> workflow_get w (sw_id x) = Inr x \<and> sw_status x = workflow_executing)
    (finish_callback to_json task x c) (\<lambda>_. linv C) (linv C)"
proof -
  obtain st rs where o: "task_outcome task c = (st, rs)" by fastforce
  show ?thesis
    unfolding finish_callback_def o Let_def prod.case
    apply (rule triple_then [OF triple_pre [OF record_result_triple [where y = x]] triple_keepsI])
      using task_outcome_passed [OF o] apply simp
     apply simp
    by (intro keeps_intros keeps_linv [OF keeps_view_add_log])
qed

lemma execute_callback_keeps: "keeps (linv C) (execute_callback to_json task)"
proof (rule keeps_tripleI)
  let ?P = "\<lambda>x w. linv C w \<and> workflow_get w (sw_id x) = Inr x \<and> sw_status x = workflow_executing"
  have first: "triple (linv C) (atomicM (bindM (liftM (\<lambda>w. workflow_get w (task_arg task))) (\<lambda>x.
       thenM (raise_if (sw_status x \<noteq> workflow_executing)
         (PyException ''the status of the work order is wrong, result not recorded'')) (ret x)))) ?P (linv C)"
    by (rule tripleI)
      (use workflow_get_Inr in \<open>force simp: atomicM_run bindM_run thenM_run split: sum.splits if_splits\<close>)+
  show "triple (linv C) (execute_callback to_json task) (\<lambda>_. linv C) (linv C)"
    unfolding execute_callback_def
    apply (rule triple_bind [OF first])
    apply (rule triple_step)
      apply (cases "task_value task"; simp; intro keeps_intros)
     apply simp
    by (rule finish_callback_triple)
qed

section \<open>Submitting\<close>

lemma get_auditor_WSql:
  assumes "get_auditor w (WSql x) = Inr au"
  shows "au_workflow au = WSql x" "au_workflow_type au = SQL_REVIEW"
  using assms by (auto simp: get_auditor_def AuditV2_def elim!: bindE_InrE)

text \<open>The order is stored with a fresh key and its record; only this order is still to be settled.\<close>

definition submitted_state :: "record_name set \<Rightarrow> auditor \<Rightarrow> world \<Rightarrow> bool" where
  "submitted_state C au w = (\<exists>x a. au_workflow au = WSql x \<and> au_audit au = Some a \<and> sw_id x \<noteq> 0
     \<and> sw_status x = workflow_manreviewing \<and> wa_current_status a \<noteq> ABORTED
     \<and> a \<in> set (tbl_rows (w_audits w)) \<and> audit_key a = (sw_id x, SQL_REVIEW) \<and> linv_but C (sw_id x) w)"

lemma linv_but_insert:
  assumes "linv C w"
  shows "linv_but C (tbl_next (w_workflows w)) (w\<lparr>w_workflows := tbl_create set_sw_id x (w_workflows w)\<rparr>)"
  using assms sw.wf_create [of "w_workflows w" x]
  by (auto simp: linv_def linv_but_def shape_def tbl_create_def)

lemma store_submission_Inr:
  assumes "linv C w" and "sw_id x = 0" and "sw_status x = workflow_manreviewing"
    and "store_submission compile_re x sql rs w = (Inr au', w')"
  shows "submitted_state C au' w'"
proof -
  let ?n = "tbl_next (w_workflows w)"
  let ?x = "x\<lparr>sw_create_time := w_now w\<rparr>"
  let ?w1 = "w\<lparr>w_workflows := tbl_create set_sw_id ?x (w_workflows w)\<rparr>"
  have n: "?n \<noteq> 0" using assms(1) by (simp add: linv_def shape_def)
  have ws: "workflow_save (WSql x) w = (Inr (WSql (set_sw_id ?n ?x)), ?w1)"
    using assms(2) by (simp add: Let_def tbl_created_def)
  obtain c w2 where c: "content_create ?n sql (ReviewSet_json rs) ?w1 = (Inr c, w2)" and v2: "sview w2 = sview ?w1"
    by (simp add: content_create_def sview_def)
  from assms(4) ws c obtain au m where au: "get_auditor w2 (WSql (set_sw_id ?n ?x)) = Inr au"
    and cr: "create_audit compile_re au w2 = (Inr (m, au'), w')"
    by (auto simp: store_submission_def atomicM_run bindM_run thenM_run split: sum.splits prod.splits)
  have l2: "linv_but C ?n w2" using linv_but_insert [OF assms(1)] linv_but_sview [OF v2] by blast
  have none: "au_audit au = None"
  proof (cases "au_audit au")
    case (Some a)
    with cr create_audit_refused [OF Some] show ?thesis by simp
  qed simp
  note A = get_auditor_WSql [OF au]
  from create_audit_sql [OF cr A none, of C] l2 n assms(3)
  show ?thesis by (auto simp: submitted_state_def)
qed

lemma store_submission_triple:
  assumes "sw_id x = 0" and "sw_status x = workflow_manreviewing"
  shows "triple (linv C) (store_submission compile_re x sql rs) (\<lambda>au. submitted_state C au) (linv C)"
proof (rule tripleI)
  fix w e w' assume "linv C w" "store_submission compile_re x sql rs w = (Inl e, w')"
  moreover from this have "w' = w" unfolding store_submission_def by (elim atomicM_Inl)
  ultimately show "linv C w'" by simp
qed (rule store_submission_Inr [OF _ assms])

lemma settle_submission:
  "triple (\<lambda>w. submitted_state C au w \<and> record_of au = Inr a)
    (workflow_save (submitted_status (wa_current_status a) (au_workflow au))) (\<lambda>_. linv C) (linv C)"
proof (cases "au_audit au = Some a \<and> (\<exists>x. au_workflow au = WSql x \<and> sw_id x \<noteq> 0)")
  case False
  then show ?thesis by (auto simp: triple_def submitted_state_def record_of_def)
next
  case True
  then obtain x where x: "au_audit au = Some a" "au_workflow au = WSql x" "sw_id x \<noteq> 0" by blast
  obtain y where y: "submitted_status (wa_current_status a) (WSql x) = WSql y" "sw_id y = sw_id x"
    "sw_status y = (if wa_current_status a = REJECTED then workflow_autoreviewwrong
       else if wa_current_status a = PASSED then workflow_review_pass else sw_status x)"
    by (cases "wa_current_status a") (auto simp: submitted_status_def)
  have "linv C (w\<lparr>w_workflows := tbl_save sw_id y (w_workflows w)\<rparr>)" if s: "submitted_state C au w" for w
  proof (rule settle_save)
    show "linv_but C (sw_id y) w" using s x y by (auto simp: submitted_state_def)
    have "agree (wa_current_status a) (sw_status y)"
      using s x y(3) by (cases "wa_current_status a") (auto simp: submitted_state_def)
    then show "agrees_in (w_audits w) y" using s x y(2) unfolding agrees_in_def submitted_state_def by auto
    show "sw_id y \<noteq> 0" using x y by simp
  qed
  with x y show ?thesis by (auto simp: triple_def)
qed

lemma submitted_workflow_new [simp]:
  "sw_id (submitted_workflow q rg u b rs) = 0" "sw_status (submitted_workflow q rg u b rs) = workflow_manreviewing"
  by (simp_all add: submitted_workflow_def new_SqlWorkflow_def)

lemma keeps_invalid_on_error: "keeps P m \<Longrightarrow> keeps P (invalid_on_error m)"
  unfolding invalid_on_error_def validation_def by (auto intro!: keeps_intros)

lemma WorkflowContent_create_keeps: "keeps (linv C) (WorkflowContent_create compile_re en ru q)"
  unfolding WorkflowContent_create_def
  apply (rule keeps_tripleI)
  apply (rule triple_step, intro keeps_intros, assumption)
  apply (rule triple_step, intro keeps_intros, assumption)
  apply (rule triple_step, intro keeps_intros, assumption)
  apply (rule triple_step, intro keeps_intros, assumption)
  apply (rule triple_guard, assumption)
  apply (rule triple_step, intro keeps_invalid_on_error keeps_intros, assumption)
  apply (rule triple_step, intro keeps_intros, assumption)
  apply (rule triple_step, intro keeps_intros, assumption)
  apply (rule triple_bind [OF invalid_on_error_triple [OF store_submission_triple]])
    apply (simp, simp)
  apply (rule triple_read_ok, force simp: submitted_state_def record_of_def)
  by (rule settle_submission)

lemma keeps_case_workflow [keeps_intros]:
  "(\<And>x. keeps P (f x)) \<Longrightarrow> (\<And>x. keeps P (g x)) \<Longrightarrow> (\<And>x. keeps P (h x)) \<Longrightarrow>
     keeps P (case wo of WSql x \<Rightarrow> f x | WQuery x \<Rightarrow> g x | WArchive x \<Rightarrow> h x)"
  by (cases wo) simp_all

lemma WorkflowList_post_keeps: "keeps (linv C) (WorkflowList_post compile_re en u q)"
  unfolding WorkflowList_post_def
  by (intro keeps_intros WorkflowContent_create_keeps keeps_linv [OF keeps_view_async])

section \<open>Query privileges and archives\<close>

text \<open>Reading a value and using what is known of it.\<close>

lemma keeps_read:
  assumes "\<And>x. (\<exists>w. g w = Inr x) \<Longrightarrow> keeps P (f x)"
  shows "keeps P (bindM (liftM g) f)"
  unfolding keeps_def
proof (intro allI impI)
  fix w assume "P w"
  then show "P (snd (bindM (liftM g) f w))"
    using assms [THEN keepsD] by (cases "g w") (auto simp: bindM_run)
qed

lemma submit_application_keeps: "keeps (linv C) (submit_application compile_re a)"
  unfolding submit_application_def
proof (rule keeps_read, elim exE)
  fix au w assume "get_auditor w (WQuery a) = Inr au"
  then have t: "workflow_type_of (au_workflow au) \<noteq> SQL_REVIEW" using get_auditor_WQuery(1) by simp
  show "keeps (linv C) (bindM (catchM (bindM (atomicM (create_audit compile_re au)) (\<lambda>(m, au'). ret (Some au')))
              (\<lambda>e. if is_AuditException e then Some (ret None) else None)) (\<lambda>r. case r of
         None \<Rightarrow> ret (1, ''creating the review failed'')
       | Some au' \<Rightarrow> (case au_audit au' of
             None \<Rightarrow> throw (AttributeError ''NoneType object has no attribute current_status'')
           | Some ar \<Rightarrow>
               thenM (query_apply_audit_call_back (workflow_pk (au_workflow au')) (wa_current_status ar))
               (thenM (async_task (notify_for_audit (wa_audit_id ar)
                   (''query-priv-apply-'' @ str_int (workflow_pk (au_workflow au')))))
                 (ret (0, ''ok''))))))"
    by (intro keeps_intros create_audit_keeps_linv [OF t] keeps_linv [OF keeps_view_async]
        keeps_linv [OF keeps_view_call_back]) (auto split: if_splits)
qed

lemma ApplyForPrivileges_keeps: "keeps (linv C) (ApplyForPrivileges compile_re u q)"
  unfolding ApplyForPrivileges_def by (intro keeps_intros submit_application_keeps)

lemma query_priv_apply_keeps: "keeps (linv C) (query_priv_apply compile_re u q)"
  unfolding query_priv_apply_def by (intro keeps_intros submit_application_keeps)

lemma keeps_view_set_privilege [keeps_intros]: "keeps (view_is V) (set_privilege i f)"
  by (auto simp: set_privilege_def keeps_def view_is_def sview_def split: sum.splits)

lemma ModifyPrivileges_keeps: "keeps (linv C) (ModifyPrivileges u pid ty d l)"
  unfolding ModifyPrivileges_def modify_privilege_def by (intro keeps_linv keeps_intros)

lemma query_priv_modify_keeps: "keeps (linv C) (query_priv_modify u pid ty d l)"
  unfolding query_priv_modify_def modify_privilege_def by (intro keeps_linv keeps_intros)

text \<open>A record of another kind under operation: the invariant holds throughout.\<close>

lemma auditor_of_order:
  assumes "linv C w" and "get_audit w wo = Inr (Some a)" and "au_audit au = Some a" and "au_workflow au = wo"
    and "workflow_type_of wo \<noteq> SQL_REVIEW"
  shows "a \<in> set (tbl_rows (w_audits w)) \<and> wa_audit_id a \<noteq> 0 \<and> wa_workflow_type a \<noteq> SQL_REVIEW"
proof -
  have "tbl_get ''WorkflowAudit'' (\<lambda>a. wa_workflow_type a = workflow_type_of wo \<and> wa_workflow_id a = workflow_pk wo)
      (w_audits w) = Inr a"
    using assms(2) by (auto simp: get_audit_def split: sum.splits if_splits)
  from tbl_get_Inr [OF this] assms(1,5) show ?thesis
    by (auto simp: linv_def shape_def audits_ok_def list_all_iff)
qed

lemma operate_other_linv:
  assumes "linv C w" and "au_audit au = None \<or> (\<exists>a. au_audit au = Some a \<and> a \<in> set (tbl_rows (w_audits w))
      \<and> wa_audit_id a \<noteq> 0 \<and> wa_workflow_type a \<noteq> SQL_REVIEW)"
  shows "linv C (snd (operate act u r au w))"
proof (cases "au_audit au")
  case None
  with assms(1) show ?thesis by (simp add: operate_def)
next
  case (Some a)
  with assms(2) have a: "a \<in> set (tbl_rows (w_audits w))" "wa_audit_id a \<noteq> 0" "wa_workflow_type a \<noteq> SQL_REVIEW" by auto
  obtain res w' where run: "operate act u r au w = (res, w')" by fastforce
  from operate_effect [OF run Some a(2)] have "linv C w'"
    using saved_record_linv(3) [OF _ assms(1) a(1)] a(3) assms(1) by cases auto
  with run show ?thesis by simp
qed

text \<open>The auditor read for an order of another kind.\<close>

definition other_auditor :: "auditor \<Rightarrow> world \<Rightarrow> bool" where
  "other_auditor au w = (au_audit au = None \<or> (\<exists>a. au_audit au = Some a \<and> a \<in> set (tbl_rows (w_audits w))
      \<and> wa_audit_id a \<noteq> 0 \<and> wa_workflow_type a \<noteq> SQL_REVIEW))"

lemma other_auditorI:
  assumes "linv C w" and "get_audit w wo = Inr (au_audit au)" and "au_workflow au = wo" and "workflow_type_of wo \<noteq> SQL_REVIEW"
  shows "other_auditor au w"
  using auditor_of_order [OF assms(1)] assms(2-4) by (cases "au_audit au") (auto simp: other_auditor_def)

lemma operate_other_triple:
  "triple (\<lambda>w. linv C w \<and> other_auditor au w) (operate act u r au) (\<lambda>_. linv C) (linv C)"
  using operate_other_linv [of C _ au act u r] by (fastforce simp: triple_def other_auditor_def)

lemma operate_and_call_back_triple:
  "triple (\<lambda>w. linv C w \<and> other_auditor au w) (operate_and_call_back act u r au) (\<lambda>_. linv C) (linv C)"
  unfolding operate_and_call_back_def
  apply (rule triple_bind [OF operate_other_triple])
  apply (simp only: split_beta)
  by (rule triple_keepsI) (intro keeps_intros keeps_linv [OF keeps_view_call_back])

lemma get_auditor_query_other: "linv C w \<Longrightarrow> get_auditor w (WQuery x) = Inr au \<Longrightarrow> other_auditor au w"
  using get_auditor_WQuery [of w x au] by (intro other_auditorI [of C w "WQuery x"]) auto

lemma QueryPrivAudit_keeps: "keeps (linv C) (QueryPrivAudit u i s r)"
  unfolding QueryPrivAudit_def
  apply (rule keeps_case_sum, rule keeps_ret)
  apply (rule keeps_case_prod)
  apply (rule keeps_bindM, rule keeps_getsM)
  apply (rule keeps_case_sum, intro keeps_if keeps_ret keeps_throw)
  apply (rule keeps_bindM, rule keeps_liftM)
  apply (rule keeps_if, rule keeps_ret)
  apply (rule keeps_bind_read)
  apply (rule triple_catch [where E' = "linv C"])
    apply (rule triple_bind)
     apply (rule triple_atomic_pre [OF triple_pre [OF operate_and_call_back_triple]])
      apply (use get_auditor_query_other in blast)
     apply simp
    apply (rule triple_keepsI, intro keeps_intros keeps_linv [OF keeps_view_async])
   apply (auto split: if_splits intro!: triple_keepsI keeps_intros)
  done

lemma query_priv_audit_keeps: "keeps (linv C) (query_priv_audit u i s r)"
  unfolding query_priv_audit_def
  apply (intro keeps_thenM keeps_raise_if)
  apply (rule keeps_bindM, rule keeps_liftM)
  apply (rule keeps_case_sum, rule keeps_ret)
  apply (rule keeps_bindM, rule keeps_getsM)
  apply (rule keeps_case_sum, intro keeps_if keeps_ret keeps_throw)
  apply (rule keeps_bind_read)
  apply (rule triple_bind)
   apply (rule triple_atomic_pre [where E' = "linv C"])
    apply (rule triple_bind)
     apply (rule triple_catch [where E' = "linv C"])
       apply (rule triple_bind)
        apply (rule triple_pre [OF operate_other_triple])
        apply (use get_auditor_query_other in blast)
       apply (rule triple_keepsI, intro keeps_intros)
      apply (auto split: if_splits intro!: triple_keepsI keeps_intros keeps_linv [OF keeps_view_call_back] keeps_linv [OF keeps_view_async])
  done

text \<open>Archive orders.\<close>

lemma AuditV2_archive_type: "AuditV2 w (Some (WArchive x)) None n i = Inr au \<Longrightarrow>
    au_workflow au = WArchive x \<and> get_audit w (WArchive x) = Inr (au_audit au)"
  by (auto simp: AuditV2_def elim!: bindE_InrE split: sum.splits if_splits)

lemma review_archive_triple:
  "triple (\<lambda>w. linv C w \<and> other_auditor au w) (review_archive act u r x au) (\<lambda>_. linv C) (linv C)"
  unfolding review_archive_def
  apply (rule triple_atomic_pre)
   apply (rule triple_bind [OF operate_other_triple])
   apply (simp only: split_beta)
   apply (rule triple_keepsI)
   apply (intro keeps_intros keeps_linv [OF keeps_view_save])
  by simp_all

lemma ArchiveAudit_post_keeps: "keeps (linv C) (ArchiveAudit_post u i s r)"
  unfolding ArchiveAudit_post_def
  apply (rule keeps_case_sum, rule keeps_ret)
  apply (rule keeps_bindM, rule keeps_getsM)
  apply (rule keeps_case_sum, intro keeps_if keeps_ret keeps_throw)
  apply (rule keeps_bindM, rule keeps_liftM)
  apply (rule keeps_bind_read)
  apply (rule triple_bind)
   apply (rule triple_catch [where E' = "linv C"])
     apply (rule triple_bind)
      apply (rule triple_pre [OF review_archive_triple])
      apply (use AuditV2_archive_type in \<open>force intro: other_auditorI\<close>)
     apply (auto split: if_splits intro!: triple_keepsI keeps_intros keeps_linv [OF keeps_view_async])
  done

lemma settle_archive_type [simp]: "workflow_type_of (settle_archive a wo) = workflow_type_of wo"
  by (cases wo) simp_all

lemma create_audit_workflow_type:
  assumes "create_audit compile_re au w = (Inr (m, au'), w')"
  shows "workflow_type_of (au_workflow au') = workflow_type_of (au_workflow au)"
proof -
  from create_audit_Inr [OF assms] obtain s wo w1 a
    where "workflow_save (set_audit_auth_groups (audit_auth_group_in_db s) (au_workflow au)) w = (Inr wo, w1)"
      and "au' = au\<lparr>au_workflow := wo, au_audit := Some a\<rparr>" by metis
  with workflow_save_run [of "set_audit_auth_groups (audit_auth_group_in_db s) (au_workflow au)" w]
  show ?thesis by auto
qed

lemma create_archive_triple:
  assumes "workflow_type_of (au_workflow au) \<noteq> SQL_REVIEW"
  shows "triple (linv C) (catchM (bindM (create_audit compile_re au) (\<lambda>(m, au'). ret (Some au')))
      (\<lambda>e. if is_AuditException e then Some (ret None) else None))
    (\<lambda>r w. linv C w \<and> (\<forall>au'. r = Some au' \<longrightarrow> workflow_type_of (au_workflow au') \<noteq> SQL_REVIEW)) (linv C)"
proof (rule triple_catch [where E' = "linv C"])
  show "triple (linv C) (bindM (create_audit compile_re au) (\<lambda>(m, au'). ret (Some au')))
    (\<lambda>r w. linv C w \<and> (\<forall>au'. r = Some au' \<longrightarrow> workflow_type_of (au_workflow au') \<noteq> SQL_REVIEW)) (linv C)"
  proof (rule triple_bind)
    show "triple (linv C) (create_audit compile_re au)
      (\<lambda>(m, au') w. linv C w \<and> workflow_type_of (au_workflow au') \<noteq> SQL_REVIEW) (linv C)"
    proof (rule tripleI)
      fix w e w' assume "linv C w" "create_audit compile_re au w = (Inl e, w')"
      then show "linv C w'" using create_audit_linv' [OF _ assms, of C w compile_re] by simp
    next
      fix w x w' assume "linv C w" and run: "create_audit compile_re au w = (Inr x, w')"
      then show "(case x of (m, au') \<Rightarrow> \<lambda>w. linv C w \<and> workflow_type_of (au_workflow au') \<noteq> SQL_REVIEW) w'"
        using create_audit_linv' [OF _ assms, of C w compile_re] create_audit_workflow_type assms
        by (cases x) auto
    qed
  qed (auto simp: triple_def)
qed (auto simp: triple_def split: if_splits)

lemma submit_archive_keeps: "keeps (linv C) (submit_archive compile_re x rg)"
  unfolding submit_archive_def
  apply (rule keeps_atomicM)
  apply (rule keeps_bind_read)
  subgoal for au
    apply (rule triple_known [where F = "workflow_type_of (au_workflow au) \<noteq> SQL_REVIEW"])
     apply (use AuditV2_archive_type in force)
    apply (rule triple_bind)
     apply (rule triple_pre [OF create_archive_triple], assumption, simp)
    apply (rule triple_case_option)
     apply (simp add: triple_def)
    subgoal for r au'
      apply (rule triple_known [where F = "workflow_type_of (au_workflow au') \<noteq> SQL_REVIEW"], blast)
      apply (rule triple_pre [OF triple_keepsI])
       apply (intro keeps_intros keeps_linv [OF keeps_view_save] keeps_linv [OF keeps_view_async])
      by simp_all
    done
  done

lemma ArchiveApplyView_post_keeps: "keeps (linv C) (ArchiveApplyView_post compile_re u q)"
  unfolding ArchiveApplyView_post_def
  by (intro keeps_intros submit_archive_keeps)

lemma keeps_view_archive [keeps_intros]:
  "keeps (view_is V) (ArchiveSwitchView_post u i s)" "keeps (view_is V) (ArchiveOnceView_get u i)"
  "keeps (view_is V) (add_archive_task ids)" "keeps (view_is V) (archive env i)"
proof -
  show "keeps (view_is V) (ArchiveSwitchView_post u i s)"
    unfolding ArchiveSwitchView_post_def by (intro keeps_intros) (auto intro: keeps_intros)
  show "keeps (view_is V) (ArchiveOnceView_get u i)"
    unfolding ArchiveOnceView_get_def by (intro keeps_intros)
  show "keeps (view_is V) (add_archive_task ids)"
    unfolding add_archive_task_def by (intro keeps_intros)
  show "keeps (view_is V) (archive env i)"
    unfolding archive_def archive_finish_def by (intro keeps_intros) (simp add: view_is_def sview_def)
qed

section \<open>Steps of the system\<close>

text \<open>
  One step: a handler run by some user, a task or its callback, or the passing of time. Every
  handler may also fail; the state it leaves then is a step too.
\<close>

inductive step :: "world \<Rightarrow> world \<Rightarrow> bool" where
  submit: "step w (snd (WorkflowList_post compile_re en u q w))"
| review: "step w (snd (AuditWorkflow_post u rq w))"
| run: "step w (snd (ExecuteWorkflow_post u xq w))"
| timing: "step w (snd (TimingTask_post u i d w))"
| alter_dates: "step w (snd (AlterRunDate_post u i d1 d2 w))"
| execution: "step w (snd (execute ew eo i by_user w))"
| execution_result: "step w (snd (execute_callback to_json task w))"
| apply_privilege: "step w (snd (ApplyForPrivileges compile_re u pq w))"
| apply_privilege_old: "step w (snd (query_priv_apply compile_re u pq w))"
| audit_privilege: "step w (snd (QueryPrivAudit u i_text s_text remark w))"
| audit_privilege_old: "step w (snd (query_priv_audit u i_text s_text remark w))"
| modify_privilege: "step w (snd (ModifyPrivileges u pid ty date limit w))"
| modify_privilege_old: "step w (snd (query_priv_modify u pid ty date limit w))"
| apply_archive: "step w (snd (ArchiveApplyView_post compile_re u aq w))"
| audit_archive: "step w (snd (ArchiveAudit_post u i s remark w))"
| switch_archive: "step w (snd (ArchiveSwitchView_post u i state w))"
| run_archive_once: "step w (snd (ArchiveOnceView_get u i w))"
| schedule_archives: "step w (snd (add_archive_task ids w))"
| archive_run: "step w (snd (archive env i w))"
| tick: "w_now w \<le> t \<Longrightarrow> step w (w\<lparr>w_now := t\<rparr>)"

inductive reaches :: "world \<Rightarrow> world \<Rightarrow> bool" where
  start: "reaches w w"
| more: "reaches w v \<Longrightarrow> step v v' \<Longrightarrow> reaches w v'"

lemmas handler_keeps = WorkflowList_post_keeps AuditWorkflow_post_keeps ExecuteWorkflow_post_keeps
  TimingTask_post_keeps AlterRunDate_post_keeps execute_keeps execute_callback_keeps ApplyForPrivileges_keeps
  query_priv_apply_keeps QueryPrivAudit_keeps query_priv_audit_keeps ModifyPrivileges_keeps
  query_priv_modify_keeps ArchiveApplyView_post_keeps ArchiveAudit_post_keeps keeps_view_archive [THEN keeps_linv]

lemma step_linv: "step v w \<Longrightarrow> linv C v \<Longrightarrow> linv C w"
proof (induction rule: step.induct)
  case (tick w t)
  then show ?case by (simp add: linv_sview [of "w\<lparr>w_now := t\<rparr>" w] sview_def)
qed (rule handler_keeps [THEN keepsD], assumption)+

lemma reaches_linv: "reaches v w \<Longrightarrow> linv C v \<Longrightarrow> linv C w"
  by (induction rule: reaches.induct) (auto intro: step_linv)

lemma reaches_trans: "reaches v w \<Longrightarrow> reaches u v \<Longrightarrow> reaches u w"
  by (induction rule: reaches.induct) (auto intro: reaches.more)

inductive_cases reachesE: "reaches v w"

end
