(* ===== verification/LifecycleProps.thy ===== *)
theory LifecycleProps
  imports Lifecycle ApprovalProps
begin

text \<open>
  Properties that span the handlers: what every reachable state satisfies, and what one request to
  review, to run, to time or to cancel a work order does.
\<close>

section \<open>Every reachable state\<close>


text \<open>
  C2. No release is ever queued, in execution or done unless its review was passed: in every
  reachable state an order in one of these statuses has a record, and the record is passed.
\<close>

theorem never_run_unapproved:
  assumes "reaches v w" and "linv {} v" and "x \<in> set (tbl_rows (w_workflows w))"
    and "sw_status x \<in> {workflow_timingtask, workflow_queuing, workflow_executing, workflow_finish, workflow_exception}"
  shows "\<exists>a \<in> set (tbl_rows (w_audits w)). wa_workflow_id a = sw_id x \<and> wa_workflow_type a = SQL_REVIEW
    \<and> wa_current_status a = PASSED \<and> wa_current_audit a = ''-1''"
proof -
  have l: "linv {} w" by (rule reaches_linv [OF assms(1,2)])
  with assms(3) obtain a where a: "a \<in> set (tbl_rows (w_audits w))" "audit_key a = (sw_id x, SQL_REVIEW)"
    "agree (wa_current_status a) (sw_status x)" by (auto simp: linv_def agrees_in_def)
  then have p: "wa_current_status a = PASSED" using agree_passed assms(4) by auto
  moreover have "audit_ok a" using l a(1) by (auto simp: linv_def shape_def audits_ok_def list_all_iff)
  ultimately show ?thesis using a by (auto simp: audit_key_def audit_ok_def intro!: bexI [of _ a])
qed

text \<open>
  A closed order never runs: once the record of a release is rejected or withdrawn, the release
  is stopped in every state reached from there, so it is never queued, executed or finished.
\<close>

theorem closed_order_never_runs:
  assumes "reaches v w" and "linv {} v" and "a \<in> set (tbl_rows (w_audits v))" and "closed a"
    and "wa_workflow_type a = SQL_REVIEW" and "x \<in> set (tbl_rows (w_workflows w))" and "sw_id x = wa_workflow_id a"
  shows "sw_status x \<in> {workflow_abort, workflow_autoreviewwrong}"
proof -
  have "linv {record_name a} v" using assms(2-4) by (auto simp: linv_def shape_def closed_in_def)
  with reaches_linv [OF assms(1)] have l: "linv {record_name a} w" by blast
  then obtain b where b: "b \<in> set (tbl_rows (w_audits w))" "record_name b = record_name a" "closed b"
    by (auto simp: linv_def shape_def closed_in_def)
  from l assms(6) obtain c where c: "c \<in> set (tbl_rows (w_audits w))" "audit_key c = (sw_id x, SQL_REVIEW)"
    "agree (wa_current_status c) (sw_status x)" by (auto simp: linv_def agrees_in_def)
  have "audits_ok (w_audits w)" using l by (simp add: linv_def shape_def)
  from unique_key [OF this b(1) c(1)] b c assms(5,7) have "b = c" by (simp add: record_name_def audit_key_def)
  with b(3) c(3) show ?thesis by (auto simp: closed_def)
qed

section \<open>Concrete runs\<close>

text \<open>A release that is queued, with its passed record.\<close>

definition demo_life :: "sql_workflow_status \<Rightarrow> workflow_audit \<Rightarrow> world" where
  "demo_life s a = (demo_world [a])\<lparr>w_workflows := \<lparr>tbl_rows = [demo_workflow\<lparr>sw_status := s\<rparr>], tbl_next = 2\<rparr>\<rparr>"

definition demo_passed :: workflow_audit where
  "demo_passed = (demo_audit ''10,11'' ''-1'' ''-1'')\<lparr>wa_current_status := PASSED\<rparr>"

definition demo_engine_run :: engine_run where
  "demo_engine_run i x = Inr (new_ReviewSet ''alter table t add c int'')"

lemma linv_no_names: "linv {} w \<longleftrightarrow> audits_ok (w_audits w) \<and> wf_table sw_id (w_workflows w)
    \<and> 1 \<le> tbl_next (w_workflows w) \<and> (\<forall>x \<in> set (tbl_rows (w_workflows w)). sw_id x \<noteq> 0 \<and> agrees_in (w_audits w) x)
    \<and> wf_schedules (w_schedules w)"
  by (auto simp: linv_def shape_def closed_in_def)

lemma demo_life_linv:
  "linv {} (demo_life workflow_queuing demo_passed)" "linv {} (demo_life workflow_manreviewing demo_waiting)"
  unfolding linv_no_names by code_simp+

lemma one_step: "step v w \<Longrightarrow> reaches v w"
  by (rule reaches.more [OF reaches.start])


lemma never_run_unapproved_witness:
  "\<exists>x. x \<in> set (tbl_rows (w_workflows (snd (execute demo_engine_run (\<lambda>x. Inr (new_ReviewSet [])) 1 None
        (demo_life workflow_queuing demo_passed))))) \<and> sw_status x = workflow_executing
     \<and> (\<exists>a \<in> set (tbl_rows (w_audits (snd (execute demo_engine_run (\<lambda>x. Inr (new_ReviewSet [])) 1 None
        (demo_life workflow_queuing demo_passed))))). wa_current_status a = PASSED)"
proof -
  let ?w = "snd (execute demo_engine_run (\<lambda>x. Inr (new_ReviewSet [])) 1 None (demo_life workflow_queuing demo_passed))"
  have "list_ex (\<lambda>x. sw_status x = workflow_executing) (tbl_rows (w_workflows ?w))" by code_simp
  then obtain x where x: "x \<in> set (tbl_rows (w_workflows ?w))" "sw_status x = workflow_executing"
    by (auto simp: list_ex_iff)
  from never_run_unapproved [OF one_step [OF step.execution] demo_life_linv(1) x(1)] x show ?thesis by auto
qed

definition demo_rejected :: workflow_audit where
  "demo_rejected = (demo_audit ''10,11'' ''-1'' ''-1'')\<lparr>wa_current_status := REJECTED\<rparr>"

lemma closed_order_never_runs_witness:
  "\<exists>x. tbl_rows (w_workflows (snd (ExecuteWorkflow_post demo_admin
      \<lparr>xq_engineer = ''admin'', xq_workflow_id = 1, xq_workflow_type = 2, xq_mode = ''auto''\<rparr>
      (demo_life workflow_abort demo_rejected)))) = [x]
    \<and> sw_status x \<in> {workflow_abort, workflow_autoreviewwrong}"
proof -
  let ?q = "\<lparr>xq_engineer = ''admin'', xq_workflow_id = 1, xq_workflow_type = 2, xq_mode = ''auto''\<rparr>"
  let ?v = "demo_life workflow_abort demo_rejected"
  let ?rows = "tbl_rows (w_workflows (snd (ExecuteWorkflow_post demo_admin ?q ?v)))"
  have one: "map sw_id ?rows = [1]" by code_simp
  then obtain x where x: "?rows = [x]" "sw_id x = 1" by auto
  have l: "linv {} ?v" unfolding linv_no_names by code_simp
  have a: "demo_rejected \<in> set (tbl_rows (w_audits ?v))" by (simp add: demo_life_def demo_world_def)
  have k: "closed demo_rejected" "wa_workflow_type demo_rejected = SQL_REVIEW" "sw_id x = wa_workflow_id demo_rejected"
    using x(2) by (simp_all add: closed_def demo_rejected_def demo_audit_def new_WorkflowAudit_def)
  have "x \<in> set ?rows" using x(1) by simp
  from closed_order_never_runs [OF one_step [OF step.run] l a k(1,2) this k(3)] x(1)
  show ?thesis by blast
qed

section \<open>One request\<close>

lemma acting_user_Inr:
  assumes "acting_user ru e w = (Inr u, w')"
  shows "w' = w \<and> (u = ru \<or> u_is_superuser ru \<and> user_named w e = Inr u)"
  using assms by (auto simp: acting_user_def validation_def split: if_splits)

lemma record_of_Inr: "record_of au = Inr a \<longleftrightarrow> au_audit au = Some a"
  by (auto simp: record_of_def split: option.splits)

text \<open>Details are written by operations only.\<close>

definition details_are :: "workflow_audit_detail table \<Rightarrow> world \<Rightarrow> bool" where
  "details_are D w = (w_details w = D)"

lemma keeps_details [keeps_intros]:
  "keeps (details_are D) (async_task j)" "keeps (details_are D) (save_sw_fields i f)"
  "keeps (details_are D) (save_ac_fields i g)" "keeps (details_are D) (with_schedules h)"
  "keeps (details_are D) (grant gr)" "keeps (details_are D) (workflow_save x)"
proof -
  show "keeps (details_are D) (workflow_save x)"
    by (cases x) (auto simp: keeps_def details_are_def Let_def)
qed (auto simp: keeps_def details_are_def async_task_def save_sw_fields_def save_ac_fields_def with_schedules_def
    grant_def grant_one_def split: sum.splits)

lemma keeps_details_settle: "keeps (details_are D) (settle_order au a)"
  unfolding settle_order_def query_apply_audit_call_back_def apply_save_def
  by (intro keeps_intros)

lemma invalid_if_missing_Inr: "invalid_if_missing m r = Inr x \<longleftrightarrow> r = Inr x"
  by (auto simp: invalid_if_missing_def split: sum.splits)

lemma catch_invalid_Inr:
  "catchM k (\<lambda>e. if p e then Some (validation (g e)) else None) w = (Inr x, w') \<Longrightarrow> k w = (Inr x, w')"
  by (auto simp: catchM_run validation_def split: prod.splits sum.splits if_splits)

lemma maybe_notified:
  "(if n then async_task j else ret ()) w = (Inr u, w') \<Longrightarrow> w_details w' = w_details w \<and> sview w' = sview w"
  by (auto simp: async_task_def sview_def split: if_splits)

text \<open>The shape of a review request that goes through.\<close>

lemma AuditWorkflow_post_Inr:
  assumes "AuditWorkflow_post ru q w = (Inr m, w')"
  obtains a au u act d au' b w1 w2 where
    "audit_of w (rq_workflow_id q) (rq_workflow_type q) = Inr a" "get_auditor_of_audit w a = Inr au"
    "u = ru \<or> u_is_superuser ru \<and> user_named w (rq_engineer q) = Inr u"
    "requested_action q u au w = Inr act" "operate act u (rq_audit_remark q) au w = (Inr (d, au'), w1)"
    "au_audit au' = Some b" "settle_order au' b w1 = (Inr (), w2)"
    "w_details w' = w_details w2" "sview w' = sview w2"
proof -
  from assms show ?thesis
    unfolding AuditWorkflow_post_def
    apply (elim thenM_InrE bindM_InrE)
    apply (simp add: split_beta)
    apply (elim thenM_InrE bindM_InrE)
    apply (simp add: invalid_if_missing_Inr record_of_Inr)
    apply (drule acting_user_Inr, drule catch_invalid_Inr, drule maybe_notified)
    apply (elim conjE)
    subgoal for xa a au u s act r w1 b w2 n
      by (rule that [of a au u act "fst r" "snd r" w1 b w2]) simp_all
    done
qed

lemma requested_ABORT:
  "requested_action q u au w = Inr ABORT \<Longrightarrow> workflow_engineer (au_workflow au) = Inr (u_username u)"
  by (auto simp: requested_action_def elim!: bindE_InrE split: if_splits)

lemma operate_details:
  assumes "operate act u r au w = (Inr (d, au'), w')" and "au_audit au = Some a" and "wa_audit_id a \<noteq> 0"
    and "act \<in> {PASS, REJECT, ABORT}"
  obtains b st where "au_audit au' = Some b" "wa_audit_id b = wa_audit_id a" "operated b st u r w w'"
    "can_operate w act u a au = Inr ()"
proof -
  have c: "can_operate w act u a au = Inr ()" using assms(1,2) by (auto simp: operate_def thenM_run split: sum.splits)
  consider "act = PASS" | "act = REJECT" | "act = ABORT" using assms(4) by blast
  then show ?thesis
  proof cases
    case 1
    with assms(1-3) operate_PASS_Inr [of u r au w d au' w' a] obtain b where "next_node a = Inr b"
      "au' = au\<lparr>au_audit := Some (b\<lparr>wa_sys_time := w_now w\<rparr>)\<rparr>" "operated (b\<lparr>wa_sys_time := w_now w\<rparr>) PASSED u r w w'"
      by blast
    with next_node_Inr(2) that c show ?thesis by force
  next
    case 2
    with assms(1,2) c operate_reject_run [OF assms(3), of u r w] that show ?thesis
      by (auto simp: operate_def thenM_run bindM_run)
  next
    case 3
    with assms(1,2) c operate_abort_run [OF assms(3), of u r w] that show ?thesis
      by (auto simp: operate_def thenM_run bindM_run)
  qed
qed

text \<open>
  No review in another's name. When a review request goes through, exactly one line is added
  to the review details; it bears the name of the requester, or, only when the requester is a
  superuser, of the user the request names; that user was entitled to the action by the checks of
  the engine, and a withdrawal is by the submitter of the release.
\<close>

theorem review_in_own_name:
  assumes "AuditWorkflow_post ru q w = (Inr m, w')" and "linv C w"
  shows "\<exists>u a au act d. (u = ru \<or> u_is_superuser ru \<and> user_named w (rq_engineer q) = Inr u)
    \<and> audit_of w (rq_workflow_id q) (rq_workflow_type q) = Inr a \<and> act \<in> {PASS, REJECT, ABORT}
    \<and> (act = PASS \<longleftrightarrow> rq_audit_type q = ''pass'') \<and> can_operate w act u a au = Inr ()
    \<and> (act = ABORT \<longrightarrow> workflow_engineer (au_workflow au) = Inr (u_username u))
    \<and> w_details w' = tbl_create set_wad_id d (w_details w) \<and> wad_audit_user d = u_username u
    \<and> wad_audit_id d = wa_audit_id a \<and> wad_remark d = rq_audit_remark q"
proof -
  from AuditWorkflow_post_Inr [OF assms(1)] obtain a au u act d au' b w1 w2 where
    a: "audit_of w (rq_workflow_id q) (rq_workflow_type q) = Inr a" and au: "get_auditor_of_audit w a = Inr au"
    and u: "u = ru \<or> u_is_superuser ru \<and> user_named w (rq_engineer q) = Inr u"
    and act: "requested_action q u au w = Inr act" and op: "operate act u (rq_audit_remark q) au w = (Inr (d, au'), w1)"
    and se: "settle_order au' b w1 = (Inr (), w2)" and dt: "w_details w' = w_details w2" by metis
  have "a \<in> set (tbl_rows (w_audits w))" using a by (auto simp: audit_of_def dest: tbl_get_Inr)
  then have ia: "wa_audit_id a \<noteq> 0" using assms(2) by (auto simp: linv_def shape_def audits_ok_def list_all_iff)
  note kinds = requested_action_kinds [OF act]
  from operate_details [OF op get_auditor_audit [OF au] ia kinds] obtain c st
    where c: "wa_audit_id c = wa_audit_id a" "operated c st u (rq_audit_remark q) w w1" "can_operate w act u a au = Inr ()" .
  have "w_details w2 = w_details w1"
    using keepsD [OF keeps_details_settle, of "w_details w1" w1 au' b] se by (simp add: details_are_def)
  with c dt obtain dd where dd: "w_details w' = tbl_create set_wad_id dd (w_details w)" "wad_audit_user dd = u_username u"
    "wad_audit_id dd = wa_audit_id a" "wad_remark dd = rq_audit_remark q" by (auto simp: operated_def)
  have "act = PASS \<longleftrightarrow> rq_audit_type q = ''pass''"
    using act by (auto simp: requested_action_def elim!: bindE_InrE split: if_splits)
  moreover have "act = ABORT \<longrightarrow> workflow_engineer (au_workflow au) = Inr (u_username u)"
    using act requested_ABORT by blast
  ultimately show ?thesis using a u kinds c(3) dd by blast
qed

definition demo_review :: "user \<Rightarrow> string \<Rightarrow> review_request" where
  "demo_review u ty = \<lparr>rq_engineer = u_username u, rq_workflow_id = 1, rq_workflow_type = SQL_REVIEW,
     rq_audit_remark = ''ok'', rq_audit_type = ty\<rparr>"

lemma review_in_own_name_witness:
  "\<exists>w' d. AuditWorkflow_post demo_lead (demo_review demo_lead ''pass'') (demo_life workflow_manreviewing demo_waiting)
      = (Inr ''passed'', w') \<and> w_details w' = tbl_create set_wad_id d empty_table \<and> wad_audit_user d = ''lead''"
proof -
  let ?v = "demo_life workflow_manreviewing demo_waiting"
  let ?run = "AuditWorkflow_post demo_lead (demo_review demo_lead ''pass'') ?v"
  have "fst ?run = Inr ''passed''" by code_simp
  then obtain w' where run: "?run = (Inr ''passed'', w')" by (metis prod.collapse)
  have d: "w_details ?v = empty_table" "u_username demo_lead = ''lead''"
    by (simp_all add: demo_life_def demo_world_def empty_world_def demo_lead_def demo_user_def)
  from review_in_own_name [OF run demo_life_linv(2)] run d show ?thesis by auto
qed

lemma require_InrE:
  assumes "require f m w = (Inr x, w')"
  obtains "f w = Inr True" and "w' = w"
  using assms by (auto simp: require_def bindM_run split: sum.splits if_splits)

lemma save_sw_fields_Inr:
  assumes "save_sw_fields i f w = (Inr x, w')"
  shows "w' = w\<lparr>w_workflows := tbl_update (\<lambda>x. sw_id x = i) f (w_workflows w)\<rparr>"
  using assms by (auto simp: save_sw_fields_def tbl_save_fields_def split: if_splits sum.splits)

lemma log_step_run: "\<exists>t. log_step i ty desc info u w = (Inr (), w\<lparr>w_logs := t\<rparr>)"
  by (auto simp: log_step_def bindM_run add_log_run)

lemma workflow_get_updated:
  assumes "workflow_get w i = Inr x" and "\<And>x. sw_id (f x) = sw_id x"
    and "w_workflows v = tbl_update (\<lambda>x. sw_id x = i) f (w_workflows w)"
  shows "workflow_get v i = Inr (f x)"
  using tbl_get_update [where P = "\<lambda>x. sw_id x = i" and f = f and Q = "\<lambda>x. sw_id x = i",
      of "''SqlWorkflow''" "w_workflows w" x] assms workflow_get_Inr [OF assms(1)]
  by (simp add: workflow_get_def)

text \<open>What a request to run a release did, when it went through.\<close>

definition ran_release :: "run_request \<Rightarrow> user \<Rightarrow> sql_workflow \<Rightarrow> world \<Rightarrow> world \<Rightarrow> bool" where
  "ran_release q u x w w' =
     (if xq_mode q = ''auto'' then
        workflow_get w' (xq_workflow_id q) = Inr (x\<lparr>sw_status := workflow_queuing\<rparr>)
        \<and> w_queue w' = w_queue w @ [execute_job (xq_workflow_id q) u]
      else workflow_get w' (xq_workflow_id q) = Inr (x\<lparr>sw_status := workflow_finish, sw_finish_time := Some (w_now w)\<rparr>)
        \<and> w_queue w' = w_queue w)"

lemma run_release_Inr:
  assumes "run_release ru q w = (Inr n, w')" and "xq_mode q \<in> {''auto'', ''manual''}"
  obtains u x where "u = ru \<or> u_is_superuser ru \<and> user_named w (xq_engineer q) = Inr u"
    "has_perm u ''sql.sql_execute'' \<or> has_perm u ''sql.sql_execute_for_resource_group''"
    "can_execute w u (xq_workflow_id q) = Inr True" "on_correct_time_period w (xq_workflow_id q) None = Inr True"
    "workflow_get w (xq_workflow_id q) = Inr x" "ran_release q u x w w'"
proof -
  let ?i = "xq_workflow_id q"
  from assms(1) obtain u aid where u: "u = ru \<or> u_is_superuser ru \<and> user_named w (xq_engineer q) = Inr u"
    and p: "has_perm u ''sql.sql_execute'' \<or> has_perm u ''sql.sql_execute_for_resource_group''"
    and c: "can_execute w u ?i = Inr True" and t: "on_correct_time_period w ?i None = Inr True"
    and k: "(if xq_mode q = ''auto'' then
           thenM (set_sql_status ?i workflow_queuing)
           (thenM (with_schedules (del_schedule (timing_name ?i)))
           (thenM (async_task (execute_job ?i u))
           (thenM (log_step aid 5 ''execute'' ''queued for execution'' u) (ret False))))
         else if xq_mode q = ''manual'' then
           thenM (bindM (getsM w_now) (\<lambda>now. save_sw_fields ?i
              (\<lambda>x. x\<lparr>sw_status := workflow_finish, sw_finish_time := Some now\<rparr>)))
           (thenM (log_step aid 6 ''manual'' ''manual execution confirmed'' u)
             (liftM (\<lambda>w. is_notified w ''Execute'')))
         else ret False) w = (Inr n, w')"
    unfolding run_release_def Let_def
    by (elim bindM_InrE thenM_InrE require_InrE) (auto dest!: acting_user_Inr split: if_splits)
  from c obtain x where x: "workflow_get w ?i = Inr x" by (rule can_execute_True)
  have "ran_release q u x w w'"
  proof (cases "xq_mode q = ''auto''")
    case True
    with k have "thenM (set_sql_status ?i workflow_queuing)
           (thenM (with_schedules (del_schedule (timing_name ?i)))
           (thenM (async_task (execute_job ?i u))
           (thenM (log_step aid 5 ''execute'' ''queued for execution'' u) (ret False)))) w = (Inr n, w')" by simp
    then obtain w1 t1 w2 where w1: "set_sql_status ?i workflow_queuing w = (Inr (), w1)"
      and w2: "with_schedules (del_schedule (timing_name ?i)) w1 = (Inr (), w2)"
      and w': "w' = w2\<lparr>w_queue := w_queue w2 @ [execute_job ?i u], w_logs := t1\<rparr>"
      using log_step_run [of aid 5 "''execute''" "''queued for execution''" u]
      by (elim thenM_InrE) (auto simp: async_task_def, metis Pair_inject)
    have e1: "w1 = w\<lparr>w_workflows := tbl_update (\<lambda>x. sw_id x = ?i) (\<lambda>x. x\<lparr>sw_status := workflow_queuing\<rparr>) (w_workflows w)\<rparr>"
      using w1 save_sw_fields_Inr by (simp add: set_sql_status_eq)
    have e2: "w_workflows w2 = w_workflows w1" "w_queue w2 = w_queue w1"
      using w2 by (auto simp: with_schedules_def split: sum.splits)
    have "workflow_get w' ?i = Inr (x\<lparr>sw_status := workflow_queuing\<rparr>)"
      by (rule workflow_get_updated [OF x]) (simp_all add: w' e2 e1)
    with True w' e2 e1 show ?thesis by (simp add: ran_release_def)
  next
    case False
    with k assms(2) have "thenM (bindM (getsM w_now) (\<lambda>now. save_sw_fields ?i
              (\<lambda>x. x\<lparr>sw_status := workflow_finish, sw_finish_time := Some now\<rparr>)))
           (thenM (log_step aid 6 ''manual'' ''manual execution confirmed'' u)
             (liftM (\<lambda>w. is_notified w ''Execute''))) w = (Inr n, w')" by auto
    then obtain w1 t1 where w1: "save_sw_fields ?i (\<lambda>x. x\<lparr>sw_status := workflow_finish, sw_finish_time := Some (w_now w)\<rparr>) w = (Inr (), w1)"
      and w': "w' = w1\<lparr>w_logs := t1\<rparr>"
      using log_step_run [of aid 6 "''manual''" "''manual execution confirmed''" u]
      by (elim thenM_InrE bindM_InrE) (auto, metis Pair_inject)
    note e1 = save_sw_fields_Inr [OF w1]
    have "workflow_get w' ?i = Inr (x\<lparr>sw_status := workflow_finish, sw_finish_time := Some (w_now w)\<rparr>)"
      by (rule workflow_get_updated [OF x]) (simp_all add: w' e1)
    with False w' e1 show ?thesis by (simp add: ran_release_def)
  qed
  with that u p c t x show ?thesis by blast
qed

text \<open>
  C3. The gate of execution. A request to run a release goes through only for an order that is
  approved (or timed) and inside its execution period, by its submitter holding the right to execute
  or a member of its resource group holding the group's right; the order is then queued with exactly
  one task, or, in manual mode, marked finished with no task. A request to run an archive order
  goes through only for an approved, enabled order, by a superuser or an archive manager, and only
  appends its task to the queue.
\<close>

theorem execution_gate:
  assumes "ExecuteWorkflow_post ru q w = (Inr n, w')"
  shows "xq_workflow_type q = 2 \<and> (\<exists>u x gs. (u = ru \<or> u_is_superuser ru \<and> user_named w (xq_engineer q) = Inr u)
      \<and> workflow_get w (xq_workflow_id q) = Inr x \<and> sw_status x \<in> {workflow_review_pass, workflow_timingtask}
      \<and> user_groups w u = Inr gs \<and> on_correct_time_period w (xq_workflow_id q) None = Inr True
      \<and> (sw_group_id x \<in> rg_group_id ` set gs \<and> has_perm u ''sql.sql_execute_for_resource_group''
          \<or> sw_engineer x = u_username u \<and> has_perm u ''sql.sql_execute'')
      \<and> ran_release q u x w w')
    \<or> xq_workflow_type q = 3 \<and> (\<exists>x. archive_get w (xq_workflow_id q) = Inr x \<and> ac_state x \<and> ac_status x = PASSED
      \<and> (u_is_superuser ru \<or> has_perm ru ''sql.archive_mgt'')
      \<and> w' = w\<lparr>w_queue := w_queue w @ [archive_job (xq_workflow_id q)]\<rparr>)"
proof -
  consider "xq_workflow_type q = 2" | "xq_workflow_type q = 3"
    using assms by (fastforce simp: ExecuteWorkflow_post_def validation_def split: if_splits)
  then show ?thesis
  proof cases
    case 1
    with assms have m: "xq_mode q \<in> {''auto'', ''manual''}" and r: "run_release ru q w = (Inr n, w')"
      by (auto simp: ExecuteWorkflow_post_def thenM_run split: if_splits sum.splits)
    from run_release_Inr [OF r m] obtain u x where u: "u = ru \<or> u_is_superuser ru \<and> user_named w (xq_engineer q) = Inr u"
      and c: "can_execute w u (xq_workflow_id q) = Inr True" and t: "on_correct_time_period w (xq_workflow_id q) None = Inr True"
      and x: "workflow_get w (xq_workflow_id q) = Inr x" and ran: "ran_release q u x w w'" .
    from c obtain y gs where y: "workflow_get w (xq_workflow_id q) = Inr y" "sw_status y \<in> {workflow_review_pass, workflow_timingtask}"
      "user_groups w u = Inr gs" "sw_group_id y \<in> rg_group_id ` set gs \<and> has_perm u ''sql.sql_execute_for_resource_group''
      \<or> sw_engineer y = u_username u \<and> has_perm u ''sql.sql_execute''" by (rule can_execute_True)
    then have "y = x" using x by simp
    with 1 u t x ran y show ?thesis by blast
  next
    case 2
    with assms have r: "run_archive ru q w = (Inr n, w')"
      by (auto simp: ExecuteWorkflow_post_def thenM_run split: if_splits sum.splits)
    then show ?thesis
      using 2 by (auto simp: run_archive_def thenM_run bindM_run async_task_def invalid_if_missing_Inr archive_get_def
          split: if_splits sum.splits)
  qed
qed

definition demo_run_request :: run_request where
  "demo_run_request = \<lparr>xq_engineer = ''dev'', xq_workflow_id = 1, xq_workflow_type = 2, xq_mode = ''auto''\<rparr>"

lemma execution_gate_witness:
  "\<exists>w' x. ExecuteWorkflow_post (demo_dev\<lparr>has_perm := \<lambda>p. p = ''sql.sql_execute''\<rparr>) demo_run_request
      (demo_life workflow_review_pass demo_passed) = (Inr False, w')
    \<and> workflow_get w' 1 = Inr x \<and> sw_status x = workflow_queuing"
proof -
  let ?u = "demo_dev\<lparr>has_perm := \<lambda>p. p = ''sql.sql_execute''\<rparr>"
  let ?run = "ExecuteWorkflow_post ?u demo_run_request (demo_life workflow_review_pass demo_passed)"
  have "fst ?run = Inr False" by code_simp
  then obtain w' where run: "?run = (Inr False, w')" by (metis prod.collapse)
  from execution_gate [OF run] run show ?thesis
    by (auto simp: ran_release_def demo_run_request_def)
qed

lemma atomicM_InrE:
  assumes "atomicM m s = (Inr x, t)"
  obtains "m s = (Inr x, t)"
  using assms by (auto simp: atomicM_run split: prod.splits sum.splits)

text \<open>
  Timing. When a release is timed for \<open>d\<close>, it was approved and free to be run by the
  requester at \<open>d\<close>; afterwards exactly one timer bears its name, it fires once at \<open>d\<close> and runs
  this order, the order has the status of a timed one, and no other timer changed.
\<close>

theorem timing_sets_one_timer:
  assumes "TimingTask_post u i (Some d) w = (Inr (), w')" and "linv C w"
  shows "can_timingtask w u i = Inr True \<and> on_correct_time_period w i (Some d) = Inr True \<and> w_now w div 60 * 60 \<le> d
    \<and> (\<exists>s x. schedule_named (timing_name i) (w_schedules w') = Some s \<and> sc_next_run s = d \<and> sc_args s = [i]
        \<and> sc_func s = ''sql.utils.execute_sql.execute'' \<and> sc_repeats s = 1
        \<and> workflow_get w' i = Inr x \<and> sw_status x = workflow_timingtask)
    \<and> (\<forall>n. n \<noteq> timing_name i \<longrightarrow> schedule_named n (w_schedules w') = schedule_named n (w_schedules w))"
proof -
  have inv: "invalid_on_error m w = (Inr z, w') \<Longrightarrow> m w = (Inr z, w')" for m :: "(world, unit) M" and z
    by (auto simp: invalid_on_error_def catchM_run validation_def split: prod.splits sum.splits)
  have get: "(case workflow_get w i of Inr x \<Rightarrow> Inr x | Inl e \<Rightarrow> if is_DoesNotExist e then Inl Http404 else Inl e) = Inr x
      \<longleftrightarrow> workflow_get w i = Inr x" for x
    by (auto split: sum.splits if_splits)
  from assms(1) obtain x where x: "workflow_get w i = Inr x" and c: "can_timingtask w u i = Inr True"
    and t: "on_correct_time_period w i (Some d) = Inr True" and late: "w_now w div 60 * 60 \<le> d"
    and blk: "invalid_on_error (atomicM (
              thenM (bindM (workflow_save (WSql (x\<lparr>sw_status := workflow_timingtask\<rparr>))) (\<lambda>_. ret ()))
              (thenM (with_schedules (add_sql_schedule (timing_name i) d i))
              (bindM (liftM (\<lambda>w. sql_audit_id w i)) (\<lambda>aid.
                log_step aid 4 ''timed execution'' (''execution time: '' @ str_int d) u))))) w = (Inr (), w')"
    unfolding TimingTask_post_def option.case
    by (elim thenM_InrE bindM_InrE require_InrE) (auto simp: get split: if_splits)
  from x assms(2) have ix: "sw_id x = i" "i \<noteq> 0" by (auto simp: linv_def shape_def dest: workflow_get_Inr)
  let ?x = "x\<lparr>sw_status := workflow_timingtask\<rparr>"
  let ?w1 = "w\<lparr>w_workflows := tbl_save sw_id ?x (w_workflows w)\<rparr>"
  from inv [OF blk] ix obtain t2 aid where t2: "add_sql_schedule (timing_name i) d i (w_schedules w) = Inr t2"
    and lg: "log_step aid 4 ''timed execution'' (''execution time: '' @ str_int d) u (?w1\<lparr>w_schedules := t2\<rparr>) = (Inr (), w')"
    by (elim atomicM_InrE thenM_InrE bindM_InrE) (auto simp: with_schedules_def split: sum.splits)
  obtain t3 where "log_step aid 4 ''timed execution'' (''execution time: '' @ str_int d) u (?w1\<lparr>w_schedules := t2\<rparr>)
      = (Inr (), ?w1\<lparr>w_schedules := t2, w_logs := t3\<rparr>)" using log_step_run by blast
  from trans [OF sym [OF this] lg] have "w' = ?w1\<lparr>w_schedules := t2, w_logs := t3\<rparr>" by (auto simp only: prod.inject)
  then have w': "w_workflows w' = tbl_save sw_id ?x (w_workflows w)" "w_schedules w' = t2" by simp_all
  have wfs: "wf_schedules (w_schedules w)" using assms(2) by (simp add: linv_def shape_def)
  have nm: "sc_name (sql_schedule (timing_name i) d i) = timing_name i" by (simp add: sql_schedule_def)
  from st.look_put [OF wfs t2 [unfolded add_sql_schedule_def]] obtain s
    where s: "schedule_named (timing_name i) t2 = Some s" "same_timer (sql_schedule (timing_name i) d i) s"
    by (auto simp: nm)
  have s': "sc_next_run s = d" "sc_args s = [i]" "sc_func s = ''sql.utils.execute_sql.execute''" "sc_repeats s = 1"
    using s(2) by (cases s; simp add: same_timer_def sql_schedule_def)+
  have g: "workflow_get w' i = Inr ?x"
    using tbl_get_save [of "''SqlWorkflow''" sw_id ?x "w_workflows w" x] x ix w' by (simp add: workflow_get_def)
  have o: "\<forall>n. n \<noteq> timing_name i \<longrightarrow> schedule_named n t2 = schedule_named n (w_schedules w)"
    using st.look_put_other [OF wfs t2 [unfolded add_sql_schedule_def]] by (simp add: nm)
  show ?thesis using c t late s(1) s' g o w' by auto
qed

lemma timing_sets_one_timer_witness:
  "\<exists>w' s. TimingTask_post (demo_dev\<lparr>has_perm := \<lambda>p. p = ''sql.sql_execute''\<rparr>) 1 (Some 7)
      ((demo_life workflow_review_pass demo_passed)\<lparr>w_now := 0\<rparr>) = (Inr (), w')
    \<and> schedule_named (timing_name 1) (w_schedules w') = Some s \<and> sc_next_run s = 7"
proof -
  let ?u = "demo_dev\<lparr>has_perm := \<lambda>p. p = ''sql.sql_execute''\<rparr>"
  let ?v = "(demo_life workflow_review_pass demo_passed)\<lparr>w_now := 0\<rparr>"
  let ?run = "TimingTask_post ?u 1 (Some 7) ?v"
  have "fst ?run = Inr ()" by code_simp
  then obtain w' where run: "?run = (Inr (), w')" by (metis prod.collapse)
  have "linv {} ?v" unfolding linv_no_names by code_simp
  from timing_sets_one_timer [OF run this] run show ?thesis by blast
qed

lemma operate_closes:
  assumes "operate act u r au w = (Inr (d, au'), w')" and "au_audit au = Some a" and "wa_audit_id a \<noteq> 0"
    and "act \<in> {REJECT, ABORT}"
  obtains b where "au' = au\<lparr>au_audit := Some b\<rparr>" "saved_record a b w w'" "closed b"
proof -
  have c: "can_operate w act u a au = Inr ()" using assms(1,2) by (auto simp: operate_def thenM_run split: sum.splits)
  then have opn: "\<not> closed a" by (auto simp: can_operate_def Let_def closed_def split: if_splits)
  from assms(4) consider "act = REJECT" | "act = ABORT" by blast
  then show ?thesis
  proof cases
    case 1
    with assms(1,2) c obtain d1 b1 where p: "operate_reject u r a w = (Inr (d1, b1), w')" "au' = au\<lparr>au_audit := Some b1\<rparr>"
      by (auto simp: operate_def thenM_run bindM_run split: prod.splits sum.splits)
    show ?thesis
      by (rule operate_close_effect [OF disjI1 [OF p(1)] assms(3) opn]) (use that p(2) in auto)
  next
    case 2
    with assms(1,2) c obtain d1 b1 where p: "operate_abort u r a w = (Inr (d1, b1), w')" "au' = au\<lparr>au_audit := Some b1\<rparr>"
      by (auto simp: operate_def thenM_run bindM_run split: prod.splits sum.splits)
    show ?thesis
      by (rule operate_close_effect [OF disjI2 [OF p(1)] assms(3) opn]) (use that p(2) in auto)
  qed
qed

text \<open>
  Stopping. When a request to cancel a release goes through, its record is closed, its status
  is that of a stopped order, and, if it was timed, its timer is gone: with C28, it never runs
  afterwards.
\<close>

theorem cancelling_stops:
  assumes "AuditWorkflow_post ru q w = (Inr m, w')" and "linv C w" and "rq_workflow_type q = SQL_REVIEW"
    and "rq_audit_type q \<noteq> ''pass''" and "workflow_get w (rq_workflow_id q) = Inr x"
  shows "workflow_get w' (rq_workflow_id q) = Inr (x\<lparr>sw_status := workflow_abort\<rparr>)
    \<and> (\<exists>b \<in> set (tbl_rows (w_audits w')). audit_key b = (rq_workflow_id q, SQL_REVIEW) \<and> closed b)
    \<and> (sw_status x = workflow_timingtask \<longrightarrow> schedule_named (timing_name (rq_workflow_id q)) (w_schedules w') = None)"
proof -
  let ?i = "rq_workflow_id q"
  from AuditWorkflow_post_Inr [OF assms(1)] obtain a au u act d au' b w1 w2 where
    a: "audit_of w ?i SQL_REVIEW = Inr a" and au: "get_auditor_of_audit w a = Inr au"
    and act: "requested_action q u au w = Inr act" and op: "operate act u (rq_audit_remark q) au w = (Inr (d, au'), w1)"
    and b: "au_audit au' = Some b" and se: "settle_order au' b w1 = (Inr (), w2)" and v: "sview w' = sview w2"
    using assms(3) by metis
  have ar: "a \<in> set (tbl_rows (w_audits w))" "wa_workflow_id a = ?i" "wa_workflow_type a = SQL_REVIEW"
    using a by (auto simp: audit_of_def dest!: tbl_get_Inr)
  note at = auditor_at_record [OF assms(2) ar(1) au]
  from at ar obtain y where y: "au_workflow au = WSql y" "y \<in> set (tbl_rows (w_workflows w))" "sw_id y = ?i" "wa_audit_id a \<noteq> 0"
    by (cases "au_workflow au") (auto simp: auditor_at_def)
  then have yx: "y = x" using order_of [OF assms(2) y(2)] assms(5) by simp
  have "act \<noteq> PASS" using act assms(4) by (auto simp: requested_action_def elim!: bindE_InrE split: if_splits)
  with requested_action_kinds [OF act] have "act \<in> {REJECT, ABORT}" by blast
  from operate_closes [OF op get_auditor_audit [OF au] y(4) this] obtain c
    where c: "au' = au\<lparr>au_audit := Some c\<rparr>" "saved_record a c w w1" "closed c" .
  then have cb: "c = b" "au_workflow au' = WSql x" using b y yx by simp_all
  have v1: "w_workflows w1 = w_workflows w" "w_schedules w1 = w_schedules w" "b \<in> set (tbl_rows (w_audits w1))"
    using c(2) cb saved_record_linv(2) [OF c(2) assms(2) ar(1)] by (simp_all add: saved_record_def sview_def)
  have wfs: "wf_schedules (w_schedules w1)" using assms(2) v1 by (simp add: linv_def shape_def)
  have ix: "sw_id x = ?i" using y yx by simp
  have "thenM (if sw_status x = workflow_timingtask then with_schedules (del_schedule (timing_name ?i)) else ret ())
      (save_sw_fields ?i (\<lambda>y. y\<lparr>sw_status := workflow_abort\<rparr>)) w1 = (Inr (), w2)"
    using se c(3) cb ix by (auto simp: settle_order_def closed_def)
  then have "\<exists>t. (sw_status x = workflow_timingtask \<longrightarrow> del_schedule (timing_name ?i) (w_schedules w1) = Inr t)
      \<and> save_sw_fields ?i (\<lambda>y. y\<lparr>sw_status := workflow_abort\<rparr>) (w1\<lparr>w_schedules := t\<rparr>) = (Inr (), w2)"
    by (elim thenM_InrE, cases "sw_status x = workflow_timingtask")
      (auto simp: with_schedules_def split: sum.splits intro: exI [of _ "w_schedules w1"])
  then obtain t w3 where t: "w3 = w1\<lparr>w_schedules := t\<rparr>"
      "sw_status x = workflow_timingtask \<longrightarrow> del_schedule (timing_name ?i) (w_schedules w1) = Inr t"
    and w2: "save_sw_fields ?i (\<lambda>y. y\<lparr>sw_status := workflow_abort\<rparr>) w3 = (Inr (), w2)" by blast
  note e2 = save_sw_fields_Inr [OF w2]
  have w': "w_workflows w' = tbl_update (\<lambda>x. sw_id x = ?i) (\<lambda>y. y\<lparr>sw_status := workflow_abort\<rparr>) (w_workflows w)"
    "w_schedules w' = t" "w_audits w' = w_audits w1"
    using v e2 t v1 by (simp_all add: sview_def)
  have "workflow_get w' ?i = Inr (x\<lparr>sw_status := workflow_abort\<rparr>)"
    by (rule workflow_get_updated [OF assms(5) _ w'(1)]) simp
  moreover have "audit_key b = (?i, SQL_REVIEW)" using c(2) cb ar by (simp add: saved_record_def audit_key_def)
  moreover have "sw_status x = workflow_timingtask \<longrightarrow> schedule_named (timing_name ?i) (w_schedules w') = None"
    using t(2) st.look_del [OF wfs] w'(2) by auto
  moreover have "b \<in> set (tbl_rows (w_audits w'))" "closed b" using v1(3) w'(3) c(3) cb by simp_all
  ultimately show ?thesis by (intro conjI bexI [of _ b]) simp_all
qed

lemma cancelling_stops_witness:
  "\<exists>w' x. AuditWorkflow_post demo_dev (demo_review demo_dev ''cancel'') (demo_life workflow_timingtask demo_passed)
      = (Inr ''canceled'', w') \<and> workflow_get w' 1 = Inr x \<and> sw_status x = workflow_abort"
proof -
  let ?v = "demo_life workflow_timingtask demo_passed"
  let ?run = "AuditWorkflow_post demo_dev (demo_review demo_dev ''cancel'') ?v"
  have "fst ?run = Inr ''canceled''" by code_simp
  then obtain w' where run: "?run = (Inr ''canceled'', w')" by (metis prod.collapse)
  have l: "linv {} ?v" unfolding linv_no_names by code_simp
  have g: "workflow_get ?v (rq_workflow_id (demo_review demo_dev ''cancel'')) = Inr (demo_workflow\<lparr>sw_status := workflow_timingtask\<rparr>)"
    by code_simp
  have k: "rq_workflow_type (demo_review demo_dev ''cancel'') = SQL_REVIEW"
    "rq_audit_type (demo_review demo_dev ''cancel'') \<noteq> ''pass''" "rq_workflow_id (demo_review demo_dev ''cancel'') = 1"
    by (simp_all add: demo_review_def)
  from cancelling_stops [OF run l k(1,2) g] run k(3) show ?thesis by auto
qed

end
