(* ===== verification/ArchiveProps.thy ===== *)
theory ArchiveProps
  imports Archive ApprovalProps
begin

text \<open>
  Properties of data archiving: what the counts of a run decide, what the log shows and hides,
  which orders are run, what a new order looks like, and who can switch an order on.
\<close>

section \<open>Lemmas on the statistics\<close>

lemma not_digit_newline [simp]: "\<not> is_digit newline"
  by (simp add: is_digit_def newline_def)

lemma not_digit_space [simp]: "\<not> is_digit (CHR '' '')"
  by (simp add: is_digit_def char_code_def)

lemma space_is_space [simp]: "is_space (CHR '' '')"
  by (simp add: is_space_def char_code_def)

lemma star_digits_greedy:
  "list_all is_digit ds \<Longrightarrow> \<exists>more. re_m (Star digit_re) (prev, ds @ [newline], caps)
    = (if ds = [] then prev else Some (last ds), [newline], caps) # more"
proof (induction ds arbitrary: prev)
  case Nil
  show ?case by (subst re_m.simps) (simp add: digit_re_def)
next
  case (Cons d ds)
  from Cons.prems Cons.IH [of "Some d"] obtain more
    where "re_m (Star digit_re) (Some d, ds @ [newline], caps)
      = (if ds = [] then Some d else Some (last ds), [newline], caps) # more" by auto
  with Cons.prems show ?case
    by (subst re_m.simps) (simp add: digit_re_def)
qed

lemma re_m_lit_run: "re_m (lit w) (p, w @ r, caps) = [(if w = [] then p else Some (last w), r, caps)]"
  by (induction w arbitrary: p) auto

lemma re_m_lit_ci_run:
  "re_m (lit_ci (lower w)) (p, w @ r, caps) = [(if w = [] then p else Some (last w), r, caps)]"
  by (induction w arbitrary: p) (auto simp: lower_def)

text \<open>The number of a statistics line.\<close>

lemma count_tail:
  assumes "list_all is_digit ds" and "ds \<noteq> []"
  shows "\<exists>more. re_m (Seq space_re (Seq (Grp 1 (Plus digit_re)) Eos)) (p, '' '' @ ds @ [newline], [])
    = (Some (last ds), [newline], [(1, ds)]) # more"
proof -
  obtain d es where ds: "ds = d # es" using assms(2) by (cases ds) auto
  with assms(1) star_digits_greedy [of es "Some d" "[]"] obtain more
    where "re_m (Plus digit_re) (Some (CHR '' ''), ds @ [newline], []) = (Some (last ds), [newline], []) # more"
    by (auto simp: Plus_def digit_re_def)
  then show ?thesis by (simp add: space_re_def at_end_def ds)
qed

lemma count_line:
  assumes "list_all is_digit ds" and "ds \<noteq> []" and "w \<noteq> []"
  shows "count_found w (w @ '' '' @ ds @ [newline]) = [ds]"
    and "re_match (count_re w True) (w @ '' '' @ ds @ [newline])"
proof -
  let ?t = "Seq space_re (Seq (Grp 1 (Plus digit_re)) Eos)"
  obtain more where t: "re_m ?t (Some (last w), '' '' @ ds @ [newline], [])
      = (Some (last ds), [newline], [(1, ds)]) # more"
    using count_tail [OF assms(1,2)] by blast
  have s: "re_m (Seq Bos (Seq l ?t)) (None, w @ '' '' @ ds @ [newline], [])
      = re_m ?t (Some (last w), '' '' @ ds @ [newline], [])"
    if "re_m l (None, w @ '' '' @ ds @ [newline], []) = [(Some (last w), '' '' @ ds @ [newline], [])]" for l
    using that by (simp del: re_m.simps add: re_m.simps(3,8))
  show "count_found w (w @ '' '' @ ds @ [newline]) = [ds]"
    using s [of "lit w"] t assms(3)
    by (simp del: re_m.simps add: re_m_lit_run count_found_def re_match_at_def count_re_def caps_get_def)
  show "re_match (count_re w True) (w @ '' '' @ ds @ [newline])"
    using s [of "lit_ci (lower w)"] t assms(3)
    by (simp del: re_m.simps add: re_m_lit_ci_run re_match_def count_re_def)
qed

definition stat_line :: "string \<Rightarrow> nat \<Rightarrow> string" where
  "stat_line w n = w @ '' '' @ str_nat n @ [newline]"

text \<open>A line that carries no count.\<close>

definition quiet :: "string \<Rightarrow> bool" where
  "quiet l = (\<not> re_match (count_re ''SELECT'' True) l \<and> \<not> re_match (count_re ''INSERT'' True) l
     \<and> \<not> re_match (count_re ''DELETE'' True) l)"

lemma str_nat_all_digits: "list_all is_digit (str_nat n)"
  by (auto simp: list_all_iff dest: str_nat_digits)

lemmas stat_line_found = count_line [OF str_nat_all_digits str_nat_ne, folded stat_line_def]

lemma other_word:
  assumes "lower_char c \<noteq> lower_char d"
  shows "\<not> re_match (count_re (d # w) True) (c # l)"
  using assms by (auto simp: re_match_def count_re_def lower_def)

lemma lower_char_words [simp]:
  "lower_char (CHR ''S'') = CHR ''s''" "lower_char (CHR ''I'') = CHR ''i''" "lower_char (CHR ''D'') = CHR ''d''"
  by (code_simp, code_simp, code_simp)

lemma stat_line_other [simp]:
  "\<not> re_match (count_re ''SELECT'' True) (stat_line ''INSERT'' n)"
  "\<not> re_match (count_re ''SELECT'' True) (stat_line ''DELETE'' n)"
  "\<not> re_match (count_re ''INSERT'' True) (stat_line ''DELETE'' n)"
  by (simp_all add: stat_line_def other_word)

lemma read_counts_quiet: "list_all quiet ls \<Longrightarrow> read_counts (ls @ ms) c = read_counts ms c"
  by (induction ls) (auto simp: quiet_def)

lemma read_counts_stats:
  assumes "list_all quiet before" and "list_all quiet after"
  shows "read_counts (before @ [stat_line ''SELECT'' a, stat_line ''INSERT'' b, stat_line ''DELETE'' d] @ after) c
    = \<lparr>cnt_select = [str_nat a], cnt_insert = [str_nat b], cnt_delete = [str_nat d]\<rparr>"
  using read_counts_quiet [OF assms(2), of "[]"]
  by (simp add: read_counts_quiet [OF assms(1)] stat_line_found)

lemma py_int_str_nat [simp]: "py_int (str_nat n) = Inr (int n)"
proof -
  have "str_nat n = str_int (int n)" by (simp add: str_int_def)
  then show ?thesis by simp
qed

text \<open>
  A run is counted as a success exactly when the tool wrote nothing to its standard error and
  the rows it reports agree: inserted and deleted rows when they are moved to another instance,
  selected and deleted rows when they are written to a file (both only when the source rows are
  deleted), selected and deleted rows when they are purged. The counts are those the tool printed,
  whatever other lines surround them.
\<close>

theorem archive_success_iff:
  assumes "list_all quiet before" and "list_all quiet after"
  shows "\<exists>a. archive_outcome x \<lparr>cr_lines = before @ [stat_line ''SELECT'' sel, stat_line ''INSERT'' ins,
            stat_line ''DELETE'' del] @ after, cr_stderr = err, cr_end = t\<rparr> = Inr a
    \<and> ar_select_cnt a = int sel \<and> ar_insert_cnt a = int ins \<and> ar_delete_cnt a = int del
    \<and> (ar_success a \<longleftrightarrow> err = [] \<and> (ac_mode x = ''dest'' \<and> \<not> ac_no_delete x \<longrightarrow> ins = del)
         \<and> (ac_mode x = ''file'' \<and> \<not> ac_no_delete x \<longrightarrow> sel = del) \<and> (ac_mode x = ''purge'' \<longrightarrow> sel = del))
    \<and> (ar_success a \<longleftrightarrow> ar_error_info a = [])"
  using assms
  by (auto simp: archive_outcome_def read_counts_stats [simplified] count_value_def count_mismatch_def Let_def)

lemma archive_success_iff_witness:
  "\<exists>a. archive_outcome (new_ArchiveConfig\<lparr>ac_mode := ''purge''\<rparr>)
       \<lparr>cr_lines = [''TIME ELAPSED''] @ [stat_line ''SELECT'' 5, stat_line ''INSERT'' 0, stat_line ''DELETE'' 4] @ [],
        cr_stderr = [], cr_end = 9\<rparr> = Inr a
     \<and> ar_select_cnt a = 5 \<and> ar_insert_cnt a = 0 \<and> ar_delete_cnt a = 4 \<and> \<not> ar_success a"
proof -
  have q: "list_all quiet [''TIME ELAPSED'']" by code_simp
  show ?thesis
    using archive_success_iff [of "[''TIME ELAPSED'']" "[]" "new_ArchiveConfig\<lparr>ac_mode := ''purge''\<rparr>" 5 0 4 "[]" 9] q
    by auto
qed

section \<open>What a run leaves behind\<close>

lemma archive_args_accepted:
  assumes "archive_args env w x s_ins = Inr as"
  shows "check_args PtArchiver as = (0, ''ok'')"
proof -
  have "\<forall>a \<in> set (map fst as). a \<noteq> ''analyze''"
    using assms
    by (auto simp: archive_args_def Let_def archive_common_args_def no_delete_arg_def
        elim!: bindE_InrE split: if_splits)
  then have "find (\<lambda>a. a \<in> set (pl_disable_args PtArchiver)) (map fst as) = None"
    by (auto simp: find_None_iff PtArchiver_def)
  then show ?thesis by (simp add: check_args_def) (simp add: PtArchiver_def)
qed

lemma archive_finish_cases:
  assumes "archive_finish x s_ins cmd_args cr w = (r, w')" and "archive_get w (ac_id x) = Inr x"
    and "logged_cmd w x s_ins cmd_args = Inr cmd"
  shows "(\<exists>e. archive_outcome x cr = Inl e \<and> r = Inl e \<and> w' = w)
    \<or> (\<exists>a. archive_outcome x cr = Inr a
      \<and> w' = w\<lparr>w_archives := tbl_update (\<lambda>y. ac_id y = ac_id x) (\<lambda>y. y\<lparr>ac_last_archive_time := Some (cr_end cr)\<rparr>) (w_archives w),
               w_archive_logs := tbl_create set_al_id (archive_log_row x cmd a (w_now w) (cr_end cr)) (w_archive_logs w)\<rparr>
      \<and> (r = Inr () \<longleftrightarrow> ar_success a))"
proof -
  have ex: "list_ex (\<lambda>y. ac_id y = ac_id x) (tbl_rows (w_archives w))"
    using assms(2) by (auto simp: archive_get_def list_ex_iff dest: tbl_get_Inr)
  have "dest_instance (w\<lparr>w_archives := t\<rparr>) x = dest_instance w x" for t
    by (simp add: dest_instance_def instance_by_id_def split: option.split)
  then have lc: "logged_cmd (w\<lparr>w_archives := t\<rparr>) x s_ins cmd_args = logged_cmd w x s_ins cmd_args" for t
    by (simp add: logged_cmd_def Let_def cong: if_cong)
  show ?thesis
  proof (cases "archive_outcome x cr")
    case (Inl e)
    with assms(1) show ?thesis by (simp add: archive_finish_def bindM_run)
  next
    case (Inr a)
    with assms(1,3) ex show ?thesis
      by (auto simp: archive_finish_def bindM_run thenM_run save_ac_fields_def tbl_save_fields_def lc
          split: if_splits)
  qed
qed

lemma archive_run_cases:
  assumes "archive env i w = (r, w')"
  shows "(\<exists>e. r = Inl e) \<and> w' = w
    \<or> (\<exists>x s_ins as cr a cmd. archive_get w i = Inr x \<and> instance_by_id w (ac_src_instance x) = Inr s_ins
      \<and> archive_args env w x s_ins = Inr as \<and> ae_run env (PtArchiver_generate_args2cmd as) = Inr cr
      \<and> archive_outcome x cr = Inr a \<and> logged_cmd w x s_ins (PtArchiver_generate_args2cmd as) = Inr cmd
      \<and> w' = w\<lparr>w_archives := tbl_update (\<lambda>y. ac_id y = i) (\<lambda>y. y\<lparr>ac_last_archive_time := Some (cr_end cr)\<rparr>) (w_archives w),
               w_archive_logs := tbl_create set_al_id (archive_log_row x cmd a (w_now w) (cr_end cr)) (w_archive_logs w)\<rparr>
      \<and> (if ar_success a then r = Inr None else \<exists>e. r = Inl e))"
proof (cases "\<exists>x s_ins as cr. archive_get w i = Inr x \<and> instance_by_id w (ac_src_instance x) = Inr s_ins
      \<and> archive_args env w x s_ins = Inr as \<and> ae_run env (PtArchiver_generate_args2cmd as) = Inr cr")
  case False
  from False assms have "(\<exists>e. r = Inl e) \<and> w' = w"
    by (auto simp: archive_def bindM_run dest: archive_args_accepted split: sum.splits if_splits)
  then show ?thesis by blast
next
  case True
  then obtain x s_ins as cr where x: "archive_get w i = Inr x" and s: "instance_by_id w (ac_src_instance x) = Inr s_ins"
    and as: "archive_args env w x s_ins = Inr as" and cr: "ae_run env (PtArchiver_generate_args2cmd as) = Inr cr" by blast
  have ix: "ac_id x = i" using x by (auto simp: archive_get_def dest: tbl_get_Inr)
  obtain r1 where fin: "archive_finish x s_ins (PtArchiver_generate_args2cmd as) cr w = (r1, w')"
    and r: "r = map_sum id (\<lambda>_. None) r1"
    using assms x s as cr
    by (auto simp: archive_def bindM_run thenM_run archive_args_accepted split: prod.splits sum.splits)
  have "\<exists>cmd. logged_cmd w x s_ins (PtArchiver_generate_args2cmd as) = Inr cmd"
    using as by (auto simp: logged_cmd_def Let_def archive_args_def elim!: bindE_InrE split: if_splits)
  then obtain cmd where cmd: "logged_cmd w x s_ins (PtArchiver_generate_args2cmd as) = Inr cmd" by blast
  have xx: "archive_get w (ac_id x) = Inr x" using x ix by simp
  from archive_finish_cases [OF fin xx cmd] show ?thesis
  proof (elim disjE exE conjE)
    fix e assume "r1 = Inl e" "w' = w"
    with r show ?thesis by simp
  next
    fix a assume a: "archive_outcome x cr = Inr a" "(r1 = Inr ()) = ar_success a"
      and w': "w' = w\<lparr>w_archives := tbl_update (\<lambda>y. ac_id y = ac_id x) (\<lambda>y. y\<lparr>ac_last_archive_time := Some (cr_end cr)\<rparr>) (w_archives w),
               w_archive_logs := tbl_create set_al_id (archive_log_row x cmd a (w_now w) (cr_end cr)) (w_archive_logs w)\<rparr>"
    have "if ar_success a then r = Inr None else \<exists>e. r = Inl e" using a r by (cases r1) auto
    with x s as cr a(1) cmd w' ix show ?thesis by blast
  qed
qed


text \<open>
  A run of the archive task either raises before anything was stored, or stores exactly one
  line in the archive log, with the counts and the verdict of the run, and the time of the run in
  the order; nothing else changes. It returns normally exactly when that verdict is a success, so
  the queue sees every failed run as failed. It never ends with refused arguments.
\<close>

theorem archive_run_recorded:
  assumes "archive env i w = (r, w')"
  shows "(\<exists>e. r = Inl e) \<and> w' = w
    \<or> (\<exists>x s_ins as cr a cmd. archive_get w i = Inr x \<and> instance_by_id w (ac_src_instance x) = Inr s_ins
      \<and> archive_args env w x s_ins = Inr as \<and> ae_run env (PtArchiver_generate_args2cmd as) = Inr cr
      \<and> archive_outcome x cr = Inr a \<and> logged_cmd w x s_ins (PtArchiver_generate_args2cmd as) = Inr cmd
      \<and> w' = w\<lparr>w_archives := tbl_update (\<lambda>y. ac_id y = i) (\<lambda>y. y\<lparr>ac_last_archive_time := Some (cr_end cr)\<rparr>) (w_archives w),
               w_archive_logs := tbl_create set_al_id (archive_log_row x cmd a (w_now w) (cr_end cr)) (w_archive_logs w)\<rparr>
      \<and> (if ar_success a then r = Inr None else \<exists>e. r = Inl e))"
  using archive_run_cases [OF assms] .

text \<open>A password that the mask can hide.\<close>

definition maskable :: "instance_row \<Rightarrow> bool" where
  "maskable i = (i_password i \<noteq> [] \<and> CHR ''*'' \<notin> set (i_password i))"

lemma hide_password_hides: "maskable i \<Longrightarrow> \<not> str_in (i_password i) (hide_password i t)"
  by (simp add: hide_password_def str_replace_absent maskable_def)

lemma hide_password_keeps:
  "maskable i \<Longrightarrow> maskable j \<Longrightarrow> \<not> str_in (i_password i) t \<Longrightarrow> \<not> str_in (i_password i) (hide_password j t)"
  by (simp add: hide_password_def str_replace_keeps_absent maskable_def)

text \<open>
  The command kept in the archive log shows neither the password of the source instance nor,
  when rows are moved to another instance, that of the target: wherever the command line held
  them, they are replaced. (A password is taken to be nonempty and free of the character that
  replaces it.)
\<close>

theorem archive_log_hides_passwords:
  assumes "archive env i w = (r, w')" and "archive_get w i = Inr x"
    and "instance_by_id w (ac_src_instance x) = Inr s_ins"
    and "l \<in> set (tbl_rows (w_archive_logs w'))" and "l \<notin> set (tbl_rows (w_archive_logs w))"
    and "maskable s_ins" and "\<forall>d. dest_instance w x = Inr d \<longrightarrow> maskable d"
  shows "\<not> str_in (i_password s_ins) (al_cmd l)
    \<and> (\<forall>d. ac_mode x = ''dest'' \<and> dest_instance w x = Inr d \<longrightarrow> \<not> str_in (i_password d) (al_cmd l))"
  using archive_run_cases [OF assms(1)]
proof (elim disjE exE conjE)
  assume "w' = w"
  with assms(4,5) show ?thesis by simp
next
  fix x' s' as cr a cmd
  assume "archive_get w i = Inr x'" and "instance_by_id w (ac_src_instance x') = Inr s'"
    and cmd: "logged_cmd w x' s' (PtArchiver_generate_args2cmd as) = Inr cmd"
    and w': "w' = w\<lparr>w_archives := tbl_update (\<lambda>y. ac_id y = i) (\<lambda>y. y\<lparr>ac_last_archive_time := Some (cr_end cr)\<rparr>) (w_archives w),
               w_archive_logs := tbl_create set_al_id (archive_log_row x' cmd a (w_now w) (cr_end cr)) (w_archive_logs w)\<rparr>"
  then have x: "x' = x" "s' = s_ins" using assms(2,3) by auto
  from w' assms(4,5) have l: "al_cmd l = cmd" by (auto simp: tbl_create_def archive_log_row_def)
  show ?thesis
  proof (cases "ac_mode x = ''dest''")
    case False
    with cmd x hide_password_hides [OF assms(6)] l show ?thesis by (auto simp: logged_cmd_def Let_def)
  next
    case True
    with cmd x obtain d where d: "dest_instance w x = Inr d"
      and c: "cmd = hide_password d (hide_password s_ins (join '' '' (PtArchiver_generate_args2cmd as)))"
      by (auto simp: logged_cmd_def Let_def elim: bindE_InrE)
    have md: "maskable d" using assms(7) d by blast
    have "\<not> str_in (i_password s_ins) cmd" "\<not> str_in (i_password d) cmd"
      unfolding c using hide_password_keeps [OF assms(6) md] hide_password_hides assms(6) md by blast+
    with l d show ?thesis by simp
  qed
qed

section \<open>New orders, and switching one on\<close>

lemma archive_audit_operate_execute:
  assumes "action \<in> {EXECUTE_SET_TIME, EXECUTE_START, EXECUTE_END}" and "au_audit au = Some a"
    and "wa_current_status a = PASSED"
  shows "operate action u remark au w = (Inr (None, au), w)"
  using assms by (auto simp: operate_def thenM_run can_operate_def)

text \<open>
  Switching an approved archive order back on takes no authority. On a record that has passed,
  the engine lets everyone \<open>execute\<close>, and \<open>ArchiveAudit\<close>, which asks for nothing but a login, writes
  \<open>state = True\<close> whatever the action was: any user's request with such an action succeeds and enables
  an order that its administrators had switched off.
\<close>

theorem archive_audit_reenables:
  assumes "archive_get w i = Inr x" and "ac_id x \<noteq> 0"
    and "tbl_get ''ResourceGroup'' (\<lambda>g. rg_group_id g = ac_resource_group x) (w_resource_groups w) = Inr rg"
    and "AuditV2 w (Some (WArchive x)) None (rg_group_name rg) 0 = Inr au"
    and "au_audit au = Some a" and "wa_current_status a = PASSED"
    and "action \<in> {EXECUTE_SET_TIME, EXECUTE_START, EXECUTE_END}"
  shows "\<exists>w' y. ArchiveAudit_post u i (workflow_action_code action) remark w = (Inr (0, ''ok''), w')
    \<and> archive_get w' i = Inr y \<and> ac_state y \<and> ac_status y = PASSED \<and> w_audits w' = w_audits w"
proof -
  let ?y = "x\<lparr>ac_status := PASSED, ac_state := True, ac_sys_time := w_now w\<rparr>"
  let ?w1 = "w\<lparr>w_archives := tbl_save ac_id ?y (w_archives w)\<rparr>"
  have ix: "ac_id x = i" using assms(1) by (auto simp: archive_get_def dest: tbl_get_Inr)
  have rev: "review_archive action u remark x au w = (Inr a, ?w1)"
    using archive_audit_operate_execute [OF assms(7,5,6), of u remark w] assms(2,5,6)
    by (simp add: review_archive_def atomicM_run bindM_run thenM_run record_of_def Let_def)
  have "archive_get ?w1 i = Inr ?y"
    using tbl_get_save [of "''ArchiveConfig''" ac_id ?y "w_archives w" x] assms(1) ix
    by (simp add: archive_get_def)
  with rev assms(1,3,4) show ?thesis
    by (simp add: ArchiveAudit_post_def bindM_run thenM_run catchM_run async_task_def archive_get_def)
qed

lemma list_get_Inr: "list_get n P xs = Inr x \<Longrightarrow> P x \<and> x \<in> set xs"
  using tbl_get_Inr [of n P "\<lparr>tbl_rows = xs, tbl_next = 0\<rparr>" x] by (simp add: list_get_def)

lemma AuditV2_archive:
  assumes "AuditV2 w (Some (WArchive x)) None rg rgid = Inr au"
  shows "au_workflow au = WArchive x" "au_workflow_type au = ARCHIVE"
    "get_audit w (WArchive x) = Inr (au_audit au)"
  using assms by (auto simp: AuditV2_def elim!: bindE_InrE split: sum.splits if_splits)

lemma archive_never_auto:
  assumes "generate_audit_setting compile_re w au = Inr s" and "au_workflow au = WArchive x"
  shows "\<not> as_auto_pass s \<and> \<not> as_auto_reject s"
  using assms by (auto simp: generate_audit_setting_def is_auto_review_def is_auto_reject_def split: sum.splits if_splits)

text \<open>The state a new order is stored in.\<close>

lemma create_audit_archive:
  assumes "create_audit compile_re au w = (Inr (m, au'), w')" and "au_workflow au = WArchive x"
    and "ac_id x = 0" and "au_audit au = None"
  obtains g a where "au' = au\<lparr>au_workflow := WArchive (x\<lparr>ac_audit_auth_groups := g, ac_create_time := w_now w,
        ac_sys_time := w_now w, ac_id := tbl_next (w_archives w)\<rparr>), au_audit := Some a\<rparr>"
    and "w_archives w' = tbl_create set_ac_id (x\<lparr>ac_audit_auth_groups := g, ac_create_time := w_now w,
        ac_sys_time := w_now w\<rparr>) (w_archives w)"
    and "wa_current_status a = WAITING" and "wa_workflow_id a = tbl_next (w_archives w)"
    and "wa_workflow_type a = au_workflow_type au" and "a \<in> set (tbl_rows (w_audits w'))" and "w_now w' = w_now w"
proof -
  from create_audit_Inr [OF assms(1)] obtain s wo w1 a w2 l
    where s: "generate_audit_setting compile_re w au = Inr s"
      and wo: "workflow_save (set_audit_auth_groups (audit_auth_group_in_db s) (au_workflow au)) w = (Inr wo, w1)"
      and a: "audit_save (decided s (fresh_audit au wo (audit_auth_group_in_db s))) w1 = (Inr a, w2)"
      and w': "w' = w2\<lparr>w_logs := tbl_create set_wl_id l (w_logs w2)\<rparr>"
      and au': "au' = au\<lparr>au_workflow := wo, au_audit := Some a\<rparr>" by metis
  have auto: "\<not> as_auto_pass s" "\<not> as_auto_reject s" using archive_never_auto [OF s assms(2)] by auto
  let ?x = "x\<lparr>ac_audit_auth_groups := audit_auth_group_in_db s, ac_create_time := w_now w, ac_sys_time := w_now w\<rparr>"
  from wo assms(2,3) have wo': "wo = WArchive (set_ac_id (tbl_next (w_archives w)) ?x)"
    and w1: "w1 = w\<lparr>w_archives := tbl_create set_ac_id ?x (w_archives w)\<rparr>"
    by (auto simp: Let_def tbl_created_def)
  from a have st: "wa_current_status a = WAITING" "wa_workflow_id a = workflow_pk wo"
      "wa_workflow_type a = au_workflow_type au" "a \<in> set (tbl_rows (w_audits w2))"
      "w_archives w2 = w_archives w1" "w_now w2 = w_now w1"
    using auto by (auto simp: audit_save_def Let_def decided_def first_waiting_def tbl_created_def tbl_create_def
        split: if_splits)
  show ?thesis
    by (rule that [of a "audit_auth_group_in_db s"]) (use au' wo' w1 st w' in simp_all)
qed

lemma settle_archive_run:
  assumes "(bindM (liftM (\<lambda>w. record_of au')) (\<lambda>a. bindM (workflow_save (settle_archive a (au_workflow au'))) (\<lambda>wo.
           thenM (async_task (notify_for_audit (wa_audit_id a) (''archive-apply-'' @ str_int (workflow_pk wo))))
             (ret (Some (a, workflow_pk wo)))))) w1 = (Inr (Some (b, k)), w')"
    and "au_workflow au' = WArchive x" and "au_audit au' = Some a" and "wa_current_status a = WAITING"
    and "wf_table ac_id (w_archives w1)" and "ac_id x \<noteq> 0"
  shows "b = a \<and> k = ac_id x \<and> w_audits w' = w_audits w1
    \<and> archive_get w' k = Inr (x\<lparr>ac_status := WAITING, ac_sys_time := w_now w1\<rparr>)"
  using assms(1-4,6) ac.get_saved [OF assms(5), of "''ArchiveConfig''" "x\<lparr>ac_status := WAITING, ac_sys_time := w_now w1\<rparr>"]
  by (auto simp: bindM_run thenM_run record_of_def Let_def async_task_def archive_get_def)

lemma no_record_of_new:
  assumes "\<forall>r \<in> set (tbl_rows (w_audits w)). wa_workflow_id r \<noteq> 0" and "workflow_pk wo = 0"
    and "get_audit w wo = Inr info"
  shows "info = None"
proof (cases info)
  case (Some a)
  with assms(3) have "tbl_get ''WorkflowAudit'' (\<lambda>a. wa_workflow_type a = workflow_type_of wo
      \<and> wa_workflow_id a = workflow_pk wo) (w_audits w) = Inr a"
    by (auto simp: get_audit_def split: sum.splits if_splits)
  from tbl_get_Inr [OF this] assms(1,2) show ?thesis by auto
qed simp

text \<open>
  An accepted archive application stores one new order, for the applicant, on a MySQL instance
  the applicant reaches, switched off and waiting, with a record that waits: no archive order is
  approved by the machine, and none can be scheduled before its approval.
\<close>

theorem archive_application_waits:
  assumes "ArchiveApplyView_post compile_re u q w = (Inr (Inr (a, k)), w')"
    and "wf_table ac_id (w_archives w)" and "1 \<le> tbl_next (w_archives w)"
    and "\<forall>r \<in> set (tbl_rows (w_audits w)). wa_workflow_id r \<noteq> 0"
  shows "\<exists>x s_ins. archive_get w' k = Inr x \<and> k = tbl_next (w_archives w)
    \<and> ac_user_name x = u_username u \<and> ac_status x = WAITING \<and> \<not> ac_state x \<and> \<not> schedulable ids x
    \<and> s_ins \<in> set (user_instances w u '''' [''mysql''] []) \<and> ac_src_instance x = i_id s_ins
    \<and> a \<in> set (tbl_rows (w_audits w')) \<and> wa_current_status a = WAITING \<and> wa_workflow_id a = k
    \<and> wa_workflow_type a = ARCHIVE"
proof -
  from assms(1) obtain s_ins d_ins rg where s: "mysql_instance w u (aq_src_instance_name q) = Inr s_ins"
    and sub: "submit_archive compile_re (requested_archive q u rg s_ins d_ins) rg w = (Inr (Some (a, k)), w')"
    by (auto simp: ArchiveApplyView_post_def bindM_run thenM_run split: option.splits sum.splits if_splits prod.splits)
  let ?x = "requested_archive q u rg s_ins d_ins"
  have x0: "ac_id ?x = 0" "ac_user_name ?x = u_username u" "ac_src_instance ?x = i_id s_ins" "\<not> ac_state ?x"
    by (simp_all add: requested_archive_def new_ArchiveConfig_def)
  from sub obtain au m au' w1 where au: "AuditV2 w (Some (WArchive ?x)) None (rg_group_name rg) (rg_group_id rg) = Inr au"
    and cr: "create_audit compile_re au w = (Inr (m, au'), w1)"
    and rest: "(bindM (liftM (\<lambda>w. record_of au')) (\<lambda>a. bindM (workflow_save (settle_archive a (au_workflow au'))) (\<lambda>wo.
           thenM (async_task (notify_for_audit (wa_audit_id a) (''archive-apply-'' @ str_int (workflow_pk wo))))
             (ret (Some (a, workflow_pk wo)))))) w1 = (Inr (Some (a, k)), w')"
    by (auto simp: submit_archive_def atomicM_run bindM_run [of "liftM (\<lambda>w. AuditV2 w q0 a0 n0 i0)" for q0 a0 n0 i0]
       bindM_run [of "create_audit c0 u0" for c0 u0] bindM_run [of "catchM c1 h1" for c1 h1] catchM_run
       split: option.splits sum.splits if_splits prod.splits)
  note A = AuditV2_archive [OF au]
  have none: "au_audit au = None" by (rule no_record_of_new [OF assms(4) _ A(3)]) (simp add: x0)
  from create_audit_archive [OF cr A(1) x0(1) none] obtain g b
    where au': "au' = au\<lparr>au_workflow := WArchive (?x\<lparr>ac_audit_auth_groups := g, ac_create_time := w_now w,
        ac_sys_time := w_now w, ac_id := tbl_next (w_archives w)\<rparr>), au_audit := Some b\<rparr>"
    and arch: "w_archives w1 = tbl_create set_ac_id (?x\<lparr>ac_audit_auth_groups := g, ac_create_time := w_now w,
        ac_sys_time := w_now w\<rparr>) (w_archives w)"
    and b: "wa_current_status b = WAITING" "wa_workflow_id b = tbl_next (w_archives w)"
      "wa_workflow_type b = au_workflow_type au" "b \<in> set (tbl_rows (w_audits w1))" .
  have wf1: "wf_table ac_id (w_archives w1)" using ac.wf_create [OF assms(2)] arch by simp
  from settle_archive_run [OF rest _ _ b(1) wf1] au' assms(3)
  have "a = b" "k = tbl_next (w_archives w)" "w_audits w' = w_audits w1"
    and "archive_get w' k = Inr (?x\<lparr>ac_audit_auth_groups := g, ac_create_time := w_now w,
        ac_id := tbl_next (w_archives w), ac_status := WAITING, ac_sys_time := w_now w1\<rparr>)"
    by auto
  then show ?thesis
    using b x0 A(2) list_get_Inr [OF s [unfolded mysql_instance_def]] by (auto simp: schedulable_def)
qed

section \<open>Concrete runs\<close>

definition demo_source :: instance_row where
  "demo_source = new_Instance\<lparr>i_id := 7, i_instance_name := ''src'', i_db_type := ''mysql'', i_host := ''h'',
     i_port := 3306, i_user := ''u'', i_password := ''s3cret'', i_resource_group := [5]\<rparr>"

definition demo_archive :: archive_config where
  "demo_archive = new_ArchiveConfig\<lparr>ac_id := 1, ac_title := ''old rows'', ac_resource_group := 5,
     ac_src_instance := 7, ac_src_db_name := ''d'', ac_src_table_name := ''t'', ac_condition := ''id<9'',
     ac_mode := ''purge'', ac_status := PASSED, ac_state := False, ac_user_name := ''dev''\<rparr>"

definition demo_archive_audit :: workflow_audit where
  "demo_archive_audit = (demo_audit ''10'' ''-1'' ''-1'')\<lparr>wa_workflow_type := ARCHIVE, wa_current_status := PASSED\<rparr>"

definition demo_archive_world :: world where
  "demo_archive_world = (demo_world [demo_archive_audit])\<lparr>
     w_instances := \<lparr>tbl_rows = [demo_source], tbl_next = 8\<rparr>,
     w_archives := \<lparr>tbl_rows = [demo_archive], tbl_next = 2\<rparr>,
     w_settings := \<lparr>tbl_rows = [\<lparr>was_audit_setting_id = 1, was_group_id = 5, was_group_name = ''team'',
        was_workflow_type = ARCHIVE, was_audit_auth_groups = ''10'', was_create_time = 0, was_sys_time = 0\<rparr>],
        tbl_next = 2\<rparr>\<rparr>"

definition demo_env :: archive_env where
  "demo_env = \<lparr>ae_table_charset = (\<lambda>i d t. Inr (Some ''utf8'')), ae_db_charset = (\<lambda>i d. Inr None),
     ae_run = (\<lambda>cmd. Inr \<lparr>cr_lines = [stat_line ''SELECT'' 5, stat_line ''INSERT'' 0, stat_line ''DELETE'' 5], cr_stderr = [], cr_end = 1009\<rparr>),
     ae_base_dir = ''/opt''\<rparr>"

definition demo_archive_request :: archive_request where
  "demo_archive_request = \<lparr>aq_title = ''t'', aq_group_name = ''team'', aq_src_instance_name = ''src'',
     aq_src_db_name = ''d'', aq_src_table_name = ''t'', aq_mode = ''purge'', aq_dest_instance_name = [],
     aq_dest_db_name = [], aq_dest_table_name = [], aq_condition = ''id<9'', aq_no_delete = False, aq_sleep = 1\<rparr>"

lemma demo_gets:
  "archive_get demo_archive_world 1 = Inr demo_archive"
  "instance_by_id demo_archive_world (ac_src_instance demo_archive) = Inr demo_source"
  by code_simp+

lemma demo_run: "\<exists>w'. archive demo_env 1 demo_archive_world = (Inr None, w')"
proof -
  let ?w = demo_archive_world
  have m: "ac_mode demo_archive = ''purge''" by (simp add: demo_archive_def)
  obtain as where as: "archive_args demo_env ?w demo_archive demo_source = Inr as"
    using m by (simp add: archive_args_def archive_charset_def demo_env_def Let_def)
  let ?cr = "\<lparr>cr_lines = [stat_line ''SELECT'' 5, stat_line ''INSERT'' 0, stat_line ''DELETE'' 5], cr_stderr = [], cr_end = 1009\<rparr>"
  have run: "ae_run demo_env cmd = Inr ?cr" for cmd by (simp add: demo_env_def)
  obtain a where a: "archive_outcome demo_archive ?cr = Inr a" "ar_success a"
    using read_counts_stats [of "[]" "[]" 5 0 5] m
    by (simp add: archive_outcome_def count_value_def count_mismatch_def Let_def)
  obtain cmd where cmd: "logged_cmd ?w demo_archive demo_source (PtArchiver_generate_args2cmd as) = Inr cmd"
    using m by (simp add: logged_cmd_def Let_def)
  have g: "archive_get ?w (ac_id demo_archive) = Inr demo_archive"
    using demo_gets(1) by (simp add: demo_archive_def new_ArchiveConfig_def)
  from archive_finish_cases [OF surjective_pairing g cmd, of ?cr] a
  have "fst (archive_finish demo_archive demo_source (PtArchiver_generate_args2cmd as) ?cr ?w) = Inr ()"
    by (elim disjE exE conjE) simp_all
  then obtain w' where "archive_finish demo_archive demo_source (PtArchiver_generate_args2cmd as) ?cr ?w = (Inr (), w')"
    by (metis prod.collapse)
  with demo_gets as run show ?thesis
    by (simp add: archive_def bindM_run thenM_run archive_args_accepted)
qed

lemma demo_no_logs: "w_archive_logs demo_archive_world = empty_table" "w_now demo_archive_world = 1000"
  by (simp_all add: demo_archive_world_def demo_world_def empty_world_def)

lemma archive_run_recorded_witness:
  "\<exists>w' x a t cmd. archive demo_env 1 demo_archive_world = (Inr None, w') \<and> ar_success a
    \<and> w_archive_logs w' = tbl_create set_al_id (archive_log_row x cmd a 1000 t) empty_table"
proof -
  obtain w' where run: "archive demo_env 1 demo_archive_world = (Inr None, w')" using demo_run by blast
  from archive_run_recorded [OF run] show ?thesis
  proof (elim disjE exE conjE)
    fix x s_ins as cr a cmd
    assume "w' = demo_archive_world\<lparr>w_archives := tbl_update (\<lambda>y. ac_id y = 1) (\<lambda>y. y\<lparr>ac_last_archive_time := Some (cr_end cr)\<rparr>) (w_archives demo_archive_world),
       w_archive_logs := tbl_create set_al_id (archive_log_row x cmd a (w_now demo_archive_world) (cr_end cr)) (w_archive_logs demo_archive_world)\<rparr>"
      and "if ar_success a then Inr None = (Inr None :: (int \<times> string) option res) else \<exists>e. Inr None = (Inl e :: (int \<times> string) option res)"
    then have "w_archive_logs w' = tbl_create set_al_id (archive_log_row x cmd a 1000 (cr_end cr)) empty_table"
      and "ar_success a" by (simp_all add: demo_no_logs split: if_splits)
    with run show ?thesis by blast
  qed simp
qed

lemma archive_log_hides_passwords_witness:
  "\<exists>w' l. archive demo_env 1 demo_archive_world = (Inr None, w') \<and> l \<in> set (tbl_rows (w_archive_logs w'))
    \<and> \<not> str_in ''s3cret'' (al_cmd l)"
proof -
  obtain w' where run: "archive demo_env 1 demo_archive_world = (Inr None, w')" using demo_run by blast
  from archive_run_cases [OF run] have "\<exists>l. l \<in> set (tbl_rows (w_archive_logs w'))"
    by (auto simp: tbl_create_def)
  then obtain l where l: "l \<in> set (tbl_rows (w_archive_logs w'))" by blast
  have none: "l \<notin> set (tbl_rows (w_archive_logs demo_archive_world))"
    by (simp add: demo_no_logs empty_table_def)
  have m: "maskable demo_source" by code_simp
  have "\<forall>d. dest_instance demo_archive_world demo_archive = Inr d \<longrightarrow> maskable d"
    by (simp add: dest_instance_def demo_archive_def new_ArchiveConfig_def)
  from archive_log_hides_passwords [OF run demo_gets l none m this] run l show ?thesis
    by (auto simp: demo_source_def)
qed

lemma archive_audit_reenables_witness:
  "\<exists>w' y. ArchiveAudit_post demo_dev 1 5 [] demo_archive_world = (Inr (0, ''ok''), w')
    \<and> archive_get w' 1 = Inr y \<and> ac_state y"
proof -
  let ?au = "\<lparr>au_workflow = WArchive demo_archive, au_audit = Some demo_archive_audit, au_workflow_type = ARCHIVE,
     au_resource_group = ''team'', au_resource_group_id = 5\<rparr>"
  have "archive_get demo_archive_world 1 = Inr demo_archive" "ac_id demo_archive \<noteq> 0" by code_simp+
  moreover have "tbl_get ''ResourceGroup'' (\<lambda>g. rg_group_id g = ac_resource_group demo_archive)
      (w_resource_groups demo_archive_world) = Inr (new_ResourceGroup\<lparr>rg_group_id := 5, rg_group_name := ''team''\<rparr>)"
    by code_simp
  moreover have "AuditV2 demo_archive_world (Some (WArchive demo_archive)) None
      (rg_group_name (new_ResourceGroup\<lparr>rg_group_id := 5, rg_group_name := ''team''\<rparr>)) 0 = Inr ?au" by code_simp
  moreover have "au_audit ?au = Some demo_archive_audit" "wa_current_status demo_archive_audit = PASSED"
    by (simp_all add: demo_archive_audit_def)
  ultimately show ?thesis
    using archive_audit_reenables [where action = EXECUTE_START and u = demo_dev and remark = "[]"] by fastforce
qed

lemma archive_application_waits_witness:
  "\<exists>a w' x. ArchiveApplyView_post demo_compile demo_admin demo_archive_request demo_archive_world = (Inr (Inr (a, 2)), w')
    \<and> archive_get w' 2 = Inr x \<and> \<not> ac_state x \<and> wa_current_status a = WAITING"
proof -
  let ?run = "ArchiveApplyView_post demo_compile demo_admin demo_archive_request demo_archive_world"
  have "case fst ?run of Inr (Inr (a, k)) \<Rightarrow> k = 2 | _ \<Rightarrow> False" by code_simp
  then have "\<exists>a. fst ?run = Inr (Inr (a, 2))" by (auto split: sum.splits)
  then obtain a w' where run: "?run = (Inr (Inr (a, 2)), w')" by (metis prod.collapse)
  have t: "w_archives demo_archive_world = \<lparr>tbl_rows = [demo_archive], tbl_next = 2\<rparr>"
    "w_audits demo_archive_world = \<lparr>tbl_rows = [demo_archive_audit], tbl_next = 2\<rparr>"
    by (simp_all add: demo_archive_world_def demo_world_def)
  from archive_application_waits [OF run] t show ?thesis
    using run by (auto simp: wf_table_def demo_archive_def new_ArchiveConfig_def demo_archive_audit_def demo_audit_def new_WorkflowAudit_def)
qed

end
