(* ===== verification/ResultSets.thy ===== *)
theory ResultSets
  imports Models
begin

text \<open>
  \<open>sql/engines/models.py\<close>, the result sets of queries: \<open>ResultSet\<close> and \<open>SqlItem\<close>. A row is a list
  of values, or a dictionary where an engine returns one. Dictionaries are association lists in
  insertion order, written with \<open>dict_put\<close>.
\<close>

section \<open>Dictionaries\<close>

fun dict_put :: "'k \<Rightarrow> 'v \<Rightarrow> ('k \<times> 'v) list \<Rightarrow> ('k \<times> 'v) list" where
  "dict_put k v [] = [(k, v)]"
| "dict_put k v ((k', v') # d) = (if k' = k then (k, v) # d else (k', v') # dict_put k v d)"

text \<open>\<open>dict(pairs)\<close>: a later value of a key replaces the earlier one in its place.\<close>

definition dict_of :: "('k \<times> 'v) list \<Rightarrow> ('k \<times> 'v) list" where
  "dict_of ps = fold (\<lambda>(k, v). dict_put k v) ps []"

lemma map_of_dict_put [simp]: "map_of (dict_put k v d) = (map_of d)(k \<mapsto> v)"
  by (induction d) (auto simp: fun_eq_iff)

lemma keys_dict_put: "map fst (dict_put k v d) = map fst d @ (if k \<in> fst ` set d then [] else [k])"
proof (induction d)
  case (Cons p d)
  then show ?case by (cases p; cases "k \<in> fst ` set d") auto
qed simp

lemma distinct_dict_put: "distinct (map fst d) \<Longrightarrow> distinct (map fst (dict_put k v d))"
  by (simp add: keys_dict_put)

lemma dict_of_distinct: "distinct (map fst (dict_of ps))"
proof -
  have "distinct (map fst d) \<Longrightarrow> distinct (map fst (fold (\<lambda>(k, v). dict_put k v) ps d))" for d
    by (induction ps arbitrary: d) (auto simp: distinct_dict_put)
  then show ?thesis by (simp add: dict_of_def)
qed

lemma map_of_dict_of: "map_of (dict_of ps) = map_of (rev ps)"
proof -
  have "map_of (fold (\<lambda>(k, v). dict_put k v) ps d) = map_of d ++ map_of (rev ps)" for d
    by (induction ps arbitrary: d) (auto simp: map_add_def fun_eq_iff split: option.splits)
  then show ?thesis by (simp add: dict_of_def)
qed

section \<open>SqlItem and ResultSet\<close>

record sql_item =
  si_id :: int
  si_statement :: string
  si_stmt_type :: string
  si_object_owner :: string
  si_object_type :: string
  si_object_name :: string

definition new_SqlItem :: sql_item where
  "new_SqlItem = \<lparr>si_id = 0, si_statement = '''', si_stmt_type = ''SQL'', si_object_owner = '''',
     si_object_type = '''', si_object_name = ''''\<rparr>"

datatype result_row = Row "pyval list" | DictRow "(string \<times> pyval) list"

record result_set =
  rt_full_sql :: string
  rt_is_execute :: bool
  rt_checked :: "string option"
  rt_is_masked :: bool
  rt_query_time :: string
  rt_mask_rule_hit :: bool
  rt_mask_time :: string
  rt_warning :: "string option"
  rt_error :: "string option"
  rt_is_critical :: bool
  rt_rows :: "result_row list"
  rt_column_list :: "string list"
  rt_column_type :: "string list"
  rt_status :: "int option"
  rt_affected_rows :: int

definition new_ResultSet :: "string \<Rightarrow> result_set" where
  "new_ResultSet full_sql = \<lparr>rt_full_sql = full_sql, rt_is_execute = False, rt_checked = None,
     rt_is_masked = False, rt_query_time = '''', rt_mask_rule_hit = False, rt_mask_time = '''',
     rt_warning = None, rt_error = None, rt_is_critical = False, rt_rows = [],
     rt_column_list = [], rt_column_type = [], rt_status = None, rt_affected_rows = 0\<rparr>"

text \<open>What iterating over a row yields: the values, or the keys of a dictionary.\<close>

fun row_items :: "result_row \<Rightarrow> pyval list" where
  "row_items (Row vs) = vs"
| "row_items (DictRow d) = map (PStr \<circ> fst) d"

definition zip_row :: "string list \<Rightarrow> result_row \<Rightarrow> (string \<times> pyval) list" where
  "zip_row columns r = dict_of (zip columns (row_items r))"

text \<open>\<open>ResultSet.json\<close> before its encoding, and \<open>ResultSet.to_dict\<close>.\<close>

definition ResultSet_json :: "result_set \<Rightarrow> (string \<times> pyval) list list" where
  "ResultSet_json rs = map (zip_row (rt_column_list rs)) (rt_rows rs)"

definition ResultSet_to_dict :: "result_set \<Rightarrow> (string \<times> pyval) list list" where
  "ResultSet_to_dict rs = map (\<lambda>r. case r of DictRow d \<Rightarrow> d | _ \<Rightarrow> zip_row (rt_column_list rs) r)
     (rt_rows rs)"

definition ResultSet_to_sep_dict :: "result_set \<Rightarrow> string list \<times> result_row list" where
  "ResultSet_to_sep_dict rs = (rt_column_list rs, rt_rows rs)"

text \<open>With distinct columns every cell of a row of values is found under the name of its column.\<close>

lemma zip_row_cell:
  assumes "distinct columns" and "i < length columns" and "i < length vs"
  shows "map_of (zip_row columns (Row vs)) (columns ! i) = Some (vs ! i)"
proof -
  have d: "distinct (map fst (zip columns vs))"
    using assms(1) by (simp add: map_fst_zip_take distinct_take)
  then have "map_of (rev (zip columns vs)) = map_of (zip columns vs)"
    by (simp add: map_of_inject_set rev_map [symmetric])
  moreover have "map_of (zip columns vs) (columns ! i) = Some (vs ! i)"
    using assms d by (intro map_of_is_SomeI) (auto simp: in_set_zip intro!: exI [of _ i])
  ultimately show ?thesis by (simp add: zip_row_def map_of_dict_of)
qed

end
