(* ===== verification/TextLemmas.thy ===== *)
theory TextLemmas
  imports PyStr
begin

text \<open>
  What \<open>split\<close>, \<open>strip\<close> and \<open>lower\<close> do to the first word of a text: the engines decide about a
  statement by its first word, read in different ways.
\<close>

lemma hd_split_on: "hd (split_on c s) = takeWhile (\<lambda>d. d \<noteq> c) s"
proof (induction s)
  case (Cons d s)
  then show ?case by (cases "split_on c s") auto
qed simp

lemma strip_split:
  obtains a b where "s = a @ strip s @ b" "\<forall>c \<in> set a. is_space c" "\<forall>c \<in> set b. is_space c"
proof -
  let ?m = "dropWhile is_space s"
  have "?m = strip s @ rev (takeWhile is_space (rev ?m))"
    by (metis rev_append rev_rev_ident strip_def takeWhile_dropWhile_id)
  then have "s = takeWhile is_space s @ strip s @ rev (takeWhile is_space (rev ?m))"
    by (metis takeWhile_dropWhile_id)
  moreover have "\<forall>c \<in> set (takeWhile is_space s). is_space c" by (meson set_takeWhileD)
  moreover have "\<forall>c \<in> set (rev (takeWhile is_space (rev ?m))). is_space c"
    by (metis set_rev set_takeWhileD)
  ultimately show thesis using that by blast
qed

text \<open>A word between white space on the left and anything on the right stays when the text is stripped.\<close>

lemma strip_word:
  assumes "\<forall>c \<in> set a. is_space c" "w \<noteq> []" "\<not> is_space (hd w)" "\<not> is_space (last w)"
  obtains t' where "strip (a @ w @ t) = w @ t'" "prefix t' t"
proof -
  let ?t' = "rev (dropWhile is_space (rev t))"
  from assms(2,3) obtain c v where w: "w = c # v" "\<not> is_space c" by (cases w) auto
  have l: "dropWhile is_space (a @ w @ t) = w @ t"
    using assms(1) w by (simp add: dropWhile_append3 dropWhile_append2)
  from assms(2,4) obtain d u where r: "rev w = d # u" "\<not> is_space d"
    by (metis hd_rev list.collapse rev_is_Nil_conv)
  have "dropWhile is_space (rev t @ rev w) = dropWhile is_space (rev t) @ rev w"
    using r by (simp add: dropWhile_append dropWhile_eq_Nil_conv)
  then have "strip (a @ w @ t) = w @ ?t'" by (simp add: strip_def l)
  moreover have "prefix ?t' t"
    by (metis rev_append rev_rev_ident takeWhile_dropWhile_id prefixI)
  ultimately show thesis by (rule that)
qed

lemma strip_ends:
  assumes "strip s \<noteq> []"
  shows "\<not> is_space (hd (strip s))" "\<not> is_space (last (strip s))"
proof -
  let ?m = "dropWhile is_space s"
  have "prefix (strip s) ?m"
    by (metis prefixI rev_append rev_rev_ident strip_def takeWhile_dropWhile_id)
  moreover have "?m \<noteq> []" using assms by (auto simp: strip_def simp del: dropWhile_eq_Nil_conv)
  ultimately have "hd (strip s) = hd ?m" using assms by (auto simp: prefix_def simp del: dropWhile_eq_Nil_conv)
  then show "\<not> is_space (hd (strip s))" using \<open>?m \<noteq> []\<close> by (metis hd_dropWhile)
  have "rev (strip s) = dropWhile is_space (rev ?m)" by (simp add: strip_def)
  then show "\<not> is_space (last (strip s))" using assms
    by (metis hd_dropWhile hd_rev rev_is_Nil_conv)
qed

lemma prefix_takeWhile: "prefix t u \<Longrightarrow> prefix (takeWhile P t) (takeWhile P u)"
  by (auto simp: prefix_def takeWhile_append) (metis append.assoc takeWhile_eq_all_conv)

lemma space_blank [simp]: "is_space (CHR '' '')" by code_simp

text \<open>The first word of a text and of the stripped text differ in white space only.\<close>

lemma first_word_stripped:
  assumes "strip (takeWhile (\<lambda>d. d \<noteq> CHR '' '') s) = w" "w \<noteq> []"
  obtains b where "takeWhile (\<lambda>d. d \<noteq> CHR '' '') (strip s) = w @ b" "\<forall>c \<in> set b. is_space c"
proof -
  let ?nb = "\<lambda>d. d \<noteq> CHR '' ''"
  let ?p = "takeWhile ?nb s" and ?r = "dropWhile ?nb s"
  obtain a b where p: "?p = a @ w @ b" "\<forall>c \<in> set a. is_space c" "\<forall>c \<in> set b. is_space c"
    by (rule strip_split [of ?p]) (simp add: assms(1))
  have ends: "\<not> is_space (hd w)" "\<not> is_space (last w)"
    using strip_ends [of ?p] assms by simp_all
  have s: "a @ w @ (b @ ?r) = s"
    using takeWhile_dropWhile_id [of ?nb s] unfolding p(1) append_assoc .
  obtain t' where t: "strip (a @ w @ (b @ ?r)) = w @ t'" "prefix t' (b @ ?r)"
    by (rule strip_word [OF p(2) assms(2) ends])
  have nb: "\<forall>c \<in> set (a @ w @ b). ?nb c" using p(1) by (metis set_takeWhileD)
  have "prefix (takeWhile ?nb t') b"
  proof -
    have "takeWhile ?nb (dropWhile ?nb u) = []" for u by (induction u) auto
    then have "takeWhile ?nb (b @ ?r) = b" using nb by (simp add: takeWhile_append2)
    then show ?thesis using prefix_takeWhile [OF t(2), of ?nb] by simp
  qed
  then have "\<forall>c \<in> set (takeWhile ?nb t'). is_space c" using p(3) by (meson set_mono_prefix subsetD)
  moreover have "takeWhile ?nb (strip s) = w @ takeWhile ?nb t'" using nb t(1) unfolding s by (simp add: takeWhile_append2)
  ultimately show thesis using that by blast
qed

lemma lower_char_blank: "lower_char d = CHR '' '' \<longleftrightarrow> d = CHR '' ''"
proof
  assume l: "lower_char d = CHR '' ''"
  show "d = CHR '' ''"
  proof (cases "is_upper_ascii d")
    case True
    then have "char_code d + 32 < 256" "65 \<le> char_code d" by (auto simp: is_upper_ascii_def)
    then have "97 \<le> char_code (lower_char d)" using True by (simp add: lower_char_def)
    moreover have "char_code (CHR '' '') = 32" by code_simp
    ultimately show ?thesis using l by simp
  qed (use l in \<open>simp add: lower_char_def\<close>)
next
  have "lower_char (CHR '' '') = CHR '' ''" by code_simp
  then show "d = CHR '' '' \<Longrightarrow> lower_char d = CHR '' ''" by simp
qed

lemma takeWhile_lower:
  "takeWhile (\<lambda>d. d \<noteq> CHR '' '') (lower s) = lower (takeWhile (\<lambda>d. d \<noteq> CHR '' '') s)"
  by (induction s) (auto simp: lower_def lower_char_blank)

lemma is_space_lower_char: "is_space c \<Longrightarrow> lower_char c = c"
  by (auto simp: is_space_def lower_char_def is_upper_ascii_def Let_def)

lemma lower_spaces: "\<forall>c \<in> set b. is_space c \<Longrightarrow> lower b = b"
  by (induction b) (auto simp: lower_def is_space_lower_char)

lemma is_space_lower: "is_space (lower_char c) \<longleftrightarrow> is_space c"
proof (cases "is_upper_ascii c")
  case True
  then have "char_code (lower_char c) = char_code c + 32" "65 \<le> char_code c"
    by (auto simp: lower_char_def is_upper_ascii_def)
  then show ?thesis by (auto simp: is_space_def Let_def)
qed (simp add: lower_char_def)

lemma dropWhile_lower: "dropWhile is_space (lower s) = lower (dropWhile is_space s)"
  by (induction s) (auto simp: lower_def is_space_lower)

lemma strip_lower: "strip (lower s) = lower (strip s)"
proof -
  have "rev (lower t) = lower (rev t)" for t by (simp add: lower_def rev_map)
  then show ?thesis by (simp add: strip_def dropWhile_lower)
qed

end
