(* ===== verification/Memcached.thy ===== *)
theory Memcached
  imports ResultSets TextLemmas
begin

text \<open>
  \<open>sql/engines/memcached.py\<close>: the commands of the Memcached engine. The connection is a client of
  the third-party \<open>pymemcache\<close>: a record of the operations the code calls, over a state \<open>'s\<close> of its
  own. Texts shown to users are in English.
\<close>

record 's memcache =
  mc_get :: "string \<Rightarrow> ('s, string option) M"
  mc_set :: "string \<Rightarrow> string \<Rightarrow> int \<Rightarrow> ('s, bool) M"
  mc_delete :: "string \<Rightarrow> ('s, bool) M"
  mc_version :: "('s, string) M"
  mc_gets_many :: "string list \<Rightarrow> ('s, (string \<times> string option \<times> string) list) M"
  mc_incr :: "string \<Rightarrow> int \<Rightarrow> ('s, int option) M"
  mc_decr :: "string \<Rightarrow> int \<Rightarrow> ('s, int option) M"
  mc_touch :: "string \<Rightarrow> int \<Rightarrow> ('s, bool) M"

section \<open>Nodes\<close>

definition node_name :: "nat \<Rightarrow> string" where
  "node_name i = ''Node - '' @ str_nat i"

definition MemcachedEngine_nodes :: "instance_row \<Rightarrow> (string \<times> string) list" where
  "MemcachedEngine_nodes i =
     map (\<lambda>(k, h). (node_name k, strip h)) (enumerate 0 (split_comma (i_host i)))"

text \<open>\<open>get_connection\<close>: \<open>connect\<close> makes the client of a host.\<close>

definition mc_connection ::
  "(string \<Rightarrow> 's memcache res) \<Rightarrow> (string \<times> string) list \<Rightarrow> string \<Rightarrow> 's memcache res" where
  "mc_connection connect nodes db_name =
     (let n = (if db_name = [] then node_name 0 else db_name) in
      case map_of nodes n of
        None \<Rightarrow> Inl (PyException (''no such node: '' @ n))
      | Some host \<Rightarrow> (case connect host of
            Inl e \<Rightarrow> Inl (PyException (''connection failed: '' @ exn_str e))
          | Inr c \<Rightarrow> Inr c))"

definition mc_all_databases :: "(string \<times> string) list \<Rightarrow> result_set" where
  "mc_all_databases nodes = (new_ResultSet [])\<lparr>rt_column_list := [''node''],
     rt_rows := map (\<lambda>(n, h). Row [PStr n]) nodes\<rparr>"

section \<open>Commands\<close>

text \<open>\<open>except Exception as e: raise Exception(...)\<close>.\<close>

definition failing :: "string \<Rightarrow> ('s, 'a) M \<Rightarrow> ('s, 'a) M" where
  "failing msg m = catchM m (\<lambda>e. Some (throw (PyException (msg @ exn_str e))))"

definition table_of :: "string \<Rightarrow> string list \<Rightarrow> result_row list \<Rightarrow> result_set" where
  "table_of sql columns rows = (new_ResultSet sql)\<lparr>rt_column_list := columns, rt_rows := rows,
     rt_affected_rows := int (length rows)\<rparr>"

definition need_args :: "nat \<Rightarrow> string \<Rightarrow> string list \<Rightarrow> ('s, unit) M" where
  "need_args n name cmd_args = raise_if (length cmd_args < n) (PyException (name @ '': wrong format''))"

definition ok_row :: "bool \<Rightarrow> result_row" where
  "ok_row ok = Row [PStr (if ok then ''OK'' else ''FAIL'')]"

definition handle_get :: "'s memcache \<Rightarrow> string \<Rightarrow> string list \<Rightarrow> ('s, result_set) M" where
  "handle_get conn sql cmd_args = thenM (need_args 1 ''get'' cmd_args)
     (failing ''get failed: '' (bindM (mc_get conn (strip (cmd_args ! 0))) (\<lambda>v.
        ret (table_of sql [''value''] [Row [PStr (case v of Some x \<Rightarrow> x | None \<Rightarrow> ''None'')]]))))"

definition handle_set :: "'s memcache \<Rightarrow> string \<Rightarrow> string list \<Rightarrow> ('s, result_set) M" where
  "handle_set conn sql cmd_args = thenM (need_args 2 ''set'' cmd_args)
     (failing ''set failed: ''
        (bindM (liftM (\<lambda>_. if 2 < length cmd_args then py_int (strip (cmd_args ! 2)) else Inr 0)) (\<lambda>expiry.
         bindM (mc_set conn (strip (cmd_args ! 0)) (strip (cmd_args ! 1)) expiry) (\<lambda>ok.
           ret (table_of sql [''status''] [ok_row ok])))))"

definition handle_delete :: "'s memcache \<Rightarrow> string \<Rightarrow> string list \<Rightarrow> ('s, result_set) M" where
  "handle_delete conn sql cmd_args = thenM (need_args 1 ''delete'' cmd_args)
     (failing ''delete failed: '' (bindM (mc_delete conn (strip (cmd_args ! 0))) (\<lambda>ok.
        ret (table_of sql [''status''] [ok_row ok]))))"

definition handle_version :: "'s memcache \<Rightarrow> string \<Rightarrow> string list \<Rightarrow> ('s, result_set) M" where
  "handle_version conn sql cmd_args =
     bindM (mc_version conn) (\<lambda>v. ret (table_of sql [''version''] [Row [PStr v]]))"

definition handle_gets :: "'s memcache \<Rightarrow> string \<Rightarrow> string list \<Rightarrow> ('s, result_set) M" where
  "handle_gets conn sql cmd_args = thenM (need_args 1 ''gets'' cmd_args)
     (failing ''gets failed: '' (bindM (mc_gets_many conn (map strip cmd_args)) (\<lambda>vs.
        ret (table_of sql [''key'', ''value'', ''CAS'']
          (map (\<lambda>(k, v, cas). Row [PStr k, PStr (case v of Some x \<Rightarrow> x | None \<Rightarrow> ''None''), PStr cas]) vs)))))"

definition count_arg :: "string list \<Rightarrow> int res" where
  "count_arg cmd_args = (if 1 < length cmd_args then py_int (strip (cmd_args ! 1)) else Inr 1)"

definition counted :: "int option \<Rightarrow> result_row" where
  "counted r = Row [PStr (case r of Some n \<Rightarrow> str_int n | None \<Rightarrow> ''FAIL'')]"

definition handle_incr :: "'s memcache \<Rightarrow> string \<Rightarrow> string list \<Rightarrow> ('s, result_set) M" where
  "handle_incr conn sql cmd_args = thenM (need_args 1 ''incr'' cmd_args)
     (failing ''incr failed: '' (bindM (liftM (\<lambda>_. count_arg cmd_args)) (\<lambda>v.
        bindM (mc_incr conn (strip (cmd_args ! 0)) v) (\<lambda>r.
          ret (table_of sql [''result''] [counted r])))))"

definition handle_decr :: "'s memcache \<Rightarrow> string \<Rightarrow> string list \<Rightarrow> ('s, result_set) M" where
  "handle_decr conn sql cmd_args = thenM (need_args 1 ''decr'' cmd_args)
     (failing ''decr failed: '' (bindM (liftM (\<lambda>_. count_arg cmd_args)) (\<lambda>v.
        bindM (mc_decr conn (strip (cmd_args ! 0)) v) (\<lambda>r.
          ret (table_of sql [''result''] [counted r])))))"

definition handle_touch :: "'s memcache \<Rightarrow> string \<Rightarrow> string list \<Rightarrow> ('s, result_set) M" where
  "handle_touch conn sql cmd_args = thenM (need_args 2 ''touch'' cmd_args)
     (failing ''touch failed: '' (bindM (liftM (\<lambda>_. py_int (strip (cmd_args ! 1)))) (\<lambda>expiry.
        bindM (mc_touch conn (strip (cmd_args ! 0)) expiry) (\<lambda>ok.
          ret (table_of sql [''status''] [ok_row ok])))))"

text \<open>\<open>cmd_handlers\<close>: the command names and their functions.\<close>

definition cmd_handlers ::
  "(string \<times> ('s memcache \<Rightarrow> string \<Rightarrow> string list \<Rightarrow> ('s, result_set) M)) list" where
  "cmd_handlers = [(''get'', handle_get), (''set'', handle_set), (''delete'', handle_delete),
     (''version'', handle_version), (''gets'', handle_gets), (''incr'', handle_incr),
     (''decr'', handle_decr), (''touch'', handle_touch)]"

definition parse_cmd_args :: "string \<Rightarrow> string \<times> string list" where
  "parse_cmd_args sql = (let parts = split_on (CHR '' '') sql in
     (lower (strip (hd parts)), tl parts))"

definition handle_cmd :: "'s memcache \<Rightarrow> string \<Rightarrow> ('s, result_set) M" where
  "handle_cmd conn sql0 =
     (let sql = lower (strip sql0); parts = split_on (CHR '' '') sql; cmd = hd parts in
      if sql = [] then throw (PyException ''empty statement'')
      else (case map_of cmd_handlers cmd of
          None \<Rightarrow> throw (PyException (''unsupported command: '' @ cmd))
        | Some h \<Rightarrow> h conn sql (tl parts)))"

section \<open>The engine's interface\<close>

definition mc_query_commands :: "string list" where
  "mc_query_commands = [''version'', ''get'', ''gets'']"

definition mc_write_commands :: "string list" where
  "mc_write_commands = [''set'', ''delete'', ''incr'', ''decr'', ''touch'']"

text \<open>\<open>query_check\<close>: whether the query is refused.\<close>

definition mc_query_check :: "string \<Rightarrow> bool" where
  "mc_query_check sql = (fst (parse_cmd_args sql) \<notin> set mc_query_commands)"

text \<open>\<open>query\<close>: an exception becomes the error of the result.\<close>

definition mc_query ::
  "(string \<Rightarrow> 's memcache res) \<Rightarrow> (string \<times> string) list \<Rightarrow> string \<Rightarrow> string \<Rightarrow> ('s, result_set) M" where
  "mc_query connect nodes db_name sql =
     catchM (bindM (liftM (\<lambda>_. mc_connection connect nodes db_name)) (\<lambda>conn. handle_cmd conn sql))
       (\<lambda>e. Some (ret ((new_ResultSet sql)\<lparr>rt_error := Some (exn_str e),
                  rt_rows := [Row [PStr (''error: '' @ exn_str e)]]\<rparr>)))"

text \<open>\<open>execute_check\<close>.\<close>

definition mc_execute_check :: "string \<Rightarrow> review_set" where
  "mc_execute_check sql =
     (let cmd = fst (parse_cmd_args sql) in
      if cmd \<notin> set mc_write_commands
      then (new_ReviewSet sql)\<lparr>rs_error_count := 1, rs_error := Some (''unsupported command: '' @ cmd),
             rs_rows := [new_ReviewResult\<lparr>rr_id := 1, rr_affected_rows := PInt 0, rr_sql := sql,
               rr_stage := ''Check'', rr_stagestatus := ''Fail'', rr_errlevel := 2,
               rr_errormessage := ''unsupported command: '' @ cmd\<rparr>]\<rparr>
      else (new_ReviewSet sql)\<lparr>rs_checked := Some ''True'',
             rs_rows := [new_ReviewResult\<lparr>rr_id := 1, rr_affected_rows := PInt 1, rr_sql := sql,
               rr_stage := ''Check'', rr_stagestatus := ''Success''\<rparr>]\<rparr>)"

text \<open>
  \<open>execute\<close>. Two assertions demand one cell. The rows of a failed run are one dictionary with
  the error, which is the second component here.
\<close>

definition mc_executed :: "string \<Rightarrow> result_set \<Rightarrow> review_set res" where
  "mc_executed sql r = (case rt_rows r of
       [row] \<Rightarrow> (case row_items row of
           [v] \<Rightarrow> Inr ((new_ReviewSet sql)\<lparr>rs_rows := [
               if v = PStr ''FAIL''
               then new_ReviewResult\<lparr>rr_id := 1, rr_affected_rows := PInt 0, rr_sql := sql,
                      rr_stage := ''Execute'', rr_stagestatus := ''Fail''\<rparr>
               else new_ReviewResult\<lparr>rr_id := 1, rr_affected_rows := PInt 1, rr_sql := sql,
                      rr_stage := ''Execute'', rr_stagestatus := ''Success''\<rparr>],
             rs_affected_rows := rt_affected_rows r, rs_error := rt_error r\<rparr>)
         | _ \<Rightarrow> Inl (PyException ''the result has not one column''))
     | _ \<Rightarrow> Inl (PyException ''the result has not one row''))"

definition mc_execute ::
  "(string \<Rightarrow> 's memcache res) \<Rightarrow> (string \<times> string) list \<Rightarrow> string \<Rightarrow> string
   \<Rightarrow> ('s, review_set \<times> (string \<times> string) list) M" where
  "mc_execute connect nodes db_name sql =
     catchM (bindM (liftM (\<lambda>_. mc_connection connect nodes db_name)) (\<lambda>conn.
             bindM (handle_cmd conn sql) (\<lambda>r.
             bindM (liftM (\<lambda>_. mc_executed sql r)) (\<lambda>rs. ret (rs, [])))))
       (\<lambda>e. Some (ret ((new_ReviewSet sql)\<lparr>rs_error := Some (exn_str e)\<rparr>, [(''error'', exn_str e)])))"

section \<open>What the check promises\<close>

lemma failing_run:
  "failing msg m s = (case m s of (Inl e, t) \<Rightarrow> (Inl (PyException (msg @ exn_str e)), t) | (Inr x, t) \<Rightarrow> (Inr x, t))"
  by (simp add: failing_def catchM_run split: prod.splits sum.splits)

text \<open>The check reads the command before stripping, the handler after it: a checked query runs the same command or none.\<close>

lemma same_command:
  assumes "c \<noteq> []" and "fst (parse_cmd_args sql) = c" and "\<forall>d \<in> set cmd. \<not> is_space d"
    and "hd (split_on (CHR '' '') (lower (strip sql))) = cmd"
  shows "cmd = c"
proof -
  let ?w = "strip (takeWhile (\<lambda>d. d \<noteq> CHR '' '') sql)"
  from assms(1,2) have c: "c = lower ?w" "?w \<noteq> []"
    by (auto simp: parse_cmd_args_def hd_split_on Let_def)
  obtain b where b: "takeWhile (\<lambda>d. d \<noteq> CHR '' '') (strip sql) = ?w @ b" "\<forall>c \<in> set b. is_space c"
    by (rule first_word_stripped [OF refl c(2)])
  have "cmd = c @ b"
    using assms(4) b c(1) by (simp add: hd_split_on takeWhile_lower lower_spaces)
  with assms(3) b(2) show ?thesis by (cases b) auto
qed

definition reads_keep :: "'s memcache \<Rightarrow> bool" where
  "reads_keep c \<longleftrightarrow> (\<forall>s. snd (mc_version c s) = s \<and> (\<forall>k. snd (mc_get c k s) = s)
     \<and> (\<forall>ks. snd (mc_gets_many c ks s) = s))"

lemma reads_keepD:
  assumes "reads_keep c"
  shows "snd (mc_version c s) = s" "snd (mc_get c k s) = s" "snd (mc_gets_many c ks s) = s"
  using assms by (auto simp: reads_keep_def)

lemma handler_names:
  assumes "map_of cmd_handlers cmd = Some h"
  shows "cmd \<in> set [''get'', ''set'', ''delete'', ''version'', ''gets'', ''incr'', ''decr'', ''touch'']"
  using assms by (auto simp: cmd_handlers_def split: if_splits)

lemma handler_no_space: "map_of cmd_handlers cmd = Some h \<Longrightarrow> \<forall>d \<in> set cmd. \<not> is_space d"
proof -
  have "list_all (list_all (\<lambda>d. \<not> is_space d))
    [''get'', ''set'', ''delete'', ''version'', ''gets'', ''incr'', ''decr'', ''touch'']" by code_simp
  moreover assume "map_of cmd_handlers cmd = Some h"
  ultimately show "\<forall>d \<in> set cmd. \<not> is_space d"
    using handler_names [of cmd h] by (auto simp: list_all_iff)
qed

lemma keeps_failing [keeps_intros]: "keeps P m \<Longrightarrow> keeps P (failing msg m)"
  unfolding failing_def by (auto intro!: keeps_intros)

lemma read_handlers_keep:
  assumes "reads_keep c"
  shows "keeps (\<lambda>t. t = s) (handle_get c sql as)" "keeps (\<lambda>t. t = s) (handle_gets c sql as)"
    "keeps (\<lambda>t. t = s) (handle_version c sql as)"
proof -
  have k: "keeps (\<lambda>t. t = s) (mc_get c k)" "keeps (\<lambda>t. t = s) (mc_gets_many c ks)"
    "keeps (\<lambda>t. t = s) (mc_version c)" for k ks
    by (auto simp: keeps_def reads_keepD [OF assms])
  show "keeps (\<lambda>t. t = s) (handle_get c sql as)" "keeps (\<lambda>t. t = s) (handle_gets c sql as)"
    "keeps (\<lambda>t. t = s) (handle_version c sql as)"
    unfolding handle_get_def handle_gets_def handle_version_def need_args_def
    by (intro keeps_intros k keeps_raise_if keeps_ret)+
qed

lemma checked_command_reads:
  fixes c :: "'s memcache"
  assumes "\<not> mc_query_check sql" and "reads_keep c"
  shows "keeps (\<lambda>t. t = s) (handle_cmd c sql)"
proof (cases "map_of (cmd_handlers :: (string \<times> ('s memcache \<Rightarrow> string \<Rightarrow> string list \<Rightarrow> ('s, result_set) M)) list)
    (hd (split_on (CHR '' '') (lower (strip sql))))")
  case None
  then show ?thesis by (auto simp: handle_cmd_def Let_def)
next
  case (Some h)
  let ?c = "fst (parse_cmd_args sql)"
  have "?c \<noteq> []" using assms(1) by (auto simp: mc_query_check_def mc_query_commands_def)
  from same_command [OF this refl handler_no_space [OF Some] refl]
  have "hd (split_on (CHR '' '') (lower (strip sql))) \<in> set mc_query_commands"
    using assms(1) by (simp add: mc_query_check_def)
  then have "h = handle_version \<or> h = handle_get \<or> h = handle_gets"
    using Some by (auto simp: mc_query_commands_def cmd_handlers_def)
  with Some read_handlers_keep [OF assms(2), of s] show ?thesis
    by (auto simp: handle_cmd_def Let_def)
qed

text \<open>A query of the Memcached engine that passes the check writes nothing: whatever command text, node
  and store, the state of the store after the query is the state before it.\<close>

theorem memcached_query_reads_only:
  assumes "\<not> mc_query_check sql" and "\<And>h c. connect h = Inr c \<Longrightarrow> reads_keep c"
  shows "snd (mc_query connect nodes db_name sql s) = s"
proof -
  have "keeps (\<lambda>t. t = s) (handle_cmd c sql)" if "mc_connection connect nodes db_name = Inr c" for c
  proof -
    from that obtain h where "connect h = Inr c"
      by (auto simp: mc_connection_def Let_def split: option.splits sum.splits)
    then show ?thesis by (intro checked_command_reads assms)
  qed
  then have "keeps (\<lambda>t. t = s) (bindM (liftM (\<lambda>_. mc_connection connect nodes db_name)) (\<lambda>c. handle_cmd c sql))"
    by (auto simp: keeps_def bindM_run split: sum.splits)
  then have "keeps (\<lambda>t. t = s) (mc_query connect nodes db_name sql)"
    unfolding mc_query_def by (auto intro!: keeps_catchM)
  then show ?thesis by (auto dest: keepsD)
qed

text \<open>A client over a map from keys to values, and a store with one key.\<close>

definition demo_client :: "(string \<rightharpoonup> string) memcache" where
  "demo_client = \<lparr>mc_get = (\<lambda>k m. (Inr (m k), m)), mc_set = (\<lambda>k v e m. (Inr True, m(k \<mapsto> v))),
     mc_delete = (\<lambda>k m. (Inr (m k \<noteq> None), m(k := None))), mc_version = (\<lambda>m. (Inr ''1.6'', m)),
     mc_gets_many = (\<lambda>ks m. (Inr (map (\<lambda>k. (k, m k, ''1'')) ks), m)),
     mc_incr = (\<lambda>k n m. (Inr None, m)), mc_decr = (\<lambda>k n m. (Inr None, m)),
     mc_touch = (\<lambda>k e m. (Inr True, m))\<rparr>"

lemma memcached_query_reads_only_witness:
  "mc_query (\<lambda>h. Inr demo_client) [(''Node - 0'', ''h'')] [] ''get k'' [''k'' \<mapsto> ''v'']
    = (Inr (table_of ''get k'' [''value''] [Row [PStr ''v'']]), [''k'' \<mapsto> ''v''])"
proof -
  let ?q = "mc_query (\<lambda>h. Inr demo_client) [(''Node - 0'', ''h'')] [] ''get k'' [''k'' \<mapsto> ''v'']"
  have "\<not> mc_query_check ''get k''" by code_simp
  moreover have "reads_keep demo_client" by (simp add: reads_keep_def demo_client_def)
  ultimately have "snd ?q = [''k'' \<mapsto> ''v'']" by (intro memcached_query_reads_only) auto
  moreover have "fst ?q = Inr (table_of ''get k'' [''value''] [Row [PStr ''v'']])"
    by code_simp
  ultimately show ?thesis by (metis prod.collapse)
qed

text \<open>The handler lowers the whole command, keys and values included: two commands that differ in case
  only are the same command, so keys that differ in case cannot be told apart and values lose theirs.\<close>

theorem memcached_folds_case:
  assumes "lower sql = lower sql'"
  shows "handle_cmd c sql = handle_cmd c sql'"
proof -
  have "lower (strip sql) = lower (strip sql')"
    using assms by (simp add: strip_lower [symmetric])
  then show ?thesis by (simp add: handle_cmd_def)
qed

lemma set_folds_case: "map (snd (handle_cmd demo_client ''set Key Value'' Map.empty)) [''Key'', ''key''] = [None, Some ''value'']"
  by code_simp

end
