(* ===== verification/SchemaDiff.thy ===== *)
theory SchemaDiff
  imports ResourceGroup ResultSets
begin

text \<open>
  \<open>sql/services/schema_diff_service.py\<close>: the comparison of the tables of two MySQL databases and
  the \<open>ALTER\<close> statements that turn one into the other, with the two readers of
  \<open>sql/engines/mysql.py\<close> that prepare the metadata and the lookup of
  \<open>sql/services/instance_service.py\<close>. Columns, indexes and options are the rows of
  \<open>information_schema\<close>; where the code writes \<open>col.get(k) or ""\<close> the value \<open>NULL\<close> is the empty text.
  Dictionaries are association lists with distinct keys. A full-width comma is its three UTF-8 bytes.
\<close>

record column_meta =
  cm_name :: string
  cm_type :: string
  cm_nullable :: string
  cm_default :: "string option"
  cm_extra :: string
  cm_charset :: "string option"
  cm_collation :: "string option"
  cm_comment :: string

record index_meta =
  ix_name :: string
  ix_unique :: bool
  ix_type :: string
  ix_columns :: "string list"

record table_options =
  to_engine :: string
  to_collation :: "string option"
  to_comment :: string
  to_auto_increment :: "int option"

record table_meta =
  tm_columns :: "column_meta list"
  tm_indexes :: "(string \<times> index_meta) list"
  tm_options :: table_options

datatype item_kind = KColumn | KIndex | KTableOption | KTable
datatype item_action = AAdd | ADrop | AModify | ARename | AMissing

record diff_item =
  di_kind :: item_kind
  di_action :: item_action
  di_object :: string
  di_source :: "string option"
  di_target :: "string option"
  di_danger :: bool
  di_patch :: string
  di_revert :: string

section \<open>Text of a column\<close>

definition numeric_types :: "string list" where
  "numeric_types = [''tinyint'', ''smallint'', ''mediumint'', ''int'', ''integer'', ''bigint'',
     ''decimal'', ''numeric'', ''float'', ''double'', ''real'', ''year'', ''bit'']"

text \<open>\<open>s.replace(old, new)\<close> for a non-empty \<open>old\<close>.\<close>

fun replace_from :: "nat \<Rightarrow> string \<Rightarrow> string \<Rightarrow> string \<Rightarrow> string" where
  "replace_from k old new [] = []"
| "replace_from (Suc k) old new (c # cs) = replace_from k old new cs"
| "replace_from 0 old new (c # cs) =
     (if starts_with (c # cs) old then new @ replace_from (length old - 1) old new cs
      else c # replace_from 0 old new cs)"

definition str_replace :: "string \<Rightarrow> string \<Rightarrow> string \<Rightarrow> string" where
  "str_replace old new s = replace_from 0 old new s"

definition normalize_collation :: "string option \<Rightarrow> string option" where
  "normalize_collation name = map_option (str_replace ''utf8mb3_'' ''utf8_'') name"

definition escape_ident :: "string \<Rightarrow> string" where
  "escape_ident name = ''`'' @ str_replace ''`'' ''``'' name @ ''`''"

definition escape_string :: "string \<Rightarrow> string" where
  "escape_string v = CHR 0x27 # str_replace [CHR 0x27] [CHR 0x27, CHR 0x27] v @ [CHR 0x27]"

text \<open>The text after the first occurrence of a word.\<close>

fun after_word :: "string \<Rightarrow> string \<Rightarrow> string option" where
  "after_word p [] = (if p = [] then Some [] else None)"
| "after_word p (c # cs) =
     (if starts_with (lower (c # cs)) p then Some (drop (length p) (c # cs)) else after_word p cs)"

definition on_update_text :: "column_meta \<Rightarrow> string" where
  "on_update_text col = (case after_word ''on update'' (strip (cm_extra col)) of
       None \<Rightarrow> []
     | Some rest \<Rightarrow> upper (strip rest))"

definition starts_any :: "string list \<Rightarrow> string \<Rightarrow> bool" where
  "starts_any ps s = list_ex (starts_with s) ps"

definition normalized_default :: "column_meta \<Rightarrow> string option" where
  "normalized_default col = (case cm_default col of
       None \<Rightarrow> None
     | Some text \<Rightarrow>
         (if upper text = ''NULL'' then None
          else if starts_any [''timestamp'', ''datetime''] (lower (cm_type col))
              \<and> upper text \<in> set [''CURRENT_TIMESTAMP'', ''CURRENT_TIMESTAMP()'', ''NOW()'']
          then Some ''CURRENT_TIMESTAMP'' else Some text))"

text \<open>Whether \<open>float(s)\<close> accepts the text.\<close>

definition is_mantissa :: "string \<Rightarrow> bool" where
  "is_mantissa s = (case split_on (CHR ''.'') s of
       [a] \<Rightarrow> nat_lit a \<noteq> None
     | [a, b] \<Rightarrow> (a \<noteq> [] \<or> b \<noteq> []) \<and> (a = [] \<or> nat_lit a \<noteq> None) \<and> (b = [] \<or> nat_lit b \<noteq> None)
     | _ \<Rightarrow> False)"

definition unsigned :: "string \<Rightarrow> string" where
  "unsigned s = (case s of [] \<Rightarrow> [] | c # cs \<Rightarrow> if c = CHR ''-'' \<or> c = CHR ''+'' then cs else s)"

definition is_float :: "string \<Rightarrow> bool" where
  "is_float s = (let t = unsigned (lower (strip s)) in
     t \<in> set [''inf'', ''infinity'', ''nan'']
     \<or> (case split_on (CHR ''e'') t of
          [m] \<Rightarrow> is_mantissa m
        | [m, e] \<Rightarrow> is_mantissa m \<and> nat_lit (unsigned e) \<noteq> None
        | _ \<Rightarrow> False))"

definition default_clause :: "column_meta \<Rightarrow> string" where
  "default_clause col = (case normalized_default col of
       None \<Rightarrow> []
     | Some d \<Rightarrow>
         (if starts_with d [CHR ''b'', CHR 0x27] then ''DEFAULT '' @ d
          else if starts_any numeric_types (lower (cm_type col)) \<and> is_float d then ''DEFAULT '' @ d
          else ''DEFAULT '' @ escape_string d))"

definition some_text :: "string option \<Rightarrow> bool" where
  "some_text x = (case x of Some t \<Rightarrow> t \<noteq> [] | None \<Rightarrow> False)"

definition charset_clause :: "column_meta \<Rightarrow> string option \<Rightarrow> string" where
  "charset_clause col table_collation =
     (let c = normalize_collation (cm_collation col); t = normalize_collation table_collation in
      if \<not> some_text (cm_charset col) then []
      else if \<not> some_text c \<or> \<not> some_text t \<or> c = t then []
      else ''CHARACTER SET '' @ the (cm_charset col) @ '' COLLATE '' @ the (cm_collation col))"

definition auto_increment :: "column_meta \<Rightarrow> bool" where
  "auto_increment col = str_in ''auto_increment'' (lower (cm_extra col))"

definition column_definition :: "column_meta \<Rightarrow> string option \<Rightarrow> string" where
  "column_definition col table_collation = join '' ''
     ([escape_ident (cm_name col), cm_type col,
       if cm_nullable col = ''NO'' then ''NOT NULL'' else ''NULL'']
      @ filter (\<lambda>t. t \<noteq> []) [default_clause col]
      @ (if auto_increment col then [''AUTO_INCREMENT''] else [])
      @ (if on_update_text col \<noteq> [] then [''ON UPDATE '' @ on_update_text col] else [])
      @ filter (\<lambda>t. t \<noteq> []) [charset_clause col table_collation]
      @ (if cm_comment col \<noteq> [] then [''COMMENT '' @ escape_string (cm_comment col)] else []))"

section \<open>What is compared\<close>

text \<open>\<open>_column_signature\<close>: its first six parts, and the comment.\<close>

type_synonym col_sig = "(string \<times> string \<times> string option \<times> bool \<times> string \<times> string option) \<times> string"

definition column_signature :: "bool \<Rightarrow> column_meta \<Rightarrow> col_sig" where
  "column_signature sync_comments col =
     ((lower (strip (cm_type col)), cm_nullable col, normalized_default col, auto_increment col,
       on_update_text col, normalize_collation (cm_collation col)),
      if sync_comments then cm_comment col else [])"

definition index_signature :: "index_meta \<Rightarrow> bool \<times> string \<times> string list" where
  "index_signature idx = (ix_unique idx, upper (ix_type idx), ix_columns idx)"

fun pred_of :: "string \<Rightarrow> string list \<Rightarrow> string option" where
  "pred_of n (a # b # xs) = (if b = n then Some a else pred_of n (b # xs))"
| "pred_of n _ = None"

text \<open>\<open>_position_clause\<close>: the column before \<open>name\<close> in \<open>order\<close>, if it exists when the clause is run.\<close>

definition position_clause :: "string list \<Rightarrow> string \<Rightarrow> string list \<Rightarrow> string list \<Rightarrow> string" where
  "position_clause order name other_names pending =
     (if hd order = name then '' FIRST''
      else (case pred_of name order of
          None \<Rightarrow> []
        | Some p \<Rightarrow> (if p \<in> set other_names \<or> p \<in> set pending then '' AFTER '' @ escape_ident p else [])))"

definition index_columns :: "index_meta \<Rightarrow> string" where
  "index_columns idx = '' ('' @ join '', '' (map escape_ident (ix_columns idx)) @ '')''"

definition index_definition :: "index_meta \<Rightarrow> string" where
  "index_definition idx =
     (let t = upper (if ix_type idx = [] then ''BTREE'' else ix_type idx);
          kind = (if ix_unique idx then ''UNIQUE KEY'' else if t = ''FULLTEXT'' then ''FULLTEXT INDEX''
                  else if t = ''SPATIAL'' then ''SPATIAL INDEX'' else ''INDEX'');
          using = (if t \<notin> set [''BTREE'', ''FULLTEXT'', ''SPATIAL''] then '' USING '' @ t else [])
      in if ix_name idx = ''PRIMARY'' then ''ADD PRIMARY KEY'' @ index_columns idx
         else ''ADD '' @ kind @ '' '' @ escape_ident (ix_name idx) @ using @ index_columns idx)"

definition index_drop_clause :: "index_meta \<Rightarrow> string" where
  "index_drop_clause idx =
     (if ix_name idx = ''PRIMARY'' then ''DROP PRIMARY KEY'' else ''DROP INDEX '' @ escape_ident (ix_name idx))"

definition str_or :: "string \<Rightarrow> string \<Rightarrow> string" where
  "str_or s d = (if s = [] then d else s)"

definition str_opt :: "int option \<Rightarrow> string" where
  "str_opt x = (case x of None \<Rightarrow> ''None'' | Some i \<Rightarrow> str_int i)"

definition option_item :: "string \<Rightarrow> string \<Rightarrow> string \<Rightarrow> string \<Rightarrow> string \<Rightarrow> diff_item" where
  "option_item name s t patch revert = \<lparr>di_kind = KTableOption, di_action = AModify, di_object = name,
     di_source = Some s, di_target = Some t, di_danger = False, di_patch = patch, di_revert = revert\<rparr>"

definition collate_option :: "string option \<Rightarrow> string" where
  "collate_option c = (case c of None \<Rightarrow> [] | Some n \<Rightarrow>
     if n = [] then [] else ''DEFAULT CHARSET='' @ hd (split_on (CHR ''_'') n) @ '' COLLATE='' @ n)"

definition table_option_diffs :: "table_options \<Rightarrow> table_options \<Rightarrow> bool \<Rightarrow> bool \<Rightarrow> diff_item list" where
  "table_option_diffs src dst sync_auto_inc sync_comments =
     (let se = strip (to_engine src); de = strip (to_engine dst);
          sc = normalize_collation (to_collation src); dc = normalize_collation (to_collation dst)
      in (if upper se \<noteq> upper de
          then [option_item ''ENGINE'' (str_or se ''-'') (str_or de ''-'') (''ENGINE='' @ se) (''ENGINE='' @ de)]
          else [])
       @ (if sc \<noteq> dc
          then [option_item ''charset'' (case sc of None \<Rightarrow> ''-'' | Some n \<Rightarrow> str_or n ''-'')
                 (case dc of None \<Rightarrow> ''-'' | Some n \<Rightarrow> str_or n ''-'') (collate_option sc) (collate_option dc)]
          else [])
       @ (if sync_comments \<and> to_comment src \<noteq> to_comment dst
          then [option_item ''comment'' (str_or (to_comment src) ''-'') (str_or (to_comment dst) ''-'')
                 (''COMMENT='' @ escape_string (to_comment src)) (''COMMENT='' @ escape_string (to_comment dst))]
          else [])
       @ (if sync_auto_inc \<and> to_auto_increment src \<noteq> to_auto_increment dst
             \<and> to_auto_increment src \<noteq> None \<and> to_auto_increment src \<noteq> Some 0
          then [option_item ''AUTO_INCREMENT'' (str_opt (to_auto_increment src)) (str_opt (to_auto_increment dst))
                 (''AUTO_INCREMENT='' @ str_opt (to_auto_increment src))
                 (''AUTO_INCREMENT='' @ str_opt (to_auto_increment dst))]
          else []))"

section \<open>One table\<close>

text \<open>\<open>{c["COLUMN_NAME"]: c for c in cols}\<close> and the order of the names.\<close>

definition col_of :: "column_meta list \<Rightarrow> string \<Rightarrow> column_meta" where
  "col_of cols n = the (map_of (rev (map (\<lambda>c. (cm_name c, c)) cols)) n)"

definition col_names :: "column_meta list \<Rightarrow> string list" where
  "col_names cols = map cm_name cols"

text \<open>The loop that pairs a removed with an added column of the same signature: the names left over and the pairs.\<close>

fun pair_renames ::
  "(string \<Rightarrow> 'k) \<Rightarrow> (string \<Rightarrow> 'k) \<Rightarrow> string list \<Rightarrow> string list
   \<Rightarrow> string list \<times> string list \<times> (string \<times> string) list" where
  "pair_renames ssig dsig [] added = ([], added, [])"
| "pair_renames ssig dsig (rm # rms) added = (case find (\<lambda>ad. ssig ad = dsig rm) added of
       None \<Rightarrow> (case pair_renames ssig dsig rms added of (r, a, ps) \<Rightarrow> (rm # r, a, ps))
     | Some m \<Rightarrow> (case pair_renames ssig dsig rms (remove1 m added) of (r, a, ps) \<Rightarrow> (r, a, (rm, m) # ps)))"

definition col_item ::
  "item_action \<Rightarrow> string \<Rightarrow> string option \<Rightarrow> string option \<Rightarrow> bool \<Rightarrow> string \<Rightarrow> string \<Rightarrow> diff_item" where
  "col_item a obj s t danger patch revert = \<lparr>di_kind = KColumn, di_action = a, di_object = obj,
     di_source = s, di_target = t, di_danger = danger, di_patch = patch, di_revert = revert\<rparr>"

definition rename_item ::
  "column_meta list \<Rightarrow> column_meta list \<Rightarrow> string option \<Rightarrow> string option \<Rightarrow> string \<times> string \<Rightarrow> diff_item" where
  "rename_item sc dc scoll dcoll p = (case p of (rm, m) \<Rightarrow>
     col_item ARename rm (Some m) (Some rm) False
       (''CHANGE '' @ escape_ident rm @ '' '' @ column_definition (col_of sc m) scoll)
       (''CHANGE '' @ escape_ident m @ '' '' @ column_definition (col_of dc rm) dcoll))"

definition drop_column :: "string \<Rightarrow> string" where
  "drop_column n = ''DROP COLUMN '' @ escape_ident n"

definition add_column :: "column_meta \<Rightarrow> string option \<Rightarrow> string \<Rightarrow> string" where
  "add_column c coll position = ''ADD COLUMN '' @ column_definition c coll @ position"

definition modify_column :: "column_meta \<Rightarrow> string option \<Rightarrow> string \<Rightarrow> string" where
  "modify_column c coll position = ''MODIFY COLUMN '' @ column_definition c coll @ position"

definition diff_columns ::
  "column_meta list \<Rightarrow> column_meta list \<Rightarrow> string option \<Rightarrow> string option \<Rightarrow> bool \<Rightarrow> diff_item list" where
  "diff_columns sc dc scoll dcoll sync_comments =
     (let so = col_names sc; do = col_names dc;
          six = (\<lambda>n. fst (column_signature False (col_of sc n)));
          dix = (\<lambda>n. fst (column_signature False (col_of dc n)))
      in case pair_renames six dix (filter (\<lambda>n. n \<notin> set so) do) (filter (\<lambda>n. n \<notin> set do) so) of
           (removed, added, renamed) \<Rightarrow>
             map (rename_item sc dc scoll dcoll) renamed
           @ map (\<lambda>n. col_item AAdd n (Some (cm_type (col_of sc n))) None False
                 (add_column (col_of sc n) scoll (position_clause so n do added)) (drop_column n)) added
           @ map (\<lambda>n. col_item ADrop n None (Some (cm_type (col_of dc n))) True (drop_column n)
                 (add_column (col_of dc n) dcoll (position_clause do n so removed))) removed
           @ map (\<lambda>n. col_item AModify n (Some (cm_type (col_of sc n))) (Some (cm_type (col_of dc n))) False
                 (modify_column (col_of sc n) scoll (position_clause so n do []))
                 (modify_column (col_of dc n) dcoll (position_clause do n so [])))
               (filter (\<lambda>n. n \<in> set do \<and> column_signature sync_comments (col_of sc n)
                          \<noteq> column_signature sync_comments (col_of dc n)) so))"

definition index_item ::
  "item_action \<Rightarrow> string \<Rightarrow> string option \<Rightarrow> string option \<Rightarrow> bool \<Rightarrow> string \<Rightarrow> string \<Rightarrow> diff_item" where
  "index_item a obj s t danger patch revert = \<lparr>di_kind = KIndex, di_action = a, di_object = obj,
     di_source = s, di_target = t, di_danger = danger, di_patch = patch, di_revert = revert\<rparr>"

text \<open>\<open>sorted(d.items())\<close> of a dictionary with distinct keys.\<close>

definition sorted_items :: "(string \<times> 'a) list \<Rightarrow> (string \<times> 'a) list" where
  "sorted_items d = sort_key fst d"

definition fullwidth_comma :: string where
  "fullwidth_comma = [CHR 0xEF, CHR 0xBC, CHR 0x8C]"

definition shown_columns :: "index_meta \<Rightarrow> string option" where
  "shown_columns idx = Some (join '', '' (ix_columns idx))"

definition diff_indexes :: "(string \<times> index_meta) list \<Rightarrow> (string \<times> index_meta) list \<Rightarrow> diff_item list" where
  "diff_indexes si di =
     map (\<lambda>(n, i). index_item AAdd n (shown_columns i) None False (index_definition i) (index_drop_clause i))
       (filter (\<lambda>(n, i). n \<notin> fst ` set di) (sorted_items si))
   @ map (\<lambda>(n, i). index_item ADrop n None (shown_columns i) (n = ''PRIMARY'') (index_drop_clause i) (index_definition i))
       (filter (\<lambda>(n, i). n \<notin> fst ` set si) (sorted_items di))
   @ map (\<lambda>n. let s = the (map_of si n); d = the (map_of di n) in
         index_item AModify n (shown_columns s) (shown_columns d) (n = ''PRIMARY'')
           (index_drop_clause d @ fullwidth_comma @ index_definition s)
           (index_drop_clause s @ fullwidth_comma @ index_definition d))
       (filter (\<lambda>n. index_signature (the (map_of si n)) \<noteq> index_signature (the (map_of di n)))
         (sort (filter (\<lambda>n. n \<in> fst ` set di) (map fst si))))"

definition diff_table :: "table_meta \<Rightarrow> table_meta \<Rightarrow> bool \<Rightarrow> bool \<Rightarrow> diff_item list" where
  "diff_table src dst sync_auto_inc sync_comments =
     diff_columns (tm_columns src) (tm_columns dst) (to_collation (tm_options src))
       (to_collation (tm_options dst)) sync_comments
   @ diff_indexes (tm_indexes src) (tm_indexes dst)
   @ table_option_diffs (tm_options src) (tm_options dst) sync_auto_inc sync_comments"

definition build_alter :: "string \<Rightarrow> string list \<Rightarrow> string" where
  "build_alter table clauses = (case filter (\<lambda>t. t \<noteq> []) clauses of
       [] \<Rightarrow> []
     | frags \<Rightarrow> ''ALTER TABLE '' @ escape_ident table @ '' '' @ join ('','' @ [newline] @ ''  '') frags @ '';'')"

section \<open>Two databases\<close>

record schema_meta =
  sm_table_options :: "(string \<times> table_options) list"
  sm_columns :: "(string \<times> column_meta list) list"
  sm_indexes :: "(string \<times> (string \<times> index_meta) list) list"

datatype table_status = OnlyInSource | OnlyInTarget | Differs | Same

record table_entry =
  te_table :: string
  te_status :: table_status
  te_items :: "diff_item list"
  te_patch_sql :: string
  te_revert_sql :: string

record diff_summary =
  ds_total :: nat
  ds_diff :: nat
  ds_same :: nat
  ds_missing :: nat
  ds_objects :: nat

record object_entry =
  oe_kind :: string
  oe_name :: string
  oe_source_only :: bool

record schema_diff =
  sd_summary :: diff_summary
  sd_tables :: "table_entry list"
  sd_objects :: "object_entry list"
  sd_patch_sql :: string
  sd_revert_sql :: string

definition get_or :: "'v \<Rightarrow> (string \<times> 'v) list \<Rightarrow> string \<Rightarrow> 'v" where
  "get_or dflt d k = (case map_of d k of None \<Rightarrow> dflt | Some v \<Rightarrow> v)"

definition table_of_schema :: "schema_meta \<Rightarrow> string \<Rightarrow> table_meta" where
  "table_of_schema s t = \<lparr>tm_columns = get_or [] (sm_columns s) t, tm_indexes = get_or [] (sm_indexes s) t,
     tm_options = the (map_of (sm_table_options s) t)\<rparr>"

definition there :: "bool \<Rightarrow> string" where
  "there b = (if b then ''present'' else ''absent'')"

definition missing_item :: "string \<Rightarrow> bool \<Rightarrow> bool \<Rightarrow> diff_item" where
  "missing_item t in_src in_dst = \<lparr>di_kind = KTable, di_action = AMissing, di_object = t,
     di_source = Some (there in_src), di_target = Some (there in_dst), di_danger = False,
     di_patch = [], di_revert = []\<rparr>"

definition diff_entry :: "schema_meta \<Rightarrow> schema_meta \<Rightarrow> bool \<Rightarrow> bool \<Rightarrow> string \<Rightarrow> table_entry" where
  "diff_entry src dst sync_auto_inc sync_comments t =
     (let in_src = t \<in> fst ` set (sm_table_options src); in_dst = t \<in> fst ` set (sm_table_options dst) in
      if \<not> in_src \<or> \<not> in_dst
      then \<lparr>te_table = t, te_status = (if in_src then OnlyInSource else OnlyInTarget),
             te_items = [missing_item t in_src in_dst], te_patch_sql = [], te_revert_sql = []\<rparr>
      else (let items = diff_table (table_of_schema src t) (table_of_schema dst t) sync_auto_inc sync_comments in
             \<lparr>te_table = t, te_status = (if items = [] then Same else Differs), te_items = items,
              te_patch_sql = build_alter t (map di_patch items),
              te_revert_sql = build_alter t (map di_revert items)\<rparr>))"

definition object_kinds :: "(string \<times> string) list" where
  "object_kinds = [(''views'', ''view''), (''triggers'', ''trigger''), (''routines'', ''routine'')]"

definition diff_objects :: "(string \<times> string list) list \<Rightarrow> (string \<times> string list) list \<Rightarrow> object_entry list" where
  "diff_objects so do = concat (map (\<lambda>(key, label).
     (let s = get_or [] so key; d = get_or [] do key in
        map (\<lambda>n. \<lparr>oe_kind = label, oe_name = n, oe_source_only = True\<rparr>)
          (sort (filter (\<lambda>n. n \<notin> set d) (remdups s)))
      @ map (\<lambda>n. \<lparr>oe_kind = label, oe_name = n, oe_source_only = False\<rparr>)
          (sort (filter (\<lambda>n. n \<notin> set s) (remdups d))))) object_kinds)"

definition status_count :: "table_status list \<Rightarrow> table_entry list \<Rightarrow> nat" where
  "status_count sts es = length (filter (\<lambda>e. te_status e \<in> set sts) es)"

definition differing :: "table_entry list \<Rightarrow> table_entry list" where
  "differing es = filter (\<lambda>e. te_status e = Differs) es"

definition diff_schemas ::
  "schema_meta \<Rightarrow> schema_meta \<Rightarrow> (string \<times> string list) list \<Rightarrow> (string \<times> string list) list
   \<Rightarrow> bool \<Rightarrow> bool \<Rightarrow> schema_diff" where
  "diff_schemas src dst src_objects dst_objects sync_auto_inc sync_comments =
     (let all_tables = sort (remdups (map fst (sm_table_options src) @ map fst (sm_table_options dst)));
          tables = map (diff_entry src dst sync_auto_inc sync_comments) all_tables;
          objects = diff_objects src_objects dst_objects
      in \<lparr>sd_summary = \<lparr>ds_total = length all_tables, ds_diff = status_count [Differs] tables,
            ds_same = status_count [Same] tables,
            ds_missing = status_count [OnlyInSource, OnlyInTarget] tables, ds_objects = length objects\<rparr>,
          sd_tables = tables, sd_objects = objects,
          sd_patch_sql = join [newline] (map te_patch_sql (differing tables)),
          sd_revert_sql = join [newline] (map te_revert_sql (differing tables))\<rparr>)"

section \<open>Reading the metadata\<close>

text \<open>\<open>resolve_instance\<close>: \<open>get\<close> on the instances the user reaches.\<close>

definition instance_get :: "(instance_row \<Rightarrow> bool) \<Rightarrow> instance_row list \<Rightarrow> instance_row res" where
  "instance_get P is = (case filter P is of
       [] \<Rightarrow> Inl (DoesNotExist ''Instance'')
     | [i] \<Rightarrow> Inr i
     | _ \<Rightarrow> Inl (MultipleObjectsReturned ''Instance''))"

definition resolve_instance :: "world \<Rightarrow> user \<Rightarrow> string \<Rightarrow> string \<Rightarrow> string list \<Rightarrow> instance_row res" where
  "resolve_instance w u instance_id instance_name db_type =
     (if instance_id \<noteq> [] then bindE (py_int instance_id) (\<lambda>i.
        instance_get (\<lambda>x. i_id x = i) (user_instances w u [] db_type []))
      else if instance_name \<noteq> []
      then instance_get (\<lambda>x. i_instance_name x = instance_name) (user_instances w u [] db_type [])
      else Inl (DoesNotExist ''no instance_id and no instance_name''))"

text \<open>One row of \<open>information_schema.STATISTICS\<close>.\<close>

record stat_row =
  st_table :: string
  st_index :: string
  st_column :: string
  st_non_unique :: bool
  st_type :: string

text \<open>\<open>d.setdefault(k, []).append(v)\<close>.\<close>

fun dict_append :: "'k \<Rightarrow> 'v \<Rightarrow> ('k \<times> 'v list) list \<Rightarrow> ('k \<times> 'v list) list" where
  "dict_append k v [] = [(k, [v])]"
| "dict_append k v ((k', vs) # d) = (if k' = k then (k, vs @ [v]) # d else (k', vs) # dict_append k v d)"

definition group_by_key :: "('v \<Rightarrow> 'k) \<Rightarrow> 'v list \<Rightarrow> ('k \<times> 'v list) list" where
  "group_by_key key vs = fold (\<lambda>v. dict_append (key v) v) vs []"

definition index_of_rows :: "string \<Rightarrow> stat_row list \<Rightarrow> index_meta" where
  "index_of_rows n parts = \<lparr>ix_name = n, ix_unique = (\<not> list_ex st_non_unique parts),
     ix_type = st_type (hd parts), ix_columns = map st_column parts\<rparr>"

text \<open>\<open>get_tables_schema\<close> from the three queries, run in this order; the first error is the answer.\<close>

definition get_tables_schema ::
  "string + (string \<times> table_options) list \<Rightarrow> string + (string \<times> column_meta) list
   \<Rightarrow> string + stat_row list \<Rightarrow> string + schema_meta" where
  "get_tables_schema tbs cols idx = (case tbs of Inl e \<Rightarrow> Inl e | Inr ts \<Rightarrow>
     (case cols of Inl e \<Rightarrow> Inl e | Inr cs \<Rightarrow>
     (case idx of Inl e \<Rightarrow> Inl e | Inr rows \<Rightarrow>
        Inr \<lparr>sm_table_options = dict_of ts,
          sm_columns = map (\<lambda>(t, rs). (t, map snd rs)) (group_by_key fst cs),
          sm_indexes = map (\<lambda>(t, rs). (t, map (\<lambda>(n, parts). (n, index_of_rows n parts)) (group_by_key st_index rs)))
            (group_by_key st_table rows)\<rparr>)))"

definition get_object_names ::
  "string + string list \<Rightarrow> string + string list \<Rightarrow> string + string list \<Rightarrow> string + (string \<times> string list) list" where
  "get_object_names views triggers routines = (case views of Inl e \<Rightarrow> Inl e | Inr vs \<Rightarrow>
     (case triggers of Inl e \<Rightarrow> Inl e | Inr ts \<Rightarrow>
     (case routines of Inl e \<Rightarrow> Inl e | Inr rs \<Rightarrow>
        Inr [(''views'', vs), (''triggers'', ts), (''routines'', rs)])))"

text \<open>
  \<open>table_diff\<close>. The queries of an instance are a parameter: the rows of the tables, columns and
  statistics of the selected tables (all tables when none is selected), and the names of the objects.
\<close>

record schema_queries =
  sq_tables :: "string \<Rightarrow> string list option \<Rightarrow> string + (string \<times> table_options) list"
  sq_columns :: "string \<Rightarrow> string list option \<Rightarrow> string + (string \<times> column_meta) list"
  sq_stats :: "string \<Rightarrow> string list option \<Rightarrow> string + stat_row list"
  sq_views :: "string \<Rightarrow> string + string list"
  sq_triggers :: "string \<Rightarrow> string + string list"
  sq_routines :: "string \<Rightarrow> string + string list"

definition tables_schema :: "schema_queries \<Rightarrow> string \<Rightarrow> string list option \<Rightarrow> string + schema_meta" where
  "tables_schema q db sel = get_tables_schema (sq_tables q db sel) (sq_columns q db sel) (sq_stats q db sel)"

definition object_names :: "schema_queries \<Rightarrow> string \<Rightarrow> string + (string \<times> string list) list" where
  "object_names q db = get_object_names (sq_views q db) (sq_triggers q db) (sq_routines q db)"

record diff_request =
  dq_instance_name :: string
  dq_db_name :: string
  dq_target_instance_name :: string
  dq_target_db_name :: string
  dq_tables :: "string list"
  dq_sync_auto_inc :: bool
  dq_sync_comments :: bool

definition fetch_failed :: "string \<Rightarrow> string \<Rightarrow> string" where
  "fetch_failed side e = ''reading the tables of '' @ side @ '' failed: '' @ e"

definition table_diff ::
  "(instance_row \<Rightarrow> schema_queries) \<Rightarrow> world \<Rightarrow> user \<Rightarrow> diff_request \<Rightarrow> string + schema_diff" where
  "table_diff queries w u q =
     (case (resolve_instance w u [] (dq_instance_name q) [''mysql''],
            resolve_instance w u [] (dq_target_instance_name q) [''mysql'']) of
        (Inr i, Inr j) \<Rightarrow>
          (let selected = filter (\<lambda>t. t \<noteq> []) (dq_tables q);
               sel = (if selected = [] then None else Some selected);
               sside = dq_instance_name q @ ''/'' @ dq_db_name q;
               dside = dq_target_instance_name q @ ''/'' @ dq_target_db_name q in
           case tables_schema (queries i) (dq_db_name q) sel of Inl e \<Rightarrow> Inl (fetch_failed sside e) | Inr src \<Rightarrow>
           (case tables_schema (queries j) (dq_target_db_name q) sel of Inl e \<Rightarrow> Inl (fetch_failed dside e) | Inr dst \<Rightarrow>
           (case object_names (queries i) (dq_db_name q) of Inl e \<Rightarrow> Inl (fetch_failed sside e) | Inr so \<Rightarrow>
           (case object_names (queries j) (dq_target_db_name q) of Inl e \<Rightarrow> Inl (fetch_failed dside e) | Inr dso \<Rightarrow>
              Inr (diff_schemas src dst so dso (dq_sync_auto_inc q) (dq_sync_comments q))))))
      | _ \<Rightarrow> Inl ''no such instance, not MySQL or not in your resource groups'')"

text \<open>\<open>sql_api/api_schema.py\<close>: the checks of the request, then the comparison.\<close>

definition bad_table_char :: "char \<Rightarrow> bool" where
  "bad_table_char c = (c \<in> set [CHR ''`'', CHR 0x27, CHR 0x22, CHR '';'', CHR 0x5C] \<or> is_space c)"

definition validate_tables :: "string list \<Rightarrow> unit res" where
  "validate_tables tables =
     (if list_ex (list_ex bad_table_char) tables then Inl (ValidationError ''illegal character in a table name'')
      else if 200 < length tables then Inl (ValidationError ''more than 200 tables'')
      else Inr ())"

text \<open>A \<open>CharField\<close> of the serializer: stripped, and not blank.\<close>

definition char_field :: "string \<Rightarrow> string res" where
  "char_field s = (if strip s = [] then Inl (ValidationError ''may not be blank'') else Inr (strip s))"

definition TableDiffView_post ::
  "(instance_row \<Rightarrow> schema_queries) \<Rightarrow> world \<Rightarrow> user \<Rightarrow> diff_request \<Rightarrow> (string + schema_diff) res" where
  "TableDiffView_post queries w u q =
     (if \<not> (u_is_superuser u \<or> has_perm u ''sql.menu_schemasync'') then Inl PermissionDenied else
      bindE (char_field (dq_instance_name q)) (\<lambda>i. bindE (char_field (dq_db_name q)) (\<lambda>d.
      bindE (char_field (dq_target_instance_name q)) (\<lambda>ti. bindE (char_field (dq_target_db_name q)) (\<lambda>td.
      bindE (mapE char_field (dq_tables q)) (\<lambda>ts. bindE (validate_tables ts) (\<lambda>_.
        Inr (table_diff queries w u (q\<lparr>dq_instance_name := i, dq_db_name := d,
          dq_target_instance_name := ti, dq_target_db_name := td, dq_tables := ts\<rparr>)))))))))"

end
