(* ===== verification/SchemaDiffProps.thy ===== *)
theory SchemaDiffProps
  imports SchemaDiff
begin

text \<open>
  What the comparison of two tables is for: the clauses of the patch, executed on the columns and
  indexes of the target, give those of the source; those of the revert lead back; nothing is
  reported exactly when the tables agree; what loses data is marked.
\<close>

section \<open>Clauses and their execution\<close>






definition column_map :: "bool \<Rightarrow> column_meta list \<Rightarrow> string \<rightharpoonup> col_sig" where
  "column_map s cols n = (if n \<in> set (col_names cols) then Some (column_signature s (col_of cols n)) else None)"

definition index_map :: "(string \<times> index_meta) list \<Rightarrow> string \<rightharpoonup> bool \<times> string \<times> string list" where
  "index_map d n = map_option index_signature (map_of d n)"

text \<open>A dictionary of indexes: distinct keys, each the name of its index.\<close>

definition index_dict :: "(string \<times> index_meta) list \<Rightarrow> bool" where
  "index_dict d = (distinct (map fst d) \<and> list_all (\<lambda>(n, i). ix_name i = n) d)"


section \<open>Pairing renamed columns\<close>

lemma pair_renames_sets:
  assumes "pair_renames f g rms added = (r, a, ps)"
  shows "set rms = set r \<union> fst ` set ps" and "set added = set a \<union> snd ` set ps"
    and "(x, y) \<in> set ps \<Longrightarrow> f y = g x"
proof -
  have "set rms = set r \<union> fst ` set ps \<and> set added = set a \<union> snd ` set ps
    \<and> ((x, y) \<in> set ps \<longrightarrow> f y = g x)"
    using assms
  proof (induction rms arbitrary: added r a ps)
    case (Cons rm rms)
    show ?case
    proof (cases "find (\<lambda>ad. f ad = g rm) added")
      case None
      with Cons.prems obtain r' where "pair_renames f g rms added = (r', a, ps)" "r = rm # r'"
        by (auto split: prod.splits)
      with Cons.IH show ?thesis by auto
    next
      case (Some m)
      then have m: "f m = g rm" "m \<in> set added" by (auto simp: find_Some_iff)
      from Some Cons.prems obtain ps' where p: "pair_renames f g rms (remove1 m added) = (r, a, ps')"
        "ps = (rm, m) # ps'"
        by (auto split: prod.splits)
      have "set added = insert m (set (remove1 m added))"
        using m(2) set_remove1_subset [of m added] in_set_remove1 [of _ m added] by blast
      with Cons.IH [OF p(1)] p(2) m(1) show ?thesis by auto
    qed
  qed simp
  then show "set rms = set r \<union> fst ` set ps" "set added = set a \<union> snd ` set ps"
    "(x, y) \<in> set ps \<Longrightarrow> f y = g x" by auto
qed



section \<open>The clauses of a comparison\<close>



text \<open>The names a comparison of columns distinguishes.\<close>

lemma diff_columns_parts:
  fixes s :: bool
  obtains changes adds drops mods where
    "diff_columns sc dc x y s =
       map (rename_item sc dc x y) changes
     @ map (\<lambda>n. col_item AAdd n (Some (cm_type (col_of sc n))) None False
           (add_column (col_of sc n) x (position_clause (col_names sc) n (col_names dc) adds)) (drop_column n)) adds
     @ map (\<lambda>n. col_item ADrop n None (Some (cm_type (col_of dc n))) True (drop_column n)
           (add_column (col_of dc n) y (position_clause (col_names dc) n (col_names sc) drops))) drops
     @ map (\<lambda>n. col_item AModify n (Some (cm_type (col_of sc n))) (Some (cm_type (col_of dc n))) False
           (modify_column (col_of sc n) x (position_clause (col_names sc) n (col_names dc) []))
           (modify_column (col_of dc n) y (position_clause (col_names dc) n (col_names sc) []))) mods"
    "fst ` set changes \<union> set drops = set (col_names dc) - set (col_names sc)"
    "snd ` set changes \<union> set adds = set (col_names sc) - set (col_names dc)"
    "set mods = {n \<in> set (col_names sc) \<inter> set (col_names dc).
       column_signature s (col_of sc n) \<noteq> column_signature s (col_of dc n)}"
    "\<And>a b. (a, b) \<in> set changes \<Longrightarrow>
       fst (column_signature s (col_of sc b)) = fst (column_signature s (col_of dc a))"
proof -
  let ?f = "\<lambda>n. fst (column_signature False (col_of sc n))"
  let ?g = "\<lambda>n. fst (column_signature False (col_of dc n))"
  obtain r a ps where p: "pair_renames ?f ?g (filter (\<lambda>n. n \<notin> set (col_names sc)) (col_names dc))
      (filter (\<lambda>n. n \<notin> set (col_names dc)) (col_names sc)) = (r, a, ps)"
    by (cases "pair_renames ?f ?g (filter (\<lambda>n. n \<notin> set (col_names sc)) (col_names dc))
      (filter (\<lambda>n. n \<notin> set (col_names dc)) (col_names sc))") auto
  note sets = pair_renames_sets [OF p]
  show thesis
  proof (rule that)
    show "fst ` set ps \<union> set r = set (col_names dc) - set (col_names sc)"
      "snd ` set ps \<union> set a = set (col_names sc) - set (col_names dc)"
      using sets(1,2) by auto
    show "diff_columns sc dc x y s = map (rename_item sc dc x y) ps
     @ map (\<lambda>n. col_item AAdd n (Some (cm_type (col_of sc n))) None False
           (add_column (col_of sc n) x (position_clause (col_names sc) n (col_names dc) a)) (drop_column n)) a
     @ map (\<lambda>n. col_item ADrop n None (Some (cm_type (col_of dc n))) True (drop_column n)
           (add_column (col_of dc n) y (position_clause (col_names dc) n (col_names sc) r))) r
     @ map (\<lambda>n. col_item AModify n (Some (cm_type (col_of sc n))) (Some (cm_type (col_of dc n))) False
           (modify_column (col_of sc n) x (position_clause (col_names sc) n (col_names dc) []))
           (modify_column (col_of dc n) y (position_clause (col_names dc) n (col_names sc) [])))
         (filter (\<lambda>n. n \<in> set (col_names dc) \<and> column_signature s (col_of sc n)
                          \<noteq> column_signature s (col_of dc n)) (col_names sc))"
      by (simp add: diff_columns_def Let_def p)
  next
    fix o' b assume "(o', b) \<in> set ps"
    from sets(3) [OF this] show "fst (column_signature s (col_of sc b)) = fst (column_signature s (col_of dc o'))"
      by (simp add: column_signature_def)
  qed auto
qed


lemma in_fst_snd: "(a, b) \<in> S \<Longrightarrow> a \<in> fst ` S \<and> b \<in> snd ` S"
  by force


section \<open>Indexes\<close>

lemma set_sorted_items [simp]: "set (sorted_items d) = set d"
  by (simp add: sorted_items_def)


text \<open>Indexes of one name with one signature need no clause.\<close>

definition indexes_agree :: "(string \<times> index_meta) list \<Rightarrow> (string \<times> index_meta) list \<Rightarrow> bool" where
  "indexes_agree si di = list_all (\<lambda>n. n \<in> fst ` set di \<longrightarrow>
     index_signature (the (map_of si n)) = index_signature (the (map_of di n))) (map fst si)"

lemma indexes_agreeD:
  "indexes_agree si di \<Longrightarrow> n \<in> fst ` set si \<Longrightarrow> n \<in> fst ` set di \<Longrightarrow>
   index_signature (the (map_of si n)) = index_signature (the (map_of di n))"
  by (auto simp: indexes_agree_def list_all_iff)




section \<open>The patch and the revert\<close>


text \<open>A table with a new, a dropped, a renamed and a changed column, and a new index.\<close>

definition plain_column :: "string \<Rightarrow> string \<Rightarrow> column_meta" where
  "plain_column n ty = \<lparr>cm_name = n, cm_type = ty, cm_nullable = ''NO'', cm_default = None, cm_extra = [],
     cm_charset = None, cm_collation = None, cm_comment = []\<rparr>"

definition plain_table :: "column_meta list \<Rightarrow> (string \<times> index_meta) list \<Rightarrow> table_meta" where
  "plain_table cols is = \<lparr>tm_columns = cols, tm_indexes = is, tm_options = \<lparr>to_engine = ''InnoDB'',
     to_collation = None, to_comment = [], to_auto_increment = None\<rparr>\<rparr>"

definition demo_source :: table_meta where
  "demo_source = plain_table [plain_column ''id'' ''bigint'', plain_column ''label'' ''text'', plain_column ''n'' ''int'']
     [(''k'', \<lparr>ix_name = ''k'', ix_unique = False, ix_type = ''BTREE'', ix_columns = [''n'']\<rparr>)]"

definition demo_target :: table_meta where
  "demo_target = plain_table [plain_column ''id'' ''int'', plain_column ''name'' ''text'', plain_column ''old'' ''date''] []"


section \<open>When nothing is reported\<close>

definition options_agree :: "bool \<Rightarrow> bool \<Rightarrow> table_options \<Rightarrow> table_options \<Rightarrow> bool" where
  "options_agree sync_auto_inc sync_comments src dst \<longleftrightarrow>
     upper (strip (to_engine src)) = upper (strip (to_engine dst))
   \<and> normalize_collation (to_collation src) = normalize_collation (to_collation dst)
   \<and> (sync_comments \<longrightarrow> to_comment src = to_comment dst)
   \<and> (sync_auto_inc \<longrightarrow> to_auto_increment src = to_auto_increment dst
        \<or> to_auto_increment src = None \<or> to_auto_increment src = Some 0)"

lemma diff_columns_empty: "diff_columns sc dc x y s = [] \<longleftrightarrow> column_map s sc = column_map s dc"
proof -
  obtain changes adds drops mods where e: "diff_columns sc dc x y s = [] \<longleftrightarrow> changes = [] \<and> adds = [] \<and> drops = [] \<and> mods = []"
    and sets: "fst ` set changes \<union> set drops = set (col_names dc) - set (col_names sc)"
    "snd ` set changes \<union> set adds = set (col_names sc) - set (col_names dc)"
    "set mods = {n \<in> set (col_names sc) \<inter> set (col_names dc).
       column_signature s (col_of sc n) \<noteq> column_signature s (col_of dc n)}"
    by (rule diff_columns_parts [of sc dc x y s]) auto
  have "diff_columns sc dc x y s = [] \<longleftrightarrow> fst ` set changes \<union> set drops = {}
      \<and> snd ` set changes \<union> set adds = {} \<and> set mods = {}" using e by auto
  also have "\<dots> \<longleftrightarrow> column_map s sc = column_map s dc"
    unfolding sets fun_eq_iff column_map_def by (auto split: if_splits)
  finally show ?thesis .
qed

lemma diff_indexes_empty:
  assumes "index_dict si" "index_dict di"
  shows "diff_indexes si di = [] \<longleftrightarrow> index_map si = index_map di"
proof -
  have "diff_indexes si di = [] \<longleftrightarrow> fst ` set si \<subseteq> fst ` set di \<and> fst ` set di \<subseteq> fst ` set si \<and> indexes_agree si di"
    by (simp add: diff_indexes_def filter_empty_conv indexes_agree_def list_all_iff image_subset_iff split_def) blast
  also have "\<dots> \<longleftrightarrow> index_map si = index_map di"
  proof
    assume a: "fst ` set si \<subseteq> fst ` set di \<and> fst ` set di \<subseteq> fst ` set si \<and> indexes_agree si di"
    show "index_map si = index_map di"
    proof
      fix n
      show "index_map si n = index_map di n"
      proof (cases "n \<in> fst ` set si")
        case True
        with a have "n \<in> fst ` set di" by auto
        with True a show ?thesis
          using indexes_agreeD [of si di n] by (cases "map_of si n"; cases "map_of di n")
            (auto simp: index_map_def map_of_eq_None_iff)
      next
        case False
        with a have "n \<notin> fst ` set di" by auto
        with False show ?thesis by (metis index_map_def map_of_eq_None_iff)
      qed
    qed
  next
    assume e: "index_map si = index_map di"
    have d: "n \<in> fst ` set d \<longleftrightarrow> index_map d n \<noteq> None" for n d
      by (simp add: index_map_def map_of_eq_None_iff)
    have "index_signature (the (map_of si n)) = index_signature (the (map_of di n))" if "n \<in> fst ` set si" for n
      using fun_cong [OF e, of n] that d [of n si] d [of n di] by (auto simp: index_map_def)
    moreover have "fst ` set si = fst ` set di" by (rule set_eqI) (simp only: d e)
    ultimately show "fst ` set si \<subseteq> fst ` set di \<and> fst ` set di \<subseteq> fst ` set si \<and> indexes_agree si di"
      by (simp add: indexes_agree_def list_all_iff)
  qed
  finally show ?thesis .
qed

lemma option_diffs_empty: "table_option_diffs src dst a s = [] \<longleftrightarrow> options_agree a s src dst"
  by (auto simp: table_option_diffs_def options_agree_def Let_def)

text \<open>C12. The comparison of two tables reports nothing exactly when both have the same columns with the same
  types, defaults and attributes, the same indexes and the same options, up to the order of the columns,
  the two spellings of the old character set and the case of type names.\<close>

theorem no_difference_iff:
  assumes "index_dict (tm_indexes src)" "index_dict (tm_indexes dst)"
  shows "diff_table src dst a s = [] \<longleftrightarrow>
     column_map s (tm_columns src) = column_map s (tm_columns dst)
   \<and> index_map (tm_indexes src) = index_map (tm_indexes dst)
   \<and> options_agree a s (tm_options src) (tm_options dst)"
  using assms by (simp add: diff_table_def diff_columns_empty diff_indexes_empty option_diffs_empty)

lemma no_difference_iff_witness:
  "diff_table demo_source demo_source True True = [] \<and>
   column_map True (tm_columns demo_source) \<noteq> column_map True (tm_columns demo_target)"
proof -
  have d: "index_dict (tm_indexes demo_source)" "index_dict (tm_indexes demo_target)" by code_simp+
  have "diff_table demo_source demo_source True True = []"
    by (subst no_difference_iff [OF d(1) d(1)]) (simp add: options_agree_def)
  moreover have "column_map True (tm_columns demo_source) ''n'' \<noteq> column_map True (tm_columns demo_target) ''n''"
    by code_simp
  ultimately show ?thesis by metis
qed

section \<open>What is marked as dangerous\<close>

definition changed_item :: "index_meta \<Rightarrow> index_meta \<Rightarrow> string \<Rightarrow> diff_item" where
  "changed_item s d n = index_item AModify n (shown_columns s) (shown_columns d) (n = ''PRIMARY'')
     (index_drop_clause d @ fullwidth_comma @ index_definition s)
     (index_drop_clause s @ fullwidth_comma @ index_definition d)"

lemma changed_index_item:
  assumes "n \<in> fst ` set si" "n \<in> fst ` set di"
    and "index_signature (the (map_of si n)) \<noteq> index_signature (the (map_of di n))"
  shows "changed_item (the (map_of si n)) (the (map_of di n)) n \<in> set (diff_indexes si di)"
  unfolding diff_indexes_def changed_item_def Let_def using assms by simp

text \<open>C13. A comparison without an item marked dangerous loses no column and no primary key: every column of the
  target is a column of the source or is renamed to one with the same type and attributes, and a primary key
  of the target stays as it is.\<close>

theorem unmarked_keeps_data:
  assumes "index_dict (tm_indexes dst)"
    and "\<forall>it \<in> set (diff_table src dst a s). \<not> di_danger it"
    and "n \<in> set (col_names (tm_columns dst))"
  shows "(n \<in> set (col_names (tm_columns src)) \<or>
      (\<exists>m it. it \<in> set (diff_table src dst a s) \<and> di_action it = ARename \<and> di_object it = n \<and> di_source it = Some m
         \<and> m \<in> set (col_names (tm_columns src))
         \<and> fst (column_signature s (col_of (tm_columns src) m)) = fst (column_signature s (col_of (tm_columns dst) n))))
    \<and> (index_map (tm_indexes dst) ''PRIMARY'' \<noteq> None \<longrightarrow>
         index_map (tm_indexes src) ''PRIMARY'' = index_map (tm_indexes dst) ''PRIMARY'')"
proof -
  let ?sc = "tm_columns src" and ?dc = "tm_columns dst"
  let ?x = "to_collation (tm_options src)" and ?y = "to_collation (tm_options dst)"
  obtain changes adds drops mods where
    it: "set (map (rename_item ?sc ?dc ?x ?y) changes) \<subseteq> set (diff_columns ?sc ?dc ?x ?y s)"
    "\<And>n. n \<in> set drops \<Longrightarrow> \<exists>i \<in> set (diff_columns ?sc ?dc ?x ?y s). di_danger i"
    and sets: "fst ` set changes \<union> set drops = set (col_names ?dc) - set (col_names ?sc)"
    "snd ` set changes \<union> set adds = set (col_names ?sc) - set (col_names ?dc)"
    "\<And>a b. (a, b) \<in> set changes \<Longrightarrow> fst (column_signature s (col_of ?sc b)) = fst (column_signature s (col_of ?dc a))"
  proof (rule diff_columns_parts [of ?sc ?dc ?x ?y s], goal_cases)
    case (1 changes adds drops mods)
    show ?case
    proof (rule 1(1) [of changes drops adds])
      show "\<exists>i \<in> set (diff_columns ?sc ?dc ?x ?y s). di_danger i" if "n \<in> set drops" for n
        using that by (intro bexI [of _ "col_item ADrop n None (Some (cm_type (col_of ?dc n))) True (drop_column n)
            (add_column (col_of ?dc n) ?y (position_clause (col_names ?dc) n (col_names ?sc) drops))"])
          (simp_all add: 1(2) col_item_def)
    qed (use 1 in simp_all)
  qed
  have safe: "\<not> di_danger i" if "i \<in> set (diff_columns ?sc ?dc ?x ?y s) \<union> set (diff_indexes (tm_indexes src) (tm_indexes dst))" for i
    using assms(2) that by (auto simp: diff_table_def)
  have cols: "\<exists>m it. it \<in> set (diff_table src dst a s) \<and> di_action it = ARename \<and> di_object it = n \<and> di_source it = Some m
         \<and> m \<in> set (col_names ?sc) \<and> fst (column_signature s (col_of ?sc m)) = fst (column_signature s (col_of ?dc n))"
    if "n \<notin> set (col_names ?sc)"
  proof -
    have "n \<notin> set drops" using it(2) safe by blast
    with assms(3) that sets(1) obtain m where m: "(n, m) \<in> set changes" by force
    then have "rename_item ?sc ?dc ?x ?y (n, m) \<in> set (diff_table src dst a s)"
      using it(1) by (auto simp: diff_table_def)
    moreover have "m \<in> set (col_names ?sc)" using in_fst_snd [OF m] sets(2) by blast
    ultimately show ?thesis using sets(3) [OF m]
      by (intro exI [of _ m] exI [of _ "rename_item ?sc ?dc ?x ?y (n, m)"]) (simp add: rename_item_def col_item_def)
  qed
  have "index_map (tm_indexes src) ''PRIMARY'' = index_map (tm_indexes dst) ''PRIMARY''"
    if p: "index_map (tm_indexes dst) ''PRIMARY'' \<noteq> None"
  proof -
    from p obtain i where i: "(''PRIMARY'', i) \<in> set (tm_indexes dst)" "map_of (tm_indexes dst) ''PRIMARY'' = Some i"
      by (auto simp: index_map_def dest: map_of_SomeD)
    have s: "''PRIMARY'' \<in> fst ` set (tm_indexes src)"
    proof (rule ccontr)
      assume "''PRIMARY'' \<notin> fst ` set (tm_indexes src)"
      with i(1) have "\<exists>it \<in> set (diff_indexes (tm_indexes src) (tm_indexes dst)). di_danger it"
        by (force simp: diff_indexes_def index_item_def)
      with safe show False by blast
    qed
    then obtain j where j: "map_of (tm_indexes src) ''PRIMARY'' = Some j"
      by (metis map_of_eq_None_iff not_None_eq)
    have "index_signature j = index_signature i"
    proof (rule ccontr)
      assume "index_signature j \<noteq> index_signature i"
      then have "changed_item j i ''PRIMARY'' \<in> set (diff_indexes (tm_indexes src) (tm_indexes dst))"
        using changed_index_item [OF s] i j by force
      moreover have "di_danger (changed_item j i ''PRIMARY'')" by (simp add: changed_item_def index_item_def)
      ultimately show False using safe by blast
    qed
    with i(2) j show ?thesis by (simp add: index_map_def)
  qed
  with cols show ?thesis by blast
qed

lemma unmarked_keeps_data_witness:
  "\<exists>it \<in> set (diff_table (plain_table [plain_column ''label'' ''text''] []) (plain_table [plain_column ''name'' ''text''] [])
     False False). di_action it = ARename \<and> di_source it = Some ''label''"
proof -
  let ?s = "plain_table [plain_column ''label'' ''text''] []" and ?d = "plain_table [plain_column ''name'' ''text''] []"
  have d: "index_dict (tm_indexes ?d)" "list_all (\<lambda>it. \<not> di_danger it) (diff_table ?s ?d False False)"
    "''name'' \<in> set (col_names (tm_columns ?d))" by code_simp+
  have n: "''name'' \<notin> set (col_names (tm_columns ?s))" "set (col_names (tm_columns ?s)) = {''label''}"
    by code_simp+
  note main = unmarked_keeps_data [OF d(1) d(2) [unfolded list_all_iff] d(3), THEN conjunct1]
  from main n(1) obtain m it where it: "it \<in> set (diff_table ?s ?d False False)" "di_action it = ARename"
      "di_source it = Some m" "m \<in> set (col_names (tm_columns ?s))"
    by (elim disjE exE conjE) (erule notE, assumption)
  from it(4) have "m = ''label''" unfolding n(2) by simp
  with it show ?thesis by (intro bexI [of _ it] conjI) simp_all
qed

section \<open>A changed index\<close>

lemma str_in_sublist: "str_in p s \<longleftrightarrow> sublist p s"
  by (induction p s rule: str_in.induct) (auto simp: starts_with_prefix sublist_Cons_right)

lemma sublist_join: "x \<in> set xs \<Longrightarrow> sublist x (join sep xs)"
proof (induction sep xs rule: join.induct)
  case (3 sep y z zs)
  show ?case
  proof (cases "x = y")
    case False
    with 3 have "sublist x (join sep (z # zs))" by simp
    also have "sublist (join sep (z # zs)) ((y @ sep) @ join sep (z # zs))" by (rule sublist_append_leftI)
    finally show ?thesis by simp
  qed simp
qed auto

text \<open>The two clauses that replace an index are joined by a full-width comma: the text of the whole statement
  contains it, although every name is plain, and no server reads it.\<close>

theorem changed_index_breaks_alter:
  assumes "n \<in> fst ` set (tm_indexes src)" "n \<in> fst ` set (tm_indexes dst)"
    and "index_signature (the (map_of (tm_indexes src) n)) \<noteq> index_signature (the (map_of (tm_indexes dst) n))"
  shows "str_in fullwidth_comma (build_alter t (map di_patch (diff_table src dst a s)))"
proof -
  let ?ps = "filter (\<lambda>t. t \<noteq> []) (map di_patch (diff_table src dst a s))"
  let ?si = "tm_indexes src" and ?di = "tm_indexes dst"
  let ?it = "changed_item (the (map_of ?si n)) (the (map_of ?di n)) n"
  have "?it \<in> set (diff_table src dst a s)"
    using changed_index_item [OF assms] by (simp add: diff_table_def)
  moreover have "sublist fullwidth_comma (di_patch ?it)" by (simp add: changed_item_def index_item_def)
  ultimately obtain it where it: "it \<in> set (diff_table src dst a s)" "sublist fullwidth_comma (di_patch it)" by blast
  then have "di_patch it \<noteq> []" by (auto simp: fullwidth_comma_def)
  with it obtain p where p: "p \<in> set ?ps" "sublist fullwidth_comma p" by auto
  then obtain q qs where qs: "?ps = q # qs" by (cases ?ps) auto
  have "sublist fullwidth_comma (join ('','' @ [newline] @ ''  '') ?ps)"
    using p sublist_join sublist_order.order_trans by blast
  then have "sublist fullwidth_comma ((''ALTER TABLE '' @ escape_ident t @ '' '') @ join ('','' @ [newline] @ ''  '') ?ps @ '';'')"
    by (rule sublist_order.order_trans) (rule sublist_appendI)
  then show ?thesis
    unfolding str_in_sublist build_alter_def qs by simp
qed

text \<open>A default of the current time is quoted like a text, for every type that is not a number.\<close>

lemma current_timestamp_quoted:
  assumes "normalized_default col = Some ''CURRENT_TIMESTAMP''"
  shows "default_clause col = ''DEFAULT '' @ escape_string ''CURRENT_TIMESTAMP''"
proof -
  have "\<not> is_float ''CURRENT_TIMESTAMP''" "\<not> starts_with ''CURRENT_TIMESTAMP'' [CHR ''b'', CHR 0x27]" by code_simp+
  with assms show ?thesis by (simp add: default_clause_def)
qed

end
