(* ===== verification/Login.thy ===== *)
theory Login
  imports ResourceGroup
begin

text \<open>
  Logging in: \<open>common/auth.py\<close> (password, failure counter, lock), \<open>sql_api/api_auth.py\<close>,
  \<open>common/twofa/\<close> and the second-factor views of \<open>sql_api/api_user.py\<close>. The state is the world
  with the table of second factors, Django's sessions and the captchas Redis keeps. A request names
  a session by its key, as the cookie does. Parameters: the password check of Django's backends
  (which may create a user, as LDAP does), the test of a time-based code for a secret, sending a
  text message, the messenger ids Redis keeps.
\<close>

section \<open>State\<close>

record twofa_config =
  tf_id :: int
  tf_username :: string
  tf_auth_type :: string
  tf_phone :: "string option"
  tf_secret_key :: "string option"
  tf_user :: int

record session =
  se_key :: int
  se_user :: "string option"
  se_login :: "int option"
  se_ttl :: int
  se_expire :: datetime

record captcha =
  cp_otp :: string
  cp_update_time :: datetime
  cp_expire :: datetime

record auth_state =
  as_world :: world
  as_twofa :: "twofa_config table"
  as_sessions :: "session table"
  as_captchas :: "(string \<times> captcha) list"

abbreviation set_tf_id :: "int \<Rightarrow> twofa_config \<Rightarrow> twofa_config" where
  "set_tf_id i r \<equiv> r\<lparr>tf_id := i\<rparr>"

abbreviation set_se_key :: "int \<Rightarrow> session \<Rightarrow> session" where
  "set_se_key i r \<equiv> r\<lparr>se_key := i\<rparr>"

interpretation tf: row_store tf_id set_tf_id by unfold_locales simp
interpretation se: row_store se_key set_se_key by unfold_locales simp

definition session_cookie_age :: int where
  "session_cookie_age = 60 * 300"

definition auth_now :: "auth_state \<Rightarrow> datetime" where
  "auth_now s = w_now (as_world s)"

text \<open>A computation on the world, inside the larger state.\<close>

definition on_world :: "(world, 'a) M \<Rightarrow> (auth_state, 'a) M" where
  "on_world m = (\<lambda>s. case m (as_world s) of (r, w) \<Rightarrow> (r, s\<lparr>as_world := w\<rparr>))"

section \<open>Users\<close>

definition save_user :: "user \<Rightarrow> (world, unit) M" where
  "save_user u = modifyM (\<lambda>w. w\<lparr>w_users := tbl_save u_id (Users_saved u) (w_users w)\<rparr>)"

definition update_user :: "int \<Rightarrow> (user \<Rightarrow> user) \<Rightarrow> (world, unit) M" where
  "update_user i f = modifyM (\<lambda>w. w\<lparr>w_users := tbl_update (\<lambda>x. u_id x = i) f (w_users w)\<rparr>)"

definition add_new :: "int \<Rightarrow> int list \<Rightarrow> int list" where
  "add_new x xs = (if x \<in> set xs then xs else xs @ [x])"

text \<open>\<open>init_user\<close>: the default permission groups and resource groups.\<close>

definition init_user :: "int \<Rightarrow> (world, unit) M" where
  "init_user i =
     thenM (bindM (getsM (\<lambda>w. config_get w ''default_auth_group'' (PStr []))) (\<lambda>v.
       if \<not> truthy v then ret () else
       bindM (liftM (\<lambda>_. pyval_split_comma v)) (\<lambda>names.
       bindM (getsM (\<lambda>w. tbl_filter (\<lambda>g. g_name g \<in> set names) (w_groups w))) (\<lambda>gs.
         forM gs (\<lambda>g. update_user i (\<lambda>u. u\<lparr>u_groups := add_new (g_id g) (u_groups u)\<rparr>))))))
     (bindM (getsM (\<lambda>w. config_get w ''default_resource_group'' (PStr []))) (\<lambda>v.
       if \<not> truthy v then ret () else
       bindM (liftM (\<lambda>_. pyval_split_comma v)) (\<lambda>names.
       bindM (getsM (\<lambda>w. tbl_filter (\<lambda>g. rg_group_name g \<in> set names) (w_resource_groups w))) (\<lambda>gs.
         forM gs (\<lambda>g. update_user i (\<lambda>u. u\<lparr>u_resource_group := add_new (rg_group_id g) (u_resource_group u)\<rparr>))))))"

section \<open>Password and lock\<close>

type_synonym backend = "string \<Rightarrow> string \<Rightarrow> world \<Rightarrow> user option \<times> world"

definition challenge :: "backend \<Rightarrow> string \<Rightarrow> string \<Rightarrow> (world, user option) M" where
  "challenge b username password = (\<lambda>w. case b username password w of
       (None, w1) \<Rightarrow> (Inr None, w1)
     | (Some u, w1) \<Rightarrow> bindM (save_user (u\<lparr>u_failed_login_count := 0\<rparr>))
         (\<lambda>_. ret (Some (u\<lparr>u_failed_login_count := 0\<rparr>))) w1)"

datatype auth_result = AuthOk user | AuthFail int string

definition wrong_password :: auth_result where
  "wrong_password = AuthFail 1 ''wrong user name or password''"

text \<open>The lock of an existing user: a refusal, or the user as the code goes on with him.\<close>

definition check_lock :: "int \<Rightarrow> int \<Rightarrow> user \<Rightarrow> (world, user option) M" where
  "check_lock lock_count lock_time u = (case u_last_login_failed_at u of
       None \<Rightarrow> ret (Some u)
     | Some t \<Rightarrow>
         (if u_failed_login_count u \<noteq> 0 \<and> lock_count \<le> u_failed_login_count u then
            bindM (getsM w_now) (\<lambda>now.
              if now < t + lock_time then ret None
              else bindM (save_user (u\<lparr>u_failed_login_count := 0\<rparr>))
                     (\<lambda>_. ret (Some (u\<lparr>u_failed_login_count := 0\<rparr>))))
          else ret (Some u)))"

definition authenticate_known :: "backend \<Rightarrow> string \<Rightarrow> string \<Rightarrow> user \<Rightarrow> (world, auth_result) M" where
  "authenticate_known b username password u0 =
     bindM (liftM (\<lambda>w. pyval_int (config_get w ''lock_cnt_threshold'' (PInt 5)))) (\<lambda>lock_count.
     bindM (liftM (\<lambda>w. pyval_int (config_get w ''lock_time_threshold'' (PInt (60 * 5))))) (\<lambda>lock_time.
     bindM (check_lock lock_count lock_time u0) (\<lambda>lck. case lck of
         None \<Rightarrow> ret (AuthFail 3 ''locked'')
       | Some u \<Rightarrow> bindM (challenge b username password) (\<lambda>ch. case ch of
            Some a \<Rightarrow> thenM (if u_last_login a = None then init_user (u_id a) else ret ()) (ret (AuthOk a))
          | None \<Rightarrow> bindM (getsM w_now) (\<lambda>now.
              thenM (save_user (u\<lparr>u_failed_login_count := u_failed_login_count u + 1,
                u_last_login_failed_at := Some now\<rparr>)) (ret wrong_password))))))"

definition DBShieldAuth_authenticate :: "backend \<Rightarrow> string \<Rightarrow> string \<Rightarrow> (world, auth_result) M" where
  "DBShieldAuth_authenticate b username password = (\<lambda>w.
     case tbl_get ''Users'' (\<lambda>u. u_username u = username) (w_users w) of
       Inl e \<Rightarrow>
         (if is_DoesNotExist e then
            bindM (challenge b username password) (\<lambda>ch. case ch of
                Some a \<Rightarrow> thenM (init_user (u_id a)) (ret (AuthOk a))
              | None \<Rightarrow> ret wrong_password) w
          else (Inr (AuthFail 1 ''service error''), w))
     | Inr u \<Rightarrow> authenticate_known b username password u w)"

section \<open>Sessions\<close>

text \<open>The session a cookie names, if it is still alive; the user it is logged in as.\<close>

definition session_of :: "auth_state \<Rightarrow> int option \<Rightarrow> session option" where
  "session_of s k = (case k of None \<Rightarrow> None
     | Some i \<Rightarrow> tbl_first (\<lambda>x. se_key x = i \<and> auth_now s < se_expire x) (as_sessions s))"

definition pending_user :: "auth_state \<Rightarrow> int option \<Rightarrow> string option" where
  "pending_user s k = (case session_of s k of None \<Rightarrow> None | Some x \<Rightarrow> se_user x)"

definition request_user :: "auth_state \<Rightarrow> int option \<Rightarrow> user option" where
  "request_user s k = (case session_of s k of None \<Rightarrow> None | Some x \<Rightarrow>
     (case se_login x of None \<Rightarrow> None
      | Some i \<Rightarrow> tbl_first (\<lambda>u. u_id u = i \<and> u_is_active u) (w_users (as_world s))))"

text \<open>\<open>SESSION_SAVE_EVERY_REQUEST\<close>: a request prolongs its session.\<close>

definition touch_session :: "int option \<Rightarrow> auth_state \<Rightarrow> auth_state" where
  "touch_session k s = (case session_of s k of None \<Rightarrow> s
     | Some x \<Rightarrow> s\<lparr>as_sessions := tbl_update (\<lambda>y. se_key y = se_key x)
         (\<lambda>y. y\<lparr>se_expire := auth_now s + se_ttl y\<rparr>) (as_sessions s)\<rparr>)"

definition new_session :: "datetime \<Rightarrow> session" where
  "new_session now = \<lparr>se_key = 0, se_user = None, se_login = None, se_ttl = session_cookie_age,
     se_expire = now + session_cookie_age\<rparr>"

definition create_session :: "session \<Rightarrow> (auth_state, int) M" where
  "create_session x = (\<lambda>s. (Inr (tbl_next (as_sessions s)),
     s\<lparr>as_sessions := tbl_create set_se_key x (as_sessions s)\<rparr>))"

definition flush_session :: "int option \<Rightarrow> (auth_state, unit) M" where
  "flush_session k = modifyM (\<lambda>s. s\<lparr>as_sessions := tbl_delete (\<lambda>x. Some (se_key x) = k) (as_sessions s)\<rparr>)"

text \<open>
  \<open>django.contrib.auth.login\<close>: the session of the same user is kept, that of another is dropped, one
  without a user gets a new key and keeps its data; the time of the login is recorded.
\<close>

definition django_login :: "int option \<Rightarrow> user \<Rightarrow> (auth_state, int) M" where
  "django_login k u = (\<lambda>s. bindM (case session_of s k of
       None \<Rightarrow> create_session ((new_session (auth_now s))\<lparr>se_login := Some (u_id u)\<rparr>)
     | Some x \<Rightarrow>
         (if se_login x = Some (u_id u) then ret (se_key x)
          else if se_login x = None
          then thenM (flush_session k) (create_session (x\<lparr>se_login := Some (u_id u)\<rparr>))
          else thenM (flush_session k)
                 (create_session ((new_session (auth_now s))\<lparr>se_login := Some (u_id u)\<rparr>))))
     (\<lambda>key. thenM (on_world (bindM (getsM w_now) (\<lambda>now. update_user (u_id u) (\<lambda>x. x\<lparr>u_last_login := Some now\<rparr>))))
        (ret key)) s)"

definition set_expiry :: "int \<Rightarrow> int \<Rightarrow> (auth_state, unit) M" where
  "set_expiry key ttl = modifyM (\<lambda>s. s\<lparr>as_sessions := tbl_update (\<lambda>x. se_key x = key)
     (\<lambda>x. x\<lparr>se_ttl := ttl, se_expire := auth_now s + ttl\<rparr>) (as_sessions s)\<rparr>)"

text \<open>\<open>get_ding_user_id\<close>, whose own errors are only logged; \<open>ids\<close> is the Redis lookup.\<close>

definition get_ding_user_id :: "(string \<Rightarrow> string option) \<Rightarrow> string \<Rightarrow> (world, unit) M" where
  "get_ding_user_id ids username = (case ids (lower username) of
       None \<Rightarrow> ret ()
     | Some d \<Rightarrow> (if d = [] then ret () else (\<lambda>w. case tbl_get ''Users'' (\<lambda>u. u_username u = username) (w_users w) of
           Inl e \<Rightarrow> (Inr (), w)
         | Inr u \<Rightarrow> (if u_ding_user_id u \<noteq> d then update_user (u_id u) (\<lambda>x. x\<lparr>u_ding_user_id := d\<rparr>) w
                   else (Inr (), w)))))"

definition sync_ding :: "(string \<Rightarrow> string option) \<Rightarrow> string \<Rightarrow> (world, unit) M" where
  "sync_ding ids username = bindM (getsM (\<lambda>w. config_get w ''ding_to_person'' PNone)) (\<lambda>v.
     if v = PBool True \<and> username \<noteq> [] \<and> \<not> str_in ''admin'' username then get_ding_user_id ids username else ret ())"

section \<open>Password login and logout\<close>

text \<open>The answers of the views: status, message, and the session key or nothing.\<close>

type_synonym answer = "int \<times> string \<times> int option"

definition twofa_of :: "auth_state \<Rightarrow> int \<Rightarrow> twofa_config list" where
  "twofa_of s i = tbl_filter (\<lambda>c. tf_user c = i) (as_twofa s)"

text \<open>
  \<open>AuthenticateView.post\<close>. The last component is the session key the browser goes on with after a
  direct login; the key of the short-lived session for the second factor is the data of the answer.
\<close>

definition AuthenticateView_post ::
  "backend \<Rightarrow> (string \<Rightarrow> string option) \<Rightarrow> int option \<Rightarrow> string \<Rightarrow> string
   \<Rightarrow> (auth_state, answer \<times> int option) M" where
  "AuthenticateView_post b ids k username password =
     bindM (on_world (DBShieldAuth_authenticate b username password)) (\<lambda>r. case r of
         AuthFail st msg \<Rightarrow> ret ((st, msg, None), k)
       | AuthOk u \<Rightarrow>
           bindM (getsM (\<lambda>s. twofa_of s (u_id u))) (\<lambda>configs.
           bindM (getsM (\<lambda>s. config_get (as_world s) ''enforce_2fa'' PNone)) (\<lambda>enforce.
             if truthy enforce \<and> configs = [] then ret ((1, ''set up a second factor first'', None), k)
             else if configs \<noteq> [] then
               bindM (getsM auth_now) (\<lambda>now.
               bindM (create_session ((new_session now)\<lparr>se_user := Some (u_username u), se_ttl := 300,
                   se_expire := now + 300\<rparr>)) (\<lambda>key.
                 ret ((0, ''ok'', Some key), k)))
             else
               bindM (django_login k u) (\<lambda>key.
                 thenM (on_world (sync_ding ids username)) (ret ((0, ''ok'', None), Some key))))))"

text \<open>\<open>LogoutView.post\<close>: the session is dropped; with DingTalk the browser is sent to its logout page.\<close>

definition LogoutView_post :: "bool \<Rightarrow> int option \<Rightarrow> (auth_state, string + answer) M" where
  "LogoutView_post enable_dingding k = bindM (getsM (\<lambda>s. request_user s k)) (\<lambda>u.
     thenM (flush_session k) (ret
       (if enable_dingding \<and> (case u of None \<Rightarrow> False | Some x \<Rightarrow> u_ding_user_id x \<noteq> [])
        then Inl ''https://login.dingtalk.com/oauth2/logout'' else Inr (0, ''ok'', None))))"

section \<open>Second factors\<close>

definition twofa_get :: "(twofa_config \<Rightarrow> bool) \<Rightarrow> auth_state \<Rightarrow> twofa_config res" where
  "twofa_get P s = tbl_get ''TwoFactorAuthConfig'' P (as_twofa s)"

text \<open>\<open>TwoFactorAuthBase.disable\<close>.\<close>

definition twofa_disable :: "int \<Rightarrow> string \<Rightarrow> (auth_state, answer) M" where
  "twofa_disable i auth_type = (\<lambda>s. case twofa_get (\<lambda>c. tf_user c = i \<and> tf_auth_type c = auth_type) s of
       Inr c \<Rightarrow> (Inr (0, ''ok'', None), s\<lparr>as_twofa := tbl_delete (\<lambda>x. tf_id x = tf_id c) (as_twofa s)\<rparr>)
     | Inl e \<Rightarrow> (if is_DoesNotExist e then (Inr (0, exn_str e, None), s) else (Inl e, s)))"

text \<open>\<open>TOTP.save\<close> and \<open>SMS.save\<close>: the old configuration is replaced.\<close>

definition twofa_save :: "user \<Rightarrow> string \<Rightarrow> string option \<Rightarrow> string option \<Rightarrow> (auth_state, answer) M" where
  "twofa_save u auth_type phone secret_key =
     catchM (atomicM (thenM (twofa_disable (u_id u) auth_type)
       (thenM (modifyM (\<lambda>s. s\<lparr>as_twofa := tbl_create set_tf_id \<lparr>tf_id = 0, tf_username = u_username u,
           tf_auth_type = auth_type, tf_phone = phone, tf_secret_key = secret_key, tf_user = u_id u\<rparr> (as_twofa s)\<rparr>))
          (ret (0, ''ok'', None)))))
       (\<lambda>e. Some (ret (1, exn_str e, None)))"

definition live_captcha :: "auth_state \<Rightarrow> string \<Rightarrow> captcha option" where
  "live_captcha s phone = (case map_of (as_captchas s) phone of
       None \<Rightarrow> None
     | Some c \<Rightarrow> if auth_now s < cp_expire c then Some c else None)"

text \<open>\<open>SMS.get_captcha\<close>: at most one message a minute; \<open>send\<close> is the provider's client, if one is configured.\<close>

definition SMS_get_captcha ::
  "(string \<Rightarrow> string \<Rightarrow> int \<times> string) option \<Rightarrow> auth_state \<Rightarrow> string \<Rightarrow> string \<Rightarrow> int \<times> string" where
  "SMS_get_captcha send s phone otp =
     (let sent = (case send of None \<Rightarrow> (1, ''no provider of text messages'') | Some f \<Rightarrow> f phone otp) in
      case live_captcha s phone of
        None \<Rightarrow> sent
      | Some c \<Rightarrow> (if 60 < auth_now s - cp_update_time c then sent else (1, ''too often'')))"

text \<open>The code of a request is a text or a number.\<close>

definition SMS_verify :: "pyval \<Rightarrow> string \<Rightarrow> auth_state \<Rightarrow> int \<times> string" where
  "SMS_verify otp phone s = (case live_captcha s phone of
       None \<Rightarrow> (1, ''no code, or it has expired'')
     | Some c \<Rightarrow> (if otp = PStr (cp_otp c) then (0, ''ok'') else (1, ''wrong code'')))"

definition TOTP_verify ::
  "(string \<Rightarrow> pyval \<Rightarrow> datetime \<Rightarrow> bool) \<Rightarrow> user \<Rightarrow> pyval \<Rightarrow> string \<Rightarrow> auth_state \<Rightarrow> (int \<times> string) res" where
  "TOTP_verify totp u otp key s =
     bindE (if key \<noteq> [] then Inr (Some key)
            else bindE (twofa_get (\<lambda>c. tf_username c = u_username u \<and> tf_auth_type c = ''totp'') s)
                   (\<lambda>c. Inr (tf_secret_key c))) (\<lambda>secret.
       case secret of
         None \<Rightarrow> Inl (TypeError ''the secret is None'')
       | Some sec \<Rightarrow> Inr (if totp sec otp (auth_now s) then (0, ''ok'') else (1, ''wrong code'')))"

text \<open>Who may act on the second factor of \<open>engineer\<close>: the user himself or a superuser, or the user of a pending login.\<close>

definition twofa_refusal :: "auth_state \<Rightarrow> int option \<Rightarrow> string \<Rightarrow> string option" where
  "twofa_refusal s k engineer = (case request_user s k of
       Some u \<Rightarrow> (if engineer \<noteq> u_username u \<and> \<not> u_is_superuser u then Some ''not your second factor'' else None)
     | None \<Rightarrow> (case pending_user s k of
          Some n \<Rightarrow> (if n = [] then Some ''enter the password first''
                    else if n \<noteq> engineer then Some ''another user logged in'' else None)
        | None \<Rightarrow> Some ''enter the password first''))"

definition users_named :: "string \<Rightarrow> auth_state \<Rightarrow> user res" where
  "users_named n s = tbl_get ''Users'' (\<lambda>u. u_username u = n) (w_users (as_world s))"

record twofa_request =
  fq_engineer :: string
  fq_enable :: bool
  fq_auth_type :: string
  fq_phone :: string
  fq_key :: string
  fq_otp :: pyval

text \<open>
  \<open>TwoFA.post\<close>: the serializer knows the two kinds of factors, an existing user and, to enable
  messages, a phone number. \<open>fresh_key\<close> and \<open>fresh_otp\<close> are the random secret and code.
\<close>

definition TwoFA_post ::
  "(string \<Rightarrow> string \<Rightarrow> int \<times> string) option \<Rightarrow> string \<Rightarrow> string \<Rightarrow> int option \<Rightarrow> twofa_request
   \<Rightarrow> (auth_state, answer \<times> string) M" where
  "TwoFA_post send fresh_key fresh_otp k q =
     thenM (raise_if (fq_auth_type q \<notin> set [''totp'', ''sms''] \<or> fq_engineer q = []
         \<or> fq_auth_type q = ''sms'' \<and> fq_enable q \<and> fq_phone q = []) (ValidationError ''bad request''))
     (bindM (liftM (users_named (fq_engineer q))) (\<lambda>u.
      bindM (getsM (\<lambda>s. twofa_refusal s k (fq_engineer q))) (\<lambda>refused. case refused of
         Some msg \<Rightarrow> ret ((1, msg, None), [])
       | None \<Rightarrow>
           (if \<not> fq_enable q then bindM (twofa_disable (u_id u) (fq_auth_type q)) (\<lambda>a. ret (a, []))
            else if fq_auth_type q = ''totp'' then ret ((0, ''ok'', None), fresh_key)
            else bindM (getsM (\<lambda>s. SMS_get_captcha send s (fq_phone q) fresh_otp)) (\<lambda>(st, msg).
              thenM (if st = 0 then modifyM (\<lambda>s. s\<lparr>as_captchas := (fq_phone q,
                    \<lparr>cp_otp = fresh_otp, cp_update_time = auth_now s, cp_expire = auth_now s + 300\<rparr>) # as_captchas s\<rparr>)
                 else ret ()) (ret ((st, msg, None), [])))))))"

text \<open>\<open>TwoFAVerify.post\<close>: a code that is right logs the user in.\<close>

definition TwoFAVerify_post ::
  "(string \<Rightarrow> pyval \<Rightarrow> datetime \<Rightarrow> bool) \<Rightarrow> (string \<Rightarrow> string option) \<Rightarrow> int option \<Rightarrow> twofa_request
   \<Rightarrow> (auth_state, answer \<times> int option) M" where
  "TwoFAVerify_post totp ids k q =
     thenM (raise_if (fq_engineer q = [] \<or> fq_auth_type q = [] \<or> fq_auth_type q = ''sms'' \<and> fq_phone q = [])
         (ValidationError ''bad request''))
     (bindM (liftM (users_named (fq_engineer q))) (\<lambda>u.
      bindM (getsM (\<lambda>s. twofa_refusal s k (fq_engineer q))) (\<lambda>refused. case refused of
         Some msg \<Rightarrow> ret ((1, msg, None), k)
       | None \<Rightarrow>
           bindM (getsM (\<lambda>s. request_user s k = None)) (\<lambda>anonymous.
           bindM (getsM (\<lambda>s. twofa_of s (u_id u))) (\<lambda>configs.
             if anonymous \<and> configs = [] \<and> fq_key q = [] then ret ((1, ''no second factor'', None), k)
             else bindM (liftM (\<lambda>s.
                    if fq_auth_type q = ''sms'' then Inr (SMS_verify (fq_otp q) (fq_phone q) s)
                    else if fq_auth_type q = ''totp'' then TOTP_verify totp u (fq_otp q) (fq_key q) s
                    else Inl (AttributeError ''None has no attribute verify''))) (\<lambda>(st, msg).
               if st = 0 \<and> anonymous then
                 bindM (django_login k u) (\<lambda>key.
                 thenM (set_expiry key session_cookie_age)
                 (thenM (on_world (sync_ding ids (fq_engineer q)))
                   (ret ((st, msg, None), Some key))))
               else ret ((st, msg, None), k)))))))"

text \<open>\<open>TwoFASave.post\<close> and the two views that only read; \<open>IsOwner\<close> guards the first two.\<close>

definition is_owner :: "auth_state \<Rightarrow> int option \<Rightarrow> string \<Rightarrow> bool" where
  "is_owner s k engineer = (engineer = (case request_user s k of Some u \<Rightarrow> u_username u | None \<Rightarrow> []))"

definition TwoFASave_post :: "int option \<Rightarrow> twofa_request \<Rightarrow> (auth_state, answer) M" where
  "TwoFASave_post k q =
     bindM (getsM (\<lambda>s. is_owner s k (fq_engineer q))) (\<lambda>own.
       if \<not> own then throw PermissionDenied
       else thenM (raise_if (fq_engineer q = [] \<or> fq_auth_type q \<notin> set [''disabled'', ''totp'', ''sms'']
           \<or> fq_auth_type q = ''sms'' \<and> fq_phone q = [] \<or> fq_auth_type q = ''totp'' \<and> fq_key q = [])
           (ValidationError ''bad request''))
       (bindM (liftM (users_named (fq_engineer q))) (\<lambda>u.
          if fq_auth_type q = ''sms'' then twofa_save u ''sms'' (Some (fq_phone q)) None
          else if fq_auth_type q = ''totp'' then twofa_save u ''totp'' (Some []) (Some (fq_key q))
          else throw (AttributeError ''None has no attribute save''))))"

definition TwoFAState_post :: "auth_state \<Rightarrow> int option \<Rightarrow> string \<Rightarrow> (string \<times> string) res" where
  "TwoFAState_post s k engineer =
     (if \<not> is_owner s k engineer then Inl PermissionDenied
      else bindE (users_named engineer s) (\<lambda>u.
        let enabled = (\<lambda>t. if list_ex (\<lambda>c. tf_auth_type c = t) (twofa_of s (u_id u)) then ''enabled'' else ''disabled'')
        in Inr (enabled ''totp'', enabled ''sms'')))"

definition TwoFAVerifyContext_post :: "auth_state \<Rightarrow> int option \<Rightarrow> (string list \<times> string) option" where
  "TwoFAVerifyContext_post s k = (case pending_user s k of
       None \<Rightarrow> None
     | Some n \<Rightarrow>
         (if n = [] then None
          else let configs = tbl_filter (\<lambda>c. tf_username c = n) (as_twofa s) in
            Some (map tf_auth_type configs,
              case find (\<lambda>c. tf_auth_type c = ''sms'') configs of
                None \<Rightarrow> [] | Some c \<Rightarrow> (case tf_phone c of None \<Rightarrow> [] | Some p \<Rightarrow> p))))"

end
