(* ===== verification/LoginProps.thy ===== *)
theory LoginProps
  imports Login Triples
begin

text \<open>
  What logging in guarantees: a user who failed too often is locked, whatever password comes next; a
  session belongs to a user only after a password of his was accepted; and what it does not: the
  second factor is checked against a secret the request itself may bring.
\<close>

section \<open>The lock\<close>


text \<open>The settings of the lock.\<close>

definition lock_settings :: "world \<Rightarrow> int \<Rightarrow> int \<Rightarrow> bool" where
  "lock_settings w c t \<longleftrightarrow> pyval_int (config_get w ''lock_cnt_threshold'' (PInt 5)) = Inr c
     \<and> pyval_int (config_get w ''lock_time_threshold'' (PInt (60 * 5))) = Inr t"








text \<open>One user, five wrong passwords.\<close>

definition ann :: user where
  "ann = new_Users\<lparr>u_id := 1, u_username := ''ann'', u_last_login := Some 0\<rparr>"

definition one_user :: world where
  "one_user = empty_world\<lparr>w_users := \<lparr>tbl_rows = [ann], tbl_next = 2\<rparr>\<rparr>"

lemma ann_fields [simp]: "u_id ann = 1" "u_username ann = ''ann''" "u_failed_login_count ann = 0"
  "u_last_login_failed_at ann = None" "u_last_login ann = Some 0"
  by (simp_all add: ann_def new_Users_def)

lemma get_ann: "tbl_get ''Users'' (\<lambda>x. u_username x = ''ann'') (w_users one_user) = Inr ann"
  by (simp add: tbl_get_def one_user_def)

lemma one_user_lock: "lock_settings one_user 5 300"
  by code_simp

definition password_is :: "string \<Rightarrow> backend" where
  "password_is pw n p w = ((if p = pw then tbl_first (\<lambda>u. u_username u = n) (w_users w) else None), w)"


section \<open>The second factor\<close>

lemma find_append: "find P (xs @ ys) = (case find P xs of None \<Rightarrow> find P ys | Some x \<Rightarrow> Some x)"
  by (induction xs) auto

lemma session_of_created:
  assumes "wf_table se_key (as_sessions s)" and "auth_now s < se_expire x"
  shows "session_of (s\<lparr>as_sessions := tbl_create set_se_key x (as_sessions s)\<rparr>) (Some (tbl_next (as_sessions s)))
    = Some (x\<lparr>se_key := tbl_next (as_sessions s)\<rparr>)"
proof -
  have "find (\<lambda>y. se_key y = tbl_next (as_sessions s) \<and> auth_now s < se_expire y) (tbl_rows (as_sessions s)) = None"
    using assms(1) by (auto simp: find_None_iff wf_table_def list_all_iff)
  with assms(2) show ?thesis
    by (simp add: session_of_def tbl_first_def tbl_create_def find_append auth_now_def)
qed

lemma on_world_run: "on_world m s = (fst (m (as_world s)), s\<lparr>as_world := snd (m (as_world s))\<rparr>)"
  by (simp add: on_world_def split: prod.splits)

lemma sync_ding_ok: "fst (sync_ding ids n w) = Inr ()"
  by (auto simp: sync_ding_def bindM_run get_ding_user_id_def update_user_def split: option.splits sum.splits)

text \<open>C18. The second factor is no factor: once the password of a user with a configured second factor is
  accepted, a verification that brings a secret of its own, and a code for that secret, is logged in as the
  user, whatever secret he has configured.\<close>

theorem second_factor_bypassed:
  assumes pw: "DBShieldAuth_authenticate b n p (as_world s) = (Inr (AuthOk u), w)"
    and "twofa_of s (u_id u) \<noteq> []" and "wf_table se_key (as_sessions s)"
    and "tbl_get ''Users'' (\<lambda>x. u_username x = u_username u) (w_users w) = Inr u'"
    and "fq_engineer q = u_username u" "u_username u \<noteq> []" "fq_auth_type q = ''totp''"
    and "fq_key q \<noteq> []" and "totp (fq_key q) (fq_otp q) (w_now w)"
  shows "\<exists>j s1. AuthenticateView_post b ids k n p s = (Inr ((0, ''ok'', Some j), k), s1)
    \<and> (\<exists>i s2 x. TwoFAVerify_post totp ids (Some j) q s1 = (Inr ((0, ''ok'', None), Some i), s2)
         \<and> x \<in> set (tbl_rows (as_sessions s2)) \<and> se_key x = i \<and> se_login x = Some (u_id u'))"
proof -
  let ?x = "(new_session (w_now w))\<lparr>se_user := Some (u_username u), se_ttl := 300, se_expire := w_now w + 300\<rparr>"
  let ?j = "tbl_next (as_sessions s)"
  define s1 where "s1 = s\<lparr>as_world := w, as_sessions := tbl_create set_se_key ?x (as_sessions s)\<rparr>"
  have w1: "as_world s1 = w" by (simp add: s1_def)
  have a: "AuthenticateView_post b ids k n p s = (Inr ((0, ''ok'', Some ?j), k), s1)"
    using pw assms(2)
    by (simp add: AuthenticateView_post_def bindM_run on_world_def create_session_def twofa_of_def auth_now_def s1_def)
  obtain x where so: "session_of s1 (Some ?j) = Some x" "se_user x = Some (u_username u)" "se_login x = None"
    using session_of_created [of "s\<lparr>as_world := w\<rparr>" ?x] assms(3) by (simp add: auth_now_def s1_def new_session_def)
  have no: "request_user s1 (Some ?j) = None" by (simp add: request_user_def so)
  have ok: "twofa_refusal s1 (Some ?j) (fq_engineer q) = None"
    by (simp add: twofa_refusal_def no pending_user_def so assms(5,6))
  have ver: "TOTP_verify totp u' (fq_otp q) (fq_key q) s1 = Inr (0, ''ok'')"
    using assms(8,9) by (simp add: TOTP_verify_def auth_now_def w1)
  have nm: "users_named (fq_engineer q) s1 = Inr u'" using assms(4,5) by (simp add: users_named_def w1)
  have "\<exists>i s2. django_login (Some ?j) u' s1 = (Inr i, s2)
      \<and> (\<exists>y \<in> set (tbl_rows (as_sessions s2)). se_key y = i \<and> se_login y = Some (u_id u'))"
    by (simp add: django_login_def so thenM_run bindM_run flush_session_def create_session_def
        on_world_def update_user_def tbl_create_def)
  then obtain i s2 y where login: "django_login (Some ?j) u' s1 = (Inr i, s2)"
    and row: "y \<in> set (tbl_rows (as_sessions s2))" "se_key y = i" "se_login y = Some (u_id u')"
    by blast
  define s3 where "s3 = snd (set_expiry i session_cookie_age s2)"
  have e: "set_expiry i session_cookie_age s2 = (Inr (), s3)" by (simp add: s3_def set_expiry_def)
  have row3: "\<exists>z \<in> set (tbl_rows (as_sessions s3)). se_key z = i \<and> se_login z = Some (u_id u')"
    using row by (intro bexI [of _ "y\<lparr>se_ttl := session_cookie_age, se_expire := auth_now s2 + session_cookie_age\<rparr>"])
      (auto simp: s3_def set_expiry_def tbl_update_def intro!: image_eqI [of _ _ y])
  obtain s4 where d: "on_world (sync_ding ids (fq_engineer q)) s3 = (Inr (), s4)" "as_sessions s4 = as_sessions s3"
    using sync_ding_ok [of ids "fq_engineer q" "as_world s3"] by (simp add: on_world_run)
  have "TwoFAVerify_post totp ids (Some ?j) q s1 = (Inr ((0, ''ok'', None), Some i), s4)"
    unfolding TwoFAVerify_post_def using assms(5-8) login d(1) e
    by (simp add: thenM_run bindM_run ok [unfolded assms(5)] no nm [unfolded assms(5)] ver)
  with a row3 d(2) show ?thesis by metis
qed

definition ann_secret :: twofa_config where
  "ann_secret = \<lparr>tf_id = 1, tf_username = ''ann'', tf_auth_type = ''totp'', tf_phone = None,
     tf_secret_key = Some ''SECRET'', tf_user = 1\<rparr>"

definition ann_state :: auth_state where
  "ann_state = \<lparr>as_world = one_user, as_twofa = \<lparr>tbl_rows = [ann_secret], tbl_next = 2\<rparr>,
     as_sessions = empty_table, as_captchas = []\<rparr>"

definition ann_request :: twofa_request where
  "ann_request = \<lparr>fq_engineer = ''ann'', fq_enable = True, fq_auth_type = ''totp'', fq_phone = [],
     fq_key = ''MINE'', fq_otp = PInt 0\<rparr>"

lemma second_factor_bypassed_witness:
  "tf_secret_key ann_secret = Some ''SECRET'' \<and> fq_key ann_request = ''MINE'' \<and>
   (\<exists>j s1. AuthenticateView_post (password_is ''pw'') (\<lambda>_. None) None ''ann'' ''pw'' ann_state = (Inr ((0, ''ok'', Some j), None), s1)
     \<and> (\<exists>i s2 x. TwoFAVerify_post (\<lambda>sec otp t. sec = ''MINE'') (\<lambda>_. None) (Some j) ann_request s1 = (Inr ((0, ''ok'', None), Some i), s2)
         \<and> x \<in> set (tbl_rows (as_sessions s2)) \<and> se_key x = i \<and> se_login x = Some 1))"
proof -
  have same: "w_users one_user = \<lparr>tbl_rows = [ann], tbl_next = 2\<rparr>" "one_user\<lparr>w_users := w_users one_user\<rparr> = one_user"
    by (simp_all add: one_user_def)
  have pw: "DBShieldAuth_authenticate (password_is ''pw'') ''ann'' ''pw'' (as_world ann_state) = (Inr (AuthOk ann), one_user)"
    using one_user_lock get_ann same
    by (simp add: DBShieldAuth_authenticate_def ann_state_def authenticate_known_def lock_settings_def bindM_run
        thenM_run check_lock_def challenge_def password_is_def tbl_first_def save_user_def Users_saved_def
        tbl_save_def del: ann_fields(3)) (simp add: ann_def new_Users_def)?
  have "\<exists>j s1. AuthenticateView_post (password_is ''pw'') (\<lambda>_. None) None ''ann'' ''pw'' ann_state = (Inr ((0, ''ok'', Some j), None), s1)
     \<and> (\<exists>i s2 x. TwoFAVerify_post (\<lambda>sec otp t. sec = ''MINE'') (\<lambda>_. None) (Some j) ann_request s1 = (Inr ((0, ''ok'', None), Some i), s2)
         \<and> x \<in> set (tbl_rows (as_sessions s2)) \<and> se_key x = i \<and> se_login x = Some (u_id ann))"
    by (rule second_factor_bypassed [OF pw])
      (simp_all add: ann_state_def get_ann twofa_of_def tbl_filter_def ann_secret_def ann_request_def
        wf_table_def empty_table_def)
  then show ?thesis by (simp add: ann_secret_def ann_request_def)
qed

section \<open>Sessions and passwords\<close>

text \<open>The ids and names of the users; what of them is known and stays.\<close>

abbreviation idname :: "user \<Rightarrow> int \<times> string" where
  "idname u \<equiv> (u_id u, u_username u)"

definition idnames :: "world \<Rightarrow> (int \<times> string) set" where
  "idnames w = idname ` set (tbl_rows (w_users w))"

definition known :: "(int \<times> string) set \<Rightarrow> world \<Rightarrow> bool" where
  "known N w \<longleftrightarrow> wf_table u_id (w_users w) \<and> N \<subseteq> idnames w"

text \<open>What the code relies on in a backend: it renames and deletes nobody, and answers with a user of the table.\<close>

definition good_backend :: "backend \<Rightarrow> bool" where
  "good_backend b \<longleftrightarrow> (\<forall>n p w N. known N w \<longrightarrow> known N (snd (b n p w))
     \<and> (\<forall>u. fst (b n p w) = Some u \<longrightarrow> known {idname u} (snd (b n p w))))"

lemma known_insert: "known (insert x N) w \<longleftrightarrow> known {x} w \<and> known N w"
  by (auto simp: known_def)

lemma known_mono: "known N w \<Longrightarrow> M \<subseteq> N \<Longrightarrow> known M w"
  by (auto simp: known_def)

lemma idname_unique:
  assumes "known {(i, n)} w" and "u \<in> set (tbl_rows (w_users w))" and "u_id u = i"
  shows "u_username u = n"
proof -
  obtain v where v: "v \<in> set (tbl_rows (w_users w))" "u_id v = i" "u_username v = n"
    using assms(1) by (auto simp: known_def idnames_def)
  have "distinct (map u_id (tbl_rows (w_users w)))" using assms(1) by (simp add: known_def wf_table_def)
  with assms(2,3) v have "u = v" by (auto simp: distinct_map inj_on_def)
  with v show ?thesis by simp
qed

lemma idname_saved [simp]: "u_id (Users_saved u) = u_id u" "u_username (Users_saved u) = u_username u"
  by (simp_all add: Users_saved_def)

lemma keeps_save_user:
  assumes "idname u \<in> N"
  shows "keeps (known N) (save_user u)"
proof -
  have "known N (w\<lparr>w_users := tbl_save u_id (Users_saved u) (w_users w)\<rparr>)" if k: "known N w" for w
  proof -
    have u: "known {idname u} w" by (rule known_mono [OF k]) (use assms in simp)
    have "x \<in> idnames (w\<lparr>w_users := tbl_save u_id (Users_saved u) (w_users w)\<rparr>)" if "x \<in> idnames w" for x
    proof -
      from that obtain v where v: "v \<in> set (tbl_rows (w_users w))" "x = idname v" by (auto simp: idnames_def)
      show ?thesis
      proof (cases "u_id v = u_id u")
        case True
        with idname_unique [OF u v(1)] v(2) show ?thesis by (auto simp: idnames_def set_rows_tbl_save)
      next
        case False
        with v show ?thesis by (auto simp: idnames_def set_rows_tbl_save)
      qed
    qed
    with k show ?thesis by (auto simp: known_def us.wf_save)
  qed
  then show ?thesis unfolding save_user_def by (intro keeps_modifyM)
qed

lemma w_users_update: "w_users (w\<lparr>w_users := t\<rparr>) = t"
  by simp

lemma keeps_update_user:
  assumes "\<And>u. u_id (f u) = u_id u" "\<And>u. u_username (f u) = u_username u"
  shows "keeps (known N) (update_user i f)"
proof -
  have "idnames (w\<lparr>w_users := tbl_update P f (w_users w)\<rparr>) = idnames w" for w P
  proof -
    have "map idname (map (\<lambda>x. if P x then f x else x) xs) = map idname xs" for xs
      by (simp add: assms)
    then have "set (map idname (map (\<lambda>x. if P x then f x else x) xs)) = set (map idname xs)" for xs
      by simp
    then show ?thesis by (simp only: idnames_def w_users_update rows_tbl_update set_map [symmetric])
  qed
  then show ?thesis unfolding update_user_def
    by (intro keeps_modifyM) (simp add: known_def us.wf_update [OF _ assms(1)])
qed

lemma keeps_init_user: "keeps (known N) (init_user i)"
  unfolding init_user_def by (intro keeps_intros keeps_update_user) simp_all

lemma keeps_sync_ding: "keeps (known N) (sync_ding ids n)"
proof -
  have "keeps (known N) (\<lambda>w. case tbl_get ''Users'' (\<lambda>u. u_username u = n) (w_users w) of
           Inl e \<Rightarrow> (Inr (), w)
         | Inr u \<Rightarrow> (if u_ding_user_id u \<noteq> d then update_user (u_id u) (\<lambda>x. x\<lparr>u_ding_user_id := d\<rparr>) w
                   else (Inr (), w)))" for d
    using keepsD [OF keeps_update_user [of "\<lambda>x. x\<lparr>u_ding_user_id := d\<rparr>" N]]
    by (auto simp: keeps_def split: sum.splits)
  then show ?thesis
    unfolding sync_ding_def get_ding_user_id_def by (intro keeps_intros)
qed

text \<open>The three steps of a password login, and the whole.\<close>

lemma triple_challenge:
  assumes "good_backend b"
  shows "triple (known N) (challenge b n p) (\<lambda>r w. known N w \<and> (\<forall>a. r = Some a \<longrightarrow> known {idname a} w)) (known N)"
proof (rule tripleI)
  fix w e t assume "challenge b n p w = (Inl e, t)"
  then show "known N t" by (auto simp: challenge_def bindM_run save_user_def split: prod.splits option.splits)
next
  fix w r t assume k: "known N w" and run: "challenge b n p w = (Inr r, t)"
  obtain a w1 where b: "b n p w = (a, w1)" by (cases "b n p w") auto
  have w1: "known N w1" "\<And>u. a = Some u \<Longrightarrow> known {idname u} w1"
    using assms k b by (auto simp: good_backend_def) (metis fst_conv snd_conv)+
  show "known N t \<and> (\<forall>a. r = Some a \<longrightarrow> known {idname a} t)"
  proof (cases a)
    case None
    with run b w1 show ?thesis by (simp add: challenge_def)
  next
    case (Some u)
    let ?u = "u\<lparr>u_failed_login_count := 0\<rparr>"
    have "known (insert (idname ?u) N) w1" using w1 Some by (simp add: known_insert [of _ N])
    from keepsD [OF keeps_save_user [of ?u "insert (idname ?u) N"] this]
    have "known (insert (idname ?u) N) (snd (save_user ?u w1))" by simp
    then show ?thesis
      using run b Some by (auto simp: challenge_def bindM_run save_user_def known_insert [of _ N])
  qed
qed

lemma triple_check_lock:
  assumes "idname u0 \<in> N"
  shows "triple (known N) (check_lock c t u0) (\<lambda>r w. known N w \<and> (\<forall>u. r = Some u \<longrightarrow> idname u = idname u0)) (known N)"
proof (rule tripleI)
  fix w e s assume "known N w" "check_lock c t u0 w = (Inl e, s)"
  then show "known N s"
    by (auto simp: check_lock_def bindM_run save_user_def split: option.splits if_splits)
next
  fix w r s assume k: "known N w" and run: "check_lock c t u0 w = (Inr r, s)"
  have "known N (snd (save_user (u0\<lparr>u_failed_login_count := 0\<rparr>) w))"
    by (rule keepsD [OF keeps_save_user k]) (use assms in simp)
  then show "known N s \<and> (\<forall>u. r = Some u \<longrightarrow> idname u = idname u0)"
    using run k by (auto simp: check_lock_def bindM_run save_user_def split: option.splits if_splits)
qed

definition accepted :: "(int \<times> string) set \<Rightarrow> auth_result \<Rightarrow> world \<Rightarrow> bool" where
  "accepted N r w \<longleftrightarrow> known N w \<and> (\<forall>a. r = AuthOk a \<longrightarrow> known {idname a} w)"

lemma triple_authenticate_known:
  assumes "good_backend b" and u: "idname u0 \<in> N"
  shows "triple (known N) (authenticate_known b n p u0) (accepted N) (known N)"
  unfolding authenticate_known_def
proof (intro triple_read)
  fix c t
  show "triple (\<lambda>s. (known N s \<and> pyval_int (config_get s ''lock_cnt_threshold'' (PInt 5)) = Inr c)
      \<and> pyval_int (config_get s ''lock_time_threshold'' (PInt (60 * 5))) = Inr t)
    (bindM (check_lock c t u0) (\<lambda>lck. case lck of
         None \<Rightarrow> ret (AuthFail 3 ''locked'')
       | Some u \<Rightarrow> bindM (challenge b n p) (\<lambda>ch. case ch of
            Some a \<Rightarrow> thenM (if u_last_login a = None then init_user (u_id a) else ret ()) (ret (AuthOk a))
          | None \<Rightarrow> bindM (getsM w_now) (\<lambda>now.
              thenM (save_user (u\<lparr>u_failed_login_count := u_failed_login_count u + 1,
                u_last_login_failed_at := Some now\<rparr>)) (ret wrong_password))))) (accepted N) (known N)"
  proof (rule triple_bind)
    show "triple (\<lambda>s. (known N s \<and> pyval_int (config_get s ''lock_cnt_threshold'' (PInt 5)) = Inr c)
        \<and> pyval_int (config_get s ''lock_time_threshold'' (PInt (60 * 5))) = Inr t)
      (check_lock c t u0) (\<lambda>r w. known N w \<and> (\<forall>u. r = Some u \<longrightarrow> idname u = idname u0)) (known N)"
      by (rule triple_pre [OF triple_check_lock [OF u]]) simp
  next
    fix lck
    show "triple (\<lambda>w. known N w \<and> (\<forall>u. lck = Some u \<longrightarrow> idname u = idname u0))
      (case lck of None \<Rightarrow> ret (AuthFail 3 ''locked'')
       | Some u \<Rightarrow> bindM (challenge b n p) (\<lambda>ch. case ch of
            Some a \<Rightarrow> thenM (if u_last_login a = None then init_user (u_id a) else ret ()) (ret (AuthOk a))
          | None \<Rightarrow> bindM (getsM w_now) (\<lambda>now.
              thenM (save_user (u\<lparr>u_failed_login_count := u_failed_login_count u + 1,
                u_last_login_failed_at := Some now\<rparr>)) (ret wrong_password)))) (accepted N) (known N)"
    proof (rule triple_case_option)
      show "triple (\<lambda>w. known N w \<and> (\<forall>u. lck = Some u \<longrightarrow> idname u = idname u0)) (ret (AuthFail 3 ''locked''))
        (accepted N) (known N)"
        by (rule triple_ret) (simp add: accepted_def)
    next
      fix u assume l: "lck = Some u"
      let ?fail = "\<lambda>now. u\<lparr>u_failed_login_count := u_failed_login_count u + 1, u_last_login_failed_at := Some now\<rparr>"
      have fail: "triple (known N) (bindM (getsM w_now) (\<lambda>now. thenM (save_user (?fail now)) (ret wrong_password)))
          (accepted N) (known N)" if "idname u = idname u0"
      proof (rule triple_gets, rule triple_pre)
        fix now
        have "keeps (known N) (save_user (?fail now))" using that u by (intro keeps_save_user) simp
        then show "triple (known N) (thenM (save_user (?fail now)) (ret wrong_password)) (accepted N) (known N)"
          by (rule triple_step_then) (auto intro!: triple_ret simp: accepted_def wrong_password_def)
      qed simp
      have ok: "triple (known (insert (idname a) N))
          (thenM (if u_last_login a = None then init_user (u_id a) else ret ()) (ret (AuthOk a))) (accepted N) (known N)" for a
        by (rule triple_step_then) (auto intro!: triple_ret keeps_intros keeps_init_user simp: accepted_def known_insert [of _ N])
      show "triple (\<lambda>w. known N w \<and> (\<forall>u. lck = Some u \<longrightarrow> idname u = idname u0))
        (bindM (challenge b n p) (\<lambda>ch. case ch of
            Some a \<Rightarrow> thenM (if u_last_login a = None then init_user (u_id a) else ret ()) (ret (AuthOk a))
          | None \<Rightarrow> bindM (getsM w_now) (\<lambda>now. thenM (save_user (?fail now)) (ret wrong_password)))) (accepted N) (known N)"
      proof (rule triple_known)
        fix w assume "known N w \<and> (\<forall>v. lck = Some v \<longrightarrow> idname v = idname u0)"
        with l show "idname u = idname u0" by simp
      next
        assume i: "idname u = idname u0"
        show ?thesis
        proof (rule triple_bind [OF triple_pre [OF triple_challenge [OF assms(1)]]])
          fix ch
          show "triple (\<lambda>w. known N w \<and> (\<forall>a. ch = Some a \<longrightarrow> known {idname a} w))
            (case ch of Some a \<Rightarrow> thenM (if u_last_login a = None then init_user (u_id a) else ret ()) (ret (AuthOk a))
              | None \<Rightarrow> bindM (getsM w_now) (\<lambda>now. thenM (save_user (?fail now)) (ret wrong_password))) (accepted N) (known N)"
          proof (rule triple_case_option)
            fix a assume "ch = Some a"
            then show "triple (\<lambda>w. known N w \<and> (\<forall>a. ch = Some a \<longrightarrow> known {idname a} w))
                (thenM (if u_last_login a = None then init_user (u_id a) else ret ()) (ret (AuthOk a))) (accepted N) (known N)"
              by (intro triple_pre [OF ok]) (simp add: known_insert [of _ N])
          qed (rule triple_pre [OF fail [OF i]], simp)
        qed simp
      qed
    qed
  qed
qed simp_all

lemma authenticate_accepts:
  assumes "good_backend b" and k: "known N w" and run: "DBShieldAuth_authenticate b n p w = (r, w')"
  shows "known N w' \<and> (\<forall>a. r = Inr (AuthOk a) \<longrightarrow> known {idname a} w')"
proof (cases "tbl_get ''Users'' (\<lambda>u. u_username u = n) (w_users w)")
  case (Inr u)
  then have "u \<in> set (tbl_rows (w_users w))" by (intro conjunct2 [OF tbl_get_Inr])
  with k have k': "known (insert (idname u) N) w" by (auto simp: known_def idnames_def)
  note t = tripleD [OF triple_authenticate_known [OF assms(1) insertI1 [of "idname u" N]] k']
  have a: "authenticate_known b n p u w = (r, w')" using run Inr by (simp add: DBShieldAuth_authenticate_def)
  have "(\<exists>e. r = Inl e \<and> known (insert (idname u) N) w') \<or> (\<exists>x. r = Inr x \<and> accepted (insert (idname u) N) x w')"
  proof (cases r)
    case (Inl e)
    with a t(1) show ?thesis by blast
  next
    case (Inr x)
    with a t(2) show ?thesis by blast
  qed
  then show ?thesis by (auto simp: accepted_def known_insert [of _ N])
next
  case (Inl e)
  let ?m = "bindM (challenge b n p) (\<lambda>ch. case ch of
                Some a \<Rightarrow> thenM (init_user (u_id a)) (ret (AuthOk a)) | None \<Rightarrow> ret wrong_password)"
  have "triple (known N) ?m (accepted N) (known N)"
  proof (rule triple_bind [OF triple_challenge [OF assms(1)]])
    fix ch
    show "triple (\<lambda>w. known N w \<and> (\<forall>a. ch = Some a \<longrightarrow> known {idname a} w))
      (case ch of Some a \<Rightarrow> thenM (init_user (u_id a)) (ret (AuthOk a)) | None \<Rightarrow> ret wrong_password) (accepted N) (known N)"
    proof (rule triple_case_option)
      fix a assume "ch = Some a"
      have "triple (known (insert (idname a) N)) (thenM (init_user (u_id a)) (ret (AuthOk a))) (accepted N) (known N)"
        by (rule triple_step_then [OF keeps_init_user]) (auto intro!: triple_ret simp: accepted_def known_insert [of _ N])
      then show "triple (\<lambda>w. known N w \<and> (\<forall>a. ch = Some a \<longrightarrow> known {idname a} w))
          (thenM (init_user (u_id a)) (ret (AuthOk a))) (accepted N) (known N)"
        by (rule triple_pre) (simp add: \<open>ch = Some a\<close> known_insert [of _ N])
    qed (auto intro!: triple_ret simp: accepted_def wrong_password_def)
  qed
  from tripleD [OF this k] have "(\<exists>e. fst (?m w) = Inl e \<and> known N (snd (?m w))) \<or> (\<exists>x. fst (?m w) = Inr x \<and> accepted N x (snd (?m w)))"
    by (cases "?m w"; cases "fst (?m w)") auto
  then show ?thesis
    using run Inl k by (auto simp: DBShieldAuth_authenticate_def accepted_def split: if_splits)
qed

text \<open>Every session of a user goes back to a password accepted for a name in \<open>P\<close>.\<close>

definition session_ok :: "string set \<Rightarrow> world \<Rightarrow> session \<Rightarrow> bool" where
  "session_ok P w x \<longleftrightarrow> (\<forall>n. se_user x = Some n \<longrightarrow> n \<in> P)
     \<and> (\<forall>i. se_login x = Some i \<longrightarrow> (\<exists>n \<in> P. known {(i, n)} w))"

definition sessions_ok :: "string set \<Rightarrow> auth_state \<Rightarrow> bool" where
  "sessions_ok P s \<longleftrightarrow> known {} (as_world s) \<and> (\<forall>x \<in> set (tbl_rows (as_sessions s)). session_ok P (as_world s) x)"

lemma sessions_ok_mono: "sessions_ok P s \<Longrightarrow> P \<subseteq> Q \<Longrightarrow> sessions_ok Q s"
  by (fastforce simp: sessions_ok_def session_ok_def)

lemma sessions_ok_world:
  assumes "sessions_ok P s" and "\<And>N. known N (as_world s) \<Longrightarrow> known N w"
  shows "sessions_ok P (s\<lparr>as_world := w\<rparr>)"
  using assms by (fastforce simp: sessions_ok_def session_ok_def)

lemma keeps_on_world:
  assumes "\<And>N. keeps (known N) m"
  shows "keeps (sessions_ok P) (on_world m)"
  using keepsD [OF assms] by (auto simp: keeps_def on_world_run intro: sessions_ok_world)

lemma sessions_ok_create:
  assumes "sessions_ok P s" and "session_ok P (as_world s) x"
  shows "sessions_ok P (s\<lparr>as_sessions := tbl_create set_se_key x (as_sessions s)\<rparr>)"
  using assms by (auto simp: sessions_ok_def session_ok_def tbl_simps)

lemma keeps_flush: "keeps (sessions_ok P) (flush_session k)"
  unfolding flush_session_def by (rule keeps_modifyM) (auto simp: sessions_ok_def tbl_simps)

lemma sessions_ok_update:
  assumes "sessions_ok P s" and "\<And>x. se_user (f x) = se_user x" "\<And>x. se_login (f x) = se_login x"
  shows "sessions_ok P (s\<lparr>as_sessions := tbl_update Q f (as_sessions s)\<rparr>)"
  using assms by (auto simp: sessions_ok_def session_ok_def tbl_simps)

lemma keeps_set_expiry: "keeps (sessions_ok P) (set_expiry key ttl)"
  unfolding set_expiry_def by (rule keeps_modifyM) (auto intro: sessions_ok_update)

lemma sessions_ok_touch: "sessions_ok P s \<Longrightarrow> sessions_ok P (touch_session k s)"
  by (auto simp: touch_session_def intro: sessions_ok_update split: option.splits)

lemma session_of_in: "session_of s k = Some x \<Longrightarrow> x \<in> set (tbl_rows (as_sessions s))"
  by (auto simp: session_of_def tbl_first_def find_Some_iff split: option.splits)

lemma login_keeps:
  assumes ok: "sessions_ok P s" and "known {idname u} (as_world s)" and "u_username u \<in> P"
  shows "sessions_ok P (snd (django_login k u s))"
proof -
  have stamp: "sessions_ok P (s'\<lparr>as_world := snd (bindM (getsM w_now) (\<lambda>now. update_user (u_id u) (\<lambda>x. x\<lparr>u_last_login := Some now\<rparr>)) (as_world s'))\<rparr>)"
    if "sessions_ok P s'" for s'
  proof -
    have "keeps (sessions_ok P) (on_world (bindM (getsM w_now) (\<lambda>now. update_user (u_id u) (\<lambda>x. x\<lparr>u_last_login := Some now\<rparr>))))"
      by (intro keeps_on_world keeps_intros keeps_update_user) simp_all
    from keepsD [OF this that] show ?thesis by (simp add: on_world_run)
  qed
  have new: "session_ok P (as_world s) ((new_session t)\<lparr>se_login := Some (u_id u)\<rparr>)" for t
    using assms(2,3) by (auto simp: session_ok_def new_session_def)
  have old: "session_ok P (as_world s) (x\<lparr>se_login := Some (u_id u)\<rparr>)" if "session_of s k = Some x" for x
    using session_of_in [OF that] ok assms(2,3) by (auto simp: sessions_ok_def session_ok_def)
  let ?f = "s\<lparr>as_sessions := tbl_delete (\<lambda>x. Some (se_key x) = k) (as_sessions s)\<rparr>"
  have f: "sessions_ok P ?f" using keepsD [OF keeps_flush ok, of k] by (simp add: flush_session_def)
  have "sessions_ok P (s\<lparr>as_sessions := tbl_create set_se_key ((new_session (auth_now s))\<lparr>se_login := Some (u_id u)\<rparr>) (as_sessions s)\<rparr>)"
    "sessions_ok P (?f\<lparr>as_sessions := tbl_create set_se_key ((new_session (auth_now s))\<lparr>se_login := Some (u_id u)\<rparr>) (as_sessions ?f)\<rparr>)"
    "\<And>x. session_of s k = Some x \<Longrightarrow>
       sessions_ok P (?f\<lparr>as_sessions := tbl_create set_se_key (x\<lparr>se_login := Some (u_id u)\<rparr>) (as_sessions ?f)\<rparr>)"
    using sessions_ok_create [OF ok new] sessions_ok_create [OF f] new old by simp_all
  from this [THEN stamp] stamp [OF ok] show ?thesis
    by (auto simp: django_login_def bindM_run thenM_run create_session_def flush_session_def on_world_run
        update_user_def split: option.splits)
qed

lemma authenticate_view_keeps:
  assumes "good_backend b" and ok: "sessions_ok P s"
    and in_P: "\<And>u w. DBShieldAuth_authenticate b n p (as_world s) = (Inr (AuthOk u), w) \<Longrightarrow> u_username u \<in> P"
  shows "sessions_ok P (snd (AuthenticateView_post b ids k n p s))"
proof -
  obtain r w where run: "DBShieldAuth_authenticate b n p (as_world s) = (r, w)"
    by (cases "DBShieldAuth_authenticate b n p (as_world s)") auto
  let ?s = "s\<lparr>as_world := w\<rparr>"
  have s: "sessions_ok P ?s"
    by (rule sessions_ok_world [OF ok]) (use authenticate_accepts [OF assms(1) _ run] in blast)
  have view: "AuthenticateView_post b ids k n p s = (case r of Inl e \<Rightarrow> (Inl e, ?s) | Inr a \<Rightarrow> (case a of
         AuthFail st msg \<Rightarrow> ret ((st, msg, None), k)
       | AuthOk u \<Rightarrow>
           bindM (getsM (\<lambda>s. twofa_of s (u_id u))) (\<lambda>configs.
           bindM (getsM (\<lambda>s. config_get (as_world s) ''enforce_2fa'' PNone)) (\<lambda>enforce.
             if truthy enforce \<and> configs = [] then ret ((1, ''set up a second factor first'', None), k)
             else if configs \<noteq> [] then
               bindM (getsM auth_now) (\<lambda>now.
               bindM (create_session ((new_session now)\<lparr>se_user := Some (u_username u), se_ttl := 300,
                   se_expire := now + 300\<rparr>)) (\<lambda>key.
                 ret ((0, ''ok'', Some key), k)))
             else
               bindM (django_login k u) (\<lambda>key.
                 thenM (on_world (sync_ding ids n)) (ret ((0, ''ok'', None), Some key)))))) ?s)"
    by (cases r) (simp_all add: AuthenticateView_post_def bindM_run [of "on_world _"] on_world_run run)
  show ?thesis
  proof (cases "\<exists>u. r = Inr (AuthOk u)")
    case False
    with view s show ?thesis by (cases r) (auto split: auth_result.splits)
  next
    case True
    then obtain u where u: "r = Inr (AuthOk u)" by blast
    have uk: "known {idname u} (as_world ?s)"
      using authenticate_accepts [OF assms(1) _ run, of "{}"] ok u by (simp add: sessions_ok_def)
    have uP: "u_username u \<in> P" using in_P run u by blast
    have pend: "sessions_ok P (?s\<lparr>as_sessions := tbl_create set_se_key ((new_session t)\<lparr>se_user := Some (u_username u),
        se_ttl := 300, se_expire := t + 300\<rparr>) (as_sessions ?s)\<rparr>)" for t
      by (rule sessions_ok_create [OF s]) (simp add: session_ok_def new_session_def uP)
    have direct: "sessions_ok P (snd (bindM (django_login k u) (\<lambda>key.
                 thenM (on_world (sync_ding ids n)) (ret ((0, ''ok'', None) :: answer, Some key))) ?s))"
    proof -
      obtain key s2 where l: "django_login k u ?s = (key, s2)" by (cases "django_login k u ?s") auto
      have s2: "sessions_ok P s2" using login_keeps [OF s uk uP, of k] l by simp
      have rest: "keeps (sessions_ok P) (thenM (on_world (sync_ding ids n)) (ret x))" for x :: "answer \<times> int option"
        by (intro keeps_intros keeps_on_world keeps_sync_ding)
      show ?thesis by (cases key) (simp_all add: bindM_run l s2 keepsD [OF rest s2])
    qed
    show ?thesis unfolding view u
      using s pend direct by (simp add: bindM_run create_session_def)
  qed
qed

lemma verify_view_keeps:
  assumes ok: "sessions_ok P s"
  shows "sessions_ok P (snd (TwoFAVerify_post totp ids k q s))"
proof (cases "\<exists>u. users_named (fq_engineer q) s = Inr u \<and> twofa_refusal s k (fq_engineer q) = None
    \<and> request_user s k = None")
  case False
  with ok show ?thesis
    by (auto simp: TwoFAVerify_post_def thenM_run bindM_run [of "liftM _"] bindM_run [of "getsM _"]
        split: sum.splits option.splits prod.splits)
next
  case True
  then obtain u where u: "users_named (fq_engineer q) s = Inr u" "twofa_refusal s k (fq_engineer q) = None"
    "request_user s k = None" by blast
  then have row: "u \<in> set (tbl_rows (w_users (as_world s)))" "u_username u = fq_engineer q"
    using tbl_get_Inr [OF u(1) [unfolded users_named_def]] by auto
  have "pending_user s k = Some (fq_engineer q)"
    using u(2,3) by (auto simp: twofa_refusal_def split: option.splits if_splits)
  then have uP: "u_username u \<in> P"
    using ok row(2) by (auto simp: pending_user_def sessions_ok_def session_ok_def dest: session_of_in split: option.splits)
  have uk: "known {idname u} (as_world s)" using ok row(1) by (auto simp: sessions_ok_def known_def idnames_def)
  obtain key s2 where l: "django_login k u s = (key, s2)" by (cases "django_login k u s") auto
  have s2: "sessions_ok P s2" using login_keeps [OF ok uk uP, of k] l by simp
  have rest: "keeps (sessions_ok P) (thenM (set_expiry i session_cookie_age)
      (thenM (on_world (sync_ding ids (fq_engineer q))) (ret x)))" for i and x :: "answer \<times> int option"
    by (intro keeps_intros keeps_set_expiry keeps_on_world keeps_sync_ding)
  have "sessions_ok P (snd (bindM (django_login k u) (\<lambda>i. thenM (set_expiry i session_cookie_age)
      (thenM (on_world (sync_ding ids (fq_engineer q))) (ret (x, Some i)))) s))" for x :: answer
    by (cases key) (simp_all add: bindM_run l s2 keepsD [OF rest s2])
  with ok u show ?thesis
    by (auto simp: TwoFAVerify_post_def thenM_run [of "raise_if _ _"] bindM_run [of "liftM _"] bindM_run [of "getsM _"]
        split: sum.splits prod.splits)
qed

lemma keeps_twofa_disable: "keeps (sessions_ok P) (twofa_disable i t)"
  by (auto simp: keeps_def twofa_disable_def sessions_ok_def split: sum.splits)

text \<open>The requests of the world outside, and time.\<close>

datatype auth_call =
    CLogin "string \<Rightarrow> string option" "int option" string string
  | CLogout bool "int option"
  | CTwoFA "(string \<Rightarrow> string \<Rightarrow> int \<times> string) option" string string "int option" twofa_request
  | CVerify "string \<Rightarrow> pyval \<Rightarrow> datetime \<Rightarrow> bool" "string \<Rightarrow> string option" "int option" twofa_request
  | CSave "int option" twofa_request
  | CTick nat

fun auth_next :: "backend \<Rightarrow> auth_call \<Rightarrow> auth_state \<Rightarrow> auth_state" where
  "auth_next b (CLogin ids k n p) s = touch_session k (snd (AuthenticateView_post b ids k n p s))"
| "auth_next b (CLogout d k) s = snd (LogoutView_post d k s)"
| "auth_next b (CTwoFA send fk fo k q) s = touch_session k (snd (TwoFA_post send fk fo k q s))"
| "auth_next b (CVerify totp ids k q) s = touch_session k (snd (TwoFAVerify_post totp ids k q s))"
| "auth_next b (CSave k q) s = touch_session k (snd (TwoFASave_post k q s))"
| "auth_next b (CTick d) s = s\<lparr>as_world := (as_world s)\<lparr>w_now := auth_now s + int d\<rparr>\<rparr>"

text \<open>The names whose password a request brings.\<close>

fun proved_by :: "backend \<Rightarrow> auth_call \<Rightarrow> auth_state \<Rightarrow> string set" where
  "proved_by b (CLogin ids k n p) s = (case fst (DBShieldAuth_authenticate b n p (as_world s)) of
       Inr (AuthOk u) \<Rightarrow> {u_username u} | _ \<Rightarrow> {})"
| "proved_by b _ s = {}"

inductive auth_reach :: "backend \<Rightarrow> auth_state \<Rightarrow> string set \<Rightarrow> bool" for b where
  start: "wf_table u_id (w_users (as_world s)) \<Longrightarrow> tbl_rows (as_sessions s) = [] \<Longrightarrow> auth_reach b s {}"
| step: "auth_reach b s P \<Longrightarrow> auth_reach b (auth_next b c s) (P \<union> proved_by b c s)"

lemma auth_next_ok:
  assumes "good_backend b" and "sessions_ok P s"
  shows "sessions_ok (P \<union> proved_by b c s) (auth_next b c s)"
proof -
  let ?P = "P \<union> proved_by b c s"
  have ok: "sessions_ok ?P s" using assms(2) by (rule sessions_ok_mono) simp
  show ?thesis
  proof (cases c)
    case (CLogin ids k n p)
    have "sessions_ok ?P (snd (AuthenticateView_post b ids k n p s))"
      by (rule authenticate_view_keeps [OF assms(1) ok]) (simp add: CLogin)
    then show ?thesis by (simp add: CLogin sessions_ok_touch)
  next
    case (CLogout d k)
    have "keeps (sessions_ok ?P) (LogoutView_post d k)"
      unfolding LogoutView_post_def by (intro keeps_intros keeps_flush)
    from keepsD [OF this ok] show ?thesis by (simp add: CLogout)
  next
    case (CTwoFA send fk fo k q)
    have "keeps (sessions_ok ?P) (TwoFA_post send fk fo k q)"
      unfolding TwoFA_post_def case_prod_beta
      by (intro keeps_intros keeps_twofa_disable) (auto simp: sessions_ok_def)
    from keepsD [OF this ok] show ?thesis by (simp add: CTwoFA sessions_ok_touch)
  next
    case (CVerify totp ids k q)
    with verify_view_keeps [OF ok] show ?thesis by (simp add: sessions_ok_touch)
  next
    case (CSave k q)
    have "keeps (sessions_ok ?P) (TwoFASave_post k q)"
      unfolding TwoFASave_post_def twofa_save_def
      by (intro keeps_intros keeps_twofa_disable) (auto simp: sessions_ok_def)
    from keepsD [OF this ok] show ?thesis by (simp add: CSave sessions_ok_touch)
  next
    case (CTick d)
    have "known N (as_world s) \<Longrightarrow> known N ((as_world s)\<lparr>w_now := auth_now s + int d\<rparr>)" for N
      by (simp add: known_def idnames_def)
    from sessions_ok_world [OF ok this] show ?thesis by (simp add: CTick)
  qed
qed

lemma auth_reach_ok:
  assumes "good_backend b" and "auth_reach b s P"
  shows "sessions_ok P s"
  using assms(2)
proof induction
  case (start s)
  then show ?case by (simp add: sessions_ok_def known_def)
next
  case (step s P c)
  from auth_next_ok [OF assms(1) step.IH] show ?case .
qed

text \<open>C17. In every state that any requests with any session keys lead to, a request is made in the name of a user
  only if at some earlier time a password was accepted for the name of this user: sessions cannot be taken over
  through the views of the second factor.\<close>

theorem session_needs_password:
  assumes "good_backend b" and "auth_reach b s P" and "request_user s k = Some u"
  shows "u_username u \<in> P"
proof -
  from assms(3) obtain x i where x: "session_of s k = Some x" "se_login x = Some i"
    "tbl_first (\<lambda>u. u_id u = i \<and> u_is_active u) (w_users (as_world s)) = Some u"
    by (auto simp: request_user_def split: option.splits)
  then have u: "u \<in> set (tbl_rows (w_users (as_world s)))" "u_id u = i"
    by (auto simp: tbl_first_def find_Some_iff)
  have "session_ok P (as_world s) x"
    using auth_reach_ok [OF assms(1,2)] session_of_in [OF x(1)] by (simp add: sessions_ok_def)
  with x(2) obtain n where "n \<in> P" "known {(i, n)} (as_world s)" by (auto simp: session_ok_def)
  with idname_unique [OF _ u] show ?thesis by blast
qed

lemma good_password_is: "good_backend (password_is pw)"
  by (auto simp: good_backend_def password_is_def tbl_first_def find_Some_iff known_def idnames_def split: if_splits)

definition logged_in :: auth_state where
  "logged_in = auth_next (password_is ''pw'') (CLogin (\<lambda>_. None) None ''ann'' ''pw'') (ann_state\<lparr>as_twofa := empty_table\<rparr>)"

lemma session_needs_password_witness:
  "\<exists>P u. auth_reach (password_is ''pw'') logged_in P \<and> request_user logged_in (Some 1) = Some u \<and> u_username u \<in> P
     \<and> u_username u = ''ann''"
proof -
  let ?s = "ann_state\<lparr>as_twofa := empty_table\<rparr>"
  have "wf_table u_id (w_users (as_world ?s))" "tbl_rows (as_sessions ?s) = []" by code_simp+
  then have "auth_reach (password_is ''pw'') ?s {}" by (rule auth_reach.start)
  from auth_reach.step [OF this] obtain P where P: "auth_reach (password_is ''pw'') logged_in P"
    unfolding logged_in_def by blast
  have "map_option u_username (request_user logged_in (Some 1)) = Some ''ann''" by code_simp
  then obtain u where u: "request_user logged_in (Some 1) = Some u" "u_username u = ''ann''" by auto
  from session_needs_password [OF good_password_is P u(1)] P u show ?thesis by blast
qed

end
