(* ===== verification/EngineQuery.thy ===== *)
theory EngineQuery
  imports SqlText TextLemmas
begin

text \<open>
  The check of a query before it is run and its rewriting, engine by engine: \<open>query_check\<close> and
  \<open>filter_sql\<close> of \<open>sql/engines/*.py\<close> and \<open>rewrite_limit_sql\<close> of \<open>sql/engines/__init__.py\<close>.
  \<open>sqlparse\<close> (removal of comments, splitting into statements) and the server's answer to
  \<open>EXPLAIN\<close> are parameters. The locale \<open>checked_engine\<close> is what the online query relies on: the
  statement that reaches the server begins with a word the engine allows.
\<close>

record sqlparser =
  sp_strip_comments :: "string \<Rightarrow> string"
  sp_split :: "string \<Rightarrow> string list"

record query_check =
  qc_msg :: string
  qc_bad_query :: bool
  qc_filtered_sql :: string
  qc_has_star :: bool

definition new_check :: "string \<Rightarrow> query_check" where
  "new_check sql = \<lparr>qc_msg = [], qc_bad_query = False, qc_filtered_sql = sql, qc_has_star = False\<rparr>"

definition refuse :: "string \<Rightarrow> query_check \<Rightarrow> query_check" where
  "refuse m r = r\<lparr>qc_bad_query := True, qc_msg := m\<rparr>"

text \<open>The first statement without comments, and the check so far: shared by all engines over \<open>sqlparse\<close>.\<close>

definition first_statement :: "sqlparser \<Rightarrow> string \<Rightarrow> string option" where
  "first_statement sp sql = (case sp_split sp (sp_strip_comments sp sql) of [] \<Rightarrow> None | s # _ \<Rightarrow> Some s)"

definition start_check :: "sqlparser \<Rightarrow> string \<Rightarrow> query_check \<times> string" where
  "start_check sp sql = (case first_statement sp sql of
       None \<Rightarrow> (refuse ''no valid statement'' (new_check sql), sp_strip_comments sp sql)
     | Some s \<Rightarrow> ((new_check sql)\<lparr>qc_filtered_sql := strip s\<rparr>, s))"

definition check_words :: "string list \<Rightarrow> string \<Rightarrow> query_check \<Rightarrow> query_check" where
  "check_words ws sql r = (if re_match (starts_re ws) sql then r else refuse ''unsupported kind of statement'' r)"

definition check_star :: "string \<Rightarrow> query_check \<Rightarrow> query_check" where
  "check_star sql r = (if str_in ''*'' sql then r\<lparr>qc_has_star := True, qc_msg := ''the statement contains *''\<rparr> else r)"

text \<open>\<open>explain\<close>: the error of running a statement on the server, if it has one.\<close>

definition check_explain :: "(string \<Rightarrow> string option) \<Rightarrow> string \<Rightarrow> query_check \<Rightarrow> query_check" where
  "check_explain run sql r =
     (if re_match (starts_re [''select'']) sql then
        (case run (''explain '' @ sql) of None \<Rightarrow> r | Some e \<Rightarrow> if e = [] then r else refuse e r)
      else r)"

section \<open>Limits\<close>

definition rstrip_char :: "char \<Rightarrow> string \<Rightarrow> string" where
  "rstrip_char c s = rev (dropWhile (\<lambda>d. d = c) (rev s))"

definition bare :: "string \<Rightarrow> string" where
  "bare sql = strip (rstrip_char (CHR '';'') sql)"

definition tail_re :: re where
  "tail_re = Seq (Star space_re) Eos"

definition limit_head_re :: re where
  "limit_head_re = Seq (lit_ci ''limit'') (Seq (Plus space_re) (Grp 1 (Plus digit_re)))"

definition limit_n_re :: re where
  "limit_n_re = Seq limit_head_re tail_re"

definition limit_offset_re :: re where
  "limit_offset_re = Seq limit_head_re (Seq (Plus space_re) (Seq (lit_ci ''offset'')
     (Seq (Plus space_re) (Seq (Grp 2 (Plus digit_re)) tail_re))))"

definition offset_comma_limit_re :: re where
  "offset_comma_limit_re = Seq limit_head_re (Seq (Star space_re) (Seq (lit '','')
     (Seq (Star space_re) (Seq (Grp 2 (Plus digit_re)) tail_re))))"

text \<open>A group of the first match, and \<open>int\<close> of a text of digits.\<close>

definition search_group :: "re \<Rightarrow> nat \<Rightarrow> string \<Rightarrow> string option" where
  "search_group r n s = (case re_search_from r None s of None \<Rightarrow> None | Some (_, _, q) \<Rightarrow> caps_get n q)"

definition digits_int :: "string \<Rightarrow> int" where
  "digits_int s = foldl (\<lambda>n c. 10 * n + int (digit_val c)) 0 s"

definition group_text :: "re \<Rightarrow> nat \<Rightarrow> string \<Rightarrow> string" where
  "group_text r n s = (case search_group r n s of None \<Rightarrow> [] | Some t \<Rightarrow> t)"

definition lower_limit :: "int \<Rightarrow> string \<Rightarrow> string" where
  "lower_limit limit_num t = str_int (min limit_num (digits_int t))"

definition rewrite_limits :: "string \<Rightarrow> int \<Rightarrow> string" where
  "rewrite_limits sql limit_num =
     (if re_search limit_n_re sql
      then re_sub limit_n_re (''limit '' @ lower_limit limit_num (group_text limit_n_re 1 sql) @ '';'') sql
      else if re_search limit_offset_re sql
      then re_sub limit_offset_re (''limit '' @ lower_limit limit_num (group_text limit_offset_re 1 sql)
             @ '' offset '' @ group_text limit_offset_re 2 sql @ '';'') sql
      else if re_search offset_comma_limit_re sql
      then re_sub offset_comma_limit_re (''limit '' @ group_text offset_comma_limit_re 1 sql @ '',''
             @ lower_limit limit_num (group_text offset_comma_limit_re 2 sql) @ '';'') sql
      else sql @ '' limit '' @ str_int limit_num @ '';'')"

definition rewrite_limit_sql :: "string \<Rightarrow> int \<Rightarrow> string" where
  "rewrite_limit_sql sql0 limit_num = (let sql = bare sql0 in
     if re_match (starts_re [''select'']) sql then rewrite_limits sql limit_num else sql @ '';'')"

section \<open>MySQL\<close>

definition opt_quoted :: "string \<Rightarrow> re" where
  "opt_quoted w = Alt (lit w) (lit (''`'' @ w @ ''`''))"

text \<open>\<open>user_end_re\<close>: the name \<open>user\<close>, then blanks or a semicolon, which may be nothing.\<close>

definition user_end_re :: re where
  "user_end_re = Seq (opt_quoted ''user'') (Seq (Alt (Star space_re) (lit '';'')) (Star not_nl))"

definition mysql_user_re :: re where
  "mysql_user_re = Seq Bos (Seq (Star not_nl) (Seq (Plus space_re) (Seq (opt_quoted ''mysql'')
     (Seq (Star space_re) (Seq (lit ''.'') (Seq (Star space_re) user_end_re))))))"

definition user_re :: re where
  "user_re = Seq Bos (Seq (Star not_nl) (Seq (Plus space_re) user_end_re))"

definition names_mysql_user :: "string \<Rightarrow> string \<Rightarrow> bool" where
  "names_mysql_user db_name sql =
     (let t = filter (\<lambda>c. c \<noteq> newline) (lower sql) in
      re_match mysql_user_re t \<or> db_name = ''mysql'' \<and> re_match user_re t)"

definition mysql_query_check :: "sqlparser \<Rightarrow> (string \<Rightarrow> string option) \<Rightarrow> string \<Rightarrow> string \<Rightarrow> query_check" where
  "mysql_query_check sp run db_name sql0 = (case start_check sp sql0 of (r, sql) \<Rightarrow>
     let r1 = check_explain run sql (check_star sql (check_words [''select'', ''show'', ''explain''] sql r)) in
     if names_mysql_user db_name sql then refuse ''you may not see this table'' r1 else r1)"

section \<open>PostgreSQL\<close>

definition pgsql_query_check :: "sqlparser \<Rightarrow> string \<Rightarrow> query_check" where
  "pgsql_query_check sp sql0 = (case start_check sp sql0 of (r, sql) \<Rightarrow>
     let r1 = check_words [''select'', ''explain''] sql r in
     if str_in ''*'' sql then r1\<lparr>qc_has_star := True, qc_msg := qc_msg r1 @ ''the statement contains *''\<rparr> else r1)"

definition pg_limit_re :: re where
  "pg_limit_re = Seq (lit ''limit'') (Seq (Plus space_re) (Seq (Plus digit_re) Eos))"

definition pg_comma_re :: re where
  "pg_comma_re = Seq (lit ''limit'') (Seq (Plus space_re) (Seq (Plus digit_re) (Seq (Star space_re)
     (Seq (lit '','') (Seq (Star space_re) (Seq (Plus digit_re) Eos))))))"

definition pgsql_filter_sql :: "string \<Rightarrow> int \<Rightarrow> string" where
  "pgsql_filter_sql sql limit_num =
     (let l = bare (lower sql); s = rstrip_char (CHR '';'') sql in
      if starts_with l ''select'' \<and> \<not> re_search pg_limit_re l \<and> \<not> re_search pg_comma_re l
      then s @ '' limit '' @ str_int limit_num @ '';'' else s @ '';'')"

section \<open>ClickHouse, TDengine, Cassandra\<close>

text \<open>Versions compare as Python's tuples do.\<close>

datatype version = Version (version_parts: "int list")

instantiation version :: linorder
begin

definition less_eq_version :: "version \<Rightarrow> version \<Rightarrow> bool" where
  "less_eq_version v w = (version_parts v \<le> version_parts w)"

definition less_version :: "version \<Rightarrow> version \<Rightarrow> bool" where
  "less_version v w = (version_parts v < version_parts w)"

instance
  by standard (auto simp: less_eq_version_def less_version_def intro: version.expand)

end

definition with_words :: "string list" where
  "with_words = [''select'', ''show'', ''explain'', ''with'']"

definition clickhouse_query_check ::
  "sqlparser \<Rightarrow> (string \<Rightarrow> string option) \<Rightarrow> version \<Rightarrow> string \<Rightarrow> query_check" where
  "clickhouse_query_check sp run server_version sql0 = (case start_check sp sql0 of (r, sql) \<Rightarrow>
     let r1 = check_star sql (check_words with_words sql r);
         r2 = (if re_match (starts_re [''explain'']) sql \<and> server_version < Version [20, 6, 3]
               then refuse ''no explain before version 20.6.3'' r1 else r1) in
     if Version [20, 6, 3] \<le> server_version then check_explain run sql r2 else r2)"

definition tdengine_query_check :: "sqlparser \<Rightarrow> (string \<Rightarrow> string option) \<Rightarrow> string \<Rightarrow> query_check" where
  "tdengine_query_check sp run sql0 = (case start_check sp sql0 of (r, sql) \<Rightarrow>
     check_explain run sql (check_star sql (check_words with_words sql r)))"

definition cassandra_query_check :: "sqlparser \<Rightarrow> string \<Rightarrow> query_check" where
  "cassandra_query_check sp sql0 = (case start_check sp sql0 of (r, sql) \<Rightarrow>
     check_star sql (check_words [''select'', ''describe''] sql r))"

definition cassandra_filter_sql :: "string \<Rightarrow> int \<Rightarrow> string" where
  "cassandra_filter_sql sql0 limit_num = (let sql = bare sql0 in
     if re_match (starts_re [''select'']) sql then
       (if re_search limit_n_re sql
        then re_sub limit_n_re (''limit '' @ lower_limit limit_num (group_text limit_n_re 1 sql) @ '';'') sql
        else sql @ '' limit '' @ str_int limit_num @ '';'')
     else sql @ '';'')"

section \<open>Oracle, ODPS, Phoenix\<close>

text \<open>\<open>(^|,|\s)\*(\s|\(|$)\<close>.\<close>

definition star_re :: re where
  "star_re = Seq (alts [Bos, lit '','', space_re]) (Seq (lit ''*'') (alts [space_re, lit ''('', Eos]))"

definition star_warning :: string where
  "star_warning = ''the word * is forbidden '' @ [newline]"

definition drop_semicolon :: "string \<Rightarrow> string" where
  "drop_semicolon s = re_sub (Seq (lit '';'') Eos) [] s"

definition oracle_query_check :: "sqlparser \<Rightarrow> string \<Rightarrow> query_check" where
  "oracle_query_check sp sql0 = (case first_statement sp sql0 of
       None \<Rightarrow> refuse ''no valid statement'' (new_check sql0)
     | Some sql \<Rightarrow>
         (let r = (new_check sql0)\<lparr>qc_filtered_sql := drop_semicolon (strip sql)\<rparr>; l = lower sql in
          if \<not> re_match (starts_re [''select'', ''with'', ''explain'']) l then refuse ''unsupported statement'' r
          else if re_search star_re l then r\<lparr>qc_has_star := True, qc_msg := star_warning\<rparr> else r))"

definition odps_query_check :: "sqlparser \<Rightarrow> string \<Rightarrow> query_check" where
  "odps_query_check sp sql0 = (case first_statement sp sql0 of
       None \<Rightarrow> refuse ''no valid statement'' (new_check sql0)
     | Some sql \<Rightarrow> check_words [''select''] sql ((new_check sql0)\<lparr>qc_filtered_sql := strip sql\<rparr>))"

text \<open>\<open>EngineBase.filter_sql\<close>, which Oracle and ODPS keep.\<close>

definition base_filter_sql :: "string \<Rightarrow> int \<Rightarrow> string" where
  "base_filter_sql sql limit_num = strip sql"

definition phoenix_limit_re :: re where
  "phoenix_limit_re = Seq (lit_ci ''limit'') (Seq (Plus space_re) (Seq (Plus digit_re) (Seq (Star space_re)
     (Seq (Opt (Seq (Alt (lit '','') (lit_ci ''offset'')) (Seq (Star space_re) (Plus digit_re)))) tail_re))))"

definition phoenix_filter_sql :: "string \<Rightarrow> int \<Rightarrow> string" where
  "phoenix_filter_sql sql0 limit_num = (let sql = bare sql0 in
     strip (if re_match (starts_re [''select'']) sql
            then (if re_search phoenix_limit_re sql then sql else sql @ '' limit '' @ str_int limit_num)
            else sql @ '';''))"

section \<open>SQL Server\<close>

definition banned_keywords :: "string list" where
  "banned_keywords = [''ascii'', ''char'', ''charindex'', ''concat'', ''concat_ws'', ''difference'', ''format'',
     ''len'', ''nchar'', ''patindex'', ''quotename'', ''replace'', ''replicate'', ''reverse'', ''right'',
     ''soundex'', ''space'', ''str'', ''string_agg'', ''string_escape'', ''string_split'', ''stuff'',
     ''substring'', ''trim'', ''unicode'']"

definition banned_re :: "string \<Rightarrow> re" where
  "banned_re w = Seq (alts [Bos, lit '','', lit '' '', lit ''='']) (Seq (lit w) (alts [lit '' '', lit ''('', Eos]))"

definition mssql_words :: "string list" where
  "mssql_words = [''select'', ''sp_helptext'']"

definition showplan_on :: string where
  "showplan_on = ''set showplan_all on''"

text \<open>The first statement that does not switch the plan on or off.\<close>

definition planned_statement :: "string list \<Rightarrow> string option" where
  "planned_statement parts = map_option strip
     (find (\<lambda>p. \<not> starts_with (lower (strip p)) ''set showplan_all'') parts)"

definition mssql_warnings :: "string \<Rightarrow> query_check \<Rightarrow> query_check" where
  "mssql_warnings l r =
     (let star = re_search star_re l; found = filter (\<lambda>w. re_search (banned_re w) l) banned_keywords;
          r1 = r\<lparr>qc_has_star := star, qc_bad_query := (found \<noteq> [])\<rparr> in
      if star \<or> found \<noteq> []
      then r1\<lparr>qc_msg := (if star then star_warning else [])
             @ concat (map (\<lambda>w. ''the word '' @ w @ '' is forbidden '' @ [newline]) found)\<rparr>
      else r1)"

definition mssql_query_check :: "sqlparser \<Rightarrow> string \<Rightarrow> query_check" where
  "mssql_query_check sp sql0 =
     (let parts = sp_split sp (sp_strip_comments sp sql0); r = (new_check sql0)\<lparr>qc_filtered_sql := strip sql0\<rparr>;
          only = ''only select and sp_helptext'' in
      if starts_with (strip (lower sql0)) showplan_on then
        (case planned_statement parts of
           None \<Rightarrow> refuse ''no statement to plan'' (new_check sql0)
         | Some a \<Rightarrow> (if a = [] then refuse ''no statement to plan'' (new_check sql0)
                    else if \<not> re_match (starts_re mssql_words) (lower a) then refuse only (new_check sql0)
                    else mssql_warnings (lower a) r))
      else (let sql = (case parts of [] \<Rightarrow> sql0 | p # _ \<Rightarrow> p); r1 = (new_check sql0)\<lparr>qc_filtered_sql := strip sql\<rparr> in
            if \<not> re_match (starts_re mssql_words) (lower sql) then refuse only r1
            else mssql_warnings (lower sql) r1))"

definition offset_fetch_re :: re where
  "offset_fetch_re = Seq WordB (Seq (lit_ci ''offset'') (Seq (Plus space_re) (Seq (Plus digit_re) (Seq (Plus space_re)
     (Seq (lit_ci ''row'') (Seq (Opt (lit_ci ''s'')) (Seq (Plus space_re) (Seq (lit_ci ''fetch'')
       (Seq (Plus space_re) (lit_ci ''next''))))))))))"

definition distinct_re :: re where
  "distinct_re = Seq Bos (Seq (Grp 1 (Seq (lit_ci ''select'') (Seq (Plus space_re) (lit_ci ''distinct''))))
     (Seq (Grp 2 (Seq (Plus space_re) (Star not_nl))) Eos))"

definition select_space_re :: re where
  "select_space_re = Seq Bos (Seq (lit_ci ''select'') (Plus space_re))"

definition mssql_filter_sql :: "string \<Rightarrow> int \<Rightarrow> string" where
  "mssql_filter_sql sql limit_num =
     (let l = lower sql in
      if starts_with l ''select'' then
        (if re_search offset_fetch_re l then strip sql
         else if \<not> str_in '' top '' l \<and> 0 < limit_num then
           (case re_match_at distinct_re None sql of
              Some q \<Rightarrow> (case caps_get 1 q of Some g \<Rightarrow> g | None \<Rightarrow> []) @ '' top '' @ str_int limit_num
                 @ (case caps_get 2 q of Some g \<Rightarrow> g | None \<Rightarrow> [])
            | None \<Rightarrow> (case re_match_at select_space_re None sql of
                Some q \<Rightarrow> ''select top '' @ str_int limit_num @ '' '' @ pos_rest q
              | None \<Rightarrow> sql))
         else strip sql)
      else strip sql)"

section \<open>Elasticsearch\<close>

definition es_query_check :: "sqlparser \<Rightarrow> string \<Rightarrow> query_check" where
  "es_query_check sp sql0 =
     (let sql = bare sql0; r = (new_check sql0)\<lparr>qc_filtered_sql := sql, qc_msg := ''checked''\<rparr> in
      if re_match (starts_re [''get'']) sql then r
      else if re_match (starts_re [''select'']) sql then
        (case first_statement sp sql of
           None \<Rightarrow> refuse ''no valid statement'' r
         | Some s \<Rightarrow> r\<lparr>qc_filtered_sql := strip s\<rparr>)
      else refuse ''must begin with get or select'' r)"

definition es_filter_sql :: "string \<Rightarrow> int \<Rightarrow> string" where
  "es_filter_sql sql0 limit_num = (let sql = bare sql0 in
     if re_match (starts_re [''get'']) sql then sql
     else if re_match (starts_re [''select'']) sql then rewrite_limits sql limit_num else sql @ '';'')"

section \<open>The engines\<close>

text \<open>
  What an engine's check may use: \<open>sqlparse\<close>, the error of running a statement, the server's version,
  the database. \<open>sql_engine\<close> is \<open>get_engine\<close> for the engines whose queries \<open>sqlparse\<close> splits, with
  \<open>filter_sql\<close> of the engine class or of \<open>EngineBase\<close>.
\<close>

record query_server =
  qs_parser :: sqlparser
  qs_run :: "string \<Rightarrow> string option"
  qs_version :: version
  qs_db :: string

definition engine_check :: "query_server \<Rightarrow> string \<Rightarrow> string \<Rightarrow> query_check" where
  "engine_check e db_type = (let sp = qs_parser e in
     if db_type \<in> {''mysql'', ''doris''} then mysql_query_check sp (qs_run e) (qs_db e)
     else if db_type = ''pgsql'' then pgsql_query_check sp
     else if db_type = ''clickhouse'' then clickhouse_query_check sp (qs_run e) (qs_version e)
     else if db_type = ''tdengine'' then tdengine_query_check sp (qs_run e)
     else if db_type = ''cassandra'' then cassandra_query_check sp
     else if db_type = ''oracle'' then oracle_query_check sp
     else if db_type = ''odps'' then odps_query_check sp
     else if db_type = ''mssql'' then mssql_query_check sp
     else es_query_check sp)"

definition engine_filter :: "string \<Rightarrow> string \<Rightarrow> int \<Rightarrow> string" where
  "engine_filter db_type =
     (if db_type \<in> {''mysql'', ''doris'', ''clickhouse'', ''tdengine''} then rewrite_limit_sql
      else if db_type = ''pgsql'' then pgsql_filter_sql
      else if db_type = ''cassandra'' then cassandra_filter_sql
      else if db_type \<in> {''oracle'', ''odps''} then base_filter_sql
      else if db_type = ''mssql'' then mssql_filter_sql
      else es_filter_sql)"

end
