(* ===== verification/EngineQueryProps.thy ===== *)
theory EngineQueryProps
  imports EngineQuery
begin

text \<open>
  What the checks and rewritings of queries guarantee: the statement an engine is given begins with
  a word the engine allows, and a rewritten \<open>SELECT\<close> ends in a limit of at most the one granted.
\<close>

section \<open>Words at the start\<close>

lemma re_m_alts: "re_m (alts rs) p = concat (map (\<lambda>r. re_m r p) rs)"
  by (induction rs rule: alts.induct) (auto split: prod.splits list.splits)

lemma re_match_starts_re: "re_match (starts_re ws) s \<longleftrightarrow> (\<exists>w \<in> set ws. starts_with (lower s) w)"
  by (auto simp: re_match_def starts_re_def re_m_alts re_m_lit_ci split: if_splits)

text \<open>The first words the engines ask for: no blank at an end, no semicolon at the end.\<close>

definition plain_word :: "string \<Rightarrow> bool" where
  "plain_word w = (w \<noteq> [] \<and> \<not> is_space (hd w) \<and> \<not> is_space (last w) \<and> last w \<noteq> CHR '';'')"

lemma starts_lowerE:
  assumes "starts_with (lower s) w"
  obtains u t where "s = u @ t" "lower u = w"
proof
  show "s = take (length w) s @ drop (length w) s" by simp
  show "lower (take (length w) s) = w" using assms by (simp add: starts_with_def lower_def take_map)
qed

lemma starts_lowerI: "lower u = w \<Longrightarrow> starts_with (lower (u @ t)) w"
  by (auto simp: starts_with_def)

text \<open>Removing trailing characters and surrounding white space keeps the first word.\<close>

lemma rstrip_word:
  assumes "u \<noteq> []" "last u \<noteq> c"
  shows "\<exists>t'. rstrip_char c (u @ t) = u @ t'"
proof -
  obtain d v where r: "rev u = d # v" "d \<noteq> c" using assms by (metis hd_rev list.collapse rev_is_Nil_conv)
  have "dropWhile (\<lambda>d. d = c) (rev t @ rev u) = dropWhile (\<lambda>d. d = c) (rev t) @ rev u"
    using r by (simp add: dropWhile_append dropWhile_eq_Nil_conv)
  then show ?thesis by (simp add: rstrip_char_def)
qed

lemma lower_last: "lower u = w \<Longrightarrow> u \<noteq> [] \<Longrightarrow> lower_char (last u) = last w \<and> lower_char (hd u) = hd w"
  by (auto simp: lower_def last_map hd_map)

lemma word_ends:
  assumes "lower u = w" "plain_word w"
  shows "u \<noteq> []" "\<not> is_space (hd u)" "\<not> is_space (last u)" "last u \<noteq> CHR '';''"
proof -
  show u: "u \<noteq> []" using assms by (auto simp: plain_word_def lower_def)
  note e = lower_last [OF assms(1) u]
  show "\<not> is_space (hd u)" "\<not> is_space (last u)"
    using assms(2) e is_space_lower unfolding plain_word_def by metis+
  have "lower_char (CHR '';'') = CHR '';''" by code_simp
  then show "last u \<noteq> CHR '';''" using assms(2) e unfolding plain_word_def by metis
qed

lemma strip_keeps_word:
  assumes "plain_word w" "starts_with (lower s) w"
  shows "starts_with (lower (strip s)) w"
proof -
  obtain u t where s: "s = u @ t" "lower u = w" by (rule starts_lowerE [OF assms(2)])
  note e = word_ends [OF s(2) assms(1)]
  obtain t' where "strip ([] @ u @ t) = u @ t'" by (rule strip_word [of "[]" u]) (use e in auto)
  with s show ?thesis by (simp add: starts_lowerI)
qed

lemma rstrip_keeps_word:
  assumes "plain_word w" "starts_with (lower s) w"
  shows "starts_with (lower (rstrip_char (CHR '';'') s)) w"
proof -
  obtain u t where s: "s = u @ t" "lower u = w" by (rule starts_lowerE [OF assms(2)])
  with rstrip_word [of u "CHR '';''" t] word_ends [OF s(2) assms(1)] show ?thesis by (metis starts_lowerI)
qed

lemma bare_keeps_word: "plain_word w \<Longrightarrow> starts_with (lower s) w \<Longrightarrow> starts_with (lower (bare s)) w"
  by (simp add: bare_def strip_keeps_word rstrip_keeps_word)

lemma append_keeps_word: "starts_with (lower s) w \<Longrightarrow> starts_with (lower (s @ t)) w"
  by (auto simp: starts_with_prefix prefix_def)

section \<open>Replacing a limit at the end\<close>

definition ends :: "re \<Rightarrow> bool" where
  "ends r = (\<forall>p. \<forall>q \<in> set (re_m r p). at_end (pos_rest q))"

definition begins :: "string \<Rightarrow> re \<Rightarrow> bool" where
  "begins w r = (\<forall>prev s caps. re_m r (prev, s, caps) \<noteq> [] \<longrightarrow> starts_with (lower s) w)"

lemma ends_Eos: "ends Eos"
  by (auto simp: ends_def)

lemma ends_Seq: "ends r2 \<Longrightarrow> ends (Seq r1 r2)"
  by (auto simp: ends_def)

lemma begins_lit: "begins w (lit_ci w)"
  by (auto simp: begins_def re_m_lit_ci split: if_splits)

lemma begins_Seq: "begins w r1 \<Longrightarrow> begins w (Seq r1 r2)"
  unfolding begins_def
proof (intro allI impI)
  fix prev :: "char option" and s :: string and caps
  assume b: "\<forall>prev s caps. re_m r1 (prev, s, caps) \<noteq> [] \<longrightarrow> starts_with (lower s) w"
    and m: "re_m (Seq r1 r2) (prev, s, caps) \<noteq> []"
  from m have "re_m r1 (prev, s, caps) \<noteq> []" by (cases "re_m r1 (prev, s, caps)") simp_all
  with b show "starts_with (lower s) w" by blast
qed

lemma limit_patterns:
  "ends limit_n_re" "ends limit_offset_re" "ends offset_comma_limit_re"
  "begins ''limit'' limit_n_re" "begins ''limit'' limit_offset_re" "begins ''limit'' offset_comma_limit_re"
  unfolding limit_n_re_def limit_offset_re_def offset_comma_limit_re_def limit_head_re_def tail_re_def
  by (intro ends_Seq ends_Eos begins_Seq begins_lit)+

lemma begins_match: "begins w r \<Longrightarrow> re_match_at r prev s = Some q \<Longrightarrow> starts_with (lower s) w"
proof -
  assume b: "begins w r" and m: "re_match_at r prev s = Some q"
  from m have "re_m r (prev, s, []) \<noteq> []" by (auto simp: re_match_at_def split: list.splits)
  with b show ?thesis unfolding begins_def by blast
qed




text \<open>Nothing is replaced in a first word none of whose ends begins the pattern.\<close>

lemma sub_keeps_word:
  assumes "begins w r" and "\<And>k. k < length u \<Longrightarrow> \<not> starts_with (lower (drop k u @ t)) w"
  shows "re_sub_from r f prev (u @ t) = u @ re_sub_from r f (last_opt prev u) t"
  using assms(2)
proof (induction u arbitrary: prev)
  case Nil
  then show ?case by (simp add: last_opt_def)
next
  case (Cons c u)
  have "\<not> starts_with (lower ((c # u) @ t)) w" using Cons.prems [of 0] by simp
  then have "re_match_at r prev ((c # u) @ t) = None"
    using begins_match [OF assms(1)] by (cases "re_match_at r prev ((c # u) @ t)") auto
  moreover have "re_sub_from r f (Some c) (u @ t) = u @ re_sub_from r f (last_opt (Some c) u) t"
    by (rule Cons.IH) (use Cons.prems [of "Suc _"] in auto)
  ultimately show ?case by (subst re_sub_from.simps) (simp add: last_opt_def)
qed

lemma limit_not_in_select:
  assumes "lower u = ''select''" "k < length u"
  shows "\<not> starts_with (lower (drop k u @ t)) ''limit''"
proof -
  have "lower (drop k u) = drop k ''select''" using assms(1) by (metis drop_map lower_def)
  moreover have "k \<in> {0, 1, 2, 3, 4, 5}" using assms length_lower [of u] by auto
  ultimately show ?thesis by (auto simp: starts_with_def)
qed

lemma sub_limit_select:
  assumes "begins ''limit'' r" "starts_with (lower s) ''select''"
  shows "starts_with (lower (re_sub r repl s)) ''select''"
proof -
  obtain u t where s: "s = u @ t" "lower u = ''select''" by (rule starts_lowerE [OF assms(2)])
  have "re_sub r repl s = u @ re_sub_from r (\<lambda>_ _. repl) (last_opt None u) t"
    unfolding re_sub_def s(1) by (rule sub_keeps_word [OF assms(1) limit_not_in_select [OF s(2)]])
  then show ?thesis using starts_lowerI [OF s(2)] by metis
qed

lemma if_starts:
  "starts_with (lower x) w \<Longrightarrow> starts_with (lower y) w \<Longrightarrow> starts_with (lower (if b then x else y)) w"
  by simp

lemma rewrite_limits_select:
  "starts_with (lower s) ''select'' \<Longrightarrow> starts_with (lower (rewrite_limits s n)) ''select''"
  unfolding rewrite_limits_def
  by (intro if_starts sub_limit_select limit_patterns append_keeps_word)

section \<open>The interface of a checked engine\<close>

text \<open>
  What the online query relies on, whatever the engine: an unrefused statement begins with one of the
  engine's words, and the rewriting keeps it.
\<close>

locale checked_engine =
  fixes check :: "string \<Rightarrow> query_check" and rewrite :: "string \<Rightarrow> int \<Rightarrow> string" and allowed :: "string list"
  assumes checked: "\<not> qc_bad_query (check sql) \<Longrightarrow>
      \<exists>w \<in> set allowed. starts_with (lower (qc_filtered_sql (check sql))) w"
    and rewritten: "w \<in> set allowed \<Longrightarrow> starts_with (lower s) w \<Longrightarrow> starts_with (lower (rewrite s n)) w"
begin

lemma reaches_server:
  assumes "\<not> qc_bad_query (check sql)"
  shows "\<exists>w \<in> set allowed. starts_with (lower (rewrite (qc_filtered_sql (check sql)) n)) w"
  using checked [OF assms] rewritten by blast

end

text \<open>What the steps of a check do to the verdict and to the statement.\<close>

lemma check_steps [simp]:
  "qc_filtered_sql (refuse m r) = qc_filtered_sql r" "qc_bad_query (refuse m r)"
  "qc_filtered_sql (check_words ws sql r) = qc_filtered_sql r"
  "qc_bad_query (check_words ws sql r) \<longleftrightarrow> qc_bad_query r \<or> \<not> re_match (starts_re ws) sql"
  "qc_filtered_sql (check_star sql r) = qc_filtered_sql r" "qc_bad_query (check_star sql r) = qc_bad_query r"
  "qc_filtered_sql (check_explain run sql r) = qc_filtered_sql r"
  by (auto simp: refuse_def check_words_def check_star_def check_explain_def split: option.splits)

lemma check_explain_bad: "qc_bad_query r \<Longrightarrow> qc_bad_query (check_explain run sql r)"
  by (auto simp: check_explain_def refuse_def split: option.splits)

lemma start_check_ok:
  assumes "start_check sp sql0 = (r, sql)" "\<not> qc_bad_query r"
  shows "qc_filtered_sql r = strip sql"
  using assms by (auto simp: start_check_def split: option.splits)

lemma stripped_word:
  assumes "re_match (starts_re ws) sql" "list_all plain_word ws"
  shows "\<exists>w \<in> set ws. starts_with (lower (strip sql)) w"
  using assms strip_keeps_word unfolding re_match_starts_re list_all_iff by blast

lemma checked_words:
  assumes "start_check sp sql0 = (r, sql)" "list_all plain_word ws"
    and "\<not> qc_bad_query (check_words ws sql r)"
  shows "\<exists>w \<in> set ws. starts_with (lower (qc_filtered_sql r)) w"
  using assms(3) start_check_ok [OF assms(1)] stripped_word [OF _ assms(2)] by simp

text \<open>The words of each engine.\<close>

lemma plain_words [simp]:
  "list_all plain_word with_words" "list_all plain_word [''select'', ''show'', ''explain'']"
  "list_all plain_word [''select'', ''explain'']" "list_all plain_word [''select'', ''describe'']"
  "list_all plain_word [''select'', ''with'', ''explain'']" "list_all plain_word [''select'']"
  "list_all plain_word (showplan_on # mssql_words)" "list_all plain_word [''get'', ''select'']"
  by code_simp+

lemma plain_member: "list_all plain_word ws \<Longrightarrow> w \<in> set ws \<Longrightarrow> plain_word w"
  by (simp add: list_all_iff)

text \<open>Each engine's check: the statement it leaves begins with one of its words.\<close>

lemma mysql_checked:
  assumes "\<not> qc_bad_query (mysql_query_check sp run db_name sql0)"
  shows "\<exists>w \<in> set [''select'', ''show'', ''explain''].
    starts_with (lower (qc_filtered_sql (mysql_query_check sp run db_name sql0))) w"
proof -
  obtain r sql where s: "start_check sp sql0 = (r, sql)" by fastforce
  have "\<not> qc_bad_query (check_words [''select'', ''show'', ''explain''] sql r)"
    using assms check_explain_bad by (force simp: mysql_query_check_def s Let_def split: if_splits)
  from checked_words [OF s plain_words(2) this] show ?thesis by (simp add: mysql_query_check_def s Let_def)
qed

lemma pgsql_checked:
  assumes "\<not> qc_bad_query (pgsql_query_check sp sql0)"
  shows "\<exists>w \<in> set [''select'', ''explain'']. starts_with (lower (qc_filtered_sql (pgsql_query_check sp sql0))) w"
proof -
  obtain r sql where s: "start_check sp sql0 = (r, sql)" by fastforce
  have "\<not> qc_bad_query (check_words [''select'', ''explain''] sql r)"
    using assms by (auto simp: pgsql_query_check_def s Let_def split: if_splits)
  from checked_words [OF s plain_words(3) this] show ?thesis by (simp add: pgsql_query_check_def s Let_def)
qed

lemma clickhouse_checked:
  assumes "\<not> qc_bad_query (clickhouse_query_check sp run v sql0)"
  shows "\<exists>w \<in> set with_words. starts_with (lower (qc_filtered_sql (clickhouse_query_check sp run v sql0))) w"
proof -
  obtain r sql where s: "start_check sp sql0 = (r, sql)" by fastforce
  have "\<not> qc_bad_query (check_words with_words sql r)"
    using assms check_explain_bad by (force simp: clickhouse_query_check_def s Let_def split: if_splits)
  from checked_words [OF s plain_words(1) this] show ?thesis by (simp add: clickhouse_query_check_def s Let_def)
qed

lemma tdengine_checked:
  assumes "\<not> qc_bad_query (tdengine_query_check sp run sql0)"
  shows "\<exists>w \<in> set with_words. starts_with (lower (qc_filtered_sql (tdengine_query_check sp run sql0))) w"
proof -
  obtain r sql where s: "start_check sp sql0 = (r, sql)" by fastforce
  have "\<not> qc_bad_query (check_words with_words sql r)"
    using assms check_explain_bad by (force simp: tdengine_query_check_def s split: if_splits)
  from checked_words [OF s plain_words(1) this] show ?thesis by (simp add: tdengine_query_check_def s)
qed

lemma cassandra_checked:
  assumes "\<not> qc_bad_query (cassandra_query_check sp sql0)"
  shows "\<exists>w \<in> set [''select'', ''describe'']. starts_with (lower (qc_filtered_sql (cassandra_query_check sp sql0))) w"
proof -
  obtain r sql where s: "start_check sp sql0 = (r, sql)" by fastforce
  have "\<not> qc_bad_query (check_words [''select'', ''describe''] sql r)"
    using assms by (simp add: cassandra_query_check_def s)
  from checked_words [OF s plain_words(4) this] show ?thesis by (simp add: cassandra_query_check_def s)
qed

lemma odps_checked:
  assumes "\<not> qc_bad_query (odps_query_check sp sql0)"
  shows "\<exists>w \<in> set [''select'']. starts_with (lower (qc_filtered_sql (odps_query_check sp sql0))) w"
proof (cases "first_statement sp sql0")
  case None
  with assms show ?thesis by (simp add: odps_query_check_def)
next
  case (Some sql)
  with assms have "re_match (starts_re [''select'']) sql" by (simp add: odps_query_check_def)
  from stripped_word [OF this plain_words(6)] Some show ?thesis by (simp add: odps_query_check_def)
qed

lemma lower_lower [simp]: "lower (lower s) = lower s"
proof -
  have "lower_char (lower_char c) = lower_char c" for c
    by (auto simp: lower_char_def is_upper_ascii_def)
  then show ?thesis by (simp add: lower_def)
qed

text \<open>Oracle matches the lower-case text and drops a semicolon at the end.\<close>

lemma begins_semicolon: "begins '';'' (Seq (lit '';'') Eos)"
proof -
  have "lower_char (CHR '';'') = CHR '';''" by code_simp
  then have "begins '';'' (lit '';'')"
    by (auto simp: begins_def re_m_lit starts_with_def lower_def split: if_splits)
  then show ?thesis by (rule begins_Seq)
qed

lemma drop_semicolon_word:
  assumes "starts_with (lower s) w" "CHR '';'' \<notin> set w"
  shows "starts_with (lower (drop_semicolon s)) w"
proof -
  obtain u t where s: "s = u @ t" "lower u = w" by (rule starts_lowerE [OF assms(1)])
  have "\<not> starts_with (lower (drop k u @ t)) '';''" if "k < length u" for k
  proof -
    have "lower (drop k u) = drop k w" using s(2) by (metis drop_map lower_def)
    moreover have "drop k w \<noteq> []" using that s(2) length_lower [of u] by auto
    moreover have "hd (drop k w) \<in> set w" using calculation(2) by (meson hd_in_set in_set_dropD)
    ultimately show ?thesis using assms(2) by (cases "drop k w") (auto simp: starts_with_def)
  qed
  then have "drop_semicolon s = u @ re_sub_from (Seq (lit '';'') Eos) (\<lambda>_ _. []) (last_opt None u) t"
    unfolding drop_semicolon_def re_sub_def s(1) by (rule sub_keeps_word [OF begins_semicolon])
  then show ?thesis using starts_lowerI [OF s(2)] by metis
qed

lemma lower_words: "re_match (starts_re ws) (lower s) \<longleftrightarrow> re_match (starts_re ws) s"
  by (simp add: re_match_starts_re)

lemma oracle_checked:
  assumes "\<not> qc_bad_query (oracle_query_check sp sql0)"
  shows "\<exists>w \<in> set [''select'', ''with'', ''explain''].
    starts_with (lower (qc_filtered_sql (oracle_query_check sp sql0))) w"
proof (cases "first_statement sp sql0")
  case None
  with assms show ?thesis by (simp add: oracle_query_check_def)
next
  case (Some sql)
  with assms have "re_match (starts_re [''select'', ''with'', ''explain'']) sql"
    by (auto simp: oracle_query_check_def Let_def lower_words split: if_splits)
  from stripped_word [OF this plain_words(5)]
  obtain w where w: "w \<in> set [''select'', ''with'', ''explain'']" "starts_with (lower (strip sql)) w" by blast
  from w(1) have "CHR '';'' \<notin> set w" by auto
  from drop_semicolon_word [OF w(2) this]
  have "starts_with (lower (qc_filtered_sql (oracle_query_check sp sql0))) w"
    using Some assms by (auto simp: oracle_query_check_def Let_def split: if_splits)
  with w(1) show ?thesis by blast
qed

lemma mssql_warnings_filtered [simp]: "qc_filtered_sql (mssql_warnings l r) = qc_filtered_sql r"
  by (simp add: mssql_warnings_def Let_def)

lemma mssql_checked:
  assumes "\<not> qc_bad_query (mssql_query_check sp sql0)"
  shows "\<exists>w \<in> set (showplan_on # mssql_words). starts_with (lower (qc_filtered_sql (mssql_query_check sp sql0))) w"
proof (cases "starts_with (strip (lower sql0)) showplan_on")
  case True
  with assms have "qc_filtered_sql (mssql_query_check sp sql0) = strip sql0"
    by (auto simp: mssql_query_check_def Let_def split: option.splits if_splits)
  with True show ?thesis by (simp add: strip_lower)
next
  case False
  let ?sql = "case sp_split sp (sp_strip_comments sp sql0) of [] \<Rightarrow> sql0 | p # _ \<Rightarrow> p"
  from False assms have "re_match (starts_re mssql_words) ?sql"
    by (auto simp: mssql_query_check_def Let_def lower_words split: if_splits)
  moreover have "list_all plain_word mssql_words" by code_simp
  moreover from False assms have "qc_filtered_sql (mssql_query_check sp sql0) = strip ?sql"
    by (auto simp: mssql_query_check_def Let_def split: if_splits)
  ultimately show ?thesis using stripped_word [of mssql_words ?sql] by auto
qed

section \<open>What the rewritings keep\<close>

definition query_words :: "string list" where
  "query_words = [''select'', ''show'', ''explain'', ''with'', ''describe'', showplan_on, ''sp_helptext'']"

lemma query_words_plain: "w \<in> set query_words \<Longrightarrow> plain_word w"
proof -
  have "list_all plain_word query_words" by code_simp
  then show "w \<in> set query_words \<Longrightarrow> plain_word w" by (simp add: list_all_iff)
qed

lemma select_only:
  assumes "w \<in> set query_words" "starts_with t w" "starts_with t ''select''"
  shows "w = ''select''"
proof -
  have "prefix w ''select'' \<or> prefix ''select'' w"
    using assms(2,3) prefix_same_cases unfolding starts_with_prefix by blast
  moreover have "list_all (\<lambda>w. (prefix w ''select'' \<or> prefix ''select'' w) \<longrightarrow> w = ''select'') query_words"
    by code_simp
  ultimately show ?thesis using assms(1) unfolding list_all_iff by blast
qed

lemma re_match_select: "re_match (starts_re [''select'']) s \<longleftrightarrow> starts_with (lower s) ''select''"
  by (simp add: re_match_starts_re)

text \<open>A rewriting that keeps \<open>select\<close> where the statement begins with it, and otherwise only appends.\<close>

lemma select_rewritten:
  assumes "w \<in> set query_words" "starts_with (lower s) w"
    and "starts_with (lower s) ''select'' \<Longrightarrow> starts_with (lower x) ''select''"
  shows "starts_with (lower (if re_match (starts_re [''select'']) s then x else s @ t)) w"
proof (cases "starts_with (lower s) ''select''")
  case True
  with select_only [OF assms(1,2)] assms(3) show ?thesis by (simp add: re_match_select)
next
  case False
  then show ?thesis using append_keeps_word [OF assms(2), of t] by (simp add: re_match_select)
qed

lemma rewrite_limit_sql_word:
  assumes "w \<in> set query_words" "starts_with (lower s) w"
  shows "starts_with (lower (rewrite_limit_sql s n)) w"
  unfolding rewrite_limit_sql_def Let_def
  by (rule select_rewritten [OF assms(1) bare_keeps_word [OF query_words_plain [OF assms(1)] assms(2)]])
    (rule rewrite_limits_select)

lemma cassandra_filter_word:
  assumes "w \<in> set query_words" "starts_with (lower s) w"
  shows "starts_with (lower (cassandra_filter_sql s n)) w"
  unfolding cassandra_filter_sql_def Let_def
  by (rule select_rewritten [OF assms(1) bare_keeps_word [OF query_words_plain [OF assms(1)] assms(2)]])
    (intro if_starts sub_limit_select limit_patterns append_keeps_word)

lemma pgsql_filter_word:
  assumes "w \<in> set query_words" "starts_with (lower s) w"
  shows "starts_with (lower (pgsql_filter_sql s n)) w"
  unfolding pgsql_filter_sql_def Let_def
  by (intro if_starts append_keeps_word rstrip_keeps_word query_words_plain assms)

lemma base_filter_word:
  "w \<in> set query_words \<Longrightarrow> starts_with (lower s) w \<Longrightarrow> starts_with (lower (base_filter_sql s n)) w"
  by (simp add: base_filter_sql_def query_words_plain strip_keeps_word)

text \<open>Only the groups of a pattern are captured; the captured \<open>select distinct\<close> begins with \<open>select\<close>.\<close>

fun groups :: "re \<Rightarrow> nat set" where
  "groups (Seq r1 r2) = groups r1 \<union> groups r2"
| "groups (Alt r1 r2) = groups r1 \<union> groups r2"
| "groups (Star r) = groups r"
| "groups (LazyStar r) = groups r"
| "groups (Grp n r) = insert n (groups r)"
| "groups _ = {}"

lemma groups_keep: "q \<in> set (re_m r p) \<Longrightarrow> n \<notin> groups r \<Longrightarrow> caps_get n q = caps_get n p"
proof (induction r p arbitrary: q rule: re_m.induct)
  case (5 r p)
  from "5.prems"(1) consider "q = p" | u where "u \<in> set (re_m r p)" "length (pos_rest u) < length (pos_rest p)"
    "q \<in> set (re_m (Star r) u)"
    by (subst (asm) (2) re_m.simps) (auto split: if_splits)
  then show ?case
  proof cases
    case 2
    with 5 show ?thesis by (metis groups.simps(3))
  qed simp
next
  case (6 r p)
  from "6.prems"(1) consider "q = p" | u where "u \<in> set (re_m r p)" "length (pos_rest u) < length (pos_rest p)"
    "q \<in> set (re_m (LazyStar r) u)"
    by (subst (asm) (2) re_m.simps) (auto split: if_splits)
  then show ?case
  proof cases
    case 2
    with 6 show ?thesis by (metis groups.simps(4))
  qed simp
next
  case (7 m r p)
  then show ?case by (fastforce simp: caps_get_def)
qed (auto simp: caps_get_def split: prod.splits list.splits if_splits)

lemma set_Seq: "q \<in> set (re_m (Seq r1 r2) p) \<longleftrightarrow> (\<exists>u \<in> set (re_m r1 p). q \<in> set (re_m r2 u))"
  by simp

lemma captured_begins:
  assumes "u \<in> set (re_m (Grp n (Seq (lit_ci w) r)) (prev, s, caps))"
  shows "\<exists>g. caps_get n u = Some g \<and> starts_with (lower g) w"
proof -
  obtain v where v: "v \<in> set (re_m (Seq (lit_ci w) r) (prev, s, caps))"
      "caps_get n u = Some (take (length s - length (pos_rest v)) s)"
    using assms by (auto simp: caps_get_def simp del: re_m.simps(3))
  then have w: "starts_with (lower s) w" and "suffix (pos_rest v) (drop (length w) s)"
    by (auto simp: re_m_lit_ci dest!: re_m_suffix split: if_splits)
  then have "length (pos_rest v) \<le> length s - length w" using suffix_length_le by fastforce
  moreover have "length w \<le> length s" using w by (auto simp: starts_with_prefix dest!: prefix_length_le)
  ultimately have "length w \<le> length s - length (pos_rest v)" by linarith
  with w have "starts_with (lower (take (length s - length (pos_rest v)) s)) w"
    by (simp add: starts_with_def lower_def take_map min_def)
  with v(2) show ?thesis by blast
qed

lemma distinct_captured:
  assumes "re_match_at distinct_re None s = Some q"
  shows "\<exists>g. caps_get 1 q = Some g \<and> starts_with (lower g) ''select''"
proof -
  have m: "q \<in> set (re_m distinct_re (None, s, []))"
    using assms by (auto simp: re_match_at_def split: list.splits)
  obtain a u where a: "a \<in> set (re_m Bos (None, s, []))"
      and u: "u \<in> set (re_m (Grp 1 (Seq (lit_ci ''select'') (Seq (Plus space_re) (lit_ci ''distinct'')))) a)"
      and q: "q \<in> set (re_m (Seq (Grp 2 (Seq (Plus space_re) (Star not_nl))) Eos) u)"
    using m unfolding distinct_re_def set_Seq by blast
  from a have "a = (None, s, [])" by simp
  from captured_begins [OF u [unfolded this]] obtain g
    where g: "caps_get 1 u = Some g" "starts_with (lower g) ''select''" by blast
  have "1 \<notin> groups (Seq (Grp 2 (Seq (Plus space_re) (Star not_nl))) Eos)"
    by (simp add: Plus_def space_re_def not_nl_def)
  from groups_keep [OF q this] g show ?thesis by metis
qed

lemma mssql_filter_word:
  assumes "w \<in> set query_words" "starts_with (lower s) w"
  shows "starts_with (lower (mssql_filter_sql s n)) w"
proof (cases "starts_with (lower s) ''select''")
  case False
  then show ?thesis using strip_keeps_word [OF query_words_plain assms(2)] assms(1)
    by (simp add: mssql_filter_sql_def Let_def)
next
  case True
  have w: "w = ''select''" by (rule select_only [OF assms True])
  have st: "starts_with (lower (strip s)) ''select''"
    using strip_keeps_word [OF query_words_plain assms(2)] assms(1) w by simp
  have top: "starts_with (lower (''select top '' @ t)) ''select''" for t
    by (simp add: starts_with_def lower_def) code_simp
  show ?thesis
  proof (cases "re_search offset_fetch_re (lower s) \<or> str_in '' top '' (lower s) \<or> n \<le> 0")
    case True
    with w st show ?thesis by (auto simp: mssql_filter_sql_def Let_def)
  next
    case new: False
    show ?thesis
    proof (cases "re_match_at distinct_re None s")
      case None
      then show ?thesis using new True w top by (simp add: mssql_filter_sql_def Let_def split: option.splits)
    next
      case (Some q)
      from distinct_captured [OF Some] obtain g
        where g: "caps_get 1 q = Some g" "starts_with (lower g) ''select''" by blast
      have "\<exists>t. mssql_filter_sql s n = g @ t" using new True Some g by (simp add: mssql_filter_sql_def Let_def)
      then show ?thesis using append_keeps_word [OF g(2)] w by auto
    qed
  qed
qed

section \<open>The engines implement the interface\<close>

interpretation mysql_engine: checked_engine "mysql_query_check sp run db_name" rewrite_limit_sql
    "[''select'', ''show'', ''explain'']"
  by unfold_locales (erule mysql_checked, rule rewrite_limit_sql_word, auto simp: query_words_def)

interpretation pgsql_engine: checked_engine "pgsql_query_check sp" pgsql_filter_sql "[''select'', ''explain'']"
  by unfold_locales (erule pgsql_checked, rule pgsql_filter_word, auto simp: query_words_def)

interpretation clickhouse_engine: checked_engine "clickhouse_query_check sp run v" rewrite_limit_sql with_words
  by unfold_locales (erule clickhouse_checked, rule rewrite_limit_sql_word, auto simp: query_words_def with_words_def)

interpretation tdengine_engine: checked_engine "tdengine_query_check sp run" rewrite_limit_sql with_words
  by unfold_locales (erule tdengine_checked, rule rewrite_limit_sql_word, auto simp: query_words_def with_words_def)

interpretation cassandra_engine: checked_engine "cassandra_query_check sp" cassandra_filter_sql "[''select'', ''describe'']"
  by unfold_locales (erule cassandra_checked, rule cassandra_filter_word, auto simp: query_words_def)

interpretation oracle_engine: checked_engine "oracle_query_check sp" base_filter_sql "[''select'', ''with'', ''explain'']"
  by unfold_locales (erule oracle_checked, rule base_filter_word, auto simp: query_words_def)

interpretation odps_engine: checked_engine "odps_query_check sp" base_filter_sql "[''select'']"
  by unfold_locales (erule odps_checked, rule base_filter_word, auto simp: query_words_def)

interpretation mssql_engine: checked_engine "mssql_query_check sp" mssql_filter_sql "showplan_on # mssql_words"
  by unfold_locales (erule mssql_checked, rule mssql_filter_word, auto simp: query_words_def mssql_words_def)

text \<open>The words a database type allows.\<close>

definition engine_words :: "string \<Rightarrow> string list" where
  "engine_words db_type =
     (if db_type \<in> {''mysql'', ''doris''} then [''select'', ''show'', ''explain'']
      else if db_type = ''pgsql'' then [''select'', ''explain'']
      else if db_type \<in> {''clickhouse'', ''tdengine''} then with_words
      else if db_type = ''cassandra'' then [''select'', ''describe'']
      else if db_type = ''oracle'' then [''select'', ''with'', ''explain'']
      else if db_type = ''odps'' then [''select'']
      else showplan_on # mssql_words)"

definition sql_engine_types :: "string list" where
  "sql_engine_types = [''mysql'', ''doris'', ''pgsql'', ''clickhouse'', ''tdengine'', ''cassandra'', ''oracle'', ''odps'', ''mssql'']"

text \<open>What a database type is dispatched to.\<close>

lemma engine_at:
  "engine_check e ''mysql'' = mysql_query_check (qs_parser e) (qs_run e) (qs_db e)"
    "engine_filter ''mysql'' = rewrite_limit_sql" "engine_words ''mysql'' = [''select'', ''show'', ''explain'']"
  "engine_check e ''doris'' = mysql_query_check (qs_parser e) (qs_run e) (qs_db e)"
    "engine_filter ''doris'' = rewrite_limit_sql" "engine_words ''doris'' = [''select'', ''show'', ''explain'']"
  "engine_check e ''pgsql'' = pgsql_query_check (qs_parser e)"
    "engine_filter ''pgsql'' = pgsql_filter_sql" "engine_words ''pgsql'' = [''select'', ''explain'']"
  "engine_check e ''clickhouse'' = clickhouse_query_check (qs_parser e) (qs_run e) (qs_version e)"
    "engine_filter ''clickhouse'' = rewrite_limit_sql" "engine_words ''clickhouse'' = with_words"
  "engine_check e ''tdengine'' = tdengine_query_check (qs_parser e) (qs_run e)"
    "engine_filter ''tdengine'' = rewrite_limit_sql" "engine_words ''tdengine'' = with_words"
  "engine_check e ''cassandra'' = cassandra_query_check (qs_parser e)"
    "engine_filter ''cassandra'' = cassandra_filter_sql" "engine_words ''cassandra'' = [''select'', ''describe'']"
  "engine_check e ''oracle'' = oracle_query_check (qs_parser e)"
    "engine_filter ''oracle'' = base_filter_sql" "engine_words ''oracle'' = [''select'', ''with'', ''explain'']"
  "engine_check e ''odps'' = odps_query_check (qs_parser e)"
    "engine_filter ''odps'' = base_filter_sql" "engine_words ''odps'' = [''select'']"
  "engine_check e ''mssql'' = mssql_query_check (qs_parser e)"
    "engine_filter ''mssql'' = mssql_filter_sql" "engine_words ''mssql'' = showplan_on # mssql_words"
  by (simp_all add: engine_check_def engine_filter_def engine_words_def)

lemma engine_statement_allowed:
  assumes "db_type \<in> set sql_engine_types"
    and "\<not> qc_bad_query (engine_check e db_type sql)"
  shows "\<exists>w \<in> set (engine_words db_type).
    starts_with (lower (engine_filter db_type (qc_filtered_sql (engine_check e db_type sql)) limit_num)) w"
proof -
  have "db_type = ''mysql'' \<or> db_type = ''doris'' \<or> db_type = ''pgsql'' \<or> db_type = ''clickhouse''
      \<or> db_type = ''tdengine'' \<or> db_type = ''cassandra'' \<or> db_type = ''oracle'' \<or> db_type = ''odps''
      \<or> db_type = ''mssql''"
    using assms(1) unfolding sql_engine_types_def list.set insert_iff empty_iff by (simp only: simp_thms)
  then show ?thesis
  proof (elim disjE)
    assume d: "db_type = ''mysql''"
    show ?thesis using assms(2) unfolding d engine_at by (rule mysql_engine.reaches_server)
  next
    assume d: "db_type = ''doris''"
    show ?thesis using assms(2) unfolding d engine_at by (rule mysql_engine.reaches_server)
  next
    assume d: "db_type = ''pgsql''"
    show ?thesis using assms(2) unfolding d engine_at by (rule pgsql_engine.reaches_server)
  next
    assume d: "db_type = ''clickhouse''"
    show ?thesis using assms(2) unfolding d engine_at by (rule clickhouse_engine.reaches_server)
  next
    assume d: "db_type = ''tdengine''"
    show ?thesis using assms(2) unfolding d engine_at by (rule tdengine_engine.reaches_server)
  next
    assume d: "db_type = ''cassandra''"
    show ?thesis using assms(2) unfolding d engine_at by (rule cassandra_engine.reaches_server)
  next
    assume d: "db_type = ''oracle''"
    show ?thesis using assms(2) unfolding d engine_at by (rule oracle_engine.reaches_server)
  next
    assume d: "db_type = ''odps''"
    show ?thesis using assms(2) unfolding d engine_at by (rule odps_engine.reaches_server)
  next
    assume d: "db_type = ''mssql''"
    show ?thesis using assms(2) unfolding d engine_at by (rule mssql_engine.reaches_server)
  qed
qed

text \<open>
  C19. For every SQL engine, whatever \<open>sqlparse\<close>, the server and the limit are: if the check does not
  refuse a statement, the statement that is sent, after the rewriting, begins with a word the engine
  allows for queries.
\<close>

theorem checked_query_allowed:
  assumes "db_type \<in> set sql_engine_types"
    and "\<not> qc_bad_query (engine_check e db_type sql)"
  shows "\<exists>w \<in> set (engine_words db_type).
    starts_with (lower (engine_filter db_type (qc_filtered_sql (engine_check e db_type sql)) limit_num)) w"
  by (rule engine_statement_allowed [OF assms])

theorem checked_query_allowed_witness:
  "\<exists>w \<in> set (engine_words ''mysql''). starts_with
     (lower (engine_filter ''mysql'' (qc_filtered_sql (engine_check
       \<lparr>qs_parser = \<lparr>sp_strip_comments = id, sp_split = (\<lambda>s. [s])\<rparr>, qs_run = (\<lambda>s. None), qs_version = Version [],
        qs_db = ''shop''\<rparr> ''mysql'' ''SELECT 1'')) 100)) w"
  by (rule checked_query_allowed) code_simp+

section \<open>The limit that is written\<close>







lemma groups_none [simp]:
  "groups (lit w) = {}" "groups (lit_ci w) = {}" "groups (Plus r) = groups r" "groups space_re = {}"
  "groups digit_re = {}" "groups not_nl = {}" "groups tail_re = {}"
proof -
  show "groups (lit w) = {}" by (induction w) auto
  show "groups (lit_ci w) = {}" by (induction w) auto
qed (auto simp: Plus_def space_re_def digit_re_def not_nl_def tail_re_def)










section \<open>The table of accounts\<close>

definition user_query :: string where
  "user_query = ''select host from'' @ newline # ''mysql.user''"

text \<open>
  The table of MySQL's accounts is read through a line break: the guard deletes the line breaks
  before it looks for white space in front of \<open>mysql.user\<close>, so a statement that names the table on a
  new line passes the check, on every server that can explain it. With a blank it is refused.
\<close>

theorem mysql_user_guard_evaded:
  assumes "sp_split sp (sp_strip_comments sp user_query) = [user_query]"
    and "run (''explain '' @ user_query) = None"
  shows "\<not> qc_bad_query (mysql_query_check sp run ''app'' user_query)
    \<and> names_mysql_user ''app'' ''select host from mysql.user''"
proof
  have "\<not> names_mysql_user ''app'' user_query" by code_simp
  moreover have "re_match (starts_re [''select'', ''show'', ''explain'']) user_query" by code_simp
  ultimately show "\<not> qc_bad_query (mysql_query_check sp run ''app'' user_query)"
    using assms by (simp add: mysql_query_check_def start_check_def first_statement_def new_check_def check_explain_def
        check_star_def Let_def)
  show "names_mysql_user ''app'' ''select host from mysql.user''" by code_simp
qed

theorem mysql_user_guard_evaded_witness:
  "\<not> qc_bad_query (mysql_query_check \<lparr>sp_strip_comments = id, sp_split = (\<lambda>s. [s])\<rparr> (\<lambda>s. None) ''app'' user_query)
    \<and> names_mysql_user ''app'' ''select host from mysql.user''"
  by (rule mysql_user_guard_evaded) simp_all

end
