(* ===== verification/RedisEngine.thy ===== *)
theory RedisEngine
  imports ResultSets Regex
begin

text \<open>
  \<open>sql/engines/redis.py\<close>: the cached connection, the addresses of a cluster's masters, the list of
  databases, the check of queries and releases against lists of commands, and their execution. A
  command is split into arguments by \<open>shlex.split\<close> of the standard library, written out here. The
  client of the third-party \<open>redis\<close> package is a parameter: a function from the arguments of a command
  to its reply, over a state \<open>'s\<close> of its own. Texts shown to users are in English.
\<close>

section \<open>shlex.split\<close>

text \<open>
  The states of the lexer in POSIX mode: between words, in a word, in quotes, and after a backslash,
  which stands in the given quotes or in none. \<open>quoted\<close> tells whether the current word had quotes, so
  that it counts even when it is empty.
\<close>

datatype sh_state = ShBlank | ShWord | ShQuote char | ShEscape "char option"

definition sh_space :: "char \<Rightarrow> bool" where
  "sh_space c = (char_code c \<in> {9, 10, 13, 32})"

definition backslash :: char where
  "backslash = char_of (92 :: nat)"

definition dquote :: char where
  "dquote = char_of (34 :: nat)"

definition squote :: char where
  "squote = char_of (39 :: nat)"

fun shlex_go :: "sh_state \<Rightarrow> bool \<Rightarrow> string \<Rightarrow> string \<Rightarrow> string list res" where
  "shlex_go (ShQuote _) quoted tok [] = Inl (ValueError ''No closing quotation'')"
| "shlex_go (ShEscape _) quoted tok [] = Inl (ValueError ''No escaped character'')"
| "shlex_go _ quoted tok [] = Inr (if tok \<noteq> [] \<or> quoted then [tok] else [])"
| "shlex_go (ShQuote d) quoted tok (c # cs) =
     (if c = d then shlex_go ShWord True tok cs
      else if c = backslash \<and> d = dquote then shlex_go (ShEscape (Some d)) True tok cs
      else shlex_go (ShQuote d) True (tok @ [c]) cs)"
| "shlex_go (ShEscape q) quoted tok (c # cs) =
     (case q of
        None \<Rightarrow> shlex_go ShWord quoted (tok @ [c]) cs
      | Some d \<Rightarrow> shlex_go (ShQuote d) quoted
          (tok @ (if c \<noteq> backslash \<and> c \<noteq> d then [backslash] else []) @ [c]) cs)"
| "shlex_go _ quoted tok (c # cs) =
     (if sh_space c then
        (if tok \<noteq> [] \<or> quoted then bindE (shlex_go ShBlank False [] cs) (\<lambda>ts. Inr (tok # ts))
         else shlex_go ShBlank False [] cs)
      else if c = backslash then shlex_go (ShEscape None) quoted tok cs
      else if c = dquote \<or> c = squote then shlex_go (ShQuote c) quoted tok cs
      else shlex_go ShWord quoted (tok @ [c]) cs)"

definition shlex_split :: "string \<Rightarrow> string list res" where
  "shlex_split s = shlex_go ShBlank False [] s"

section \<open>Connections\<close>

record 'c redis_cache =
  rd_conn :: "'c option"
  rd_conn_db :: "string option"

definition redis_close :: "('c redis_cache, unit) M" where
  "redis_close = modifyM (\<lambda>k. k\<lparr>rd_conn := None, rd_conn_db := None\<rparr>)"

definition redis_open :: "(string option \<Rightarrow> 'c res) \<Rightarrow> string \<Rightarrow> string \<Rightarrow> ('c redis_cache, 'c) M" where
  "redis_open connect mode db_name =
     (let db = (if mode = ''cluster'' then None else Some db_name) in
      bindM (liftM (\<lambda>_. connect db)) (\<lambda>c.
        thenM (modifyM (\<lambda>k. k\<lparr>rd_conn := Some c, rd_conn_db := db\<rparr>)) (ret c)))"

text \<open>\<open>get_connection\<close>: \<open>connect\<close> opens a client, of the cluster (\<open>None\<close>) or of a database.\<close>

definition redis_get_connection ::
  "(string option \<Rightarrow> 'c res) \<Rightarrow> string \<Rightarrow> string \<Rightarrow> string \<Rightarrow> ('c redis_cache, 'c) M" where
  "redis_get_connection connect mode self_db db_name0 =
     (let db_name = (if db_name0 \<noteq> [] then db_name0 else self_db) in
      bindM (getsM (\<lambda>k. k)) (\<lambda>k. case rd_conn k of
          Some c \<Rightarrow>
            (if mode = ''cluster'' \<or> rd_conn_db k = Some db_name then ret c
             else thenM redis_close (redis_open connect mode db_name))
        | None \<Rightarrow> redis_open connect mode db_name))"

definition format_host_port :: "string \<Rightarrow> string \<Rightarrow> string" where
  "format_host_port host port =
     (if CHR '':'' \<in> set host \<and> \<not> starts_with host ''['' then ''['' @ host @ '']:'' @ port else host @ '':'' @ port)"

text \<open>\<open>str.split()\<close>, and \<open>str.rsplit(":", 1)\<close> where the text has a colon.\<close>

fun split_space :: "string \<Rightarrow> string list" where
  "split_space [] = [[]]"
| "split_space (c # cs) = (case split_space cs of
       w # ws \<Rightarrow> (if is_space c then [] # w # ws else (c # w) # ws)
     | [] \<Rightarrow> [])"

definition split_words :: "string \<Rightarrow> string list" where
  "split_words s = filter (\<lambda>w. w \<noteq> []) (split_space s)"

definition rsplit_colon :: "string \<Rightarrow> (string \<times> string) option" where
  "rsplit_colon s = (case dropWhile (\<lambda>c. c \<noteq> CHR '':'') (rev s) of
       [] \<Rightarrow> None
     | _ # p \<Rightarrow> Some (rev p, rev (takeWhile (\<lambda>c. c \<noteq> CHR '':'') (rev s))))"

definition node_address :: "string \<Rightarrow> string" where
  "node_address p =
     (let hp = hd (split_on (CHR '','') (hd (split_on (CHR ''@'') p))) in
      if 1 < length (filter (\<lambda>c. c = CHR '':'') hp) \<and> \<not> starts_with hp ''['' then
        (case rsplit_colon hp of Some (h, q) \<Rightarrow> ''['' @ h @ '']:'' @ q | None \<Rightarrow> hp)
      else hp)"

definition is_master :: "string list \<Rightarrow> bool" where
  "is_master parts = (8 \<le> length parts \<and> str_in ''master'' (parts ! 2) \<and> \<not> str_in ''fail'' (parts ! 2))"

definition cluster_masters :: "string \<Rightarrow> string list" where
  "cluster_masters nodes_info = map (\<lambda>parts. node_address (parts ! 1))
     (filter is_master (map split_words (filter (\<lambda>l. strip l \<noteq> []) (split_on newline nodes_info))))"

text \<open>\<open>nodes_info\<close> is the answer to \<open>CLUSTER NODES\<close>, or the error of the connection.\<close>

definition get_cluster_master_nodes :: "string \<Rightarrow> string \<Rightarrow> string \<Rightarrow> string res \<Rightarrow> string list" where
  "get_cluster_master_nodes mode host port nodes_info =
     (if mode \<noteq> ''cluster'' then [format_host_port host port]
      else (case nodes_info of
          Inl e \<Rightarrow> [format_host_port host port]
        | Inr t \<Rightarrow> (if cluster_masters t \<noteq> [] then cluster_masters t else [format_host_port host port])))"

section \<open>Databases\<close>

fun split_first :: "string \<Rightarrow> string \<Rightarrow> (string \<times> string) option" where
  "split_first sep [] = None"
| "split_first sep (c # cs) =
     (if starts_with (c # cs) sep then Some ([], drop (length sep) (c # cs))
      else map_option (\<lambda>(a, b). (c # a, b)) (split_first sep cs))"

text \<open>\<open>db3\<close> is database 3: what follows the only \<open>db\<close> of the key is a number.\<close>

definition db_number :: "string \<Rightarrow> nat option" where
  "db_number key = (case split_first ''db'' key of
       Some (_, n) \<Rightarrow> (if n \<noteq> [] \<and> list_all is_digit n then nat_lit n else None)
     | None \<Rightarrow> None)"

definition db_text :: "nat \<Rightarrow> int \<Rightarrow> string" where
  "db_text i keys = (if 0 < keys then ''db'' @ str_nat i @ ''['' @ str_int keys @ '']'' else ''db'' @ str_nat i)"

definition keyspace_counts :: "(string \<times> int) list \<Rightarrow> (nat \<times> int) list" where
  "keyspace_counts info = dict_of (concat (map (\<lambda>(key, n). case db_number key of
       Some i \<Rightarrow> [(i, n)] | None \<Rightarrow> []) info))"

definition keyspace_rows :: "(string \<times> int) list \<Rightarrow> (string \<times> string) list" where
  "keyspace_rows info = (let d = keyspace_counts info in
     map (\<lambda>i. (str_nat i, db_text i (case map_of d i of Some n \<Rightarrow> n | None \<Rightarrow> 0)))
       [0..<Suc (Max (set (15 # map fst d)))])"

text \<open>A cluster has one database; the keys of the masters that answer are added up.\<close>

definition is_bracket :: "char \<Rightarrow> bool" where
  "is_bracket c = (c = CHR ''['' \<or> c = CHR '']'')"

definition strip_brackets :: "string \<Rightarrow> string" where
  "strip_brackets h = rev (dropWhile is_bracket (rev (dropWhile is_bracket h)))"

definition node_keys :: "(string \<Rightarrow> int \<Rightarrow> int option res) \<Rightarrow> int \<Rightarrow> string \<Rightarrow> int" where
  "node_keys info port0 node =
     (case (case rsplit_colon node of
              None \<Rightarrow> info (strip_brackets node) port0
            | Some (h, p) \<Rightarrow> bindE (py_int p) (info (strip_brackets h))) of
        Inr (Some n) \<Rightarrow> n
      | _ \<Rightarrow> 0)"

definition cluster_rows :: "(string \<Rightarrow> int \<Rightarrow> int option res) \<Rightarrow> int \<Rightarrow> string list \<Rightarrow> (string \<times> string) list" where
  "cluster_rows info port0 masters =
     [(''0'', db_text 0 (sum_list (map (node_keys info port0) masters)))]"

section \<open>The commands\<close>

definition safe_single_cmds :: "string list" where
  "safe_single_cmds =
    [''get'', ''mget'', ''strlen'', ''getrange'', ''getbit'', ''bitcount'', ''bitpos'', ''hget'',
     ''hmget'', ''hgetall'', ''hkeys'', ''hvals'', ''hlen'', ''hexists'', ''hstrlen'', ''llen'',
     ''lindex'', ''lrange'', ''scard'', ''smembers'', ''sismember'', ''srandmember'', ''sdiff'',
     ''sinter'', ''sunion'', ''zcard'', ''zcount'', ''zrange'', ''zrevrange'', ''zrangebyscore'',
     ''zrevrangebyscore'', ''zscore'', ''zrank'', ''zrevrank'', ''zlexcount'', ''zrangebylex'',
     ''zrevrangebylex'', ''zmscore'', ''pfcount'', ''geopos'', ''geodist'', ''geohash'',
     ''geosearch'', ''exists'', ''ttl'', ''pttl'', ''type'', ''dbsize'', ''dump'', ''scan'',
     ''xlen'', ''xrange'', ''xrevrange'', ''xpending'', ''time'', ''command'', ''readonly'']"

definition safe_multi_cmds :: "string list" where
  "safe_multi_cmds =
    [''memory usage'', ''memory stats'', ''memory doctor'', ''client info'', ''client getname'',
     ''client getredir'', ''client trackinginfo'', ''slowlog len'']"

definition exec_single_cmds :: "string list" where
  "exec_single_cmds =
    [''append'', ''decr'', ''decrby'', ''getdel'', ''getex'', ''incr'', ''incrby'', ''incrbyfloat'',
     ''mset'', ''msetnx'', ''psetex'', ''set'', ''setex'', ''setnx'', ''setrange'', ''hdel'',
     ''hincrby'', ''hincrbyfloat'', ''hmset'', ''hset'', ''hsetnx'', ''blmove'', ''blmpop'',
     ''linsert'', ''lmove'', ''lmpop'', ''lpop'', ''lpush'', ''lpushx'', ''lrem'', ''lset'',
     ''ltrim'', ''rpop'', ''rpoplpush'', ''rpush'', ''rpushx'', ''sadd'', ''sdiffstore'',
     ''sinterstore'', ''smove'', ''spop'', ''srem'', ''sunionstore'', ''zadd'', ''zdiffstore'',
     ''zincrby'', ''zinterstore'', ''zmpop'', ''zpopmax'', ''zpopmin'', ''zrangestore'', ''zrem'',
     ''zremrangebylex'', ''zremrangebyrank'', ''zremrangebyscore'', ''zunionstore'', ''setbit'',
     ''pfadd'', ''pfmerge'', ''geoadd'', ''geosearchstore'', ''copy'', ''del'', ''expire'',
     ''expireat'', ''move'', ''persist'', ''pexpire'', ''pexpireat'', ''rename'', ''renamenx'',
     ''sort'', ''touch'', ''unlink'', ''discard'', ''exec'', ''multi'', ''unwatch'', ''watch'',
     ''xack'', ''xadd'', ''xautoclaim'', ''xclaim'', ''xdel'', ''xtrim'', ''bgsave'']"

definition exec_multi_cmds :: "string list" where
  "exec_multi_cmds =
    [''xgroup create'', ''xgroup createconsumer'', ''xgroup delconsumer'', ''xgroup destroy'',
     ''xgroup setid'']"

text \<open>\<open>re.sub(r"\s+", " ", s)\<close>, and whether a command of a list stands at the start.\<close>

definition squeeze :: "string \<Rightarrow> string" where
  "squeeze s = re_sub (Plus space_re) '' '' s"

definition names_command :: "string list \<Rightarrow> string list \<Rightarrow> string \<Rightarrow> bool" where
  "names_command multi single sql =
     (let sql_stripped = squeeze (strip sql) in
      (\<exists>c \<in> set multi. starts_with (lower sql_stripped) c)
      \<or> (\<exists>c \<in> set single. re_match (word_cmd c) sql_stripped))"

text \<open>\<open>query_check\<close>: whether the query is refused.\<close>

definition redis_query_check :: "string \<Rightarrow> bool" where
  "redis_query_check sql = (\<not> names_command safe_multi_cmds safe_single_cmds sql)"

definition redis_filter_sql :: "string \<Rightarrow> int \<Rightarrow> string" where
  "redis_filter_sql sql limit_num = strip sql"

section \<open>Queries\<close>

datatype redis_reply = RVal pyval | RList "redis_reply list" | RDict "(string \<times> redis_reply) list"

type_synonym 's redis_client = "string list \<Rightarrow> ('s, redis_reply) M"

record redis_result =
  rq_columns :: "string list"
  rq_rows :: "redis_reply list list"
  rq_affected :: int
  rq_error :: "string option"

definition no_result :: redis_result where
  "no_result = \<lparr>rq_columns = [], rq_rows = [], rq_affected = 0, rq_error = None\<rparr>"

text \<open>What iterating over a value yields.\<close>

fun reply_items :: "redis_reply \<Rightarrow> redis_reply list res" where
  "reply_items (RList rs) = Inr rs"
| "reply_items (RDict d) = Inr (map (RVal \<circ> PStr \<circ> fst) d)"
| "reply_items (RVal (PStr s)) = Inr (map (\<lambda>c. RVal (PStr [c])) s)"
| "reply_items (RVal _) = Inl (TypeError ''object is not iterable'')"

definition table_reply :: "string \<Rightarrow> (redis_reply \<Rightarrow> string) \<Rightarrow> redis_reply \<Rightarrow> (string list \<times> redis_reply list list \<times> int) res" where
  "table_reply sql dumps reply = (case reply of
       RList rows \<Rightarrow>
         (if starts_with (lower (strip sql)) ''scan'' then
            (if length rows < 2 then Inl (PyException ''list index out of range'')
             else bindE (reply_items (rows ! 1)) (\<lambda>ks.
                    Inr ([''Result''], [rows ! 0] # map (\<lambda>k. [k]) ks, int (length ks))))
          else Inr ([''Result''], map (\<lambda>r. [r]) rows, int (length rows)))
     | RDict d \<Rightarrow> Inr ([''field'', ''value''],
         map (\<lambda>(k, v). [RVal (PStr k), case v of RVal x \<Rightarrow> RVal x | _ \<Rightarrow> RVal (PStr (dumps v))]) d, int (length d))
     | RVal v \<Rightarrow> Inr ([''Result''], [[RVal v]], if truthy v then 1 else 0))"

definition redis_send :: "'s redis_client \<Rightarrow> string \<Rightarrow> ('s, redis_reply) M" where
  "redis_send client sql = bindM (liftM (\<lambda>_. shlex_split sql)) client"

text \<open>\<open>query\<close>: an exception becomes the error of the result.\<close>

definition redis_query :: "(redis_reply \<Rightarrow> string) \<Rightarrow> 's redis_client \<Rightarrow> string \<Rightarrow> int \<Rightarrow> ('s, redis_result) M" where
  "redis_query dumps client sql limit_num = (\<lambda>s. case redis_send client sql s of
       (Inl e, s') \<Rightarrow> (Inr (no_result\<lparr>rq_error := Some (exn_str e)\<rparr>), s')
     | (Inr reply, s') \<Rightarrow> (case table_reply sql dumps reply of
           Inl e \<Rightarrow> (Inr (no_result\<lparr>rq_columns := [''Result''], rq_error := Some (exn_str e)\<rparr>), s')
         | Inr (cols, rows, n) \<Rightarrow> (Inr (no_result\<lparr>rq_columns := cols,
             rq_rows := (if 0 < limit_num then take (nat limit_num) rows else rows), rq_affected := n\<rparr>), s')))"

section \<open>Releases\<close>

definition redis_commands :: "string \<Rightarrow> string list" where
  "redis_commands sql = filter (\<lambda>c. c \<noteq> []) (map strip (split_on newline sql))"

definition check_row :: "int \<Rightarrow> string \<Rightarrow> review_result" where
  "check_row line cmd =
     (let r = new_ReviewResult\<lparr>rr_id := line, rr_sql := cmd\<rparr> in
      if \<not> redis_query_check cmd then r\<lparr>rr_errlevel := 2, rr_stagestatus := ''Audit failed'',
         rr_errormessage := ''a query command is not allowed''\<rparr>
      else if names_command exec_multi_cmds exec_single_cmds cmd then r\<lparr>rr_errlevel := 0,
         rr_stagestatus := ''Audit completed'', rr_errormessage := ''affected rows are not shown''\<rparr>
      else r\<lparr>rr_errlevel := 2, rr_stagestatus := ''Audit failed'', rr_errormessage := ''the command is forbidden''\<rparr>)"

fun number_rows :: "(int \<Rightarrow> string \<Rightarrow> review_result) \<Rightarrow> int \<Rightarrow> string list \<Rightarrow> review_result list" where
  "number_rows row line [] = []"
| "number_rows row line (c # cs) = row line c # number_rows row (line + 1) cs"

definition redis_execute_check :: "string \<Rightarrow> review_set" where
  "redis_execute_check sql = (new_ReviewSet sql)\<lparr>rs_rows := number_rows check_row 1 (redis_commands sql)\<rparr>"

definition done_row :: "(int \<Rightarrow> string) \<Rightarrow> int \<Rightarrow> string \<Rightarrow> review_result" where
  "done_row cost line cmd = new_ReviewResult\<lparr>rr_id := line, rr_stagestatus := ''Execute Successfully'',
     rr_errormessage := ''affected rows are not shown'', rr_sql := cmd, rr_execute_time := cost line\<rparr>"

definition failed_row :: "exn \<Rightarrow> int \<Rightarrow> string \<Rightarrow> review_result" where
  "failed_row e line cmd = new_ReviewResult\<lparr>rr_id := line, rr_errlevel := 2,
     rr_stagestatus := ''Execute Failed'', rr_errormessage := ''error: '' @ exn_str e, rr_sql := cmd\<rparr>"

definition pending_row :: "int \<Rightarrow> string \<Rightarrow> review_result" where
  "pending_row line cmd = new_ReviewResult\<lparr>rr_id := line, rr_stagestatus := ''Audit completed'',
     rr_errormessage := ''not executed: an earlier command failed'', rr_sql := cmd\<rparr>"

text \<open>The loop over the commands: the rows of those that ran, and the line, command and error it stopped at.\<close>

fun redis_run ::
  "'s redis_client \<Rightarrow> (int \<Rightarrow> string) \<Rightarrow> int \<Rightarrow> string list \<Rightarrow> 's
   \<Rightarrow> (review_result list \<times> (int \<times> string \<times> exn) option) \<times> 's" where
  "redis_run client cost line [] s = (([], None), s)"
| "redis_run client cost line (cmd # cmds) s = (case redis_send client cmd s of
       (Inl e, s') \<Rightarrow> (([], Some (line, cmd, e)), s')
     | (Inr _, s') \<Rightarrow> (case redis_run client cost (line + 1) cmds s' of
           ((rows, stop), s'') \<Rightarrow> ((done_row cost line cmd # rows, stop), s'')))"

text \<open>
  The \<open>except\<close> branch: \<open>cmd\<close> is \<open>None\<close> when the connection failed, written as the empty text; the rest
  starts after the line reached.
\<close>

definition redis_failed :: "string list \<Rightarrow> int \<Rightarrow> string \<Rightarrow> exn \<Rightarrow> review_result list" where
  "redis_failed split_sql line cmd e =
     failed_row e line cmd # number_rows pending_row (line + 1) (drop (nat line) split_sql)"

definition redis_execute_workflow ::
  "('s, 's redis_client) M \<Rightarrow> (int \<Rightarrow> string) \<Rightarrow> string \<Rightarrow> ('s, review_set) M" where
  "redis_execute_workflow connect cost sql = (\<lambda>s.
     let cmds = redis_commands sql; r0 = new_ReviewSet sql;
         stopped = (\<lambda>rows line cmd e. r0\<lparr>rs_error := Some (exn_str e), rs_rows := rows @ redis_failed cmds line cmd e\<rparr>)
     in case connect s of
          (Inl e, s') \<Rightarrow> (Inr (stopped [] 1 [] e), s')
        | (Inr client, s') \<Rightarrow> (case redis_run client cost 1 cmds s' of
              ((rows, None), s'') \<Rightarrow> (Inr (r0\<lparr>rs_rows := rows\<rparr>), s'')
            | ((rows, Some (line, cmd, e)), s'') \<Rightarrow> (Inr (stopped rows line cmd e), s'')))"

end
