(* ===== verification/RedisProps.thy ===== *)
theory RedisProps
  imports RedisEngine TextLemmas
begin

text \<open>
  Redis: what reaches the server after the check of a query, and how a release runs through its commands.
\<close>

section \<open>Splitting into arguments\<close>

definition sh_special :: "char \<Rightarrow> bool" where
  "sh_special c = (c = backslash \<or> c = dquote \<or> c = squote)"

definition sh_plain :: "char \<Rightarrow> bool" where
  "sh_plain c = (\<not> sh_space c \<and> \<not> sh_special c)"

lemma sh_plain_step [simp]:
  "sh_plain c \<Longrightarrow> shlex_go ShWord q tok (c # cs) = shlex_go ShWord q (tok @ [c]) cs"
  "sh_plain c \<Longrightarrow> shlex_go ShBlank q tok (c # cs) = shlex_go ShWord q (tok @ [c]) cs"
  by (simp_all add: sh_plain_def sh_special_def)

lemma sh_space_step [simp]:
  "sh_space c \<Longrightarrow> shlex_go ShWord q tok (c # cs) =
     (if tok \<noteq> [] \<or> q then bindE (shlex_go ShBlank False [] cs) (\<lambda>ts. Inr (tok # ts)) else shlex_go ShBlank False [] cs)"
  "sh_space c \<Longrightarrow> shlex_go ShBlank False [] (c # cs) = shlex_go ShBlank False [] cs"
  by simp_all

lemma sh_dquote_step [simp]: "shlex_go ShWord q tok (dquote # cs) = shlex_go (ShQuote dquote) q tok cs"
proof -
  have "\<not> sh_space dquote" "dquote \<noteq> backslash" by code_simp+
  then show ?thesis by simp
qed

declare shlex_go.simps(7,8) [simp del]

lemma sh_plain_word:
  "list_all sh_plain w \<Longrightarrow> shlex_go ShWord q tok (w @ cs) = shlex_go ShWord q (tok @ w) cs"
  by (induction w arbitrary: tok) auto

lemma sh_quoted_word:
  "list_all sh_plain w \<Longrightarrow> shlex_go (ShQuote dquote) q tok (w @ dquote # cs) = shlex_go ShWord True (tok @ w) cs"
  by (induction w arbitrary: tok q) (auto simp: sh_plain_def sh_special_def)

text \<open>A text without quotes and backslashes splits at white space.\<close>

lemma sh_unquoted:
  assumes "\<forall>c \<in> set cs. \<not> sh_special c"
  shows "\<exists>ts. shlex_go ShBlank False [] cs = Inr ts"
    and "tok \<noteq> [] \<Longrightarrow> \<exists>ts. shlex_go ShWord False tok cs = Inr ((tok @ takeWhile (\<lambda>c. \<not> sh_space c) cs) # ts)"
proof -
  have "(\<exists>ts. shlex_go ShBlank False [] cs = Inr ts)
    \<and> (\<forall>tok. tok \<noteq> [] \<longrightarrow> (\<exists>ts. shlex_go ShWord False tok cs = Inr ((tok @ takeWhile (\<lambda>c. \<not> sh_space c) cs) # ts)))"
    using assms
  proof (induction cs)
    case (Cons c cs)
    then have IH: "\<exists>ts. shlex_go ShBlank False [] cs = Inr ts"
        "\<And>tok. tok \<noteq> [] \<Longrightarrow> \<exists>ts. shlex_go ShWord False tok cs = Inr ((tok @ takeWhile (\<lambda>c. \<not> sh_space c) cs) # ts)"
      by auto
    show ?case
    proof (cases "sh_space c")
      case True
      with IH(1) show ?thesis by (auto simp: bindE_def)
    next
      case False
      with Cons.prems have p: "sh_plain c" by (simp add: sh_plain_def)
      from IH(2) [of "[c]"] p False have b: "\<exists>ts. shlex_go ShBlank False [] (c # cs) = Inr ts" by auto
      have "\<exists>ts. shlex_go ShWord False tok (c # cs) = Inr ((tok @ takeWhile (\<lambda>c. \<not> sh_space c) (c # cs)) # ts)"
        for tok using IH(2) [of "tok @ [c]"] p False by auto
      with b show ?thesis by blast
    qed
  qed simp
  then show "\<exists>ts. shlex_go ShBlank False [] cs = Inr ts"
    and "tok \<noteq> [] \<Longrightarrow> \<exists>ts. shlex_go ShWord False tok cs = Inr ((tok @ takeWhile (\<lambda>c. \<not> sh_space c) cs) # ts)"
    by blast+
qed

text \<open>White space of the lexer is white space of Python.\<close>

lemma sh_space_is_space: "sh_space c \<Longrightarrow> is_space c"
  by (auto simp: sh_space_def is_space_def Let_def)

lemma first_argument:
  assumes "shlex_split s = Inr (c # args)" "\<forall>d \<in> set s. \<not> sh_special d" "s \<noteq> []" "\<not> is_space (hd s)"
  shows "c = takeWhile (\<lambda>d. \<not> sh_space d) s"
proof -
  obtain d ds where s: "s = d # ds" using assms(3) by (cases s) auto
  then have sp: "\<not> sh_space d" using assms(4) sh_space_is_space by auto
  with assms(2) s have p: "sh_plain d" by (simp add: sh_plain_def)
  have "\<forall>d \<in> set ds. \<not> sh_special d" using assms(2) s by simp
  from sh_unquoted(2) [OF this, of "[d]"] obtain ts
    where "shlex_go ShWord False [d] ds = Inr (([d] @ takeWhile (\<lambda>c. \<not> sh_space c) ds) # ts)" by blast
  with assms(1) s p sp show ?thesis by (simp add: shlex_split_def)
qed

section \<open>The squeezed text\<close>

lemma no_space_here: "\<not> is_space c \<Longrightarrow> re_match_at (Plus space_re) prev (c # cs) = None"
  by (simp add: re_match_at_def Plus_def space_re_def)

lemma squeeze_from_word:
  "list_all (\<lambda>c. \<not> is_space c) u \<Longrightarrow>
   re_sub_from (Plus space_re) f prev (u @ t) = u @ re_sub_from (Plus space_re) f (last_opt prev u) t"
proof (induction u arbitrary: prev)
  case (Cons c u)
  then show ?case
    by (subst re_sub_from.simps) (simp add: no_space_here last_opt_def)
qed (simp add: last_opt_def)

lemma squeeze_word:
  "list_all (\<lambda>c. \<not> is_space c) u \<Longrightarrow> \<exists>v. squeeze (u @ t) = u @ v"
  unfolding squeeze_def re_sub_def using squeeze_from_word by blast

section \<open>Commands hidden by quotes\<close>

text \<open>The commands are words of lower-case letters.\<close>

definition letters :: string where
  "letters = ''abcdefghijklmnopqrstuvwxyz''"

lemma letters_all: "list_all (\<lambda>c. is_word c \<and> sh_plain c \<and> \<not> is_space c \<and> lower_char c = c) letters"
  by code_simp

lemma lettersD:
  assumes "set w \<subseteq> set letters"
  shows "list_all is_word w" "list_all sh_plain w" "list_all (\<lambda>c. \<not> is_space c) w" "lower w = w"
  using assms letters_all by (auto simp: list_all_iff lower_def intro: map_idI)

text \<open>A command that may be queried, and what makes a writing command of it.\<close>

definition hidden_writes :: "(string \<times> string) list" where
  "hidden_writes = [(''get'', ''del''), (''get'', ''ex''), (''sdiff'', ''store''),
     (''sinter'', ''store''), (''sunion'', ''store''), (''zrange'', ''store''), (''geosearch'', ''store'')]"

definition quoted_command :: "string \<Rightarrow> string \<Rightarrow> string \<Rightarrow> string" where
  "quoted_command w v key = w @ [dquote] @ v @ [dquote] @ '' '' @ key"

lemma hidden_words:
  assumes "(w, v) \<in> set hidden_writes"
  shows "set w \<subseteq> set letters" "set v \<subseteq> set letters" "w \<noteq> []" "w \<in> set safe_single_cmds" "w @ v \<in> set exec_single_cmds"
proof -
  have "list_all (\<lambda>(w, v). set w \<subseteq> set letters \<and> set v \<subseteq> set letters \<and> w \<noteq> []
      \<and> w \<in> set safe_single_cmds \<and> w @ v \<in> set exec_single_cmds) hidden_writes" by code_simp
  with assms show "set w \<subseteq> set letters" "set v \<subseteq> set letters" "w \<noteq> []" "w \<in> set safe_single_cmds"
    "w @ v \<in> set exec_single_cmds"
    unfolding list_all_iff by force+
qed

lemma quoted_stripped:
  assumes "(w, v) \<in> set hidden_writes" "list_all sh_plain key" "key \<noteq> []" "\<not> is_space (last key)"
  shows "strip (quoted_command w v key) = quoted_command w v key"
proof -
  note h = hidden_words [OF assms(1)] and l = lettersD [OF hidden_words(1) [OF assms(1)]]
  let ?q = "quoted_command w v key"
  have "hd w \<in> set w" using h(3) by simp
  then have "\<not> is_space (hd ?q)" using l(3) h(3) by (simp add: quoted_command_def list_all_iff)
  moreover have "\<not> is_space (last ?q)" using assms(3,4) by (simp add: quoted_command_def)
  moreover have "?q \<noteq> []" using h(3) by (simp add: quoted_command_def)
  ultimately obtain t' where "strip ([] @ ?q @ []) = ?q @ t'" "prefix t' []"
    by (metis strip_word empty_iff list.set(1))
  then show ?thesis by simp
qed

text \<open>
  C21. A query that passes the check may run a writing command: the check reads the command up to the
  first character that is no word character, while the text is split by the rules of the shell, where
  quotes inside a word join its parts. So \<open>get"del" key\<close> passes as \<open>get\<close> and runs \<open>getdel\<close>, with any
  key, and likewise for the others.
\<close>

theorem redis_quotes_hide_writes:
  assumes "(w, v) \<in> set hidden_writes" "list_all sh_plain key" "key \<noteq> []" "\<not> is_space (last key)"
  shows "\<not> redis_query_check (quoted_command w v key)
    \<and> shlex_split (redis_filter_sql (quoted_command w v key) limit_num) = Inr [w @ v, key]
    \<and> w @ v \<in> set exec_single_cmds"
proof (intro conjI)
  note h = hidden_words [OF assms(1)] and st = quoted_stripped [OF assms]
    and l = lettersD [OF hidden_words(1) [OF assms(1)]] and lv = lettersD [OF hidden_words(2) [OF assms(1)]]
  have "\<exists>u. squeeze (quoted_command w v key) = w @ dquote # u"
  proof -
    have "\<not> is_space dquote" by code_simp
    then have "list_all (\<lambda>c. \<not> is_space c) (w @ [dquote])" using l(3) by simp
    from squeeze_word [OF this, of "v @ [dquote] @ '' '' @ key"] show ?thesis by (auto simp: quoted_command_def)
  qed
  then obtain u where u: "squeeze (quoted_command w v key) = w @ dquote # u" by blast
  have "is_word (last w)" using l(1) h(3) by (simp add: list_all_iff)
  moreover have "\<not> is_word dquote" by code_simp
  ultimately have "re_match (word_cmd w) (w @ dquote # u)"
    using h(3) l(4) by (simp add: re_match_word_cmd starts_with_def follows_boundary_def)
  then show "\<not> redis_query_check (quoted_command w v key)"
    using h(4) u by (auto simp: redis_query_check_def names_command_def Let_def st)
  obtain c w' where w: "w = c # w'" using h(3) by (cases w) auto
  have pl: "sh_plain c" "list_all sh_plain w'" using l(2) w by simp_all
  obtain d key' where k: "key = d # key'" using assms(3) by (cases key) auto
  have sp: "sh_space (CHR '' '')" by code_simp
  have "shlex_go ShBlank False [] key = Inr [key]"
    using assms(2) sh_plain_word [of key' False "[d]" "[]"] by (simp add: k)
  then have "shlex_go ShWord True (w @ v) ('' '' @ key) = Inr [w @ v, key]"
    using sp by (simp add: bindE_def)
  then show "shlex_split (redis_filter_sql (quoted_command w v key) limit_num) = Inr [w @ v, key]"
    unfolding redis_filter_sql_def st unfolding shlex_split_def quoted_command_def w
    using pl lv(2) by (simp add: sh_plain_word sh_quoted_word)
  show "w @ v \<in> set exec_single_cmds" by (rule h(5))
qed

theorem redis_quotes_hide_writes_witness:
  "\<not> redis_query_check (quoted_command ''get'' ''del'' ''balance'')
   \<and> shlex_split (redis_filter_sql (quoted_command ''get'' ''del'' ''balance'') 100) = Inr [''get'' @ ''del'', ''balance'']
   \<and> ''get'' @ ''del'' \<in> set exec_single_cmds"
  by (rule redis_quotes_hide_writes) code_simp+

section \<open>Queries without quotes\<close>

text \<open>The words of the lists are made of word characters; no command is in both lists.\<close>

lemma letter_lists:
  "list_all (\<lambda>w. w \<noteq> [] \<and> set w \<subseteq> set letters) safe_single_cmds"
  "list_all (\<lambda>w. w \<noteq> [] \<and> set w \<subseteq> set letters) exec_single_cmds"
  "list_all (\<lambda>b. set b \<subseteq> set letters \<and> b \<notin> set exec_single_cmds) [''memory'', ''client'', ''slowlog'']"
  by code_simp+

lemma word_lists:
  "list_all (\<lambda>w. w \<noteq> [] \<and> list_all is_word w) safe_single_cmds"
  "list_all (\<lambda>w. w \<noteq> [] \<and> list_all is_word w) exec_single_cmds"
  "list_all (\<lambda>b. list_all is_word b \<and> b \<notin> set exec_single_cmds) [''memory'', ''client'', ''slowlog'']"
  by (rule list.pred_mono_strong, rule letter_lists, simp add: lettersD)+

lemma multi_heads:
  "list_all (\<lambda>c. \<exists>b \<in> set [''memory'', ''client'', ''slowlog'']. prefix (b @ '' '') c) safe_multi_cmds"
  by code_simp

lemma lists_disjoint: "w \<in> set safe_single_cmds \<Longrightarrow> w \<notin> set exec_single_cmds"
  by (auto simp: safe_single_cmds_def exec_single_cmds_def)

lemma in_list: "list_all P xs \<Longrightarrow> x \<in> set xs \<Longrightarrow> P x"
  by (simp add: list_all_iff)

lemma takeWhile_word:
  "list_all is_word w \<Longrightarrow> t = [] \<or> \<not> is_word (hd t) \<Longrightarrow> takeWhile is_word (w @ t) = w"
  by (cases t) (auto simp: takeWhile_append list_all_iff)

lemma lower_word [simp]: "list_all is_word (lower w) = list_all is_word w"
  by (induction w) (auto simp: lower_def is_word_lower_char)

lemma multi_words:
  assumes "m \<in> set safe_multi_cmds" "starts_with (w @ t) m" "t = [] \<or> \<not> is_word (hd t)" "list_all is_word w"
  shows "w \<notin> set exec_single_cmds"
proof -
  from in_list [OF multi_heads assms(1)] obtain b
    where b: "b \<in> set [''memory'', ''client'', ''slowlog'']" "prefix (b @ '' '') m" by blast
  have bw: "list_all is_word b \<and> b \<notin> set exec_single_cmds" using in_list [OF word_lists(3) b(1)] .
  have "prefix (b @ '' '') (w @ t)" using b(2) assms(2) unfolding starts_with_prefix by (rule prefix_order.trans)
  then obtain u where u: "w @ t = b @ '' '' @ u" by (auto simp: prefix_def)
  have "\<not> is_word (CHR '' '')" by code_simp
  then have "takeWhile is_word (b @ '' '' @ u) = b" using bw by (intro takeWhile_word) auto
  then have "w = b" using takeWhile_word [OF assms(4,3)] u by metis
  with bw show ?thesis by simp
qed

lemma single_words:
  assumes "m \<in> set safe_single_cmds" "re_match (word_cmd m) (c @ t)" "t = [] \<or> \<not> is_word (hd t)" "list_all is_word c"
  shows "lower c \<notin> set exec_single_cmds"
proof -
  have m: "m \<noteq> []" "list_all is_word m" "m \<notin> set exec_single_cmds"
    using in_list [OF word_lists(1) assms(1)] lists_disjoint [OF assms(1)] by auto
  then have "is_word (last m)" by (simp add: list_all_iff)
  with assms(2) m(1) have r: "starts_with (lower (c @ t)) m" "follows_boundary (drop (length m) (c @ t))"
    by (auto simp: re_match_word_cmd)
  let ?u = "take (length m) (c @ t)" and ?r = "drop (length m) (c @ t)"
  have u: "lower ?u = m" using r(1) by (simp add: starts_with_def lower_def take_map)
  have "?r = [] \<or> \<not> is_word (hd ?r)" using r(2) by (cases ?r) (simp_all add: follows_boundary_def)
  moreover have "list_all is_word ?u" using m(2) u by (metis lower_word)
  ultimately have "takeWhile is_word (?u @ ?r) = ?u" by (intro takeWhile_word)
  then have "?u = c" using takeWhile_word [OF assms(4,3)] by (metis append_take_drop_id)
  with u have "lower c = m" by metis
  with m(3) show ?thesis by simp
qed

lemma squeeze_space:
  assumes "is_space d"
  shows "\<exists>t. re_sub_from (Plus space_re) (\<lambda>_ _. '' '') prev (d # ds) = CHR '' '' # t"
proof -
  obtain q where q: "re_match_at (Plus space_re) prev (d # ds) = Some q" "length (pos_rest q) \<le> length ds"
  proof -
    have m: "re_m (Plus space_re) (prev, d # ds, []) = re_m (Star space_re) (Some d, ds, [])"
      using assms by (simp add: Plus_def space_re_def)
    have "re_m (Star space_re) (Some d, ds, []) \<noteq> []" by (subst re_m.simps) simp
    then obtain q qs where qs: "re_m (Star space_re) (Some d, ds, []) = q # qs" by (cases "re_m (Star space_re) (Some d, ds, [])") auto
    then have "q \<in> set (re_m (Star space_re) (Some d, ds, []))" by simp
    from re_m_length [OF this] show thesis using that m qs by (simp add: re_match_at_def)
  qed
  then show ?thesis by (subst re_sub_from.simps) simp
qed

text \<open>
  Without quotes and backslashes the check keeps its promise: whatever the query is, if it passes,
  the command that the server receives is none of the writing commands.
\<close>

theorem redis_plain_query_reads:
  assumes "\<not> redis_query_check sql" "\<forall>d \<in> set sql. \<not> sh_special d"
    and "shlex_split (redis_filter_sql sql limit_num) = Inr (c # args)"
  shows "lower c \<notin> set exec_single_cmds"
proof
  assume w: "lower c \<in> set exec_single_cmds"
  let ?s = "strip sql"
  have cw: "list_all is_word c" using in_list [OF word_lists(2) w] by simp
  have ne: "?s \<noteq> []"
    using assms(3) by (auto simp: redis_filter_sql_def shlex_split_def)
  have "\<forall>d \<in> set ?s. \<not> sh_special d" using assms(2) strip_split [of sql]
    by (metis UnCI set_append)
  from first_argument [OF assms(3) [unfolded redis_filter_sql_def] this ne strip_ends(1) [OF ne]]
  have c: "c = takeWhile (\<lambda>d. \<not> sh_space d) ?s" .
  let ?r = "dropWhile (\<lambda>d. \<not> sh_space d) ?s"
  have s: "?s = c @ ?r" unfolding c by simp
  have ws: "\<not> (is_word d \<and> is_space d)" for d by (auto simp: is_word_def is_space_def is_digit_def is_upper_ascii_def is_lower_ascii_def Let_def)
  then have nsp: "list_all (\<lambda>d. \<not> is_space d) c" using cw by (auto simp: list_all_iff)
  obtain t where t: "squeeze ?s = c @ t" "t = [] \<or> \<not> is_word (hd t)"
  proof (cases ?r)
    case Nil
    then have "squeeze ?s = c @ re_sub_from (Plus space_re) (\<lambda>_ _. '' '') (last_opt None c) []"
      using squeeze_from_word [OF nsp] s unfolding squeeze_def re_sub_def by metis
    moreover have "re_sub_from (Plus space_re) (\<lambda>_ _. '' '') p [] = []" for p
      by (subst re_sub_from.simps) (simp add: re_match_at_def Plus_def space_re_def)
    ultimately show thesis using that [of "[]"] by simp
  next
    case (Cons d ds)
    then have "sh_space d" by (metis hd_dropWhile list.sel(1) list.distinct(1))
    from squeeze_space [OF sh_space_is_space [OF this], of "last_opt None c" ds] obtain t
      where "re_sub_from (Plus space_re) (\<lambda>_ _. '' '') (last_opt None c) (d # ds) = CHR '' '' # t" by blast
    then have "squeeze ?s = c @ CHR '' '' # t"
      using squeeze_from_word [OF nsp] s Cons unfolding squeeze_def re_sub_def by metis
    moreover have "\<not> is_word (CHR '' '')" by code_simp
    ultimately show thesis using that [of "CHR '' '' # t"] by simp
  qed
  from assms(1) consider m where "m \<in> set safe_multi_cmds" "starts_with (lower (squeeze ?s)) m"
    | m where "m \<in> set safe_single_cmds" "re_match (word_cmd m) (squeeze ?s)"
    by (auto simp: redis_query_check_def names_command_def Let_def)
  then show False
  proof cases
    case 1
    have "lower t = [] \<or> \<not> is_word (hd (lower t))" using t(2) by (cases t) (auto simp: lower_def is_word_lower_char)
    moreover have "starts_with (lower c @ lower t) m" using 1(2) t(1) by (simp add: lower_def)
    ultimately have "lower c \<notin> set exec_single_cmds" using multi_words [OF 1(1)] cw by simp
    with w show ?thesis by simp
  next
    case 2
    from single_words [OF 2(1) 2(2) [unfolded t(1)] t(2) cw] w show ?thesis by simp
  qed
qed

theorem redis_plain_query_reads_witness:
  "lower ''HGETALL'' \<notin> set exec_single_cmds"
  by (rule redis_plain_query_reads [of "''  HGETALL   cart:7 ''" 100 _ "[''cart:7'']"]) code_simp+

section \<open>Releases\<close>

text \<open>The state after sending commands one after the other, whatever each of them answers.\<close>

fun send_seq :: "'s redis_client \<Rightarrow> string list \<Rightarrow> 's \<Rightarrow> 's" where
  "send_seq client [] s = s"
| "send_seq client (c # cs) s = send_seq client cs (snd (redis_send client c s))"

definition answered :: "'s redis_client \<Rightarrow> string list \<Rightarrow> 's \<Rightarrow> nat \<Rightarrow> bool" where
  "answered client cmds s j = (\<exists>r. fst (redis_send client (cmds ! j) (send_seq client (take j cmds) s)) = Inr r)"

lemma answered_Suc [simp]: "answered client (c # cs) s (Suc j) = answered client cs (snd (redis_send client c s)) j"
  by (simp add: answered_def)

lemma redis_run_outcome:
  assumes "redis_run client cost line cmds s = ((rows, stop), s2)"
  shows "length rows \<le> length cmds" "rows = number_rows (done_row cost) line (take (length rows) cmds)"
    and "s2 = send_seq client (take (Suc (length rows)) cmds) s" "\<forall>j < length rows. answered client cmds s j"
    and "case stop of None \<Rightarrow> length rows = length cmds
      | Some (l, c, e) \<Rightarrow> length rows < length cmds \<and> l = line + int (length rows) \<and> c = cmds ! length rows"
    and "length rows < length cmds \<Longrightarrow> \<not> answered client cmds s (length rows)"
proof -
  have "length rows \<le> length cmds \<and> rows = number_rows (done_row cost) line (take (length rows) cmds)
    \<and> s2 = send_seq client (take (Suc (length rows)) cmds) s \<and> (\<forall>j < length rows. answered client cmds s j)
    \<and> (case stop of None \<Rightarrow> length rows = length cmds
      | Some (l, c, e) \<Rightarrow> length rows < length cmds \<and> l = line + int (length rows) \<and> c = cmds ! length rows)
    \<and> (length rows < length cmds \<longrightarrow> \<not> answered client cmds s (length rows))"
    using assms
  proof (induction client cost line cmds s arbitrary: rows rule: redis_run.induct)
    case (2 client cost line cmd cmds s)
    obtain x s' where send: "redis_send client cmd s = (x, s')" by fastforce
    show ?case
    proof (cases x)
      case (Inl e)
      with 2(2) send show ?thesis by (auto simp: answered_def)
    next
      case (Inr r)
      with 2(2) send obtain rows' where run: "redis_run client cost (line + 1) cmds s' = ((rows', stop), s2)"
          and rows: "rows = done_row cost line cmd # rows'" by (auto split: prod.splits)
      from 2(1) [OF send [symmetric] Inr run]
      have IH: "length rows' \<le> length cmds" "rows' = number_rows (done_row cost) (line + 1) (take (length rows') cmds)"
        "s2 = send_seq client (take (Suc (length rows')) cmds) s'" "\<forall>j < length rows'. answered client cmds s' j"
        "case stop of None \<Rightarrow> length rows' = length cmds
          | Some (l, c, e) \<Rightarrow> length rows' < length cmds \<and> l = line + 1 + int (length rows') \<and> c = cmds ! length rows'"
        "length rows' < length cmds \<longrightarrow> \<not> answered client cmds s' (length rows')" by blast+
      have "answered client (cmd # cmds) s j" if "j < length rows" for j
        using that IH(4) send Inr rows by (cases j) (auto simp: answered_def)
      with IH rows send show ?thesis by (auto split: option.splits)
    qed
  qed simp
  then show "length rows \<le> length cmds" "rows = number_rows (done_row cost) line (take (length rows) cmds)"
    and "s2 = send_seq client (take (Suc (length rows)) cmds) s" "\<forall>j < length rows. answered client cmds s j"
    and "case stop of None \<Rightarrow> length rows = length cmds
      | Some (l, c, e) \<Rightarrow> length rows < length cmds \<and> l = line + int (length rows) \<and> c = cmds ! length rows"
    and "length rows < length cmds \<Longrightarrow> \<not> answered client cmds s (length rows)"
    by blast+
qed

definition release_stages :: "nat \<Rightarrow> nat \<Rightarrow> string list" where
  "release_stages n k = replicate k ''Execute Successfully''
     @ (if k < n then ''Execute Failed'' # replicate (n - Suc k) ''Audit completed'' else [])"

lemma number_rows_fields:
  "length (number_rows row line cs) = length cs"
  "(\<And>l c. rr_sql (row l c) = c) \<Longrightarrow> map rr_sql (number_rows row line cs) = cs"
  "(\<And>l c. rr_id (row l c) = l) \<Longrightarrow> map rr_id (number_rows row line cs) = map (\<lambda>k. line + int k) [0..<length cs]"
  "(\<And>l c. rr_stagestatus (row l c) = t) \<Longrightarrow> map rr_stagestatus (number_rows row line cs) = replicate (length cs) t"
  by (induction cs arbitrary: line) (auto simp: upt_conv_Cons simp flip: map_Suc_upt simp del: upt_Suc)

lemma row_fields [simp]:
  "rr_sql (done_row cost l c) = c" "rr_id (done_row cost l c) = l" "rr_stagestatus (done_row cost l c) = ''Execute Successfully''"
  "rr_sql (failed_row e l c) = c" "rr_id (failed_row e l c) = l" "rr_stagestatus (failed_row e l c) = ''Execute Failed''"
  "rr_sql (pending_row l c) = c" "rr_id (pending_row l c) = l" "rr_stagestatus (pending_row l c) = ''Audit completed''"
  by (simp_all add: done_row_def failed_row_def pending_row_def)

text \<open>
  How a release runs once the connection stands: some number \<open>k\<close> of its commands, in their order,
  are answered; the next one, if there is one, fails and is the last that is sent. Every command has one row,
  numbered from 1: executed, failed, or not executed; the release has an error exactly when a command failed.
\<close>

theorem redis_release_outcome:
  assumes "connect s = (Inr client, s1)"
  shows "\<exists>k rs s2. redis_execute_workflow connect cost sql s = (Inr rs, s2)
    \<and> k \<le> length (redis_commands sql) \<and> (\<forall>j < k. answered client (redis_commands sql) s1 j)
    \<and> (k < length (redis_commands sql) \<longrightarrow> \<not> answered client (redis_commands sql) s1 k)
    \<and> s2 = send_seq client (take (Suc k) (redis_commands sql)) s1
    \<and> map rr_sql (rs_rows rs) = redis_commands sql
    \<and> map rr_id (rs_rows rs) = map (\<lambda>j. 1 + int j) [0..<length (redis_commands sql)]
    \<and> map rr_stagestatus (rs_rows rs) = release_stages (length (redis_commands sql)) k
    \<and> (rs_error rs = None \<longleftrightarrow> k = length (redis_commands sql))"
proof -
  let ?cmds = "redis_commands sql"
  obtain rows stop s2 where run: "redis_run client cost 1 ?cmds s1 = ((rows, stop), s2)" by (metis prod.collapse)
  let ?k = "length rows"
  note o = redis_run_outcome [OF run]
  have ran: "map rr_sql rows = take ?k ?cmds" "map rr_id rows = map (\<lambda>j. 1 + int j) [0..<?k]"
    "map rr_stagestatus rows = replicate ?k ''Execute Successfully''"
    by (subst o(2); simp add: number_rows_fields o(1))+
  show ?thesis
  proof (cases stop)
    case None
    with o(5) have k: "?k = length ?cmds" by simp
    have "redis_execute_workflow connect cost sql s = (Inr ((new_ReviewSet sql)\<lparr>rs_rows := rows\<rparr>), s2)"
      using assms run None by (simp add: redis_execute_workflow_def Let_def)
    then show ?thesis using o(3,4) ran k
      by (intro exI [of _ ?k] exI [of _ "(new_ReviewSet sql)\<lparr>rs_rows := rows\<rparr>"] exI [of _ s2])
        (simp add: release_stages_def new_ReviewSet_def)
  next
    case (Some t)
    obtain l c e where t: "t = (l, c, e)" by (cases t)
    with Some o(5) have k: "?k < length ?cmds" and l: "l = 1 + int ?k" and c: "c = ?cmds ! ?k" by simp_all
    let ?rs = "(new_ReviewSet sql)\<lparr>rs_error := Some (exn_str e), rs_rows := rows @ redis_failed ?cmds l c e\<rparr>"
    have ex: "redis_execute_workflow connect cost sql s = (Inr ?rs, s2)"
      using assms run Some t by (simp add: redis_execute_workflow_def Let_def)
    have drop: "drop (nat l) ?cmds = drop (Suc ?k) ?cmds" by (simp add: l nat_add_distrib)
    have "map rr_sql (rs_rows ?rs) = ?cmds"
      using k ran(1) by (simp add: redis_failed_def drop number_rows_fields c id_take_nth_drop [symmetric])
    moreover have "map rr_id (rs_rows ?rs) = map (\<lambda>j. 1 + int j) [0..<length ?cmds]"
      using k ran(2) by (intro nth_equalityI) (auto simp: redis_failed_def drop number_rows_fields l nth_append nth_Cons split: nat.splits)
    moreover have "map rr_stagestatus (rs_rows ?rs) = release_stages (length ?cmds) ?k"
      using k ran(3) by (simp add: redis_failed_def drop number_rows_fields release_stages_def)
    ultimately show ?thesis using ex o(3,4) o(6) k
      by (intro exI [of _ ?k] exI [of _ ?rs] exI [of _ s2]) simp
  qed
qed

definition demo_client :: "(string list) list redis_client" where
  "demo_client args = (\<lambda>sent. (if args = [''incr'', ''name''] then Inl (PyException ''not an integer'') else Inr (RVal (PInt 1)),
     sent @ [args]))"

theorem redis_release_outcome_witness:
  "let cmds = redis_commands (join [newline] [''set name ann'', ''incr name'', ''del name'']) in
   \<exists>k rs s2. redis_execute_workflow (ret demo_client) (\<lambda>_. []) (join [newline] [''set name ann'', ''incr name'', ''del name'']) []
       = (Inr rs, s2)
    \<and> k \<le> length cmds \<and> (\<forall>j < k. answered demo_client cmds [] j) \<and> (k < length cmds \<longrightarrow> \<not> answered demo_client cmds [] k)
    \<and> s2 = send_seq demo_client (take (Suc k) cmds) [] \<and> map rr_sql (rs_rows rs) = cmds
    \<and> map rr_id (rs_rows rs) = map (\<lambda>j. 1 + int j) [0..<length cmds]
    \<and> map rr_stagestatus (rs_rows rs) = release_stages (length cmds) k \<and> (rs_error rs = None \<longleftrightarrow> k = length cmds)"
  unfolding Let_def by (rule redis_release_outcome) (simp add: ret_def)

text \<open>A release whose connection fails loses its first command: its row has no command.\<close>

lemma redis_connection_failure:
  assumes "connect s = (Inl e, s1)" "redis_commands sql = c # cs"
  shows "\<exists>rs. redis_execute_workflow connect cost sql s = (Inr rs, s1) \<and> map rr_sql (rs_rows rs) = [] # cs"
  using assms by (simp add: redis_execute_workflow_def Let_def redis_failed_def number_rows_fields)

section \<open>The cached connection\<close>

definition cache_ok :: "(string option \<Rightarrow> 'c \<Rightarrow> bool) \<Rightarrow> 'c redis_cache \<Rightarrow> bool" where
  "cache_ok opened k = (\<forall>c. rd_conn k = Some c \<longrightarrow> opened (rd_conn_db k) c)"

text \<open>A connection that is served, cached or new, is one to the database asked for.\<close>

lemma redis_connection_serves:
  assumes "cache_ok opened k" "\<And>db c. connect db = Inr c \<Longrightarrow> opened db c" "mode \<noteq> ''cluster''"
    and "redis_get_connection connect mode self_db db_name k = (x, k')"
  shows "cache_ok opened k'" "x = Inr c \<Longrightarrow> opened (Some (if db_name \<noteq> [] then db_name else self_db)) c"
  using assms
  by (auto simp: redis_get_connection_def redis_open_def redis_close_def cache_ok_def Let_def bindM_def thenM_def
      getsM_def modifyM_def liftM_def ret_def split: option.splits if_splits sum.splits)

end
