(* ===== verification/Masking.thy ===== *)
theory Masking
  imports ResultSets Regex Tables
begin

text \<open>
  \<open>sql/utils/data_masking.py\<close>: hiding parts of the values a query returns. The parser of the stored
  patterns (\<open>re.compile\<close>) is a parameter \<open>compile\<close>, from the flag \<open>re.S\<close> and the text to a
  pattern, as are the parse of a statement (the number of its \<open>UNION\<close>s), goInception's select list and
  the filter of \<open>pandas\<close> that keeps the rows of repeated fields.
\<close>

section \<open>The configuration\<close>

record masking_column =
  mk_id :: int
  mk_rule_type :: int
  mk_active :: bool
  mk_instance :: int
  mk_table_schema :: string
  mk_table_name :: string
  mk_column_name :: string

record masking_rule =
  mu_id :: int
  mu_rule_type :: int
  mu_rule_regex :: string
  mu_hide_group :: int
  mu_rule_desc :: string

abbreviation set_mu_id :: "int \<Rightarrow> masking_rule \<Rightarrow> masking_rule" where
  "set_mu_id i r \<equiv> r\<lparr>mu_id := i\<rparr>"

abbreviation set_mk_id :: "int \<Rightarrow> masking_column \<Rightarrow> masking_column" where
  "set_mk_id i r \<equiv> r\<lparr>mk_id := i\<rparr>"

interpretation mu: row_store mu_id set_mu_id by unfold_locales simp
interpretation mk: row_store mk_id set_mk_id by unfold_locales simp

type_synonym re_compile = "bool \<Rightarrow> string \<Rightarrow> re res"

text \<open>\<open>str(v)\<close> of a cell.\<close>

fun pyval_str :: "pyval \<Rightarrow> string" where
  "pyval_str PNone = ''None''"
| "pyval_str (PBool b) = (if b then ''True'' else ''False'')"
| "pyval_str (PInt i) = str_int i"
| "pyval_str (PStr s) = s"

section \<open>Masking a value by its groups\<close>

text \<open>\<open>^([\s\S]{a,}?)([\s\S]{b,}?)([\s\S]{c,}?)$\<close>, for the lengths of three parts.\<close>

fun at_least :: "nat \<Rightarrow> re" where
  "at_least 0 = LazyStar any_char"
| "at_least (Suc n) = Seq any_char (at_least n)"

definition three_parts :: "nat \<Rightarrow> re" where
  "three_parts n = (let q = n div 3; r = n mod 3 in
     Seq Bos (Seq (Grp 1 (at_least q)) (Seq (Grp 2 (at_least (q + (if 0 < r then 1 else 0))))
       (Seq (Grp 3 (at_least (q + (if 1 < r then 1 else 0)))) Eos))))"

text \<open>\<open>m.lastindex\<close> is the group that was closed last; a group that took no part is \<open>None\<close>.\<close>

fun masked_groups :: "pos \<Rightarrow> int \<Rightarrow> nat list \<Rightarrow> string res" where
  "masked_groups q hide [] = Inr []"
| "masked_groups q hide (i # is) = (case caps_get i q of
       None \<Rightarrow> Inl (TypeError ''NoneType'')
     | Some g \<Rightarrow> bindE (masked_groups q hide is) (\<lambda>t.
         Inr ((if int i = hide then replicate (length g) (CHR ''*'') else g) @ t)))"

definition regex :: "re_compile \<Rightarrow> masking_rule \<Rightarrow> pyval \<Rightarrow> pyval res" where
  "regex compile rule v =
     (if \<not> truthy v then Inr v
      else bindE (case v of
             PStr s \<Rightarrow> (if mu_rule_type rule = 100 then Inr (three_parts (length s)) else compile False (mu_rule_regex rule))
           | _ \<Rightarrow> compile False (mu_rule_regex rule)) (\<lambda>p.
        case re_search_from p None (pyval_str v) of
          None \<Rightarrow> Inr v
        | Some (_, _, q) \<Rightarrow> (case pos_caps q of
              [] \<Rightarrow> Inl (TypeError ''NoneType object cannot be interpreted as an integer'')
            | (n, _) # _ \<Rightarrow> bindE (masked_groups q (mu_hide_group rule) [1..<Suc n]) (Inr \<circ> PStr))))"

section \<open>Masking by the columns of the statement\<close>

record select_col =
  sl_index :: nat
  sl_field :: string
  sl_table :: string
  sl_schema :: string

definition column_key :: "string \<Rightarrow> string \<Rightarrow> string \<Rightarrow> string \<Rightarrow> string" where
  "column_key inst schema tab col = inst @ ''-'' @ schema @ ''-'' @ tab @ ''-'' @ col"

text \<open>The active columns of an instance under their keys; a later row replaces an earlier one.\<close>

definition active_columns :: "masking_column table \<Rightarrow> int \<Rightarrow> masking_column list" where
  "active_columns t i = tbl_filter (\<lambda>m. mk_instance m = i \<and> mk_active m) t"

definition masking_column_map :: "masking_column table \<Rightarrow> int \<Rightarrow> string \<Rightarrow> string \<Rightarrow> masking_column option" where
  "masking_column_map t i name = map_of (rev (map (\<lambda>m. (column_key name (mk_table_schema m) (mk_table_name m)
     (lower (mk_column_name m)), m)) (active_columns t i)))"

definition column_rule :: "masking_column table \<Rightarrow> int \<Rightarrow> string \<Rightarrow> select_col \<Rightarrow> int option" where
  "column_rule t i name c = (let d = masking_column_map t i name; f = lower (sl_field c) in
     case d (column_key name (sl_schema c) (sl_table c) f) of
       Some m \<Rightarrow> Some (mk_rule_type m)
     | None \<Rightarrow> map_option mk_rule_type (d (column_key name ''*'' ''*'' f)))"

definition analyze_query_tree :: "masking_column table \<Rightarrow> int \<Rightarrow> string \<Rightarrow> select_col list \<Rightarrow> (nat \<times> int) list" where
  "analyze_query_tree t i name cols =
     concat (map (\<lambda>c. case column_rule t i name c of Some rt \<Rightarrow> [(sl_index c, rt)] | None \<Rightarrow> []) cols)"

definition del_repeat :: "(select_col list \<Rightarrow> select_col list res) \<Rightarrow> select_col list \<Rightarrow> nat \<Rightarrow> select_col list res" where
  "del_repeat repeated cols unions =
     bindE (repeated cols) (\<lambda>rs. Inr (take (length rs div (unions + 1)) rs))"

definition mask_cell :: "re_compile \<Rightarrow> masking_rule \<Rightarrow> nat \<Rightarrow> pyval list \<Rightarrow> pyval list res" where
  "mask_cell compile rule idx vs =
     (if length vs \<le> idx then Inl (PyException ''list index out of range'')
      else bindE (regex compile rule (vs ! idx)) (\<lambda>v. Inr (vs[idx := v])))"

text \<open>One column in all rows, up to the first error.\<close>

fun mask_rows :: "re_compile \<Rightarrow> masking_rule \<Rightarrow> nat \<Rightarrow> result_row list \<Rightarrow> result_row list \<times> exn option" where
  "mask_rows compile rule idx [] = ([], None)"
| "mask_rows compile rule idx (r # rs) = (case mask_cell compile rule idx (row_items r) of
       Inl e \<Rightarrow> (Row (row_items r) # rs, Some e)
     | Inr vs \<Rightarrow> (case mask_rows compile rule idx rs of (rs', e) \<Rightarrow> (Row vs # rs', e)))"

text \<open>The rule of three parts, made on demand; its pattern is never used.\<close>

definition any_text :: string where
  "any_text = [CHR ''('', CHR ''['', CHR 0x5C, CHR ''s'', CHR 0x5C, CHR ''S'', CHR '']''] @ ''{0,}?)''"

definition rule_100 :: masking_rule where
  "rule_100 = \<lparr>mu_id = 0, mu_rule_type = 100, mu_rule_regex = ''^'' @ any_text @ any_text @ any_text @ ''$'',
     mu_hide_group = 2, mu_rule_desc = ''general rule of three parts''\<rparr>"

definition rule_of :: "masking_rule table \<Rightarrow> int \<Rightarrow> masking_rule option" where
  "rule_of t rt = find (\<lambda>r. mu_rule_type r = rt) (rev (tbl_rows t))"

text \<open>The rule of a hit column; rule 100 is stored when it is missing.\<close>

definition need_rule :: "int \<Rightarrow> masking_rule table \<Rightarrow> masking_rule option \<times> masking_rule table" where
  "need_rule rt t = (case rule_of t rt of
       Some r \<Rightarrow> (Some r, t)
     | None \<Rightarrow> (if rt = 100 then let t' = tbl_create set_mu_id rule_100 t in (rule_of t' 100, t') else (None, t)))"

text \<open>
  The loop over the hit columns. The rows are worked on in a copy that becomes the result's rows when
  the first column is done (\<open>published\<close>) and is changed in place from then on.
\<close>

fun mask_columns ::
  "re_compile \<Rightarrow> bool \<Rightarrow> result_set \<Rightarrow> result_row list \<Rightarrow> (nat \<times> int) list \<Rightarrow> masking_rule table
   \<Rightarrow> result_set \<times> masking_rule table \<times> exn option" where
  "mask_columns compile published rs rows [] t = (rs, t, None)"
| "mask_columns compile published rs rows ((idx, rt) # hits) t = (case need_rule rt t of
       (None, t') \<Rightarrow> mask_columns compile published rs rows hits t'
     | (Some rule, t') \<Rightarrow> (case mask_rows compile rule idx rows of
           (rows', Some e) \<Rightarrow> (if published then rs\<lparr>rt_rows := rows'\<rparr> else rs, t', Some e)
         | (rows', None) \<Rightarrow> mask_columns compile True (rs\<lparr>rt_rows := rows'\<rparr>) rows' hits t'))"

definition mask_failed :: "exn \<Rightarrow> result_set \<Rightarrow> result_set" where
  "mask_failed e rs = rs\<lparr>rt_error := Some (exn_str e), rt_status := Some 1\<rparr>"

text \<open>The columns of the statement: of the result for MongoDB, from goInception otherwise.\<close>

definition result_columns :: "string \<Rightarrow> result_set \<Rightarrow> select_col list" where
  "result_columns db_name rs = map (\<lambda>(i, f). \<lparr>sl_index = i, sl_field = f, sl_table = ''*'', sl_schema = db_name\<rparr>)
     (enumerate 0 (rt_column_list rs))"

record masking_env =
  me_compile :: re_compile
  me_unions :: "string \<Rightarrow> nat res"
  me_select_list :: "instance_row \<Rightarrow> string \<Rightarrow> string \<Rightarrow> select_col list res"
  me_repeated :: "select_col list \<Rightarrow> select_col list res"

definition statement_columns :: "masking_env \<Rightarrow> instance_row \<Rightarrow> string \<Rightarrow> string \<Rightarrow> result_set \<Rightarrow> select_col list res" where
  "statement_columns e i db_name sql rs =
     bindE (me_unions e sql) (\<lambda>unions.
     bindE (if i_db_type i = ''mongo'' then Inr (result_columns db_name rs) else me_select_list e i db_name sql) (\<lambda>cols.
       if 0 < unions then del_repeat (me_repeated e) cols unions else Inr cols))"

definition data_masking ::
  "masking_env \<Rightarrow> masking_column table \<Rightarrow> instance_row \<Rightarrow> string \<Rightarrow> string \<Rightarrow> result_set
   \<Rightarrow> masking_rule table \<Rightarrow> result_set \<times> masking_rule table" where
  "data_masking e cols i db_name sql rs t = (case statement_columns e i db_name sql rs of
       Inl x \<Rightarrow> (mask_failed x rs, t)
     | Inr sel \<Rightarrow>
         (let hits = analyze_query_tree cols (i_id i) (i_instance_name i) sel; rs1 = rs\<lparr>rt_mask_rule_hit := (hits \<noteq> [])\<rparr> in
          if hits \<noteq> [] \<and> rt_rows rs \<noteq> [] then
            (case mask_columns (me_compile e) False rs1 (rt_rows rs) hits t of
               (rs2, t', None) \<Rightarrow> (rs2\<lparr>rt_is_masked := True\<rparr>, t')
             | (rs2, t', Some x) \<Rightarrow> (mask_failed x rs2, t'))
          else (rs1, t)))"

section \<open>Masking by substitution\<close>

text \<open>\<open>compiled_r.groups\<close> and the replacement: the groups in order, the hidden one as four stars.\<close>

fun re_groups :: "re \<Rightarrow> nat" where
  "re_groups (Seq r1 r2) = re_groups r1 + re_groups r2"
| "re_groups (Alt r1 r2) = re_groups r1 + re_groups r2"
| "re_groups (Star r) = re_groups r"
| "re_groups (LazyStar r) = re_groups r"
| "re_groups (Grp n r) = Suc (re_groups r)"
| "re_groups _ = 0"

definition replacement :: "re \<Rightarrow> int \<Rightarrow> pos \<Rightarrow> string" where
  "replacement p hide q = concat (map (\<lambda>i. if int i = hide then ''****''
     else (case caps_get i q of Some g \<Rightarrow> g | None \<Rightarrow> [])) [1..<Suc (re_groups p)])"

definition mask_text :: "re \<Rightarrow> int \<Rightarrow> pyval \<Rightarrow> pyval" where
  "mask_text p hide v = PStr (re_sub_from p (\<lambda>_. replacement p hide) None (pyval_str v))"

text \<open>\<open>brute_mask\<close>: every rule of a configured column on every cell.\<close>

fun brute_row :: "re \<Rightarrow> int \<Rightarrow> result_row \<Rightarrow> result_row res" where
  "brute_row p hide (Row vs) = Inr (Row (map (mask_text p hide) vs))"
| "brute_row p hide (DictRow d) = Inl (KeyError ''0'')"

definition brute_rules :: "masking_column table \<Rightarrow> int \<Rightarrow> masking_rule table \<Rightarrow> masking_rule list" where
  "brute_rules cols i t =
     tbl_filter (\<lambda>r. \<exists>m \<in> set (tbl_filter (\<lambda>m. mk_instance m = i) cols). mk_rule_type m = mu_rule_type r) t"

text \<open>The rules one after the other, up to the first error; the rows of the rules before it stay.\<close>

fun brute_apply :: "re_compile \<Rightarrow> masking_rule list \<Rightarrow> result_row list \<Rightarrow> result_row list \<times> exn option" where
  "brute_apply compile [] rows = (rows, None)"
| "brute_apply compile (r # rs) rows =
     (case bindE (compile False (mu_rule_regex r)) (\<lambda>p. mapE (brute_row p (mu_hide_group r)) rows) of
        Inl e \<Rightarrow> (rows, Some e)
      | Inr rows' \<Rightarrow> brute_apply compile rs rows')"

definition brute_mask ::
  "re_compile \<Rightarrow> masking_column table \<Rightarrow> masking_rule table \<Rightarrow> int \<Rightarrow> result_set \<Rightarrow> result_set \<times> exn option" where
  "brute_mask compile cols t i rs = (case brute_apply compile (brute_rules cols i t) (rt_rows rs) of
     (rows, e) \<Rightarrow> (rs\<lparr>rt_rows := rows\<rparr>, e))"

section \<open>Masking by the names of the result\<close>

definition quote_re :: re where
  "quote_re = Opt (Cls (\<lambda>c. c = CHR 0x22))"

definition not_space_quote :: re where
  "not_space_quote = Cls (\<lambda>c. \<not> is_space c \<and> c \<noteq> CHR 0x22)"

text \<open>\<open>"?([^\s"]+)"?\s+(as\s+)?"?(name)[",\s+]?\<close>, for a name in lower case.\<close>

definition alias_re :: "string \<Rightarrow> re" where
  "alias_re name = Seq quote_re (Seq (Grp 1 (Plus not_space_quote)) (Seq quote_re (Seq (Plus space_re)
     (Seq (Opt (Grp 2 (Seq (lit_ci ''as'') (Plus space_re)))) (Seq quote_re (Seq (Grp 3 (lit_ci name))
       (Opt (Cls (\<lambda>c. c = CHR 0x22 \<or> c = CHR '','' \<or> c = CHR ''+'' \<or> is_space c)))))))))"

text \<open>\<open>re.sub(r'^"?\w+"?\."?|\.|"$', "", name)\<close>: a schema in front, points, and a closing quote.\<close>

definition bare_column_re :: re where
  "bare_column_re = alts [Seq Bos (Seq quote_re (Seq (Plus (Cls is_word)) (Seq quote_re (Seq (lit ''.'') quote_re)))),
     lit ''.'', Seq (Cls (\<lambda>c. c = CHR 0x22)) Eos]"

fun index_of :: "'a \<Rightarrow> 'a list \<Rightarrow> nat option" where
  "index_of x [] = None"
| "index_of x (y # ys) = (if x = y then Some 0 else map_option Suc (index_of x ys))"

text \<open>The columns that are aliases of the configured one; the first column without a match ends the search.\<close>

fun alias_indexes :: "string \<Rightarrow> string \<Rightarrow> string list \<Rightarrow> string list \<Rightarrow> nat list" where
  "alias_indexes full_sql name names [] = []"
| "alias_indexes full_sql name names (c # cs) = (case re_search_from (alias_re c) None full_sql of
       None \<Rightarrow> []
     | Some (_, _, q) \<Rightarrow> (case (caps_get 1 q, caps_get 3 q) of
           (Some col, Some al) \<Rightarrow>
             (if re_sub bare_column_re [] (lower col) = name
              then (case index_of (lower al) names of
                  Some k \<Rightarrow> k # alias_indexes full_sql name names cs
                | None \<Rightarrow> [])
              else alias_indexes full_sql name names cs)
         | _ \<Rightarrow> []))"

definition masked_indexes :: "string \<Rightarrow> string list \<Rightarrow> string \<Rightarrow> nat list" where
  "masked_indexes full_sql names name =
     (case index_of name names of Some k \<Rightarrow> [k] | None \<Rightarrow> []) @ alias_indexes full_sql name names names"

fun simple_row :: "re \<Rightarrow> int \<Rightarrow> nat \<Rightarrow> result_row \<Rightarrow> result_row res" where
  "simple_row p hide k (Row vs) = Inr (Row (if k < length vs then vs[k := mask_text p hide (vs ! k)] else vs))"
| "simple_row p hide k (DictRow d) = Inl (KeyError ''0'')"

fun simple_indexes ::
  "re_compile \<Rightarrow> masking_rule table \<Rightarrow> int \<Rightarrow> nat list \<Rightarrow> result_row list \<Rightarrow> result_row list \<times> exn option" where
  "simple_indexes compile t rt [] rows = (rows, None)"
| "simple_indexes compile t rt (k # ks) rows =
     (case bindE (tbl_get ''DataMaskingRules'' (\<lambda>r. mu_rule_type r = rt) t) (\<lambda>r.
             bindE (compile True (mu_rule_regex r)) (\<lambda>p. mapE (simple_row p (mu_hide_group r) k) rows)) of
        Inl e \<Rightarrow> (rows, Some e)
      | Inr rows' \<Rightarrow> simple_indexes compile t rt ks rows')"

fun simple_columns ::
  "re_compile \<Rightarrow> masking_rule table \<Rightarrow> string \<Rightarrow> string list \<Rightarrow> masking_column list \<Rightarrow> result_row list
   \<Rightarrow> result_row list \<times> exn option" where
  "simple_columns compile t full_sql names [] rows = (rows, None)"
| "simple_columns compile t full_sql names (m # ms) rows =
     (case simple_indexes compile t (mk_rule_type m) (masked_indexes full_sql names (lower (mk_column_name m))) rows of
        (rows', Some e) \<Rightarrow> (rows', Some e)
      | (rows', None) \<Rightarrow> simple_columns compile t full_sql names ms rows')"

definition simple_column_mask :: "re_compile \<Rightarrow> masking_column table \<Rightarrow> masking_rule table \<Rightarrow> int \<Rightarrow> result_set \<Rightarrow> result_set" where
  "simple_column_mask compile cols t i rs =
     (case simple_columns compile t (rt_full_sql rs) (map lower (rt_column_list rs)) (active_columns cols i) (rt_rows rs) of
        (rows, e) \<Rightarrow> rs\<lparr>rt_rows := rows, rt_error := (case e of None \<Rightarrow> rt_error rs | Some x \<Rightarrow> Some (exn_str x))\<rparr>)"

section \<open>The engines\<close>

text \<open>
  \<open>query_masking\<close>: MySQL, Doris and MongoDB mask by the statement, PostgreSQL and Oracle by the names,
  SQL Server by substitution, which may raise, and only what begins with \<open>select\<close> (MongoDB everything); the others keep
  the result as it is.
\<close>

definition starts_select :: "string \<Rightarrow> bool" where
  "starts_select sql = starts_with (lower sql) ''select''"

definition query_masking ::
  "masking_env \<Rightarrow> masking_column table \<Rightarrow> instance_row \<Rightarrow> string \<Rightarrow> string \<Rightarrow> result_set \<Rightarrow> masking_rule table
   \<Rightarrow> (result_set \<times> exn option) \<times> masking_rule table" where
  "query_masking e cols i db_name sql rs t =
     (let ty = i_db_type i in
      if ty = ''mongo'' \<or> ty \<in> {''mysql'', ''doris''} \<and> starts_select sql then
        (case data_masking e cols i db_name sql rs t of (rs', t') \<Rightarrow> ((rs', None), t'))
      else if ty \<in> {''pgsql'', ''oracle''} \<and> starts_select sql then
        (((simple_column_mask (me_compile e) cols t (i_id i) rs)\<lparr>rt_is_masked := True\<rparr>, None), t)
      else if ty = ''mssql'' \<and> starts_select sql then
        (case brute_mask (me_compile e) cols t (i_id i) rs of
           (rs', None) \<Rightarrow> ((rs'\<lparr>rt_is_masked := True\<rparr>, None), t)
         | (rs', Some x) \<Rightarrow> ((rs', Some x), t))
      else ((rs, None), t))"

end
