(* ===== verification/MaskingProps.thy ===== *)
theory MaskingProps
  imports Masking EngineQueryProps
begin

text \<open>
  What is hidden in the values of a query and what is not: the rule of three parts, and the columns
  that the choice of columns misses.
\<close>

section \<open>The rule of three parts\<close>

lemma last_opt_Cons: "last_opt prev (c # s) = last_opt (Some c) s"
  by (simp add: last_opt_def)

lemma lazy_any:
  "set (re_m (LazyStar any_char) (prev, s, caps)) = (\<lambda>k. (last_opt prev (take k s), drop k s, caps)) ` {..length s}"
proof (induction s arbitrary: prev)
  case Nil
  show ?case by (subst re_m.simps) (simp add: any_char_def last_opt_def)
next
  case (Cons c s)
  have "set (re_m (LazyStar any_char) (prev, c # s, caps))
      = insert (prev, c # s, caps) (set (re_m (LazyStar any_char) (Some c, s, caps)))"
    by (subst re_m.simps) (simp add: any_char_def)
  also have "\<dots> = insert (prev, c # s, caps) ((\<lambda>k. (last_opt prev (take (Suc k) (c # s)), drop (Suc k) (c # s), caps)) ` {..length s})"
    unfolding Cons by (simp add: last_opt_Cons)
  also have "\<dots> = (\<lambda>k. (last_opt prev (take k (c # s)), drop k (c # s), caps)) ` {..length (c # s)}"
    by (simp add: atMost_Suc_eq_insert_0 image_image last_opt_def)
  finally show ?case .
qed

lemma at_least_matches:
  "set (re_m (at_least n) (prev, s, caps)) = (\<lambda>k. (last_opt prev (take k s), drop k s, caps)) ` {n..length s}"
proof (induction n arbitrary: prev s)
  case 0
  show ?case by (simp add: lazy_any atLeast0AtMost)
next
  case (Suc n)
  show ?case
  proof (cases s)
    case Nil
    then show ?thesis by (simp add: any_char_def)
  next
    case (Cons c cs)
    have "set (re_m (at_least (Suc n)) (prev, s, caps)) = set (re_m (at_least n) (Some c, cs, caps))"
      by (simp add: Cons any_char_def)
    also have "\<dots> = (\<lambda>k. (last_opt prev (take (Suc k) s), drop (Suc k) s, caps)) ` {n..length cs}"
      unfolding Suc by (simp add: Cons last_opt_Cons)
    also have "\<dots> = (\<lambda>k. (last_opt prev (take k s), drop k s, caps)) ` {Suc n..length s}"
      by (simp add: Cons image_Suc_atLeastAtMost [symmetric] image_image del: image_Suc_atLeastAtMost)
    finally show ?thesis .
  qed
qed

lemma group_at_least:
  "set (re_m (Grp g (at_least n)) (prev, s, caps))
    = (\<lambda>k. (last_opt prev (take k s), drop k s, (g, take k s) # caps)) ` {n..length s}"
  by (auto simp: at_least_matches image_image min_def intro!: rev_image_eqI)

lemma thirds:
  fixes n :: nat
  shows "(n + 2) div 3 = n div 3 + (if 0 < n mod 3 then 1 else 0)"
    and "n div 3 + (n + 2) div 3 + (n div 3 + (if 1 < n mod 3 then 1 else 0)) = n"
proof -
  obtain q r where n: "n = 3 * q + r" "r < 3" by (metis mult_div_mod_eq mod_less_divisor zero_less_numeral)
  have d: "n div 3 = q" "n mod 3 = r" using n by auto
  have "(n + 2) div 3 = (r + 2 + 3 * q) div 3" by (simp add: n(1) ac_simps)
  also have "\<dots> = (r + 2) div 3 + q" by simp
  finally have e: "(n + 2) div 3 = (r + 2) div 3 + q" .
  from n(2) consider "r = 0" | "r = 1" | "r = 2" by linarith
  then have "(n + 2) div 3 = n div 3 + (if 0 < n mod 3 then 1 else 0)
    \<and> n div 3 + (n + 2) div 3 + (n div 3 + (if 1 < n mod 3 then 1 else 0)) = n"
    unfolding d e by cases (simp_all add: n(1))
  then show "(n + 2) div 3 = n div 3 + (if 0 < n mod 3 then 1 else 0)"
    and "n div 3 + (n + 2) div 3 + (n div 3 + (if 1 < n mod 3 then 1 else 0)) = n" by blast+
qed

definition three_split :: "string \<Rightarrow> nat \<Rightarrow> nat \<Rightarrow> pos" where
  "three_split s a b = (last_opt None s, [], [(3, drop (a + b) s), (2, take b (drop a s)), (1, take a s)])"

lemma last_opt_drop: "last_opt (last_opt p (take k s)) (drop k s) = last_opt p s"
  by (auto simp: last_opt_def)

lemma last_opt_take_drop: "last_opt (last_opt p (take k s)) (take j (drop k s)) = last_opt p (take (k + j) s)"
  by (auto simp: last_opt_def take_add)

lemma three_parts_match:
  assumes "a = length s div 3" "b = (length s + 2) div 3"
  shows "set (re_m (three_parts (length s)) (None, s, [])) = {three_split s a b}"
proof -
  let ?n = "length s"
  obtain c where c: "c = ?n div 3 + (if 1 < ?n mod 3 then 1 else 0)" by blast
  have b: "b = ?n div 3 + (if 0 < ?n mod 3 then 1 else 0)" using assms(2) thirds(1) by simp
  have sum: "a + b + c = ?n" using assms c thirds(2) [of ?n] by simp
  have pat: "three_parts ?n = Seq Bos (Seq (Grp 1 (at_least a)) (Seq (Grp 2 (at_least b)) (Seq (Grp 3 (at_least c)) Eos)))"
    unfolding three_parts_def Let_def assms(1) b c by simp
  have "q = three_split s a b" if "q \<in> set (re_m (three_parts ?n) (None, s, []))" for q
  proof -
    from that obtain u0 where u0: "u0 \<in> set (re_m Bos (None, s, []))"
      and q0: "q \<in> set (re_m (Seq (Grp 1 (at_least a)) (Seq (Grp 2 (at_least b)) (Seq (Grp 3 (at_least c)) Eos))) u0)"
      unfolding pat set_Seq by blast
    have u0': "u0 = (None, s, [])" using u0 by simp
    obtain u1 where u1: "u1 \<in> set (re_m (Grp 1 (at_least a)) (None, s, []))"
      and q1: "q \<in> set (re_m (Seq (Grp 2 (at_least b)) (Seq (Grp 3 (at_least c)) Eos)) u1)"
      using q0 unfolding set_Seq [of _ "Grp 1 (at_least a)"] u0' by blast
    obtain k1 where k1: "a \<le> k1" "k1 \<le> ?n" "u1 = (last_opt None (take k1 s), drop k1 s, [(1, take k1 s)])"
      using u1 unfolding group_at_least by auto
    obtain u2 where u2: "u2 \<in> set (re_m (Grp 2 (at_least b)) u1)" and q2: "q \<in> set (re_m (Seq (Grp 3 (at_least c)) Eos) u2)"
      using q1 unfolding set_Seq [of _ "Grp 2 (at_least b)"] by blast
    obtain k2 where k2: "b \<le> k2" "k2 \<le> ?n - k1"
      "u2 = (last_opt None (take (k1 + k2) s), drop (k1 + k2) s, [(2, take k2 (drop k1 s)), (1, take k1 s)])"
      using u2 unfolding k1(3) group_at_least by (auto simp: last_opt_take_drop add.commute)
    obtain u3 where u3: "u3 \<in> set (re_m (Grp 3 (at_least c)) u2)" and q3: "q \<in> set (re_m Eos u3)"
      using q2 unfolding set_Seq by blast
    obtain k3 where k3: "c \<le> k3" "k3 \<le> ?n - (k1 + k2)" "u3 = (last_opt None (take (k1 + k2 + k3) s), drop (k1 + k2 + k3) s,
        [(3, take k3 (drop (k1 + k2) s)), (2, take k2 (drop k1 s)), (1, take k1 s)])"
      using u3 unfolding k2(3) group_at_least by (auto simp: last_opt_take_drop add.commute)
    have "k1 = a" "k2 = b" "k3 = c" using k1(1,2) k2(1,2) k3(1,2) sum by linarith+
    moreover have "q = u3" using q3 by (simp split: if_splits)
    ultimately show ?thesis using k3(3) sum by (simp add: three_split_def)
  qed
  moreover have "three_split s a b \<in> set (re_m (three_parts ?n) (None, s, []))"
  proof -
    let ?u1 = "(last_opt None (take a s), drop a s, [(1, take a s)])"
    let ?u2 = "(last_opt None (take (a + b) s), drop (a + b) s, [(2, take b (drop a s)), (1, take a s)])"
    have "?u1 \<in> set (re_m (Grp 1 (at_least a)) (None, s, []))" unfolding group_at_least using sum by auto
    moreover have "?u2 \<in> set (re_m (Grp 2 (at_least b)) ?u1)" unfolding group_at_least
      using sum by (intro image_eqI [of _ _ b]) (auto simp: last_opt_take_drop add.commute)
    moreover have "three_split s a b \<in> set (re_m (Grp 3 (at_least c)) ?u2)" unfolding group_at_least three_split_def
      using sum by (intro image_eqI [of _ _ c]) (auto simp: last_opt_drop add.commute)
    moreover have "three_split s a b \<in> set (re_m Eos (three_split s a b))" by (simp add: three_split_def at_end_def)
    moreover have "(None, s, []) \<in> set (re_m Bos (None, s, []))" by simp
    ultimately show ?thesis unfolding pat set_Seq by blast
  qed
  ultimately show ?thesis by blast
qed

text \<open>
  The general rule hides the middle third, rounded up, of every text, and nothing else: the text
  keeps its length, whatever the stored pattern is.
\<close>

theorem general_rule_masks_middle:
  assumes "mu_rule_type rule = 100" "mu_hide_group rule = 2" "s \<noteq> []"
    and "a = length s div 3" "b = (length s + 2) div 3"
  shows "regex compile rule (PStr s) = Inr (PStr (take a s @ replicate b (CHR ''*'') @ drop (a + b) s))"
proof -
  note m = three_parts_match [OF assms(4,5)]
  have "re_m (three_parts (length s)) (None, s, []) \<noteq> []" using m by auto
  then obtain q qs where q: "re_m (three_parts (length s)) (None, s, []) = q # qs"
    by (cases "re_m (three_parts (length s)) (None, s, [])") auto
  with m have qs: "q = three_split s a b" by (metis list.set_intros(1) singletonD)
  have "re_search_from (three_parts (length s)) None s = Some ([], s, three_split s a b)"
    using q qs assms(3) by (cases s) (simp_all add: re_match_at_def)
  moreover have "masked_groups (three_split s a b) 2 [1..<Suc 3] = Inr (take a s @ replicate b (CHR ''*'') @ drop (a + b) s)"
  proof -
    have "min b (length s - a) = b" using assms(4,5) thirds(2) [of "length s"] by linarith
    moreover have "[1..<Suc 3] = [1, 2, 3]" by code_simp
    moreover have "caps_get 1 (three_split s a b) = Some (take a s)" "caps_get 2 (three_split s a b) = Some (take b (drop a s))"
      "caps_get 3 (three_split s a b) = Some (drop (a + b) s)" by (simp_all add: caps_get_def three_split_def)
    ultimately show ?thesis by (simp add: bindE_def)
  qed
  moreover have "pos_caps (three_split s a b) = (3, drop (a + b) s) # [(2, take b (drop a s)), (1, take a s)]"
    by (simp add: three_split_def)
  ultimately show ?thesis using assms(1-3) by (simp add: regex_def bindE_def del: upt_Suc)
qed

theorem general_rule_masks_middle_witness:
  "regex (\<lambda>_ _. Inl (ValueError [])) rule_100 (PStr ''13800138000'') = Inr (PStr ''138****8000'')"
proof -
  have "regex (\<lambda>_ _. Inl (ValueError [])) rule_100 (PStr ''13800138000'')
      = Inr (PStr (take 3 ''13800138000'' @ replicate 4 (CHR ''*'') @ drop (3 + 4) ''13800138000''))"
    by (rule general_rule_masks_middle) (code_simp | simp add: rule_100_def)+
  moreover have "take 3 ''13800138000'' @ replicate 4 (CHR ''*'') @ drop (3 + 4) ''13800138000'' = ''138****8000''"
    by code_simp
  ultimately show ?thesis by metis
qed

text \<open>A MySQL instance for the witnesses.\<close>

definition demo_mysql :: instance_row where
  "demo_mysql = new_Instance\<lparr>i_id := 7, i_instance_name := ''shop'', i_db_type := ''mysql''\<rparr>"

section \<open>Columns that stay visible\<close>

text \<open>The values of one column are the same in two lists of rows.\<close>

definition same_column :: "nat \<Rightarrow> result_row list \<Rightarrow> result_row list \<Rightarrow> bool" where
  "same_column j = list_all2 (\<lambda>r r'. length (row_items r') = length (row_items r)
     \<and> (j < length (row_items r) \<longrightarrow> row_items r' ! j = row_items r ! j))"

lemma same_column_refl [simp]: "same_column j rows rows"
  by (simp add: same_column_def list_all2_refl)

lemma same_column_trans: "same_column j a b \<Longrightarrow> same_column j b c \<Longrightarrow> same_column j a c"
  unfolding same_column_def by (rule list_all2_trans) auto

lemma index_of_Some: "index_of x ys = Some k \<Longrightarrow> k < length ys \<and> ys ! k = x \<and> (\<forall>i < k. ys ! i \<noteq> x)"
proof (induction ys arbitrary: k)
  case (Cons y ys)
  show ?case
  proof (cases "x = y")
    case True
    with Cons.prems show ?thesis by simp
  next
    case False
    with Cons.prems obtain k' where "index_of x ys = Some k'" "k = Suc k'" by auto
    with Cons.IH False show ?thesis by (auto simp: nth_Cons split: nat.splits)
  qed
qed simp

lemma alias_indexes_first:
  "k \<in> set (alias_indexes full_sql name names cs) \<Longrightarrow> \<exists>x. index_of x names = Some k"
  by (induction cs) (auto split: option.splits if_splits)

lemma masked_indexes_first: "k \<in> set (masked_indexes full_sql names name) \<Longrightarrow> \<exists>x. index_of x names = Some k"
  by (auto simp: masked_indexes_def split: option.splits dest: alias_indexes_first)

lemma mapE_list_all2: "mapE f xs = Inr ys \<Longrightarrow> (\<And>x y. f x = Inr y \<Longrightarrow> P x y) \<Longrightarrow> list_all2 P xs ys"
  by (induction xs arbitrary: ys) (auto simp: bindE_def split: sum.splits)

lemma simple_row_same:
  assumes "simple_row p hide k r = Inr r'" "k \<noteq> j"
  shows "length (row_items r') = length (row_items r) \<and> (j < length (row_items r) \<longrightarrow> row_items r' ! j = row_items r ! j)"
  using assms by (cases r) (auto split: if_splits)

lemma simple_indexes_same:
  "simple_indexes compile t rt ks rows = (rows', e) \<Longrightarrow> j \<notin> set ks \<Longrightarrow> same_column j rows rows'"
proof (induction ks arbitrary: rows)
  case (Cons k ks)
  show ?case
  proof (cases "bindE (tbl_get ''DataMaskingRules'' (\<lambda>r. mu_rule_type r = rt) t) (\<lambda>r.
      bindE (compile True (mu_rule_regex r)) (\<lambda>p. mapE (simple_row p (mu_hide_group r) k) rows))")
    case (Inl x)
    with Cons.prems(1) show ?thesis by simp
  next
    case (Inr rows1)
    then obtain p hide where "mapE (simple_row p hide k) rows = Inr rows1" by (auto simp: bindE_def split: sum.splits)
    then have "same_column j rows rows1" unfolding same_column_def
      by (rule mapE_list_all2, elim simple_row_same) (use Cons.prems(2) in auto)
    moreover have "same_column j rows1 rows'" using Cons.IH [of rows1] Cons.prems Inr by simp
    ultimately show ?thesis by (rule same_column_trans)
  qed
qed simp

lemma simple_columns_same:
  assumes "\<And>k x. index_of x names = Some k \<Longrightarrow> k \<noteq> j"
  shows "simple_columns compile t full_sql names ms rows = (rows', e) \<Longrightarrow> same_column j rows rows'"
proof (induction ms arbitrary: rows)
  case (Cons m ms)
  obtain rows1 e1 where s: "simple_indexes compile t (mk_rule_type m) (masked_indexes full_sql names (lower (mk_column_name m))) rows
      = (rows1, e1)" by fastforce
  have "j \<notin> set (masked_indexes full_sql names (lower (mk_column_name m)))" using masked_indexes_first assms by blast
  from simple_indexes_same [OF s this] have "same_column j rows rows1" .
  moreover have "same_column j rows1 rows'" using Cons s by (cases e1) auto
  ultimately show ?case by (rule same_column_trans)
qed simp

text \<open>
  A column that appears twice in a result of PostgreSQL or Oracle is hidden only once: whatever is
  configured, the values of a column whose name stands further left already are returned as they are.
\<close>

theorem repeated_column_unmasked:
  assumes "i < j" "j < length (rt_column_list rs)" "lower (rt_column_list rs ! i) = lower (rt_column_list rs ! j)"
  shows "same_column j (rt_rows rs) (rt_rows (simple_column_mask compile cols t inst rs))"
proof -
  let ?names = "map lower (rt_column_list rs)"
  obtain rows e where r: "simple_columns compile t (rt_full_sql rs) ?names (active_columns cols inst) (rt_rows rs) = (rows, e)"
    by fastforce
  have "k \<noteq> j" if "index_of x ?names = Some k" for k x
  proof
    assume "k = j"
    with index_of_Some [OF that] have "?names ! j = x" "?names ! i \<noteq> x" using assms(1) by auto
    then show False using assms by simp
  qed
  from simple_columns_same [OF this r] show ?thesis by (simp add: simple_column_mask_def r)
qed

lemma count_distinct: "distinct xs \<Longrightarrow> count_list xs x \<le> 1"
  by (induction xs) (auto simp: count_list_0_iff)

text \<open>
  A \<open>UNION\<close> of differently named columns is returned as it is: the columns of the statement are
  reduced to those whose name occurs more than once before the configuration is looked at.
\<close>

theorem union_of_other_names_unmasked:
  assumes "i_db_type i \<noteq> ''mongo''" "me_unions e sql = Inr (Suc n)" "me_select_list e i db_name sql = Inr sel"
    and "me_repeated e sel = Inr (filter (\<lambda>c. 1 < count_list (map sl_field sel) (sl_field c)) sel)"
    and "distinct (map sl_field sel)"
  shows "data_masking e cols i db_name sql rs t = (rs\<lparr>rt_mask_rule_hit := False\<rparr>, t)"
proof -
  have "filter (\<lambda>c. 1 < count_list (map sl_field sel) (sl_field c)) sel = []"
    using count_distinct [OF assms(5)] by (auto simp: filter_empty_conv not_less)
  with assms(1-4) have "statement_columns e i db_name sql rs = Inr []"
    by (simp add: statement_columns_def del_repeat_def bindE_def)
  then show ?thesis by (simp add: data_masking_def analyze_query_tree_def)
qed

theorem union_of_other_names_unmasked_witness:
  "let e = \<lparr>me_compile = (\<lambda>_ _. Inl (ValueError [])), me_unions = (\<lambda>_. Inr 1),
       me_select_list = (\<lambda>_ _ _. Inr [\<lparr>sl_index = 0, sl_field = ''id'', sl_table = ''t'', sl_schema = ''d''\<rparr>,
          \<lparr>sl_index = 0, sl_field = ''phone'', sl_table = ''users'', sl_schema = ''d''\<rparr>]),
       me_repeated = (\<lambda>cs. Inr (filter (\<lambda>c. 1 < count_list (map sl_field cs) (sl_field c)) cs))\<rparr>;
     rs = (new_ResultSet [])\<lparr>rt_rows := [Row [PStr ''13800138000'']]\<rparr>
   in data_masking e empty_table demo_mysql ''d'' ''select id from t union select phone from users'' rs empty_table
      = (rs\<lparr>rt_mask_rule_hit := False\<rparr>, empty_table)"
  unfolding Let_def
  by (rule union_of_other_names_unmasked [where n = 0]) (simp add: demo_mysql_def, simp, simp, simp, code_simp)

theorem repeated_column_unmasked_witness:
  "let rs = (new_ResultSet ''select phone, phone from users'')\<lparr>rt_column_list := [''phone'', ''PHONE''],
       rt_rows := [Row [PStr ''13800138000'', PStr ''13800138000'']]\<rparr>
   in same_column 1 (rt_rows rs) (rt_rows (simple_column_mask (\<lambda>_ _. Inr (Grp 1 (Plus digit_re)))
        \<lparr>tbl_rows = [\<lparr>mk_id = 1, mk_rule_type = 1, mk_active = True, mk_instance = 7, mk_table_schema = ''d'',
           mk_table_name = ''users'', mk_column_name = ''phone''\<rparr>], tbl_next = 2\<rparr>
        \<lparr>tbl_rows = [rule_100\<lparr>mu_rule_type := 1, mu_hide_group := 1\<rparr>], tbl_next = 2\<rparr> 7 rs))"
  unfolding Let_def by (rule repeated_column_unmasked [of 0]) (simp, simp, code_simp)

section \<open>Columns that are hidden\<close>








definition demo_masking :: masking_env where
  "demo_masking = \<lparr>me_compile = (\<lambda>_ _. Inl (ValueError [])), me_unions = (\<lambda>_. Inr 0),
     me_select_list = (\<lambda>_ _ _. Inr [\<lparr>sl_index = 0, sl_field = ''id'', sl_table = ''users'', sl_schema = ''d''\<rparr>,
        \<lparr>sl_index = 1, sl_field = ''Phone'', sl_table = ''users'', sl_schema = ''d''\<rparr>]), me_repeated = Inr\<rparr>"

definition demo_columns :: "masking_column table" where
  "demo_columns = \<lparr>tbl_rows = [\<lparr>mk_id = 1, mk_rule_type = 100, mk_active = True, mk_instance = 7, mk_table_schema = ''*'',
     mk_table_name = ''*'', mk_column_name = ''phone''\<rparr>], tbl_next = 2\<rparr>"

definition demo_rules :: "masking_rule table" where
  "demo_rules = \<lparr>tbl_rows = [rule_100], tbl_next = 2\<rparr>"

definition demo_result :: result_set where
  "demo_result = (new_ResultSet [])\<lparr>rt_rows := [Row [PInt 1, PStr ''13800138000'']]\<rparr>"


section \<open>Statements that are not masked at all\<close>

text \<open>
  Oracle: a statement that begins with \<open>with\<close> passes the check of queries, and its result is returned
  without masking, whatever is configured, because only what begins with \<open>select\<close> is masked.
\<close>

theorem oracle_with_unmasked:
  assumes "first_statement sp sql0 = Some sql" "starts_with (lower sql) ''with''" "i_db_type i = ''oracle''"
  shows "\<not> qc_bad_query (oracle_query_check sp sql0)
    \<and> query_masking e cols i db_name (base_filter_sql (qc_filtered_sql (oracle_query_check sp sql0)) n) rs t = ((rs, None), t)"
proof
  let ?r = "oracle_query_check sp sql0"
  have "re_match (starts_re [''select'', ''with'', ''explain'']) (lower sql)"
    using assms(2) by (simp add: re_match_starts_re)
  with assms(1) show "\<not> qc_bad_query ?r" by (simp add: oracle_query_check_def new_check_def Let_def)
  have f: "qc_filtered_sql ?r = drop_semicolon (strip sql)"
    using assms(1) by (simp add: oracle_query_check_def Let_def)
  have w: "''with'' \<in> set query_words" by (simp add: query_words_def)
  have "starts_with (lower (drop_semicolon (strip sql))) ''with''"
    by (rule drop_semicolon_word [OF strip_keeps_word [OF query_words_plain [OF w] assms(2)]]) simp
  from base_filter_word [OF w this] have x: "starts_with (lower (base_filter_sql (qc_filtered_sql ?r) n)) ''with''"
    unfolding f .
  have "\<not> starts_select (base_filter_sql (qc_filtered_sql ?r) n)"
    using select_only [OF w x] unfolding starts_select_def by auto
  then show "query_masking e cols i db_name (base_filter_sql (qc_filtered_sql ?r) n) rs t = ((rs, None), t)"
    using assms(3) by (simp add: query_masking_def Let_def)
qed

theorem oracle_with_unmasked_witness:
  "let q = oracle_query_check \<lparr>sp_strip_comments = id, sp_split = (\<lambda>s. [s])\<rparr> ''WITH u AS (SELECT phone FROM users) SELECT phone FROM u''
   in \<not> qc_bad_query q
      \<and> query_masking demo_masking demo_columns (demo_mysql\<lparr>i_db_type := ''oracle''\<rparr>) ''d'' (base_filter_sql (qc_filtered_sql q) 100)
          demo_result demo_rules = ((demo_result, None), demo_rules)"
  unfolding Let_def by (rule oracle_with_unmasked) (simp add: first_statement_def, code_simp, simp)

end
