(* ===== verification/SqlQuery.thy ===== *)
theory SqlQuery
  imports QueryPrivileges Schedules EngineQuery Masking
begin

text \<open>
  The online query: \<open>sql/services/sqlquery_service.py\<close>, \<open>sql/services/querylog_service.py\<close> and
  \<open>sql_api/api_sqlquery.py\<close>. The engine of an instance is a record of the operations the service calls;
  \<open>sql_service_engine\<close> builds it from the checks and rewritings of the theory \<open>EngineQuery\<close>. The state adds
  to the tables the masking rules and the statements that were sent to servers, which is what the
  properties speak about.
\<close>

record query_state =
  qy_world :: world
  qy_rules :: "masking_rule table"
  qy_sent :: "(int \<times> string \<times> string \<times> int) list"

record service_engine =
  se_check :: "string \<Rightarrow> string \<Rightarrow> query_check res"
  se_filter :: "string \<Rightarrow> int \<Rightarrow> string"
  se_thread_id :: "string \<Rightarrow> int option res"
  se_behind :: "int option res"
  se_run :: "string \<Rightarrow> string \<Rightarrow> int \<Rightarrow> result_set res"

text \<open>
  \<open>get_engine\<close>, the readers of table references and schemas, and the masking environment are parameters,
  as is the clock that measures the run.
\<close>

record query_env =
  qe_engine :: "instance_row \<Rightarrow> service_engine res"
  qe_table_ref :: "string \<Rightarrow> instance_row \<Rightarrow> string \<Rightarrow> (string \<times> string) list res"
  qe_schemas :: "string \<Rightarrow> string option list"
  qe_masking :: masking_env
  qe_columns :: "masking_column table"
  qe_cost :: string

record query_answer =
  an_status :: int
  an_msg :: string
  an_data :: "result_set option"
  an_behind :: "int option"

definition query_refused :: "int \<Rightarrow> string \<Rightarrow> query_answer" where
  "query_refused st m = \<lparr>an_status = st, an_msg = m, an_data = None, an_behind = None\<rparr>"

definition query_data :: "result_set \<Rightarrow> query_answer" where
  "query_data rs = \<lparr>an_status = 0, an_msg = ''ok'', an_data = Some rs, an_behind = None\<rparr>"

text \<open>Steps on the tables, and the statement sent to the server.\<close>

definition on_tables :: "(world, 'a) M \<Rightarrow> (query_state, 'a) M" where
  "on_tables m = (\<lambda>s. case m (qy_world s) of (r, w) \<Rightarrow> (r, s\<lparr>qy_world := w\<rparr>))"

definition send_query :: "service_engine \<Rightarrow> instance_row \<Rightarrow> string \<Rightarrow> string \<Rightarrow> int \<Rightarrow> (query_state, result_set) M" where
  "send_query g i db_name sql limit_num =
     thenM (modifyM (\<lambda>s. s\<lparr>qy_sent := qy_sent s @ [(i_id i, db_name, sql, limit_num)]\<rparr>))
       (liftM (\<lambda>_. se_run g db_name sql limit_num))"

text \<open>A timer that kills the connection stands while the statement runs.\<close>

definition kill_name :: "world \<Rightarrow> string" where
  "kill_name w = ''query-'' @ str_int (w_now w)"

definition with_schedules_of :: "(schedule table \<Rightarrow> schedule table res) \<Rightarrow> (world, unit) M" where
  "with_schedules_of f = (\<lambda>w. case f (w_schedules w) of
       Inl e \<Rightarrow> (Inl e, w)
     | Inr t \<Rightarrow> (Inr (), w\<lparr>w_schedules := t\<rparr>))"

definition guard_running :: "instance_row \<Rightarrow> int option \<Rightarrow> int \<Rightarrow> (query_state, 'a) M \<Rightarrow> (query_state, 'a) M" where
  "guard_running i thread seconds m = (case thread of
       Some k \<Rightarrow> (if k = 0 then m else
         bindM (getsM (\<lambda>s. (kill_name (qy_world s), w_now (qy_world s)))) (\<lambda>(name, now).
         thenM (on_tables (with_schedules_of (add_kill_conn_schedule name (now + seconds) (i_id i) k)))
         (bindM m (\<lambda>x. thenM (on_tables (with_schedules_of (del_schedule name))) (ret x)))))
     | None \<Rightarrow> m)"

text \<open>
  Masking works on the result itself: an error leaves what was hidden so far. The answer, and the result
  afterwards.
\<close>

definition has_error :: "result_set \<Rightarrow> bool" where
  "has_error rs = (case rt_error rs of None \<Rightarrow> False | Some m \<Rightarrow> m \<noteq> [])"

definition masked_answer :: "world \<Rightarrow> result_set \<Rightarrow> exn option \<Rightarrow> query_answer \<times> result_set" where
  "masked_answer w rs raised =
     (let strict = truthy (config_get w ''query_check'' PNone);
          pass = rs\<lparr>rt_error := None\<rparr> in
      case raised of
        Some e \<Rightarrow> (if strict then (query_refused 1 (''masking failed, ask the administrator: '' @ exn_str e), rs)
                  else (query_data pass, pass))
      | None \<Rightarrow> (case rt_error rs of
            None \<Rightarrow> (query_data rs, rs)
          | Some m \<Rightarrow> (if m = [] then (query_data rs, rs)
                      else if strict then (query_refused 1 (''masking failed: '' @ m), rs)
                      else (query_data pass, pass))))"

definition answer_of :: "query_env \<Rightarrow> instance_row \<Rightarrow> string \<Rightarrow> string \<Rightarrow> result_set \<Rightarrow> (query_state, query_answer \<times> result_set) M" where
  "answer_of env i db_name sql rs = (\<lambda>s.
     if has_error rs then (Inr (query_refused 1 (the (rt_error rs)), rs), s)
     else if truthy (config_get (qy_world s) ''data_masking'' PNone) then
       (case query_masking (qe_masking env) (qe_columns env) i db_name sql rs (qy_rules s) of
          ((rs', x), t) \<Rightarrow> (Inr (masked_answer (qy_world s) rs' x), s\<lparr>qy_rules := t\<rparr>))
     else (Inr (query_data rs, rs), s))"

text \<open>The row of the log: rows returned, as far as the limit lets them through.\<close>

definition effect_row :: "int \<Rightarrow> result_set \<Rightarrow> int" where
  "effect_row limit_num rs =
     (if has_error rs then 0 else if limit_num = 0 then rt_affected_rows rs else min limit_num (rt_affected_rows rs))"

definition query_log_row ::
  "world \<Rightarrow> user \<Rightarrow> instance_row \<Rightarrow> string \<Rightarrow> string \<Rightarrow> int \<Rightarrow> bool \<Rightarrow> result_set \<Rightarrow> query_log" where
  "query_log_row w u i db_name sql limit_num priv_check rs =
     \<lparr>ql_id = 0, ql_instance_name = i_instance_name i, ql_db_name = db_name, ql_sqllog = sql,
      ql_effect_row = effect_row limit_num rs, ql_cost_time = rt_query_time rs, ql_username = u_username u,
      ql_user_display = u_display u, ql_priv_check = priv_check, ql_hit_rule = rt_mask_rule_hit rs,
      ql_masking = rt_is_masked rs, ql_favorite = False, ql_alias = [], ql_create_time = w_now w, ql_sys_time = w_now w\<rparr>"

definition log_query ::
  "user \<Rightarrow> instance_row \<Rightarrow> string \<Rightarrow> string \<Rightarrow> int \<Rightarrow> bool \<Rightarrow> result_set \<Rightarrow> (query_state, unit) M" where
  "log_query u i db_name sql limit_num priv_check rs = modifyM (\<lambda>s. let w = qy_world s in
     s\<lparr>qy_world := w\<lparr>w_query_logs := tbl_create set_ql_id (query_log_row w u i db_name sql limit_num priv_check rs) (w_query_logs w)\<rparr>\<rparr>)"

text \<open>The part after the checks: rewrite, run under the timer, mask, log.\<close>

definition query_limit :: "string \<Rightarrow> priv_result \<Rightarrow> int" where
  "query_limit sql p = (if re_match (starts_re [''explain'']) (lower sql) then 0 else pr_limit_num p)"

definition run_checked ::
  "query_env \<Rightarrow> service_engine \<Rightarrow> user \<Rightarrow> instance_row \<Rightarrow> string \<Rightarrow> string \<Rightarrow> priv_result \<Rightarrow> (query_state, query_answer) M" where
  "run_checked env g u i db_name filtered p =
     (let limit_num = query_limit filtered p; sql = se_filter g filtered limit_num in
      bindM (liftM (\<lambda>s. se_thread_id g db_name)) (\<lambda>thread.
      bindM (liftM (\<lambda>s. pyval_int (config_get (qy_world s) ''max_execution_time'' (PInt 60)))) (\<lambda>seconds.
      bindM (guard_running i thread seconds
               (bindM (liftM (\<lambda>s. se_behind g)) (\<lambda>b. bindM (send_query g i db_name sql limit_num) (\<lambda>rs. ret (b, rs))))) (\<lambda>(b, rs0).
      bindM (answer_of env i db_name sql (rs0\<lparr>rt_query_time := qe_cost env\<rparr>)) (\<lambda>(a, rs).
      thenM (log_query u i db_name sql limit_num (pr_priv_check p) rs)
        (ret (if has_error rs then a else a\<lparr>an_behind := b\<rparr>)))))))"

definition checked_query ::
  "query_env \<Rightarrow> user \<Rightarrow> instance_row \<Rightarrow> string \<Rightarrow> string \<Rightarrow> int \<Rightarrow> (query_state, query_answer) M" where
  "checked_query env u i db_name sql limit_num =
     bindM (liftM (\<lambda>s. qe_engine env i)) (\<lambda>g.
     bindM (liftM (\<lambda>s. se_check g db_name sql)) (\<lambda>chk.
     bindM (getsM (\<lambda>s. config_get (qy_world s) ''disable_star'' PNone = PBool True)) (\<lambda>no_star.
       if qc_bad_query chk \<or> qc_has_star chk \<and> no_star then ret (query_refused 1 (qc_msg chk))
       else bindM (liftM (\<lambda>s. query_priv_check (qe_table_ref env) (qe_schemas env) (qy_world s) u i db_name
                     (qc_filtered_sql chk) limit_num)) (\<lambda>p.
         if pr_status p \<noteq> 0 then ret (query_refused (pr_status p) (pr_msg p))
         else run_checked env g u i db_name (qc_filtered_sql chk) p))))"

text \<open>\<open>execute_sql_query\<close>: the instance is looked up outside the \<open>try\<close>, everything else becomes an answer.\<close>

definition instance_named :: "world \<Rightarrow> user \<Rightarrow> string \<Rightarrow> instance_row res" where
  "instance_named w u name = (case filter (\<lambda>i. i_instance_name i = name) (user_instances w u [] [] []) of
       [] \<Rightarrow> Inl (DoesNotExist ''Instance'')
     | [i] \<Rightarrow> Inr i
     | _ \<Rightarrow> Inl (MultipleObjectsReturned ''Instance''))"

definition execute_sql_query ::
  "query_env \<Rightarrow> user \<Rightarrow> string \<Rightarrow> string \<Rightarrow> string \<Rightarrow> int \<Rightarrow> (query_state, query_answer) M" where
  "execute_sql_query env u instance_name db_name sql limit_num = (\<lambda>s.
     case instance_named (qy_world s) u instance_name of
       Inl e \<Rightarrow> (if is_DoesNotExist e then (Inr (query_refused 1 ''the instance is not in your groups''), s) else (Inl e, s))
     | Inr i \<Rightarrow> (case checked_query env u i db_name sql limit_num s of
           (Inl e, s') \<Rightarrow> (Inr (query_refused 1 (''the query failed: '' @ exn_str e)), s')
         | (Inr a, s') \<Rightarrow> (Inr a, s')))"

text \<open>\<open>SQLQueryExecuteView.post\<close>: the fields were validated: texts that are not empty, a limit of 0 or more.\<close>

definition SQLQueryExecute_post ::
  "query_env \<Rightarrow> user \<Rightarrow> string \<Rightarrow> string \<Rightarrow> string \<Rightarrow> int \<Rightarrow> (query_state, query_answer) M" where
  "SQLQueryExecute_post env u instance_name db_name sql limit_num =
     (if \<not> (u_is_superuser u \<or> has_perm u ''sql.query_submit'') then throw PermissionDenied
      else if instance_name = [] \<or> db_name = [] \<or> sql = [] \<or> limit_num < 0 then throw (ValidationError ''invalid request'')
      else execute_sql_query env u instance_name db_name sql limit_num)"

text \<open>The engine of a type whose statements \<open>sqlparse\<close> splits.\<close>

definition sql_service_engine ::
  "query_server \<Rightarrow> string \<Rightarrow> (string \<Rightarrow> int option res) \<Rightarrow> int option res \<Rightarrow> (string \<Rightarrow> string \<Rightarrow> int \<Rightarrow> result_set res) \<Rightarrow> service_engine" where
  "sql_service_engine e db_type thread behind run =
     \<lparr>se_check = (\<lambda>db sql. Inr (engine_check (e\<lparr>qs_db := db\<rparr>) db_type sql)), se_filter = engine_filter db_type,
      se_thread_id = thread, se_behind = behind, se_run = run\<rparr>"

section \<open>The log of queries\<close>

definition may_audit :: "user \<Rightarrow> bool" where
  "may_audit u = (u_is_superuser u \<or> has_perm u ''sql.audit_user'')"

record log_filter =
  lf_limit :: nat
  lf_offset :: nat
  lf_star :: bool
  lf_query_log_id :: int
  lf_search :: string
  lf_start_date :: string
  lf_end_date :: string

text \<open>\<open>parse_date\<close> reads a date as the midnight it begins with; the range includes the day after the end.\<close>

definition log_period :: "(string \<Rightarrow> datetime res) \<Rightarrow> log_filter \<Rightarrow> (datetime \<Rightarrow> bool) res" where
  "log_period parse_date f =
     (if lf_start_date f \<noteq> [] \<and> lf_end_date f \<noteq> [] then
        bindE (parse_date (lf_end_date f)) (\<lambda>e. bindE (parse_date (lf_start_date f)) (\<lambda>b.
          Inr (\<lambda>t. b \<le> t \<and> t \<le> e + 86400)))
      else Inr (\<lambda>t. True))"

definition log_rows :: "world \<Rightarrow> user \<Rightarrow> log_filter \<Rightarrow> (datetime \<Rightarrow> bool) \<Rightarrow> query_log list" where
  "log_rows w u f period = tbl_filter (\<lambda>q.
      (lf_star f \<longrightarrow> ql_favorite q) \<and> (lf_query_log_id f \<noteq> 0 \<longrightarrow> ql_id q = lf_query_log_id f)
    \<and> (\<not> may_audit u \<longrightarrow> ql_username q = u_username u) \<and> period (ql_create_time q)
    \<and> (icontains (ql_sqllog q) (lf_search f) \<or> icontains (ql_user_display q) (lf_search f) \<or> icontains (ql_alias q) (lf_search f)))
     (w_query_logs w)"

text \<open>\<open>list_query_logs\<close>: \<open>[offset:offset + limit]\<close> in descending key order, all of them when both are 0.\<close>

definition list_query_logs ::
  "(string \<Rightarrow> datetime res) \<Rightarrow> world \<Rightarrow> user \<Rightarrow> log_filter \<Rightarrow> (nat \<times> query_log list) res" where
  "list_query_logs parse_date w u f = bindE (log_period parse_date f) (\<lambda>period.
     let rows = log_rows w u f period in
     Inr (length rows, if lf_offset f + lf_limit f = 0 then rev rows else page (lf_offset f) (lf_limit f) rows))"

definition SQLQueryLogs_get ::
  "(string \<Rightarrow> datetime res) \<Rightarrow> world \<Rightarrow> user \<Rightarrow> log_filter \<Rightarrow> (nat \<times> query_log list) res" where
  "SQLQueryLogs_get parse_date w u f =
     (if \<not> (may_audit u \<or> has_perm u ''sql.menu_sqlquery'') then Inr (0, []) else list_query_logs parse_date w u f)"

definition update_favorite :: "user \<Rightarrow> int \<Rightarrow> bool \<Rightarrow> string \<Rightarrow> (world, int \<times> string) M" where
  "update_favorite u query_log_id star alias =
     (let P = (\<lambda>q. ql_id q = query_log_id \<and> (may_audit u \<or> ql_username q = u_username u)) in
      bindM (getsM (\<lambda>w. tbl_exists P (w_query_logs w))) (\<lambda>found.
        if \<not> found then ret (1, ''no such query or not yours'')
        else thenM (modifyM (\<lambda>w. w\<lparr>w_query_logs := tbl_update P (\<lambda>q. q\<lparr>ql_favorite := star, ql_alias := alias\<rparr>) (w_query_logs w)\<rparr>))
               (ret (0, ''ok''))))"

definition SQLQueryFavorites_post :: "user \<Rightarrow> int \<Rightarrow> bool \<Rightarrow> string \<Rightarrow> (world, int \<times> string) M" where
  "SQLQueryFavorites_post u query_log_id star alias =
     (if \<not> (u_is_superuser u \<or> has_perm u ''sql.menu_sqlquery'') then throw PermissionDenied
      else if query_log_id < 1 then throw (ValidationError ''query_log_id'')
      else update_favorite u query_log_id star alias)"

end
