(* ===== verification/SqlQueryProps.thy ===== *)
theory SqlQueryProps
  imports SqlQuery EngineQueryProps MaskingProps
begin

text \<open>
  The online query: what is sent to a server, what an answer with data implies, and who sees and changes
  the log.
\<close>

section \<open>What is sent\<close>

lemmas query_steps = bindM_def thenM_def liftM_def getsM_def modifyM_def ret_def throw_def

text \<open>The run under the timer sends at most the one statement and leaves rules and logs.\<close>

lemma guarded_send:
  assumes "guard_running i thread seconds
      (bindM (liftM (\<lambda>s. se_behind g)) (\<lambda>b. bindM (send_query g i db_name sql n) (\<lambda>rs. ret (b, rs)))) s = (r, s')"
  shows "qy_rules s' = qy_rules s" "w_query_logs (qy_world s') = w_query_logs (qy_world s)"
    and "w_config (qy_world s') = w_config (qy_world s)"
    and "qy_sent s' = qy_sent s \<and> (\<exists>e. r = Inl e) \<or> qy_sent s' = qy_sent s @ [(i_id i, db_name, sql, n)]"
    and "r = Inr (b, rs) \<Longrightarrow> se_run g db_name sql n = Inr rs \<and> qy_sent s' = qy_sent s @ [(i_id i, db_name, sql, n)]"
  using assms
  by (auto simp: guard_running_def send_query_def on_tables_def with_schedules_of_def query_steps
      split: option.splits sum.splits if_splits prod.splits)

text \<open>What the part after the checks does, whatever happens.\<close>

definition sent_statement :: "service_engine \<Rightarrow> instance_row \<Rightarrow> string \<Rightarrow> string \<Rightarrow> priv_result \<Rightarrow> int \<times> string \<times> string \<times> int" where
  "sent_statement g i db_name filtered p =
     (i_id i, db_name, se_filter g filtered (query_limit filtered p), query_limit filtered p)"

lemma answer_state:
  assumes "answer_of env i db_name sql rs s = (r, s')"
  shows "qy_sent s' = qy_sent s" "qy_world s' = qy_world s"
    and "r = Inr (a, rs') \<Longrightarrow> an_data a \<noteq> None \<Longrightarrow> an_data a = Some rs' \<and> \<not> has_error rs'"
  using assms by (auto simp: answer_of_def masked_answer_def query_data_def query_refused_def has_error_def Let_def
      split: if_splits prod.splits option.splits)

lemma run_checked_outcome:
  assumes "run_checked env g u i db_name filtered p s = (r, s')"
  shows "qy_sent s' = qy_sent s \<or> qy_sent s' = qy_sent s @ [sent_statement g i db_name filtered p]"
    and "r = Inr a \<Longrightarrow> qy_sent s' = qy_sent s @ [sent_statement g i db_name filtered p]
      \<and> (\<exists>row. tbl_rows (w_query_logs (qy_world s')) = tbl_rows (w_query_logs (qy_world s)) @ [row]
          \<and> ql_username row = u_username u \<and> ql_instance_name row = i_instance_name i
          \<and> ql_sqllog row = se_filter g filtered (query_limit filtered p)
          \<and> (\<forall>rs. an_data a = Some rs \<longrightarrow> ql_masking row = rt_is_masked rs \<and> ql_effect_row row = effect_row (query_limit filtered p) rs))"
proof -
  let ?n = "query_limit filtered p" and ?sql = "se_filter g filtered (query_limit filtered p)"
  let ?m = "bindM (liftM (\<lambda>s. se_behind g)) (\<lambda>b. bindM (send_query g i db_name ?sql ?n) (\<lambda>rs. ret (b, rs)))"
  have "(qy_sent s' = qy_sent s \<or> qy_sent s' = qy_sent s @ [sent_statement g i db_name filtered p])
    \<and> (\<forall>a. r = Inr a \<longrightarrow> qy_sent s' = qy_sent s @ [sent_statement g i db_name filtered p]
      \<and> (\<exists>row. tbl_rows (w_query_logs (qy_world s')) = tbl_rows (w_query_logs (qy_world s)) @ [row]
          \<and> ql_username row = u_username u \<and> ql_instance_name row = i_instance_name i \<and> ql_sqllog row = ?sql
          \<and> (\<forall>rs. an_data a = Some rs \<longrightarrow> ql_masking row = rt_is_masked rs \<and> ql_effect_row row = effect_row ?n rs)))"
  proof (cases "se_thread_id g db_name")
    case (Inl e)
    with assms show ?thesis by (auto simp: run_checked_def Let_def query_steps)
  next
    case thread: (Inr th)
    show ?thesis
    proof (cases "pyval_int (config_get (qy_world s) ''max_execution_time'' (PInt 60))")
      case (Inl e)
      with assms thread show ?thesis by (auto simp: run_checked_def Let_def query_steps)
    next
      case sec: (Inr seconds)
      obtain x s1 where g: "guard_running i th seconds ?m s = (x, s1)" by fastforce
      note gs = guarded_send [OF g]
      show ?thesis
      proof (cases x)
        case (Inl e)
        with assms thread sec g have "r = Inl e" "s' = s1" by (auto simp: run_checked_def Let_def query_steps)
        with gs(4) show ?thesis by (auto simp: sent_statement_def)
      next
        case (Inr brs)
        obtain b rs0 where brs: "brs = (b, rs0)" by (cases brs)
        let ?rs = "rs0\<lparr>rt_query_time := qe_cost env\<rparr>"
        obtain y s2 where a: "answer_of env i db_name ?sql ?rs s1 = (y, s2)" by fastforce
        note as = answer_state [OF a]
        have y: "\<exists>an rs. y = Inr (an, rs)" using a
          by (auto simp: answer_of_def split: if_splits prod.splits)
        then obtain an rs where y: "y = Inr (an, rs)" by blast
        have run: "run_checked env g u i db_name filtered p s
            = thenM (log_query u i db_name ?sql ?n (pr_priv_check p) rs) (ret (if has_error rs then an else an\<lparr>an_behind := b\<rparr>)) s2"
          using thread sec g Inr brs a y by (simp add: run_checked_def Let_def query_steps)
        have "s' = s2\<lparr>qy_world := (qy_world s2)\<lparr>w_query_logs := tbl_create set_ql_id
              (query_log_row (qy_world s2) u i db_name ?sql ?n (pr_priv_check p) rs) (w_query_logs (qy_world s2))\<rparr>\<rparr>"
          and r: "r = Inr (if has_error rs then an else an\<lparr>an_behind := b\<rparr>)"
          using run assms by (auto simp: log_query_def query_steps Let_def)
        moreover have "an_data an = Some rs'' \<Longrightarrow> rs'' = rs" for rs''
          using as(3) [OF y] by auto
        ultimately show ?thesis using gs(2) gs(5) [OF Inr [unfolded brs]] as(1,2)
          by (auto simp: tbl_create_def query_log_row_def sent_statement_def split: if_splits)
      qed
    qed
  qed
  then show "qy_sent s' = qy_sent s \<or> qy_sent s' = qy_sent s @ [sent_statement g i db_name filtered p]"
    and "r = Inr a \<Longrightarrow> qy_sent s' = qy_sent s @ [sent_statement g i db_name filtered p]
      \<and> (\<exists>row. tbl_rows (w_query_logs (qy_world s')) = tbl_rows (w_query_logs (qy_world s)) @ [row]
          \<and> ql_username row = u_username u \<and> ql_instance_name row = i_instance_name i
          \<and> ql_sqllog row = se_filter g filtered (query_limit filtered p)
          \<and> (\<forall>rs. an_data a = Some rs \<longrightarrow> ql_masking row = rt_is_masked rs \<and> ql_effect_row row = effect_row (query_limit filtered p) rs))"
    by blast+
qed

lemma checked_query_outcome:
  assumes "checked_query env u i db_name sql limit_num s = (r, s')"
  shows "(qy_sent s' = qy_sent s \<and> qy_world s' = qy_world s \<and> (\<forall>a. r = Inr a \<longrightarrow> an_data a = None))
    \<or> (\<exists>g chk p. qe_engine env i = Inr g \<and> se_check g db_name sql = Inr chk \<and> \<not> qc_bad_query chk
        \<and> query_priv_check (qe_table_ref env) (qe_schemas env) (qy_world s) u i db_name (qc_filtered_sql chk) limit_num = Inr p
        \<and> pr_status p = 0 \<and> run_checked env g u i db_name (qc_filtered_sql chk) p s = (r, s'))"
  using assms
  by (auto simp: checked_query_def query_steps query_refused_def split: sum.splits if_splits)

text \<open>The four checks a statement goes through before it is sent.\<close>

definition passed_checks ::
  "query_env \<Rightarrow> world \<Rightarrow> user \<Rightarrow> string \<Rightarrow> string \<Rightarrow> string \<Rightarrow> int
   \<Rightarrow> instance_row \<Rightarrow> service_engine \<Rightarrow> query_check \<Rightarrow> priv_result \<Rightarrow> bool" where
  "passed_checks env w u name db_name sql limit_num i g chk p =
     (instance_named w u name = Inr i \<and> qe_engine env i = Inr g \<and> se_check g db_name sql = Inr chk \<and> \<not> qc_bad_query chk
      \<and> query_priv_check (qe_table_ref env) (qe_schemas env) w u i db_name (qc_filtered_sql chk) limit_num = Inr p
      \<and> pr_status p = 0)"

lemma execute_outcome:
  assumes "execute_sql_query env u name db_name sql limit_num s = (r, s')"
  shows "(qy_sent s' = qy_sent s \<and> (\<forall>a. r = Inr a \<longrightarrow> an_data a = None))
    \<or> (\<exists>i g chk p r'. passed_checks env (qy_world s) u name db_name sql limit_num i g chk p
        \<and> run_checked env g u i db_name (qc_filtered_sql chk) p s = (r', s')
        \<and> (\<forall>a. r = Inr a \<longrightarrow> an_data a \<noteq> None \<longrightarrow> r' = Inr a))"
proof (cases "instance_named (qy_world s) u name")
  case (Inl e)
  with assms show ?thesis by (auto simp: execute_sql_query_def query_refused_def split: if_splits)
next
  case (Inr i)
  obtain r' s1 where c: "checked_query env u i db_name sql limit_num s = (r', s1)" by fastforce
  with Inr assms have s': "s' = s1" and r: "r = (case r' of Inl e \<Rightarrow> Inr (query_refused 1 (''the query failed: '' @ exn_str e)) | Inr a \<Rightarrow> Inr a)"
    by (auto simp: execute_sql_query_def split: sum.splits)
  from checked_query_outcome [OF c] show ?thesis
  proof (elim disjE exE conjE)
    assume "qy_sent s1 = qy_sent s" "\<forall>a. r' = Inr a \<longrightarrow> an_data a = None"
    then show ?thesis using r s' by (auto simp: query_refused_def split: sum.splits)
  next
    fix g chk p
    assume "qe_engine env i = Inr g" "se_check g db_name sql = Inr chk" "\<not> qc_bad_query chk"
      "query_priv_check (qe_table_ref env) (qe_schemas env) (qy_world s) u i db_name (qc_filtered_sql chk) limit_num = Inr p"
      "pr_status p = 0" "run_checked env g u i db_name (qc_filtered_sql chk) p s = (r', s1)"
    moreover have "\<forall>a. r = Inr a \<longrightarrow> an_data a \<noteq> None \<longrightarrow> r' = Inr a"
      using r by (auto simp: query_refused_def split: sum.splits)
    ultimately show ?thesis using Inr s' unfolding passed_checks_def by blast
  qed
qed


text \<open>
  An answer with data was checked and is on record: a statement was sent, and the log got exactly one row,
  in the name of the user, with the statement that was sent and whether its result was masked.
\<close>

theorem query_data_logged:
  assumes "execute_sql_query env u name db_name sql limit_num s = (Inr a, s')" "an_data a = Some rs"
  shows "\<exists>i g chk p row. passed_checks env (qy_world s) u name db_name sql limit_num i g chk p
    \<and> qy_sent s' = qy_sent s @ [sent_statement g i db_name (qc_filtered_sql chk) p]
    \<and> tbl_rows (w_query_logs (qy_world s')) = tbl_rows (w_query_logs (qy_world s)) @ [row]
    \<and> ql_username row = u_username u \<and> ql_instance_name row = i_instance_name i
    \<and> ql_sqllog row = se_filter g (qc_filtered_sql chk) (query_limit (qc_filtered_sql chk) p)
    \<and> ql_masking row = rt_is_masked rs"
proof -
  from execute_outcome [OF assms(1)] assms(2) obtain i g chk p
    where c: "passed_checks env (qy_world s) u name db_name sql limit_num i g chk p"
      and run: "run_checked env g u i db_name (qc_filtered_sql chk) p s = (Inr a, s')" by fastforce
  from run_checked_outcome(2) [OF run refl] assms(2) c show ?thesis by blast
qed

text \<open>
  For the SQL engines the composition of check, privileges and rewriting keeps the promise of the engine:
  a statement that the online query sends begins with a word the engine allows for queries.
\<close>

theorem online_statement_allowed:
  assumes "execute_sql_query env u name db_name sql limit_num s = (r, s')"
    and "qy_sent s' = qy_sent s @ [(k, db, statement, n)]"
    and "\<And>i g. qe_engine env i = Inr g \<Longrightarrow> i_db_type i \<in> set sql_engine_types
      \<and> (\<exists>e th bh run. g = sql_service_engine e (i_db_type i) th bh run)"
  shows "\<exists>ty \<in> set sql_engine_types. \<exists>w \<in> set (engine_words ty). starts_with (lower statement) w"
proof -
  from execute_outcome [OF assms(1)] assms(2) obtain i g chk p r'
    where c: "passed_checks env (qy_world s) u name db_name sql limit_num i g chk p"
      and run: "run_checked env g u i db_name (qc_filtered_sql chk) p s = (r', s')" by auto
  from run_checked_outcome(1) [OF run] assms(2)
  have st: "statement = se_filter g (qc_filtered_sql chk) (query_limit (qc_filtered_sql chk) p)"
    by (simp add: sent_statement_def)
  from c assms(3) obtain e th bh rn where ty: "i_db_type i \<in> set sql_engine_types"
    and g: "g = sql_service_engine e (i_db_type i) th bh rn" unfolding passed_checks_def by blast
  from c have chk: "chk = engine_check (e\<lparr>qs_db := db_name\<rparr>) (i_db_type i) sql" "\<not> qc_bad_query chk"
    by (auto simp: passed_checks_def g sql_service_engine_def)
  let ?n = "query_limit (qc_filtered_sql chk) p"
  from engine_statement_allowed [OF ty chk(2) [unfolded chk(1)], of ?n] obtain w
    where "w \<in> set (engine_words (i_db_type i))" "starts_with (lower (engine_filter (i_db_type i) (qc_filtered_sql chk) ?n)) w"
    unfolding chk(1) by blast
  moreover have "statement = engine_filter (i_db_type i) (qc_filtered_sql chk) ?n"
    by (simp add: st g sql_service_engine_def)
  ultimately show ?thesis using ty by blast
qed

text \<open>A superuser, one MySQL instance, and a server that always returns the same row.\<close>

definition demo_root :: user where
  "demo_root = new_Users\<lparr>u_username := ''root'', u_is_superuser := True, has_perm := (\<lambda>_. True)\<rparr>"

definition demo_query_env :: query_env where
  "demo_query_env = \<lparr>qe_engine = (\<lambda>i. if i_db_type i = ''mysql'' then Inr (sql_service_engine
        \<lparr>qs_parser = \<lparr>sp_strip_comments = id, sp_split = (\<lambda>s. [s])\<rparr>, qs_run = (\<lambda>s. None), qs_version = Version [], qs_db = []\<rparr>
        (i_db_type i) (\<lambda>_. Inr (Some 5)) (Inr None) (\<lambda>_ _ _. Inr demo_result)) else Inl (ValueError [])),
     qe_table_ref = (\<lambda>_ _ _. Inr []), qe_schemas = (\<lambda>_. []), qe_masking = demo_masking, qe_columns = demo_columns, qe_cost = ''0.1''\<rparr>"

definition demo_query_state :: query_state where
  "demo_query_state = \<lparr>qy_world = empty_world\<lparr>w_instances := \<lparr>tbl_rows = [demo_mysql], tbl_next = 8\<rparr>,
       w_query_logs := empty_table\<rparr>, qy_rules = demo_rules, qy_sent = []\<rparr>"

lemma demo_query_sent:
  "qy_sent (snd (execute_sql_query demo_query_env demo_root ''shop'' ''d'' ''SELECT 1'' 100 demo_query_state)) = [(7, ''d'', ''SELECT 1 limit 100;'', 100)]"
  by code_simp

lemma demo_query_answer:
  "map_sum id an_data (fst (execute_sql_query demo_query_env demo_root ''shop'' ''d'' ''SELECT 1'' 100 demo_query_state))
    = Inr (Some (demo_result\<lparr>rt_query_time := ''0.1''\<rparr>))"
  by code_simp

lemma demo_query_start: "qy_sent demo_query_state = []"
  by (simp add: demo_query_state_def)

lemmas demo_query_engine = demo_query_env_def [THEN arg_cong [of _ _ qe_engine], simplified]

abbreviation demo_query_run :: "(exn + query_answer) \<times> query_state" where
  "demo_query_run \<equiv> execute_sql_query demo_query_env demo_root ''shop'' ''d'' ''SELECT 1'' 100 demo_query_state"


theorem query_data_logged_witness:
  "\<exists>a i g chk p row. fst demo_query_run = Inr a
    \<and> passed_checks demo_query_env (qy_world demo_query_state) demo_root ''shop'' ''d'' ''SELECT 1'' 100 i g chk p
    \<and> qy_sent (snd demo_query_run) = qy_sent demo_query_state @ [sent_statement g i ''d'' (qc_filtered_sql chk) p]
    \<and> tbl_rows (w_query_logs (qy_world (snd demo_query_run))) = tbl_rows (w_query_logs (qy_world demo_query_state)) @ [row]
    \<and> ql_username row = ''root'' \<and> ql_instance_name row = i_instance_name i
    \<and> ql_sqllog row = se_filter g (qc_filtered_sql chk) (query_limit (qc_filtered_sql chk) p)
    \<and> ql_masking row = rt_is_masked (demo_result\<lparr>rt_query_time := ''0.1''\<rparr>)"
proof -
  obtain a where a: "fst demo_query_run = Inr a" "an_data a = Some (demo_result\<lparr>rt_query_time := ''0.1''\<rparr>)"
    using demo_query_answer by (cases "fst demo_query_run") auto
  have "demo_query_run = (Inr a, snd demo_query_run)" by (simp add: prod_eq_iff a(1))
  from query_data_logged [OF this a(2)] a(1) show ?thesis by (simp add: demo_root_def)
qed

theorem online_statement_allowed_witness:
  "\<exists>ty \<in> set sql_engine_types. \<exists>w \<in> set (engine_words ty). starts_with (lower ''SELECT 1 limit 100;'') w"
  by (rule online_statement_allowed [where env = demo_query_env and u = demo_root and name = "''shop''" and db_name = "''d''"
        and sql = "''SELECT 1''" and limit_num = 100 and s = demo_query_state, OF prod.collapse [symmetric]])
    (simp add: demo_query_sent demo_query_start, auto simp: demo_query_engine sql_engine_types_def split: if_splits)

section \<open>The log\<close>

text \<open>
  Nobody but an auditor sees or changes the queries of others: the listed rows are the user's own, and
  marking a query changes nothing but the mark and the name of a row of his own.
\<close>

theorem query_log_private:
  assumes "\<not> may_audit u"
  shows "(\<forall>n rows. SQLQueryLogs_get parse_date w u f = Inr (n, rows) \<longrightarrow> (\<forall>q \<in> set rows. ql_username q = u_username u))
    \<and> tbl_rows (w_query_logs (snd (update_favorite u k star alias w))) = map (\<lambda>q. if ql_id q = k \<and> ql_username q = u_username u
        then q\<lparr>ql_favorite := star, ql_alias := alias\<rparr> else q) (tbl_rows (w_query_logs w))"
proof (intro conjI allI impI)
  fix n rows
  assume "SQLQueryLogs_get parse_date w u f = Inr (n, rows)"
  then have "set rows = {} \<or> (\<exists>P. set rows \<subseteq> set (log_rows w u f P))"
    by (auto simp: SQLQueryLogs_get_def list_query_logs_def bindE_def Let_def page_def split: if_splits sum.splits
        dest!: in_set_takeD in_set_dropD)
  with assms show "\<forall>q \<in> set rows. ql_username q = u_username u" by (auto simp: log_rows_def tbl_filter_def)
next
  let ?P = "\<lambda>q. ql_id q = k \<and> (may_audit u \<or> ql_username q = u_username u)"
  show "tbl_rows (w_query_logs (snd (update_favorite u k star alias w))) = map (\<lambda>q. if ql_id q = k \<and> ql_username q = u_username u
        then q\<lparr>ql_favorite := star, ql_alias := alias\<rparr> else q) (tbl_rows (w_query_logs w))"
  proof (cases "tbl_exists ?P (w_query_logs w)")
    case True
    with assms show ?thesis by (simp add: update_favorite_def query_steps tbl_update_def Let_def)
  next
    case False
    with assms show ?thesis
      by (auto simp: update_favorite_def query_steps Let_def tbl_exists_def list_ex_iff intro!: map_idI [symmetric])
  qed
qed

text \<open>Two users with a query each; the first one lists the log and marks the second query.\<close>

definition demo_log :: "int \<Rightarrow> string \<Rightarrow> query_log" where
  "demo_log k name = (query_log_row empty_world (demo_root\<lparr>u_username := name\<rparr>) demo_mysql ''d'' ''select 1'' 0 True demo_result)\<lparr>ql_id := k\<rparr>"

definition demo_log_world :: world where
  "demo_log_world = empty_world\<lparr>w_query_logs := \<lparr>tbl_rows = [demo_log 1 ''ann'', demo_log 2 ''bob''], tbl_next = 3\<rparr>\<rparr>"

definition demo_log_filter :: log_filter where
  "demo_log_filter = \<lparr>lf_limit = 10, lf_offset = 0, lf_star = False, lf_query_log_id = 0, lf_search = [], lf_start_date = [], lf_end_date = []\<rparr>"

theorem query_log_private_witness:
  "let u = new_Users\<lparr>u_username := ''ann''\<rparr>; w = demo_log_world; f = demo_log_filter
   in (\<forall>n rows. SQLQueryLogs_get (\<lambda>_. Inr 0) w u f = Inr (n, rows) \<longrightarrow> (\<forall>q \<in> set rows. ql_username q = u_username u))
      \<and> tbl_rows (w_query_logs (snd (update_favorite u 2 True ''mine'' w))) = map (\<lambda>q. if ql_id q = 2 \<and> ql_username q = u_username u
        then q\<lparr>ql_favorite := True, ql_alias := ''mine''\<rparr> else q) (tbl_rows (w_query_logs w))"
  unfolding Let_def by (rule query_log_private) code_simp

end
