(* ===== verification/PyFloat.thy ===== *)
theory PyFloat
  imports Complex_Main PyStr "HOL-Library.Log_Nat"
begin

text \<open>
  Python's floating point numbers as far as the repository reads and writes them: \<open>round\<close>, the double a decimal
  literal stands for, and \<open>repr\<close>. A finite double is the rational number it is.
\<close>

section \<open>Rounding\<close>

text \<open>\<open>round\<close>: to the nearest, a tie to the even one.\<close>

definition round_even :: "rat \<Rightarrow> int" where
  "round_even x = (let f = floor x; d = x - of_int f in
     if d < 1 / 2 then f else if 1 / 2 < d then f + 1 else if even f then f else f + 1)"

definition round_to :: "nat \<Rightarrow> rat \<Rightarrow> rat" where
  "round_to n x = of_int (round_even (x * 10 ^ n)) / 10 ^ n"

section \<open>Doubles\<close>

datatype flt = Fin rat | NegZero | PosInf | NegInf | NaN

definition rpow :: "nat \<Rightarrow> int \<Rightarrow> rat" where
  "rpow b k = (if 0 \<le> k then of_nat b ^ nat k else 1 / of_nat b ^ nat (- k))"

text \<open>The largest power of \<open>b\<close> in a positive number.\<close>

definition rlog :: "nat \<Rightarrow> rat \<Rightarrow> int" where
  "rlog b x = (case quotient_of x of (p, q) \<Rightarrow>
     let k = int (floorlog b (nat p)) - int (floorlog b (nat q)) in if rpow b k \<le> x then k else k - 1)"

definition double_max :: rat where
  "double_max = rpow 2 1024"

definition round_double :: "rat \<Rightarrow> flt" where
  "round_double x =
     (if x = 0 then Fin 0
      else let a = abs x; ulp = rpow 2 (max (rlog 2 a - 52) (-1074)); r = of_int (round_even (a / ulp)) * ulp in
        if double_max \<le> r then (if x < 0 then NegInf else PosInf)
        else if r = 0 then (if x < 0 then NegZero else Fin 0)
        else Fin (if x < 0 then - r else r))"

text \<open>\<open>float\<close> of a literal: sign, digits before and after the point, exponent.\<close>

definition float_literal :: "bool \<Rightarrow> int \<Rightarrow> int \<Rightarrow> flt" where
  "float_literal neg m k =
     (if m = 0 then (if neg then NegZero else Fin 0)
      else round_double ((if neg then -1 else 1) * of_int m * rpow 10 k))"

section \<open>repr\<close>

text \<open>The shortest decimal number, of 17 digits at most, that is read as the same double.\<close>

definition same_double :: "rat \<Rightarrow> rat \<Rightarrow> bool" where
  "same_double x y = (round_double y = Fin x)"

definition shortest_of :: "rat \<Rightarrow> int \<Rightarrow> nat \<Rightarrow> (int \<times> int) option" where
  "shortest_of x e n =
     (let k = e - int n + 1; unit = rpow 10 k; lo = floor (x / unit); near = round_even (x / unit) in
      if same_double x (of_int near * unit) then Some (near, k)
      else if same_double x (of_int lo * unit) then Some (lo, k)
      else if same_double x (of_int (lo + 1) * unit) then Some (lo + 1, k)
      else None)"

fun first_some :: "('a \<Rightarrow> 'b option) \<Rightarrow> 'a list \<Rightarrow> 'b \<Rightarrow> 'b" where
  "first_some f [] z = z"
| "first_some f (x # xs) z = (case f x of Some y \<Rightarrow> y | None \<Rightarrow> first_some f xs z)"

definition shortest_digits :: "rat \<Rightarrow> int \<times> int" where
  "shortest_digits x = first_some (shortest_of x (rlog 10 x)) [1..<18] (0, 0)"

definition strip_zeros :: "string \<Rightarrow> string" where
  "strip_zeros ds = rev (dropWhile (\<lambda>c. c = CHR ''0'') (rev ds))"

definition two_digits :: "int \<Rightarrow> string" where
  "two_digits n = (if n < 10 then CHR ''0'' # str_int n else str_int n)"

definition repr_positive :: "rat \<Rightarrow> string" where
  "repr_positive x =
     (case shortest_digits x of (m, k) \<Rightarrow>
      let all = str_int m; ds = strip_zeros all; point = int (length all) + k; n = int (length ds) in
      if -4 < point \<and> point \<le> 16 then
        (if point \<le> 0 then ''0.'' @ replicate (nat (- point)) (CHR ''0'') @ ds
         else if n \<le> point then ds @ replicate (nat (point - n)) (CHR ''0'') @ ''.0''
         else take (nat point) ds @ ''.'' @ drop (nat point) ds)
      else take 1 ds @ (if 1 < n then ''.'' @ drop 1 ds else []) @ ''e''
             @ (if 1 \<le> point then ''+'' @ two_digits (point - 1) else ''-'' @ two_digits (1 - point)))"

fun repr_float :: "flt \<Rightarrow> string" where
  "repr_float (Fin x) = (if x = 0 then ''0.0'' else if x < 0 then ''-'' @ repr_positive (- x) else repr_positive x)"
| "repr_float NegZero = ''-0.0''"
| "repr_float PosInf = ''inf''"
| "repr_float NegInf = ''-inf''"
| "repr_float NaN = ''nan''"

end
