(* ===== verification/SlowQuery.thy ===== *)
theory SlowQuery
  imports PyFloat SysConfig Schedules
begin

text \<open>
  Statistics of slow queries: the rows of \<open>sql/models.py\<close>, the shared operations of
  \<open>sql/collectors/base.py\<close> (the cursor of a collector, writing with retries), the aggregation of
  \<open>sql/collectors/aggregator.py\<close> and the retention of \<open>sql/collectors/tasks.py\<close>.

  Times are microseconds. Durations, which the code keeps as floating point numbers, are exact
  rationals here; \<open>round\<close> rounds them half to even, as Python does. What a concurrent writer can do
  to a statement, namely make it fail, is a list of the outcomes of the coming writes.
\<close>

type_synonym usec = int

definition seconds :: "int \<Rightarrow> usec" where
  "seconds n = n * 1000000"

definition days :: "int \<Rightarrow> usec" where
  "days n = seconds (n * 86400)"

section \<open>The rows\<close>

text \<open>The columns the four tables of details have in common, and those of each.\<close>

record detail =
  dt_id :: int
  dt_instance :: int
  dt_hash :: "string option"
  dt_start :: usec
  dt_host :: string
  dt_text :: string
  dt_time :: rat
  dt_created :: usec

record mysql_detail = detail +
  md_user :: string
  md_db :: "string option"
  md_lock :: rat
  md_sent :: int
  md_examined :: int

record pgsql_detail = detail +
  pd_user :: string
  pd_db :: "string option"
  pd_sent :: int
  pd_hit :: int
  pd_read :: int

record mongo_detail = detail +
  gd_op :: "string option"
  gd_user :: string
  gd_db :: "string option"
  gd_coll :: "string option"
  gd_examined :: int
  gd_returned :: int
  gd_nreturned :: int
  gd_sort :: bool
  gd_plan :: string

type_synonym redis_detail = detail

text \<open>The columns the four tables of statistics have in common, and those of each.\<close>

record summary =
  su_id :: int
  su_instance :: int
  su_hash :: string
  su_fingerprint :: string
  su_sample :: "string option"
  su_counts :: int
  su_times :: rat
  su_avg :: rat
  su_p95 :: rat
  su_first :: "usec option"
  su_last :: "usec option"
  su_created :: usec
  su_updated :: usec

record mysql_summary = summary +
  ms_db :: "string option"
  ms_user :: "string option"
  ms_parse_total :: int
  ms_return_total :: int
  ms_parse_avg :: rat
  ms_return_avg :: rat

record pgsql_summary = summary +
  ps_db :: "string option"
  ps_user :: "string option"
  ps_rows :: int
  ps_rows_avg :: rat
  ps_hit :: int
  ps_read :: int

record mongo_summary = summary +
  gs_db :: "string option"
  gs_coll :: "string option"
  gs_op :: "string option"
  gs_examined_avg :: rat
  gs_returned_avg :: rat
  gs_sort :: bool

type_synonym redis_summary = summary

record slow_cursor =
  cu_id :: int
  cu_instance :: int
  cu_db_type :: string
  cu_last :: "usec option"
  cu_last_id :: "int option"
  cu_updated :: usec

text \<open>The account of the AI services.\<close>

record ai_usage =
  ul_id :: int
  ul_capability :: string
  ul_model :: string
  ul_db_type :: string
  ul_instance_name :: string
  ul_db_name :: string
  ul_user_name :: string
  ul_prompt_tokens :: int
  ul_completion_tokens :: int
  ul_latency_ms :: int
  ul_cache_hit :: bool
  ul_status :: string
  ul_error :: string
  ul_created :: usec

section \<open>Writing with retries\<close>

text \<open>
  A table and the outcomes of the coming writes: \<open>Some e\<close> is a statement that raises \<open>e\<close> because of a
  concurrent writer or of the data, \<open>None\<close> and an empty list are statements that go through.
\<close>

record 'r store =
  st_table :: "'r table"
  st_faults :: "exn option list"

definition write_stmt :: "('r table \<Rightarrow> 'a res \<times> 'r table) \<Rightarrow> ('r store, 'a) M" where
  "write_stmt f = (\<lambda>s. case st_faults s of
       Some e # fs \<Rightarrow> (Inl e, s\<lparr>st_faults := fs\<rparr>)
     | _ \<Rightarrow> (case f (st_table s) of (r, t) \<Rightarrow> (r, s\<lparr>st_table := t, st_faults := tl (st_faults s)\<rparr>)))"

definition is_conflict :: "exn \<Rightarrow> bool" where
  "is_conflict e = (case e of IntegrityError m \<Rightarrow> True | OperationalError m \<Rightarrow> True | _ \<Rightarrow> False)"

text \<open>\<open>update_or_create_with_retry\<close>: three attempts, the last exception passes.\<close>

fun retry :: "nat \<Rightarrow> ('s, 'a) M \<Rightarrow> ('s, 'a) M" where
  "retry n m = (\<lambda>s. case m s of
       (Inl e, s') \<Rightarrow> (if is_conflict e \<and> 1 < n then retry (n - 1) m s' else (Inl e, s'))
     | (Inr x, s') \<Rightarrow> (Inr x, s'))"

declare retry.simps [simp del]

text \<open>
  \<open>update_or_create\<close> of a row of statistics: \<open>keep old new\<close> is the new row with the columns that are not
  written taken from the old one. The flag tells whether a row was created.
\<close>

definition same_key :: "('m summary_scheme) \<Rightarrow> ('m summary_scheme) \<Rightarrow> bool" where
  "same_key x y = (su_instance x = su_instance y \<and> su_hash x = su_hash y)"

definition set_su_id :: "int \<Rightarrow> ('m summary_scheme) \<Rightarrow> ('m summary_scheme)" where
  "set_su_id k r = r\<lparr>su_id := k\<rparr>"

definition upsert ::
  "usec \<Rightarrow> ('m summary_scheme \<Rightarrow> 'm summary_scheme \<Rightarrow> 'm summary_scheme) \<Rightarrow> 'm summary_scheme
   \<Rightarrow> 'm summary_scheme table \<Rightarrow> bool res \<times> 'm summary_scheme table" where
  "upsert now keep r t = (case tbl_update_or_create ''Summary'' set_su_id (same_key r)
        (\<lambda>old. (keep old r)\<lparr>su_id := su_id old, su_created := su_created old, su_updated := now\<rparr>)
        (r\<lparr>su_created := now, su_updated := now\<rparr>) t of
       Inl e \<Rightarrow> (Inl e, t)
     | Inr t' \<Rightarrow> (Inr (\<not> tbl_exists (same_key r) t), t'))"

definition update_or_create_with_retry ::
  "usec \<Rightarrow> ('m summary_scheme \<Rightarrow> 'm summary_scheme \<Rightarrow> 'm summary_scheme) \<Rightarrow> 'm summary_scheme
   \<Rightarrow> ('m summary_scheme store, bool) M" where
  "update_or_create_with_retry now keep r = retry 3 (write_stmt (upsert now keep r))"

text \<open>
  \<open>bulk_upsert\<close>: one atomic statement that inserts or updates (\<open>ON DUPLICATE KEY UPDATE\<close>); when a
  concurrent writer makes it fail, the rows are written one by one and those that still fail are skipped.
\<close>

definition bulk_create_update ::
  "usec \<Rightarrow> ('m summary_scheme \<Rightarrow> 'm summary_scheme \<Rightarrow> 'm summary_scheme) \<Rightarrow> 'm summary_scheme list
   \<Rightarrow> 'm summary_scheme table \<Rightarrow> unit res \<times> 'm summary_scheme table" where
  "bulk_create_update now keep objs t = (Inr (), fold (\<lambda>r t. snd (upsert now keep r t)) objs t)"

fun upsert_rows ::
  "usec \<Rightarrow> ('m summary_scheme \<Rightarrow> 'm summary_scheme \<Rightarrow> 'm summary_scheme) \<Rightarrow> 'm summary_scheme list \<Rightarrow> int
   \<Rightarrow> ('m summary_scheme store, int) M" where
  "upsert_rows now keep [] persisted = ret persisted"
| "upsert_rows now keep (r # rs) persisted = (\<lambda>s. case update_or_create_with_retry now keep r s of
       (Inl e, s') \<Rightarrow> upsert_rows now keep rs persisted s'
     | (Inr c, s') \<Rightarrow> upsert_rows now keep rs (persisted + 1) s')"

definition bulk_upsert ::
  "usec \<Rightarrow> ('m summary_scheme \<Rightarrow> 'm summary_scheme \<Rightarrow> 'm summary_scheme) \<Rightarrow> 'm summary_scheme list
   \<Rightarrow> ('m summary_scheme store, int) M" where
  "bulk_upsert now keep objs =
     catchM (thenM (write_stmt (bulk_create_update now keep objs)) (ret (int (length objs))))
       (\<lambda>e. if is_conflict e then Some (upsert_rows now keep objs 0) else None)"

section \<open>Aggregation\<close>

text \<open>\<open>_calculate_percentile\<close>: linear between the two neighbours of the position in the sorted list.\<close>

definition calculate_percentile :: "rat list \<Rightarrow> rat \<Rightarrow> rat" where
  "calculate_percentile values percentile =
     (if values = [] then 0 else
       let k = (of_nat (length values) - 1) * percentile / 100; f = floor k; c = ceiling k in
       if f = c then values ! nat f
       else values ! nat f * (of_int c - k) + values ! nat c * (k - of_int f))"

text \<open>The groups of \<open>values('instance_id', 'sql_hash')\<close>, without those whose hash is empty.\<close>

definition detail_key :: "('d detail_scheme) \<Rightarrow> int \<times> string option" where
  "detail_key d = (dt_instance d, dt_hash d)"

definition has_hash :: "('d detail_scheme) \<Rightarrow> bool" where
  "has_hash d = (case dt_hash d of None \<Rightarrow> False | Some h \<Rightarrow> h \<noteq> [])"

definition group_rows :: "int \<times> string option \<Rightarrow> 'd detail_scheme list \<Rightarrow> 'd detail_scheme list" where
  "group_rows k ds = filter (\<lambda>d. detail_key d = k) ds"

definition valid_keys :: "'d detail_scheme list \<Rightarrow> (int \<times> string option) list" where
  "valid_keys ds = remdups (map detail_key (filter has_hash ds))"

definition p95_of :: "'d detail_scheme list \<Rightarrow> rat" where
  "p95_of g = calculate_percentile (sort (map dt_time g)) 95"

text \<open>\<open>Sum\<close>, \<open>Avg\<close>, \<open>Min\<close> and \<open>Max\<close> over the rows of a group.\<close>

definition avg :: "rat list \<Rightarrow> rat" where
  "avg xs = sum_list xs / of_nat (length xs)"

definition min_start :: "'d detail_scheme list \<Rightarrow> usec option" where
  "min_start g = (if g = [] then None else Some (Min (set (map dt_start g))))"

definition max_start :: "'d detail_scheme list \<Rightarrow> usec option" where
  "max_start g = (if g = [] then None else Some (Max (set (map dt_start g))))"

text \<open>\<open>Max\<close> of texts goes by the collation of the database, which is a parameter; nulls are left out.\<close>

definition max_some :: "(string list \<Rightarrow> string) \<Rightarrow> string option list \<Rightarrow> string option" where
  "max_some mx xs = (case List.map_filter id xs of [] \<Rightarrow> None | ys \<Rightarrow> Some (mx ys))"

text \<open>\<open>_aggregate_slowquery\<close>: an exception is logged and counts no row.\<close>

definition aggregate_slowquery ::
  "usec \<Rightarrow> ('m summary_scheme \<Rightarrow> 'm summary_scheme \<Rightarrow> 'm summary_scheme)
   \<Rightarrow> (int \<times> string option \<Rightarrow> 'd detail_scheme list \<Rightarrow> rat \<Rightarrow> 'm summary_scheme) \<Rightarrow> 'd detail_scheme list
   \<Rightarrow> ('m summary_scheme store, int) M" where
  "aggregate_slowquery now keep build details =
     (if valid_keys details = [] then ret 0
      else catchM (bulk_upsert now keep (map (\<lambda>k. let g = group_rows k details in build k g (p95_of g)) (valid_keys details)))
             (\<lambda>e. Some (ret 0)))"

section \<open>The four aggregations\<close>

definition sum_int :: "('a \<Rightarrow> int) \<Rightarrow> 'a list \<Rightarrow> int" where
  "sum_int f xs = sum_list (map f xs)"

definition avg_int :: "('a \<Rightarrow> int) \<Rightarrow> 'a list \<Rightarrow> rat" where
  "avg_int f xs = avg (map (\<lambda>x. of_int (f x)) xs)"

definition summary_of ::
  "nat \<Rightarrow> (string list \<Rightarrow> string) \<Rightarrow> int \<times> string option \<Rightarrow> 'd detail_scheme list \<Rightarrow> rat \<Rightarrow> summary" where
  "summary_of digits mx k g p95 =
     (let fingerprint = (case max_some mx (map (\<lambda>d. Some (dt_text d)) g) of None \<Rightarrow> [] | Some t \<Rightarrow> t) in
      \<lparr>su_id = 0, su_instance = fst k, su_hash = (case snd k of None \<Rightarrow> [] | Some h \<Rightarrow> h),
       su_fingerprint = fingerprint, su_sample = Some fingerprint, su_counts = int (length g),
       su_times = round_to digits (sum_list (map dt_time g)), su_avg = round_to digits (avg (map dt_time g)),
       su_p95 = round_to digits p95, su_first = min_start g, su_last = max_start g, su_created = 0, su_updated = 0\<rparr>)"

definition mysql_summary_of ::
  "(string list \<Rightarrow> string) \<Rightarrow> int \<times> string option \<Rightarrow> mysql_detail list \<Rightarrow> rat \<Rightarrow> mysql_summary" where
  "mysql_summary_of mx k g p95 = summary.extend (summary_of 6 mx k g p95)
     \<lparr>ms_db = max_some mx (map md_db g), ms_user = None, ms_parse_total = sum_int md_examined g, ms_return_total = sum_int md_sent g,
      ms_parse_avg = round_to 2 (avg_int md_examined g), ms_return_avg = round_to 2 (avg_int md_sent g)\<rparr>"

definition pgsql_summary_of ::
  "(string list \<Rightarrow> string) \<Rightarrow> int \<times> string option \<Rightarrow> pgsql_detail list \<Rightarrow> rat \<Rightarrow> pgsql_summary" where
  "pgsql_summary_of mx k g p95 = summary.extend (summary_of 6 mx k g p95)
     \<lparr>ps_db = max_some mx (map pd_db g), ps_user = None, ps_rows = sum_int pd_sent g, ps_rows_avg = round_to 2 (avg_int pd_sent g),
      ps_hit = sum_int pd_hit g, ps_read = sum_int pd_read g\<rparr>"

definition mongo_summary_of ::
  "(string list \<Rightarrow> string) \<Rightarrow> int \<times> string option \<Rightarrow> mongo_detail list \<Rightarrow> rat \<Rightarrow> mongo_summary" where
  "mongo_summary_of mx k g p95 = summary.extend (summary_of 2 mx k g p95)
     \<lparr>gs_db = max_some mx (map gd_db g), gs_coll = max_some mx (map gd_coll g), gs_op = max_some mx (map gd_op g),
      gs_examined_avg = round_to 2 (avg_int gd_examined g), gs_returned_avg = round_to 2 (avg_int gd_returned g),
      gs_sort = list_ex gd_sort g\<rparr>"

definition redis_summary_of ::
  "(string list \<Rightarrow> string) \<Rightarrow> int \<times> string option \<Rightarrow> redis_detail list \<Rightarrow> rat \<Rightarrow> redis_summary" where
  "redis_summary_of mx k g p95 = summary_of 2 mx k g p95"

text \<open>The columns that the update lists leave out: the user's name.\<close>

definition keep_mysql :: "mysql_summary \<Rightarrow> mysql_summary \<Rightarrow> mysql_summary" where
  "keep_mysql old new = new\<lparr>ms_user := ms_user old\<rparr>"

definition keep_pgsql :: "pgsql_summary \<Rightarrow> pgsql_summary \<Rightarrow> pgsql_summary" where
  "keep_pgsql old new = new\<lparr>ps_user := ps_user old\<rparr>"

definition keep_none :: "'m summary_scheme \<Rightarrow> 'm summary_scheme \<Rightarrow> 'm summary_scheme" where
  "keep_none old new = new"

text \<open>
  The tables of the slow queries, the tables of the rest of the system, the clock, the lock of the
  aggregation in the cache (when it expires), and the outcomes of coming writes.
\<close>

record slow_state =
  sl_world :: world
  sl_now :: usec
  sl_mysql :: "mysql_detail table"
  sl_pgsql :: "pgsql_detail table"
  sl_mongo :: "mongo_detail table"
  sl_redis :: "redis_detail table"
  sl_mysql_sum :: "mysql_summary table"
  sl_pgsql_sum :: "pgsql_summary table"
  sl_mongo_sum :: "mongo_summary table"
  sl_redis_sum :: "redis_summary table"
  sl_cursors :: "slow_cursor table"
  sl_usage :: "ai_usage table"
  sl_lock :: "usec option"
  sl_faults :: "exn option list"

text \<open>A computation on one table of the state.\<close>

definition on_table ::
  "(slow_state \<Rightarrow> 'r table) \<Rightarrow> ('r table \<Rightarrow> slow_state \<Rightarrow> slow_state) \<Rightarrow> ('r store, 'a) M \<Rightarrow> (slow_state, 'a) M" where
  "on_table get put m = (\<lambda>s. case m \<lparr>st_table = get s, st_faults = sl_faults s\<rparr> of
     (r, t) \<Rightarrow> (r, put (st_table t) (s\<lparr>sl_faults := st_faults t\<rparr>)))"

definition on_mysql_sum :: "(mysql_summary store, 'a) M \<Rightarrow> (slow_state, 'a) M" where
  "on_mysql_sum = on_table sl_mysql_sum (\<lambda>t s. s\<lparr>sl_mysql_sum := t\<rparr>)"

definition on_pgsql_sum :: "(pgsql_summary store, 'a) M \<Rightarrow> (slow_state, 'a) M" where
  "on_pgsql_sum = on_table sl_pgsql_sum (\<lambda>t s. s\<lparr>sl_pgsql_sum := t\<rparr>)"

definition on_mongo_sum :: "(mongo_summary store, 'a) M \<Rightarrow> (slow_state, 'a) M" where
  "on_mongo_sum = on_table sl_mongo_sum (\<lambda>t s. s\<lparr>sl_mongo_sum := t\<rparr>)"

definition on_redis_sum :: "(redis_summary store, 'a) M \<Rightarrow> (slow_state, 'a) M" where
  "on_redis_sum = on_table sl_redis_sum (\<lambda>t s. s\<lparr>sl_redis_sum := t\<rparr>)"

definition aggregate_mysql_slowquery :: "(string list \<Rightarrow> string) \<Rightarrow> (slow_state, int) M" where
  "aggregate_mysql_slowquery mx = (\<lambda>s. on_mysql_sum
     (aggregate_slowquery (sl_now s) keep_mysql (mysql_summary_of mx) (tbl_rows (sl_mysql s))) s)"

definition aggregate_pgsql_slowquery :: "(string list \<Rightarrow> string) \<Rightarrow> (slow_state, int) M" where
  "aggregate_pgsql_slowquery mx = (\<lambda>s. on_pgsql_sum
     (aggregate_slowquery (sl_now s) keep_pgsql (pgsql_summary_of mx) (tbl_rows (sl_pgsql s))) s)"

definition aggregate_mongo_slowquery :: "(string list \<Rightarrow> string) \<Rightarrow> (slow_state, int) M" where
  "aggregate_mongo_slowquery mx = (\<lambda>s. on_mongo_sum
     (aggregate_slowquery (sl_now s) keep_none (mongo_summary_of mx) (tbl_rows (sl_mongo s))) s)"

definition aggregate_redis_slowquery :: "(string list \<Rightarrow> string) \<Rightarrow> (slow_state, int) M" where
  "aggregate_redis_slowquery mx = (\<lambda>s. on_redis_sum
     (aggregate_slowquery (sl_now s) keep_none (redis_summary_of mx) (tbl_rows (sl_redis s))) s)"

text \<open>
  \<open>aggregate_all_slowquery\<close>: \<open>cache.add\<close> takes the lock unless it is held and not expired, or the cache
  cannot be reached; the lock is given back in the end.
\<close>

definition aggregate_lock_timeout :: usec where
  "aggregate_lock_timeout = seconds 600"

definition cache_add :: "bool \<Rightarrow> (slow_state, bool) M" where
  "cache_add available = (\<lambda>s. let free = (case sl_lock s of None \<Rightarrow> True | Some t \<Rightarrow> t \<le> sl_now s) in
     if available \<and> free then (Inr True, s\<lparr>sl_lock := Some (sl_now s + aggregate_lock_timeout)\<rparr>) else (Inr False, s))"

definition aggregate_all_slowquery :: "bool \<Rightarrow> (string list \<Rightarrow> string) \<Rightarrow> (slow_state, (string \<times> int) list option) M" where
  "aggregate_all_slowquery cache_up mx =
     bindM (cache_add cache_up) (\<lambda>locked.
       if \<not> locked then ret None
       else bindM (aggregate_mysql_slowquery mx) (\<lambda>a. bindM (aggregate_pgsql_slowquery mx) (\<lambda>b.
            bindM (aggregate_mongo_slowquery mx) (\<lambda>c. bindM (aggregate_redis_slowquery mx) (\<lambda>d.
            thenM (modifyM (\<lambda>s. s\<lparr>sl_lock := None\<rparr>))
              (ret (Some [(''mysql'', a), (''pgsql'', b), (''mongo'', c), (''redis'', d)])))))))"

section \<open>Retention\<close>

text \<open>
  \<open>_batch_delete\<close>: the rows that are too old, a batch at a time, up to a batch that is not full. A
  negative batch is refused by the ORM; the sleep between two batches raises for a negative time.
\<close>

partial_function (option) batch_loop ::
  "('r \<Rightarrow> int) \<Rightarrow> ('r \<Rightarrow> bool) \<Rightarrow> nat \<Rightarrow> int \<Rightarrow> 'r table \<Rightarrow> (int \<times> 'r table) option" where
  "batch_loop key expired batch n t =
     (let ids = map key (take batch (tbl_filter expired t)) in
      if ids = [] then Some (n, t)
      else let t' = tbl_delete (\<lambda>r. key r \<in> set ids) t; deleted = length (tbl_rows t) - length (tbl_rows t') in
        if deleted < batch then Some (n + int deleted, t')
        else batch_loop key expired batch (n + int deleted) t')"

definition get_retention_days :: "world \<Rightarrow> int res" where
  "get_retention_days w = pyval_int (config_get w ''slow_query_retention_days'' (PInt 30))"

definition get_cleanup_batch_size :: "world \<Rightarrow> int res" where
  "get_cleanup_batch_size w = pyval_int (config_get w ''slow_query_cleanup_batch_size'' (PInt 5000))"

text \<open>\<open>float\<close> of a text is a parameter.\<close>

definition get_cleanup_batch_sleep :: "(pyval \<Rightarrow> rat res) \<Rightarrow> world \<Rightarrow> rat res" where
  "get_cleanup_batch_sleep py_float w = py_float (config_get w ''slow_query_cleanup_batch_sleep'' (PInt 1))"

definition older_than :: "usec \<Rightarrow> usec option \<Rightarrow> bool" where
  "older_than cutoff t = (case t of None \<Rightarrow> False | Some x \<Rightarrow> x < cutoff)"

definition batch_delete ::
  "(pyval \<Rightarrow> rat res) \<Rightarrow> world \<Rightarrow> usec \<Rightarrow> int \<Rightarrow> ('r \<Rightarrow> int) \<Rightarrow> ('r \<Rightarrow> usec option) \<Rightarrow> 'r table \<Rightarrow> (int res \<times> 'r table) option" where
  "batch_delete py_float w now retention key time_of t =
     (case get_cleanup_batch_size w of Inl e \<Rightarrow> Some (Inl e, t) | Inr batch \<Rightarrow>
      case get_cleanup_batch_sleep py_float w of Inl e \<Rightarrow> Some (Inl e, t) | Inr sleep \<Rightarrow>
      if batch < 0 then Some (Inl (ValueError ''Negative indexing is not supported.''), t)
      else let expired = (\<lambda>r. older_than (now - days retention) (time_of r)); b = nat batch in
        if sleep < 0 \<and> b \<noteq> 0 \<and> tbl_exists expired t
        then Some (Inl (ValueError ''sleep length must be non-negative''),
               tbl_delete (\<lambda>r. key r \<in> set (map key (take b (tbl_filter expired t)))) t)
        else map_option (\<lambda>(n, t'). (Inr n, t')) (batch_loop key expired b 0 t))"

text \<open>One table of \<open>cleanup_slowquery_data_task\<close>: an exception counts no row.\<close>

definition cleaned :: "int res \<Rightarrow> int" where
  "cleaned r = (case r of Inl e \<Rightarrow> 0 | Inr n \<Rightarrow> n)"

definition clean_table ::
  "(pyval \<Rightarrow> rat res) \<Rightarrow> int \<Rightarrow> ('r \<Rightarrow> int) \<Rightarrow> ('r \<Rightarrow> usec option) \<Rightarrow> (slow_state \<Rightarrow> 'r table)
   \<Rightarrow> ('r table \<Rightarrow> slow_state \<Rightarrow> slow_state) \<Rightarrow> string \<Rightarrow> (string \<times> int) list \<times> slow_state \<Rightarrow> ((string \<times> int) list \<times> slow_state) option" where
  "clean_table py_float retention key time_of get put label = (\<lambda>(results, s).
     map_option (\<lambda>(r, t). (results @ [(label, cleaned r)], put t s))
       (batch_delete py_float (sl_world s) (sl_now s) retention key time_of (get s)))"

text \<open>Cursors of instances that are gone.\<close>

definition orphan_cursor :: "world \<Rightarrow> slow_cursor \<Rightarrow> bool" where
  "orphan_cursor w c = (cu_instance c \<notin> set (map i_id (tbl_rows (w_instances w))))"

definition clean_cursors :: "(string \<times> int) list \<times> slow_state \<Rightarrow> (string \<times> int) list \<times> slow_state" where
  "clean_cursors = (\<lambda>(results, s).
     (results @ [(''cursor'', int (length (tbl_filter (orphan_cursor (sl_world s)) (sl_cursors s))))],
      s\<lparr>sl_cursors := tbl_delete (orphan_cursor (sl_world s)) (sl_cursors s)\<rparr>))"

text \<open>\<open>cleanup_ai_usage_log_task\<close> of \<open>sql/utils/ai_tasks.py\<close>.\<close>

definition ai_usage_retention :: "world \<Rightarrow> int" where
  "ai_usage_retention w = (let v = config_get w ''ai_usage_retention_days'' PNone in
     if truthy v then (case pyval_int v of Inl e \<Rightarrow> 180 | Inr n \<Rightarrow> n) else 180)"

definition cleanup_ai_usage_log_task :: "slow_state \<Rightarrow> (int \<times> slow_state) option" where
  "cleanup_ai_usage_log_task s = map_option (\<lambda>(n, t). (n, s\<lparr>sl_usage := t\<rparr>))
     (batch_loop ul_id (\<lambda>u. ul_created u < sl_now s - days (ai_usage_retention (sl_world s))) 5000 0 (sl_usage s))"

definition clean_usage :: "(string \<times> int) list \<times> slow_state \<Rightarrow> ((string \<times> int) list \<times> slow_state) option" where
  "clean_usage = (\<lambda>(results, s). map_option (\<lambda>(n, s'). (results @ [(''ai_usage'', n)], s')) (cleanup_ai_usage_log_task s))"

definition obind :: "'a option \<Rightarrow> ('a \<Rightarrow> 'b option) \<Rightarrow> 'b option" where
  "obind x f = (case x of None \<Rightarrow> None | Some y \<Rightarrow> f y)"

definition clean_tables :: "(pyval \<Rightarrow> rat res) \<Rightarrow> int \<Rightarrow> (string \<times> int) list \<times> slow_state \<Rightarrow> ((string \<times> int) list \<times> slow_state) option" where
  "clean_tables py_float n r0 =
     obind (clean_table py_float n dt_id (\<lambda>d. Some (dt_created d)) sl_mysql (\<lambda>t s. s\<lparr>sl_mysql := t\<rparr>) ''mysql_detail'' r0) (\<lambda>r1.
     obind (clean_table py_float n dt_id (\<lambda>d. Some (dt_created d)) sl_pgsql (\<lambda>t s. s\<lparr>sl_pgsql := t\<rparr>) ''pgsql_detail'' r1) (\<lambda>r2.
     obind (clean_table py_float n dt_id (\<lambda>d. Some (dt_created d)) sl_mongo (\<lambda>t s. s\<lparr>sl_mongo := t\<rparr>) ''mongo_detail'' r2) (\<lambda>r3.
     obind (clean_table py_float n dt_id (\<lambda>d. Some (dt_created d)) sl_redis (\<lambda>t s. s\<lparr>sl_redis := t\<rparr>) ''redis_detail'' r3) (\<lambda>r4.
     obind (clean_table py_float n su_id su_last sl_mysql_sum (\<lambda>t s. s\<lparr>sl_mysql_sum := t\<rparr>) ''mysql_summary'' r4) (\<lambda>r5.
     obind (clean_table py_float n su_id su_last sl_pgsql_sum (\<lambda>t s. s\<lparr>sl_pgsql_sum := t\<rparr>) ''pgsql_summary'' r5) (\<lambda>r6.
     obind (clean_table py_float n su_id su_last sl_mongo_sum (\<lambda>t s. s\<lparr>sl_mongo_sum := t\<rparr>) ''mongo_summary'' r6) (\<lambda>r7.
     clean_table py_float n su_id su_last sl_redis_sum (\<lambda>t s. s\<lparr>sl_redis_sum := t\<rparr>) ''redis_summary'' r7)))))))"

definition cleanup_slowquery_data_task ::
  "(pyval \<Rightarrow> rat res) \<Rightarrow> int option \<Rightarrow> slow_state \<Rightarrow> ((string \<times> int) list res \<times> slow_state) option" where
  "cleanup_slowquery_data_task py_float retention s =
     (case (case retention of Some n \<Rightarrow> Inr n | None \<Rightarrow> get_retention_days (sl_world s)) of
        Inl e \<Rightarrow> Some (Inl e, s)
      | Inr n \<Rightarrow> map_option (\<lambda>(results, s'). (Inr results, s'))
          (obind (clean_tables py_float n ([], s)) (\<lambda>r. clean_usage (clean_cursors r))))"

end
