(* ===== verification/SlowCollect.thy ===== *)
theory SlowCollect
  imports SlowQuery RedisEngine
begin

text \<open>
  The collectors of slow queries (\<open>sql/collectors/base.py\<close>, \<open>mysql_collector.py\<close>,
  \<open>redis_collector.py\<close>, \<open>pgsql_collector.py\<close>) and their dispatch in \<open>sql/collectors/tasks.py\<close>. What a server
  answers to the queries of a collector is a parameter; texts are taken as decoded.
\<close>

section \<open>The cursor\<close>

record cursor_mgr =
  cm_cursor :: usec
  cm_max :: "usec option"
  cm_new :: bool

definition max_cursor :: "cursor_mgr \<Rightarrow> usec" where
  "max_cursor m = (case cm_max m of None \<Rightarrow> cm_cursor m | Some t \<Rightarrow> t)"

definition is_new_data :: "cursor_mgr \<Rightarrow> usec option \<Rightarrow> bool" where
  "is_new_data m t = (case t of None \<Rightarrow> False | Some x \<Rightarrow> cm_cursor m < x)"

definition update_max_cursor :: "usec option \<Rightarrow> cursor_mgr \<Rightarrow> cursor_mgr" where
  "update_max_cursor t m = (case t of
       None \<Rightarrow> m
     | Some x \<Rightarrow> m\<lparr>cm_new := True, cm_max := (case cm_max m of None \<Rightarrow> Some x | Some y \<Rightarrow> Some (if y < x then x else y))\<rparr>)"

definition get_cursor :: "int \<Rightarrow> string \<Rightarrow> slow_state \<Rightarrow> usec res" where
  "get_cursor inst db_type s =
     (case tbl_get ''SlowQueryCursor'' (\<lambda>c. cu_instance c = inst \<and> cu_db_type c = db_type) (sl_cursors s) of
        Inr c \<Rightarrow> Inr (case cu_last c of Some t \<Rightarrow> t | None \<Rightarrow> sl_now s - days 7)
      | Inl e \<Rightarrow> (if is_DoesNotExist e then Inr (sl_now s - days 7) else Inl e))"

definition create_cursor_manager :: "int \<Rightarrow> string \<Rightarrow> slow_state \<Rightarrow> cursor_mgr res" where
  "create_cursor_manager inst db_type s = bindE (get_cursor inst db_type s) (\<lambda>t. Inr \<lparr>cm_cursor = t, cm_max = None, cm_new = False\<rparr>)"

definition set_cu_id :: "int \<Rightarrow> slow_cursor \<Rightarrow> slow_cursor" where
  "set_cu_id k c = c\<lparr>cu_id := k\<rparr>"

definition upsert_cursor :: "usec \<Rightarrow> int \<Rightarrow> string \<Rightarrow> usec \<Rightarrow> slow_cursor table \<Rightarrow> unit res \<times> slow_cursor table" where
  "upsert_cursor now inst db_type t tab =
     (case tbl_update_or_create ''SlowQueryCursor'' set_cu_id (\<lambda>c. cu_instance c = inst \<and> cu_db_type c = db_type)
        (\<lambda>c. c\<lparr>cu_last := Some t, cu_updated := now\<rparr>)
        \<lparr>cu_id = 0, cu_instance = inst, cu_db_type = db_type, cu_last = Some t, cu_last_id = None, cu_updated = now\<rparr> tab of
        Inl e \<Rightarrow> (Inl e, tab) | Inr tab' \<Rightarrow> (Inr (), tab'))"

definition on_cursors :: "(slow_cursor store, 'a) M \<Rightarrow> (slow_state, 'a) M" where
  "on_cursors = on_table sl_cursors (\<lambda>t s. s\<lparr>sl_cursors := t\<rparr>)"

definition update_cursor :: "int \<Rightarrow> string \<Rightarrow> usec \<Rightarrow> (slow_state, unit) M" where
  "update_cursor inst db_type t = (\<lambda>s. on_cursors (retry 3 (write_stmt (upsert_cursor (sl_now s) inst db_type t))) s)"

definition commit_cursor :: "int \<Rightarrow> string \<Rightarrow> cursor_mgr \<Rightarrow> (slow_state, bool) M" where
  "commit_cursor inst db_type m = (case cm_max m of
       Some t \<Rightarrow> (if cm_new m then thenM (update_cursor inst db_type t) (ret True) else ret False)
     | None \<Rightarrow> ret False)"

section \<open>MySQL\<close>

record slow_log_row =
  lr_start :: usec
  lr_user_host :: string
  lr_db :: "string option"
  lr_text :: string
  lr_time :: rat
  lr_lock :: rat
  lr_sent :: int
  lr_examined :: int

record digest_row =
  dr_hash :: string
  dr_fingerprint :: string
  dr_counts :: int
  dr_times :: rat
  dr_avg :: rat
  dr_examined :: int
  dr_sent :: int
  dr_examined_avg :: rat
  dr_sent_avg :: rat
  dr_first :: "usec option"
  dr_last :: "usec option"
  dr_db :: "string option"

text \<open>
  A server: the variables the collector asks for, and the answers to its two statements. The statement on
  \<open>mysql.slow_log\<close> has three parameters, of which the times are rendered to the second.
\<close>

record mysql_server =
  mv_variable :: "string \<Rightarrow> string option"
  mv_slow_log :: "usec \<Rightarrow> usec \<Rightarrow> nat \<Rightarrow> slow_log_row list"
  mv_digests :: "usec \<Rightarrow> digest_row list"

definition to_second :: "usec \<Rightarrow> usec" where
  "to_second t = t - t mod 1000000"

text \<open>\<open>user[user] @ host [ip]\<close>.\<close>

definition after_first :: "char \<Rightarrow> string \<Rightarrow> string" where
  "after_first c s = drop 1 (dropWhile (\<lambda>d. d \<noteq> c) s)"

definition in_brackets :: "string \<Rightarrow> string" where
  "in_brackets s = split_on (CHR '']'') (split_on (CHR ''['') s ! 1) ! 0"

definition parse_user_host :: "string \<Rightarrow> string \<times> string" where
  "parse_user_host h =
     (strip (if CHR ''['' \<in> set h then split_on (CHR ''['') h ! 0 else h),
      if CHR ''@'' \<in> set h then
        (let client = strip (after_first (CHR ''@'') h) in
         if CHR ''['' \<in> set client \<and> CHR '']'' \<in> set client then in_brackets client else client)
      else if CHR ''['' \<in> set h \<and> CHR '']'' \<in> set h then in_brackets h else [])"

definition sql_text_max :: nat where
  "sql_text_max = 2048"

definition generate_hash :: "(string \<Rightarrow> string) \<Rightarrow> string \<Rightarrow> string" where
  "generate_hash md5 t = (if t = [] then [] else md5 t)"

definition mysql_detail_of :: "(string \<Rightarrow> string) \<Rightarrow> int \<Rightarrow> usec \<Rightarrow> slow_log_row \<Rightarrow> mysql_detail" where
  "mysql_detail_of md5 inst now r =
     (let text = take sql_text_max (lr_text r); (user, ip) = parse_user_host (lr_user_host r) in
      \<lparr>dt_id = 0, dt_instance = inst, dt_hash = Some (generate_hash md5 text), dt_start = lr_start r,
       dt_host = (if ip \<noteq> [] then user @ ''@'' @ ip else user), dt_text = text, dt_time = lr_time r, dt_created = now,
       md_user = user, md_db = lr_db r, md_lock = lr_lock r, md_sent = lr_sent r, md_examined = lr_examined r\<rparr>)"

definition set_dt_id :: "int \<Rightarrow> 'd detail_scheme \<Rightarrow> 'd detail_scheme" where
  "set_dt_id k d = d\<lparr>dt_id := k\<rparr>"

text \<open>Rows written by one statement; none of them when it fails.\<close>

definition bulk_create :: "'d detail_scheme list \<Rightarrow> 'd detail_scheme table \<Rightarrow> unit res \<times> 'd detail_scheme table" where
  "bulk_create ds t = (Inr (), fold (tbl_create set_dt_id) ds t)"

text \<open>\<open>_insert_detail_rows\<close>: in pieces of 200, row by row where a piece fails, leaving out rows that fail again.\<close>

definition insert_chunk_size :: nat where
  "insert_chunk_size = 200"

fun insert_one_by_one :: "'d detail_scheme list \<Rightarrow> nat \<Rightarrow> 'd detail_scheme store \<Rightarrow> nat \<times> 'd detail_scheme store" where
  "insert_one_by_one [] saved s = (saved, s)"
| "insert_one_by_one (d # ds) saved s = (case write_stmt (bulk_create [d\<lparr>dt_text := take sql_text_max (dt_text d)\<rparr>]) s of
       (Inl e, s') \<Rightarrow> insert_one_by_one ds saved s'
     | (Inr _, s') \<Rightarrow> insert_one_by_one ds (Suc saved) s')"

function insert_detail_rows :: "'d detail_scheme list \<Rightarrow> nat \<Rightarrow> 'd detail_scheme store \<Rightarrow> nat \<times> 'd detail_scheme store" where
  "insert_detail_rows ds saved s =
     (if ds = [] then (saved, s)
      else let chunk = take insert_chunk_size ds; rest = drop insert_chunk_size ds in
        case write_stmt (bulk_create chunk) s of
          (Inr _, s') \<Rightarrow> insert_detail_rows rest (saved + length chunk) s'
        | (Inl e, s') \<Rightarrow> (case insert_one_by_one chunk saved s' of (n, s'') \<Rightarrow> insert_detail_rows rest n s''))"
  by pat_completeness auto
termination
  by (relation "measure (\<lambda>(ds, _, _). length ds)") (auto simp: insert_chunk_size_def)

declare insert_detail_rows.simps [simp del]

text \<open>The loop of \<open>collect_detail\<close>: it may not end, so its result is an option.\<close>

definition slow_log_batch :: nat where
  "slow_log_batch = 1000"

partial_function (option) mysql_loop ::
  "(slow_log_row \<Rightarrow> mysql_detail) \<Rightarrow> mysql_server \<Rightarrow> usec \<Rightarrow> usec \<Rightarrow> cursor_mgr \<Rightarrow> nat \<Rightarrow> mysql_detail store
   \<Rightarrow> (cursor_mgr \<times> nat \<times> mysql_detail store) option" where
  "mysql_loop row server end_time cur m n s =
     (let rows = mv_slow_log server cur end_time slow_log_batch in
      if rows = [] then Some (m, n, s)
      else let m' = fold (\<lambda>r. update_max_cursor (Some (lr_start r))) rows m in
        case insert_detail_rows (map row rows) n s of
          (n', s') \<Rightarrow>
            if length rows < slow_log_batch then Some (m', n', s')
            else mysql_loop row server end_time (to_second (max_cursor m')) m' n' s')"

definition mysql_store :: "slow_state \<Rightarrow> mysql_detail store" where
  "mysql_store s = \<lparr>st_table = sl_mysql s, st_faults = sl_faults s\<rparr>"

definition put_mysql :: "mysql_detail store \<Rightarrow> slow_state \<Rightarrow> slow_state" where
  "put_mysql t s = s\<lparr>sl_mysql := st_table t, sl_faults := st_faults t\<rparr>"

text \<open>An exception is logged: what was written before stays.\<close>

definition mysql_collect_detail ::
  "(string \<Rightarrow> string) \<Rightarrow> mysql_server \<Rightarrow> instance_row \<Rightarrow> usec \<Rightarrow> slow_state \<Rightarrow> slow_state option" where
  "mysql_collect_detail md5 server i end_time s =
     (if mv_variable server ''slow_query_log'' \<noteq> Some ''ON'' \<or> mv_variable server ''log_output'' \<noteq> Some ''TABLE'' then Some s
      else case create_cursor_manager (i_id i) (i_db_type i) s of
        Inl e \<Rightarrow> Some s
      | Inr m \<Rightarrow> map_option (\<lambda>(m', n, t). snd (commit_cursor (i_id i) (i_db_type i) m' (put_mysql t s)))
          (mysql_loop (mysql_detail_of md5 (i_id i) (sl_now s)) server (to_second end_time) (to_second (cm_cursor m)) m 0 (mysql_store s)))"

text \<open>\<open>collect_summary\<close>: the digests of the performance schema; the percentile, the sample and the user are kept.\<close>

definition mysql_summary_row :: "int \<Rightarrow> digest_row \<Rightarrow> mysql_summary" where
  "mysql_summary_row inst r =
     \<lparr>su_id = 0, su_instance = inst, su_hash = dr_hash r, su_fingerprint = dr_fingerprint r, su_sample = None,
      su_counts = dr_counts r, su_times = dr_times r, su_avg = dr_avg r, su_p95 = 0, su_first = dr_first r, su_last = dr_last r,
      su_created = 0, su_updated = 0, ms_db = dr_db r, ms_user = None, ms_parse_total = dr_examined r, ms_return_total = dr_sent r,
      ms_parse_avg = dr_examined_avg r, ms_return_avg = dr_sent_avg r\<rparr>"

definition keep_digest :: "mysql_summary \<Rightarrow> mysql_summary \<Rightarrow> mysql_summary" where
  "keep_digest old new = new\<lparr>su_sample := su_sample old, su_p95 := su_p95 old, ms_user := ms_user old\<rparr>"

definition mysql_collect_summary :: "mysql_server \<Rightarrow> instance_row \<Rightarrow> usec \<Rightarrow> slow_state \<Rightarrow> slow_state" where
  "mysql_collect_summary server i start_time s =
     (if mv_variable server ''performance_schema'' \<noteq> Some ''ON'' then s
      else snd (on_mysql_sum (upsert_rows (sl_now s) keep_digest
             (map (mysql_summary_row (i_id i)) (mv_digests server (to_second start_time))) 0) s))"

section \<open>Redis\<close>

record redis_entry =
  re_start :: int
  re_duration :: rat
  re_command :: "string list"
  re_client :: string

text \<open>\<open>_normalize_command\<close>: the name and the first argument, a star for the others.\<close>

definition redis_normalize_command :: "string list \<Rightarrow> string" where
  "redis_normalize_command parts = (case parts of
       [] \<Rightarrow> []
     | [c] \<Rightarrow> upper c
     | [c, k] \<Rightarrow> upper c @ '' '' @ k
     | c # k # _ \<Rightarrow> upper c @ '' '' @ k @ '' *'')"

definition redis_detail_of :: "(string \<Rightarrow> string) \<Rightarrow> instance_row \<Rightarrow> usec \<Rightarrow> redis_entry \<Rightarrow> redis_detail" where
  "redis_detail_of md5 i now e =
     \<lparr>dt_id = 0, dt_instance = i_id i, dt_hash = Some (generate_hash md5 (redis_normalize_command (re_command e))),
      dt_start = seconds (re_start e), dt_host = (if re_client e = [] then i_host i @ '':'' @ str_int (i_port i) else re_client e),
      dt_text = join '' '' (re_command e), dt_time = re_duration e, dt_created = now\<rparr>"

fun redis_new_rows ::
  "(redis_entry \<Rightarrow> redis_detail) \<Rightarrow> redis_entry list \<Rightarrow> cursor_mgr \<Rightarrow> redis_detail list \<Rightarrow> redis_detail list \<times> cursor_mgr" where
  "redis_new_rows row [] m ds = (ds, m)"
| "redis_new_rows row (e # es) m ds =
     (let t = Some (seconds (re_start e)) in
      if is_new_data m t then redis_new_rows row es (update_max_cursor t m) (ds @ [row e])
      else redis_new_rows row es m ds)"

definition on_redis :: "(redis_detail store, 'a) M \<Rightarrow> (slow_state, 'a) M" where
  "on_redis = on_table sl_redis (\<lambda>t s. s\<lparr>sl_redis := t\<rparr>)"

text \<open>The whole batch is one statement: when it fails nothing is stored and the cursor stays.\<close>

definition redis_collect_detail ::
  "(string \<Rightarrow> string) \<Rightarrow> redis_entry list res \<Rightarrow> instance_row \<Rightarrow> slow_state \<Rightarrow> slow_state" where
  "redis_collect_detail md5 slowlog i s =
     (case slowlog of Inl e \<Rightarrow> s | Inr entries \<Rightarrow>
      case create_cursor_manager (i_id i) (i_db_type i) s of Inl e \<Rightarrow> s | Inr m \<Rightarrow>
      if entries = [] then s
      else case redis_new_rows (redis_detail_of md5 i (sl_now s)) entries m [] of (ds, m') \<Rightarrow>
        snd (bindM (if ds = [] then ret () else on_redis (write_stmt (bulk_create ds)))
               (\<lambda>_. commit_cursor (i_id i) (i_db_type i) m') s))"

text \<open>\<open>collect_summary\<close>: the details of a period, grouped by hash; a group whose hash is null cannot be stored.\<close>

definition redis_period :: "int \<Rightarrow> usec \<Rightarrow> usec \<Rightarrow> redis_detail list \<Rightarrow> redis_detail list" where
  "redis_period inst b e ds = filter (\<lambda>d. dt_instance d = inst \<and> b \<le> dt_start d \<and> dt_start d \<le> e) ds"

definition redis_summary_row :: "int \<Rightarrow> redis_detail list \<Rightarrow> string \<Rightarrow> redis_summary" where
  "redis_summary_row inst ds h =
     (let g = filter (\<lambda>d. dt_hash d = Some h) ds; sample = dt_text (hd g) in
      \<lparr>su_id = 0, su_instance = inst, su_hash = h,
       su_fingerprint = (if sample = [] then [] else redis_normalize_command (split_words sample)), su_sample = Some sample,
       su_counts = int (length g), su_times = sum_list (map dt_time g), su_avg = avg (map dt_time g), su_p95 = 0,
       su_first = min_start g, su_last = max_start g, su_created = 0, su_updated = 0\<rparr>)"

definition redis_collect_summary :: "instance_row \<Rightarrow> usec \<Rightarrow> usec \<Rightarrow> slow_state \<Rightarrow> slow_state" where
  "redis_collect_summary i b e s =
     (let ds = redis_period (i_id i) b e (tbl_rows (sl_redis s)) in
      snd (on_redis_sum (upsert_rows (sl_now s) keep_none
        (map (redis_summary_row (i_id i) ds) (remdups (List.map_filter dt_hash ds))) 0) s))"

section \<open>PostgreSQL\<close>

record statement_row =
  pr_hash :: string
  pr_text :: string
  pr_calls :: int
  pr_times :: rat
  pr_avg :: rat
  pr_rows :: int
  pr_rows_avg :: rat
  pr_hit :: int
  pr_read :: int
  pr_first :: "usec option"
  pr_last :: "usec option"
  pr_dbid :: int

text \<open>The answers to the statements on \<open>pg_stat_statements\<close> (of the summary and of the details) and on \<open>pg_database\<close>.\<close>

record pgsql_server =
  pv_summary :: "statement_row list res"
  pv_detail :: "statement_row list res"
  pv_databases :: "(int \<times> string) list res"

definition database_name :: "pgsql_server \<Rightarrow> int \<Rightarrow> string" where
  "database_name server k = (case pv_databases server of
       Inl e \<Rightarrow> []
     | Inr rows \<Rightarrow> (case map_of (rev rows) k of None \<Rightarrow> [] | Some n \<Rightarrow> n))"

definition pgsql_summary_row :: "pgsql_server \<Rightarrow> int \<Rightarrow> usec \<Rightarrow> statement_row \<Rightarrow> pgsql_summary" where
  "pgsql_summary_row server inst now r =
     \<lparr>su_id = 0, su_instance = inst, su_hash = pr_hash r, su_fingerprint = pr_text r, su_sample = None,
      su_counts = pr_calls r, su_times = pr_times r, su_avg = pr_avg r, su_p95 = 0,
      su_first = Some (case pr_first r of None \<Rightarrow> now | Some t \<Rightarrow> t), su_last = Some (case pr_last r of None \<Rightarrow> now | Some t \<Rightarrow> t),
      su_created = 0, su_updated = 0, ps_db = Some (database_name server (pr_dbid r)), ps_user = None, ps_rows = pr_rows r,
      ps_rows_avg = pr_rows_avg r, ps_hit = pr_hit r, ps_read = pr_read r\<rparr>"

definition keep_statement :: "pgsql_summary \<Rightarrow> pgsql_summary \<Rightarrow> pgsql_summary" where
  "keep_statement old new = new\<lparr>su_sample := su_sample old, su_p95 := su_p95 old, ps_user := ps_user old\<rparr>"

definition pgsql_collect_summary :: "pgsql_server \<Rightarrow> instance_row \<Rightarrow> slow_state \<Rightarrow> slow_state" where
  "pgsql_collect_summary server i s = (case pv_summary server of
       Inl e \<Rightarrow> s
     | Inr rows \<Rightarrow> snd (on_pgsql_sum (upsert_rows (sl_now s) keep_statement
         (map (pgsql_summary_row server (i_id i) (sl_now s)) rows) 0) s))"

text \<open>\<open>collect_detail\<close>: one row for each statement, which later rounds overwrite.\<close>

definition per_call :: "int \<Rightarrow> int \<Rightarrow> int" where
  "per_call n calls = (if 0 < calls then n div calls else 0)"

definition pgsql_detail_row :: "pgsql_server \<Rightarrow> int \<Rightarrow> usec \<Rightarrow> statement_row \<Rightarrow> pgsql_detail" where
  "pgsql_detail_row server inst now r =
     \<lparr>dt_id = 0, dt_instance = inst, dt_hash = Some (pr_hash r), dt_start = now, dt_host = [], dt_text = pr_text r,
      dt_time = pr_avg r, dt_created = now, pd_user = [], pd_db = Some (database_name server (pr_dbid r)),
      pd_sent = per_call (pr_rows r) (pr_calls r), pd_hit = per_call (pr_hit r) (pr_calls r), pd_read = per_call (pr_read r) (pr_calls r)\<rparr>"

definition upsert_detail :: "pgsql_detail \<Rightarrow> pgsql_detail table \<Rightarrow> bool res \<times> pgsql_detail table" where
  "upsert_detail d t = (case tbl_update_or_create ''PgSQLSlowQueryDetail'' set_dt_id
        (\<lambda>x. dt_instance x = dt_instance d \<and> dt_hash x = dt_hash d)
        (\<lambda>old. d\<lparr>dt_id := dt_id old, dt_created := dt_created old\<rparr>) d t of
       Inl e \<Rightarrow> (Inl e, t)
     | Inr t' \<Rightarrow> (Inr (\<not> tbl_exists (\<lambda>x. dt_instance x = dt_instance d \<and> dt_hash x = dt_hash d) t), t'))"

fun upsert_details :: "pgsql_detail list \<Rightarrow> (pgsql_detail store, unit) M" where
  "upsert_details [] = ret ()"
| "upsert_details (d # ds) = (\<lambda>s. upsert_details ds (snd (retry 3 (write_stmt (upsert_detail d)) s)))"

definition on_pgsql :: "(pgsql_detail store, 'a) M \<Rightarrow> (slow_state, 'a) M" where
  "on_pgsql = on_table sl_pgsql (\<lambda>t s. s\<lparr>sl_pgsql := t\<rparr>)"

definition pgsql_collect_detail :: "pgsql_server \<Rightarrow> instance_row \<Rightarrow> slow_state \<Rightarrow> slow_state" where
  "pgsql_collect_detail server i s = (case pv_detail server of
       Inl e \<Rightarrow> s
     | Inr rows \<Rightarrow> snd (on_pgsql (upsert_details (map (pgsql_detail_row server (i_id i) (sl_now s)) rows)) s))"

end
