(* ===== verification/SlowQueryProps.thy ===== *)
theory SlowQueryProps
  imports SlowCollect
begin

text \<open>
  What the statistics of slow queries say: percentiles, the aggregation as a recomputation from the details,
  writing row by row instead of in bulk, and the retention.
\<close>

section \<open>Percentiles\<close>

lemma between_neighbours:
  fixes x :: rat
  assumes "f \<le> k" "k \<le> f + 1" "x \<le> y"
  shows "x \<le> x * (f + 1 - k) + y * (k - f)" "x * (f + 1 - k) + y * (k - f) \<le> y"
proof -
  have "x * (k - f) \<le> y * (k - f)" using assms by (intro mult_right_mono) auto
  then show "x \<le> x * (f + 1 - k) + y * (k - f)" by (simp add: algebra_simps)
  have "x * (f + 1 - k) \<le> y * (f + 1 - k)" using assms by (intro mult_right_mono) auto
  then show "x * (f + 1 - k) + y * (k - f) \<le> y" by (simp add: algebra_simps)
qed

lemma ceiling_floor: "floor (k::rat) \<noteq> ceiling k \<Longrightarrow> ceiling k = floor k + 1"
  by (simp add: ceiling_altdef split: if_splits)

text \<open>
  The percentile of a list of durations lies between the two durations next to its position in the sorted
  list, so between the least and the greatest one.
\<close>

theorem percentile_between:
  assumes "sorted vs" "vs \<noteq> []" "0 \<le> p" "p \<le> 100"
    and k: "k = (of_nat (length vs) - 1) * p / 100"
  shows "vs ! nat (floor k) \<le> calculate_percentile vs p \<and> calculate_percentile vs p \<le> vs ! nat (ceiling k)
    \<and> nat (ceiling k) < length vs"
proof -
  have len: "1 \<le> (of_nat (length vs) :: rat)" using assms(2) by (cases vs) auto
  then have k0: "0 \<le> k" using assms(3) by (simp add: k)
  have "(of_nat (length vs) - 1) * p \<le> (of_nat (length vs) - 1) * 100"
    using len assms(4) by (intro mult_left_mono) auto
  then have kn: "k \<le> of_nat (length vs) - 1" by (simp add: k)
  then have "k \<le> of_int (int (length vs) - 1)" by simp
  then have c: "ceiling k \<le> int (length vs) - 1" by (simp only: ceiling_le_iff)
  have pos: "0 < length vs" using assms(2) by simp
  with c have cn: "nat (ceiling k) < length vs" by linarith
  show ?thesis
  proof (cases "floor k = ceiling k")
    case True
    with assms(2) cn show ?thesis by (simp add: calculate_percentile_def Let_def flip: k)
  next
    case False
    note cf = ceiling_floor [OF False]
    have le: "vs ! nat (floor k) \<le> vs ! nat (ceiling k)"
      using assms(1) cn cf by (intro sorted_nth_mono) auto
    have "calculate_percentile vs p
        = vs ! nat (floor k) * (of_int (floor k) + 1 - k) + vs ! nat (ceiling k) * (k - of_int (floor k))"
      using False assms(2) cf by (simp add: calculate_percentile_def Let_def flip: k)
    moreover have "of_int (floor k) \<le> k" "k \<le> of_int (floor k) + 1" by (auto intro: less_imp_le simp: floor_less_iff) linarith
    ultimately show ?thesis using between_neighbours [of "of_int (floor k)" k, OF _ _ le] cn by simp
  qed
qed

theorem percentile_between_witness:
  "[1/2, 1, 4 :: rat] ! 1 \<le> calculate_percentile [1/2, 1, 4] 95 \<and> calculate_percentile [1/2, 1, 4] 95 \<le> [1/2, 1, 4] ! 2
    \<and> 2 < length [1/2, 1, 4 :: rat]"
  proof -
  have "floor (19/10 :: rat) = 1" "ceiling (19/10 :: rat) = 2" by (simp_all add: floor_unique ceiling_unique)
  with percentile_between [of "[1/2, 1, 4]" 95 "19/10"] show ?thesis by simp
qed

section \<open>Rows of statistics\<close>

definition sum_key :: "'m summary_scheme \<Rightarrow> int \<times> string" where
  "sum_key r = (su_instance r, su_hash r)"

definition sum_at :: "int \<times> string \<Rightarrow> 'm summary_scheme table \<Rightarrow> 'm summary_scheme option" where
  "sum_at k t = find (\<lambda>r. sum_key r = k) (tbl_rows t)"

definition unique_sums :: "'m summary_scheme table \<Rightarrow> bool" where
  "unique_sums t = distinct (map sum_key (tbl_rows t))"

lemma same_key_iff: "same_key r = (\<lambda>x. sum_key x = sum_key r)"
  by (intro ext) (auto simp: same_key_def sum_key_def)

lemma find_None: "find P xs = None \<longleftrightarrow> (\<forall>x \<in> set xs. \<not> P x)"
  by (induction xs) auto

lemma filter_key:
  "distinct (map f xs) \<Longrightarrow> filter (\<lambda>x. f x = k) xs = (case find (\<lambda>x. f x = k) xs of None \<Rightarrow> [] | Some x \<Rightarrow> [x])"
proof (induction xs)
  case (Cons x xs)
  show ?case
  proof (cases "f x = k")
    case True
    with Cons.prems have "filter (\<lambda>x. f x = k) xs = []" by (simp add: filter_empty_conv) (metis image_eqI)
    with True show ?thesis by simp
  qed (use Cons in simp)
qed simp

lemma find_update:
  "distinct (map f xs) \<Longrightarrow> (\<And>x. f x = k \<Longrightarrow> f (g x) = k) \<Longrightarrow>
   find (\<lambda>x. f x = j) (map (\<lambda>x. if f x = k then g x else x) xs)
     = (if j = k then map_option g (find (\<lambda>x. f x = k) xs) else find (\<lambda>x. f x = j) xs)"
  by (induction xs) auto

lemma find_snoc_key: "find P (xs @ [x]) = (case find P xs of None \<Rightarrow> if P x then Some x else None | Some y \<Rightarrow> Some y)"
  by (induction xs) auto

text \<open>
  What a caller of \<open>upsert\<close> relies on: the columns it keeps of the old row are not those of the key, and
  \<open>norm\<close> forgets exactly the columns that are kept or set by the table.
\<close>

locale summary_columns =
  fixes keep :: "'m summary_scheme \<Rightarrow> 'm summary_scheme \<Rightarrow> 'm summary_scheme"
    and norm :: "'m summary_scheme \<Rightarrow> 'm summary_scheme"
  assumes norm_row: "norm (r\<lparr>su_id := a, su_created := b, su_updated := c\<rparr>) = norm r"
    and norm_keep: "norm (keep x r) = norm r"
    and key_norm: "norm r = norm r' \<Longrightarrow> sum_key r = sum_key r'"
begin

definition stored :: "usec \<Rightarrow> 'm summary_scheme \<Rightarrow> 'm summary_scheme table \<Rightarrow> 'm summary_scheme" where
  "stored now r t = (case sum_at (sum_key r) t of
     None \<Rightarrow> r\<lparr>su_id := tbl_next t, su_created := now, su_updated := now\<rparr>
   | Some old \<Rightarrow> (keep old r)\<lparr>su_id := su_id old, su_created := su_created old, su_updated := now\<rparr>)"

lemma norm_stored: "norm (stored now r t) = norm r"
  by (simp add: stored_def norm_row norm_keep split: option.split)

lemma key_stored: "sum_key (stored now r t) = sum_key r"
  by (rule key_norm [OF norm_stored])

lemma norm_updated: "norm ((keep x r)\<lparr>su_id := a, su_created := b, su_updated := c\<rparr>) = norm r"
  by (simp add: norm_row norm_keep)

lemma key_updated: "sum_key ((keep x r)\<lparr>su_id := a, su_created := b, su_updated := c\<rparr>) = sum_key r"
  by (rule key_norm [OF norm_updated])

lemma upsert_unique:
  assumes "unique_sums t"
  shows "fst (upsert now keep r t) = Inr (sum_at (sum_key r) t = None)"
    and "unique_sums (snd (upsert now keep r t))"
    and "sum_at k (snd (upsert now keep r t)) = (if k = sum_key r then Some (stored now r t) else sum_at k t)"
proof -
  let ?d = "distinct (map sum_key (tbl_rows t))"
  let ?new = "\<lambda>old. (keep old r)\<lparr>su_id := su_id old, su_created := su_created old, su_updated := now\<rparr>"
  have d: ?d using assms by (simp add: unique_sums_def)
  have f: "filter (same_key r) (tbl_rows t) = (case sum_at (sum_key r) t of None \<Rightarrow> [] | Some x \<Rightarrow> [x])"
    using filter_key [OF d, of "sum_key r"] by (simp add: same_key_iff sum_at_def)
  have u: "fst (upsert now keep r t) = Inr (sum_at (sum_key r) t = None) \<and> unique_sums (snd (upsert now keep r t))
    \<and> sum_at k (snd (upsert now keep r t)) = (if k = sum_key r then Some (stored now r t) else sum_at k t)"
  proof (cases "sum_at (sum_key r) t")
    case None
    then have n: "\<forall>x \<in> set (tbl_rows t). sum_key x \<noteq> sum_key r" by (simp add: sum_at_def find_None)
    have ex: "\<not> tbl_exists (same_key r) t" using n by (auto simp: tbl_exists_def list_ex_iff same_key_iff)
    have st: "stored now r t = set_su_id (tbl_next t) (r\<lparr>su_created := now, su_updated := now\<rparr>)"
      using None by (simp add: stored_def set_su_id_def)
    have rows: "tbl_rows (snd (upsert now keep r t)) = tbl_rows t @ [stored now r t]"
      using None f by (simp add: upsert_def tbl_update_or_create_def tbl_create_def st)
    have "sum_at k (snd (upsert now keep r t)) = (if k = sum_key r then Some (stored now r t) else sum_at k t)"
      using None rows by (auto simp: sum_at_def find_snoc_key key_stored split: option.split)
    moreover have "unique_sums (snd (upsert now keep r t))"
      using d n rows by (auto simp: unique_sums_def key_stored)
    ultimately show ?thesis using None ex f by (simp add: upsert_def tbl_update_or_create_def)
  next
    case (Some x)
    then have x: "x \<in> set (tbl_rows t)" "sum_key x = sum_key r" by (auto simp: sum_at_def find_Some_iff)
    have ex: "tbl_exists (same_key r) t" using x by (auto simp: tbl_exists_def list_ex_iff same_key_iff)
    have rows: "tbl_rows (snd (upsert now keep r t)) = map (\<lambda>y. if sum_key y = sum_key r then ?new y else y) (tbl_rows t)"
      using Some f by (simp add: upsert_def tbl_update_or_create_def tbl_update_def same_key_iff)
    have "map sum_key (map (\<lambda>y. if sum_key y = sum_key r then ?new y else y) (tbl_rows t)) = map sum_key (tbl_rows t)"
      by (simp add: key_updated)
    then have "unique_sums (snd (upsert now keep r t))" using d unfolding unique_sums_def rows by (simp only:)
    moreover have "sum_at k (snd (upsert now keep r t)) = (if k = sum_key r then Some (stored now r t) else sum_at k t)"
      using find_update [OF d, of "sum_key r" ?new k] Some rows by (simp add: sum_at_def key_updated stored_def)
    ultimately show ?thesis using Some ex f by (simp add: upsert_def tbl_update_or_create_def)
  qed
  then show "fst (upsert now keep r t) = Inr (sum_at (sum_key r) t = None)"
    "unique_sums (snd (upsert now keep r t))"
    "sum_at k (snd (upsert now keep r t)) = (if k = sum_key r then Some (stored now r t) else sum_at k t)" by blast+
qed

text \<open>Writing rows with different keys: each is there afterwards, the others are as they were.\<close>

lemma upsert_fold:
  assumes "unique_sums t" "distinct (map sum_key rs)"
  shows "unique_sums (fold (\<lambda>r t. snd (upsert now keep r t)) rs t)
    \<and> (\<forall>r \<in> set rs. \<exists>r'. sum_at (sum_key r) (fold (\<lambda>r t. snd (upsert now keep r t)) rs t) = Some r' \<and> norm r' = norm r)
    \<and> (\<forall>k. k \<notin> sum_key ` set rs \<longrightarrow> sum_at k (fold (\<lambda>r t. snd (upsert now keep r t)) rs t) = sum_at k t)"
  using assms
proof (induction rs arbitrary: t)
  case (Cons r rs)
  let ?t = "snd (upsert now keep r t)"
  have u: "unique_sums ?t" by (rule upsert_unique(2) [OF Cons.prems(1)])
  have nk: "sum_key r \<notin> sum_key ` set rs" using Cons.prems(2) by auto
  let ?T = "fold (\<lambda>r t. snd (upsert now keep r t)) rs ?t"
  have IH: "unique_sums ?T" "\<forall>r \<in> set rs. \<exists>r'. sum_at (sum_key r) ?T = Some r' \<and> norm r' = norm r"
    "\<forall>k. k \<notin> sum_key ` set rs \<longrightarrow> sum_at k ?T = sum_at k ?t"
    using Cons.IH [OF u] Cons.prems(2) by auto
  note at = upsert_unique(3) [OF Cons.prems(1), of _ now r]
  have "sum_at (sum_key r) ?T = Some (stored now r t)" using IH(3) nk at [of "sum_key r"] by metis
  then have "\<exists>r'. sum_at (sum_key r) ?T = Some r' \<and> norm r' = norm r" using norm_stored by blast
  moreover have "sum_at k ?T = sum_at k t" if "k \<notin> sum_key ` set (r # rs)" for k
    using that IH(3) at [of k] by (metis image_insert insertCI list.simps(15))
  ultimately show ?case using IH(1,2) by (simp only: fold.simps o_apply) auto
qed simp

end

definition norm_mysql :: "mysql_summary \<Rightarrow> mysql_summary" where
  "norm_mysql r = r\<lparr>su_id := 0, su_created := 0, su_updated := 0, ms_user := None\<rparr>"

definition norm_digest :: "mysql_summary \<Rightarrow> mysql_summary" where
  "norm_digest r = r\<lparr>su_id := 0, su_sample := None, su_p95 := 0, su_created := 0, su_updated := 0, ms_user := None\<rparr>"

definition norm_pgsql :: "pgsql_summary \<Rightarrow> pgsql_summary" where
  "norm_pgsql r = r\<lparr>su_id := 0, su_created := 0, su_updated := 0, ps_user := None\<rparr>"

definition norm_statement :: "pgsql_summary \<Rightarrow> pgsql_summary" where
  "norm_statement r = r\<lparr>su_id := 0, su_sample := None, su_p95 := 0, su_created := 0, su_updated := 0, ps_user := None\<rparr>"

definition norm_all :: "'m summary_scheme \<Rightarrow> 'm summary_scheme" where
  "norm_all r = r\<lparr>su_id := 0, su_created := 0, su_updated := 0\<rparr>"

lemmas norm_defs = norm_mysql_def norm_digest_def norm_pgsql_def norm_statement_def norm_all_def
  keep_mysql_def keep_digest_def keep_pgsql_def keep_statement_def keep_none_def sum_key_def

lemma mysql_summary_norms:
  "norm_mysql (r\<lparr>su_id := a, su_created := b, su_updated := c\<rparr>) = norm_mysql r"
  "norm_mysql (keep_mysql x r) = norm_mysql r" "norm_mysql r = norm_mysql r' \<Longrightarrow> sum_key r = sum_key r'"
  by (cases r; cases r'; simp add: norm_defs)+

interpretation mysql_sums: summary_columns keep_mysql norm_mysql
  by unfold_locales (rule mysql_summary_norms; assumption?)+

lemma digest_norms:
  "norm_digest (r\<lparr>su_id := a, su_created := b, su_updated := c\<rparr>) = norm_digest r"
  "norm_digest (keep_digest x r) = norm_digest r" "norm_digest r = norm_digest r' \<Longrightarrow> sum_key r = sum_key r'"
  by (cases r; cases r'; simp add: norm_defs)+

lemma pgsql_summary_norms:
  "norm_pgsql (r\<lparr>su_id := a, su_created := b, su_updated := c\<rparr>) = norm_pgsql r"
  "norm_pgsql (keep_pgsql x r) = norm_pgsql r" "norm_pgsql r = norm_pgsql r' \<Longrightarrow> sum_key r = sum_key r'"
  by (cases r; cases r'; simp add: norm_defs)+

lemma statement_norms:
  "norm_statement (r\<lparr>su_id := a, su_created := b, su_updated := c\<rparr>) = norm_statement r"
  "norm_statement (keep_statement x r) = norm_statement r" "norm_statement r = norm_statement r' \<Longrightarrow> sum_key r = sum_key r'"
  by (cases r; cases r'; simp add: norm_defs)+

lemma all_norms:
  "norm_all (r\<lparr>su_id := a, su_created := b, su_updated := c\<rparr>) = norm_all r"
  "norm_all (keep_none x r) = norm_all r" "norm_all r = norm_all r' \<Longrightarrow> sum_key r = sum_key r'"
  by (cases r; cases r'; simp add: norm_defs)+

interpretation digest_sums: summary_columns keep_digest norm_digest
  by unfold_locales (rule digest_norms; assumption?)+

interpretation pgsql_sums: summary_columns keep_pgsql norm_pgsql
  by unfold_locales (rule pgsql_summary_norms; assumption?)+

interpretation statement_sums: summary_columns keep_statement norm_statement
  by unfold_locales (rule statement_norms; assumption?)+

interpretation other_sums: summary_columns keep_none norm_all
  by unfold_locales (rule all_norms; assumption?)+

section \<open>Row by row instead of in bulk\<close>

text \<open>A statement that meets a few conflicts first, and goes through within the three attempts.\<close>

definition conflicts :: "exn list \<Rightarrow> bool" where
  "conflicts es = (list_all is_conflict es \<and> length es \<le> 2)"

definition faults_of :: "exn list \<Rightarrow> exn option list" where
  "faults_of es = map Some es @ [None]"

lemma retry_goes_through:
  assumes "list_all is_conflict es" "length es < n"
    and "st_faults s = faults_of es @ fs"
  shows "retry n (write_stmt f) s
    = (case f (st_table s) of (r, t) \<Rightarrow> case r of Inr x \<Rightarrow> (Inr x, s\<lparr>st_table := t, st_faults := fs\<rparr>)
        | Inl e \<Rightarrow> if is_conflict e \<and> length es + 1 < n then retry (n - length es - 1) (write_stmt f) (s\<lparr>st_table := t, st_faults := fs\<rparr>)
                 else (Inl e, s\<lparr>st_table := t, st_faults := fs\<rparr>))"
  using assms
proof (induction es arbitrary: n s)
  case Nil
  then show ?case by (subst retry.simps) (auto simp: write_stmt_def faults_of_def split: prod.splits sum.splits)
next
  case (Cons e es)
  let ?s = "s\<lparr>st_faults := faults_of es @ fs\<rparr>"
  from Cons.prems have w: "write_stmt f s = (Inl e, ?s)" by (simp add: write_stmt_def faults_of_def)
  have "retry (n - 1) (write_stmt f) ?s = (case f (st_table ?s) of (r, t) \<Rightarrow> case r of Inr x \<Rightarrow> (Inr x, ?s\<lparr>st_table := t, st_faults := fs\<rparr>)
        | Inl e \<Rightarrow> if is_conflict e \<and> length es + 1 < n - 1 then retry (n - 1 - length es - 1) (write_stmt f) (?s\<lparr>st_table := t, st_faults := fs\<rparr>)
                 else (Inl e, ?s\<lparr>st_table := t, st_faults := fs\<rparr>))"
    using Cons.prems by (intro Cons.IH) auto
  with Cons.prems w show ?case
    by (subst retry.simps) (auto split: prod.splits sum.splits simp: less_diff_conv)
qed

context summary_columns
begin

lemma upsert_rows_through:
  assumes "unique_sums t" "length fss = length rs" "list_all conflicts fss"
  shows "upsert_rows now keep rs n \<lparr>st_table = t, st_faults = concat (map faults_of fss) @ rest\<rparr>
    = (Inr (n + int (length rs)), \<lparr>st_table = fold (\<lambda>r t. snd (upsert now keep r t)) rs t, st_faults = rest\<rparr>)"
  using assms
proof (induction rs arbitrary: t n fss)
  case (Cons r rs)
  then obtain es fss' where fss: "fss = es # fss'" by (cases fss) auto
  let ?s = "\<lparr>st_table = t, st_faults = faults_of es @ concat (map faults_of fss') @ rest\<rparr>"
  have "update_or_create_with_retry now keep r ?s
      = (Inr (sum_at (sum_key r) t = None), \<lparr>st_table = snd (upsert now keep r t), st_faults = concat (map faults_of fss') @ rest\<rparr>)"
    using retry_goes_through [of es 3 ?s "concat (map faults_of fss') @ rest" "upsert now keep r"]
      Cons.prems(3) upsert_unique(1) [OF Cons.prems(1), of now r]
    by (cases "upsert now keep r t") (simp add: fss update_or_create_with_retry_def conflicts_def)
  then show ?case
    using Cons.IH [OF upsert_unique(2) [OF Cons.prems(1), of now r], of fss' "n + 1"] Cons.prems(2,3)
    by (simp add: fss)
qed simp

lemma bulk_upsert_clean:
  "bulk_upsert now keep rs \<lparr>st_table = t, st_faults = []\<rparr>
    = (Inr (int (length rs)), \<lparr>st_table = fold (\<lambda>r t. snd (upsert now keep r t)) rs t, st_faults = []\<rparr>)"
  by (simp add: bulk_upsert_def catchM_def thenM_def bindM_def write_stmt_def bulk_create_update_def ret_def)

lemma bulk_upsert_degraded:
  assumes "unique_sums t" "is_conflict c" "length fss = length rs" "list_all conflicts fss"
  shows "bulk_upsert now keep rs \<lparr>st_table = t, st_faults = Some c # concat (map faults_of fss)\<rparr>
    = bulk_upsert now keep rs \<lparr>st_table = t, st_faults = []\<rparr>"
  using upsert_rows_through [OF assms(1,3,4), of now 0 "[]"] assms(2)
  by (simp add: bulk_upsert_clean) (simp add: bulk_upsert_def catchM_def thenM_def bindM_def write_stmt_def)

end

text \<open>
  Writing statistics row by row is as good as writing them in bulk: when the bulk statement meets a
  concurrent writer, and each row gets through within its three attempts, the table and the count are those of
  the bulk statement.
\<close>

theorem bulk_upsert_degrades:
  assumes "unique_sums t" "is_conflict c" "length fss = length rs" "list_all conflicts fss"
  shows "bulk_upsert now keep_mysql rs \<lparr>st_table = t, st_faults = Some c # concat (map faults_of fss)\<rparr>
    = bulk_upsert now keep_mysql rs \<lparr>st_table = t, st_faults = []\<rparr>"
  by (rule mysql_sums.bulk_upsert_degraded [OF assms])

definition demo_summary :: "int \<Rightarrow> string \<Rightarrow> mysql_summary" where
  "demo_summary i h = mysql_summary_of hd (i, Some h) [] 0"

theorem bulk_upsert_degrades_witness:
  "bulk_upsert 7 keep_mysql [demo_summary 1 ''a'', demo_summary 1 ''b'']
      \<lparr>st_table = empty_table, st_faults = Some (IntegrityError ''1062'') # concat (map faults_of [[], [OperationalError ''1213'']])\<rparr>
    = bulk_upsert 7 keep_mysql [demo_summary 1 ''a'', demo_summary 1 ''b''] \<lparr>st_table = empty_table, st_faults = []\<rparr>"
  by (rule bulk_upsert_degrades) (simp_all add: unique_sums_def empty_table_def is_conflict_def conflicts_def)

section \<open>The aggregation recomputes\<close>

lemma valid_keys_iff:
  "k \<in> set (valid_keys ds) \<longleftrightarrow> (\<exists>h. h \<noteq> [] \<and> snd k = Some h) \<and> (\<exists>d \<in> set ds. detail_key d = k)"
  by (auto simp: valid_keys_def has_hash_def detail_key_def image_iff split: option.splits) force

definition of_key :: "int \<times> string option \<Rightarrow> int \<times> string" where
  "of_key k = (fst k, case snd k of None \<Rightarrow> [] | Some h \<Rightarrow> h)"

lemma distinct_of_keys: "distinct (map of_key (valid_keys ds))"
proof -
  have "inj_on of_key (set (valid_keys ds))"
    by (rule inj_onI) (auto simp: valid_keys_iff of_key_def split: option.splits)
  then show ?thesis by (simp add: distinct_map valid_keys_def)
qed

context summary_columns
begin

lemma aggregated:
  assumes "unique_sums t" "\<And>k g p. sum_key (build k g p) = of_key k"
    and agg: "aggregate_slowquery now keep build ds \<lparr>st_table = t, st_faults = []\<rparr> = (res, s')"
  shows "res = Inr (int (length (valid_keys ds)))" "unique_sums (st_table s')" "st_faults s' = []"
    and "k \<in> set (valid_keys ds) \<Longrightarrow> \<exists>r. sum_at (of_key k) (st_table s') = Some r
      \<and> norm r = norm (build k (group_rows k ds) (p95_of (group_rows k ds)))"
    and "j \<notin> of_key ` set (valid_keys ds) \<Longrightarrow> sum_at j (st_table s') = sum_at j t"
proof -
  let ?rs = "map (\<lambda>k. let g = group_rows k ds in build k g (p95_of g)) (valid_keys ds)"
  have keys: "map sum_key ?rs = map of_key (valid_keys ds)" by (simp add: Let_def assms(2))
  then have d: "distinct (map sum_key ?rs)" using distinct_of_keys by metis
  have img: "sum_key ` set ?rs = of_key ` set (valid_keys ds)" using arg_cong [OF keys, of set] by (simp add: image_image)
  have all: "res = Inr (int (length (valid_keys ds))) \<and> s' = \<lparr>st_table = fold (\<lambda>r t. snd (upsert now keep r t)) ?rs t, st_faults = []\<rparr>"
  proof (cases "valid_keys ds = []")
    case True
    with agg show ?thesis by (simp add: aggregate_slowquery_def ret_def)
  next
    case False
    with agg show ?thesis
      by (simp add: aggregate_slowquery_def catchM_def bulk_upsert_clean)
  qed
  note f = upsert_fold [OF assms(1) d, of now]
  show "res = Inr (int (length (valid_keys ds)))" "unique_sums (st_table s')" "st_faults s' = []"
    using all f by auto
  show "\<exists>r. sum_at (of_key k) (st_table s') = Some r \<and> norm r = norm (build k (group_rows k ds) (p95_of (group_rows k ds)))"
    if "k \<in> set (valid_keys ds)"
  proof -
    let ?r = "build k (group_rows k ds) (p95_of (group_rows k ds))"
    have "?r \<in> set ?rs" using that by (auto simp: Let_def)
    with f all show ?thesis unfolding assms(2) [symmetric, of k "group_rows k ds" "p95_of (group_rows k ds)"] by auto
  qed
  show "sum_at j (st_table s') = sum_at j t" if "j \<notin> of_key ` set (valid_keys ds)"
  proof -
    from f have "\<forall>j. j \<notin> sum_key ` set ?rs \<longrightarrow> sum_at j (fold (\<lambda>r t. snd (upsert now keep r t)) ?rs t) = sum_at j t" by blast
    with that all show ?thesis unfolding img by (cases j) simp
  qed
qed

end


lemma key_pgsql_summary: "sum_key (pgsql_summary_of mx k g p) = of_key k"
  by (simp add: pgsql_summary_of_def summary_of_def Let_def sum_key_def of_key_def summary.defs)


definition empty_slow :: slow_state where
  "empty_slow = \<lparr>sl_world = empty_world, sl_now = 0, sl_mysql = empty_table, sl_pgsql = empty_table, sl_mongo = empty_table,
     sl_redis = empty_table, sl_mysql_sum = empty_table, sl_pgsql_sum = empty_table, sl_mongo_sum = empty_table,
     sl_redis_sum = empty_table, sl_cursors = empty_table, sl_usage = empty_table, sl_lock = None, sl_faults = []\<rparr>"

definition demo_row :: "usec \<Rightarrow> rat \<Rightarrow> slow_log_row" where
  "demo_row t d = \<lparr>lr_start = t, lr_user_host = ''app[app] @ web1 [10.0.0.7]'', lr_db = Some ''shop'',
     lr_text = ''select 1'', lr_time = d, lr_lock = 0, lr_sent = 1, lr_examined = 10\<rparr>"

definition demo_details :: "mysql_detail table" where
  "demo_details = \<lparr>tbl_rows = map (\<lambda>(k, d). set_dt_id k (mysql_detail_of id 1 0 (demo_row (seconds k) d))) [(1, 2), (2, 4)], tbl_next = 3\<rparr>"


section \<open>PostgreSQL: one execution for each statement\<close>

lemma upsert_detail_distinct:
  assumes "distinct (map detail_key (tbl_rows t))"
  shows "distinct (map detail_key (tbl_rows (snd (upsert_detail d t))))"
    and "fst (upsert_detail d t) = Inl e \<Longrightarrow> \<not> is_conflict e"
proof -
  let ?P = "\<lambda>x. dt_instance x = dt_instance d \<and> dt_hash x = dt_hash d"
  have P: "?P = (\<lambda>x. detail_key x = detail_key d)" by (auto simp: detail_key_def)
  have f: "filter ?P (tbl_rows t) = (case find (\<lambda>x. detail_key x = detail_key d) (tbl_rows t) of None \<Rightarrow> [] | Some x \<Rightarrow> [x])"
    unfolding P by (rule filter_key [OF assms])
  have k: "detail_key (d\<lparr>dt_id := a, dt_created := b\<rparr>) = detail_key d" "detail_key (set_dt_id a d) = detail_key d" for a b
    by (simp_all add: detail_key_def set_dt_id_def)
  show "distinct (map detail_key (tbl_rows (snd (upsert_detail d t))))"
  proof (cases "find (\<lambda>x. detail_key x = detail_key d) (tbl_rows t)")
    case None
    with f assms k(2) show ?thesis
      by (auto simp: upsert_detail_def tbl_update_or_create_def tbl_create_def find_None)
  next
    case (Some x)
    have "map detail_key (map (\<lambda>x. if ?P x then d\<lparr>dt_id := dt_id x, dt_created := dt_created x\<rparr> else x) (tbl_rows t))
        = map detail_key (tbl_rows t)"
      by (auto simp: detail_key_def)
    with Some f assms show ?thesis
      by (simp add: upsert_detail_def tbl_update_or_create_def tbl_update_def del: map_map)
  qed
  show "fst (upsert_detail d t) = Inl e \<Longrightarrow> \<not> is_conflict e"
    using f by (auto simp: upsert_detail_def tbl_update_or_create_def split: option.splits)
qed

lemma upsert_details_distinct:
  assumes "distinct (map detail_key (tbl_rows (st_table s)))" "st_faults s = []"
    and "upsert_details ds s = (r, s')"
  shows "distinct (map detail_key (tbl_rows (st_table s'))) \<and> st_faults s' = []"
  using assms
proof (induction ds arbitrary: s)
  case (Cons d ds)
  obtain x t where u: "upsert_detail d (st_table s) = (x, t)" by fastforce
  have "snd (retry 3 (write_stmt (upsert_detail d)) s) = s\<lparr>st_table := t, st_faults := []\<rparr>"
    using Cons.prems(2) u upsert_detail_distinct(2) [OF Cons.prems(1), of d]
    by (subst retry.simps) (auto simp: write_stmt_def split: sum.splits)
  with Cons.IH [of "s\<lparr>st_table := t, st_faults := []\<rparr>"] Cons.prems upsert_detail_distinct(1) [OF Cons.prems(1), of d] u
  show ?case by simp
qed (simp add: ret_def)

text \<open>
  The number of executions of a PostgreSQL statement is lost: its details are one row, which each round
  overwrites, so that the aggregation counts one execution for every statement, however often the server says it
  was called, and takes the mean time for the total.
\<close>

theorem pgsql_executions_lost:
  assumes "distinct (map detail_key (tbl_rows (sl_pgsql s0)))" "unique_sums (sl_pgsql_sum s0)" "sl_faults s0 = []"
    and s: "s = pgsql_collect_detail server i s0" and "aggregate_pgsql_slowquery mx s = (res, s')"
  shows "\<forall>k \<in> set (valid_keys (tbl_rows (sl_pgsql s))). \<exists>r. sum_at (of_key k) (sl_pgsql_sum s') = Some r
    \<and> su_counts r = 1 \<and> su_times r = su_avg r"
proof
  fix k
  let ?ds = "tbl_rows (sl_pgsql s)"
  assume k: "k \<in> set (valid_keys ?ds)"
  have s: "distinct (map detail_key ?ds) \<and> sl_faults s = [] \<and> sl_pgsql_sum s = sl_pgsql_sum s0"
  proof (cases "pv_detail server")
    case (Inr rows)
    obtain r t where u: "upsert_details (map (pgsql_detail_row server (i_id i) (sl_now s0)) rows) \<lparr>st_table = sl_pgsql s0, st_faults = []\<rparr> = (r, t)"
      by fastforce
    from upsert_details_distinct [OF _ _ u] assms(1) u Inr assms(3) show ?thesis
      by (simp add: s pgsql_collect_detail_def on_pgsql_def on_table_def)
  qed (use assms(1,3) in \<open>simp add: s pgsql_collect_detail_def\<close>)
  obtain r t where a: "aggregate_slowquery (sl_now s) keep_pgsql (pgsql_summary_of mx) ?ds
      \<lparr>st_table = sl_pgsql_sum s, st_faults = []\<rparr> = (r, t)" by fastforce
  with s assms(5) have t: "sl_pgsql_sum s' = st_table t"
    by (auto simp: aggregate_pgsql_slowquery_def on_pgsql_sum_def on_table_def)
  have u: "unique_sums (sl_pgsql_sum s)" using s assms(2) by simp
  obtain x where "group_rows k ?ds = [x]"
    using k s filter_key [of detail_key ?ds k] by (auto simp: group_rows_def valid_keys_iff find_None split: option.splits)
  then have b: "su_counts (pgsql_summary_of mx k (group_rows k ?ds) p) = 1"
    "su_times (pgsql_summary_of mx k (group_rows k ?ds) p) = su_avg (pgsql_summary_of mx k (group_rows k ?ds) p)" for p
    by (simp_all add: pgsql_summary_of_def summary_of_def Let_def avg_def summary.defs)
  from pgsql_sums.aggregated(4) [OF u key_pgsql_summary a k] obtain y
    where "sum_at (of_key k) (sl_pgsql_sum s') = Some y"
      "norm_pgsql y = norm_pgsql (pgsql_summary_of mx k (group_rows k ?ds) (p95_of (group_rows k ?ds)))" unfolding t by blast
  moreover from this(2) have "su_counts y = su_counts (pgsql_summary_of mx k (group_rows k ?ds) (p95_of (group_rows k ?ds)))"
    "su_times y = su_times (pgsql_summary_of mx k (group_rows k ?ds) (p95_of (group_rows k ?ds)))"
    "su_avg y = su_avg (pgsql_summary_of mx k (group_rows k ?ds) (p95_of (group_rows k ?ds)))"
    by (auto dest!: arg_cong [of _ _ "\<lambda>r. (su_counts r, su_times r, su_avg r)"] simp: norm_pgsql_def)
  ultimately show "\<exists>r. sum_at (of_key k) (sl_pgsql_sum s') = Some r \<and> su_counts r = 1 \<and> su_times r = su_avg r"
    using b by auto
qed

definition demo_pgsql :: pgsql_server where
  "demo_pgsql = \<lparr>pv_summary = Inr [], pv_detail = Inr [\<lparr>pr_hash = ''-42'', pr_text = ''select pg_sleep($1)'', pr_calls = 900,
     pr_times = 1800, pr_avg = 2, pr_rows = 900, pr_rows_avg = 1, pr_hit = 0, pr_read = 0, pr_first = None, pr_last = None, pr_dbid = 5\<rparr>],
     pv_databases = Inr [(5, ''shop'')]\<rparr>"

theorem pgsql_executions_lost_witness:
  "let s = pgsql_collect_detail demo_pgsql new_Instance empty_slow; s' = snd (aggregate_pgsql_slowquery hd s)
   in \<forall>k \<in> set (valid_keys (tbl_rows (sl_pgsql s))). \<exists>r. sum_at (of_key k) (sl_pgsql_sum s') = Some r
        \<and> su_counts r = 1 \<and> su_times r = su_avg r"
  unfolding Let_def
  by (rule pgsql_executions_lost [OF _ _ _ refl prod.collapse [symmetric]]) (simp_all add: empty_slow_def unique_sums_def empty_table_def)

section \<open>Retention\<close>

lemma tbl_delete_twice: "tbl_delete P (tbl_delete Q t) = tbl_delete (\<lambda>x. P x \<or> Q x) t"
proof -
  have "filter (\<lambda>x. \<not> P x) (filter (\<lambda>x. \<not> Q x) xs) = filter (\<lambda>x. \<not> (P x \<or> Q x)) xs" for xs
    by (induction xs) auto
  then show ?thesis by (simp add: tbl_delete_def)
qed

text \<open>A batch that is not empty removes a row.\<close>

lemma batch_removes:
  assumes "map key (take b (tbl_filter expired t)) \<noteq> []"
    and "t' = tbl_delete (\<lambda>r. key r \<in> set (map key (take b (tbl_filter expired t)))) t"
  shows "length (tbl_rows t') < length (tbl_rows t)"
proof -
  from assms(1) obtain x where "x \<in> set (take b (tbl_filter expired t))" by (cases "take b (tbl_filter expired t)") auto
  then have "x \<in> set (tbl_rows t)" "key x \<in> set (map key (take b (tbl_filter expired t)))"
    by (auto simp: tbl_filter_def dest: in_set_takeD)
  then show ?thesis unfolding assms(2) tbl_delete_def by (simp add: length_filter_less)
qed

lemma batch_loop_returns: "\<exists>r. batch_loop key expired b n t = Some r"
proof (induction "length (tbl_rows t)" arbitrary: t n rule: less_induct)
  case less
  let ?ids = "map key (take b (tbl_filter expired t))"
  let ?t = "tbl_delete (\<lambda>r. key r \<in> set ?ids) t"
  show ?case
  proof (cases "?ids = []")
    case True
    then show ?thesis by (subst batch_loop.simps) simp
  next
    case False
    from less [OF batch_removes [OF False refl]] show ?thesis
      using False by (subst batch_loop.simps) (simp add: Let_def)
  qed
qed

lemma batch_delete_returns: "\<exists>r. batch_delete f w now n key time_of t = Some r"
proof (cases "get_cleanup_batch_size w")
  case size: (Inr b)
  show ?thesis
  proof (cases "get_cleanup_batch_sleep f w")
    case (Inr x)
    obtain r where "batch_loop key (\<lambda>r. older_than (now - days n) (time_of r)) (nat b) 0 t = Some r"
      using batch_loop_returns by blast
    with size Inr show ?thesis by (simp add: batch_delete_def Let_def)
  qed (simp add: batch_delete_def size)
qed (simp add: batch_delete_def)

lemma clean_table_returns: "\<exists>r. clean_table f n key time_of get put label r0 = Some r"
proof -
  obtain results s where r0: "r0 = (results, s)" by fastforce
  obtain r where "batch_delete f (sl_world s) (sl_now s) n key time_of (get s) = Some r"
    using batch_delete_returns by blast
  then show ?thesis by (simp add: clean_table_def r0)
qed

lemma obind_returns: "\<exists>x. m = Some x \<Longrightarrow> (\<And>x. \<exists>y. f x = Some y) \<Longrightarrow> \<exists>y. obind m f = Some y"
  by (auto simp: obind_def)

lemma cleanup_usage_returns: "\<exists>r. cleanup_ai_usage_log_task s = Some r"
proof -
  obtain r where "batch_loop ul_id (\<lambda>u. ul_created u < sl_now s - days (ai_usage_retention (sl_world s))) 5000 0 (sl_usage s) = Some r"
    using batch_loop_returns by blast
  then show ?thesis by (simp add: cleanup_ai_usage_log_task_def)
qed

text \<open>
  The nightly retention ends, whatever the configuration says and whatever the tables hold: every batch
  that is not the last removes a row.
\<close>

theorem retention_ends: "\<exists>r. cleanup_slowquery_data_task py_float retention s = Some r"
proof -
  have "\<exists>r. clean_tables py_float n r0 = Some r" for n r0
    unfolding clean_tables_def by (intro obind_returns clean_table_returns)
  moreover have "\<exists>r. clean_usage r0 = Some r" for r0
    using cleanup_usage_returns [of "snd r0"] by (auto simp: clean_usage_def split: prod.splits)
  ultimately have "\<exists>r. obind (clean_tables py_float n r0) (\<lambda>r. clean_usage (clean_cursors r)) = Some r" for n r0
    by (intro obind_returns)
  then show ?thesis
    unfolding cleanup_slowquery_data_task_def by (auto split: sum.splits option.splits) (metis option.simps(9))+
qed

lemma length_filter_compl: "length (filter P xs) + length (filter (\<lambda>x. \<not> P x) xs) = length xs"
  by (induction xs) auto

text \<open>With distinct keys a batch removes exactly its rows.\<close>

lemma batch_delete_rows:
  assumes "distinct (map key xs)" "set ys \<subseteq> set xs" "distinct ys"
  shows "filter (\<lambda>r. key r \<notin> set (map key ys)) xs = filter (\<lambda>r. r \<notin> set ys) xs"
    and "length (filter (\<lambda>r. key r \<notin> set (map key ys)) xs) + length ys = length xs"
proof -
  have "key x \<in> key ` set ys \<longleftrightarrow> x \<in> set ys" if "x \<in> set xs" for x
    using assms(1,2) that by (auto simp: distinct_map inj_on_def)
  then show f: "filter (\<lambda>r. key r \<notin> set (map key ys)) xs = filter (\<lambda>r. r \<notin> set ys) xs"
    by (intro filter_cong) auto
  have "distinct xs" using assms(1) by (simp add: distinct_map)
  moreover have "set (filter (\<lambda>r. r \<in> set ys) xs) = set ys" using assms(2) by auto
  ultimately have "length (filter (\<lambda>r. r \<in> set ys) xs) = length ys"
    using assms(3) by (metis distinct_card distinct_filter)
  then show "length (filter (\<lambda>r. key r \<notin> set (map key ys)) xs) + length ys = length xs"
    unfolding f using length_filter_compl [of "\<lambda>r. r \<in> set ys" xs] by simp
qed

lemma filter_not_first: "set ys \<inter> set zs = {} \<Longrightarrow> filter (\<lambda>r. r \<notin> set ys) (ys @ zs) = zs"
  by (auto simp: filter_empty_conv filter_id_conv)

lemma batch_loop_step:
  assumes "map key (take b (tbl_filter expired t)) \<noteq> []"
    and "t' = tbl_delete (\<lambda>r. key r \<in> set (map key (take b (tbl_filter expired t)))) t"
    and "k = length (tbl_rows t) - length (tbl_rows t')"
  shows "batch_loop key expired b n t = (if k < b then Some (n + int k, t') else batch_loop key expired b (n + int k) t')"
  unfolding assms(3) by (subst batch_loop.simps) (simp only: Let_def assms(1) if_False assms(2) [symmetric])

lemma nothing_to_delete: "tbl_filter P t = [] \<Longrightarrow> tbl_delete P t = t"
  by (simp add: tbl_filter_def tbl_delete_def filter_empty_conv filter_id_conv)

lemma batch_loop_exact:
  assumes "distinct (map key (tbl_rows t))" "0 < b"
  shows "batch_loop key expired b n t = Some (n + int (length (tbl_filter expired t)), tbl_delete expired t)"
  using assms
proof (induction "length (tbl_rows t)" arbitrary: t n rule: less_induct)
  case less
  let ?ys = "take b (tbl_filter expired t)"
  let ?t = "tbl_delete (\<lambda>r. key r \<in> set (map key ?ys)) t"
  have d: "distinct (tbl_rows t)" using less.prems(1) by (simp add: distinct_map)
  have ys: "set ?ys \<subseteq> set (tbl_rows t)" "distinct ?ys" using d by (auto simp: tbl_filter_def dest: in_set_takeD)
  note del = batch_delete_rows [OF less.prems(1) ys]
  have rows: "tbl_rows ?t = filter (\<lambda>r. r \<notin> set ?ys) (tbl_rows t)" using del(1) by (simp add: tbl_delete_def)
  have len: "length (tbl_rows t) - length (tbl_rows ?t) = length ?ys" using del by (simp add: tbl_delete_def)
  have split: "filter expired (tbl_rows t) = ?ys @ drop b (tbl_filter expired t)" by (simp add: tbl_filter_def)
  have rest: "tbl_filter expired ?t = drop b (tbl_filter expired t)"
  proof -
    have "distinct (filter expired (tbl_rows t))" using d by simp
    then have dj: "set ?ys \<inter> set (drop b (tbl_filter expired t)) = {}" unfolding tbl_filter_def by (rule set_take_disj_set_drop_if_distinct) simp
    have "tbl_filter expired ?t = filter expired (tbl_rows ?t)" by (rule tbl_filter_def)
    also have "\<dots> = filter (\<lambda>r. r \<notin> set ?ys) (filter expired (tbl_rows t))"
      unfolding rows by (simp add: conj_commute)
    also have "\<dots> = filter (\<lambda>r. r \<notin> set ?ys) (?ys @ drop b (tbl_filter expired t))" by (simp only: split)
    also have "\<dots> = drop b (tbl_filter expired t)" by (rule filter_not_first [OF dj])
    finally show ?thesis .
  qed
  have both: "tbl_delete expired ?t = tbl_delete expired t"
  proof -
    have e: "expired r" if "r \<in> set ?ys" for r using that by (auto simp: tbl_filter_def dest: in_set_takeD)
    have "tbl_delete expired ?t = ?t\<lparr>tbl_rows := filter (\<lambda>r. \<not> expired r) (tbl_rows ?t)\<rparr>" by (rule tbl_delete_def)
    also have "filter (\<lambda>r. \<not> expired r) (tbl_rows ?t) = filter (\<lambda>r. r \<notin> set ?ys \<and> \<not> expired r) (tbl_rows t)"
      unfolding rows by simp
    also have "\<dots> = filter (\<lambda>r. \<not> expired r) (tbl_rows t)" using e by (intro filter_cong) auto
    finally show ?thesis by (simp add: tbl_delete_def)
  qed
  show ?case
  proof (cases "?ys = []")
    case True
    then have "tbl_filter expired t = []" using less.prems(2) by simp
    then have "tbl_delete expired t = t" by (rule nothing_to_delete)
    with True \<open>tbl_filter expired t = []\<close> show ?thesis by (subst batch_loop.simps) simp
  next
    case False
    then have "length (tbl_rows ?t) < length (tbl_rows t)" using batch_removes [of key b expired t] by simp
    moreover have "distinct (map key (tbl_rows ?t))" using less.prems(1) by (simp add: tbl_delete_def distinct_map_filter)
    ultimately have IH: "batch_loop key expired b m ?t = Some (m + int (length (tbl_filter expired ?t)), tbl_delete expired ?t)" for m
      using less by simp
    have n: "int (length (tbl_filter expired t)) = int (length ?ys) + int (length (tbl_filter expired ?t))"
      unfolding rest by simp
    have step: "batch_loop key expired b n t = (if length ?ys < b then Some (n + int (length ?ys), ?t)
        else batch_loop key expired b (n + int (length ?ys)) ?t)"
      using False by (intro batch_loop_step [OF _ refl len [symmetric]]) simp
    show ?thesis
    proof (cases "length ?ys < b")
      case True
      then have "tbl_filter expired ?t = []" using rest by simp
      then have "tbl_delete expired ?t = ?t" "length (tbl_filter expired t) = length ?ys"
        using n by (auto intro: nothing_to_delete)
      with True step both show ?thesis by (simp only: if_True)
    next
      case False
      with step IH [of "n + int (length ?ys)"] both n show ?thesis by (simp only: if_False add.assoc)
    qed
  qed
qed

text \<open>The state as the retention is to leave it.\<close>

definition retained :: "int \<Rightarrow> slow_state \<Rightarrow> slow_state" where
  "retained n s =
     s\<lparr>sl_mysql := tbl_delete (\<lambda>d. dt_created d < sl_now s - days n) (sl_mysql s),
        sl_pgsql := tbl_delete (\<lambda>d. dt_created d < sl_now s - days n) (sl_pgsql s),
        sl_mongo := tbl_delete (\<lambda>d. dt_created d < sl_now s - days n) (sl_mongo s),
        sl_redis := tbl_delete (\<lambda>d. dt_created d < sl_now s - days n) (sl_redis s),
        sl_mysql_sum := tbl_delete (\<lambda>r. older_than (sl_now s - days n) (su_last r)) (sl_mysql_sum s),
        sl_pgsql_sum := tbl_delete (\<lambda>r. older_than (sl_now s - days n) (su_last r)) (sl_pgsql_sum s),
        sl_mongo_sum := tbl_delete (\<lambda>r. older_than (sl_now s - days n) (su_last r)) (sl_mongo_sum s),
        sl_redis_sum := tbl_delete (\<lambda>r. older_than (sl_now s - days n) (su_last r)) (sl_redis_sum s),
        sl_cursors := tbl_delete (orphan_cursor (sl_world s)) (sl_cursors s),
        sl_usage := tbl_delete (\<lambda>u. ul_created u < sl_now s - days (ai_usage_retention (sl_world s))) (sl_usage s)\<rparr>"

definition slow_keys_ok :: "slow_state \<Rightarrow> bool" where
  "slow_keys_ok s = (distinct (map dt_id (tbl_rows (sl_mysql s))) \<and> distinct (map dt_id (tbl_rows (sl_pgsql s)))
     \<and> distinct (map dt_id (tbl_rows (sl_mongo s))) \<and> distinct (map dt_id (tbl_rows (sl_redis s)))
     \<and> distinct (map su_id (tbl_rows (sl_mysql_sum s))) \<and> distinct (map su_id (tbl_rows (sl_pgsql_sum s)))
     \<and> distinct (map su_id (tbl_rows (sl_mongo_sum s))) \<and> distinct (map su_id (tbl_rows (sl_redis_sum s)))
     \<and> distinct (map ul_id (tbl_rows (sl_usage s))))"

lemma clean_table_exact:
  assumes "get_cleanup_batch_size (sl_world s) = Inr b" "0 < b"
    and "get_cleanup_batch_sleep py_float (sl_world s) = Inr x" "0 \<le> x" "distinct (map key (tbl_rows (get s)))"
  shows "clean_table py_float n key time_of get put label (results, s)
    = Some (results @ [(label, int (length (tbl_filter (\<lambda>r. older_than (sl_now s - days n) (time_of r)) (get s))))],
        put (tbl_delete (\<lambda>r. older_than (sl_now s - days n) (time_of r)) (get s)) s)"
  using assms batch_loop_exact [OF assms(5), of "nat b" _ 0]
  by (simp add: clean_table_def batch_delete_def Let_def cleaned_def)

lemma older_than_Some [simp]: "older_than c (Some t) = (t < c)"
  by (simp add: older_than_def)

text \<open>
  C25. With a sensible configuration the retention removes exactly what is too old: details by the time they were
  stored, statistics by the last time they were seen, cursors of instances that are gone, and the account of the
  AI services by its own period; nothing else changes.
\<close>

theorem retention_exact:
  assumes "get_cleanup_batch_size (sl_world s) = Inr b" "0 < b"
    and "get_cleanup_batch_sleep py_float (sl_world s) = Inr x" "0 \<le> x" "slow_keys_ok s"
  shows "\<exists>results. cleanup_slowquery_data_task py_float (Some n) s = Some (Inr results, retained n s)"
proof -
  note keys = assms(5) [unfolded slow_keys_ok_def]
  note clean = clean_table_exact [where b = b and x = x and py_float = py_float and n = n]
  have "\<exists>results s1. clean_tables py_float n ([], s) = Some (results, s1)
      \<and> clean_cursors (results, s1) = (snd (fst (clean_cursors (results, s1)), fst (clean_cursors (results, s1))), snd (clean_cursors (results, s1)))
      \<and> map_option snd (cleanup_ai_usage_log_task (snd (clean_cursors (results, s1)))) = Some (retained n s)"
    using keys assms(1-4)
    by (simp add: clean_tables_def obind_def clean clean_cursors_def cleanup_ai_usage_log_task_def batch_loop_exact retained_def)
  then show ?thesis
    by (auto simp: cleanup_slowquery_data_task_def obind_def clean_usage_def split: prod.splits option.splits)
qed

theorem retention_exact_witness:
  "let s = empty_slow\<lparr>sl_now := days 40, sl_mysql := demo_details\<rparr>
   in \<exists>results. cleanup_slowquery_data_task (\<lambda>_. Inr 1) (Some 30) s = Some (Inr results, retained 30 s)"
  unfolding Let_def
  by (rule retention_exact [where b = 5000 and x = 1]) (code_simp | simp add: get_cleanup_batch_sleep_def)+

end
