(* ===== verification/SlowCollectProps.thy ===== *)
theory SlowCollectProps
  imports SlowQueryProps "HOL-Library.Multiset"
begin

text \<open>
  The collection of slow queries: when the collection from a MySQL server ends and what it stores, and the rounds
  of the collection from a Redis server.
\<close>

section \<open>The answers of a MySQL server\<close>

definition log_matches :: "usec \<Rightarrow> usec \<Rightarrow> slow_log_row \<Rightarrow> bool" where
  "log_matches c e r = (c < lr_start r \<and> lr_start r \<le> e)"

text \<open>
  What the statement on \<open>mysql.slow_log\<close> promises: the first rows by their time of those in the range, at most as
  many as asked for.
\<close>

locale slow_log =
  fixes answer :: "usec \<Rightarrow> usec \<Rightarrow> nat \<Rightarrow> slow_log_row list"
    and lg :: "slow_log_row list"
  assumes answer_first: "\<exists>rest. mset (answer c e n) + mset rest = mset (filter (log_matches c e) lg)
      \<and> (\<forall>a \<in> set (answer c e n). \<forall>b \<in> set rest. lr_start a \<le> lr_start b)"
    and answer_size: "length (answer c e n) = min n (length (filter (log_matches c e) lg))"
begin

lemma answer_in: "r \<in> set (answer c e n) \<Longrightarrow> r \<in> set lg \<and> log_matches c e r"
proof -
  obtain rest where "mset (answer c e n) + mset rest = mset (filter (log_matches c e) lg)" using answer_first by blast
  then have "set (answer c e n) \<union> set rest = set (filter (log_matches c e) lg)"
    by (metis set_mset_mset set_mset_union)
  then show "r \<in> set (answer c e n) \<Longrightarrow> r \<in> set lg \<and> log_matches c e r" by auto
qed

lemma answer_rest:
  assumes "r \<in> set lg" "log_matches c e r" "r \<notin> set (answer c e n)" "a \<in> set (answer c e n)"
  shows "lr_start a \<le> lr_start r"
proof -
  obtain rest where m: "mset (answer c e n) + mset rest = mset (filter (log_matches c e) lg)"
    and le: "\<forall>a \<in> set (answer c e n). \<forall>b \<in> set rest. lr_start a \<le> lr_start b" using answer_first by blast
  from m have "set (answer c e n) \<union> set rest = set (filter (log_matches c e) lg)"
    by (metis set_mset_mset set_mset_union)
  with assms have "r \<in> set rest" by auto
  with le assms(4) show ?thesis by blast
qed

lemma answer_short: "length (answer c e n) < n \<Longrightarrow> set (answer c e n) = {r \<in> set lg. log_matches c e r}"
proof -
  assume "length (answer c e n) < n"
  then have l: "length (answer c e n) = length (filter (log_matches c e) lg)" using answer_size [of c e n] by simp
  obtain rest where m: "mset (answer c e n) + mset rest = mset (filter (log_matches c e) lg)" using answer_first by blast
  then have "length (answer c e n) + length rest = length (filter (log_matches c e) lg)"
    by (metis size_mset size_union)
  with l m have "mset (answer c e n) = mset (filter (log_matches c e) lg)" by simp
  then show ?thesis by (metis mset_eq_setD set_filter)
qed

text \<open>Counting the rows below a bound in the answer and in the log.\<close>

lemma count_answer:
  "length (filter P (answer c e n)) \<le> length (filter (\<lambda>r. log_matches c e r \<and> P r) lg)"
proof -
  obtain rest where m: "mset (answer c e n) + mset rest = mset (filter (log_matches c e) lg)" using answer_first by blast
  have "size (filter_mset P (mset (answer c e n))) \<le> size (filter_mset P (mset (filter (log_matches c e) lg)))"
    unfolding m [symmetric] by simp
  then show ?thesis by (simp flip: mset_filter add: conj_commute)
qed

lemma answer_below:
  assumes "n \<le> length (filter (\<lambda>r. log_matches c e r \<and> lr_start r < u) lg)" "a \<in> set (answer c e n)"
  shows "lr_start a < u"
proof (rule ccontr)
  assume a: "\<not> lr_start a < u"
  obtain rest where m: "mset (answer c e n) + mset rest = mset (filter (log_matches c e) lg)"
    and le: "\<forall>a \<in> set (answer c e n). \<forall>b \<in> set rest. lr_start a \<le> lr_start b" using answer_first by blast
  have "filter (\<lambda>r. lr_start r < u) rest = []" using le a assms(2) by (force simp: filter_empty_conv)
  then have "filter_mset (\<lambda>r. lr_start r < u) (mset (answer c e n)) = filter_mset (\<lambda>r. lr_start r < u) (mset (filter (log_matches c e) lg))"
    unfolding m [symmetric] by (simp flip: mset_filter)
  then have "length (filter (\<lambda>r. lr_start r < u) (answer c e n)) = length (filter (\<lambda>r. log_matches c e r \<and> lr_start r < u) lg)"
    by (auto dest: arg_cong [of _ _ size] simp flip: mset_filter)
  moreover have "length (filter (\<lambda>r. lr_start r < u) (answer c e n)) < length (answer c e n)"
    using a assms(2) by (intro length_filter_less) auto
  moreover have "length (answer c e n) \<le> n" using answer_size [of c e n] by simp
  ultimately show False using assms(1) by linarith
qed

lemma answer_beyond:
  assumes "length (filter (\<lambda>r. log_matches c e r \<and> lr_start r < u) lg) < n" "length (answer c e n) = n"
  obtains a where "a \<in> set (answer c e n)" "u \<le> lr_start a"
proof -
  have "length (filter (\<lambda>r. lr_start r < u) (answer c e n)) < length (answer c e n)"
    using count_answer [of "\<lambda>r. lr_start r < u" c e n] assms by linarith
  then have "\<exists>a \<in> set (answer c e n). \<not> lr_start a < u"
    by (metis filter_True less_irrefl)
  then show ?thesis using that by fastforce
qed

end

text \<open>The server whose log is a list.\<close>

definition serve :: "slow_log_row list \<Rightarrow> usec \<Rightarrow> usec \<Rightarrow> nat \<Rightarrow> slow_log_row list" where
  "serve lg c e n = take n (sort_key lr_start (filter (log_matches c e) lg))"

lemma sorted_take_drop:
  assumes "sorted (map f xs)" "a \<in> set (take n xs)" "b \<in> set (drop n xs)"
  shows "f a \<le> f b"
proof -
  have "sorted (map f (take n xs) @ map f (drop n xs))" using assms(1) by (metis append_take_drop_id map_append)
  with assms(2,3) show ?thesis by (auto simp: sorted_append)
qed

interpretation served: slow_log "serve lg" lg for lg
proof
  fix c e n
  let ?xs = "sort_key lr_start (filter (log_matches c e) lg)"
  have "mset (take n ?xs) + mset (drop n ?xs) = mset (filter (log_matches c e) lg)"
    by (metis append_take_drop_id mset_append mset_sort)
  moreover have "\<forall>a \<in> set (take n ?xs). \<forall>b \<in> set (drop n ?xs). lr_start a \<le> lr_start b"
    by (intro ballI sorted_take_drop [of lr_start ?xs _ n]) simp_all
  ultimately show "\<exists>rest. mset (serve lg c e n) + mset rest = mset (filter (log_matches c e) lg)
      \<and> (\<forall>a \<in> set (serve lg c e n). \<forall>b \<in> set rest. lr_start a \<le> lr_start b)"
    unfolding serve_def by blast
  show "length (serve lg c e n) = min n (length (filter (log_matches c e) lg))"
    by (simp add: serve_def min.commute)
qed

section \<open>When the collection ends\<close>

definition second_of :: "slow_log_row list \<Rightarrow> usec \<Rightarrow> usec \<Rightarrow> slow_log_row list" where
  "second_of lg e c = filter (\<lambda>r. log_matches c e r \<and> lr_start r < c + 1000000) lg"

definition collected :: "cursor_mgr \<Rightarrow> slow_log_row list \<Rightarrow> cursor_mgr" where
  "collected m rows = fold (\<lambda>r. update_max_cursor (Some (lr_start r))) rows m"

definition max_over :: "cursor_mgr \<Rightarrow> usec list \<Rightarrow> cursor_mgr" where
  "max_over m ts = fold (\<lambda>t. update_max_cursor (Some t)) ts m"

lemma collected_eq: "collected m rows = max_over m (map lr_start rows)"
  by (simp add: collected_def max_over_def fold_map o_def)

lemma max_over_max:
  "ts \<noteq> [] \<Longrightarrow> cm_max (max_over m ts) = Some (Max (set ts \<union> (case cm_max m of None \<Rightarrow> {} | Some t \<Rightarrow> {t})))"
proof (induction ts arbitrary: m)
  case (Cons t ts)
  let ?m = "update_max_cursor (Some t) m"
  have m: "cm_max ?m = Some (case cm_max m of None \<Rightarrow> t | Some y \<Rightarrow> max t y)"
    by (auto simp: update_max_cursor_def max_def split: option.splits)
  show ?case
  proof (cases "ts = []")
    case True
    with m show ?thesis by (auto simp: max_over_def split: option.splits)
  next
    case False
    have "cm_max (max_over m (t # ts)) = cm_max (max_over ?m ts)" by (simp add: max_over_def)
    also have "\<dots> = Some (Max (set ts \<union> {case cm_max m of None \<Rightarrow> t | Some y \<Rightarrow> max t y}))"
      using Cons.IH [OF False, of ?m] m by simp
    finally show ?thesis using False by (auto simp: max.assoc max.commute max.left_commute split: option.splits)
  qed
qed simp

lemma max_over_new: "ts \<noteq> [] \<Longrightarrow> cm_new (max_over m ts)"
proof (induction ts arbitrary: m)
  case (Cons t ts)
  then show ?case by (cases "ts = []") (simp_all add: max_over_def update_max_cursor_def)
qed simp

lemma collected_max:
  "rows \<noteq> [] \<Longrightarrow> cm_max (collected m rows)
    = Some (Max (set (map lr_start rows) \<union> (case cm_max m of None \<Rightarrow> {} | Some t \<Rightarrow> {t})))"
  unfolding collected_eq by (rule max_over_max) simp

lemma collected_new: "rows \<noteq> [] \<Longrightarrow> cm_new (collected m rows)"
  unfolding collected_eq by (rule max_over_new) simp

lemma to_second_mult: "to_second t = 1000000 * (t div 1000000)"
  by (simp add: to_second_def minus_mod_eq_mult_div)

lemma to_second_props: "to_second t \<le> t" "t < to_second t + 1000000" "to_second t mod 1000000 = 0"
  using pos_mod_bound [of 1000000 t] pos_mod_sign [of 1000000 t] by (auto simp: to_second_def)

lemma to_second_mono: "c mod 1000000 = 0 \<Longrightarrow> c + 1000000 \<le> t \<Longrightarrow> c + 1000000 \<le> to_second t"
proof -
  assume c: "c mod 1000000 = 0" and t: "c + 1000000 \<le> t"
  have "1000000 * (c div 1000000) = c" using c by (metis mult_div_mod_eq add.right_neutral)
  moreover have "(c + 1000000) div 1000000 \<le> t div 1000000" using t by (rule zdiv_mono1) simp
  ultimately show ?thesis unfolding to_second_mult by simp
qed

lemma to_second_below: "c mod 1000000 = 0 \<Longrightarrow> t < c + 1000000 \<Longrightarrow> to_second t \<le> c"
proof -
  assume c: "c mod 1000000 = 0" and t: "t < c + 1000000"
  have c': "1000000 * (c div 1000000) = c" using c by (metis mult_div_mod_eq add.right_neutral)
  have "t div 1000000 < c div 1000000 + 1"
  proof (rule ccontr)
    assume "\<not> ?thesis"
    then have "1000000 * (c div 1000000 + 1) \<le> 1000000 * (t div 1000000)" by simp
    also have "\<dots> \<le> t" using to_second_props(1) [of t] by (simp add: to_second_mult)
    finally show False using t c' by simp
  qed
  then have "1000000 * (t div 1000000) \<le> 1000000 * (c div 1000000)" by simp
  then show ?thesis using c' by (simp add: to_second_mult)
qed

text \<open>One round of the loop.\<close>

lemma loop_round:
  assumes "mv_slow_log server cur e slow_log_batch = rows" "rows \<noteq> []"
    and "insert_detail_rows (map row rows) n s = (n', s')"
  shows "mysql_loop row server e cur m n s
    = (if length rows < slow_log_batch then Some (collected m rows, n', s')
       else mysql_loop row server e (to_second (max_cursor (collected m rows))) (collected m rows) n' s')"
  using assms by (subst mysql_loop.simps) (simp add: Let_def collected_def)

text \<open>A rule for loops that ended: no row, a batch that is not full, or another round.\<close>

lemma loop_induct [consumes 1, case_names none short more]:
  assumes "mysql_loop row server e cur m n s = Some y"
    and none: "\<And>cur m n s. mv_slow_log server cur e slow_log_batch = [] \<Longrightarrow> P cur m n s (m, n, s)"
    and short: "\<And>cur m n s rows n' s'. mv_slow_log server cur e slow_log_batch = rows \<Longrightarrow> rows \<noteq> []
      \<Longrightarrow> length rows < slow_log_batch \<Longrightarrow> insert_detail_rows (map row rows) n s = (n', s') \<Longrightarrow> P cur m n s (collected m rows, n', s')"
    and more: "\<And>cur m n s rows n' s' y. mv_slow_log server cur e slow_log_batch = rows \<Longrightarrow> rows \<noteq> []
      \<Longrightarrow> \<not> length rows < slow_log_batch \<Longrightarrow> insert_detail_rows (map row rows) n s = (n', s')
      \<Longrightarrow> P (to_second (max_cursor (collected m rows))) (collected m rows) n' s' y \<Longrightarrow> P cur m n s y"
  shows "P cur m n s y"
proof -
  have "row = row \<longrightarrow> server = server \<longrightarrow> e = e \<longrightarrow> P cur m n s y"
  proof (rule mysql_loop.raw_induct [of "\<lambda>row' server' e' cur m n s y. row' = row \<longrightarrow> server' = server \<longrightarrow> e' = e \<longrightarrow> P cur m n s y", OF _ assms(1)],
      intro impI)
    fix loop row' server' e' cur m n s z
    assume IH: "\<And>row' server' e' cur m n s y. loop row' server' e' cur m n s = Some y \<Longrightarrow> row' = row \<longrightarrow> server' = server \<longrightarrow> e' = e \<longrightarrow> P cur m n s y"
      and eqs: "row' = row" "server' = server" "e' = e"
      and body: "(let rows = mv_slow_log server' cur e' slow_log_batch in
        if rows = [] then Some (m, n, s)
        else let m' = fold (\<lambda>r. update_max_cursor (Some (lr_start r))) rows m in
          case insert_detail_rows (map row' rows) n s of (n', s') \<Rightarrow>
            if length rows < slow_log_batch then Some (m', n', s')
            else loop row' server' e' (to_second (max_cursor m')) m' n' s') = Some z"
    let ?rows = "mv_slow_log server cur e slow_log_batch"
    obtain n' s' where ins: "insert_detail_rows (map row ?rows) n s = (n', s')" by fastforce
    consider "?rows = []" | "?rows \<noteq> []" "length ?rows < slow_log_batch" | "?rows \<noteq> []" "\<not> length ?rows < slow_log_batch" by blast
    then show "P cur m n s z"
    proof cases
      case 1
      with body eqs have "z = (m, n, s)" by simp
      with none [OF 1] show ?thesis by simp
    next
      case 2
      with body eqs ins have "z = (collected m ?rows, n', s')" by (simp add: Let_def collected_def)
      with short [OF refl 2 ins] show ?thesis by simp
    next
      case 3
      with body eqs ins have "loop row server e (to_second (max_cursor (collected m ?rows))) (collected m ?rows) n' s' = Some z"
        by (simp add: Let_def collected_def)
      with IH have "P (to_second (max_cursor (collected m ?rows))) (collected m ?rows) n' s' z" by blast
      then show ?thesis by (rule more [OF refl 3 ins])
    qed
  qed
  then show ?thesis by simp
qed

context slow_log
begin

lemma second_count: "cur \<le> c \<Longrightarrow> length (second_of lg e c) \<le> length (filter (\<lambda>r. log_matches cur e r \<and> lr_start r < c + 1000000) lg)"
proof -
  assume "cur \<le> c"
  then have "filter (\<lambda>r. log_matches c e r \<and> lr_start r < c + 1000000) lg
      = filter (log_matches c e) (filter (\<lambda>r. log_matches cur e r \<and> lr_start r < c + 1000000) lg)"
    unfolding filter_filter by (intro filter_cong) (auto simp: log_matches_def)
  then show ?thesis by (simp add: second_of_def del: filter_filter)
qed

lemma crowded_batch:
  assumes "slow_log_batch \<le> length (second_of lg e c)" "cur \<le> c"
  shows "length (answer cur e slow_log_batch) = slow_log_batch"
    and "a \<in> set (answer cur e slow_log_batch) \<Longrightarrow> lr_start a < c + 1000000"
    and "answer cur e slow_log_batch \<noteq> []"
proof -
  have many: "slow_log_batch \<le> length (filter (\<lambda>r. log_matches cur e r \<and> lr_start r < c + 1000000) lg)"
    using second_count [OF assms(2), of e] assms(1) by linarith
  also have "\<dots> \<le> length (filter (log_matches cur e) lg)"
    using length_filter_le [of "\<lambda>r. lr_start r < c + 1000000" "filter (log_matches cur e) lg"] by simp
  finally show len: "length (answer cur e slow_log_batch) = slow_log_batch" using answer_size [of cur e slow_log_batch] by simp
  then show "answer cur e slow_log_batch \<noteq> []" by (auto simp: slow_log_batch_def)
  show "a \<in> set (answer cur e slow_log_batch) \<Longrightarrow> lr_start a < c + 1000000"
    by (rule answer_below [OF many])
qed

text \<open>A second with a whole batch of rows is never left.\<close>

lemma crowded_second:
  assumes "mysql_loop row server e cur m n s = Some y" "mv_slow_log server = answer"
    and "c mod 1000000 = 0" "slow_log_batch \<le> length (second_of lg e c)"
    and "cur \<le> c" "\<forall>t. cm_max m = Some t \<longrightarrow> t < c + 1000000"
  shows False
  using assms(1,5,6)
proof (induction rule: loop_induct)
  case (none cur m n s)
  then show ?case using crowded_batch [OF assms(4) none(2)] assms(2) by auto
next
  case (short cur m n s rows n' s')
  then show ?case using crowded_batch [OF assms(4) short(5)] assms(2) by auto
next
  case (more cur m n s rows n' s' y)
  have rows: "answer cur e slow_log_batch = rows" using more.hyps(1) assms(2) by simp
  note below = crowded_batch(2) [OF assms(4) more.prems(1), unfolded rows]
  have mx: "\<forall>t. cm_max (collected m rows) = Some t \<longrightarrow> t < c + 1000000"
    using below more.prems(2) more.hyps(2) by (auto simp: collected_max split: option.splits)
  moreover have "cm_max (collected m rows) \<noteq> None" using more.hyps(2) by (simp add: collected_max)
  ultimately have "to_second (max_cursor (collected m rows)) \<le> c"
    by (auto simp: max_cursor_def intro: to_second_below [OF assms(3)])
  with more.IH mx show ?case by blast
qed

text \<open>Where every second has fewer rows than a batch, each full batch moves the cursor on by a second at least.\<close>

lemma sparse_seconds:
  assumes "mv_slow_log server = answer" "cur mod 1000000 = 0"
    and "\<And>c. c mod 1000000 = 0 \<Longrightarrow> cur \<le> c \<Longrightarrow> length (second_of lg e c) < slow_log_batch"
  shows "\<exists>y. mysql_loop row server e cur m n s = Some y"
  using assms
proof (induction "nat (e - cur)" arbitrary: cur m n s rule: less_induct)
  case less
  let ?rows = "answer cur e slow_log_batch"
  let ?m = "collected m ?rows"
  obtain n' s' where ins: "insert_detail_rows (map row ?rows) n s = (n', s')" by fastforce
  show ?case
  proof (cases "?rows = []")
    case True
    with less.prems(1) show ?thesis by (subst mysql_loop.simps) simp
  next
    case ne: False
    have "mv_slow_log server cur e slow_log_batch = ?rows" using less.prems(1) by simp
    note step = loop_round [OF this ne ins, of m]
    show ?thesis
    proof (cases "length ?rows < slow_log_batch")
      case True
      with step show ?thesis by simp
    next
      case False
      then have len: "length ?rows = slow_log_batch" using answer_size [of cur e slow_log_batch] by simp
      have "length (filter (\<lambda>r. log_matches cur e r \<and> lr_start r < cur + 1000000) lg) < slow_log_batch"
        using less.prems(3) [OF less.prems(2) order.refl] by (simp add: second_of_def)
      from answer_beyond [OF this len] obtain a where a: "a \<in> set ?rows" "cur + 1000000 \<le> lr_start a" by blast
      have "lr_start a \<le> max_cursor ?m" using a(1) ne by (auto simp: max_cursor_def collected_max split: option.splits intro!: Max_ge)
      then have on: "cur + 1000000 \<le> to_second (max_cursor ?m)"
        using a(2) by (intro to_second_mono [OF less.prems(2)]) simp
      moreover have "lr_start a \<le> e" using answer_in [OF a(1)] by (simp add: log_matches_def)
      ultimately have "nat (e - to_second (max_cursor ?m)) < nat (e - cur)" using a(2) by simp
      from less.hyps [OF this less.prems(1) to_second_props(3)] less.prems(3) on
      have "\<exists>y. mysql_loop row server e (to_second (max_cursor ?m)) ?m n' s' = Some y" by fastforce
      with step False show ?thesis by simp
    qed
  qed
qed

end

definition mysql_logs_to_table :: "mysql_server \<Rightarrow> bool" where
  "mysql_logs_to_table server = (mv_variable server ''slow_query_log'' = Some ''ON'' \<and> mv_variable server ''log_output'' = Some ''TABLE'')"

lemma collection_ends_iff:
  assumes "mysql_logs_to_table server" "mv_slow_log server = serve lg" "get_cursor (i_id i) (i_db_type i) s = Inr t"
  shows "mysql_collect_detail md5 server i e s = None
    \<longleftrightarrow> (\<exists>c. c mod 1000000 = 0 \<and> to_second t \<le> c \<and> 1000 \<le> length (second_of lg (to_second e) c))"
proof -
  let ?m = "\<lparr>cm_cursor = t, cm_max = None, cm_new = False\<rparr>"
  let ?loop = "mysql_loop (mysql_detail_of md5 (i_id i) (sl_now s)) server (to_second e) (to_second t) ?m 0 (mysql_store s)"
  have none: "mysql_collect_detail md5 server i e s = None \<longleftrightarrow> ?loop = None"
    using assms by (simp add: mysql_collect_detail_def mysql_logs_to_table_def create_cursor_manager_def bindE_def)
  show ?thesis
  proof
    assume "mysql_collect_detail md5 server i e s = None"
    then have "\<nexists>y. ?loop = Some y" using none by simp
    then have "\<not> (\<forall>c. c mod 1000000 = 0 \<longrightarrow> to_second t \<le> c \<longrightarrow> length (second_of lg (to_second e) c) < slow_log_batch)"
      using served.sparse_seconds [OF assms(2) to_second_props(3)] by metis
    then show "\<exists>c. c mod 1000000 = 0 \<and> to_second t \<le> c \<and> 1000 \<le> length (second_of lg (to_second e) c)"
      by (auto simp: slow_log_batch_def not_less)
  next
    assume "\<exists>c. c mod 1000000 = 0 \<and> to_second t \<le> c \<and> 1000 \<le> length (second_of lg (to_second e) c)"
    then show "mysql_collect_detail md5 server i e s = None"
    proof (elim exE conjE)
      fix c
      assume c: "c mod 1000000 = 0" "to_second t \<le> c" "1000 \<le> length (second_of lg (to_second e) c)"
      have "?loop \<noteq> Some y" for y
        using served.crowded_second [OF _ assms(2) c(1) _ c(2)] c(3) by (fastforce simp: slow_log_batch_def)
      then show ?thesis using none by (cases ?loop) auto
    qed
  qed
qed

text \<open>
  C27. The collection from a MySQL server ends exactly when no second after the cursor holds a whole batch of rows: the
  position of the next batch is cut to the second, so a second with a thousand slow queries is read for ever.
\<close>

theorem mysql_collection_ends_iff:
  assumes "mysql_logs_to_table server" "mv_slow_log server = serve lg" "get_cursor (i_id i) (i_db_type i) s = Inr t"
  shows "mysql_collect_detail md5 server i e s = None
    \<longleftrightarrow> (\<exists>c. c mod 1000000 = 0 \<and> to_second t \<le> c \<and> 1000 \<le> length (second_of lg (to_second e) c))"
  by (rule collection_ends_iff [OF assms])

definition demo_mysql_server :: "slow_log_row list \<Rightarrow> mysql_server" where
  "demo_mysql_server lg = \<lparr>mv_variable = (\<lambda>v. if v = ''log_output'' then Some ''TABLE'' else Some ''ON''), mv_slow_log = serve lg, mv_digests = (\<lambda>_. [])\<rparr>"

lemma demo_mysql_server: "mysql_logs_to_table (demo_mysql_server lg)" "mv_slow_log (demo_mysql_server lg) = serve lg"
  by (simp_all add: demo_mysql_server_def mysql_logs_to_table_def)

lemma empty_slow_cursor: "get_cursor k ty (empty_slow\<lparr>sl_now := n\<rparr>) = Inr (n - days 7)"
  by (simp add: get_cursor_def empty_slow_def empty_table_def tbl_get_def is_DoesNotExist.simps)

theorem mysql_collection_ends_iff_witness:
  "mysql_collect_detail id (demo_mysql_server (replicate 1000 (demo_row 1500000 1))) new_Instance (seconds 60) (empty_slow\<lparr>sl_now := seconds 60\<rparr>) = None"
proof -
  have "length (second_of (replicate 1000 (demo_row 1500000 1)) (to_second (seconds 60)) 1000000) = 1000"
    by (simp add: second_of_def filter_replicate log_matches_def demo_row_def to_second_def seconds_def)
  moreover have "to_second (seconds 60 - days 7) \<le> 1000000" by code_simp
  ultimately show ?thesis
    unfolding mysql_collection_ends_iff [OF demo_mysql_server empty_slow_cursor] by (intro exI [of _ 1000000]) simp
qed

section \<open>What the collection stores\<close>

definition added :: "'d detail_scheme list \<Rightarrow> 'd detail_scheme store \<Rightarrow> 'd detail_scheme store \<Rightarrow> bool" where
  "added ds s s' = (\<exists>new. tbl_rows (st_table s') = tbl_rows (st_table s) @ new \<and> map (set_dt_id 0) new = map (set_dt_id 0) ds
     \<and> st_faults s' = [])"

lemma added_trans: "added ds s s' \<Longrightarrow> added es s' s'' \<Longrightarrow> added (ds @ es) s s''"
  by (auto simp: added_def)

lemma set_dt_id_twice [simp]: "set_dt_id a (set_dt_id b d) = set_dt_id a d"
  by (simp add: set_dt_id_def)

lemma fold_create:
  "\<exists>new. tbl_rows (fold (tbl_create set_dt_id) ds t) = tbl_rows t @ new \<and> map (set_dt_id 0) new = map (set_dt_id 0) ds"
proof (induction ds arbitrary: t)
  case (Cons d ds)
  obtain new where "tbl_rows (fold (tbl_create set_dt_id) ds (tbl_create set_dt_id d t)) = tbl_rows (tbl_create set_dt_id d t) @ new"
    "map (set_dt_id 0) new = map (set_dt_id 0) ds" using Cons.IH by blast
  then show ?case by (intro exI [of _ "set_dt_id (tbl_next t) d # new"]) (simp add: rows_tbl_create)
qed simp

lemma bulk_create_added:
  assumes "st_faults s = []"
  shows "fst (write_stmt (bulk_create ds) s) = Inr () \<and> added ds s (snd (write_stmt (bulk_create ds) s))"
  using assms fold_create [of ds "st_table s"] by (auto simp: write_stmt_def bulk_create_def added_def)

lemma insert_detail_rows_added:
  "st_faults s = [] \<Longrightarrow> insert_detail_rows ds n s = (n', s') \<Longrightarrow> n' = n + length ds \<and> added ds s s'"
proof (induction "length ds" arbitrary: ds n s rule: less_induct)
  case less
  show ?case
  proof (cases "ds = []")
    case True
    with less.prems show ?thesis by (simp add: insert_detail_rows.simps [of "[]"] added_def)
  next
    case False
    let ?c = "take insert_chunk_size ds" and ?r = "drop insert_chunk_size ds"
    obtain s1 where w: "write_stmt (bulk_create ?c) s = (Inr (), s1)" and a: "added ?c s s1"
      using bulk_create_added [OF less.prems(1), of ?c] by (metis prod.collapse)
    have rec: "insert_detail_rows ?r (n + length ?c) s1 = (n', s')"
      using less.prems(2) False w by (simp add: insert_detail_rows.simps [of ds] Let_def)
    have "length ?r < length ds" using False by (cases ds) (auto simp: insert_chunk_size_def)
    from less.hyps [OF this _ rec] a have "n' = n + length ?c + length ?r \<and> added ?r s1 s'" by (auto simp: added_def)
    with added_trans [OF a, of ?r s'] show ?thesis by (simp add: min_def)
  qed
qed

lemma collected_append: "collected m (xs @ ys) = collected (collected m xs) ys"
  by (simp add: collected_def)

context slow_log
begin

lemma loop_stores:
  assumes "mysql_loop row server e cur m n s = Some y" "mv_slow_log server = answer" "st_faults s = []"
    and "\<And>r. r \<in> set lg \<Longrightarrow> lr_start r mod 1000000 \<noteq> 0" "\<forall>t. cm_max m = Some t \<longrightarrow> to_second t = cur"
  shows "\<exists>rs. fst y = collected m rs \<and> added (map row rs) s (snd (snd y)) \<and> set rs \<subseteq> {r \<in> set lg. lr_start r \<le> e}
    \<and> {r \<in> set lg. log_matches cur e r} \<subseteq> set rs \<and> (rs \<noteq> [] \<longrightarrow> (\<exists>r \<in> set lg. log_matches cur e r))"
  using assms(1,3,5)
proof (induction rule: loop_induct)
  case (none cur m n s)
  then have "length (answer cur e slow_log_batch) < slow_log_batch" using assms(2) by (simp add: slow_log_batch_def)
  from answer_short [OF this] none show ?case
    using assms(2) by (intro exI [of _ "[]"]) (auto simp: collected_def added_def)
next
  case (short cur m n s rows n' s')
  have rows: "answer cur e slow_log_batch = rows" using short.hyps(1) assms(2) by simp
  from answer_short [of cur e slow_log_batch] short.hyps(3) have "set rows = {r \<in> set lg. log_matches cur e r}" unfolding rows by simp
  moreover have "added (map row rows) s s'" using insert_detail_rows_added [OF short.prems(1) short.hyps(4)] by simp
  moreover obtain r where "r \<in> set rows" using short.hyps(2) by (cases rows) auto
  ultimately show ?case by (intro exI [of _ rows]) (auto simp: log_matches_def)
next
  case (more cur m n s rows n' s' y)
  have rows: "answer cur e slow_log_batch = rows" using more.hyps(1) assms(2) by simp
  let ?m = "collected m rows"
  have a: "added (map row rows) s s'" using insert_detail_rows_added [OF more.prems(1) more.hyps(4)] by simp
  then have f: "st_faults s' = []" unfolding added_def by blast
  obtain M where M: "cm_max ?m = Some M" using more.hyps(2) by (simp add: collected_max)
  then have inv: "\<forall>t. cm_max ?m = Some t \<longrightarrow> to_second t = to_second (max_cursor ?m)" by (simp add: max_cursor_def)
  obtain rs where rs: "fst y = collected ?m rs" "added (map row rs) s' (snd (snd y))" "set rs \<subseteq> {r \<in> set lg. lr_start r \<le> e}"
    "{r \<in> set lg. log_matches (to_second (max_cursor ?m)) e r} \<subseteq> set rs" using more.IH [OF f inv] by blast
  have "M \<in> set (map lr_start rows) \<union> (case cm_max m of None \<Rightarrow> {} | Some t \<Rightarrow> {t})"
    using M more.hyps(2) collected_max [OF more.hyps(2), of m] Max_in [of "set (map lr_start rows) \<union> (case cm_max m of None \<Rightarrow> {} | Some t \<Rightarrow> {t})"]
    by (auto split: option.splits)
  then have M': "(\<exists>a \<in> set rows. M = lr_start a) \<or> to_second M = cur"
    using more.prems(2) by (auto split: option.splits)
  have "r \<in> set rs" if r: "r \<in> set lg" "log_matches cur e r" "r \<notin> set rows" for r
  proof -
    have "to_second M < lr_start r"
      using M'
    proof (elim disjE bexE)
      fix a
      assume "a \<in> set rows" "M = lr_start a"
      then have "M \<le> lr_start r" using answer_rest [OF r(1,2)] r(3) rows by metis
      moreover have "lr_start r \<noteq> to_second M" using assms(4) [OF r(1)] to_second_props(3) [of M] by metis
      ultimately show ?thesis using to_second_props(1) [of M] by linarith
    next
      assume "to_second M = cur"
      then show ?thesis using r(2) by (simp add: log_matches_def)
    qed
    with r(1,2) rs(4) M show ?thesis by (auto simp: log_matches_def max_cursor_def)
  qed
  moreover have "set rows \<subseteq> {r \<in> set lg. log_matches cur e r}" using answer_in rows by blast
  moreover have "added (map row (rows @ rs)) s (snd (snd y))" using added_trans [OF a rs(2)] by simp
  moreover obtain r where "r \<in> set rows" using more.hyps(2) by (cases rows) auto
  ultimately show ?case
    using rs(1,3) by (intro exI [of _ "rows @ rs"]) (auto simp: collected_append log_matches_def)
qed

end

section \<open>The cursor of a collector\<close>

lemma tbl_get_filter: "tbl_get n P t = Inr x \<longleftrightarrow> filter P (tbl_rows t) = [x]"
  by (auto simp: tbl_get_def split: list.splits)

lemma is_DoesNotExist_iff: "is_DoesNotExist e \<longleftrightarrow> (\<exists>n. e = DoesNotExist n)"
  by (cases e) auto

lemma cursor_row:
  assumes "get_cursor k ty s = Inr t"
  obtains "filter (\<lambda>c. cu_instance c = k \<and> cu_db_type c = ty) (tbl_rows (sl_cursors s)) = []"
  | c where "filter (\<lambda>c. cu_instance c = k \<and> cu_db_type c = ty) (tbl_rows (sl_cursors s)) = [c]"
  using assms by (auto simp: get_cursor_def tbl_get_def split: list.splits if_splits)

lemma update_cursor_clean:
  assumes "sl_faults s = []" "get_cursor k ty s = Inr t"
  shows "\<exists>s'. update_cursor k ty x s = (Inr (), s') \<and> get_cursor k ty s' = Inr x \<and> sl_faults s' = []
    \<and> s' = s\<lparr>sl_cursors := sl_cursors s'\<rparr> \<and> (\<forall>n. get_cursor k ty (s'\<lparr>sl_now := n\<rparr>) = Inr x)"
proof -
  let ?P = "\<lambda>c. cu_instance c = k \<and> cu_db_type c = ty"
  let ?f = "\<lambda>c. c\<lparr>cu_last := Some x, cu_updated := sl_now s\<rparr>"
  let ?new = "\<lparr>cu_id = 0, cu_instance = k, cu_db_type = ty, cu_last = Some x, cu_last_id = None, cu_updated = sl_now s\<rparr>"
  obtain tab where u: "upsert_cursor (sl_now s) k ty x (sl_cursors s) = (Inr (), tab)"
    and c: "\<exists>c. filter ?P (tbl_rows tab) = [c] \<and> cu_last c = Some x"
  proof (rule cursor_row [OF assms(2)])
    assume e: "filter ?P (tbl_rows (sl_cursors s)) = []"
    show thesis
      by (rule that [of "tbl_create set_cu_id ?new (sl_cursors s)"])
        (use e in \<open>simp_all add: upsert_cursor_def tbl_update_or_create_def rows_tbl_create set_cu_id_def\<close>)
  next
    fix c
    assume e: "filter ?P (tbl_rows (sl_cursors s)) = [c]"
    have "filter ?P (map (\<lambda>c. if ?P c then ?f c else c) (tbl_rows (sl_cursors s)))
        = map (\<lambda>c. if ?P c then ?f c else c) (filter ?P (tbl_rows (sl_cursors s)))"
      by (rule filter_map_update) simp
    moreover have "?P c" using arg_cong [OF e, of set] by auto
    ultimately show thesis
      by (intro that [of "tbl_update ?P ?f (sl_cursors s)"])
        (use e in \<open>simp_all add: upsert_cursor_def tbl_update_or_create_def rows_tbl_update\<close>)
  qed
  have "update_cursor k ty x s = (Inr (), s\<lparr>sl_faults := [], sl_cursors := tab\<rparr>)"
    unfolding update_cursor_def on_cursors_def on_table_def
    by (subst retry.simps) (simp add: write_stmt_def assms(1) u)
  moreover from c have "get_cursor k ty (s\<lparr>sl_faults := [], sl_cursors := tab\<rparr>) = Inr x"
    "\<forall>n. get_cursor k ty (s\<lparr>sl_faults := [], sl_cursors := tab, sl_now := n\<rparr>) = Inr x"
    by (auto simp: get_cursor_def tbl_get_def)
  ultimately show ?thesis using assms(1) by (intro exI [of _ "s\<lparr>sl_faults := [], sl_cursors := tab\<rparr>"]) simp
qed

lemma get_cursor_cong: "sl_cursors s' = sl_cursors s \<Longrightarrow> sl_now s' = sl_now s \<Longrightarrow> get_cursor k ty s' = get_cursor k ty s"
  by (auto simp: get_cursor_def split: sum.splits option.splits)

definition last_time :: "usec \<Rightarrow> slow_log_row list \<Rightarrow> usec" where
  "last_time t rs = (if rs = [] then t else Max (set (map lr_start rs)))"

lemma collection_stores:
  assumes "mysql_logs_to_table server" "mv_slow_log server = serve lg" "get_cursor (i_id i) (i_db_type i) s = Inr t"
    and "sl_faults s = []" "\<And>r. r \<in> set lg \<Longrightarrow> lr_start r mod 1000000 \<noteq> 0"
    and coll: "mysql_collect_detail md5 server i e s = Some s'"
  shows "\<exists>rs new. {r \<in> set lg. log_matches (to_second t) (to_second e) r} \<subseteq> set rs
    \<and> set rs \<subseteq> {r \<in> set lg. lr_start r \<le> to_second e}
    \<and> tbl_rows (sl_mysql s') = tbl_rows (sl_mysql s) @ new
    \<and> map (set_dt_id 0) new = map (mysql_detail_of md5 (i_id i) (sl_now s)) rs
    \<and> get_cursor (i_id i) (i_db_type i) s' = Inr (last_time t rs)
    \<and> sl_faults s' = [] \<and> sl_now s' = sl_now s \<and> (rs \<noteq> [] \<longrightarrow> (\<exists>r \<in> set lg. log_matches (to_second t) (to_second e) r))"
proof -
  let ?m = "\<lparr>cm_cursor = t, cm_max = None, cm_new = False\<rparr>" and ?row = "mysql_detail_of md5 (i_id i) (sl_now s)"
  obtain y where y: "mysql_loop ?row server (to_second e) (to_second t) ?m 0 (mysql_store s) = Some y"
    and s': "s' = snd (commit_cursor (i_id i) (i_db_type i) (fst y) (put_mysql (snd (snd y)) s))"
    using coll assms(1,3) by (auto simp: mysql_collect_detail_def mysql_logs_to_table_def create_cursor_manager_def bindE_def)
  from served.loop_stores [OF y assms(2) _ assms(5)] assms(4)
  obtain rs where rs: "fst y = collected ?m rs" "added (map ?row rs) (mysql_store s) (snd (snd y))"
    "set rs \<subseteq> {r \<in> set lg. lr_start r \<le> to_second e}" "{r \<in> set lg. log_matches (to_second t) (to_second e) r} \<subseteq> set rs"
    "rs \<noteq> [] \<longrightarrow> (\<exists>r \<in> set lg. log_matches (to_second t) (to_second e) r)"
    by (auto simp: mysql_store_def)
  from rs(2) obtain new where new: "tbl_rows (st_table (snd (snd y))) = tbl_rows (sl_mysql s) @ new"
    "map (set_dt_id 0) new = map (set_dt_id 0) (map ?row rs)" "st_faults (snd (snd y)) = []"
    by (auto simp: added_def mysql_store_def)
  have row: "set_dt_id 0 (?row r) = ?row r" for r by (simp add: mysql_detail_of_def set_dt_id_def Let_def split: prod.split)
  let ?s1 = "put_mysql (snd (snd y)) s"
  have "get_cursor (i_id i) (i_db_type i) ?s1 = get_cursor (i_id i) (i_db_type i) s"
    by (rule get_cursor_cong) (simp_all add: put_mysql_def)
  then have s1: "sl_faults ?s1 = []" "get_cursor (i_id i) (i_db_type i) ?s1 = Inr t" "sl_now ?s1 = sl_now s"
    "tbl_rows (sl_mysql ?s1) = tbl_rows (sl_mysql s) @ new"
    using new assms(3) by (simp_all add: put_mysql_def)
  have "get_cursor (i_id i) (i_db_type i) s' = Inr (last_time t rs) \<and> sl_faults s' = [] \<and> sl_now s' = sl_now s
    \<and> tbl_rows (sl_mysql s') = tbl_rows (sl_mysql s) @ new"
  proof (cases "rs = []")
    case True
    then have "commit_cursor (i_id i) (i_db_type i) (fst y) ?s1 = (Inr False, ?s1)"
      by (simp add: rs(1) collected_def commit_cursor_def)
    with s1 True show ?thesis by (simp add: s' last_time_def)
  next
    case False
    have mx: "cm_max (fst y) = Some (last_time t rs)" "cm_new (fst y)"
      using collected_max [OF False, of ?m] collected_new [OF False] by (simp_all add: rs(1) last_time_def False)
    from update_cursor_clean [OF s1(1,2), of "last_time t rs"] obtain s2
      where u: "update_cursor (i_id i) (i_db_type i) (last_time t rs) ?s1 = (Inr (), s2)"
        "get_cursor (i_id i) (i_db_type i) s2 = Inr (last_time t rs)" "sl_faults s2 = []" "s2 = ?s1\<lparr>sl_cursors := sl_cursors s2\<rparr>" by blast
    have "s' = s2" by (simp add: s' commit_cursor_def mx thenM_def bindM_def u(1))
    moreover have "sl_now s2 = sl_now ?s1" "sl_mysql s2 = sl_mysql ?s1" by (subst u(4), simp)+
    ultimately show ?thesis using u(2,3) s1 by simp
  qed
  with rs(3-5) new(2) show ?thesis by (intro exI [of _ rs] exI [of _ new]) (simp add: row o_def)
qed


definition demo_log_rows :: "slow_log_row list" where
  "demo_log_rows = [demo_row (seconds 10 + 500000) 2, demo_row (seconds 20 + 250000) 3]"

lemma demo_log_rows_fraction: "r \<in> set demo_log_rows \<Longrightarrow> lr_start r mod 1000000 \<noteq> 0"
  by (auto simp: demo_log_rows_def demo_row_def seconds_def)

lemma demo_collection_ends:
  assumes "get_cursor (i_id new_Instance) (i_db_type new_Instance) s = Inr t"
  shows "\<exists>s'. mysql_collect_detail id (demo_mysql_server demo_log_rows) new_Instance (seconds 60) s = Some s'"
proof -
  have two: "length demo_log_rows = 2" by (simp add: demo_log_rows_def)
  have "length (second_of demo_log_rows (to_second (seconds 60)) c) \<le> length demo_log_rows" for c
    unfolding second_of_def by (rule length_filter_le)
  with two have "\<not> 1000 \<le> length (second_of demo_log_rows (to_second (seconds 60)) c)" for c
    by (metis (mono_tags) le_trans numeral_le_iff semiring_norm(69,71))
  then have "mysql_collect_detail id (demo_mysql_server demo_log_rows) new_Instance (seconds 60) s \<noteq> None"
    unfolding collection_ends_iff [OF demo_mysql_server assms] by blast
  then show ?thesis by simp
qed


text \<open>
  The last slow query of a collection is stored again by the next one, because the position is cut to the
  second: collecting twice from the same log leaves a row with two details.
\<close>

theorem mysql_last_query_twice:
  assumes "mysql_logs_to_table server" "mv_slow_log server = serve lg" "get_cursor (i_id i) (i_db_type i) s = Inr t"
    and "sl_faults s = []" "\<And>r. r \<in> set lg \<Longrightarrow> lr_start r mod 1000000 \<noteq> 0"
    and "\<exists>r \<in> set lg. log_matches (to_second t) (to_second e) r"
    and "mysql_collect_detail md5 server i e s = Some s1" "mysql_collect_detail md5 server i e s1 = Some s2"
  shows "\<exists>r \<in> set lg. 2 \<le> length (filter (\<lambda>d. set_dt_id 0 d = mysql_detail_of md5 (i_id i) (sl_now s) r) (tbl_rows (sl_mysql s2)))"
proof -
  let ?row = "mysql_detail_of md5 (i_id i) (sl_now s)"
  from collection_stores [OF assms(1-5,7)] obtain rs new
    where r1: "{r \<in> set lg. log_matches (to_second t) (to_second e) r} \<subseteq> set rs" "set rs \<subseteq> {r \<in> set lg. lr_start r \<le> to_second e}"
      and n1: "tbl_rows (sl_mysql s1) = tbl_rows (sl_mysql s) @ new" "map (set_dt_id 0) new = map ?row rs"
      and c1: "get_cursor (i_id i) (i_db_type i) s1 = Inr (last_time t rs)" "sl_faults s1 = []" "sl_now s1 = sl_now s" by blast
  have ne: "rs \<noteq> []" using r1(1) assms(6) by auto
  then have "last_time t rs \<in> lr_start ` set rs" using Max_in [of "lr_start ` set rs"] by (simp add: last_time_def)
  then obtain r where r: "r \<in> set rs" "lr_start r = last_time t rs" by auto
  with r1(2) have lg: "r \<in> set lg" "lr_start r \<le> to_second e" by auto
  have "to_second (lr_start r) \<noteq> lr_start r" using assms(5) [OF lg(1)] to_second_props(3) [of "lr_start r"] by metis
  then have "to_second (lr_start r) < lr_start r" using to_second_props(1) [of "lr_start r"] by linarith
  then have m: "log_matches (to_second (last_time t rs)) (to_second e) r" using lg(2) r(2) by (simp add: log_matches_def)
  from collection_stores [OF assms(1,2) c1(1,2) assms(5,8)] obtain rs' new'
    where r2: "{r \<in> set lg. log_matches (to_second (last_time t rs)) (to_second e) r} \<subseteq> set rs'"
      and n2: "tbl_rows (sl_mysql s2) = tbl_rows (sl_mysql s1) @ new'" "map (set_dt_id 0) new' = map ?row rs'" unfolding c1(3) by blast
  have some: "0 < length (filter (\<lambda>d. set_dt_id 0 d = ?row r) ds)" if "map (set_dt_id 0) ds = map ?row qs" "r \<in> set qs" for ds qs
  proof -
    have "?row r \<in> set (map (set_dt_id 0) ds)" unfolding that(1) using that(2) by simp
    then show ?thesis by (auto simp: filter_empty_conv)
  qed
  have "r \<in> set rs'" using r2 lg(1) m by blast
  note once = some [OF n1(2) r(1)] some [OF n2(2) this]
  let ?P = "\<lambda>d. set_dt_id 0 d = ?row r"
  have "length (filter ?P (tbl_rows (sl_mysql s2)))
      = length (filter ?P (tbl_rows (sl_mysql s))) + length (filter ?P new) + length (filter ?P new')"
    by (simp add: n1(1) n2(1))
  with once have "2 \<le> length (filter ?P (tbl_rows (sl_mysql s2)))" by linarith
  with lg(1) show ?thesis by blast
qed

theorem mysql_last_query_twice_witness:
  "\<exists>s2::slow_state. \<exists>r \<in> set demo_log_rows. 2 \<le> length (filter (\<lambda>d. set_dt_id 0 d
      = mysql_detail_of id (i_id new_Instance) (sl_now (empty_slow\<lparr>sl_now := seconds 60\<rparr>)) r) (tbl_rows (sl_mysql s2)))"
proof -
  let ?s = "empty_slow\<lparr>sl_now := seconds 60\<rparr>"
  obtain s1 where s1: "mysql_collect_detail id (demo_mysql_server demo_log_rows) new_Instance (seconds 60) ?s = Some s1"
    using demo_collection_ends [OF empty_slow_cursor] by blast
  have f: "sl_faults ?s = []" by (simp add: empty_slow_def)
  have m: "\<exists>r \<in> set demo_log_rows. log_matches (to_second (seconds 60 - days 7)) (to_second (seconds 60)) r" by code_simp
  from collection_stores [OF demo_mysql_server empty_slow_cursor f demo_log_rows_fraction s1] obtain t
    where t: "get_cursor (i_id new_Instance) (i_db_type new_Instance) s1 = Inr t" by blast
  obtain s2 where s2: "mysql_collect_detail id (demo_mysql_server demo_log_rows) new_Instance (seconds 60) s1 = Some s2"
    using demo_collection_ends [OF t] by blast
  show ?thesis
    by (rule exI [of _ s2], rule mysql_last_query_twice [OF demo_mysql_server empty_slow_cursor f _ m s1 s2])
      (rule demo_log_rows_fraction)
qed

section \<open>Redis\<close>

definition cursor_covers :: "instance_row \<Rightarrow> slow_state \<Rightarrow> usec \<Rightarrow> bool" where
  "cursor_covers i s t = (\<forall>d \<in> set (tbl_rows (sl_redis s)). dt_instance d = i_id i \<longrightarrow> dt_start d \<le> t)"

definition new_entries :: "usec \<Rightarrow> redis_entry list \<Rightarrow> redis_entry list" where
  "new_entries t es = filter (\<lambda>e. t < seconds (re_start e)) es"

lemma redis_new_rows_eq:
  "redis_new_rows row es m ds = (ds @ map row (new_entries (cm_cursor m) es),
     max_over m (map (\<lambda>e. seconds (re_start e)) (new_entries (cm_cursor m) es)))"
proof (induction es arbitrary: m ds)
  case (Cons e es)
  have "cm_cursor (update_max_cursor (Some (seconds (re_start e))) m) = cm_cursor m"
    by (simp add: update_max_cursor_def)
  then show ?case by (simp add: Cons.IH is_new_data_def new_entries_def max_over_def Let_def)
qed (simp add: new_entries_def max_over_def)

text \<open>
  A round of the collection from a Redis server stores exactly the entries after the cursor and moves the
  cursor to the last of them, so that no later round stores one of them again.
\<close>

theorem redis_round_stores:
  assumes "sl_faults s = []" "get_cursor (i_id i) (i_db_type i) s = Inr t" "cursor_covers i s t"
    and "s' = redis_collect_detail md5 (Inr es) i s"
  shows "\<exists>new t'. tbl_rows (sl_redis s') = tbl_rows (sl_redis s) @ new
    \<and> map (set_dt_id 0) new = map (redis_detail_of md5 i (sl_now s)) (new_entries t es)
    \<and> get_cursor (i_id i) (i_db_type i) s' = Inr t' \<and> t \<le> t' \<and> cursor_covers i s' t' \<and> sl_faults s' = []"
proof (cases "new_entries t es = []")
  case True
  let ?m = "\<lparr>cm_cursor = t, cm_max = None, cm_new = False\<rparr>"
  have "redis_new_rows (redis_detail_of md5 i (sl_now s)) es ?m [] = ([], ?m)"
    using True by (simp add: redis_new_rows_eq max_over_def)
  then have "s' = s" using assms(2,4)
    by (auto simp: redis_collect_detail_def create_cursor_manager_def bindE_def bindM_def commit_cursor_def)
  with True assms(1-3) show ?thesis by simp
next
  case False
  let ?m = "\<lparr>cm_cursor = t, cm_max = None, cm_new = False\<rparr>" and ?row = "redis_detail_of md5 i (sl_now s)"
  let ?new = "new_entries t es"
  let ?times = "map (\<lambda>e. seconds (re_start e)) ?new"
  let ?M = "Max (set ?times)"
  have ne: "?times \<noteq> []" using False by simp
  have m': "redis_new_rows ?row es ?m [] = (map ?row ?new, max_over ?m ?times)" "cm_new (max_over ?m ?times)"
    "cm_max (max_over ?m ?times) = Some ?M"
    using redis_new_rows_eq [of ?row es ?m "[]"] max_over_new [OF ne] max_over_max [OF ne, of ?m] by simp_all
  obtain st where w: "write_stmt (bulk_create (map ?row ?new)) \<lparr>st_table = sl_redis s, st_faults = []\<rparr> = (Inr (), st)"
    and a: "added (map ?row ?new) \<lparr>st_table = sl_redis s, st_faults = []\<rparr> st"
    using bulk_create_added [of "\<lparr>st_table = sl_redis s, st_faults = []\<rparr>" "map ?row ?new"] by (metis prod.collapse store.select_convs(2))
  let ?s1 = "s\<lparr>sl_faults := st_faults st, sl_redis := st_table st\<rparr>"
  from a obtain new where new: "tbl_rows (st_table st) = tbl_rows (sl_redis s) @ new" "map (set_dt_id 0) new = map (set_dt_id 0) (map ?row ?new)"
    "st_faults st = []" by (auto simp: added_def)
  have row: "set_dt_id 0 (?row e) = ?row e" for e by (simp add: redis_detail_of_def set_dt_id_def)
  have "get_cursor (i_id i) (i_db_type i) ?s1 = Inr t" using assms(2) by (subst get_cursor_cong [of _ s]) simp_all
  from update_cursor_clean [OF _ this, of ?M] new(3) obtain s2
    where u: "update_cursor (i_id i) (i_db_type i) ?M ?s1 = (Inr (), s2)" "get_cursor (i_id i) (i_db_type i) s2 = Inr ?M" "sl_faults s2 = []"
      "s2 = ?s1\<lparr>sl_cursors := sl_cursors s2\<rparr>" by auto
  have "s' = s2" using assms(1,2,4) m' False w u(1)
    by (auto simp: redis_collect_detail_def create_cursor_manager_def bindE_def bindM_def commit_cursor_def thenM_def ret_def
        on_redis_def on_table_def)
  moreover have "tbl_rows (sl_redis s2) = tbl_rows (sl_redis s) @ new" using new(1) by (subst u(4)) simp
  moreover have le: "t \<le> ?M" and all: "\<forall>e \<in> set ?new. seconds (re_start e) \<le> ?M"
  proof -
    show all: "\<forall>e \<in> set ?new. seconds (re_start e) \<le> ?M" by (auto intro!: Max_ge)
    obtain e where e: "e \<in> set ?new" using False by (cases ?new) auto
    then have "t < seconds (re_start e)" by (simp add: new_entries_def)
    moreover have "seconds (re_start e) \<le> ?M" using all e by (rule bspec)
    ultimately show "t \<le> ?M" by linarith
  qed
  moreover have "\<forall>d \<in> set new. dt_start d \<le> ?M"
  proof
    fix d
    assume "d \<in> set new"
    then have "set_dt_id 0 d \<in> set (map (set_dt_id 0) new)" by simp
    then obtain e where "e \<in> set ?new" "set_dt_id 0 d = ?row e" unfolding new(2) using row by auto
    moreover from this(2) have "dt_start d = seconds (re_start e)"
      by (auto dest: arg_cong [of _ _ dt_start] simp: redis_detail_of_def set_dt_id_def)
    ultimately show "dt_start d \<le> ?M" using all by simp
  qed
  ultimately show ?thesis using new(2) row u(2,3) assms(3)
    by (intro exI [of _ new] exI [of _ ?M]) (auto simp: cursor_covers_def o_def)
qed

definition demo_redis_entries :: "redis_entry list" where
  "demo_redis_entries = [\<lparr>re_start = 30, re_duration = 2, re_command = [''get'', ''k''], re_client = ''10.0.0.9:40312''\<rparr>,
     \<lparr>re_start = 45, re_duration = 3, re_command = [''lrange'', ''q'', ''0'', ''-1''], re_client = []\<rparr>]"

theorem redis_round_stores_witness:
  "\<exists>(s::slow_state) new t'. let s0 = empty_slow\<lparr>sl_now := seconds 60\<rparr>; t = seconds 60 - days 7 in
    tbl_rows (sl_redis s) = tbl_rows (sl_redis s0) @ new
    \<and> map (set_dt_id 0) new = map (redis_detail_of id new_Instance (sl_now s0)) (new_entries t demo_redis_entries)
    \<and> get_cursor (i_id new_Instance) (i_db_type new_Instance) s = Inr t' \<and> t \<le> t' \<and> cursor_covers new_Instance s t' \<and> sl_faults s = []"
proof -
  have "sl_faults (empty_slow\<lparr>sl_now := seconds 60\<rparr>) = []" "cursor_covers new_Instance (empty_slow\<lparr>sl_now := seconds 60\<rparr>) (seconds 60 - days 7)"
    by (simp_all add: empty_slow_def cursor_covers_def empty_table_def)
  from redis_round_stores [OF this(1) empty_slow_cursor this(2) refl [of "redis_collect_detail id (Inr demo_redis_entries) new_Instance (empty_slow\<lparr>sl_now := seconds 60\<rparr>)"]]
  show ?thesis unfolding Let_def by (rule exI)
qed

end
