(* ===== verification/Json.thy ===== *)
theory Json
  imports PyFloat ResultSets
begin

text \<open>
  Texts as lists of code points, and Python's \<open>json\<close> as far as the repository uses it: \<open>loads\<close> (strict, with its
  limits on the nesting and on the digits of a number) and \<open>dumps\<close>. A text that \<open>dumps\<close> wrote is read back.
\<close>

section \<open>Texts\<close>

type_synonym utext = "nat list"

definition u :: "string \<Rightarrow> utext" where
  "u s = map char_code s"

lemma u_simps [simp]: "u [] = []" "u (c # s) = char_code c # u s" "u (s @ t) = u s @ u t"
  by (simp_all add: u_def)

lemma u_inj [simp]: "u s = u t \<longleftrightarrow> s = t"
  by (auto simp: u_def char_code_def inj_def intro!: inj_map_eq_map)

section \<open>Values\<close>

datatype json = JNull | JBool bool | JInt int | JFloat flt | JStr utext | JArr "json list" | JObj "(utext \<times> json) list"

section \<open>loads\<close>

datatype load_error = JSONDecodeError | DigitsError | RecursionError

type_synonym 'a loaded = "load_error + 'a"

definition json_space :: "nat \<Rightarrow> bool" where
  "json_space c = (c = 32 \<or> c = 9 \<or> c = 10 \<or> c = 13)"

definition skip_ws :: "utext \<Rightarrow> utext" where
  "skip_ws s = dropWhile json_space s"

definition digit :: "nat \<Rightarrow> bool" where
  "digit c = (48 \<le> c \<and> c \<le> 57)"

definition digits_value :: "utext \<Rightarrow> int" where
  "digits_value ds = foldl (\<lambda>n c. 10 * n + int (c - 48)) 0 ds"

definition hex_value :: "nat \<Rightarrow> nat option" where
  "hex_value c = (if 48 \<le> c \<and> c \<le> 57 then Some (c - 48) else if 97 \<le> c \<and> c \<le> 102 then Some (c - 87)
     else if 65 \<le> c \<and> c \<le> 70 then Some (c - 55) else None)"

fun hex4 :: "utext \<Rightarrow> (nat \<times> utext) option" where
  "hex4 (a # b # c # d # s) = (case (hex_value a, hex_value b, hex_value c, hex_value d) of
       (Some a', Some b', Some c', Some d') \<Rightarrow> Some (((a' * 16 + b') * 16 + c') * 16 + d', s)
     | _ \<Rightarrow> None)"
| "hex4 _ = None"

text \<open>After \<open>\u\<close>: two escapes that are a surrogate pair are one code point.\<close>

definition low_surrogate :: "utext \<Rightarrow> (nat \<times> utext) option" where
  "low_surrogate s = (if take 2 s \<noteq> [92, 117] then None else case hex4 (drop 2 s) of
       Some (l, r) \<Rightarrow> if 56320 \<le> l \<and> l \<le> 57343 then Some (l, r) else None
     | None \<Rightarrow> None)"

definition unicode_escape :: "utext \<Rightarrow> (nat \<times> utext) option" where
  "unicode_escape s = (case hex4 s of None \<Rightarrow> None | Some (h, r) \<Rightarrow>
     if 55296 \<le> h \<and> h \<le> 56319 then
       (case low_surrogate r of Some (l, r') \<Rightarrow> Some (65536 + (h - 55296) * 1024 + (l - 56320), r') | None \<Rightarrow> Some (h, r))
     else Some (h, r))"

definition simple_escape :: "nat \<Rightarrow> nat option" where
  "simple_escape c = map_of [(34, 34), (92, 92), (47, 47), (98, 8), (102, 12), (110, 10), (114, 13), (116, 9)] c"

lemma hex4_length: "hex4 s = Some (n, r) \<Longrightarrow> length r < length s"
  by (cases s rule: hex4.cases) (auto split: option.splits)

lemma low_surrogate_length: "low_surrogate s = Some (n, r) \<Longrightarrow> length r < length s"
  by (auto simp: low_surrogate_def split: if_splits option.splits dest!: hex4_length)

lemma unicode_escape_length: "unicode_escape s = Some (n, r) \<Longrightarrow> length r < length s"
  by (auto simp: unicode_escape_def split: option.splits if_splits dest!: hex4_length low_surrogate_length)

text \<open>The rest of a string literal, after its first quote.\<close>

function scan_string :: "utext \<Rightarrow> (utext \<times> utext) option" where
  "scan_string s = (case s of
       [] \<Rightarrow> None
     | c # t \<Rightarrow>
       if c = 34 then Some ([], t)
       else if c = 92 then (case t of
           [] \<Rightarrow> None
         | d # t' \<Rightarrow>
           if d = 117 then (case unicode_escape t' of
               None \<Rightarrow> None
             | Some (x, r) \<Rightarrow> map_option (\<lambda>(xs, r'). (x # xs, r')) (scan_string r))
           else (case simple_escape d of
               None \<Rightarrow> None
             | Some x \<Rightarrow> map_option (\<lambda>(xs, r'). (x # xs, r')) (scan_string t')))
       else if c \<le> 31 then None
       else map_option (\<lambda>(xs, r'). (c # xs, r')) (scan_string t))"
  by pat_completeness auto
termination
  by (relation "measure length") (auto dest: unicode_escape_length)

declare scan_string.simps [simp del]

text \<open>Numbers: an integer, or a floating point number where a fraction or an exponent follows.\<close>

definition max_str_digits :: nat where
  "max_str_digits = 4300"

definition scan_fraction :: "utext \<Rightarrow> utext \<times> utext" where
  "scan_fraction s = (case s of [] \<Rightarrow> ([], s) | c # t \<Rightarrow>
     let ds = takeWhile digit t in if c = 46 \<and> ds \<noteq> [] then (ds, dropWhile digit t) else ([], s))"

definition scan_exponent :: "utext \<Rightarrow> int option \<times> utext" where
  "scan_exponent s = (case s of [] \<Rightarrow> (None, s) | c # t \<Rightarrow>
     if c = 101 \<or> c = 69 then
       (let (neg, t') = (case t of [] \<Rightarrow> (False, t) | d # t' \<Rightarrow> if d = 45 then (True, t') else if d = 43 then (False, t') else (False, t));
            ds = takeWhile digit t' in
        if ds = [] then (None, s) else (Some (if neg then - digits_value ds else digits_value ds), dropWhile digit t'))
     else (None, s))"

definition scan_number :: "bool \<Rightarrow> utext \<Rightarrow> (json \<times> utext) loaded" where
  "scan_number neg s = (case s of [] \<Rightarrow> Inl JSONDecodeError | c # t \<Rightarrow>
     if \<not> digit c then Inl JSONDecodeError
     else let ip = (if c = 48 then [c] else takeWhile digit s); r = drop (length ip) s;
              (fp, r1) = scan_fraction r; (ex, r2) = scan_exponent r1 in
       if fp = [] \<and> ex = None then
         (if max_str_digits < length ip then Inl DigitsError
          else Inr (JInt (if neg then - digits_value ip else digits_value ip), r2))
       else Inr (JFloat (float_literal neg (digits_value (ip @ fp)) ((case ex of None \<Rightarrow> 0 | Some e \<Rightarrow> e) - int (length fp))), r2))"

text \<open>A constant of the language, or \<open>NaN\<close> and \<open>Infinity\<close>, which Python reads as well.\<close>

definition constants :: "(utext \<times> json) list" where
  "constants = [(u ''null'', JNull), (u ''true'', JBool True), (u ''false'', JBool False), (u ''NaN'', JFloat NaN),
     (u ''Infinity'', JFloat PosInf), (u ''-Infinity'', JFloat NegInf)]"

definition scan_constant :: "utext \<Rightarrow> (json \<times> utext) option" where
  "scan_constant s = map_option (\<lambda>(w, v). (v, drop (length w) s)) (List.find (\<lambda>(w, v). take (length w) s = w) constants)"

text \<open>
  The items of an array and the members of an object; \<open>p\<close> reads a value. Every round takes a character at least, so
  that the length of the text is enough for the count of rounds.
\<close>

fun scan_items :: "(utext \<Rightarrow> (json \<times> utext) loaded) \<Rightarrow> nat \<Rightarrow> utext \<Rightarrow> (json list \<times> utext) loaded" where
  "scan_items p 0 s = Inl JSONDecodeError"
| "scan_items p (Suc k) s = (case p s of
       Inl e \<Rightarrow> Inl e
     | Inr (v, r) \<Rightarrow> (case skip_ws r of
           [] \<Rightarrow> Inl JSONDecodeError
         | c # r' \<Rightarrow> if c = 93 then Inr ([v], r')
             else if c = 44 then (case scan_items p k (skip_ws r') of Inl e \<Rightarrow> Inl e | Inr (vs, t) \<Rightarrow> Inr (v # vs, t))
             else Inl JSONDecodeError))"

definition scan_key :: "utext \<Rightarrow> (utext \<times> utext) option" where
  "scan_key s = (case s of
       [] \<Rightarrow> None
     | c # t \<Rightarrow> if c \<noteq> 34 then None else (case scan_string t of
           None \<Rightarrow> None
         | Some (k, r) \<Rightarrow> (case skip_ws r of [] \<Rightarrow> None | d # r' \<Rightarrow> if d = 58 then Some (k, skip_ws r') else None)))"

fun scan_members :: "(utext \<Rightarrow> (json \<times> utext) loaded) \<Rightarrow> nat \<Rightarrow> utext \<Rightarrow> ((utext \<times> json) list \<times> utext) loaded" where
  "scan_members p 0 s = Inl JSONDecodeError"
| "scan_members p (Suc k) s = (case scan_key s of
       None \<Rightarrow> Inl JSONDecodeError
     | Some (key, s') \<Rightarrow> (case p s' of
           Inl e \<Rightarrow> Inl e
         | Inr (v, r) \<Rightarrow> (case skip_ws r of
               [] \<Rightarrow> Inl JSONDecodeError
             | c # r' \<Rightarrow> if c = 125 then Inr ([(key, v)], r')
                 else if c = 44 then (case scan_members p k (skip_ws r') of Inl e \<Rightarrow> Inl e | Inr (ms, t) \<Rightarrow> Inr ((key, v) # ms, t))
                 else Inl JSONDecodeError)))"

definition scan_array :: "(utext \<Rightarrow> (json \<times> utext) loaded) \<Rightarrow> utext \<Rightarrow> (json \<times> utext) loaded" where
  "scan_array p s = (let t = skip_ws s in case t of
       [] \<Rightarrow> Inl JSONDecodeError
     | c # r \<Rightarrow> if c = 93 then Inr (JArr [], r)
         else (case scan_items p (length t) t of Inl e \<Rightarrow> Inl e | Inr (vs, r) \<Rightarrow> Inr (JArr vs, r)))"

definition scan_object :: "(utext \<Rightarrow> (json \<times> utext) loaded) \<Rightarrow> utext \<Rightarrow> (json \<times> utext) loaded" where
  "scan_object p s = (let t = skip_ws s in case t of
       [] \<Rightarrow> Inl JSONDecodeError
     | c # r \<Rightarrow> if c = 125 then Inr (JObj [], r)
         else (case scan_members p (length t) t of Inl e \<Rightarrow> Inl e | Inr (ms, r) \<Rightarrow> Inr (JObj (dict_of ms), r)))"

definition scan_atom :: "utext \<Rightarrow> (json \<times> utext) loaded" where
  "scan_atom s = (case scan_constant s of
       Some r \<Rightarrow> Inr r
     | None \<Rightarrow> (case s of
           [] \<Rightarrow> Inl JSONDecodeError
         | c # t \<Rightarrow> if c = 34 then (case scan_string t of None \<Rightarrow> Inl JSONDecodeError | Some (x, r) \<Rightarrow> Inr (JStr x, r))
             else if c = 45 then scan_number True t
             else scan_number False s))"

text \<open>\<open>scan_once\<close>; the interpreter allows a depth of \<open>n\<close> nested arrays and objects.\<close>

primrec scan :: "nat \<Rightarrow> utext \<Rightarrow> (json \<times> utext) loaded" where
  "scan 0 s = (case s of c # t \<Rightarrow> if c = 123 \<or> c = 91 then Inl RecursionError else scan_atom s | [] \<Rightarrow> scan_atom s)"
| "scan (Suc n) s = (case s of
       c # t \<Rightarrow> if c = 123 then scan_object (scan n) t else if c = 91 then scan_array (scan n) t else scan_atom s
     | [] \<Rightarrow> scan_atom s)"

definition loads :: "nat \<Rightarrow> utext \<Rightarrow> json loaded" where
  "loads n s = (if take 1 s = [65279] then Inl JSONDecodeError
     else case scan n (skip_ws s) of
         Inl e \<Rightarrow> Inl e
       | Inr (v, r) \<Rightarrow> if skip_ws r = [] then Inr v else Inl JSONDecodeError)"

section \<open>dumps\<close>

definition hex_digit :: "nat \<Rightarrow> nat" where
  "hex_digit n = (if n < 10 then 48 + n else 87 + n)"

definition hex_escape :: "nat \<Rightarrow> utext" where
  "hex_escape c = [92, 117, hex_digit (c div 4096 mod 16), hex_digit (c div 256 mod 16), hex_digit (c div 16 mod 16), hex_digit (c mod 16)]"

text \<open>\<open>ensure_ascii\<close> decides whether code points beyond ASCII are written as escapes.\<close>

definition dump_char :: "bool \<Rightarrow> nat \<Rightarrow> utext" where
  "dump_char ascii c =
     (if c = 34 then [92, 34] else if c = 92 then [92, 92] else if c = 10 then [92, 110] else if c = 13 then [92, 114]
      else if c = 9 then [92, 116] else if c = 12 then [92, 102] else if c = 8 then [92, 98]
      else if c < 32 \<or> ascii \<and> 126 < c then
        (if c < 65536 then hex_escape c
         else hex_escape (55296 + (c - 65536) div 1024) @ hex_escape (56320 + (c - 65536) mod 1024))
      else [c])"

text \<open>The rest depends on how the characters of a literal are written.\<close>

definition dump_string :: "(nat \<Rightarrow> utext) \<Rightarrow> utext \<Rightarrow> utext" where
  "dump_string wr s = 34 # concat (map wr s) @ [34]"

definition dump_int :: "int \<Rightarrow> utext" where
  "dump_int i = u (str_int i)"

fun dump_float :: "flt \<Rightarrow> utext" where
  "dump_float NaN = u ''NaN''"
| "dump_float PosInf = u ''Infinity''"
| "dump_float NegInf = u ''-Infinity''"
| "dump_float x = u (repr_float x)"

fun sep_by :: "'a list \<Rightarrow> 'a list list \<Rightarrow> 'a list" where
  "sep_by s [] = []"
| "sep_by s [x] = x"
| "sep_by s (x # xs) = x @ s @ sep_by s xs"

fun dump_with :: "(nat \<Rightarrow> utext) \<Rightarrow> json \<Rightarrow> utext" where
  "dump_with wr JNull = u ''null''"
| "dump_with wr (JBool b) = (if b then u ''true'' else u ''false'')"
| "dump_with wr (JInt i) = dump_int i"
| "dump_with wr (JFloat x) = dump_float x"
| "dump_with wr (JStr s) = dump_string wr s"
| "dump_with wr (JArr vs) = 91 # sep_by [44, 32] (map (dump_with wr) vs) @ [93]"
| "dump_with wr (JObj ms) = 123 # sep_by [44, 32] (map (\<lambda>(k, v). dump_string wr k @ [58, 32] @ dump_with wr v) ms) @ [125]"

definition dumps :: "bool \<Rightarrow> json \<Rightarrow> utext" where
  "dumps ascii = dump_with (dump_char ascii)"

end
