(* ===== verification/AiReply.thy ===== *)
theory AiReply
  imports Json AiRisk
begin

text \<open>
  How \<open>common/utils/ai_gateway.py\<close> reads the reply of a language model: the repair of JSON that is not quite JSON, the
  object in a reply, and the fields of a review and of a diagnosis. Texts are lists of code points; the data base
  of Unicode (which characters are printable, which are decimal digits) is a parameter.
\<close>

record unicode =
  uc_printable :: "nat \<Rightarrow> bool"
  uc_decimal :: "nat \<Rightarrow> nat option"

section \<open>Texts\<close>

definition uspace :: "nat \<Rightarrow> bool" where
  "uspace c = (9 \<le> c \<and> c \<le> 13 \<or> 28 \<le> c \<and> c \<le> 32 \<or> c = 133 \<or> c = 160 \<or> c = 5760 \<or> 8192 \<le> c \<and> c \<le> 8202
     \<or> c = 8232 \<or> c = 8233 \<or> c = 8239 \<or> c = 8287 \<or> c = 12288)"

definition urstrip :: "utext \<Rightarrow> utext" where
  "urstrip s = rev (dropWhile uspace (rev s))"

definition ustrip :: "utext \<Rightarrow> utext" where
  "ustrip s = urstrip (dropWhile uspace s)"

text \<open>
  \<open>lower\<close>, for a comparison with ASCII words: beyond ASCII only the Kelvin sign becomes an ASCII letter.
\<close>

definition ulower :: "utext \<Rightarrow> utext" where
  "ulower s = map (\<lambda>c. if 65 \<le> c \<and> c \<le> 90 then c + 32 else if c = 8490 then 107 else c) s"

definition word_of :: "string list \<Rightarrow> string \<Rightarrow> utext \<Rightarrow> string" where
  "word_of ws other t = (case List.find (\<lambda>w. u w = t) ws of Some w \<Rightarrow> w | None \<Rightarrow> other)"

section \<open>The repairs of \<open>_try_load_json\<close>\<close>

text \<open>Line breaks and tabs inside string literals become escapes.\<close>

fun escape_controls :: "bool \<Rightarrow> bool \<Rightarrow> utext \<Rightarrow> utext" where
  "escape_controls in_str escape [] = []"
| "escape_controls in_str escape (c # s) =
     (if escape then c # escape_controls in_str False s
      else if c = 92 then c # escape_controls in_str True s
      else if c = 34 then c # escape_controls (\<not> in_str) False s
      else if in_str \<and> c = 10 then 92 # 110 # escape_controls in_str False s
      else if in_str \<and> c = 13 then 92 # 114 # escape_controls in_str False s
      else if in_str \<and> c = 9 then 92 # 116 # escape_controls in_str False s
      else c # escape_controls in_str False s)"

text \<open>The substitution of \<open>,\s*([}\]])\<close> by its group.\<close>

definition closes :: "utext \<Rightarrow> bool" where
  "closes s = (case dropWhile uspace s of [] \<Rightarrow> False | c # _ \<Rightarrow> c = 125 \<or> c = 93)"

function drop_commas :: "utext \<Rightarrow> utext" where
  "drop_commas [] = []"
| "drop_commas (c # s) = (if c = 44 \<and> closes s then drop_commas (dropWhile uspace s) else c # drop_commas s)"
  by pat_completeness auto
termination
  by (relation "measure length") (auto simp: le_imp_less_Suc length_dropWhile_le)

text \<open>Typographic quotes and full-width punctuation.\<close>

definition ascii_mark :: "nat \<Rightarrow> nat" where
  "ascii_mark c = (if c = 8220 \<or> c = 8221 then 34 else if c = 8216 \<or> c = 8217 then 39
     else if c = 65292 then 44 else if c = 65306 then 58 else if c = 65307 then 59 else c)"

text \<open>\<open>_single_to_double_quote\<close>: outside of literals a single quote begins one.\<close>

datatype quoting = Outside | InDouble | InSingle

fun single_to_double_quote :: "quoting \<Rightarrow> bool \<Rightarrow> utext \<Rightarrow> utext" where
  "single_to_double_quote q escape [] = []"
| "single_to_double_quote q escape (c # s) =
     (if escape then c # single_to_double_quote q False s
      else if c = 92 then c # single_to_double_quote q True s
      else case q of
          InDouble \<Rightarrow> c # single_to_double_quote (if c = 34 then Outside else InDouble) False s
        | InSingle \<Rightarrow> (if c = 39 then 34 # single_to_double_quote Outside False s else c # single_to_double_quote InSingle False s)
        | Outside \<Rightarrow> (if c = 34 then c # single_to_double_quote InDouble False s
                     else if c = 39 then 34 # single_to_double_quote InSingle False s
                     else c # single_to_double_quote Outside False s))"

text \<open>The texts that are tried, in this order; a repair that changes nothing is not tried again.\<close>

definition repairs :: "utext \<Rightarrow> utext list" where
  "repairs t = (let t2 = escape_controls False False t; t3 = drop_commas t2; t4 = map ascii_mark t3;
       t5 = single_to_double_quote Outside False t4 in
     [t, t2] @ (if t3 \<noteq> t2 then [t3] else []) @ (if t4 \<noteq> t3 then [t4] else []) @ (if t5 \<noteq> t4 then [t5] else []))"

text \<open>Only \<open>JSONDecodeError\<close> is caught: a number with too many digits and a nesting that is too deep are raised.\<close>

definition raise_load :: "load_error \<Rightarrow> exn" where
  "raise_load e = (case e of RecursionError \<Rightarrow> RuntimeError ''maximum recursion depth exceeded'' | _ \<Rightarrow> ValueError ''Exceeds the limit for integer string conversion'')"

fun first_load :: "nat \<Rightarrow> utext list \<Rightarrow> json option res" where
  "first_load n [] = Inr None"
| "first_load n (t # ts) = (case loads n t of
       Inr v \<Rightarrow> Inr (Some v)
     | Inl e \<Rightarrow> if e = JSONDecodeError then first_load n ts else Inl (raise_load e))"

definition try_load_json :: "nat \<Rightarrow> utext \<Rightarrow> json option res" where
  "try_load_json n t = first_load n (repairs t)"

section \<open>The object in a reply\<close>

definition fence :: utext where
  "fence = [96, 96, 96]"

text \<open>The substitution of \<open>\s*```$\<close>; the dollar also stands before a last line break.\<close>

definition strip_fence_end :: "utext \<Rightarrow> utext" where
  "strip_fence_end t = (let r = rev t; tail = (if take 1 r = [10] then [10] else []); body = drop (length tail) r in
     if take 3 r = fence then urstrip (rev (drop 3 r))
     else if take 3 body = fence then urstrip (rev (drop 3 body)) @ tail
     else t)"

definition strip_codefence :: "utext \<Rightarrow> utext" where
  "strip_codefence t = (if take 3 t = fence then
       strip_fence_end (dropWhile uspace (let r = drop 3 t in if take 4 r = u ''json'' then drop 4 r else r))
     else t)"

text \<open>From the first opening brace to the last closing one.\<close>

definition brace_span :: "utext \<Rightarrow> utext option" where
  "brace_span t = (let s = dropWhile (\<lambda>c. c \<noteq> 123) t; r = dropWhile (\<lambda>c. c \<noteq> 125) (rev s) in
     if r = [] then None else Some (rev r))"

fun first_object :: "nat \<Rightarrow> utext list \<Rightarrow> json option res" where
  "first_object n [] = Inr None"
| "first_object n (c # cs) =
     (if c = [] then first_object n cs
      else case try_load_json n c of
          Inl e \<Rightarrow> Inl e
        | Inr r \<Rightarrow> (case r of Some v \<Rightarrow> if v = JNull then first_object n cs else Inr (Some v) | None \<Rightarrow> first_object n cs))"

definition extract_json_object :: "nat \<Rightarrow> utext option \<Rightarrow> json option res" where
  "extract_json_object n content = (case content of
       None \<Rightarrow> Inr None
     | Some c \<Rightarrow> if c = [] then Inr None
         else (let t = ustrip c in first_object n ([t, strip_codefence t] @ (case brace_span t of None \<Rightarrow> [] | Some b \<Rightarrow> [b]))))"

section \<open>Conversions\<close>

text \<open>\<open>repr\<close> of a text: in single quotes, unless it has some and no double ones.\<close>

definition hex_digits :: "nat \<Rightarrow> nat \<Rightarrow> utext" where
  "hex_digits k c = map (\<lambda>i. hex_digit (c div 16 ^ i mod 16)) (rev [0..<k])"

definition repr_char :: "unicode \<Rightarrow> nat \<Rightarrow> nat \<Rightarrow> utext" where
  "repr_char uc q c =
     (if c = q \<or> c = 92 then [92, c] else if c = 9 then [92, 116] else if c = 10 then [92, 110] else if c = 13 then [92, 114]
      else if c < 127 \<and> 32 \<le> c \<or> 127 < c \<and> uc_printable uc c then [c]
      else if c < 256 then [92, 120] @ hex_digits 2 c else if c < 65536 then [92, 117] @ hex_digits 4 c else [92, 85] @ hex_digits 8 c)"

definition repr_text :: "unicode \<Rightarrow> utext \<Rightarrow> utext" where
  "repr_text uc s = (let q = (if 39 \<in> set s \<and> 34 \<notin> set s then 34 else 39) in [q] @ concat (map (repr_char uc q) s) @ [q])"

fun repr_json :: "unicode \<Rightarrow> json \<Rightarrow> utext" where
  "repr_json uc JNull = u ''None''"
| "repr_json uc (JBool b) = (if b then u ''True'' else u ''False'')"
| "repr_json uc (JInt i) = u (str_int i)"
| "repr_json uc (JFloat x) = u (repr_float x)"
| "repr_json uc (JStr s) = repr_text uc s"
| "repr_json uc (JArr vs) = [91] @ sep_by [44, 32] (map (repr_json uc) vs) @ [93]"
| "repr_json uc (JObj ms) = [123] @ sep_by [44, 32] (map (\<lambda>(k, v). repr_text uc k @ [58, 32] @ repr_json uc v) ms) @ [125]"

definition str_json :: "unicode \<Rightarrow> json \<Rightarrow> utext" where
  "str_json uc j = (case j of JStr s \<Rightarrow> s | _ \<Rightarrow> repr_json uc j)"

fun truth :: "json \<Rightarrow> bool" where
  "truth JNull = False"
| "truth (JBool b) = b"
| "truth (JInt i) = (i \<noteq> 0)"
| "truth (JFloat x) = (x \<noteq> Fin 0 \<and> x \<noteq> NegZero)"
| "truth (JStr s) = (s \<noteq> [])"
| "truth (JArr vs) = (vs \<noteq> [])"
| "truth (JObj ms) = (ms \<noteq> [])"

definition str_or_empty :: "unicode \<Rightarrow> json \<Rightarrow> utext" where
  "str_or_empty uc j = (if truth j then str_json uc j else [])"

text \<open>\<open>int\<close> and \<open>float\<close> of a text: white space around, a sign, digits with single underscores between them.\<close>

definition decimal_of :: "unicode \<Rightarrow> nat \<Rightarrow> nat option" where
  "decimal_of uc c = (if c < 128 then (if digit c then Some (c - 48) else None) else uc_decimal uc c)"

fun take_digits :: "unicode \<Rightarrow> utext \<Rightarrow> nat list \<times> utext" where
  "take_digits uc [] = ([], [])"
| "take_digits uc (c # s) = (case decimal_of uc c of
       Some d \<Rightarrow> (case take_digits uc s of (ds, r) \<Rightarrow> (d # ds, r))
     | None \<Rightarrow> (case s of
           [] \<Rightarrow> ([], c # s)
         | c' # s' \<Rightarrow> if c = 95 \<and> decimal_of uc c' \<noteq> None then (case take_digits uc s of (ds, r) \<Rightarrow> (95 # ds, r)) else ([], c # s)))"

definition digit_run :: "unicode \<Rightarrow> utext \<Rightarrow> nat list \<times> utext" where
  "digit_run uc s = (case s of [] \<Rightarrow> ([], []) | c # _ \<Rightarrow> if decimal_of uc c = None then ([], s)
     else (case take_digits uc s of (ds, r) \<Rightarrow> (filter (\<lambda>d. d < 10) ds, r)))"

definition run_value :: "nat list \<Rightarrow> int" where
  "run_value ds = foldl (\<lambda>n d. 10 * n + int d) 0 ds"

definition signed :: "utext \<Rightarrow> bool \<times> utext" where
  "signed s = (case s of [] \<Rightarrow> (False, []) | c # t \<Rightarrow> if c = 45 then (True, t) else if c = 43 then (False, t) else (False, s))"

definition text_int :: "unicode \<Rightarrow> utext \<Rightarrow> int res" where
  "text_int uc t = (case signed (ustrip t) of (neg, s) \<Rightarrow> (case digit_run uc s of (ds, r) \<Rightarrow>
     if ds = [] \<or> r \<noteq> [] then Inl (ValueError ''invalid literal for int()'')
     else if max_str_digits < length ds then Inl (ValueError ''Exceeds the limit for integer string conversion'')
     else Inr (if neg then - run_value ds else run_value ds)))"

definition overflow :: exn where
  "overflow = PyException ''OverflowError''"

fun json_int :: "unicode \<Rightarrow> json \<Rightarrow> int res" where
  "json_int uc (JBool b) = Inr (if b then 1 else 0)"
| "json_int uc (JInt i) = Inr i"
| "json_int uc (JFloat x) = (case x of
       Fin r \<Rightarrow> Inr (if 0 \<le> r then floor r else ceiling r)
     | NegZero \<Rightarrow> Inr 0
     | NaN \<Rightarrow> Inl (ValueError ''cannot convert float NaN to integer'')
     | _ \<Rightarrow> Inl overflow)"
| "json_int uc (JStr s) = text_int uc s"
| "json_int uc _ = Inl (TypeError ''int() argument must be a string or a number'')"

definition float_words :: "(string \<times> flt) list" where
  "float_words = [(''inf'', PosInf), (''infinity'', PosInf), (''nan'', NaN)]"

definition negate :: "flt \<Rightarrow> flt" where
  "negate x = (case x of PosInf \<Rightarrow> NegInf | NegInf \<Rightarrow> PosInf | NaN \<Rightarrow> NaN | NegZero \<Rightarrow> Fin 0 | Fin r \<Rightarrow> if r = 0 then NegZero else Fin (- r))"

definition float_exponent :: "unicode \<Rightarrow> utext \<Rightarrow> int option" where
  "float_exponent uc s = (case s of [] \<Rightarrow> Some 0 | c # t \<Rightarrow>
     if c \<noteq> 101 \<and> c \<noteq> 69 then None
     else (case signed t of (neg, t') \<Rightarrow> (case digit_run uc t' of (ds, r) \<Rightarrow>
       if ds = [] \<or> r \<noteq> [] then None else Some (if neg then - run_value ds else run_value ds))))"

definition text_float :: "unicode \<Rightarrow> utext \<Rightarrow> flt res" where
  "text_float uc t = (case signed (ustrip t) of (neg, s) \<Rightarrow>
     (case List.find (\<lambda>(w, x). u w = ulower s) float_words of
        Some (w, x) \<Rightarrow> Inr (if neg then negate x else x)
      | None \<Rightarrow> (case digit_run uc s of (ip, r) \<Rightarrow>
          (case (if take 1 r = [46] then digit_run uc (drop 1 r) else ([], r)) of (fp, r') \<Rightarrow>
            (case float_exponent uc r' of
               None \<Rightarrow> Inl (ValueError ''could not convert string to float'')
             | Some e \<Rightarrow> if ip = [] \<and> fp = [] then Inl (ValueError ''could not convert string to float'')
                 else Inr (float_literal neg (run_value (ip @ fp)) (e - int (length fp))))))))"

fun json_float :: "unicode \<Rightarrow> json \<Rightarrow> flt res" where
  "json_float uc (JBool b) = Inr (Fin (if b then 1 else 0))"
| "json_float uc (JInt i) = (case round_double (of_int i) of PosInf \<Rightarrow> Inl overflow | NegInf \<Rightarrow> Inl overflow | x \<Rightarrow> Inr x)"
| "json_float uc (JFloat x) = Inr x"
| "json_float uc (JStr s) = text_float uc s"
| "json_float uc _ = Inl (TypeError ''float() argument must be a string or a real number'')"

text \<open>\<open>except (TypeError, ValueError)\<close>.\<close>

fun is_type_or_value :: "exn \<Rightarrow> bool" where
  "is_type_or_value (TypeError m) = True"
| "is_type_or_value (ValueError m) = True"
| "is_type_or_value _ = False"

definition value_or :: "'a res \<Rightarrow> 'a \<Rightarrow> 'a res" where
  "value_or r d = (case r of Inl e \<Rightarrow> if is_type_or_value e then Inr d else Inl e | Inr x \<Rightarrow> Inr x)"

end
