(* ===== verification/Cells.thy ===== *)
theory Cells
  imports AiReply AiRisk
begin

text \<open>
  The values of a row that a model, an engine or the cloud hands over by the name of its field, and the \<open>dict\<close> of them.
  A number that a column holds is exact; \<open>CFlt\<close> is a double that was computed, \<open>CJson\<close> a value read from a text.
\<close>

datatype cell = CNone | CInt int | CNum rat | CText string | CTime int | CBool bool | CFlt flt | CJson json

type_synonym row_dict = "(string \<times> cell) list"

definition type_error :: exn where
  "type_error = TypeError ''unsupported operand type''"

definition otext :: "string option \<Rightarrow> cell" where
  "otext x = (case x of None \<Rightarrow> CNone | Some s \<Rightarrow> CText s)"

definition otime :: "int option \<Rightarrow> cell" where
  "otime x = (case x of None \<Rightarrow> CNone | Some t \<Rightarrow> CTime t)"

text \<open>\<open>float(v)\<close>, \<open>bool(v)\<close> and \<open>v.get(f, d)\<close>.\<close>

definition cell_float :: "unicode \<Rightarrow> cell \<Rightarrow> flt res" where
  "cell_float uc v = (case v of
       CInt i \<Rightarrow> json_float uc (JInt i) | CNum r \<Rightarrow> Inr (round_double r) | CText t \<Rightarrow> text_float uc (u t)
     | CBool b \<Rightarrow> json_float uc (JBool b) | CFlt x \<Rightarrow> Inr x | CJson j \<Rightarrow> json_float uc j | _ \<Rightarrow> Inl type_error)"

definition cell_truth :: "cell \<Rightarrow> bool" where
  "cell_truth v = (case v of CNone \<Rightarrow> False | CInt i \<Rightarrow> i \<noteq> 0 | CNum r \<Rightarrow> r \<noteq> 0 | CText t \<Rightarrow> t \<noteq> [] | CTime t \<Rightarrow> True | CBool b \<Rightarrow> b
     | CFlt x \<Rightarrow> truth (JFloat x) | CJson j \<Rightarrow> truth j)"

definition jget :: "row_dict \<Rightarrow> string \<Rightarrow> cell \<Rightarrow> cell" where
  "jget r f d = (case map_of r f of None \<Rightarrow> d | Some v \<Rightarrow> v)"

text \<open>\<open>str(v or "")\<close> of a text.\<close>

definition text_or_empty :: "cell \<Rightarrow> string" where
  "text_or_empty v = (case v of CText t \<Rightarrow> t | CInt i \<Rightarrow> (if i = 0 then [] else str_int i) | _ \<Rightarrow> [])"

definition fscale :: "rat \<Rightarrow> flt \<Rightarrow> flt" where
  "fscale k x = (case x of Fin r \<Rightarrow> round_double (r * k) | y \<Rightarrow> y)"

definition fround :: "nat \<Rightarrow> flt \<Rightarrow> flt" where
  "fround n x = (case x of Fin r \<Rightarrow> (if round_to n r = 0 \<and> r < 0 then NegZero else round_double (round_to n r)) | y \<Rightarrow> y)"

text \<open>A field as a measurement; infinities and NaN, which no source sends, are taken for no number.\<close>

definition measure_of :: "unicode \<Rightarrow> cell \<Rightarrow> measure" where
  "measure_of uc v = (if v = CNone then Missing else case cell_float uc v of
     Inr (Fin r) \<Rightarrow> Number r | Inr NegZero \<Rightarrow> Number 0 | _ \<Rightarrow> NoNumber)"

end
