(* ===== verification/AiGateway.thy ===== *)
theory AiGateway
  imports Cells SlowQuery SysConfig
begin

text \<open>
  The client of the language model in \<open>common/utils/ai_gateway.py\<close>: scenarios, requests, the fields of a review and of
  a diagnosis, and the account of the usage. The service is a list of the answers it will give; a prompt is kept as
  the parts it is put together from.
\<close>

section \<open>Emoji\<close>

definition emoji :: "nat \<Rightarrow> bool" where
  "emoji c = (127744 \<le> c \<and> c \<le> 129791 \<or> 9728 \<le> c \<and> c \<le> 10175 \<or> 127462 \<le> c \<and> c \<le> 127487 \<or> 129280 \<le> c \<and> c \<le> 129535)"

definition blank :: "nat \<Rightarrow> bool" where
  "blank c = (c = 32 \<or> c = 9)"

text \<open>Two or more blanks become one space.\<close>

function squeeze :: "utext \<Rightarrow> utext" where
  "squeeze [] = []"
| "squeeze (c # s) = (if blank c \<and> (case s of [] \<Rightarrow> False | d # _ \<Rightarrow> blank d) then 32 # squeeze (dropWhile blank s) else c # squeeze s)"
  by pat_completeness auto
termination
  by (relation "measure length") (auto simp: le_imp_less_Suc length_dropWhile_le)

definition strip_emoji :: "utext \<Rightarrow> utext" where
  "strip_emoji t = (if t = [] then t else ustrip (squeeze (filter (\<lambda>c. \<not> emoji c) t)))"

section \<open>The fields of a review\<close>

definition LOCK_LEVELS :: "string list" where
  "LOCK_LEVELS = [''none'', ''low'', ''medium'', ''high'']"

record review =
  rw_level :: string
  rw_score :: int
  rw_summary :: utext
  rw_suggestion :: utext
  rw_lock :: string
  rw_affected :: utext
  rw_osc :: bool

definition REVIEW_FALLBACK :: review where
  "REVIEW_FALLBACK = \<lparr>rw_level = ''unknown'', rw_score = 0, rw_summary = u ''AI review skipped'', rw_suggestion = [],
     rw_lock = ''none'', rw_affected = [], rw_osc = False\<rparr>"

definition dget :: "(utext \<times> json) list \<Rightarrow> string \<Rightarrow> json \<Rightarrow> json" where
  "dget d k v = (case map_of d (u k) of None \<Rightarrow> v | Some x \<Rightarrow> x)"

text \<open>\<open>data.get\<close>: only a \<open>dict\<close> has it.\<close>

fun as_dict :: "json \<Rightarrow> (utext \<times> json) list res" where
  "as_dict (JObj d) = Inr d"
| "as_dict _ = Inl (AttributeError ''object has no attribute get'')"

definition normalize_level_json :: "unicode \<Rightarrow> json \<Rightarrow> string" where
  "normalize_level_json uc v = word_of VALID_LEVELS ''unknown'' (ulower (str_or_empty uc v))"

definition clamp :: "'a::linorder \<Rightarrow> 'a \<Rightarrow> 'a \<Rightarrow> 'a" where
  "clamp lo hi x = max lo (min hi x)"

definition osc_of :: "json \<Rightarrow> bool" where
  "osc_of v = (case v of JStr s \<Rightarrow> ulower (ustrip s) \<in> set (map u [''true'', ''1'', ''yes'']) | _ \<Rightarrow> truth v)"

definition or_text :: "utext \<Rightarrow> utext \<Rightarrow> utext" where
  "or_text t d = (if t = [] then d else t)"

definition normalize_review_fields :: "unicode \<Rightarrow> (utext \<times> json) list \<Rightarrow> review res" where
  "normalize_review_fields uc d = bindE (value_or (map_sum id (clamp 0 100) (json_int uc (dget d ''risk_score'' (JInt 0)))) 0) (\<lambda>score.
     Inr \<lparr>rw_level = normalize_level_json uc (dget d ''risk_level'' JNull), rw_score = score,
       rw_summary = or_text (strip_emoji (take 200 (str_json uc (dget d ''summary'' (JStr []))))) (u ''AI review finished''),
       rw_suggestion = strip_emoji (str_json uc (dget d ''suggestion'' (JStr []))),
       rw_lock = word_of LOCK_LEVELS ''none'' (ulower (str_json uc (dget d ''ddl_lock_risk'' (JStr (u ''none''))))),
       rw_affected = strip_emoji (str_or_empty uc (dget d ''affected_rows_estimate'' (JStr []))),
       rw_osc = osc_of (dget d ''use_osc'' (JBool False))\<rparr>)"

definition parse_review_json :: "unicode \<Rightarrow> nat \<Rightarrow> utext option \<Rightarrow> review res" where
  "parse_review_json uc n content = bindE (extract_json_object n content) (\<lambda>r. case r of
       None \<Rightarrow> Inr REVIEW_FALLBACK
     | Some v \<Rightarrow> bindE (as_dict v) (normalize_review_fields uc))"

text \<open>The list of a batch, which some models wrap in an object; each item names its position.\<close>

definition batch_keys :: "string list" where
  "batch_keys = [''reviews'', ''results'', ''items'', ''statements'']"

definition batch_list :: "json \<Rightarrow> json list option" where
  "batch_list v = (case v of
       JArr vs \<Rightarrow> Some vs
     | JObj d \<Rightarrow> (case List.map_filter (\<lambda>k. case dget d k JNull of JArr vs \<Rightarrow> Some vs | _ \<Rightarrow> None) batch_keys of [] \<Rightarrow> None | vs # _ \<Rightarrow> Some vs)
     | _ \<Rightarrow> None)"

definition item_index :: "(utext \<times> json) list \<Rightarrow> int option" where
  "item_index d = (case dget d ''index'' JNull of JInt i \<Rightarrow> Some i | _ \<Rightarrow> None)"

fun fill_batch :: "unicode \<Rightarrow> json list \<Rightarrow> review option list \<Rightarrow> review option list res" where
  "fill_batch uc [] rs = Inr rs"
| "fill_batch uc (v # vs) rs = (case v of
       JObj d \<Rightarrow> (case item_index d of
           None \<Rightarrow> fill_batch uc vs rs
         | Some i \<Rightarrow> if \<not> (0 \<le> i \<and> i < int (length rs)) then fill_batch uc vs rs
             else if rs ! nat i \<noteq> None then fill_batch uc vs rs
             else bindE (normalize_review_fields uc d) (\<lambda>r. fill_batch uc vs (rs[nat i := Some r])))
     | _ \<Rightarrow> fill_batch uc vs rs)"

definition parse_review_batch_json :: "unicode \<Rightarrow> nat \<Rightarrow> utext option \<Rightarrow> nat \<Rightarrow> review option list option res" where
  "parse_review_batch_json uc n content count = bindE (extract_json_object n content) (\<lambda>r.
     case (case r of None \<Rightarrow> None | Some v \<Rightarrow> batch_list v) of
       None \<Rightarrow> Inr None
     | Some vs \<Rightarrow> map_sum id Some (fill_batch uc vs (replicate count None)))"

section \<open>The fields of a diagnosis\<close>

definition BOTTLENECKS :: "string list" where
  "BOTTLENECKS = [''full_scan'', ''missing_index'', ''lock_wait'', ''filesort'', ''tmp_table'', ''type_cast'', ''other'']"

record suggestion =
  sg_type :: utext
  sg_desc :: utext
  sg_index_ddl :: utext
  sg_before :: utext
  sg_after :: utext

record diagnosis =
  dx_root_cause :: utext
  dx_severity :: string
  dx_bottleneck :: string
  dx_evidence :: "utext list"
  dx_suggestions :: "suggestion list"
  dx_confidence :: rat
  dx_is_fallback :: bool
  dx_prompt_tokens :: int
  dx_completion_tokens :: int

definition DIAGNOSIS_FALLBACK :: diagnosis where
  "DIAGNOSIS_FALLBACK = \<lparr>dx_root_cause = u ''AI diagnosis skipped'', dx_severity = ''unknown'', dx_bottleneck = ''other'', dx_evidence = [],
     dx_suggestions = [], dx_confidence = 0, dx_is_fallback = True, dx_prompt_tokens = 0, dx_completion_tokens = 0\<rparr>"

text \<open>\<open>max(0.0, min(1.0, x))\<close>; \<open>min\<close> keeps its first argument unless the second is smaller, which NaN never is.\<close>

fun confidence_of :: "flt \<Rightarrow> rat" where
  "confidence_of (Fin x) = clamp 0 1 x"
| "confidence_of NegZero = 0"
| "confidence_of NegInf = 0"
| "confidence_of PosInf = 1"
| "confidence_of NaN = 1"

definition suggestion_of :: "unicode \<Rightarrow> json \<Rightarrow> suggestion option" where
  "suggestion_of uc v = (case v of
       JObj d \<Rightarrow> Some \<lparr>sg_type = str_json uc (dget d ''type'' (JStr (u ''other''))), sg_desc = strip_emoji (str_json uc (dget d ''desc'' (JStr []))),
         sg_index_ddl = str_or_empty uc (dget d ''index_ddl'' (JStr [])), sg_before = str_or_empty uc (dget d ''before'' (JStr [])),
         sg_after = str_or_empty uc (dget d ''after'' (JStr []))\<rparr>
     | _ \<Rightarrow> None)"

definition evidence_of :: "unicode \<Rightarrow> json \<Rightarrow> utext list" where
  "evidence_of uc v = map (\<lambda>e. strip_emoji (str_json uc e)) (filter truth (case v of JArr es \<Rightarrow> es | _ \<Rightarrow> [JStr (str_json uc v)]))"

definition diagnosis_fields :: "unicode \<Rightarrow> (utext \<times> json) list \<Rightarrow> diagnosis res" where
  "diagnosis_fields uc d = bindE (value_or (map_sum id confidence_of (json_float uc (dget d ''confidence'' (JFloat (Fin 0))))) 0) (\<lambda>confidence.
     Inr \<lparr>dx_root_cause = or_text (strip_emoji (take 200 (str_json uc (dget d ''root_cause'' (JStr []))))) (u ''AI diagnosis finished''),
       dx_severity = normalize_level_json uc (dget d ''severity'' JNull),
       dx_bottleneck = word_of BOTTLENECKS ''other'' (ulower (str_json uc (dget d ''bottleneck_type'' (JStr [])))),
       dx_evidence = evidence_of uc (dget d ''evidence'' (JArr [])),
       dx_suggestions = (case dget d ''suggestions'' (JArr []) of JArr vs \<Rightarrow> List.map_filter (suggestion_of uc) vs | _ \<Rightarrow> []),
       dx_confidence = confidence, dx_is_fallback = False, dx_prompt_tokens = 0, dx_completion_tokens = 0\<rparr>)"

definition parse_diagnosis_json :: "unicode \<Rightarrow> nat \<Rightarrow> utext option \<Rightarrow> diagnosis res" where
  "parse_diagnosis_json uc n content = bindE (extract_json_object n content) (\<lambda>r. case r of
       None \<Rightarrow> Inr DIAGNOSIS_FALLBACK
     | Some v \<Rightarrow> bindE (as_dict v) (diagnosis_fields uc))"

text \<open>The statistics of a slow query are a \<open>dict\<close> of fields.\<close>

definition apply_stat_severity :: "unicode \<Rightarrow> row_dict \<Rightarrow> diagnosis \<Rightarrow> diagnosis" where
  "apply_stat_severity uc st d = (if st = [] then d else
     (case severity_from_stats (measure_of uc (jget st ''query_time_p95'' CNone)) (measure_of uc (jget st ''parse_total_row_counts'' CNone))
         (measure_of uc (jget st ''return_total_row_counts'' CNone)) of
        None \<Rightarrow> d | Some l \<Rightarrow> d\<lparr>dx_severity := l\<rparr>))"

section \<open>The client\<close>

record scenario =
  sn_timeout :: int
  sn_max_retries :: int
  sn_max_tokens :: "int option"
  sn_no_thinking :: bool

definition AI_SCENARIOS :: "(string \<times> scenario) list" where
  "AI_SCENARIOS = (let plain = (\<lambda>t. \<lparr>sn_timeout = t, sn_max_retries = 1, sn_max_tokens = None, sn_no_thinking = False\<rparr>) in
     [(''nl2sql'', plain 60), (''sql_optimize'', plain 90), (''sql_optimize_agent'', plain 60), (''sql_review'', plain 60),
      (''slowquery_diagnosis'', \<lparr>sn_timeout = 60, sn_max_retries = 0, sn_max_tokens = Some 2000, sn_no_thinking = True\<rparr>),
      (''connection_test'', \<lparr>sn_timeout = 15, sn_max_retries = 0, sn_max_tokens = Some 1, sn_no_thinking = False\<rparr>)])"

datatype prompt =
    NlToSql (nl_db_type: string) (nl_schema: string) (nl_input: string) (nl_sample: string)
  | Optimize (op_db_type: string) (op_db_name: string) (op_sql: string) (op_schemas: string)
  | ReviewOne (ro_db_type: string) (ro_db_name: string) (ro_sql: string) (ro_schemas: string) (ro_rows: string)
  | ReviewBatch (rb_db_type: string) (rb_db_name: string) (rb_statements: "string list") (rb_schemas: string) (rb_rows: string)
  | Diagnose (di_db_type: string) (di_db_name: string) (di_sql: string) (di_stats: row_dict) (di_trend: string) (di_schemas: utext) (di_explain: string)

record request =
  rq_model :: string
  rq_prompt :: prompt
  rq_json :: bool
  rq_max_retries :: "int option"
  rq_max_tokens :: "int option"
  rq_no_thinking :: bool

text \<open>An answer: its text, if there is a choice, the tokens the gateway counted, if it did, and the time it took.\<close>

record completion =
  cp_content :: "utext option res"
  cp_usage :: "(int option \<times> int option) option"
  cp_elapsed :: int

record ai_client =
  cl_model :: string
  cl_scenario :: "scenario option"
  cl_answers :: "completion res list"
  cl_sent :: "request list"
  cl_last :: "int \<times> int"
  cl_total :: "int \<times> int"
  cl_last_ms :: int
  cl_total_ms :: int

definition OpenaiClient :: "world \<Rightarrow> string \<Rightarrow> completion res list \<Rightarrow> ai_client" where
  "OpenaiClient w scenario answers =
     \<lparr>cl_model = or_str (config_get w ''default_chat_model'' (PStr ''gpt-3.5-turbo'')), cl_scenario = map_of AI_SCENARIOS scenario,
      cl_answers = answers, cl_sent = [], cl_last = (0, 0), cl_total = (0, 0), cl_last_ms = 0, cl_total_ms = 0\<rparr>"

definition token_count :: "int option \<Rightarrow> int" where
  "token_count x = (case x of None \<Rightarrow> 0 | Some n \<Rightarrow> n)"

definition count_completion :: "completion \<Rightarrow> ai_client \<Rightarrow> ai_client" where
  "count_completion a c = (let (p, q) = (case cp_usage a of None \<Rightarrow> (0, 0) | Some (x, y) \<Rightarrow> (token_count x, token_count y)) in
     c\<lparr>cl_last := (p, q), cl_total := (fst (cl_total c) + p, snd (cl_total c) + q),
       cl_last_ms := cp_elapsed a, cl_total_ms := cl_total_ms c + cp_elapsed a\<rparr>)"

text \<open>\<open>_create_chat_completion\<close>: what the caller does not set is taken from the scenario.\<close>

definition first_of :: "'a option \<Rightarrow> 'a option \<Rightarrow> 'a option" where
  "first_of x y = (case x of None \<Rightarrow> y | Some v \<Rightarrow> Some v)"

definition chat_request :: "ai_client \<Rightarrow> prompt \<Rightarrow> bool \<Rightarrow> int option \<Rightarrow> int option \<Rightarrow> bool \<Rightarrow> request" where
  "chat_request c p json retries tokens no_thinking =
     \<lparr>rq_model = cl_model c, rq_prompt = p, rq_json = json, rq_max_retries = first_of retries (map_option sn_max_retries (cl_scenario c)),
      rq_max_tokens = first_of tokens (case cl_scenario c of None \<Rightarrow> None | Some sn \<Rightarrow> sn_max_tokens sn),
      rq_no_thinking = (no_thinking \<or> (case cl_scenario c of None \<Rightarrow> False | Some sn \<Rightarrow> sn_no_thinking sn))\<rparr>"

definition send :: "request \<Rightarrow> (ai_client, completion) M" where
  "send r = (\<lambda>c. let c' = c\<lparr>cl_sent := cl_sent c @ [r], cl_answers := drop 1 (cl_answers c)\<rparr> in
     case cl_answers c of
       [] \<Rightarrow> (Inl (PyException ''Connection error.''), c')
     | Inl e # _ \<Rightarrow> (Inl e, c')
     | Inr a # _ \<Rightarrow> (Inr a, count_completion a c'))"

definition create_chat_completion :: "prompt \<Rightarrow> bool \<Rightarrow> int option \<Rightarrow> int option \<Rightarrow> bool \<Rightarrow> (ai_client, completion) M" where
  "create_chat_completion p json retries tokens no_thinking =
     bindM (getsM (\<lambda>c. chat_request c p json retries tokens no_thinking)) send"

text \<open>\<open>_create_structured\<close>: without the JSON mode where the gateway does not know it.\<close>

definition create_structured :: "prompt \<Rightarrow> (ai_client, completion) M" where
  "create_structured p = catchM (create_chat_completion p True None None False)
     (\<lambda>e. Some (create_chat_completion p False None None False))"

definition content_of :: "(ai_client, completion) M \<Rightarrow> (ai_client, utext option) M" where
  "content_of m = bindM m (\<lambda>a. liftM (\<lambda>_. cp_content a))"

definition generate_sql_by_openai :: "string \<Rightarrow> string \<Rightarrow> string \<Rightarrow> string \<Rightarrow> (ai_client, utext option) M" where
  "generate_sql_by_openai db_type schema input sample =
     catchM (content_of (create_chat_completion (NlToSql db_type schema input sample) False None None False))
       (\<lambda>e. Some (throw (ValueError (''generating the query failed: '' @ exn_str e))))"

definition optimize_sql_by_openai :: "string \<Rightarrow> string \<Rightarrow> string \<Rightarrow> string \<Rightarrow> (ai_client, utext option) M" where
  "optimize_sql_by_openai db_type db_name sql schemas =
     catchM (content_of (create_chat_completion (Optimize db_type db_name sql schemas) False None None False))
       (\<lambda>e. Some (throw (ValueError (''optimising the statement failed: '' @ exn_str e))))"

definition review_sql_by_openai :: "unicode \<Rightarrow> nat \<Rightarrow> string \<Rightarrow> string \<Rightarrow> string \<Rightarrow> string \<Rightarrow> string \<Rightarrow> (ai_client, review) M" where
  "review_sql_by_openai uc n db_type db_name sql schemas rows =
     catchM (bindM (content_of (create_structured (ReviewOne db_type db_name sql schemas rows))) (\<lambda>t. liftM (\<lambda>_. parse_review_json uc n t)))
       (\<lambda>e. Some (ret REVIEW_FALLBACK))"

definition review_sql_batch_by_openai ::
  "unicode \<Rightarrow> nat \<Rightarrow> string \<Rightarrow> string \<Rightarrow> string list \<Rightarrow> string \<Rightarrow> string \<Rightarrow> (ai_client, review option list option) M" where
  "review_sql_batch_by_openai uc n db_type db_name statements schemas rows =
     catchM (bindM (content_of (create_structured (ReviewBatch db_type db_name statements schemas rows)))
              (\<lambda>t. liftM (\<lambda>_. parse_review_batch_json uc n t (length statements))))
       (\<lambda>e. Some (ret None))"

definition with_usage :: "completion \<Rightarrow> diagnosis \<Rightarrow> diagnosis" where
  "with_usage a d = (case cp_usage a of None \<Rightarrow> d
     | Some (x, y) \<Rightarrow> d\<lparr>dx_prompt_tokens := token_count x, dx_completion_tokens := token_count y\<rparr>)"

text \<open>The statistics that are written into the prompt.\<close>

definition prompt_stats :: "string \<Rightarrow> row_dict \<Rightarrow> row_dict" where
  "prompt_stats db_type st = filter (\<lambda>p. fst p \<in> set ([''query_time_p95'', ''total_execution_counts'', ''parse_total_row_counts'',
     ''return_total_row_counts''] @ (if db_type = ''mongo'' then [''collection_name'', ''operation_type'', ''has_sort''] else []))) st"

definition diagnose_slowquery_by_openai ::
  "unicode \<Rightarrow> nat \<Rightarrow> string \<Rightarrow> string \<Rightarrow> string \<Rightarrow> row_dict \<Rightarrow> string \<Rightarrow> utext \<Rightarrow> string \<Rightarrow> (ai_client, diagnosis) M" where
  "diagnose_slowquery_by_openai uc n db_type db_name sql st trend schemas explain =
     catchM (bindM (create_chat_completion (Diagnose db_type db_name sql (prompt_stats db_type st) trend schemas explain) False (Some 0) (Some 2000) True)
              (\<lambda>a. liftM (\<lambda>_. bindE (cp_content a) (\<lambda>t.
                 map_sum id (\<lambda>d. apply_stat_severity uc st (with_usage a d)) (parse_diagnosis_json uc n t)))))
       (\<lambda>e. Some (ret DIAGNOSIS_FALLBACK))"

section \<open>The account\<close>

record account =
  ac_capability :: string
  ac_client :: "ai_client option"
  ac_usage :: "(int \<times> int) option"
  ac_model :: string
  ac_db_type :: string
  ac_instance_name :: string
  ac_db_name :: string
  ac_user_name :: string
  ac_latency :: "int option"
  ac_status :: string
  ac_cache_hit :: bool
  ac_error :: string

record ai_env =
  ev_now :: usec
  ev_usage :: "ai_usage store"
  ev_client :: ai_client

definition usage_row :: "usec \<Rightarrow> account \<Rightarrow> ai_usage" where
  "usage_row now a =
     (let (p, q) = (case first_of (ac_usage a) (map_option cl_last (ac_client a)) of None \<Rightarrow> (0, 0) | Some x \<Rightarrow> x);
          latency = (case first_of (ac_latency a) (map_option cl_last_ms (ac_client a)) of None \<Rightarrow> 0 | Some x \<Rightarrow> x);
          model = (if ac_model a \<noteq> [] then ac_model a else case ac_client a of None \<Rightarrow> [] | Some c \<Rightarrow> cl_model c) in
      \<lparr>ul_id = 0, ul_capability = ac_capability a, ul_model = take 64 model, ul_db_type = take 32 (ac_db_type a),
       ul_instance_name = take 128 (ac_instance_name a), ul_db_name = take 128 (ac_db_name a), ul_user_name = take 128 (ac_user_name a),
       ul_prompt_tokens = p, ul_completion_tokens = q, ul_latency_ms = latency, ul_cache_hit = ac_cache_hit a,
       ul_status = take 16 (if ac_status a = [] then ''success'' else ac_status a), ul_error = take 500 (ac_error a), ul_created = now\<rparr>)"

definition set_ul_id :: "int \<Rightarrow> ai_usage \<Rightarrow> ai_usage" where
  "set_ul_id k r = r\<lparr>ul_id := k\<rparr>"

text \<open>\<open>record_ai_usage\<close> never raises.\<close>

definition record_ai_usage :: "account \<Rightarrow> ('z ai_env_scheme, unit) M" where
  "record_ai_usage a = (\<lambda>e. (Inr (), e\<lparr>ev_usage :=
     snd (write_stmt (\<lambda>t. (Inr (), tbl_create set_ul_id (usage_row (ev_now e) a) t)) (ev_usage e))\<rparr>))"

definition with_client :: "(ai_client, 'a) M \<Rightarrow> ('z ai_env_scheme, 'a) M" where
  "with_client m = (\<lambda>e. case m (ev_client e) of (r, c) \<Rightarrow> (r, e\<lparr>ev_client := c\<rparr>))"

definition check_openai_config :: "world \<Rightarrow> bool" where
  "check_openai_config w = truthy (config_get w ''openai_api_key'' PNone)"

end
