(* ===== verification/PyDate.thy ===== *)
theory PyDate
  imports PyFloat
begin

text \<open>
  Dates of Python's \<open>datetime\<close>: the proleptic Gregorian calendar, and the two formats in which the repository reads
  and writes times. A time is a number of microseconds since 1970; reading a text that was written gives the time back.
\<close>

section \<open>The calendar\<close>

definition leap :: "nat \<Rightarrow> bool" where
  "leap y = (y mod 4 = 0 \<and> (y mod 100 \<noteq> 0 \<or> y mod 400 = 0))"

definition year_length :: "nat \<Rightarrow> nat" where
  "year_length y = (if leap y then 366 else 365)"

definition month_length :: "nat \<Rightarrow> nat \<Rightarrow> nat" where
  "month_length y m = (if m = 2 then (if leap y then 29 else 28) else if m \<in> {4, 6, 9, 11} then 30 else 31)"

definition days_before_year :: "nat \<Rightarrow> nat" where
  "days_before_year y = (let p = y - 1 in 365 * p + p div 4 - p div 100 + p div 400)"

text \<open>The number of a day, counted from the first of January of the year one, and back.\<close>

definition ordinal :: "nat \<Rightarrow> nat \<Rightarrow> nat \<Rightarrow> nat" where
  "ordinal y m d = days_before_year y + sum_list (map (month_length y) [1..<m]) + d - 1"

fun month_of :: "nat \<Rightarrow> nat list \<Rightarrow> nat \<Rightarrow> nat \<times> nat" where
  "month_of y [] n = (12, n)"
| "month_of y (m # ms) n = (if n < month_length y m then (m, n) else month_of y ms (n - month_length y m))"

definition year_guess :: "nat \<Rightarrow> nat" where
  "year_guess n = Suc (n div 366)"

lemma days_before_year_bound: "365 * y \<le> days_before_year (Suc y)"
proof -
  have "y div 100 \<le> y div 4" by (simp add: div_le_mono2)
  then show ?thesis by (simp add: days_before_year_def Let_def)
qed

function year_from :: "nat \<Rightarrow> nat \<Rightarrow> nat" where
  "year_from y n = (if n < days_before_year (Suc y) then y else year_from (Suc y) n)"
  by pat_completeness auto

termination
proof (relation "measure (\<lambda>(y, n). Suc n - y)")
  fix y n :: nat assume "\<not> n < days_before_year (Suc y)"
  then have "365 * y \<le> n" using days_before_year_bound [of y] by simp
  then show "((Suc y, n), (y, n)) \<in> measure (\<lambda>(y, n). Suc n - y)" by simp
qed simp

declare year_from.simps [simp del]

definition civil :: "nat \<Rightarrow> nat \<times> nat \<times> nat" where
  "civil n = (let y = year_from (year_guess n) n; (m, d) = month_of y [1..<13] (n - days_before_year y) in (y, m, Suc d))"

definition valid_date :: "nat \<Rightarrow> nat \<Rightarrow> nat \<Rightarrow> bool" where
  "valid_date y m d = (1 \<le> y \<and> y \<le> 9999 \<and> 1 \<le> m \<and> m \<le> 12 \<and> 1 \<le> d \<and> d \<le> month_length y m)"

lemma leap_sum:
  fixes a b c p :: nat
  assumes "b \<le> a" "C \<longrightarrow> B" "B \<longrightarrow> A"
  shows "365 * Suc p + (a + (if A then 1 else 0)) - (b + (if B then 1 else 0)) + (c + (if C then 1 else 0))
    = 365 * p + a - b + c + (if A \<and> (\<not> B \<or> C) then 366 else 365)"
proof -
  obtain k where "a = b + k" using assms(1) le_Suc_ex by blast
  then show ?thesis using assms(2,3) by (cases A; cases B; cases C) simp_all
qed

lemma days_before_year_Suc: "1 \<le> y \<Longrightarrow> days_before_year (Suc y) = days_before_year y + year_length y"
proof -
  assume "1 \<le> y"
  then obtain p where y: "y = Suc p" by (cases y) auto
  have "(100::nat) dvd 400" "(4::nat) dvd 100" by simp_all
  then have mods: "Suc p mod 400 = 0 \<longrightarrow> Suc p mod 100 = 0" "Suc p mod 100 = 0 \<longrightarrow> Suc p mod 4 = 0"
    by (auto simp only: mod_eq_0_iff_dvd intro: dvd_trans)
  have "days_before_year (Suc y) = 365 * Suc p + Suc p div 4 - Suc p div 100 + Suc p div 400"
    by (simp add: y days_before_year_def Let_def)
  also have "\<dots> = 365 * Suc p + (p div 4 + (if Suc p mod 4 = 0 then 1 else 0)) - (p div 100 + (if Suc p mod 100 = 0 then 1 else 0))
      + (p div 400 + (if Suc p mod 400 = 0 then 1 else 0))"
    by (simp only: div_Suc) simp
  also have "\<dots> = 365 * p + p div 4 - p div 100 + p div 400
      + (if Suc p mod 4 = 0 \<and> (\<not> Suc p mod 100 = 0 \<or> Suc p mod 400 = 0) then 366 else 365)"
    by (rule leap_sum [OF _ mods]) (simp add: div_le_mono2)
  also have "\<dots> = days_before_year y + year_length y"
    by (simp add: y days_before_year_def year_length_def leap_def Let_def)
  finally show ?thesis .
qed

lemma days_before_year_mono: "1 \<le> y \<Longrightarrow> y \<le> z \<Longrightarrow> days_before_year y \<le> days_before_year z"
proof (induction z)
  case (Suc z)
  then show ?case by (cases "y = Suc z") (auto simp: days_before_year_Suc)
qed simp

lemma year_from_correct:
  assumes "days_before_year z \<le> n" "n < days_before_year (Suc z)" "1 \<le> y" "y \<le> z"
  shows "year_from y n = z"
  using assms(3,4)
proof (induction "z - y" arbitrary: y)
  case 0
  then have "y = z" by simp
  then show ?case using assms(2) by (subst year_from.simps) simp
next
  case (Suc k)
  then have "Suc y \<le> z" by simp
  then have "days_before_year (Suc y) \<le> n" using days_before_year_mono [of "Suc y" z] assms(1) by simp
  moreover have "year_from (Suc y) n = z" by (rule Suc.hyps(1)) (use Suc in auto)
  ultimately show ?case by (subst year_from.simps) simp
qed

lemma year_guess_below:
  assumes "n < days_before_year (Suc z)"
  shows "year_guess n \<le> z"
proof -
  have "z div 4 + z div 400 \<le> z"
    using div_le_mono2 [of 4 400 z] div_times_less_eq_dividend [of z 4] by simp
  then have "days_before_year (Suc z) \<le> 366 * z" by (simp add: days_before_year_def Let_def)
  then have "n < z * 366" using assms by simp
  then have "n div 366 < z" by (simp add: div_less_iff_less_mult)
  then show ?thesis by (simp add: year_guess_def)
qed

lemma month_of_correct:
  assumes "d < month_length y m" "a \<le> m" "m \<le> 12"
  shows "month_of y [a..<13] (sum_list (map (month_length y) [a..<m]) + d) = (m, d)"
  using assms(2,3)
proof (induction "m - a" arbitrary: a)
  case 0
  then have "a = m" by simp
  then show ?case using assms(1) 0 by (simp add: upt_rec [of m 13])
next
  case (Suc k)
  then have "a < m" by simp
  then have "[a..<13] = a # [Suc a..<13]" "[a..<m] = a # [Suc a..<m]" using Suc.prems by (simp_all add: upt_rec)
  with Suc show ?case by simp
qed

lemma month_start_bound:
  assumes "valid_date y m d"
  shows "sum_list (map (month_length y) [1..<m]) + d \<le> year_length y"
proof -
  have "1 \<le> m \<and> m \<le> 12" using assms by (simp add: valid_date_def)
  then have "m \<in> {1, 2, 3, 4, 5, 6, 7, 8, 9, 10, 11, 12}" unfolding insert_iff empty_iff by presburger
  then show ?thesis using assms
    by (auto simp: valid_date_def month_length_def year_length_def upt_rec split: if_splits)
qed

lemma civil_ordinal:
  assumes "valid_date y m d"
  shows "civil (ordinal y m d) = (y, m, d)"
proof -
  let ?k = "sum_list (map (month_length y) [1..<m])"
  from assms have y: "1 \<le> y" "1 \<le> m" "m \<le> 12" "1 \<le> d" "d \<le> month_length y m" by (auto simp: valid_date_def)
  have n: "ordinal y m d = days_before_year y + (?k + (d - 1))" using y by (simp add: ordinal_def)
  moreover have "?k + (d - 1) < year_length y" using month_start_bound [OF assms] y by simp
  ultimately have bounds: "days_before_year y \<le> ordinal y m d" "ordinal y m d < days_before_year (Suc y)"
    using days_before_year_Suc [OF y(1)] by simp_all
  have "year_from (year_guess (ordinal y m d)) (ordinal y m d) = y"
    by (rule year_from_correct [OF bounds]) (simp_all add: year_guess_def [symmetric] year_guess_below [OF bounds(2)], simp add: year_guess_def)
  moreover have "month_of y [1..<13] (?k + (d - 1)) = (m, d - 1)" by (rule month_of_correct) (use y in auto)
  ultimately show ?thesis using y by (simp add: civil_def n Let_def)
qed

section \<open>Texts\<close>

text \<open>A time of the day is a number of seconds.\<close>

definition digits :: "nat \<Rightarrow> string" where
  "digits n = [digit_char (n div 10), digit_char (n mod 10)]"

definition date_text :: "nat \<Rightarrow> nat \<Rightarrow> nat \<Rightarrow> string" where
  "date_text y m d = str_nat y @ ''-'' @ digits m @ ''-'' @ digits d"

definition clock_text :: "nat \<Rightarrow> string" where
  "clock_text s = digits (s div 3600) @ '':'' @ digits (s div 60 mod 60) @ '':'' @ digits (s mod 60)"

definition epoch_ordinal :: nat where
  "epoch_ordinal = 719162"

definition day_of :: "int \<Rightarrow> int" where
  "day_of t = t div 86400000000"

definition second_of :: "int \<Rightarrow> nat" where
  "second_of t = nat (t mod 86400000000 div 1000000)"

text \<open>\<open>strftime\<close> with the format of dates, and with the one of dates and times.\<close>

definition day_text :: "int \<Rightarrow> string" where
  "day_text k = (case civil (nat (k + int epoch_ordinal)) of (y, m, d) \<Rightarrow> date_text y m d)"

definition strftime_date :: "int \<Rightarrow> string" where
  "strftime_date t = day_text (day_of t)"

definition strftime_time :: "int \<Rightarrow> string" where
  "strftime_time t = strftime_date t @ '' '' @ clock_text (second_of t)"

text \<open>\<open>strptime\<close>: a year has four digits, the other fields one or two, and the blank stands for white space.\<close>

definition num :: "string \<Rightarrow> nat" where
  "num s = foldl (\<lambda>n c. 10 * n + digit_val c) 0 s"

definition read_field :: "nat \<Rightarrow> nat \<Rightarrow> string \<Rightarrow> (nat \<times> string) option" where
  "read_field lo hi s = (let t = takeWhile is_digit s in
     if t \<noteq> [] \<and> length t \<le> 2 \<and> lo \<le> num t \<and> num t \<le> hi then Some (num t, drop (length t) s) else None)"

definition read_day :: "string \<Rightarrow> (nat \<times> string) option" where
  "read_day s = (if s \<noteq> [] \<and> hd s = CHR '' '' \<and> length (takeWhile is_digit (tl s)) = 1 then read_field 1 9 (tl s) else read_field 1 31 s)"

definition read_year :: "string \<Rightarrow> (nat \<times> string) option" where
  "read_year s = (if length s < 4 \<or> \<not> list_all is_digit (take 4 s) then None else Some (num (take 4 s), drop 4 s))"

definition read_char :: "char \<Rightarrow> (nat \<times> string) option \<Rightarrow> (nat \<times> string) option" where
  "read_char c r = (case r of Some (v, d # s) \<Rightarrow> if d = c then Some (v, s) else None | _ \<Rightarrow> None)"

definition then_read :: "(nat \<times> string) option \<Rightarrow> (nat \<Rightarrow> string \<Rightarrow> 'a option) \<Rightarrow> 'a option" where
  "then_read r f = (case r of None \<Rightarrow> None | Some (v, s) \<Rightarrow> f v s)"

definition to_day :: "nat \<Rightarrow> nat \<Rightarrow> nat \<Rightarrow> int" where
  "to_day y m d = int (ordinal y m d) - int epoch_ordinal"

definition read_date :: "string \<Rightarrow> (int \<times> string) option" where
  "read_date s = then_read (read_char (CHR ''-'') (read_year s)) (\<lambda>y s. then_read (read_char (CHR ''-'') (read_field 1 12 s)) (\<lambda>m s.
     then_read (read_day s) (\<lambda>d s. if valid_date y m d then Some (to_day y m d, s) else None)))"

definition read_clock :: "string \<Rightarrow> nat option" where
  "read_clock s = then_read (read_char (CHR '':'') (read_field 0 23 s)) (\<lambda>h s. then_read (read_char (CHR '':'') (read_field 0 59 s)) (\<lambda>m s.
     then_read (read_field 0 59 s) (\<lambda>x s. if s = [] then Some (3600 * h + 60 * m + x) else None)))"

definition strptime_date :: "string \<Rightarrow> int option" where
  "strptime_date s = (case read_date s of Some (k, []) \<Rightarrow> Some (k * 86400000000) | _ \<Rightarrow> None)"

definition strptime_time :: "string \<Rightarrow> int option" where
  "strptime_time s = (case read_date s of
       Some (k, c # r) \<Rightarrow> (if is_space c then map_option (\<lambda>x. k * 86400000000 + int x * 1000000) (read_clock (dropWhile is_space r)) else None)
     | _ \<Rightarrow> None)"

text \<open>What was written is read back: a date to the start of its day, a time to its second.\<close>

definition in_range :: "int \<Rightarrow> bool" where
  "in_range t = (\<exists>y m d. valid_date y m d \<and> 1000 \<le> y \<and> day_of t = to_day y m d)"

lemma num_digits: "n < 100 \<Longrightarrow> num (digits n) = n"
  by (simp add: num_def digits_def)

lemma takeWhile_digits: "n < 100 \<Longrightarrow> takeWhile is_digit (digits n @ s) = digits n @ takeWhile is_digit s"
  by (simp add: digits_def)

lemma length_digits [simp]: "length (digits n) = 2" "digits n \<noteq> []"
  by (simp_all add: digits_def)

lemma read_field_digits:
  "n < 100 \<Longrightarrow> lo \<le> n \<Longrightarrow> n \<le> hi \<Longrightarrow> takeWhile is_digit s = [] \<Longrightarrow> read_field lo hi (digits n @ s) = Some (n, s)"
  by (simp add: read_field_def takeWhile_digits num_digits Let_def)

lemma year_digits:
  assumes "1000 \<le> y" "y \<le> 9999"
  shows "str_nat y = [digit_char (y div 1000), digit_char (y div 100 mod 10), digit_char (y div 10 mod 10), digit_char (y mod 10)]"
proof -
  have parts: "y div 10 div 10 = y div 100" "y div 100 div 10 = y div 1000" by (simp_all add: div_mult2_eq [symmetric])
  have "y div 1000 < 10" using assms(2) by (intro less_mult_imp_div_less) simp
  moreover have "1000 div 100 \<le> y div 100" "1000 div 10 \<le> y div 10" using assms(1) by (intro div_le_mono; simp)+
  then have "\<not> y div 100 < 10" "\<not> y div 10 < 10" "\<not> y < 10" using assms(1) by simp_all
  ultimately show ?thesis
    using parts by (simp add: str_nat.simps [of y] str_nat.simps [of "y div 10"] str_nat.simps [of "y div 100"] str_nat.simps [of "y div 1000"])
qed

lemma read_year_text:
  assumes "1000 \<le> y" "y \<le> 9999"
  shows "read_year (str_nat y @ s) = Some (y, s)"
proof -
  define a b c where "a = y div 10" "b = y div 100" "c = y div 1000"
  then have parts: "a div 10 = b" "b div 10 = c" by (simp_all add: div_mult2_eq [symmetric])
  have e: "y = 10 * a + y mod 10" "a = 10 * b + a mod 10" "b = 10 * c + b mod 10"
    using mult_div_mod_eq [of 10 y] mult_div_mod_eq [of 10 a] mult_div_mod_eq [of 10 b] unfolding parts a_b_c_def(1) [symmetric] by (simp_all only:)
  have "c < 10" using assms(2) unfolding a_b_c_def by (intro less_mult_imp_div_less) simp
  then show ?thesis
    using e by (simp add: read_year_def year_digits [OF assms] num_def flip: a_b_c_def)
qed

lemma read_day_text:
  assumes "1 \<le> d" "d \<le> 31" "takeWhile is_digit s = []"
  shows "read_day (digits d @ s) = Some (d, s)"
proof -
  have "digit_char (d div 10) \<noteq> CHR '' ''"
  proof
    assume "digit_char (d div 10) = CHR '' ''"
    moreover have "d div 10 < 10" using assms(2) by (intro less_mult_imp_div_less) simp
    ultimately show False using digit_char_code [of "d div 10"] by (simp add: char_code_def)
  qed
  then have "read_day (digits d @ s) = read_field 1 31 (digits d @ s)" by (simp add: read_day_def digits_def)
  then show ?thesis using assms by (simp add: read_field_digits)
qed

lemma read_date_text:
  assumes "valid_date y m d" "1000 \<le> y" "takeWhile is_digit s = []"
  shows "read_date (date_text y m d @ s) = Some (to_day y m d, s)"
proof -
  have b: "y \<le> 9999" "1 \<le> m" "m \<le> 12" "1 \<le> d" using assms(1) by (simp_all add: valid_date_def)
  have "month_length y m \<le> 31" by (simp add: month_length_def)
  then have "d \<le> 31" using assms(1) by (simp add: valid_date_def)
  then show ?thesis using assms b
    by (simp add: read_date_def date_text_def read_char_def then_read_def read_year_text read_field_digits read_day_text is_digit_def char_code_def)
qed

lemma read_clock_text:
  assumes "n < 86400"
  shows "read_clock (clock_text n) = Some n"
proof -
  have b: "n div 3600 \<le> 23" "n div 60 mod 60 \<le> 59" "n mod 60 \<le> 59"
    using assms less_mult_imp_div_less [of n 24 3600] by (simp_all add: less_Suc_eq_le [symmetric])
  have "60 * (n div 60) + n mod 60 = n" "60 * (n div 60 div 60) + n div 60 mod 60 = n div 60" by (rule mult_div_mod_eq)+
  moreover have "n div 60 div 60 = n div 3600" by (simp add: div_mult2_eq [symmetric])
  ultimately have "3600 * (n div 3600) + 60 * (n div 60 mod 60) + n mod 60 = n" by linarith
  then show ?thesis using b read_field_digits [of "n mod 60" 0 59 "[]"]
    by (simp add: read_clock_def clock_text_def read_char_def then_read_def read_field_digits is_digit_def char_code_def)
qed

lemma day_text_of: "valid_date y m d \<Longrightarrow> day_text (to_day y m d) = date_text y m d"
  by (simp add: day_text_def to_day_def civil_ordinal)

lemma div_int_less: "a < 86400000000 \<Longrightarrow> a div 1000000 < (86400::int)"
  by presburger

lemma time_split: "t = day_of t * 86400000000 + t mod 86400000000"
  by (simp add: day_of_def)

lemma date_read_back:
  assumes "in_range t"
  shows "strptime_date (strftime_date t) = Some (day_of t * 86400000000)"
proof -
  obtain y m d where t: "valid_date y m d" "1000 \<le> y" "day_of t = to_day y m d" using assms by (auto simp: in_range_def)
  then show ?thesis using read_date_text [OF t(1,2), of "[]"] by (simp add: strptime_date_def strftime_date_def day_text_of)
qed

lemma time_read_back:
  assumes "in_range t"
  shows "strptime_time (strftime_time t) = Some (t - t mod 1000000)"
proof -
  obtain y m d where t: "valid_date y m d" "1000 \<le> y" "day_of t = to_day y m d" using assms by (auto simp: in_range_def)
  let ?n = "second_of t"
  have "t mod 86400000000 div 1000000 < 86400" by (rule div_int_less) simp
  then have n: "?n < 86400" "int ?n = t mod 86400000000 div 1000000" by (auto simp: second_of_def)
  have "hd (clock_text ?n) = digit_char (?n div 3600 div 10)" "clock_text ?n \<noteq> []" by (simp_all add: clock_text_def digits_def)
  moreover have "?n div 3600 div 10 < 10" using n(1) by (simp add: div_mult2_eq [symmetric] less_mult_imp_div_less)
  ultimately have c: "dropWhile is_space (clock_text ?n) = clock_text ?n" by (cases "clock_text ?n") auto
  have "read_date (date_text y m d @ '' '' @ clock_text ?n) = Some (to_day y m d, '' '' @ clock_text ?n)"
    by (rule read_date_text [OF t(1,2)]) (simp add: is_digit_def char_code_def)
  then have "strptime_time (strftime_time t) = Some (day_of t * 86400000000 + int ?n * 1000000)"
    using c read_clock_text [OF n(1)]
    by (simp add: strptime_time_def strftime_time_def strftime_date_def t(3) day_text_of [OF t(1)] is_space_def char_code_def Let_def)
  moreover have "t mod 86400000000 div 1000000 * 1000000 = t mod 86400000000 - t mod 86400000000 mod 1000000"
    by (simp add: minus_mod_eq_div_mult)
  moreover have "t mod 86400000000 mod 1000000 = t mod 1000000" by (rule mod_mod_cancel) simp
  ultimately show ?thesis using time_split [of t] n(2) by simp
qed

lemma time_is_no_date:
  assumes "in_range t"
  shows "strptime_date (strftime_time t) = None"
proof -
  obtain y m d where t: "valid_date y m d" "1000 \<le> y" "day_of t = to_day y m d" using assms by (auto simp: in_range_def)
  have "read_date (date_text y m d @ '' '' @ clock_text (second_of t)) = Some (to_day y m d, '' '' @ clock_text (second_of t))"
    by (rule read_date_text [OF t(1,2)]) (simp add: is_digit_def char_code_def)
  then show ?thesis by (simp add: strptime_date_def strftime_time_def strftime_date_def t(3) day_text_of [OF t(1)])
qed

end
