(* ===== verification/SlowStats.thy ===== *)
theory SlowStats
  imports SlowQuery PyDate QueryPrivileges Cells
begin

text \<open>
  The statistics of slow queries in \<open>sql_api/api_slowquery_v2.py\<close>: the lists of fingerprints and of single queries with
  their filters and pages, and the trend of a fingerprint. Instances of Aliyun are asked through the cloud's own
  interface, which is a parameter. Rows with equal keys come in the order of the table.
\<close>

section \<open>Requests and answers\<close>

datatype 'a reply = Data 'a | Refused string

record stats_page = pg_rows :: "row_dict list" pg_total :: cell

record stats_request =
  sq_instance :: string
  sq_start :: string
  sq_end :: string
  sq_db :: string
  sq_sql_id :: string
  sq_search :: string
  sq_limit :: pyval
  sq_offset :: pyval

definition may_see_slowquery :: "user \<Rightarrow> bool" where
  "may_see_slowquery usr = (u_is_superuser usr \<or> has_perm usr ''sql.menu_slowquery'')"

definition get_and_check_instance :: "world \<Rightarrow> user \<Rightarrow> string \<Rightarrow> instance_row res" where
  "get_and_check_instance w usr name =
     (if name = [] then Inl (DoesNotExist ''Instance'')
      else bindE (tbl_get ''Instance'' (\<lambda>i. i_instance_name i = name) (w_instances w)) (\<lambda>i.
        case filter (\<lambda>x. i_instance_name x = name) (user_instances w usr [] [i_db_type i] []) of
          [] \<Rightarrow> Inl (DoesNotExist ''Instance'')
        | [x] \<Rightarrow> Inr i
        | _ \<Rightarrow> Inl (MultipleObjectsReturned ''Instance'')))"

definition parse_date :: "string \<Rightarrow> usec option" where
  "parse_date s = (if s = [] then None else case strptime_date s of Some t \<Rightarrow> Some t | None \<Rightarrow> strptime_time s)"

definition safe_int :: "pyval \<Rightarrow> int \<Rightarrow> int" where
  "safe_int v d = (if truthy v then (case pyval_int v of Inr n \<Rightarrow> n | Inl e \<Rightarrow> d) else d)"

text \<open>The times Python knows: adding days may leave them.\<close>

definition date_range :: "usec \<Rightarrow> bool" where
  "date_range t = (to_day 1 1 1 \<le> day_of t \<and> day_of t \<le> to_day 9999 12 31)"

definition plus_days :: "usec \<Rightarrow> int \<Rightarrow> usec res" where
  "plus_days t n = (if date_range (t + days n) then Inr (t + days n) else Inl overflow)"

definition default_text :: "string \<Rightarrow> string \<Rightarrow> string" where
  "default_text s d = (if s = [] then d else s)"

definition request_period :: "usec \<Rightarrow> stats_request \<Rightarrow> (usec option \<times> usec option) res" where
  "request_period now q =
     (let start = parse_date (default_text (sq_start q) ''2010-01-01''); stop = parse_date (default_text (sq_end q) (strftime_date now)) in
      case stop of None \<Rightarrow> Inr (start, None) | Some t \<Rightarrow> map_sum id (\<lambda>x. (start, Some x)) (plus_days t 1))"

section \<open>Tables by their columns\<close>

text \<open>The columns of a model; naming any other one is an error of the ORM.\<close>

type_synonym 'r columns = "string \<Rightarrow> ('r \<Rightarrow> cell) option"

definition column :: "'r columns \<Rightarrow> string \<Rightarrow> ('r \<Rightarrow> cell) res" where
  "column cols f = (case cols f of Some g \<Rightarrow> Inr g | None \<Rightarrow> Inl (PyException (''FieldError: Cannot resolve keyword '' @ f)))"

definition summary_columns :: "'m summary_scheme columns" where
  "summary_columns = map_of [(''sql_hash'', \<lambda>r. CText (su_hash r)), (''fingerprint'', \<lambda>r. CText (su_fingerprint r)),
     (''sample_sql'', \<lambda>r. otext (su_sample r)), (''total_execution_counts'', \<lambda>r. CInt (su_counts r)),
     (''total_execution_times'', \<lambda>r. CNum (su_times r)), (''query_time_avg'', \<lambda>r. CNum (su_avg r)),
     (''query_time_p95'', \<lambda>r. CNum (su_p95 r)), (''first_seen'', \<lambda>r. otime (su_first r)), (''last_seen'', \<lambda>r. otime (su_last r))]"

definition mysql_summary_columns :: "mysql_summary columns" where
  "mysql_summary_columns = summary_columns ++ map_of [(''db_name'', \<lambda>r. otext (ms_db r)), (''user_name'', \<lambda>r. otext (ms_user r)),
     (''parse_total_row_counts'', \<lambda>r. CInt (ms_parse_total r)), (''return_total_row_counts'', \<lambda>r. CInt (ms_return_total r)),
     (''parse_row_avg'', \<lambda>r. CNum (ms_parse_avg r)), (''return_row_avg'', \<lambda>r. CNum (ms_return_avg r))]"

definition pgsql_summary_columns :: "pgsql_summary columns" where
  "pgsql_summary_columns = summary_columns ++ map_of [(''db_name'', \<lambda>r. otext (ps_db r)), (''user_name'', \<lambda>r. otext (ps_user r)),
     (''rows_sum'', \<lambda>r. CInt (ps_rows r)), (''rows_avg'', \<lambda>r. CNum (ps_rows_avg r)), (''shared_blks_hit'', \<lambda>r. CInt (ps_hit r)),
     (''shared_blks_read'', \<lambda>r. CInt (ps_read r))]"

definition mongo_summary_columns :: "mongo_summary columns" where
  "mongo_summary_columns = summary_columns ++ map_of [(''db_name'', \<lambda>r. otext (gs_db r)), (''collection_name'', \<lambda>r. otext (gs_coll r)),
     (''operation_type'', \<lambda>r. otext (gs_op r)), (''docs_examined_avg'', \<lambda>r. CNum (gs_examined_avg r)),
     (''docs_returned_avg'', \<lambda>r. CNum (gs_returned_avg r)), (''has_sort'', \<lambda>r. CBool (gs_sort r))]"

definition redis_summary_columns :: "redis_summary columns" where
  "redis_summary_columns = summary_columns"

definition detail_columns :: "string \<Rightarrow> string \<Rightarrow> 'd detail_scheme columns" where
  "detail_columns text_name time_name = map_of [(''sql_hash'', \<lambda>r. otext (dt_hash r)), (''execution_start_time'', \<lambda>r. CTime (dt_start r)),
     (''host_address'', \<lambda>r. CText (dt_host r)), (text_name, \<lambda>r. CText (dt_text r)), (time_name, \<lambda>r. CNum (dt_time r))]"

definition mysql_detail_columns :: "mysql_detail columns" where
  "mysql_detail_columns = detail_columns ''sql_text'' ''query_time'' ++ map_of [(''user_name'', \<lambda>r. CText (md_user r)),
     (''db_name'', \<lambda>r. otext (md_db r)), (''lock_time'', \<lambda>r. CNum (md_lock r)), (''rows_sent'', \<lambda>r. CInt (md_sent r)),
     (''rows_examined'', \<lambda>r. CInt (md_examined r))]"

definition pgsql_detail_columns :: "pgsql_detail columns" where
  "pgsql_detail_columns = detail_columns ''sql_text'' ''query_time'' ++ map_of [(''user_name'', \<lambda>r. CText (pd_user r)),
     (''db_name'', \<lambda>r. otext (pd_db r)), (''rows_sent'', \<lambda>r. CInt (pd_sent r)), (''shared_blks_hit'', \<lambda>r. CInt (pd_hit r)),
     (''shared_blks_read'', \<lambda>r. CInt (pd_read r))]"

definition mongo_detail_columns :: "mongo_detail columns" where
  "mongo_detail_columns = detail_columns ''command_text'' ''duration'' ++ map_of [(''user_name'', \<lambda>r. CText (gd_user r)),
     (''db_name'', \<lambda>r. otext (gd_db r)), (''collection_name'', \<lambda>r. otext (gd_coll r)), (''operation_type'', \<lambda>r. otext (gd_op r)),
     (''docs_examined'', \<lambda>r. CInt (gd_examined r)), (''docs_returned'', \<lambda>r. CInt (gd_returned r)),
     (''nreturned'', \<lambda>r. CInt (gd_nreturned r)), (''has_sort'', \<lambda>r. CBool (gd_sort r)), (''plan_summary'', \<lambda>r. CText (gd_plan r))]"

definition redis_detail_columns :: "redis_detail columns" where
  "redis_detail_columns = detail_columns ''command_text'' ''duration''"

section \<open>Filters\<close>

definition at_least :: "usec \<Rightarrow> cell \<Rightarrow> bool" where
  "at_least t c = (case c of CTime x \<Rightarrow> t \<le> x | _ \<Rightarrow> False)"

definition at_most :: "usec \<Rightarrow> cell \<Rightarrow> bool" where
  "at_most t c = (case c of CTime x \<Rightarrow> x \<le> t | _ \<Rightarrow> False)"

definition cell_contains :: "string \<Rightarrow> cell \<Rightarrow> bool" where
  "cell_contains sub c = (case c of CText s \<Rightarrow> icontains s sub | _ \<Rightarrow> False)"

text \<open>One \<open>qs.filter\<close>, made if \<open>c\<close>.\<close>

definition narrow :: "bool \<Rightarrow> 'r columns \<Rightarrow> string \<Rightarrow> (cell \<Rightarrow> bool) \<Rightarrow> 'r list \<Rightarrow> 'r list res" where
  "narrow c cols f P rs = (if c then bindE (column cols f) (\<lambda>g. Inr (filter (\<lambda>r. P (g r)) rs)) else Inr rs)"

definition build_queryset ::
  "'r columns \<Rightarrow> usec option \<Rightarrow> usec option \<Rightarrow> string \<Rightarrow> string \<Rightarrow> string \<Rightarrow> string \<Rightarrow> 'r list \<Rightarrow> 'r list res" where
  "build_queryset cols start stop db search search_field time_field rs =
     bindE (case start of None \<Rightarrow> Inr rs | Some t \<Rightarrow> narrow True cols time_field (at_least t) rs) (\<lambda>rs.
     bindE (case stop of None \<Rightarrow> Inr rs | Some t \<Rightarrow> narrow True cols time_field (at_most t) rs) (\<lambda>rs.
     bindE (narrow (db \<noteq> []) cols ''db_name'' (\<lambda>c. c = CText db) rs)
       (narrow (search \<noteq> []) cols search_field (cell_contains search))))"

text \<open>\<open>order_by("-...")[offset:offset + limit]\<close>.\<close>

definition sort_desc :: "('r \<Rightarrow> 'k::linorder) \<Rightarrow> 'r list \<Rightarrow> 'r list" where
  "sort_desc key rs = rev (sort_key key (rev rs))"

definition slice :: "int \<Rightarrow> int \<Rightarrow> 'r list \<Rightarrow> 'r list res" where
  "slice offset limit rs = (if offset < 0 \<or> offset + limit < 0 then Inl (ValueError ''Negative indexing is not supported.'')
     else Inr (take (nat limit) (drop (nat offset) rs)))"

definition select_values :: "'r columns \<Rightarrow> string list \<Rightarrow> 'r list \<Rightarrow> row_dict list res" where
  "select_values cols fs rs = bindE (mapE (\<lambda>f. bindE (column cols f) (\<lambda>g. Inr (f, g))) fs) (\<lambda>gs.
     Inr (map (\<lambda>r. map (\<lambda>(f, g). (f, g r)) gs) rs))"

section \<open>The configuration\<close>

record field_config =
  fc_fields :: "string list"
  fc_map :: "(string \<times> string) list"
  fc_round :: "string list"
  fc_int :: "string list"
  fc_bool :: "string list"

definition times_fields :: "string list" where
  "times_fields = [''total_execution_times'', ''query_time_avg'', ''query_time_p95'']"

definition common_map :: "(string \<times> string) list" where
  "common_map = [(''sql_hash'', ''SQLId''), (''fingerprint'', ''SQLText''), (''last_seen'', ''CreateTime'')]"

definition mysql_summary_config :: field_config where
  "mysql_summary_config = \<lparr>fc_fields = [''sql_hash'', ''fingerprint'', ''sample_sql'', ''db_name'', ''total_execution_counts'',
       ''total_execution_times'', ''query_time_avg'', ''query_time_p95'', ''parse_total_row_counts'', ''return_total_row_counts'',
       ''parse_row_avg'', ''return_row_avg'', ''first_seen'', ''last_seen''],
     fc_map = common_map @ [(''db_name'', ''DBName''), (''total_execution_counts'', ''MySQLTotalExecutionCounts''),
       (''total_execution_times'', ''MySQLTotalExecutionTimes''), (''query_time_avg'', ''QueryTimeAvg''), (''query_time_p95'', ''QueryTimePct95''),
       (''parse_total_row_counts'', ''ParseTotalRowCounts''), (''return_total_row_counts'', ''ReturnTotalRowCounts''),
       (''parse_row_avg'', ''ParseRowAvg''), (''return_row_avg'', ''ReturnRowAvg'')],
     fc_round = times_fields, fc_int = [''parse_row_avg'', ''return_row_avg''], fc_bool = []\<rparr>"

definition pgsql_summary_config :: field_config where
  "pgsql_summary_config = \<lparr>fc_fields = [''sql_hash'', ''fingerprint'', ''sample_sql'', ''db_name'', ''user_name'', ''total_execution_counts'',
       ''total_execution_times'', ''query_time_avg'', ''query_time_p95'', ''rows_sum'', ''rows_avg'', ''shared_blks_hit'', ''shared_blks_read'',
       ''first_seen'', ''last_seen''],
     fc_map = common_map @ [(''db_name'', ''DBName''), (''total_execution_counts'', ''TotalExecutionCounts''),
       (''total_execution_times'', ''TotalExecutionTimes''), (''query_time_avg'', ''QueryTimeAvg''), (''query_time_p95'', ''QueryTimePct95''),
       (''rows_sum'', ''ReturnTotalRowCounts''), (''rows_avg'', ''ReturnRowAvg''), (''shared_blks_hit'', ''SharedBlksHit''),
       (''shared_blks_read'', ''SharedBlksRead'')],
     fc_round = times_fields @ [''rows_avg''], fc_int = [], fc_bool = []\<rparr>"

definition mongo_summary_config :: field_config where
  "mongo_summary_config = \<lparr>fc_fields = [''sql_hash'', ''fingerprint'', ''sample_sql'', ''db_name'', ''collection_name'', ''operation_type'',
       ''total_execution_counts'', ''total_execution_times'', ''query_time_avg'', ''query_time_p95'', ''docs_examined_avg'',
       ''docs_returned_avg'', ''has_sort'', ''first_seen'', ''last_seen''],
     fc_map = common_map @ [(''db_name'', ''DBName''), (''collection_name'', ''CollectionName''), (''operation_type'', ''OperationType''),
       (''total_execution_counts'', ''TotalExecutionCounts''), (''total_execution_times'', ''TotalExecutionTimes''),
       (''query_time_avg'', ''QueryTimeAvg''), (''query_time_p95'', ''QueryTimePct95''), (''docs_examined_avg'', ''DocsExaminedAvg''),
       (''docs_returned_avg'', ''DocsReturnedAvg''), (''has_sort'', ''HasSort'')],
     fc_round = times_fields @ [''docs_examined_avg'', ''docs_returned_avg''], fc_int = [], fc_bool = [''has_sort'']\<rparr>"

definition redis_summary_config :: field_config where
  "redis_summary_config = \<lparr>fc_fields = [''sql_hash'', ''fingerprint'', ''sample_sql'', ''total_execution_counts'', ''total_execution_times'',
       ''query_time_avg'', ''query_time_p95'', ''first_seen'', ''last_seen''],
     fc_map = common_map @ [(''total_execution_counts'', ''TotalExecutionCounts''), (''total_execution_times'', ''TotalExecutionTimes''),
       (''query_time_avg'', ''QueryTimeAvg''), (''query_time_p95'', ''DurationPct95'')],
     fc_round = times_fields, fc_int = [], fc_bool = []\<rparr>"

text \<open>The keys of MongoDB's details are Chinese words in the source and stand here in English.\<close>

definition mysql_detail_config :: field_config where
  "mysql_detail_config = \<lparr>fc_fields = [''sql_hash'', ''execution_start_time'', ''host_address'', ''db_name'', ''sql_text'', ''query_time'',
       ''lock_time'', ''rows_sent'', ''rows_examined''],
     fc_map = [(''sql_hash'', ''SQLId''), (''execution_start_time'', ''ExecutionStartTime''), (''host_address'', ''HostAddress''),
       (''db_name'', ''DBName''), (''sql_text'', ''SQLText''), (''query_time'', ''QueryTimes''), (''lock_time'', ''LockTimes''),
       (''rows_sent'', ''ReturnRowCounts''), (''rows_examined'', ''ParseRowCounts'')],
     fc_round = [''query_time'', ''lock_time''], fc_int = [], fc_bool = []\<rparr>"

definition pgsql_detail_config :: field_config where
  "pgsql_detail_config = \<lparr>fc_fields = [''sql_hash'', ''execution_start_time'', ''host_address'', ''user_name'', ''db_name'', ''sql_text'',
       ''query_time'', ''rows_sent'', ''shared_blks_hit'', ''shared_blks_read''],
     fc_map = [(''sql_hash'', ''SQLId''), (''execution_start_time'', ''ExecutionStartTime''), (''host_address'', ''HostAddress''),
       (''db_name'', ''DBName''), (''sql_text'', ''SQLText''), (''query_time'', ''QueryTimes''), (''rows_sent'', ''ReturnRowCounts''),
       (''shared_blks_hit'', ''SharedBlksHit''), (''shared_blks_read'', ''SharedBlksRead'')],
     fc_round = [''query_time''], fc_int = [], fc_bool = []\<rparr>"

definition mongo_detail_config :: field_config where
  "mongo_detail_config = \<lparr>fc_fields = [''sql_hash'', ''execution_start_time'', ''operation_type'', ''host_address'', ''db_name'',
       ''collection_name'', ''command_text'', ''duration'', ''docs_examined'', ''docs_returned'', ''nreturned'', ''has_sort''],
     fc_map = [(''sql_hash'', ''SQLId''), (''execution_start_time'', ''time''), (''operation_type'', ''operation''),
       (''host_address'', ''client''), (''db_name'', ''database''), (''collection_name'', ''collection''), (''command_text'', ''command''),
       (''duration'', ''duration (ms)''), (''docs_examined'', ''documents examined''), (''docs_returned'', ''documents returned''),
       (''nreturned'', ''results returned''), (''has_sort'', ''sorted'')],
     fc_round = [''duration''], fc_int = [], fc_bool = [''has_sort'']\<rparr>"

definition redis_detail_config :: field_config where
  "redis_detail_config = \<lparr>fc_fields = [''sql_hash'', ''execution_start_time'', ''host_address'', ''command_text'', ''duration''],
     fc_map = [(''sql_hash'', ''SQLId''), (''execution_start_time'', ''ExecutionStartTime''), (''host_address'', ''HostName''),
       (''command_text'', ''SQLText''), (''duration'', ''Duration'')],
     fc_round = [''duration''], fc_int = [], fc_bool = []\<rparr>"

section \<open>Formatting\<close>

definition TIME_UNIT_MS :: "string \<Rightarrow> rat" where
  "TIME_UNIT_MS db_type = (case map_of [(''mysql'', 1000), (''pgsql'', 1000), (''mongo'', 1), (''redis'', 1 / 1000)] db_type of
     None \<Rightarrow> 1 | Some k \<Rightarrow> k)"

definition TIME_FIELDS :: "string list" where
  "TIME_FIELDS = times_fields @ [''query_time'', ''lock_time'', ''duration'']"

definition scale_cell :: "rat \<Rightarrow> cell \<Rightarrow> cell res" where
  "scale_cell k c = (if k = 1 then Inr c else case c of CNum x \<Rightarrow> Inr (CNum (x * k)) | CInt i \<Rightarrow> Inr (CNum (of_int i * k)) | _ \<Rightarrow> Inl type_error)"

definition round_or_zero :: "cell \<Rightarrow> cell res" where
  "round_or_zero c = (case c of CNone \<Rightarrow> Inr (CInt 0) | CNum x \<Rightarrow> Inr (CNum (round_to 2 x)) | CInt i \<Rightarrow> Inr (CInt i) | _ \<Rightarrow> Inl type_error)"

definition int_or_zero :: "cell \<Rightarrow> cell res" where
  "int_or_zero c = (case c of CNone \<Rightarrow> Inr (CInt 0) | CNum x \<Rightarrow> Inr (CInt (if 0 \<le> x then floor x else ceiling x)) | CInt i \<Rightarrow> Inr (CInt i)
     | _ \<Rightarrow> Inl type_error)"

definition yes_no :: "cell \<Rightarrow> cell" where
  "yes_no c = (case c of CBool b \<Rightarrow> CText (if b then ''yes'' else ''no'') | _ \<Rightarrow> CText ''None'')"

definition format_cell :: "field_config \<Rightarrow> rat \<Rightarrow> string \<Rightarrow> cell \<Rightarrow> cell res" where
  "format_cell cfg k f c =
     bindE (if f \<in> set (fc_round cfg) \<and> f \<in> set TIME_FIELDS then bindE (scale_cell k c) round_or_zero
            else if f \<in> set (fc_round cfg) then round_or_zero c else Inr c) (\<lambda>c.
     bindE (if f \<in> set (fc_int cfg) then int_or_zero c else Inr c) (\<lambda>c.
       Inr (if f \<in> set (fc_bool cfg) then yes_no c else c)))"

definition row_get :: "row_dict \<Rightarrow> string \<Rightarrow> cell" where
  "row_get r f = (case map_of r f of None \<Rightarrow> CNone | Some c \<Rightarrow> c)"

definition format_row :: "field_config \<Rightarrow> rat \<Rightarrow> row_dict \<Rightarrow> row_dict res" where
  "format_row cfg k r = mapE (\<lambda>(f, new). map_sum id (Pair new) (format_cell cfg k f (row_get r f))) (fc_map cfg)"

definition format_rows :: "field_config \<Rightarrow> string \<Rightarrow> row_dict list \<Rightarrow> row_dict list res" where
  "format_rows cfg db_type rows = mapE (format_row cfg (TIME_UNIT_MS db_type)) rows"

section \<open>Lists of fingerprints and of queries\<close>

text \<open>\<open>_query_local\<close>: filter, count, sort, cut, format.\<close>

definition page_of ::
  "'r columns \<Rightarrow> field_config \<Rightarrow> string \<Rightarrow> ('r \<Rightarrow> 'k::linorder) \<Rightarrow> int \<Rightarrow> int \<Rightarrow> 'r list \<Rightarrow> stats_page res" where
  "page_of cols cfg db_type key limit offset rs =
     bindE (slice offset limit (sort_desc key rs)) (\<lambda>cut. bindE (select_values cols (fc_fields cfg) cut) (\<lambda>ds.
     bindE (format_rows cfg db_type ds) (\<lambda>out. Inr \<lparr>pg_rows = out, pg_total = CInt (int (length rs))\<rparr>)))"

definition summary_page ::
  "'m summary_scheme columns \<Rightarrow> field_config \<Rightarrow> instance_row \<Rightarrow> usec option \<times> usec option \<Rightarrow> stats_request \<Rightarrow> 'm summary_scheme table \<Rightarrow> stats_page res" where
  "summary_page cols cfg i p q t =
     bindE (build_queryset cols (fst p) (snd p) (sq_db q) (sq_search q) ''fingerprint'' ''last_seen'' (tbl_filter (\<lambda>r. su_instance r = i_id i) t))
       (page_of cols cfg (i_db_type i) su_times (safe_int (sq_limit q) 50) (safe_int (sq_offset q) 0))"

definition detail_page ::
  "'d detail_scheme columns \<Rightarrow> field_config \<Rightarrow> instance_row \<Rightarrow> usec option \<times> usec option \<Rightarrow> stats_request \<Rightarrow> 'd detail_scheme table \<Rightarrow> stats_page res" where
  "detail_page cols cfg i p q t =
     bindE (build_queryset cols (fst p) (snd p) (sq_db q) (sq_search q)
              (if i_db_type i \<noteq> ''mongo'' then ''sql_text'' else ''command_text'') ''execution_start_time'' (tbl_filter (\<lambda>r. dt_instance r = i_id i) t)) (\<lambda>rs.
     bindE (narrow (sq_sql_id q \<noteq> []) cols ''sql_hash'' (\<lambda>c. c = CText (sq_sql_id q)) rs)
       (page_of cols cfg (i_db_type i) dt_start (safe_int (sq_limit q) 50) (safe_int (sq_offset q) 0)))"

definition summary_local :: "slow_state \<Rightarrow> instance_row \<Rightarrow> usec option \<times> usec option \<Rightarrow> stats_request \<Rightarrow> stats_page res option" where
  "summary_local s i p q =
     (if i_db_type i = ''mysql'' then Some (summary_page mysql_summary_columns mysql_summary_config i p q (sl_mysql_sum s))
      else if i_db_type i = ''pgsql'' then Some (summary_page pgsql_summary_columns pgsql_summary_config i p q (sl_pgsql_sum s))
      else if i_db_type i = ''mongo'' then Some (summary_page mongo_summary_columns mongo_summary_config i p q (sl_mongo_sum s))
      else if i_db_type i = ''redis'' then Some (summary_page redis_summary_columns redis_summary_config i p q (sl_redis_sum s))
      else None)"

definition detail_local :: "slow_state \<Rightarrow> instance_row \<Rightarrow> usec option \<times> usec option \<Rightarrow> stats_request \<Rightarrow> stats_page res option" where
  "detail_local s i p q =
     (if i_db_type i = ''mysql'' then Some (detail_page mysql_detail_columns mysql_detail_config i p q (sl_mysql s))
      else if i_db_type i = ''pgsql'' then Some (detail_page pgsql_detail_columns pgsql_detail_config i p q (sl_pgsql s))
      else if i_db_type i = ''mongo'' then Some (detail_page mongo_detail_columns mongo_detail_config i p q (sl_mongo s))
      else if i_db_type i = ''redis'' then Some (detail_page redis_detail_columns redis_detail_config i p q (sl_redis s))
      else None)"

section \<open>Aliyun\<close>

text \<open>An answer of the cloud: a \<open>dict\<close> that has rows and a total, or lacks them.\<close>

record cloud_answer =
  ca_rows :: "row_dict list option"
  ca_total :: "cell option"

record cloud =
  ay_enabled :: "int \<Rightarrow> bool"
  ay_review :: "instance_row \<Rightarrow> string \<Rightarrow> string \<Rightarrow> string \<Rightarrow> int \<Rightarrow> int \<Rightarrow> cloud_answer res"
  ay_history :: "instance_row \<Rightarrow> string \<Rightarrow> string \<Rightarrow> string \<Rightarrow> string \<Rightarrow> int \<Rightarrow> int \<Rightarrow> cloud_answer res"

text \<open>\<open>round(float(v) * k, n)\<close>.\<close>

definition scaled :: "unicode \<Rightarrow> rat \<Rightarrow> nat \<Rightarrow> cell \<Rightarrow> cell res" where
  "scaled uc k n v = map_sum id (\<lambda>x. CFlt (fround n (fscale k x))) (cell_float uc v)"

definition scale_fields :: "unicode \<Rightarrow> rat \<Rightarrow> string list \<Rightarrow> row_dict \<Rightarrow> row_dict res" where
  "scale_fields uc k fs r = mapE (\<lambda>(f, v). if f \<in> set fs \<and> v \<noteq> CNone then map_sum id (Pair f) (scaled uc k 2 v) else Inr (f, v)) r"

definition map_rows :: "(row_dict \<Rightarrow> row_dict res) \<Rightarrow> cloud_answer \<Rightarrow> cloud_answer res" where
  "map_rows f a = (case ca_rows a of None \<Rightarrow> Inr a | Some rs \<Rightarrow> map_sum id (\<lambda>rs. a\<lparr>ca_rows := Some rs\<rparr>) (mapE f rs))"

definition cloud_type :: "string \<Rightarrow> exn" where
  "cloud_type t = ValueError (''kind of database not supported by Aliyun: '' @ t)"

definition summary_cloud :: "unicode \<Rightarrow> cloud \<Rightarrow> instance_row \<Rightarrow> string \<Rightarrow> string \<Rightarrow> stats_request \<Rightarrow> cloud_answer res" where
  "summary_cloud uc c i start stop q =
     (if i_db_type i \<notin> set [''mysql'', ''mongo'', ''redis''] then Inl (cloud_type (i_db_type i))
      else bindE (ay_review c i start stop (sq_db q) (safe_int (sq_limit q) 50) (safe_int (sq_offset q) 0)) (\<lambda>a.
        if i_db_type i = ''mysql'' then map_rows (scale_fields uc 1000 [''QueryTimeAvg'', ''QueryTimePct95'', ''TotalExecutionTimes'',
            ''MySQLTotalExecutionTimes'', ''QueryTimes'', ''LockTimes'']) a
        else if i_db_type i = ''mongo'' then Inr a
        else map_rows (scale_fields uc (1 / 1000) [''TotalExecutionTimes'', ''ElapsedTimeAvg'', ''ElapsedTimePct95'', ''QueryTimeAvg'',
            ''QueryTimePct95'', ''DurationPct95'']) a))"

text \<open>The first of several keys whose value is not empty.\<close>

definition first_key :: "row_dict \<Rightarrow> string list \<Rightarrow> cell" where
  "first_key r fs = (case filter cell_truth (map (\<lambda>f. jget r f CNone) fs) of v # _ \<Rightarrow> v | [] \<Rightarrow> CText [])"

definition mysql_history_row :: "unicode \<Rightarrow> row_dict \<Rightarrow> row_dict res" where
  "mysql_history_row uc r = bindE (scaled uc 1000 2 (jget r ''QueryTimes'' (CInt 0))) (\<lambda>qt. bindE (scaled uc 1000 2 (jget r ''LockTimes'' (CInt 0))) (\<lambda>lt.
     Inr [(''SQLId'', first_key r [''SQLId'', ''SQLHASH'', ''SQLHash'']), (''ExecutionStartTime'', jget r ''ExecutionStartTime'' CNone),
       (''HostAddress'', jget r ''HostAddress'' CNone), (''DBName'', jget r ''DBName'' CNone), (''SQLText'', jget r ''SQLText'' CNone),
       (''QueryTimes'', qt), (''LockTimes'', lt), (''ParseRowCounts'', jget r ''ParseRowCounts'' CNone),
       (''ReturnRowCounts'', jget r ''ReturnRowCounts'' CNone)]))"

definition mongo_history_row :: "unicode \<Rightarrow> row_dict \<Rightarrow> row_dict res" where
  "mongo_history_row uc r = bindE (scaled uc 1 2 (jget r ''QueryTimes'' (CInt 0))) (\<lambda>qt.
     Inr [(''SQLId'', first_key r [''SQLId'', ''SQLHASH'']), (''time'', jget r ''ExecutionStartTime'' (CText [])),
       (''client'', jget r ''HostAddress'' (CText [])), (''database'', jget r ''DBName'' (CText [])), (''collection'', jget r ''TableName'' (CText [])),
       (''command'', jget r ''SQLText'' (CText [])), (''duration (ms)'', qt), (''documents examined'', jget r ''DocsExamined'' (CInt 0)),
       (''documents returned'', jget r ''ReturnRowCounts'' (CInt 0))])"

definition redis_history_row :: "unicode \<Rightarrow> row_dict \<Rightarrow> row_dict res" where
  "redis_history_row uc r = bindE (scaled uc (1 / 1000) 3 (jget r ''ElapsedTime'' (CInt 0))) (\<lambda>d.
     Inr [(''SQLId'', first_key r [''SQLId'', ''SQLHASH'']), (''ExecutionStartTime'', jget r ''ExecuteTime'' (CText [])),
       (''HostName'', jget r ''IPAddress'' (CText [])), (''SQLText'', jget r ''Command'' (CText [])), (''Duration'', d)])"

definition detail_cloud :: "unicode \<Rightarrow> cloud \<Rightarrow> instance_row \<Rightarrow> string \<Rightarrow> string \<Rightarrow> stats_request \<Rightarrow> cloud_answer res" where
  "detail_cloud uc c i start stop q =
     (if i_db_type i \<notin> set [''mysql'', ''mongo'', ''redis''] then Inl (cloud_type (i_db_type i))
      else bindE (ay_history c i start stop (sq_db q) (sq_sql_id q) (safe_int (sq_limit q) 50) (safe_int (sq_offset q) 0))
        (map_rows (if i_db_type i = ''mysql'' then mysql_history_row uc else if i_db_type i = ''mongo'' then mongo_history_row uc
           else redis_history_row uc)))"

definition cloud_page :: "cloud_answer \<Rightarrow> stats_page res" where
  "cloud_page a = (case (ca_rows a, ca_total a) of
       (Some rs, Some n) \<Rightarrow> Inr \<lparr>pg_rows = rs, pg_total = n\<rparr>
     | _ \<Rightarrow> Inl (KeyError ''rows''))"

section \<open>The views\<close>

text \<open>The permission class, the instance and the period come first; what raises after that is an answer.\<close>

definition answered :: "string \<Rightarrow> 'a res \<Rightarrow> 'a reply" where
  "answered what r = (case r of Inl e \<Rightarrow> Refused what | Inr x \<Rightarrow> Data x)"

definition with_instance :: "world \<Rightarrow> user \<Rightarrow> string \<Rightarrow> (instance_row \<Rightarrow> 'a reply res) \<Rightarrow> 'a reply res" where
  "with_instance w usr name f =
     (if \<not> may_see_slowquery usr then Inl PermissionDenied
      else case get_and_check_instance w usr name of
        Inl e \<Rightarrow> (if is_DoesNotExist e then Inr (Refused ''your groups do not have this instance'') else Inl e)
      | Inr i \<Rightarrow> f i)"

definition SlowQuerySummary_post :: "unicode \<Rightarrow> cloud \<Rightarrow> slow_state \<Rightarrow> user \<Rightarrow> stats_request \<Rightarrow> stats_page reply res" where
  "SlowQuerySummary_post uc c s usr q = with_instance (sl_world s) usr (sq_instance q) (\<lambda>i.
     bindE (request_period (sl_now s) q) (\<lambda>p.
       if ay_enabled c (i_id i) then Inr (answered ''reading the statistics failed'' (bindE (summary_cloud uc c i
           (default_text (sq_start q) ''2010-01-01'') (default_text (sq_end q) (strftime_date (sl_now s))) q) cloud_page))
       else case summary_local s i p q of
           None \<Rightarrow> Inr (Refused ''kind of database not supported'')
         | Some r \<Rightarrow> Inr (answered ''reading the statistics failed'' r)))"

definition SlowQueryDetail_post :: "unicode \<Rightarrow> cloud \<Rightarrow> slow_state \<Rightarrow> user \<Rightarrow> stats_request \<Rightarrow> stats_page reply res" where
  "SlowQueryDetail_post uc c s usr q = with_instance (sl_world s) usr (sq_instance q) (\<lambda>i.
     bindE (request_period (sl_now s) q) (\<lambda>p.
       if ay_enabled c (i_id i) then Inr (answered ''reading the details failed'' (bindE (detail_cloud uc c i
           (default_text (sq_start q) ''2010-01-01'') (default_text (sq_end q) (strftime_date (sl_now s))) q) cloud_page))
       else case detail_local s i p q of
           None \<Rightarrow> Inr (Refused ''kind of database not supported'')
         | Some r \<Rightarrow> Inr (answered ''reading the details failed'' r)))"

section \<open>The trend\<close>

record trend_day =
  td_date :: int
  td_count :: nat
  td_avg :: rat
  td_max :: rat

text \<open>\<open>annotate(date=TruncDate(...)).values("date").annotate(...).order_by("date")\<close>.\<close>

definition trend_rows :: "int \<Rightarrow> string \<Rightarrow> usec \<Rightarrow> usec \<Rightarrow> 'd detail_scheme list \<Rightarrow> 'd detail_scheme list" where
  "trend_rows inst h start stop ds = filter (\<lambda>d. dt_instance d = inst \<and> dt_hash d = Some h \<and> start \<le> dt_start d \<and> dt_start d \<le> stop) ds"

definition day_group :: "'d detail_scheme list \<Rightarrow> int \<Rightarrow> trend_day" where
  "day_group ds k = (let ts = map dt_time (filter (\<lambda>d. day_of (dt_start d) = k) ds) in
     \<lparr>td_date = k, td_count = length ts, td_avg = avg ts, td_max = Max (set ts)\<rparr>)"

definition trend_of :: "'d detail_scheme list \<Rightarrow> trend_day list" where
  "trend_of ds = map (day_group ds) (sorted_list_of_set (set (map (\<lambda>d. day_of (dt_start d)) ds)))"

definition trend_dict :: "rat \<Rightarrow> trend_day \<Rightarrow> row_dict" where
  "trend_dict k t = [(''date'', CText (day_text (td_date t))), (''count'', CInt (int (td_count t))),
     (''avg_time'', CNum (round_to 2 (td_avg t * k))), (''max_time'', CNum (round_to 2 (td_max t * k)))]"

definition query_trend :: "'d detail_scheme table \<Rightarrow> instance_row \<Rightarrow> string \<Rightarrow> usec \<Rightarrow> usec \<Rightarrow> row_dict list" where
  "query_trend t i h start stop = map (trend_dict (TIME_UNIT_MS (i_db_type i))) (trend_of (trend_rows (i_id i) h start stop (tbl_rows t)))"

definition SlowQueryTrend_get :: "slow_state \<Rightarrow> user \<Rightarrow> string \<Rightarrow> string \<Rightarrow> pyval \<Rightarrow> row_dict list reply res" where
  "SlowQueryTrend_get s usr name h window = with_instance (sl_world s) usr name (\<lambda>i.
     if h = [] then Inr (Refused ''sql_hash is missing'')
     else bindE (plus_days (sl_now s) (- safe_int window 7)) (\<lambda>start.
       Inr (if i_db_type i = ''mysql'' then Data (query_trend (sl_mysql s) i h start (sl_now s))
         else if i_db_type i = ''pgsql'' then Data (query_trend (sl_pgsql s) i h start (sl_now s))
         else if i_db_type i = ''mongo'' then Data (query_trend (sl_mongo s) i h start (sl_now s))
         else if i_db_type i = ''redis'' then Data (query_trend (sl_redis s) i h start (sl_now s))
         else Refused ''kind of database not supported'')))"

text \<open>\<open>SlowQueryCollectView\<close>: a collection is queued for the instance.\<close>

definition SlowQueryCollect_post :: "world \<Rightarrow> user \<Rightarrow> string \<Rightarrow> string \<Rightarrow> (string \<times> int \<times> string) reply res" where
  "SlowQueryCollect_post w usr name ty =
     (if \<not> may_see_slowquery usr then Inl PermissionDenied
      else if name = [] then Inr (Refused ''instance_name is missing'')
      else with_instance w usr name (\<lambda>i. Inr (Data (''sql.collectors.tasks.collect_slowquery_task'', i_id i, default_text ty ''all''))))"

end
