(* ===== verification/Diagnosis.thy ===== *)
theory Diagnosis
  imports AiGateway SlowStats SqlText ResultSets
begin

text \<open>
  What a diagnosis of a slow query tells the language model: the statistics, the trend, the tables and the plan, as
  \<open>sql/services/diagnosis.py\<close> collects them. What an engine or the cloud answers is a parameter.
\<close>

section \<open>Statistics\<close>

record diag_engine =
  de_open :: "unit res"
  de_query :: "string \<Rightarrow> string \<Rightarrow> result_set res"

definition DIAG_TIME_UNIT :: "string \<Rightarrow> rat" where
  "DIAG_TIME_UNIT db_type = TIME_UNIT_MS db_type"

definition DIAG_TIME_FIELDS :: "string list" where
  "DIAG_TIME_FIELDS = [''query_time_p95'', ''query_time_avg'', ''total_execution_times'']"

text \<open>A field of the cloud's row: left out when it is missing or no number.\<close>

definition cloud_field :: "unicode \<Rightarrow> row_dict \<Rightarrow> (flt \<Rightarrow> flt) \<Rightarrow> string \<times> string \<Rightarrow> row_dict \<Rightarrow> row_dict res" where
  "cloud_field uc row f p stats = (case jget row (snd p) CNone of
       CNone \<Rightarrow> Inr stats
     | v \<Rightarrow> (case cell_float uc v of Inr x \<Rightarrow> Inr (dict_put (fst p) (CFlt (f x)) stats)
         | Inl e \<Rightarrow> if is_type_or_value e then Inr stats else Inl e))"

fun cloud_fields :: "unicode \<Rightarrow> row_dict \<Rightarrow> (string \<Rightarrow> flt \<Rightarrow> flt) \<Rightarrow> (string \<times> string) list \<Rightarrow> row_dict \<Rightarrow> row_dict res" where
  "cloud_fields uc row f [] stats = Inr stats"
| "cloud_fields uc row f (p # ps) stats = bindE (cloud_field uc row (f (fst p)) p stats) (cloud_fields uc row f ps)"

definition aliyun_stats_row :: "unicode \<Rightarrow> row_dict \<Rightarrow> row_dict res" where
  "aliyun_stats_row uc row =
     bindE (cloud_fields uc row (\<lambda>f x. if f \<in> set DIAG_TIME_FIELDS then fround 3 (fscale 1000 x) else x)
        [(''query_time_p95'', ''QueryTimePct95''), (''query_time_avg'', ''QueryTimeAvg''),
         (''total_execution_counts'', ''MySQLTotalExecutionCounts''), (''total_execution_times'', ''MySQLTotalExecutionTimes''),
         (''parse_total_row_counts'', ''ParseTotalRowCounts''), (''return_total_row_counts'', ''ReturnTotalRowCounts''),
         (''parse_row_avg'', ''ParseRowAvg''), (''return_row_avg'', ''ReturnRowAvg'')] []) (\<lambda>stats.
       let text = text_or_empty (jget row ''SQLText'' (CText [])) in
       Inr (dict_put ''db_name'' (CText (text_or_empty (jget row ''DBName'' (CText [])))) (dict_put ''fingerprint'' (CText text)
         (dict_put ''sample_sql'' (CText text) stats))))"

text \<open>The operation in the text of a profiled command, whatever value stands there.\<close>

definition extract_mongo_op :: "nat \<Rightarrow> string \<Rightarrow> cell res" where
  "extract_mongo_op n t = (case loads n (u t) of
       Inl RecursionError \<Rightarrow> Inl (RuntimeError ''maximum recursion depth exceeded'')
     | Inl e \<Rightarrow> Inr (CText [])
     | Inr (JObj d) \<Rightarrow> (let v = dget d ''op'' (JStr []) in Inr (if truth v then CJson v else CText []))
     | Inr v \<Rightarrow> Inr (CText []))"

definition fdiv :: "flt \<Rightarrow> flt \<Rightarrow> flt" where
  "fdiv x y = (case (x, y) of (Fin a, Fin b) \<Rightarrow> round_double (a / b) | (Fin a, PosInf) \<Rightarrow> Fin 0 | (NegZero, z) \<Rightarrow> NegZero
     | (_, PosInf) \<Rightarrow> NaN | _ \<Rightarrow> x)"

definition fpositive :: "flt \<Rightarrow> bool" where
  "fpositive x = (case x of Fin r \<Rightarrow> 0 < r | PosInf \<Rightarrow> True | _ \<Rightarrow> False)"

definition aliyun_mongo_stats_row :: "unicode \<Rightarrow> nat \<Rightarrow> row_dict \<Rightarrow> row_dict res" where
  "aliyun_mongo_stats_row uc n row =
     bindE (cloud_fields uc row (\<lambda>f x. x) [(''query_time_p95'', ''QueryTimePct95''), (''query_time_avg'', ''QueryTimeAvg''),
         (''total_execution_counts'', ''TotalExecutionCounts''), (''total_execution_times'', ''TotalExecutionTimes'')] []) (\<lambda>s1.
     let per_call = (case jget s1 ''total_execution_counts'' CNone of CFlt c \<Rightarrow> (if fpositive c then (\<lambda>x. fdiv x c) else (\<lambda>x. x)) | _ \<Rightarrow> (\<lambda>x. x)) in
     bindE (cloud_fields uc row (\<lambda>f. per_call) [(''parse_total_row_counts'', ''DocsExamined''), (''return_total_row_counts'', ''ReturnRowCounts'')] s1) (\<lambda>s2.
     let text = text_or_empty (jget row ''SQLText'' (CText [])) in
     bindE (extract_mongo_op n text) (\<lambda>op.
       let s3 = fold (\<lambda>(f, v). dict_put f v) [(''collection_name'', CText (text_or_empty (jget row ''TableName'' (CText [])))), (''operation_type'', op),
             (''has_sort'', CBool False), (''sample_sql'', CText (take 2000 text)), (''fingerprint'', CText (take 2000 text)),
             (''db_name'', CText (text_or_empty (jget row ''DBName'' (CText []))))] s2 in
       Inr (if cell_truth (jget s3 ''query_time_p95'' CNone) then s3
            else dict_put ''query_time_p95'' (jget s3 ''query_time_avg'' (CInt 0)) s3))))"

text \<open>Up to ten pages of a hundred; the cloud of MongoDB answers for a week at most. What raises is logged.\<close>

definition cloud_total :: "cell option \<Rightarrow> int res" where
  "cloud_total v = (case v of None \<Rightarrow> Inr 0 | Some c \<Rightarrow> if \<not> cell_truth c then Inr 0 else (case c of
       CInt i \<Rightarrow> Inr i | CText t \<Rightarrow> py_int t | CNum r \<Rightarrow> Inr (if 0 \<le> r then floor r else ceiling r) | CBool b \<Rightarrow> Inr 1 | _ \<Rightarrow> Inl type_error))"

definition same_id :: "string \<Rightarrow> row_dict \<Rightarrow> bool" where
  "same_id h row = ((case jget row ''SQLId'' (CText []) of CText t \<Rightarrow> t | CInt i \<Rightarrow> str_int i | CNone \<Rightarrow> ''None'' | _ \<Rightarrow> []) = h)"

fun aliyun_pages :: "(int \<Rightarrow> cloud_answer res) \<Rightarrow> (row_dict \<Rightarrow> row_dict res) \<Rightarrow> string \<Rightarrow> nat \<Rightarrow> int \<Rightarrow> row_dict res" where
  "aliyun_pages ask conv h 0 pg = Inr []"
| "aliyun_pages ask conv h (Suc k) pg = bindE (ask ((pg - 1) * 100)) (\<lambda>a.
     case filter (same_id h) (case ca_rows a of None \<Rightarrow> [] | Some rs \<Rightarrow> rs) of
       row # _ \<Rightarrow> conv row
     | [] \<Rightarrow> bindE (cloud_total (ca_total a)) (\<lambda>total. if total \<le> pg * 100 then Inr [] else aliyun_pages ask conv h k (pg + 1)))"

definition collect_aliyun_stats :: "unicode \<Rightarrow> nat \<Rightarrow> cloud \<Rightarrow> usec \<Rightarrow> instance_row \<Rightarrow> string \<Rightarrow> string \<Rightarrow> row_dict" where
  "collect_aliyun_stats uc n c now i h db =
     (if i_db_type i \<notin> set [''mysql'', ''mongo''] then []
      else let mongo = (i_db_type i = ''mongo''); start = strftime_date (now - days (if mongo then 7 else 30)); stop = strftime_date now in
        case aliyun_pages (ay_review c i start stop db 100) (if mongo then aliyun_mongo_stats_row uc n else aliyun_stats_row uc) h 10 1 of
          Inl e \<Rightarrow> [] | Inr stats \<Rightarrow> stats)"

text \<open>The columns a summary has of the eight; times in milliseconds.\<close>

definition stat_fields :: "string list" where
  "stat_fields = [''query_time_p95'', ''query_time_avg'', ''total_execution_counts'', ''total_execution_times'',
     ''parse_total_row_counts'', ''return_total_row_counts'', ''parse_row_avg'', ''return_row_avg'']"

definition stat_value :: "rat \<Rightarrow> string \<Rightarrow> cell \<Rightarrow> cell" where
  "stat_value k f v = (if f \<in> set DIAG_TIME_FIELDS then (case v of CNum x \<Rightarrow> CNum (round_to 3 (x * k)) | _ \<Rightarrow> v) else v)"

definition summary_stats :: "rat \<Rightarrow> 'm summary_scheme columns \<Rightarrow> 'm summary_scheme \<Rightarrow> row_dict" where
  "summary_stats k cols r = concat (map (\<lambda>f. case cols f of None \<Rightarrow> [] | Some g \<Rightarrow> if g r = CNone then [] else [(f, stat_value k f (g r))]) stat_fields)"

definition add_sample :: "'m summary_scheme \<Rightarrow> string option \<Rightarrow> row_dict \<Rightarrow> row_dict" where
  "add_sample r db stats =
     (let sample = (case su_sample r of Some t \<Rightarrow> if t = [] then su_fingerprint r else t | None \<Rightarrow> su_fingerprint r) in
      dict_put ''db_name'' (CText (case db of None \<Rightarrow> [] | Some d \<Rightarrow> d)) (dict_put ''fingerprint'' (CText (su_fingerprint r))
        (dict_put ''sample_sql'' (CText sample) stats)))"

definition first_summary :: "int \<Rightarrow> string \<Rightarrow> 'm summary_scheme table \<Rightarrow> 'm summary_scheme option" where
  "first_summary inst h t = tbl_first (\<lambda>r. su_instance r = inst \<and> su_hash r = h) t"

definition mongo_extra :: "mongo_summary \<Rightarrow> row_dict \<Rightarrow> row_dict" where
  "mongo_extra r stats =
     (let s1 = fold (\<lambda>(f, v). dict_put f v) [(''parse_total_row_counts'', CNum (gs_examined_avg r)), (''return_total_row_counts'', CNum (gs_returned_avg r)),
           (''collection_name'', CText (case gs_coll r of None \<Rightarrow> [] | Some x \<Rightarrow> x)), (''operation_type'', CText (case gs_op r of None \<Rightarrow> [] | Some x \<Rightarrow> x)),
           (''has_sort'', CBool (gs_sort r))] stats in
      if cell_truth (jget s1 ''query_time_p95'' CNone) then s1 else dict_put ''query_time_p95'' (jget s1 ''query_time_avg'' (CInt 0)) s1)"

definition collect_stats :: "unicode \<Rightarrow> nat \<Rightarrow> cloud \<Rightarrow> slow_state \<Rightarrow> instance_row \<Rightarrow> string \<Rightarrow> string \<Rightarrow> row_dict" where
  "collect_stats uc n c s i h db =
     (let k = DIAG_TIME_UNIT (i_db_type i) in
      if ay_enabled c (i_id i) then collect_aliyun_stats uc n c (sl_now s) i h db
      else if i_db_type i = ''mysql'' then (case first_summary (i_id i) h (sl_mysql_sum s) of
          None \<Rightarrow> [] | Some r \<Rightarrow> add_sample r (ms_db r) (summary_stats k mysql_summary_columns r))
      else if i_db_type i = ''pgsql'' then (case first_summary (i_id i) h (sl_pgsql_sum s) of
          None \<Rightarrow> [] | Some r \<Rightarrow> add_sample r (ps_db r) (dict_put ''return_total_row_counts'' (CInt (ps_rows r)) (summary_stats k pgsql_summary_columns r)))
      else if i_db_type i = ''mongo'' then (case first_summary (i_id i) h (sl_mongo_sum s) of
          None \<Rightarrow> [] | Some r \<Rightarrow> add_sample r (gs_db r) (mongo_extra r (summary_stats k mongo_summary_columns r)))
      else if i_db_type i = ''redis'' then (case first_summary (i_id i) h (sl_redis_sum s) of
          None \<Rightarrow> [] | Some r \<Rightarrow> add_sample r None (summary_stats k redis_summary_columns r))
      else [])"

section \<open>The trend\<close>

definition show_number :: "nat \<Rightarrow> rat \<Rightarrow> string" where
  "show_number n x = repr_float (fround n (round_double x))"

definition trend_line :: "rat \<Rightarrow> trend_day \<Rightarrow> string" where
  "trend_line k t = ''  '' @ day_text (td_date t) @ '': '' @ str_int (int (td_count t)) @ '' runs, '' @ show_number 1 (td_avg t * k)
     @ ''ms on average, '' @ show_number 1 (td_max t * k) @ ''ms at most''"

definition worsened :: "rat \<Rightarrow> trend_day list \<Rightarrow> string" where
  "worsened k ts = (if length ts < 2 then []
     else let a = td_avg (hd ts) * k; b = td_avg (last ts) * k in
       if 3 * a < b \<and> 500 < b then [newline] @ ''note: the average rose from '' @ show_number 1 a @ ''ms to '' @ show_number 1 b @ ''ms'' else [])"

definition trend_text :: "rat \<Rightarrow> int \<Rightarrow> trend_day list \<Rightarrow> string" where
  "trend_text k span_days ts = (if ts = [] then ''no trend in the last '' @ str_int span_days @ '' days''
     else ''trend of the last '' @ str_int span_days @ '' days:'' @ [newline] @ join [newline] (map (trend_line k) ts) @ worsened k ts)"

definition collect_trend :: "cloud \<Rightarrow> slow_state \<Rightarrow> instance_row \<Rightarrow> string \<Rightarrow> int \<Rightarrow> string" where
  "collect_trend c s i h span_days =
     (let k = DIAG_TIME_UNIT (i_db_type i); start = sl_now s - days span_days; stop = sl_now s in
      if ay_enabled c (i_id i) then ''(no local trend for Aliyun)''
      else if i_db_type i = ''mysql'' then trend_text k span_days (trend_of (trend_rows (i_id i) h start stop (tbl_rows (sl_mysql s))))
      else if i_db_type i = ''pgsql'' then trend_text k span_days (trend_of (trend_rows (i_id i) h start stop (tbl_rows (sl_pgsql s))))
      else if i_db_type i = ''mongo'' then trend_text k span_days (trend_of (trend_rows (i_id i) h start stop (tbl_rows (sl_mongo s))))
      else if i_db_type i = ''redis'' then trend_text k span_days (trend_of (trend_rows (i_id i) h start stop (tbl_rows (sl_redis s))))
      else [])"

section \<open>Tables\<close>

definition name_char :: re where
  "name_char = Cls (\<lambda>c. is_word c \<or> c = CHR ''-'')"

definition name_re :: re where
  "name_re = Alt (Seq (chr_re (CHR 0x60)) (Seq (Plus name_char) (chr_re (CHR 0x60))))
     (Seq (Cls (\<lambda>c. is_upper_ascii c \<or> is_lower_ascii c \<or> c = CHR ''_'')) (Star name_char))"

definition table_re :: re where
  "table_re = Seq (alts (map lit_ci [''from'', ''join'', ''update'', ''into''])) (Seq (Plus space_re)
     (Grp 1 (Seq name_re (Opt (Seq (Star space_re) (Seq (chr_re (CHR ''.'')) (Seq (Star space_re) name_re)))))))"

definition last_part :: "string \<Rightarrow> string" where
  "last_part m = strip (last (split_on (CHR ''.'') (filter (\<lambda>c. c \<noteq> CHR 0x60) m)))"

definition add_table :: "string \<Rightarrow> string list \<Rightarrow> string list" where
  "add_table t ts = (if lower t \<in> set (map lower ts) then ts else ts @ [t])"

definition extract_table_names :: "string \<Rightarrow> string list" where
  "extract_table_names sql =
     (let cleaned = re_sub block_comment_re [] (re_sub (Seq (lit ''--'') (Star not_nl)) [] sql) in
      take 3 (fold (\<lambda>q. add_table (case caps_get 1 q of None \<Rightarrow> [] | Some m \<Rightarrow> last_part m)) (re_finditer table_re None cleaned) []))"

definition index_error :: exn where
  "index_error = PyException ''IndexError''"

definition row_nth :: "result_row \<Rightarrow> nat \<Rightarrow> pyval res" where
  "row_nth r k = (case r of Row vs \<Rightarrow> (if k < length vs then Inr (vs ! k) else Inl index_error) | DictRow d \<Rightarrow> Inl (KeyError (str_int (int k))))"

fun row_length :: "result_row \<Rightarrow> nat" where
  "row_length (Row vs) = length vs"
| "row_length (DictRow d) = length d"

fun show_pyval :: "pyval \<Rightarrow> string" where
  "show_pyval PNone = ''None''"
| "show_pyval (PBool b) = (if b then ''True'' else ''False'')"
| "show_pyval (PInt i) = str_int i"
| "show_pyval (PStr s) = s"

definition collect_mysql_ddl :: "diag_engine \<Rightarrow> string \<Rightarrow> string \<Rightarrow> string res" where
  "collect_mysql_ddl en db table =
     bindE (de_query en db (''SHOW CREATE TABLE '' @ [CHR 0x60] @ table @ [CHR 0x60])) (\<lambda>rs. case rt_rows rs of
       [] \<Rightarrow> Inr []
     | r # _ \<Rightarrow> map_sum id show_pyval (row_nth r (if 1 < row_length r then 1 else 0)))"

definition pgsql_column :: "result_row \<Rightarrow> string res" where
  "pgsql_column r = bindE (row_nth r 0) (\<lambda>name. bindE (row_nth r 1) (\<lambda>dtype. bindE (row_nth r 2) (\<lambda>len. bindE (row_nth r 3) (\<lambda>nullable.
     bindE (row_nth r 4) (\<lambda>dflt.
       Inr (''  '' @ [dquote] @ show_pyval name @ [dquote] @ '' '' @ show_pyval dtype
         @ (if truthy len \<and> show_pyval dtype \<in> set [''character varying'', ''character''] then ''('' @ show_pyval len @ '')'' else [])
         @ (if lower (show_pyval nullable) = ''no'' then '' NOT NULL'' else [])
         @ (if dflt \<noteq> PNone \<and> show_pyval dflt \<noteq> [] then '' DEFAULT '' @ show_pyval dflt else [])))))))"

text \<open>Indexes that cannot be read are left out; the rows before the one that raises stay.\<close>

fun index_lines :: "result_row list \<Rightarrow> string list" where
  "index_lines [] = []"
| "index_lines (r # rs) = (if row_length r = 0 then index_lines rs else case row_nth r 0 of
     Inl e \<Rightarrow> [] | Inr v \<Rightarrow> (if truthy v then [show_pyval v @ '';''] else []) @ index_lines rs)"

definition squoted :: "string \<Rightarrow> string" where
  "squoted s = [squote] @ s @ [squote]"

definition collect_pgsql_ddl :: "diag_engine \<Rightarrow> string \<Rightarrow> string \<Rightarrow> string res" where
  "collect_pgsql_ddl en db table =
     bindE (de_query en db (''SELECT column_name, data_type, character_maximum_length, is_nullable, column_default FROM information_schema.columns WHERE table_schema = ''
        @ squoted ''public'' @ '' AND table_name = '' @ squoted table @ '' ORDER BY ordinal_position'')) (\<lambda>rs.
     if rt_rows rs = [] then Inr []
     else bindE (mapE pgsql_column (rt_rows rs)) (\<lambda>cols.
       Inr (join [newline] ([''CREATE TABLE '' @ table @ '' (''] @ [join ('','' @ [newline]) cols] @ ['');'']
         @ (case de_query en db (''SELECT indexdef FROM pg_indexes WHERE schemaname = '' @ squoted ''public'' @ '' AND tablename = '' @ squoted table
               @ '' ORDER BY indexname'') of
              Inl e \<Rightarrow> [] | Inr is \<Rightarrow> index_lines (rt_rows is))))))"

definition command_re :: re where
  "command_re = Seq Bos (Seq (lit ''{'') (Seq (Star space_re) (Seq (chr_re dquote) (Seq (alts (map lit [''find'', ''aggregate'', ''update'', ''delete'',
       ''count'', ''distinct'', ''remove'', ''findAndModify''])) (Seq (chr_re dquote) (Seq (Star space_re) (Seq (chr_re (CHR '':'')) (Seq (Star space_re)
       (Seq (chr_re dquote) (Seq (Grp 2 (Plus (Cls (\<lambda>c. c \<noteq> dquote)))) (chr_re dquote)))))))))))"

definition extract_mongo_collection :: "string \<Rightarrow> string" where
  "extract_mongo_collection t = (case re_match_at command_re None (strip t) of
     None \<Rightarrow> [] | Some q \<Rightarrow> (case caps_get 2 q of None \<Rightarrow> [] | Some g \<Rightarrow> g))"

section \<open>Indexes of a collection\<close>

text \<open>\<open>v == -1\<close>.\<close>

definition is_minus_one :: "json \<Rightarrow> bool" where
  "is_minus_one v = (case v of JInt i \<Rightarrow> i = -1 | JFloat (Fin r) \<Rightarrow> r = -1 | _ \<Rightarrow> False)"

definition direction_text :: "unicode \<Rightarrow> json \<Rightarrow> utext" where
  "direction_text uc v = (if is_minus_one v then u ''desc'' else str_json uc v)"

definition ujoin :: "utext \<Rightarrow> utext list \<Rightarrow> utext" where
  "ujoin sep ts = (case ts of [] \<Rightarrow> [] | t # r \<Rightarrow> t @ concat (map (\<lambda>x. sep @ x) r))"

definition key_text :: "unicode \<Rightarrow> json \<Rightarrow> utext" where
  "key_text uc v = (case v of
       JObj d \<Rightarrow> ujoin (u '', '') (map (\<lambda>(k, x). k @ u '':'' @ direction_text uc x) d)
     | JArr ps \<Rightarrow> ujoin (u '', '') (List.map_filter (\<lambda>p. case p of JArr (a # b # _) \<Rightarrow> Some (str_json uc a @ u '':'' @ direction_text uc b) | _ \<Rightarrow> None) ps)
     | _ \<Rightarrow> str_json uc v)"

definition raw_line :: "string \<Rightarrow> utext" where
  "raw_line raw = u (''  '' @ take 300 raw)"

definition index_entry :: "unicode \<Rightarrow> string \<Rightarrow> utext \<times> json \<Rightarrow> utext" where
  "index_entry uc raw e = (case (if truth (snd e) then snd e else JObj []) of
       JObj d \<Rightarrow> (let opts = filter (\<lambda>o1. truth (dget d o1 JNull)) [''unique'', ''sparse''] in
         u ''  INDEX '' @ fst e @ u '' ON ('' @ key_text uc (dget d ''key'' (JObj [])) @ u '')''
         @ (if opts = [] then [] else u ('' ['' @ join '', '' opts @ '']'')))
     | _ \<Rightarrow> raw_line raw)"

definition index_row :: "unicode \<Rightarrow> nat \<Rightarrow> result_row \<Rightarrow> utext list res" where
  "index_row uc n r = (case r of
       DictRow d \<Rightarrow> Inr [u ''  (a row that is no text)'']
     | Row [] \<Rightarrow> Inr [raw_line ''[]'']
     | Row (PStr raw # _) \<Rightarrow> (case loads n (u raw) of
           Inl RecursionError \<Rightarrow> Inl (RuntimeError ''maximum recursion depth exceeded'')
         | Inl e \<Rightarrow> Inr [raw_line raw]
         | Inr (JObj d) \<Rightarrow> Inr (map (index_entry uc raw) d)
         | Inr v \<Rightarrow> Inr [raw_line raw])
     | Row (v # _) \<Rightarrow> Inr [raw_line (show_pyval v)])"

definition collect_mongo_indexes :: "unicode \<Rightarrow> nat \<Rightarrow> diag_engine \<Rightarrow> string \<Rightarrow> string \<Rightarrow> string \<Rightarrow> utext" where
  "collect_mongo_indexes uc n en db coll command =
     (let name = (if coll = [] then extract_mongo_collection command else coll) in
      if name = [] then u ''(no collection recognised)''
      else case bindE (de_open en) (\<lambda>_. bindE (de_query en db (''db.getCollection('' @ [dquote] @ name @ [dquote] @ '').getIndexes()'')) (\<lambda>rs.
          bindE (mapE (index_row uc n) (rt_rows rs)) (\<lambda>ls.
            let head = u (''-- collection: '' @ name @ '' (indexes)'') in
            Inr (if rt_rows rs = [] then head @ u ([newline] @ ''(no index, or only _id)'') else ujoin (u [newline]) (head # concat ls))))) of
        Inl e \<Rightarrow> u (''(reading the indexes of '' @ name @ '' failed: '' @ exn_str e @ '')'') | Inr t \<Rightarrow> t)"

text \<open>A table whose definition cannot be read is named with the reason.\<close>

definition table_schema :: "string \<Rightarrow> string res \<Rightarrow> string" where
  "table_schema table r = ''-- table: '' @ table @ (case r of
       Inl e \<Rightarrow> ''(reading the DDL failed: '' @ exn_str e @ '')''
     | Inr ddl \<Rightarrow> if ddl = [] then ''(no structure found)''
         else [newline] @ (if 1200 < length ddl then take 1200 ddl @ [newline] @ ''... (DDL cut)'' else ddl))"

definition collect_table_schemas ::
  "unicode \<Rightarrow> nat \<Rightarrow> cloud \<Rightarrow> diag_engine \<Rightarrow> instance_row \<Rightarrow> string \<Rightarrow> string \<Rightarrow> string \<Rightarrow> utext" where
  "collect_table_schemas uc n c en i db sql coll =
     (if i_db_type i = ''mongo'' then
        (if ay_enabled c (i_id i) then u ''(Aliyun MongoDB cannot be asked for its indexes)'' else collect_mongo_indexes uc n en db coll sql)
      else if i_db_type i \<notin> set [''mysql'', ''pgsql''] then u ''(no DDL for this kind of database)''
      else let names = extract_table_names sql in
        if names = [] then u ''(no table recognised in the statement)''
        else case de_open en of
          Inl e \<Rightarrow> u (''(collecting the structure failed: '' @ exn_str e @ '')'')
        | Inr _ \<Rightarrow> u (join [newline, newline] (map (\<lambda>t. table_schema t
            (if i_db_type i = ''mysql'' then collect_mysql_ddl en db t else collect_pgsql_ddl en db t)) names)))"

section \<open>The plan\<close>

definition collect_mongo_plan_summary :: "slow_state \<Rightarrow> int \<Rightarrow> string \<Rightarrow> string" where
  "collect_mongo_plan_summary s inst h =
     (case sort_desc dt_start (filter (\<lambda>d. dt_instance d = inst \<and> dt_hash d = Some h \<and> gd_plan d \<noteq> []) (tbl_rows (sl_mongo s))) of
        [] \<Rightarrow> ''(no planSummary for this fingerprint)'' | d # _ \<Rightarrow> ''planSummary: '' @ gd_plan d)"

definition plan_keys :: "string list" where
  "plan_keys = [''id'', ''select_type'', ''table'', ''type'', ''key'', ''rows'', ''extra'']"

definition ends_with :: "string \<Rightarrow> string \<Rightarrow> bool" where
  "ends_with s e = (length e \<le> length s \<and> drop (length s - length e) s = e)"

definition key_index :: "string list \<Rightarrow> string \<Rightarrow> (string \<times> nat) list" where
  "key_index cols k = (case filter (\<lambda>i. ends_with (cols ! i) k) [0..<length cols] of [] \<Rightarrow> [] | i # _ \<Rightarrow> [(k, i)])"

definition plan_part :: "result_row \<Rightarrow> string \<times> nat \<Rightarrow> string list res" where
  "plan_part r p = (if row_length r \<le> snd p then Inr [] else bindE (row_nth r (snd p)) (\<lambda>v.
     Inr (if v = PNone \<or> show_pyval v = [] then [] else [fst p @ ''='' @ show_pyval v])))"

definition mysql_plan_line :: "(string \<times> nat) list \<Rightarrow> result_row \<Rightarrow> string list res" where
  "mysql_plan_line ks r = bindE (mapE (plan_part r) ks) (\<lambda>ps. let parts = concat ps in Inr (if parts = [] then [] else [join '' | '' parts]))"

definition mysql_plan :: "result_set \<Rightarrow> string list res" where
  "mysql_plan rs = map_sum id concat (mapE (mysql_plan_line (concat (map (key_index (map lower (rt_column_list rs))) plan_keys))) (take 10 (rt_rows rs)))"

fun plan_cells :: "result_row \<Rightarrow> string list" where
  "plan_cells (Row vs) = map show_pyval (filter truthy vs)"
| "plan_cells (DictRow d) = filter (\<lambda>k. k \<noteq> []) (map fst d)"

definition pgsql_plan :: "result_set \<Rightarrow> string list" where
  "pgsql_plan rs = take 20 (concat (map plan_cells (take 10 (rt_rows rs))))"

fun replace_all :: "string \<Rightarrow> string \<Rightarrow> string \<Rightarrow> string" where
  "replace_all a b [] = []"
| "replace_all a b (c # s) = (if a \<noteq> [] \<and> take (length a) (c # s) = a then b @ replace_all a b (drop (length a - 1) s) else c # replace_all a b s)"

definition explain_sql :: "string \<Rightarrow> string \<Rightarrow> string" where
  "explain_sql db_type sql = ''EXPLAIN '' @ (if db_type = ''mysql'' then replace_all ''?'' ''1'' sql else replace_all ''%s'' ''1'' sql)"

definition plan_text :: "string list \<Rightarrow> string" where
  "plan_text ls = (if ls = [] then ''(the summary of the plan is empty)'' else join [newline] ls)"

definition collect_explain :: "slow_state \<Rightarrow> diag_engine \<Rightarrow> instance_row \<Rightarrow> string \<Rightarrow> string \<Rightarrow> string \<Rightarrow> string" where
  "collect_explain s en i db sql h =
     (if i_db_type i = ''mongo'' then collect_mongo_plan_summary s (i_id i) h
      else if i_db_type i \<notin> set [''mysql'', ''pgsql''] then ''(no EXPLAIN for this kind of database)''
      else if sql = [] then ''(no statement to explain)''
      else case bindE (de_open en) (\<lambda>_. case sanitize_explain_sql sql of
            (None, e) \<Rightarrow> Inr (''('' @ (case e of None \<Rightarrow> [] | Some m \<Rightarrow> m) @ '')'')
          | (Some clean, e) \<Rightarrow> bindE (de_query en db (explain_sql (i_db_type i) clean)) (\<lambda>rs.
              case rt_error rs of
                Some (x # xs) \<Rightarrow> Inr (''(EXPLAIN failed: '' @ x # xs @ '')'')
              | _ \<Rightarrow> if rt_rows rs = [] then Inr ''(EXPLAIN without result)''
                  else if i_db_type i = ''mysql'' then map_sum id plan_text (mysql_plan rs) else Inr (plan_text (pgsql_plan rs)))) of
        Inl e \<Rightarrow> ''(collecting the plan failed: '' @ exn_str e @ '')'' | Inr t \<Rightarrow> t)"

end
