(* ===== verification/DiagnosisTasks.thy ===== *)
theory DiagnosisTasks
  imports Diagnosis
begin

text \<open>
  The tasks of the diagnosis of slow queries (\<open>sql/services/diagnosis.py\<close>, \<open>sql_api/api_slowquery_v2.py\<close>):
  requests, the pool of four workers with four waiting places, the job and its report, stale tasks, feedback and the
  draft of a work order. The tables may refuse a write; the service and the servers are parameters.
\<close>

section \<open>Tables\<close>

record diag_task =
  dk_id :: int
  dk_user :: int
  dk_instance :: int
  dk_db_name :: string
  dk_hash :: string
  dk_status :: string
  dk_progress :: string
  dk_model :: string
  dk_prompt_tokens :: int
  dk_completion_tokens :: int
  dk_error :: string
  dk_created :: usec
  dk_finished :: "usec option"

record diag_report =
  dr_id :: int
  dr_task :: int
  dr_hash :: string
  dr_root_cause :: utext
  dr_severity :: string
  dr_bottleneck :: string
  dr_evidence :: "utext list"
  dr_suggestions :: "suggestion list"
  dr_confidence :: rat
  dr_model :: string
  dr_created :: usec

record diag_feedback =
  fb_id :: int
  fb_report :: int
  fb_user :: int
  fb_helpful :: bool
  fb_reason :: string
  fb_created :: usec

record audit_entry =
  ae_user_id :: int
  ae_user_name :: string
  ae_user_display :: string
  ae_action :: string
  ae_extra_info :: utext
  ae_action_time :: usec

text \<open>A job of the pool: started, analysed, or with its report stored.\<close>

datatype job_phase = Started | Analysed diagnosis ai_client | Saved diagnosis ai_client

record diag_state = ai_env +
  dg_slow :: slow_state
  dg_tasks :: "diag_task table"
  dg_reports :: "diag_report table"
  dg_feedback :: "diag_feedback table"
  dg_audit :: "audit_entry list"
  dg_free :: nat
  dg_queue :: "int list"
  dg_busy :: "(diag_task \<times> job_phase) list"
  dg_pool_up :: bool
  dg_faults :: "exn option list"

definition DIAG_MAX_WORKERS :: nat where "DIAG_MAX_WORKERS = 4"

definition DIAG_MAX_PENDING :: nat where "DIAG_MAX_PENDING = 4"

definition DIAGNOSIS_CACHE_DAYS :: int where "DIAGNOSIS_CACHE_DAYS = 7"

definition DIAGNOSIS_STALE_RUNNING_MINUTES :: int where "DIAGNOSIS_STALE_RUNNING_MINUTES = 5"

definition DIAGNOSIS_STALE_PENDING_MINUTES :: int where "DIAGNOSIS_STALE_PENDING_MINUTES = 12"

text \<open>The stored statistics, at the time of the diagnosis.\<close>

definition slow_of :: "diag_state \<Rightarrow> slow_state" where
  "slow_of s = (dg_slow s)\<lparr>sl_now := ev_now s\<rparr>"

definition world_of :: "diag_state \<Rightarrow> world" where
  "world_of s = sl_world (dg_slow s)"

text \<open>A statement that writes: it may be refused by the database.\<close>

definition db_write :: "(diag_state, 'a) M \<Rightarrow> (diag_state, 'a) M" where
  "db_write m = (\<lambda>s. case dg_faults s of
       Some e # fs \<Rightarrow> (Inl e, s\<lparr>dg_faults := fs\<rparr>)
     | fs \<Rightarrow> m (s\<lparr>dg_faults := tl fs\<rparr>))"

text \<open>\<open>task.save(update_fields=...)\<close>: the columns that \<open>f\<close> does not set stay as they are in the table.\<close>

definition save_task :: "int \<Rightarrow> (diag_task \<Rightarrow> diag_task) \<Rightarrow> (diag_state, unit) M" where
  "save_task k f = db_write (\<lambda>s. case tbl_save_fields dk_id k f (dg_tasks s) of
       Inl e \<Rightarrow> (Inl e, s) | Inr t \<Rightarrow> (Inr (), s\<lparr>dg_tasks := t\<rparr>))"

definition set_dk_id :: "int \<Rightarrow> diag_task \<Rightarrow> diag_task" where
  "set_dk_id k t = t\<lparr>dk_id := k\<rparr>"

definition create_task :: "diag_task \<Rightarrow> (diag_state, int) M" where
  "create_task t = db_write (\<lambda>s. (Inr (tbl_next (dg_tasks s)), s\<lparr>dg_tasks := tbl_create set_dk_id t (dg_tasks s)\<rparr>))"

text \<open>\<open>AuditEntry.objects.create\<close> in a \<open>try\<close> whose handler passes.\<close>

definition audit :: "user \<Rightarrow> string \<Rightarrow> utext \<Rightarrow> (diag_state, unit) M" where
  "audit usr action extra = catchM (db_write (modifyM (\<lambda>s. s\<lparr>dg_audit := dg_audit s @
       [\<lparr>ae_user_id = u_id usr, ae_user_name = u_username usr, ae_user_display = u_display usr, ae_action = action,
         ae_extra_info = extra, ae_action_time = ev_now s\<rparr>]\<rparr>))) (\<lambda>e. Some (ret ()))"

section \<open>Stale tasks\<close>

definition live :: "diag_task \<Rightarrow> bool" where
  "live t = (dk_status t \<in> set [''pending'', ''running''])"

definition stale_minutes :: "diag_task \<Rightarrow> int" where
  "stale_minutes t = (if dk_status t = ''running'' then DIAGNOSIS_STALE_RUNNING_MINUTES else DIAGNOSIS_STALE_PENDING_MINUTES)"

definition is_stale :: "usec \<Rightarrow> diag_task \<Rightarrow> bool" where
  "is_stale now t = (live t \<and> seconds (stale_minutes t * 60) < now - dk_created t)"

definition timed_out :: "usec \<Rightarrow> int \<Rightarrow> diag_task \<Rightarrow> diag_task" where
  "timed_out now minutes r = r\<lparr>dk_status := ''failed'',
     dk_error := ''the diagnosis timed out (not finished in '' @ str_int minutes @ '' minutes), please try again'', dk_finished := Some now\<rparr>"

text \<open>The answer is the task as it is afterwards and whether it was marked.\<close>

definition mark_stale_task_failed :: "diag_task \<Rightarrow> (diag_state, diag_task \<times> bool) M" where
  "mark_stale_task_failed t = bindM (getsM ev_now) (\<lambda>now.
     if is_stale now t then thenM (save_task (dk_id t) (timed_out now (stale_minutes t))) (ret (timed_out now (stale_minutes t) t, True))
     else ret (t, False))"

fun mark_stale_tasks :: "diag_task list \<Rightarrow> nat \<Rightarrow> (diag_state, nat) M" where
  "mark_stale_tasks [] marked = ret marked"
| "mark_stale_tasks (t # ts) marked = bindM (mark_stale_task_failed t) (\<lambda>r. mark_stale_tasks ts (if snd r then marked + 1 else marked))"

definition cleanup_stale_diagnosis_tasks :: "(diag_state, nat) M" where
  "cleanup_stale_diagnosis_tasks = bindM (getsM (\<lambda>s. tbl_filter live (dg_tasks s))) (\<lambda>ts. mark_stale_tasks ts 0)"

section \<open>Reports\<close>

text \<open>The last success of the fingerprint in seven days, unless its report is of another model.\<close>

definition same_fingerprint :: "int \<Rightarrow> string \<Rightarrow> string \<Rightarrow> diag_task \<Rightarrow> bool" where
  "same_fingerprint inst db h t = (dk_instance t = inst \<and> dk_db_name t = db \<and> dk_hash t = h)"

definition get_cached_report :: "diag_state \<Rightarrow> instance_row \<Rightarrow> string \<Rightarrow> string \<Rightarrow> string \<Rightarrow> (diag_task \<times> diag_report) option" where
  "get_cached_report s i db h model =
     (case sort_desc dk_created (tbl_filter (\<lambda>t. same_fingerprint (i_id i) db h t \<and> dk_status t = ''success''
             \<and> ev_now s - days DIAGNOSIS_CACHE_DAYS \<le> dk_created t) (dg_tasks s)) of
        [] \<Rightarrow> None
      | t # _ \<Rightarrow> (case tbl_first (\<lambda>r. dr_task r = dk_id t) (dg_reports s) of
            None \<Rightarrow> None
          | Some r \<Rightarrow> if model \<noteq> [] \<and> dr_model r \<noteq> [] \<and> dr_model r \<noteq> model then None else Some (t, r)))"

definition running_task :: "diag_state \<Rightarrow> instance_row \<Rightarrow> string \<Rightarrow> string \<Rightarrow> diag_task option" where
  "running_task s i db h = (case sort_desc dk_created (tbl_filter (\<lambda>t. same_fingerprint (i_id i) db h t \<and> live t) (dg_tasks s)) of
       [] \<Rightarrow> None | t # _ \<Rightarrow> Some t)"

definition suggestion_json :: "suggestion \<Rightarrow> json" where
  "suggestion_json g = JObj [(u ''type'', JStr (sg_type g)), (u ''desc'', JStr (sg_desc g)), (u ''index_ddl'', JStr (sg_index_ddl g)),
     (u ''before'', JStr (sg_before g)), (u ''after'', JStr (sg_after g))]"

definition serialize_report :: "diag_report \<Rightarrow> row_dict" where
  "serialize_report r = [(''id'', CInt (dr_id r)), (''task_id'', CInt (dr_task r)), (''sql_hash'', CText (dr_hash r)),
     (''root_cause'', CJson (JStr (dr_root_cause r))), (''severity'', CText (dr_severity r)), (''bottleneck_type'', CText (dr_bottleneck r)),
     (''evidence'', CJson (JArr (map JStr (dr_evidence r)))), (''suggestions'', CJson (JArr (map suggestion_json (dr_suggestions r)))),
     (''confidence'', CNum (dr_confidence r)), (''model'', CText (dr_model r)), (''created_at'', CText (strftime_time (dr_created r)))]"

text \<open>The fields of a task and, for a success, its report.\<close>

definition serialize_task :: "diag_state \<Rightarrow> diag_task \<Rightarrow> row_dict \<times> row_dict option" where
  "serialize_task s t =
     ([(''task_id'', CInt (dk_id t)), (''status'', CText (dk_status t)), (''progress'', CText (dk_progress t)), (''sql_hash'', CText (dk_hash t)),
       (''error'', CText (dk_error t)), (''created_at'', CText (strftime_time (dk_created t)))],
      if dk_status t = ''success'' then map_option serialize_report (tbl_first (\<lambda>r. dr_task r = dk_id t) (dg_reports s)) else None)"

section \<open>Requests\<close>

definition may_diagnose :: "user \<Rightarrow> bool" where
  "may_diagnose usr = (u_is_superuser usr \<or> has_perm usr ''sql.use_ai_diagnosis'')"

definition check_diagnosis_permission :: "user \<Rightarrow> string option" where
  "check_diagnosis_permission usr = (if may_diagnose usr then None else Some ''no permission for AI diagnoses (sql.use_ai_diagnosis)'')"

definition check_diagnosis_config :: "world \<Rightarrow> string option" where
  "check_diagnosis_config w =
     (if \<not> truthy (config_get w ''enable_ai_slowquery_diagnosis'' (PBool False)) then Some ''AI diagnosis is switched off''
      else if \<not> check_openai_config w then Some ''the AI service is not configured (openai_api_key is missing)'' else None)"

record diag_request =
  gq_instance :: string
  gq_db_name :: string
  gq_hash :: string
  gq_force :: bool

datatype diag_answer = CachedReport int row_dict | ReusedTask int | SubmittedTask int

definition new_task :: "usec \<Rightarrow> user \<Rightarrow> instance_row \<Rightarrow> diag_request \<Rightarrow> string \<Rightarrow> diag_task" where
  "new_task now usr i q model = \<lparr>dk_id = 0, dk_user = u_id usr, dk_instance = i_id i, dk_db_name = gq_db_name q, dk_hash = gq_hash q,
     dk_status = ''pending'', dk_progress = [], dk_model = model, dk_prompt_tokens = 0, dk_completion_tokens = 0, dk_error = [],
     dk_created = now, dk_finished = None\<rparr>"

definition cache_account :: "user \<Rightarrow> instance_row \<Rightarrow> string \<Rightarrow> string \<Rightarrow> account" where
  "cache_account usr i db model = \<lparr>ac_capability = ''slowquery_diagnosis'', ac_client = None, ac_usage = None, ac_model = model,
     ac_db_type = i_db_type i, ac_instance_name = i_instance_name i, ac_db_name = db, ac_user_name = u_username usr, ac_latency = None,
     ac_status = ''success'', ac_cache_hit = True, ac_error = []\<rparr>"

definition pool_full :: "diag_task \<Rightarrow> diag_task" where
  "pool_full r = r\<lparr>dk_status := ''failed'', dk_error := ''too many diagnoses (at most 4 running + 4 waiting), please try again later''\<rparr>"

definition release_slot :: "(diag_state, unit) M" where
  "release_slot = modifyM (\<lambda>s. s\<lparr>dg_free := dg_free s + 1\<rparr>)"

text \<open>The pool: a place is taken, the job waits in the queue; submitting may fail, then the place is given back.\<close>

definition submit_job :: "int \<Rightarrow> (diag_state, unit) M" where
  "submit_job k = (\<lambda>s. if dg_pool_up s then (Inr (), s\<lparr>dg_queue := dg_queue s @ [k]\<rparr>)
     else (Inl (RuntimeError ''cannot schedule new futures after shutdown''), s))"

definition start_diagnosis :: "user \<Rightarrow> diag_request \<Rightarrow> int \<Rightarrow> (diag_state, diag_answer reply) M" where
  "start_diagnosis usr q k = bindM (getsM dg_free) (\<lambda>free.
     if free = 0 then bindM (getsM ev_now) (\<lambda>now.
       thenM (save_task k (\<lambda>r. (pool_full r)\<lparr>dk_finished := Some now\<rparr>)) (ret (Refused ''too many diagnoses, please try again later'')))
     else thenM (modifyM (\<lambda>s. s\<lparr>dg_free := dg_free s - 1\<rparr>))
       (bindM (catchM (thenM (submit_job k) (ret None)) (\<lambda>e. Some (thenM release_slot (ret (Some e))))) (\<lambda>r. case r of
          Some e \<Rightarrow> thenM (save_task k (\<lambda>r. r\<lparr>dk_status := ''failed'', dk_error := ''submitting the diagnosis failed: '' @ exn_str e\<rparr>))
            (ret (Refused ''submitting the diagnosis failed''))
        | None \<Rightarrow> thenM (audit usr ''slowquery.diagnose_start'' (u (''instance='' @ gq_instance q @ '', db='' @ gq_db_name q @ '', sql_hash='' @ gq_hash q
              @ '', task_id='' @ str_int k))) (ret (Data (SubmittedTask k))))))"

text \<open>A refusal of the lookup of an instance; other exceptions pass.\<close>

definition find_instance :: "user \<Rightarrow> string \<Rightarrow> (instance_row \<Rightarrow> (diag_state, 'a reply) M) \<Rightarrow> (diag_state, 'a reply) M" where
  "find_instance usr name k = bindM (getsM world_of) (\<lambda>w. case get_and_check_instance w usr name of
       Inl e \<Rightarrow> (if is_DoesNotExist e then ret (Refused ''your groups do not have this instance'') else throw e)
     | Inr i \<Rightarrow> k i)"

definition diagnose_instance :: "user \<Rightarrow> diag_request \<Rightarrow> instance_row \<Rightarrow> (diag_state, diag_answer reply) M" where
  "diagnose_instance usr q i = bindM (getsM (\<lambda>s. s)) (\<lambda>s.
     let model = cl_model (OpenaiClient (world_of s) [] []) in
     case (if gq_force q then None else get_cached_report s i (gq_db_name q) (gq_hash q) model) of
       Some (t, r) \<Rightarrow> thenM (record_ai_usage (cache_account usr i (gq_db_name q) model)) (ret (Data (CachedReport (dk_id t) (serialize_report r))))
     | None \<Rightarrow> (case running_task s i (gq_db_name q) (gq_hash q) of
           Some t \<Rightarrow> ret (Data (ReusedTask (dk_id t)))
         | None \<Rightarrow> bindM (create_task (new_task (ev_now s) usr i q model)) (start_diagnosis usr q)))"

definition SlowQueryDiagnose_post :: "user \<Rightarrow> diag_request \<Rightarrow> (diag_state, diag_answer reply) M" where
  "SlowQueryDiagnose_post usr q =
     (if \<not> may_diagnose usr then throw PermissionDenied
      else if gq_instance q = [] \<or> gq_hash q = [] then ret (Refused ''instance_name or sql_hash is missing'')
      else case check_diagnosis_permission usr of Some m \<Rightarrow> ret (Refused m)
      | None \<Rightarrow> bindM (getsM (\<lambda>s. check_diagnosis_config (world_of s))) (\<lambda>c. case c of
            Some m \<Rightarrow> ret (Refused m)
          | None \<Rightarrow> find_instance usr (gq_instance q) (diagnose_instance usr q)))"

datatype report_answer = NoReport | ReportFound int row_dict | TaskState int string string

definition SlowQueryDiagnose_get :: "user \<Rightarrow> string \<Rightarrow> string \<Rightarrow> string \<Rightarrow> (diag_state, report_answer reply) M" where
  "SlowQueryDiagnose_get usr name db h =
     (if \<not> may_see_slowquery usr then throw PermissionDenied
      else if name = [] \<or> h = [] then ret (Refused ''instance_name or sql_hash is missing'')
      else find_instance usr name (\<lambda>i. bindM (getsM (\<lambda>s. s)) (\<lambda>s. case get_cached_report s i db h [] of
          Some (t, r) \<Rightarrow> ret (Data (ReportFound (dk_id t) (serialize_report r)))
        | None \<Rightarrow> (case running_task s i db h of
              None \<Rightarrow> ret (Data NoReport)
            | Some t \<Rightarrow> bindM (mark_stale_task_failed t) (\<lambda>m.
                ret (Data (TaskState (dk_id t) (dk_status (fst m)) (if snd m then dk_error (fst m) else []))))))))"

definition SlowQueryDiagnoseBatchStatus_get :: "diag_state \<Rightarrow> user \<Rightarrow> string \<Rightarrow> string \<Rightarrow> string \<Rightarrow> string list reply res" where
  "SlowQueryDiagnoseBatchStatus_get s usr name db raw =
     (let hashes = take 100 (filter (\<lambda>h. h \<noteq> []) (split_on (CHR '','') raw)) in
      if \<not> may_see_slowquery usr then Inl PermissionDenied
      else if name = [] \<or> hashes = [] then Inr (Refused ''instance_name or hashes is missing'')
      else case get_and_check_instance (world_of s) usr name of
        Inl e \<Rightarrow> (if is_DoesNotExist e then Inr (Refused ''your groups do not have this instance'') else Inl e)
      | Inr i \<Rightarrow> Inr (Data (sort (remdups (map dk_hash (tbl_filter (\<lambda>t. dk_instance t = i_id i \<and> dk_db_name t = db \<and> dk_hash t \<in> set hashes
            \<and> dk_status t = ''success'' \<and> ev_now s - days DIAGNOSIS_CACHE_DAYS \<le> dk_created t) (dg_tasks s)))))))"

text \<open>Reading a task: by superusers, its owner, and those who see the instance.\<close>

definition sees_instance :: "world \<Rightarrow> user \<Rightarrow> int \<Rightarrow> bool res" where
  "sees_instance w usr inst = bindE (tbl_get ''Instance'' (\<lambda>i. i_id i = inst) (w_instances w)) (\<lambda>i.
     Inr (list_ex (\<lambda>x. i_id x = i_id i) (user_instances w usr [] [i_db_type i] [])))"

definition SlowQueryDiagnoseTask_get :: "user \<Rightarrow> int \<Rightarrow> (diag_state, (row_dict \<times> row_dict option) reply) M" where
  "SlowQueryDiagnoseTask_get usr k = bindM (getsM (\<lambda>s. s)) (\<lambda>s. case tbl_get ''AIDiagnosisTask'' (\<lambda>t. dk_id t = k) (dg_tasks s) of
       Inl e \<Rightarrow> (if is_DoesNotExist e then ret (Refused ''no such task'') else throw e)
     | Inr t \<Rightarrow>
         (if \<not> (u_is_superuser usr \<or> dk_user t = u_id usr \<or> has_perm usr ''sql.menu_slowquery'') then ret (Refused ''you may not see this task'')
          else bindM (if u_is_superuser usr \<or> dk_user t = u_id usr then ret True else liftM (\<lambda>s. sees_instance (world_of s) usr (dk_instance t))) (\<lambda>ok.
            if \<not> ok then ret (Refused ''you may not see this task'')
            else bindM (mark_stale_task_failed t) (\<lambda>m. bindM (getsM (\<lambda>s. s)) (\<lambda>s'. ret (Data (serialize_task s' (fst m))))))))"

section \<open>The job\<close>

text \<open>What a job finds outside: the decoder of texts, the depth of the parser, the cloud, the engine of the instance, the service.\<close>

record outside =
  ou_unicode :: unicode
  ou_depth :: nat
  ou_cloud :: cloud
  ou_engine :: diag_engine
  ou_answers :: "completion res list"

definition set_progress :: "int \<Rightarrow> string \<Rightarrow> (diag_state, unit) M" where
  "set_progress k p = catchM (db_write (modifyM (\<lambda>s. s\<lparr>dg_tasks := tbl_update (\<lambda>t. dk_id t = k) (\<lambda>t. t\<lparr>dk_progress := p\<rparr>) (dg_tasks s)\<rparr>)))
     (\<lambda>e. Some (ret ()))"

definition begin_job :: "int \<Rightarrow> (diag_state, diag_task option) M" where
  "begin_job k = bindM (getsM (\<lambda>s. tbl_get ''AIDiagnosisTask'' (\<lambda>t. dk_id t = k) (dg_tasks s))) (\<lambda>r. case r of
       Inl e \<Rightarrow> (if is_DoesNotExist e then ret None else throw e)
     | Inr t \<Rightarrow> thenM (save_task k (\<lambda>r. r\<lparr>dk_status := ''running''\<rparr>)) (ret (Some (t\<lparr>dk_status := ''running''\<rparr>))))"

definition task_instance :: "diag_task \<Rightarrow> diag_state \<Rightarrow> instance_row res" where
  "task_instance t s = tbl_get ''Instance'' (\<lambda>i. i_id i = dk_instance t) (w_instances (world_of s))"

definition sample_of :: "row_dict \<Rightarrow> string" where
  "sample_of stats = (let sample = text_or_empty (jget stats ''sample_sql'' (CText [])) in
     if sample = [] then text_or_empty (jget stats ''fingerprint'' (CText [])) else sample)"

text \<open>The prompt holds the statement without its literals; the tables and the plan are as the server told them.\<close>

definition ask_service :: "outside \<Rightarrow> diag_task \<Rightarrow> instance_row \<Rightarrow> row_dict \<Rightarrow> string \<Rightarrow> utext \<Rightarrow> string \<Rightarrow> (diag_state, diagnosis \<times> ai_client) M" where
  "ask_service ou t i stats trend schemas explain =
     thenM (modifyM (\<lambda>s. s\<lparr>ev_client := OpenaiClient (world_of s) ''slowquery_diagnosis'' (ou_answers ou)\<rparr>))
       (bindM (with_client (diagnose_slowquery_by_openai (ou_unicode ou) (ou_depth ou) (i_db_type i) (dk_db_name t)
            (mask_sql_literals (sample_of stats)) stats trend schemas explain))
          (\<lambda>d. bindM (getsM ev_client) (\<lambda>c. ret (d, c))))"

definition analyse_job :: "outside \<Rightarrow> diag_task \<Rightarrow> (diag_state, diagnosis \<times> ai_client) M" where
  "analyse_job ou t = bindM (liftM (task_instance t)) (\<lambda>i. thenM (set_progress (dk_id t) ''collecting'')
     (bindM (getsM (\<lambda>s. collect_stats (ou_unicode ou) (ou_depth ou) (ou_cloud ou) (slow_of s) i (dk_hash t) (dk_db_name t))) (\<lambda>stats.
        if sample_of stats = [] then throw (ValueError ''no sample of this fingerprint in the statistics'')
        else thenM (set_progress (dk_id t) ''collecting_trend'')
          (bindM (getsM (\<lambda>s. collect_trend (ou_cloud ou) (slow_of s) i (dk_hash t) 14)) (\<lambda>trend. thenM (set_progress (dk_id t) ''collecting_ddl'')
             (let schemas = collect_table_schemas (ou_unicode ou) (ou_depth ou) (ou_cloud ou) (ou_engine ou) i (dk_db_name t) (sample_of stats)
                   (text_or_empty (jget stats ''collection_name'' (CText []))) in
              thenM (set_progress (dk_id t) ''collecting_explain'')
                (bindM (getsM (\<lambda>s. collect_explain (slow_of s) (ou_engine ou) i (dk_db_name t) (sample_of stats) (dk_hash t))) (\<lambda>explain.
                   thenM (set_progress (dk_id t) ''analyzing'') (ask_service ou t i stats trend schemas explain)))))))))"

definition diag_account :: "diag_task \<Rightarrow> ai_client \<Rightarrow> string \<Rightarrow> string \<Rightarrow> diag_state \<Rightarrow> account res" where
  "diag_account t c status err s = bindE (task_instance t s) (\<lambda>i. bindE (tbl_get ''Users'' (\<lambda>x. u_id x = dk_user t) (w_users (world_of s))) (\<lambda>usr.
     Inr \<lparr>ac_capability = ''slowquery_diagnosis'', ac_client = Some c, ac_usage = None, ac_model = [], ac_db_type = i_db_type i,
       ac_instance_name = i_instance_name i, ac_db_name = dk_db_name t, ac_user_name = u_username usr, ac_latency = None, ac_status = status,
       ac_cache_hit = False, ac_error = err\<rparr>))"

definition fallback_error :: string where
  "fallback_error = ''the AI service is not available, please try again later''"

definition fail_job :: "diag_task \<Rightarrow> string \<Rightarrow> (diag_state, unit) M" where
  "fail_job t m = bindM (getsM ev_now) (\<lambda>now.
     save_task (dk_id t) (\<lambda>r. r\<lparr>dk_status := ''failed'', dk_error := m, dk_finished := Some now\<rparr>))"

definition give_up_job :: "diag_task \<Rightarrow> ai_client \<Rightarrow> (diag_state, unit) M" where
  "give_up_job t c = thenM (fail_job t fallback_error) (bindM (liftM (diag_account t c ''failed'' fallback_error)) record_ai_usage)"

definition set_dr_id :: "int \<Rightarrow> diag_report \<Rightarrow> diag_report" where
  "set_dr_id k r = r\<lparr>dr_id := k\<rparr>"

definition report_of :: "usec \<Rightarrow> diag_task \<Rightarrow> diagnosis \<Rightarrow> ai_client \<Rightarrow> diag_report" where
  "report_of now t d c = \<lparr>dr_id = 0, dr_task = dk_id t, dr_hash = dk_hash t, dr_root_cause = dx_root_cause d, dr_severity = dx_severity d,
     dr_bottleneck = dx_bottleneck d, dr_evidence = dx_evidence d, dr_suggestions = dx_suggestions d, dr_confidence = dx_confidence d,
     dr_model = cl_model c, dr_created = now\<rparr>"

definition save_report :: "diag_task \<Rightarrow> diagnosis \<Rightarrow> ai_client \<Rightarrow> (diag_state, unit) M" where
  "save_report t d c = thenM (set_progress (dk_id t) ''saving'') (atomicM
     (thenM (db_write (modifyM (\<lambda>s. s\<lparr>dg_reports := tbl_delete (\<lambda>r. dr_task r = dk_id t) (dg_reports s)\<rparr>)))
       (db_write (modifyM (\<lambda>s. s\<lparr>dg_reports := tbl_create set_dr_id (report_of (ev_now s) t d c) (dg_reports s)\<rparr>)))))"

definition finish_job :: "diag_task \<Rightarrow> diagnosis \<Rightarrow> ai_client \<Rightarrow> (diag_state, unit) M" where
  "finish_job t d c = bindM (getsM ev_now) (\<lambda>now.
     thenM (save_task (dk_id t) (\<lambda>r. r\<lparr>dk_status := ''success'', dk_model := cl_model c, dk_prompt_tokens := dx_prompt_tokens d,
              dk_completion_tokens := dx_completion_tokens d, dk_finished := Some now\<rparr>))
       (bindM (liftM (diag_account t c [] [])) record_ai_usage))"

text \<open>The handler of the job: whatever went wrong is the error of the task.\<close>

definition or_fail :: "diag_task \<Rightarrow> (diag_state, 'a) M \<Rightarrow> (diag_state, 'a option) M" where
  "or_fail t m = catchM (bindM m (\<lambda>x. ret (Some x))) (\<lambda>e. Some (thenM (fail_job t (take 1000 (exn_str e))) (ret None)))"

definition settle_job :: "diag_task \<Rightarrow> diagnosis \<times> ai_client \<Rightarrow> (diag_state, unit) M" where
  "settle_job t a = (if dx_is_fallback (fst a) then give_up_job t (snd a)
     else thenM (save_report t (fst a) (snd a)) (finish_job t (fst a) (snd a)))"

definition diagnose_slowquery_task :: "outside \<Rightarrow> int \<Rightarrow> (diag_state, unit) M" where
  "diagnose_slowquery_task ou k = bindM (begin_job k) (\<lambda>r. case r of
       None \<Rightarrow> ret ()
     | Some t \<Rightarrow> thenM (or_fail t (bindM (analyse_job ou t) (settle_job t))) (ret ()))"

section \<open>The pool\<close>

text \<open>
  The job in the steps between which other threads may write: taking it from the queue, the analysis, the report, the end.
  However a job ends, its place is given back.
\<close>

definition take_job :: "(diag_state, unit) M" where
  "take_job = (\<lambda>s. case dg_queue s of
       [] \<Rightarrow> (Inr (), s)
     | k # ks \<Rightarrow> (if DIAG_MAX_WORKERS \<le> length (dg_busy s) then (Inr (), s)
         else case begin_job k (s\<lparr>dg_queue := ks\<rparr>) of
             (Inr (Some t), s') \<Rightarrow> (Inr (), s'\<lparr>dg_busy := dg_busy s' @ [(t, Started)]\<rparr>)
           | (r, s') \<Rightarrow> release_slot s'))"

definition phase_step :: "outside \<Rightarrow> diag_task \<Rightarrow> job_phase \<Rightarrow> (diag_state, job_phase option) M" where
  "phase_step ou t p = (case p of
       Started \<Rightarrow> bindM (analyse_job ou t) (\<lambda>a. if dx_is_fallback (fst a) then thenM (give_up_job t (snd a)) (ret None)
         else ret (Some (Analysed (fst a) (snd a))))
     | Analysed d c \<Rightarrow> thenM (save_report t d c) (ret (Some (Saved d c)))
     | Saved d c \<Rightarrow> thenM (finish_job t d c) (ret None))"

definition drop_nth :: "nat \<Rightarrow> 'a list \<Rightarrow> 'a list" where
  "drop_nth j xs = take j xs @ drop (Suc j) xs"

definition advance_job :: "outside \<Rightarrow> nat \<Rightarrow> (diag_state, unit) M" where
  "advance_job ou j = (\<lambda>s. if length (dg_busy s) \<le> j then (Inr (), s) else case dg_busy s ! j of (t, p) \<Rightarrow>
     (case or_fail t (phase_step ou t p) s of
        (Inr (Some (Some p')), s') \<Rightarrow> (Inr (), s'\<lparr>dg_busy := (dg_busy s')[j := (t, p')]\<rparr>)
      | (r, s') \<Rightarrow> release_slot (s'\<lparr>dg_busy := drop_nth j (dg_busy s')\<rparr>)))"

section \<open>Feedback and drafts\<close>

definition report_key :: "pyval \<Rightarrow> int option res" where
  "report_key v = (case v of PNone \<Rightarrow> Inr None | PInt k \<Rightarrow> Inr (Some k) | PBool b \<Rightarrow> Inr (Some (if b then 1 else 0))
     | PStr t \<Rightarrow> (case parse_int t of Some k \<Rightarrow> Inr (Some k) | None \<Rightarrow> Inl (ValueError ''Field id expected a number'')))"

text \<open>\<open>AIDiagnosisReport.objects.select_related("task__instance").get(id=...)\<close> and the test of its instance.\<close>

definition find_report :: "user \<Rightarrow> pyval \<Rightarrow> (diag_report \<Rightarrow> (diag_state, 'a reply) M) \<Rightarrow> (diag_state, 'a reply) M" where
  "find_report usr key k = bindM (getsM (\<lambda>s. bindE (report_key key) (\<lambda>n. tbl_get ''AIDiagnosisReport'' (\<lambda>r. Some (dr_id r) = n) (dg_reports s)))) (\<lambda>f. case f of
       Inl e \<Rightarrow> (if is_DoesNotExist e then ret (Refused ''no such report'') else throw e)
     | Inr r \<Rightarrow> bindM (liftM (\<lambda>s. bindE (tbl_get ''AIDiagnosisTask'' (\<lambda>t. dk_id t = dr_task r) (dg_tasks s)) (\<lambda>t. sees_instance (world_of s) usr (dk_instance t)))) (\<lambda>ok.
         if ok then k r else ret (Refused ''you may not see the instance of this report'')))"

definition set_fb_id :: "int \<Rightarrow> diag_feedback \<Rightarrow> diag_feedback" where
  "set_fb_id k f = f\<lparr>fb_id := k\<rparr>"

definition SlowQueryDiagnoseFeedback_post :: "user \<Rightarrow> int \<Rightarrow> pyval \<Rightarrow> pyval \<Rightarrow> (diag_state, int reply) M" where
  "SlowQueryDiagnoseFeedback_post usr k helpful reason =
     (if \<not> may_diagnose usr then throw PermissionDenied
      else find_report usr (PInt k) (\<lambda>r. bindM (db_write (\<lambda>s. (Inr (tbl_next (dg_feedback s)), s\<lparr>dg_feedback := tbl_create set_fb_id
            \<lparr>fb_id = 0, fb_report = dr_id r, fb_user = u_id usr, fb_helpful = truthy helpful, fb_reason = take 255 (show_pyval reason), fb_created = ev_now s\<rparr>
            (dg_feedback s)\<rparr>))) (\<lambda>n.
          thenM (audit usr ''slowquery.feedback'' (u (''report_id='' @ str_int k @ '', helpful='' @ show_pyval helpful @ '', reason='' @ show_pyval reason)))
            (ret (Data n)))))"

record draft =
  df_sql :: utext
  df_type :: utext
  df_report :: pyval
  df_root_cause :: utext
  df_severity :: string
  df_bottleneck :: string
  df_desc :: utext
  df_before :: utext
  df_after :: utext
  df_risk :: risk_summary

definition draft_sql :: "suggestion \<Rightarrow> utext" where
  "draft_sql g = (if sg_type g = u ''index_ddl'' then sg_index_ddl g
     else if sg_type g = u ''rewrite'' then sg_after g
     else if sg_index_ddl g \<noteq> [] then sg_index_ddl g else sg_after g)"

text \<open>The report as the reviewed content of a work order of one statement.\<close>

definition draft_risk :: "diag_report \<Rightarrow> suggestion \<Rightarrow> risk_summary" where
  "draft_risk r g = (let has_ai = (dr_severity r \<in> set VALID_JUDGED_LEVELS) in
     calc_ai_risk_summary (RowsText [new_ReviewResult\<lparr>rr_extra :=
       [(''ai_risk_level'', if has_ai then PStr (dr_severity r) else PNone),
        (''ai_risk_score'', if has_ai then PInt (floor (dr_confidence r * 100)) else PNone),
        (''ai_ddl_lock_risk'', PStr (if sg_type g = u ''index_ddl'' \<and> dr_severity r = ''high'' then ''high'' else []))]\<rparr>]))"

definition draft_of :: "pyval \<Rightarrow> diag_report \<Rightarrow> suggestion \<Rightarrow> draft" where
  "draft_of key r g = \<lparr>df_sql = draft_sql g, df_type = sg_type g, df_report = key, df_root_cause = dr_root_cause r, df_severity = dr_severity r,
     df_bottleneck = dr_bottleneck r, df_desc = sg_desc g, df_before = sg_before g, df_after = sg_after g, df_risk = draft_risk r g\<rparr>"

definition SlowQueryDiagnoseWorkflow_post :: "user \<Rightarrow> pyval \<Rightarrow> pyval \<Rightarrow> (diag_state, draft reply) M" where
  "SlowQueryDiagnoseWorkflow_post usr key index =
     (if \<not> may_diagnose usr then throw PermissionDenied
      else case pyval_int index of
        Inl e \<Rightarrow> ret (Refused ''suggestion_index is invalid'')
      | Inr j \<Rightarrow> (case check_diagnosis_permission usr of
          Some m \<Rightarrow> ret (Refused m)
        | None \<Rightarrow> find_report usr key (\<lambda>r.
            if j < 0 \<or> int (length (dr_suggestions r)) \<le> j then ret (Refused ''no such suggestion'')
            else let g = dr_suggestions r ! nat j in
              if draft_sql g = [] then ret (Refused ''the suggestion has no statement'')
              else thenM (audit usr ''slowquery.suggestion_adopt'' (u (''report_id='' @ show_pyval key @ '', suggestion_index='' @ str_int j
                    @ '', type='') @ sg_type g @ u ('', bottleneck_type='' @ dr_bottleneck r)))
                (ret (Data (draft_of key r g))))))"

section \<open>Steps\<close>

text \<open>
  What may happen to the diagnoses: requests of users, the clean up, the workers of the pool, time, changes of the
  statistics and of the configuration, faults of the database, the end of the pool, and a new start of the process, which forgets its queue and its jobs.
\<close>

definition restart :: "diag_state \<Rightarrow> diag_state" where
  "restart s = s\<lparr>dg_free := DIAG_MAX_WORKERS + DIAG_MAX_PENDING, dg_queue := [], dg_busy := [], dg_pool_up := True\<rparr>"

inductive diag_step :: "diag_state \<Rightarrow> diag_state \<Rightarrow> bool" where
  request: "diag_step s (snd (SlowQueryDiagnose_post usr q s))"
| lookup: "diag_step s (snd (SlowQueryDiagnose_get usr name db h s))"
| poll: "diag_step s (snd (SlowQueryDiagnoseTask_get usr k s))"
| feedback: "diag_step s (snd (SlowQueryDiagnoseFeedback_post usr k helpful reason s))"
| draft: "diag_step s (snd (SlowQueryDiagnoseWorkflow_post usr key index s))"
| cleanup: "diag_step s (snd (cleanup_stale_diagnosis_tasks s))"
| take: "diag_step s (snd (take_job s))"
| advance: "diag_step s (snd (advance_job ou j s))"
| tick: "ev_now s \<le> t \<Longrightarrow> diag_step s (s\<lparr>ev_now := t\<rparr>)"
| elsewhere: "diag_step s (s\<lparr>dg_slow := x\<rparr>)"
| faults: "diag_step s (s\<lparr>dg_faults := fs, dg_pool_up := b\<rparr>)"
| new_start: "diag_step s (restart s)"

definition diag_reach :: "diag_state \<Rightarrow> diag_state \<Rightarrow> bool" where
  "diag_reach = diag_step\<^sup>*\<^sup>*"

end
