(* ===== verification/AiReview.thy ===== *)
theory AiReview
  imports AiGateway SqlText
begin

text \<open>
  \<open>sql/utils/ai_review.py\<close>: the review of the statements of a work order by the language model. Statements and
  table definitions are masked before they leave; what an engine tells about tables is a parameter.
\<close>

section \<open>The context\<close>

record mongo_index =
  mi_name :: string
  mi_key :: "(string \<times> string) list"
  mi_unique :: bool

record review_engine =
  en_extract_tables :: "string \<Rightarrow> string list"
  en_escape_string :: "string \<Rightarrow> string"
  en_describe_table :: "string \<Rightarrow> string \<Rightarrow> pyval list list res"
  en_pg_describe_table :: "string \<Rightarrow> string \<Rightarrow> pg_column list res"
  en_table_meta :: "string \<Rightarrow> string \<Rightarrow> (string list \<times> pyval list) res"
  en_connection :: "unit res"
  en_list_indexes :: "string \<Rightarrow> string \<Rightarrow> mongo_index list res"
  en_coll_stats :: "string \<Rightarrow> string \<Rightarrow> (int \<times> int) res"

definition MAX_STATEMENTS :: nat where "MAX_STATEMENTS = 20"

definition BATCH_SIZE :: nat where "BATCH_SIZE = 10"

definition MAX_CONTEXT_OBJECTS :: nat where "MAX_CONTEXT_OBJECTS = 5"

definition CACHE_TTL :: usec where "CACHE_TTL = seconds 3600"

definition strip_char :: "char \<Rightarrow> string \<Rightarrow> string" where
  "strip_char c s = rev (dropWhile (\<lambda>d. d = c) (rev (dropWhile (\<lambda>d. d = c) s)))"

definition add_new :: "string list \<Rightarrow> string list \<Rightarrow> string list" where
  "add_new names xs = foldl (\<lambda>ns x. if x \<in> set ns then ns else ns @ [x]) names xs"

definition extract_obj_names :: "review_engine \<Rightarrow> string \<Rightarrow> string list \<Rightarrow> string list" where
  "extract_obj_names en db_type masked =
     (if db_type = ''mongo'' then fold (\<lambda>s names. add_new names (extract_mongo_collections s)) masked []
      else fold (\<lambda>s names. add_new names (filter (\<lambda>n. n \<noteq> []) (map (\<lambda>t. strip (strip_char (CHR 0x60) t)) (en_extract_tables en s)))) masked [])"

text \<open>\<open>str\<close> of a value in a formatted text.\<close>

fun show_val :: "pyval \<Rightarrow> string" where
  "show_val PNone = ''None''"
| "show_val (PBool b) = (if b then ''True'' else ''False'')"
| "show_val (PInt i) = str_int i"
| "show_val (PStr s) = s"

text \<open>The number of rows in the metadata: without such a column, or with too short a row, the table is left out.\<close>

fun position :: "'a \<Rightarrow> 'a list \<Rightarrow> nat option" where
  "position x [] = None"
| "position x (y # ys) = (if y = x then Some 0 else map_option Suc (position x ys))"

definition rows_line :: "string \<Rightarrow> (string list \<times> pyval list) res \<Rightarrow> string list" where
  "rows_line name meta = (case meta of Inl e \<Rightarrow> [] | Inr (cols, vals) \<Rightarrow> (case position ''table_rows'' cols of
       None \<Rightarrow> []
     | Some i \<Rightarrow> if i < length vals then [name @ '': about '' @ show_val (vals ! i) @ '' rows''] else []))"

definition table_part :: "string \<Rightarrow> string \<Rightarrow> string" where
  "table_part name ddl = ''-- table '' @ name @ [newline] @ ddl"

definition mysql_ddl :: "string \<Rightarrow> pyval list list res \<Rightarrow> string list" where
  "mysql_ddl name rs = (case rs of Inr (r # _) \<Rightarrow> [table_part name ((if 1 < length r then show_val (r ! 1) else []) @ '';'')] | _ \<Rightarrow> [])"

definition collect_mysql_context :: "review_engine \<Rightarrow> string \<Rightarrow> string list \<Rightarrow> string \<times> string" where
  "collect_mysql_context en db_name names = (let db = en_escape_string en db_name; ns = take MAX_CONTEXT_OBJECTS names in
     (join [newline] (concat (map (\<lambda>n. mysql_ddl n (en_describe_table en db n)) ns)),
      join [newline] (concat (map (\<lambda>n. rows_line n (en_table_meta en db n)) ns))))"

definition pgsql_ddl :: "string \<Rightarrow> pg_column list res \<Rightarrow> string list" where
  "pgsql_ddl name rs = (case rs of Inr (r # rows) \<Rightarrow> [table_part name (pg_rows_to_ddl name (r # rows))] | _ \<Rightarrow> [])"

definition collect_pgsql_context :: "review_engine \<Rightarrow> string \<Rightarrow> string list \<Rightarrow> string \<times> string" where
  "collect_pgsql_context en db_name names = (let ns = take MAX_CONTEXT_OBJECTS names in
     (join [newline] (concat (map (\<lambda>n. pgsql_ddl n (en_pg_describe_table en db_name n)) ns)),
      join [newline] (concat (map (\<lambda>n. rows_line n (en_table_meta en db_name n)) ns))))"

definition index_line :: "mongo_index \<Rightarrow> string" where
  "index_line i = mi_name i @ '' ('' @ join '', '' (map (\<lambda>(f, d). f @ '':'' @ d) (mi_key i)) @ (if mi_unique i then '', unique'' else []) @ '')''"

definition mongo_indexes :: "string \<Rightarrow> mongo_index list res \<Rightarrow> string list" where
  "mongo_indexes name r = (case r of Inl e \<Rightarrow> [] | Inr is \<Rightarrow>
     [''-- indexes of '' @ name @ [newline] @ (if is = [] then ''(no index, only _id)'' else join [newline] (map index_line is))])"

definition megabytes :: "int \<Rightarrow> string" where
  "megabytes bytes = repr_float (case round_double (of_int bytes / 1048576) of Fin x \<Rightarrow> round_double (round_to 1 x) | x \<Rightarrow> x)"

definition mongo_size :: "string \<Rightarrow> (int \<times> int) res \<Rightarrow> string list" where
  "mongo_size name r = (case r of Inl e \<Rightarrow> [] | Inr (docs, bytes) \<Rightarrow>
     [name @ '': about '' @ str_int docs @ '' documents, data '' @ megabytes bytes @ ''MB''])"

text \<open>The connection is made outside of the attempts for one collection.\<close>

definition collect_mongo_context :: "review_engine \<Rightarrow> string \<Rightarrow> string list \<Rightarrow> (string \<times> string) res" where
  "collect_mongo_context en db_name names = bindE (en_connection en) (\<lambda>_. let ns = take MAX_CONTEXT_OBJECTS names in
     Inr (join [newline] (concat (map (\<lambda>n. mongo_indexes n (en_list_indexes en db_name n)) ns)),
          join [newline] (concat (map (\<lambda>n. mongo_size n (en_coll_stats en db_name n)) ns))))"

definition collect_context :: "review_engine \<Rightarrow> string \<Rightarrow> string \<Rightarrow> string list \<Rightarrow> (string \<times> string) res" where
  "collect_context en db_type db_name names =
     (if names = [] then Inr (''(no table or collection recognised, only the statement is judged)'', ''(no table recognised)'')
      else if db_type = ''mysql'' then Inr (collect_mysql_context en db_name names)
      else if db_type = ''pgsql'' then Inr (collect_pgsql_context en db_name names)
      else if db_type = ''mongo'' then collect_mongo_context en db_name names
      else Inr (''(no context for this kind of database, only the statement is judged)'', ''(no row counts)''))"

section \<open>A batch\<close>

text \<open>The cache of Django, which a failure makes look empty.\<close>

record review_env = ai_env +
  rv_cache :: "(string \<times> (review list \<times> usec)) list"
  rv_cache_up :: bool

definition cache_get_quiet :: "string \<Rightarrow> review_env \<Rightarrow> review list option" where
  "cache_get_quiet key e = (if \<not> rv_cache_up e then None else case map_of (rv_cache e) key of
       None \<Rightarrow> None
     | Some (v, expires) \<Rightarrow> if ev_now e < expires then Some v else None)"

definition cache_set_quiet :: "string \<Rightarrow> review list \<Rightarrow> (review_env, unit) M" where
  "cache_set_quiet key v = (\<lambda>e. (Inr (), if rv_cache_up e then e\<lparr>rv_cache := dict_put key (v, ev_now e + CACHE_TTL) (rv_cache e)\<rparr> else e))"

definition batch_cache_key :: "(string \<Rightarrow> string) \<Rightarrow> string \<Rightarrow> string \<Rightarrow> string list \<Rightarrow> string" where
  "batch_cache_key md5 model db_name masked = ''ai_sql_review_batch:'' @ md5 (join ''||'' (model # db_name # masked))"

datatype outcome = Reviewed review | ReviewError string

text \<open>The facts about the order that go into the prompts and the account.\<close>

record review_job =
  jb_db_type :: string
  jb_db_name :: string
  jb_instance_name :: string
  jb_user_name :: string

definition job_account :: "review_job \<Rightarrow> account" where
  "job_account j = \<lparr>ac_capability = ''sql_review'', ac_client = None, ac_usage = None, ac_model = [], ac_db_type = jb_db_type j,
     ac_instance_name = jb_instance_name j, ac_db_name = jb_db_name j, ac_user_name = jb_user_name j, ac_latency = None,
     ac_status = ''success'', ac_cache_hit = False, ac_error = []\<rparr>"

definition record_call :: "review_job \<Rightarrow> (review_env, unit) M" where
  "record_call j = bindM (getsM ev_client) (\<lambda>c. record_ai_usage ((job_account j)\<lparr>ac_client := Some c\<rparr>))"

definition record_hit :: "review_job \<Rightarrow> string \<Rightarrow> (review_env, unit) M" where
  "record_hit j model = record_ai_usage ((job_account j)\<lparr>ac_model := model, ac_latency := Some 0, ac_cache_hit := True\<rparr>)"

definition record_failure :: "review_job \<Rightarrow> exn \<Rightarrow> (review_env, unit) M" where
  "record_failure j x = bindM (getsM ev_client) (\<lambda>c.
     record_ai_usage ((job_account j)\<lparr>ac_client := Some c, ac_status := ''failed'', ac_error := take 500 (exn_str x)\<rparr>))"

definition review_one :: "unicode \<Rightarrow> nat \<Rightarrow> review_engine \<Rightarrow> review_job \<Rightarrow> string \<Rightarrow> (review_env, review) M" where
  "review_one uc n en j sql =
     bindM (liftM (\<lambda>_. collect_context en (jb_db_type j) (jb_db_name j) (extract_obj_names en (jb_db_type j) [sql]))) (\<lambda>(schemas, rows).
       with_client (review_sql_by_openai uc n (jb_db_type j) (jb_db_name j) sql (mask_sql_literals schemas) rows))"

fun review_missing ::
  "unicode \<Rightarrow> nat \<Rightarrow> review_engine \<Rightarrow> review_job \<Rightarrow> string list \<Rightarrow> review option list \<Rightarrow> (review_env, outcome list) M" where
  "review_missing uc n en j (s # ss) (r # rs) = bindM (case r of
         Some x \<Rightarrow> ret (Reviewed x)
       | None \<Rightarrow> catchM (bindM (review_one uc n en j s) (\<lambda>x. ret (Reviewed x)))
           (\<lambda>x. Some (thenM (record_failure j x) (ret (ReviewError (take 500 (exn_str x)))))))
     (\<lambda>o1. bindM (review_missing uc n en j ss rs) (\<lambda>os. ret (o1 # os)))"
| "review_missing uc n en j ss rs = ret []"

text \<open>The reviews, when there are no others among the results.\<close>

fun all_reviewed :: "outcome list \<Rightarrow> review list option" where
  "all_reviewed [] = Some []"
| "all_reviewed (Reviewed r # os) = map_option (Cons r) (all_reviewed os)"
| "all_reviewed (ReviewError x # os) = None"

definition pad :: "nat \<Rightarrow> review option list \<Rightarrow> review option list" where
  "pad n rs = rs @ replicate (n - length rs) None"

definition batch_review ::
  "unicode \<Rightarrow> nat \<Rightarrow> review_engine \<Rightarrow> review_job \<Rightarrow> string list \<Rightarrow> (review_env, review option list option) M" where
  "batch_review uc n en j masked =
     bindM (liftM (\<lambda>_. collect_context en (jb_db_type j) (jb_db_name j) (extract_obj_names en (jb_db_type j) masked))) (\<lambda>(schemas, rows).
       with_client (review_sql_batch_by_openai uc n (jb_db_type j) (jb_db_name j) masked (mask_sql_literals schemas) rows))"

definition store_reviews :: "string \<Rightarrow> outcome list \<Rightarrow> (review_env, unit) M" where
  "store_reviews key os = (case all_reviewed os of Some rs \<Rightarrow> cache_set_quiet key rs | None \<Rightarrow> ret ())"

definition review_fresh :: "unicode \<Rightarrow> nat \<Rightarrow> review_engine \<Rightarrow> review_job \<Rightarrow> string \<Rightarrow> string list \<Rightarrow> (review_env, outcome list) M" where
  "review_fresh uc n en j key masked =
     bindM (batch_review uc n en j masked) (\<lambda>r.
     thenM (record_call j)
       (bindM (review_missing uc n en j masked (pad (length masked) (case r of None \<Rightarrow> [] | Some rs \<Rightarrow> rs))) (\<lambda>os.
        thenM (store_reviews key os) (ret os))))"

definition review_statements ::
  "(string \<Rightarrow> string) \<Rightarrow> unicode \<Rightarrow> nat \<Rightarrow> review_engine \<Rightarrow> review_job \<Rightarrow> string list \<Rightarrow> (review_env, outcome list) M" where
  "review_statements md5 uc n en j statements = (\<lambda>e.
     let masked = map mask_sql_literals statements; model = cl_model (ev_client e);
         key = batch_cache_key md5 model (jb_db_name j) masked in
     (case (case cache_get_quiet key e of Some rs \<Rightarrow> if length rs = length masked then Some rs else None | None \<Rightarrow> None) of
        Some rs \<Rightarrow> thenM (record_hit j model) (ret (map Reviewed rs)) e
      | None \<Rightarrow> catchM (review_fresh uc n en j key masked) (\<lambda>x. Some (thenM (record_failure j x) (throw x))) e))"

section \<open>The rows of a check\<close>

text \<open>A row is a result with the review attached to it, or a \<open>dict\<close>, which is left alone.\<close>

datatype check_row = CheckRow review_result "review option" | DictCheckRow "(string \<times> pyval) list"

definition ai_extra :: "review \<Rightarrow> (string \<times> pyval) list" where
  "ai_extra r = [(''ai_risk_level'', PStr (rw_level r)), (''ai_risk_score'', PInt (rw_score r)),
     (''ai_ddl_lock_risk'', PStr (rw_lock r)), (''ai_use_osc'', PBool (rw_osc r))]"

fun attach :: "review \<Rightarrow> check_row \<Rightarrow> check_row" where
  "attach r (CheckRow row old) = CheckRow (row\<lparr>rr_extra := fold (\<lambda>(k, v). dict_put k v) (ai_extra r) (rr_extra row)\<rparr>) (Some r)"
| "attach r (DictCheckRow d) = DictCheckRow d"

definition unknown_review :: "utext \<Rightarrow> review" where
  "unknown_review summary = \<lparr>rw_level = ''unknown'', rw_score = 0, rw_summary = summary, rw_suggestion = [], rw_lock = ''none'',
     rw_affected = [], rw_osc = False\<rparr>"

definition unknown_summary :: utext where "unknown_summary = u ''AI review failed''"

definition skip_summary :: utext where "skip_summary = u ''AI review skipped (too many statements)''"

definition attach_unknown :: "utext \<Rightarrow> check_row \<Rightarrow> check_row" where
  "attach_unknown summary = attach (unknown_review summary)"

definition attach_outcome :: "outcome \<Rightarrow> check_row \<Rightarrow> check_row" where
  "attach_outcome o1 = (case o1 of Reviewed r \<Rightarrow> attach r | ReviewError x \<Rightarrow> attach_unknown unknown_summary)"

text \<open>The rows beyond the limit are skipped; the others are reviewed in batches.\<close>

fun is_dict :: "check_row \<Rightarrow> bool" where
  "is_dict (DictCheckRow d) = True"
| "is_dict (CheckRow r x) = False"

definition skip_rows :: "check_row list \<Rightarrow> check_row list" where
  "skip_rows rows = map (\<lambda>(i, r). if MAX_STATEMENTS \<le> i then attach_unknown skip_summary r else r) (enumerate 0 rows)"

definition eligible :: "check_row list \<Rightarrow> nat list" where
  "eligible rows = filter (\<lambda>i. i < MAX_STATEMENTS \<and> \<not> is_dict (rows ! i)) [0..<length rows]"

fun row_sql :: "check_row \<Rightarrow> string" where
  "row_sql (CheckRow r x) = rr_sql r"
| "row_sql (DictCheckRow d) = []"

definition update_rows :: "nat list \<Rightarrow> (check_row \<Rightarrow> check_row) list \<Rightarrow> check_row list \<Rightarrow> check_row list" where
  "update_rows is fs rows = fold (\<lambda>(i, f) rs. rs[i := f (rs ! i)]) (zip is fs) rows"

definition review_batch ::
  "(string \<Rightarrow> string) \<Rightarrow> unicode \<Rightarrow> nat \<Rightarrow> review_engine \<Rightarrow> review_job \<Rightarrow> nat list \<Rightarrow> check_row list \<Rightarrow> (review_env, check_row list) M" where
  "review_batch md5 uc n en j is rows =
     catchM (bindM (review_statements md5 uc n en j (map (\<lambda>i. row_sql (rows ! i)) is)) (\<lambda>os. ret (update_rows is (map attach_outcome os) rows)))
       (\<lambda>x. Some (ret (update_rows is (map (\<lambda>_. attach_unknown unknown_summary) is) rows)))"

function review_batches ::
  "(string \<Rightarrow> string) \<Rightarrow> unicode \<Rightarrow> nat \<Rightarrow> review_engine \<Rightarrow> review_job \<Rightarrow> nat list \<Rightarrow> check_row list \<Rightarrow> (review_env, check_row list) M" where
  "review_batches md5 uc n en j is rows =
     (if is = [] then ret rows
      else bindM (review_batch md5 uc n en j (take BATCH_SIZE is) rows) (review_batches md5 uc n en j (drop BATCH_SIZE is)))"
  by pat_completeness auto
termination
  by (relation "measure (\<lambda>(_, _, _, _, _, is, _). length is)") (auto simp: BATCH_SIZE_def)

declare review_batches.simps [simp del]

text \<open>
  \<open>run_ai_review\<close>: nothing happens unless the engine's configuration has the switch on and a key is configured; the
  client is one for all batches.
\<close>

definition run_ai_review ::
  "(string \<Rightarrow> string) \<Rightarrow> unicode \<Rightarrow> nat \<Rightarrow> pyval \<Rightarrow> world \<Rightarrow> review_engine \<Rightarrow> review_job \<Rightarrow> completion res list \<Rightarrow> check_row list
   \<Rightarrow> (review_env, check_row list) M" where
  "run_ai_review md5 uc n enabled w en j answers rows =
     (if \<not> truthy enabled \<or> \<not> check_openai_config w then ret rows
      else thenM (modifyM (\<lambda>e. e\<lparr>ev_client := OpenaiClient w ''sql_review'' answers\<rparr>))
             (review_batches md5 uc n en j (eligible rows) (skip_rows rows)))"

end
