(* ===== verification/JsonRound.thy ===== *)
theory JsonRound
  imports Json
begin

text \<open>What \<open>dumps\<close> wrote is read back by \<open>loads\<close>.\<close>

section \<open>Strings\<close>

definition char_ok :: "bool \<Rightarrow> nat \<Rightarrow> bool" where
  "char_ok ascii c = (ascii \<longrightarrow> c < 1114112 \<and> \<not> (55296 \<le> c \<and> c \<le> 57343))"

lemma hex_value_digit [simp]: "n < 16 \<Longrightarrow> hex_value (hex_digit n) = Some n"
  by (auto simp: hex_value_def hex_digit_def)

lemma hex4_escape: "c < 65536 \<Longrightarrow> hex4 (drop 2 (hex_escape c) @ r) = Some (c, r)"
proof -
  assume c: "c < 65536"
  have a: "c div 4096 mod 16 = c div 4096" using c by simp
  have b: "c div 4096 * 16 + c div 256 mod 16 = c div 256" using div_mult_mod_eq [of "c div 256" 16] by (simp flip: div_mult2_eq)
  have d: "c div 256 * 16 + c div 16 mod 16 = c div 16" using div_mult_mod_eq [of "c div 16" 16] by (simp flip: div_mult2_eq)
  have e: "c div 16 * 16 + c mod 16 = c" by simp
  have f: "c div 4096 < 16" using c by (simp add: less_mult_imp_div_less)
  show ?thesis by (simp add: hex_escape_def a b d e f)
qed

lemma hex_escape_head: "hex_escape c @ r = 92 # 117 # drop 2 (hex_escape c) @ r"
  by (simp add: hex_escape_def)

lemma scan_hex_escape:
  assumes "c < 65536" "\<not> (55296 \<le> c \<and> c \<le> 56319)"
  shows "scan_string (hex_escape c @ r) = map_option (\<lambda>(xs, r'). (c # xs, r')) (scan_string r)"
  using assms unfolding hex_escape_head by (subst scan_string.simps) (auto simp: unicode_escape_def hex4_escape)

lemma scan_surrogates:
  assumes "h \<le> 1023" "l \<le> 1023"
  shows "scan_string (hex_escape (55296 + h) @ hex_escape (56320 + l) @ r)
    = map_option (\<lambda>(xs, r'). ((65536 + h * 1024 + l) # xs, r')) (scan_string r)"
proof -
  have "hex4 (drop 2 (hex_escape (55296 + h)) @ hex_escape (56320 + l) @ r) = Some (55296 + h, hex_escape (56320 + l) @ r)"
    by (rule hex4_escape) (use assms in simp)
  moreover have "hex4 (drop 2 (hex_escape (56320 + l)) @ r) = Some (56320 + l, r)"
    by (rule hex4_escape) (use assms in simp)
  then have "low_surrogate (hex_escape (56320 + l) @ r) = Some (56320 + l, r)"
    using assms by (simp add: low_surrogate_def hex_escape_head del: append_assoc) 
  ultimately have "unicode_escape (drop 2 (hex_escape (55296 + h)) @ hex_escape (56320 + l) @ r) = Some (65536 + h * 1024 + l, r)"
    using assms by (simp add: unicode_escape_def)
  then show ?thesis by (subst hex_escape_head, subst scan_string.simps) simp
qed

lemma scan_dump_char:
  assumes "char_ok a c"
  shows "scan_string (dump_char a c @ r) = map_option (\<lambda>(xs, r'). (c # xs, r')) (scan_string r)"
proof -
  let ?special = "{34, 92, 10, 13, 9, 12, 8}"
  consider (esc) "c \<in> ?special" | (coded) "c \<notin> ?special" "c < 32 \<or> a \<and> 126 < c"
    | (plain) "c \<notin> ?special" "\<not> (c < 32 \<or> a \<and> 126 < c)" by blast
  then show ?thesis
  proof cases
    case esc
    then obtain x where "dump_char a c = [92, x]" "simple_escape x = Some c" "x \<noteq> 117"
      by (auto simp: dump_char_def simple_escape_def)
    then show ?thesis by (subst scan_string.simps) simp
  next
    case coded
    show ?thesis
    proof (cases "c < 65536")
      case True
      with coded have "dump_char a c = hex_escape c" by (simp add: dump_char_def)
      moreover have "\<not> (55296 \<le> c \<and> c \<le> 56319)" using coded assms by (auto simp: char_ok_def)
      ultimately show ?thesis using True by (simp add: scan_hex_escape)
    next
      case False
      with coded assms have c: "c < 1114112" by (simp add: char_ok_def)
      have d: "dump_char a c = hex_escape (55296 + (c - 65536) div 1024) @ hex_escape (56320 + (c - 65536) mod 1024)"
        using coded False by (simp add: dump_char_def)
      have "(c - 65536) div 1024 \<le> 1023" "(c - 65536) mod 1024 \<le> 1023" using c by auto
      moreover have "65536 + (c - 65536) div 1024 * 1024 + (c - 65536) mod 1024 = c"
        using False div_mult_mod_eq [of "c - 65536" 1024] by linarith
      ultimately show ?thesis using scan_surrogates [of "(c - 65536) div 1024" "(c - 65536) mod 1024" r] d by simp
    qed
  next
    case plain
    then have "dump_char a c = [c]" "c \<noteq> 34" "c \<noteq> 92" "\<not> c \<le> 31" by (auto simp: dump_char_def)
    then show ?thesis by (subst scan_string.simps) simp
  qed
qed

section \<open>Numbers\<close>

definition stops :: "utext \<Rightarrow> bool" where
  "stops r = (case r of [] \<Rightarrow> True | c # _ \<Rightarrow> \<not> digit c \<and> c \<noteq> 46 \<and> c \<noteq> 101 \<and> c \<noteq> 69)"

lemma digit_code: "digit (char_code c) = is_digit c"
  by (simp add: digit_def is_digit_def)

lemma digits_value_append: "digits_value (xs @ [c]) = 10 * digits_value xs + int (c - 48)"
  by (simp add: digits_value_def)

lemma str_nat_value: "digits_value (u (str_nat n)) = int n"
proof (induction n rule: str_nat.induct)
  case (1 n)
  show ?case
  proof (cases "n < 10")
    case True
    then show ?thesis by (simp add: str_nat.simps [of n] digits_value_def digit_char_code)
  next
    case False
    moreover have "10 * int (n div 10) + int (n mod 10) = int n" using div_mult_mod_eq [of n 10] by linarith
    ultimately show ?thesis using 1 by (simp add: str_nat.simps [of n] digits_value_append digit_char_code)
  qed
qed

lemma u_str_nat_digits: "list_all digit (u (str_nat n))"
  by (auto simp: list_all_iff u_def digit_code str_nat_digits)

lemma str_nat_no_zero: "0 < n \<Longrightarrow> hd (u (str_nat n)) \<noteq> 48"
proof (induction n rule: str_nat.induct)
  case (1 n)
  show ?case
  proof (cases "n < 10")
    case True
    with 1(2) show ?thesis by (simp add: str_nat.simps [of n] digit_char_code)
  next
    case False
    then have "hd (u (str_nat (n div 10))) \<noteq> 48" by (intro 1(1)) auto
    with False show ?thesis by (simp add: str_nat.simps [of n] u_def hd_append)
  qed
qed

lemma str_nat_zero: "u (str_nat 0) = [48]"
  by (simp add: str_nat.simps [of 0] digit_char_code)

lemma takeWhile_stop: "list_all P xs \<Longrightarrow> (r = [] \<or> \<not> P (hd r)) \<Longrightarrow> takeWhile P (xs @ r) = xs"
  by (induction xs) (auto simp: takeWhile_eq_Nil_iff)

lemma scan_str_nat:
  assumes "stops r" "length (str_nat n) \<le> max_str_digits"
  shows "scan_number neg (u (str_nat n) @ r) = Inr (JInt (if neg then - int n else int n), r)"
proof -
  obtain c t where s: "u (str_nat n) = c # t" by (cases "u (str_nat n)") (auto simp: u_def)
  have d: "list_all digit (c # t)" using u_str_nat_digits [of n] s by simp
  have r: "r = [] \<or> \<not> digit (hd r)" using assms(1) by (cases r) (auto simp: stops_def)
  have tw: "takeWhile digit (c # t @ r) = c # t" using takeWhile_stop [OF d r] by simp
  have t0: "c = 48 \<Longrightarrow> t = []" using str_nat_no_zero [of n] str_nat_zero s by (cases "n = 0") auto
  have "scan_fraction r = ([], r)" "scan_exponent r = (None, r)"
    using assms(1) by (auto simp: scan_fraction_def scan_exponent_def stops_def split: list.splits)
  moreover have "digits_value (c # t) = int n" using str_nat_value [of n] s by simp
  moreover have "Suc (length t) \<le> max_str_digits" using assms(2) s by (metis length_Cons length_map u_def)
  moreover have "digit c" using d by simp
  ultimately show ?thesis using s tw t0 by (auto simp: scan_number_def Let_def)
qed

lemma scan_constant_none: "c \<notin> set [110, 116, 102, 78, 73, 45] \<Longrightarrow> scan_constant (c # s) = None"
  by (simp add: scan_constant_def constants_def char_code_def)

lemma scan_constant_minus: "digit d \<Longrightarrow> scan_constant (45 # d # s) = None"
  by (auto simp: scan_constant_def constants_def char_code_def digit_def)

definition int_ok :: "int \<Rightarrow> bool" where
  "int_ok i = (length (str_nat (nat (abs i))) \<le> max_str_digits)"

lemma scan_int:
  assumes "stops r" "int_ok i"
  shows "scan_atom (dump_int i @ r) = Inr (JInt i, r)"
proof -
  obtain c t where s: "u (str_nat (nat (abs i))) = c # t" by (cases "u (str_nat (nat (abs i)))") (auto simp: u_def)
  have d: "digit c" using u_str_nat_digits [of "nat (abs i)"] s by simp
  have n: "scan_number neg (c # t @ r) = Inr (JInt (if neg then - abs i else abs i), r)" for neg
    using scan_str_nat [OF assms(1) assms(2) [unfolded int_ok_def], of neg] s by simp
  show ?thesis
  proof (cases "i < 0")
    case True
    then have "dump_int i @ r = 45 # c # t @ r" using s by (simp add: dump_int_def str_int_def char_code_def)
    with True n [of True] d show ?thesis by (simp add: scan_atom_def scan_constant_minus)
  next
    case False
    then have "dump_int i @ r = c # t @ r" using s by (simp add: dump_int_def str_int_def)
    moreover have "c \<noteq> 34" "c \<noteq> 45" "c \<notin> set [110, 116, 102, 78, 73, 45]" using d by (auto simp: digit_def)
    ultimately show ?thesis using False n [of False] by (simp add: scan_atom_def scan_constant_none)
  qed
qed

section \<open>Values\<close>

text \<open>
  A way to write the characters of a literal: a character it can write is either read back, or makes the literal
  unreadable.
\<close>

locale writer =
  fixes wr :: "nat \<Rightarrow> utext" and ok :: "nat \<Rightarrow> bool" and good :: "nat \<Rightarrow> bool"
  assumes reads_char: "ok c \<Longrightarrow> good c \<Longrightarrow> scan_string (wr c @ r) = map_option (\<lambda>(xs, r'). (c # xs, r')) (scan_string r)"
    and bad_char: "ok c \<Longrightarrow> \<not> good c \<Longrightarrow> scan_string (wr c @ r) = None"

text \<open>
  The values the round trip is stated for: nested at most \<open>n\<close> deep, with keys that differ, no finite floating point
  number, and characters that can be written. Its literals are readable when all their characters are.
\<close>

fun json_ok :: "(nat \<Rightarrow> bool) \<Rightarrow> nat \<Rightarrow> json \<Rightarrow> bool" where
  "json_ok ok n JNull = True"
| "json_ok ok n (JBool b) = True"
| "json_ok ok n (JInt i) = int_ok i"
| "json_ok ok n (JFloat x) = (x \<in> {NaN, PosInf, NegInf})"
| "json_ok ok n (JStr s) = list_all ok s"
| "json_ok ok n (JArr vs) = (0 < n \<and> (\<forall>v \<in> set vs. json_ok ok (n - 1) v))"
| "json_ok ok n (JObj ms) = (0 < n \<and> distinct (map fst ms) \<and> (\<forall>(k, v) \<in> set ms. list_all ok k \<and> json_ok ok (n - 1) v))"

fun readable :: "(nat \<Rightarrow> bool) \<Rightarrow> json \<Rightarrow> bool" where
  "readable good (JStr s) = list_all good s"
| "readable good (JArr vs) = (\<forall>v \<in> set vs. readable good v)"
| "readable good (JObj ms) = (\<forall>(k, v) \<in> set ms. list_all good k \<and> readable good v)"
| "readable good _ = True"

definition reads :: "(nat \<Rightarrow> bool) \<Rightarrow> (utext \<Rightarrow> (json \<times> utext) loaded) \<Rightarrow> (json \<Rightarrow> utext) \<Rightarrow> json \<Rightarrow> bool" where
  "reads good p d v = (\<forall>r. stops r \<longrightarrow> p (d v @ r) = (if readable good v then Inr (v, r) else Inl JSONDecodeError))"

lemma readsD: "reads good p d v \<Longrightarrow> stops r \<Longrightarrow> p (d v @ r) = (if readable good v then Inr (v, r) else Inl JSONDecodeError)"
  by (simp add: reads_def)

definition starts :: "utext \<Rightarrow> bool" where
  "starts s = (case s of [] \<Rightarrow> False | c # _ \<Rightarrow> \<not> json_space c \<and> c \<noteq> 93 \<and> c \<noteq> 125)"

lemma starts_append [simp]: "starts s \<Longrightarrow> starts (s @ r)"
  by (auto simp: starts_def split: list.splits)

lemma skip_ws_starts: "starts s \<Longrightarrow> skip_ws s = s"
  by (auto simp: starts_def skip_ws_def split: list.splits)

lemma starts_cons: "starts (c # s) = (\<not> json_space c \<and> c \<noteq> 93 \<and> c \<noteq> 125)"
  by (simp add: starts_def)

lemma starts_digits: "list_all digit s \<Longrightarrow> s \<noteq> [] \<Longrightarrow> starts s"
  by (cases s) (auto simp: starts_def digit_def json_space_def)

lemma starts_ne: "starts s \<Longrightarrow> s \<noteq> []"
  by (auto simp: starts_def)

lemma dump_starts: "json_ok ok n j \<Longrightarrow> starts (dump_with wr j)"
proof (cases j)
  case (JInt i)
  have "starts (u (str_nat k))" for k
    by (rule starts_digits [OF u_str_nat_digits]) (simp add: u_def)
  then show ?thesis by (auto simp: JInt dump_int_def str_int_def starts_cons json_space_def char_code_def)
qed (auto simp: starts_def json_space_def char_code_def dump_string_def)

lemma stops_simps [simp]: "stops []" "stops (44 # r)" "stops (93 # r)" "stops (125 # r)"
  by (simp_all add: stops_def digit_def)

lemma skip_ws_simps [simp]: "skip_ws [] = []" "skip_ws (44 # r) = 44 # r" "skip_ws (93 # r) = 93 # r" "skip_ws (125 # r) = 125 # r"
  "skip_ws (58 # r) = 58 # r" "skip_ws (34 # r) = 34 # r" "skip_ws (32 # r) = skip_ws r"
  by (simp_all add: skip_ws_def json_space_def)

lemma scan_items_reads:
  assumes "vs \<noteq> []" "\<forall>v \<in> set vs. reads good p d v \<and> starts (d v)" "length vs \<le> k"
  shows "scan_items p k (sep_by [44, 32] (map d vs) @ 93 # r)
    = (if \<forall>v \<in> set vs. readable good v then Inr (vs, r) else Inl JSONDecodeError)"
  using assms
proof (induction vs arbitrary: k)
  case (Cons v vs)
  then obtain m where k: "k = Suc m" by (cases k) auto
  have v: "reads good p d v" using Cons.prems(2) by simp
  show ?case
  proof (cases vs)
    case Nil
    with Cons.prems(2) k show ?thesis by (simp add: readsD [OF v])
  next
    case (Cons w ws)
    let ?t = "sep_by [44, 32] (map d vs) @ 93 # r"
    have "starts ?t" using Cons.prems(2) Cons by (cases ws) auto
    moreover have "scan_items p m ?t = (if \<forall>v \<in> set vs. readable good v then Inr (vs, r) else Inl JSONDecodeError)"
      by (rule Cons.IH) (use Cons Cons.prems k in auto)
    ultimately show ?thesis using Cons.prems(2) k Cons by (auto simp: readsD [OF v] skip_ws_starts)
  qed
qed simp

lemma dict_put_new: "k \<notin> set (map fst d) \<Longrightarrow> dict_put k v d = d @ [(k, v)]"
  by (induction d) auto

lemma dict_of_known: "distinct (map fst ps) \<Longrightarrow> dict_of ps = ps"
proof -
  have "fold (\<lambda>(k, v) d. dict_put k v d) ps d = d @ ps" if "distinct (map fst (d @ ps))" for d
    using that
  proof (induction ps arbitrary: d)
    case (Cons p ps)
    then have "dict_put (fst p) (snd p) d = d @ [p]" by (subst dict_put_new) auto
    moreover have "distinct (map fst ((d @ [p]) @ ps))" using Cons.prems by simp
    from Cons.IH [OF this] have "fold (\<lambda>(k, v) d. dict_put k v d) ps (d @ [p]) = d @ p # ps" by simp
    ultimately show ?case by (cases p) simp
  qed simp
  from this [of "[]"] show "distinct (map fst ps) \<Longrightarrow> ?thesis" by (simp add: dict_of_def)
qed

lemma sep_by_length: "\<forall>x \<in> set xs. x \<noteq> [] \<Longrightarrow> length xs \<le> length (sep_by s xs)"
proof (induction s xs rule: sep_by.induct)
  case (3 s x y xs)
  then show ?case by (cases x) auto
qed (auto simp: Suc_le_eq)

lemma starts_sep_by: "xs \<noteq> [] \<Longrightarrow> \<forall>x \<in> set xs. starts x \<Longrightarrow> starts (sep_by s xs)"
  by (cases "(s, xs)" rule: sep_by.cases) auto

lemma scan_is_atom: "s \<noteq> [] \<Longrightarrow> hd s \<noteq> 123 \<Longrightarrow> hd s \<noteq> 91 \<Longrightarrow> scan n s = scan_atom s"
  by (cases n; cases s) auto

lemma int_head: "dump_int i \<noteq> [] \<and> 45 \<le> hd (dump_int i) \<and> hd (dump_int i) \<le> 57"
proof -
  have "48 \<le> hd (u (str_nat k)) \<and> hd (u (str_nat k)) \<le> 57" for k
    using u_str_nat_digits [of k] by (cases "u (str_nat k)") (auto simp: digit_def u_def)
  from this [of "nat i"] show ?thesis by (auto simp: dump_int_def str_int_def u_def char_code_def)
qed

lemma dump_head: "json_ok ok n j \<Longrightarrow> hd (dump_with wr j) < 128"
proof (cases j)
  case (JInt i)
  then show ?thesis using int_head [of i] by simp
qed (auto simp: dump_string_def char_code_def)

definition dump_member :: "(nat \<Rightarrow> utext) \<Rightarrow> (json \<Rightarrow> utext) \<Rightarrow> utext \<times> json \<Rightarrow> utext" where
  "dump_member wr d m = dump_string wr (fst m) @ [58, 32] @ d (snd m)"

lemma dump_member_eq: "dump_member wr d (k, v) = dump_string wr k @ 58 # 32 # d v"
  by (simp add: dump_member_def)

lemma dump_member_starts: "starts (dump_member wr d x)"
  by (simp add: dump_member_def dump_string_def starts_cons json_space_def)

context writer
begin

lemma scan_written:
  "list_all ok s \<Longrightarrow> scan_string (concat (map wr s) @ 34 # r) = (if list_all good s then Some (s, r) else None)"
proof (induction s)
  case Nil
  show ?case by (subst scan_string.simps) simp
next
  case (Cons c s)
  then show ?case by (cases "good c") (simp_all add: reads_char bad_char)
qed

lemma scan_key_written:
  "list_all ok k \<Longrightarrow> starts s \<Longrightarrow> scan_key (dump_string wr k @ 58 # 32 # s) = (if list_all good k then Some (k, s) else None)"
  by (simp add: scan_key_def dump_string_def scan_written skip_ws_starts)

lemma scan_members_reads:
  assumes "ms \<noteq> []" "\<forall>(k, v) \<in> set ms. list_all ok k \<and> reads good p d v \<and> starts (d v)" "length ms \<le> k"
  shows "scan_members p k (sep_by [44, 32] (map (dump_member wr d) ms) @ 125 # r)
    = (if \<forall>(k, v) \<in> set ms. list_all good k \<and> readable good v then Inr (ms, r) else Inl JSONDecodeError)"
  using assms
proof (induction ms arbitrary: k)
  case (Cons m ms)
  then obtain j where k: "k = Suc j" by (cases k) auto
  obtain key v where m: "m = (key, v)" by force
  have v: "list_all ok key" "reads good p d v" "starts (d v)" using Cons.prems(2) m by auto
  show ?case
  proof (cases ms)
    case Nil
    with v k m show ?thesis by (simp add: readsD [OF v(2)] dump_member_eq scan_key_written)
  next
    case (Cons w ws)
    let ?t = "sep_by [44, 32] (map (dump_member wr d) ms) @ 125 # r"
    have "starts ?t" using Cons by (auto intro!: starts_append starts_sep_by dump_member_starts)
    moreover have "scan_members p j ?t
        = (if \<forall>(k, v) \<in> set ms. list_all good k \<and> readable good v then Inr (ms, r) else Inl JSONDecodeError)"
      by (rule Cons.IH) (use Cons Cons.prems k in auto)
    ultimately show ?thesis using v k m Cons by (auto simp: readsD [OF v(2)] skip_ws_starts dump_member_eq scan_key_written)
  qed
qed simp

text \<open>A value that was written is read back, whatever follows it, when its literals are readable.\<close>

lemma scan_dump: "json_ok ok n j \<Longrightarrow> reads good (scan n) (dump_with wr) j"
proof (induction j arbitrary: n)
  case (JArr vs)
  then obtain m where n: "n = Suc m" by (cases n) auto
  have all: "\<forall>v \<in> set vs. reads good (scan m) (dump_with wr) v \<and> starts (dump_with wr v)"
    using JArr n by (auto intro: dump_starts)
  have "scan_array (scan m) (sep_by [44, 32] (map (dump_with wr) vs) @ 93 # r)
      = (if readable good (JArr vs) then Inr (JArr vs, r) else Inl JSONDecodeError)" for r
  proof (cases "vs = []")
    case False
    let ?t = "sep_by [44, 32] (map (dump_with wr) vs) @ 93 # r"
    have o: "starts ?t" using all False by (auto intro!: starts_append starts_sep_by)
    have "length vs \<le> length ?t"
      using sep_by_length [of "map (dump_with wr) vs" "[44, 32]"] all by (force dest: starts_ne)
    note scan_items_reads [OF False all this, of r]
    with o show ?thesis by (cases ?t) (auto simp: scan_array_def skip_ws_starts starts_cons Let_def)
  qed (simp add: scan_array_def)
  with n show ?case by (simp add: reads_def)
next
  case (JObj ms)
  then obtain m where n: "n = Suc m" by (cases n) auto
  have all: "\<forall>(k, v) \<in> set ms. list_all ok k \<and> reads good (scan m) (dump_with wr) v \<and> starts (dump_with wr v)"
    using JObj n by (fastforce intro: dump_starts)
  have d: "(\<lambda>(k, v). dump_string wr k @ [58, 32] @ dump_with wr v) = dump_member wr (dump_with wr)"
    by (auto simp: dump_member_def)
  have "scan_object (scan m) (sep_by [44, 32] (map (dump_member wr (dump_with wr)) ms) @ 125 # r)
      = (if readable good (JObj ms) then Inr (JObj ms, r) else Inl JSONDecodeError)" for r
  proof (cases "ms = []")
    case False
    let ?t = "sep_by [44, 32] (map (dump_member wr (dump_with wr)) ms) @ 125 # r"
    have o: "starts ?t" using False by (auto intro!: starts_append starts_sep_by dump_member_starts)
    have "length ms \<le> length ?t"
      using sep_by_length [of "map (dump_member wr (dump_with wr)) ms" "[44, 32]"] dump_member_starts starts_ne by force
    note scan_members_reads [OF False all this, of r]
    moreover have "dict_of ms = ms" using JObj.prems by (intro dict_of_known) simp
    ultimately show ?thesis using o by (cases ?t) (auto simp: scan_object_def skip_ws_starts starts_cons Let_def)
  qed (simp add: scan_object_def)
  with n d show ?case by (simp add: reads_def)
next
  case (JInt i)
  have "dump_int i @ r \<noteq> []" "hd (dump_int i @ r) \<noteq> 123" "hd (dump_int i @ r) \<noteq> 91" for r
    using int_head [of i] by auto
  with JInt show ?case by (simp add: reads_def scan_is_atom scan_int)
next
  case (JStr s)
  then show ?case
    by (simp add: reads_def dump_string_def scan_is_atom scan_atom_def scan_constant_none scan_written)
qed (auto simp: reads_def scan_is_atom scan_atom_def scan_constant_def constants_def char_code_def)

lemma loads_dump:
  assumes "json_ok ok n j"
  shows "loads n (dump_with wr j) = (if readable good j then Inr j else Inl JSONDecodeError)"
proof -
  have "take 1 (dump_with wr j) \<noteq> [65279]" using dump_head [OF assms, of wr] by (cases "dump_with wr j") auto
  moreover have "skip_ws (dump_with wr j) = dump_with wr j" using skip_ws_starts dump_starts [OF assms] by blast
  moreover have "scan n (dump_with wr j @ []) = (if readable good j then Inr (j, []) else Inl JSONDecodeError)"
    by (rule readsD [OF scan_dump [OF assms]]) simp
  ultimately show ?thesis by (simp add: loads_def)
qed

end

text \<open>The writer of \<open>dumps\<close> writes everything readable.\<close>

interpretation json_writer: writer "dump_char a" "char_ok a" "\<lambda>c. True" for a
  by unfold_locales (simp_all add: scan_dump_char)

lemma readable_all [simp]: "readable (\<lambda>c. True) j"
  by (induction j) (auto simp: list_all_iff)

lemma loads_dumps: "json_ok (char_ok a) n j \<Longrightarrow> loads n (dumps a j) = Inr j"
  by (simp add: dumps_def json_writer.loads_dump)

end
