(* ===== verification/AiProps.thy ===== *)
theory AiProps
  imports AiReview JsonRound
begin

text \<open>
  What holds of the replies of a language model: valid JSON is read as it was written, also inside a code block, line
  breaks inside its strings are repaired, and whatever comes back, a review is well formed and a check goes on.
\<close>

section \<open>Reading a reply\<close>

lemma loads_fence: "take 3 t = fence \<Longrightarrow> loads n t = Inl JSONDecodeError"
proof -
  assume t: "take 3 t = fence"
  then obtain s where s: "t = 96 # s" by (cases t) (auto simp: fence_def)
  have "scan n (96 # s) = scan_atom (96 # s)" by (rule scan_is_atom) simp_all
  also have "\<dots> = Inl JSONDecodeError" by (simp add: scan_atom_def scan_constant_none scan_number_def digit_def)
  finally show ?thesis using s by (simp add: loads_def skip_ws_def json_space_def)
qed
















section \<open>Line breaks inside strings\<close>


















section \<open>Well-formed reviews\<close>

definition no_emoji :: "utext \<Rightarrow> bool" where
  "no_emoji t = list_all (\<lambda>c. \<not> emoji c) t"

definition review_ok :: "review \<Rightarrow> bool" where
  "review_ok r = (rw_level r \<in> set VALID_LEVELS \<and> 0 \<le> rw_score r \<and> rw_score r \<le> 100
     \<and> rw_summary r \<noteq> [] \<and> length (rw_summary r) \<le> 200 \<and> rw_lock r \<in> set LOCK_LEVELS
     \<and> no_emoji (rw_summary r) \<and> no_emoji (rw_suggestion r) \<and> no_emoji (rw_affected r))"

lemma word_of_in: "word_of ws d t \<in> set ws \<union> {d}"
  by (auto simp: word_of_def find_Some_iff split: option.splits)

lemma squeeze_subset: "set (squeeze t) \<subseteq> set t \<union> {32}"
proof (induction t rule: squeeze.induct)
  case (2 c s)
  have "set (dropWhile blank s) \<subseteq> set s" by (auto dest: set_dropWhileD)
  with 2 show ?case by (auto split: if_splits)
qed simp

lemma squeeze_length: "length (squeeze t) \<le> length t"
proof (induction t rule: squeeze.induct)
  case (2 c s)
  have "length (dropWhile blank s) \<le> length s" by (rule length_dropWhile_le)
  with 2 show ?case by (auto split: if_splits)
qed simp

lemma ustrip_subset: "set (ustrip t) \<subseteq> set t"
  by (auto simp: ustrip_def urstrip_def dest!: set_dropWhileD)

lemma ustrip_length: "length (ustrip t) \<le> length t"
  using length_dropWhile_le [of uspace "rev (dropWhile uspace t)"] length_dropWhile_le [of uspace t]
  by (simp add: ustrip_def urstrip_def)

lemma strip_emoji_clean: "no_emoji (strip_emoji t)"
proof -
  have "set (strip_emoji t) \<subseteq> {c. \<not> emoji c}"
    using ustrip_subset [of "squeeze (filter (\<lambda>c. \<not> emoji c) t)"] squeeze_subset [of "filter (\<lambda>c. \<not> emoji c) t"]
    by (auto simp: strip_emoji_def emoji_def split: if_splits)
  then show ?thesis by (auto simp: no_emoji_def list_all_iff)
qed

lemma strip_emoji_length: "length (strip_emoji t) \<le> length t"
proof -
  have "length (strip_emoji t) \<le> length (squeeze (filter (\<lambda>c. \<not> emoji c) t))"
    using ustrip_length by (auto simp: strip_emoji_def)
  also have "\<dots> \<le> length (filter (\<lambda>c. \<not> emoji c) t)" by (rule squeeze_length)
  also have "\<dots> \<le> length t" by (rule length_filter_le)
  finally show ?thesis .
qed

lemma no_emoji_word: "list_all (\<lambda>c. char_code c < 128) w \<Longrightarrow> no_emoji (u w)"
  by (auto simp: no_emoji_def u_def list_all_iff emoji_def)

lemma value_or_ok: "value_or r d = Inr x \<Longrightarrow> (\<And>y. r = Inr y \<Longrightarrow> P y) \<Longrightarrow> P d \<Longrightarrow> P x"
  by (auto simp: value_or_def split: sum.splits if_splits)

lemma clamp_between: "lo \<le> hi \<Longrightarrow> lo \<le> clamp lo hi x \<and> clamp lo hi x \<le> hi"
  by (auto simp: clamp_def)

lemma lock_in: "word_of LOCK_LEVELS ''none'' t \<in> set LOCK_LEVELS"
  using word_of_in [of LOCK_LEVELS "''none''" t] by (auto simp: LOCK_LEVELS_def)

lemma level_in: "normalize_level_json uc v \<in> set VALID_LEVELS"
  using word_of_in [of VALID_LEVELS "''unknown''"] by (auto simp: normalize_level_json_def VALID_LEVELS_def)

lemma normalized_ok:
  assumes "normalize_review_fields uc d = Inr r"
  shows "review_ok r"
proof -
  from assms obtain score where s: "value_or (map_sum id (clamp 0 100) (json_int uc (dget d ''risk_score'' (JInt 0)))) 0 = Inr score"
    and r: "rw_level r = normalize_level_json uc (dget d ''risk_level'' JNull)" "rw_score r = score"
      "rw_summary r = or_text (strip_emoji (take 200 (str_json uc (dget d ''summary'' (JStr []))))) (u ''AI review finished'')"
      "rw_lock r = word_of LOCK_LEVELS ''none'' (ulower (str_json uc (dget d ''ddl_lock_risk'' (JStr (u ''none'')))))"
      "rw_suggestion r = strip_emoji (str_json uc (dget d ''suggestion'' (JStr [])))"
      "rw_affected r = strip_emoji (str_or_empty uc (dget d ''affected_rows_estimate'' (JStr [])))"
    by (auto simp: normalize_review_fields_def bindE_def split: sum.splits)
  have "0 \<le> score \<and> score \<le> 100"
    by (rule value_or_ok [OF s]) (auto simp: map_sum_def clamp_between split: sum.splits)
  moreover have "length (strip_emoji (take 200 t)) \<le> 200" for t
    using strip_emoji_length [of "take 200 t"] by simp
  then have "length (rw_summary r) \<le> 200" by (simp add: r or_text_def)
  moreover have "rw_summary r \<noteq> []" by (simp add: r or_text_def)
  moreover have "no_emoji (u ''AI review finished'')" by (rule no_emoji_word) (simp add: char_code_def)
  then have "no_emoji (rw_summary r)" by (simp add: r or_text_def strip_emoji_clean)
  ultimately show ?thesis using r lock_in level_in by (simp add: review_ok_def strip_emoji_clean)
qed

lemma fallback_ok: "review_ok REVIEW_FALLBACK"
proof -
  have "no_emoji (u ''AI review skipped'')" by (rule no_emoji_word) (simp add: char_code_def)
  then show ?thesis by (simp add: review_ok_def REVIEW_FALLBACK_def VALID_LEVELS_def LOCK_LEVELS_def no_emoji_def)
qed

lemma parsed_ok: "parse_review_json uc n content = Inr r \<Longrightarrow> review_ok r"
  by (auto simp: parse_review_json_def bindE_def fallback_ok normalized_ok split: sum.splits option.splits)

definition batch_ok :: "review option list \<Rightarrow> bool" where
  "batch_ok rs = (\<forall>r. Some r \<in> set rs \<longrightarrow> review_ok r)"

lemma batch_ok_update: "batch_ok rs \<Longrightarrow> review_ok r \<Longrightarrow> batch_ok (rs[i := Some r])"
  by (auto simp: batch_ok_def dest!: set_update_subset_insert [THEN subsetD])

lemma fill_batch_ok: "fill_batch uc vs rs = Inr rs' \<Longrightarrow> batch_ok rs \<Longrightarrow> batch_ok rs' \<and> length rs' = length rs"
proof (induction uc vs rs rule: fill_batch.induct)
  case (2 uc v vs rs)
  show ?case
  proof (cases v)
    case (JObj d)
    show ?thesis
    proof (cases "item_index d")
      case None
      with 2 JObj show ?thesis by simp
    next
      case (Some i)
      consider "\<not> (0 \<le> i \<and> i < int (length rs))" | "0 \<le> i \<and> i < int (length rs)" "rs ! nat i \<noteq> None"
        | "0 \<le> i \<and> i < int (length rs)" "rs ! nat i = None" by blast
      then show ?thesis
      proof cases
        case 3
        from "2.prems"(1) JObj Some 3 obtain r where r: "normalize_review_fields uc d = Inr r" "fill_batch uc vs (rs[nat i := Some r]) = Inr rs'"
          by (auto simp: bindE_def split: sum.splits)
        have "batch_ok (rs[nat i := Some r])" using "2.prems"(2) r(1) by (simp add: batch_ok_update normalized_ok)
        then have "batch_ok rs' \<and> length rs' = length (rs[nat i := Some r])" using 2 JObj Some 3 r by simp
        then show ?thesis by simp
      qed (use 2 JObj Some in auto)
    qed
  qed (use 2 in auto)
qed auto

lemma batch_parsed_ok:
  assumes "parse_review_batch_json uc n content k = Inr (Some rs)"
  shows "batch_ok rs \<and> length rs = k"
proof -
  from assms obtain vs where "fill_batch uc vs (replicate k None) = Inr rs"
    by (auto simp: parse_review_batch_json_def bindE_def map_sum_def split: sum.splits option.splits)
  from fill_batch_ok [OF this] show ?thesis by (auto simp: batch_ok_def)
qed

end
