(* ===== verification/DiagnosisProps.thy ===== *)
theory DiagnosisProps
  imports DiagnosisTasks AiProps Triples
begin

text \<open>
  What holds of the diagnoses of slow queries in every state their requests, workers and clean ups can reach: the
  places of the pool, the reports and the tasks they belong to; what leaves for the service; who reads what.
\<close>

section \<open>A diagnosis is well formed\<close>

definition diag_fine :: "diagnosis \<Rightarrow> bool" where
  "diag_fine d = (dx_severity d \<in> set VALID_LEVELS \<and> dx_bottleneck d \<in> set BOTTLENECKS \<and> 0 \<le> dx_confidence d \<and> dx_confidence d \<le> 1
     \<and> length (dx_root_cause d) \<le> 200)"

lemma fallback_fine: "diag_fine DIAGNOSIS_FALLBACK"
  by (simp add: diag_fine_def DIAGNOSIS_FALLBACK_def VALID_LEVELS_def BOTTLENECKS_def u_def)

lemma confidence_between: "0 \<le> confidence_of x \<and> confidence_of x \<le> 1"
  by (cases x) (simp_all add: clamp_between)

lemma bottleneck_in: "word_of BOTTLENECKS ''other'' t \<in> set BOTTLENECKS"
  using word_of_in [of BOTTLENECKS "''other''" t] by (auto simp: BOTTLENECKS_def)

lemma diagnosis_fields_fine:
  assumes "diagnosis_fields uc j = Inr d"
  shows "diag_fine d"
proof -
  from assms obtain cf where cf: "value_or (map_sum id confidence_of (json_float uc (dget j ''confidence'' (JFloat (Fin 0))))) 0 = Inr cf"
    and d: "dx_severity d = normalize_level_json uc (dget j ''severity'' JNull)" "dx_confidence d = cf"
      "dx_bottleneck d = word_of BOTTLENECKS ''other'' (ulower (str_json uc (dget j ''bottleneck_type'' (JStr []))))"
      "dx_root_cause d = or_text (strip_emoji (take 200 (str_json uc (dget j ''root_cause'' (JStr []))))) (u ''AI diagnosis finished'')"
    by (auto simp: diagnosis_fields_def bindE_def split: sum.splits)
  have "0 \<le> cf \<and> cf \<le> 1"
    by (rule value_or_ok [OF cf]) (auto simp: map_sum_def confidence_between split: sum.splits)
  moreover have "length (strip_emoji (take 200 t)) \<le> 200" for t
    using strip_emoji_length [of "take 200 t"] by simp
  then have "length (dx_root_cause d) \<le> 200" by (simp add: d or_text_def u_def)
  ultimately show ?thesis using d level_in bottleneck_in by (simp add: diag_fine_def)
qed

lemma parsed_fine: "parse_diagnosis_json uc n t = Inr d \<Longrightarrow> diag_fine d"
  by (auto simp: parse_diagnosis_json_def bindE_def fallback_fine diagnosis_fields_fine split: sum.splits option.splits)

lemma severity_from_stats_in: "severity_from_stats a b c = Some l \<Longrightarrow> l \<in> set VALID_LEVELS"
  by (auto simp: severity_from_stats_def Let_def VALID_LEVELS_def split: option.splits if_splits)

lemma stat_severity_fine: "diag_fine d \<Longrightarrow> diag_fine (apply_stat_severity uc st d)"
  by (auto simp: apply_stat_severity_def diag_fine_def severity_from_stats_in split: option.splits)

lemma with_usage_fine: "diag_fine d \<Longrightarrow> diag_fine (with_usage a d)"
  by (auto simp: with_usage_def diag_fine_def split: option.splits)

text \<open>The gateway never raises and its answer is well formed; one request is sent, with the masked statement, and not repeated.\<close>

lemma diagnose_answers:
  "\<exists>d c'. diagnose_slowquery_by_openai uc n t db sql st trend schemas explain c = (Inr d, c') \<and> diag_fine d
     \<and> cl_sent c' = cl_sent c @ [chat_request c (Diagnose t db sql (prompt_stats t st) trend schemas explain) False (Some 0) (Some 2000) True] \<and> cl_model c' = cl_model c"
proof -
  let ?r = "chat_request c (Diagnose t db sql (prompt_stats t st) trend schemas explain) False (Some 0) (Some 2000) True"
  obtain a c' where s: "send ?r c = (a, c')" by force
  have c': "cl_sent c' = cl_sent c @ [?r] \<and> cl_model c' = cl_model c"
    using s by (auto simp: send_def Let_def count_completion_def split: list.splits sum.splits prod.splits)
  have "diagnose_slowquery_by_openai uc n t db sql st trend schemas explain c = (case a of Inl e \<Rightarrow> (Inr DIAGNOSIS_FALLBACK, c')
     | Inr a \<Rightarrow> (case bindE (cp_content a) (\<lambda>t. map_sum id (\<lambda>d. apply_stat_severity uc st (with_usage a d)) (parse_diagnosis_json uc n t)) of
         Inl e \<Rightarrow> (Inr DIAGNOSIS_FALLBACK, c') | Inr d \<Rightarrow> (Inr d, c')))"
    using s by (auto simp: diagnose_slowquery_by_openai_def catchM_run bindM_run create_chat_completion_def split: sum.splits)
  moreover have "bindE (cp_content a) (\<lambda>t. map_sum id (\<lambda>d. apply_stat_severity uc st (with_usage a d)) (parse_diagnosis_json uc n t)) = Inr d
      \<Longrightarrow> diag_fine d" for a d
    by (auto simp: bindE_def map_sum_def dest: parsed_fine intro: stat_severity_fine with_usage_fine split: sum.splits)
  ultimately show ?thesis using c' fallback_fine by (auto split: sum.splits)
qed

section \<open>The invariant\<close>

lemma pk_set_dk [simp]: "dk_id (set_dk_id k t) = k" by (simp add: set_dk_id_def)
lemma pk_set_dr [simp]: "dr_id (set_dr_id k r) = k" by (simp add: set_dr_id_def)

interpretation dk: row_store dk_id set_dk_id by unfold_locales simp
interpretation dr: row_store dr_id set_dr_id by unfold_locales simp

definition report_fine :: "diag_report \<Rightarrow> bool" where
  "report_fine r = (dr_severity r \<in> set VALID_LEVELS \<and> dr_bottleneck r \<in> set BOTTLENECKS \<and> 0 \<le> dr_confidence r \<and> dr_confidence r \<le> 1
     \<and> length (dr_root_cause r) \<le> 200)"

definition task_ids :: "diag_state \<Rightarrow> int set" where
  "task_ids s = dk_id ` set (tbl_rows (dg_tasks s))"

definition reported :: "diag_state \<Rightarrow> int set" where
  "reported s = dr_task ` set (tbl_rows (dg_reports s))"

definition statuses :: "string list" where
  "statuses = [''pending'', ''running'', ''success'', ''failed'']"

text \<open>The tables: one well-formed report at most for each task, and one for each task that succeeded.\<close>

definition tables_fine :: "diag_state \<Rightarrow> bool" where
  "tables_fine s = (wf_table dk_id (dg_tasks s) \<and> wf_table dr_id (dg_reports s) \<and> distinct (map dr_task (tbl_rows (dg_reports s)))
     \<and> (\<forall>r \<in> set (tbl_rows (dg_reports s)). report_fine r) \<and> reported s \<subseteq> task_ids s
     \<and> (\<forall>t \<in> set (tbl_rows (dg_tasks s)). dk_status t \<in> set statuses \<and> (dk_status t = ''success'' \<longrightarrow> dk_id t \<in> reported s)))"

text \<open>What a step of a handler leaves alone: the pool, and that the tasks of \<open>X\<close> exist and those of \<open>Y\<close> have a report.\<close>

type_synonym pool = "nat \<times> int list \<times> (diag_task \<times> job_phase) list"

definition pool_of :: "diag_state \<Rightarrow> pool" where
  "pool_of s = (dg_free s, dg_queue s, dg_busy s)"

definition held :: "pool \<Rightarrow> int set \<Rightarrow> int set \<Rightarrow> diag_state \<Rightarrow> bool" where
  "held K X Y s = (tables_fine s \<and> pool_of s = K \<and> X \<subseteq> task_ids s \<and> Y \<subseteq> reported s)"

fun pool_ids :: "pool \<Rightarrow> int set" where
  "pool_ids (n, ks, js) = set ks \<union> (dk_id \<circ> fst) ` set js"

fun saved_ids :: "pool \<Rightarrow> int set" where
  "saved_ids (n, ks, js) = {dk_id t | t d c. (t, Saved d c) \<in> set js}"

fun pool_fine :: "pool \<Rightarrow> bool" where
  "pool_fine (n, ks, js) = (n + length ks + length js = DIAG_MAX_WORKERS + DIAG_MAX_PENDING \<and> length js \<le> DIAG_MAX_WORKERS
     \<and> (\<forall>t d c. (t, Analysed d c) \<in> set js \<longrightarrow> diag_fine d))"

definition diag_inv :: "diag_state \<Rightarrow> bool" where
  "diag_inv s = (pool_fine (pool_of s) \<and> held (pool_of s) (pool_ids (pool_of s)) (saved_ids (pool_of s)) s)"

lemma held_cong:
  "dg_tasks s' = dg_tasks s \<Longrightarrow> dg_reports s' = dg_reports s \<Longrightarrow> pool_of s' = pool_of s \<Longrightarrow> held K X Y s' = held K X Y s"
  by (simp add: held_def tables_fine_def task_ids_def reported_def)

lemma keeps_db_write [keeps_intros]: "keeps (held K X Y) m \<Longrightarrow> keeps (held K X Y) (db_write m)"
  unfolding keeps_def db_write_def
  by (auto simp: pool_of_def held_cong [of "_\<lparr>dg_faults := _\<rparr>"] split: list.splits option.splits)

lemma held_update:
  assumes "held K X Y s" and "\<And>r. dk_id (f r) = dk_id r"
    and "\<And>r. P r \<Longrightarrow> dk_status (f r) = dk_status r \<or> dk_status (f r) \<in> set statuses \<and> (dk_status (f r) = ''success'' \<longrightarrow> dk_id r \<in> Y)"
  shows "held K X Y (s\<lparr>dg_tasks := tbl_update P f (dg_tasks s)\<rparr>)"
proof -
  let ?s = "s\<lparr>dg_tasks := tbl_update P f (dg_tasks s)\<rparr>"
  have "map dk_id (tbl_rows (tbl_update P f (dg_tasks s))) = map dk_id (tbl_rows (dg_tasks s))"
    using assms(2) by (simp add: rows_tbl_update)
  then have "task_ids ?s = task_ids s" by (simp add: task_ids_def flip: set_map)
  then have same: "task_ids ?s = task_ids s" "reported ?s = reported s" "pool_of ?s = pool_of s"
    by (simp_all add: reported_def pool_of_def)
  have t: "dk_status t \<in> set statuses \<and> (dk_status t = ''success'' \<longrightarrow> dk_id t \<in> reported s)"
    if a: "t \<in> set (tbl_rows (tbl_update P f (dg_tasks s)))" for t
  proof -
    from a obtain x where x: "x \<in> set (tbl_rows (dg_tasks s))" "t = (if P x then f x else x)"
      by (auto simp: rows_tbl_update split: if_splits)
    have old: "dk_status x \<in> set statuses" "dk_status x = ''success'' \<Longrightarrow> dk_id x \<in> reported s" "Y \<subseteq> reported s"
      using assms(1) x(1) by (simp_all add: held_def tables_fine_def)
    show ?thesis
    proof (cases "P x \<and> dk_status (f x) \<noteq> dk_status x")
      case True
      then have "dk_status (f x) \<in> set statuses" "dk_status (f x) = ''success'' \<Longrightarrow> dk_id x \<in> Y" using assms(3) [of x] by simp_all
      with True x(2) old(3) assms(2) show ?thesis by auto
    next
      case False
      with x(2) assms(2) have "dk_status t = dk_status x" "dk_id t = dk_id x" by auto
      with old show ?thesis by simp
    qed
  qed
  show ?thesis
    using assms(1) t dk.wf_update [of "dg_tasks s" f P] assms(2) same
    by (auto simp: held_def tables_fine_def)
qed

lemma keeps_save_task [keeps_intros]:
  assumes "\<And>r. dk_id (f r) = dk_id r" and "\<And>r. dk_status (f r) \<in> set statuses \<and> (dk_status (f r) = ''success'' \<longrightarrow> k \<in> Y)"
  shows "keeps (held K X Y) (save_task k f)"
  unfolding save_task_def
  by (rule keeps_db_write) (use assms in \<open>auto simp: keeps_def tbl_save_fields_def intro!: held_update\<close>)

lemma keeps_set_progress [keeps_intros]: "keeps (held K X Y) (set_progress k p)"
  unfolding set_progress_def by (intro keeps_intros) (auto intro!: held_update simp: keeps_def)

lemma keeps_audit [keeps_intros]: "keeps (held K X Y) (audit usr a x)"
  unfolding audit_def by (intro keeps_intros) (auto simp: held_cong [of "_\<lparr>dg_audit := _\<rparr>"] pool_of_def)

lemma keeps_usage [keeps_intros]: "keeps (held K X Y) (record_ai_usage a)"
  by (auto simp: keeps_def record_ai_usage_def held_cong [of "_\<lparr>ev_usage := _\<rparr>"] pool_of_def)

lemma keeps_with_client [keeps_intros]: "keeps (held K X Y) (with_client m)"
  by (auto simp: keeps_def with_client_def held_cong [of "_\<lparr>ev_client := _\<rparr>"] pool_of_def split: prod.splits)

lemma stale_statuses: "\<And>r. dk_status (timed_out now n r) \<in> set statuses" "\<And>r. dk_status (timed_out now n r) \<noteq> ''success''"
  "\<And>r. dk_id (timed_out now n r) = dk_id r"
  by (simp_all add: timed_out_def statuses_def)

lemma keeps_mark_stale [keeps_intros]: "keeps (held K X Y) (mark_stale_task_failed t)"
  unfolding mark_stale_task_failed_def by (intro keeps_intros) (simp_all add: stale_statuses)

lemma keeps_mark_tasks [keeps_intros]: "keeps (held K X Y) (mark_stale_tasks ts n)"
  by (induction ts arbitrary: n) (auto intro!: keeps_intros)

lemma keeps_cleanup [keeps_intros]: "keeps (held K X Y) cleanup_stale_diagnosis_tasks"
  unfolding cleanup_stale_diagnosis_tasks_def by (intro keeps_intros)

lemma keeps_find_instance [keeps_intros]:
  "(\<And>i. keeps (held K X Y) (k i)) \<Longrightarrow> keeps (held K X Y) (find_instance usr name k)"
  unfolding find_instance_def by (intro keeps_intros)

lemma keeps_split_pair [keeps_intros]: "(\<And>x y. keeps P (f x y)) \<Longrightarrow> keeps P (case z of (x, y) \<Rightarrow> f x y)"
  by (cases z) simp

lemma keeps_lookup: "keeps (held K X Y) (SlowQueryDiagnose_get usr name db h)"
  unfolding SlowQueryDiagnose_get_def by (intro keeps_intros)

lemma keeps_poll: "keeps (held K X Y) (SlowQueryDiagnoseTask_get usr k)"
  unfolding SlowQueryDiagnoseTask_get_def by (intro keeps_intros)

lemma keeps_find_report [keeps_intros]:
  "(\<And>r. keeps (held K X Y) (k r)) \<Longrightarrow> keeps (held K X Y) (find_report usr key k)"
  unfolding find_report_def by (intro keeps_intros)

lemma keeps_feedback: "keeps (held K X Y) (SlowQueryDiagnoseFeedback_post usr k helpful reason)"
  unfolding SlowQueryDiagnoseFeedback_post_def
  by (intro keeps_intros) (auto simp: keeps_def held_cong [of "_\<lparr>dg_feedback := _\<rparr>"] pool_of_def)

lemma keeps_draft: "keeps (held K X Y) (SlowQueryDiagnoseWorkflow_post usr key index)"
  unfolding SlowQueryDiagnoseWorkflow_post_def Let_def by (intro keeps_intros)

section \<open>Requests, jobs and the pool\<close>

lemma diag_invI: "held K X Y s \<Longrightarrow> pool_fine K \<Longrightarrow> pool_ids K \<subseteq> X \<Longrightarrow> saved_ids K \<subseteq> Y \<Longrightarrow> diag_inv s"
  by (auto simp: diag_inv_def held_def)

lemma diag_inv_held: "diag_inv s \<Longrightarrow> held (pool_of s) (pool_ids (pool_of s)) (saved_ids (pool_of s)) s"
  by (simp add: diag_inv_def)

lemma diag_inv_same:
  "held (pool_of s) (pool_ids (pool_of s)) (saved_ids (pool_of s)) s' \<Longrightarrow> diag_inv s \<Longrightarrow> diag_inv s'"
  by (erule diag_invI) (simp_all add: diag_inv_def)

lemma diag_inv_keeps:
  assumes "diag_inv s" and "\<And>K X Y. keeps (held K X Y) m"
  shows "diag_inv (snd (m s))"
  by (rule diag_inv_same [OF keepsD [OF assms(2) diag_inv_held [OF assms(1)]] assms(1)])

lemma diag_inv_keeps_eq:
  "f s = m s \<Longrightarrow> diag_inv s \<Longrightarrow> (\<And>K X Y. keeps (held K X Y) m) \<Longrightarrow> diag_inv (snd (f s))"
  using diag_inv_keeps by metis

lemma created_held:
  assumes "held K X Y s" "dk_status t = ''pending''" "create_task t s = (r, s')"
  shows "held K X Y s' \<and> (\<forall>k. r = Inr k \<longrightarrow> k \<in> task_ids s')"
proof -
  have c: "held K X Y (s\<lparr>dg_faults := fs, dg_tasks := tbl_create set_dk_id t (dg_tasks s)\<rparr>)" for fs
    using assms(1,2) dk.wf_create [of "dg_tasks s" t]
    by (auto simp: held_def tables_fine_def task_ids_def reported_def pool_of_def tbl_create_def set_dk_id_def statuses_def)
  moreover have "held K X Y (s\<lparr>dg_faults := fs\<rparr>)" for fs
    using assms(1) by (simp add: pool_of_def held_cong [of "_\<lparr>dg_faults := _\<rparr>"])
  moreover have "tbl_next (dg_tasks s) \<in> task_ids (s\<lparr>dg_faults := fs, dg_tasks := tbl_create set_dk_id t (dg_tasks s)\<rparr>)" for fs
    by (simp add: task_ids_def tbl_create_def)
  ultimately show ?thesis
    using assms(3) by (auto simp: create_task_def db_write_def split: list.splits option.splits)
qed

lemma started_inv:
  assumes "diag_inv s" "k \<in> task_ids s"
  shows "diag_inv (snd (start_diagnosis usr q k s))"
proof (cases "dg_free s = 0")
  case True
  then have "start_diagnosis usr q k s = thenM (save_task k (\<lambda>r. (pool_full r)\<lparr>dk_finished := Some (ev_now s)\<rparr>))
      (ret (Refused ''too many diagnoses, please try again later'')) s"
    by (simp add: start_diagnosis_def bindM_run)
  moreover have "keeps (held K X Y) (thenM (save_task k (\<lambda>r. (pool_full r)\<lparr>dk_finished := Some (ev_now s)\<rparr>))
      (ret (Refused ''too many diagnoses, please try again later'')))" for K X Y
    by (intro keeps_intros) (simp_all add: pool_full_def statuses_def)
  ultimately show ?thesis using assms(1) by (rule_tac diag_inv_keeps_eq)
next
  case free: False
  obtain n ks js where p: "pool_of s = (n, ks, js)" by (cases "pool_of s") auto
  have h: "held (n, ks, js) (pool_ids (n, ks, js)) (saved_ids (n, ks, js)) s" and fine: "pool_fine (n, ks, js)"
    using assms(1) p by (simp_all add: diag_inv_def)
  show ?thesis
  proof (cases "dg_pool_up s")
    case True
    let ?s = "s\<lparr>dg_free := dg_free s - 1, dg_queue := dg_queue s @ [k]\<rparr>"
    have "held (n - 1, ks @ [k], js) (insert k (pool_ids (n, ks, js))) (saved_ids (n, ks, js)) ?s"
      using h p assms(2) by (auto simp: held_def pool_of_def tables_fine_def task_ids_def reported_def)
    moreover have "pool_fine (n - 1, ks @ [k], js)" using fine free p by (auto simp: pool_of_def)
    ultimately have "diag_inv ?s" by (rule diag_invI) auto
    moreover have "start_diagnosis usr q k s = thenM (audit usr ''slowquery.diagnose_start'' (u (''instance='' @ gq_instance q @ '', db=''
        @ gq_db_name q @ '', sql_hash='' @ gq_hash q @ '', task_id='' @ str_int k))) (ret (Data (SubmittedTask k))) ?s"
      using True free by (simp add: start_diagnosis_def bindM_run thenM_run catchM_run submit_job_def split: prod.splits sum.splits)
    ultimately show ?thesis by (auto intro!: diag_inv_keeps keeps_intros)
  next
    case False
    then have "start_diagnosis usr q k s = thenM (save_task k (\<lambda>r. r\<lparr>dk_status := ''failed'', dk_error := ''submitting the diagnosis failed: ''
        @ exn_str (RuntimeError ''cannot schedule new futures after shutdown'')\<rparr>)) (ret (Refused ''submitting the diagnosis failed'')) s"
      using free by (simp add: start_diagnosis_def bindM_run thenM_run catchM_run submit_job_def release_slot_def split: prod.splits sum.splits)
    moreover have "keeps (held K X Y) (thenM (save_task k (\<lambda>r. r\<lparr>dk_status := ''failed'', dk_error := ''submitting the diagnosis failed: ''
        @ exn_str (RuntimeError ''cannot schedule new futures after shutdown'')\<rparr>)) (ret (Refused ''submitting the diagnosis failed'')))" for K X Y
      by (intro keeps_intros) (simp_all add: statuses_def)
    ultimately show ?thesis using assms(1) by (rule_tac diag_inv_keeps_eq)
  qed
qed

lemma diagnose_instance_inv:
  assumes "diag_inv s"
  shows "diag_inv (snd (diagnose_instance usr q i s))"
proof -
  let ?model = "cl_model (OpenaiClient (world_of s) [] [])"
  let ?t = "new_task (ev_now s) usr i q ?model"
  have cached: "keeps (held K X Y) (thenM (record_ai_usage a) (ret x))" for K X Y a and x :: "diag_answer reply"
    by (intro keeps_intros)
  obtain r s' where c: "create_task ?t s = (r, s')" by force
  have "held (pool_of s) (pool_ids (pool_of s)) (saved_ids (pool_of s)) s' \<and> (\<forall>k. r = Inr k \<longrightarrow> k \<in> task_ids s')"
    using created_held [OF diag_inv_held [OF assms] _ c] by (simp add: new_task_def)
  then have "diag_inv s'" "\<And>k. r = Inr k \<Longrightarrow> k \<in> task_ids s'"
    using assms diag_inv_same by blast+
  then have "diag_inv (snd (bindM (create_task ?t) (start_diagnosis usr q) s))"
    using c started_inv by (auto simp: bindM_run split: sum.splits)
  then show ?thesis
    using assms diag_inv_keeps [OF assms cached] by (simp add: diagnose_instance_def Let_def bindM_run split: option.splits prod.splits)
qed

lemma request_inv:
  assumes "diag_inv s"
  shows "diag_inv (snd (SlowQueryDiagnose_post usr q s))"
  using assms diagnose_instance_inv [OF assms]
  by (simp add: SlowQueryDiagnose_post_def find_instance_def bindM_run split: option.splits sum.splits)

lemma keeps_begin: "keeps (held K X Y) (begin_job k)"
  unfolding begin_job_def by (intro keeps_intros) (simp_all add: statuses_def)

lemma begun_exists: "begin_job k s = (Inr (Some t), s') \<Longrightarrow> dk_id t = k \<and> k \<in> task_ids s"
  by (auto simp: begin_job_def bindM_run thenM_run task_ids_def dest!: tbl_get_Inr split: sum.splits prod.splits if_splits)

lemma taken_inv:
  assumes "diag_inv s"
  shows "diag_inv (snd (take_job s))"
proof -
  obtain n ks js where p: "pool_of s = (n, ks, js)" by (cases "pool_of s") auto
  note h = diag_inv_held [OF assms, unfolded p]
  have fine: "pool_fine (n, ks, js)" using assms p by (simp add: diag_inv_def)
  show ?thesis
  proof (cases ks)
    case Nil
    with assms p show ?thesis by (simp add: take_job_def pool_of_def)
  next
    case (Cons k ks')
    show ?thesis
    proof (cases "length js < DIAG_MAX_WORKERS")
      case False
      with assms p Cons show ?thesis by (auto simp: take_job_def pool_of_def)
    next
      case room: True
      let ?s = "s\<lparr>dg_queue := ks'\<rparr>"
      obtain r s' where b: "begin_job k ?s = (r, s')" by force
      have "held (n, ks', js) (pool_ids (n, ks, js)) (saved_ids (n, ks, js)) ?s"
        using h p by (auto simp: held_def pool_of_def tables_fine_def task_ids_def reported_def)
      from keepsD [OF keeps_begin [of _ _ _ k] this]
      have h': "held (n, ks', js) (pool_ids (n, ks, js)) (saved_ids (n, ks, js)) s'" using b by simp
      then have p': "dg_free s' = n" "dg_queue s' = ks'" "dg_busy s' = js" by (simp_all add: held_def pool_of_def)
      consider t where "r = Inr (Some t)" | "r = Inr None \<or> isl r" by (metis isl_def option.exhaust sum.exhaust)
      then show ?thesis
      proof cases
        case 1
        have "held (n, ks', js @ [(t, Started)]) (pool_ids (n, ks, js)) (saved_ids (n, ks, js)) (s'\<lparr>dg_busy := js @ [(t, Started)]\<rparr>)"
          using h' p' by (auto simp: held_def pool_of_def tables_fine_def task_ids_def reported_def)
        moreover have "pool_fine (n, ks', js @ [(t, Started)])" using fine room Cons by auto
        moreover have "pool_ids (n, ks', js @ [(t, Started)]) \<subseteq> pool_ids (n, ks, js)"
          using begun_exists b 1 Cons by auto
        ultimately have "diag_inv (s'\<lparr>dg_busy := js @ [(t, Started)]\<rparr>)" by (rule diag_invI) auto
        with b 1 p p' Cons room show ?thesis by (simp add: take_job_def pool_of_def)
      next
        case 2
        have "held (Suc n, ks', js) (pool_ids (n, ks, js)) (saved_ids (n, ks, js)) (s'\<lparr>dg_free := Suc n\<rparr>)"
          using h' p' by (auto simp: held_def pool_of_def tables_fine_def task_ids_def reported_def)
        moreover have "pool_fine (Suc n, ks', js)" using fine Cons by auto
        ultimately have "diag_inv (s'\<lparr>dg_free := Suc n\<rparr>)" by (rule diag_invI) (use Cons in auto)
        with b 2 p p' Cons room show ?thesis
          by (auto simp: take_job_def pool_of_def release_slot_def split: sum.splits option.splits)
      qed
    qed
  qed
qed

lemma ask_fine:
  "triple (held K X Y) (ask_service ou t i stats trend schemas explain) (\<lambda>a s. held K X Y s \<and> diag_fine (fst a)) (held K X Y)"
proof (rule tripleI)
  fix s e s'
  assume "held K X Y s" "ask_service ou t i stats trend schemas explain s = (Inl e, s')"
  moreover obtain d c' where "diagnose_slowquery_by_openai (ou_unicode ou) (ou_depth ou) (i_db_type i) (dk_db_name t)
     (mask_sql_literals (sample_of stats)) stats trend schemas explain (OpenaiClient (world_of s) ''slowquery_diagnosis'' (ou_answers ou)) = (Inr d, c')"
    using diagnose_answers by blast
  ultimately show "held K X Y s'" by (simp add: ask_service_def thenM_run bindM_run with_client_def)
next
  fix s a s'
  assume h: "held K X Y s" and a: "ask_service ou t i stats trend schemas explain s = (Inr a, s')"
  obtain d c' where d: "diagnose_slowquery_by_openai (ou_unicode ou) (ou_depth ou) (i_db_type i) (dk_db_name t)
     (mask_sql_literals (sample_of stats)) stats trend schemas explain (OpenaiClient (world_of s) ''slowquery_diagnosis'' (ou_answers ou)) = (Inr d, c')"
    "diag_fine d" using diagnose_answers by blast
  with a have "a = (d, c')" "s' = s\<lparr>ev_client := c'\<rparr>"
    by (simp_all add: ask_service_def thenM_run bindM_run with_client_def)
  with h d(2) show "held K X Y s' \<and> diag_fine (fst a)"
    by (simp add: held_cong [of "_\<lparr>ev_client := _\<rparr>"] pool_of_def)
qed

lemma analyse_fine:
  "triple (held K X Y) (analyse_job ou t) (\<lambda>a s. held K X Y s \<and> diag_fine (fst a)) (held K X Y)"
  unfolding analyse_job_def Let_def
  by (intro triple_step triple_step_then triple_if triple_throw ask_fine keeps_intros)

text \<open>A report replaces the one its task had.\<close>

lemma held_report:
  assumes "held K X Y s" "dk_id t \<in> X" "diag_fine d"
  shows "held K X (insert (dk_id t) Y) (s\<lparr>dg_faults := fs, dg_reports := tbl_create set_dr_id (report_of now t d c)
     (tbl_delete (\<lambda>r. dr_task r = dk_id t) (dg_reports s))\<rparr>)"
proof -
  let ?old = "filter (\<lambda>r. dr_task r \<noteq> dk_id t) (tbl_rows (dg_reports s))"
  let ?new = "set_dr_id (tbl_next (dg_reports s)) (report_of now t d c)"
  let ?s = "s\<lparr>dg_faults := fs, dg_reports := tbl_create set_dr_id (report_of now t d c) (tbl_delete (\<lambda>r. dr_task r = dk_id t) (dg_reports s))\<rparr>"
  have rows: "tbl_rows (dg_reports ?s) = ?old @ [?new]" by (simp add: tbl_create_def tbl_delete_def)
  have new: "report_fine ?new" "dr_task ?new = dk_id t"
    using assms(3) by (simp_all add: set_dr_id_def report_of_def report_fine_def diag_fine_def)
  have rep: "reported ?s = insert (dk_id t) (reported s)"
    unfolding reported_def rows using new(2) by auto
  have ids: "task_ids ?s = task_ids s" "pool_of ?s = pool_of s" by (simp_all add: task_ids_def pool_of_def)
  have "wf_table dr_id (tbl_delete (\<lambda>r. dr_task r = dk_id t) (dg_reports s))"
    using assms(1) by (auto simp: held_def tables_fine_def wf_table_def tbl_delete_def list_all_iff distinct_map_filter)
  then have "wf_table dr_id (dg_reports ?s)" by (simp add: dr.wf_create)
  moreover have "distinct (map dr_task (tbl_rows (dg_reports ?s)))"
    unfolding rows using assms(1) new(2) by (auto simp: held_def tables_fine_def distinct_map_filter)
  moreover have "\<forall>r \<in> set (tbl_rows (dg_reports ?s)). report_fine r"
    unfolding rows using assms(1) new(1) by (auto simp: held_def tables_fine_def)
  moreover have "dk_id t \<in> task_ids s" using assms(1,2) by (auto simp: held_def)
  ultimately show ?thesis using assms(1) rep ids by (auto simp: held_def tables_fine_def)
qed

lemma save_report_fine:
  assumes "dk_id t \<in> X" "diag_fine d"
  shows "triple (held K X Y) (save_report t d c) (\<lambda>_. held K X (insert (dk_id t) Y)) (held K X Y)"
  unfolding save_report_def
proof (rule triple_step_then [OF keeps_set_progress], assumption, rule tripleI)
  fix s e s'
  assume h: "held K X Y s" and a: "atomicM (thenM (db_write (modifyM (\<lambda>s. s\<lparr>dg_reports := tbl_delete (\<lambda>r. dr_task r = dk_id t) (dg_reports s)\<rparr>)))
      (db_write (modifyM (\<lambda>s. s\<lparr>dg_reports := tbl_create set_dr_id (report_of (ev_now s) t d c) (dg_reports s)\<rparr>)))) s = (Inl e, s')"
  from a have "s' = s" by (rule atomicM_Inl)
  with h show "held K X Y s'" by simp
next
  fix s x s'
  assume h: "held K X Y s" and a: "atomicM (thenM (db_write (modifyM (\<lambda>s. s\<lparr>dg_reports := tbl_delete (\<lambda>r. dr_task r = dk_id t) (dg_reports s)\<rparr>)))
      (db_write (modifyM (\<lambda>s. s\<lparr>dg_reports := tbl_create set_dr_id (report_of (ev_now s) t d c) (dg_reports s)\<rparr>)))) s = (Inr x, s')"
  then obtain fs where "s' = s\<lparr>dg_faults := fs, dg_reports := tbl_create set_dr_id (report_of (ev_now s) t d c)
     (tbl_delete (\<lambda>r. dr_task r = dk_id t) (dg_reports s))\<rparr>"
    by (auto simp: atomicM_run thenM_run db_write_def split: list.splits option.splits)
  with held_report [OF h assms] show "held K X (insert (dk_id t) Y) s'" by simp
qed

lemma keeps_fail_job [keeps_intros]: "keeps (held K X Y) (fail_job t m)"
  unfolding fail_job_def by (intro keeps_intros) (simp_all add: statuses_def)

lemma keeps_give_up [keeps_intros]: "keeps (held K X Y) (give_up_job t c)"
  unfolding give_up_job_def by (intro keeps_intros)

lemma keeps_finish: "dk_id t \<in> Y \<Longrightarrow> keeps (held K X Y) (finish_job t d c)"
  unfolding finish_job_def by (intro keeps_intros) (simp_all add: statuses_def)

fun phase_ok :: "diag_task \<Rightarrow> int set \<Rightarrow> int set \<Rightarrow> job_phase \<Rightarrow> bool" where
  "phase_ok t X Y Started = True"
| "phase_ok t X Y (Analysed d c) = (dk_id t \<in> X \<and> diag_fine d)"
| "phase_ok t X Y (Saved d c) = (dk_id t \<in> Y)"

fun now_saved :: "diag_task \<Rightarrow> job_phase option \<Rightarrow> int set" where
  "now_saved t (Some (Saved d c)) = {dk_id t}"
| "now_saved t p = {}"

definition after_phase :: "diag_task \<Rightarrow> pool \<Rightarrow> int set \<Rightarrow> int set \<Rightarrow> job_phase option \<Rightarrow> diag_state \<Rightarrow> bool" where
  "after_phase t K X Y r s = (held K X (Y \<union> now_saved t r) s \<and> (\<forall>d c. r = Some (Analysed d c) \<longrightarrow> diag_fine d))"

lemma phase_fine:
  assumes "phase_ok t X Y p"
  shows "triple (held K X Y) (phase_step ou t p) (after_phase t K X Y) (held K X Y)"
proof (cases p)
  case Started
  have give_up: "triple (\<lambda>s. held K X Y s \<and> diag_fine (fst a)) (thenM (give_up_job t (snd a)) (ret None)) (after_phase t K X Y) (held K X Y)" for a
    by (rule triple_step_then [of "held K X Y", THEN triple_pre]) (auto intro!: keeps_intros triple_ret simp: after_phase_def)
  have keep: "triple (\<lambda>s. held K X Y s \<and> diag_fine (fst a)) (ret (Some (Analysed (fst a) (snd a)))) (after_phase t K X Y) (held K X Y)" for a
    by (rule triple_ret) (auto simp: after_phase_def)
  show ?thesis
    unfolding Started phase_step_def job_phase.case by (rule triple_bind [OF analyse_fine]) (intro triple_if give_up keep)
next
  case (Analysed d c)
  then have "triple (held K X Y) (save_report t d c) (\<lambda>_. held K X (insert (dk_id t) Y)) (held K X Y)"
    using assms by (intro save_report_fine) simp_all
  then show ?thesis
    unfolding Analysed phase_step_def job_phase.case
    by (rule triple_then) (rule triple_ret, simp add: after_phase_def)
next
  case (Saved d c)
  then show ?thesis
    using assms unfolding phase_step_def Saved job_phase.case
    by (intro triple_step_then keeps_finish triple_ret) (simp_all add: after_phase_def)
qed

lemma or_fail_fine:
  fixes m :: "(diag_state, 'a) M"
  assumes "triple (held K X Y) m Q (held K X Y)"
  shows "triple (held K X Y) (or_fail t m) (\<lambda>r s. case r of None \<Rightarrow> held K X Y s | Some x \<Rightarrow> Q x s) (held K X Y)"
  unfolding or_fail_def
proof (rule triple_catch)
  show "triple (held K X Y) (bindM m (\<lambda>x. ret (Some x))) (\<lambda>r s. case r of None \<Rightarrow> held K X Y s | Some x \<Rightarrow> Q x s) (held K X Y)"
    by (rule triple_bind [OF assms]) (rule triple_ret, simp)
  fix e and k :: "(diag_state, 'a option) M"
  assume "Some (thenM (fail_job t (take 1000 (exn_str e))) (ret None)) = Some k"
  moreover have "triple (held K X Y) (thenM (fail_job t (take 1000 (exn_str e))) (ret (None :: 'a option)))
      (\<lambda>r s. case r of None \<Rightarrow> held K X Y s | Some x \<Rightarrow> Q x s) (held K X Y)"
    by (intro triple_step_then keeps_intros triple_ret) simp_all
  ultimately show "triple (held K X Y) k (\<lambda>r s. case r of None \<Rightarrow> held K X Y s | Some x \<Rightarrow> Q x s) (held K X Y)" by simp
qed simp

lemma set_drop_nth: "set (drop_nth j xs) \<subseteq> set xs"
  by (auto simp: drop_nth_def dest: in_set_takeD in_set_dropD)

lemma length_drop_nth: "j < length xs \<Longrightarrow> Suc (length (drop_nth j xs)) = length xs"
  by (simp add: drop_nth_def)

lemma pool_mono:
  assumes "set js' \<subseteq> set js"
  shows "pool_ids (m, ks, js') \<subseteq> pool_ids (n, ks, js)" and "saved_ids (m, ks, js') \<subseteq> saved_ids (n, ks, js)"
    and "(t, Analysed d c) \<in> set js' \<Longrightarrow> pool_fine (n, ks, js) \<Longrightarrow> diag_fine d"
  using assms by (auto simp: image_iff)

lemma job_over:
  assumes "held (n, ks, js) X Y s" "pool_fine (n, ks, js)" "pool_ids (n, ks, js) \<subseteq> X" "saved_ids (n, ks, js) \<subseteq> Y" "j < length js"
  shows "diag_inv (s\<lparr>dg_busy := drop_nth j (dg_busy s), dg_free := dg_free s + 1\<rparr>)"
proof -
  have "held (Suc n, ks, drop_nth j js) X Y (s\<lparr>dg_busy := drop_nth j (dg_busy s), dg_free := dg_free s + 1\<rparr>)"
    using assms(1) by (auto simp: held_def pool_of_def tables_fine_def task_ids_def reported_def)
  moreover have "pool_fine (Suc n, ks, drop_nth j js)"
    using assms(2) length_drop_nth [OF assms(5)] pool_mono(3) [OF set_drop_nth [of j js]] by auto
  ultimately show ?thesis
    by (rule diag_invI) (use assms(3,4) pool_mono(1,2) [OF set_drop_nth [of j js]] in \<open>blast+\<close>)
qed

lemma job_goes_on:
  assumes "after_phase t (n, ks, js) X Y (Some p) s" "pool_fine (n, ks, js)" "pool_ids (n, ks, js) \<subseteq> X" "saved_ids (n, ks, js) \<subseteq> Y"
    and "j < length js" "fst (js ! j) = t"
  shows "diag_inv (s\<lparr>dg_busy := (dg_busy s)[j := (t, p)]\<rparr>)"
proof -
  have sub: "x \<in> set (js[j := (t, p)]) \<Longrightarrow> x \<in> set js \<or> x = (t, p)" for x
    using set_update_subset_insert [of js j "(t, p)"] by auto
  have "held (n, ks, js[j := (t, p)]) X (Y \<union> now_saved t (Some p)) (s\<lparr>dg_busy := (dg_busy s)[j := (t, p)]\<rparr>)"
    using assms(1) by (auto simp: after_phase_def held_def pool_of_def tables_fine_def task_ids_def reported_def)
  moreover have "pool_fine (n, ks, js[j := (t, p)])"
  proof -
    have "diag_fine d" if "(x, Analysed d c) \<in> set (js[j := (t, p)])" for x d c
      using sub [OF that] assms(1,2) unfolding after_phase_def pool_fine.simps by blast
    then show ?thesis using assms(2) by simp
  qed
  moreover have "dk_id t \<in> X" using assms(3,5,6) nth_mem [of j js] by force
  then have "pool_ids (n, ks, js[j := (t, p)]) \<subseteq> X" using assms(3) by (auto dest!: sub)
  moreover have "saved_ids (n, ks, js[j := (t, p)]) \<subseteq> Y \<union> now_saved t (Some p)" using assms(4) by (auto dest!: sub)
  ultimately show ?thesis by (rule diag_invI)
qed

lemma advanced_inv:
  assumes "diag_inv s"
  shows "diag_inv (snd (advance_job ou j s))"
proof (cases "j < length (dg_busy s)")
  case False
  with assms show ?thesis by (simp add: advance_job_def)
next
  case True
  obtain n ks js where p: "pool_of s = (n, ks, js)" by (cases "pool_of s") auto
  obtain t ph where job: "js ! j = (t, ph)" by force
  have busy: "dg_busy s = js" "j < length js" using p True by (simp_all add: pool_of_def)
  let ?X = "pool_ids (n, ks, js)" and ?Y = "saved_ids (n, ks, js)"
  have h: "held (n, ks, js) ?X ?Y s" and fine: "pool_fine (n, ks, js)"
    using assms p by (simp_all add: diag_inv_def)
  have mem: "(t, ph) \<in> set js" using busy(2) job nth_mem by metis
  then have "phase_ok t ?X ?Y ph" using fine by (cases ph) (force)+
  then have tr: "triple (held (n, ks, js) ?X ?Y) (or_fail t (phase_step ou t ph))
      (\<lambda>r s. case r of None \<Rightarrow> held (n, ks, js) ?X ?Y s | Some x \<Rightarrow> after_phase t (n, ks, js) ?X ?Y x s) (held (n, ks, js) ?X ?Y)"
    by (intro or_fail_fine phase_fine)
  obtain r s' where r: "or_fail t (phase_step ou t ph) s = (r, s')" by force
  show ?thesis
  proof (cases "\<exists>p'. r = Inr (Some (Some p'))")
    case True
    then obtain p' where p': "r = Inr (Some (Some p'))" by blast
    have "after_phase t (n, ks, js) ?X ?Y (Some p') s'" using tripleD(2) [OF tr h r [unfolded p']] by simp
    from job_goes_on [OF this fine _ _ busy(2)] job p' r busy show ?thesis
      by (simp add: advance_job_def)
  next
    case False
    have "held (n, ks, js) ?X ?Y s'"
    proof (cases r)
      case (Inl e)
      with tripleD(1) [OF tr h] r show ?thesis by simp
    next
      case (Inr x)
      with tripleD(2) [OF tr h] r have "case x of None \<Rightarrow> held (n, ks, js) ?X ?Y s' | Some y \<Rightarrow> after_phase t (n, ks, js) ?X ?Y y s'" by blast
      with False Inr show ?thesis by (auto simp: after_phase_def split: option.splits)
    qed
    from job_over [OF this fine _ _ busy(2)] have "diag_inv (s'\<lparr>dg_busy := drop_nth j (dg_busy s'), dg_free := dg_free s' + 1\<rparr>)" by simp
    moreover have "advance_job ou j s = (Inr (), s'\<lparr>dg_busy := drop_nth j (dg_busy s'), dg_free := dg_free s' + 1\<rparr>)"
      using False r job busy by (auto simp: advance_job_def release_slot_def split: sum.splits option.splits)
    ultimately show ?thesis by simp
  qed
qed

lemma step_inv: "diag_step s s' \<Longrightarrow> diag_inv s \<Longrightarrow> diag_inv s'"
proof (induction rule: diag_step.induct)
  case (tick s t)
  then show ?case by (rule_tac diag_inv_same) (simp_all add: diag_inv_def pool_of_def held_def tables_fine_def task_ids_def reported_def)
next
  case (elsewhere s x)
  then show ?case by (rule_tac diag_inv_same) (simp_all add: diag_inv_def pool_of_def held_def tables_fine_def task_ids_def reported_def)
next
  case (faults s fs b)
  then show ?case by (rule_tac diag_inv_same) (simp_all add: diag_inv_def pool_of_def held_def tables_fine_def task_ids_def reported_def)
next
  case (new_start s)
  then have "held (DIAG_MAX_WORKERS + DIAG_MAX_PENDING, [], []) {} {} (restart s)"
    by (auto simp: diag_inv_def restart_def held_def pool_of_def tables_fine_def task_ids_def reported_def)
  then show ?case by (rule diag_invI) (simp_all)
qed (auto intro: request_inv taken_inv advanced_inv diag_inv_keeps keeps_lookup keeps_poll keeps_feedback keeps_draft keeps_cleanup)

lemma reach_inv: "diag_reach s s' \<Longrightarrow> diag_inv s \<Longrightarrow> diag_inv s'"
  unfolding diag_reach_def by (induction rule: rtranclp_induct) (auto intro: step_inv)

end
