(* ===== verification/AiReviewProps.thy ===== *)
theory AiReviewProps
  imports AiProps Triples
begin

text \<open>
  The runner of the reviews: whatever the service answers, the check goes on, every row carries a well-formed review,
  only masked statements leave, and the number of requests is bounded. An outage is cached as a review.
\<close>

section \<open>Requests\<close>

definition masked_text :: "string \<Rightarrow> bool" where
  "masked_text s = (\<exists>t. s = mask_sql_literals t)"

fun masked_prompt :: "prompt \<Rightarrow> bool" where
  "masked_prompt (ReviewOne ty db sql schemas rows) = (masked_text sql \<and> masked_text schemas)"
| "masked_prompt (ReviewBatch ty db sqls schemas rows) = (list_all masked_text sqls \<and> masked_text schemas)"
| "masked_prompt _ = False"

text \<open>The requests after those of \<open>base\<close>: at most \<open>n\<close>, with masked prompts.\<close>

definition sent_after :: "request list \<Rightarrow> nat \<Rightarrow> ai_client \<Rightarrow> bool" where
  "sent_after base n c = (\<exists>new. cl_sent c = base @ new \<and> length new \<le> n \<and> (\<forall>r \<in> set new. masked_prompt (rq_prompt r)))"

lemma sent_after_mono: "sent_after base n c \<Longrightarrow> n \<le> m \<Longrightarrow> sent_after base m c"
  unfolding sent_after_def by (meson le_trans)

lemma send_after:
  assumes "sent_after base n c" "masked_prompt (rq_prompt r)"
  shows "sent_after base (Suc n) (snd (send r c))"
proof -
  obtain new where new: "cl_sent c = base @ new" "length new \<le> n" "\<forall>r \<in> set new. masked_prompt (rq_prompt r)"
    using assms(1) by (auto simp: sent_after_def)
  have "cl_sent (snd (send r c)) = base @ (new @ [r])"
    using new(1) by (auto simp: send_def Let_def count_completion_def split: list.splits sum.splits option.splits prod.splits)
  with new assms(2) show ?thesis unfolding sent_after_def by (intro exI [of _ "new @ [r]"]) auto
qed

lemma chat_after:
  "sent_after base n c \<Longrightarrow> masked_prompt p \<Longrightarrow> sent_after base (Suc n) (snd (create_chat_completion p json tries tok th c))"
  by (simp add: create_chat_completion_def bindM_def send_after chat_request_def)

lemma structured_after:
  assumes "sent_after base n c" "masked_prompt p"
  shows "sent_after base (n + 2) (snd (create_structured p c))"
proof -
  let ?m = "create_chat_completion p True None None False"
  obtain r c' where m: "?m c = (r, c')" by force
  have s: "sent_after base (Suc n) c'" using chat_after [OF assms, of True None None False] m by simp
  show ?thesis
  proof (cases r)
    case (Inl e)
    then have "create_structured p c = create_chat_completion p False None None False c'"
      by (simp add: create_structured_def catchM_def m)
    with chat_after [OF s assms(2), of False None None False] show ?thesis by simp
  next
    case (Inr a)
    then have "create_structured p c = (Inr a, c')" by (simp add: create_structured_def catchM_def m)
    with s show ?thesis by (simp add: sent_after_mono)
  qed
qed

lemma content_state: "snd (content_of m c) = snd (m c)"
  by (auto simp: content_of_def bindM_def liftM_def split: prod.splits sum.splits)

text \<open>A review is always returned, and it is well formed.\<close>

lemma review_total:
  assumes "sent_after base n c" "masked_text sql" "masked_text schemas"
  shows "\<exists>r c'. review_sql_by_openai uc k ty db sql schemas rows c = (Inr r, c') \<and> review_ok r \<and> sent_after base (n + 2) c'"
proof -
  let ?m = "content_of (create_structured (ReviewOne ty db sql schemas rows))"
  obtain r c' where m: "?m c = (r, c')" by force
  have "sent_after base (n + 2) c'"
    using structured_after [OF assms(1), of "ReviewOne ty db sql schemas rows"] assms(2,3) content_state [of "create_structured (ReviewOne ty db sql schemas rows)" c] m
    by simp
  then show ?thesis
    by (cases r) (auto simp: review_sql_by_openai_def catchM_def bindM_def liftM_def m fallback_ok parsed_ok split: sum.splits)
qed

lemma batch_total:
  assumes "sent_after base n c" "list_all masked_text sqls" "masked_text schemas"
  shows "\<exists>r c'. review_sql_batch_by_openai uc k ty db sqls schemas rows c = (Inr r, c')
    \<and> (\<forall>rs. r = Some rs \<longrightarrow> batch_ok rs \<and> length rs = length sqls) \<and> sent_after base (n + 2) c'"
proof -
  let ?m = "content_of (create_structured (ReviewBatch ty db sqls schemas rows))"
  obtain r c' where m: "?m c = (r, c')" by force
  have "sent_after base (n + 2) c'"
    using structured_after [OF assms(1), of "ReviewBatch ty db sqls schemas rows"] assms(2,3) content_state [of "create_structured (ReviewBatch ty db sqls schemas rows)" c] m
    by simp
  then show ?thesis
    by (cases r) (auto simp: review_sql_batch_by_openai_def catchM_def bindM_def liftM_def m dest: batch_parsed_ok split: sum.splits)
qed

section \<open>The state of a run\<close>

definition cached_ok :: "(string \<times> (review list \<times> usec)) list \<Rightarrow> bool" where
  "cached_ok c = (\<forall>(k, rs, t) \<in> set c. \<forall>r \<in> set rs. review_ok r)"

definition cache_ok :: "review_env \<Rightarrow> bool" where
  "cache_ok e = cached_ok (rv_cache e)"

definition running :: "request list \<Rightarrow> nat \<Rightarrow> review_env \<Rightarrow> bool" where
  "running base n e = (cache_ok e \<and> sent_after base n (ev_client e))"

lemma running_mono: "running base n e \<Longrightarrow> n \<le> m \<Longrightarrow> running base m e"
  unfolding running_def using sent_after_mono by blast

lemma running_record: "running base n e \<Longrightarrow> running base n (snd (record_ai_usage a e))"
  by (simp add: running_def record_ai_usage_def cache_ok_def)

lemma record_run: "record_ai_usage a e = (Inr (), snd (record_ai_usage a e))"
  by (simp add: record_ai_usage_def)

lemma quiet_record: "triple (running base n) (record_ai_usage a) (\<lambda>_. running base n) (\<lambda>_. False)"
  by (rule tripleI) (auto simp: record_ai_usage_def running_def cache_ok_def)

lemma quiet_records [triple_intros]:
  "triple (running base n) (record_call j) (\<lambda>_. running base n) (\<lambda>_. False)"
  "triple (running base n) (record_hit j model) (\<lambda>_. running base n) (\<lambda>_. False)"
  "triple (running base n) (record_failure j x) (\<lambda>_. running base n) (\<lambda>_. False)"
  unfolding record_call_def record_hit_def record_failure_def
  by (rule triple_gets, rule triple_pre [OF quiet_record], simp | rule quiet_record)+

lemma quiet_store:
  "\<forall>o1 \<in> set os. \<forall>r. o1 = Reviewed r \<longrightarrow> review_ok r \<Longrightarrow>
     triple (running base n) (store_reviews key os) (\<lambda>_. running base n) (\<lambda>_. False)"
proof (rule tripleI)
  assume os: "\<forall>o1 \<in> set os. \<forall>r. o1 = Reviewed r \<longrightarrow> review_ok r"
  have all: "all_reviewed os = Some rs \<Longrightarrow> \<forall>r \<in> set rs. review_ok r" for rs
    using os by (induction os arbitrary: rs rule: all_reviewed.induct) auto
  have put: "(k', v') \<in> set (dict_put k v d) \<Longrightarrow> (k', v') = (k, v) \<or> (k', v') \<in> set d" for k' v' k v and d :: "(string \<times> (review list \<times> usec)) list"
    by (induction d) (auto split: if_splits)
  fix e x t assume "running base n e" "store_reviews key os e = (Inr x, t)"
  then show "running base n t"
    using all put by (fastforce simp: store_reviews_def cache_set_quiet_def running_def cache_ok_def cached_ok_def split: option.splits if_splits)
next
  fix e x t assume "store_reviews key os e = (Inl x, t)"
  then show False by (simp add: store_reviews_def cache_set_quiet_def split: option.splits)
qed

lemma masked_masks [simp]: "masked_text (mask_sql_literals s)"
  by (auto simp: masked_text_def)

lemma client_review:
  assumes "masked_text sql" "masked_text schemas"
  shows "triple (running base n) (with_client (review_sql_by_openai uc k ty db sql schemas rows))
    (\<lambda>r e. review_ok r \<and> running base (n + 2) e) (\<lambda>_. False)"
proof (rule tripleI)
  fix e x t assume "running base n e" "with_client (review_sql_by_openai uc k ty db sql schemas rows) e = (Inl x, t)"
  then show False using review_total [of base n "ev_client e" sql schemas uc k ty db rows] assms by (auto simp: running_def with_client_def)
next
  fix e r t assume "running base n e" "with_client (review_sql_by_openai uc k ty db sql schemas rows) e = (Inr r, t)"
  then show "review_ok r \<and> running base (n + 2) t"
    using review_total [of base n "ev_client e" sql schemas uc k ty db rows] assms by (auto simp: running_def with_client_def cache_ok_def)
qed

lemma client_batch:
  assumes "list_all masked_text sqls" "masked_text schemas"
  shows "triple (running base n) (with_client (review_sql_batch_by_openai uc k ty db sqls schemas rows))
    (\<lambda>r e. (\<forall>rs. r = Some rs \<longrightarrow> batch_ok rs \<and> length rs = length sqls) \<and> running base (n + 2) e) (\<lambda>_. False)"
proof (rule tripleI)
  fix e x t assume "running base n e" "with_client (review_sql_batch_by_openai uc k ty db sqls schemas rows) e = (Inl x, t)"
  then show False using batch_total [of base n "ev_client e" sqls schemas uc k ty db rows] assms by (auto simp: running_def with_client_def)
next
  fix e r t assume "running base n e" "with_client (review_sql_batch_by_openai uc k ty db sqls schemas rows) e = (Inr r, t)"
  then show "(\<forall>rs. r = Some rs \<longrightarrow> batch_ok rs \<and> length rs = length sqls) \<and> running base (n + 2) t"
    using batch_total [of base n "ev_client e" sqls schemas uc k ty db rows] assms by (auto simp: running_def with_client_def cache_ok_def)
qed

section \<open>A batch\<close>

lemma review_one_ok:
  assumes "masked_text sql"
  shows "triple (running base n) (review_one uc k en j sql) (\<lambda>r e. review_ok r \<and> running base (n + 2) e) (running base (n + 2))"
  unfolding review_one_def
proof (rule triple_read)
  show "running base n e \<Longrightarrow> running base (n + 2) e" for e by (simp add: running_mono)
  show "triple (\<lambda>e. running base n e \<and> c = Inr x) (case x of (schemas, rows) \<Rightarrow>
      with_client (review_sql_by_openai uc k (jb_db_type j) (jb_db_name j) sql (mask_sql_literals schemas) rows))
    (\<lambda>r e. review_ok r \<and> running base (n + 2) e) (running base (n + 2))" for x c
    by (cases x) (auto intro: triple_conseq [OF client_review] simp: assms)
qed

lemma batch_review_ok:
  assumes "list_all masked_text sqls"
  shows "triple (running base n) (batch_review uc k en j sqls)
    (\<lambda>r e. (\<forall>rs. r = Some rs \<longrightarrow> batch_ok rs \<and> length rs = length sqls) \<and> running base (n + 2) e) (running base n)"
  unfolding batch_review_def
proof (rule triple_read)
  show "triple (\<lambda>e. running base n e \<and> c = Inr x) (case x of (schemas, rows) \<Rightarrow>
      with_client (review_sql_batch_by_openai uc k (jb_db_type j) (jb_db_name j) sqls (mask_sql_literals schemas) rows))
    (\<lambda>r e. (\<forall>rs. r = Some rs \<longrightarrow> batch_ok rs \<and> length rs = length sqls) \<and> running base (n + 2) e) (running base n)" for x c
    by (cases x) (auto intro: triple_conseq [OF client_batch] simp: assms)
qed

definition outcomes_ok :: "outcome list \<Rightarrow> bool" where
  "outcomes_ok os = (\<forall>o1 \<in> set os. \<forall>r. o1 = Reviewed r \<longrightarrow> review_ok r)"

lemma review_missing_ok:
  assumes "list_all masked_text sqls" "batch_ok rs" "length rs = length sqls"
  shows "triple (running base n) (review_missing uc k en j sqls rs)
    (\<lambda>os e. outcomes_ok os \<and> length os = length sqls \<and> running base (n + 2 * length sqls) e) (\<lambda>_. False)"
  using assms
proof (induction sqls arbitrary: rs n)
  case Nil then show ?case by (cases rs) (auto simp: triple_def outcomes_ok_def)
next
  case (Cons s ss)
  then obtain r rs' where rs: "rs = r # rs'" "length rs' = length ss" by (cases rs) auto
  have ok: "batch_ok rs'" "\<And>x. r = Some x \<Longrightarrow> review_ok x" using Cons.prems(2) rs by (auto simp: batch_ok_def)
  have fail: "triple (running base (n + 2)) (thenM (record_failure j x) (ret (ReviewError y)))
      (\<lambda>o1 e. outcomes_ok [o1] \<and> running base (n + 2) e) (\<lambda>_. False)" for x y
    by (rule triple_then, rule quiet_records(3), rule triple_ret) (simp add: outcomes_ok_def)
  have "triple (running base n) (bindM (review_one uc k en j s) (\<lambda>x. ret (Reviewed x)))
      (\<lambda>o1 e. outcomes_ok [o1] \<and> running base (n + 2) e) (running base (n + 2))"
    by (rule triple_bind, rule review_one_ok, use Cons.prems(1) in simp, rule triple_ret) (simp add: outcomes_ok_def)
  then have one: "triple (running base n) (case r of Some x \<Rightarrow> ret (Reviewed x)
      | None \<Rightarrow> catchM (bindM (review_one uc k en j s) (\<lambda>x. ret (Reviewed x)))
           (\<lambda>x. Some (thenM (record_failure j x) (ret (ReviewError (take 500 (exn_str x)))))))
      (\<lambda>o1 e. outcomes_ok [o1] \<and> running base (n + 2) e) (\<lambda>_. False)"
  proof (cases r)
    case None
    have "triple (running base n) (catchM (bindM (review_one uc k en j s) (\<lambda>x. ret (Reviewed x)))
           (\<lambda>x. Some (thenM (record_failure j x) (ret (ReviewError (take 500 (exn_str x))))))) (\<lambda>o1 e. outcomes_ok [o1] \<and> running base (n + 2) e) (\<lambda>_. False)"
    proof (rule tripleI)
      let ?m = "bindM (review_one uc k en j s) (\<lambda>x. ret (Reviewed x))"
      let ?h = "\<lambda>x. Some (thenM (record_failure j x) (ret (ReviewError (take 500 (exn_str x)))))"
      note good = \<open>triple (running base n) ?m _ _\<close>
      fix e assume e: "running base n e"
      { fix x t assume "catchM ?m ?h e = (Inl x, t)"
        then show False using tripleD [OF good e] tripleD [OF fail] by (fastforce simp: catchM_run split: prod.splits sum.splits) }
      { fix o1 t assume "catchM ?m ?h e = (Inr o1, t)"
        then show "outcomes_ok [o1] \<and> running base (n + 2) t"
          using tripleD [OF good e] tripleD [OF fail] by (fastforce simp: catchM_run split: prod.splits sum.splits) }
    qed
    then show ?thesis using None by simp
  next
    case (Some x)
    then show ?thesis using ok(2) by (auto intro!: triple_ret simp: outcomes_ok_def running_mono)
  qed
  have rest: "triple (\<lambda>e. outcomes_ok [o1] \<and> running base (n + 2) e) (bindM (review_missing uc k en j ss rs') (\<lambda>os. ret (o1 # os)))
      (\<lambda>os e. outcomes_ok os \<and> length os = length (s # ss) \<and> running base (n + 2 * length (s # ss)) e) (\<lambda>_. False)" for o1
  proof (rule triple_known [where F = "outcomes_ok [o1]"])
    assume o1: "outcomes_ok [o1]"
    have "triple (running base (n + 2)) (review_missing uc k en j ss rs')
      (\<lambda>os e. outcomes_ok os \<and> length os = length ss \<and> running base (n + 2 + 2 * length ss) e) (\<lambda>_. False)"
      by (rule Cons.IH) (use Cons.prems(1) ok(1) rs(2) in auto)
    then show "triple (\<lambda>e. outcomes_ok [o1] \<and> running base (n + 2) e) (bindM (review_missing uc k en j ss rs') (\<lambda>os. ret (o1 # os)))
      (\<lambda>os e. outcomes_ok os \<and> length os = length (s # ss) \<and> running base (n + 2 * length (s # ss)) e) (\<lambda>_. False)"
      using o1 by (auto intro!: triple_bind [OF triple_pre] triple_ret simp: outcomes_ok_def)
  qed simp
  show ?case unfolding rs(1) review_missing.simps by (rule triple_bind [OF one rest])
qed

lemma review_fresh_ok:
  assumes "list_all masked_text sqls"
  shows "triple (running base n) (review_fresh uc k en j key sqls)
    (\<lambda>os e. (outcomes_ok os \<and> length os = length sqls) \<and> running base (n + 2 + 2 * length sqls) e) (running base (n + 2 + 2 * length sqls))"
  unfolding review_fresh_def
proof (rule triple_bind)
  show "triple (running base n) (batch_review uc k en j sqls)
    (\<lambda>r e. (\<forall>rs. r = Some rs \<longrightarrow> batch_ok rs \<and> length rs = length sqls) \<and> running base (n + 2) e) (running base (n + 2 + 2 * length sqls))"
    by (rule triple_conseq [OF batch_review_ok [OF assms, of base n uc k en j]]) (auto elim: running_mono)
  fix r
  let ?rs = "pad (length sqls) (case r of None \<Rightarrow> [] | Some rs \<Rightarrow> rs)"
  have store: "triple (\<lambda>e. outcomes_ok os \<and> length os = length sqls \<and> running base m e) (thenM (store_reviews key os) (ret os))
      (\<lambda>os e. (outcomes_ok os \<and> length os = length sqls) \<and> running base m e) (\<lambda>_. False)" for os m
    by (rule triple_known [where F = "outcomes_ok os \<and> length os = length sqls"], simp,
        rule triple_pre, rule triple_then, rule quiet_store, auto simp: outcomes_ok_def intro!: triple_ret)
  have rest: "triple (running base (n + 2)) (thenM (record_call j)
      (bindM (review_missing uc k en j sqls ?rs) (\<lambda>os. thenM (store_reviews key os) (ret os))))
    (\<lambda>os e. (outcomes_ok os \<and> length os = length sqls) \<and> running base (n + 2 + 2 * length sqls) e) (\<lambda>_. False)"
    if "\<forall>rs. r = Some rs \<longrightarrow> batch_ok rs \<and> length rs = length sqls"
  proof (rule triple_then [OF quiet_records(1)], rule triple_bind [OF review_missing_ok store])
    show "batch_ok ?rs" "length ?rs = length sqls" using that by (auto simp: pad_def batch_ok_def split: option.splits)
  qed (rule assms)
  show "triple (\<lambda>e. (\<forall>rs. r = Some rs \<longrightarrow> batch_ok rs \<and> length rs = length sqls) \<and> running base (n + 2) e)
      (thenM (record_call j) (bindM (review_missing uc k en j sqls ?rs) (\<lambda>os. thenM (store_reviews key os) (ret os))))
    (\<lambda>os e. (outcomes_ok os \<and> length os = length sqls) \<and> running base (n + 2 + 2 * length sqls) e) (running base (n + 2 + 2 * length sqls))"
    by (rule triple_known [where F = "\<forall>rs. r = Some rs \<longrightarrow> batch_ok rs \<and> length rs = length sqls"], simp, rule triple_conseq [OF rest]) auto
qed

lemma masked_all [simp]: "list_all masked_text (map mask_sql_literals ss)"
  by (simp add: list_all_iff)

lemma cache_hit_ok: "cache_ok e \<Longrightarrow> cache_get_quiet key e = Some rs \<Longrightarrow> r \<in> set rs \<Longrightarrow> review_ok r"
  by (auto simp: cache_ok_def cached_ok_def cache_get_quiet_def dest!: map_of_SomeD split: if_splits option.splits)

lemma review_statements_ok:
  "triple (running base n) (review_statements md5 uc k en j ss)
    (\<lambda>os e. (outcomes_ok os \<and> length os = length ss) \<and> running base (n + 2 + 2 * length ss) e) (running base (n + 2 + 2 * length ss))"
  (is "triple ?P ?m ?Q ?E")
proof -
  let ?masked = "map mask_sql_literals ss"
  have fresh: "triple ?P (review_fresh uc k en j key ?masked) ?Q ?E" for key
    using review_fresh_ok [of ?masked base n uc k en j key] by simp
  have fail: "triple ?E (thenM (record_failure j x) (throw x)) ?Q ?E" for x
    by (rule triple_then [OF triple_conseq [OF quiet_records(3)] triple_throw]) auto
  have tried: "triple ?P (catchM (review_fresh uc k en j key ?masked) (\<lambda>x. Some (thenM (record_failure j x) (throw x)))) ?Q ?E" for key
    by (rule triple_catch [OF fresh]) (use fail in auto)
  have hit: "triple (\<lambda>e. ?P e \<and> (\<forall>r \<in> set rs. review_ok r) \<and> length rs = length ss) (thenM (record_hit j model) (ret (map Reviewed rs))) ?Q ?E" for rs model
    by (rule triple_known [where F = "(\<forall>r \<in> set rs. review_ok r) \<and> length rs = length ss"], simp,
        rule triple_then [OF triple_conseq [OF quiet_records(2)] triple_ret]) (auto simp: outcomes_ok_def intro: running_mono)
  define hits where "hits e = (case cache_get_quiet (batch_cache_key md5 (cl_model (ev_client e)) (jb_db_name j) ?masked) e of
    Some rs \<Rightarrow> if length rs = length ?masked then Some rs else None | None \<Rightarrow> None)" for e
  have hits_ok: "?P e \<and> (\<forall>r \<in> set rs. review_ok r) \<and> length rs = length ss" if "hits e = Some rs" "?P e" for e rs
    using that cache_hit_ok [of e] by (auto simp: hits_def running_def split: option.splits if_splits)
  have run: "?m e = (case hits e of
      Some rs \<Rightarrow> thenM (record_hit j (cl_model (ev_client e))) (ret (map Reviewed rs)) e
    | None \<Rightarrow> catchM (review_fresh uc k en j (batch_cache_key md5 (cl_model (ev_client e)) (jb_db_name j) ?masked) ?masked)
        (\<lambda>x. Some (thenM (record_failure j x) (throw x))) e)" for e
    by (simp add: review_statements_def Let_def hits_def)
  show ?thesis
  proof (rule tripleI)
    fix e x t assume e: "?P e" and m: "?m e = (Inl x, t)"
    show "?E t"
    proof (cases "hits e")
      case None then show ?thesis using m tripleD(1) [OF tried e] by (simp add: run)
    next
      case (Some rs) then show ?thesis using m tripleD(1) [OF hit hits_ok [OF Some e]] by (simp add: run)
    qed
  next
    fix e os t assume e: "?P e" and m: "?m e = (Inr os, t)"
    show "?Q os t"
    proof (cases "hits e")
      case None then show ?thesis using m tripleD(2) [OF tried e] by (simp add: run)
    next
      case (Some rs) then show ?thesis using m tripleD(2) [OF hit hits_ok [OF Some e]] by (simp add: run)
    qed
  qed
qed

section \<open>The rows\<close>

text \<open>A row as before, but for a well-formed review attached to it.\<close>

definition reviewed :: "check_row \<Rightarrow> check_row \<Rightarrow> bool" where
  "reviewed old new = (\<exists>r. review_ok r \<and> new = attach r old)"

text \<open>The rows at \<open>is\<close> are reviewed, the others as before.\<close>

definition progress :: "nat list \<Rightarrow> check_row list \<Rightarrow> check_row list \<Rightarrow> bool" where
  "progress is rows rows' = (length rows' = length rows
     \<and> (\<forall>i < length rows. if i \<in> set is then reviewed (rows ! i) (rows' ! i) else rows' ! i = rows ! i))"

lemma unknown_ok: "review_ok (unknown_review skip_summary)" "review_ok (unknown_review unknown_summary)"
proof -
  have "no_emoji skip_summary" "no_emoji unknown_summary"
    unfolding skip_summary_def unknown_summary_def by (rule no_emoji_word; simp add: char_code_def)+
  moreover have "skip_summary \<noteq> []" "unknown_summary \<noteq> []" "length skip_summary \<le> 200" "length unknown_summary \<le> 200"
    by (simp_all add: skip_summary_def unknown_summary_def)
  ultimately show "review_ok (unknown_review skip_summary)" "review_ok (unknown_review unknown_summary)"
    by (simp_all add: review_ok_def unknown_review_def no_emoji_def VALID_LEVELS_def LOCK_LEVELS_def no_emoji_def)
qed

lemma outcome_reviewed: "outcomes_ok os \<Longrightarrow> o1 \<in> set os \<Longrightarrow> reviewed row (attach_outcome o1 row)"
  using unknown_ok by (cases o1) (auto simp: attach_outcome_def reviewed_def attach_unknown_def outcomes_ok_def)

lemma update_progress:
  assumes "length fs = length is" "distinct is" "\<forall>i \<in> set is. i < length rows" "\<forall>f \<in> set fs. \<forall>row. reviewed row (f row)"
  shows "progress is rows (update_rows is fs rows)"
  using assms
proof (induction "is" arbitrary: fs rows)
  case Nil then show ?case by (simp add: progress_def update_rows_def)
next
  case (Cons i js)
  obtain f gs where fs: "fs = f # gs" using Cons.prems(1) by (cases fs) auto
  let ?rows = "rows[i := f (rows ! i)]"
  have "progress js ?rows (update_rows js gs ?rows)" using Cons fs by auto
  moreover have "update_rows (i # js) fs rows = update_rows js gs ?rows" by (simp add: fs update_rows_def)
  moreover have "\<forall>m \<in> set js. ?rows ! m = rows ! m" using Cons.prems(2) by (metis distinct.simps(2) nth_list_update_neq)
  ultimately show ?case using Cons.prems fs by (auto simp: progress_def nth_list_update)
qed

lemma progress_join:
  assumes "progress as rows rows1" "progress bs rows1 rows2" "set as \<inter> set bs = {}"
  shows "progress (as @ bs) rows rows2"
  using assms unfolding progress_def by (auto simp: disjoint_iff) metis+

lemma review_batch_ok:
  assumes "distinct is" "\<forall>i \<in> set is. i < length rows"
  shows "triple (running base n) (review_batch md5 uc k en j is rows)
    (\<lambda>rows' e. progress is rows rows' \<and> running base (n + 2 + 2 * length is) e) (\<lambda>_. False)"
    (is "triple ?P _ ?Q _")
proof -
  let ?ss = "map (\<lambda>i. row_sql (rows ! i)) is"
  let ?m = "bindM (review_statements md5 uc k en j ?ss) (\<lambda>os. ret (update_rows is (map attach_outcome os) rows))"
  have m: "triple ?P ?m ?Q (running base (n + 2 + 2 * length is))"
    using review_statements_ok [of base n md5 uc k en j ?ss]
    by (auto intro!: triple_bind triple_ret update_progress simp: assms outcome_reviewed)
  have h: "progress is rows (update_rows is (map (\<lambda>_. attach_unknown unknown_summary) is) rows)"
    by (rule update_progress) (use assms unknown_ok in \<open>auto simp: reviewed_def attach_unknown_def\<close>)
  show ?thesis unfolding review_batch_def
    by (rule tripleI) (use tripleD [OF m] h in \<open>fastforce simp: catchM_run split: prod.splits sum.splits\<close>)+
qed

section \<open>A whole review\<close>

definition rounds :: "nat \<Rightarrow> nat" where
  "rounds k = 2 * k + 2 * ((k + 9) div 10)"

lemma rounds_split: "0 < k \<Longrightarrow> 2 + 2 * min k 10 + rounds (k - 10) = rounds k"
proof (cases "k \<le> 10")
  case True
  assume "0 < k"
  with True have "(k + 9) div 10 = 1" by (intro div_nat_eqI) auto
  with True show ?thesis by (simp add: rounds_def)
next
  case False
  then obtain m where "k = m + 10" by (metis le_add_diff_inverse2 nat_le_linear)
  moreover have "(m + 10 + 9) div 10 = Suc ((m + 9) div 10)" by (simp add: div_add_self2 [symmetric] del: div_add_self2)
  ultimately show ?thesis by (simp add: rounds_def)
qed

lemma review_batches_ok:
  "distinct is \<Longrightarrow> \<forall>i \<in> set is. i < length rows \<Longrightarrow> triple (running base n) (review_batches md5 uc k en j is rows)
    (\<lambda>rows' e. progress is rows rows' \<and> running base (n + rounds (length is)) e) (\<lambda>_. False)"
proof (induction "is" arbitrary: rows n rule: length_induct)
  case (1 "is")
  show ?case
  proof (cases "is = []")
    case True then show ?thesis by (simp add: review_batches.simps triple_def progress_def rounds_def)
  next
    case False
    let ?as = "take BATCH_SIZE is" and ?bs = "drop BATCH_SIZE is"
    have parts: "distinct ?as" "distinct ?bs" "set ?as \<inter> set ?bs = {}"
      using 1(2) by (simp_all add: set_take_disj_set_drop_if_distinct)
    have first: "triple (running base n) (review_batch md5 uc k en j ?as rows)
        (\<lambda>rows' e. progress ?as rows rows' \<and> running base (n + 2 + 2 * length ?as) e) (\<lambda>_. False)"
      by (rule review_batch_ok) (use parts 1(3) in \<open>auto dest: in_set_takeD\<close>)
    have rest: "triple (\<lambda>e. progress ?as rows rows1 \<and> running base (n + 2 + 2 * length ?as) e) (review_batches md5 uc k en j ?bs rows1)
        (\<lambda>rows' e. progress is rows rows' \<and> running base (n + rounds (length is)) e) (\<lambda>_. False)" for rows1
    proof (rule triple_known [where F = "progress ?as rows rows1"])
      assume p: "progress ?as rows rows1"
      have "length ?bs < length is" using False by (simp add: BATCH_SIZE_def)
      moreover have "\<forall>i \<in> set ?bs. i < length rows1" using p 1(3) by (auto simp: progress_def dest: in_set_dropD)
      ultimately have "triple (running base (n + 2 + 2 * length ?as)) (review_batches md5 uc k en j ?bs rows1)
          (\<lambda>rows' e. progress ?bs rows1 rows' \<and> running base (n + 2 + 2 * length ?as + rounds (length ?bs)) e) (\<lambda>_. False)"
        using 1(1) parts(2) by blast
      moreover have sum: "n + 2 + 2 * length ?as + rounds (length ?bs) = n + rounds (length is)"
        using rounds_split [of "length is"] False by (simp add: BATCH_SIZE_def min.commute)
      ultimately have "triple (running base (n + 2 + 2 * length ?as)) (review_batches md5 uc k en j ?bs rows1)
          (\<lambda>rows' e. progress ?bs rows1 rows' \<and> running base (n + rounds (length is)) e) (\<lambda>_. False)"
        by (simp only: sum)
      then show "triple (\<lambda>e. progress ?as rows rows1 \<and> running base (n + 2 + 2 * length ?as) e) (review_batches md5 uc k en j ?bs rows1)
        (\<lambda>rows' e. progress is rows rows' \<and> running base (n + rounds (length is)) e) (\<lambda>_. False)"
        using progress_join [OF p _ parts(3)] by (auto elim!: triple_conseq)
    qed simp
    show ?thesis
      by (subst review_batches.simps, simp only: False if_False, rule triple_bind [OF first rest])
  qed
qed

lemma eligible_ok: "distinct (eligible rows)" "\<forall>i \<in> set (eligible rows). i < length rows" "length (eligible rows) \<le> 20"
proof -
  have "set (eligible rows) \<subseteq> {0..<20}" by (auto simp: eligible_def MAX_STATEMENTS_def)
  then have "card (set (eligible rows)) \<le> card {0..<20::nat}" by (intro card_mono) auto
  moreover have d: "distinct (eligible rows)" by (simp add: eligible_def)
  ultimately show "length (eligible rows) \<le> 20" by (simp add: distinct_card)
qed (auto simp: eligible_def)

lemma skip_rows_nth: "i < length rows \<Longrightarrow> skip_rows rows ! i = (if 20 \<le> i then attach_unknown skip_summary (rows ! i) else rows ! i)"
  by (simp add: skip_rows_def nth_enumerate_eq MAX_STATEMENTS_def)

lemma skip_rows_length [simp]: "length (skip_rows rows) = length rows"
  by (simp add: skip_rows_def)

lemma all_rows_reviewed:
  assumes "progress (eligible rows) (skip_rows rows) rows'"
  shows "list_all2 reviewed rows rows'"
proof (rule list_all2_all_nthI)
  show len: "length rows = length rows'" using assms by (simp add: progress_def)
  fix i assume i: "i < length rows"
  consider "20 \<le> i" | "i < 20" "is_dict (rows ! i)" | "i \<in> set (eligible rows)" "i < 20"
    using i by (cases "20 \<le> i"; cases "is_dict (rows ! i)") (auto simp: eligible_def MAX_STATEMENTS_def not_le)
  then show "reviewed (rows ! i) (rows' ! i)"
  proof cases
    case 1
    then have "i \<notin> set (eligible rows)" by (auto simp: eligible_def MAX_STATEMENTS_def)
    then have "rows' ! i = skip_rows rows ! i" using assms i by (auto simp: progress_def)
    then show ?thesis using 1 i unknown_ok by (auto simp: skip_rows_nth reviewed_def attach_unknown_def)
  next
    case 2
    then have "i \<notin> set (eligible rows)" by (auto simp: eligible_def)
    then have "rows' ! i = rows ! i" using assms i 2 by (auto simp: progress_def skip_rows_nth)
    moreover have "rows ! i = attach REVIEW_FALLBACK (rows ! i)" using 2 by (cases "rows ! i") auto
    ultimately show ?thesis using fallback_ok by (auto simp: reviewed_def)
  next
    case 3 then show ?thesis using assms i by (auto simp: progress_def skip_rows_nth)
  qed
qed

lemma run_review:
  assumes "cache_ok e" "truthy enabled" "check_openai_config w"
  shows "\<exists>rows' e'. run_ai_review md5 uc n enabled w en j answers rows e = (Inr rows', e') \<and> list_all2 reviewed rows rows'
    \<and> cache_ok e' \<and> sent_after [] 44 (ev_client e')"
proof -
  let ?e = "e\<lparr>ev_client := OpenaiClient w ''sql_review'' answers\<rparr>"
  have start: "running [] 0 ?e" using assms(1) by (simp add: running_def cache_ok_def sent_after_def OpenaiClient_def)
  have t: "triple (running [] 0) (review_batches md5 uc n en j (eligible rows) (skip_rows rows))
      (\<lambda>rows' e. progress (eligible rows) (skip_rows rows) rows' \<and> running [] (0 + rounds (length (eligible rows))) e) (\<lambda>_. False)"
    by (rule review_batches_ok) (simp_all add: eligible_ok)
  have "(length (eligible rows) + 9) div 10 \<le> (20 + 9) div 10" using eligible_ok(3) [of rows] by (intro div_le_mono) simp
  then have few: "rounds (length (eligible rows)) \<le> 44" using eligible_ok(3) [of rows] by (simp add: rounds_def)
  obtain r e' where m: "review_batches md5 uc n en j (eligible rows) (skip_rows rows) ?e = (r, e')" by force
  have run: "run_ai_review md5 uc n enabled w en j answers rows e = (r, e')"
    using assms m by (simp add: run_ai_review_def thenM_run)
  show ?thesis
  proof (cases r)
    case (Inl x)
    with t start m show ?thesis unfolding triple_def by blast
  next
    case (Inr rows')
    have "progress (eligible rows) (skip_rows rows) rows' \<and> running [] (0 + rounds (length (eligible rows))) e'"
      using t start m Inr unfolding triple_def by blast
    then have p: "progress (eligible rows) (skip_rows rows) rows'" and "running [] (rounds (length (eligible rows))) e'"
      by (simp_all only: conjunct1 conjunct2 add_0)
    then have "running [] 44 e'" using few running_mono by blast
    then show ?thesis using run all_rows_reviewed [OF p] unfolding Inr running_def by blast
  qed
qed

text \<open>
  C31. Whatever the service answers and the server tells, the review of an order never raises, every row is as before but
  for a well-formed review (a known risk level, a score between 0 and 100, a short text without emoji), and the cache
  holds such reviews only. Without the switch or a key nothing happens at all.
\<close>
theorem ai_review_adds_reviews_only:
  assumes "cache_ok e"
  shows "\<exists>rows' e'. run_ai_review md5 uc n enabled w en j answers rows e = (Inr rows', e') \<and> cache_ok e'
    \<and> (if truthy enabled \<and> check_openai_config w then list_all2 reviewed rows rows' else rows' = rows \<and> e' = e)"
proof (cases "truthy enabled \<and> check_openai_config w")
  case True then show ?thesis using run_review [OF assms, of enabled w md5 uc n en j answers rows] by auto
next
  case False then show ?thesis using assms by (auto simp: run_ai_review_def)
qed

text \<open>A review of two statements and of a row that is no result.\<close>

definition plain_unicode :: unicode where
  "plain_unicode = \<lparr>uc_printable = (\<lambda>c. 32 \<le> c \<and> c < 127), uc_decimal = (\<lambda>c. if 48 \<le> c \<and> c < 58 then Some (c - 48) else None)\<rparr>"

definition quiet_engine :: review_engine where
  "quiet_engine = \<lparr>en_extract_tables = (\<lambda>s. []), en_escape_string = (\<lambda>s. s), en_describe_table = (\<lambda>d t. Inr []),
     en_pg_describe_table = (\<lambda>d t. Inr []), en_table_meta = (\<lambda>d t. Inr ([], [])), en_connection = Inr (),
     en_list_indexes = (\<lambda>d t. Inr []), en_coll_stats = (\<lambda>d t. Inr (0, 0))\<rparr>"

definition ai_world :: world where
  "ai_world = empty_world\<lparr>w_config := \<lparr>tbl_rows = [\<lparr>cf_id = 1, cf_item = ''openai_api_key'', cf_value = ''k'', cf_description = []\<rparr>], tbl_next = 2\<rparr>\<rparr>"

definition new_review_env :: review_env where
  "new_review_env = \<lparr>ev_now = 0, ev_usage = \<lparr>st_table = empty_table, st_faults = []\<rparr>, ev_client = OpenaiClient ai_world ''sql_review'' [],
     rv_cache = [], rv_cache_up = True\<rparr>"

definition demo_job :: review_job where
  "demo_job = \<lparr>jb_db_type = ''mysql'', jb_db_name = ''shop'', jb_instance_name = ''main'', jb_user_name = ''ann''\<rparr>"

definition demo_rows :: "check_row list" where
  "demo_rows = [CheckRow (new_ReviewResult\<lparr>rr_sql := ''update t set a = 1''\<rparr>) None, DictCheckRow [], CheckRow (new_ReviewResult\<lparr>rr_sql := ''drop table t''\<rparr>) None]"

lemma new_review_env_ok: "cache_ok new_review_env" "check_openai_config ai_world"
  by (simp_all add: cache_ok_def cached_ok_def new_review_env_def check_openai_config_def) code_simp

theorem ai_review_adds_reviews_only_witness:
  "\<exists>rows' e'. run_ai_review id plain_unicode 2 (PBool True) ai_world quiet_engine demo_job [] demo_rows new_review_env = (Inr rows', e')
    \<and> cache_ok e' \<and> list_all2 reviewed demo_rows rows'"
  using ai_review_adds_reviews_only [OF new_review_env_ok(1), of id plain_unicode 2 "PBool True" ai_world quiet_engine demo_job "[]" demo_rows] new_review_env_ok(2)
  by simp



section \<open>An outage\<close>

lemma no_answers:
  "cl_answers c = [] \<Longrightarrow> \<exists>c' x. create_chat_completion p json tries tok th c = (Inl x, c') \<and> cl_answers c' = []"
  by (simp add: create_chat_completion_def bindM_def send_def)

lemma no_content:
  assumes "cl_answers c = []"
  shows "\<exists>c' x. content_of (create_structured p) c = (Inl x, c') \<and> cl_answers c' = []"
proof -
  obtain c1 x1 where 1: "create_chat_completion p True None None False c = (Inl x1, c1)" "cl_answers c1 = []"
    using no_answers [OF assms] by blast
  obtain c2 x2 where 2: "create_chat_completion p False None None False c1 = (Inl x2, c2)" "cl_answers c2 = []"
    using no_answers [OF 1(2)] by blast
  show ?thesis using 1 2 by (simp add: content_of_def create_structured_def catchM_def bindM_def)
qed

lemma outage_one:
  assumes "cl_answers (ev_client e) = []" "jb_db_type j \<noteq> ''mongo''"
  shows "\<exists>e'. review_one uc k en j sql e = (Inr REVIEW_FALLBACK, e') \<and> cl_answers (ev_client e') = []
    \<and> ev_now e' = ev_now e \<and> rv_cache e' = rv_cache e \<and> rv_cache_up e' = rv_cache_up e"
proof -
  obtain sr where sr: "collect_context en (jb_db_type j) (jb_db_name j) (extract_obj_names en (jb_db_type j) [sql]) = Inr sr"
    using assms(2) by (cases "collect_context en (jb_db_type j) (jb_db_name j) (extract_obj_names en (jb_db_type j) [sql])")
      (auto simp: collect_context_def split: if_splits)
  obtain schemas rows where sr': "sr = (schemas, rows)" by force
  obtain c' x where "content_of (create_structured (ReviewOne (jb_db_type j) (jb_db_name j) sql (mask_sql_literals schemas) rows)) (ev_client e) = (Inl x, c')"
    "cl_answers c' = []"
    using no_content [OF assms(1)] by blast
  then show ?thesis
    by (simp add: review_one_def bindM_def liftM_def sr sr' with_client_def review_sql_by_openai_def catchM_def)
qed

lemma outage_missing:
  assumes "cl_answers (ev_client e) = []" "jb_db_type j \<noteq> ''mongo''"
  shows "\<exists>e'. review_missing uc k en j sqls (replicate (length sqls) None) e = (Inr (replicate (length sqls) (Reviewed REVIEW_FALLBACK)), e')
    \<and> ev_now e' = ev_now e \<and> rv_cache e' = rv_cache e \<and> rv_cache_up e' = rv_cache_up e"
  using assms(1)
proof (induction sqls arbitrary: e)
  case Nil then show ?case by simp
next
  case (Cons s ss)
  obtain e1 where e1: "review_one uc k en j s e = (Inr REVIEW_FALLBACK, e1)" "cl_answers (ev_client e1) = []"
    "ev_now e1 = ev_now e" "rv_cache e1 = rv_cache e" "rv_cache_up e1 = rv_cache_up e"
    using outage_one [OF Cons.prems assms(2)] by blast
  from Cons.IH [OF e1(2)] obtain e2 where
    "review_missing uc k en j ss (replicate (length ss) None) e1 = (Inr (replicate (length ss) (Reviewed REVIEW_FALLBACK)), e2)"
    "ev_now e2 = ev_now e1" "rv_cache e2 = rv_cache e1" "rv_cache_up e2 = rv_cache_up e1" by blast
  then show ?case using e1 by (simp add: catchM_def bindM_def)
qed

lemma all_reviewed_replicate: "all_reviewed (replicate n (Reviewed r)) = Some (replicate n r)"
  by (induction n) simp_all

lemma outage_fresh:
  assumes "cl_answers (ev_client e) = []" "jb_db_type j \<noteq> ''mongo''" "rv_cache_up e"
  shows "\<exists>e'. review_fresh uc k en j key sqls e = (Inr (replicate (length sqls) (Reviewed REVIEW_FALLBACK)), e')
    \<and> rv_cache e' = dict_put key (replicate (length sqls) REVIEW_FALLBACK, ev_now e + CACHE_TTL) (rv_cache e)"
proof -
  obtain sr where sr: "collect_context en (jb_db_type j) (jb_db_name j) (extract_obj_names en (jb_db_type j) sqls) = Inr sr"
    using assms(2) by (cases "collect_context en (jb_db_type j) (jb_db_name j) (extract_obj_names en (jb_db_type j) sqls)")
      (auto simp: collect_context_def split: if_splits)
  obtain schemas rows where sr': "sr = (schemas, rows)" by force
  obtain c' x where "content_of (create_structured (ReviewBatch (jb_db_type j) (jb_db_name j) sqls (mask_sql_literals schemas) rows)) (ev_client e) = (Inl x, c')"
    "cl_answers c' = []"
    using no_content [OF assms(1)] by blast
  then have b: "batch_review uc k en j sqls e = (Inr None, e\<lparr>ev_client := c'\<rparr>)" and c': "cl_answers c' = []"
    by (simp_all add: batch_review_def bindM_def liftM_def sr sr' with_client_def review_sql_batch_by_openai_def catchM_def)
  obtain e1 where e1: "record_call j (e\<lparr>ev_client := c'\<rparr>) = (Inr (), e1)" "cl_answers (ev_client e1) = []" "ev_now e1 = ev_now e"
    "rv_cache e1 = rv_cache e" "rv_cache_up e1"
    by (simp add: record_call_def bindM_def record_ai_usage_def c' assms(3))
  obtain e2 where e2: "review_missing uc k en j sqls (replicate (length sqls) None) e1 = (Inr (replicate (length sqls) (Reviewed REVIEW_FALLBACK)), e2)"
    "ev_now e2 = ev_now e" "rv_cache e2 = rv_cache e" "rv_cache_up e2"
    using outage_missing [OF e1(2) assms(2), of uc k en sqls] e1 by auto
  have "pad (length sqls) [] = replicate (length sqls) None" by (simp add: pad_def)
  then show ?thesis
    using b e1(1) e2 by (simp add: review_fresh_def bindM_def thenM_def store_reviews_def all_reviewed_replicate cache_set_quiet_def)
qed

text \<open>
  C33. An outage of the service is remembered as a review: the statements get the fallback, it is cached, and for an hour
  the same statements get it again without a request, though the service is back.
\<close>
theorem outage_cached_for_an_hour:
  assumes "rv_cache_up e" "cl_answers (ev_client e) = []" "jb_db_type j \<noteq> ''mongo''"
    and "cache_get_quiet (batch_cache_key md5 (cl_model (ev_client e)) (jb_db_name j) (map mask_sql_literals ss)) e = None"
    and "rv_cache e2 = rv_cache (snd (review_statements md5 uc k en j ss e))" "rv_cache_up e2"
    and "ev_now e2 < ev_now e + seconds 3600" "cl_model (ev_client e2) = cl_model (ev_client e)"
  shows "fst (review_statements md5 uc k en j ss e) = Inr (replicate (length ss) (Reviewed REVIEW_FALLBACK))
    \<and> fst (review_statements md5 uc k en j ss e2) = Inr (replicate (length ss) (Reviewed REVIEW_FALLBACK))
    \<and> ev_client (snd (review_statements md5 uc k en j ss e2)) = ev_client e2"
proof -
  let ?key = "batch_cache_key md5 (cl_model (ev_client e)) (jb_db_name j) (map mask_sql_literals ss)"
  obtain e1 where e1: "review_fresh uc k en j ?key (map mask_sql_literals ss) e = (Inr (replicate (length ss) (Reviewed REVIEW_FALLBACK)), e1)"
    "rv_cache e1 = dict_put ?key (replicate (length ss) REVIEW_FALLBACK, ev_now e + CACHE_TTL) (rv_cache e)"
    using outage_fresh [OF assms(2,3,1), of uc k en ?key "map mask_sql_literals ss"] by auto
  have first: "review_statements md5 uc k en j ss e = (Inr (replicate (length ss) (Reviewed REVIEW_FALLBACK)), e1)"
    using assms(4) e1(1) by (simp add: review_statements_def Let_def catchM_def)
  have "map_of (dict_put k v d) k = Some v" for k v and d :: "(string \<times> (review list \<times> usec)) list"
    by (induction d) auto
  then have hit: "cache_get_quiet ?key e2 = Some (replicate (length ss) REVIEW_FALLBACK)"
    using assms(5-7) first e1(2) by (simp add: cache_get_quiet_def CACHE_TTL_def)
  then have "fst (review_statements md5 uc k en j ss e2) = Inr (replicate (length ss) (Reviewed REVIEW_FALLBACK))"
    "ev_client (snd (review_statements md5 uc k en j ss e2)) = ev_client e2"
    using assms(8) by (simp_all add: review_statements_def Let_def thenM_def bindM_def record_hit_def record_ai_usage_def)
  with first show ?thesis by simp
qed

text \<open>The service is away at the first review and back ten minutes later.\<close>

definition back_again :: review_env where
  "back_again = new_review_env
     \<lparr>rv_cache := rv_cache (snd (review_statements id plain_unicode 2 quiet_engine demo_job [''drop table t''] new_review_env)), ev_now := seconds 600, ev_client := OpenaiClient ai_world ''sql_review'' [Inr \<lparr>cp_content = Inr (Some (u ''{}'')), cp_usage = None, cp_elapsed = 5\<rparr>]\<rparr>"

theorem outage_cached_for_an_hour_witness:
  "fst (review_statements id plain_unicode 2 quiet_engine demo_job [''drop table t''] new_review_env) = Inr [Reviewed REVIEW_FALLBACK]
   \<and> fst (review_statements id plain_unicode 2 quiet_engine demo_job [''drop table t''] back_again) = Inr [Reviewed REVIEW_FALLBACK]"
proof -
  have "cl_model (ev_client back_again) = cl_model (ev_client new_review_env)"
    by (simp add: back_again_def new_review_env_def OpenaiClient_def)
  moreover have "rv_cache_up back_again"
    by (simp add: back_again_def new_review_env_def)
  ultimately show ?thesis
    using outage_cached_for_an_hour [of new_review_env demo_job id "[''drop table t'']" back_again plain_unicode 2 quiet_engine]
    by (simp add: new_review_env_def OpenaiClient_def demo_job_def back_again_def cache_get_quiet_def seconds_def)
qed

end
