(* ===== verification/SlowStatsProps.thy ===== *)
theory SlowStatsProps
  imports SlowStats AiReviewProps
begin

text \<open>
  What the statistics of slow queries tell: the pages of exactly the rows that match, of no instance but one the user
  reaches; and that the queries of Redis cannot be searched.
\<close>

section \<open>One instance\<close>


definition only :: "int \<Rightarrow> slow_state \<Rightarrow> slow_state" where
  "only k s = s\<lparr>sl_mysql := tbl_delete (\<lambda>d. dt_instance d \<noteq> k) (sl_mysql s), sl_pgsql := tbl_delete (\<lambda>d. dt_instance d \<noteq> k) (sl_pgsql s),
     sl_mongo := tbl_delete (\<lambda>d. dt_instance d \<noteq> k) (sl_mongo s), sl_redis := tbl_delete (\<lambda>d. dt_instance d \<noteq> k) (sl_redis s),
     sl_mysql_sum := tbl_delete (\<lambda>d. su_instance d \<noteq> k) (sl_mysql_sum s), sl_pgsql_sum := tbl_delete (\<lambda>d. su_instance d \<noteq> k) (sl_pgsql_sum s),
     sl_mongo_sum := tbl_delete (\<lambda>d. su_instance d \<noteq> k) (sl_mongo_sum s), sl_redis_sum := tbl_delete (\<lambda>d. su_instance d \<noteq> k) (sl_redis_sum s)\<rparr>"




lemma only_world [simp]: "sl_world (only k s) = sl_world s" "sl_now (only k s) = sl_now s"
  by (simp_all add: only_def)






section \<open>The pages\<close>

text \<open>The rows of a request, written out for MySQL.\<close>

definition in_period :: "usec option \<times> usec option \<Rightarrow> usec option \<Rightarrow> bool" where
  "in_period p t = ((\<forall>a. fst p = Some a \<longrightarrow> (\<exists>x. t = Some x \<and> a \<le> x)) \<and> (\<forall>b. snd p = Some b \<longrightarrow> (\<exists>x. t = Some x \<and> x \<le> b)))"

definition listed :: "instance_row \<Rightarrow> usec option \<times> usec option \<Rightarrow> stats_request \<Rightarrow> mysql_summary \<Rightarrow> bool" where
  "listed i p q r = (su_instance r = i_id i \<and> in_period p (su_last r) \<and> (sq_db q = [] \<or> ms_db r = Some (sq_db q))
     \<and> (sq_search q = [] \<or> icontains (su_fingerprint r) (sq_search q)))"

definition ms2 :: "rat \<Rightarrow> cell" where
  "ms2 x = CNum (round_to 2 (x * 1000))"

definition trunc :: "rat \<Rightarrow> int" where
  "trunc x = (if 0 \<le> x then floor x else ceiling x)"

definition mysql_line :: "mysql_summary \<Rightarrow> row_dict" where
  "mysql_line r = [(''SQLId'', CText (su_hash r)), (''SQLText'', CText (su_fingerprint r)), (''CreateTime'', otime (su_last r)),
     (''DBName'', otext (ms_db r)), (''MySQLTotalExecutionCounts'', CInt (su_counts r)), (''MySQLTotalExecutionTimes'', ms2 (su_times r)),
     (''QueryTimeAvg'', ms2 (su_avg r)), (''QueryTimePct95'', ms2 (su_p95 r)), (''ParseTotalRowCounts'', CInt (ms_parse_total r)),
     (''ReturnTotalRowCounts'', CInt (ms_return_total r)), (''ParseRowAvg'', CInt (trunc (ms_parse_avg r))),
     (''ReturnRowAvg'', CInt (trunc (ms_return_avg r)))]"

lemma mapE_map: "(\<And>x. f (g x) = Inr (h x)) \<Longrightarrow> mapE f (map g xs) = Inr (map h xs)"
  by (induction xs) (auto simp: bindE_def)

definition mysql_dict :: "mysql_summary \<Rightarrow> row_dict" where
  "mysql_dict r = [(''sql_hash'', CText (su_hash r)),
     (''fingerprint'', CText (su_fingerprint r)), (''sample_sql'', otext (su_sample r)), (''db_name'', otext (ms_db r)),
     (''total_execution_counts'', CInt (su_counts r)), (''total_execution_times'', CNum (su_times r)), (''query_time_avg'', CNum (su_avg r)),
     (''query_time_p95'', CNum (su_p95 r)), (''parse_total_row_counts'', CInt (ms_parse_total r)),
     (''return_total_row_counts'', CInt (ms_return_total r)), (''parse_row_avg'', CNum (ms_parse_avg r)),
     (''return_row_avg'', CNum (ms_return_avg r)), (''first_seen'', otime (su_first r)), (''last_seen'', otime (su_last r))]"

lemma mysql_values:
  "select_values mysql_summary_columns (fc_fields mysql_summary_config) rs = Inr (map mysql_dict rs)"
  by (simp add: select_values_def mysql_summary_config_def column_def mysql_summary_columns_def summary_columns_def bindE_def mysql_dict_def)

lemma mysql_format:
  "format_row mysql_summary_config 1000 (mysql_dict r) = Inr (mysql_line r)"
  by (simp add: format_row_def mysql_summary_config_def common_map_def format_cell_def times_fields_def TIME_FIELDS_def row_get_def
      scale_cell_def round_or_zero_def int_or_zero_def bindE_def mysql_dict_def mysql_line_def ms2_def trunc_def)

lemma mysql_page:
  assumes "i_db_type i = ''mysql''" "0 \<le> offset" "0 \<le> limit"
  shows "page_of mysql_summary_columns mysql_summary_config (i_db_type i) key limit offset rs =
    Inr \<lparr>pg_rows = map mysql_line (take (nat limit) (drop (nat offset) (sort_desc key rs))), pg_total = CInt (int (length rs))\<rparr>"
  using assms(2,3)
  by (simp add: assms(1) page_of_def slice_def bindE_def mysql_values format_rows_def TIME_UNIT_MS_def mapE_map [where f = "format_row mysql_summary_config 1000" and g = mysql_dict and h = mysql_line, OF mysql_format])

lemma mysql_queryset:
  "build_queryset mysql_summary_columns (fst p) (snd p) (sq_db q) (sq_search q) ''fingerprint'' ''last_seen''
     (tbl_filter (\<lambda>r. su_instance r = i_id i) t) = Inr (filter (listed i p q) (tbl_rows t))"
proof -
  have cols: "column mysql_summary_columns ''last_seen'' = Inr (\<lambda>r. otime (su_last r))" "column mysql_summary_columns ''db_name'' = Inr (\<lambda>r. otext (ms_db r))"
    "column mysql_summary_columns ''fingerprint'' = Inr (\<lambda>r. CText (su_fingerprint r))"
    by (simp_all add: column_def mysql_summary_columns_def summary_columns_def)
  have cells: "at_least a (otime t) = (\<exists>x. t = Some x \<and> a \<le> x)" "at_most a (otime t) = (\<exists>x. t = Some x \<and> x \<le> a)"
    "(otext d = CText e) = (d = Some e)" for a t d e
    by (auto simp: at_least_def at_most_def otime_def otext_def split: option.splits)
  show ?thesis
    by (cases "fst p"; cases "snd p"; cases "sq_db q = []"; cases "sq_search q = []")
      (auto simp: build_queryset_def narrow_def bindE_def cols cells cell_contains_def tbl_filter_def listed_def in_period_def
        intro!: filter_cong)
qed

lemma mysql_summary_answer:
  assumes "may_see_slowquery usr" "get_and_check_instance (sl_world s) usr (sq_instance q) = Inr i" "i_db_type i = ''mysql''"
    and "\<not> ay_enabled c (i_id i)" "request_period (sl_now s) q = Inr p" "0 \<le> safe_int (sq_offset q) 0" "0 \<le> safe_int (sq_limit q) 50"
  shows "SlowQuerySummary_post uc c s usr q = Inr (Data
    (let rs = filter (listed i p q) (tbl_rows (sl_mysql_sum s)) in
     \<lparr>pg_rows = map mysql_line (take (nat (safe_int (sq_limit q) 50)) (drop (nat (safe_int (sq_offset q) 0)) (sort_desc su_times rs))),
      pg_total = CInt (int (length rs))\<rparr>))"
  using assms(1-5) mysql_page [OF assms(3,6,7), of su_times]
  by (simp add: SlowQuerySummary_post_def with_instance_def summary_local_def summary_page_def mysql_queryset bindE_def answered_def Let_def)

text \<open>
  A list of MySQL fingerprints is the asked page of the rows of the instance that match the period, the database and
  the search, the most expensive first, with the times in milliseconds, and the number of all of them.
\<close>
theorem mysql_summary_page:
  assumes "may_see_slowquery usr" "get_and_check_instance (sl_world s) usr (sq_instance q) = Inr i" "i_db_type i = ''mysql''"
    and "\<not> ay_enabled c (i_id i)" "request_period (sl_now s) q = Inr p" "0 \<le> safe_int (sq_offset q) 0" "0 \<le> safe_int (sq_limit q) 50"
  shows "SlowQuerySummary_post uc c s usr q = Inr (Data
    (let rs = filter (listed i p q) (tbl_rows (sl_mysql_sum s)) in
     \<lparr>pg_rows = map mysql_line (take (nat (safe_int (sq_limit q) 50)) (drop (nat (safe_int (sq_offset q) 0)) (sort_desc su_times rs))),
      pg_total = CInt (int (length rs))\<rparr>))"
  by (rule mysql_summary_answer) (fact assms)+

text \<open>
  The queries of a Redis instance cannot be searched, nor can its lists be narrowed to a database: the request fails,
  whatever is stored, because the tables of Redis have no such columns.
\<close>
theorem redis_not_searchable:
  assumes "may_see_slowquery usr" "get_and_check_instance (sl_world s) usr (sq_instance q) = Inr i" "i_db_type i = ''redis''"
    and "\<not> ay_enabled c (i_id i)" "request_period (sl_now s) q = Inr p"
  shows "(sq_search q \<noteq> [] \<or> sq_db q \<noteq> [] \<longrightarrow> SlowQueryDetail_post uc c s usr q = Inr (Refused ''reading the details failed''))
    \<and> (sq_db q \<noteq> [] \<longrightarrow> SlowQuerySummary_post uc c s usr q = Inr (Refused ''reading the statistics failed''))"
proof -
  have cols: "redis_detail_columns ''sql_text'' = None" "redis_detail_columns ''db_name'' = None" "redis_summary_columns ''db_name'' = None"
    by (simp_all add: redis_detail_columns_def detail_columns_def redis_summary_columns_def summary_columns_def)
  have time: "\<exists>g. column redis_detail_columns ''execution_start_time'' = Inr g" "\<exists>g. column redis_summary_columns ''last_seen'' = Inr g"
    by (simp_all add: column_def redis_detail_columns_def detail_columns_def redis_summary_columns_def summary_columns_def)
  show ?thesis
    using assms cols time
    by (auto simp: SlowQueryDetail_post_def SlowQuerySummary_post_def with_instance_def detail_local_def summary_local_def detail_page_def
        summary_page_def build_queryset_def narrow_def column_def bindE_def answered_def split: option.splits)
qed

section \<open>Periods\<close>

text \<open>
  C35. A time of the years 1000 to 9999 that is written as a date is read by the filters of the lists as the start of that
  day, and one that is written with its time of day as its second.
\<close>
theorem written_times_parsed:
  assumes "in_range t"
  shows "parse_date (strftime_date t) = Some (day_of t * 86400000000) \<and> parse_date (strftime_time t) = Some (t - t mod 1000000)"
proof -
  have "strftime_date t \<noteq> []" by (simp add: strftime_date_def day_text_def date_text_def split: prod.splits)
  moreover have "strftime_time t \<noteq> []" by (simp add: strftime_time_def)
  ultimately show ?thesis
    using date_read_back [OF assms] time_read_back [OF assms] time_is_no_date [OF assms] by (simp add: parse_date_def)
qed

section \<open>Examples\<close>

definition stats_world :: "string \<Rightarrow> world" where
  "stats_world ty = empty_world\<lparr>w_instances := \<lparr>tbl_rows = [new_Instance\<lparr>i_id := 7, i_instance_name := ''shop'', i_db_type := ty\<rparr>], tbl_next = 8\<rparr>\<rparr>"

definition stats_state :: "string \<Rightarrow> slow_state" where
  "stats_state ty = \<lparr>sl_world = stats_world ty, sl_now = 0, sl_mysql = empty_table, sl_pgsql = empty_table, sl_mongo = empty_table,
     sl_redis = empty_table, sl_mysql_sum = \<lparr>tbl_rows = [\<lparr>su_id = 1, su_instance = 7, su_hash = ''a'', su_fingerprint = ''select'',
       su_sample = None, su_counts = 3, su_times = 6, su_avg = 2, su_p95 = 4, su_first = Some 0, su_last = Some 0, su_created = 0, su_updated = 0,
       ms_db = Some ''shop'', ms_user = None, ms_parse_total = 9, ms_return_total = 3, ms_parse_avg = 3, ms_return_avg = 1\<rparr>], tbl_next = 2\<rparr>,
     sl_pgsql_sum = empty_table, sl_mongo_sum = empty_table,
     sl_redis_sum = empty_table, sl_cursors = empty_table, sl_usage = empty_table, sl_lock = None, sl_faults = []\<rparr>"

definition stats_user :: user where
  "stats_user = new_Users\<lparr>u_id := 1, u_username := ''ann'', has_perm := (\<lambda>p. True)\<rparr>"

definition stats_query :: stats_request where
  "stats_query = \<lparr>sq_instance = ''shop'', sq_start = ''-'', sq_end = ''-'', sq_db = [], sq_sql_id = [], sq_search = [],
     sq_limit = PInt 10, sq_offset = PNone\<rparr>"

definition no_cloud :: cloud where
  "no_cloud = \<lparr>ay_enabled = (\<lambda>k. False), ay_review = (\<lambda>i a b c d e. Inl Http404), ay_history = (\<lambda>i a b c d e f. Inl Http404)\<rparr>"

lemma stats_demo:
  "may_see_slowquery stats_user" "get_and_check_instance (sl_world (stats_state ty)) stats_user ''shop''
     = Inr (new_Instance\<lparr>i_id := 7, i_instance_name := ''shop'', i_db_type := ty\<rparr>)"
  "distinct (map i_instance_name (tbl_rows (w_instances (sl_world (stats_state ty)))))" "\<not> ay_enabled no_cloud k"
  by (simp_all add: may_see_slowquery_def stats_user_def get_and_check_instance_def stats_state_def stats_world_def tbl_get_def bindE_def
      user_instances_def Let_def no_cloud_def)

lemma stats_period: "request_period (sl_now (stats_state ty)) stats_query = Inr (None, None)"
proof -
  have "parse_date ''-'' = None" by code_simp
  then show ?thesis by (simp add: request_period_def stats_query_def default_text_def)
qed

theorem mysql_summary_page_witness:
  "SlowQuerySummary_post plain_unicode no_cloud (stats_state ''mysql'') stats_user stats_query
     = Inr (Data \<lparr>pg_rows = map mysql_line (tbl_rows (sl_mysql_sum (stats_state ''mysql''))), pg_total = CInt 1\<rparr>)"
proof -
  let ?i = "new_Instance\<lparr>i_id := 7, i_instance_name := ''shop'', i_db_type := ''mysql''\<rparr>"
  have l: "filter (listed ?i (None, None) stats_query) (tbl_rows (sl_mysql_sum (stats_state ''mysql''))) = tbl_rows (sl_mysql_sum (stats_state ''mysql''))"
    by (simp add: stats_state_def listed_def in_period_def stats_query_def)
  have "SlowQuerySummary_post plain_unicode no_cloud (stats_state ''mysql'') stats_user stats_query = Inr (Data
    (let rs = filter (listed ?i (None, None) stats_query) (tbl_rows (sl_mysql_sum (stats_state ''mysql''))) in
     \<lparr>pg_rows = map mysql_line (take (nat (safe_int (sq_limit stats_query) 50)) (drop (nat (safe_int (sq_offset stats_query) 0)) (sort_desc su_times rs))),
      pg_total = CInt (int (length rs))\<rparr>))"
    by (rule mysql_summary_page) (use stats_demo stats_period in \<open>simp_all add: stats_query_def safe_int_def\<close>)
  then show ?thesis unfolding l by (simp add: stats_query_def safe_int_def sort_desc_def stats_state_def)
qed


theorem redis_not_searchable_witness:
  "SlowQueryDetail_post plain_unicode no_cloud (stats_state ''redis'') stats_user (stats_query\<lparr>sq_search := ''get''\<rparr>)
     = Inr (Refused ''reading the details failed'')"
proof -
  have "request_period (sl_now (stats_state ''redis'')) (stats_query\<lparr>sq_search := ''get''\<rparr>) = Inr (None, None)"
    using stats_period [of "''redis''"] by (simp add: request_period_def)
  then show ?thesis
    using redis_not_searchable [of stats_user "stats_state ''redis''" "stats_query\<lparr>sq_search := ''get''\<rparr>" _ no_cloud "(None, None)" plain_unicode]
      stats_demo by (simp add: stats_query_def)
qed

theorem written_times_parsed_witness:
  "parse_date (strftime_time 1719792000500000) = Some 1719792000000000"
proof -
  have "day_of 1719792000500000 = to_day 2024 7 1 \<and> valid_date 2024 7 1"
    by (simp add: day_of_def to_day_def ordinal_def days_before_year_def epoch_ordinal_def Let_def upt_rec month_length_def leap_def valid_date_def)
  then have "in_range 1719792000500000" unfolding in_range_def by (intro exI [of _ 2024] exI [of _ 7] exI [of _ 1]) simp
  from written_times_parsed [OF this] show ?thesis by simp
qed

end
