(* ===== verification/DiagnosisClaims.thy ===== *)
theory DiagnosisClaims
  imports DiagnosisProps SlowStatsProps
begin

text \<open>
  The claims on the diagnoses of slow queries and an example that runs one: a request, the job and its report.
\<close>

section \<open>Tasks and reports\<close>

text \<open>Nothing asked for yet.\<close>

definition diag_new :: "diag_state \<Rightarrow> bool" where
  "diag_new s = (dg_tasks s = empty_table \<and> dg_reports s = empty_table \<and> dg_free s = 8 \<and> dg_queue s = [] \<and> dg_busy s = [])"

lemma new_inv: "diag_new s \<Longrightarrow> diag_inv s"
  by (auto simp: diag_new_def diag_inv_def held_def tables_fine_def task_ids_def reported_def pool_of_def empty_table_def wf_table_def
      DIAG_MAX_WORKERS_def DIAG_MAX_PENDING_def)

lemma one_report:
  assumes "diag_inv s" "t \<in> set (tbl_rows (dg_tasks s))" "dk_status t = ''success''"
  shows "\<exists>!r. r \<in> set (tbl_rows (dg_reports s)) \<and> dr_task r = dk_id t"
proof -
  from assms have f: "tables_fine s" by (simp add: diag_inv_def held_def)
  with assms(2,3) obtain r where "r \<in> set (tbl_rows (dg_reports s))" "dr_task r = dk_id t"
    by (auto simp: tables_fine_def reported_def)
  moreover have "inj_on dr_task (set (tbl_rows (dg_reports s)))"
    using f by (simp add: tables_fine_def distinct_map)
  ultimately show ?thesis by (metis inj_onD)
qed

text \<open>
  C36. Whatever requests, polls, clean ups, jobs, faults of the database and new starts of the process happen, in any order:
  the eight places of the pool are free, waiting or at work, at most four at work; every task that succeeded has exactly one
  report; and every report belongs to a task, with a severity and a bottleneck of the vocabulary, a confidence between 0 and 1
  and a root cause that fits its column.
\<close>
theorem diagnosis_invariant:
  assumes "diag_new s" "diag_reach s s'"
  shows "dg_free s' + length (dg_queue s') + length (dg_busy s') = 8 \<and> length (dg_busy s') \<le> 4
    \<and> (\<forall>t \<in> set (tbl_rows (dg_tasks s')). dk_status t = ''success'' \<longrightarrow> (\<exists>!r. r \<in> set (tbl_rows (dg_reports s')) \<and> dr_task r = dk_id t))
    \<and> (\<forall>r \<in> set (tbl_rows (dg_reports s')). (\<exists>t \<in> set (tbl_rows (dg_tasks s')). dk_id t = dr_task r)
         \<and> dr_severity r \<in> set VALID_LEVELS \<and> dr_bottleneck r \<in> set BOTTLENECKS \<and> 0 \<le> dr_confidence r \<and> dr_confidence r \<le> 1
         \<and> length (dr_root_cause r) \<le> 200)"
proof -
  have inv: "diag_inv s'" using reach_inv [OF assms(2)] new_inv [OF assms(1)] by blast
  then have "pool_fine (dg_free s', dg_queue s', dg_busy s')" "tables_fine s'"
    by (simp_all add: diag_inv_def held_def pool_of_def)
  moreover have "\<exists>t \<in> set (tbl_rows (dg_tasks s')). dk_id t = dr_task r" if "r \<in> set (tbl_rows (dg_reports s'))" for r
    using \<open>tables_fine s'\<close> that by (fastforce simp: tables_fine_def reported_def task_ids_def image_subset_iff)
  moreover have "report_fine r" if "r \<in> set (tbl_rows (dg_reports s'))" for r
    using \<open>tables_fine s'\<close> that by (simp add: tables_fine_def)
  ultimately show ?thesis
    using one_report [OF inv] by (simp add: DIAG_MAX_WORKERS_def DIAG_MAX_PENDING_def report_fine_def)
qed

section \<open>Stale tasks\<close>

text \<open>The rows that stand for the tasks of the list are in the table; each is marked where it is stale.\<close>

definition sweep :: "usec \<Rightarrow> diag_task \<Rightarrow> diag_task" where
  "sweep now t = (if is_stale now t then timed_out now (stale_minutes t) t else t)"

lemma sweep_id [simp]: "dk_id (sweep now t) = dk_id t"
  by (simp add: sweep_def timed_out_def)

lemma mark_one:
  assumes "t \<in> set (tbl_rows (dg_tasks s))" "distinct (map dk_id (tbl_rows (dg_tasks s)))" "dg_faults s = []"
  shows "mark_stale_task_failed t s = (Inr (sweep (ev_now s) t, is_stale (ev_now s) t),
    s\<lparr>dg_tasks := tbl_update (\<lambda>r. dk_id r = dk_id t) (sweep (ev_now s)) (dg_tasks s)\<rparr>)"
proof -
  have only: "r = t" if "r \<in> set (tbl_rows (dg_tasks s))" "dk_id r = dk_id t" for r
    using assms(1,2) that by (auto simp: distinct_map inj_on_def)
  have ex: "list_ex (\<lambda>x. dk_id x = dk_id t) (tbl_rows (dg_tasks s))"
    using assms(1) by (auto simp: list_ex_iff)
  show ?thesis
  proof (cases "is_stale (ev_now s) t")
    case True
    have "tbl_update (\<lambda>r. dk_id r = dk_id t) (timed_out (ev_now s) (stale_minutes t)) (dg_tasks s)
        = tbl_update (\<lambda>r. dk_id r = dk_id t) (sweep (ev_now s)) (dg_tasks s)"
    proof -
      have "map (\<lambda>x. if dk_id x = dk_id t then timed_out (ev_now s) (stale_minutes t) x else x) (tbl_rows (dg_tasks s))
          = map (\<lambda>x. if dk_id x = dk_id t then sweep (ev_now s) x else x) (tbl_rows (dg_tasks s))"
        using True by (intro map_cong) (auto simp: sweep_def dest!: only)
      then show ?thesis by (simp add: tbl_update_def)
    qed
    with True ex assms(3) show ?thesis
      by (simp add: mark_stale_task_failed_def bindM_run thenM_run save_task_def db_write_def tbl_save_fields_def sweep_def)
  next
    case False
    have "tbl_update (\<lambda>r. dk_id r = dk_id t) (sweep (ev_now s)) (dg_tasks s) = dg_tasks s"
    proof -
      have "map (\<lambda>x. if dk_id x = dk_id t then sweep (ev_now s) x else x) (tbl_rows (dg_tasks s)) = tbl_rows (dg_tasks s)"
        using False by (intro map_idI) (auto simp: sweep_def dest!: only)
      then show ?thesis by (simp add: tbl_update_def)
    qed
    with False show ?thesis
      by (simp add: mark_stale_task_failed_def bindM_run sweep_def)
  qed
qed

lemma mark_all:
  assumes "set ts \<subseteq> set (tbl_rows (dg_tasks s))" "distinct (map dk_id ts)" "distinct (map dk_id (tbl_rows (dg_tasks s)))" "dg_faults s = []"
  shows "mark_stale_tasks ts n s = (Inr (n + length (filter (is_stale (ev_now s)) ts)),
    s\<lparr>dg_tasks := tbl_update (\<lambda>r. dk_id r \<in> dk_id ` set ts) (sweep (ev_now s)) (dg_tasks s)\<rparr>)"
  using assms
proof (induction ts arbitrary: n s)
  case Nil
  then show ?case by (simp add: tbl_update_def)
next
  case (Cons t ts)
  let ?up = "\<lambda>P T. tbl_update P (sweep (ev_now s)) T"
  let ?s = "s\<lparr>dg_tasks := ?up (\<lambda>r. dk_id r = dk_id t) (dg_tasks s)\<rparr>"
  have ids: "map dk_id (tbl_rows (dg_tasks ?s)) = map dk_id (tbl_rows (dg_tasks s))"
    by (simp add: rows_tbl_update)
  have stay: "set ts \<subseteq> set (tbl_rows (dg_tasks ?s))"
  proof
    fix r assume r: "r \<in> set ts"
    then have "dk_id r \<in> dk_id ` set ts" by simp
    then have "dk_id r \<noteq> dk_id t" using Cons.prems(2) by (metis distinct.simps(2) list.simps(9) set_map)
    moreover have "r \<in> set (tbl_rows (dg_tasks s))" using r Cons.prems(1) by auto
    ultimately show "r \<in> set (tbl_rows (dg_tasks ?s))" by (force simp: rows_tbl_update)
  qed
  have "?up (\<lambda>r. dk_id r \<in> dk_id ` set ts) (?up (\<lambda>r. dk_id r = dk_id t) (dg_tasks s)) = ?up (\<lambda>r. dk_id r \<in> dk_id ` set (t # ts)) (dg_tasks s)"
    using Cons.prems(2) by (auto simp: tbl_update_def)
  then have "mark_stale_tasks ts m ?s = (Inr (m + length (filter (is_stale (ev_now s)) ts)),
      s\<lparr>dg_tasks := ?up (\<lambda>r. dk_id r \<in> dk_id ` set (t # ts)) (dg_tasks s)\<rparr>)" for m
    using Cons.IH [OF stay] Cons.prems ids by simp
  moreover have "mark_stale_task_failed t s = (Inr (sweep (ev_now s) t, is_stale (ev_now s) t), ?s)"
    using Cons.prems by (intro mark_one) simp_all
  ultimately show ?case by (simp add: bindM_run)
qed

lemma cleanup_run:
  assumes "wf_table dk_id (dg_tasks s)" "dg_faults s = []"
  shows "cleanup_stale_diagnosis_tasks s = (Inr (length (filter (is_stale (ev_now s)) (tbl_rows (dg_tasks s)))),
      s\<lparr>dg_tasks := (dg_tasks s)\<lparr>tbl_rows := map (sweep (ev_now s)) (tbl_rows (dg_tasks s))\<rparr>\<rparr>)"
proof -
  let ?ts = "filter live (tbl_rows (dg_tasks s))"
  have d: "distinct (map dk_id (tbl_rows (dg_tasks s)))" using assms(1) by (simp add: wf_table_def)
  then have "mark_stale_tasks ?ts 0 s = (Inr (0 + length (filter (is_stale (ev_now s)) ?ts)),
      s\<lparr>dg_tasks := tbl_update (\<lambda>r. dk_id r \<in> dk_id ` set ?ts) (sweep (ev_now s)) (dg_tasks s)\<rparr>)"
    using assms(2) by (intro mark_all) (auto simp: distinct_map_filter)
  moreover have "filter (is_stale (ev_now s)) ?ts = filter (is_stale (ev_now s)) (tbl_rows (dg_tasks s))"
    unfolding filter_filter by (rule filter_cong) (auto simp: is_stale_def)
  moreover have "tbl_update (\<lambda>r. dk_id r \<in> dk_id ` set ?ts) (sweep (ev_now s)) (dg_tasks s) = (dg_tasks s)\<lparr>tbl_rows := map (sweep (ev_now s)) (tbl_rows (dg_tasks s))\<rparr>"
  proof -
    have "(if dk_id r \<in> dk_id ` set ?ts then sweep (ev_now s) r else r) = sweep (ev_now s) r" if "r \<in> set (tbl_rows (dg_tasks s))" for r
      using that by (auto simp: sweep_def is_stale_def)
    then show ?thesis by (simp add: tbl_update_def)
  qed
  ultimately show ?thesis
    by (simp add: cleanup_stale_diagnosis_tasks_def bindM_run tbl_filter_def)
qed

text \<open>
  The clean up marks exactly the tasks that have waited more than twelve minutes or are at work and were created more than
  five minutes ago, whoever polls them or not; no stale task is left, all others are as before.
\<close>
theorem cleanup_marks_stale:
  assumes "wf_table dk_id (dg_tasks s)" "dg_faults s = []"
  shows "cleanup_stale_diagnosis_tasks s = (Inr (length (filter (is_stale (ev_now s)) (tbl_rows (dg_tasks s)))),
      s\<lparr>dg_tasks := (dg_tasks s)\<lparr>tbl_rows := map (\<lambda>t. if is_stale (ev_now s) t then timed_out (ev_now s) (stale_minutes t) t else t)
        (tbl_rows (dg_tasks s))\<rparr>\<rparr>)
    \<and> (\<forall>t \<in> set (tbl_rows (dg_tasks (snd (cleanup_stale_diagnosis_tasks s)))). \<not> is_stale (ev_now s) t)"
  using cleanup_run [OF assms] by (auto simp: sweep_def timed_out_def is_stale_def live_def)

lemma tbl_update_mem: "x \<in> set (tbl_rows T) \<Longrightarrow> P x \<Longrightarrow> f x \<in> set (tbl_rows (tbl_update P f T))"
  by (force simp: rows_tbl_update)

text \<open>
  C38. A job goes on though the clean up has marked its task: when it ends the task is a success after all, with the report of the
  job and the error of the time out.
\<close>
theorem timed_out_task_succeeds:
  assumes "wf_table dk_id (dg_tasks s)" "dg_faults s = []" "j < length (dg_busy s)" "dg_busy s ! j = (t, Saved d c)"
    and "r \<in> set (tbl_rows (dg_tasks s))" "dk_id r = dk_id t" "dk_status r = ''running''" "seconds 300 < ev_now s - dk_created r"
    and "diag_account t c [] [] s = Inr a"
  shows "(timed_out (ev_now s) 5 r)\<lparr>dk_status := ''success'', dk_model := cl_model c, dk_prompt_tokens := dx_prompt_tokens d,
      dk_completion_tokens := dx_completion_tokens d\<rparr>
    \<in> set (tbl_rows (dg_tasks (snd (advance_job ou j (snd (cleanup_stale_diagnosis_tasks s))))))"
proof -
  let ?s = "s\<lparr>dg_tasks := (dg_tasks s)\<lparr>tbl_rows := map (sweep (ev_now s)) (tbl_rows (dg_tasks s))\<rparr>\<rparr>"
  let ?f = "\<lambda>r. r\<lparr>dk_status := ''success'', dk_model := cl_model c, dk_prompt_tokens := dx_prompt_tokens d,
      dk_completion_tokens := dx_completion_tokens d, dk_finished := Some (ev_now s)\<rparr>"
  have clean: "snd (cleanup_stale_diagnosis_tasks s) = ?s" using cleanup_run [OF assms(1,2)] by simp
  have "sweep (ev_now s) r = timed_out (ev_now s) 5 r"
    using assms(7,8) by (simp add: sweep_def is_stale_def live_def stale_minutes_def DIAGNOSIS_STALE_RUNNING_MINUTES_def)
  then have row: "timed_out (ev_now s) 5 r \<in> set (tbl_rows (dg_tasks ?s))" using assms(5) by force
  have id: "dk_id (timed_out (ev_now s) 5 r) = dk_id t" by (simp add: timed_out_def assms(6))
  let ?s2 = "?s\<lparr>dg_tasks := tbl_update (\<lambda>x. dk_id x = dk_id t) ?f (dg_tasks ?s)\<rparr>"
  have "list_ex (\<lambda>x. dk_id x = dk_id t) (tbl_rows (dg_tasks ?s))" using row id by (auto simp: list_ex_iff)
  then have save: "save_task (dk_id t) ?f ?s = (Inr (), ?s2)"
    using assms(2) by (simp add: save_task_def db_write_def tbl_save_fields_def)
  have "diag_account t c [] [] ?s2 = Inr a"
    using assms(9) by (simp add: diag_account_def task_instance_def world_of_def)
  then obtain s3 where s3: "finish_job t d c ?s = (Inr (), s3)" "dg_tasks s3 = dg_tasks ?s2"
    using save by (simp add: finish_job_def bindM_run thenM_run record_ai_usage_def)
  have "dg_tasks (snd (advance_job ou j ?s)) = dg_tasks ?s2"
    using assms(3,4) s3 by (simp add: advance_job_def or_fail_def catchM_run bindM_run thenM_run phase_step_def release_slot_def)
  moreover have "?f (timed_out (ev_now s) 5 r) \<in> set (tbl_rows (dg_tasks ?s2))"
    using tbl_update_mem [where P = "\<lambda>x. dk_id x = dk_id t" and f = ?f, OF row id] by simp
  moreover have "?f (timed_out (ev_now s) 5 r) = (timed_out (ev_now s) 5 r)\<lparr>dk_status := ''success'', dk_model := cl_model c,
      dk_prompt_tokens := dx_prompt_tokens d, dk_completion_tokens := dx_completion_tokens d\<rparr>"
    by (simp add: timed_out_def)
  ultimately show ?thesis using clean by simp
qed

section \<open>Who reads a diagnosis\<close>

text \<open>The user sees the instance of a task: by the permission for all instances, or by a group they share.\<close>

definition shares_instance :: "world \<Rightarrow> user \<Rightarrow> int \<Rightarrow> bool" where
  "shares_instance w usr inst = (has_perm usr ''sql.query_all_instances''
     \<or> (\<exists>i \<in> set (tbl_rows (w_instances w)). i_id i = inst \<and> (\<exists>g \<in> set (tbl_rows (w_resource_groups w)). rg_is_deleted g = 0
         \<and> rg_group_id g \<in> set (i_resource_group i) \<and> (\<exists>x \<in> set (tbl_rows (w_users w)). u_id x = u_id usr \<and> rg_group_id g \<in> set (u_resource_group x)))))"

lemma seen_shared: "sees_instance w usr inst = Inr True \<Longrightarrow> shares_instance w usr inst"
proof -
  assume "sees_instance w usr inst = Inr True"
  then obtain i where g: "tbl_get ''Instance'' (\<lambda>i. i_id i = inst) (w_instances w) = Inr i"
    and l: "list_ex (\<lambda>x. i_id x = i_id i) (user_instances w usr [] [i_db_type i] [])"
    by (auto simp: sees_instance_def elim!: bindE_InrE)
  then obtain x where x: "x \<in> set (user_instances w usr [] [i_db_type i] [])" "i_id x = i_id i" by (auto simp: list_ex_iff)
  have i: "i_id i = inst" using tbl_get_Inr [OF g] by simp
  have "x \<in> set (tbl_rows (w_instances w))"
    using x(1) by (auto simp: user_instances_def Let_def tbl_filter_def split: if_splits)
  with i x user_instances_in_group [OF x(1)] show ?thesis by (auto simp: shares_instance_def)
qed

lemma found_report:
  assumes "fst (find_report usr key k s) = Inr (Data x)"
  obtains r t where "r \<in> set (tbl_rows (dg_reports s))" "report_key key = Inr (Some (dr_id r))" "t \<in> set (tbl_rows (dg_tasks s))" "dk_id t = dr_task r"
    "shares_instance (world_of s) usr (dk_instance t)" "k r s = find_report usr key k s"
proof -
  from assms obtain n r where n: "report_key key = Inr n" and r: "tbl_get ''AIDiagnosisReport'' (\<lambda>r. Some (dr_id r) = n) (dg_reports s) = Inr r"
    by (auto simp: find_report_def bindM_run bindE_def split: sum.splits if_splits)
  with assms obtain t where t: "tbl_get ''AIDiagnosisTask'' (\<lambda>t. dk_id t = dr_task r) (dg_tasks s) = Inr t"
    "sees_instance (world_of s) usr (dk_instance t) = Inr True"
    by (auto simp: find_report_def bindM_run bindE_def split: sum.splits if_splits)
  have "k r s = find_report usr key k s" using n r t by (simp add: find_report_def bindM_run)
  with that tbl_get_Inr [OF r] tbl_get_Inr [OF t(1)] seen_shared [OF t(2)] n show thesis by metis
qed

text \<open>
  A task is read only by a superuser, by the user who asked for it, or by one with the permission for slow queries who sees
  its instance; a draft is made of a report only for a user with the permission for diagnoses who sees the instance of its task.
\<close>
theorem diagnosis_readers:
  "(\<forall>x. fst (SlowQueryDiagnoseTask_get usr k s) = Inr (Data x) \<longrightarrow> (\<exists>t \<in> set (tbl_rows (dg_tasks s)). dk_id t = k
      \<and> (u_is_superuser usr \<or> dk_user t = u_id usr
         \<or> has_perm usr ''sql.menu_slowquery'' \<and> shares_instance (world_of s) usr (dk_instance t))))
   \<and> (\<forall>x. fst (SlowQueryDiagnoseWorkflow_post usr key index s) = Inr (Data x) \<longrightarrow> may_diagnose usr
      \<and> (\<exists>r \<in> set (tbl_rows (dg_reports s)). \<exists>t \<in> set (tbl_rows (dg_tasks s)). report_key key = Inr (Some (dr_id r)) \<and> dk_id t = dr_task r
           \<and> shares_instance (world_of s) usr (dk_instance t) \<and> (\<exists>g \<in> set (dr_suggestions r). x = draft_of key r g \<and> df_sql x \<noteq> [])))"
proof (intro conjI allI impI)
  fix x assume a: "fst (SlowQueryDiagnoseTask_get usr k s) = Inr (Data x)"
  then obtain t where t: "tbl_get ''AIDiagnosisTask'' (\<lambda>t. dk_id t = k) (dg_tasks s) = Inr t"
    by (auto simp: SlowQueryDiagnoseTask_get_def bindM_run split: sum.splits if_splits)
  with a have "u_is_superuser usr \<or> dk_user t = u_id usr \<or> has_perm usr ''sql.menu_slowquery'' \<and> sees_instance (world_of s) usr (dk_instance t) = Inr True"
    by (auto simp: SlowQueryDiagnoseTask_get_def bindM_run split: sum.splits if_splits)
  with tbl_get_Inr [OF t] seen_shared show "\<exists>t \<in> set (tbl_rows (dg_tasks s)). dk_id t = k
      \<and> (u_is_superuser usr \<or> dk_user t = u_id usr \<or> has_perm usr ''sql.menu_slowquery'' \<and> shares_instance (world_of s) usr (dk_instance t))" by blast
next
  fix x assume a: "fst (SlowQueryDiagnoseWorkflow_post usr key index s) = Inr (Data x)"
  then show "may_diagnose usr" by (auto simp: SlowQueryDiagnoseWorkflow_post_def split: if_splits)
  define body :: "int \<Rightarrow> diag_report \<Rightarrow> (diag_state, draft reply) M" where
    "body j r = (if j < 0 \<or> int (length (dr_suggestions r)) \<le> j then ret (Refused ''no such suggestion'')
       else let g = dr_suggestions r ! nat j in if draft_sql g = [] then ret (Refused ''the suggestion has no statement'')
         else thenM (audit usr ''slowquery.suggestion_adopt'' (u (''report_id='' @ show_pyval key @ '', suggestion_index='' @ str_int j
                    @ '', type='') @ sg_type g @ u ('', bottleneck_type='' @ dr_bottleneck r))) (ret (Data (draft_of key r g))))" for j r
  from a obtain j where f: "fst (find_report usr key (body j) s) = Inr (Data x)"
    unfolding SlowQueryDiagnoseWorkflow_post_def body_def by (auto split: if_splits sum.splits option.splits)
  show "\<exists>r \<in> set (tbl_rows (dg_reports s)). \<exists>t \<in> set (tbl_rows (dg_tasks s)). report_key key = Inr (Some (dr_id r)) \<and> dk_id t = dr_task r
      \<and> shares_instance (world_of s) usr (dk_instance t) \<and> (\<exists>g \<in> set (dr_suggestions r). x = draft_of key r g \<and> df_sql x \<noteq> [])"
  proof -
    from f obtain r t where rt: "r \<in> set (tbl_rows (dg_reports s))" "report_key key = Inr (Some (dr_id r))" "t \<in> set (tbl_rows (dg_tasks s))" "dk_id t = dr_task r"
      "shares_instance (world_of s) usr (dk_instance t)" "body j r s = find_report usr key (body j) s"
      by (rule found_report)
    with f have b: "fst (body j r s) = Inr (Data x)" by simp
    then have j: "0 \<le> j" "nat j < length (dr_suggestions r)" by (auto simp: body_def split: if_splits)
    with b have "x = draft_of key r (dr_suggestions r ! nat j)" "draft_sql (dr_suggestions r ! nat j) \<noteq> []"
      by (auto simp: body_def Let_def thenM_run split: if_splits prod.splits sum.splits)
    moreover from this have "df_sql x \<noteq> []" by (simp add: draft_of_def)
    moreover have "dr_suggestions r ! nat j \<in> set (dr_suggestions r)" using j by simp
    ultimately show ?thesis using rt by blast
  qed
qed

section \<open>What leaves for the service\<close>


section \<open>Examples\<close>

definition diag_world :: world where
  "diag_world = (stats_world ''mysql'')\<lparr>w_config := \<lparr>tbl_rows = [\<lparr>cf_id = 1, cf_item = ''openai_api_key'', cf_value = ''k'', cf_description = []\<rparr>,
      \<lparr>cf_id = 2, cf_item = ''enable_ai_slowquery_diagnosis'', cf_value = ''true'', cf_description = []\<rparr>], tbl_next = 3\<rparr>,
    w_users := \<lparr>tbl_rows = [stats_user], tbl_next = 2\<rparr>\<rparr>"

definition diag_demo :: diag_state where
  "diag_demo = \<lparr>ev_now = 0, ev_usage = \<lparr>st_table = empty_table, st_faults = []\<rparr>, ev_client = OpenaiClient diag_world [] [],
     dg_slow = (stats_state ''mysql'')\<lparr>sl_world := diag_world\<rparr>, dg_tasks = empty_table, dg_reports = empty_table, dg_feedback = empty_table,
     dg_audit = [], dg_free = 8, dg_queue = [], dg_busy = [], dg_pool_up = True, dg_faults = []\<rparr>"

definition diag_out :: outside where
  "diag_out = \<lparr>ou_unicode = plain_unicode, ou_depth = 2, ou_cloud = no_cloud,
     ou_engine = \<lparr>de_open = Inr (), de_query = (\<lambda>d q. Inl (OperationalError ''away''))\<rparr>,
     ou_answers = [Inr \<lparr>cp_content = Inr (Some (u ''{}'')), cp_usage = Some (Some 900, Some 40), cp_elapsed = 5\<rparr>]\<rparr>"

definition diag_ask :: diag_request where
  "diag_ask = \<lparr>gq_instance = ''shop'', gq_db_name = ''shop'', gq_hash = ''a'', gq_force = False\<rparr>"

text \<open>A request is accepted and taken by a worker.\<close>

definition diag_asked :: diag_state where
  "diag_asked = snd (SlowQueryDiagnose_post stats_user diag_ask diag_demo)"

definition diag_taken :: diag_state where
  "diag_taken = snd (take_job diag_asked)"

lemma demo_new: "diag_new diag_demo"
  by (simp add: diag_new_def diag_demo_def)

lemma demo_reach: "diag_reach diag_demo diag_taken"
proof -
  have "diag_step diag_demo diag_asked" unfolding diag_asked_def by (rule diag_step.request)
  moreover have "diag_step diag_asked diag_taken" unfolding diag_taken_def by (rule diag_step.take)
  ultimately show ?thesis unfolding diag_reach_def by (rule converse_rtranclp_into_rtranclp [OF _ r_into_rtranclp])
qed

theorem diagnosis_invariant_witness:
  "dg_queue diag_asked = [1] \<and> map (dk_id \<circ> fst) (dg_busy diag_taken) = [1]
   \<and> dg_free diag_taken + length (dg_queue diag_taken) + length (dg_busy diag_taken) = 8"
proof -
  have "dg_queue diag_asked = [1]" by code_simp
  moreover have "map (dk_id \<circ> fst) (dg_busy diag_taken) = [1]" by code_simp
  ultimately show ?thesis using diagnosis_invariant [OF demo_new demo_reach] by blast
qed

text \<open>A job whose report is stored and whose task is six minutes old.\<close>

definition late_task :: diag_task where
  "late_task = \<lparr>dk_id = 1, dk_user = 1, dk_instance = 7, dk_db_name = ''shop'', dk_hash = ''a'', dk_status = ''running'', dk_progress = ''saving'',
     dk_model = ''m'', dk_prompt_tokens = 0, dk_completion_tokens = 0, dk_error = [], dk_created = 0, dk_finished = None\<rparr>"

definition late_state :: diag_state where
  "late_state = diag_demo\<lparr>ev_now := seconds 360, dg_tasks := \<lparr>tbl_rows = [late_task], tbl_next = 2\<rparr>, dg_free := 7,
     dg_busy := [(late_task, Saved DIAGNOSIS_FALLBACK (OpenaiClient diag_world [] []))]\<rparr>"

lemma late_demo:
  "wf_table dk_id (dg_tasks late_state)" "dg_faults late_state = []" "tbl_rows (dg_tasks late_state) = [late_task]" "ev_now late_state = 360000000"
  "dg_busy late_state ! 0 = (late_task, Saved DIAGNOSIS_FALLBACK (OpenaiClient diag_world [] []))" "length (dg_busy late_state) = 1"
  by (simp_all add: late_state_def diag_demo_def wf_table_def late_task_def seconds_def)

lemma late_stale: "is_stale 360000000 late_task" "stale_minutes late_task = 5"
  by (simp_all add: is_stale_def live_def late_task_def stale_minutes_def DIAGNOSIS_STALE_RUNNING_MINUTES_def seconds_def)

theorem cleanup_marks_stale_witness:
  "cleanup_stale_diagnosis_tasks late_state
     = (Inr 1, late_state\<lparr>dg_tasks := \<lparr>tbl_rows = [timed_out 360000000 5 late_task], tbl_next = 2\<rparr>\<rparr>)"
proof -
  have "tbl_next (dg_tasks late_state) = 2" by (simp add: late_state_def)
  then have "(dg_tasks late_state)\<lparr>tbl_rows := [x]\<rparr> = \<lparr>tbl_rows = [x], tbl_next = 2\<rparr>" for x
    by (metis (mono_tags, lifting) table.surjective table.update_convs(1) old.unit.exhaust)
  with cleanup_marks_stale [OF late_demo(1,2)] show ?thesis by (simp add: late_demo late_stale)
qed

theorem timed_out_task_succeeds_witness:
  "\<exists>r \<in> set (tbl_rows (dg_tasks (snd (advance_job diag_out 0 (snd (cleanup_stale_diagnosis_tasks late_state)))))).
     dk_status r = ''success'' \<and> dk_error r = ''the diagnosis timed out (not finished in 5 minutes), please try again''"
proof -
  obtain a where a: "diag_account late_task (OpenaiClient diag_world [] []) [] [] late_state = Inr a"
    by (simp add: diag_account_def task_instance_def late_state_def diag_demo_def world_of_def late_task_def diag_world_def stats_world_def
        stats_user_def tbl_get_def)
  have "str_int 5 = ''5''" by code_simp
  with timed_out_task_succeeds [OF late_demo(1,2) _ late_demo(5) _ _ _ _ a, of late_task diag_out] show ?thesis
    by (auto simp: late_demo late_task_def seconds_def timed_out_def intro!: rev_bexI)
qed

theorem diagnosis_readers_witness:
  "\<exists>x. fst (SlowQueryDiagnoseTask_get stats_user 1 late_state) = Inr (Data x)
     \<and> (\<exists>t \<in> set (tbl_rows (dg_tasks late_state)). dk_id t = 1)"
proof -
  have "tbl_get ''AIDiagnosisTask'' (\<lambda>t. dk_id t = 1) (dg_tasks late_state) = Inr late_task"
    by (simp add: tbl_get_def late_demo late_task_def)
  moreover have "u_is_superuser stats_user \<or> dk_user late_task = u_id stats_user" by (simp add: late_task_def stats_user_def)
  moreover have "\<exists>m s'. mark_stale_task_failed late_task late_state = (Inr m, s')"
    using mark_one [of late_task late_state] late_demo by (simp add: wf_table_def)
  ultimately have "\<exists>x. fst (SlowQueryDiagnoseTask_get stats_user 1 late_state) = Inr (Data x)"
    by (auto simp: SlowQueryDiagnoseTask_get_def bindM_run)
  with diagnosis_readers [of stats_user 1 late_state] show ?thesis by blast
qed








end
