(* ===== verification/GroupApi.thy ===== *)
theory GroupApi
  imports QueryPrivileges Archive
begin

text \<open>
  The administration of resource groups (\<open>sql_api/api_resource_group.py\<close>, the resource group views of
  \<open>sql_api/api_user.py\<close>, \<open>list_user_accessible_instances\<close> and \<open>resolve_instance\<close> of \<open>sql/services\<close>). An answer is
  the message of a refusal or the data; the order of names in the character set gbk is a parameter.
\<close>

type_synonym 'a answered = "string + 'a"

definition answer :: "'a \<Rightarrow> ('s, 'a answered) M" where
  "answer x = ret (Inr x)"

definition refuse_with :: "string \<Rightarrow> ('s, 'a answered) M" where
  "refuse_with m = ret (Inl m)"

definition superuser_only :: "user \<Rightarrow> ('s, 'a) M \<Rightarrow> ('s, 'a) M" where
  "superuser_only usr m = (if u_is_superuser usr then m else throw PermissionDenied)"

text \<open>\<open>_safe_int\<close>.\<close>

definition safe_int_or :: "pyval \<Rightarrow> int \<Rightarrow> int" where
  "safe_int_or v d = (case pyval_int (if truthy v then v else PInt d) of Inr i \<Rightarrow> i | Inl e \<Rightarrow> d)"

text \<open>\<open>xs[a:b]\<close> of a list, where negative bounds count from its end.\<close>

definition slice_bound :: "nat \<Rightarrow> int \<Rightarrow> nat" where
  "slice_bound n i = (if i < 0 then nat (int n + i) else min n (nat i))"

definition list_slice :: "int \<Rightarrow> int \<Rightarrow> 'a list \<Rightarrow> 'a list" where
  "list_slice a b xs = (let n = length xs in take (slice_bound n b - slice_bound n a) (drop (slice_bound n a) xs))"

section \<open>Lists\<close>

definition live_group :: "resource_group \<Rightarrow> bool" where
  "live_group g = (rg_is_deleted g = 0)"

definition GroupListView_post :: "user \<Rightarrow> pyval \<Rightarrow> pyval \<Rightarrow> string \<Rightarrow> (world, nat \<times> (int \<times> string \<times> string) list) M" where
  "GroupListView_post usr lmt off search = superuser_only usr (liftM (\<lambda>w.
     let gs = tbl_filter (\<lambda>g. icontains (rg_group_name g) search \<and> live_group g) (w_resource_groups w); offset = safe_int_or off 0 in
     bindE (rows_between offset (offset + safe_int_or lmt 0) gs) (\<lambda>rows.
       Inr (length gs, map (\<lambda>g. (rg_group_id g, rg_group_name g, rg_ding_webhook g)) rows))))"

text \<open>\<open>get_object_or_404\<close>; a group that was deleted is found as well.\<close>

definition group_or_404 :: "world \<Rightarrow> int \<Rightarrow> resource_group res" where
  "group_or_404 w gid = (case tbl_get ''ResourceGroup'' (\<lambda>g. rg_group_id g = gid) (w_resource_groups w) of
       Inl e \<Rightarrow> (if is_DoesNotExist e then Inl Http404 else Inl e) | Inr g \<Rightarrow> Inr g)"

definition users_set :: "world \<Rightarrow> int \<Rightarrow> user list" where
  "users_set w gid = tbl_filter (\<lambda>x. gid \<in> set (u_resource_group x)) (w_users w)"

definition instance_set :: "world \<Rightarrow> int \<Rightarrow> instance_row list" where
  "instance_set w gid = tbl_filter (\<lambda>i. gid \<in> set (i_resource_group i)) (w_instances w)"

record relation_row =
  rel_type :: int
  rel_id :: int
  rel_name :: string
  rel_group_id :: int
  rel_group_name :: string

definition user_relations :: "world \<Rightarrow> resource_group \<Rightarrow> string \<Rightarrow> relation_row list" where
  "user_relations w g search = map (\<lambda>x. \<lparr>rel_type = 0, rel_id = u_id x, rel_name = u_display x, rel_group_id = rg_group_id g, rel_group_name = rg_group_name g\<rparr>)
     (filter (\<lambda>x. search = [] \<or> str_in search (u_display x)) (users_set w (rg_group_id g)))"

definition instance_relations :: "world \<Rightarrow> resource_group \<Rightarrow> string \<Rightarrow> relation_row list" where
  "instance_relations w g search = map (\<lambda>i. \<lparr>rel_type = 1, rel_id = i_id i, rel_name = i_instance_name i, rel_group_id = rg_group_id g, rel_group_name = rg_group_name g\<rparr>)
     (filter (\<lambda>i. search = [] \<or> str_in search (i_instance_name i)) (instance_set w (rg_group_id g)))"

definition RelationsView_post :: "user \<Rightarrow> pyval \<Rightarrow> string \<Rightarrow> pyval \<Rightarrow> pyval \<Rightarrow> string \<Rightarrow> (world, nat \<times> relation_row list) M" where
  "RelationsView_post usr gid ty lmt off search = superuser_only usr (liftM (\<lambda>w.
     let offset = safe_int_or off 0 in
     bindE (group_or_404 w (safe_int_or gid (-1))) (\<lambda>g.
       let rows = (if ty = ''0'' then user_relations w g search
                   else if ty = ''1'' then instance_relations w g search
                   else user_relations w g search @ instance_relations w g search) in
       Inr (length rows, list_slice offset (offset + safe_int_or lmt 0) rows))))"

definition UnassociatedView_post :: "user \<Rightarrow> pyval \<Rightarrow> pyval \<Rightarrow> (world, (int \<times> string) list answered) M" where
  "UnassociatedView_post usr gid ty = superuser_only usr (liftM (\<lambda>w.
     bindE (group_or_404 w (safe_int_or gid (-1))) (\<lambda>g. Inr (
       if safe_int_or ty (-1) = 0 then Inr (map (\<lambda>x. (u_id x, u_display x)) (tbl_filter (\<lambda>x. u_id x \<notin> u_id ` set (users_set w (rg_group_id g))) (w_users w)))
       else if safe_int_or ty (-1) = 1 then Inr (map (\<lambda>i. (i_id i, i_instance_name i))
         (tbl_filter (\<lambda>i. i_id i \<notin> i_id ` set (instance_set w (rg_group_id g))) (w_instances w)))
       else Inl ''no such type of object''))))"

text \<open>\<open>_check_group_access\<close>.\<close>

definition check_group_access :: "world \<Rightarrow> user \<Rightarrow> string \<Rightarrow> resource_group answered res" where
  "check_group_access w usr name = (case tbl_first (\<lambda>g. rg_group_name g = name \<and> live_group g) (w_resource_groups w) of
       None \<Rightarrow> Inr (Inl ''no such resource group'')
     | Some g \<Rightarrow> if u_is_superuser usr then Inr (Inr g)
         else bindE (user_groups w usr) (\<lambda>gs. Inr (if rg_group_id g \<in> set (map rg_group_id gs) then Inr g else Inl ''you are not in this resource group'')))"

type_synonym instance_line = "int \<times> string \<times> string \<times> string"

definition instance_line :: "instance_row \<Rightarrow> instance_line" where
  "instance_line i = (i_id i, i_type i, i_db_type i, i_instance_name i)"

definition InstancesView_post :: "(string \<Rightarrow> string) \<Rightarrow> world \<Rightarrow> user \<Rightarrow> string \<Rightarrow> string \<Rightarrow> string \<Rightarrow> instance_line list answered res" where
  "InstancesView_post gbk w usr name tag db_type = bindE (check_group_access w usr name) (\<lambda>r. case r of
       Inl m \<Rightarrow> Inr (Inl m)
     | Inr g \<Rightarrow> Inr (Inr (map instance_line (sort_key (gbk \<circ> i_instance_name)
         (filter (\<lambda>i. (db_type = [] \<or> i_db_type i = db_type) \<and> (tag = [] \<or> has_tag w i (\<lambda>t. it_tag_code t = tag \<and> it_active t)))
           (instance_set w (rg_group_id g)))))))"

definition list_user_accessible_instances ::
  "(string \<Rightarrow> string) \<Rightarrow> (int \<Rightarrow> bool) \<Rightarrow> world \<Rightarrow> user \<Rightarrow> string \<Rightarrow> string list \<Rightarrow> string list \<Rightarrow> (instance_line \<times> bool) list" where
  "list_user_accessible_instances gbk aliyun w usr ty db_types tags =
     map (\<lambda>i. (instance_line i, aliyun (i_id i))) (sort_key (gbk \<circ> i_instance_name) (user_instances w usr ty db_types tags))"

text \<open>\<open>resolve_instance\<close>: the number of an instance goes before its name.\<close>

definition resolve_instance :: "world \<Rightarrow> user \<Rightarrow> int \<Rightarrow> string \<Rightarrow> string list \<Rightarrow> instance_row res" where
  "resolve_instance w usr k name db_types =
     (if k \<noteq> 0 then list_get ''Instance'' (\<lambda>i. i_id i = k) (user_instances w usr [] db_types [])
      else if name \<noteq> [] then list_get ''Instance'' (\<lambda>i. i_instance_name i = name) (user_instances w usr [] db_types [])
      else Inl (DoesNotExist ''Instance''))"

section \<open>Relations\<close>

text \<open>An object of the request is the text of its number and its name, with a comma between.\<close>

definition object_ids :: "string list \<Rightarrow> int list res" where
  "object_ids objs = mapE (\<lambda>t. py_int (hd (split_on (CHR '','') t))) objs"

definition add_group :: "int \<Rightarrow> int list \<Rightarrow> int list" where
  "add_group gid gs = (if gid \<in> set gs then gs else gs @ [gid])"

definition relate_users :: "(int list \<Rightarrow> int list) \<Rightarrow> int list \<Rightarrow> world \<Rightarrow> world" where
  "relate_users f ids w = w\<lparr>w_users := tbl_update (\<lambda>x. u_id x \<in> set ids) (\<lambda>x. x\<lparr>u_resource_group := f (u_resource_group x)\<rparr>) (w_users w)\<rparr>"

definition relate_instances :: "(int list \<Rightarrow> int list) \<Rightarrow> int list \<Rightarrow> world \<Rightarrow> world" where
  "relate_instances f ids w = w\<lparr>w_instances := tbl_update (\<lambda>i. i_id i \<in> set ids) (\<lambda>i. i\<lparr>i_resource_group := f (i_resource_group i)\<rparr>) (w_instances w)\<rparr>"

text \<open>Both requests: the numbers are read before anything is written; an exception becomes the message of the answer.\<close>

definition change_relation :: "(int \<Rightarrow> int list \<Rightarrow> int list) \<Rightarrow> user \<Rightarrow> pyval \<Rightarrow> string \<Rightarrow> string list \<Rightarrow> (world, unit answered) M" where
  "change_relation f usr gid ty objs = superuser_only usr (catchM
     (bindM (liftM (\<lambda>w. tbl_get ''ResourceGroup'' (\<lambda>g. rg_group_id g = safe_int_or gid (-1)) (w_resource_groups w))) (\<lambda>g.
       bindM (liftM (\<lambda>w. object_ids objs)) (\<lambda>ids.
         thenM (if ty = ''0'' then modifyM (relate_users (f (rg_group_id g)) ids)
                else if ty = ''1'' then modifyM (relate_instances (f (rg_group_id g)) ids)
                else ret ()) (answer ()))))
     (\<lambda>e. Some (refuse_with (exn_str e))))"

definition AddRelationView_post :: "user \<Rightarrow> pyval \<Rightarrow> string \<Rightarrow> string list \<Rightarrow> (world, unit answered) M" where
  "AddRelationView_post = change_relation add_group"

definition RemoveRelationView_post :: "user \<Rightarrow> pyval \<Rightarrow> string \<Rightarrow> string list \<Rightarrow> (world, unit answered) M" where
  "RemoveRelationView_post = change_relation removeAll"

section \<open>The chain of a group\<close>

definition AuditorsView_post :: "world \<Rightarrow> user \<Rightarrow> string \<Rightarrow> workflow_type \<Rightarrow> (string \<times> string) answered res" where
  "AuditorsView_post w usr name ty =
     (if name = [] then Inr (Inl ''wrong parameters'')
      else bindE (check_group_access w usr name) (\<lambda>r. case r of
          Inl m \<Rightarrow> Inr (Inl m)
        | Inr g \<Rightarrow> (case Audit_settings w (rg_group_id g) ty of
              Some (c # cs) \<Rightarrow> (case mapE (Group_get w) (split_on (CHR '','') (c # cs)) of
                  Inl e \<Rightarrow> Inr (Inl ''a group of the chain does not exist, please configure it again'')
                | Inr gs \<Rightarrow> Inr (Inr (c # cs, join ''->'' (map g_name gs))))
            | _ \<Rightarrow> Inr (Inr ([], [])))))"

definition group_named :: "world \<Rightarrow> string \<Rightarrow> auth_group res" where
  "group_named w n = tbl_get ''Group'' (\<lambda>g. g_name g = n) (w_groups w)"

definition ChangeAuditorsView_post :: "user \<Rightarrow> string \<Rightarrow> workflow_type \<Rightarrow> string \<Rightarrow> (world, unit answered) M" where
  "ChangeAuditorsView_post usr name ty groups = superuser_only usr
     (bindM (liftM (\<lambda>w. tbl_get ''ResourceGroup'' (\<lambda>g. rg_group_name g = name) (w_resource_groups w))) (\<lambda>rg.
        bindM (liftM (\<lambda>w. mapE (group_named w) (split_on (CHR '','') groups))) (\<lambda>gs.
          catchM (thenM (change_settings (rg_group_id rg) ty (join '','' (map (str_int \<circ> g_id) gs))) (answer ()))
            (\<lambda>e. Some (refuse_with (exn_str e))))))"

section \<open>Groups\<close>

text \<open>The fields of a request; a missing one keeps its default, or its value when a group is changed.\<close>

record group_form =
  gf_name :: "string option"
  gf_parent :: "int option"
  gf_sort :: "int option"
  gf_level :: "int option"
  gf_ding :: "string option"
  gf_feishu :: "string option"
  gf_qywx :: "string option"
  gf_deleted :: "int option"

definition too_long :: "nat \<Rightarrow> string option \<Rightarrow> bool" where
  "too_long n t = (case t of None \<Rightarrow> False | Some s \<Rightarrow> n < length (strip s))"

text \<open>The names of the fields the serializer refuses.\<close>

definition form_errors :: "world \<Rightarrow> (resource_group \<Rightarrow> bool) \<Rightarrow> group_form \<Rightarrow> string list" where
  "form_errors w other f =
     (case gf_name f of None \<Rightarrow> [''group_name'']
      | Some n \<Rightarrow> if strip n = [] \<or> 100 < length (strip n)
            \<or> tbl_exists (\<lambda>g. other g \<and> rg_group_name g = strip n) (w_resource_groups w) then [''group_name''] else [])
     @ (if too_long 255 (gf_ding f) then [''ding_webhook''] else []) @ (if too_long 255 (gf_feishu f) then [''feishu_webhook''] else [])
     @ (if too_long 255 (gf_qywx f) then [''qywx_webhook''] else [])
     @ (if gf_deleted f \<in> {None, Some 0, Some 1} then [] else [''is_deleted''])"

definition given :: "'a option \<Rightarrow> 'a \<Rightarrow> 'a" where
  "given x d = (case x of None \<Rightarrow> d | Some v \<Rightarrow> v)"

definition fill_group :: "datetime \<Rightarrow> group_form \<Rightarrow> resource_group \<Rightarrow> resource_group" where
  "fill_group now f g = g\<lparr>rg_group_name := strip (given (gf_name f) (rg_group_name g)), rg_group_parent_id := given (gf_parent f) (rg_group_parent_id g),
     rg_group_sort := given (gf_sort f) (rg_group_sort g), rg_group_level := given (gf_level f) (rg_group_level g),
     rg_ding_webhook := strip (given (gf_ding f) (rg_ding_webhook g)), rg_feishu_webhook := strip (given (gf_feishu f) (rg_feishu_webhook g)),
     rg_qywx_webhook := strip (given (gf_qywx f) (rg_qywx_webhook g)), rg_is_deleted := given (gf_deleted f) (rg_is_deleted g), rg_sys_time := now\<rparr>"

definition set_rg_id :: "int \<Rightarrow> resource_group \<Rightarrow> resource_group" where
  "set_rg_id k g = g\<lparr>rg_group_id := k\<rparr>"

definition superuser_or :: "user \<Rightarrow> (world, 'a answered) M \<Rightarrow> (world, 'a answered) M" where
  "superuser_or usr m = (if u_is_superuser usr then m else refuse_with ''only superusers manage resource groups'')"

definition ResourceGroupList_post :: "user \<Rightarrow> group_form \<Rightarrow> (world, (string list + resource_group) answered) M" where
  "ResourceGroupList_post usr f = superuser_or usr (\<lambda>w. case form_errors w (\<lambda>g. True) f of
       [] \<Rightarrow> (let g = (fill_group (w_now w) f new_ResourceGroup)\<lparr>rg_create_time := w_now w\<rparr> in
         (Inr (Inr (Inr (tbl_created set_rg_id g (w_resource_groups w)))), w\<lparr>w_resource_groups := tbl_create set_rg_id g (w_resource_groups w)\<rparr>))
     | es \<Rightarrow> (Inr (Inr (Inl es)), w))"

definition ResourceGroupDetail_put :: "user \<Rightarrow> int \<Rightarrow> group_form \<Rightarrow> (world, (string list + resource_group) answered) M" where
  "ResourceGroupDetail_put usr k f = superuser_or usr (bindM (liftM (\<lambda>w. group_or_404 w k)) (\<lambda>g w. case form_errors w (\<lambda>x. rg_group_id x \<noteq> k) f of
       [] \<Rightarrow> (Inr (Inr (Inr (fill_group (w_now w) f g))), w\<lparr>w_resource_groups := tbl_save rg_group_id (fill_group (w_now w) f g) (w_resource_groups w)\<rparr>)
     | es \<Rightarrow> (Inr (Inr (Inl es)), w)))"

definition ResourceGroupDetail_get :: "world \<Rightarrow> int \<Rightarrow> resource_group res" where
  "ResourceGroupDetail_get w k = group_or_404 w k"

text \<open>A deletion only marks the group.\<close>

definition ResourceGroupDetail_delete :: "user \<Rightarrow> int \<Rightarrow> (world, unit answered) M" where
  "ResourceGroupDetail_delete usr k = superuser_or usr (bindM (liftM (\<lambda>w. group_or_404 w k)) (\<lambda>g.
     thenM (modifyM (\<lambda>w. w\<lparr>w_resource_groups := tbl_update (\<lambda>x. rg_group_id x = k) (\<lambda>x. x\<lparr>rg_is_deleted := 1\<rparr>) (w_resource_groups w)\<rparr>)) (answer ())))"

definition ResourceGroupList_get :: "world \<Rightarrow> int option \<Rightarrow> string \<Rightarrow> resource_group list" where
  "ResourceGroupList_get w k name = sort_key rg_group_id (tbl_filter (\<lambda>g. live_group g \<and> (case k of None \<Rightarrow> True | Some i \<Rightarrow> rg_group_id g = i)
     \<and> (name = [] \<or> icontains (rg_group_name g) name)) (w_resource_groups w))"

end
