(* ===== verification/GroupProps.thy ===== *)
theory GroupProps
  imports GroupApi
begin

text \<open>
  What the administration of resource groups decides: which instances a user is offered, and the chain of approvals that a
  group gets.
\<close>

section \<open>Reading a change of relations\<close>








section \<open>The chain of a group\<close>

lemma mapE_Inr_all2: "mapE f xs = Inr ys \<Longrightarrow> list_all2 (\<lambda>x y. f x = Inr y) xs ys"
  by (induction xs arbitrary: ys) (auto split: sum.splits)

lemma names_of_groups:
  assumes "mapE (group_named w) ns = Inr gs"
  shows "map g_name gs = ns \<and> set gs \<subseteq> set (tbl_rows (w_groups w))"
  using mapE_Inr_all2 [OF assms]
  by (induction rule: list_all2_induct) (auto simp: group_named_def dest!: tbl_get_Inr)

lemma ids_of_groups:
  assumes "distinct (map g_id (tbl_rows (w_groups w)))" "set gs \<subseteq> set (tbl_rows (w_groups w))"
  shows "mapE (Group_get w) (map (str_int \<circ> g_id) gs) = Inr gs"
  using assms(2)
proof (induction gs)
  case (Cons g gs)
  have "tbl_get ''Group'' (\<lambda>x. g_id x = g_id g) (w_groups w) = Inr g"
    by (rule tbl_get_unique [of g_id]) (use assms(1) Cons.prems in auto)
  with Cons show ?case by (simp add: Group_get_def group_by_id_def)
qed simp

lemma changed_setting:
  assumes "tbl_get ''ResourceGroup'' (\<lambda>g. rg_group_id g = gid) (w_resource_groups w) = Inr rg"
    and "length (filter (\<lambda>s. was_workflow_type s = ty \<and> was_group_id s = gid) (tbl_rows (w_settings w))) \<le> 1"
  shows "\<exists>w'. change_settings gid ty chain w = (Inr (), w') \<and> Audit_settings w' gid ty = Some chain
    \<and> w_resource_groups w' = w_resource_groups w \<and> w_groups w' = w_groups w \<and> w_users w' = w_users w"
proof -
  let ?P = "\<lambda>s. was_workflow_type s = ty \<and> was_group_id s = gid"
  consider "filter ?P (tbl_rows (w_settings w)) = []" | s where "filter ?P (tbl_rows (w_settings w)) = [s]"
    using assms(2) by (cases "filter ?P (tbl_rows (w_settings w))") auto
  then show ?thesis
  proof cases
    case 1
    then have "\<not> tbl_exists ?P (w_settings w)" by (auto simp: tbl_exists_def list_ex_iff filter_empty_conv)
    with 1 assms(1) show ?thesis
      by (simp add: change_settings_def setting_get_def tbl_get_def Audit_settings_def tbl_create_def split: list.splits)
  next
    case (2 s)
    have "tbl_get ''WorkflowAuditSetting'' ?P (tbl_update ?P (\<lambda>s. s\<lparr>was_audit_auth_groups := chain\<rparr>) (w_settings w))
        = Inr (s\<lparr>was_audit_auth_groups := chain\<rparr>)"
    proof -
      have "?P s" using 2 by (metis (mono_tags, lifting) Cons_eq_filterD)
      moreover have "tbl_get ''WorkflowAuditSetting'' ?P (w_settings w) = Inr s" using 2 by (simp add: tbl_get_def)
      ultimately show ?thesis using tbl_get_update [of ?P "\<lambda>s. s\<lparr>was_audit_auth_groups := chain\<rparr>" _ "w_settings w" s ?P] by simp
    qed
    with 2 show ?thesis by (simp add: change_settings_def setting_get_def tbl_get_def Audit_settings_def)
  qed
qed

text \<open>
  C15. A chain of approvals that was set for a resource group is read back: the numbers of its groups in the order they were
  named, and their names, to every superuser and member of the group.
\<close>
theorem chain_read_back:
  assumes "u_is_superuser admin" "tbl_get ''ResourceGroup'' (\<lambda>g. rg_group_name g = name) (w_resource_groups w) = Inr rg"
    and "name \<noteq> []" "rg_is_deleted rg = 0" "wf_table rg_group_id (w_resource_groups w)"
    and "mapE (group_named w) (split_on (CHR '','') names) = Inr gs" "distinct (map g_id (tbl_rows (w_groups w)))"
    and "length (filter (\<lambda>s. was_workflow_type s = ty \<and> was_group_id s = rg_group_id rg) (tbl_rows (w_settings w))) \<le> 1"
    and "u_is_superuser usr \<or> (\<exists>x. tbl_get ''Users'' (\<lambda>x. u_id x = u_id usr) (w_users w) = Inr x \<and> rg_group_id rg \<in> set (u_resource_group x))"
  shows "fst (ChangeAuditorsView_post admin name ty names w) = Inr (Inr ())
    \<and> AuditorsView_post (snd (ChangeAuditorsView_post admin name ty names w)) usr name ty
        = Inr (Inr (join '','' (map (str_int \<circ> g_id) gs), join ''->'' (split_on (CHR '','') names)))"
proof -
  note rg = tbl_get_Inr [OF assms(2)]
  let ?chain = "join '','' (map (str_int \<circ> g_id) gs)"
  have get: "tbl_get ''ResourceGroup'' (\<lambda>g. rg_group_id g = rg_group_id rg) (w_resource_groups w) = Inr rg"
    by (rule tbl_get_unique [of rg_group_id]) (use rg assms(5) in \<open>auto simp: wf_table_def\<close>)
  obtain w' where w': "change_settings (rg_group_id rg) ty ?chain w = (Inr (), w')" "Audit_settings w' (rg_group_id rg) ty = Some ?chain"
    "w_resource_groups w' = w_resource_groups w" "w_groups w' = w_groups w" "w_users w' = w_users w"
    using changed_setting [OF get assms(8)] by blast
  have change: "ChangeAuditorsView_post admin name ty names w = (Inr (Inr ()), w')"
    using assms(1,2,6) w'(1) by (simp add: ChangeAuditorsView_post_def superuser_only_def bindM_run catchM_run thenM_run answer_def)
  have gs: "map g_name gs = split_on (CHR '','') names" "set gs \<subseteq> set (tbl_rows (w_groups w))"
    using names_of_groups [OF assms(6)] by simp_all
  then have ne: "gs \<noteq> []" by (metis list.map_disc_iff split_on_ne)
  then have split: "split_on (CHR '','') ?chain = map (str_int \<circ> g_id) gs" by (intro split_join) auto
  have "mapE (Group_get w') (map (str_int \<circ> g_id) gs) = Inr gs"
    using ids_of_groups [of w' gs] assms(7) gs(2) w'(4) by simp
  moreover have "?chain \<noteq> []" using ne by (cases gs; cases "tl gs") auto
  moreover have "tbl_first (\<lambda>g. rg_group_name g = name \<and> live_group g) (w_resource_groups w') = Some rg"
  proof -
    have "find (\<lambda>g. rg_group_name g = name \<and> live_group g) (tbl_rows (w_resource_groups w)) \<noteq> None"
      using rg assms(4) by (auto simp: find_None_iff live_group_def)
    then obtain x where x: "find (\<lambda>g. rg_group_name g = name \<and> live_group g) (tbl_rows (w_resource_groups w)) = Some x" by blast
    then have "x \<in> set (tbl_rows (w_resource_groups w))" "rg_group_name x = name" by (auto simp: find_Some_iff)
    then have "x = rg" using tbl_get_Inr_unique [OF assms(2)] by blast
    with x w'(3) show ?thesis by (simp add: tbl_first_def)
  qed
  moreover have "check_group_access w' usr name = Inr (Inr rg)"
  proof (cases "u_is_superuser usr")
    case True
    with calculation(3) show ?thesis by (simp add: check_group_access_def)
  next
    case False
    with assms(9) obtain x where "tbl_get ''Users'' (\<lambda>x. u_id x = u_id usr) (w_users w) = Inr x" "rg_group_id rg \<in> set (u_resource_group x)" by blast
    with False calculation(3) rg assms(4) w' show ?thesis
      by (auto simp: check_group_access_def user_groups_def tbl_filter_def)
  qed
  ultimately have "AuditorsView_post w' usr name ty = Inr (Inr (?chain, join ''->'' (map g_name gs)))"
    using assms(3) w'(2) split by (cases ?chain) (simp_all add: AuditorsView_post_def)
  with change gs(1) show ?thesis by simp
qed

section \<open>Examples\<close>

definition org_user :: user where
  "org_user = new_Users\<lparr>u_id := 1, u_username := ''ann''\<rparr>"

definition org_root :: user where
  "org_root = new_Users\<lparr>u_id := 2, u_username := ''root'', u_is_superuser := True\<rparr>"

definition org_shop :: instance_row where
  "org_shop = new_Instance\<lparr>i_id := 7, i_instance_name := ''shop'', i_resource_group := [5]\<rparr>"

definition org_group :: resource_group where
  "org_group = new_ResourceGroup\<lparr>rg_group_id := 5, rg_group_name := ''ops''\<rparr>"

definition org_world :: world where
  "org_world = empty_world\<lparr>w_users := \<lparr>tbl_rows = [org_user, org_root], tbl_next = 3\<rparr>,
     w_resource_groups := \<lparr>tbl_rows = [org_group], tbl_next = 6\<rparr>, w_instances := \<lparr>tbl_rows = [org_shop], tbl_next = 8\<rparr>,
     w_groups := \<lparr>tbl_rows = [\<lparr>g_id = 1, g_name = ''lead''\<rparr>, \<lparr>g_id = 2, g_name = ''dba''\<rparr>], tbl_next = 3\<rparr>\<rparr>"

lemmas org_defs = org_world_def org_user_def org_root_def org_shop_def org_group_def new_Users_def new_Instance_def new_ResourceGroup_def
  empty_world_def empty_table_def


theorem chain_read_back_witness:
  "AuditorsView_post (snd (ChangeAuditorsView_post org_root ''ops'' SQL_REVIEW ''dba,lead'' org_world)) org_root ''ops'' SQL_REVIEW
     = Inr (Inr (''2,1'', ''dba->lead''))"
proof -
  have s: "split_on (CHR '','') ''dba,lead'' = [''dba'', ''lead'']" by code_simp
  have g: "mapE (group_named org_world) [''dba'', ''lead''] = Inr [\<lparr>g_id = 2, g_name = ''dba''\<rparr>, \<lparr>g_id = 1, g_name = ''lead''\<rparr>]"
    by (simp add: group_named_def tbl_get_def org_world_def)
  have j: "join '','' (map (str_int \<circ> g_id) [\<lparr>g_id = 2, g_name = ''dba''\<rparr>, \<lparr>g_id = 1, g_name = ''lead''\<rparr>]) = ''2,1''"
    "join ''->'' [''dba'', ''lead''] = ''dba->lead''" by code_simp+
  have "tbl_get ''ResourceGroup'' (\<lambda>g. rg_group_name g = ''ops'') (w_resource_groups org_world) = Inr org_group" "u_is_superuser org_root"
    "rg_is_deleted org_group = 0" "wf_table rg_group_id (w_resource_groups org_world)" "distinct (map g_id (tbl_rows (w_groups org_world)))"
    "tbl_rows (w_settings org_world) = []"
    by (simp_all add: tbl_get_def wf_table_def org_defs)
  then show ?thesis
    using chain_read_back [of org_root "''ops''" org_world org_group "''dba,lead''" "[\<lparr>g_id = 2, g_name = ''dba''\<rparr>, \<lparr>g_id = 1, g_name = ''lead''\<rparr>]" SQL_REVIEW org_root]
      s g j by simp
qed

end
