(* ===== verification/MongoCollect.thy ===== *)
theory MongoCollect
  imports SlowCollect Json PyDate
begin

text \<open>
  The collector of slow queries from the profiler of MongoDB (\<open>sql/collectors/mongo_collector.py\<close>). What the server
  answers is a parameter, as are the digest and the encoding in which a text is kept. The time zone of the settings is
  eight hours ahead of UTC.
\<close>

section \<open>Documents\<close>

text \<open>The values that \<open>pymongo\<close> reads; \<open>BOther\<close> carries the text of a value of another class.\<close>

datatype bson = BNull | BBool bool | BInt int | BFloat flt | BText utext | BBytes "nat list" | BObjectId "nat list"
  | BTime usec | BOther utext | BList "bson list" | BDoc "(utext \<times> bson) list"

definition hex_text :: "nat list \<Rightarrow> utext" where
  "hex_text bs = concat (map (\<lambda>b. [hex_digit (b div 16), hex_digit (b mod 16)]) bs)"

text \<open>\<open>str(uuid.UUID(bytes=b))\<close>.\<close>

definition uuid_text :: "nat list \<Rightarrow> utext" where
  "uuid_text bs = (let h = hex_text bs in
     sep_by [45] [take 8 h, take 4 (drop 8 h), take 4 (drop 12 h), take 4 (drop 16 h), drop 20 h])"

text \<open>\<open>isoformat\<close> of a time, whose fraction is left out when it is zero.\<close>

definition fraction_text :: "usec \<Rightarrow> string" where
  "fraction_text t = (let f = nat (t mod 1000000) in
     if f = 0 then [] else ''.'' @ concat (map digits [f div 10000, f div 100 mod 100, f mod 100]))"

definition iso_text :: "usec \<Rightarrow> string" where
  "iso_text t = (case civil (nat (day_of t + int epoch_ordinal)) of (y, m, d) \<Rightarrow>
     digits (y div 100) @ digits (y mod 100) @ ''-'' @ digits m @ ''-'' @ digits d @ ''T'' @ clock_text (second_of t) @ fraction_text t)"

text \<open>\<open>json.dumps\<close> with \<open>_serialize_mongo_value\<close> for the values that JSON does not have.\<close>

fun serialize_mongo_value :: "bson \<Rightarrow> json" where
  "serialize_mongo_value (BBytes bs) = JStr (if length bs = 16 then uuid_text bs else hex_text bs)"
| "serialize_mongo_value (BObjectId bs) = JStr (hex_text bs)"
| "serialize_mongo_value (BTime t) = JStr (u (iso_text t))"
| "serialize_mongo_value (BOther s) = JStr s"
| "serialize_mongo_value BNull = JNull"
| "serialize_mongo_value (BBool b) = JBool b"
| "serialize_mongo_value (BInt i) = JInt i"
| "serialize_mongo_value (BFloat x) = JFloat x"
| "serialize_mongo_value (BText s) = JStr s"
| "serialize_mongo_value (BList vs) = JArr (map serialize_mongo_value vs)"
| "serialize_mongo_value (BDoc ms) = JObj (map (\<lambda>(k, v). (k, serialize_mongo_value v)) ms)"

text \<open>
  \<open>_remove_values\<close>: numbers become 0, and so do truth values, which are integers for Python; a list keeps the structure
  of its first item.
\<close>

fun remove_values :: "bson \<Rightarrow> json" where
  "remove_values (BDoc ms) = JObj (map (\<lambda>(k, v). (k, remove_values v)) ms)"
| "remove_values (BList vs) = JArr (case vs of [] \<Rightarrow> [] | v # _ \<Rightarrow> [remove_values v])"
| "remove_values (BText s) = JStr (u ''?'')"
| "remove_values (BInt i) = JInt 0"
| "remove_values (BFloat x) = JInt 0"
| "remove_values (BBool b) = JInt 0"
| "remove_values v = JStr (u ''?'')"

text \<open>The option \<open>sort_keys\<close> of \<open>dumps\<close>.\<close>

fun sort_keys :: "json \<Rightarrow> json" where
  "sort_keys (JObj ms) = JObj (sort_key fst (map (\<lambda>(k, v). (k, sort_keys v)) ms))"
| "sort_keys (JArr vs) = JArr (map sort_keys vs)"
| "sort_keys v = v"

definition mongo_fingerprint :: "bson \<Rightarrow> utext" where
  "mongo_fingerprint command = dumps True (sort_keys (remove_values command))"

definition command_text :: "bson \<Rightarrow> utext" where
  "command_text command = take 2000 (dumps False (serialize_mongo_value command))"

section \<open>Times\<close>

definition utc_offset :: usec where
  "utc_offset = seconds (8 * 3600)"

definition local_naive_to_utc :: "usec \<Rightarrow> usec" where
  "local_naive_to_utc t = t - utc_offset"

definition utc_naive_to_local_naive :: "usec \<Rightarrow> usec" where
  "utc_naive_to_local_naive t = t + utc_offset"

text \<open>The times of BSON are milliseconds.\<close>

definition bson_time :: "usec \<Rightarrow> usec" where
  "bson_time t = t - t mod 1000"

section \<open>The server\<close>

record profile_entry =
  pe_ts :: "usec option"
  pe_ns :: "string option"
  pe_op :: "string option"
  pe_command :: "bson option"
  pe_client :: "string option"
  pe_user :: "string option"
  pe_millis :: "rat option"
  pe_examined :: "int option"
  pe_returned :: "int option"
  pe_sort :: "bool option"
  pe_plan :: "string option"

text \<open>A document of the aggregation; an average is null when no entry of the group has the field.\<close>

record profile_group =
  pg_ns :: "string option"
  pg_op :: "string option"
  pg_sample_ns :: "string option"
  pg_sample :: "bson option"
  pg_count :: int
  pg_total :: rat
  pg_avg :: "rat option"
  pg_examined :: "rat option"
  pg_returned :: "rat option"
  pg_sort :: bool
  pg_first :: "usec option"
  pg_last :: "usec option"

text \<open>
  A database: the level of its profiler, unless the command fails, and the answers to the two queries: the entries after
  one time and up to another, at most as many as asked for, and the groups of a period.
\<close>

record mongo_database =
  mb_profiler :: "int option res"
  mb_find :: "usec \<Rightarrow> usec \<Rightarrow> nat \<Rightarrow> profile_entry list res"
  mb_groups :: "usec \<Rightarrow> usec \<Rightarrow> profile_group list res"

text \<open>The databases of the server at an address, with their names.\<close>

type_synonym mongo_server = "string \<Rightarrow> (string \<times> mongo_database) list res"

text \<open>\<open>_get_mongo_client\<close>: user and password go into the address as they are.\<close>

definition mongo_uri :: "instance_row \<Rightarrow> string" where
  "mongo_uri i = (if i_user i \<noteq> [] \<and> i_password i \<noteq> []
     then ''mongodb://'' @ i_user i @ '':'' @ i_password i @ ''@'' @ i_host i @ '':'' @ str_int (i_port i) @ ''/''
     else ''mongodb://'' @ i_host i @ '':'' @ str_int (i_port i) @ ''/'')"

definition or_default :: "'a \<Rightarrow> 'a option \<Rightarrow> 'a" where
  "or_default d x = (case x of None \<Rightarrow> d | Some v \<Rightarrow> v)"

definition profiled :: "mongo_database \<Rightarrow> bool" where
  "profiled db = (case mb_profiler db of Inl e \<Rightarrow> False | Inr level \<Rightarrow> or_default 0 level \<noteq> 0)"

definition collection_of :: "string \<Rightarrow> string" where
  "collection_of ns = (if CHR ''.'' \<in> set ns then last (split_on (CHR ''.'') ns) else ns)"

section \<open>Details\<close>

definition profile_limit :: nat where
  "profile_limit = 10000"

definition entry_time :: "profile_entry \<Rightarrow> usec option" where
  "entry_time e = map_option utc_naive_to_local_naive (pe_ts e)"

definition mongo_detail_of ::
  "(string \<Rightarrow> string) \<Rightarrow> (utext \<Rightarrow> string) \<Rightarrow> int \<Rightarrow> usec \<Rightarrow> string \<Rightarrow> profile_entry \<Rightarrow> usec \<Rightarrow> mongo_detail" where
  "mongo_detail_of md5 enc inst now db_name e ts =
     (let command = or_default (BDoc []) (pe_command e) in
      \<lparr>dt_id = 0, dt_instance = inst, dt_hash = Some (md5 (enc (mongo_fingerprint command))), dt_start = ts,
       dt_host = or_default [] (pe_client e), dt_text = enc (command_text command), dt_time = or_default 0 (pe_millis e), dt_created = now,
       gd_op = Some (or_default ''unknown'' (pe_op e)), gd_user = or_default [] (pe_user e), gd_db = Some db_name,
       gd_coll = Some (collection_of (or_default [] (pe_ns e))), gd_examined = or_default 0 (pe_examined e),
       gd_returned = or_default 0 (pe_returned e), gd_nreturned = or_default 0 (pe_returned e),
       gd_sort = or_default False (pe_sort e), gd_plan = or_default [] (pe_plan e)\<rparr>)"

fun mongo_new_rows ::
  "(profile_entry \<Rightarrow> usec \<Rightarrow> mongo_detail) \<Rightarrow> profile_entry list \<Rightarrow> cursor_mgr \<Rightarrow> mongo_detail list \<Rightarrow> mongo_detail list \<times> cursor_mgr" where
  "mongo_new_rows row [] m ds = (ds, m)"
| "mongo_new_rows row (e # es) m ds = (case entry_time e of
       None \<Rightarrow> mongo_new_rows row es m ds
     | Some ts \<Rightarrow> if is_new_data m (Some ts) then mongo_new_rows row es (update_max_cursor (Some ts) m) (ds @ [row e ts])
         else mongo_new_rows row es m ds)"

text \<open>One database: a failure is logged, and the next one comes.\<close>

definition collect_database ::
  "(string \<Rightarrow> profile_entry \<Rightarrow> usec \<Rightarrow> mongo_detail) \<Rightarrow> usec \<Rightarrow> string \<times> mongo_database
   \<Rightarrow> mongo_detail list \<times> cursor_mgr \<Rightarrow> mongo_detail list \<times> cursor_mgr" where
  "collect_database row end_time nd dm = (case (nd, dm) of ((db_name, db), (ds, m)) \<Rightarrow>
     if \<not> profiled db then (ds, m)
     else case mb_find db (bson_time (local_naive_to_utc (cm_cursor m))) (bson_time (local_naive_to_utc end_time)) profile_limit of
         Inl e \<Rightarrow> (ds, m)
       | Inr docs \<Rightarrow> mongo_new_rows (row db_name) docs m ds)"

definition on_mongo :: "(mongo_detail store, 'a) M \<Rightarrow> (slow_state, 'a) M" where
  "on_mongo = on_table sl_mongo (\<lambda>t s. s\<lparr>sl_mongo := t\<rparr>)"

text \<open>The rows of all databases are written in one transaction; when it fails the cursor stays.\<close>

definition mongo_collect_detail ::
  "(string \<Rightarrow> string) \<Rightarrow> (utext \<Rightarrow> string) \<Rightarrow> mongo_server \<Rightarrow> instance_row \<Rightarrow> usec \<Rightarrow> slow_state \<Rightarrow> slow_state" where
  "mongo_collect_detail md5 enc server i end_time s =
     (case create_cursor_manager (i_id i) (i_db_type i) s of Inl e \<Rightarrow> s | Inr m \<Rightarrow>
      case server (mongo_uri i) of Inl e \<Rightarrow> s | Inr dbs \<Rightarrow>
      case fold (collect_database (mongo_detail_of md5 enc (i_id i) (sl_now s)) end_time) dbs ([], m) of (ds, m') \<Rightarrow>
        snd (bindM (if ds = [] then ret () else on_mongo (write_stmt (bulk_create ds)))
               (\<lambda>_. commit_cursor (i_id i) (i_db_type i) m') s))"

section \<open>Statistics\<close>

text \<open>Without an average the row has a null that its column does not take.\<close>

definition mongo_summary_row ::
  "(string \<Rightarrow> string) \<Rightarrow> (utext \<Rightarrow> string) \<Rightarrow> int \<Rightarrow> string \<Rightarrow> profile_group \<Rightarrow> mongo_summary option" where
  "mongo_summary_row md5 enc inst db_name g =
     (case (pg_avg g, pg_examined g, pg_returned g) of
        (Some a, Some x, Some r) \<Rightarrow>
          (let sample = or_default (BDoc []) (pg_sample g); fingerprint = mongo_fingerprint sample;
               ns = or_default (or_default [] (pg_ns g)) (pg_sample_ns g) in Some
           \<lparr>su_id = 0, su_instance = inst, su_hash = md5 (enc fingerprint), su_fingerprint = enc (take 2000 fingerprint),
            su_sample = Some (enc (command_text sample)), su_counts = pg_count g, su_times = pg_total g, su_avg = a, su_p95 = 0,
            su_first = map_option utc_naive_to_local_naive (pg_first g), su_last = map_option utc_naive_to_local_naive (pg_last g),
            su_created = 0, su_updated = 0, gs_db = Some db_name, gs_coll = Some (collection_of ns),
            gs_op = Some (or_default ''unknown'' (pg_op g)), gs_examined_avg = x, gs_returned_avg = r, gs_sort = pg_sort g\<rparr>)
      | _ \<Rightarrow> None)"

definition upsert_group :: "usec \<Rightarrow> mongo_summary option \<Rightarrow> mongo_summary table \<Rightarrow> bool res \<times> mongo_summary table" where
  "upsert_group now r t = (case r of None \<Rightarrow> (Inl (IntegrityError ''null''), t) | Some x \<Rightarrow> upsert now keep_none x t)"

fun upsert_groups :: "usec \<Rightarrow> mongo_summary option list \<Rightarrow> (mongo_summary store, unit) M" where
  "upsert_groups now [] = ret ()"
| "upsert_groups now (r # rs) = (\<lambda>s. upsert_groups now rs (snd (retry 3 (write_stmt (upsert_group now r)) s)))"

definition summarise_database ::
  "(string \<Rightarrow> string) \<Rightarrow> (utext \<Rightarrow> string) \<Rightarrow> instance_row \<Rightarrow> usec \<Rightarrow> usec \<Rightarrow> string \<times> mongo_database \<Rightarrow> slow_state \<Rightarrow> slow_state" where
  "summarise_database md5 enc i b e nd s = (case nd of (db_name, db) \<Rightarrow>
     if \<not> profiled db then s
     else case mb_groups db (bson_time (local_naive_to_utc b)) (bson_time (local_naive_to_utc e)) of
         Inl x \<Rightarrow> s
       | Inr gs \<Rightarrow> snd (on_mongo_sum (upsert_groups (sl_now s) (map (mongo_summary_row md5 enc (i_id i) db_name) gs)) s))"

definition mongo_collect_summary ::
  "(string \<Rightarrow> string) \<Rightarrow> (utext \<Rightarrow> string) \<Rightarrow> mongo_server \<Rightarrow> instance_row \<Rightarrow> usec \<Rightarrow> usec \<Rightarrow> slow_state \<Rightarrow> slow_state" where
  "mongo_collect_summary md5 enc server i b e s = (case server (mongo_uri i) of
       Inl x \<Rightarrow> s
     | Inr dbs \<Rightarrow> fold (summarise_database md5 enc i b e) dbs s)"

end
