(* ===== verification/SlowTasks.thy ===== *)
theory SlowTasks
  imports MongoCollect
begin

text \<open>
  The tasks of \<open>sql/collectors/tasks.py\<close> around the collectors: the collection of one instance and of all, the clean up of
  the log on MySQL servers, and the schedules of the slow queries.
\<close>

section \<open>Collection\<close>

text \<open>What is outside: the servers of each instance, the digest and the encoding of texts.\<close>

record slow_servers =
  so_mysql :: "int \<Rightarrow> mysql_server"
  so_pgsql :: "int \<Rightarrow> pgsql_server"
  so_mongo :: mongo_server
  so_redis :: "int \<Rightarrow> redis_entry list res"
  so_md5 :: "string \<Rightarrow> string"
  so_enc :: "utext \<Rightarrow> string"

definition SUPPORTED_COLLECTOR_DB_TYPES :: "string list" where
  "SUPPORTED_COLLECTOR_DB_TYPES = [''mysql'', ''pgsql'', ''mongo'', ''redis'']"

record collector =
  co_detail :: "usec \<Rightarrow> slow_state \<Rightarrow> slow_state option"
  co_summary :: "usec \<Rightarrow> usec \<Rightarrow> slow_state \<Rightarrow> slow_state"

definition collector_map :: "slow_servers \<Rightarrow> instance_row \<Rightarrow> (string \<times> collector) list" where
  "collector_map sv i =
     [(''mysql'', \<lparr>co_detail = mysql_collect_detail (so_md5 sv) (so_mysql sv (i_id i)) i,
        co_summary = (\<lambda>b e. mysql_collect_summary (so_mysql sv (i_id i)) i b)\<rparr>),
      (''pgsql'', \<lparr>co_detail = (\<lambda>e s. Some (pgsql_collect_detail (so_pgsql sv (i_id i)) i s)),
        co_summary = (\<lambda>b e. pgsql_collect_summary (so_pgsql sv (i_id i)) i)\<rparr>),
      (''mongo'', \<lparr>co_detail = (\<lambda>e s. Some (mongo_collect_detail (so_md5 sv) (so_enc sv) (so_mongo sv) i e s)),
        co_summary = mongo_collect_summary (so_md5 sv) (so_enc sv) (so_mongo sv) i\<rparr>),
      (''redis'', \<lparr>co_detail = (\<lambda>e s. Some (redis_collect_detail (so_md5 sv) (so_redis sv (i_id i)) i s)),
        co_summary = redis_collect_summary i\<rparr>)]"

text \<open>\<open>collect_slowquery_task\<close>; it does not return when the collection of details does not.\<close>

definition collect_slowquery_task :: "slow_servers \<Rightarrow> int \<Rightarrow> string \<Rightarrow> slow_state \<Rightarrow> slow_state option" where
  "collect_slowquery_task sv k collect_type s =
     (case tbl_get ''Instance'' (\<lambda>i. i_id i = k) (w_instances (sl_world s)) of
        Inl e \<Rightarrow> Some s
      | Inr i \<Rightarrow> (case map_of (collector_map sv i) (i_db_type i) of
            None \<Rightarrow> Some s
          | Some c \<Rightarrow> map_option (\<lambda>s'. if collect_type = ''summary'' then co_summary c (sl_now s - seconds 3600) (sl_now s) s' else s')
              (if collect_type = ''all'' \<or> collect_type = ''detail'' then co_detail c (sl_now s) s else Some s)))"

record collect_job =
  cj_func :: string
  cj_instance :: int
  cj_type :: string
  cj_group :: string
  cj_timeout :: int

definition collect_job_of :: "instance_row \<Rightarrow> collect_job" where
  "collect_job_of i = \<lparr>cj_func = ''sql.collectors.tasks.collect_slowquery_task'', cj_instance = i_id i, cj_type = ''all'',
     cj_group = ''slowquery_'' @ i_db_type i, cj_timeout = 600\<rparr>"

text \<open>\<open>collect_all_slowquery_task\<close>: an instance whose task the broker does not take is left out.\<close>

definition collect_all_slowquery_task :: "(int \<Rightarrow> bool) \<Rightarrow> world \<Rightarrow> collect_job list" where
  "collect_all_slowquery_task broker w = map collect_job_of
     (filter (\<lambda>i. broker (i_id i)) (tbl_filter (\<lambda>i. i_db_type i \<in> set SUPPORTED_COLLECTOR_DB_TYPES) (w_instances w)))"

section \<open>The log on the servers\<close>

text \<open>
  The logs by instance. An exception and an error of the result are logged; \<open>run\<close> tells what the server makes of the
  statement: the rows it removed.
\<close>

type_synonym server_logs = "int \<Rightarrow> slow_log_row list"

definition truncate_log :: "(instance_row \<Rightarrow> (string + nat) res) \<Rightarrow> instance_row \<Rightarrow> server_logs \<Rightarrow> server_logs" where
  "truncate_log run i logs = (case run i of Inr (Inr n) \<Rightarrow> logs(i_id i := []) | _ \<Rightarrow> logs)"

definition cleanup_mysql_slow_log_task :: "(instance_row \<Rightarrow> (string + nat) res) \<Rightarrow> world \<Rightarrow> server_logs \<Rightarrow> server_logs" where
  "cleanup_mysql_slow_log_task run w logs = fold (truncate_log run) (tbl_filter (\<lambda>i. i_db_type i = ''mysql'') (w_instances w)) logs"

section \<open>Schedules\<close>

text \<open>\<open>_daily_run_at\<close>.\<close>

definition daily_run_at :: "int \<Rightarrow> usec \<Rightarrow> usec" where
  "daily_run_at hour now = (let run_at = now - now mod days 1 + seconds (3600 * hour) in
     if run_at \<le> now then run_at + days 1 else run_at)"

text \<open>
  A row of the table of schedules, with the columns the registration writes. The column of keyword arguments holds a text,
  which is compared after \<open>literal_eval\<close>: it is what that text denotes, or the text itself where it denotes nothing.
\<close>

datatype kwargs = KwDict "(string \<times> int) list" | KwText string

record periodic =
  pc_id :: int
  pc_name :: string
  pc_func :: string
  pc_type :: string
  pc_minutes :: "int option"
  pc_repeats :: int
  pc_kwargs :: kwargs
  pc_next_run :: usec

definition set_pc_id :: "int \<Rightarrow> periodic \<Rightarrow> periodic" where
  "set_pc_id k p = p\<lparr>pc_id := k\<rparr>"

text \<open>
  What a registration names: the number of minutes only for the tasks of some minutes. The default of \<open>minutes\<close> is null.
\<close>

record registration =
  rn_name :: string
  rn_func :: string
  rn_type :: string
  rn_minutes :: "int option"
  rn_kwargs :: kwargs
  rn_next_run :: usec

definition new_periodic :: "registration \<Rightarrow> periodic" where
  "new_periodic r = \<lparr>pc_id = 0, pc_name = rn_name r, pc_func = rn_func r, pc_type = rn_type r, pc_minutes = rn_minutes r, pc_repeats = -1,
     pc_kwargs = rn_kwargs r, pc_next_run = rn_next_run r\<rparr>"

text \<open>The fields that are named are brought up to date, but for the time of the next run.\<close>

definition synced :: "registration \<Rightarrow> periodic \<Rightarrow> periodic" where
  "synced r p = p\<lparr>pc_func := rn_func r, pc_type := rn_type r, pc_minutes := (case rn_minutes r of None \<Rightarrow> pc_minutes p | Some m \<Rightarrow> Some m),
     pc_repeats := -1, pc_kwargs := rn_kwargs r\<rparr>"

text \<open>\<open>_upsert_schedule\<close>: the row is saved only if a field changed.\<close>

definition upsert_schedule :: "registration \<Rightarrow> (periodic table, unit) M" where
  "upsert_schedule r = (\<lambda>t. case tbl_get ''Schedule'' (\<lambda>p. pc_name p = rn_name r) t of
       Inr p \<Rightarrow> (Inr (), if synced r p = p then t else tbl_save pc_id (synced r p) t)
     | Inl e \<Rightarrow> if is_DoesNotExist e then (Inr (), tbl_create set_pc_id (new_periodic r) t) else (Inl e, t))"

definition every_minutes :: "string \<Rightarrow> string \<Rightarrow> int \<Rightarrow> int \<Rightarrow> usec \<Rightarrow> registration" where
  "every_minutes name func n timeout now = \<lparr>rn_name = name, rn_func = func, rn_type = ''I'', rn_minutes = Some n,
     rn_kwargs = KwDict [(''timeout'', timeout)], rn_next_run = now\<rparr>"

definition every_day :: "string \<Rightarrow> string \<Rightarrow> int \<Rightarrow> usec \<Rightarrow> registration" where
  "every_day name func hour now = \<lparr>rn_name = name, rn_func = func, rn_type = ''D'', rn_minutes = None,
     rn_kwargs = KwDict [(''timeout'', 600)], rn_next_run = daily_run_at hour now\<rparr>"

definition registrations :: "usec \<Rightarrow> registration list" where
  "registrations now =
     [every_minutes ''slow query collection - 5 minutes'' ''sql.collectors.tasks.collect_all_slowquery_task'' 5 600 now,
      every_minutes ''slow query aggregation - 5 minutes'' ''sql.collectors.tasks.aggregate_slowquery_task'' 5 600 now,
      every_minutes ''clean up of diagnosis tasks - 10 minutes'' ''sql.services.diagnosis.cleanup_stale_diagnosis_tasks'' 10 120 now,
      every_day ''clean up of MySQL slow log - daily'' ''sql.collectors.tasks.cleanup_mysql_slow_log_task'' 2 now,
      every_day ''clean up of slow query data - daily'' ''sql.collectors.tasks.cleanup_slowquery_data_task'' 3 now]"

fun upsert_schedules :: "registration list \<Rightarrow> (periodic table, unit) M" where
  "upsert_schedules [] = ret ()"
| "upsert_schedules (r # rs) = thenM (upsert_schedule r) (upsert_schedules rs)"

definition add_slowquery_collect_schedule :: "usec \<Rightarrow> (periodic table, unit) M" where
  "add_slowquery_collect_schedule now = upsert_schedules (registrations now)"

text \<open>\<open>del_slowquery_schedules\<close>: a name that is there more than once raises.\<close>

fun del_schedules :: "string list \<Rightarrow> (periodic table, unit) M" where
  "del_schedules [] = ret ()"
| "del_schedules (n # ns) = thenM (\<lambda>t. case tbl_get ''Schedule'' (\<lambda>p. pc_name p = n) t of
       Inr p \<Rightarrow> (Inr (), tbl_delete (\<lambda>x. pc_id x = pc_id p) t)
     | Inl e \<Rightarrow> if is_DoesNotExist e then (Inr (), t) else (Inl e, t)) (del_schedules ns)"

definition del_slowquery_schedules :: "(periodic table, unit) M" where
  "del_slowquery_schedules = del_schedules (map rn_name (registrations 0))"

end
