(* ===== verification/MongoProps.thy ===== *)
theory MongoProps
  imports MongoCollect SlowCollectProps
begin

text \<open>
  The collection of slow queries from MongoDB: what a round stores, where it leaves the one cursor of all databases, and
  which entries of the profiler are therefore never stored; the fingerprint of a command.
\<close>

section \<open>Fingerprints\<close>

text \<open>Commands that differ in their values only.\<close>

fun same_shape :: "bson \<Rightarrow> bson \<Rightarrow> bool" where
  "same_shape (BDoc ms) v = (case v of BDoc ns \<Rightarrow> list_all2 (\<lambda>(k, x) (l, y). k = l \<and> same_shape x y) ms ns | _ \<Rightarrow> False)"
| "same_shape (BList vs) v = (case v of BList ws \<Rightarrow> (case (vs, ws) of ([], []) \<Rightarrow> True | (x # _, y # _) \<Rightarrow> same_shape x y | _ \<Rightarrow> False) | _ \<Rightarrow> False)"
| "same_shape (BInt i) v = (case v of BInt _ \<Rightarrow> True | BFloat _ \<Rightarrow> True | BBool _ \<Rightarrow> True | _ \<Rightarrow> False)"
| "same_shape (BFloat x) v = (case v of BInt _ \<Rightarrow> True | BFloat _ \<Rightarrow> True | BBool _ \<Rightarrow> True | _ \<Rightarrow> False)"
| "same_shape (BBool b) v = (case v of BInt _ \<Rightarrow> True | BFloat _ \<Rightarrow> True | BBool _ \<Rightarrow> True | _ \<Rightarrow> False)"
| "same_shape w v = (case v of BDoc _ \<Rightarrow> False | BList _ \<Rightarrow> False | BInt _ \<Rightarrow> False | BFloat _ \<Rightarrow> False | BBool _ \<Rightarrow> False | _ \<Rightarrow> True)"

lemma members_shape:
  assumes "list_all2 (\<lambda>(k, x) (l, y). k = l \<and> same_shape x y) ms ns"
    and "\<And>k x y. (k, x) \<in> set ms \<Longrightarrow> same_shape x y \<Longrightarrow> f x = f y"
  shows "map (\<lambda>(k, x). (k, f x)) ms = map (\<lambda>(k, x). (k, f x)) ns"
  using assms
proof (induction rule: list_all2_induct)
  case (Cons a ms b ns)
  obtain k x l y where ab: "a = (k, x)" "b = (l, y)" by (cases a, cases b)
  with Cons.hyps have "k = l" "same_shape x y" by simp_all
  with Cons.prems ab have "f x = f y" by (meson list.set_intros(1))
  moreover have "map (\<lambda>(k, x). (k, f x)) ms = map (\<lambda>(k, x). (k, f x)) ns" using Cons.prems by (intro Cons.IH) (meson list.set_intros(2))
  ultimately show ?case using ab \<open>k = l\<close> by simp
qed simp

lemma remove_values_shape: "same_shape x y \<Longrightarrow> remove_values x = remove_values y"
proof (induction x arbitrary: y)
  case (BDoc ms)
  then obtain ns where y: "y = BDoc ns" and l: "list_all2 (\<lambda>(k, x) (l, y). k = l \<and> same_shape x y) ms ns"
    by (cases y) auto
  have "map (\<lambda>(k, x). (k, remove_values x)) ms = map (\<lambda>(k, x). (k, remove_values x)) ns"
    by (rule members_shape [OF l]) (rule BDoc.IH, auto)
  with y show ?case by simp
qed (auto split: bson.splits list.splits)

text \<open>No value of a command, and so not the name of its collection either, reaches its fingerprint.\<close>

theorem mongo_fingerprint_hides_values: "same_shape x y \<Longrightarrow> mongo_fingerprint x = mongo_fingerprint y"
  by (simp add: mongo_fingerprint_def remove_values_shape)

theorem mongo_collections_share_fingerprint:
  "mongo_fingerprint (BDoc ((u ''find'', BText a) # ms)) = mongo_fingerprint (BDoc ((u ''find'', BText b) # ms))"
  by (simp add: mongo_fingerprint_def)

section \<open>A round\<close>

definition answered :: "usec \<Rightarrow> usec \<Rightarrow> mongo_database \<Rightarrow> profile_entry list" where
  "answered t e db = (if \<not> profiled db then [] else
     case mb_find db (bson_time (local_naive_to_utc t)) (bson_time (local_naive_to_utc e)) profile_limit of Inl x \<Rightarrow> [] | Inr docs \<Rightarrow> docs)"

definition later :: "usec \<Rightarrow> profile_entry \<Rightarrow> bool" where
  "later t x = (case entry_time x of None \<Rightarrow> False | Some ts \<Rightarrow> t < ts)"

definition fresh :: "usec \<Rightarrow> usec \<Rightarrow> mongo_database \<Rightarrow> profile_entry list" where
  "fresh t e db = filter (later t) (answered t e db)"

definition time_of :: "profile_entry \<Rightarrow> usec" where
  "time_of x = the (entry_time x)"

lemma cm_cursor_max_over: "cm_cursor (max_over m ts) = cm_cursor m"
  by (induction ts arbitrary: m) (simp_all add: max_over_def update_max_cursor_def)

lemma max_over_append: "max_over m (xs @ ys) = max_over (max_over m xs) ys"
  by (simp add: max_over_def)

lemma mongo_new_rows_eq:
  "mongo_new_rows row es m ds = (ds @ map (\<lambda>x. row x (time_of x)) (filter (later (cm_cursor m)) es),
     max_over m (map time_of (filter (later (cm_cursor m)) es)))"
proof (induction es arbitrary: m ds)
  case (Cons e es)
  have "cm_cursor (update_max_cursor x m) = cm_cursor m" for x by (simp add: update_max_cursor_def split: option.split)
  then show ?case by (auto simp: Cons.IH is_new_data_def later_def time_of_def max_over_def split: option.splits)
qed (simp add: max_over_def)

definition round_rows ::
  "(string \<Rightarrow> profile_entry \<Rightarrow> usec \<Rightarrow> mongo_detail) \<Rightarrow> usec \<Rightarrow> usec \<Rightarrow> (string \<times> mongo_database) list \<Rightarrow> mongo_detail list" where
  "round_rows row t e dbs = concat (map (\<lambda>(n, db). map (\<lambda>x. row n x (time_of x)) (fresh t e db)) dbs)"

definition round_times :: "usec \<Rightarrow> usec \<Rightarrow> (string \<times> mongo_database) list \<Rightarrow> usec list" where
  "round_times t e dbs = concat (map (\<lambda>(n, db). map time_of (fresh t e db)) dbs)"

lemma collect_database_eq:
  "collect_database row e (n, db) (ds, m) = (ds @ map (\<lambda>x. row n x (time_of x)) (fresh (cm_cursor m) e db),
     max_over m (map time_of (fresh (cm_cursor m) e db)))"
  by (auto simp: collect_database_def fresh_def answered_def mongo_new_rows_eq max_over_def split: sum.splits)

lemma fold_databases:
  "fold (collect_database row e) dbs (ds, m) = (ds @ round_rows row (cm_cursor m) e dbs, max_over m (round_times (cm_cursor m) e dbs))"
proof (induction dbs arbitrary: ds m)
  case (Cons d dbs)
  then show ?case
    by (cases d) (simp add: collect_database_eq round_rows_def round_times_def cm_cursor_max_over max_over_append)
qed (simp add: round_rows_def round_times_def max_over_def)

lemma round_times_later: "x \<in> set (round_times t e dbs) \<Longrightarrow> t < x"
  by (auto simp: round_times_def fresh_def later_def time_of_def split: option.splits)

abbreviation mongo_row :: "(string \<Rightarrow> string) \<Rightarrow> (utext \<Rightarrow> string) \<Rightarrow> instance_row \<Rightarrow> usec \<Rightarrow> string \<Rightarrow> profile_entry \<Rightarrow> usec \<Rightarrow> mongo_detail" where
  "mongo_row md5 enc i now \<equiv> mongo_detail_of md5 enc (i_id i) now"

lemma row_start: "map dt_start (round_rows (mongo_row md5 enc i now) t e dbs) = round_times t e dbs"
  by (auto simp: round_rows_def round_times_def map_concat mongo_detail_of_def Let_def o_def intro!: arg_cong [of _ _ concat])

lemma row_id: "map (set_dt_id 0) (round_rows (mongo_row md5 enc i now) t e dbs) = round_rows (mongo_row md5 enc i now) t e dbs"
  by (rule map_idI) (auto simp: round_rows_def mongo_detail_of_def set_dt_id_def Let_def)

text \<open>The cursor stands at a time, whatever the clock says.\<close>

definition cursor_at :: "instance_row \<Rightarrow> slow_state \<Rightarrow> usec \<Rightarrow> bool" where
  "cursor_at i s t = (\<forall>n. get_cursor (i_id i) (i_db_type i) (s\<lparr>sl_now := n\<rparr>) = Inr t)"

definition new_cursor :: "usec \<Rightarrow> usec list \<Rightarrow> usec" where
  "new_cursor t ts = (if ts = [] then t else Max (set ts))"

lemma mongo_round:
  assumes "sl_faults s = []" "get_cursor (i_id i) (i_db_type i) s = Inr t" "server (mongo_uri i) = Inr dbs"
    and "s' = mongo_collect_detail md5 enc server i e s"
  shows "\<exists>new. tbl_rows (sl_mongo s') = tbl_rows (sl_mongo s) @ new
    \<and> map (set_dt_id 0) new = round_rows (mongo_row md5 enc i (sl_now s)) t e dbs \<and> sl_faults s' = [] \<and> sl_now s' = sl_now s
    \<and> (if round_times t e dbs = [] then s' = s else cursor_at i s' (new_cursor t (round_times t e dbs)))"
proof -
  let ?m = "\<lparr>cm_cursor = t, cm_max = None, cm_new = False\<rparr>" and ?row = "mongo_row md5 enc i (sl_now s)"
  let ?rows = "round_rows ?row t e dbs" and ?ts = "round_times t e dbs"
  have f: "fold (collect_database ?row e) dbs ([], ?m) = (?rows, max_over ?m ?ts)" by (simp add: fold_databases)
  have empty: "?rows = [] \<longleftrightarrow> ?ts = []" using row_start [of md5 enc i "sl_now s" t e dbs] by (metis map_is_Nil_conv)
  show ?thesis
  proof (cases "?ts = []")
    case True
    then have "s' = s" using assms f empty
      by (simp add: mongo_collect_detail_def create_cursor_manager_def bindE_def bindM_def commit_cursor_def max_over_def)
    with True empty assms(1) show ?thesis by simp
  next
    case False
    let ?M = "Max (set ?ts)"
    have m': "cm_new (max_over ?m ?ts)" "cm_max (max_over ?m ?ts) = Some ?M"
      using max_over_new [OF False] max_over_max [OF False, of ?m] by simp_all
    obtain st where w: "write_stmt (bulk_create ?rows) \<lparr>st_table = sl_mongo s, st_faults = []\<rparr> = (Inr (), st)"
      and a: "added ?rows \<lparr>st_table = sl_mongo s, st_faults = []\<rparr> st"
      using bulk_create_added [of "\<lparr>st_table = sl_mongo s, st_faults = []\<rparr>" ?rows] by (metis prod.collapse store.select_convs(2))
    let ?s1 = "s\<lparr>sl_faults := st_faults st, sl_mongo := st_table st\<rparr>"
    from a obtain new where new: "tbl_rows (st_table st) = tbl_rows (sl_mongo s) @ new" "map (set_dt_id 0) new = ?rows"
      "st_faults st = []" by (auto simp: added_def row_id)
    have "get_cursor (i_id i) (i_db_type i) ?s1 = Inr t" using assms(2) by (subst get_cursor_cong [of _ s]) simp_all
    from update_cursor_clean [OF _ this, of ?M] new(3) obtain s2
      where up: "update_cursor (i_id i) (i_db_type i) ?M ?s1 = (Inr (), s2)" "sl_faults s2 = []" "s2 = ?s1\<lparr>sl_cursors := sl_cursors s2\<rparr>"
        "\<forall>n. get_cursor (i_id i) (i_db_type i) (s2\<lparr>sl_now := n\<rparr>) = Inr ?M" by auto
    have "s' = s2" using assms f m' False empty w up(1)
      by (simp add: mongo_collect_detail_def create_cursor_manager_def bindE_def bindM_def commit_cursor_def thenM_def ret_def
          on_mongo_def on_table_def)
    moreover have "tbl_rows (sl_mongo s2) = tbl_rows (sl_mongo s) @ new" "sl_now s2 = sl_now s" using new(1) by (subst up(3), simp)+
    ultimately show ?thesis using False new(2) up(2,4) by (auto simp: cursor_at_def new_cursor_def)
  qed
qed

section \<open>Entries that are never stored\<close>

text \<open>A database whose profiler holds a list of entries, as the query of the collector sees it.\<close>

definition utc_time :: "profile_entry \<Rightarrow> usec" where
  "utc_time x = (case pe_ts x of None \<Rightarrow> 0 | Some ts \<Rightarrow> ts)"

definition entry_matches :: "usec \<Rightarrow> usec \<Rightarrow> profile_entry \<Rightarrow> bool" where
  "entry_matches b e x = (case (pe_ts x, pe_millis x) of
       (Some ts, Some ms) \<Rightarrow> b < ts \<and> ts \<le> e \<and> 100 \<le> ms \<and> pe_op x \<noteq> Some ''command''
     | _ \<Rightarrow> False)"

definition profiler_of :: "profile_entry list \<Rightarrow> mongo_database" where
  "profiler_of lg = \<lparr>mb_profiler = Inr (Some 1), mb_find = (\<lambda>b e n. Inr (take n (sort_key utc_time (filter (entry_matches b e) lg)))),
     mb_groups = (\<lambda>b e. Inr [])\<rparr>"

definition serves :: "(string \<times> profile_entry list) list \<Rightarrow> mongo_server" where
  "serves logs = (\<lambda>uri. Inr (map (\<lambda>(n, lg). (n, profiler_of lg)) logs))"

text \<open>The entries of a log that a round with the cursor at \<open>t\<close> up to \<open>e\<close> has to store.\<close>

definition due :: "usec \<Rightarrow> usec \<Rightarrow> profile_entry list \<Rightarrow> profile_entry list" where
  "due t e lg = filter (entry_matches (bson_time (local_naive_to_utc t)) (bson_time (local_naive_to_utc e))) lg"

lemma answered_profiler: "answered t e (profiler_of lg) = take profile_limit (sort_key utc_time (due t e lg))"
  by (simp add: answered_def profiled_def profiler_of_def or_default_def due_def)

lemma due_time: "x \<in> set (due t e lg) \<Longrightarrow> entry_time x = Some (utc_time x + utc_offset)"
  by (auto simp: due_def entry_matches_def entry_time_def utc_time_def utc_naive_to_local_naive_def split: option.splits)

lemma time_of_due: "x \<in> set (due t e lg) \<Longrightarrow> time_of x = utc_time x + utc_offset"
  by (simp add: time_of_def due_time)

text \<open>With as many earlier entries as the limit of the query an entry is not in the answer.\<close>

lemma crowded_out:
  assumes "n \<le> length (filter (\<lambda>y. f y < f x) xs)" "y \<in> set (take n (sort_key f xs))"
  shows "f y < f x"
proof (rule ccontr)
  let ?s = "sort_key f xs"
  assume y: "\<not> f y < f x"
  have "\<not> f z < f x" if "z \<in> set (drop n ?s)" for z
    using sorted_take_drop [of f ?s y n z] assms(2) that y by simp
  then have "filter (\<lambda>y. f y < f x) (drop n ?s) = []" by (auto simp: filter_empty_conv)
  moreover have "mset (filter (\<lambda>y. f y < f x) ?s) = mset (filter (\<lambda>y. f y < f x) xs)" by (simp add: mset_filter)
  then have "length (filter (\<lambda>y. f y < f x) ?s) = length (filter (\<lambda>y. f y < f x) xs)" by (rule mset_eq_length)
  ultimately have "n \<le> length (filter (\<lambda>y. f y < f x) (take n ?s))"
    using assms(1) filter_append [of "\<lambda>y. f y < f x" "take n ?s" "drop n ?s"] by simp
  moreover have "length (filter (\<lambda>y. f y < f x) (take n ?s)) < length (take n ?s)"
    using y assms(2) by (intro length_filter_less [of y]) auto
  ultimately show False by simp
qed

text \<open>A round, with the answers of the server, the end of the period and the clock of that time.\<close>

type_synonym round_of = "mongo_server \<times> usec \<times> usec"

definition run_round :: "(string \<Rightarrow> string) \<Rightarrow> (utext \<Rightarrow> string) \<Rightarrow> instance_row \<Rightarrow> round_of \<Rightarrow> slow_state \<Rightarrow> slow_state" where
  "run_round md5 enc i r s = (case r of (server, e, now) \<Rightarrow> mongo_collect_detail md5 enc server i e (s\<lparr>sl_now := now\<rparr>))"

definition stored_at :: "instance_row \<Rightarrow> string \<Rightarrow> usec \<Rightarrow> slow_state \<Rightarrow> mongo_detail list" where
  "stored_at i n ts s = filter (\<lambda>d. dt_instance d = i_id i \<and> gd_db d = Some n \<and> dt_start d = ts) (tbl_rows (sl_mongo s))"

lemma start_of_id: "dt_start (set_dt_id k d) = dt_start d" "gd_db (set_dt_id k d) = gd_db d"
  by (simp_all add: set_dt_id_def)

lemma new_starts:
  assumes "map (set_dt_id 0) new = round_rows (mongo_row md5 enc i now) t e dbs"
  shows "map dt_start new = round_times t e dbs"
proof -
  have "map dt_start new = map dt_start (map (set_dt_id 0) new)" by (simp add: start_of_id o_def)
  then show ?thesis by (simp add: assms row_start)
qed

lemma cursor_at_now: "cursor_at i s t \<Longrightarrow> cursor_at i (s\<lparr>sl_now := n\<rparr>) t" "cursor_at i s t \<Longrightarrow> get_cursor (i_id i) (i_db_type i) (s\<lparr>sl_now := n\<rparr>) = Inr t"
  by (simp_all add: cursor_at_def)

lemma later_round:
  assumes "sl_faults s = []" "cursor_at i s t" "ts \<le> t"
  shows "stored_at i n ts (run_round md5 enc i r s) = stored_at i n ts s
    \<and> sl_faults (run_round md5 enc i r s) = [] \<and> (\<exists>t'. t \<le> t' \<and> cursor_at i (run_round md5 enc i r s) t')"
proof -
  obtain server e now where r: "r = (server, e, now)" by (cases r)
  let ?s = "s\<lparr>sl_now := now\<rparr>" and ?s' = "run_round md5 enc i r s"
  note cur = cursor_at_now [OF assms(2), of now]
  show ?thesis
  proof (cases "server (mongo_uri i)")
    case (Inl x)
    then have "?s' = ?s" using cur(2) by (simp add: run_round_def r mongo_collect_detail_def create_cursor_manager_def bindE_def)
    with assms(1) cur(1) show ?thesis by (auto simp: stored_at_def)
  next
    case (Inr dbs)
    have "?s' = mongo_collect_detail md5 enc server i e ?s" by (simp add: run_round_def r)
    from mongo_round [OF _ cur(2) Inr this] assms(1) obtain new where new: "tbl_rows (sl_mongo ?s') = tbl_rows (sl_mongo s) @ new"
      "map (set_dt_id 0) new = round_rows (mongo_row md5 enc i now) t e dbs" "sl_faults ?s' = []"
      "if round_times t e dbs = [] then ?s' = ?s else cursor_at i ?s' (new_cursor t (round_times t e dbs))" by auto
    have "t < dt_start d" if "d \<in> set new" for d
      using new_starts [OF new(2)] that round_times_later [of "dt_start d" t e dbs] by (metis image_eqI set_map)
    then have "stored_at i n ts ?s' = stored_at i n ts s" using assms(3) by (fastforce simp: stored_at_def new(1) filter_empty_conv)
    moreover have "t \<le> new_cursor t (round_times t e dbs)"
      using Max_in [of "set (round_times t e dbs)"] round_times_later [of "Max (set (round_times t e dbs))" t e dbs]
      by (auto simp: new_cursor_def intro: less_imp_le)
    moreover have "\<exists>t'. t \<le> t' \<and> cursor_at i ?s' t'"
      using new(4) cur(1) calculation(2) by (cases "round_times t e dbs = []") auto
    ultimately show ?thesis using new(3) by blast
  qed
qed

lemma later_rounds:
  "sl_faults s = [] \<Longrightarrow> cursor_at i s t \<Longrightarrow> ts \<le> t \<Longrightarrow> stored_at i n ts (fold (run_round md5 enc i) rs s) = stored_at i n ts s"
proof (induction rs arbitrary: s t)
  case (Cons r rs)
  from later_round [OF Cons.prems, of n md5 enc r] obtain t' where
    l: "stored_at i n ts (run_round md5 enc i r s) = stored_at i n ts s" "sl_faults (run_round md5 enc i r s) = []"
      "t \<le> t'" "cursor_at i (run_round md5 enc i r s) t'" by blast
  with Cons.IH [OF l(2,4)] Cons.prems(3) show ?case by simp
qed simp

lemma due_later:
  assumes "x \<in> set (due t e lg)" "utc_time x mod 1000 = 0"
  shows "later t x"
proof -
  have "t - utc_offset - (t - utc_offset) mod 1000 < utc_time x"
    using assms(1) by (auto simp: due_def entry_matches_def utc_time_def bson_time_def local_naive_to_utc_def split: option.splits)
  moreover have "\<exists>k. utc_time x = 1000 * k" "\<exists>k. t - utc_offset - (t - utc_offset) mod 1000 = 1000 * k"
    using assms(2) minus_mod_eq_mult_div [of "t - utc_offset" 1000] by (auto simp: mod_eq_0_iff_dvd dvd_def)
  ultimately have "t - utc_offset - (t - utc_offset) mod 1000 + 1000 \<le> utc_time x" by auto
  moreover have "(t - utc_offset) mod 1000 < 1000" by simp
  ultimately have "t < utc_time x + utc_offset" by linarith
  with due_time [OF assms(1)] show ?thesis by (simp add: later_def)
qed

lemma fresh_profiler:
  assumes "\<And>x. x \<in> set lg \<Longrightarrow> utc_time x mod 1000 = 0"
  shows "fresh t e (profiler_of lg) = take profile_limit (sort_key utc_time (due t e lg))"
proof -
  have "later t x" if "x \<in> set (take profile_limit (sort_key utc_time (due t e lg)))" for x
  proof -
    have "x \<in> set (due t e lg)" using in_set_takeD [OF that] by simp
    moreover from this have "x \<in> set lg" by (simp add: due_def)
    ultimately show ?thesis using assms by (intro due_later)
  qed
  then show ?thesis unfolding fresh_def answered_profiler by (intro filter_True) blast
qed

lemma new_places:
  assumes "map (set_dt_id 0) new = round_rows (mongo_row md5 enc i now) t e dbs" "d \<in> set new"
  shows "\<exists>n db x. (n, db) \<in> set dbs \<and> x \<in> set (fresh t e db) \<and> gd_db d = Some n \<and> dt_start d = time_of x"
proof -
  have "set_dt_id 0 d \<in> set (round_rows (mongo_row md5 enc i now) t e dbs)"
    using assms by (metis image_eqI set_map)
  then obtain n db x where "(n, db) \<in> set dbs" "x \<in> set (fresh t e db)" "set_dt_id 0 d = mongo_row md5 enc i now n x (time_of x)"
    by (auto simp: round_rows_def)
  moreover from this(3) have "gd_db d = Some n" "dt_start d = time_of x"
    using start_of_id(1,2) [of 0 d] by (simp_all add: mongo_detail_of_def Let_def)
  ultimately show ?thesis by blast
qed

text \<open>A round over databases that stay within the limit stores exactly what is due, in the order of the databases and of the times.\<close>

theorem mongo_round_stores:
  assumes "sl_faults s = []" "get_cursor (i_id i) (i_db_type i) s = Inr t"
    and "\<And>n lg x. (n, lg) \<in> set logs \<Longrightarrow> x \<in> set lg \<Longrightarrow> utc_time x mod 1000 = 0"
    and "\<And>n lg. (n, lg) \<in> set logs \<Longrightarrow> length (due t e lg) \<le> profile_limit"
  shows "\<exists>new. tbl_rows (sl_mongo (mongo_collect_detail md5 enc (serves logs) i e s)) = tbl_rows (sl_mongo s) @ new
    \<and> map (set_dt_id 0) new = concat (map (\<lambda>(n, lg). map (\<lambda>x. mongo_row md5 enc i (sl_now s) n x (time_of x)) (sort_key utc_time (due t e lg))) logs)"
proof -
  let ?s' = "mongo_collect_detail md5 enc (serves logs) i e s" and ?dbs = "map (\<lambda>(n, lg). (n, profiler_of lg)) logs"
  have "serves logs (mongo_uri i) = Inr ?dbs" by (simp add: serves_def)
  from mongo_round [where server = "serves logs" and i = i, OF assms(1,2) this, of ?s' md5 enc e, OF refl] obtain new
    where new: "tbl_rows (sl_mongo ?s') = tbl_rows (sl_mongo s) @ new"
      "map (set_dt_id 0) new = round_rows (mongo_row md5 enc i (sl_now s)) t e ?dbs" by blast
  have fresh: "fresh t e (profiler_of lg) = sort_key utc_time (due t e lg)" if "(n, lg) \<in> set logs" for n lg
    using fresh_profiler [of lg t e] assms(3,4) that by (metis length_sort take_all)
  have "round_rows (mongo_row md5 enc i (sl_now s)) t e ?dbs
      = concat (map (\<lambda>(n, lg). map (\<lambda>x. mongo_row md5 enc i (sl_now s) n x (time_of x)) (sort_key utc_time (due t e lg))) logs)"
    unfolding round_rows_def by (auto simp: fresh intro!: arg_cong [of _ _ concat])
  with new show ?thesis by auto
qed

text \<open>
  C26. Of a MongoDB server, an entry with more than the limit of earlier entries in its own database is never stored once another
  database had a later entry in the same round: the one cursor has passed it, whatever the server answers in later rounds.
\<close>

theorem mongo_backlog_lost:
  assumes "sl_faults s = []" "get_cursor (i_id i) (i_db_type i) s = Inr t" "distinct (map fst logs)"
    and "\<And>n lg x. (n, lg) \<in> set logs \<Longrightarrow> x \<in> set lg \<Longrightarrow> utc_time x mod 1000 = 0"
    and "(a, lga) \<in> set logs" "x \<in> set (due t e lga)" "profile_limit \<le> length (filter (\<lambda>y. utc_time y < utc_time x) (due t e lga))"
    and "(b, lgb) \<in> set logs" "y \<in> set (due t e lgb)" "length (due t e lgb) \<le> profile_limit" "utc_time x \<le> utc_time y"
  shows "stored_at i a (time_of x) (fold (run_round md5 enc i) rounds (mongo_collect_detail md5 enc (serves logs) i e s))
    = stored_at i a (time_of x) s"
proof -
  let ?s' = "mongo_collect_detail md5 enc (serves logs) i e s" and ?dbs = "map (\<lambda>(n, lg). (n, profiler_of lg)) logs"
  have "serves logs (mongo_uri i) = Inr ?dbs" by (simp add: serves_def)
  from mongo_round [where server = "serves logs" and i = i, OF assms(1,2) this, of ?s' md5 enc e, OF refl] obtain new where new: "tbl_rows (sl_mongo ?s') = tbl_rows (sl_mongo s) @ new"
    "map (set_dt_id 0) new = round_rows (mongo_row md5 enc i (sl_now s)) t e ?dbs" "sl_faults ?s' = []"
    "if round_times t e ?dbs = [] then ?s' = s else cursor_at i ?s' (new_cursor t (round_times t e ?dbs))" by blast
  have fresh: "fresh t e (profiler_of lg) = take profile_limit (sort_key utc_time (due t e lg))" if "(n, lg) \<in> set logs" for n lg
    using assms(4) that by (intro fresh_profiler) blast
  have "y \<in> set (fresh t e (profiler_of lgb))" using assms(9,10) by (simp add: fresh [OF assms(8)])
  then have y: "time_of y \<in> set (round_times t e ?dbs)" using assms(8) by (force simp: round_times_def)
  then have cur: "cursor_at i ?s' (new_cursor t (round_times t e ?dbs))" using new(4) by (auto split: if_splits)
  have "time_of x \<le> time_of y" using assms(11) by (simp add: time_of_due [OF assms(6)] time_of_due [OF assms(9)])
  also have "time_of y \<le> new_cursor t (round_times t e ?dbs)" using y by (auto simp: new_cursor_def)
  finally have le: "time_of x \<le> new_cursor t (round_times t e ?dbs)" .
  have "\<not> (gd_db d = Some a \<and> dt_start d = time_of x)" if d: "d \<in> set new" for d
  proof
    assume at: "gd_db d = Some a \<and> dt_start d = time_of x"
    from new_places [OF new(2) d] at obtain lg z where z: "(a, lg) \<in> set logs" "z \<in> set (fresh t e (profiler_of lg))" "time_of x = time_of z" by auto
    have "lg = lga" using z(1) assms(3,5) by (metis eq_key_imp_eq_value)
    with z(2) have zt: "z \<in> set (take profile_limit (sort_key utc_time (due t e lga)))" by (simp add: fresh [OF assms(5)])
    then have "z \<in> set (due t e lga)" by (auto dest: in_set_takeD)
    then have "utc_time z = utc_time x" using z(3) by (simp add: time_of_due [OF assms(6)] time_of_due)
    with crowded_out [OF assms(7) zt] show False by simp
  qed
  then have "stored_at i a (time_of x) ?s' = stored_at i a (time_of x) s" by (auto simp: stored_at_def new(1) filter_empty_conv)
  with later_rounds [OF new(3) cur le] show ?thesis by simp
qed

definition demo_entry :: "usec \<Rightarrow> profile_entry" where
  "demo_entry ts = \<lparr>pe_ts = Some ts, pe_ns = Some ''shop.orders'', pe_op = Some ''query'', pe_command = Some (BDoc [(u ''find'', BText (u ''orders''))]),
     pe_client = None, pe_user = None, pe_millis = Some 250, pe_examined = Some 9000, pe_returned = Some 1, pe_sort = None, pe_plan = None\<rparr>"

definition demo_logs :: "(string \<times> profile_entry list) list" where
  "demo_logs = [(''shop'', replicate profile_limit (demo_entry (seconds 10)) @ [demo_entry (seconds 20)]), (''crm'', [demo_entry (seconds 30)])]"

lemma demo_entry_time: "utc_time (demo_entry ts) = ts" "entry_matches b e (demo_entry ts) \<longleftrightarrow> b < ts \<and> ts \<le> e"
  by (simp_all add: utc_time_def entry_matches_def demo_entry_def)

theorem mongo_backlog_lost_witness:
  "stored_at new_Instance ''shop'' (time_of (demo_entry (seconds 20))) (fold (run_round id (map char_of) new_Instance)
       [(serves demo_logs, seconds 40000, seconds 40000), (serves demo_logs, seconds 50000, seconds 50000)]
       (mongo_collect_detail id (map char_of) (serves demo_logs) new_Instance (seconds 30000) (empty_slow\<lparr>sl_now := seconds 30000\<rparr>))) = []"
proof -
  let ?t = "seconds 30000 - days 7" and ?e = "seconds 30000"
  have f: "sl_faults (empty_slow\<lparr>sl_now := seconds 30000\<rparr>) = []" by (simp add: empty_slow_def)
  have d: "due ?t ?e lg = lg" if "(n, lg) \<in> set demo_logs" for n lg
    using that unfolding due_def by (intro filter_True)
      (auto simp: demo_logs_def demo_entry_time bson_time_def local_naive_to_utc_def utc_offset_def seconds_def days_def)
  have in_logs: "(''shop'', replicate profile_limit (demo_entry (seconds 10)) @ [demo_entry (seconds 20)]) \<in> set demo_logs"
    "(''crm'', [demo_entry (seconds 30)]) \<in> set demo_logs" by (simp_all add: demo_logs_def)
  have x: "demo_entry (seconds 20) \<in> set (due ?t ?e (snd (hd demo_logs)))" and y: "demo_entry (seconds 30) \<in> set (due ?t ?e [demo_entry (seconds 30)])"
    "length (due ?t ?e [demo_entry (seconds 30)]) \<le> profile_limit"
    and n: "profile_limit \<le> length (filter (\<lambda>y. utc_time y < utc_time (demo_entry (seconds 20))) (due ?t ?e (snd (hd demo_logs))))"
    using d [OF in_logs(1)] d [OF in_logs(2)] by (simp_all add: demo_logs_def demo_entry_time seconds_def) (simp add: profile_limit_def)
  have m: "utc_time z mod 1000 = 0" if "(n, lg) \<in> set demo_logs" "z \<in> set lg" for n lg z
    using that by (auto simp: demo_logs_def demo_entry_time seconds_def)
  have shop: "(''shop'', snd (hd demo_logs)) \<in> set demo_logs" by (simp add: demo_logs_def)
  have "stored_at new_Instance ''shop'' (time_of (demo_entry (seconds 20))) (empty_slow\<lparr>sl_now := seconds 30000\<rparr>) = []"
    by (simp add: stored_at_def empty_slow_def empty_table_def)
  moreover have "distinct (map fst demo_logs)" by (simp add: demo_logs_def)
  note lost = mongo_backlog_lost [OF f empty_slow_cursor this _ shop x n in_logs(2) y]
  have "utc_time (demo_entry (seconds 20)) \<le> utc_time (demo_entry (seconds 30))" by (simp add: demo_entry_time seconds_def)
  ultimately show ?thesis
    using lost [where i = new_Instance and ?md5.0 = id and enc = "map char_of"
        and rounds = "[(serves demo_logs, seconds 40000, seconds 40000), (serves demo_logs, seconds 50000, seconds 50000)]"] m by metis
qed

end
