(* ===== verification/SlowTasksProps.thy ===== *)
theory SlowTasksProps
  imports SlowTasks MongoProps
begin

text \<open>
  The tasks around the collectors: which instances are queued, and what the registration of the schedules leaves in the
  table of schedules, the first time and every time after it.
\<close>

section \<open>Dispatch\<close>

text \<open>The two lists of kinds of databases agree: what is queued finds a collector, and nothing that would is left out.\<close>

theorem supported_types_have_collectors:
  "i_db_type i \<in> set SUPPORTED_COLLECTOR_DB_TYPES \<longleftrightarrow> map_of (collector_map sv i) (i_db_type i) \<noteq> None"
  by (simp add: SUPPORTED_COLLECTOR_DB_TYPES_def collector_map_def)

text \<open>A kind without a collector, and an instance that is gone, leave everything as it is.\<close>

lemma collect_nothing:
  assumes "\<And>i. tbl_get ''Instance'' (\<lambda>i. i_id i = k) (w_instances (sl_world s)) = Inr i \<Longrightarrow> i_db_type i \<notin> set SUPPORTED_COLLECTOR_DB_TYPES"
  shows "collect_slowquery_task sv k ty s = Some s"
  using assms supported_types_have_collectors [of _ sv]
  by (auto simp: collect_slowquery_task_def split: sum.splits option.splits)

text \<open>A run at a fixed hour is the next one: after now, within a day, at that hour.\<close>

theorem daily_run_at_next:
  assumes "0 \<le> hour" "hour < 24"
  shows "now < daily_run_at hour now" "daily_run_at hour now \<le> now + days 1" "daily_run_at hour now mod days 1 = seconds (3600 * hour)"
proof -
  let ?d = "now - now mod days 1" and ?h = "seconds (3600 * hour)"
  have d: "days 1 = 86400000000" by (simp add: days_def seconds_def)
  have h: "0 \<le> ?h" "?h < days 1" using assms by (simp_all add: days_def seconds_def)
  have m: "now = ?d + now mod days 1" "0 \<le> now mod days 1" "now mod days 1 < days 1" by (simp_all add: d)
  have e: "daily_run_at hour now = (if ?d + ?h \<le> now then ?d + ?h + days 1 else ?d + ?h)" by (simp add: daily_run_at_def Let_def)
  show "now < daily_run_at hour now" "daily_run_at hour now \<le> now + days 1"
    unfolding e using h m by (simp_all only: split: if_split) linarith+
  have "(?d + ?h) mod days 1 = ?h" using h by (simp add: d mod_diff_left_eq mod_add_left_eq minus_mod_eq_mult_div)
  then show "daily_run_at hour now mod days 1 = ?h" by (auto simp: daily_run_at_def Let_def)
qed

section \<open>The table of schedules\<close>
















end
