(* ===== verification/SlowSchema.thy ===== *)
theory SlowSchema
  imports SqlText
begin

text \<open>
  The bootstrap of the tables of slow queries (\<open>sql/services/slowquery_schema.py\<close>): the plan read from the files of
  definitions, and its execution where something is missing. The execution of a statement by the database is a parameter.
\<close>

section \<open>The plan\<close>

datatype plan_kind = TableOp | IndexOp

record plan_op =
  po_kind :: plan_kind
  po_name :: string
  po_table :: string
  po_sql :: string

definition name_quote_re :: re where
  "name_quote_re = Opt (Cls (\<lambda>c. c = CHR 0x60 \<or> c = squote \<or> c = dquote))"

definition if_not_exists_re :: re where
  "if_not_exists_re = Opt (Seq (lit_ci ''if'') (Seq (Plus space_re) (Seq (lit_ci ''not'') (Seq (Plus space_re)
     (Seq (lit_ci ''exists'') (Plus space_re))))))"

definition create_table_re :: re where
  "create_table_re = Seq (lit_ci ''create'') (Seq (Plus space_re) (Seq (lit_ci ''table'') (Seq (Plus space_re)
     (Seq if_not_exists_re (Seq name_quote_re (Seq (Grp 1 (Plus (Cls is_word))) name_quote_re))))))"

definition create_index_re :: re where
  "create_index_re = Seq (lit_ci ''create'') (Seq (Plus space_re) (Seq (lit_ci ''index'') (Seq (Plus space_re)
     (Seq name_quote_re (Seq (Grp 1 (Plus (Cls is_word))) (Seq name_quote_re (Seq (Plus space_re) (Seq (lit_ci ''on'')
       (Seq (Plus space_re) (Seq name_quote_re (Seq (Grp 2 (Plus (Cls is_word))) name_quote_re)))))))))))"

definition split_statements :: "string \<Rightarrow> string list" where
  "split_statements sql_text = filter (\<lambda>s. s \<noteq> [])
     (map strip (split_on (CHR '';'') (re_sub (Seq (lit ''--'') (Star not_nl)) [] sql_text)))"

definition group_of :: "nat \<Rightarrow> pos \<Rightarrow> string" where
  "group_of n q = (case caps_get n q of None \<Rightarrow> [] | Some s \<Rightarrow> s)"

definition statement_op :: "string \<Rightarrow> plan_op option" where
  "statement_op s = (case re_search_from create_table_re None s of
       Some (_, _, q) \<Rightarrow> Some \<lparr>po_kind = TableOp, po_name = group_of 1 q, po_table = group_of 1 q, po_sql = s\<rparr>
     | None \<Rightarrow> (case re_search_from create_index_re None s of
           Some (_, _, q) \<Rightarrow> Some \<lparr>po_kind = IndexOp, po_name = group_of 1 q, po_table = group_of 2 q, po_sql = s\<rparr>
         | None \<Rightarrow> None))"

text \<open>The files of the directory with their contents; the definitions of indexes come last.\<close>

definition index_file :: string where
  "index_file = ''add_indexes.sql''"

definition ddl_files :: "(string \<times> string) list \<Rightarrow> (string \<times> string) list" where
  "ddl_files dir = sort_key fst (filter (\<lambda>(n, c). drop (length n - 4) n = ''.sql'' \<and> n \<noteq> index_file) dir) @ filter (\<lambda>(n, c). n = index_file) dir"

definition plan_slowquery_schema :: "(string \<times> string) list \<Rightarrow> plan_op list" where
  "plan_slowquery_schema dir = List.map_filter statement_op (concat (map (split_statements \<circ> snd) (ddl_files dir)))"

section \<open>Its execution\<close>

text \<open>A database: its tables with the names of their indexes and constraints.\<close>

type_synonym db_schema = "(string \<times> string list) list"

type_synonym ddl_run = "string \<Rightarrow> db_schema \<Rightarrow> db_schema res"

definition get_constraints :: "db_schema \<Rightarrow> string \<Rightarrow> string list" where
  "get_constraints db t = (case map_of db t of None \<Rightarrow> [] | Some cs \<Rightarrow> cs)"

definition run_ddl :: "ddl_run \<Rightarrow> string \<Rightarrow> (db_schema, unit) M" where
  "run_ddl run sql = (\<lambda>db. case run sql db of Inl e \<Rightarrow> (Inl e, db) | Inr db' \<Rightarrow> (Inr (), db'))"

fun ensure_tables :: "ddl_run \<Rightarrow> plan_op list \<Rightarrow> string list \<Rightarrow> (db_schema, string list) M" where
  "ensure_tables run [] existing = ret []"
| "ensure_tables run (p # ps) existing =
     (if po_kind p \<noteq> TableOp \<or> po_name p \<in> set existing then ensure_tables run ps existing
      else thenM (run_ddl run (po_sql p)) (bindM (ensure_tables run ps (existing @ [po_name p])) (\<lambda>ns. ret (po_name p # ns))))"

text \<open>The names of a table's constraints are asked for once, before its first index.\<close>

fun ensure_indexes :: "ddl_run \<Rightarrow> plan_op list \<Rightarrow> string list \<Rightarrow> (string \<times> string list) list \<Rightarrow> (db_schema, string list) M" where
  "ensure_indexes run [] existing cache = ret []"
| "ensure_indexes run (p # ps) existing cache = (\<lambda>db.
     if po_kind p \<noteq> IndexOp \<or> po_table p \<notin> set existing then ensure_indexes run ps existing cache db
     else let cache' = (if map_of cache (po_table p) = None then (po_table p, get_constraints db (po_table p)) # cache else cache) in
       if po_name p \<in> set (get_constraints cache' (po_table p)) then ensure_indexes run ps existing cache' db
       else thenM (run_ddl run (po_sql p)) (bindM (ensure_indexes run ps existing cache') (\<lambda>ns. ret (po_name p # ns))) db)"

definition ensure_slowquery_schema :: "ddl_run \<Rightarrow> (string \<times> string) list \<Rightarrow> (db_schema, string list \<times> string list) M" where
  "ensure_slowquery_schema run dir = (\<lambda>db. let plan = plan_slowquery_schema dir in
     bindM (ensure_tables run plan (map fst db)) (\<lambda>ts.
       bindM (ensure_indexes run plan (map fst db @ ts) []) (\<lambda>is. ret (ts, is))) db)"

section \<open>Running it twice\<close>

text \<open>What the statements of a plan do to a database.\<close>

definition add_index :: "string \<Rightarrow> string \<Rightarrow> db_schema \<Rightarrow> db_schema" where
  "add_index t k db = map (\<lambda>(n, cs). if n = t then (n, cs @ [k]) else (n, cs)) db"

definition creates :: "ddl_run \<Rightarrow> plan_op \<Rightarrow> bool" where
  "creates run p = (case po_kind p of
       TableOp \<Rightarrow> (\<forall>db. po_name p \<notin> fst ` set db \<longrightarrow> (\<exists>cs. run (po_sql p) db = Inr (db @ [(po_name p, cs)])))
     | IndexOp \<Rightarrow> (\<forall>db. po_table p \<in> fst ` set db \<longrightarrow> po_name p \<notin> set (get_constraints db (po_table p)) \<longrightarrow>
         run (po_sql p) db = Inr (add_index (po_table p) (po_name p) db)))"

definition satisfied :: "db_schema \<Rightarrow> plan_op \<Rightarrow> bool" where
  "satisfied db p = (case po_kind p of
       TableOp \<Rightarrow> po_name p \<in> fst ` set db
     | IndexOp \<Rightarrow> po_table p \<in> fst ` set db \<longrightarrow> po_name p \<in> set (get_constraints db (po_table p)))"

text \<open>A database keeps every table, and of each every constraint.\<close>

definition keeps :: "db_schema \<Rightarrow> db_schema \<Rightarrow> bool" where
  "keeps db db' = (fst ` set db \<subseteq> fst ` set db' \<and> (\<forall>t. set (get_constraints db t) \<subseteq> set (get_constraints db' t)))"

lemma keeps_refl [simp]: "keeps db db"
  by (simp add: keeps_def)

lemma keeps_trans: "keeps a b \<Longrightarrow> keeps b c \<Longrightarrow> keeps a c"
  unfolding keeps_def by (metis subset_trans)

lemma keeps_append: "n \<notin> fst ` set db \<Longrightarrow> keeps db (db @ [(n, cs)])"
  by (auto simp: keeps_def get_constraints_def map_add_def split: option.splits)

lemma map_of_add_index:
  "map_of (add_index t k db) n = (if n = t then map_option (\<lambda>cs. cs @ [k]) (map_of db n) else map_of db n)"
  by (induction db) (auto simp: add_index_def)

lemma constraints_add_index:
  "t \<in> fst ` set db \<Longrightarrow> get_constraints (add_index t k db) n = (if n = t then get_constraints db n @ [k] else get_constraints db n)"
  by (auto simp: get_constraints_def map_of_add_index map_of_eq_None_iff split: option.splits)

lemma names_add_index: "map fst (add_index t k db) = map fst db"
  by (auto simp: add_index_def)

lemma fst_add_index: "fst ` set (add_index t k db) = fst ` set db"
  by (metis names_add_index list.set_map)

lemma keeps_add_index: "t \<in> fst ` set db \<Longrightarrow> keeps db (add_index t k db)"
  by (auto simp: keeps_def constraints_add_index fst_add_index)

lemma ensure_tables_complete:
  assumes "\<forall>p \<in> set ps. creates run p" "set existing = fst ` set db"
  shows "\<exists>ts db'. ensure_tables run ps existing db = (Inr ts, db') \<and> keeps db db' \<and> fst ` set db' = set existing \<union> set ts
    \<and> (\<forall>p \<in> set ps. po_kind p = TableOp \<longrightarrow> po_name p \<in> fst ` set db')"
  using assms
proof (induction ps arbitrary: existing db)
  case (Cons p ps)
  show ?case
  proof (cases "po_kind p \<noteq> TableOp \<or> po_name p \<in> set existing")
    case True
    from Cons.IH [of existing db] Cons.prems obtain ts db' where ih: "ensure_tables run ps existing db = (Inr ts, db')" "keeps db db'"
      "fst ` set db' = set existing \<union> set ts" "\<forall>p \<in> set ps. po_kind p = TableOp \<longrightarrow> po_name p \<in> fst ` set db'" by auto
    with True show ?thesis by (intro exI [of _ ts] exI [of _ db']) auto
  next
    case False
    then have new: "po_name p \<notin> fst ` set db" using Cons.prems(2) by simp
    with Cons.prems(1) False obtain cs where r: "run (po_sql p) db = Inr (db @ [(po_name p, cs)])" by (auto simp: creates_def)
    from Cons.IH [of "existing @ [po_name p]" "db @ [(po_name p, cs)]"] Cons.prems obtain ts db' where
      ih: "ensure_tables run ps (existing @ [po_name p]) (db @ [(po_name p, cs)]) = (Inr ts, db')" "keeps (db @ [(po_name p, cs)]) db'"
      "fst ` set db' = set (existing @ [po_name p]) \<union> set ts" "\<forall>p \<in> set ps. po_kind p = TableOp \<longrightarrow> po_name p \<in> fst ` set db'" by auto
    have "ensure_tables run (p # ps) existing db = (Inr (po_name p # ts), db')"
      using False ih(1) r by (simp add: thenM_def bindM_def run_ddl_def ret_def)
    moreover have "keeps db db'" using keeps_append [OF new] ih(2) by (rule keeps_trans)
    ultimately show ?thesis using ih(3,4) by (intro exI [of _ "po_name p # ts"] exI [of _ db']) auto
  qed
qed (simp add: ret_def)

lemma ensure_indexes_complete:
  assumes "\<forall>p \<in> set ps. creates run p" "set existing = fst ` set db"
    and "distinct (map (\<lambda>p. (po_name p, po_table p)) (filter (\<lambda>p. po_kind p = IndexOp) ps))"
    and "\<And>p cs. p \<in> set ps \<Longrightarrow> po_kind p = IndexOp \<Longrightarrow> map_of cache (po_table p) = Some cs \<Longrightarrow>
      po_name p \<in> set cs \<longleftrightarrow> po_name p \<in> set (get_constraints db (po_table p))"
  shows "\<exists>is db'. ensure_indexes run ps existing cache db = (Inr is, db') \<and> keeps db db' \<and> fst ` set db' = fst ` set db
    \<and> (\<forall>p \<in> set ps. po_kind p = IndexOp \<longrightarrow> satisfied db' p)"
  using assms
proof (induction ps arbitrary: cache db)
  case (Cons p ps)
  show ?case
  proof (cases "po_kind p \<noteq> IndexOp \<or> po_table p \<notin> set existing")
    case True
    from Cons.IH [of db cache] Cons.prems obtain "is" db' where
      ih: "ensure_indexes run ps existing cache db = (Inr is, db')" "keeps db db'" "fst ` set db' = fst ` set db"
        "\<forall>p \<in> set ps. po_kind p = IndexOp \<longrightarrow> satisfied db' p" by (auto split: if_splits)
    moreover have "po_kind p = IndexOp \<longrightarrow> satisfied db' p" using True ih(3) Cons.prems(2) by (simp add: satisfied_def)
    ultimately show ?thesis using True by (intro exI [of _ "is"] exI [of _ db']) simp
  next
    case False
    let ?t = "po_table p" and ?k = "po_name p"
    let ?cache = "if map_of cache ?t = None then (?t, get_constraints db ?t) # cache else cache"
    have t: "?t \<in> fst ` set db" and kind: "po_kind p = IndexOp" using False Cons.prems(2) by simp_all
    have cached: "?k \<in> set (get_constraints ?cache ?t) \<longleftrightarrow> ?k \<in> set (get_constraints db ?t)"
      using Cons.prems(4) [of p] kind by (auto simp: get_constraints_def split: option.splits)
    have inv: "po_name q \<in> set cs \<longleftrightarrow> po_name q \<in> set (get_constraints db (po_table q))"
      if "q \<in> set ps" "po_kind q = IndexOp" "map_of ?cache (po_table q) = Some cs" for q cs
      using that Cons.prems(4) [of q cs] by (auto split: if_splits)
    show ?thesis
    proof (cases "?k \<in> set (get_constraints db ?t)")
      case True
      have "\<exists>is db'. ensure_indexes run ps existing ?cache db = (Inr is, db') \<and> keeps db db' \<and> fst ` set db' = fst ` set db
        \<and> (\<forall>p \<in> set ps. po_kind p = IndexOp \<longrightarrow> satisfied db' p)"
        using Cons.prems(1-3) inv by (intro Cons.IH) (auto split: if_splits)
      then obtain "is" db' where
        ih: "ensure_indexes run ps existing ?cache db = (Inr is, db')" "keeps db db'" "fst ` set db' = fst ` set db"
          "\<forall>p \<in> set ps. po_kind p = IndexOp \<longrightarrow> satisfied db' p" by blast
      moreover have "satisfied db' p" using True ih(2) kind by (auto simp: satisfied_def keeps_def)
      moreover have "ensure_indexes run (p # ps) existing cache db = ensure_indexes run ps existing ?cache db"
        using False True cached by (simp add: Let_def)
      ultimately show ?thesis by auto
    next
      case new: False
      let ?db = "add_index ?t ?k db"
      have r: "run (po_sql p) db = Inr ?db" using Cons.prems(1) kind t new by (auto simp: creates_def)
      have names: "fst ` set ?db = fst ` set db" by (rule fst_add_index)
      have inv': "po_name q \<in> set cs \<longleftrightarrow> po_name q \<in> set (get_constraints ?db (po_table q))"
        if "q \<in> set ps" "po_kind q = IndexOp" "map_of ?cache (po_table q) = Some cs" for q cs
      proof -
        have "(?k, ?t) \<notin> set (map (\<lambda>p. (po_name p, po_table p)) (filter (\<lambda>p. po_kind p = IndexOp) ps))"
          using Cons.prems(3) kind by simp
        moreover have "(po_name q, po_table q) \<in> set (map (\<lambda>p. (po_name p, po_table p)) (filter (\<lambda>p. po_kind p = IndexOp) ps))"
          using that(1,2) by simp
        ultimately have "(po_name q, po_table q) \<noteq> (?k, ?t)" by metis
        then show ?thesis using inv [OF that] by (auto simp: constraints_add_index [OF t])
      qed
      have "\<exists>is db'. ensure_indexes run ps existing ?cache ?db = (Inr is, db') \<and> keeps ?db db' \<and> fst ` set db' = fst ` set ?db
        \<and> (\<forall>p \<in> set ps. po_kind p = IndexOp \<longrightarrow> satisfied db' p)"
        using Cons.prems(1-3) inv' names by (intro Cons.IH) (auto split: if_splits)
      then obtain "is" db' where
        ih: "ensure_indexes run ps existing ?cache ?db = (Inr is, db')" "keeps ?db db'" "fst ` set db' = fst ` set ?db"
          "\<forall>p \<in> set ps. po_kind p = IndexOp \<longrightarrow> satisfied db' p" by blast
      have "?k \<in> set (get_constraints ?db ?t)" by (simp add: constraints_add_index [OF t])
      with ih(2) kind have "satisfied db' p" by (auto simp: satisfied_def keeps_def)
      moreover have "ensure_indexes run (p # ps) existing cache db = (Inr (?k # is), db')"
        using False new cached ih(1) r by (simp add: Let_def thenM_def bindM_def run_ddl_def ret_def)
      moreover have "keeps db db'" using keeps_add_index [OF t] ih(2) by (rule keeps_trans)
      ultimately show ?thesis using ih(3,4) names by (intro exI [of _ "?k # is"] exI [of _ db']) simp
    qed
  qed
qed (simp add: ret_def)

lemma ensure_tables_again: "\<forall>p \<in> set ps. po_kind p = TableOp \<longrightarrow> po_name p \<in> set existing \<Longrightarrow> ensure_tables run ps existing db = (Inr [], db)"
  by (induction ps) (auto simp: ret_def)

lemma ensure_indexes_again:
  assumes "\<forall>p \<in> set ps. po_kind p = IndexOp \<longrightarrow> satisfied db p" "set existing = fst ` set db"
    and "\<And>t cs. map_of cache t = Some cs \<Longrightarrow> cs = get_constraints db t"
  shows "ensure_indexes run ps existing cache db = (Inr [], db)"
  using assms
proof (induction ps arbitrary: cache)
  case (Cons p ps)
  let ?cache = "if map_of cache (po_table p) = None then (po_table p, get_constraints db (po_table p)) # cache else cache"
  have c: "cs = get_constraints db t" if "map_of ?cache t = Some cs" for t cs
    using that Cons.prems(3) by (auto split: if_splits)
  have "get_constraints ?cache (po_table p) = get_constraints db (po_table p)"
  proof -
    obtain cs where "map_of ?cache (po_table p) = Some cs" by (cases "map_of cache (po_table p)") auto
    with c [OF this] show ?thesis by (simp add: get_constraints_def [of ?cache])
  qed
  moreover have ps: "\<forall>p \<in> set ps. po_kind p = IndexOp \<longrightarrow> satisfied db p" using Cons.prems(1) by simp
  moreover have "ensure_indexes run ps existing ?cache db = (Inr [], db)" by (rule Cons.IH [OF ps Cons.prems(2) c])
  moreover have "ensure_indexes run ps existing cache db = (Inr [], db)" by (rule Cons.IH [OF ps Cons.prems(2,3)])
  moreover have "po_kind p = IndexOp \<Longrightarrow> po_table p \<in> set existing \<Longrightarrow> po_name p \<in> set (get_constraints db (po_table p))"
    using Cons.prems(1,2) by (simp add: satisfied_def)
  ultimately show ?case by (simp add: Let_def)
qed (simp add: ret_def)

text \<open>
  C40. The bootstrap leaves every table and every index of the plan in place, keeps what was there, and run a second time it
  executes nothing, if each statement does what it says and no index is planned twice.
\<close>

theorem schema_bootstrap_idempotent:
  assumes "\<forall>p \<in> set (plan_slowquery_schema dir). creates run p"
    and "distinct (map (\<lambda>p. (po_name p, po_table p)) (filter (\<lambda>p. po_kind p = IndexOp) (plan_slowquery_schema dir)))"
  shows "\<exists>r db'. ensure_slowquery_schema run dir db = (Inr r, db') \<and> keeps db db'
    \<and> (\<forall>p \<in> set (plan_slowquery_schema dir). satisfied db' p) \<and> ensure_slowquery_schema run dir db' = (Inr ([], []), db')"
proof -
  let ?plan = "plan_slowquery_schema dir"
  obtain ts db1 where t: "ensure_tables run ?plan (map fst db) db = (Inr ts, db1)" "keeps db db1"
    "fst ` set db1 = set (map fst db @ ts)" "\<forall>p \<in> set ?plan. po_kind p = TableOp \<longrightarrow> po_name p \<in> fst ` set db1"
    using ensure_tables_complete [OF assms(1), of "map fst db" db] by auto
  obtain "is" db2 where i: "ensure_indexes run ?plan (map fst db @ ts) [] db1 = (Inr is, db2)" "keeps db1 db2" "fst ` set db2 = fst ` set db1"
    "\<forall>p \<in> set ?plan. po_kind p = IndexOp \<longrightarrow> satisfied db2 p"
    using ensure_indexes_complete [OF assms(1) t(3) [symmetric] assms(2), of "[]"] by auto
  have sat: "satisfied db2 p" if "p \<in> set ?plan" for p
    using that t(4) i(3,4) by (cases "po_kind p") (auto simp: satisfied_def)
  have "ensure_slowquery_schema run dir db = (Inr (ts, is), db2)"
    using t(1) i(1) by (simp add: ensure_slowquery_schema_def bindM_def ret_def Let_def)
  moreover have "ensure_slowquery_schema run dir db2 = (Inr ([], []), db2)"
  proof -
    have "ensure_tables run ?plan (map fst db2) db2 = (Inr [], db2)"
      using t(4) i(3) by (intro ensure_tables_again) auto
    moreover have "ensure_indexes run ?plan (map fst db2) [] db2 = (Inr [], db2)"
      using i(4) by (intro ensure_indexes_again) auto
    ultimately show ?thesis by (simp add: ensure_slowquery_schema_def bindM_def ret_def Let_def)
  qed
  moreover have "keeps db db2" using t(2) i(2) by (rule keeps_trans)
  ultimately show ?thesis using sat by blast
qed

definition demo_ddl :: "(string \<times> string) list" where
  "demo_ddl = [(''add_indexes.sql'', ''create index k on a (x); -- once''), (''a.sql'', ''CREATE TABLE IF NOT EXISTS `a` (x INT);'')]"

definition demo_run :: ddl_run where
  "demo_run sql db = (case statement_op sql of
       None \<Rightarrow> Inr db
     | Some p \<Rightarrow> Inr (case po_kind p of TableOp \<Rightarrow> db @ [(po_name p, [''PRIMARY''])] | IndexOp \<Rightarrow> add_index (po_table p) (po_name p) db))"

lemma demo_statements:
  "statement_op ''CREATE TABLE IF NOT EXISTS `a` (x INT)''
     = Some \<lparr>po_kind = TableOp, po_name = ''a'', po_table = ''a'', po_sql = ''CREATE TABLE IF NOT EXISTS `a` (x INT)''\<rparr>"
  "statement_op ''create index k on a (x)''
     = Some \<lparr>po_kind = IndexOp, po_name = ''k'', po_table = ''a'', po_sql = ''create index k on a (x)''\<rparr>"
  by code_simp+

lemma demo_plan:
  "plan_slowquery_schema demo_ddl =
     [\<lparr>po_kind = TableOp, po_name = ''a'', po_table = ''a'', po_sql = ''CREATE TABLE IF NOT EXISTS `a` (x INT)''\<rparr>,
      \<lparr>po_kind = IndexOp, po_name = ''k'', po_table = ''a'', po_sql = ''create index k on a (x)''\<rparr>]"
  by code_simp

theorem schema_bootstrap_idempotent_witness:
  "\<exists>r db'. ensure_slowquery_schema demo_run demo_ddl [] = (Inr r, db') \<and> keeps [] db'
    \<and> (\<forall>p \<in> set (plan_slowquery_schema demo_ddl). satisfied db' p) \<and> ensure_slowquery_schema demo_run demo_ddl db' = (Inr ([], []), db')"
  by (rule schema_bootstrap_idempotent) (simp_all add: demo_plan creates_def demo_run_def demo_statements)

end
