(* ===== verification/Spec2Isabelle.thy ===== *)
theory Spec2Isabelle
  imports LifecycleProps ArchiveProps QueryPrivProps ApprovalProps AiRisk Memcached SchemaDiffProps LoginProps EngineQueryProps RedisProps MaskingProps SqlQueryProps SlowCollectProps DiagnosisClaims GroupProps SlowTasksProps SlowSchema
begin

text \<open>
  DBShield, a platform through which a company's developers apply for changes to and queries of
  its databases: a request is checked, reviewed by a chain of groups, run by a background task
  and recorded. This development models the parts of the server that decide who may do what,
  and when, and proves what makes them correct.

  \<^bold>\<open>How the program is put together.\<close> The HTTP views (\<open>sql_api/\<close>) check the request and the
  permissions of the user, call the services (\<open>sql/utils/\<close>, \<open>sql/services/\<close>) and change rows of
  the tables (\<open>sql/models.py\<close>). Three kinds of work order share one approval engine
  (\<open>sql/utils/workflow_audit.py\<close>): releases of SQL, applications for query privileges, and data
  archiving. A passed release is run by django-q, at once or by a timer, through
  \<open>sql/utils/execute_sql.py\<close>; a passed application grants privileges
  (\<open>sql/services/privilege_service.py\<close>); a passed archive order may be run by
  \<open>sql/archiver.py\<close>. All of them read the configuration object of \<open>common/config.py\<close>.

  \<^bold>\<open>How the code is modelled.\<close> A table is a list of records with the next key (\<open>Tables\<close>); the state
  of the system is the record \<open>world\<close> of all modelled tables, the timers, the task queue and the
  clock (\<open>Models\<close>). A view or task is a function from its arguments and the world to a result or an
  exception and the new world (the type \<open>M\<close> of \<open>Prelude\<close>); \<open>atomicM\<close> is
  \<open>transaction.atomic\<close>, which undoes the changes of an exception that leaves it, and without it the
  changes made before an exception stay, as they do in the code. Lookups that may fail return a
  value of \<open>res\<close>, with one constructor of \<open>exn\<close> per Python exception. Unbounded Python integers are
  \<open>int\<close>. Messages shown to users are rendered in English and carry no decision, except where the
  code itself tests them.

  \<^bold>\<open>Theories\<close>, in the order they build on each other.
  \<^item> \<open>Prelude\<close>, \<open>PyStr\<close>, \<open>Tables\<close>: exceptions, state passing, Python's texts and numbers, the
    operations of Django's ORM on one table.
  \<^item> \<open>Models\<close>: enumerations, rows with their defaults, the state.
  \<^item> \<open>SysConfig\<close>: \<open>common/config.py\<close>. The locale \<open>config_store\<close> is what readers rely on
    (a value written is read back, other items keep theirs), interpreted on the table; the cache of an
    object never changes an answer.
  \<^item> \<open>Regex\<close>, \<open>SqlText\<close>: the constructs of Python's \<open>re\<close> the repository uses, as an executable
    backtracking matcher, and \<open>sql/utils/sql_utils.py\<close>.
  \<^item> \<open>ResourceGroup\<close>, \<open>WorkflowAudit\<close>, \<open>ApprovalChain\<close>, \<open>ApprovalProps\<close>: resource groups, the
    approval engine, its progress along a chain of groups, its properties.
  \<^item> \<open>SqlReview\<close>, \<open>Schedules\<close>, \<open>ExecuteSql\<close>: permissions on a release, timers (locale \<open>timer\<close>,
    interpreted on the schedule table), execution and its callback.
  \<^item> \<open>QueryPrivileges\<close>, \<open>QueryPrivProps\<close>: privileges, applications, reviews.
  \<^item> \<open>AiRisk\<close>: the risk summary of a release.
  \<^item> \<open>ResultSets\<close>, \<open>TextLemmas\<close>: results of queries as \<open>sql/engines/models.py\<close> has them; the first
    word of a text.
  \<^item> \<open>Memcached\<close>: the commands, the check and the run of \<open>sql/engines/memcached.py\<close>.
  \<^item> \<open>SchemaDiff\<close>, \<open>SchemaDiffProps\<close>: the comparison of two databases' tables and the \<open>ALTER\<close>
    statements it writes; their clauses executed on columns and indexes.
  \<^item> \<open>WorkflowApi\<close>: the views of \<open>sql_api/api_workflow.py\<close>.
  \<^item> \<open>Plugins\<close>, \<open>Archive\<close>, \<open>ArchiveProps\<close>: command lines of external tools, data archiving.
  \<^item> \<open>Triples\<close>, \<open>Lifecycle\<close>, \<open>LifecycleProps\<close>: triples over handlers; the step relation whose steps
    are all modelled views, tasks and callbacks, each from any user with any request, and an
    adversarial failure of a task; the invariant every handler keeps; what follows for a release.
  \<^item> \<open>Login\<close>, \<open>LoginProps\<close>: passwords with their lock, sessions, second factors; the reachable
    states of the sessions under all requests.
  \<^item> \<open>EngineQuery\<close>, \<open>EngineQueryProps\<close>: the check of a query and its rewriting to a row limit, for
    the engines of \<open>sql/engines/\<close> whose statements sqlparse splits; what a checked statement begins
    with, and which limit it ends with.
  \<^item> \<open>RedisEngine\<close>, \<open>RedisProps\<close>: \<open>sql/engines/redis.py\<close>, with the splitting of a command into words.
  \<^item> \<open>Masking\<close>, \<open>MaskingProps\<close>: \<open>sql/utils/data_masking.py\<close> and which engine uses which way of
    masking; what is hidden in a masked result, and what is not.
  \<^item> \<open>SqlQuery\<close>, \<open>SqlQueryProps\<close>: the online query of \<open>sql/services/sqlquery_service.py\<close>, which
    composes check, privileges, rewriting, run, masking and log, and the log's views.
  \<^item> \<open>SlowQuery\<close>, \<open>SlowQueryProps\<close>: the tables of slow queries, their statistics
    (\<open>sql/collectors/aggregator.py\<close>), the upserts of \<open>base.py\<close> and the retention of \<open>tasks.py\<close>.
  \<^item> \<open>SlowCollect\<close>, \<open>SlowCollectProps\<close>: the collectors of MySQL, Redis and PostgreSQL; the locale
    \<open>slow_log\<close> is what the collection relies on in the answers of a MySQL server.
  \<^item> \<open>MongoCollect\<close>, \<open>MongoProps\<close>: \<open>sql/collectors/mongo_collector.py\<close>: fingerprints of commands, the rounds
    over the databases of a server, which share one cursor, and what such a round stores or loses.
  \<^item> \<open>SlowTasks\<close>, \<open>SlowTasksProps\<close>, \<open>SlowSchema\<close>: the tasks of \<open>sql/collectors/tasks.py\<close> that dispatch the
    collectors, their schedules and their registration; the bootstrap of the tables
    (\<open>sql/services/slowquery_schema.py\<close>), with its plan and its second run.
  \<^item> \<open>PyFloat\<close>, \<open>PyDate\<close>, \<open>Cells\<close>, \<open>Json\<close>, \<open>JsonRound\<close>: rounding and rendering of numbers, the calendar and its
    two text formats, values of results, \<open>loads\<close> and \<open>dumps\<close>; the locale \<open>writer\<close> of \<open>JsonRound\<close> is what reading
    back relies on in the way a literal is written, interpreted on \<open>dumps\<close> and on careless replies.
  \<^item> \<open>AiReply\<close>, \<open>AiGateway\<close>, \<open>AiProps\<close>: reading a reply of the language model with its repairs, the requests to
    it and their account (\<open>common/utils/ai_gateway.py\<close>).
  \<^item> \<open>AiReview\<close>, \<open>AiReviewProps\<close>: the review of the statements of a release (\<open>sql/utils/ai_review.py\<close>).
  \<^item> \<open>SlowStats\<close>, \<open>SlowStatsProps\<close>: the views of the statistics of slow queries in \<open>sql_api/api_slowquery_v2.py\<close>.
  \<^item> \<open>Diagnosis\<close>, \<open>DiagnosisTasks\<close>, \<open>DiagnosisProps\<close>, \<open>DiagnosisClaims\<close>: what a diagnosis of a slow query collects;
    its task, its report, the pool of eight places and the requests as a step relation; the invariant of the
    reachable states and what follows from it.
  \<^item> \<open>GroupApi\<close>, \<open>GroupProps\<close>: \<open>sql_api/api_resource_group.py\<close> and the views of resource groups in
    \<open>sql_api/api_user.py\<close>; which instances a user is offered, and the chain of a group.

  \<^bold>\<open>Bounds and fuel.\<close> No definition stops for lack of fuel: loops of the code over rows, groups, statements and
  parameters are structural recursions, and the matcher of \<open>Regex\<close> recurses on the text that is left. The
  loops that ask a server or a table until nothing is left are partial functions, whose result is
  \<open>None\<close> when they never end: \<open>retention_ends\<close> shows that the deletion in batches always ends,
  \<open>mysql_collection_ends_iff\<close> when the collection from MySQL does. The bounds are those of the code: JSON is read to
  the depth the interpreter allows, which is an argument; a query of the profiler of MongoDB answers at most 10,000
  entries; a review sends at most 44 requests; eight places and four workers serve the diagnoses.

  \<^bold>\<open>Parameters.\<close> Code that is not in the repository is an argument: compiling a configured pattern,
  the token type sqlparse gives a statement and its splitting, table references and column lists found
  by goInception, the check of a release and the run of a database engine, the output of \<open>pt-archiver\<close>, JSON encoding of a result,
  the classes of Unicode characters, the answers of the language model, of the cloud and of the servers whose slow queries are
  collected, the digest and the encoding of a stored text, the order of names in the character set gbk, and what a database makes of
  a definition of a table.

  \<^bold>\<open>Not modelled.\<close> The database drivers, cloud SDKs and messengers, which
  forward to third-party code; the file formats of exports; settings, routes and migrations of Django;
  the administration pages of users and settings, which create and change rows one by one; the optimisation of statements, the sums over
  the account and the processes of an instance, which forward to the language model and the engines; the user interface. Row locks and
  the interleaving of two requests inside one transaction are the database's; steps here are whole
  requests.
\<close>

end
